(* ===== verification/Prelude.thy ===== *)
theory Prelude
  imports Main "HOL-Library.AList" "HOL-Library.Sublist"
begin

text \<open>
  What every component shares: the exceptions of the program, the effect type of its
  coroutines with the control operators they use (sequencing, \<open>try/except\<close>, \<open>finally\<close>),
  and the lemma collections with which the component theories step through them.

  A coroutine of the service layer is a function from the state it touches to a result and
  the state it leaves: \<open>Inl e\<close> when the exception \<open>e\<close> escapes, \<open>Inr x\<close> when it returns
  \<open>x\<close>. The state after a raised exception is kept, since the effects done before the raise
  stay.
\<close>

named_theorems io_defs \<open>the effect operators, unfolded\<close>
named_theorems io_inv \<open>what a finished effect says of its parts\<close>

section \<open>Exceptions\<close>

text \<open>
  The exceptions the modelled code raises, catches or lets pass. The constructors are the
  classes that some \<open>except\<close> clause tells apart: \<open>RedisError\<close> is the client library's own
  class, which is no subclass of the built-in \<open>ConnectionError\<close> and \<open>TimeoutError\<close>;
  \<open>APIError message code status\<close> is the program's base class and \<open>SessionNotFoundError\<close>
  and \<open>AssistantNotFoundError\<close> are its subclasses; \<open>CancelledError\<close> derives from
  \<open>BaseException\<close> only; \<open>OutOfFuel\<close> is no exception of the program but the outcome of a
  loop that was given too few turns.
\<close>

datatype exn =
    ConnectionError string
  | TimeoutError string
  | RedisError string
  | IntegrityError string
  | OperationalError string
  | HttpxRequestError string
  | WebhookHttpError int string
  | KeyError string
  | ValueError string
  | TypeError string
  | AttributeError string
  | OverflowError string
  | RuntimeError string
  | NotImplementedError string
  | APIError string string int
  | SessionNotFoundError string
  | AssistantNotFoundError string
  | OtherException string
  | CancelledError
  | OutOfFuel

text \<open>What \<open>except Exception\<close> catches.\<close>

fun is_exception :: "exn \<Rightarrow> bool" where
  "is_exception CancelledError = False"
| "is_exception OutOfFuel = False"
| "is_exception _ = True"

text \<open>What \<open>except (KeyError, ValueError, TypeError)\<close> catches.\<close>

fun is_parse_error :: "exn \<Rightarrow> bool" where
  "is_parse_error (KeyError _) = True"
| "is_parse_error (ValueError _) = True"
| "is_parse_error (TypeError _) = True"
| "is_parse_error _ = False"

text \<open>What \<open>except ValueError\<close> and \<open>except (ValueError, TypeError)\<close> catch.\<close>

fun is_value_error :: "exn \<Rightarrow> bool" where
  "is_value_error (ValueError _) = True"
| "is_value_error _ = False"

fun is_value_or_type_error :: "exn \<Rightarrow> bool" where
  "is_value_or_type_error (ValueError _) = True"
| "is_value_or_type_error (TypeError _) = True"
| "is_value_or_type_error _ = False"

lemma is_parse_error_is_exception: "is_parse_error e \<Longrightarrow> is_exception e"
  by (cases e) simp_all

section \<open>Pure code that may raise\<close>

definition bind_sum :: "exn + 'a \<Rightarrow> ('a \<Rightarrow> exn + 'b) \<Rightarrow> exn + 'b" where
  "bind_sum r f = (case r of Inl e \<Rightarrow> Inl e | Inr x \<Rightarrow> f x)"

lemma bind_sum_simps [simp]:
  "bind_sum (Inl e) f = Inl e"
  "bind_sum (Inr x) f = f x"
  by (simp_all add: bind_sum_def)

lemma bind_sum_Inr: "bind_sum r f = Inr y \<longleftrightarrow> (\<exists>x. r = Inr x \<and> f x = Inr y)"
  by (cases r) simp_all

lemma bind_sum_Inl: "bind_sum r f = Inl e \<longleftrightarrow> r = Inl e \<or> (\<exists>x. r = Inr x \<and> f x = Inl e)"
  by (cases r) auto

text \<open>A loop that collects the results of its body and stops at the first exception.\<close>

fun map_sum_list :: "('a \<Rightarrow> exn + 'b) \<Rightarrow> 'a list \<Rightarrow> exn + 'b list" where
  "map_sum_list f [] = Inr []"
| "map_sum_list f (x # xs) =
     bind_sum (f x) (\<lambda>y. bind_sum (map_sum_list f xs) (\<lambda>ys. Inr (y # ys)))"

lemma map_sum_list_Inr:
  "(\<And>x. x \<in> set xs \<Longrightarrow> f x = Inr (g x)) \<Longrightarrow> map_sum_list f xs = Inr (map g xs)"
  by (induction xs) simp_all

text \<open>\<open>try: r / except (KeyError, ValueError, TypeError): return None\<close>.\<close>

definition none_on_parse_error :: "exn + 'a option \<Rightarrow> exn + 'a option" where
  "none_on_parse_error r =
     (case r of Inl e \<Rightarrow> if is_parse_error e then Inr None else Inl e | Inr x \<Rightarrow> Inr x)"

lemma none_on_parse_error_simps [simp]:
  "none_on_parse_error (Inr x) = Inr x"
  "is_parse_error e \<Longrightarrow> none_on_parse_error (Inl e) = Inr None"
  "\<not> is_parse_error e \<Longrightarrow> none_on_parse_error (Inl e) = Inl e"
  by (simp_all add: none_on_parse_error_def)

lemma none_on_parse_error_Inl:
  "none_on_parse_error r = Inl e \<longleftrightarrow> r = Inl e \<and> \<not> is_parse_error e"
  by (cases r) (auto simp: none_on_parse_error_def)

lemma none_on_parse_error_Some: "none_on_parse_error r = Inr (Some x) \<longleftrightarrow> r = Inr (Some x)"
  by (cases r) (auto simp: none_on_parse_error_def)

section \<open>Coroutines\<close>

type_synonym ('w, 'a) io = "'w \<Rightarrow> (exn + 'a) \<times> 'w"

definition ret :: "'a \<Rightarrow> ('w, 'a) io" where
  "ret x = (\<lambda>w. (Inr x, w))"

definition throw :: "exn \<Rightarrow> ('w, 'a) io" where
  "throw e = (\<lambda>w. (Inl e, w))"

definition and_then :: "('w, 'a) io \<Rightarrow> ('a \<Rightarrow> ('w, 'b) io) \<Rightarrow> ('w, 'b) io" where
  "and_then m f = (\<lambda>w. case m w of (Inl e, w') \<Rightarrow> (Inl e, w') | (Inr x, w') \<Rightarrow> f x w')"

text \<open>Pure code inside a coroutine: its exception escapes, the state is left alone.\<close>

definition lift_sum :: "exn + 'a \<Rightarrow> ('w, 'a) io" where
  "lift_sum r = (\<lambda>w. (r, w))"

text \<open>
  \<open>try: m / except: h\<close>. The handler is given the exception and decides by its class; what it
  does not catch it throws again.
\<close>

definition try_except :: "('w, 'a) io \<Rightarrow> (exn \<Rightarrow> ('w, 'a) io) \<Rightarrow> ('w, 'a) io" where
  "try_except m h = (\<lambda>w. case m w of (Inl e, w') \<Rightarrow> h e w' | (Inr x, w') \<Rightarrow> (Inr x, w'))"

text \<open>
  \<open>try: m / finally: c\<close>. The cleanup runs in both cases; an exception of the cleanup
  replaces the outcome of the body.
\<close>

definition try_finally :: "('w, 'a) io \<Rightarrow> ('w, unit) io \<Rightarrow> ('w, 'a) io" where
  "try_finally m c = (\<lambda>w. case m w of (r, w') \<Rightarrow>
     (case c w' of (Inl e, w'') \<Rightarrow> (Inl e, w'') | (Inr _, w'') \<Rightarrow> (r, w'')))"

lemmas io_operator_defs [io_defs] =
  ret_def throw_def and_then_def lift_sum_def try_except_def try_finally_def

lemma io_run [simp]:
  "ret x w = (Inr x, w)"
  "throw e w = (Inl e, w)"
  "lift_sum r w = (r, w)"
  by (simp_all add: io_defs)

lemma fst_run: "fst (m w) = r \<Longrightarrow> m w = (r, snd (m w))"
  by (cases "m w") simp

lemma and_then_run [simp]:
  "m w = (Inr x, w') \<Longrightarrow> and_then m f w = f x w'"
  "m w = (Inl e, w') \<Longrightarrow> and_then m f w = (Inl e, w')"
  by (simp_all add: io_defs)

lemma try_except_run [simp]:
  "m w = (Inr x, w') \<Longrightarrow> try_except m h w = (Inr x, w')"
  "m w = (Inl e, w') \<Longrightarrow> try_except m h w = h e w'"
  by (simp_all add: io_defs)

lemma try_finally_run [simp]:
  "m w = (r, w') \<Longrightarrow> c w' = (Inr u, w'') \<Longrightarrow> try_finally m c w = (r, w'')"
  "m w = (r, w') \<Longrightarrow> c w' = (Inl e, w'') \<Longrightarrow> try_finally m c w = (Inl e, w'')"
  by (simp_all add: io_defs)

lemma and_then_Inr [io_inv]:
  "and_then m f w = (Inr y, w') \<longleftrightarrow> (\<exists>x v. m w = (Inr x, v) \<and> f x v = (Inr y, w'))"
  by (auto simp: io_defs split: prod.splits sum.splits)

lemma and_then_Inl [io_inv]:
  "and_then m f w = (Inl e, w') \<longleftrightarrow>
     m w = (Inl e, w') \<or> (\<exists>x v. m w = (Inr x, v) \<and> f x v = (Inl e, w'))"
  by (auto simp: io_defs split: prod.splits sum.splits)

lemma try_except_Inr [io_inv]:
  "try_except m h w = (Inr y, w') \<longleftrightarrow>
     m w = (Inr y, w') \<or> (\<exists>e v. m w = (Inl e, v) \<and> h e v = (Inr y, w'))"
  by (auto simp: io_defs split: prod.splits sum.splits)

lemma try_except_Inl [io_inv]:
  "try_except m h w = (Inl e, w') \<longleftrightarrow> (\<exists>e' v. m w = (Inl e', v) \<and> h e' v = (Inl e, w'))"
  by (auto simp: io_defs split: prod.splits sum.splits)

lemma and_then_ret [simp]: "and_then (ret x) f = f x"
  by (simp add: io_defs)

lemma and_then_throw [simp]: "and_then (throw e) f = throw e"
  by (simp add: io_defs)

lemma and_then_lift_Inr [simp]: "and_then (lift_sum (Inr x)) f = f x"
  by (simp add: io_defs)

lemma and_then_lift_Inl [simp]: "and_then (lift_sum (Inl e)) f = throw e"
  by (simp add: io_defs)

lemma and_then_assoc: "and_then (and_then m f) g = and_then m (\<lambda>x. and_then (f x) g)"
  by (rule ext) (simp add: io_defs split: prod.split sum.split)

section \<open>Python sequences and text\<close>

text \<open>\<open>xs[a:b]\<close>: a negative bound counts from the end, both are clipped to the list.\<close>

definition slice_bound :: "int \<Rightarrow> 'a list \<Rightarrow> nat" where
  "slice_bound i xs =
     (let n = int (length xs); j = (if i < 0 then i + n else i) in nat (max 0 (min n j)))"

definition py_slice :: "'a list \<Rightarrow> int \<Rightarrow> int \<Rightarrow> 'a list" where
  "py_slice xs a b = take (slice_bound b xs - slice_bound a xs) (drop (slice_bound a xs) xs)"

lemma slice_bound_nonneg: "0 \<le> i \<Longrightarrow> slice_bound i xs = min (length xs) (nat i)"
  by (simp add: slice_bound_def Let_def min_def max_def nat_le_iff)

lemma py_slice_nonneg:
  "0 \<le> a \<Longrightarrow> a \<le> b \<Longrightarrow> py_slice xs a b = take (nat b - nat a) (drop (nat a) xs)"
  by (auto simp: py_slice_def slice_bound_nonneg min_def)

lemma py_slice_prefix: "0 \<le> n \<Longrightarrow> py_slice xs 0 n = take (nat n) xs"
  by (simp add: py_slice_nonneg)

lemma set_py_slice: "set (py_slice xs a b) \<subseteq> set xs"
  unfolding py_slice_def by (meson order_trans set_drop_subset set_take_subset)

text \<open>
  \<open>xs.sort(key=f)\<close> and \<open>xs.sort(key=f, reverse=True)\<close>: both are stable, so the reverse
  sort keeps the order of equal keys.
\<close>

definition sort_asc :: "('a \<Rightarrow> int) \<Rightarrow> 'a list \<Rightarrow> 'a list" where
  "sort_asc f xs = sort_key f xs"

definition sort_desc :: "('a \<Rightarrow> int) \<Rightarrow> 'a list \<Rightarrow> 'a list" where
  "sort_desc f xs = sort_key (\<lambda>x. - f x) xs"

lemma set_sort_asc [simp]: "set (sort_asc f xs) = set xs"
  by (simp add: sort_asc_def)

lemma set_sort_desc [simp]: "set (sort_desc f xs) = set xs"
  by (simp add: sort_desc_def)

lemma length_sort_asc [simp]: "length (sort_asc f xs) = length xs"
  by (simp add: sort_asc_def)

lemma length_sort_desc [simp]: "length (sort_desc f xs) = length xs"
  by (simp add: sort_desc_def)

lemma sorted_sort_asc: "sorted_wrt (\<lambda>x y. f x \<le> f y) (sort_asc f xs)"
proof -
  have "sorted (map f (sort_key f xs))"
    by simp
  then show ?thesis
    by (simp add: sort_asc_def sorted_map)
qed

lemma sorted_sort_desc: "sorted_wrt (\<lambda>x y. f y \<le> f x) (sort_desc f xs)"
proof -
  have "sorted (map (\<lambda>x. - f x) (sort_key (\<lambda>x. - f x) xs))"
    by simp
  then show ?thesis
    by (simp add: sort_desc_def sorted_map)
qed

lemma sorted_wrt_py_slice: "sorted_wrt P xs \<Longrightarrow> sorted_wrt P (py_slice xs a b)"
  by (simp add: py_slice_def sorted_wrt_drop sorted_wrt_take)

text \<open>
  \<open>s.lower()\<close> on code points below 256, which is what \<open>char\<close> holds: the ASCII capitals and
  the Latin-1 capitals from \<open>0xC0\<close> to \<open>0xDE\<close> but the multiplication sign move up by 32.
\<close>

definition lower_char :: "char \<Rightarrow> char" where
  "lower_char c =
     (let n = of_char c :: nat in
      if (65 \<le> n \<and> n \<le> 90) \<or> (192 \<le> n \<and> n \<le> 222 \<and> n \<noteq> 215) then char_of (n + 32) else c)"

definition lower :: "string \<Rightarrow> string" where
  "lower s = List.map lower_char s"

text \<open>The characters that \<open>str.strip\<close> removes, below 256.\<close>

definition is_space :: "char \<Rightarrow> bool" where
  "is_space c \<longleftrightarrow>
     (let n = of_char c :: nat in (9 \<le> n \<and> n \<le> 13) \<or> (28 \<le> n \<and> n \<le> 32) \<or> n = 133 \<or> n = 160)"

definition is_blank :: "string \<Rightarrow> bool" where
  "is_blank s \<longleftrightarrow> list_all is_space s"

text \<open>\<open>sub in s\<close> for strings.\<close>

definition contains :: "string \<Rightarrow> string \<Rightarrow> bool" where
  "contains sub s \<longleftrightarrow> list_ex (prefix sub) (suffixes s)"

lemma contains_iff: "contains sub s \<longleftrightarrow> sublist sub s"
  by (auto simp: contains_def list_ex_iff sublist_altdef')

section \<open>Truth of optional text\<close>

text \<open>\<open>if s:\<close> for \<open>s: str | None\<close>.\<close>

fun given :: "string option \<Rightarrow> bool" where
  "given None = False"
| "given (Some s) = (s \<noteq> [])"

lemma given_iff: "given x \<longleftrightarrow> (\<exists>s. x = Some s \<and> s \<noteq> [])"
  by (cases x) simp_all

end
