(* ===== verification/PyJson.thy ===== *)
theory PyJson
  imports Prelude
begin

text \<open>
  JSON values as Python holds them (the recursive type \<open>JsonValue\<close> of \<open>apps/api/types.py\<close>)
  and the conversions the services apply to values they read back: truth, \<open>isinstance\<close>,
  \<open>str()\<close>, \<open>int()\<close>, \<open>float()\<close>, dictionary reads and writes.

  A dictionary is the association list of its items in insertion order, with distinct keys
  (\<open>wf_json\<close>). Python's \<open>None\<close> is \<open>JNull\<close>. A float is a decimal \<open>m * 10 ^ e\<close>, an infinity or
  not a number; its rounding to 53 bits and the sign of zero are not modelled. A datetime is the number of
  microseconds since the epoch, in UTC.

  The text codecs of the standard library (\<open>json\<close>, \<open>datetime.isoformat\<close>, \<open>uuid.UUID\<close>,
  \<open>hashlib.sha256\<close>, the numeric constructors on text) are the fields of the record \<open>pylib\<close>,
  an argument of every definition that uses one; \<open>pylib_laws\<close> states what the program relies
  on, namely that the decoders invert the encoders.
\<close>

datatype pyfloat = Finite int int | Infinity bool | NaN

datatype json =
    JNull
  | JBool bool
  | JInt int
  | JFloat pyfloat
  | JStr string
  | JArr "json list"
  | JObj "(string \<times> json) list"

type_synonym 'v dict = "(string \<times> 'v) list"
type_synonym datetime = int

section \<open>Dictionaries\<close>

definition dict_get :: "'v dict \<Rightarrow> string \<Rightarrow> 'v option" where
  "dict_get d k = map_of d k"

text \<open>\<open>d.get(k, x)\<close>\<close>

definition dict_get_or :: "'v dict \<Rightarrow> string \<Rightarrow> 'v \<Rightarrow> 'v" where
  "dict_get_or d k x = (case map_of d k of None \<Rightarrow> x | Some v \<Rightarrow> v)"

text \<open>\<open>d[k]\<close>, which raises \<open>KeyError\<close>.\<close>

definition dict_item :: "'v dict \<Rightarrow> string \<Rightarrow> exn + 'v" where
  "dict_item d k = (case map_of d k of None \<Rightarrow> Inl (KeyError k) | Some v \<Rightarrow> Inr v)"

text \<open>\<open>d[k] = v\<close>: an existing key keeps its place, a new one goes to the end.\<close>

definition dict_set :: "string \<Rightarrow> 'v \<Rightarrow> 'v dict \<Rightarrow> 'v dict" where
  "dict_set k v d = AList.update k v d"

text \<open>\<open>d.update(items)\<close>\<close>

definition dict_update :: "'v dict \<Rightarrow> 'v dict \<Rightarrow> 'v dict" where
  "dict_update d items = fold (\<lambda>(k, v). dict_set k v) items d"

definition distinct_keys :: "'v dict \<Rightarrow> bool" where
  "distinct_keys d \<longleftrightarrow> distinct (map fst d)"

lemmas dict_read_defs = dict_get_def dict_get_or_def dict_item_def

lemma map_of_dict_set [simp]: "map_of (dict_set k v d) = (map_of d)(k \<mapsto> v)"
  by (simp add: dict_set_def update_conv')

lemma distinct_keys_dict_set: "distinct_keys d \<Longrightarrow> distinct_keys (dict_set k v d)"
  by (simp add: distinct_keys_def dict_set_def distinct_update)

lemma set_dict_set: "set (dict_set k v d) \<subseteq> insert (k, v) (set d)"
  by (induction d) (auto simp: dict_set_def)

lemma map_of_dict_update: "map_of (dict_update d items) = map_of d ++ map_of (rev items)"
proof (induction items arbitrary: d)
  case Nil
  show ?case by (simp add: dict_update_def)
next
  case (Cons kv items)
  then show ?case
    by (cases kv) (simp add: dict_update_def fun_upd_def map_add_def fun_eq_iff split: option.splits)
qed

lemma distinct_keys_dict_update: "distinct_keys d \<Longrightarrow> distinct_keys (dict_update d items)"
  unfolding dict_update_def
  by (induction items arbitrary: d) (auto simp: distinct_keys_dict_set)

section \<open>Well-formed values\<close>

text \<open>
  The keys of every dictionary inside the value are distinct, and a float is given by its one
  representation without a trailing zero.
\<close>

fun canonical :: "pyfloat \<Rightarrow> bool" where
  "canonical (Finite m e) = (m mod 10 \<noteq> 0 \<or> m = 0 \<and> e = 0)"
| "canonical _ = True"

fun wf_json :: "json \<Rightarrow> bool" where
  "wf_json (JFloat f) = canonical f"
| "wf_json (JArr xs) = list_all wf_json xs"
| "wf_json (JObj d) = (distinct_keys d \<and> list_all (\<lambda>(k, v). wf_json v) d)"
| "wf_json _ = True"

definition wf_dict :: "json dict \<Rightarrow> bool" where
  "wf_dict d \<longleftrightarrow> wf_json (JObj d)"

lemma wf_dict_iff: "wf_dict d \<longleftrightarrow> distinct_keys d \<and> (\<forall>(k, v) \<in> set d. wf_json v)"
  by (simp add: wf_dict_def list_all_iff)

lemma wf_dict_Nil [simp]: "wf_dict []"
  by (simp add: wf_dict_iff distinct_keys_def)

lemma wf_dict_Cons [simp]:
  "wf_dict ((k, v) # d) \<longleftrightarrow> k \<notin> fst ` set d \<and> wf_json v \<and> wf_dict d"
  by (auto simp: wf_dict_iff distinct_keys_def)

lemma wf_json_JObj [simp]: "wf_json (JObj d) = wf_dict d"
  by (simp add: wf_dict_def)

declare wf_json.simps(3) [simp del]

lemma wf_dict_set: "wf_dict d \<Longrightarrow> wf_json v \<Longrightarrow> wf_dict (dict_set k v d)"
  using set_dict_set [of k v d] by (fastforce simp: wf_dict_iff distinct_keys_dict_set)

section \<open>Truth, text and numbers\<close>

fun truthy :: "json \<Rightarrow> bool" where
  "truthy JNull = False"
| "truthy (JBool b) = b"
| "truthy (JInt i) = (i \<noteq> 0)"
| "truthy (JFloat (Finite m e)) = (m \<noteq> 0)"
| "truthy (JFloat _) = True"
| "truthy (JStr s) = (s \<noteq> [])"
| "truthy (JArr xs) = (xs \<noteq> [])"
| "truthy (JObj d) = (d \<noteq> [])"

fun digit_char :: "nat \<Rightarrow> char" where
  "digit_char n = char_of (48 + n)"

fun nat_text :: "nat \<Rightarrow> string" where
  "nat_text n = (if n < 10 then [digit_char n] else nat_text (n div 10) @ [digit_char (n mod 10)])"

declare nat_text.simps [simp del]

definition int_text :: "int \<Rightarrow> string" where
  "int_text i = (if i < 0 then CHR ''-'' # nat_text (nat (- i)) else nat_text (nat i))"

text \<open>\<open>int(x)\<close> of a float: towards zero; the infinities and not-a-number raise.\<close>

definition trunc_div :: "int \<Rightarrow> int \<Rightarrow> int" where
  "trunc_div a b = sgn a * sgn b * (\<bar>a\<bar> div \<bar>b\<bar>)"

fun int_of_float :: "pyfloat \<Rightarrow> exn + int" where
  "int_of_float (Finite m e) =
     Inr (if 0 \<le> e then m * 10 ^ nat e else trunc_div m (10 ^ nat (- e)))"
| "int_of_float (Infinity _) =
     Inl (OverflowError ''cannot convert float infinity to integer'')"
| "int_of_float NaN = Inl (ValueError ''cannot convert float NaN to integer'')"

record pylib =
  json_dumps :: "json \<Rightarrow> string"
  json_loads :: "string \<Rightarrow> json option" \<comment> \<open>\<open>None\<close>: \<open>JSONDecodeError\<close>, a \<open>ValueError\<close>\<close>
  isoformat :: "datetime \<Rightarrow> string"
  fromisoformat :: "string \<Rightarrow> datetime option" \<comment> \<open>\<open>None\<close>: \<open>ValueError\<close>\<close>
  int_of_text :: "string \<Rightarrow> int option" \<comment> \<open>\<open>None\<close>: \<open>ValueError\<close>\<close>
  float_of_text :: "string \<Rightarrow> pyfloat option" \<comment> \<open>\<open>None\<close>: \<open>ValueError\<close>\<close>
  float_of_int :: "int \<Rightarrow> pyfloat option" \<comment> \<open>\<open>None\<close>: \<open>OverflowError\<close>\<close>
  repr_text :: "json \<Rightarrow> string" \<comment> \<open>\<open>str()\<close> of a float, a list or a dictionary\<close>
  parse_uuid :: "string \<Rightarrow> string option" \<comment> \<open>canonical text of \<open>UUID(s)\<close>; \<open>None\<close>: \<open>ValueError\<close>\<close>
  sha256 :: "string \<Rightarrow> string" \<comment> \<open>hexadecimal digest of the encoded text\<close>

text \<open>\<open>str(x)\<close>\<close>

fun py_str :: "pylib \<Rightarrow> json \<Rightarrow> string" where
  "py_str L (JStr s) = s"
| "py_str L JNull = ''None''"
| "py_str L (JBool b) = (if b then ''True'' else ''False'')"
| "py_str L (JInt i) = int_text i"
| "py_str L v = repr_text L v"

text \<open>
  \<open>int(x)\<close> where \<open>x\<close> is known to be a number: Python's \<open>bool\<close> is a subclass of \<open>int\<close>, so
  \<open>isinstance(x, (int, float))\<close> holds of it.
\<close>

fun is_number :: "json \<Rightarrow> bool" where
  "is_number (JBool _) = True"
| "is_number (JInt _) = True"
| "is_number (JFloat _) = True"
| "is_number _ = False"

fun int_of_number :: "json \<Rightarrow> exn + int" where
  "int_of_number (JBool b) = Inr (of_bool b)"
| "int_of_number (JInt i) = Inr i"
| "int_of_number (JFloat f) = int_of_float f"
| "int_of_number _ = Inl (TypeError ''int() argument must be a string or a number'')"

definition value_or :: "exn \<Rightarrow> 'a option \<Rightarrow> exn + 'a" where
  "value_or e r = (case r of None \<Rightarrow> Inl e | Some x \<Rightarrow> Inr x)"

lemma value_or_simps [simp]: "value_or e None = Inl e" "value_or e (Some x) = Inr x"
  by (simp_all add: value_or_def)

text \<open>\<open>int(d.timestamp())\<close>\<close>

definition unix_seconds :: "datetime \<Rightarrow> int" where
  "unix_seconds d = trunc_div d 1000000"

text \<open>What a reader of stored JSON text gets: \<open>None\<close> for blank or malformed text.\<close>

definition json_of_text :: "pylib \<Rightarrow> string \<Rightarrow> json" where
  "json_of_text L t =
     (if is_blank t then JNull else case json_loads L t of None \<Rightarrow> JNull | Some j \<Rightarrow> j)"

section \<open>Optional text as JSON\<close>

fun json_of_opt :: "('a \<Rightarrow> json) \<Rightarrow> 'a option \<Rightarrow> json" where
  "json_of_opt f None = JNull"
| "json_of_opt f (Some x) = f x"

lemma wf_json_of_opt: "(\<And>x. v = Some x \<Longrightarrow> wf_json (f x)) \<Longrightarrow> wf_json (json_of_opt f v)"
  by (cases v) simp_all

lemma wf_json_of_opt_leaf [simp]:
  "wf_json (json_of_opt JStr s)" "wf_json (json_of_opt JInt i)"
  by (simp_all add: wf_json_of_opt)

text \<open>A dictionary of strings, as JSON, and its reader, which drops other values.\<close>

definition strings_obj :: "string dict \<Rightarrow> json dict" where
  "strings_obj m = map (\<lambda>(k, v). (k, JStr v)) m"

fun strings_of :: "json dict \<Rightarrow> string dict" where
  "strings_of [] = []"
| "strings_of ((k, JStr v) # d) = (k, v) # strings_of d"
| "strings_of (_ # d) = strings_of d"

lemma strings_of_strings_obj [simp]: "strings_of (strings_obj m) = m"
  by (induction m) (auto simp: strings_obj_def)

lemma wf_strings_obj: "wf_dict (strings_obj m) \<longleftrightarrow> distinct_keys m"
  by (auto simp: wf_dict_iff strings_obj_def distinct_keys_def o_def case_prod_unfold)

section \<open>Reading the fields of a stored object\<close>

text \<open>\<open>raw if isinstance(raw, dict) else None\<close>\<close>

fun dict_or_none :: "json option \<Rightarrow> json dict option" where
  "dict_or_none (Some (JObj d)) = Some d"
| "dict_or_none _ = None"

text \<open>\<open>str(raw) if raw is not None else None\<close>\<close>

definition str_or_none :: "pylib \<Rightarrow> json option \<Rightarrow> string option" where
  "str_or_none L raw = (case raw of None \<Rightarrow> None | Some JNull \<Rightarrow> None | Some v \<Rightarrow> Some (py_str L v))"

text \<open>\<open>str(raw) if raw else None\<close>\<close>

definition truthy_str :: "pylib \<Rightarrow> json option \<Rightarrow> string option" where
  "truthy_str L raw =
     (case raw of None \<Rightarrow> None | Some v \<Rightarrow> if truthy v then Some (py_str L v) else None)"

text \<open>\<open>int(v) if isinstance(v, (int, float)) else 0\<close> for \<open>v = parsed.get(k, 0)\<close>\<close>

definition int_field :: "json dict \<Rightarrow> string \<Rightarrow> exn + int" where
  "int_field parsed k =
     (let v = dict_get_or parsed k (JInt 0) in if is_number v then int_of_number v else Inr 0)"

text \<open>\<open>int(v) if isinstance(v, (int, float)) else None\<close> for \<open>v = parsed.get(k)\<close>\<close>

definition opt_int_field :: "json dict \<Rightarrow> string \<Rightarrow> exn + int option" where
  "opt_int_field parsed k =
     (case dict_get parsed k of
        None \<Rightarrow> Inr None
      | Some v \<Rightarrow>
          if is_number v then bind_sum (int_of_number v) (\<lambda>i. Inr (Some i)) else Inr None)"

text \<open>The dictionaries of a list field, other items being skipped.\<close>

fun dicts_of :: "json list \<Rightarrow> json dict list" where
  "dicts_of [] = []"
| "dicts_of (JObj d # xs) = d # dicts_of xs"
| "dicts_of (_ # xs) = dicts_of xs"

definition dict_list_field :: "json dict \<Rightarrow> string \<Rightarrow> json dict list" where
  "dict_list_field parsed k =
     (case dict_get_or parsed k (JArr []) of JArr xs \<Rightarrow> dicts_of xs | _ \<Rightarrow> [])"

text \<open>The string items of a dictionary field.\<close>

definition string_dict_field :: "json dict \<Rightarrow> string \<Rightarrow> string dict" where
  "string_dict_field parsed k =
     (case dict_get_or parsed k (JObj []) of JObj d \<Rightarrow> strings_of d | _ \<Rightarrow> [])"

text \<open>\<open>dict(x) if x else None\<close>\<close>

definition json_of_dict_opt :: "json dict option \<Rightarrow> json" where
  "json_of_dict_opt x = (case x of None \<Rightarrow> JNull | Some d \<Rightarrow> if d = [] then JNull else JObj d)"

lemma str_or_none_json_of_opt [simp]: "str_or_none L (Some (json_of_opt JStr x)) = x"
  by (cases x) (simp_all add: str_or_none_def)

lemma dict_or_none_json_of_opt [simp]: "dict_or_none (Some (json_of_opt JObj x)) = x"
  by (cases x) simp_all

lemma dict_or_none_json_of_dict_opt [simp]:
  "x \<noteq> Some [] \<Longrightarrow> dict_or_none (Some (json_of_dict_opt x)) = x"
  by (cases x) (simp_all add: json_of_dict_opt_def)

lemma truthy_str_json_of_opt [simp]:
  "x \<noteq> Some [] \<Longrightarrow> truthy_str L (Some (json_of_opt JStr x)) = x"
  by (cases x) (simp_all add: truthy_str_def)

lemma dicts_of_JObj [simp]: "dicts_of (map JObj ds) = ds"
  by (induction ds) simp_all

lemma int_of_number_error:
  assumes "int_of_number v = Inl e"
  shows "is_parse_error e \<or> e = OverflowError ''cannot convert float infinity to integer''"
proof (cases v rule: int_of_number.cases)
  case (3 f)
  with assms show ?thesis by (cases f rule: int_of_float.cases) auto
qed (use assms in auto)

lemma int_field_error: "int_field d k = Inl e \<Longrightarrow>
    is_parse_error e \<or> e = OverflowError ''cannot convert float infinity to integer''"
  by (auto simp: int_field_def Let_def dest: int_of_number_error split: if_splits)

lemma opt_int_field_error: "opt_int_field d k = Inl e \<Longrightarrow>
    is_parse_error e \<or> e = OverflowError ''cannot convert float infinity to integer''"
  by (auto simp: opt_int_field_def bind_sum_Inl dest: int_of_number_error
      split: if_splits option.splits)

lemma dict_item_error: "dict_item d k = Inl e \<Longrightarrow> is_parse_error e"
  by (auto simp: dict_item_def split: option.splits)

section \<open>Laws of the library\<close>

locale pylib_laws =
  fixes L :: pylib
  assumes loads_dumps: "wf_json v \<Longrightarrow> json_loads L (json_dumps L v) = Some v"
    and dumps_one_line: "CHR 0x0A \<notin> set (json_dumps L v)"
    and loads_blank: "is_blank t \<Longrightarrow> json_loads L t = None"
    and float_of_repr: "canonical f \<Longrightarrow> float_of_text L (repr_text L (JFloat f)) = Some f"
    and fromisoformat_isoformat: "fromisoformat L (isoformat L d) = Some d"
    and parse_uuid_canonical: "parse_uuid L s = Some u \<Longrightarrow> parse_uuid L u = Some u"
    and sha256_nonempty: "sha256 L s \<noteq> []"
begin

lemma dumps_not_blank: "wf_json v \<Longrightarrow> \<not> is_blank (json_dumps L v)"
  using loads_blank [of "json_dumps L v"] loads_dumps [of v] by auto

lemma json_of_text_dumps [simp]: "wf_json v \<Longrightarrow> json_of_text L (json_dumps L v) = v"
  by (simp add: json_of_text_def loads_dumps dumps_not_blank)

end

end
