(* ===== verification/CacheProtocol.thy ===== *)
theory CacheProtocol
  imports PyJson
begin

text \<open>
  The \<open>Cache\<close> protocol of \<open>apps/api/protocols.py\<close>, through which every service reaches its
  key-value store, and the contract the services rely on.

  A cache is a record of its coroutines over a state \<open>'c\<close>. The contract reads the state
  through \<open>ent\<close>, the entry stored under each key. Entries may expire between any two
  operations, so an operation acts on what is left of the store at its instant: \<open>ages m m'\<close>
  says that \<open>m'\<close> may be left of \<open>m\<close>. The laws speak of operations that return; one that
  raises (a lost connection, a key of the wrong type) promises nothing about the store.
  The locale \<open>live_cache\<close> adds that nothing expires in the time considered.
\<close>

text \<open>Stored bytes: text that decodes as UTF-8, or bytes that do not.\<close>

datatype rbytes = Utf8 string | NotUtf8 "nat list"

datatype entry = Value rbytes | Members "rbytes set"

type_synonym store = "string \<Rightarrow> entry option"

record 'c cache =
  c_get :: "string \<Rightarrow> ('c, string option) io"
  c_cache_set :: "string \<Rightarrow> string \<Rightarrow> int option \<Rightarrow> ('c, bool) io"
  c_delete :: "string \<Rightarrow> ('c, bool) io"
  c_exists :: "string \<Rightarrow> ('c, bool) io"
  c_expire :: "string \<Rightarrow> int \<Rightarrow> ('c, bool) io"
  c_add_to_set :: "string \<Rightarrow> string \<Rightarrow> ('c, bool) io"
  c_remove_from_set :: "string \<Rightarrow> string \<Rightarrow> ('c, bool) io"
  c_set_members :: "string \<Rightarrow> ('c, string list) io"
  c_acquire_lock :: "string \<Rightarrow> int \<Rightarrow> string option \<Rightarrow> ('c, string option) io"
  c_release_lock :: "string \<Rightarrow> string \<Rightarrow> ('c, bool) io"
  c_ping :: "('c, bool) io"
  c_scan_keys :: "string \<Rightarrow> int \<Rightarrow> ('c, string list) io"
  c_clear :: "('c, bool) io"
  c_get_json :: "string \<Rightarrow> ('c, json) io"
  c_get_many_json :: "string list \<Rightarrow> ('c, json list) io"
  c_set_json :: "string \<Rightarrow> json dict \<Rightarrow> int option \<Rightarrow> ('c, bool) io"
  c_close :: "('c, unit) io"

section \<open>Reading an entry\<close>

fun stored_text :: "entry option \<Rightarrow> string option" where
  "stored_text (Some (Value (Utf8 t))) = Some t"
| "stored_text _ = None"

definition stored_json :: "pylib \<Rightarrow> entry option \<Rightarrow> json" where
  "stored_json L e = (case stored_text e of None \<Rightarrow> JNull | Some t \<Rightarrow> json_of_text L t)"

text \<open>The members of a set key; a missing key is the empty set, a value is of the wrong type.\<close>

fun set_at :: "entry option \<Rightarrow> rbytes set option" where
  "set_at None = Some {}"
| "set_at (Some (Members A)) = Some A"
| "set_at (Some (Value _)) = None"

text \<open>A set that loses its last member is removed with its key.\<close>

definition set_entry :: "rbytes set \<Rightarrow> entry option" where
  "set_entry A = (if A = {} then None else Some (Members A))"

text \<open>Locks live beside the data, under a prefix of their own.\<close>

definition lock_entry :: "string \<Rightarrow> string" where
  "lock_entry k = ''lock:'' @ k"

text \<open>A pattern without the characters that SCAN gives a meaning to.\<close>

definition glob_literal :: "string \<Rightarrow> bool" where
  "glob_literal p \<longleftrightarrow>
     list_all (\<lambda>c. c \<notin> {CHR ''*'', CHR ''?'', CHR ''['', CHR '']'', CHR 0x5C}) p"

lemma glob_literal_append [simp]: "glob_literal (p @ q) \<longleftrightarrow> glob_literal p \<and> glob_literal q"
  by (simp add: glob_literal_def)

text \<open>What \<open>set_json\<close> stores for a dictionary.\<close>

definition dump_entry :: "pylib \<Rightarrow> json dict \<Rightarrow> entry" where
  "dump_entry L d = Value (Utf8 (json_dumps L (JObj d)))"

lemma stored_json_None [simp]: "stored_json L None = JNull"
  by (simp add: stored_json_def)

lemma stored_text_Value [simp]: "stored_text (Some (Value (Utf8 t))) = Some t"
  by simp

section \<open>The contract\<close>

locale cache_contract = pylib_laws L for L :: pylib +
  fixes C :: "'c cache"
    and ent :: "'c \<Rightarrow> store"
    and ages :: "store \<Rightarrow> store \<Rightarrow> bool"
    and matches :: "string \<Rightarrow> string \<Rightarrow> bool"
  assumes ages_le: "ages m m' \<Longrightarrow> m' \<subseteq>\<^sub>m m"
    and ages_refl: "ages m m"
    and ages_trans: "ages m m' \<Longrightarrow> ages m' m'' \<Longrightarrow> ages m m''"
    and matches_prefix: "glob_literal p \<Longrightarrow> matches (p @ ''*'') k \<longleftrightarrow> prefix p k"
    and get_law: "c_get C k s = (Inr r, s') \<Longrightarrow>
      ages (ent s) (ent s') \<and> r = stored_text (ent s' k)"
    and cache_set_law: "c_cache_set C k t ttl s = (Inr b, s') \<Longrightarrow>
      b \<and> (\<exists>m. ages (ent s) m \<and> ent s' = m(k \<mapsto> Value (Utf8 t)))"
    and delete_law: "c_delete C k s = (Inr b, s') \<Longrightarrow>
      \<exists>m. ages (ent s) m \<and> b = (m k \<noteq> None) \<and> ent s' = m(k := None)"
    and exists_law: "c_exists C k s = (Inr b, s') \<Longrightarrow>
      ages (ent s) (ent s') \<and> b = (ent s' k \<noteq> None)"
    and expire_law: "c_expire C k secs s = (Inr b, s') \<Longrightarrow> 0 < secs \<Longrightarrow>
      ages (ent s) (ent s') \<and> b = (ent s' k \<noteq> None)"
    and add_to_set_law: "c_add_to_set C k v s = (Inr b, s') \<Longrightarrow>
      \<exists>m A. ages (ent s) m \<and> set_at (m k) = Some A \<and> b = (Utf8 v \<notin> A) \<and>
        ent s' = m(k \<mapsto> Members (insert (Utf8 v) A))"
    and remove_from_set_law: "c_remove_from_set C k v s = (Inr b, s') \<Longrightarrow>
      \<exists>m A. ages (ent s) m \<and> set_at (m k) = Some A \<and> b = (Utf8 v \<in> A) \<and>
        ent s' = m(k := set_entry (A - {Utf8 v}))"
    and set_members_law: "c_set_members C k s = (Inr vs, s') \<Longrightarrow>
      ages (ent s) (ent s') \<and> distinct vs \<and> set_at (ent s' k) = Some (Utf8 ` set vs)"
    and acquire_lock_law: "c_acquire_lock C k secs owner s = (Inr r, s') \<Longrightarrow>
      (case r of
         None \<Rightarrow> ages (ent s) (ent s') \<and> ent s' (lock_entry k) \<noteq> None
       | Some t \<Rightarrow> (given owner \<longrightarrow> owner = Some t) \<and>
           (\<exists>m. ages (ent s) m \<and> m (lock_entry k) = None \<and>
             ent s' = m(lock_entry k \<mapsto> Value (Utf8 t))))"
    and release_lock_law: "c_release_lock C k v s = (Inr b, s') \<Longrightarrow>
      \<exists>m. ages (ent s) m \<and> b = (m (lock_entry k) = Some (Value (Utf8 v))) \<and>
        ent s' = (if b then m(lock_entry k := None) else m)"
    and scan_keys_law: "c_scan_keys C p n s = (Inr ks, s') \<Longrightarrow>
      ages (ent s) (ent s') \<and> n \<le> 10000 \<and>
      (0 \<le> n \<longrightarrow> int (length ks) \<le> n) \<and>
      (\<forall>k \<in> set ks. ent s k \<noteq> None \<and> matches p k) \<and>
      (int (length ks) < n \<longrightarrow> {k. ent s' k \<noteq> None \<and> matches p k} \<subseteq> set ks)"
    and get_json_law: "c_get_json C k s = (Inr j, s') \<Longrightarrow>
      ages (ent s) (ent s') \<and> j = stored_json L (ent s' k)"
    and get_many_json_law: "c_get_many_json C ks s = (Inr js, s') \<Longrightarrow>
      ages (ent s) (ent s') \<and> js = map (\<lambda>k. stored_json L (ent s' k)) ks"
    and set_json_law: "c_set_json C k d ttl s = (Inr b, s') \<Longrightarrow>
      b \<and> (\<exists>m. ages (ent s) m \<and> ent s' = m(k \<mapsto> dump_entry L d))"
begin

lemma stored_json_dump [simp]: "wf_dict d \<Longrightarrow> stored_json L (Some (dump_entry L d)) = JObj d"
  by (simp add: stored_json_def dump_entry_def)

text \<open>Nothing appears in a store by ageing: what is there afterwards was there before.\<close>

lemma ages_Some: "ages m m' \<Longrightarrow> m' k = Some e \<Longrightarrow> m k = Some e"
  by (drule ages_le) (auto simp: map_le_def dom_def)

lemma ages_None: "ages m m' \<Longrightarrow> m k = None \<Longrightarrow> m' k = None"
  by (cases "m' k") (auto dest: ages_Some)

text \<open>What was just written is read back, or has expired.\<close>

lemma set_json_read:
  assumes "c_set_json C k d ttl s = (Inr b, s1)" and "wf_dict d"
    and "c_get_json C k s1 = (Inr j, s2)"
  shows "j = JNull \<or> j = JObj d"
proof -
  from set_json_law [OF assms(1)] obtain m where "ent s1 = m(k \<mapsto> dump_entry L d)"
    by blast
  then have "ent s1 k = Some (dump_entry L d)" by simp
  moreover from get_json_law [OF assms(3)]
  have "ages (ent s1) (ent s2)" and j: "j = stored_json L (ent s2 k)"
    by simp_all
  ultimately have "ent s2 k = None \<or> ent s2 k = Some (dump_entry L d)"
    using ages_Some by (cases "ent s2 k") fastforce+
  with j assms(2) show ?thesis by auto
qed

end

text \<open>Nothing expires: each operation acts on exactly the store before it.\<close>

locale live_cache = cache_contract +
  assumes no_expiry: "ages m m' \<Longrightarrow> m' = m"
begin

lemma live_get_json: "c_get_json C k s = (Inr j, s') \<Longrightarrow> ent s' = ent s \<and> j = stored_json L (ent s k)"
  using get_json_law no_expiry by fastforce

lemma live_get: "c_get C k s = (Inr v, s') \<Longrightarrow> ent s' = ent s \<and> v = stored_text (ent s k)"
  using get_law no_expiry by fastforce

lemma live_get_many_json:
  "c_get_many_json C ks s = (Inr js, s') \<Longrightarrow>
     ent s' = ent s \<and> js = map (\<lambda>k. stored_json L (ent s k)) ks"
  using get_many_json_law no_expiry by fastforce

lemma live_set_json:
  "c_set_json C k d ttl s = (Inr b, s') \<Longrightarrow> ent s' = (ent s)(k \<mapsto> dump_entry L d)"
  using set_json_law no_expiry by blast

lemma live_cache_set:
  "c_cache_set C k t ttl s = (Inr b, s') \<Longrightarrow> ent s' = (ent s)(k \<mapsto> Value (Utf8 t))"
  using cache_set_law no_expiry by blast

lemma live_delete:
  "c_delete C k s = (Inr b, s') \<Longrightarrow> b = (ent s k \<noteq> None) \<and> ent s' = (ent s)(k := None)"
  using delete_law no_expiry by blast

lemma live_exists:
  "c_exists C k s = (Inr b, s') \<Longrightarrow> ent s' = ent s \<and> b = (ent s k \<noteq> None)"
  using exists_law no_expiry by metis

lemma live_expire:
  "c_expire C k ttl s = (Inr b, s') \<Longrightarrow> 0 < ttl \<Longrightarrow> ent s' = ent s"
  using expire_law no_expiry by metis

lemma live_add_to_set:
  "c_add_to_set C k v s = (Inr b, s') \<Longrightarrow>
     \<exists>A. set_at (ent s k) = Some A \<and> ent s' = (ent s)(k \<mapsto> Members (insert (Utf8 v) A))"
  using add_to_set_law no_expiry by metis

lemma live_remove_from_set:
  "c_remove_from_set C k v s = (Inr b, s') \<Longrightarrow>
     \<exists>A. set_at (ent s k) = Some A \<and> ent s' = (ent s)(k := set_entry (A - {Utf8 v}))"
  using remove_from_set_law no_expiry by metis

lemma live_set_members:
  "c_set_members C k s = (Inr vs, s') \<Longrightarrow>
     ent s' = ent s \<and> distinct vs \<and> set_at (ent s k) = Some (Utf8 ` set vs)"
  using set_members_law no_expiry by metis

lemma live_scan_keys:
  assumes "c_scan_keys C p n s = (Inr ks, s')"
  shows "ent s' = ent s" and "\<forall>k \<in> set ks. ent s k \<noteq> None \<and> matches p k"
    and "int (length ks) < n \<Longrightarrow> set ks = {k. ent s k \<noteq> None \<and> matches p k}"
proof -
  from scan_keys_law [OF assms] show same: "ent s' = ent s"
    using no_expiry by metis
  from scan_keys_law [OF assms] show hits: "\<forall>k \<in> set ks. ent s k \<noteq> None \<and> matches p k"
    by simp
  show "set ks = {k. ent s k \<noteq> None \<and> matches p k}" if "int (length ks) < n"
    using scan_keys_law [OF assms] same hits that by auto
qed

lemmas live_laws = live_get live_get_json live_get_many_json live_cache_set live_set_json
  live_delete live_exists live_expire live_add_to_set live_remove_from_set live_set_members

end

text \<open>
  The same for operations that raise: the command behind a read that fails changes nothing, one
  behind a write that fails was carried out or was not.
\<close>

locale steady_cache = live_cache +
  assumes get_json_fails: "c_get_json C k s = (Inl e, s') \<Longrightarrow> ent s' = ent s"
    and set_json_fails: "c_set_json C k d ttl s = (Inl e, s') \<Longrightarrow>
      ent s' = ent s \<or> ent s' = (ent s)(k \<mapsto> dump_entry L d)"
    and add_to_set_fails: "c_add_to_set C k v s = (Inl e, s') \<Longrightarrow>
      \<forall>k'. k' \<noteq> k \<longrightarrow> ent s' k' = ent s k'"
    and delete_fails: "c_delete C k s = (Inl e, s') \<Longrightarrow>
      \<forall>k'. k' \<noteq> k \<longrightarrow> ent s' k' = ent s k'"
    and reads_fail: "c_set_members C k s = (Inl e, s') \<Longrightarrow> ent s' = ent s"
      "c_get_many_json C ks s = (Inl e, s') \<Longrightarrow> ent s' = ent s"
      "c_exists C k s = (Inl e, s') \<Longrightarrow> ent s' = ent s"
    and remove_from_set_fails: "c_remove_from_set C k v s = (Inl e, s') \<Longrightarrow>
      \<forall>k'. k' \<noteq> k \<longrightarrow> ent s' k' = ent s k'"
    and expire_touches: "c_expire C k secs s = (r, s') \<Longrightarrow>
      \<forall>k'. k' \<noteq> k \<longrightarrow> ent s' k' = ent s k'"
begin

lemma get_json_same: "c_get_json C k s = (r, s') \<Longrightarrow> ent s' = ent s"
  by (cases r) (auto dest: get_json_fails live_get_json)

lemma set_json_either:
  "c_set_json C k d ttl s = (r, s') \<Longrightarrow>
     ent s' = ent s \<or> ent s' = (ent s)(k \<mapsto> dump_entry L d)"
  by (cases r) (auto dest: set_json_fails live_set_json)

lemma set_json_other: "c_set_json C k d ttl s = (r, s') \<Longrightarrow> k' \<noteq> k \<Longrightarrow> ent s' k' = ent s k'"
  by (drule set_json_either) auto

lemma add_to_set_other: "c_add_to_set C k v s = (r, s') \<Longrightarrow> k' \<noteq> k \<Longrightarrow> ent s' k' = ent s k'"
  by (cases r) (auto dest: add_to_set_fails live_add_to_set)

lemma delete_other: "c_delete C k s = (r, s') \<Longrightarrow> k' \<noteq> k \<Longrightarrow> ent s' k' = ent s k'"
  by (cases r) (auto dest: delete_fails live_delete)

lemma reads_same:
  "c_set_members C k s = (rs, s') \<Longrightarrow> ent s' = ent s"
  "c_get_many_json C ks s = (rm, s') \<Longrightarrow> ent s' = ent s"
  "c_exists C k s = (re, s') \<Longrightarrow> ent s' = ent s"
    apply (cases rs; auto dest: reads_fail live_set_members)
   apply (cases rm; auto dest: reads_fail live_get_many_json)
  apply (cases re; auto dest: reads_fail live_exists)
  done

lemma remove_from_set_other:
  "c_remove_from_set C k v s = (r, s') \<Longrightarrow> k' \<noteq> k \<Longrightarrow> ent s' k' = ent s k'"
  by (cases r) (auto dest: remove_from_set_fails live_remove_from_set)

lemma expire_other: "c_expire C k secs s = (r, s') \<Longrightarrow> k' \<noteq> k \<Longrightarrow> ent s' k' = ent s k'"
  using expire_touches by blast

end

end
