(* ===== verification/World.thy ===== *)
theory World
  imports Complex_Main CacheProtocol
begin

text \<open>
  The state a service coroutine runs in: the cache, the database, the clock and the source of
  identifiers. The two stores are separate, so an operation on one leaves the other alone.
  The clock and the identifiers are what successive calls of \<open>datetime.now(UTC)\<close> and of
  \<open>uuid.uuid4()\<close> or \<open>secrets.token_hex(12)\<close> will return: arbitrary sequences, with the
  number of calls made so far. \<open>w_mono\<close> is the monotonic clock in seconds: a reading adds the
  time that went by since the last event, a sleep adds at least its length. \<open>w_random\<close> are the
  values that \<open>random.random()\<close> will return.
\<close>

record ('c, 'd) world =
  w_cache :: 'c
  w_db :: 'd
  w_clock :: "nat \<Rightarrow> datetime"
  w_ticks :: nat
  w_tokens :: "nat \<Rightarrow> string"
  w_draws :: nat
  w_mono :: rat
  w_lags :: "nat \<Rightarrow> rat"
  w_reads :: nat
  w_random :: "nat \<Rightarrow> rat"
  w_rolls :: nat

definition on_cache :: "('c, 'a) io \<Rightarrow> (('c, 'd) world, 'a) io" where
  "on_cache m = (\<lambda>w. case m (w_cache w) of (r, c) \<Rightarrow> (r, w\<lparr>w_cache := c\<rparr>))"

definition on_db :: "('d, 'a) io \<Rightarrow> (('c, 'd) world, 'a) io" where
  "on_db m = (\<lambda>w. case m (w_db w) of (r, d) \<Rightarrow> (r, w\<lparr>w_db := d\<rparr>))"

definition utc_now :: "(('c, 'd) world, datetime) io" where
  "utc_now = (\<lambda>w. (Inr (w_clock w (w_ticks w)), w\<lparr>w_ticks := Suc (w_ticks w)\<rparr>))"

definition draw_token :: "(('c, 'd) world, string) io" where
  "draw_token = (\<lambda>w. (Inr (w_tokens w (w_draws w)), w\<lparr>w_draws := Suc (w_draws w)\<rparr>))"

definition monotonic :: "(('c, 'd) world, rat) io" where
  "monotonic = (\<lambda>w. let t = w_mono w + w_lags w (w_reads w) in
     (Inr t, w\<lparr>w_mono := t, w_reads := Suc (w_reads w)\<rparr>))"

definition sleep :: "rat \<Rightarrow> (('c, 'd) world, unit) io" where
  "sleep d = (\<lambda>w. (Inr (), w\<lparr>w_mono := w_mono w + max 0 d\<rparr>))"

text \<open>\<open>random.uniform(a, b)\<close>\<close>

definition uniform :: "rat \<Rightarrow> rat \<Rightarrow> (('c, 'd) world, rat) io" where
  "uniform a b = (\<lambda>w.
     (Inr (a + (b - a) * w_random w (w_rolls w)), w\<lparr>w_rolls := Suc (w_rolls w)\<rparr>))"

text \<open>The monotonic clock does not run backwards and random numbers lie between 0 and 1.\<close>

definition sane_clock :: "('c, 'd) world \<Rightarrow> bool" where
  "sane_clock w \<longleftrightarrow> (\<forall>i. 0 \<le> w_lags w i) \<and> (\<forall>i. 0 \<le> w_random w i \<and> w_random w i \<le> 1)"

lemma on_cache_run:
  "on_cache m w = (r, w') \<longleftrightarrow> (\<exists>c. m (w_cache w) = (r, c) \<and> w' = w\<lparr>w_cache := c\<rparr>)"
  by (auto simp: on_cache_def split: prod.splits)

lemma on_db_run:
  "on_db m w = (r, w') \<longleftrightarrow> (\<exists>d. m (w_db w) = (r, d) \<and> w' = w\<lparr>w_db := d\<rparr>)"
  by (auto simp: on_db_def split: prod.splits)

lemma utc_now_run [simp]:
  "utc_now w = (Inr (w_clock w (w_ticks w)), w\<lparr>w_ticks := Suc (w_ticks w)\<rparr>)"
  by (simp add: utc_now_def)

lemma draw_token_run [simp]:
  "draw_token w = (Inr (w_tokens w (w_draws w)), w\<lparr>w_draws := Suc (w_draws w)\<rparr>)"
  by (simp add: draw_token_def)

lemma on_cache_ret [simp]: "on_cache (ret x) = ret x"
  by (rule ext) (simp add: on_cache_def)

lemma on_cache_Inr:
  "on_cache m w = (Inr x, w') \<Longrightarrow>
     m (w_cache w) = (Inr x, w_cache w') \<and> w_db w' = w_db w \<and> w' = w\<lparr>w_cache := w_cache w'\<rparr>"
  by (auto simp: on_cache_run)

lemma on_cache_step: "on_cache m w = (r, w') \<Longrightarrow> w' = w\<lparr>w_cache := w_cache w'\<rparr>"
  by (auto simp: on_cache_run)

lemma cache_step_trans:
  "v = w\<lparr>w_cache := w_cache v\<rparr> \<Longrightarrow> u = v\<lparr>w_cache := w_cache u\<rparr> \<Longrightarrow> u = w\<lparr>w_cache := w_cache u\<rparr>"
  by (metis world.surjective world.update_convs(1))

lemma cache_step_sel:
  assumes "v = w\<lparr>w_cache := w_cache v\<rparr>"
  shows "w_tokens v = w_tokens w" and "w_draws v = w_draws w" and "w_clock v = w_clock w"
    and "w_ticks v = w_ticks w" and "w_db v = w_db w"
  by (subst assms, simp)+

lemma on_cache_db: "on_cache m w = (r, w') \<Longrightarrow> w_db w' = w_db w"
  by (auto simp: on_cache_run)

lemma on_db_cache: "on_db m w = (r, w') \<Longrightarrow> w_cache w' = w_cache w"
  by (auto simp: on_db_run)

lemma on_db_Inr:
  "on_db m w = (Inr x, w') \<Longrightarrow> m (w_db w) = (Inr x, w_db w') \<and> w_cache w' = w_cache w"
  by (auto simp: on_db_run)

section \<open>What a coroutine leaves alone\<close>

text \<open>
  \<open>keeps view m\<close>: whether \<open>m\<close> returns or raises, what \<open>view\<close> reads of the cache is the same
  afterwards. The rules follow the operators.
\<close>

definition keeps :: "('c \<Rightarrow> 'v) \<Rightarrow> (('c, 'd) world, 'a) io \<Rightarrow> bool" where
  "keeps view m \<longleftrightarrow> (\<forall>w r w'. m w = (r, w') \<longrightarrow> view (w_cache w') = view (w_cache w))"

named_theorems keeps_intros \<open>coroutines that leave a view of the cache alone\<close>

lemma keepsD: "keeps view m \<Longrightarrow> m w = (r, w') \<Longrightarrow> view (w_cache w') = view (w_cache w)"
  by (simp add: keeps_def)

lemma keeps_pure [keeps_intros]: "keeps view (ret x)" "keeps view (throw e)" "keeps view (lift_sum r)"
  "keeps view utc_now" "keeps view draw_token" "keeps view (on_db m)"
  by (auto simp: keeps_def on_db_run)

lemma keeps_and_then [keeps_intros]:
  "keeps view m \<Longrightarrow> (\<And>x. keeps view (f x)) \<Longrightarrow> keeps view (and_then m f)"
  by (fastforce simp: keeps_def and_then_def split: prod.splits sum.splits)

lemma keeps_try_except [keeps_intros]:
  "keeps view m \<Longrightarrow> (\<And>e. keeps view (h e)) \<Longrightarrow> keeps view (try_except m h)"
  by (fastforce simp: keeps_def try_except_def split: prod.splits sum.splits)

lemma keeps_option [keeps_intros]:
  "keeps view m \<Longrightarrow> (\<And>x. keeps view (f x)) \<Longrightarrow> keeps view (case r of None \<Rightarrow> m | Some x \<Rightarrow> f x)"
  by (cases r) simp_all

lemma keeps_if [keeps_intros]:
  "keeps view m \<Longrightarrow> keeps view m' \<Longrightarrow> keeps view (if b then m else m')"
  by simp

lemma keeps_let [keeps_intros]: "(\<And>x. keeps view (f x)) \<Longrightarrow> keeps view (Let y f)"
  by simp

lemma keeps_prod [keeps_intros]:
  "(\<And>x y. keeps view (f x y)) \<Longrightarrow> keeps view (case p of (x, y) \<Rightarrow> f x y)"
  by (cases p) simp

lemma keeps_on_cache:
  "(\<And>s r s'. m s = (r, s') \<Longrightarrow> view s' = view s) \<Longrightarrow> keeps view (on_cache m)"
  by (auto simp: keeps_def on_cache_run)

text \<open>A coroutine of the cache, lifted part by part.\<close>

named_theorems on_cache_parts \<open>lifting distributes over the operators\<close>

lemma on_cache_operators [on_cache_parts]:
  "on_cache (throw e) = throw e"
  "on_cache (lift_sum r) = lift_sum r"
  "on_cache (and_then m f) = and_then (on_cache m) (\<lambda>x. on_cache (f x))"
  "on_cache (try_except m h) = try_except (on_cache m) (\<lambda>e. on_cache (h e))"
  by (rule ext, simp add: on_cache_def io_defs split: prod.split sum.split)+

lemma on_cache_branches [on_cache_parts]:
  "on_cache (if b then m1 else m2) = (if b then on_cache m1 else on_cache m2)"
  "on_cache (case r of None \<Rightarrow> m1 | Some x \<Rightarrow> f x) = (case r of None \<Rightarrow> on_cache m1 | Some x \<Rightarrow> on_cache (f x))"
  "on_cache (Let y f) = Let y (\<lambda>x. on_cache (f x))"
  by (simp_all split: option.split)

end
