(* ===== verification/SessionModels.thy ===== *)
theory SessionModels
  imports World
begin

text \<open>
  The data of the session component: \<open>SessionStatus\<close>, the service's \<open>Session\<close> and
  \<open>SessionListResult\<close> (\<open>services/session_models.py\<close>), the database row (\<open>models/session.py\<close>), the
  repository protocol (\<open>protocols.py\<close>), \<open>parse_session_status\<close> (\<open>utils/session_utils.py\<close>)
  and the key hashing of \<open>utils/crypto.py\<close>.

  A \<open>uuid\<close> is the canonical text of a \<open>UUID\<close> object, so \<open>str(UUID(s))\<close> is what
  \<open>parse_uuid\<close> returns for \<open>s\<close>.
\<close>

datatype session_status = Active | Completed | Errored

fun status_text :: "session_status \<Rightarrow> string" where
  "status_text Active = ''active''"
| "status_text Completed = ''completed''"
| "status_text Errored = ''error''"

definition parse_session_status :: "string \<Rightarrow> session_status" where
  "parse_session_status status_raw =
     (let normalised = lower status_raw in
      if normalised = ''completed'' then Completed
      else if normalised = ''error'' then Errored
      else Active)"

record session =
  s_id :: string
  s_model :: string
  s_status :: session_status
  s_created_at :: datetime
  s_updated_at :: datetime
  s_total_turns :: int
  s_total_cost_usd :: "pyfloat option"
  s_parent_session_id :: "string option"
  s_owner_api_key_hash :: "string option"
  s_session_metadata :: "json dict option"

record session_list_result =
  slr_sessions :: "session list"
  slr_total :: int
  slr_page :: int
  slr_page_size :: int

type_synonym uuid = string

text \<open>The row of table \<open>sessions\<close>; its status is unchecked text.\<close>

record session_row =
  row_id :: uuid
  row_created_at :: datetime
  row_updated_at :: datetime
  row_status :: string
  row_model :: string
  row_working_directory :: "string option"
  row_total_turns :: int
  row_total_cost_usd :: "pyfloat option"
  row_owner_api_key_hash :: "string option"
  row_parent_session_id :: "uuid option"
  row_session_metadata :: "json dict option"

text \<open>
  The part of \<open>SessionRepositoryProtocol\<close> that the session service calls. The arguments are
  in the protocol's order; \<open>list_sessions\<close> is given its keyword arguments \<open>owner_api_key\<close>,
  \<open>limit\<close>, \<open>offset\<close>, \<open>mode\<close>, \<open>project_id\<close>, \<open>tags\<close> and \<open>search\<close>.
\<close>

record 'd session_repo =
  sr_create :: "uuid \<Rightarrow> string \<Rightarrow> uuid option \<Rightarrow> string option \<Rightarrow> ('d, session_row) io"
  sr_get :: "uuid \<Rightarrow> ('d, session_row option) io"
  sr_update :: "uuid \<Rightarrow> string option \<Rightarrow> int option \<Rightarrow> pyfloat option \<Rightarrow> ('d, session_row option) io"
  sr_list_sessions :: "string option \<Rightarrow> int \<Rightarrow> int \<Rightarrow> string option \<Rightarrow> string option \<Rightarrow>
     string list option \<Rightarrow> string option \<Rightarrow> ('d, session_row list \<times> int) io"
  sr_update_metadata :: "uuid \<Rightarrow> json dict \<Rightarrow> ('d, session_row option) io"
  sr_delete_session :: "uuid \<Rightarrow> ('d, bool) io"

section \<open>API keys\<close>

definition hash_api_key :: "pylib \<Rightarrow> string \<Rightarrow> string" where
  "hash_api_key L api_key = sha256 L api_key"

text \<open>
  \<open>secrets.compare_digest(a, b)\<close> on text is equality, for ASCII text only; its running time
  is not modelled.
\<close>

definition is_ascii :: "string \<Rightarrow> bool" where
  "is_ascii s \<longleftrightarrow> list_all (\<lambda>c. (of_char c :: nat) < 128) s"

definition compare_digest :: "string \<Rightarrow> string \<Rightarrow> exn + bool" where
  "compare_digest a b =
     (if is_ascii a \<and> is_ascii b then Inr (a = b)
      else Inl (TypeError ''comparing strings with non-ASCII characters is not supported''))"

definition verify_api_key :: "pylib \<Rightarrow> string \<Rightarrow> string \<Rightarrow> exn + bool" where
  "verify_api_key L api_key hashed = compare_digest (hash_api_key L api_key) hashed"

definition hash_of_owner :: "pylib \<Rightarrow> string option \<Rightarrow> string option" where
  "hash_of_owner L owner = (if given owner then Some (hash_api_key L (the owner)) else None)"

text \<open>\<open>UUID(s)\<close>\<close>

definition uuid_of :: "pylib \<Rightarrow> string \<Rightarrow> exn + uuid" where
  "uuid_of L s = value_or (ValueError ''badly formed hexadecimal UUID string'') (parse_uuid L s)"

section \<open>Lemmas\<close>

lemma parse_status_text [simp]: "parse_session_status (status_text st) = st"
  by (cases st) (simp_all add: parse_session_status_def lower_def lower_char_def Let_def)

lemma parse_status_lower: "parse_session_status (lower s) = parse_session_status s"
proof -
  have "lower_char (lower_char c) = lower_char c" for c
    by (simp add: lower_char_def Let_def)
  then have "lower (lower s) = lower s"
    by (simp add: lower_def)
  then show ?thesis
    by (simp add: parse_session_status_def)
qed

end
