(* ===== verification/SessionLock.thy ===== *)
theory SessionLock
  imports SessionModels
begin

text \<open>
  \<open>SessionLockManager\<close>, \<open>services/session_lock_manager.py\<close>: running an operation while holding
  a lock on its session. The first part is the coroutine as one worker runs it; the second is
  a step relation of any number of workers on one lock whose entry expires.
\<close>

section \<open>The coroutine\<close>

definition lock_initial_retry_delay :: rat where
  "lock_initial_retry_delay = 1 / 100"

definition lock_max_retry_delay :: rat where
  "lock_max_retry_delay = 1 / 2"

definition session_lock_key :: "string \<Rightarrow> string" where
  "session_lock_key session_id = ''session_lock:'' @ session_id"

text \<open>The \<open>while True\<close> that acquires the lock; its fuel is the number of attempts.\<close>

fun acquire_loop ::
  "nat \<Rightarrow> 'c cache \<Rightarrow> string \<Rightarrow> int \<Rightarrow> rat \<Rightarrow> rat \<Rightarrow> rat \<Rightarrow> (('c, 'd) world, string) io"
where
  "acquire_loop 0 C session_id lock_ttl acquire_timeout start_time retry_delay = throw OutOfFuel"
| "acquire_loop (Suc n) C session_id lock_ttl acquire_timeout start_time retry_delay =
     and_then (on_cache (c_acquire_lock C (session_lock_key session_id) lock_ttl None)) (\<lambda>lock_value.
       case lock_value of
         Some v \<Rightarrow> ret v
       | None \<Rightarrow>
           and_then monotonic (\<lambda>now.
             if acquire_timeout \<le> now - start_time
             then throw (TimeoutError (''Could not acquire lock for session '' @ session_id))
             else
               and_then (uniform (- (1 / 10)) (1 / 10)) (\<lambda>j.
               and_then (sleep (retry_delay * (1 + j))) (\<lambda>_.
               acquire_loop n C session_id lock_ttl acquire_timeout start_time
                 (min (retry_delay * 2) lock_max_retry_delay)))))"

text \<open>The \<open>finally\<close> clause: an exception of the release is logged, not raised.\<close>

definition release_quietly :: "'c cache \<Rightarrow> string \<Rightarrow> string \<Rightarrow> (('c, 'd) world, unit) io" where
  "release_quietly C lock_key lock_value =
     try_except
       (and_then (on_cache (c_release_lock C lock_key lock_value)) (\<lambda>_. ret ()))
       (\<lambda>e. if is_exception e then ret () else throw e)"

definition with_session_lock ::
  "nat \<Rightarrow> 'c cache option \<Rightarrow> string \<Rightarrow> (('c, 'd) world, 'a) io \<Rightarrow> rat \<Rightarrow> int \<Rightarrow> (('c, 'd) world, 'a) io"
where
  "with_session_lock turns cache session_id func acquire_timeout lock_ttl =
     (case cache of
        None \<Rightarrow> func
      | Some C \<Rightarrow>
          and_then monotonic (\<lambda>start_time.
          and_then
            (acquire_loop turns C session_id lock_ttl acquire_timeout start_time
               lock_initial_retry_delay)
            (\<lambda>lock_value.
               try_finally func (release_quietly C (session_lock_key session_id) lock_value))))"

subsection \<open>Enough turns\<close>

text \<open>
  Every failed attempt sleeps at least nine milliseconds, so a worker that waits for at most
  \<open>acquire_timeout\<close> seconds makes at most \<open>acquire_timeout / 0.009 + 1\<close> attempts.
\<close>

lemma monotonic_run [simp]:
  "monotonic w = (Inr (w_mono w + w_lags w (w_reads w)),
     w\<lparr>w_mono := w_mono w + w_lags w (w_reads w), w_reads := Suc (w_reads w)\<rparr>)"
  by (simp add: monotonic_def Let_def)

lemma uniform_run [simp]:
  "uniform a b w = (Inr (a + (b - a) * w_random w (w_rolls w)), w\<lparr>w_rolls := Suc (w_rolls w)\<rparr>)"
  by (simp add: uniform_def)

lemma sleep_run [simp]: "sleep d w = (Inr (), w\<lparr>w_mono := w_mono w + max 0 d\<rparr>)"
  by (simp add: sleep_def)

lemma sane_clock_fields [simp]:
  "sane_clock (w\<lparr>w_cache := c\<rparr>) = sane_clock w"
  "sane_clock (w\<lparr>w_mono := t\<rparr>) = sane_clock w"
  "sane_clock (w\<lparr>w_reads := n\<rparr>) = sane_clock w"
  "sane_clock (w\<lparr>w_rolls := n\<rparr>) = sane_clock w"
  by (simp_all add: sane_clock_def)

lemma retry_delay_bound:
  assumes "1 / 100 \<le> d" and "0 \<le> r"
  shows "9 / 1000 \<le> d * (1 + (- (1 / 10) + (1 / 10 - - (1 / 10)) * (r :: rat)))"
proof -
  have "(1 / 100) * (9 / 10) \<le> d * (1 + (- (1 / 10) + (1 / 10 - - (1 / 10)) * r))"
    using assms by (intro mult_mono) simp_all
  then show ?thesis by simp
qed

lemma acquire_loop_terminates:
  assumes "\<And>k t v s s'. c_acquire_lock C k t v s \<noteq> (Inl OutOfFuel, s')"
    and "sane_clock w" and "1 / 100 \<le> delay"
    and "acquire_timeout + 9 / 1000 \<le> (w_mono w - start) + of_nat n * (9 / 1000)"
  shows "acquire_loop n C session_id ttl acquire_timeout start delay w \<noteq> (Inl OutOfFuel, w') \<or> n = 0"
  using assms(2-)
proof (induction n arbitrary: w delay)
  case 0
  then show ?case by simp
next
  case (Suc n)
  show ?case
  proof (rule disjI1, rule notI)
    assume out: "acquire_loop (Suc n) C session_id ttl acquire_timeout start delay w = (Inl OutOfFuel, w')"
    define j where "j = - (1 / 10) + (1 / 10 - - (1 / 10)) * w_random w (w_rolls w)"
    define now where "now = w_mono w + w_lags w (w_reads w)"
    obtain r c where acq: "c_acquire_lock C (session_lock_key session_id) ttl None (w_cache w) = (r, c)"
      by force
    then have run: "on_cache (c_acquire_lock C (session_lock_key session_id) ttl None) w =
        (r, w\<lparr>w_cache := c\<rparr>)"
      by (simp add: on_cache_def)
    have r: "r = Inr None"
    proof (cases r)
      case (Inl e)
      with out acq run assms(1) show ?thesis by simp
    next
      case (Inr v)
      with out run show ?thesis by (cases v) simp_all
    qed
    have wait: "\<not> acquire_timeout \<le> now - start"
      using out run r by (auto simp: now_def)
    have more: "acquire_loop n C session_id ttl acquire_timeout start (min (delay * 2) lock_max_retry_delay)
          (w\<lparr>w_cache := c, w_reads := Suc (w_reads w), w_rolls := Suc (w_rolls w),
             w_mono := now + max 0 (delay * (1 + j))\<rparr>) = (Inl OutOfFuel, w')"
      using out run r wait by (simp add: now_def j_def)
    let ?w = "w\<lparr>w_cache := c, w_reads := Suc (w_reads w), w_rolls := Suc (w_rolls w),
             w_mono := now + max 0 (delay * (1 + j))\<rparr>"
    have lag: "w_mono w \<le> now" and rnd: "0 \<le> w_random w (w_rolls w)"
      using Suc.prems(1) by (simp_all add: sane_clock_def now_def)
    have slept: "9 / 1000 \<le> delay * (1 + j)"
      unfolding j_def by (rule retry_delay_bound [OF Suc.prems(2) rnd])
    have "n \<noteq> 0"
    proof
      assume "n = 0"
      with Suc.prems(3) lag wait show False by simp
    qed
    moreover have "acquire_timeout + 9 / 1000 \<le> (w_mono ?w - start) + of_nat n * (9 / 1000)"
    proof -
      have "of_nat (Suc n) * (9 / 1000) = 9 / 1000 + of_nat n * (9 / 1000 :: rat)"
        by (simp add: algebra_simps)
      moreover have "w_mono ?w = now + delay * (1 + j)"
        using slept by simp
      ultimately show ?thesis
        using Suc.prems(3) lag slept by linarith
    qed
    moreover have "1 / 100 \<le> min (delay * 2) lock_max_retry_delay"
      using Suc.prems(2) by (simp add: lock_max_retry_delay_def)
    moreover have "sane_clock ?w"
      using Suc.prems(1) by simp
    ultimately show False
      using Suc.IH [of ?w "min (delay * 2) lock_max_retry_delay"] more by blast
  qed
qed

end
