(* ===== verification/LockInterleaving.thy ===== *)
theory LockInterleaving
  imports SessionLock
begin

text \<open>
  Any number of workers that run \<open>with_session_lock\<close> on the same session at the same time.
  A step is one operation of one worker on the lock's entry, the passing of time, or the
  expiry of the entry. The entry is what \<open>SET key token NX EX ttl\<close> leaves: a token and the
  instant from which the server may drop it; a token is what \<open>uuid4()\<close> drew, no token being
  drawn twice.
\<close>

datatype phase =
    Trying
  | Critical string rat \<comment> \<open>the token held and when it was acquired\<close>
  | Releasing string
  | Left
  | GaveUp

record lock_sys =
  ls_now :: rat
  ls_entry :: "(string \<times> rat) option"
  ls_phase :: "nat \<Rightarrow> phase"
  ls_drawn :: "string set"

definition lock_init :: lock_sys where
  "lock_init = \<lparr>ls_now = 0, ls_entry = None, ls_phase = (\<lambda>_. Trying), ls_drawn = {}\<rparr>"

definition set_phase :: "nat \<Rightarrow> phase \<Rightarrow> lock_sys \<Rightarrow> lock_sys" where
  "set_phase p ph s = s\<lparr>ls_phase := (ls_phase s)(p := ph)\<rparr>"

text \<open>The script of \<open>release_lock\<close>: the entry goes only if it holds the worker's own token.\<close>

definition release_entry :: "string \<Rightarrow> (string \<times> rat) option \<Rightarrow> (string \<times> rat) option" where
  "release_entry t e = (case e of None \<Rightarrow> None | Some (u, x) \<Rightarrow> if u = t then None else Some (u, x))"

inductive lock_step :: "rat \<Rightarrow> lock_sys \<Rightarrow> lock_sys \<Rightarrow> bool" for ttl where
  elapse: "0 \<le> d \<Longrightarrow> lock_step ttl s (s\<lparr>ls_now := ls_now s + d\<rparr>)"
| expire: "ls_entry s = Some (t, x) \<Longrightarrow> x \<le> ls_now s \<Longrightarrow> lock_step ttl s (s\<lparr>ls_entry := None\<rparr>)"
| acquire: "ls_phase s p = Trying \<Longrightarrow> ls_entry s = None \<Longrightarrow> t \<notin> ls_drawn s \<Longrightarrow>
    lock_step ttl s (set_phase p (Critical t (ls_now s))
      (s\<lparr>ls_entry := Some (t, ls_now s + ttl), ls_drawn := insert t (ls_drawn s)\<rparr>))"
| acquire_fails: "ls_phase s p = Trying \<Longrightarrow> ls_entry s \<noteq> None \<Longrightarrow> t \<notin> ls_drawn s \<Longrightarrow>
    lock_step ttl s (s\<lparr>ls_drawn := insert t (ls_drawn s)\<rparr>)"
| give_up: "ls_phase s p = Trying \<Longrightarrow> lock_step ttl s (set_phase p GaveUp s)"
| leave: "ls_phase s p = Critical t a \<Longrightarrow> lock_step ttl s (set_phase p (Releasing t) s)"
| release: "ls_phase s p = Releasing t \<Longrightarrow>
    lock_step ttl s (set_phase p Left (s\<lparr>ls_entry := release_entry t (ls_entry s)\<rparr>))"
| release_fails: "ls_phase s p = Releasing t \<Longrightarrow> lock_step ttl s (set_phase p Left s)"
| again: "ls_phase s p = Left \<or> ls_phase s p = GaveUp \<Longrightarrow> lock_step ttl s (set_phase p Trying s)"

inductive_cases lock_stepE: "lock_step ttl s s'"

inductive lock_reachable :: "rat \<Rightarrow> lock_sys \<Rightarrow> bool" for ttl where
  start: "lock_reachable ttl lock_init"
| step: "lock_reachable ttl s \<Longrightarrow> lock_step ttl s s' \<Longrightarrow> lock_reachable ttl s'"

fun token_of :: "phase \<Rightarrow> string option" where
  "token_of (Critical t a) = Some t"
| "token_of (Releasing t) = Some t"
| "token_of _ = None"

text \<open>
  The invariant: the tokens in use were drawn and belong to one worker each, and a worker in
  its critical section holds the entry, unless its time is up.
\<close>

definition tokens_ok :: "lock_sys \<Rightarrow> bool" where
  "tokens_ok s \<longleftrightarrow>
     (\<forall>p t. token_of (ls_phase s p) = Some t \<longrightarrow> t \<in> ls_drawn s) \<and>
     (\<forall>p q t. token_of (ls_phase s p) = Some t \<longrightarrow> token_of (ls_phase s q) = Some t \<longrightarrow> p = q)"

definition holders_ok :: "rat \<Rightarrow> lock_sys \<Rightarrow> bool" where
  "holders_ok ttl s \<longleftrightarrow>
     (\<forall>p t a. ls_phase s p = Critical t a \<longrightarrow>
        ls_entry s = Some (t, a + ttl) \<or> a + ttl \<le> ls_now s)"

lemma ls_phase_set_phase [simp]:
  "ls_phase (set_phase p ph s) = (ls_phase s)(p := ph)"
  "ls_now (set_phase p ph s) = ls_now s"
  "ls_entry (set_phase p ph s) = ls_entry s"
  "ls_drawn (set_phase p ph s) = ls_drawn s"
  by (simp_all add: set_phase_def)

lemma tokens_ok_init: "tokens_ok lock_init"
  by (simp add: tokens_ok_def lock_init_def)

lemma holders_ok_init: "holders_ok ttl lock_init"
  by (simp add: holders_ok_def lock_init_def)

lemma tokens_ok_step: "lock_step ttl s s' \<Longrightarrow> tokens_ok s \<Longrightarrow> tokens_ok s'"
proof (induction rule: lock_step.induct)
  case (acquire s p t)
  then show ?case
    unfolding tokens_ok_def by (auto split: if_splits)
next
  case (leave s p t a)
  have "token_of (ls_phase s p) = Some t"
    using leave.hyps by simp
  moreover have "token_of (ls_phase (set_phase p (Releasing t) s) q) = token_of (ls_phase s q)" for q
    using leave.hyps by simp
  ultimately show ?case
    using leave.prems by (simp add: tokens_ok_def)
qed (auto simp: tokens_ok_def split: if_splits)

lemma release_entry_other: "e = Some (u, x) \<Longrightarrow> u \<noteq> t \<Longrightarrow> release_entry t e = e"
  by (simp add: release_entry_def)

lemma holders_ok_step:
  assumes "lock_step ttl s s'" and "tokens_ok s" and "holders_ok ttl s"
  shows "holders_ok ttl s'"
  using assms
proof (induction rule: lock_step.induct)
  case (elapse d s)
  then show ?case by (fastforce simp: holders_ok_def)
next
  case (expire s t x)
  then show ?case by (fastforce simp: holders_ok_def)
next
  case (acquire s p t)
  then show ?case by (auto simp: holders_ok_def)
next
  case (release s p t)
  show ?case
    unfolding holders_ok_def
  proof (intro allI impI)
    fix q u a
    assume "ls_phase (set_phase p Left (s\<lparr>ls_entry := release_entry t (ls_entry s)\<rparr>)) q = Critical u a"
    then have q: "q \<noteq> p" "ls_phase s q = Critical u a"
      by (auto split: if_splits)
    then have "ls_entry s = Some (u, a + ttl) \<or> a + ttl \<le> ls_now s"
      using release.prems by (auto simp: holders_ok_def)
    moreover have "u \<noteq> t"
    proof
      assume "u = t"
      with q release.hyps release.prems(1) show False
        unfolding tokens_ok_def by (metis token_of.simps(1,2))
    qed
    ultimately show "ls_entry (set_phase p Left (s\<lparr>ls_entry := release_entry t (ls_entry s)\<rparr>)) =
        Some (u, a + ttl) \<or>
        a + ttl \<le> ls_now (set_phase p Left (s\<lparr>ls_entry := release_entry t (ls_entry s)\<rparr>))"
      by (auto simp: release_entry_other)
  qed
qed (auto simp: holders_ok_def split: if_splits)

lemma lock_invariant: "lock_reachable ttl s \<Longrightarrow> tokens_ok s \<and> holders_ok ttl s"
proof (induction rule: lock_reachable.induct)
  case start
  show ?case by (simp add: tokens_ok_init holders_ok_init)
next
  case (step s s')
  then show ?case using tokens_ok_step holders_ok_step by blast
qed

text \<open>
  C3: In every interleaving of lock attempts, releases, expiries and time, two callers are
  never both inside the section of one session while neither has stayed longer than the
  lock's time to live.
\<close>

theorem session_lock_mutual_exclusion:
  assumes "lock_reachable ttl s"
    and "ls_phase s p = Critical t a" and "ls_phase s q = Critical u b" and "p \<noteq> q"
  shows "a + ttl \<le> ls_now s \<or> b + ttl \<le> ls_now s"
proof (rule ccontr)
  assume late: "\<not> ?thesis"
  from lock_invariant [OF assms(1)] have "tokens_ok s" and "holders_ok ttl s"
    by simp_all
  with assms(2,3) late have "ls_entry s = Some (t, a + ttl)" and "ls_entry s = Some (u, b + ttl)"
    unfolding holders_ok_def by blast+
  then have "t = u" by simp
  with assms(2-4) \<open>tokens_ok s\<close> show False
    unfolding tokens_ok_def by (metis token_of.simps(1))
qed

text \<open>
  The bound is needed: with a time to live of one second, a worker that stays for one second
  meets a second worker in the critical section.
\<close>

lemma overstaying_run:
  "\<exists>s. lock_reachable 1 s \<and> ls_phase s 0 = Critical ''a'' 0 \<and> ls_phase s 1 = Critical ''b'' 1"
proof -
  let ?s1 = "set_phase 0 (Critical ''a'' 0) (lock_init\<lparr>ls_entry := Some (''a'', 1), ls_drawn := {''a''}\<rparr>)"
  let ?s2 = "?s1\<lparr>ls_now := 1\<rparr>"
  let ?s3 = "?s2\<lparr>ls_entry := None\<rparr>"
  let ?s4 = "set_phase 1 (Critical ''b'' 1)
    (?s3\<lparr>ls_entry := Some (''b'', 2), ls_drawn := {''b'', ''a''}\<rparr>)"
  have "lock_step 1 lock_init ?s1"
    using lock_step.acquire [of lock_init 0 "''a''" 1] by (simp add: lock_init_def)
  moreover have "lock_step 1 ?s1 ?s2"
    using lock_step.elapse [of 1 1 ?s1] by (simp add: lock_init_def)
  moreover have "lock_step 1 ?s2 ?s3"
    using lock_step.expire [of ?s2 "''a''" 1 1] by simp
  moreover have "lock_step 1 ?s3 ?s4"
    using lock_step.acquire [of ?s3 1 "''b''" 1] by (simp add: lock_init_def)
  ultimately have "lock_reachable 1 ?s4"
    by (meson lock_reachable.intros)
  moreover have "ls_phase ?s4 0 = Critical ''a'' 0" and "ls_phase ?s4 1 = Critical ''b'' 1"
    by simp_all
  ultimately show ?thesis by blast
qed

lemma session_lock_mutual_exclusion_witness:
  "\<exists>s. lock_reachable 1 s \<and> ls_phase s 0 = Critical ''a'' 0 \<and> ls_phase s 1 = Critical ''b'' 1 \<and>
    (0 + 1 \<le> ls_now s \<or> 1 + 1 \<le> ls_now s)"
proof -
  from overstaying_run obtain s where s: "lock_reachable 1 s" "ls_phase s 0 = Critical ''a'' 0"
    "ls_phase s 1 = Critical ''b'' 1"
    by blast
  from session_lock_mutual_exclusion [OF s] s show ?thesis by auto
qed

end
