(* ===== verification/Entities.thy ===== *)
theory Entities
  imports CacheProtocol
begin

text \<open>
  The access pattern that the services share for the objects they keep as JSON under a key of
  their own: an object is stored as a dictionary, read back by a parser that returns \<open>None\<close>
  for what it cannot read, listed by scanning, parsed, sorted by creation time and cut to a
  page. \<open>entity_codec\<close> is what a component promises of its dictionary and its parser;
  \<open>entity_store\<close> puts it on a cache that keeps its contract and proves once what the services
  get out of it.
\<close>

section \<open>Loading\<close>

text \<open>\<open>if not parsed: return None\<close>, then the parser.\<close>

definition parse_row :: "(json \<Rightarrow> exn + 'a option) \<Rightarrow> json \<Rightarrow> exn + 'a option" where
  "parse_row parse j = (if truthy j then parse j else Inr None)"

definition load_entity :: "'c cache \<Rightarrow> (json \<Rightarrow> exn + 'a option) \<Rightarrow> string \<Rightarrow> ('c, 'a option) io" where
  "load_entity C parse key = and_then (c_get_json C key) (\<lambda>j. lift_sum (parse_row parse j))"

text \<open>
  The loop over the rows of \<open>get_many_json\<close>: rows that are empty or unreadable are dropped, an
  exception of the parser ends the loop.
\<close>

fun parse_rows :: "(json \<Rightarrow> exn + 'a option) \<Rightarrow> json list \<Rightarrow> exn + 'a list" where
  "parse_rows parse [] = Inr []"
| "parse_rows parse (j # js) =
     bind_sum (parse_row parse j) (\<lambda>x.
       bind_sum (parse_rows parse js) (\<lambda>xs.
         Inr (case x of None \<Rightarrow> xs | Some y \<Rightarrow> y # xs)))"

lemma parse_rows_mem:
  assumes "parse_rows parse js = Inr xs"
  shows "x \<in> set xs \<longleftrightarrow> (\<exists>j \<in> set js. truthy j \<and> parse j = Inr (Some x))"
  using assms
proof (induction js arbitrary: xs)
  case Nil
  then show ?case by simp
next
  case (Cons j js)
  then obtain r ys where "parse_row parse j = Inr r" and "parse_rows parse js = Inr ys"
    and "xs = (case r of None \<Rightarrow> ys | Some y \<Rightarrow> y # ys)"
    by (auto simp: bind_sum_Inr)
  with Cons.IH show ?case
    by (auto simp: parse_row_def split: option.splits if_splits)
qed

lemma parse_rows_length: "parse_rows parse js = Inr xs \<Longrightarrow> length xs \<le> length js"
proof (induction js arbitrary: xs)
  case (Cons j js)
  then show ?case by (fastforce simp: bind_sum_Inr split: option.splits)
qed simp

section \<open>Pages\<close>

record 'a list_result =
  lr_data :: "'a list"
  lr_first_id :: "string option"
  lr_last_id :: "string option"
  lr_has_more :: bool

definition empty_page :: "'a list_result" where
  "empty_page = \<lparr>lr_data = [], lr_first_id = None, lr_last_id = None, lr_has_more = False\<rparr>"

definition page_of :: "('a \<Rightarrow> string) \<Rightarrow> ('a \<Rightarrow> int) \<Rightarrow> int \<Rightarrow> string \<Rightarrow> 'a list \<Rightarrow> 'a list_result" where
  "page_of ident created limit order xs =
     (let sorted_xs = (if order = ''desc'' then sort_desc created xs else sort_asc created xs);
          page = py_slice sorted_xs 0 limit
      in \<lparr>lr_data = page,
          lr_first_id = (if page = [] then None else Some (ident (hd page))),
          lr_last_id = (if page = [] then None else Some (ident (last page))),
          lr_has_more = limit < int (length sorted_xs)\<rparr>)"

lemma page_of_data:
  "lr_data (page_of ident created limit order xs) =
     py_slice (if order = ''desc'' then sort_desc created xs else sort_asc created xs) 0 limit"
  by (simp add: page_of_def Let_def)

lemma page_of_subset: "set (lr_data (page_of ident created limit order xs)) \<subseteq> set xs"
  using set_py_slice [of "sort_desc created xs"] set_py_slice [of "sort_asc created xs"]
  by (auto simp: page_of_data)

lemma page_of_has_more: "lr_has_more (page_of ident created limit order xs) \<longleftrightarrow> limit < int (length xs)"
  by (simp add: page_of_def Let_def)

lemma page_of_length:
  "0 \<le> limit \<Longrightarrow>
     int (length (lr_data (page_of ident created limit order xs))) = min limit (int (length xs))"
  by (auto simp: page_of_data py_slice_prefix min_def)

lemma page_of_all:
  assumes "0 \<le> limit" and "\<not> lr_has_more (page_of ident created limit order xs)"
  shows "set (lr_data (page_of ident created limit order xs)) = set xs"
  using assms by (simp add: page_of_data page_of_has_more py_slice_prefix)

lemma page_of_sorted:
  "sorted_wrt (\<lambda>x y. if order = ''desc'' then created y \<le> created x else created x \<le> created y)
     (lr_data (page_of ident created limit order xs))"
  by (cases "order = ''desc''")
     (simp_all add: page_of_data sorted_wrt_py_slice sorted_sort_desc sorted_sort_asc)

lemma page_of_ids:
  "lr_first_id (page_of ident created limit order xs) =
     (case lr_data (page_of ident created limit order xs) of [] \<Rightarrow> None | x # _ \<Rightarrow> Some (ident x))"
  "lr_last_id (page_of ident created limit order xs) =
     (case lr_data (page_of ident created limit order xs) of [] \<Rightarrow> None | x # ys \<Rightarrow> Some (ident (last (x # ys))))"
  by (auto simp: page_of_def Let_def neq_Nil_conv split: list.splits)

text \<open>
  The newest objects come first: whatever a descending page leaves out is no newer than
  anything on it.
\<close>

lemma page_of_top:
  assumes "0 \<le> limit" and "x \<in> set (lr_data (page_of ident created limit ''desc'' xs))"
    and "y \<in> set xs" and "y \<notin> set (lr_data (page_of ident created limit ''desc'' xs))"
  shows "created y \<le> created x"
proof -
  let ?s = "sort_desc created xs"
  have x: "x \<in> set (take (nat limit) ?s)" and y: "y \<notin> set (take (nat limit) ?s)"
    using assms by (simp_all add: page_of_data py_slice_prefix)
  have "y \<in> set ?s" using assms(3) by simp
  with y have "y \<in> set (drop (nat limit) ?s)"
    by (metis Un_iff append_take_drop_id set_append)
  moreover have "sorted_wrt (\<lambda>x y. created y \<le> created x) (take (nat limit) ?s @ drop (nat limit) ?s)"
    by (simp add: sorted_sort_desc)
  ultimately show ?thesis
    using x by (simp add: sorted_wrt_append del: append_take_drop_id)
qed

section \<open>Listing\<close>

text \<open>
  The listing that the services share: scan the keys (at most 1000), read them, parse the rows,
  keep what passes the filter, sort and cut.
\<close>

definition list_entities ::
  "'c cache \<Rightarrow> (json \<Rightarrow> exn + 'a option) \<Rightarrow> ('a \<Rightarrow> bool) \<Rightarrow> ('a \<Rightarrow> string) \<Rightarrow> ('a \<Rightarrow> int) \<Rightarrow>
     string \<Rightarrow> int \<Rightarrow> string \<Rightarrow> ('c, 'a list_result) io" where
  "list_entities C parse keep ident created pattern limit order =
     and_then (c_scan_keys C pattern 1000) (\<lambda>keys.
       if keys = [] then ret empty_page
       else
         and_then (c_get_many_json C keys) (\<lambda>cached_rows.
         and_then (lift_sum (parse_rows parse cached_rows)) (\<lambda>xs.
         ret (page_of ident created limit order (filter keep xs)))))"

lemma empty_page_sel [simp]:
  "lr_data empty_page = []" "lr_has_more empty_page = False"
  by (simp_all add: empty_page_def)

lemma list_entities_Inr:
  assumes "list_entities C parse keep ident created p limit order s = (Inr page, s')"
  obtains ks s1 where "c_scan_keys C p 1000 s = (Inr ks, s1)" and "ks = []" and "page = empty_page"
      and "s' = s1"
  | ks s1 rows xs where "c_scan_keys C p 1000 s = (Inr ks, s1)" and "ks \<noteq> []"
      and "c_get_many_json C ks s1 = (Inr rows, s')" and "parse_rows parse rows = Inr xs"
      and "page = page_of ident created limit order (filter keep xs)"
  using assms by (auto simp: list_entities_def io_inv split: if_splits)

text \<open>Whatever is listed comes in the order asked for and within the limit.\<close>

lemma list_entities_shape:
  assumes "list_entities C parse keep ident created p limit order s = (Inr page, s')"
  shows "sorted_wrt (\<lambda>x y. if order = ''desc'' then created y \<le> created x else created x \<le> created y)
      (lr_data page)"
    and "0 \<le> limit \<Longrightarrow> int (length (lr_data page)) \<le> limit"
  using assms
  by (cases rule: list_entities_Inr; simp add: page_of_sorted page_of_length)+

section \<open>Codecs\<close>

locale entity_codec =
  fixes payload :: "'a \<Rightarrow> json dict"
    and parse :: "json \<Rightarrow> exn + 'a option"
    and wf :: "'a \<Rightarrow> bool"
  assumes payload_wf: "wf x \<Longrightarrow> wf_dict (payload x)"
    and payload_nonempty: "payload x \<noteq> []"
    and parse_payload: "wf x \<Longrightarrow> parse (JObj (payload x)) = Inr (Some x)"
begin

lemma parse_row_payload: "wf x \<Longrightarrow> parse_row parse (JObj (payload x)) = Inr (Some x)"
  by (simp add: parse_row_def payload_nonempty parse_payload)

lemma parse_row_null: "parse_row parse JNull = Inr None"
  by (simp add: parse_row_def)

end

section \<open>Codecs on a cache\<close>

locale entity_store = cache_contract L C ent ages matches + entity_codec payload parse wf
  for L :: pylib and C :: "'c cache" and ent ages matches
    and payload :: "'a \<Rightarrow> json dict" and parse :: "json \<Rightarrow> exn + 'a option" and wf
begin

text \<open>An object read back after it was stored is the object, unless its entry has expired.\<close>

lemma stored_then_loaded:
  assumes "c_set_json C k (payload x) ttl s = (Inr b, s1)" and "wf x"
    and "load_entity C parse k s1 = (Inr r, s2)"
  shows "r = None \<or> r = Some x"
proof -
  from assms(3) obtain j where get: "c_get_json C k s1 = (Inr j, s2)"
    and r: "parse_row parse j = Inr r"
    by (auto simp: load_entity_def io_inv)
  from set_json_read [OF assms(1) payload_wf [OF assms(2)] get] r assms(2)
  show ?thesis
    by (auto simp: parse_row_payload parse_row_null)
qed

text \<open>Loading an object that was stored never raises from the parser.\<close>

lemma load_no_parse_error:
  assumes "c_set_json C k (payload x) ttl s = (Inr b, s1)" and "wf x"
    and "load_entity C parse k s1 = (Inl e, s2)"
  shows "c_get_json C k s1 = (Inl e, s2)"
proof (rule ccontr)
  assume "\<not> ?thesis"
  with assms(3) obtain j where get: "c_get_json C k s1 = (Inr j, s2)"
    and r: "parse_row parse j = Inl e"
    by (auto simp: load_entity_def io_inv)
  from set_json_read [OF assms(1) payload_wf [OF assms(2)] get] r assms(2)
  show False
    by (auto simp: parse_row_payload parse_row_null)
qed

end

locale live_entity_store =
  live_cache L C ent ages matches + entity_store L C ent ages matches payload parse wf
  for L :: pylib and C :: "'c cache" and ent ages matches
    and payload :: "'a \<Rightarrow> json dict" and parse :: "json \<Rightarrow> exn + 'a option" and wf
begin

text \<open>While nothing expires, a stored object is found, exactly.\<close>

lemma live_load:
  assumes "ent s k = Some (dump_entry L (payload x))" and "wf x"
    and "load_entity C parse k s = (Inr r, s')"
  shows "r = Some x" and "ent s' = ent s"
proof -
  from assms(3) obtain j where get: "c_get_json C k s = (Inr j, s')"
    and r: "parse_row parse j = Inr r"
    by (auto simp: load_entity_def io_inv)
  from live_get_json [OF get] assms(1,2) have "ent s' = ent s" and "j = JObj (payload x)"
    by (simp_all add: payload_wf)
  with r assms(2) show "r = Some x" and "ent s' = ent s"
    by (simp_all add: parse_row_payload)
qed

lemma live_load_missing:
  assumes "ent s k = None" and "load_entity C parse k s = (Inr r, s')"
  shows "r = None" and "ent s' = ent s"
  using assms live_get_json by (fastforce simp: load_entity_def io_inv parse_row_null)+

text \<open>
  Listing: where every key that matches holds a stored object, the page shows stored objects
  that pass the filter, and all of them when the scan saw all keys and the page is the last.
\<close>

lemma live_rows:
  assumes "c_get_many_json C ks s = (Inr rows, s')" and "parse_rows parse rows = Inr xs"
    and "\<And>k. k \<in> set ks \<Longrightarrow> \<exists>x. wf x \<and> ent s k = Some (dump_entry L (payload x))"
  shows "ent s' = ent s"
    and "x \<in> set xs \<longleftrightarrow> wf x \<and> (\<exists>k \<in> set ks. ent s k = Some (dump_entry L (payload x)))"
proof -
  note get = live_get_many_json [OF assms(1)]
  then show "ent s' = ent s" by simp
  from get have rows: "rows = map (\<lambda>k. stored_json L (ent s k)) ks" by simp
  show "x \<in> set xs \<longleftrightarrow> wf x \<and> (\<exists>k \<in> set ks. ent s k = Some (dump_entry L (payload x)))"
  proof
    assume "x \<in> set xs"
    then obtain k where k: "k \<in> set ks" and p: "parse (stored_json L (ent s k)) = Inr (Some x)"
      by (auto simp: parse_rows_mem [OF assms(2)] rows)
    from assms(3) [OF k] obtain y where y: "wf y" "ent s k = Some (dump_entry L (payload y))"
      by blast
    with p have "y = x"
      by (simp add: payload_wf parse_payload)
    with y k show "wf x \<and> (\<exists>k \<in> set ks. ent s k = Some (dump_entry L (payload x)))"
      by blast
  next
    assume "wf x \<and> (\<exists>k \<in> set ks. ent s k = Some (dump_entry L (payload x)))"
    then obtain k where "wf x" and "k \<in> set ks" and "ent s k = Some (dump_entry L (payload x))"
      by blast
    then show "x \<in> set xs"
      by (auto simp: parse_rows_mem [OF assms(2)] rows payload_wf parse_payload payload_nonempty
          intro!: bexI [of _ k])
  qed
qed

lemma live_list:
  assumes run: "list_entities C parse keep ident created p limit order s = (Inr page, s')"
    and objs: "\<And>k. ent s k \<noteq> None \<Longrightarrow> matches p k \<Longrightarrow>
      \<exists>x. wf x \<and> ent s k = Some (dump_entry L (payload x))"
  shows "ent s' = ent s"
    and "x \<in> set (lr_data page) \<Longrightarrow>
      keep x \<and> wf x \<and> (\<exists>k. matches p k \<and> ent s k = Some (dump_entry L (payload x)))"
    and "c_scan_keys C p 1000 s = (Inr ks, s1) \<Longrightarrow> int (length ks) < 1000 \<Longrightarrow> 0 \<le> limit \<Longrightarrow>
      \<not> lr_has_more page \<Longrightarrow> keep x \<Longrightarrow> wf x \<Longrightarrow> matches p k \<Longrightarrow>
      ent s k = Some (dump_entry L (payload x)) \<Longrightarrow> x \<in> set (lr_data page)"
  using run
proof (induct rule: list_entities_Inr)
  case (1 ks' s2)
  case 1
  from live_scan_keys(1) [OF \<open>c_scan_keys C p 1000 s = (Inr ks', s2)\<close>] \<open>s' = s2\<close>
  show ?case by simp
next
  case (1 ks' s2)
  case 2
  with \<open>page = empty_page\<close> show ?case by simp
next
  case (1 ks' s2)
  case 3
  with live_scan_keys(3) [OF \<open>c_scan_keys C p 1000 s = (Inr ks', s2)\<close>] \<open>ks' = []\<close>
  have "{k. ent s k \<noteq> None \<and> matches p k} = {}" by simp
  with 3 show ?case by fastforce
next
  case (2 ks' s2 rows xs)
  note scan = live_scan_keys [OF \<open>c_scan_keys C p 1000 s = (Inr ks', s2)\<close>]
  have "\<exists>x. wf x \<and> ent s2 k = Some (dump_entry L (payload x))" if "k \<in> set ks'" for k
    using that scan objs by simp
  note rows = live_rows [OF \<open>c_get_many_json C ks' s2 = (Inr rows, s')\<close>
      \<open>parse_rows parse rows = Inr xs\<close> this, unfolded scan(1)]
  note page = \<open>page = page_of ident created limit order (filter keep xs)\<close>
  {
    case 1
    show ?case by (rule rows(1))
  next
    case 2
    with page_of_subset [of ident created limit order "filter keep xs"] page
    have "x \<in> set xs" and "keep x" by auto
    with rows(2) scan(2) show ?case by blast
  next
    case 3
    then have "k \<in> set ks'"
      using scan(3) \<open>c_scan_keys C p 1000 s = (Inr ks', s2)\<close> by auto
    with 3 rows(2) have "x \<in> set (filter keep xs)" by auto
    moreover have "set (lr_data page) = set (filter keep xs)"
      using page_of_all 3 page by blast
    ultimately show ?case by blast
  }
qed

end

end
