(* ===== verification/SessionCache.thy ===== *)
theory SessionCache
  imports SessionModels Entities
begin

text \<open>
  \<open>SessionCacheManager\<close>, \<open>services/session_cache_manager.py\<close>: the dictionary a session is
  cached as, its parser, and the operations on the session keys and the owner index. The
  methods of a manager without a cache do nothing; the manager's cache is the first argument.
\<close>

section \<open>Keys\<close>

definition cache_key :: "string \<Rightarrow> string" where
  "cache_key session_id = ''session:'' @ session_id"

definition owner_index_key :: "string \<Rightarrow> string" where
  "owner_index_key owner_api_key_hash = ''session:owner:'' @ owner_api_key_hash"

lemma cache_key_inj [simp]: "cache_key a = cache_key b \<longleftrightarrow> a = b"
  by (simp add: cache_key_def)

text \<open>The two families of keys meet only in identifiers that start with \<open>owner:\<close>.\<close>

lemma owner_index_key_eq_cache_key:
  "owner_index_key h = cache_key i \<longleftrightarrow> i = ''owner:'' @ h"
  by (auto simp: owner_index_key_def cache_key_def)

section \<open>The cached dictionary\<close>

definition session_payload :: "pylib \<Rightarrow> session \<Rightarrow> json dict" where
  "session_payload L s =
     [(''id'', JStr (s_id s)),
      (''model'', JStr (s_model s)),
      (''status'', JStr (status_text (s_status s))),
      (''created_at'', JStr (isoformat L (s_created_at s))),
      (''updated_at'', JStr (isoformat L (s_updated_at s))),
      (''total_turns'', JInt (s_total_turns s)),
      (''total_cost_usd'', json_of_opt JFloat (s_total_cost_usd s)),
      (''parent_session_id'', json_of_opt JStr (s_parent_session_id s)),
      (''owner_api_key_hash'', json_of_opt JStr (s_owner_api_key_hash s)),
      (''session_metadata'', json_of_opt JObj (s_session_metadata s))]"

lemma session_payload_nonempty [simp]: "session_payload L s \<noteq> []"
  by (simp add: session_payload_def)

text \<open>The text of a timestamp field: empty when the field is missing or null.\<close>

definition timestamp_text :: "pylib \<Rightarrow> json option \<Rightarrow> string" where
  "timestamp_text L raw =
     (case raw of None \<Rightarrow> [] | Some JNull \<Rightarrow> [] | Some v \<Rightarrow> py_str L v)"

definition iso_datetime :: "pylib \<Rightarrow> string \<Rightarrow> exn + datetime" where
  "iso_datetime L t = value_or (ValueError ''Invalid isoformat string'') (fromisoformat L t)"

fun turns_of :: "pylib \<Rightarrow> json \<Rightarrow> exn + int" where
  "turns_of L (JInt i) = Inr i"
| "turns_of L (JBool b) = Inr (of_bool b)"
| "turns_of L (JStr t) = value_or (ValueError ''invalid literal for int()'') (int_of_text L t)"
| "turns_of L (JFloat f) = int_of_float f"
| "turns_of L _ = Inr 0"

fun cost_of :: "pylib \<Rightarrow> json option \<Rightarrow> exn + pyfloat option" where
  "cost_of L (Some (JInt i)) =
     bind_sum (value_or (OverflowError ''int too large to convert to float'') (float_of_int L i))
       (\<lambda>f. Inr (Some f))"
| "cost_of L (Some (JBool b)) =
     bind_sum (value_or (OverflowError ''int too large to convert to float'')
       (float_of_int L (of_bool b))) (\<lambda>f. Inr (Some f))"
| "cost_of L (Some (JFloat f)) = Inr (Some f)"
| "cost_of L (Some (JStr t)) =
     bind_sum (value_or (ValueError ''could not convert string to float'') (float_of_text L t))
       (\<lambda>f. Inr (Some f))"
| "cost_of L _ = Inr None"

text \<open>
  The body of the \<open>try\<close> of \<open>parse_cached_session\<close>, in its order of evaluation. A value that is
  no dictionary has no method \<open>get\<close>.
\<close>

definition session_of_dict :: "pylib \<Rightarrow> json dict \<Rightarrow> exn + session" where
  "session_of_dict L parsed =
     bind_sum (iso_datetime L (timestamp_text L (dict_get parsed ''created_at''))) (\<lambda>created_dt.
     bind_sum (iso_datetime L (timestamp_text L (dict_get parsed ''updated_at''))) (\<lambda>updated_dt.
     bind_sum (turns_of L (dict_get_or parsed ''total_turns'' (JInt 0))) (\<lambda>total_turns.
     bind_sum (cost_of L (dict_get parsed ''total_cost_usd'')) (\<lambda>total_cost.
     let metadata = dict_or_none (dict_get parsed ''session_metadata'');
         status_raw = py_str L (dict_get_or parsed ''status'' (JStr ''active'')) in
     bind_sum (dict_item parsed ''id'') (\<lambda>i.
     bind_sum (dict_item parsed ''model'') (\<lambda>m.
     Inr \<lparr>s_id = py_str L i, s_model = py_str L m, s_status = parse_session_status status_raw,
          s_created_at = created_dt, s_updated_at = updated_dt, s_total_turns = total_turns,
          s_total_cost_usd = total_cost,
          s_parent_session_id = str_or_none L (dict_get parsed ''parent_session_id''),
          s_owner_api_key_hash = str_or_none L (dict_get parsed ''owner_api_key_hash''),
          s_session_metadata = metadata\<rparr>))))))"

definition parse_cached_session :: "pylib \<Rightarrow> json \<Rightarrow> exn + session option" where
  "parse_cached_session L parsed =
     (case parsed of
        JObj d \<Rightarrow> none_on_parse_error (bind_sum (session_of_dict L d) (\<lambda>s. Inr (Some s)))
      | _ \<Rightarrow> Inl (AttributeError ''get''))"

section \<open>Operations\<close>

definition scm_cache_session :: "pylib \<Rightarrow> 'c cache option \<Rightarrow> int \<Rightarrow> session \<Rightarrow> ('c, unit) io" where
  "scm_cache_session L cache ttl s =
     (case cache of
        None \<Rightarrow> ret ()
      | Some C \<Rightarrow>
          and_then (c_set_json C (cache_key (s_id s)) (session_payload L s) (Some ttl)) (\<lambda>_.
            if given (s_owner_api_key_hash s)
            then let k = owner_index_key (the (s_owner_api_key_hash s)) in
              and_then (c_add_to_set C k (s_id s)) (\<lambda>_.
              and_then (c_expire C k ttl) (\<lambda>_. ret ()))
            else ret ()))"

definition scm_get_cached_session ::
  "pylib \<Rightarrow> 'c cache option \<Rightarrow> string \<Rightarrow> ('c, session option) io" where
  "scm_get_cached_session L cache session_id =
     (case cache of
        None \<Rightarrow> ret None
      | Some C \<Rightarrow>
          and_then (c_get_json C (cache_key session_id)) (\<lambda>parsed.
            if \<not> truthy parsed then ret None
            else and_then (lift_sum (parse_cached_session L parsed)) (\<lambda>session.
              case session of
                Some s \<Rightarrow> ret (Some s)
              | None \<Rightarrow>
                  try_except
                    (and_then (c_delete C (cache_key session_id)) (\<lambda>_. ret None))
                    (\<lambda>e. if is_exception e then ret None else throw e))))"

definition scm_list_sessions_for_owner ::
  "pylib \<Rightarrow> 'c cache option \<Rightarrow> string \<Rightarrow> ('c, session list) io" where
  "scm_list_sessions_for_owner L cache owner_api_key_hash =
     (case cache of
        None \<Rightarrow> ret []
      | Some C \<Rightarrow>
          and_then (c_set_members C (owner_index_key owner_api_key_hash)) (\<lambda>session_ids.
          and_then (c_get_many_json C (map cache_key session_ids)) (\<lambda>cached_rows.
            lift_sum (parse_rows (parse_cached_session L) cached_rows))))"

definition scm_list_all_sessions :: "pylib \<Rightarrow> 'c cache option \<Rightarrow> int \<Rightarrow> ('c, session list) io" where
  "scm_list_all_sessions L cache max_keys =
     (case cache of
        None \<Rightarrow> ret []
      | Some C \<Rightarrow>
          and_then (c_scan_keys C ''session:*'' max_keys) (\<lambda>all_keys.
          let session_keys = filter (\<lambda>k. \<not> prefix ''session:owner:'' k) all_keys in
          and_then (c_get_many_json C session_keys) (\<lambda>cached_rows.
            lift_sum (parse_rows (parse_cached_session L) cached_rows))))"

definition scm_delete_session ::
  "'c cache option \<Rightarrow> string \<Rightarrow> string option \<Rightarrow> ('c, bool) io" where
  "scm_delete_session cache session_id owner_api_key_hash =
     (case cache of
        None \<Rightarrow> ret False
      | Some C \<Rightarrow>
          and_then
            (if given owner_api_key_hash
             then and_then (c_remove_from_set C (owner_index_key (the owner_api_key_hash)) session_id)
                    (\<lambda>_. ret ())
             else ret ())
            (\<lambda>_. c_delete C (cache_key session_id)))"

definition scm_session_exists :: "'c cache option \<Rightarrow> string \<Rightarrow> ('c, bool) io" where
  "scm_session_exists cache session_id =
     (case cache of None \<Rightarrow> ret False | Some C \<Rightarrow> c_exists C (cache_key session_id))"

section \<open>The codec\<close>

definition wf_session :: "session \<Rightarrow> bool" where
  "wf_session s \<longleftrightarrow>
     (case s_session_metadata s of None \<Rightarrow> True | Some m \<Rightarrow> wf_dict m) \<and>
     (case s_total_cost_usd s of None \<Rightarrow> True | Some c \<Rightarrow> canonical c)"

lemma cost_of_json_of_opt [simp]: "cost_of L (Some (json_of_opt JFloat x)) = Inr x"
  by (cases x) simp_all

context pylib_laws
begin

lemma session_of_payload: "session_of_dict L (session_payload L s) = Inr s"
  by (simp add: session_of_dict_def session_payload_def dict_read_defs timestamp_text_def
      iso_datetime_def fromisoformat_isoformat)

lemma parse_session_payload:
  "parse_cached_session L (JObj (session_payload L s)) = Inr (Some s)"
  by (simp add: parse_cached_session_def session_of_payload)

end

lemma wf_session_payload: "wf_session s \<Longrightarrow> wf_dict (session_payload L s)"
  by (cases "s_session_metadata s"; cases "s_total_cost_usd s")
     (simp_all add: session_payload_def wf_session_def)

sublocale pylib_laws \<subseteq> sessions: entity_codec "session_payload L" "parse_cached_session L" wf_session
proof (unfold_locales, goal_cases)
  case (1 s)
  then show ?case by (rule wf_session_payload)
next
  case (2 s)
  show ?case by (simp add: session_payload_def)
next
  case (3 s)
  show ?case by (rule parse_session_payload)
qed

text \<open>
  The parser raises nothing but the two exceptions its \<open>except\<close> clause does not name: a value
  that is no dictionary, and a number that no float or no integer can hold.
\<close>

lemma value_or_Inl: "value_or x r = Inl e \<longleftrightarrow> r = None \<and> e = x"
  by (cases r) auto

lemma turns_of_error: "turns_of L v = Inl e \<Longrightarrow>
    is_parse_error e \<or> e = OverflowError ''cannot convert float infinity to integer''"
  by (cases "(L, v)" rule: turns_of.cases)
     (auto simp: value_or_Inl elim!: int_of_float.elims split: if_splits)

lemma cost_of_error: "cost_of L v = Inl e \<Longrightarrow>
    is_parse_error e \<or> e = OverflowError ''int too large to convert to float''"
  by (cases "(L, v)" rule: cost_of.cases) (auto simp: value_or_Inl bind_sum_Inl)

lemma iso_datetime_error: "iso_datetime L t = Inl e \<Longrightarrow> is_parse_error e"
  by (auto simp: iso_datetime_def value_or_Inl)

lemma parse_cached_session_error:
  assumes "parse_cached_session L v = Inl e"
  shows "(\<nexists>d. v = JObj d) \<and> e = AttributeError ''get'' \<or> (\<exists>m. e = OverflowError m)"
proof (cases "\<exists>d. v = JObj d")
  case True
  then obtain d where v: "v = JObj d" by blast
  with assms have "session_of_dict L d = Inl e" and e: "\<not> is_parse_error e"
    by (auto simp: parse_cached_session_def none_on_parse_error_Inl bind_sum_Inl)
  then show ?thesis
    by (auto simp: session_of_dict_def bind_sum_Inl Let_def
        dest!: iso_datetime_error turns_of_error cost_of_error dict_item_error)
next
  case False
  with assms show ?thesis
    by (cases v) (auto simp: parse_cached_session_def)
qed

sublocale live_cache \<subseteq>
  session_store: live_entity_store L C ent ages matches "session_payload L" "parse_cached_session L" wf_session
  by unfold_locales

end
