(* ===== verification/SessionService.thy ===== *)
theory SessionService
  imports SessionCache SessionLock
begin

text \<open>
  \<open>SessionService\<close>, \<open>services/session.py\<close>, with \<open>SessionMetadataManager\<close>
  (\<open>services/session_metadata_manager.py\<close>): sessions kept in the database and, in front of
  it, in the cache. The service is the record of what its constructor stores.
\<close>

record ('c, 'd) session_service =
  ss_lib :: pylib
  ss_cache :: "'c cache option"
  ss_repo :: "'d session_repo option"
  ss_ttl :: int

text \<open>
  The lock of \<open>update_session\<close> is acquired with the defaults of \<open>_with_session_lock\<close>: five
  seconds to acquire it, a time to live of thirty. 557 attempts are enough for five seconds.
\<close>

definition lock_turns :: nat where "lock_turns = 557"
definition default_acquire_timeout :: rat where "default_acquire_timeout = 5"
definition default_lock_ttl :: int where "default_lock_ttl = 30"

definition ss_with_session_lock ::
  "('c, 'd) session_service \<Rightarrow> string \<Rightarrow> (('c, 'd) world, 'a) io \<Rightarrow> (('c, 'd) world, 'a) io" where
  "ss_with_session_lock S session_id func =
     with_session_lock lock_turns (ss_cache S) session_id func default_acquire_timeout default_lock_ttl"

section \<open>Helpers\<close>

definition cache_session_io :: "('c, 'd) session_service \<Rightarrow> session \<Rightarrow> (('c, 'd) world, unit) io" where
  "cache_session_io S s = on_cache (scm_cache_session (ss_lib S) (ss_cache S) (ss_ttl S) s)"

definition get_cached_session_io ::
  "('c, 'd) session_service \<Rightarrow> string \<Rightarrow> (('c, 'd) world, session option) io" where
  "get_cached_session_io S session_id =
     on_cache (scm_get_cached_session (ss_lib S) (ss_cache S) session_id)"

definition map_db_to_service :: "session_row \<Rightarrow> session" where
  "map_db_to_service r =
     \<lparr>s_id = row_id r, s_model = row_model r, s_status = parse_session_status (row_status r),
      s_created_at = row_created_at r, s_updated_at = row_updated_at r,
      s_total_turns = row_total_turns r, s_total_cost_usd = row_total_cost_usd r,
      s_parent_session_id = row_parent_session_id r,
      s_owner_api_key_hash = row_owner_api_key_hash r,
      s_session_metadata = row_session_metadata r\<rparr>"

definition enforce_owner :: "pylib \<Rightarrow> session \<Rightarrow> string option \<Rightarrow> exn + session" where
  "enforce_owner L s current_api_key =
     (if \<not> given current_api_key then Inr s
      else if \<not> given (s_owner_api_key_hash s) then Inl (SessionNotFoundError (s_id s))
      else
        bind_sum (compare_digest (the (s_owner_api_key_hash s)) (hash_api_key L (the current_api_key)))
          (\<lambda>same. if same then Inr s else Inl (SessionNotFoundError (s_id s))))"

fun string_items :: "json list \<Rightarrow> string list option" where
  "string_items [] = Some []"
| "string_items (JStr s # xs) = map_option (Cons s) (string_items xs)"
| "string_items (_ # xs) = None"

text \<open>The tags of the metadata: none if the field is no list of strings.\<close>

definition metadata_tags :: "json dict \<Rightarrow> string list" where
  "metadata_tags metadata =
     (case dict_get metadata ''tags'' of
        Some (JArr xs) \<Rightarrow> (case string_items xs of Some ts \<Rightarrow> ts | None \<Rightarrow> [])
      | _ \<Rightarrow> [])"

definition metadata_title :: "json dict \<Rightarrow> string" where
  "metadata_title metadata = (case dict_get metadata ''title'' of Some (JStr t) \<Rightarrow> t | _ \<Rightarrow> [])"

definition matches_metadata_filters ::
  "session \<Rightarrow> string option \<Rightarrow> string option \<Rightarrow> string list option \<Rightarrow> string option \<Rightarrow> bool" where
  "matches_metadata_filters s mode project_id tags search =
     (let metadata = (case s_session_metadata s of None \<Rightarrow> [] | Some m \<Rightarrow> m) in
      if (case mode of None \<Rightarrow> False | Some m \<Rightarrow> dict_get metadata ''mode'' \<noteq> Some (JStr m)) then False
      else if (case project_id of None \<Rightarrow> False
               | Some p \<Rightarrow> dict_get metadata ''project_id'' \<noteq> Some (JStr p)) then False
      else if (case tags of None \<Rightarrow> False
               | Some ts \<Rightarrow> ts \<noteq> [] \<and> \<not> set ts \<subseteq> set (metadata_tags metadata)) then False
      else if given search \<and> \<not> contains (lower (the search)) (lower (metadata_title metadata)) then False
      else True)"

section \<open>Creating\<close>

text \<open>The three \<open>except\<close> clauses around the database write.\<close>

definition create_db_error :: "exn \<Rightarrow> exn" where
  "create_db_error e =
     (case e of
        IntegrityError _ \<Rightarrow> APIError ''Session already exists'' ''ALREADY_EXISTS'' 409
      | OperationalError _ \<Rightarrow> APIError ''Database temporarily unavailable'' ''DATABASE_UNAVAILABLE'' 503
      | _ \<Rightarrow> if is_exception e then APIError ''Failed to create session'' ''INTERNAL_ERROR'' 500 else e)"

definition create_in_db ::
  "pylib \<Rightarrow> 'd session_repo \<Rightarrow> string \<Rightarrow> string \<Rightarrow> string option \<Rightarrow> string option \<Rightarrow> (('c, 'd) world, unit) io"
where
  "create_in_db L R session_id model parent_session_id owner_api_key =
     try_except
       (and_then (lift_sum (uuid_of L session_id)) (\<lambda>sid.
        and_then
          (if given parent_session_id
           then and_then (lift_sum (uuid_of L (the parent_session_id))) (\<lambda>p. ret (Some p))
           else ret None) (\<lambda>pid.
        and_then (on_db (sr_create R sid model pid owner_api_key)) (\<lambda>_. ret ()))))
       (\<lambda>e. throw (create_db_error e))"

definition cache_unavailable :: exn where
  "cache_unavailable =
     APIError ''Session caching failed. Distributed sessions require Redis.'' ''CACHE_UNAVAILABLE'' 503"

text \<open>The two \<open>except\<close> clauses around the cache write: what is raised, if anything.\<close>

definition create_cache_error :: "bool \<Rightarrow> exn \<Rightarrow> exn option" where
  "create_cache_error has_cache e =
     (case e of
        ConnectionError _ \<Rightarrow> if has_cache then Some cache_unavailable else None
      | TimeoutError _ \<Rightarrow> if has_cache then Some cache_unavailable else None
      | _ \<Rightarrow> if is_exception e then None else Some e)"

definition create_in_cache :: "('c, 'd) session_service \<Rightarrow> session \<Rightarrow> (('c, 'd) world, unit) io" where
  "create_in_cache S s =
     try_except (cache_session_io S s)
       (\<lambda>e. case create_cache_error (ss_cache S \<noteq> None) e of None \<Rightarrow> ret () | Some e' \<Rightarrow> throw e')"

definition create_session ::
  "('c, 'd) session_service \<Rightarrow> string \<Rightarrow> string option \<Rightarrow> string option \<Rightarrow> string option \<Rightarrow>
     (('c, 'd) world, session) io" where
  "create_session S model session_id parent_session_id owner_api_key =
     and_then (case session_id of None \<Rightarrow> draw_token | Some i \<Rightarrow> ret i) (\<lambda>sid.
     and_then utc_now (\<lambda>now.
     let s = \<lparr>s_id = sid, s_model = model, s_status = Active, s_created_at = now,
              s_updated_at = now, s_total_turns = 0, s_total_cost_usd = None,
              s_parent_session_id = parent_session_id,
              s_owner_api_key_hash = hash_of_owner (ss_lib S) owner_api_key,
              s_session_metadata = None\<rparr> in
     and_then
       (case ss_repo S of
          None \<Rightarrow> ret ()
        | Some R \<Rightarrow> create_in_db (ss_lib S) R sid model parent_session_id owner_api_key) (\<lambda>_.
     and_then (create_in_cache S s) (\<lambda>_.
     ret s))))"

section \<open>Reading\<close>

definition get_db_error :: "exn \<Rightarrow> exn" where
  "get_db_error e =
     (case e of
        OperationalError _ \<Rightarrow> APIError ''Database temporarily unavailable'' ''DATABASE_UNAVAILABLE'' 503
      | SessionNotFoundError i \<Rightarrow> SessionNotFoundError i
      | _ \<Rightarrow> if is_exception e then APIError ''Failed to retrieve session'' ''INTERNAL_ERROR'' 500 else e)"

definition get_from_db ::
  "('c, 'd) session_service \<Rightarrow> 'd session_repo \<Rightarrow> string \<Rightarrow> string option \<Rightarrow>
     (('c, 'd) world, session option) io" where
  "get_from_db S R session_id current_api_key =
     try_except
       (and_then (lift_sum (uuid_of (ss_lib S) session_id)) (\<lambda>sid.
        and_then (on_db (sr_get R sid)) (\<lambda>db_session.
        case db_session of
          None \<Rightarrow> ret None
        | Some row \<Rightarrow>
            and_then (lift_sum (enforce_owner (ss_lib S) (map_db_to_service row) current_api_key)) (\<lambda>s.
            and_then (cache_session_io S s) (\<lambda>_. ret (Some s))))))
       (\<lambda>e. throw (get_db_error e))"

definition get_session ::
  "('c, 'd) session_service \<Rightarrow> string \<Rightarrow> string option \<Rightarrow> (('c, 'd) world, session option) io" where
  "get_session S session_id current_api_key =
     and_then (get_cached_session_io S session_id) (\<lambda>cached.
       case cached of
         Some s \<Rightarrow>
           and_then (lift_sum (enforce_owner (ss_lib S) s current_api_key)) (\<lambda>s'. ret (Some s'))
       | None \<Rightarrow>
           (case ss_repo S of
              None \<Rightarrow> ret None
            | Some R \<Rightarrow> get_from_db S R session_id current_api_key))"

definition session_exists :: "('c, 'd) session_service \<Rightarrow> string \<Rightarrow> (('c, 'd) world, bool) io" where
  "session_exists S session_id = on_cache (scm_session_exists (ss_cache S) session_id)"

section \<open>Listing\<close>

definition cached_sessions_for ::
  "('c, 'd) session_service \<Rightarrow> string option \<Rightarrow> (('c, 'd) world, session list) io" where
  "cached_sessions_for S current_api_key =
     (if ss_cache S \<noteq> None \<and> current_api_key \<noteq> None
      then on_cache (scm_list_sessions_for_owner (ss_lib S) (ss_cache S)
             (hash_api_key (ss_lib S) (the current_api_key)))
      else if ss_cache S \<noteq> None
      then on_cache (scm_list_all_sessions (ss_lib S) (ss_cache S) 1000)
      else ret [])"

definition filtered_page ::
  "int \<Rightarrow> int \<Rightarrow> (session \<Rightarrow> bool) \<Rightarrow> session list \<Rightarrow> session_list_result" where
  "filtered_page page page_size keep cached_sessions =
     (let filtered = filter keep (sort_desc s_created_at cached_sessions);
          start = (page - 1) * page_size
      in \<lparr>slr_sessions = py_slice filtered start (start + page_size),
          slr_total = int (length filtered), slr_page = page, slr_page_size = page_size\<rparr>)"

definition list_sessions ::
  "('c, 'd) session_service \<Rightarrow> int \<Rightarrow> int \<Rightarrow> string option \<Rightarrow> string option \<Rightarrow> string option \<Rightarrow>
     string list option \<Rightarrow> string option \<Rightarrow> (('c, 'd) world, session_list_result) io" where
  "list_sessions S page page_size current_api_key mode project_id tags search =
     (case (current_api_key, ss_repo S) of
        (Some key, Some R) \<Rightarrow>
          and_then (on_db (sr_list_sessions R current_api_key page_size ((page - 1) * page_size)
                     mode project_id tags search)) (\<lambda>(db_sessions, total).
            ret \<lparr>slr_sessions = map map_db_to_service db_sessions, slr_total = total,
                 slr_page = page, slr_page_size = page_size\<rparr>)
      | _ \<Rightarrow>
          and_then (cached_sessions_for S current_api_key) (\<lambda>cached_sessions.
            ret (filtered_page page page_size
                  (\<lambda>s. matches_metadata_filters s mode project_id tags search) cached_sessions)))"

section \<open>Updating\<close>

definition updated_session ::
  "session_status option \<Rightarrow> int option \<Rightarrow> pyfloat option \<Rightarrow> bool \<Rightarrow> datetime \<Rightarrow> session \<Rightarrow> session" where
  "updated_session status total_turns total_cost_usd increment_turns now s =
     (let s1 = (case status of None \<Rightarrow> s | Some st \<Rightarrow> s\<lparr>s_status := st\<rparr>);
          s2 = (case total_turns of None \<Rightarrow> s1 | Some n \<Rightarrow> s1\<lparr>s_total_turns := n\<rparr>);
          s3 = (if increment_turns then s2\<lparr>s_total_turns := s_total_turns s2 + 1\<rparr> else s2);
          s4 = (case total_cost_usd of None \<Rightarrow> s3 | Some c \<Rightarrow> s3\<lparr>s_total_cost_usd := Some c\<rparr>)
      in s4\<lparr>s_updated_at := now\<rparr>)"

definition update_in_db :: "('c, 'd) session_service \<Rightarrow> string \<Rightarrow> session \<Rightarrow> (('c, 'd) world, unit) io" where
  "update_in_db S session_id s =
     (case ss_repo S of
        None \<Rightarrow> ret ()
      | Some R \<Rightarrow>
          and_then (lift_sum (uuid_of (ss_lib S) session_id)) (\<lambda>sid.
          and_then (on_db (sr_update R sid (Some (status_text (s_status s)))
                     (Some (s_total_turns s)) (s_total_cost_usd s))) (\<lambda>_. ret ())))"

text \<open>The closure \<open>_do_update\<close>.\<close>

definition do_update ::
  "('c, 'd) session_service \<Rightarrow> string \<Rightarrow> session_status option \<Rightarrow> int option \<Rightarrow> pyfloat option \<Rightarrow> bool \<Rightarrow>
     string option \<Rightarrow> (('c, 'd) world, session option) io" where
  "do_update S session_id status total_turns total_cost_usd increment_turns current_api_key =
     and_then (get_session S session_id current_api_key) (\<lambda>found.
       case found of
         None \<Rightarrow> ret None
       | Some s0 \<Rightarrow>
           and_then utc_now (\<lambda>now.
           let s = updated_session status total_turns total_cost_usd increment_turns now s0 in
           and_then (update_in_db S session_id s) (\<lambda>_.
           and_then (cache_session_io S s) (\<lambda>_.
           ret (Some s)))))"

definition update_session ::
  "('c, 'd) session_service \<Rightarrow> string \<Rightarrow> session_status option \<Rightarrow> int option \<Rightarrow> pyfloat option \<Rightarrow> bool \<Rightarrow>
     string option \<Rightarrow> (('c, 'd) world, session option) io" where
  "update_session S session_id status total_turns total_cost_usd increment_turns current_api_key =
     ss_with_session_lock S session_id
       (do_update S session_id status total_turns total_cost_usd increment_turns current_api_key)"

section \<open>Deleting\<close>

text \<open>
  The owner hash of a session that is not in the cache. Both \<open>UUID\<close> and the repository stand
  inside the \<open>try\<close>; \<open>ValueError\<close> means a malformed identifier, anything else escapes.
\<close>

definition owner_hash_from_db ::
  "pylib \<Rightarrow> 'd session_repo \<Rightarrow> string \<Rightarrow> (('c, 'd) world, string option) io" where
  "owner_hash_from_db L R session_id =
     and_then
       (try_except
          (and_then (lift_sum (uuid_of L session_id)) (\<lambda>sid. on_db (sr_get R sid)))
          (\<lambda>e. if is_value_error e then ret None else throw e))
       (\<lambda>db_session. ret (case db_session of None \<Rightarrow> None | Some row \<Rightarrow> row_owner_api_key_hash row))"

definition delete_from_db ::
  "pylib \<Rightarrow> 'd session_repo \<Rightarrow> string \<Rightarrow> (('c, 'd) world, unit) io" where
  "delete_from_db L R session_id =
     try_except
       (and_then (lift_sum (uuid_of L session_id)) (\<lambda>sid.
        and_then (on_db (sr_delete_session R sid)) (\<lambda>_. ret ())))
       (\<lambda>e. if is_value_or_type_error e then ret () else throw e)"

definition delete_session ::
  "('c, 'd) session_service \<Rightarrow> string \<Rightarrow> (('c, 'd) world, bool) io" where
  "delete_session S session_id =
     (if ss_cache S = None then ret False
      else
        and_then (get_cached_session_io S session_id) (\<lambda>cached_session.
        and_then
          (case cached_session of
             Some s \<Rightarrow> ret (s_owner_api_key_hash s)
           | None \<Rightarrow>
               (case ss_repo S of
                  None \<Rightarrow> ret None
                | Some R \<Rightarrow> owner_hash_from_db (ss_lib S) R session_id)) (\<lambda>owner_api_key_hash.
        and_then (on_cache (scm_delete_session (ss_cache S) session_id owner_api_key_hash)) (\<lambda>result.
          if result
          then and_then
                 (case ss_repo S of None \<Rightarrow> ret () | Some R \<Rightarrow> delete_from_db (ss_lib S) R session_id)
                 (\<lambda>_. ret True)
          else ret False))))"

section \<open>Metadata\<close>

definition get_session_metadata_for_update ::
  "('c, 'd) session_service \<Rightarrow> string \<Rightarrow> (('c, 'd) world, json dict) io" where
  "get_session_metadata_for_update S session_id =
     (case ss_repo S of
        None \<Rightarrow> ret []
      | Some R \<Rightarrow>
          and_then
            (try_except
               (and_then (lift_sum (uuid_of (ss_lib S) session_id)) (\<lambda>sid. on_db (sr_get R sid)))
               (\<lambda>e. if is_value_error e then ret None else throw e))
            (\<lambda>db_session. ret
               (case db_session of
                  None \<Rightarrow> []
                | Some row \<Rightarrow> (case row_session_metadata row of None \<Rightarrow> [] | Some m \<Rightarrow> m))))"

text \<open>The common tail of \<open>promote_session\<close> and \<open>update_tags\<close>: the database, then the cache.\<close>

definition store_metadata ::
  "('c, 'd) session_service \<Rightarrow> string \<Rightarrow> json dict \<Rightarrow> (('c, 'd) world, session option) io" where
  "store_metadata S session_id metadata =
     (case ss_repo S of
        None \<Rightarrow> ret None
      | Some R \<Rightarrow>
          and_then (lift_sum (uuid_of (ss_lib S) session_id)) (\<lambda>sid.
          and_then (on_db (sr_update_metadata R sid metadata)) (\<lambda>updated.
            case updated of
              None \<Rightarrow> ret None
            | Some row \<Rightarrow>
                and_then (cache_session_io S (map_db_to_service row)) (\<lambda>_.
                ret (Some (map_db_to_service row))))))"

definition promote_session ::
  "('c, 'd) session_service \<Rightarrow> string \<Rightarrow> string \<Rightarrow> string \<Rightarrow> (('c, 'd) world, session option) io" where
  "promote_session S session_id project_id current_api_key =
     and_then (get_session S session_id (Some current_api_key)) (\<lambda>found.
       case found of
         None \<Rightarrow> ret None
       | Some _ \<Rightarrow>
           and_then (get_session_metadata_for_update S session_id) (\<lambda>metadata.
           store_metadata S session_id
             (dict_update metadata [(''mode'', JStr ''code''), (''project_id'', JStr project_id)])))"

definition update_tags ::
  "('c, 'd) session_service \<Rightarrow> string \<Rightarrow> string list \<Rightarrow> string \<Rightarrow> (('c, 'd) world, session option) io" where
  "update_tags S session_id tags current_api_key =
     and_then (get_session S session_id (Some current_api_key)) (\<lambda>found.
       case found of
         None \<Rightarrow> ret None
       | Some _ \<Rightarrow>
           and_then (get_session_metadata_for_update S session_id) (\<lambda>metadata.
           store_metadata S session_id (dict_set ''tags'' (JArr (map JStr tags)) metadata)))"

end
