(* ===== verification/RefLibrary.thy ===== *)
theory RefLibrary
  imports PyJson
begin

text \<open>
  A concrete library: an encoder of JSON values with its decoder, and simple codecs for the
  other formats. It is not the text that Python writes; it is there to show that the laws of
  \<open>pylib_laws\<close> can hold together, and as the library of the concrete runs.
\<close>

section \<open>Numbers and text\<close>

fun enc_nat :: "nat \<Rightarrow> string" where
  "enc_nat n =
     (if n = 0 then ''.'' else (if odd n then CHR ''1'' else CHR ''0'') # enc_nat (n div 2))"

declare enc_nat.simps [simp del]

fun dec_nat :: "string \<Rightarrow> (nat \<times> string) option" where
  "dec_nat [] = None"
| "dec_nat (c # cs) =
     (if c = CHR ''.'' then Some (0, cs)
      else if c = CHR ''0'' then map_option (\<lambda>(n, r). (2 * n, r)) (dec_nat cs)
      else if c = CHR ''1'' then map_option (\<lambda>(n, r). (2 * n + 1, r)) (dec_nat cs)
      else None)"

lemma dec_enc_nat [simp]: "dec_nat (enc_nat n @ r) = Some (n, r)"
proof (induction n rule: enc_nat.induct)
  case (1 n)
  then show ?case
    by (cases "n = 0") (simp_all add: enc_nat.simps [of n] enc_nat.simps [of 0])
qed

definition enc_int :: "int \<Rightarrow> string" where
  "enc_int i = (if i < 0 then CHR ''-'' # enc_nat (nat (- i)) else CHR ''+'' # enc_nat (nat i))"

fun dec_int :: "string \<Rightarrow> (int \<times> string) option" where
  "dec_int [] = None"
| "dec_int (c # cs) =
     (if c = CHR ''-'' then map_option (\<lambda>(n, r). (- int n, r)) (dec_nat cs)
      else if c = CHR ''+'' then map_option (\<lambda>(n, r). (int n, r)) (dec_nat cs)
      else None)"

lemma dec_enc_int [simp]: "dec_int (enc_int i @ r) = Some (i, r)"
  by (simp add: enc_int_def)

fun enc_str :: "string \<Rightarrow> string" where
  "enc_str [] = '';''"
| "enc_str (c # cs) = CHR ''c'' # enc_nat (of_char c) @ enc_str cs"

fun dec_str :: "nat \<Rightarrow> string \<Rightarrow> (string \<times> string) option" where
  "dec_str 0 s = None"
| "dec_str (Suc n) [] = None"
| "dec_str (Suc n) (c # cs) =
     (if c = CHR '';'' then Some ([], cs)
      else if c = CHR ''c''
      then (case dec_nat cs of
              None \<Rightarrow> None
            | Some (m, r) \<Rightarrow> map_option (\<lambda>(t, r'). (char_of m # t, r')) (dec_str n r))
      else None)"

lemma dec_enc_str [simp]: "length (enc_str t) \<le> n \<Longrightarrow> dec_str n (enc_str t @ r) = Some (t, r)"
proof (induction t arbitrary: n)
  case Nil
  then show ?case by (cases n) auto
next
  case (Cons c t)
  then show ?case by (cases n) auto
qed

fun enc_float :: "pyfloat \<Rightarrow> string" where
  "enc_float (Finite m e) = CHR ''F'' # enc_int m @ enc_int e"
| "enc_float (Infinity b) = (if b then ''P'' else ''M'')"
| "enc_float NaN = ''N''"

fun dec_float :: "string \<Rightarrow> (pyfloat \<times> string) option" where
  "dec_float [] = None"
| "dec_float (c # cs) =
     (if c = CHR ''F''
      then (case dec_int cs of
              None \<Rightarrow> None
            | Some (m, r) \<Rightarrow> map_option (\<lambda>(e, r'). (Finite m e, r')) (dec_int r))
      else if c = CHR ''P'' then Some (Infinity True, cs)
      else if c = CHR ''M'' then Some (Infinity False, cs)
      else if c = CHR ''N'' then Some (NaN, cs)
      else None)"

lemma dec_enc_float [simp]: "dec_float (enc_float f @ r) = Some (f, r)"
  by (cases f rule: enc_float.cases) simp_all

section \<open>Values\<close>

fun enc :: "json \<Rightarrow> string" and enc_list :: "json list \<Rightarrow> string"
  and enc_obj :: "(string \<times> json) list \<Rightarrow> string" where
  "enc JNull = ''n''"
| "enc (JBool b) = (if b then ''t'' else ''f'')"
| "enc (JInt i) = CHR ''i'' # enc_int i"
| "enc (JFloat f) = CHR ''d'' # enc_float f"
| "enc (JStr s) = CHR ''s'' # enc_str s"
| "enc (JArr xs) = CHR ''['' # enc_list xs"
| "enc (JObj d) = CHR ''{'' # enc_obj d"
| "enc_list [] = '']''"
| "enc_list (x # xs) = CHR '','' # enc x @ enc_list xs"
| "enc_obj [] = ''}''"
| "enc_obj ((k, x) # d) = CHR '','' # enc_str k @ enc x @ enc_obj d"

fun dec :: "nat \<Rightarrow> string \<Rightarrow> (json \<times> string) option"
  and dec_list :: "nat \<Rightarrow> string \<Rightarrow> (json list \<times> string) option"
  and dec_obj :: "nat \<Rightarrow> string \<Rightarrow> ((string \<times> json) list \<times> string) option" where
  "dec 0 s = None"
| "dec (Suc n) [] = None"
| "dec (Suc n) (c # cs) =
     (if c = CHR ''n'' then Some (JNull, cs)
      else if c = CHR ''t'' then Some (JBool True, cs)
      else if c = CHR ''f'' then Some (JBool False, cs)
      else if c = CHR ''i'' then map_option (\<lambda>(i, r). (JInt i, r)) (dec_int cs)
      else if c = CHR ''d'' then map_option (\<lambda>(f, r). (JFloat f, r)) (dec_float cs)
      else if c = CHR ''s'' then map_option (\<lambda>(t, r). (JStr t, r)) (dec_str n cs)
      else if c = CHR ''['' then map_option (\<lambda>(xs, r). (JArr xs, r)) (dec_list n cs)
      else if c = CHR ''{'' then map_option (\<lambda>(d, r). (JObj d, r)) (dec_obj n cs)
      else None)"
| "dec_list 0 s = None"
| "dec_list (Suc n) [] = None"
| "dec_list (Suc n) (c # cs) =
     (if c = CHR '']'' then Some ([], cs)
      else if c = CHR '',''
      then (case dec n cs of
              None \<Rightarrow> None
            | Some (x, r) \<Rightarrow> map_option (\<lambda>(xs, r'). (x # xs, r')) (dec_list n r))
      else None)"
| "dec_obj 0 s = None"
| "dec_obj (Suc n) [] = None"
| "dec_obj (Suc n) (c # cs) =
     (if c = CHR ''}'' then Some ([], cs)
      else if c = CHR '',''
      then (case dec_str n cs of
              None \<Rightarrow> None
            | Some (k, r) \<Rightarrow>
                (case dec n r of
                   None \<Rightarrow> None
                 | Some (x, r') \<Rightarrow> map_option (\<lambda>(d, r''). ((k, x) # d, r'')) (dec_obj n r')))
      else None)"

lemma dec_enc:
  "length (enc v) \<le> n \<Longrightarrow> dec n (enc v @ r) = Some (v, r)"
  "length (enc_list xs) \<le> n \<Longrightarrow> dec_list n (enc_list xs @ r) = Some (xs, r)"
  "length (enc_obj d) \<le> n \<Longrightarrow> dec_obj n (enc_obj d @ r) = Some (d, r)"
proof (induction v and xs and d arbitrary: n r and n r and n r rule: enc_enc_list_enc_obj.induct)
  case 1
  then show ?case by (cases n) auto
next
  case (2 b)
  then show ?case by (cases n; cases b) auto
next
  case (3 i)
  then show ?case by (cases n) auto
next
  case (4 f)
  then show ?case by (cases n) auto
next
  case (5 s)
  then show ?case by (cases n) auto
next
  case (6 xs)
  then show ?case by (cases n) auto
next
  case (7 d)
  then show ?case by (cases n) auto
next
  case 8
  then show ?case by (cases n) auto
next
  case (9 x xs)
  then show ?case by (cases n) auto
next
  case 10
  then show ?case by (cases n) auto
next
  case (11 k x d)
  then show ?case by (cases n) auto
qed

definition ref_loads :: "string \<Rightarrow> json option" where
  "ref_loads s = (case dec (length s) s of Some (v, []) \<Rightarrow> Some v | _ \<Rightarrow> None)"

lemma ref_loads_enc: "ref_loads (enc v) = Some v"
  using dec_enc(1) [of v "length (enc v)" "[]"] by (simp add: ref_loads_def)

lemma ref_loads_blank: "is_blank t \<Longrightarrow> ref_loads t = None"
proof (cases t)
  case (Cons c cs)
  assume "is_blank t"
  with Cons have "is_space c" by (simp add: is_blank_def)
  then have "c \<notin> {CHR ''n'', CHR ''t'', CHR ''f'', CHR ''i'', CHR ''d'', CHR ''s'', CHR ''['', CHR ''{''}"
    by (auto simp: is_space_def)
  with Cons show ?thesis by (simp add: ref_loads_def)
qed (simp add: ref_loads_def)

lemma enc_nat_chars: "set (enc_nat n) \<subseteq> {CHR ''.'', CHR ''0'', CHR ''1''}"
proof (induction n rule: enc_nat.induct)
  case (1 n)
  then show ?case by (cases "n = 0") (auto simp: enc_nat.simps [of n] enc_nat.simps [of 0])
qed

lemma enc_str_chars: "set (enc_str s) \<subseteq> {CHR '';'', CHR ''c'', CHR ''.'', CHR ''0'', CHR ''1''}"
  using enc_nat_chars by (induction s) fastforce+

lemma enc_int_chars: "set (enc_int i) \<subseteq> {CHR ''-'', CHR ''+'', CHR ''.'', CHR ''0'', CHR ''1''}"
  using enc_nat_chars [of "nat i"] enc_nat_chars [of "nat (- i)"] by (auto simp: enc_int_def)

lemma newline_not_enc_str: "CHR 0x0A \<notin> set (enc_str s)"
  using enc_str_chars [of s] by auto

lemma newline_not_enc_int: "CHR 0x0A \<notin> set (enc_int i)"
  using enc_int_chars [of i] by auto

lemma newline_not_enc:
  "CHR 0x0A \<notin> set (enc v)" "CHR 0x0A \<notin> set (enc_list xs)" "CHR 0x0A \<notin> set (enc_obj d)"
proof (induction v and xs and d rule: enc_enc_list_enc_obj.induct)
  case (4 f)
  show ?case
    by (cases f rule: enc_float.cases) (simp_all add: newline_not_enc_int)
qed (auto simp: newline_not_enc_str newline_not_enc_int)

section \<open>The library\<close>

fun dec_all :: "(string \<Rightarrow> ('a \<times> string) option) \<Rightarrow> string \<Rightarrow> 'a option" where
  "dec_all f s = (case f s of Some (x, []) \<Rightarrow> Some x | _ \<Rightarrow> None)"

text \<open>
  Every identifier that is not empty counts as a UUID in canonical form, and the digest is the
  text behind a mark.
\<close>

definition ref_lib :: pylib where
  "ref_lib =
     \<lparr>json_dumps = enc, json_loads = ref_loads, isoformat = enc_int,
      fromisoformat = dec_all dec_int, int_of_text = dec_all dec_int,
      float_of_text = dec_all dec_float, float_of_int = (\<lambda>i. Some (Finite i 0)),
      repr_text = (\<lambda>v. case v of JFloat f \<Rightarrow> enc_float f | _ \<Rightarrow> enc v),
      parse_uuid = (\<lambda>s. if s = [] then None else Some s), sha256 = (\<lambda>s. CHR ''#'' # s)\<rparr>"

lemma ref_lib_sel [simp]:
  "isoformat ref_lib = enc_int"
  "json_dumps ref_lib = enc"
  "parse_uuid ref_lib s = (if s = [] then None else Some s)"
  "sha256 ref_lib s = CHR ''#'' # s"
  by (simp_all add: ref_lib_def)

interpretation ref_lib: pylib_laws ref_lib
proof (unfold_locales, goal_cases)
  case (1 v)
  show ?case by (simp add: ref_lib_def ref_loads_enc)
next
  case (2 v)
  show ?case by (simp add: newline_not_enc)
next
  case (3 t)
  then show ?case by (simp add: ref_lib_def ref_loads_blank)
next
  case (4 f)
  show ?case using dec_enc_float [of f "[]"] by (simp add: ref_lib_def)
next
  case (5 d)
  show ?case using dec_enc_int [of d "[]"] by (simp add: ref_lib_def)
next
  case (6 s u)
  then show ?case by (simp split: if_splits)
next
  case (7 s)
  show ?case by simp
qed

lemma ref_loads_obj [simp]: "ref_loads (CHR ''{'' # enc_obj d) = Some (JObj d)"
  using ref_loads_enc [of "JObj d"] by simp

lemma ref_lib_loads [simp]: "json_loads ref_lib = ref_loads"
  by (simp add: ref_lib_def)

lemma ref_lib_fromisoformat [simp]: "fromisoformat ref_lib (enc_int d) = Some d"
  using ref_lib.fromisoformat_isoformat by simp

lemma not_blank_obj [simp]: "\<not> is_blank (CHR ''{'' # s)"
  by (simp add: is_blank_def is_space_def)

end
