(* ===== verification/RedisCache.thy ===== *)
theory RedisCache
  imports CacheProtocol
begin

text \<open>
  The cache adapter, \<open>apps/api/adapters/cache.py\<close>: the class \<open>RedisCache\<close>, which provides
  the \<open>Cache\<close> protocol over a Redis client. The client and the server behind it are a
  parameter (\<open>redis_client\<close>, over a server state \<open>'r\<close>); \<open>redis_laws\<close> states the documented
  behaviour of the commands used, and the last section shows that the adapter then keeps the
  contract of the protocol.
\<close>

section \<open>The client\<close>

record 'r redis_client =
  r_get :: "string \<Rightarrow> ('r, rbytes option) io"
  r_mget :: "string list \<Rightarrow> ('r, rbytes option list) io"
  r_set :: "string \<Rightarrow> rbytes \<Rightarrow> int option \<Rightarrow> bool \<Rightarrow> ('r, bool option) io" \<comment> \<open>\<open>ex\<close>, \<open>nx\<close>\<close>
  r_setex :: "string \<Rightarrow> int \<Rightarrow> rbytes \<Rightarrow> ('r, unit) io"
  r_delete :: "string \<Rightarrow> ('r, int) io"
  r_exists :: "string \<Rightarrow> ('r, int) io"
  r_sadd :: "string \<Rightarrow> rbytes \<Rightarrow> ('r, int) io"
  r_srem :: "string \<Rightarrow> rbytes \<Rightarrow> ('r, int) io"
  r_smembers :: "string \<Rightarrow> ('r, rbytes list) io"
  r_scan :: "int \<Rightarrow> string \<Rightarrow> int \<Rightarrow> ('r, int \<times> rbytes list) io" \<comment> \<open>cursor, match, count\<close>
  r_eval :: "string \<Rightarrow> int \<Rightarrow> string list \<Rightarrow> ('r, int) io"
  r_ping :: "('r, bool) io"
  r_incr :: "string \<Rightarrow> ('r, int) io"
  r_expire :: "string \<Rightarrow> int \<Rightarrow> ('r, bool) io"
  r_flushdb :: "('r, bool) io"
  r_aclose :: "('r, unit) io"

text \<open>
  The state of the adapter: the server, and the values that successive calls of
  \<open>uuid.uuid4()\<close> will return, with the number of calls made.
\<close>

record 'r redis_world =
  rw_server :: 'r
  rw_uuids :: "nat \<Rightarrow> string"
  rw_draws :: nat

definition on_server :: "('r, 'a) io \<Rightarrow> ('r redis_world, 'a) io" where
  "on_server m = (\<lambda>w. case m (rw_server w) of (r, s) \<Rightarrow> (r, w\<lparr>rw_server := s\<rparr>))"

lemma on_server_run: "on_server m w = (r, w') \<longleftrightarrow>
    (\<exists>s. m (rw_server w) = (r, s) \<and> w' = w\<lparr>rw_server := s\<rparr>)"
  by (auto simp: on_server_def split: prod.splits)

definition draw_uuid :: "('r redis_world, string) io" where
  "draw_uuid = (\<lambda>w. (Inr (rw_uuids w (rw_draws w)), w\<lparr>rw_draws := Suc (rw_draws w)\<rparr>))"

section \<open>Operations\<close>

fun decode_utf8 :: "rbytes \<Rightarrow> exn + string" where
  "decode_utf8 (Utf8 s) = Inr s"
| "decode_utf8 (NotUtf8 _) = Inl (ValueError ''UnicodeDecodeError'')"

definition rc_get :: "'r redis_client \<Rightarrow> string \<Rightarrow> ('r redis_world, string option) io" where
  "rc_get cl key =
     and_then (on_server (r_get cl key)) (\<lambda>value.
       case value of
         None \<Rightarrow> ret None
       | Some b \<Rightarrow> and_then (lift_sum (decode_utf8 b)) (\<lambda>s. ret (Some s)))"

definition rc_get_json :: "pylib \<Rightarrow> 'r redis_client \<Rightarrow> string \<Rightarrow> ('r redis_world, json) io" where
  "rc_get_json L cl key =
     and_then (rc_get cl key) (\<lambda>value.
       case value of
         None \<Rightarrow> ret JNull
       | Some t \<Rightarrow>
           if is_blank t then ret JNull
           else (case json_loads L t of Some parsed \<Rightarrow> ret parsed | None \<Rightarrow> ret JNull))"

text \<open>One row of \<open>get_many_json\<close>: a missing key, undecodable bytes and bad JSON give \<open>None\<close>.\<close>

definition mget_row :: "pylib \<Rightarrow> rbytes option \<Rightarrow> json" where
  "mget_row L raw =
     (case raw of
        None \<Rightarrow> JNull
      | Some b \<Rightarrow>
          (case decode_utf8 b of
             Inl e \<Rightarrow> JNull
           | Inr decoded \<Rightarrow> (case json_loads L decoded of Some j \<Rightarrow> j | None \<Rightarrow> JNull)))"

definition rc_get_many_json ::
  "pylib \<Rightarrow> 'r redis_client \<Rightarrow> string list \<Rightarrow> ('r redis_world, json list) io" where
  "rc_get_many_json L cl keys =
     (if keys = [] then ret []
      else and_then (on_server (r_mget cl keys)) (\<lambda>values. ret (map (mget_row L) values)))"

definition rc_cache_set ::
  "'r redis_client \<Rightarrow> string \<Rightarrow> string \<Rightarrow> int option \<Rightarrow> ('r redis_world, bool) io" where
  "rc_cache_set cl key value ttl =
     (case ttl of
        Some secs \<Rightarrow> and_then (on_server (r_setex cl key secs (Utf8 value))) (\<lambda>_. ret True)
      | None \<Rightarrow> and_then (on_server (r_set cl key (Utf8 value) None False)) (\<lambda>_. ret True))"

definition rc_set_json ::
  "pylib \<Rightarrow> 'r redis_client \<Rightarrow> string \<Rightarrow> json dict \<Rightarrow> int option \<Rightarrow> ('r redis_world, bool) io" where
  "rc_set_json L cl key value ttl = rc_cache_set cl key (json_dumps L (JObj value)) ttl"

subsection \<open>Scanning\<close>

definition is_lower_hex :: "char \<Rightarrow> bool" where
  "is_lower_hex c \<longleftrightarrow> c \<in> set ''0123456789abcdef''"

definition hex_run :: "nat \<Rightarrow> string \<Rightarrow> bool" where
  "hex_run n s \<longleftrightarrow> n \<le> length s \<and> list_all is_lower_hex (take n s)"

text \<open>Runs of hexadecimal digits of the given lengths, joined by hyphens.\<close>

fun hyphenated_hex :: "nat list \<Rightarrow> string \<Rightarrow> bool" where
  "hyphenated_hex [] s = True"
| "hyphenated_hex [n] s = hex_run n s"
| "hyphenated_hex (n # m # ns) s =
     (hex_run n s \<and>
      (case drop n s of [] \<Rightarrow> False | c # r \<Rightarrow> c = CHR ''-'' \<and> hyphenated_hex (m # ns) r))"

definition re_search :: "(string \<Rightarrow> bool) \<Rightarrow> string \<Rightarrow> bool" where
  "re_search at s \<longleftrightarrow> list_ex at (suffixes s)"

definition ends_with_wildcard :: "string \<Rightarrow> bool" where
  "ends_with_wildcard p \<longleftrightarrow> p \<noteq> [] \<and> (last p = CHR ''*'' \<or> last p = CHR ''?'')"

definition is_unbounded_pattern :: "string \<Rightarrow> bool" where
  "is_unbounded_pattern pattern =
     (if ends_with_wildcard pattern
      then \<not> (re_search (hyphenated_hex [8, 4, 4, 4, 12]) pattern \<or> re_search (hex_run 64) pattern)
      else CHR ''*'' \<in> set (butlast pattern) \<or> CHR ''?'' \<in> set (butlast pattern))"

text \<open>
  The \<open>while True\<close> of \<open>scan_keys\<close>. Whether it ends is up to the server's cursors, so the loop
  has fuel; \<open>scan_loop_terminates\<close> below says how much is enough.
\<close>

fun scan_loop ::
  "nat \<Rightarrow> 'r redis_client \<Rightarrow> string \<Rightarrow> int \<Rightarrow> int \<Rightarrow> string list \<Rightarrow> ('r redis_world, string list) io"
where
  "scan_loop 0 cl pattern max_keys cursor all_keys = throw OutOfFuel"
| "scan_loop (Suc fuel) cl pattern max_keys cursor all_keys =
     and_then (on_server (r_scan cl cursor pattern 1000)) (\<lambda>(cursor', found).
       and_then (lift_sum (map_sum_list decode_utf8 found)) (\<lambda>batch.
         if max_keys \<le> int (length (all_keys @ batch)) then ret (all_keys @ batch)
         else if cursor' = 0 then ret (all_keys @ batch)
         else scan_loop fuel cl pattern max_keys cursor' (all_keys @ batch)))"

definition rc_scan_keys ::
  "nat \<Rightarrow> 'r redis_client \<Rightarrow> string \<Rightarrow> int \<Rightarrow> ('r redis_world, string list) io" where
  "rc_scan_keys fuel cl pattern max_keys =
     (if 10000 < max_keys
      then throw (ValueError (''max_keys='' @ int_text max_keys @
             '' exceeds safety limit of 10000. Use indexed lookups for large result sets.''))
      else and_then (scan_loop fuel cl pattern max_keys 0 [])
             (\<lambda>all_keys. ret (py_slice all_keys 0 max_keys)))"

subsection \<open>The other commands\<close>

definition rc_clear :: "'r redis_client \<Rightarrow> ('r redis_world, bool) io" where
  "rc_clear cl = on_server (r_flushdb cl)"

definition rc_delete :: "'r redis_client \<Rightarrow> string \<Rightarrow> ('r redis_world, bool) io" where
  "rc_delete cl key = and_then (on_server (r_delete cl key)) (\<lambda>n. ret (0 < n))"

definition rc_exists :: "'r redis_client \<Rightarrow> string \<Rightarrow> ('r redis_world, bool) io" where
  "rc_exists cl key = and_then (on_server (r_exists cl key)) (\<lambda>n. ret (0 < n))"

definition rc_add_to_set :: "'r redis_client \<Rightarrow> string \<Rightarrow> string \<Rightarrow> ('r redis_world, bool) io" where
  "rc_add_to_set cl key value = and_then (on_server (r_sadd cl key (Utf8 value))) (\<lambda>n. ret (0 < n))"

definition rc_remove_from_set ::
  "'r redis_client \<Rightarrow> string \<Rightarrow> string \<Rightarrow> ('r redis_world, bool) io" where
  "rc_remove_from_set cl key value =
     and_then (on_server (r_srem cl key (Utf8 value))) (\<lambda>n. ret (0 < n))"

definition rc_set_members :: "'r redis_client \<Rightarrow> string \<Rightarrow> ('r redis_world, string list) io" where
  "rc_set_members cl key =
     and_then (on_server (r_smembers cl key)) (\<lambda>members.
       and_then (lift_sum (map_sum_list decode_utf8 members)) (\<lambda>vs. ret (remdups vs)))"

text \<open>The Lua script that deletes a key if it holds the given value.\<close>

definition release_script :: string where
  "release_script =
     ''if redis.call(\"get\", KEYS[1]) == ARGV[1] then return redis.call(\"del\", KEYS[1]) else return 0 end''"

definition rc_acquire_lock ::
  "'r redis_client \<Rightarrow> string \<Rightarrow> int \<Rightarrow> string option \<Rightarrow> ('r redis_world, string option) io" where
  "rc_acquire_lock cl key ttl value =
     and_then (if given value then ret (the value) else draw_uuid) (\<lambda>lock_value.
       and_then (on_server (r_set cl (''lock:'' @ key) (Utf8 lock_value) (Some ttl) True))
         (\<lambda>result. ret (if result = Some True then Some lock_value else None)))"

definition rc_release_lock :: "'r redis_client \<Rightarrow> string \<Rightarrow> string \<Rightarrow> ('r redis_world, bool) io" where
  "rc_release_lock cl key value =
     and_then (on_server (r_eval cl release_script 1 [''lock:'' @ key, value])) (\<lambda>n. ret (n = 1))"

definition rc_ping :: "'r redis_client \<Rightarrow> ('r redis_world, bool) io" where
  "rc_ping cl = try_except (on_server (r_ping cl))
     (\<lambda>e. if is_exception e then ret False else throw e)"

definition rc_incr :: "'r redis_client \<Rightarrow> string \<Rightarrow> ('r redis_world, int) io" where
  "rc_incr cl key = on_server (r_incr cl key)"

definition rc_expire :: "'r redis_client \<Rightarrow> string \<Rightarrow> int \<Rightarrow> ('r redis_world, bool) io" where
  "rc_expire cl key ttl = on_server (r_expire cl key ttl)"

definition rc_close :: "'r redis_client \<Rightarrow> ('r redis_world, unit) io" where
  "rc_close cl = on_server (r_aclose cl)"

definition redis_cache :: "nat \<Rightarrow> pylib \<Rightarrow> 'r redis_client \<Rightarrow> 'r redis_world cache" where
  "redis_cache fuel L cl =
     \<lparr>c_get = rc_get cl, c_cache_set = rc_cache_set cl, c_delete = rc_delete cl,
      c_exists = rc_exists cl, c_expire = rc_expire cl, c_add_to_set = rc_add_to_set cl,
      c_remove_from_set = rc_remove_from_set cl, c_set_members = rc_set_members cl,
      c_acquire_lock = rc_acquire_lock cl, c_release_lock = rc_release_lock cl,
      c_ping = rc_ping cl, c_scan_keys = rc_scan_keys fuel cl, c_clear = rc_clear cl,
      c_get_json = rc_get_json L cl, c_get_many_json = rc_get_many_json L cl,
      c_set_json = rc_set_json L cl, c_close = rc_close cl\<rparr>"

lemma redis_cache_sel [simp]:
  "c_get (redis_cache n L cl) = rc_get cl"
  "c_cache_set (redis_cache n L cl) = rc_cache_set cl"
  "c_delete (redis_cache n L cl) = rc_delete cl"
  "c_exists (redis_cache n L cl) = rc_exists cl"
  "c_expire (redis_cache n L cl) = rc_expire cl"
  "c_add_to_set (redis_cache n L cl) = rc_add_to_set cl"
  "c_remove_from_set (redis_cache n L cl) = rc_remove_from_set cl"
  "c_set_members (redis_cache n L cl) = rc_set_members cl"
  "c_acquire_lock (redis_cache n L cl) = rc_acquire_lock cl"
  "c_release_lock (redis_cache n L cl) = rc_release_lock cl"
  "c_scan_keys (redis_cache n L cl) = rc_scan_keys n cl"
  "c_get_json (redis_cache n L cl) = rc_get_json L cl"
  "c_get_many_json (redis_cache n L cl) = rc_get_many_json L cl"
  "c_set_json (redis_cache n L cl) = rc_set_json L cl"
  by (simp_all add: redis_cache_def)

section \<open>The server's documented behaviour\<close>

text \<open>
  What the adapter relies on of each command, for commands that return. \<open>unseen s c\<close> are the
  keys that an iteration with cursor \<open>c\<close> has yet to visit and \<open>rank s c\<close> bounds the calls it
  has yet to make: SCAN returns every element that is present during the whole iteration and
  ends after finitely many calls.
\<close>

locale redis_laws = pylib_laws L for L :: pylib +
  fixes fuel :: nat
    and cl :: "'r redis_client"
    and ent :: "'r \<Rightarrow> store"
    and ages :: "store \<Rightarrow> store \<Rightarrow> bool"
    and matches :: "string \<Rightarrow> string \<Rightarrow> bool"
    and unseen :: "'r \<Rightarrow> int \<Rightarrow> string set"
    and rank :: "'r \<Rightarrow> int \<Rightarrow> nat"
  assumes store_ages_le: "ages m m' \<Longrightarrow> m' \<subseteq>\<^sub>m m"
    and store_ages_refl: "ages m m"
    and store_ages_trans: "ages m m' \<Longrightarrow> ages m' m'' \<Longrightarrow> ages m m''"
    and glob_prefix: "glob_literal p \<Longrightarrow> matches (p @ ''*'') k \<longleftrightarrow> prefix p k"
    and GET: "r_get cl k s = (Inr v, s') \<Longrightarrow> ages (ent s) (ent s') \<and>
      ent s' k = map_option Value v"
    and MGET: "r_mget cl ks s = (Inr vs, s') \<Longrightarrow> ages (ent s) (ent s') \<and>
      vs = map (\<lambda>k. case ent s' k of Some (Value b) \<Rightarrow> Some b | _ \<Rightarrow> None) ks"
    and SET: "r_set cl k b ex False s = (Inr r, s') \<Longrightarrow>
      \<exists>m. ages (ent s) m \<and> ent s' = m(k \<mapsto> Value b)"
    and SET_NX: "r_set cl k b ex True s = (Inr r, s') \<Longrightarrow>
      (if r = Some True
       then \<exists>m. ages (ent s) m \<and> m k = None \<and> ent s' = m(k \<mapsto> Value b)
       else ages (ent s) (ent s') \<and> ent s' k \<noteq> None)"
    and SETEX: "r_setex cl k secs b s = (Inr u, s') \<Longrightarrow>
      \<exists>m. ages (ent s) m \<and> ent s' = m(k \<mapsto> Value b)"
    and DEL: "r_delete cl k s = (Inr n, s') \<Longrightarrow>
      \<exists>m. ages (ent s) m \<and> n = of_bool (m k \<noteq> None) \<and> ent s' = m(k := None)"
    and EXISTS: "r_exists cl k s = (Inr n, s') \<Longrightarrow>
      ages (ent s) (ent s') \<and> n = of_bool (ent s' k \<noteq> None)"
    and SADD: "r_sadd cl k b s = (Inr n, s') \<Longrightarrow>
      \<exists>m A. ages (ent s) m \<and> set_at (m k) = Some A \<and> n = of_bool (b \<notin> A) \<and>
        ent s' = m(k \<mapsto> Members (insert b A))"
    and SREM: "r_srem cl k b s = (Inr n, s') \<Longrightarrow>
      \<exists>m A. ages (ent s) m \<and> set_at (m k) = Some A \<and> n = of_bool (b \<in> A) \<and>
        ent s' = m(k := set_entry (A - {b}))"
    and SMEMBERS: "r_smembers cl k s = (Inr bs, s') \<Longrightarrow>
      ages (ent s) (ent s') \<and> set_at (ent s' k) = Some (set bs)"
    and SCAN: "r_scan cl c p cnt s = (Inr (c', bs), s') \<Longrightarrow> ages (ent s) (ent s') \<and>
      (\<forall>k. Utf8 k \<in> set bs \<longrightarrow> ent s k \<noteq> None \<and> matches p k) \<and>
      {k \<in> unseen s c. ent s' k \<noteq> None \<and> matches p k} \<subseteq>
        {k. Utf8 k \<in> set bs} \<union> (if c' = 0 then {} else unseen s' c') \<and>
      (c' \<noteq> 0 \<longrightarrow> rank s' c' < rank s c)"
    and SCAN_start: "ent s k \<noteq> None \<Longrightarrow> k \<in> unseen s 0"
    and EVAL_release: "r_eval cl release_script 1 [k, t] s = (Inr n, s') \<Longrightarrow>
      \<exists>m. ages (ent s) m \<and> n = of_bool (m k = Some (Value (Utf8 t))) \<and>
        ent s' = (if n = 1 then m(k := None) else m)"
    and EXPIRE: "r_expire cl k secs s = (Inr found, s') \<Longrightarrow> 0 < secs \<Longrightarrow>
      ages (ent s) (ent s') \<and> found = (ent s' k \<noteq> None)"
begin

lemma decode_batch: "map_sum_list decode_utf8 bs = Inr ks \<Longrightarrow> bs = map Utf8 ks"
proof (induction bs arbitrary: ks)
  case Nil
  then show ?case by simp
next
  case (Cons b bs)
  then show ?case by (cases b) (auto simp: bind_sum_Inr)
qed

text \<open>
  One turn of the scan: what it adds to the keys found so far, and what it leaves unseen.
\<close>

lemma scan_turn:
  assumes "on_server (r_scan cl c p 1000) w = (Inr (c', found), w1)"
    and "map_sum_list decode_utf8 found = Inr batch"
  shows "ages (ent (rw_server w)) (ent (rw_server w1))"
    and "\<forall>k \<in> set batch. ent (rw_server w) k \<noteq> None \<and> matches p k"
    and "{k \<in> unseen (rw_server w) c. ent (rw_server w1) k \<noteq> None \<and> matches p k} \<subseteq>
      set batch \<union> (if c' = 0 then {} else unseen (rw_server w1) c')"
    and "c' \<noteq> 0 \<Longrightarrow> rank (rw_server w1) c' < rank (rw_server w) c"
proof -
  have found: "found = map Utf8 batch"
    by (rule decode_batch [OF assms(2)])
  from assms(1) obtain s1 where run: "r_scan cl c p 1000 (rw_server w) = (Inr (c', found), s1)"
    and s1: "rw_server w1 = s1"
    by (auto simp: on_server_run)
  note law = SCAN [OF run, unfolded found, folded s1]
  show "ages (ent (rw_server w)) (ent (rw_server w1))"
    using law by blast
  show "\<forall>k \<in> set batch. ent (rw_server w) k \<noteq> None \<and> matches p k"
    using law by auto
  show "{k \<in> unseen (rw_server w) c. ent (rw_server w1) k \<noteq> None \<and> matches p k} \<subseteq>
      set batch \<union> (if c' = 0 then {} else unseen (rw_server w1) c')"
    using law by auto
  show "rank (rw_server w1) c' < rank (rw_server w) c" if "c' \<noteq> 0"
    using law that by blast
qed

text \<open>The scan returns only keys that match, and all of them when the cap is not reached.\<close>

lemma ages_present: "ages m m' \<Longrightarrow> m' k \<noteq> None \<Longrightarrow> m k \<noteq> None"
  by (drule store_ages_le) (auto simp: map_le_def dom_def)

lemma scan_loop_sound:
  assumes "scan_loop n cl p mx c acc w = (Inr ks, w')"
  shows "ages (ent (rw_server w)) (ent (rw_server w')) \<and> set acc \<subseteq> set ks \<and>
    (\<forall>k \<in> set ks - set acc. ent (rw_server w) k \<noteq> None \<and> matches p k) \<and>
    (int (length ks) < mx \<longrightarrow>
      {k \<in> unseen (rw_server w) c. ent (rw_server w') k \<noteq> None \<and> matches p k} \<subseteq> set ks)"
  using assms
proof (induction n arbitrary: c acc w)
  case 0
  then show ?case by simp
next
  case (Suc n)
  from Suc.prems obtain c' found w1 batch where
      turn: "on_server (r_scan cl c p 1000) w = (Inr (c', found), w1)"
    and dec: "map_sum_list decode_utf8 found = Inr batch"
    and rest: "(if mx \<le> int (length (acc @ batch)) then ret (acc @ batch)
         else if c' = 0 then ret (acc @ batch)
         else scan_loop n cl p mx c' (acc @ batch)) w1 = (Inr ks, w')"
    by (auto simp: io_inv)
  note one = scan_turn [OF turn dec]
  show ?case
  proof (cases "mx \<le> int (length (acc @ batch)) \<or> c' = 0")
    case True
    with rest have "ks = acc @ batch" and "w' = w1"
      by (auto split: if_splits)
    with one True show ?thesis by auto
  next
    case False
    with rest have "scan_loop n cl p mx c' (acc @ batch) w1 = (Inr ks, w')"
      by (simp split: if_splits)
    note ih = Suc.IH [OF this]
    show ?thesis
    proof (intro conjI ballI impI)
      show "ages (ent (rw_server w)) (ent (rw_server w'))"
        using one(1) ih store_ages_trans by blast
      show "set acc \<subseteq> set ks"
        using ih by auto
      show "ent (rw_server w) k \<noteq> None" "matches p k" if "k \<in> set ks - set acc" for k
        using that one(2) ih ages_present [OF one(1)] by auto
      show "{k \<in> unseen (rw_server w) c. ent (rw_server w') k \<noteq> None \<and> matches p k} \<subseteq> set ks"
        if short: "int (length ks) < mx"
      proof
        fix k assume k: "k \<in> {k \<in> unseen (rw_server w) c. ent (rw_server w') k \<noteq> None \<and> matches p k}"
        have "ent (rw_server w1) k \<noteq> None"
          using k ih ages_present by blast
        with k one(3) False have "k \<in> set batch \<or> k \<in> unseen (rw_server w1) c'"
          by auto
        then show "k \<in> set ks"
        proof
          assume "k \<in> set batch"
          then show ?thesis using ih by auto
        next
          assume "k \<in> unseen (rw_server w1) c'"
          moreover have "{k \<in> unseen (rw_server w1) c'. ent (rw_server w') k \<noteq> None \<and> matches p k} \<subseteq> set ks"
            using ih short by blast
          ultimately show ?thesis using k by blast
        qed
      qed
    qed
  qed
qed

text \<open>More turns than the server's bound are never all used.\<close>

lemma scan_loop_terminates:
  assumes "rank (rw_server w) c < n"
    and "\<And>c s s'. \<not> r_scan cl c p 1000 s = (Inl OutOfFuel, s')"
  shows "\<not> scan_loop n cl p mx c acc w = (Inl OutOfFuel, w')"
  using assms(1)
proof (induction n arbitrary: c acc w)
  case 0
  then show ?case by simp
next
  case (Suc n)
  show ?case
  proof
    assume "scan_loop (Suc n) cl p mx c acc w = (Inl OutOfFuel, w')"
    then consider (scan) "on_server (r_scan cl c p 1000) w = (Inl OutOfFuel, w')"
      | (decode) found where "map_sum_list decode_utf8 found = Inl OutOfFuel"
      | (more) c' found w1 batch where
          "on_server (r_scan cl c p 1000) w = (Inr (c', found), w1)"
          "map_sum_list decode_utf8 found = Inr batch" "c' \<noteq> 0"
          "scan_loop n cl p mx c' (acc @ batch) w1 = (Inl OutOfFuel, w')"
      by (auto simp: io_inv split: if_splits)
    then show False
    proof cases
      case scan
      then show False using assms(2) by (auto simp: on_server_run)
    next
      case decode
      have "map_sum_list decode_utf8 bs \<noteq> Inl OutOfFuel" for bs
      proof (induction bs)
        case (Cons b bs)
        then show ?case by (cases b) (auto simp: bind_sum_Inl)
      qed simp
      with decode show False by blast
    next
      case more
      from scan_turn(4) [OF more(1,2,3)] Suc.prems
      have "rank (rw_server w1) c' < n" by simp
      with Suc.IH more(4) show False by blast
    qed
  qed
qed

end

section \<open>The adapter keeps the contract\<close>

lemma on_server_Inr:
  "on_server m w = (Inr x, w') \<Longrightarrow> m (rw_server w) = (Inr x, rw_server w')"
  by (auto simp: on_server_run)

context redis_laws
begin

lemma mget_row_entry:
  "mget_row L (case e of Some (Value b) \<Rightarrow> Some b | _ \<Rightarrow> None) = stored_json L e"
proof (cases "stored_text e")
  case None
  then show ?thesis
    by (cases e rule: stored_text.cases) (auto simp: mget_row_def stored_json_def split: entry.splits)
next
  case (Some t)
  then have e: "e = Some (Value (Utf8 t))"
    by (cases e rule: stored_text.cases) simp_all
  show ?thesis
    using loads_blank [of t] by (simp add: e mget_row_def stored_json_def json_of_text_def)
qed

lemma rc_get_contract:
  assumes "rc_get cl k w = (Inr r, w')"
  shows "ages (ent (rw_server w)) (ent (rw_server w')) \<and> r = stored_text (ent (rw_server w') k)"
proof -
  from assms obtain v w1 where get: "on_server (r_get cl k) w = (Inr v, w1)"
    and rest: "(case v of None \<Rightarrow> ret None
       | Some b \<Rightarrow> and_then (lift_sum (decode_utf8 b)) (\<lambda>s. ret (Some s))) w1 = (Inr r, w')"
    by (auto simp: rc_get_def io_inv)
  note law = GET [OF on_server_Inr [OF get]]
  show ?thesis
  proof (cases v)
    case None
    with law rest show ?thesis by simp
  next
    case (Some b)
    with law rest show ?thesis by (cases b) auto
  qed
qed

lemma rc_get_json_contract:
  assumes "rc_get_json L cl k w = (Inr j, w')"
  shows "ages (ent (rw_server w)) (ent (rw_server w')) \<and> j = stored_json L (ent (rw_server w') k)"
proof -
  from assms obtain v w1 where get: "rc_get cl k w = (Inr v, w1)"
    and rest: "(case v of None \<Rightarrow> ret JNull
       | Some t \<Rightarrow> if is_blank t then ret JNull
           else (case json_loads L t of Some parsed \<Rightarrow> ret parsed | None \<Rightarrow> ret JNull)) w1 = (Inr j, w')"
    by (auto simp: rc_get_json_def io_inv)
  have "w' = w1 \<and> j = (case v of None \<Rightarrow> JNull | Some t \<Rightarrow> json_of_text L t)"
    using rest by (auto simp: json_of_text_def split: option.splits if_splits)
  with rc_get_contract [OF get] show ?thesis
    by (simp add: stored_json_def)
qed

lemma rc_get_many_json_contract:
  assumes "rc_get_many_json L cl ks w = (Inr js, w')"
  shows "ages (ent (rw_server w)) (ent (rw_server w')) \<and>
    js = map (\<lambda>k. stored_json L (ent (rw_server w') k)) ks"
proof (cases "ks = []")
  case True
  with assms store_ages_refl show ?thesis by (simp add: rc_get_many_json_def)
next
  case False
  with assms obtain vs where "on_server (r_mget cl ks) w = (Inr vs, w')"
    and "js = map (mget_row L) vs"
    by (auto simp: rc_get_many_json_def io_inv)
  then show ?thesis
    using MGET [OF on_server_Inr] by (fastforce simp: mget_row_entry)
qed

lemma rc_cache_set_contract:
  assumes "rc_cache_set cl k t ttl w = (Inr b, w')"
  shows "b \<and> (\<exists>m. ages (ent (rw_server w)) m \<and> ent (rw_server w') = m(k \<mapsto> Value (Utf8 t)))"
proof (cases ttl)
  case None
  with assms obtain r where run: "on_server (r_set cl k (Utf8 t) None False) w = (Inr r, w')" and b
    by (auto simp: rc_cache_set_def io_inv)
  with SET [OF on_server_Inr [OF run]] show ?thesis by blast
next
  case (Some secs)
  with assms have run: "on_server (r_setex cl k secs (Utf8 t)) w = (Inr (), w')" and b
    by (auto simp: rc_cache_set_def io_inv)
  with SETEX [OF on_server_Inr [OF run]] show ?thesis by blast
qed

lemma rc_delete_contract:
  assumes "rc_delete cl k w = (Inr b, w')"
  shows "\<exists>m. ages (ent (rw_server w)) m \<and> b = (m k \<noteq> None) \<and> ent (rw_server w') = m(k := None)"
proof -
  from assms obtain n where "on_server (r_delete cl k) w = (Inr n, w')" and "b = (0 < n)"
    by (auto simp: rc_delete_def io_inv)
  with DEL [OF on_server_Inr] show ?thesis by fastforce
qed

lemma rc_exists_contract:
  assumes "rc_exists cl k w = (Inr b, w')"
  shows "ages (ent (rw_server w)) (ent (rw_server w')) \<and> b = (ent (rw_server w') k \<noteq> None)"
proof -
  from assms obtain n where "on_server (r_exists cl k) w = (Inr n, w')" and "b = (0 < n)"
    by (auto simp: rc_exists_def io_inv)
  with EXISTS [OF on_server_Inr] show ?thesis by fastforce
qed

lemma rc_add_to_set_contract:
  assumes "rc_add_to_set cl k v w = (Inr b, w')"
  shows "\<exists>m A. ages (ent (rw_server w)) m \<and> set_at (m k) = Some A \<and> b = (Utf8 v \<notin> A) \<and>
    ent (rw_server w') = m(k \<mapsto> Members (insert (Utf8 v) A))"
proof -
  from assms obtain n where run: "on_server (r_sadd cl k (Utf8 v)) w = (Inr n, w')" and b: "b = (0 < n)"
    by (auto simp: rc_add_to_set_def io_inv)
  from SADD [OF on_server_Inr [OF run]] b show ?thesis
    by (metis of_bool_eq(1,2) less_irrefl zero_less_one)
qed

lemma rc_remove_from_set_contract:
  assumes "rc_remove_from_set cl k v w = (Inr b, w')"
  shows "\<exists>m A. ages (ent (rw_server w)) m \<and> set_at (m k) = Some A \<and> b = (Utf8 v \<in> A) \<and>
    ent (rw_server w') = m(k := set_entry (A - {Utf8 v}))"
proof -
  from assms obtain n where run: "on_server (r_srem cl k (Utf8 v)) w = (Inr n, w')" and b: "b = (0 < n)"
    by (auto simp: rc_remove_from_set_def io_inv)
  from SREM [OF on_server_Inr [OF run]] b show ?thesis
    by (metis of_bool_eq(1,2) less_irrefl zero_less_one)
qed

lemma rc_set_members_contract:
  assumes "rc_set_members cl k w = (Inr vs, w')"
  shows "ages (ent (rw_server w)) (ent (rw_server w')) \<and> distinct vs \<and>
    set_at (ent (rw_server w') k) = Some (Utf8 ` set vs)"
proof -
  from assms obtain bs us where run: "on_server (r_smembers cl k) w = (Inr bs, w')"
    and us: "map_sum_list decode_utf8 bs = Inr us" and vs: "vs = remdups us"
    by (auto simp: rc_set_members_def io_inv)
  from SMEMBERS [OF on_server_Inr [OF run]] decode_batch [OF us] vs show ?thesis
    by simp
qed

lemma rc_acquire_lock_contract:
  assumes "rc_acquire_lock cl k secs owner w = (Inr r, w')"
  shows "case r of
      None \<Rightarrow> ages (ent (rw_server w)) (ent (rw_server w')) \<and> ent (rw_server w') (lock_entry k) \<noteq> None
    | Some t \<Rightarrow> (given owner \<longrightarrow> owner = Some t) \<and>
        (\<exists>m. ages (ent (rw_server w)) m \<and> m (lock_entry k) = None \<and>
          ent (rw_server w') = m(lock_entry k \<mapsto> Value (Utf8 t)))"
proof -
  from assms obtain t w1 res where
      pick: "(if given owner then ret (the owner) else draw_uuid) w = (Inr t, w1)"
    and set: "on_server (r_set cl (lock_entry k) (Utf8 t) (Some secs) True) w1 = (Inr res, w')"
    and r: "r = (if res = Some True then Some t else None)"
    by (auto simp: rc_acquire_lock_def lock_entry_def io_inv)
  from pick have same: "rw_server w1 = rw_server w" and t: "given owner \<longrightarrow> owner = Some t"
    by (auto simp: draw_uuid_def given_iff split: if_splits)
  from SET_NX [OF on_server_Inr [OF set]] t r show ?thesis
    by (auto simp: same split: if_splits)
qed

lemma rc_release_lock_contract:
  assumes "rc_release_lock cl k v w = (Inr b, w')"
  shows "\<exists>m. ages (ent (rw_server w)) m \<and> b = (m (lock_entry k) = Some (Value (Utf8 v))) \<and>
    ent (rw_server w') = (if b then m(lock_entry k := None) else m)"
proof -
  from assms obtain n where run: "on_server (r_eval cl release_script 1 [lock_entry k, v]) w = (Inr n, w')"
    and b: "b = (n = 1)"
    by (auto simp: rc_release_lock_def lock_entry_def io_inv)
  from EVAL_release [OF on_server_Inr [OF run]] b show ?thesis
    by (metis of_bool_eq(1,2) zero_neq_one)
qed

lemma rc_scan_keys_contract:
  assumes "rc_scan_keys n cl p mx w = (Inr ks, w')"
  shows "ages (ent (rw_server w)) (ent (rw_server w')) \<and> mx \<le> 10000 \<and>
    (0 \<le> mx \<longrightarrow> int (length ks) \<le> mx) \<and>
    (\<forall>k \<in> set ks. ent (rw_server w) k \<noteq> None \<and> matches p k) \<and>
    (int (length ks) < mx \<longrightarrow> {k. ent (rw_server w') k \<noteq> None \<and> matches p k} \<subseteq> set ks)"
proof -
  from assms obtain all where cap: "mx \<le> 10000"
    and loop: "scan_loop n cl p mx 0 [] w = (Inr all, w')" and ks: "ks = py_slice all 0 mx"
    by (auto simp: rc_scan_keys_def io_inv split: if_splits)
  note sound = scan_loop_sound [OF loop]
  have all_seen: "{k. ent (rw_server w') k \<noteq> None \<and> matches p k} \<subseteq> set ks"
    if short: "int (length ks) < mx"
  proof -
    from short have pos: "0 \<le> mx" by linarith
    with short have "ks = all" and "int (length all) < mx"
      by (auto simp: ks py_slice_prefix min_def split: if_splits)
    moreover have "ent (rw_server w) k \<noteq> None" if "ent (rw_server w') k \<noteq> None" for k
      using sound ages_present that by blast
    ultimately show ?thesis
      using sound SCAN_start by auto
  qed
  have "0 \<le> mx \<longrightarrow> int (length ks) \<le> mx"
    by (auto simp: ks py_slice_prefix)
  moreover have "\<forall>k \<in> set ks. ent (rw_server w) k \<noteq> None \<and> matches p k"
    using sound set_py_slice [of all 0 mx] ks by auto
  ultimately show ?thesis
    using sound cap all_seen by blast
qed

end

sublocale redis_laws \<subseteq>
  adapter: cache_contract L "redis_cache fuel L cl" "\<lambda>w. ent (rw_server w)" ages matches
proof (unfold_locales, goal_cases)
  case (1 m m')
  then show ?case by (rule store_ages_le)
next
  case (2 m)
  show ?case by (rule store_ages_refl)
next
  case (3 m m' m'')
  then show ?case by (rule store_ages_trans)
next
  case (4 p k)
  then show ?case by (rule glob_prefix)
next
  case (5 k s r s')
  then show ?case unfolding redis_cache_sel by (rule rc_get_contract)
next
  case (6 k t ttl s b s')
  then show ?case unfolding redis_cache_sel by (rule rc_cache_set_contract)
next
  case (7 k s b s')
  then show ?case unfolding redis_cache_sel by (rule rc_delete_contract)
next
  case (8 k s b s')
  then show ?case unfolding redis_cache_sel by (rule rc_exists_contract)
next
  case (9 k secs s b s')
  then show ?case
    using EXPIRE [OF on_server_Inr] by (simp add: redis_cache_def rc_expire_def)
next
  case (10 k v s b s')
  then show ?case unfolding redis_cache_sel by (rule rc_add_to_set_contract)
next
  case (11 k v s b s')
  then show ?case unfolding redis_cache_sel by (rule rc_remove_from_set_contract)
next
  case (12 k s vs s')
  then show ?case unfolding redis_cache_sel by (rule rc_set_members_contract)
next
  case (13 k secs owner s r s')
  then show ?case unfolding redis_cache_sel by (rule rc_acquire_lock_contract)
next
  case (14 k v s b s')
  then show ?case unfolding redis_cache_sel by (rule rc_release_lock_contract)
next
  case (15 p n s ks s')
  then show ?case unfolding redis_cache_sel by (rule rc_scan_keys_contract)
next
  case (16 k s j s')
  then show ?case unfolding redis_cache_sel by (rule rc_get_json_contract)
next
  case (17 ks s js s')
  then show ?case unfolding redis_cache_sel by (rule rc_get_many_json_contract)
next
  case (18 k d ttl s b s')
  then show ?case
    using rc_cache_set_contract [of k "json_dumps L (JObj d)" ttl s b s']
    by (simp add: rc_set_json_def dump_entry_def)
qed

context redis_laws
begin

lemma adapter_contract:
  "cache_contract L (redis_cache fuel L cl) (\<lambda>w. ent (rw_server w)) ages matches"
  by unfold_locales

end

end
