(* ===== verification/RefServer.thy ===== *)
theory RefServer
  imports RefLibrary RedisCache
begin

text \<open>
  A concrete key-value server with the documented behaviour of the Redis commands that the
  adapter uses. Every command advances the server's clock by \<open>dt\<close> seconds, and an entry is gone
  once its time is reached. With \<open>dt = 0\<close> nothing ever expires. The commands raise what Redis
  answers with an error: a key of the wrong type, a time to live that is not positive.
\<close>

datatype held = Text rbytes | Bag "rbytes list"

record server =
  sv_now :: int
  sv_data :: "(string \<times> held \<times> int option) list"

definition not_due :: "int \<Rightarrow> int option \<Rightarrow> bool" where
  "not_due now e = (case e of None \<Rightarrow> True | Some t \<Rightarrow> now < t)"

definition look :: "server \<Rightarrow> string \<Rightarrow> (held \<times> int option) option" where
  "look s k =
     (case map_of (sv_data s) k of
        None \<Rightarrow> None
      | Some (v, e) \<Rightarrow> if not_due (sv_now s) e then Some (v, e) else None)"

definition put :: "string \<Rightarrow> held \<Rightarrow> int option \<Rightarrow> server \<Rightarrow> server" where
  "put k v e s = s\<lparr>sv_data := (k, v, e) # filter (\<lambda>kv. fst kv \<noteq> k) (sv_data s)\<rparr>"

definition del :: "string \<Rightarrow> server \<Rightarrow> server" where
  "del k s = s\<lparr>sv_data := filter (\<lambda>kv. fst kv \<noteq> k) (sv_data s)\<rparr>"

definition tick :: "nat \<Rightarrow> server \<Rightarrow> server" where
  "tick dt s = s\<lparr>sv_now := sv_now s + int dt\<rparr>"

fun held_entry :: "held \<Rightarrow> entry" where
  "held_entry (Text b) = Value b"
| "held_entry (Bag bs) = Members (set bs)"

definition server_ent :: "server \<Rightarrow> store" where
  "server_ent s k = (case look s k of None \<Rightarrow> None | Some (v, e) \<Rightarrow> Some (held_entry v))"

definition server_ages :: "nat \<Rightarrow> store \<Rightarrow> store \<Rightarrow> bool" where
  "server_ages dt m m' \<longleftrightarrow> (if dt = 0 then m' = m else m' \<subseteq>\<^sub>m m)"

lemma map_of_filter_other: "map_of (filter (\<lambda>kv. fst kv \<noteq> k) d) = (map_of d)(k := None)"
  by (rule ext) (induction d; auto)

lemma look_put: "look (put k v e s) x =
    (if x = k then (if not_due (sv_now s) e then Some (v, e) else None) else look s x)"
  by (simp add: look_def put_def map_of_filter_other split: option.split)

lemma look_del: "look (del k s) x = (if x = k then None else look s x)"
  by (simp add: look_def del_def map_of_filter_other split: option.split)

lemma server_ent_put: "not_due (sv_now s) e \<Longrightarrow> server_ent (put k v e s) = (server_ent s)(k \<mapsto> held_entry v)"
  by (simp add: server_ent_def look_put fun_eq_iff)

lemma server_ent_del: "server_ent (del k s) = (server_ent s)(k := None)"
  by (simp add: server_ent_def look_del fun_eq_iff)

lemma server_ages_tick: "server_ages dt (server_ent s) (server_ent (tick dt s))"
  by (auto simp: server_ages_def server_ent_def look_def tick_def not_due_def map_le_def dom_def
      split: option.splits if_splits)

lemma look_not_due: "look s k = Some (v, e) \<Longrightarrow> not_due (sv_now s) e"
  by (auto simp: look_def split: option.splits if_splits)

lemma server_ent_look [simp]:
  "look s k = Some (v, e) \<Longrightarrow> server_ent s k = Some (held_entry v)"
  "look s k = None \<Longrightarrow> server_ent s k = None"
  by (simp_all add: server_ent_def)

lemma server_ent_None: "server_ent s k = None \<longleftrightarrow> look s k = None"
  by (auto simp: server_ent_def split: option.splits)

section \<open>Patterns\<close>

fun glob :: "string \<Rightarrow> string \<Rightarrow> bool" where
  "glob [] k = (k = [])"
| "glob (p # ps) [] = (p = CHR ''*'' \<and> glob ps [])"
| "glob (p # ps) (c # cs) =
     (if p = CHR ''*'' then glob ps (c # cs) \<or> glob (p # ps) cs
      else (p = CHR ''?'' \<or> p = c) \<and> glob ps cs)"

lemma glob_star: "glob ''*'' k"
  by (induction k) simp_all

lemma glob_prefix_star: "glob_literal p \<Longrightarrow> glob (p @ ''*'') k \<longleftrightarrow> prefix p k"
proof (induction p arbitrary: k)
  case Nil
  then show ?case by (simp add: glob_star)
next
  case (Cons c p)
  then have "c \<noteq> CHR ''*''" and "c \<noteq> CHR ''?''" and "glob_literal p"
    by (auto simp: glob_literal_def)
  with Cons.IH show ?case by (cases k) auto
qed

section \<open>Commands\<close>

definition command :: "nat \<Rightarrow> (server \<Rightarrow> (exn + 'a) \<times> server) \<Rightarrow> (server, 'a) io" where
  "command dt f = (\<lambda>s. f (tick dt s))"

definition wrong_type :: exn where
  "wrong_type = RedisError ''WRONGTYPE''"

definition deadline :: "int \<Rightarrow> server \<Rightarrow> int option \<Rightarrow> exn + int option" where
  "deadline now s ttl =
     (case ttl of
        None \<Rightarrow> Inr None
      | Some t \<Rightarrow> if 0 < t then Inr (Some (now + t)) else Inl (RedisError ''invalid expire time''))"

definition sv_get :: "string \<Rightarrow> server \<Rightarrow> (exn + rbytes option) \<times> server" where
  "sv_get k s =
     (case look s k of
        None \<Rightarrow> (Inr None, s)
      | Some (Text b, e) \<Rightarrow> (Inr (Some b), s)
      | Some (Bag bs, e) \<Rightarrow> (Inl wrong_type, s))"

definition sv_mget :: "string list \<Rightarrow> server \<Rightarrow> (exn + rbytes option list) \<times> server" where
  "sv_mget ks s =
     (Inr (map (\<lambda>k. case look s k of Some (Text b, e) \<Rightarrow> Some b | _ \<Rightarrow> None) ks), s)"

definition sv_set :: "string \<Rightarrow> rbytes \<Rightarrow> int option \<Rightarrow> bool \<Rightarrow> server \<Rightarrow> (exn + bool option) \<times> server"
where
  "sv_set k b ex nx s =
     (case deadline (sv_now s) s ex of
        Inl e \<Rightarrow> (Inl e, s)
      | Inr t \<Rightarrow>
          if nx \<and> look s k \<noteq> None then (Inr None, s)
          else (Inr (Some True), put k (Text b) t s))"

definition sv_setex :: "string \<Rightarrow> int \<Rightarrow> rbytes \<Rightarrow> server \<Rightarrow> (exn + unit) \<times> server" where
  "sv_setex k secs b s =
     (case deadline (sv_now s) s (Some secs) of
        Inl e \<Rightarrow> (Inl e, s)
      | Inr t \<Rightarrow> (Inr (), put k (Text b) t s))"

definition sv_delete :: "string \<Rightarrow> server \<Rightarrow> (exn + int) \<times> server" where
  "sv_delete k s = (Inr (of_bool (look s k \<noteq> None)), del k s)"

definition sv_exists :: "string \<Rightarrow> server \<Rightarrow> (exn + int) \<times> server" where
  "sv_exists k s = (Inr (of_bool (look s k \<noteq> None)), s)"

definition sv_sadd :: "string \<Rightarrow> rbytes \<Rightarrow> server \<Rightarrow> (exn + int) \<times> server" where
  "sv_sadd k b s =
     (case look s k of
        None \<Rightarrow> (Inr 1, put k (Bag [b]) None s)
      | Some (Bag bs, e) \<Rightarrow>
          if b \<in> set bs then (Inr 0, s) else (Inr 1, put k (Bag (bs @ [b])) e s)
      | Some (Text _, e) \<Rightarrow> (Inl wrong_type, s))"

definition sv_srem :: "string \<Rightarrow> rbytes \<Rightarrow> server \<Rightarrow> (exn + int) \<times> server" where
  "sv_srem k b s =
     (case look s k of
        None \<Rightarrow> (Inr 0, s)
      | Some (Bag bs, e) \<Rightarrow>
          let bs' = filter (\<lambda>x. x \<noteq> b) bs in
          (Inr (of_bool (b \<in> set bs)), if bs' = [] then del k s else put k (Bag bs') e s)
      | Some (Text _, e) \<Rightarrow> (Inl wrong_type, s))"

definition sv_smembers :: "string \<Rightarrow> server \<Rightarrow> (exn + rbytes list) \<times> server" where
  "sv_smembers k s =
     (case look s k of
        None \<Rightarrow> (Inr [], s)
      | Some (Bag bs, e) \<Rightarrow> (Inr bs, s)
      | Some (Text _, e) \<Rightarrow> (Inl wrong_type, s))"

definition live_keys :: "server \<Rightarrow> string list" where
  "live_keys s = filter (\<lambda>k. look s k \<noteq> None) (remdups (map fst (sv_data s)))"

text \<open>A scan returns all keys at once.\<close>

definition sv_scan :: "int \<Rightarrow> string \<Rightarrow> int \<Rightarrow> server \<Rightarrow> (exn + int \<times> rbytes list) \<times> server" where
  "sv_scan c p cnt s = (Inr (0, map Utf8 (filter (glob p) (live_keys s))), s)"

definition sv_eval :: "string \<Rightarrow> int \<Rightarrow> string list \<Rightarrow> server \<Rightarrow> (exn + int) \<times> server" where
  "sv_eval script n args s =
     (if script = release_script
      then (case args of
              [k, t] \<Rightarrow>
                (case look s k of
                   None \<Rightarrow> (Inr 0, s)
                 | Some (Text b, e) \<Rightarrow> if b = Utf8 t then (Inr 1, del k s) else (Inr 0, s)
                 | Some (Bag _, e) \<Rightarrow> (Inl wrong_type, s))
            | _ \<Rightarrow> (Inl (RedisError ''ERR''), s))
      else (Inl (RedisError ''ERR''), s))"

definition sv_expire :: "string \<Rightarrow> int \<Rightarrow> server \<Rightarrow> (exn + bool) \<times> server" where
  "sv_expire k secs s =
     (case look s k of
        None \<Rightarrow> (Inr False, s)
      | Some (v, e) \<Rightarrow>
          (Inr True, if 0 < secs then put k v (Some (sv_now s + secs)) s else del k s))"

definition sv_incr :: "string \<Rightarrow> server \<Rightarrow> (exn + int) \<times> server" where
  "sv_incr k s =
     (case look s k of
        None \<Rightarrow> (Inr 1, put k (Text (Utf8 (enc_int 1))) None s)
      | Some (Text (Utf8 t), e) \<Rightarrow>
          (case dec_all dec_int t of
             Some i \<Rightarrow> (Inr (i + 1), put k (Text (Utf8 (enc_int (i + 1)))) e s)
           | None \<Rightarrow> (Inl (RedisError ''value is not an integer''), s))
      | _ \<Rightarrow> (Inl wrong_type, s))"

definition ref_redis :: "nat \<Rightarrow> server redis_client" where
  "ref_redis dt =
     \<lparr>r_get = \<lambda>k. command dt (sv_get k), r_mget = \<lambda>ks. command dt (sv_mget ks),
      r_set = \<lambda>k b ex nx. command dt (sv_set k b ex nx),
      r_setex = \<lambda>k t b. command dt (sv_setex k t b), r_delete = \<lambda>k. command dt (sv_delete k),
      r_exists = \<lambda>k. command dt (sv_exists k), r_sadd = \<lambda>k b. command dt (sv_sadd k b),
      r_srem = \<lambda>k b. command dt (sv_srem k b), r_smembers = \<lambda>k. command dt (sv_smembers k),
      r_scan = \<lambda>c p n. command dt (sv_scan c p n),
      r_eval = \<lambda>script n args. command dt (sv_eval script n args),
      r_ping = command dt (\<lambda>s. (Inr True, s)), r_incr = \<lambda>k. command dt (sv_incr k),
      r_expire = \<lambda>k t. command dt (sv_expire k t),
      r_flushdb = command dt (\<lambda>s. (Inr True, s\<lparr>sv_data := []\<rparr>)),
      r_aclose = command dt (\<lambda>s. (Inr (), s))\<rparr>"

section \<open>The server keeps the laws\<close>

lemma deadline_not_due: "deadline (sv_now s) s ttl = Inr t \<Longrightarrow> not_due (sv_now s) t"
  by (auto simp: deadline_def not_due_def split: option.splits if_splits)

lemma live_keys_look: "k \<in> set (live_keys s) \<longleftrightarrow> look s k \<noteq> None"
  by (auto simp: live_keys_def look_def dest: map_of_SomeD split: option.splits intro: rev_image_eqI)

definition server_unseen :: "server \<Rightarrow> int \<Rightarrow> string set" where
  "server_unseen s c = {k. server_ent s k \<noteq> None}"

lemma server_present:
  "server_ages dt m m' \<Longrightarrow> m' k \<noteq> None \<Longrightarrow> m k \<noteq> None"
  by (auto simp: server_ages_def map_le_def dom_def split: if_splits)

lemma server_ages_refl: "server_ages dt m m"
  by (simp add: server_ages_def)

lemma server_ages_trans: "server_ages dt m m' \<Longrightarrow> server_ages dt m' m'' \<Longrightarrow> server_ages dt m m''"
  by (auto simp: server_ages_def intro: map_le_trans split: if_splits)

text \<open>Each command, on the server whose clock it has advanced.\<close>

lemma sv_get_law: "sv_get k s = (Inr v, s') \<Longrightarrow> s' = s \<and> server_ent s k = map_option Value v"
  by (auto simp: sv_get_def split: option.splits held.splits prod.splits)

lemma sv_mget_law: "sv_mget ks s = (Inr vs, s') \<Longrightarrow>
    s' = s \<and> vs = map (\<lambda>k. case server_ent s k of Some (Value b) \<Rightarrow> Some b | _ \<Rightarrow> None) ks"
  by (auto simp: sv_mget_def server_ent_def split: option.splits held.splits)

lemma sv_set_law:
  assumes "sv_set k b ex nx s = (Inr r, s')"
  shows "if nx \<and> r \<noteq> Some True then s' = s \<and> server_ent s k \<noteq> None
    else server_ent s' = (server_ent s)(k \<mapsto> Value b) \<and> (nx \<longrightarrow> server_ent s k = None)"
  using assms deadline_not_due [of s ex]
  by (cases "look s k") (auto simp: sv_set_def server_ent_put split: sum.splits if_splits)

lemma sv_setex_law: "sv_setex k secs b s = (Inr u, s') \<Longrightarrow> server_ent s' = (server_ent s)(k \<mapsto> Value b)"
  using deadline_not_due [of s "Some secs"]
  by (auto simp: sv_setex_def server_ent_put split: sum.splits)

lemma sv_delete_law: "sv_delete k s = (Inr n, s') \<Longrightarrow>
    n = of_bool (server_ent s k \<noteq> None) \<and> server_ent s' = (server_ent s)(k := None)"
  by (auto simp: sv_delete_def server_ent_None server_ent_del)

lemma sv_exists_law: "sv_exists k s = (Inr n, s') \<Longrightarrow> s' = s \<and> n = of_bool (server_ent s k \<noteq> None)"
  by (auto simp: sv_exists_def server_ent_None)

lemma sv_sadd_law:
  assumes "sv_sadd k b s = (Inr n, s')"
  shows "\<exists>A. set_at (server_ent s k) = Some A \<and> n = of_bool (b \<notin> A) \<and>
    server_ent s' = (server_ent s)(k \<mapsto> Members (insert b A))"
proof (cases "look s k")
  case None
  with assms show ?thesis
    by (auto simp: sv_sadd_def server_ent_put not_due_def)
next
  case (Some ve)
  obtain v e where "ve = (v, e)" by force
  with Some assms look_not_due show ?thesis
    by (cases v) (auto simp: sv_sadd_def server_ent_put insert_absorb fun_upd_idem split: if_splits)
qed

lemma sv_srem_law:
  assumes "sv_srem k b s = (Inr n, s')"
  shows "\<exists>A. set_at (server_ent s k) = Some A \<and> n = of_bool (b \<in> A) \<and>
    server_ent s' = (server_ent s)(k := set_entry (A - {b}))"
proof (cases "look s k")
  case None
  with assms show ?thesis
    by (auto simp: sv_srem_def set_entry_def fun_upd_idem)
next
  case (Some ve)
  obtain v e where ve: "ve = (v, e)" by force
  show ?thesis
  proof (cases v)
    case (Text x)
    with Some ve assms show ?thesis by (simp add: sv_srem_def)
  next
    case (Bag bs)
    have "{x \<in> set bs. x \<noteq> b} = set bs - {b}" by auto
    with Bag Some ve assms look_not_due show ?thesis
      by (auto simp: sv_srem_def set_entry_def server_ent_put server_ent_del Let_def
          filter_empty_conv split: if_splits)
  qed
qed

lemma sv_smembers_law:
  "sv_smembers k s = (Inr bs, s') \<Longrightarrow> s' = s \<and> set_at (server_ent s k) = Some (set bs)"
  by (auto simp: sv_smembers_def split: option.splits held.splits prod.splits)

lemma sv_eval_law: "sv_eval release_script 1 [k, t] s = (Inr n, s') \<Longrightarrow>
    n = of_bool (server_ent s k = Some (Value (Utf8 t))) \<and>
    server_ent s' = (if n = 1 then (server_ent s)(k := None) else server_ent s)"
  by (auto simp: sv_eval_def server_ent_del split: option.splits held.splits prod.splits if_splits)

lemma sv_expire_law:
  assumes "sv_expire k secs s = (Inr b, s')" and "0 < secs"
  shows "server_ent s' = server_ent s \<and> b = (server_ent s k \<noteq> None)"
proof (cases "look s k")
  case None
  with assms show ?thesis by (simp add: sv_expire_def)
next
  case (Some ve)
  obtain v e where "ve = (v, e)" by force
  moreover have "not_due (sv_now s) (Some (sv_now s + secs))"
    using assms(2) by (simp add: not_due_def)
  ultimately show ?thesis
    using Some assms by (auto simp: sv_expire_def server_ent_put fun_upd_idem)
qed

lemmas server_laws = sv_get_law sv_mget_law sv_set_law sv_setex_law sv_delete_law sv_exists_law
  sv_sadd_law sv_srem_law sv_smembers_law sv_eval_law sv_expire_law

lemma server_redis_laws:
  "redis_laws ref_lib (ref_redis dt) server_ent (server_ages dt) glob server_unseen (\<lambda>s c. 0)"
proof (unfold_locales, goal_cases)
  case (1 m m')
  then show ?case by (auto simp: server_ages_def split: if_splits)
next
  case (2 m)
  show ?case by (rule server_ages_refl)
next
  case (3 m m' m'')
  then show ?case by (rule server_ages_trans)
next
  case (4 p k)
  then show ?case by (rule glob_prefix_star)
next
  case (5 k s v s')
  then show ?case
    using server_ages_tick by (auto simp: ref_redis_def command_def dest!: sv_get_law)
next
  case (6 ks s vs s')
  then have "sv_mget ks (tick dt s) = (Inr vs, s')"
    by (simp add: ref_redis_def command_def)
  from sv_mget_law [OF this] show ?case using server_ages_tick by simp
next
  case (7 k b ex s r s')
  then have "sv_set k b ex False (tick dt s) = (Inr r, s')"
    by (simp add: ref_redis_def command_def)
  from sv_set_law [OF this] show ?case using server_ages_tick by auto
next
  case (8 k b ex s r s')
  then have "sv_set k b ex True (tick dt s) = (Inr r, s')"
    by (simp add: ref_redis_def command_def)
  from sv_set_law [OF this] show ?case using server_ages_tick by (auto split: if_splits)
next
  case (9 k secs b s u s')
  then have "sv_setex k secs b (tick dt s) = (Inr u, s')"
    by (simp add: ref_redis_def command_def)
  from sv_setex_law [OF this] show ?case using server_ages_tick by blast
next
  case (10 k s n s')
  then have "sv_delete k (tick dt s) = (Inr n, s')"
    by (simp add: ref_redis_def command_def)
  from sv_delete_law [OF this] show ?case using server_ages_tick by blast
next
  case (11 k s n s')
  then have "sv_exists k (tick dt s) = (Inr n, s')"
    by (simp add: ref_redis_def command_def)
  from sv_exists_law [OF this] show ?case using server_ages_tick by blast
next
  case (12 k b s n s')
  then have "sv_sadd k b (tick dt s) = (Inr n, s')"
    by (simp add: ref_redis_def command_def)
  from sv_sadd_law [OF this] show ?case using server_ages_tick by blast
next
  case (13 k b s n s')
  then have "sv_srem k b (tick dt s) = (Inr n, s')"
    by (simp add: ref_redis_def command_def)
  from sv_srem_law [OF this] show ?case using server_ages_tick by blast
next
  case (14 k s bs s')
  then have "sv_smembers k (tick dt s) = (Inr bs, s')"
    by (simp add: ref_redis_def command_def)
  from sv_smembers_law [OF this] show ?case using server_ages_tick by blast
next
  case (15 c p cnt s c' bs s')
  then have "c' = 0" and "s' = tick dt s" and "bs = map Utf8 (filter (glob p) (live_keys (tick dt s)))"
    by (auto simp: ref_redis_def command_def sv_scan_def)
  then show ?case
    using server_ages_tick [of dt s] server_present [OF server_ages_tick [of dt s]]
    by (auto simp: live_keys_look server_ent_None)
next
  case (16 s k)
  then show ?case by (simp add: server_unseen_def)
next
  case (17 k t s n s')
  then have "sv_eval release_script 1 [k, t] (tick dt s) = (Inr n, s')"
    by (simp add: ref_redis_def command_def)
  from sv_eval_law [OF this] show ?case using server_ages_tick by blast
next
  case (18 k secs s found s')
  then have "sv_expire k secs (tick dt s) = (Inr found, s')" and "0 < secs"
    by (simp_all add: ref_redis_def command_def)
  from sv_expire_law [OF this] show ?case using server_ages_tick by simp
qed

end
