(* ===== verification/Runs.thy ===== *)
theory Runs
  imports World Entities
begin

text \<open>
  \<open>RunService\<close>, \<open>services/assistants/run_service.py\<close>: the executions of an assistant on a
  thread, kept in the cache and mirrored to a database repository, with the state machine of
  their status; and the server-sent events of a run, \<open>run_streaming.py\<close>. The repository is a
  parameter; the service only writes to it.
\<close>

section \<open>Data\<close>

datatype run_status =
    Queued | InProgress | RequiresAction | Cancelling | Cancelled | Failed | RunCompleted | Expired

fun run_status_text :: "run_status \<Rightarrow> string" where
  "run_status_text Queued = ''queued''"
| "run_status_text InProgress = ''in_progress''"
| "run_status_text RequiresAction = ''requires_action''"
| "run_status_text Cancelling = ''cancelling''"
| "run_status_text Cancelled = ''cancelled''"
| "run_status_text Failed = ''failed''"
| "run_status_text RunCompleted = ''completed''"
| "run_status_text Expired = ''expired''"

definition all_run_statuses :: "run_status list" where
  "all_run_statuses =
     [Queued, InProgress, RequiresAction, Cancelling, Cancelled, Failed, RunCompleted, Expired]"

text \<open>Unknown text reads as \<open>queued\<close>.\<close>

definition parse_run_status :: "string \<Rightarrow> run_status" where
  "parse_run_status t =
     (case find (\<lambda>st. run_status_text st = t) all_run_statuses of Some st \<Rightarrow> st | None \<Rightarrow> Queued)"

lemma parse_run_status_text [simp]: "parse_run_status (run_status_text st) = st"
  by (cases st) (simp_all add: parse_run_status_def all_run_statuses_def)

text \<open>
  The typed dictionaries \<open>RequiredAction\<close>, \<open>RunError\<close> and \<open>RunUsage\<close> are plain dictionaries
  at run time, and the parser casts whatever dictionary it finds.
\<close>

record run =
  run_id :: string
  run_thread_id :: string
  run_assistant_id :: string
  run_created_at :: int
  run_state :: run_status
  run_model :: string
  run_instructions :: "string option"
  run_tools :: "json dict list"
  run_metadata :: "string dict"
  run_required_action :: "json dict option"
  run_last_error :: "json dict option"
  run_usage :: "json dict option"
  run_started_at :: "int option"
  run_expires_at :: "int option"
  run_cancelled_at :: "int option"
  run_failed_at :: "int option"
  run_completed_at :: "int option"

record tool_call =
  tc_id :: string
  tc_name :: string
  tc_arguments :: string

definition tool_call_json :: "tool_call \<Rightarrow> json" where
  "tool_call_json t =
     JObj [(''id'', JStr (tc_id t)), (''type'', JStr ''function''),
           (''function'', JObj [(''name'', JStr (tc_name t)), (''arguments'', JStr (tc_arguments t))])]"

text \<open>
  \<open>RunRepository\<close>: \<open>create\<close> with its arguments in the protocol's order, and \<open>update\<close>, whose
  result the service ignores.
\<close>

record 'd run_repo =
  rr_create :: "string \<Rightarrow> string \<Rightarrow> string \<Rightarrow> string \<Rightarrow> string \<Rightarrow> string option \<Rightarrow> json dict list \<Rightarrow>
     string dict \<Rightarrow> ('d, unit) io"
  rr_update :: "string \<Rightarrow> string option \<Rightarrow> json dict option \<Rightarrow> json dict option \<Rightarrow> json dict option \<Rightarrow>
     ('d, bool) io"

record ('c, 'd) run_service =
  rs_lib :: pylib
  rs_cache :: "'c cache option"
  rs_repo :: "'d run_repo option"
  rs_ttl :: int

section \<open>The cached dictionary\<close>

definition run_cache_key :: "string \<Rightarrow> string \<Rightarrow> string" where
  "run_cache_key thread_id rid = ''run:'' @ thread_id @ '':'' @ rid"

definition run_payload :: "run \<Rightarrow> json dict" where
  "run_payload r =
     [(''id'', JStr (run_id r)),
      (''thread_id'', JStr (run_thread_id r)),
      (''assistant_id'', JStr (run_assistant_id r)),
      (''created_at'', JInt (run_created_at r)),
      (''status'', JStr (run_status_text (run_state r))),
      (''model'', JStr (run_model r)),
      (''instructions'', json_of_opt JStr (run_instructions r)),
      (''tools'', JArr (map JObj (run_tools r))),
      (''metadata'', JObj (strings_obj (run_metadata r))),
      (''required_action'', json_of_dict_opt (run_required_action r)),
      (''last_error'', json_of_dict_opt (run_last_error r)),
      (''usage'', json_of_dict_opt (run_usage r)),
      (''started_at'', json_of_opt JInt (run_started_at r)),
      (''expires_at'', json_of_opt JInt (run_expires_at r)),
      (''cancelled_at'', json_of_opt JInt (run_cancelled_at r)),
      (''failed_at'', json_of_opt JInt (run_failed_at r)),
      (''completed_at'', json_of_opt JInt (run_completed_at r))]"

definition run_of_dict :: "pylib \<Rightarrow> json dict \<Rightarrow> exn + run" where
  "run_of_dict L parsed =
     bind_sum (dict_item parsed ''id'') (\<lambda>i.
     bind_sum (dict_item parsed ''thread_id'') (\<lambda>t.
     bind_sum (dict_item parsed ''assistant_id'') (\<lambda>a.
     bind_sum (int_field parsed ''created_at'') (\<lambda>created_at.
     bind_sum (opt_int_field parsed ''started_at'') (\<lambda>started_at.
     bind_sum (opt_int_field parsed ''expires_at'') (\<lambda>expires_at.
     bind_sum (opt_int_field parsed ''cancelled_at'') (\<lambda>cancelled_at.
     bind_sum (opt_int_field parsed ''failed_at'') (\<lambda>failed_at.
     bind_sum (opt_int_field parsed ''completed_at'') (\<lambda>completed_at.
     Inr \<lparr>run_id = py_str L i, run_thread_id = py_str L t, run_assistant_id = py_str L a,
          run_created_at = created_at,
          run_state = parse_run_status (py_str L (dict_get_or parsed ''status'' (JStr ''queued''))),
          run_model = py_str L (dict_get_or parsed ''model'' (JStr [])),
          run_instructions = truthy_str L (dict_get parsed ''instructions''),
          run_tools = dict_list_field parsed ''tools'',
          run_metadata = string_dict_field parsed ''metadata'',
          run_required_action = dict_or_none (dict_get parsed ''required_action''),
          run_last_error = dict_or_none (dict_get parsed ''last_error''),
          run_usage = dict_or_none (dict_get parsed ''usage''),
          run_started_at = started_at, run_expires_at = expires_at,
          run_cancelled_at = cancelled_at, run_failed_at = failed_at,
          run_completed_at = completed_at\<rparr>)))))))))"

text \<open>
  On a value that is no dictionary the first subscript raises \<open>TypeError\<close>, which the \<open>except\<close>
  clause names.
\<close>

definition parse_cached_run :: "pylib \<Rightarrow> json \<Rightarrow> exn + run option" where
  "parse_cached_run L parsed =
     (case parsed of
        JObj d \<Rightarrow> none_on_parse_error (bind_sum (run_of_dict L d) (\<lambda>r. Inr (Some r)))
      | _ \<Rightarrow> Inr None)"

text \<open>
  The runs that survive the cache unchanged. Empty instructions and empty dictionaries in the
  optional fields read back as \<open>None\<close>.
\<close>

definition wf_run :: "run \<Rightarrow> bool" where
  "wf_run r \<longleftrightarrow>
     run_instructions r \<noteq> Some [] \<and> list_all wf_dict (run_tools r) \<and> distinct_keys (run_metadata r) \<and>
     (\<forall>d \<in> set [run_required_action r, run_last_error r, run_usage r].
        case d of None \<Rightarrow> True | Some x \<Rightarrow> x \<noteq> [] \<and> wf_dict x)"

section \<open>Operations\<close>

definition cache_run :: "('c, 'd) run_service \<Rightarrow> run \<Rightarrow> (('c, 'd) world, unit) io" where
  "cache_run S r =
     (case rs_cache S of
        None \<Rightarrow> ret ()
      | Some C \<Rightarrow>
          and_then (on_cache (c_set_json C (run_cache_key (run_thread_id r) (run_id r)) (run_payload r)
                      (Some (rs_ttl S)))) (\<lambda>_. ret ()))"

definition get_run :: "('c, 'd) run_service \<Rightarrow> string \<Rightarrow> string \<Rightarrow> (('c, 'd) world, run option) io" where
  "get_run S thread_id rid =
     (case rs_cache S of
        None \<Rightarrow> ret None
      | Some C \<Rightarrow> on_cache (load_entity C (parse_cached_run (rs_lib S)) (run_cache_key thread_id rid)))"

definition nonempty_dict :: "json dict option \<Rightarrow> json dict option" where
  "nonempty_dict x = (if x = Some [] then None else x)"

definition update_run :: "('c, 'd) run_service \<Rightarrow> run \<Rightarrow> (('c, 'd) world, unit) io" where
  "update_run S r =
     and_then (cache_run S r) (\<lambda>_.
       case rs_repo S of
         None \<Rightarrow> ret ()
       | Some R \<Rightarrow>
           and_then (on_db (rr_update R (run_id r) (Some (run_status_text (run_state r)))
                      (nonempty_dict (run_required_action r)) (nonempty_dict (run_last_error r))
                      (nonempty_dict (run_usage r)))) (\<lambda>_. ret ()))"

definition create_run ::
  "('c, 'd) run_service \<Rightarrow> string \<Rightarrow> string \<Rightarrow> string \<Rightarrow> string option \<Rightarrow> json dict list option \<Rightarrow>
     string dict option \<Rightarrow> (('c, 'd) world, run) io" where
  "create_run S thread_id assistant_id model instructions tools metadata =
     and_then draw_token (\<lambda>suffix.
     and_then utc_now (\<lambda>now.
     let r = \<lparr>run_id = ''run_'' @ suffix, run_thread_id = thread_id, run_assistant_id = assistant_id,
              run_created_at = unix_seconds now, run_state = Queued, run_model = model,
              run_instructions = instructions,
              run_tools = (case tools of None \<Rightarrow> [] | Some ts \<Rightarrow> ts),
              run_metadata = (case metadata of None \<Rightarrow> [] | Some m \<Rightarrow> m),
              run_required_action = None, run_last_error = None, run_usage = None,
              run_started_at = None, run_expires_at = None, run_cancelled_at = None,
              run_failed_at = None, run_completed_at = None\<rparr> in
     and_then
       (case rs_repo S of
          None \<Rightarrow> ret ()
        | Some R \<Rightarrow>
            on_db (rr_create R (run_id r) thread_id assistant_id ''queued'' model instructions
                     (run_tools r) (run_metadata r))) (\<lambda>_.
     and_then (cache_run S r) (\<lambda>_.
     ret r))))"

definition list_runs ::
  "('c, 'd) run_service \<Rightarrow> string \<Rightarrow> int \<Rightarrow> string \<Rightarrow> (('c, 'd) world, run list_result) io" where
  "list_runs S thread_id limit order =
     (case rs_cache S of
        None \<Rightarrow> ret empty_page
      | Some C \<Rightarrow>
          on_cache (list_entities C (parse_cached_run (rs_lib S)) (\<lambda>_. True) run_id run_created_at
                      (''run:'' @ thread_id @ '':*'') limit order))"

text \<open>
  The shape of the six transitions: load the run, leave it alone when the guard refuses its
  status, otherwise change it and store it. The change is given the present time in seconds.
\<close>

definition transition ::
  "('c, 'd) run_service \<Rightarrow> string \<Rightarrow> string \<Rightarrow> (run_status \<Rightarrow> bool) \<Rightarrow>
     (('c, 'd) world, run \<Rightarrow> run) io \<Rightarrow> (('c, 'd) world, run option) io" where
  "transition S thread_id rid allowed change =
     and_then (get_run S thread_id rid) (\<lambda>found.
       case found of
         None \<Rightarrow> ret None
       | Some r \<Rightarrow>
           if \<not> allowed (run_state r) then ret (Some r)
           else
             and_then change (\<lambda>f.
             and_then (update_run S (f r)) (\<lambda>_.
             ret (Some (f r)))))"

definition start_run ::
  "('c, 'd) run_service \<Rightarrow> string \<Rightarrow> string \<Rightarrow> (('c, 'd) world, run option) io" where
  "start_run S thread_id rid =
     transition S thread_id rid (\<lambda>st. st = Queued)
       (and_then utc_now (\<lambda>now.
          ret (\<lambda>r. r\<lparr>run_state := InProgress, run_started_at := Some (unix_seconds now)\<rparr>)))"

definition complete_run ::
  "('c, 'd) run_service \<Rightarrow> string \<Rightarrow> string \<Rightarrow> json dict option \<Rightarrow> (('c, 'd) world, run option) io" where
  "complete_run S thread_id rid usage =
     transition S thread_id rid (\<lambda>_. True)
       (and_then utc_now (\<lambda>now.
          ret (\<lambda>r. let r' = r\<lparr>run_state := RunCompleted, run_completed_at := Some (unix_seconds now)\<rparr> in
                 if nonempty_dict usage \<noteq> None then r'\<lparr>run_usage := usage\<rparr> else r')))"

definition fail_run ::
  "('c, 'd) run_service \<Rightarrow> string \<Rightarrow> string \<Rightarrow> json dict \<Rightarrow> (('c, 'd) world, run option) io" where
  "fail_run S thread_id rid error =
     transition S thread_id rid (\<lambda>_. True)
       (and_then utc_now (\<lambda>now.
          ret (\<lambda>r. r\<lparr>run_state := Failed, run_failed_at := Some (unix_seconds now),
                     run_last_error := Some error\<rparr>)))"

definition cancel_run ::
  "('c, 'd) run_service \<Rightarrow> string \<Rightarrow> string \<Rightarrow> (('c, 'd) world, run option) io" where
  "cancel_run S thread_id rid =
     transition S thread_id rid (\<lambda>st. st \<in> {Queued, InProgress, RequiresAction})
       (and_then utc_now (\<lambda>now.
          ret (\<lambda>r. r\<lparr>run_state := Cancelled, run_cancelled_at := Some (unix_seconds now)\<rparr>)))"

definition required_action_of :: "tool_call list \<Rightarrow> json dict" where
  "required_action_of tool_calls =
     [(''type'', JStr ''submit_tool_outputs''),
      (''submit_tool_outputs'', JObj [(''tool_calls'', JArr (map tool_call_json tool_calls))])]"

definition require_action ::
  "('c, 'd) run_service \<Rightarrow> string \<Rightarrow> string \<Rightarrow> tool_call list \<Rightarrow> (('c, 'd) world, run option) io" where
  "require_action S thread_id rid tool_calls =
     transition S thread_id rid (\<lambda>_. True)
       (ret (\<lambda>r. r\<lparr>run_state := RequiresAction,
                   run_required_action := Some (required_action_of tool_calls)\<rparr>))"

definition submit_tool_outputs ::
  "('c, 'd) run_service \<Rightarrow> string \<Rightarrow> string \<Rightarrow> (('c, 'd) world, run option) io" where
  "submit_tool_outputs S thread_id rid =
     transition S thread_id rid (\<lambda>st. st = RequiresAction)
       (ret (\<lambda>r. r\<lparr>run_state := InProgress, run_required_action := None\<rparr>))"

section \<open>The codec\<close>

lemma opt_int_field_of_opt:
  "map_of d k = Some (json_of_opt JInt x) \<Longrightarrow> opt_int_field d k = Inr x"
  by (cases x) (simp_all add: opt_int_field_def dict_get_def)

lemma run_of_payload:
  assumes "wf_run r"
  shows "run_of_dict L (run_payload r) = Inr r"
proof -
  have "run_required_action r \<noteq> Some []" "run_last_error r \<noteq> Some []" "run_usage r \<noteq> Some []"
    "run_instructions r \<noteq> Some []"
    using assms by (auto simp: wf_run_def)
  then show ?thesis
    by (simp add: run_of_dict_def run_payload_def dict_read_defs int_field_def opt_int_field_of_opt
        dict_list_field_def string_dict_field_def)
qed

lemma wf_json_of_dict_opt:
  "(case x of None \<Rightarrow> True | Some d \<Rightarrow> d \<noteq> [] \<and> wf_dict d) \<Longrightarrow> wf_json (json_of_dict_opt x)"
  by (cases x) (auto simp: json_of_dict_opt_def)

lemma wf_run_payload: "wf_run r \<Longrightarrow> wf_dict (run_payload r)"
  by (simp add: run_payload_def wf_run_def wf_json_of_dict_opt wf_strings_obj list_all_iff)

sublocale pylib_laws \<subseteq> runs: entity_codec run_payload "parse_cached_run L" wf_run
proof (unfold_locales, goal_cases)
  case (1 r)
  then show ?case by (rule wf_run_payload)
next
  case (2 r)
  show ?case by (simp add: run_payload_def)
next
  case (3 r)
  then show ?case by (simp add: parse_cached_run_def run_of_payload)
qed

section \<open>The state machine\<close>

text \<open>
  The abstract run is its status; \<open>next_status\<close> is what each operation does to it. The
  detailed operations are collected in \<open>perform\<close>.
\<close>

datatype run_op =
    OpStart
  | OpComplete "json dict option"
  | OpFail "json dict"
  | OpCancel
  | OpRequireAction "tool_call list"
  | OpSubmit

fun op_allowed :: "run_op \<Rightarrow> run_status \<Rightarrow> bool" where
  "op_allowed OpStart st = (st = Queued)"
| "op_allowed OpCancel st = (st \<in> {Queued, InProgress, RequiresAction})"
| "op_allowed OpSubmit st = (st = RequiresAction)"
| "op_allowed _ st = True"

fun op_target :: "run_op \<Rightarrow> run_status" where
  "op_target OpStart = InProgress"
| "op_target (OpComplete _) = RunCompleted"
| "op_target (OpFail _) = Failed"
| "op_target OpCancel = Cancelled"
| "op_target (OpRequireAction _) = RequiresAction"
| "op_target OpSubmit = InProgress"

definition next_status :: "run_op \<Rightarrow> run_status \<Rightarrow> run_status" where
  "next_status op st = (if op_allowed op st then op_target op else st)"

fun perform ::
  "('c, 'd) run_service \<Rightarrow> string \<Rightarrow> string \<Rightarrow> run_op \<Rightarrow> (('c, 'd) world, run option) io" where
  "perform S thread_id rid OpStart = start_run S thread_id rid"
| "perform S thread_id rid (OpComplete usage) = complete_run S thread_id rid usage"
| "perform S thread_id rid (OpFail error) = fail_run S thread_id rid error"
| "perform S thread_id rid OpCancel = cancel_run S thread_id rid"
| "perform S thread_id rid (OpRequireAction calls) = require_action S thread_id rid calls"
| "perform S thread_id rid OpSubmit = submit_tool_outputs S thread_id rid"

text \<open>The arguments are values that JSON can hold; an error is not empty.\<close>

fun op_wf :: "run_op \<Rightarrow> bool" where
  "op_wf (OpComplete usage) = (case usage of None \<Rightarrow> True | Some u \<Rightarrow> wf_dict u)"
| "op_wf (OpFail error) = (error \<noteq> [] \<and> wf_dict error)"
| "op_wf _ = True"

fun op_usage :: "run_op \<Rightarrow> json dict option" where
  "op_usage (OpComplete usage) = usage"
| "op_usage _ = None"

text \<open>What no operation on a run changes.\<close>

definition same_run :: "run \<Rightarrow> run \<Rightarrow> bool" where
  "same_run r r' \<longleftrightarrow>
     run_id r' = run_id r \<and> run_thread_id r' = run_thread_id r \<and>
     run_assistant_id r' = run_assistant_id r \<and> run_created_at r' = run_created_at r \<and>
     run_model r' = run_model r \<and> run_instructions r' = run_instructions r \<and>
     run_tools r' = run_tools r \<and> run_metadata r' = run_metadata r"

text \<open>The change that each operation makes, given the time.\<close>

fun op_change :: "run_op \<Rightarrow> datetime \<Rightarrow> run \<Rightarrow> run" where
  "op_change OpStart now r = r\<lparr>run_state := InProgress, run_started_at := Some (unix_seconds now)\<rparr>"
| "op_change (OpComplete usage) now r =
     (let r' = r\<lparr>run_state := RunCompleted, run_completed_at := Some (unix_seconds now)\<rparr> in
      if nonempty_dict usage \<noteq> None then r'\<lparr>run_usage := usage\<rparr> else r')"
| "op_change (OpFail error) now r =
     r\<lparr>run_state := Failed, run_failed_at := Some (unix_seconds now), run_last_error := Some error\<rparr>"
| "op_change OpCancel now r =
     r\<lparr>run_state := Cancelled, run_cancelled_at := Some (unix_seconds now)\<rparr>"
| "op_change (OpRequireAction calls) now r =
     r\<lparr>run_state := RequiresAction, run_required_action := Some (required_action_of calls)\<rparr>"
| "op_change OpSubmit now r = r\<lparr>run_state := InProgress, run_required_action := None\<rparr>"

lemma op_change_state: "run_state (op_change op now r) = op_target op"
  by (cases op) (simp_all add: Let_def)

lemma op_change_same: "same_run r (op_change op now r)"
  by (cases op) (simp_all add: same_run_def Let_def)

lemma wf_required_action: "wf_dict (required_action_of calls)"
  by (simp add: required_action_of_def tool_call_json_def list_all_iff)

lemma required_action_nonempty: "required_action_of calls \<noteq> []"
  by (simp add: required_action_of_def)

lemma op_change_wf: "wf_run r \<Longrightarrow> op_wf op \<Longrightarrow> wf_run (op_change op now r)"
  by (cases op; cases "op_usage op")
     (simp_all add: wf_run_def Let_def nonempty_dict_def wf_required_action required_action_nonempty)

definition op_effect :: "run_op \<Rightarrow> (('c, 'd) world, run \<Rightarrow> run) io" where
  "op_effect op =
     (case op of
        OpRequireAction calls \<Rightarrow> ret (op_change op 0)
      | OpSubmit \<Rightarrow> ret (op_change op 0)
      | _ \<Rightarrow> and_then utc_now (\<lambda>now. ret (op_change op now)))"

lemma op_functions:
  "op_allowed OpStart = (\<lambda>st. st = Queued)"
  "op_allowed OpCancel = (\<lambda>st. st \<in> {Queued, InProgress, RequiresAction})"
  "op_allowed OpSubmit = (\<lambda>st. st = RequiresAction)"
  "op_allowed (OpComplete usage) = (\<lambda>st. True)"
  "op_allowed (OpFail error) = (\<lambda>st. True)"
  "op_allowed (OpRequireAction calls) = (\<lambda>st. True)"
  by (rule ext; simp)+

text \<open>Every operation is a transition with its guard and its change.\<close>

lemma perform_transition:
  "perform S thread_id rid op = transition S thread_id rid (op_allowed op) (op_effect op)"
proof (cases op)
  case OpStart
  have "op_change OpStart now =
      (\<lambda>r. r\<lparr>run_state := InProgress, run_started_at := Some (unix_seconds now)\<rparr>)" for now
    by (rule ext) simp
  with OpStart show ?thesis
    by (simp add: start_run_def op_effect_def op_functions del: op_change.simps op_allowed.simps)
next
  case (OpComplete usage)
  have "op_change (OpComplete usage) now =
      (\<lambda>r. let r' = r\<lparr>run_state := RunCompleted, run_completed_at := Some (unix_seconds now)\<rparr> in
             if nonempty_dict usage \<noteq> None then r'\<lparr>run_usage := usage\<rparr> else r')" for now
    by (rule ext) simp
  with OpComplete show ?thesis
    by (simp add: complete_run_def op_effect_def op_functions del: op_change.simps op_allowed.simps)
next
  case (OpFail error)
  have "op_change (OpFail error) now =
      (\<lambda>r. r\<lparr>run_state := Failed, run_failed_at := Some (unix_seconds now),
             run_last_error := Some error\<rparr>)" for now
    by (rule ext) simp
  with OpFail show ?thesis
    by (simp add: fail_run_def op_effect_def op_functions del: op_change.simps op_allowed.simps)
next
  case OpCancel
  have "op_change OpCancel now =
      (\<lambda>r. r\<lparr>run_state := Cancelled, run_cancelled_at := Some (unix_seconds now)\<rparr>)" for now
    by (rule ext) simp
  with OpCancel show ?thesis
    by (simp add: cancel_run_def op_effect_def op_functions del: op_change.simps op_allowed.simps)
next
  case (OpRequireAction calls)
  have "op_change (OpRequireAction calls) 0 =
      (\<lambda>r. r\<lparr>run_state := RequiresAction,
             run_required_action := Some (required_action_of calls)\<rparr>)"
    by (rule ext) simp
  with OpRequireAction show ?thesis
    by (simp add: require_action_def op_effect_def op_functions del: op_change.simps op_allowed.simps)
next
  case OpSubmit
  have "op_change OpSubmit 0 = (\<lambda>r. r\<lparr>run_state := InProgress, run_required_action := None\<rparr>)"
    by (rule ext) simp
  with OpSubmit show ?thesis
    by (simp add: submit_tool_outputs_def op_effect_def op_functions
        del: op_change.simps op_allowed.simps)
qed

lemma op_effect_run:
  "\<exists>now v. op_effect op w = (Inr (op_change op now), v) \<and> w_cache v = w_cache w \<and> w_db v = w_db w"
  by (cases op) (auto simp: op_effect_def)

section \<open>The operations on a cache\<close>

text \<open>The run is stored, under its own key, and survives the cache unchanged.\<close>

definition run_at :: "pylib \<Rightarrow> store \<Rightarrow> run \<Rightarrow> bool" where
  "run_at L m r \<longleftrightarrow> wf_run r \<and>
     m (run_cache_key (run_thread_id r) (run_id r)) = Some (dump_entry L (run_payload r))"

text \<open>The row of the repository follows the run.\<close>

definition mirrored :: "('c, 'd) run_service \<Rightarrow> run \<Rightarrow> ('c, 'd) world \<Rightarrow> ('c, 'd) world \<Rightarrow> bool" where
  "mirrored S r w w' \<longleftrightarrow>
     (case rs_repo S of
        None \<Rightarrow> w_db w' = w_db w
      | Some R \<Rightarrow>
          \<exists>b. rr_update R (run_id r) (Some (run_status_text (run_state r)))
                (nonempty_dict (run_required_action r)) (nonempty_dict (run_last_error r))
                (nonempty_dict (run_usage r)) (w_db w) = (Inr b, w_db w'))"

sublocale live_cache \<subseteq>
  run_store: live_entity_store L C ent ages matches run_payload "parse_cached_run L" wf_run
  by unfold_locales

context live_cache
begin

lemma get_run_live:
  assumes "rs_cache S = Some C" and "rs_lib S = L" and "run_at L (ent (w_cache w)) r"
    and "get_run S (run_thread_id r) (run_id r) w = (Inr found, w')"
  shows "found = Some r" and "ent (w_cache w') = ent (w_cache w)" and "w_db w' = w_db w"
proof -
  from assms have load: "load_entity C (parse_cached_run L)
      (run_cache_key (run_thread_id r) (run_id r)) (w_cache w) = (Inr found, w_cache w')"
    and "w_db w' = w_db w"
    by (auto simp: get_run_def dest!: on_cache_Inr)
  with run_store.live_load [OF _ _ load] assms(3)
  show "found = Some r" and "ent (w_cache w') = ent (w_cache w)" and "w_db w' = w_db w"
    by (simp_all add: run_at_def)
qed

lemma cache_run_live:
  assumes "rs_cache S = Some C" and "rs_lib S = L" and "cache_run S r w = (Inr u, w')"
  shows "ent (w_cache w') =
      (ent (w_cache w))(run_cache_key (run_thread_id r) (run_id r) \<mapsto> dump_entry L (run_payload r))"
    and "w_db w' = w_db w"
proof -
  from assms obtain b where "c_set_json C (run_cache_key (run_thread_id r) (run_id r)) (run_payload r)
      (Some (rs_ttl S)) (w_cache w) = (Inr b, w_cache w')" and db: "w_db w' = w_db w"
    by (auto simp: cache_run_def io_inv dest!: on_cache_Inr)
  from live_set_json [OF this(1)] db
  show "ent (w_cache w') =
      (ent (w_cache w))(run_cache_key (run_thread_id r) (run_id r) \<mapsto> dump_entry L (run_payload r))"
    and "w_db w' = w_db w"
    by simp_all
qed

lemma update_run_live:
  assumes "rs_cache S = Some C" and "rs_lib S = L" and "update_run S r w = (Inr u, w')"
  shows "ent (w_cache w') =
      (ent (w_cache w))(run_cache_key (run_thread_id r) (run_id r) \<mapsto> dump_entry L (run_payload r))"
    and "mirrored S r w w'"
proof -
  from assms(3) obtain u1 w1 where cached: "cache_run S r w = (Inr u1, w1)"
    and rest: "(case rs_repo S of None \<Rightarrow> ret ()
       | Some R \<Rightarrow> and_then (on_db (rr_update R (run_id r) (Some (run_status_text (run_state r)))
                      (nonempty_dict (run_required_action r)) (nonempty_dict (run_last_error r))
                      (nonempty_dict (run_usage r)))) (\<lambda>_. ret ())) w1 = (Inr u, w')"
    by (auto simp: update_run_def io_inv)
  note one = cache_run_live [OF assms(1,2) cached]
  have "w_cache w' = w_cache w1"
    using rest by (auto simp: io_inv dest!: on_db_cache split: option.splits)
  with one show "ent (w_cache w') =
      (ent (w_cache w))(run_cache_key (run_thread_id r) (run_id r) \<mapsto> dump_entry L (run_payload r))"
    by simp
  show "mirrored S r w w'"
    using rest one by (auto simp: mirrored_def io_inv dest!: on_db_Inr split: option.splits)
qed

lemma perform_live:
  assumes cache: "rs_cache S = Some C" "rs_lib S = L"
    and at: "run_at L (ent (w_cache w)) r" and wf: "op_wf op"
    and run: "perform S (run_thread_id r) (run_id r) op w = (Inr found, w')"
  shows "if op_allowed op (run_state r)
    then \<exists>now. found = Some (op_change op now r) \<and> mirrored S (op_change op now r) w w' \<and>
      run_at L (ent (w_cache w')) (op_change op now r) \<and>
      ent (w_cache w') = (ent (w_cache w))(run_cache_key (run_thread_id r) (run_id r) \<mapsto>
        dump_entry L (run_payload (op_change op now r)))
    else found = Some r \<and> ent (w_cache w') = ent (w_cache w) \<and> w_db w' = w_db w"
proof -
  from run obtain fr w1 where get: "get_run S (run_thread_id r) (run_id r) w = (Inr fr, w1)"
    and rest: "(case fr of None \<Rightarrow> ret None
       | Some r0 \<Rightarrow>
           if \<not> op_allowed op (run_state r0) then ret (Some r0)
           else and_then (op_effect op) (\<lambda>f. and_then (update_run S (f r0)) (\<lambda>_.
             ret (Some (f r0))))) w1 = (Inr found, w')"
    by (auto simp: perform_transition transition_def and_then_Inr)
  note got = get_run_live [OF cache at get]
  show ?thesis
  proof (cases "op_allowed op (run_state r)")
    case False
    with rest got show ?thesis by simp
  next
    case True
    obtain now v where eff: "op_effect op w1 = (Inr (op_change op now), v)"
      and v: "w_cache v = w_cache w1" "w_db v = w_db w1"
      using op_effect_run by blast
    with rest got(1) True obtain u where upd: "update_run S (op_change op now r) v = (Inr u, w')"
      and found: "found = Some (op_change op now r)"
      by (auto simp: io_inv)
    have ids: "run_thread_id (op_change op now r) = run_thread_id r"
      "run_id (op_change op now r) = run_id r"
      using op_change_same [of r op now] by (simp_all add: same_run_def)
    note stored = update_run_live [OF cache upd]
    have db: "w_db v = w_db w" using v(2) got(3) by simp
    have "mirrored S (op_change op now r) w w'"
      using stored(2) unfolding mirrored_def db .
    moreover have cached: "ent (w_cache w') = (ent (w_cache w))(run_cache_key (run_thread_id r) (run_id r) \<mapsto>
        dump_entry L (run_payload (op_change op now r)))"
      using stored(1) unfolding ids v(1) got(2) .
    moreover have "run_at L (ent (w_cache w')) (op_change op now r)"
      unfolding run_at_def ids cached
      using at wf op_change_wf by (simp add: run_at_def del: op_change.simps)
    ultimately show ?thesis
      using True found by (simp del: op_change.simps) blast
  qed
qed

lemma create_run_live:
  assumes "rs_cache S = Some C" and "rs_lib S = L"
    and "create_run S thread_id assistant_id model instructions tools metadata w = (Inr r, w')"
  shows "ent (w_cache w') =
      (ent (w_cache w))(run_cache_key (run_thread_id r) (run_id r) \<mapsto> dump_entry L (run_payload r))"
    and "run_state r = Queued" and "run_thread_id r = thread_id"
    and "instructions \<noteq> Some [] \<Longrightarrow> list_all wf_dict (case tools of None \<Rightarrow> [] | Some ts \<Rightarrow> ts) \<Longrightarrow>
      distinct_keys (case metadata of None \<Rightarrow> [] | Some m \<Rightarrow> m) \<Longrightarrow> wf_run r"
proof -
  from assms(3) obtain v u w1 u1 where "cache_run S r w1 = (Inr u1, w')" and "w_cache w1 = w_cache w"
    and r: "run_state r = Queued" "run_thread_id r = thread_id" "run_instructions r = instructions"
      "run_tools r = (case tools of None \<Rightarrow> [] | Some ts \<Rightarrow> ts)"
      "run_metadata r = (case metadata of None \<Rightarrow> [] | Some m \<Rightarrow> m)"
      "run_required_action r = None" "run_last_error r = None" "run_usage r = None"
    by (auto simp: create_run_def Let_def io_inv dest!: on_db_cache split: option.splits)
  with cache_run_live [OF assms(1,2)] show "ent (w_cache w') =
      (ent (w_cache w))(run_cache_key (run_thread_id r) (run_id r) \<mapsto> dump_entry L (run_payload r))"
    by metis
  show "run_state r = Queued" and "run_thread_id r = thread_id"
    using r by simp_all
  show "wf_run r" if "instructions \<noteq> Some []" and
    "list_all wf_dict (case tools of None \<Rightarrow> [] | Some ts \<Rightarrow> ts)" and
    "distinct_keys (case metadata of None \<Rightarrow> [] | Some m \<Rightarrow> m)"
    using r that by (simp add: wf_run_def)
qed

end

section \<open>The events of a run\<close>

text \<open>
  \<open>RunStreamingAdapter\<close> and \<open>format_sse_event\<close>, \<open>services/assistants/run_streaming.py\<close>: the
  server-sent events of a run.
\<close>

subsection \<open>Events\<close>

definition json_of_dict_none :: "json dict option \<Rightarrow> json" where
  "json_of_dict_none x = json_of_opt JObj x"

definition run_to_dict :: "run \<Rightarrow> json dict" where
  "run_to_dict r =
     [(''id'', JStr (run_id r)),
      (''object'', JStr ''thread.run''),
      (''created_at'', JInt (run_created_at r)),
      (''thread_id'', JStr (run_thread_id r)),
      (''assistant_id'', JStr (run_assistant_id r)),
      (''status'', JStr (run_status_text (run_state r))),
      (''model'', JStr (run_model r)),
      (''instructions'', json_of_opt JStr (run_instructions r)),
      (''tools'', JArr (map JObj (run_tools r))),
      (''metadata'', JObj (strings_obj (run_metadata r))),
      (''started_at'', json_of_opt JInt (run_started_at r)),
      (''expires_at'', json_of_opt JInt (run_expires_at r)),
      (''cancelled_at'', json_of_opt JInt (run_cancelled_at r)),
      (''failed_at'', json_of_opt JInt (run_failed_at r)),
      (''completed_at'', json_of_opt JInt (run_completed_at r)),
      (''required_action'', json_of_dict_none (run_required_action r)),
      (''last_error'', json_of_dict_none (run_last_error r)),
      (''usage'', json_of_dict_none (run_usage r))]"

text \<open>An event is a dictionary or the text \<open>done\<close>.\<close>

datatype stream_event = Event "json dict" | Marker string

definition sse_event :: "string \<Rightarrow> json dict \<Rightarrow> stream_event" where
  "sse_event name data = Event [(''event'', JStr name), (''data'', JObj data)]"

definition emit_run_created :: "run \<Rightarrow> stream_event" where
  "emit_run_created r = sse_event ''thread.run.created'' (run_to_dict r)"

definition emit_run_in_progress :: "run \<Rightarrow> stream_event" where
  "emit_run_in_progress r = sse_event ''thread.run.in_progress'' (run_to_dict r)"

definition emit_run_completed :: "run \<Rightarrow> stream_event" where
  "emit_run_completed r = sse_event ''thread.run.completed'' (run_to_dict r)"

definition emit_run_failed :: "run \<Rightarrow> stream_event" where
  "emit_run_failed r = sse_event ''thread.run.failed'' (run_to_dict r)"

definition emit_run_requires_action :: "run \<Rightarrow> stream_event" where
  "emit_run_requires_action r = sse_event ''thread.run.requires_action'' (run_to_dict r)"

definition emit_run_cancelled :: "run \<Rightarrow> stream_event" where
  "emit_run_cancelled r = sse_event ''thread.run.cancelled'' (run_to_dict r)"

definition emit_message_delta :: "string \<Rightarrow> string \<Rightarrow> stream_event" where
  "emit_message_delta message_id content_delta =
     sse_event ''thread.message.delta''
       [(''id'', JStr message_id),
        (''object'', JStr ''thread.message.delta''),
        (''delta'', JObj [(''content'', JArr [JObj
           [(''type'', JStr ''text''), (''text'', JObj [(''value'', JStr content_delta)])]])])]"

definition emit_done :: stream_event where
  "emit_done = Marker ''done''"

subsection \<open>Formatting\<close>

definition newline :: string where
  "newline = [CHR 0x0A]"

definition format_sse_event :: "pylib \<Rightarrow> stream_event \<Rightarrow> string" where
  "format_sse_event L e =
     (case e of
        Marker t \<Rightarrow>
          if t = ''done'' then ''data: [DONE]'' @ newline @ newline
          else ''data: '' @ json_dumps L (JStr t) @ newline @ newline
      | Event d \<Rightarrow>
          ''event: '' @ py_str L (dict_get_or d ''event'' (JStr [])) @ newline @
          ''data: '' @ json_dumps L (dict_get_or d ''data'' (JObj [])) @ newline @ newline)"

subsection \<open>A reader of the stream\<close>

text \<open>
  What the server-sent events specification makes of the text of one event: the lines up to
  the first empty one, with the field \<open>event\<close> and the field \<open>data\<close>.
\<close>

fun split_line :: "string \<Rightarrow> string \<times> string" where
  "split_line [] = ([], [])"
| "split_line (c # cs) =
     (if c = CHR 0x0A then ([], cs) else (case split_line cs of (l, rest) \<Rightarrow> (c # l, rest)))"

text \<open>The two lines of a formatted dictionary event, read back; the stream goes on after it.\<close>

definition read_sse :: "string \<Rightarrow> ((string \<times> string) \<times> string) option" where
  "read_sse s =
     (case split_line s of (l1, s1) \<Rightarrow>
      case split_line s1 of (l2, s2) \<Rightarrow>
      case split_line s2 of (l3, s3) \<Rightarrow>
        if l3 = [] \<and> prefix ''event: '' l1 \<and> prefix ''data: '' l2
        then Some ((drop 7 l1, drop 6 l2), s3) else None)"

lemma split_line_append:
  "CHR 0x0A \<notin> set l \<Longrightarrow> split_line (l @ CHR 0x0A # rest) = (l, rest)"
  by (induction l) auto

end
