(* ===== verification/Messages.thy ===== *)
theory Messages
  imports World Entities
begin

text \<open>
  \<open>MessageService\<close>, \<open>services/assistants/message_service.py\<close>: the messages of a thread, kept in
  the cache only.
\<close>

section \<open>Data\<close>

datatype message_content =
    TextContent string "json list" \<comment> \<open>the value and its annotations\<close>
  | ImageFileContent string

datatype message_role = User | Assistant

fun role_text :: "message_role \<Rightarrow> string" where
  "role_text User = ''user''"
| "role_text Assistant = ''assistant''"

record message =
  msg_id :: string
  msg_thread_id :: string
  msg_created_at :: int
  msg_role :: message_role
  msg_content :: "message_content list"
  msg_metadata :: "string dict"
  msg_assistant_id :: "string option"
  msg_run_id :: "string option"

record 'c message_service =
  ms_lib :: pylib
  ms_cache :: "'c cache option"
  ms_ttl :: int

section \<open>The cached dictionary\<close>

definition message_cache_key :: "string \<Rightarrow> string \<Rightarrow> string" where
  "message_cache_key thread_id message_id = ''message:'' @ thread_id @ '':'' @ message_id"

fun content_json :: "message_content \<Rightarrow> json dict" where
  "content_json (TextContent v annotations) =
     [(''type'', JStr ''text''),
      (''text'', JObj [(''value'', JStr v), (''annotations'', JArr annotations)])]"
| "content_json (ImageFileContent f) =
     [(''type'', JStr ''image_file''), (''image_file'', JObj [(''file_id'', JStr f)])]"

definition message_payload :: "message \<Rightarrow> json dict" where
  "message_payload m =
     [(''id'', JStr (msg_id m)),
      (''thread_id'', JStr (msg_thread_id m)),
      (''created_at'', JInt (msg_created_at m)),
      (''role'', JStr (role_text (msg_role m))),
      (''content'', JArr (map (\<lambda>b. JObj (content_json b)) (msg_content m))),
      (''metadata'', JObj (strings_obj (msg_metadata m))),
      (''assistant_id'', json_of_opt JStr (msg_assistant_id m)),
      (''run_id'', json_of_opt JStr (msg_run_id m))]"

text \<open>One block of the loop over \<open>content_raw\<close>: only text blocks are read back.\<close>

definition parse_block :: "pylib \<Rightarrow> json dict \<Rightarrow> message_content list" where
  "parse_block L block =
     (if dict_get block ''type'' = Some (JStr ''text'')
      then (case dict_get_or block ''text'' (JObj []) of
              JObj text_data \<Rightarrow>
                [TextContent (py_str L (dict_get_or text_data ''value'' (JStr []))) []]
            | _ \<Rightarrow> [])
      else [])"

definition message_of_dict :: "pylib \<Rightarrow> json dict \<Rightarrow> exn + message" where
  "message_of_dict L parsed =
     bind_sum (dict_item parsed ''id'') (\<lambda>i.
     bind_sum (dict_item parsed ''thread_id'') (\<lambda>t.
     bind_sum (int_field parsed ''created_at'') (\<lambda>created_at.
     bind_sum (dict_item parsed ''role'') (\<lambda>role_val.
     Inr \<lparr>msg_id = py_str L i, msg_thread_id = py_str L t, msg_created_at = created_at,
          msg_role = (if py_str L role_val = ''user'' then User else Assistant),
          msg_content = concat (map (parse_block L) (dict_list_field parsed ''content'')),
          msg_metadata = string_dict_field parsed ''metadata'',
          msg_assistant_id = truthy_str L (dict_get parsed ''assistant_id''),
          msg_run_id = truthy_str L (dict_get parsed ''run_id'')\<rparr>))))"

definition parse_cached_message :: "pylib \<Rightarrow> json \<Rightarrow> exn + message option" where
  "parse_cached_message L parsed =
     (case parsed of
        JObj d \<Rightarrow> none_on_parse_error (bind_sum (message_of_dict L d) (\<lambda>m. Inr (Some m)))
      | _ \<Rightarrow> Inr None)"

section \<open>Operations\<close>

definition cache_message :: "'c message_service \<Rightarrow> message \<Rightarrow> (('c, 'd) world, unit) io" where
  "cache_message S m =
     (case ms_cache S of
        None \<Rightarrow> ret ()
      | Some C \<Rightarrow>
          and_then (on_cache (c_set_json C (message_cache_key (msg_thread_id m) (msg_id m))
                      (message_payload m) (Some (ms_ttl S)))) (\<lambda>_. ret ()))"

definition create_message ::
  "'c message_service \<Rightarrow> string \<Rightarrow> message_role \<Rightarrow> string \<Rightarrow> string dict option \<Rightarrow> string option \<Rightarrow>
     string option \<Rightarrow> (('c, 'd) world, message) io" where
  "create_message S thread_id role content metadata assistant_id run_id =
     and_then draw_token (\<lambda>suffix.
     and_then utc_now (\<lambda>now.
     let m = \<lparr>msg_id = ''msg_'' @ suffix, msg_thread_id = thread_id,
              msg_created_at = unix_seconds now, msg_role = role,
              msg_content = [TextContent content []],
              msg_metadata = (case metadata of None \<Rightarrow> [] | Some d \<Rightarrow> d),
              msg_assistant_id = assistant_id, msg_run_id = run_id\<rparr> in
     and_then (cache_message S m) (\<lambda>_. ret m)))"

definition get_message ::
  "'c message_service \<Rightarrow> string \<Rightarrow> string \<Rightarrow> (('c, 'd) world, message option) io" where
  "get_message S thread_id message_id =
     (case ms_cache S of
        None \<Rightarrow> ret None
      | Some C \<Rightarrow>
          on_cache (load_entity C (parse_cached_message (ms_lib S))
                      (message_cache_key thread_id message_id)))"

text \<open>The cursors \<open>after\<close> and \<open>before\<close> are accepted and ignored.\<close>

definition list_messages ::
  "'c message_service \<Rightarrow> string \<Rightarrow> int \<Rightarrow> string \<Rightarrow> string option \<Rightarrow> string option \<Rightarrow>
     (('c, 'd) world, message list_result) io" where
  "list_messages S thread_id limit order after before =
     (case ms_cache S of
        None \<Rightarrow> ret empty_page
      | Some C \<Rightarrow>
          on_cache (list_entities C (parse_cached_message (ms_lib S)) (\<lambda>_. True) msg_id
                      msg_created_at (''message:'' @ thread_id @ '':*'') limit order))"

definition modify_message ::
  "'c message_service \<Rightarrow> string \<Rightarrow> string \<Rightarrow> string dict option \<Rightarrow> (('c, 'd) world, message option) io"
where
  "modify_message S thread_id message_id metadata =
     and_then (get_message S thread_id message_id) (\<lambda>found.
       case found of
         None \<Rightarrow> ret None
       | Some m0 \<Rightarrow>
           let m = (case metadata of None \<Rightarrow> m0 | Some d \<Rightarrow> m0\<lparr>msg_metadata := d\<rparr>) in
           and_then (cache_message S m) (\<lambda>_. ret (Some m)))"

section \<open>The codec\<close>

text \<open>
  What the cache keeps of a message: text blocks without their annotations, and identifiers
  that are not empty.
\<close>

fun kept_content :: "message_content list \<Rightarrow> message_content list" where
  "kept_content [] = []"
| "kept_content (TextContent v as # bs) = TextContent v [] # kept_content bs"
| "kept_content (ImageFileContent f # bs) = kept_content bs"

definition kept_text :: "string option \<Rightarrow> string option" where
  "kept_text x = (if given x then x else None)"

definition kept_message :: "message \<Rightarrow> message" where
  "kept_message m = m\<lparr>msg_content := kept_content (msg_content m),
     msg_assistant_id := kept_text (msg_assistant_id m), msg_run_id := kept_text (msg_run_id m)\<rparr>"

lemma truthy_str_kept: "truthy_str L (Some (json_of_opt JStr x)) = kept_text x"
  by (cases x) (simp_all add: kept_text_def truthy_str_def)

lemma parse_content_json:
  "concat (map (\<lambda>b. parse_block L (content_json b)) bs) = kept_content bs"
  by (induction bs rule: kept_content.induct) (simp_all add: parse_block_def dict_read_defs)

lemma dicts_of_content: "dicts_of (map (\<lambda>b. JObj (content_json b)) bs) = map content_json bs"
  by (induction bs) simp_all

lemma role_text_user [simp]: "role_text r = ''user'' \<longleftrightarrow> r = User"
  by (cases r) simp_all

lemma parse_message_payload:
  "parse_cached_message L (JObj (message_payload m)) = Inr (Some (kept_message m))"
proof -
  have "(if msg_role m = User then User else Assistant) = msg_role m"
    by (cases "msg_role m") simp_all
  then have "message_of_dict L (message_payload m) = Inr (kept_message m)"
    by (simp add: message_of_dict_def message_payload_def dict_read_defs int_field_def
        dict_list_field_def string_dict_field_def dicts_of_content truthy_str_kept
        parse_content_json kept_message_def o_def)
  then show ?thesis
    by (simp add: parse_cached_message_def)
qed

definition wf_message :: "message \<Rightarrow> bool" where
  "wf_message m \<longleftrightarrow> kept_message m = m \<and> distinct_keys (msg_metadata m)"

lemma kept_content_text:
  "kept_content bs = bs \<Longrightarrow> b \<in> set bs \<Longrightarrow> \<exists>v. b = TextContent v []"
proof (induction bs rule: kept_content.induct)
  case (3 f bs)
  have "length (kept_content cs) \<le> length cs" for cs
    by (induction cs rule: kept_content.induct) auto
  with 3 show ?case by (metis impossible_Cons kept_content.simps(3))
qed auto

lemma wf_message_payload:
  assumes "wf_message m"
  shows "wf_dict (message_payload m)"
proof -
  have "kept_content (msg_content m) = msg_content m" and "distinct_keys (msg_metadata m)"
    using assms by (auto simp: wf_message_def kept_message_def dest!: arg_cong [where f = msg_content])
  with kept_content_text have "list_all (\<lambda>b. wf_dict (content_json b)) (msg_content m)"
    by (fastforce simp: list_all_iff)
  with \<open>distinct_keys (msg_metadata m)\<close> show ?thesis
    by (simp add: message_payload_def wf_strings_obj list_all_iff)
qed

sublocale pylib_laws \<subseteq> messages: entity_codec message_payload "parse_cached_message L" wf_message
proof (unfold_locales, goal_cases)
  case (1 m)
  then show ?case by (rule wf_message_payload)
next
  case (2 m)
  show ?case by (simp add: message_payload_def)
next
  case (3 m)
  then show ?case by (simp add: parse_message_payload wf_message_def)
qed

sublocale live_cache \<subseteq>
  message_store: live_entity_store L C ent ages matches message_payload "parse_cached_message L" wf_message
  by unfold_locales

end
