(* ===== verification/Assistants.thy ===== *)
theory Assistants
  imports SessionCache
begin

text \<open>
  \<open>AssistantService\<close>, \<open>services/assistants/assistant_service.py\<close>: assistants in a database
  repository with the cache in front, or in the cache alone. The repository is a parameter.
\<close>

section \<open>Data\<close>

record assistant =
  a_id :: string
  a_model :: string
  a_created_at :: datetime
  a_updated_at :: datetime
  a_name :: "string option"
  a_description :: "string option"
  a_instructions :: "string option"
  a_tools :: "json dict list"
  a_metadata :: "string dict"
  a_owner_api_key_hash :: "string option"
  a_temperature :: "pyfloat option"
  a_top_p :: "pyfloat option"
  a_response_format :: "string dict option"

record db_assistant =
  da_id :: string
  da_model :: string
  da_created_at :: datetime
  da_updated_at :: datetime
  da_name :: "string option"
  da_description :: "string option"
  da_instructions :: "string option"
  da_tools :: "json dict list"
  da_metadata :: "string dict option"
  da_owner_api_key_hash :: "string option"
  da_temperature :: "pyfloat option"
  da_top_p :: "pyfloat option"

text \<open>The keyword arguments that \<open>create\<close> and \<open>update\<close> of the repository share.\<close>

record assistant_fields =
  f_model :: "string option"
  f_name :: "string option"
  f_description :: "string option"
  f_instructions :: "string option"
  f_tools :: "json dict list option"
  f_metadata :: "string dict option"
  f_temperature :: "pyfloat option"
  f_top_p :: "pyfloat option"

record 'd assistant_repo =
  ar_create :: "string \<Rightarrow> assistant_fields \<Rightarrow> string option \<Rightarrow> ('d, unit) io"
  ar_get :: "string \<Rightarrow> ('d, db_assistant option) io"
  ar_list_assistants :: "string option \<Rightarrow> int \<Rightarrow> int \<Rightarrow> string \<Rightarrow> string option \<Rightarrow> string option \<Rightarrow>
     ('d, db_assistant list \<times> int) io"
  ar_update :: "string \<Rightarrow> assistant_fields \<Rightarrow> ('d, bool) io"
  ar_delete :: "string \<Rightarrow> ('d, bool) io"

record ('c, 'd) assistant_service =
  as_lib :: pylib
  as_cache :: "'c cache option"
  as_repo :: "'d assistant_repo option"
  as_ttl :: int

section \<open>The cached dictionary\<close>

definition assistant_cache_key :: "string \<Rightarrow> string" where
  "assistant_cache_key assistant_id = ''assistant:'' @ assistant_id"

definition assistant_owner_key :: "string \<Rightarrow> string" where
  "assistant_owner_key h = ''assistant:owner:'' @ h"

definition assistant_payload :: "pylib \<Rightarrow> assistant \<Rightarrow> json dict" where
  "assistant_payload L a =
     [(''id'', JStr (a_id a)),
      (''model'', JStr (a_model a)),
      (''name'', json_of_opt JStr (a_name a)),
      (''description'', json_of_opt JStr (a_description a)),
      (''instructions'', json_of_opt JStr (a_instructions a)),
      (''tools'', JArr (map JObj (a_tools a))),
      (''metadata'', JObj (strings_obj (a_metadata a))),
      (''owner_api_key_hash'', json_of_opt JStr (a_owner_api_key_hash a)),
      (''temperature'', json_of_opt JFloat (a_temperature a)),
      (''top_p'', json_of_opt JFloat (a_top_p a)),
      (''created_at'', JStr (isoformat L (a_created_at a))),
      (''updated_at'', JStr (isoformat L (a_updated_at a)))]"

text \<open>\<open>float(str(parsed[k])) if parsed.get(k) else None\<close>\<close>

definition float_field :: "pylib \<Rightarrow> json dict \<Rightarrow> string \<Rightarrow> exn + pyfloat option" where
  "float_field L parsed k =
     (case truthy_str L (dict_get parsed k) of
        None \<Rightarrow> Inr None
      | Some t \<Rightarrow>
          bind_sum (value_or (ValueError ''could not convert string to float'') (float_of_text L t))
            (\<lambda>f. Inr (Some f)))"

definition assistant_of_dict :: "pylib \<Rightarrow> json dict \<Rightarrow> exn + assistant" where
  "assistant_of_dict L parsed =
     bind_sum (iso_datetime L (py_str L (dict_get_or parsed ''created_at'' (JStr [])))) (\<lambda>created_at.
     bind_sum (iso_datetime L (py_str L (dict_get_or parsed ''updated_at'' (JStr [])))) (\<lambda>updated_at.
     bind_sum (dict_item parsed ''id'') (\<lambda>i.
     bind_sum (dict_item parsed ''model'') (\<lambda>m.
     bind_sum (float_field L parsed ''temperature'') (\<lambda>temperature.
     bind_sum (float_field L parsed ''top_p'') (\<lambda>top_p.
     Inr \<lparr>a_id = py_str L i, a_model = py_str L m, a_created_at = created_at,
          a_updated_at = updated_at,
          a_name = truthy_str L (dict_get parsed ''name''),
          a_description = truthy_str L (dict_get parsed ''description''),
          a_instructions = truthy_str L (dict_get parsed ''instructions''),
          a_tools = dict_list_field parsed ''tools'',
          a_metadata = string_dict_field parsed ''metadata'',
          a_owner_api_key_hash = truthy_str L (dict_get parsed ''owner_api_key_hash''),
          a_temperature = temperature, a_top_p = top_p, a_response_format = None\<rparr>))))))"

definition parse_cached_assistant :: "pylib \<Rightarrow> json \<Rightarrow> exn + assistant option" where
  "parse_cached_assistant L parsed =
     (case parsed of
        JObj d \<Rightarrow> none_on_parse_error (bind_sum (assistant_of_dict L d) (\<lambda>a. Inr (Some a)))
      | _ \<Rightarrow> Inl (AttributeError ''get''))"

definition map_db_assistant :: "db_assistant \<Rightarrow> assistant" where
  "map_db_assistant d =
     \<lparr>a_id = da_id d, a_model = da_model d, a_created_at = da_created_at d,
      a_updated_at = da_updated_at d, a_name = da_name d, a_description = da_description d,
      a_instructions = da_instructions d, a_tools = da_tools d,
      a_metadata = (case da_metadata d of None \<Rightarrow> [] | Some m \<Rightarrow> m),
      a_owner_api_key_hash = da_owner_api_key_hash d, a_temperature = da_temperature d,
      a_top_p = da_top_p d, a_response_format = None\<rparr>"

text \<open>Unlike sessions, an assistant without an owner hash is open to every key.\<close>

definition enforce_assistant_owner ::
  "pylib \<Rightarrow> assistant \<Rightarrow> string option \<Rightarrow> exn + assistant" where
  "enforce_assistant_owner L a current_api_key =
     (if given current_api_key \<and> given (a_owner_api_key_hash a)
      then
        bind_sum (compare_digest (the (a_owner_api_key_hash a)) (hash_api_key L (the current_api_key)))
          (\<lambda>same. if same then Inr a else Inl (AssistantNotFoundError (a_id a)))
      else Inr a)"

section \<open>Operations\<close>

definition cache_assistant ::
  "('c, 'd) assistant_service \<Rightarrow> assistant \<Rightarrow> (('c, 'd) world, unit) io" where
  "cache_assistant S a =
     (case as_cache S of
        None \<Rightarrow> ret ()
      | Some C \<Rightarrow>
          and_then (on_cache (c_set_json C (assistant_cache_key (a_id a))
                      (assistant_payload (as_lib S) a) (Some (as_ttl S)))) (\<lambda>_.
            if given (a_owner_api_key_hash a)
            then and_then (on_cache (c_add_to_set C
                   (assistant_owner_key (the (a_owner_api_key_hash a))) (a_id a))) (\<lambda>_. ret ())
            else ret ()))"

definition get_cached_assistant ::
  "('c, 'd) assistant_service \<Rightarrow> string \<Rightarrow> (('c, 'd) world, assistant option) io" where
  "get_cached_assistant S assistant_id =
     (case as_cache S of
        None \<Rightarrow> ret None
      | Some C \<Rightarrow>
          on_cache (load_entity C (parse_cached_assistant (as_lib S))
                      (assistant_cache_key assistant_id)))"

definition create_assistant_error :: "exn \<Rightarrow> exn" where
  "create_assistant_error e =
     (case e of
        IntegrityError _ \<Rightarrow> APIError ''Assistant already exists'' ''ALREADY_EXISTS'' 409
      | OperationalError _ \<Rightarrow> APIError ''Database temporarily unavailable'' ''DATABASE_UNAVAILABLE'' 503
      | _ \<Rightarrow> if is_exception e then APIError ''Failed to create assistant'' ''INTERNAL_ERROR'' 500 else e)"

text \<open>\<open>fs\<close> are the fields as given, the model among them.\<close>

definition create_assistant ::
  "('c, 'd) assistant_service \<Rightarrow> string \<Rightarrow> assistant_fields \<Rightarrow> string option \<Rightarrow>
     (('c, 'd) world, assistant) io" where
  "create_assistant S model fs owner_api_key =
     and_then draw_token (\<lambda>suffix.
     and_then utc_now (\<lambda>now.
     let assistant_id = ''asst_'' @ suffix;
         tools_list = (case f_tools fs of None \<Rightarrow> [] | Some ts \<Rightarrow> ts);
         metadata_dict = (case f_metadata fs of None \<Rightarrow> [] | Some m \<Rightarrow> m);
         a = \<lparr>a_id = assistant_id, a_model = model, a_created_at = now, a_updated_at = now,
              a_name = f_name fs, a_description = f_description fs,
              a_instructions = f_instructions fs, a_tools = tools_list, a_metadata = metadata_dict,
              a_owner_api_key_hash = hash_of_owner (as_lib S) owner_api_key,
              a_temperature = f_temperature fs, a_top_p = f_top_p fs, a_response_format = None\<rparr> in
     and_then
       (case as_repo S of
          None \<Rightarrow> ret ()
        | Some R \<Rightarrow>
            try_except
              (on_db (ar_create R assistant_id
                 (fs\<lparr>f_model := Some model, f_tools := Some tools_list,
                     f_metadata := Some metadata_dict\<rparr>) owner_api_key))
              (\<lambda>e. throw (create_assistant_error e))) (\<lambda>_.
     and_then
       (try_except (cache_assistant S a) (\<lambda>e. if is_exception e then ret () else throw e)) (\<lambda>_.
     ret a))))"

definition get_assistant ::
  "('c, 'd) assistant_service \<Rightarrow> string \<Rightarrow> string option \<Rightarrow> (('c, 'd) world, assistant option) io" where
  "get_assistant S assistant_id current_api_key =
     and_then (get_cached_assistant S assistant_id) (\<lambda>cached.
       case cached of
         Some a \<Rightarrow>
           and_then (lift_sum (enforce_assistant_owner (as_lib S) a current_api_key))
             (\<lambda>a'. ret (Some a'))
       | None \<Rightarrow>
           (case as_repo S of
              None \<Rightarrow> ret None
            | Some R \<Rightarrow>
                try_except
                  (and_then (on_db (ar_get R assistant_id)) (\<lambda>db_assistant.
                     case db_assistant of
                       None \<Rightarrow> ret None
                     | Some d \<Rightarrow>
                         and_then (lift_sum (enforce_assistant_owner (as_lib S)
                                     (map_db_assistant d) current_api_key)) (\<lambda>a.
                         and_then (cache_assistant S a) (\<lambda>_. ret (Some a)))))
                  (\<lambda>e. if is_exception e then ret None else throw e)))"

text \<open>The filter of the cache listing; without a key every assistant passes.\<close>

definition visible_to :: "pylib \<Rightarrow> string option \<Rightarrow> assistant \<Rightarrow> bool" where
  "visible_to L owner_api_key a =
     (case hash_of_owner L owner_api_key of
        None \<Rightarrow> True
      | Some h \<Rightarrow>
          \<not> (h \<noteq> [] \<and> a_owner_api_key_hash a \<noteq> None \<and> a_owner_api_key_hash a \<noteq> Some h))"

definition list_assistants ::
  "('c, 'd) assistant_service \<Rightarrow> int \<Rightarrow> string \<Rightarrow> string option \<Rightarrow> string option \<Rightarrow> string option \<Rightarrow>
     (('c, 'd) world, assistant list_result) io" where
  "list_assistants S limit order after before owner_api_key =
     (case as_repo S of
        None \<Rightarrow>
          (case as_cache S of
             None \<Rightarrow> ret empty_page
           | Some C \<Rightarrow>
               on_cache (list_entities C (parse_cached_assistant (as_lib S))
                 (visible_to (as_lib S) owner_api_key) a_id a_created_at ''assistant:asst_*'' limit order))
      | Some R \<Rightarrow>
          try_except
            (and_then (on_db (ar_list_assistants R owner_api_key (limit + 1) 0 order after before))
               (\<lambda>(db_assistants, total).
                  let has_more = limit < int (length db_assistants);
                      kept = (if has_more then py_slice db_assistants 0 limit else db_assistants);
                      xs = map map_db_assistant kept
                  in ret \<lparr>lr_data = xs,
                          lr_first_id = (if xs = [] then None else Some (a_id (hd xs))),
                          lr_last_id = (if xs = [] then None else Some (a_id (last xs))),
                          lr_has_more = has_more\<rparr>))
            (\<lambda>e. if is_exception e then ret empty_page else throw e))"

definition updated_assistant :: "assistant_fields \<Rightarrow> datetime \<Rightarrow> assistant \<Rightarrow> assistant" where
  "updated_assistant fs now a =
     a\<lparr>a_model := (case f_model fs of None \<Rightarrow> a_model a | Some m \<Rightarrow> m),
       a_name := (case f_name fs of None \<Rightarrow> a_name a | Some x \<Rightarrow> Some x),
       a_description := (case f_description fs of None \<Rightarrow> a_description a | Some x \<Rightarrow> Some x),
       a_instructions := (case f_instructions fs of None \<Rightarrow> a_instructions a | Some x \<Rightarrow> Some x),
       a_tools := (case f_tools fs of None \<Rightarrow> a_tools a | Some ts \<Rightarrow> ts),
       a_metadata := (case f_metadata fs of None \<Rightarrow> a_metadata a | Some m \<Rightarrow> m),
       a_temperature := (case f_temperature fs of None \<Rightarrow> a_temperature a | Some t \<Rightarrow> Some t),
       a_top_p := (case f_top_p fs of None \<Rightarrow> a_top_p a | Some t \<Rightarrow> Some t),
       a_updated_at := now\<rparr>"

definition update_assistant ::
  "('c, 'd) assistant_service \<Rightarrow> string \<Rightarrow> assistant_fields \<Rightarrow> string option \<Rightarrow>
     (('c, 'd) world, assistant option) io" where
  "update_assistant S assistant_id fs current_api_key =
     and_then (get_assistant S assistant_id current_api_key) (\<lambda>found.
       case found of
         None \<Rightarrow> ret None
       | Some a0 \<Rightarrow>
           and_then utc_now (\<lambda>now.
           let a = updated_assistant fs now a0 in
           and_then
             (case as_repo S of
                None \<Rightarrow> ret ()
              | Some R \<Rightarrow> and_then (on_db (ar_update R assistant_id fs)) (\<lambda>_. ret ())) (\<lambda>_.
           and_then (cache_assistant S a) (\<lambda>_.
           ret (Some a)))))"

definition delete_assistant ::
  "('c, 'd) assistant_service \<Rightarrow> string \<Rightarrow> string option \<Rightarrow> (('c, 'd) world, bool) io" where
  "delete_assistant S assistant_id current_api_key =
     and_then (get_assistant S assistant_id current_api_key) (\<lambda>found.
     and_then
       (case as_repo S of
          None \<Rightarrow> ret True
        | Some R \<Rightarrow> on_db (ar_delete R assistant_id)) (\<lambda>deleted.
       if \<not> deleted then ret False
       else
         (case as_cache S of
            None \<Rightarrow> ret True
          | Some C \<Rightarrow>
              and_then (on_cache (c_delete C (assistant_cache_key assistant_id))) (\<lambda>_.
                case found of
                  None \<Rightarrow> ret True
                | Some a \<Rightarrow>
                    if given (a_owner_api_key_hash a)
                    then and_then (on_cache (c_remove_from_set C
                           (assistant_owner_key (the (a_owner_api_key_hash a))) assistant_id))
                         (\<lambda>_. ret True)
                    else ret True))))"

section \<open>The codec\<close>

text \<open>
  What the cache keeps of an assistant: text that is not empty, and sampling parameters that
  are not zero.
\<close>

definition nonempty_text :: "string option \<Rightarrow> string option" where
  "nonempty_text x = (if given x then x else None)"

definition nonzero :: "pyfloat option \<Rightarrow> pyfloat option" where
  "nonzero x = (if x = Some (Finite 0 0) then None else x)"

definition kept_assistant :: "assistant \<Rightarrow> assistant" where
  "kept_assistant a = a\<lparr>a_name := nonempty_text (a_name a),
     a_description := nonempty_text (a_description a),
     a_instructions := nonempty_text (a_instructions a),
     a_owner_api_key_hash := nonempty_text (a_owner_api_key_hash a),
     a_temperature := nonzero (a_temperature a), a_top_p := nonzero (a_top_p a),
     a_response_format := None\<rparr>"

definition canonical_opt :: "pyfloat option \<Rightarrow> bool" where
  "canonical_opt x = (case x of None \<Rightarrow> True | Some f \<Rightarrow> canonical f)"

definition storable_assistant :: "assistant \<Rightarrow> bool" where
  "storable_assistant a \<longleftrightarrow> canonical_opt (a_temperature a) \<and> canonical_opt (a_top_p a) \<and>
     list_all wf_dict (a_tools a) \<and> distinct_keys (a_metadata a)"

definition wf_assistant :: "assistant \<Rightarrow> bool" where
  "wf_assistant a \<longleftrightarrow> storable_assistant a \<and> kept_assistant a = a"

lemma truthy_str_nonempty: "truthy_str L (Some (json_of_opt JStr x)) = nonempty_text x"
  by (cases x) (simp_all add: nonempty_text_def truthy_str_def)

lemma wf_json_of_float_opt: "wf_json (json_of_opt JFloat x) \<longleftrightarrow> canonical_opt x"
  by (cases x) (simp_all add: canonical_opt_def)

lemma truthy_float: "canonical f \<Longrightarrow> truthy (JFloat f) \<longleftrightarrow> f \<noteq> Finite 0 0"
  by (cases f) auto

context pylib_laws
begin

lemma float_field_of_opt:
  assumes "map_of d k = Some (json_of_opt JFloat x)" and "canonical_opt x"
  shows "float_field L d k = Inr (nonzero x)"
proof (cases x)
  case None
  with assms show ?thesis
    by (simp add: float_field_def dict_get_def truthy_str_def nonzero_def)
next
  case (Some f)
  with assms show ?thesis
    by (simp add: float_field_def dict_get_def truthy_str_def nonzero_def canonical_opt_def
        truthy_float float_of_repr)
qed

lemma parse_assistant_payload:
  assumes "storable_assistant a"
  shows "parse_cached_assistant L (JObj (assistant_payload L a)) = Inr (Some (kept_assistant a))"
proof -
  have "assistant_of_dict L (assistant_payload L a) = Inr (kept_assistant a)"
    using assms
    by (simp add: assistant_of_dict_def assistant_payload_def dict_read_defs iso_datetime_def
        fromisoformat_isoformat float_field_of_opt storable_assistant_def truthy_str_nonempty
        dict_list_field_def string_dict_field_def kept_assistant_def)
  then show ?thesis
    by (simp add: parse_cached_assistant_def)
qed

end

lemma wf_assistant_payload: "storable_assistant a \<Longrightarrow> wf_dict (assistant_payload L a)"
  by (simp add: assistant_payload_def storable_assistant_def wf_strings_obj wf_json_of_float_opt
      list_all_iff)

sublocale pylib_laws \<subseteq>
  assistants: entity_codec "assistant_payload L" "parse_cached_assistant L" wf_assistant
proof (unfold_locales, goal_cases)
  case (1 a)
  then show ?case by (simp add: wf_assistant_def wf_assistant_payload)
next
  case (2 a)
  show ?case by (simp add: assistant_payload_def)
next
  case (3 a)
  then show ?case by (simp add: wf_assistant_def parse_assistant_payload)
qed

sublocale live_cache \<subseteq>
  assistant_store: live_entity_store L C ent ages matches "assistant_payload L" "parse_cached_assistant L" wf_assistant
  by unfold_locales

end
