(* ===== verification/RunExecutor.thy ===== *)
theory RunExecutor
  imports Runs Messages Assistants
begin

text \<open>
  \<open>RunExecutor\<close>, \<open>services/assistants/run_executor.py\<close>: the orchestration of one run over the
  run, message and assistant services. The two methods that call the agent SDK are the fields
  \<open>ex_sdk\<close> and \<open>ex_stream\<close>, because the class expects them to be replaced;
  \<open>execute_with_sdk\<close> and \<open>stream_with_sdk\<close> are the bodies they have in the source.
  \<open>ex_text\<close> is \<open>str(e)\<close> of an exception.
\<close>

section \<open>Data\<close>

record tool_output =
  to_tool_call_id :: string
  to_output :: string

record execution_result =
  er_response_text :: "string option"
  er_tool_calls :: "json list"
  er_usage :: "json dict option"

text \<open>
  What an async generator yields when it is read to its end, and the exception with which it
  ends, if any.
\<close>

type_synonym 'w events = "'w \<Rightarrow> (json dict list \<times> exn option) \<times> 'w"

record ('c, 'd) run_executor =
  ex_runs :: "('c, 'd) run_service"
  ex_messages :: "'c message_service"
  ex_assistants :: "('c, 'd) assistant_service"
  ex_sdk :: "string \<Rightarrow> run \<Rightarrow> assistant \<Rightarrow> tool_output list option \<Rightarrow> (('c, 'd) world, execution_result) io"
  ex_stream :: "string \<Rightarrow> run \<Rightarrow> assistant \<Rightarrow> ('c, 'd) world events"
  ex_text :: "exn \<Rightarrow> string"

section \<open>Tool calls\<close>

text \<open>The loop over \<open>func_raw.items()\<close>.\<close>

fun function_parts :: "pylib \<Rightarrow> string \<times> string \<Rightarrow> json dict \<Rightarrow> string \<times> string" where
  "function_parts L (name, args) [] = (name, args)"
| "function_parts L (name, args) ((k, v) # d) =
     function_parts L
       (if k = ''name'' \<and> v \<noteq> JNull then (py_str L v, args)
        else if k = ''arguments'' \<and> v \<noteq> JNull then (name, py_str L v)
        else (name, args)) d"

definition extract_tool_call :: "pylib \<Rightarrow> json dict \<Rightarrow> tool_call" where
  "extract_tool_call L tc =
     (let parts = (case dict_get tc ''function'' of
                     Some (JObj d) \<Rightarrow> function_parts L ([], ''{}'') d
                   | _ \<Rightarrow> ([], ''{}''))
      in \<lparr>tc_id = py_str L (dict_get_or tc ''id'' (JStr [])),
          tc_name = fst parts, tc_arguments = snd parts\<rparr>)"

definition usage_of :: "json dict \<Rightarrow> json dict" where
  "usage_of u =
     [(''prompt_tokens'', dict_get_or u ''prompt_tokens'' (JInt 0)),
      (''completion_tokens'', dict_get_or u ''completion_tokens'' (JInt 0)),
      (''total_tokens'', dict_get_or u ''total_tokens'' (JInt 0))]"

section \<open>Execution\<close>

definition error_dict :: "string \<Rightarrow> string \<Rightarrow> json dict" where
  "error_dict code message = [(''code'', JStr code), (''message'', JStr message)]"

text \<open>The response of the SDK becomes a message of the assistant, if there is one.\<close>

definition say_response ::
  "('c, 'd) run_executor \<Rightarrow> string \<Rightarrow> string \<Rightarrow> assistant \<Rightarrow> execution_result \<Rightarrow>
     (('c, 'd) world, unit) io" where
  "say_response X thread_id rid a result =
     (if given (er_response_text result)
      then and_then (create_message (ex_messages X) thread_id Assistant
             (the (er_response_text result)) None (Some (a_id a)) (Some rid)) (\<lambda>_. ret ())
      else ret ())"

text \<open>What follows the call of the SDK inside the \<open>try\<close>.\<close>

definition finish_run ::
  "('c, 'd) run_executor \<Rightarrow> string \<Rightarrow> string \<Rightarrow> assistant \<Rightarrow> execution_result \<Rightarrow>
     (('c, 'd) world, execution_result option) io" where
  "finish_run X thread_id rid a result =
     (if er_tool_calls result \<noteq> []
      then
        and_then (require_action (ex_runs X) thread_id rid
          (map (extract_tool_call (rs_lib (ex_runs X))) (dicts_of (er_tool_calls result))))
          (\<lambda>_. ret (Some result))
      else
        and_then (say_response X thread_id rid a result) (\<lambda>_.
        and_then (complete_run (ex_runs X) thread_id rid
                    (map_option usage_of (nonempty_dict (er_usage result)))) (\<lambda>_.
        ret (Some result))))"

text \<open>
  The two entry points differ in how the run is resumed and in the tool outputs; the rest is
  shared. An exception of the SDK or of what follows it fails the run.
\<close>

definition run_with_sdk ::
  "('c, 'd) run_executor \<Rightarrow> string \<Rightarrow> string \<Rightarrow> run \<Rightarrow> tool_output list option \<Rightarrow>
     (('c, 'd) world, execution_result option) io" where
  "run_with_sdk X thread_id rid r tool_outputs =
     and_then (get_assistant (ex_assistants X) (run_assistant_id r) None) (\<lambda>found.
       case found of
         None \<Rightarrow>
           and_then (fail_run (ex_runs X) thread_id rid
             (error_dict ''assistant_not_found'' ''Assistant not found'')) (\<lambda>_. ret None)
       | Some a \<Rightarrow>
           try_except
             (and_then (ex_sdk X thread_id r a tool_outputs) (finish_run X thread_id rid a))
             (\<lambda>e. if is_exception e
                  then and_then (fail_run (ex_runs X) thread_id rid
                         (error_dict ''execution_error'' (ex_text X e))) (\<lambda>_. ret None)
                  else throw e))"

definition execute_run ::
  "('c, 'd) run_executor \<Rightarrow> string \<Rightarrow> string \<Rightarrow> (('c, 'd) world, execution_result option) io" where
  "execute_run X thread_id rid =
     and_then (start_run (ex_runs X) thread_id rid) (\<lambda>found.
       case found of
         None \<Rightarrow> ret None
       | Some r \<Rightarrow> run_with_sdk X thread_id rid r None)"

definition executor_submit_tool_outputs ::
  "('c, 'd) run_executor \<Rightarrow> string \<Rightarrow> string \<Rightarrow> tool_output list \<Rightarrow>
     (('c, 'd) world, execution_result option) io" where
  "executor_submit_tool_outputs X thread_id rid tool_outputs =
     and_then (submit_tool_outputs (ex_runs X) thread_id rid) (\<lambda>found.
       case found of
         None \<Rightarrow> ret None
       | Some r \<Rightarrow> run_with_sdk X thread_id rid r (Some tool_outputs))"

section \<open>Streaming\<close>

text \<open>A coroutine awaited inside a generator: its exception ends the stream.\<close>

definition await_events :: "('w, 'a) io \<Rightarrow> ('a \<Rightarrow> 'w events) \<Rightarrow> 'w events" where
  "await_events m f = (\<lambda>w.
     case m w of (Inl e, w') \<Rightarrow> (([], Some e), w') | (Inr x, w') \<Rightarrow> f x w')"

definition yield_all :: "json dict list \<Rightarrow> 'w events" where
  "yield_all es = (\<lambda>w. ((es, None), w))"

definition events_after :: "json dict list \<Rightarrow> 'w events \<Rightarrow> 'w events" where
  "events_after es m = (\<lambda>w. case m w of ((es', r), w') \<Rightarrow> ((es @ es', r), w'))"

definition error_event :: "string \<Rightarrow> json dict" where
  "error_event t = [(''type'', JStr ''error''), (''error'', JStr t)]"

definition stream_run :: "('c, 'd) run_executor \<Rightarrow> string \<Rightarrow> string \<Rightarrow> ('c, 'd) world events" where
  "stream_run X thread_id rid =
     await_events (start_run (ex_runs X) thread_id rid) (\<lambda>found.
       case found of
         None \<Rightarrow> yield_all []
       | Some r \<Rightarrow>
           await_events (get_assistant (ex_assistants X) (run_assistant_id r) None) (\<lambda>found_a.
             case found_a of
               None \<Rightarrow> yield_all [error_event ''Assistant not found'']
             | Some a \<Rightarrow> (\<lambda>w.
                 case ex_stream X thread_id r a w of
                   ((es, None), w') \<Rightarrow> ((es, None), w')
                 | ((es, Some e), w') \<Rightarrow>
                     if is_exception e
                     then events_after es
                            (await_events (fail_run (ex_runs X) thread_id rid
                               (error_dict ''execution_error'' (ex_text X e)))
                               (\<lambda>_. yield_all [error_event (ex_text X e)])) w'
                     else ((es, Some e), w'))))"

section \<open>The bodies in the source\<close>

definition get_thread_messages ::
  "'c message_service \<Rightarrow> string \<Rightarrow> (('c, 'd) world, message list) io" where
  "get_thread_messages M thread_id =
     and_then (list_messages M thread_id 100 ''asc'' None None) (\<lambda>result. ret (lr_data result))"

text \<open>The prompt and the system prompt are computed and dropped; then the method raises.\<close>

definition sdk_not_implemented :: exn where
  "sdk_not_implemented =
     NotImplementedError (''SDK execution not implemented. This method should be mocked in tests '' @
       ''or implemented with actual SDK calls.'')"

definition execute_with_sdk ::
  "'c message_service \<Rightarrow> string \<Rightarrow> run \<Rightarrow> assistant \<Rightarrow> tool_output list option \<Rightarrow>
     (('c, 'd) world, execution_result) io" where
  "execute_with_sdk M thread_id r a tool_outputs =
     and_then (get_thread_messages M thread_id) (\<lambda>messages. throw sdk_not_implemented)"

definition stream_with_sdk :: "string \<Rightarrow> run \<Rightarrow> assistant \<Rightarrow> 'w events" where
  "stream_with_sdk thread_id r a = (\<lambda>w.
     (([error_event ''SDK streaming not implemented''],
       Some (NotImplementedError (''SDK streaming not implemented. This method should be mocked '' @
         ''in tests or implemented with actual SDK calls.''))), w))"

section \<open>What an execution leaves behind\<close>

text \<open>The stored object under a key of another family is out of reach.\<close>

lemma run_key_other [simp]:
  "run_cache_key t i \<noteq> message_cache_key t' i'"
  "run_cache_key t i \<noteq> assistant_cache_key j"
  "run_cache_key t i \<noteq> assistant_owner_key h"
  by (simp_all add: run_cache_key_def message_cache_key_def assistant_cache_key_def
      assistant_owner_key_def)

lemma same_run_refl [simp]: "same_run r r"
  by (simp add: same_run_def)

lemma same_run_trans: "same_run r r' \<Longrightarrow> same_run r' r'' \<Longrightarrow> same_run r r''"
  by (simp add: same_run_def)

text \<open>Some state of the run is stored.\<close>

definition run_kept :: "pylib \<Rightarrow> run \<Rightarrow> store \<Rightarrow> bool" where
  "run_kept L r m \<longleftrightarrow> (\<exists>r'. run_at L m r' \<and> same_run r r')"

lemma run_keptI: "run_at L m r' \<Longrightarrow> same_run r r' \<Longrightarrow> run_kept L r m"
  by (auto simp: run_kept_def)

lemma run_kept_same:
  assumes "run_kept L r m" and "m' (run_cache_key (run_thread_id r) (run_id r)) =
      m (run_cache_key (run_thread_id r) (run_id r))"
  shows "run_kept L r m'"
  using assms by (auto simp: run_kept_def run_at_def same_run_def)

context steady_cache
begin

lemma load_entity_same: "load_entity C parse k s = (x, s') \<Longrightarrow> ent s' = ent s"
proof (cases x)
  case (Inl e)
  moreover assume "load_entity C parse k s = (x, s')"
  ultimately show ?thesis
    by (auto simp: load_entity_def io_inv dest: get_json_same)
next
  case (Inr y)
  moreover assume "load_entity C parse k s = (x, s')"
  ultimately show ?thesis
    by (auto simp: load_entity_def io_inv dest: get_json_same)
qed

lemma update_run_kept:
  assumes "rs_cache S = Some C" and "update_run S r' w = (x, w')"
    and "run_kept L r (ent (w_cache w))" and "wf_run r'" and "same_run r r'"
  shows "run_kept L r (ent (w_cache w'))"
proof -
  let ?k = "run_cache_key (run_thread_id r') (run_id r')"
  obtain y w1 where cached: "on_cache (c_set_json C ?k (run_payload r') (Some (rs_ttl S))) w = (y, w1)"
    by force
  then have step: "ent (w_cache w1) = ent (w_cache w) \<or>
      ent (w_cache w1) = (ent (w_cache w))(?k \<mapsto> dump_entry L (run_payload r'))"
    by (auto simp: on_cache_run dest: set_json_either)
  have "run_kept L r (ent (w_cache w1))"
    using step
  proof
    assume "ent (w_cache w1) = ent (w_cache w)"
    with assms(3) show ?thesis by simp
  next
    assume "ent (w_cache w1) = (ent (w_cache w))(?k \<mapsto> dump_entry L (run_payload r'))"
    with assms(4,5) show ?thesis by (intro run_keptI) (simp_all add: run_at_def)
  qed
  moreover have "w_cache w' = w_cache w1"
    using assms(1,2) cached
    by (cases y)
       (auto simp: update_run_def cache_run_def and_then_assoc on_db_run io_defs
        split: option.splits prod.splits sum.splits)
  ultimately show ?thesis by simp
qed

lemma perform_kept:
  assumes cache: "rs_cache S = Some C" "rs_lib S = L" and wf: "op_wf op"
    and kept: "run_kept L r (ent (w_cache w))"
    and run: "perform S (run_thread_id r) (run_id r) op w = (x, w')"
  shows "run_kept L r (ent (w_cache w'))"
proof -
  from kept obtain r0 where r0: "run_at L (ent (w_cache w)) r0" "same_run r r0"
    by (auto simp: run_kept_def)
  then have ids: "run_thread_id r = run_thread_id r0" "run_id r = run_id r0"
    by (simp_all add: same_run_def)
  obtain y w1 where get: "get_run S (run_thread_id r) (run_id r) w = (y, w1)"
    by force
  then have same: "ent (w_cache w1) = ent (w_cache w)"
    using cache by (auto simp: get_run_def on_cache_run dest: load_entity_same)
  show ?thesis
  proof (cases y)
    case (Inl e)
    with run get have "w' = w1"
      by (simp add: perform_transition transition_def)
    with same kept show ?thesis by simp
  next
    case (Inr found)
    then have found: "found = Some r0"
      using get_run_live(1) [OF cache r0(1)] get ids by simp
    show ?thesis
    proof (cases "op_allowed op (run_state r0)")
      case False
      with run get Inr found have "w' = w1"
        by (simp add: perform_transition transition_def)
      with same kept show ?thesis by simp
    next
      case True
      obtain now v where eff: "op_effect op w1 = (Inr (op_change op now), v)"
        and v: "w_cache v = w_cache w1"
        using op_effect_run by blast
      obtain z w2 where upd: "update_run S (op_change op now r0) v = (z, w2)"
        by force
      have "w' = w2"
        using run get Inr found True eff upd
        by (cases z) (simp_all add: perform_transition transition_def)
      moreover have "wf_run (op_change op now r0)"
        using r0 wf op_change_wf by (simp add: run_at_def)
      moreover have "same_run r (op_change op now r0)"
        using r0(2) op_change_same by (rule same_run_trans)
      moreover have "run_kept L r (ent (w_cache v))"
        using kept same v by simp
      ultimately show ?thesis
        using update_run_kept [OF cache(1) upd] by simp
    qed
  qed
qed

text \<open>An operation that returns leaves the run in the status of the state machine.\<close>

lemma perform_kept_state:
  assumes cache: "rs_cache S = Some C" "rs_lib S = L" and wf: "op_wf op"
    and kept: "run_kept L r (ent (w_cache w))" and allowed: "\<And>st. op_allowed op st"
    and run: "perform S (run_thread_id r) (run_id r) op w = (Inr found, w')"
  shows "\<exists>r'. run_at L (ent (w_cache w')) r' \<and> same_run r r' \<and> run_state r' = op_target op"
proof -
  from kept obtain r0 where r0: "run_at L (ent (w_cache w)) r0" "same_run r r0"
    by (auto simp: run_kept_def)
  then have "run_thread_id r = run_thread_id r0" "run_id r = run_id r0"
    by (simp_all add: same_run_def)
  with run have run0: "perform S (run_thread_id r0) (run_id r0) op w = (Inr found, w')"
    by simp
  from perform_live [OF cache r0(1) wf this] allowed obtain now where
    "run_at L (ent (w_cache w')) (op_change op now r0)"
    by auto
  then show ?thesis
    using op_change_state op_change_same same_run_trans [OF r0(2)] by blast
qed

text \<open>Messages and assistants are kept under other keys.\<close>

abbreviation run_view :: "string \<Rightarrow> string \<Rightarrow> 'a \<Rightarrow> entry option" where
  "run_view t i \<equiv> \<lambda>s. ent s (run_cache_key t i)"

lemma run_kept_keeps:
  assumes "run_kept L r (ent (w_cache w))"
    and "keeps (run_view (run_thread_id r) (run_id r)) m" and "m w = (x, w')"
  shows "run_kept L r (ent (w_cache w'))"
  using run_kept_same [OF assms(1)] keepsD [OF assms(2,3)] by blast

lemma keeps_set_json:
  "k \<noteq> run_cache_key t i \<Longrightarrow> keeps (run_view t i) (on_cache (c_set_json C k d ttl))"
  by (rule keeps_on_cache) (auto dest: set_json_other)

lemma keeps_add_to_set:
  "k \<noteq> run_cache_key t i \<Longrightarrow> keeps (run_view t i) (on_cache (c_add_to_set C k v))"
  by (rule keeps_on_cache) (auto dest: add_to_set_other)

lemma keeps_load: "keeps (run_view t i) (on_cache (load_entity C parse k))"
  by (rule keeps_on_cache) (auto dest: load_entity_same)

lemma keeps_cache_assistant:
  "as_cache A = Some C \<Longrightarrow> keeps (run_view t i) (cache_assistant A a)"
  unfolding cache_assistant_def
  by (simp add: keeps_intros keeps_set_json keeps_add_to_set run_key_other [symmetric]
      del: run_key_other)

lemma keeps_get_assistant:
  "as_cache A = Some C \<Longrightarrow> keeps (run_view t i) (get_assistant A aid key)"
  unfolding get_assistant_def get_cached_assistant_def
  by (auto intro!: keeps_intros keeps_load keeps_cache_assistant)

lemma keeps_create_message:
  "ms_cache M = Some C \<Longrightarrow> keeps (run_view t i) (create_message M th role content md a rid)"
  unfolding create_message_def cache_message_def
  by (auto intro!: keeps_intros keeps_set_json dest!: run_key_other(1) [THEN notE, OF sym])

lemma finish_run_kept:
  assumes cache: "rs_cache (ex_runs X) = Some C" "rs_lib (ex_runs X) = L" "ms_cache (ex_messages X) = Some C"
    and kept: "run_kept L r (ent (w_cache w))"
    and usage: "\<And>u. er_usage result = Some u \<Longrightarrow> wf_dict (usage_of u)"
    and run: "finish_run X (run_thread_id r) (run_id r) a result w = (x, w')"
  shows "run_kept L r (ent (w_cache w'))"
    and "x = Inr res \<Longrightarrow> res = Some result \<and> (\<exists>r'. run_at L (ent (w_cache w')) r' \<and> same_run r r' \<and>
      run_state r' = (if er_tool_calls result \<noteq> [] then RequiresAction else RunCompleted))"
proof -
  let ?t = "run_thread_id r" and ?i = "run_id r"
  have "run_kept L r (ent (w_cache w')) \<and> (\<forall>res. x = Inr res \<longrightarrow> res = Some result \<and>
      (\<exists>r'. run_at L (ent (w_cache w')) r' \<and> same_run r r' \<and>
      run_state r' = (if er_tool_calls result \<noteq> [] then RequiresAction else RunCompleted)))"
  proof (cases "er_tool_calls result = []")
    case False
    define op where "op = OpRequireAction
      (map (extract_tool_call (rs_lib (ex_runs X))) (dicts_of (er_tool_calls result)))"
    obtain y w1 where step: "perform (ex_runs X) ?t ?i op w = (y, w1)"
      by force
    have w1: "w' = w1" and x: "x = (case y of Inl e \<Rightarrow> Inl e | Inr _ \<Rightarrow> Inr (Some result))"
      using run step False by (cases y; simp add: finish_run_def op_def)+
    have "run_kept L r (ent (w_cache w1))"
      by (rule perform_kept [OF cache(1,2) _ kept step]) (simp add: op_def)
    moreover have "\<exists>r'. run_at L (ent (w_cache w1)) r' \<and> same_run r r' \<and> run_state r' = RequiresAction"
      if "y = Inr f" for f
      using perform_kept_state [OF cache(1,2) _ kept _ step [unfolded that]] by (simp add: op_def)
    ultimately show ?thesis
      using w1 x False by (auto split: sum.splits)
  next
    case True
    define op where "op = OpComplete (map_option usage_of (nonempty_dict (er_usage result)))"
    have op: "op_wf op"
      using usage by (cases "er_usage result") (auto simp: op_def nonempty_dict_def)
    obtain y1 w1 where said: "say_response X ?t ?i a result w = (y1, w1)" by force
    have "keeps (run_view ?t ?i) (say_response X ?t ?i a result)"
      unfolding say_response_def by (auto intro!: keeps_intros keeps_create_message cache)
    note kept1 = run_kept_keeps [OF kept this said]
    show ?thesis
    proof (cases y1)
      case (Inl e)
      with run said True have "w' = w1" and "x = Inl e"
        by (simp_all add: finish_run_def)
      with kept1 show ?thesis by simp
    next
      case (Inr u)
      obtain y2 w2 where step: "perform (ex_runs X) ?t ?i op w1 = (y2, w2)" by force
      have w2: "w' = w2" and x: "x = (case y2 of Inl e \<Rightarrow> Inl e | Inr _ \<Rightarrow> Inr (Some result))"
        using run said Inr step True
        by (cases y2; simp add: finish_run_def op_def)+
      have "run_kept L r (ent (w_cache w2))"
        by (rule perform_kept [OF cache(1,2) op kept1 step])
      moreover have "\<exists>r'. run_at L (ent (w_cache w2)) r' \<and> same_run r r' \<and> run_state r' = RunCompleted"
        if "y2 = Inr f" for f
        using perform_kept_state [OF cache(1,2) op kept1 _ step [unfolded that]] by (simp add: op_def)
      ultimately show ?thesis
        using w2 x True by (auto split: sum.splits)
    qed
  qed
  then show "run_kept L r (ent (w_cache w'))"
    and "x = Inr res \<Longrightarrow> res = Some result \<and> (\<exists>r'. run_at L (ent (w_cache w')) r' \<and> same_run r r' \<and>
      run_state r' = (if er_tool_calls result \<noteq> [] then RequiresAction else RunCompleted))"
    by blast+
qed

end

text \<open>The services of an executor share one cache.\<close>

definition wired :: "pylib \<Rightarrow> 'c cache \<Rightarrow> ('c, 'd) run_executor \<Rightarrow> bool" where
  "wired L C X \<longleftrightarrow> rs_cache (ex_runs X) = Some C \<and> rs_lib (ex_runs X) = L \<and>
     ms_cache (ex_messages X) = Some C \<and> as_cache (ex_assistants X) = Some C"

text \<open>
  What is asked of the SDK: it leaves the entry of the run to the run service, and the token
  counts it reports are values that JSON can hold.
\<close>

definition sdk_fair :: "('c \<Rightarrow> store) \<Rightarrow> ('c, 'd) run_executor \<Rightarrow> string \<Rightarrow> string \<Rightarrow> bool" where
  "sdk_fair ent X t i \<longleftrightarrow>
     (\<forall>r a outs. keeps (\<lambda>s. ent s (run_cache_key t i)) (ex_sdk X t r a outs)) \<and>
     (\<forall>r a outs w result w' u. ex_sdk X t r a outs w = (Inr result, w') \<longrightarrow>
        er_usage result = Some u \<longrightarrow> wf_dict (usage_of u))"

definition outcome_status :: "execution_result option \<Rightarrow> run_status" where
  "outcome_status res =
     (case res of
        None \<Rightarrow> Failed
      | Some result \<Rightarrow> if er_tool_calls result \<noteq> [] then RequiresAction else RunCompleted)"

context steady_cache
begin

lemma fail_run_kept:
  assumes cache: "rs_cache S = Some C" "rs_lib S = L"
    and kept: "run_kept L r (ent (w_cache w))"
    and run: "and_then (fail_run S (run_thread_id r) (run_id r) (error_dict c m))
      (\<lambda>_. ret (None :: execution_result option)) w = (Inr res, w')"
  shows "\<exists>r'. run_at L (ent (w_cache w')) r' \<and> same_run r r' \<and> run_state r' = outcome_status res"
proof -
  from run obtain f where step:
    "perform S (run_thread_id r) (run_id r) (OpFail (error_dict c m)) w = (Inr f, w')"
    and res: "res = None"
    by (auto simp: io_inv)
  have "op_wf (OpFail (error_dict c m))"
    by (simp add: error_dict_def)
  from perform_kept_state [OF cache this kept _ step] res show ?thesis
    by (simp add: outcome_status_def)
qed

lemma run_with_sdk_outcome:
  assumes wired: "wired L C X" and fair: "sdk_fair ent X (run_thread_id r) (run_id r)"
    and kept: "run_kept L r (ent (w_cache w))"
    and run: "run_with_sdk X (run_thread_id r) (run_id r) r0 outs w = (Inr res, w')"
  shows "\<exists>r'. run_at L (ent (w_cache w')) r' \<and> same_run r r' \<and> run_state r' = outcome_status res"
proof -
  let ?t = "run_thread_id r" and ?i = "run_id r"
  have cache: "rs_cache (ex_runs X) = Some C" "rs_lib (ex_runs X) = L"
    "ms_cache (ex_messages X) = Some C" "as_cache (ex_assistants X) = Some C"
    using wired by (simp_all add: wired_def)
  from run obtain found w1 where
    got: "get_assistant (ex_assistants X) (run_assistant_id r0) None w = (Inr found, w1)"
    and rest: "(case found of
         None \<Rightarrow> and_then (fail_run (ex_runs X) ?t ?i
             (error_dict ''assistant_not_found'' ''Assistant not found'')) (\<lambda>_. ret None)
       | Some a \<Rightarrow> try_except (and_then (ex_sdk X ?t r0 a outs) (finish_run X ?t ?i a))
             (\<lambda>e. if is_exception e
                  then and_then (fail_run (ex_runs X) ?t ?i
                         (error_dict ''execution_error'' (ex_text X e))) (\<lambda>_. ret None)
                  else throw e)) w1 = (Inr res, w')"
    unfolding run_with_sdk_def and_then_Inr by blast
  note kept1 = run_kept_keeps [OF kept keeps_get_assistant [OF cache(4)] got]
  show ?thesis
  proof (cases found)
    case None
    with rest fail_run_kept [OF cache(1,2) kept1] show ?thesis by simp
  next
    case (Some a)
    obtain y w2 where sdk: "ex_sdk X ?t r0 a outs w1 = (y, w2)" by force
    have "keeps (run_view ?t ?i) (ex_sdk X ?t r0 a outs)"
      using fair by (simp add: sdk_fair_def)
    note kept2 = run_kept_keeps [OF kept1 this sdk]
    show ?thesis
    proof (cases y)
      case (Inl e)
      with rest Some sdk fail_run_kept [OF cache(1,2) kept2] show ?thesis
        by (cases "is_exception e") simp_all
    next
      case (Inr result)
      obtain z w3 where fin: "finish_run X ?t ?i a result w2 = (z, w3)" by force
      have usage: "\<And>u. er_usage result = Some u \<Longrightarrow> wf_dict (usage_of u)"
        using fair sdk Inr unfolding sdk_fair_def by blast
      note after = finish_run_kept [OF cache(1-3) kept2 usage fin]
      show ?thesis
      proof (cases z)
        case (Inl e)
        with rest Some sdk Inr fin fail_run_kept [OF cache(1,2) after(1)] show ?thesis
          by (cases "is_exception e") simp_all
      next
        case (Inr res')
        with rest Some sdk \<open>y = Inr result\<close> fin have "res' = res" and "w3 = w'"
          by simp_all
        with after(2) [of res] Inr show ?thesis
          by (auto simp: outcome_status_def)
      qed
    qed
  qed
qed

lemma execute_run_outcome:
  assumes wired: "wired L C X" and fair: "sdk_fair ent X (run_thread_id r) (run_id r)"
    and at: "run_at L (ent (w_cache w)) r"
    and run: "execute_run X (run_thread_id r) (run_id r) w = (Inr res, w')"
  shows "\<exists>r'. run_at L (ent (w_cache w')) r' \<and> same_run r r' \<and> run_state r' = outcome_status res"
proof -
  have cache: "rs_cache (ex_runs X) = Some C" "rs_lib (ex_runs X) = L"
    using wired by (simp_all add: wired_def)
  obtain y w1 where step: "perform (ex_runs X) (run_thread_id r) (run_id r) OpStart w = (y, w1)"
    by force
  have kept: "run_kept L r (ent (w_cache w1))"
    by (rule perform_kept [OF cache _ _ step]) (auto intro: run_keptI [OF at])
  from run step obtain found where y: "y = Inr found"
    by (cases y) (simp_all add: execute_run_def)
  with perform_live [OF cache at _ step [unfolded y]] obtain r1 where "found = Some r1"
    by (auto split: if_splits)
  with run step y have "run_with_sdk X (run_thread_id r) (run_id r) r1 None w1 = (Inr res, w')"
    by (simp add: execute_run_def)
  from run_with_sdk_outcome [OF wired fair kept this] show ?thesis .
qed

end

end
