(* ===== verification/Threads.thy ===== *)
theory Threads
  imports SessionService
begin

text \<open>
  \<open>ThreadService\<close>, \<open>services/assistants/thread_service.py\<close>: threads, kept in the cache only,
  each with a session of the session service behind it.
\<close>

record thread =
  th_id :: string
  th_created_at :: int
  th_metadata :: "string dict"
  th_session_id :: "string option"

record ('c, 'd) thread_service =
  ts_lib :: pylib
  ts_sessions :: "('c, 'd) session_service option"
  ts_cache :: "'c cache option"
  ts_ttl :: int

section \<open>The cached dictionary\<close>

definition thread_cache_key :: "string \<Rightarrow> string" where
  "thread_cache_key thread_id = ''thread:'' @ thread_id"

definition thread_payload :: "thread \<Rightarrow> json dict" where
  "thread_payload t =
     [(''id'', JStr (th_id t)),
      (''created_at'', JInt (th_created_at t)),
      (''metadata'', JObj (strings_obj (th_metadata t))),
      (''session_id'', json_of_opt JStr (th_session_id t))]"

definition thread_of_dict :: "pylib \<Rightarrow> json dict \<Rightarrow> exn + thread" where
  "thread_of_dict L parsed =
     bind_sum (dict_item parsed ''id'') (\<lambda>i.
     bind_sum (int_field parsed ''created_at'') (\<lambda>created_at.
     Inr \<lparr>th_id = py_str L i, th_created_at = created_at,
          th_metadata = string_dict_field parsed ''metadata'',
          th_session_id = truthy_str L (dict_get parsed ''session_id'')\<rparr>))"

definition parse_cached_thread :: "pylib \<Rightarrow> json \<Rightarrow> exn + thread option" where
  "parse_cached_thread L parsed =
     (case parsed of
        JObj d \<Rightarrow> none_on_parse_error (bind_sum (thread_of_dict L d) (\<lambda>t. Inr (Some t)))
      | _ \<Rightarrow> Inr None)"

section \<open>Operations\<close>

definition cache_thread :: "('c, 'd) thread_service \<Rightarrow> thread \<Rightarrow> (('c, 'd) world, unit) io" where
  "cache_thread S t =
     (case ts_cache S of
        None \<Rightarrow> ret ()
      | Some C \<Rightarrow>
          and_then (on_cache (c_set_json C (thread_cache_key (th_id t)) (thread_payload t)
                      (Some (ts_ttl S)))) (\<lambda>_. ret ()))"

definition create_thread ::
  "('c, 'd) thread_service \<Rightarrow> string dict option \<Rightarrow> string option \<Rightarrow> (('c, 'd) world, thread) io" where
  "create_thread S metadata owner_api_key =
     and_then draw_token (\<lambda>suffix.
     and_then utc_now (\<lambda>now.
     and_then
       (case ts_sessions S of
          None \<Rightarrow> ret None
        | Some SS \<Rightarrow>
            and_then (create_session SS ''gpt-4'' None None owner_api_key) (\<lambda>s. ret (Some (s_id s))))
       (\<lambda>session_id.
     let t = \<lparr>th_id = ''thread_'' @ suffix, th_created_at = unix_seconds now,
              th_metadata = (case metadata of None \<Rightarrow> [] | Some m \<Rightarrow> m),
              th_session_id = session_id\<rparr> in
     and_then (cache_thread S t) (\<lambda>_. ret t))))"

text \<open>The API key is accepted and ignored.\<close>

definition get_thread ::
  "('c, 'd) thread_service \<Rightarrow> string \<Rightarrow> string option \<Rightarrow> (('c, 'd) world, thread option) io" where
  "get_thread S thread_id current_api_key =
     (case ts_cache S of
        None \<Rightarrow> ret None
      | Some C \<Rightarrow>
          on_cache (load_entity C (parse_cached_thread (ts_lib S)) (thread_cache_key thread_id)))"

definition modify_thread ::
  "('c, 'd) thread_service \<Rightarrow> string \<Rightarrow> string dict option \<Rightarrow> string option \<Rightarrow>
     (('c, 'd) world, thread option) io" where
  "modify_thread S thread_id metadata current_api_key =
     and_then (get_thread S thread_id current_api_key) (\<lambda>found.
       case found of
         None \<Rightarrow> ret None
       | Some t0 \<Rightarrow>
           let t = (case metadata of None \<Rightarrow> t0 | Some m \<Rightarrow> t0\<lparr>th_metadata := m\<rparr>) in
           and_then (cache_thread S t) (\<lambda>_. ret (Some t)))"

definition delete_thread ::
  "('c, 'd) thread_service \<Rightarrow> string \<Rightarrow> string option \<Rightarrow> (('c, 'd) world, bool) io" where
  "delete_thread S thread_id current_api_key =
     and_then (get_thread S thread_id current_api_key) (\<lambda>found.
       case found of
         None \<Rightarrow> ret False
       | Some t \<Rightarrow>
           and_then
             (case (ts_sessions S, th_session_id t) of
                (Some SS, Some i) \<Rightarrow>
                  if i \<noteq> [] then and_then (delete_session SS i) (\<lambda>_. ret ()) else ret ()
              | _ \<Rightarrow> ret ()) (\<lambda>_.
           and_then
             (case ts_cache S of
                None \<Rightarrow> ret ()
              | Some C \<Rightarrow>
                  and_then (on_cache (c_delete C (thread_cache_key thread_id))) (\<lambda>_. ret ())) (\<lambda>_.
           ret True)))"

section \<open>The codec\<close>

definition wf_thread :: "thread \<Rightarrow> bool" where
  "wf_thread t \<longleftrightarrow> th_session_id t \<noteq> Some [] \<and> distinct_keys (th_metadata t)"

lemma parse_thread_payload:
  "th_session_id t \<noteq> Some [] \<Longrightarrow> parse_cached_thread L (JObj (thread_payload t)) = Inr (Some t)"
  by (simp add: parse_cached_thread_def thread_of_dict_def thread_payload_def dict_read_defs
      int_field_def string_dict_field_def)

sublocale pylib_laws \<subseteq> threads: entity_codec thread_payload "parse_cached_thread L" wf_thread
proof (unfold_locales, goal_cases)
  case (1 t)
  then show ?case by (simp add: thread_payload_def wf_thread_def wf_strings_obj)
next
  case (2 t)
  show ?case by (simp add: thread_payload_def)
next
  case (3 t)
  then show ?case by (simp add: parse_thread_payload wf_thread_def)
qed

sublocale live_cache \<subseteq>
  thread_store: live_entity_store L C ent ages matches thread_payload "parse_cached_thread L" wf_thread
  by unfold_locales

end
