(* ===== verification/SessionTracker.thy ===== *)
theory SessionTracker
  imports CacheProtocol
begin

text \<open>
  \<open>AgentSessionTracker\<close>, \<open>services/agent/session_tracker.py\<close>: the markers of active and of
  interrupted sessions. Without a cache every operation raises.
\<close>

record 'c session_tracker =
  st_cache :: "'c cache option"
  st_session_ttl :: int
  st_interrupt_ttl :: int

definition active_key :: "string \<Rightarrow> string" where
  "active_key session_id = ''active_session:'' @ session_id"

definition interrupted_key :: "string \<Rightarrow> string" where
  "interrupted_key session_id = ''interrupted:'' @ session_id"

definition with_tracker_cache ::
  "'c session_tracker \<Rightarrow> string \<Rightarrow> ('c cache \<Rightarrow> ('c, 'a) io) \<Rightarrow> ('c, 'a) io" where
  "with_tracker_cache T what f =
     (case st_cache T of
        None \<Rightarrow> throw (RuntimeError (''Cache is required for distributed '' @ what))
      | Some C \<Rightarrow> f C)"

definition register :: "'c session_tracker \<Rightarrow> string \<Rightarrow> ('c, unit) io" where
  "register T session_id =
     with_tracker_cache T ''session tracking'' (\<lambda>C.
       and_then (c_cache_set C (active_key session_id) ''true'' (Some (st_session_ttl T))) (\<lambda>_. ret ()))"

definition is_active :: "'c session_tracker \<Rightarrow> string \<Rightarrow> ('c, bool) io" where
  "is_active T session_id =
     with_tracker_cache T ''session tracking'' (\<lambda>C. c_exists C (active_key session_id))"

definition unregister :: "'c session_tracker \<Rightarrow> string \<Rightarrow> ('c, unit) io" where
  "unregister T session_id =
     with_tracker_cache T ''session tracking'' (\<lambda>C.
       and_then (c_delete C (active_key session_id)) (\<lambda>_. ret ()))"

definition is_interrupted :: "'c session_tracker \<Rightarrow> string \<Rightarrow> ('c, bool) io" where
  "is_interrupted T session_id =
     with_tracker_cache T ''interrupt checking'' (\<lambda>C. c_exists C (interrupted_key session_id))"

definition mark_interrupted :: "'c session_tracker \<Rightarrow> string \<Rightarrow> ('c, unit) io" where
  "mark_interrupted T session_id =
     with_tracker_cache T ''interrupt signaling'' (\<lambda>C.
       and_then (c_cache_set C (interrupted_key session_id) ''true'' (Some (st_interrupt_ttl T)))
         (\<lambda>_. ret ()))"

lemma tracker_keys [simp]:
  "active_key a = active_key b \<longleftrightarrow> a = b"
  "interrupted_key a = interrupted_key b \<longleftrightarrow> a = b"
  "active_key a \<noteq> interrupted_key b"
  "interrupted_key a \<noteq> active_key b"
  by (simp_all add: active_key_def interrupted_key_def)

section \<open>The tracker as a set of sessions\<close>

text \<open>
  Read through \<open>marked\<close>, the tracker is a pair of sets of session identifiers: \<open>register\<close>
  inserts, \<open>unregister\<close> deletes, the queries are membership.
\<close>

definition marked :: "(string \<Rightarrow> string) \<Rightarrow> store \<Rightarrow> string set" where
  "marked key m = {i. m (key i) \<noteq> None}"

context live_cache
begin

lemma register_marks:
  assumes "register T i s = (Inr u, s')" and "st_cache T = Some C"
  shows "marked active_key (ent s') = insert i (marked active_key (ent s))"
    and "marked interrupted_key (ent s') = marked interrupted_key (ent s)"
proof -
  from assms obtain b where "c_cache_set C (active_key i) ''true'' (Some (st_session_ttl T)) s = (Inr b, s')"
    by (auto simp: register_def with_tracker_cache_def io_inv)
  from live_cache_set [OF this]
  show "marked active_key (ent s') = insert i (marked active_key (ent s))"
    and "marked interrupted_key (ent s') = marked interrupted_key (ent s)"
    by (auto simp: marked_def)
qed

lemma unregister_unmarks:
  assumes "unregister T i s = (Inr u, s')" and "st_cache T = Some C"
  shows "marked active_key (ent s') = marked active_key (ent s) - {i}"
    and "marked interrupted_key (ent s') = marked interrupted_key (ent s)"
proof -
  from assms obtain b where "c_delete C (active_key i) s = (Inr b, s')"
    by (auto simp: unregister_def with_tracker_cache_def io_inv)
  from live_delete [OF this]
  show "marked active_key (ent s') = marked active_key (ent s) - {i}"
    and "marked interrupted_key (ent s') = marked interrupted_key (ent s)"
    by (auto simp: marked_def)
qed

lemma mark_interrupted_marks:
  assumes "mark_interrupted T i s = (Inr u, s')" and "st_cache T = Some C"
  shows "marked interrupted_key (ent s') = insert i (marked interrupted_key (ent s))"
    and "marked active_key (ent s') = marked active_key (ent s)"
proof -
  from assms obtain b where
    "c_cache_set C (interrupted_key i) ''true'' (Some (st_interrupt_ttl T)) s = (Inr b, s')"
    by (auto simp: mark_interrupted_def with_tracker_cache_def io_inv)
  from live_cache_set [OF this]
  show "marked interrupted_key (ent s') = insert i (marked interrupted_key (ent s))"
    and "marked active_key (ent s') = marked active_key (ent s)"
    by (auto simp: marked_def)
qed

lemma queries_read_marks:
  assumes "st_cache T = Some C"
  shows "is_active T i s = (Inr b, s') \<Longrightarrow> ent s' = ent s \<and> b = (i \<in> marked active_key (ent s))"
    and "is_interrupted T i s = (Inr b, s') \<Longrightarrow>
      ent s' = ent s \<and> b = (i \<in> marked interrupted_key (ent s))"
  using assms live_exists
  by (auto simp: is_active_def is_interrupted_def with_tracker_cache_def marked_def)

end

end
