(* ===== verification/Reference.thy ===== *)
theory Reference
  imports RefServer RunExecutor Threads SessionTracker
begin

text \<open>
  The adapter on the concrete server: the contracts the components rely on hold together, and
  the concrete runs of the theories that follow start from the world given here.
\<close>

section \<open>The contracts hold\<close>

definition ref_cache :: "nat \<Rightarrow> server redis_world cache" where
  "ref_cache dt = redis_cache 1 ref_lib (ref_redis dt)"

definition ref_ent :: "server redis_world \<Rightarrow> store" where
  "ref_ent w = server_ent (rw_server w)"

interpretation still: redis_laws ref_lib 1 "ref_redis 0" server_ent "server_ages 0" glob
    server_unseen "\<lambda>s c. 0"
  by (rule server_redis_laws)

interpretation ageing: redis_laws ref_lib 1 "ref_redis 1" server_ent "server_ages 1" glob
    server_unseen "\<lambda>s c. 0"
  by (rule server_redis_laws)

lemma ref_contract: "cache_contract ref_lib (ref_cache dt) ref_ent (server_ages dt) glob"
  unfolding ref_cache_def ref_ent_def [abs_def]
  by (rule redis_laws.adapter_contract [OF server_redis_laws])

lemma ref_get_json_fails:
  "c_get_json (ref_cache 0) k s = (Inl e, s') \<Longrightarrow> ref_ent s' = ref_ent s"
  by (auto simp: ref_cache_def ref_ent_def rc_get_json_def rc_get_def io_inv on_server_run
      ref_redis_def command_def sv_get_def tick_def split: option.splits held.splits prod.splits
      if_splits)

lemma ref_set_json_fails:
  "c_set_json (ref_cache 0) k d ttl s = (Inl e, s') \<Longrightarrow> ref_ent s' = ref_ent s"
  by (auto simp: ref_cache_def ref_ent_def rc_set_json_def rc_cache_set_def io_inv on_server_run
      ref_redis_def command_def sv_set_def sv_setex_def tick_def
      split: option.splits sum.splits if_splits)

lemma ref_add_to_set_fails:
  "c_add_to_set (ref_cache 0) k v s = (Inl e, s') \<Longrightarrow> ref_ent s' = ref_ent s"
  by (auto simp: ref_cache_def ref_ent_def rc_add_to_set_def io_inv on_server_run
      ref_redis_def command_def sv_sadd_def tick_def
      split: option.splits held.splits prod.splits if_splits)

lemma ref_delete_fails:
  "c_delete (ref_cache 0) k s \<noteq> (Inl e, s')"
  by (auto simp: ref_cache_def ref_ent_def rc_delete_def io_inv on_server_run
      ref_redis_def command_def sv_delete_def)

lemma ref_reads_fail:
  "c_set_members (ref_cache 0) k s = (Inl e, s') \<Longrightarrow> ref_ent s' = ref_ent s"
  "c_get_many_json (ref_cache 0) ks s = (Inl e, s') \<Longrightarrow> ref_ent s' = ref_ent s"
  "c_exists (ref_cache 0) k s = (Inl e, s') \<Longrightarrow> ref_ent s' = ref_ent s"
  by (auto simp: ref_cache_def ref_ent_def redis_cache_def rc_set_members_def rc_get_many_json_def
      rc_exists_def io_inv on_server_run ref_redis_def command_def sv_smembers_def sv_mget_def
      sv_exists_def tick_def split: option.splits held.splits prod.splits if_splits)

lemma ref_remove_from_set_fails:
  "c_remove_from_set (ref_cache 0) k v s = (Inl e, s') \<Longrightarrow> ref_ent s' = ref_ent s"
  by (auto simp: ref_cache_def ref_ent_def redis_cache_def rc_remove_from_set_def io_inv on_server_run
      ref_redis_def command_def sv_srem_def tick_def Let_def
      split: option.splits held.splits prod.splits if_splits)

lemma ref_expire_touches:
  assumes "c_expire (ref_cache 0) k secs s = (r, s')" and "k' \<noteq> k"
  shows "ref_ent s' k' = ref_ent s k'"
proof -
  from assms(1) have "sv_expire k secs (tick 0 (rw_server s)) = (r, rw_server s')"
    by (auto simp: ref_cache_def redis_cache_def rc_expire_def on_server_run ref_redis_def command_def)
  moreover have "tick 0 (rw_server s) = rw_server s"
    by (simp add: tick_def)
  ultimately have "rw_server s' = snd (sv_expire k secs (rw_server s))"
    by simp
  with assms(2) have "look (rw_server s') k' = look (rw_server s) k'"
    by (cases "look (rw_server s) k") (auto simp: sv_expire_def look_put look_del)
  then show ?thesis
    by (simp add: ref_ent_def server_ent_def)
qed

lemma ref_live: "live_cache ref_lib (ref_cache 0) ref_ent (server_ages 0) glob"
  by (rule live_cache.intro [OF ref_contract]) (simp add: live_cache_axioms_def server_ages_def)

lemma ref_steady: "steady_cache ref_lib (ref_cache 0) ref_ent (server_ages 0) glob"
  by (rule steady_cache.intro [OF ref_live])
     (auto simp: steady_cache_axioms_def ref_delete_fails
       dest: ref_get_json_fails ref_set_json_fails ref_add_to_set_fails ref_expire_touches
         ref_reads_fail ref_remove_from_set_fails)

interpretation steady: steady_cache ref_lib "ref_cache 0" ref_ent "server_ages 0" glob
  by (rule ref_steady)

text \<open>
  Reading and writing JSON on the steady server, for runs over a store that is given by what it
  holds.
\<close>

lemma ref_get_json_ok:
  assumes "stored_text (ref_ent s k) \<noteq> None \<or> ref_ent s k = None"
  shows "c_get_json (ref_cache 0) k s = (Inr (stored_json ref_lib (ref_ent s k)), s)"
proof -
  obtain sv where s: "rw_server s = sv" by simp
  have utf: "stored_text (Some (Value b)) = Some t \<longleftrightarrow> b = Utf8 t" for b t
    by (cases b) auto
  have get: "rc_get (ref_redis 0) k s = (Inr (stored_text (ref_ent s k)), s)"
    using assms s utf
    by (cases "look sv k")
       (auto simp: rc_get_def on_server_def ref_redis_def command_def tick_def sv_get_def ref_ent_def
         server_ent_def and_then_def ret_def lift_sum_def split: held.splits rbytes.splits prod.splits)
  show ?thesis
  proof (cases "stored_text (ref_ent s k)")
    case None
    with get show ?thesis
      by (simp add: ref_cache_def rc_get_json_def stored_json_def)
  next
    case (Some t)
    with get show ?thesis
      by (auto simp: ref_cache_def rc_get_json_def stored_json_def json_of_text_def split: option.split)
  qed
qed

definition ref_put :: "string \<Rightarrow> json dict \<Rightarrow> int \<Rightarrow> server redis_world \<Rightarrow> server redis_world" where
  "ref_put k d ttl s = snd (c_set_json (ref_cache 0) k d (Some ttl) s)"

lemma ref_set_json_ok:
  assumes "0 < ttl"
  shows "c_set_json (ref_cache 0) k d (Some ttl) s = (Inr True, ref_put k d ttl s)"
    and "ref_ent (ref_put k d ttl s) = (ref_ent s)(k \<mapsto> dump_entry ref_lib d)"
proof -
  have "fst (c_set_json (ref_cache 0) k d (Some ttl) s) = Inr True"
    using assms
    by (simp add: ref_cache_def rc_set_json_def rc_cache_set_def on_server_def ref_redis_def
      command_def sv_setex_def deadline_def io_operator_defs del: and_then_run try_except_run try_finally_run)
  then show run: "c_set_json (ref_cache 0) k d (Some ttl) s = (Inr True, ref_put k d ttl s)"
    unfolding ref_put_def by (rule fst_run)
  show "ref_ent (ref_put k d ttl s) = (ref_ent s)(k \<mapsto> dump_entry ref_lib d)"
    by (rule steady.live_set_json [OF run])
qed

lemmas ref_json_ok = ref_get_json_ok ref_set_json_ok

lemma ref_load_ok:
  assumes "ref_ent s k = Some (dump_entry ref_lib d)" and "wf_dict d" and "d \<noteq> []"
  shows "load_entity (ref_cache 0) parse k s = (parse (JObj d), s)"
proof -
  have "c_get_json (ref_cache 0) k s = (Inr (JObj d), s)"
    using ref_get_json_ok [of s k] assms(1) steady.stored_json_dump [OF assms(2)]
    by (simp add: dump_entry_def)
  with assms(3) show ?thesis
    by (simp add: load_entity_def parse_row_def)
qed

lemma ref_load_none:
  "ref_ent s k = None \<Longrightarrow> load_entity (ref_cache 0) parse k s = (Inr None, s)"
  using ref_get_json_ok [of s k] by (simp add: load_entity_def parse_row_def)

definition ref_drop :: "string \<Rightarrow> server redis_world \<Rightarrow> server redis_world" where
  "ref_drop k s = snd (c_delete (ref_cache 0) k s)"

lemma ref_delete_ok:
  "c_delete (ref_cache 0) k s = (Inr (ref_ent s k \<noteq> None), ref_drop k s)"
  "ref_ent (ref_drop k s) = (ref_ent s)(k := None)"
proof -
  obtain b where run: "c_delete (ref_cache 0) k s = (Inr b, ref_drop k s)"
    using ref_delete_fails [of k s]
    by (cases "c_delete (ref_cache 0) k s"; cases "fst (c_delete (ref_cache 0) k s)") (auto simp: ref_drop_def)
  from steady.live_delete [OF run] run
  show "c_delete (ref_cache 0) k s = (Inr (ref_ent s k \<noteq> None), ref_drop k s)"
    and "ref_ent (ref_drop k s) = (ref_ent s)(k := None)"
    by auto
qed

section \<open>A world to run in\<close>

definition ref_tokens :: "nat \<Rightarrow> string" where
  "ref_tokens n = replicate (Suc n) (CHR ''a'')"

definition empty_server :: server where
  "empty_server = \<lparr>sv_now = 0, sv_data = []\<rparr>"

definition ref_world :: "'d \<Rightarrow> (server redis_world, 'd) world" where
  "ref_world d =
     \<lparr>w_cache = \<lparr>rw_server = empty_server, rw_uuids = ref_tokens, rw_draws = 0\<rparr>, w_db = d,
      w_clock = (\<lambda>n. 1000000 * (int n + 1)), w_ticks = 0, w_tokens = ref_tokens, w_draws = 0,
      w_mono = 0, w_lags = (\<lambda>n. 0), w_reads = 0, w_random = (\<lambda>n. 1 / 2), w_rolls = 0\<rparr>"

lemma ref_world_sel [simp]:
  "w_cache (ref_world d) = \<lparr>rw_server = empty_server, rw_uuids = ref_tokens, rw_draws = 0\<rparr>"
  "w_db (ref_world d) = d" "w_clock (ref_world d) n = 1000000 * (int n + 1)"
  "w_ticks (ref_world d) = 0" "w_tokens (ref_world d) = ref_tokens" "w_draws (ref_world d) = 0"
  "w_mono (ref_world d) = 0" "w_lags (ref_world d) n = 0" "w_reads (ref_world d) = 0"
  "w_random (ref_world d) n = 1 / 2" "w_rolls (ref_world d) = 0"
  by (simp_all add: ref_world_def)

lemma sane_ref_world: "sane_clock (ref_world d)"
  by (simp add: sane_clock_def)

lemma ref_tokens_inj: "inj ref_tokens"
  by (auto simp: inj_def ref_tokens_def dest: arg_cong [where f = length])

lemma ref_world_empty: "ref_ent (w_cache (ref_world d)) k = None"
  by (simp add: ref_ent_def server_ent_None look_def empty_server_def)

section \<open>A session repository\<close>

text \<open>A table of rows as a list, in the order of insertion; times in it are zero.\<close>

definition new_row :: "uuid \<Rightarrow> string \<Rightarrow> uuid option \<Rightarrow> string option \<Rightarrow> session_row" where
  "new_row i model pid owner =
     \<lparr>row_id = i, row_created_at = 0, row_updated_at = 0, row_status = ''active'', row_model = model,
      row_working_directory = None, row_total_turns = 0, row_total_cost_usd = None,
      row_owner_api_key_hash = hash_of_owner ref_lib owner, row_parent_session_id = pid,
      row_session_metadata = None\<rparr>"

definition change_row ::
  "uuid \<Rightarrow> (session_row \<Rightarrow> session_row) \<Rightarrow> session_row list \<Rightarrow> (exn + session_row option) \<times> session_row list"
where
  "change_row i f rows =
     (Inr (map_option f (find (\<lambda>r. row_id r = i) rows)),
      map (\<lambda>r. if row_id r = i then f r else r) rows)"

definition ref_repo :: "session_row list session_repo" where
  "ref_repo =
     \<lparr>sr_create = (\<lambda>i model pid owner rows.
        if find (\<lambda>r. row_id r = i) rows \<noteq> None then (Inl (IntegrityError ''duplicate key''), rows)
        else (Inr (new_row i model pid owner), rows @ [new_row i model pid owner])),
      sr_get = (\<lambda>i rows. (Inr (find (\<lambda>r. row_id r = i) rows), rows)),
      sr_update = (\<lambda>i status turns cost. change_row i (\<lambda>r.
        r\<lparr>row_status := (case status of None \<Rightarrow> row_status r | Some t \<Rightarrow> t),
          row_total_turns := (case turns of None \<Rightarrow> row_total_turns r | Some n \<Rightarrow> n),
          row_total_cost_usd := (case cost of None \<Rightarrow> row_total_cost_usd r | Some c \<Rightarrow> Some c)\<rparr>)),
      sr_list_sessions = (\<lambda>owner limit offset mode project_id tags search rows.
        let hits = filter (\<lambda>r. \<not> given owner \<or> row_owner_api_key_hash r = hash_of_owner ref_lib owner) rows
        in (Inr (py_slice hits offset (offset + limit), int (length hits)), rows)),
      sr_update_metadata = (\<lambda>i m. change_row i (\<lambda>r. r\<lparr>row_session_metadata := Some m\<rparr>)),
      sr_delete_session = (\<lambda>i rows.
        (Inr (find (\<lambda>r. row_id r = i) rows \<noteq> None), filter (\<lambda>r. row_id r \<noteq> i) rows))\<rparr>"

text \<open>A service on the steady cache and that repository, and one without a cache.\<close>

definition ref_service :: "(server redis_world, session_row list) session_service" where
  "ref_service = \<lparr>ss_lib = ref_lib, ss_cache = Some (ref_cache 0), ss_repo = Some ref_repo, ss_ttl = 3600\<rparr>"

definition db_service :: "(server redis_world, session_row list) session_service" where
  "db_service = ref_service\<lparr>ss_cache := None\<rparr>"

definition owned_row :: session_row where
  "owned_row = new_row ''s1'' ''m'' None (Some ''key'')"

text \<open>
  What a concrete run unfolds to. The operators are unfolded too, in place of the conditional
  rules for them, so that each step is evaluated once.
\<close>

lemmas ref_eval = io_operator_defs ref_cache_def redis_cache_def ref_redis_def command_def on_server_def
  on_cache_def on_db_def ref_service_def ref_repo_def uuid_of_def tick_def look_def put_def del_def
  empty_server_def not_due_def ref_tokens_def deadline_def
  rc_get_json_def rc_get_def rc_set_json_def rc_cache_set_def rc_delete_def rc_add_to_set_def
  rc_expire_def rc_acquire_lock_def rc_release_lock_def draw_uuid_def
  sv_get_def sv_set_def sv_setex_def sv_delete_def sv_sadd_def sv_expire_def sv_eval_def

lemmas eval_rules = and_then_run try_except_run try_finally_run

lemmas session_eval = cache_session_io_def scm_cache_session_def get_cached_session_io_def
  scm_get_cached_session_def hash_of_owner_def hash_api_key_def cache_key_def owner_index_key_def
  enforce_owner_def compare_digest_def is_ascii_def map_db_to_service_def

end
