(* ===== verification/SessionProperties.thy ===== *)
theory SessionProperties
  imports SessionService Reference
begin

text \<open>
  What the session service promises: ownership, durability before caching, the round trip of a
  session through the cache, the lock around updates, deletion and metadata, the pages of a
  listing. Each property comes with a concrete run in which its hypotheses hold.
\<close>

section \<open>Reading under an owner\<close>

lemma compare_digest_Inr: "compare_digest a b = Inr c \<Longrightarrow> c = (a = b)"
  by (simp add: compare_digest_def split: if_splits)

lemma enforce_owner_Inr:
  assumes "enforce_owner L s key = Inr s'"
  shows "s' = s" and "given key \<Longrightarrow> s_owner_api_key_hash s = Some (hash_api_key L (the key))"
proof -
  show "s' = s"
    using assms by (auto simp: enforce_owner_def bind_sum_Inr split: if_splits)
  show "s_owner_api_key_hash s = Some (hash_api_key L (the key))" if "given key"
  proof -
    from assms that obtain c where owned: "given (s_owner_api_key_hash s)"
      and "compare_digest (the (s_owner_api_key_hash s)) (hash_api_key L (the key)) = Inr c" and c
      by (auto simp: enforce_owner_def bind_sum_Inr split: if_splits)
    then have "the (s_owner_api_key_hash s) = hash_api_key L (the key)"
      using compare_digest_Inr by blast
    with owned show ?thesis by (auto simp: given_iff)
  qed
qed

text \<open>A session that is returned went through \<open>enforce_owner\<close>, on both paths.\<close>

lemma get_session_enforced:
  assumes "get_session S i key w = (Inr (Some s), w')"
  shows "\<exists>s0. enforce_owner (ss_lib S) s0 key = Inr s"
  using assms
  by (auto simp: get_session_def get_from_db_def io_inv split: option.splits)

text \<open>
  C1: A session that get_session returns to a request with a non-empty API key carries the
  hash of that key as its owner, whether it came from the cache or from the database.
\<close>

theorem get_session_owner:
  assumes "get_session S session_id (Some key) w = (Inr (Some s), w')" and "key \<noteq> []"
  shows "s_owner_api_key_hash s = Some (hash_api_key (ss_lib S) key)"
proof -
  from get_session_enforced [OF assms(1)]
  obtain s0 where e: "enforce_owner (ss_lib S) s0 (Some key) = Inr s" by blast
  from enforce_owner_Inr [OF e] assms(2) show ?thesis by simp
qed

lemma db_get_run:
  "get_session db_service ''s1'' (Some ''key'') (ref_world [owned_row]) =
     (Inr (Some (map_db_to_service owned_row)), ref_world [owned_row])"
  by (simp add: get_session_def get_from_db_def get_cached_session_io_def cache_session_io_def
      scm_get_cached_session_def scm_cache_session_def db_service_def ref_service_def ref_repo_def
      uuid_of_def on_db_def owned_row_def new_row_def hash_of_owner_def hash_api_key_def
      map_db_to_service_def enforce_owner_def compare_digest_def is_ascii_def)

lemma get_session_owner_witness:
  "s_owner_api_key_hash (map_db_to_service owned_row) = Some (hash_api_key ref_lib ''key'')"
  using get_session_owner [OF db_get_run] by (simp add: db_service_def ref_service_def)

section \<open>Creating\<close>

lemma create_in_db_Inr:
  assumes "create_in_db L R sid model parent owner w = (Inr u, w')"
  shows "\<exists>pid row i. uuid_of L sid = Inr i \<and> sr_create R i model pid owner (w_db w) = (Inr row, w_db w') \<and>
    w_cache w' = w_cache w \<and>
    (if given parent then \<exists>p. uuid_of L (the parent) = Inr p \<and> pid = Some p else pid = None)"
proof (cases "given parent")
  case True
  with assms show ?thesis
    by (simp add: create_in_db_def io_inv) (metis on_db_Inr)
next
  case False
  with assms show ?thesis
    by (simp add: create_in_db_def io_inv) (metis on_db_Inr)
qed

lemma create_in_db_Inl:
  assumes "create_in_db L R sid model parent owner w = (Inl e, w')"
  shows "(\<exists>e0. e = create_db_error e0) \<and> w_cache w' = w_cache w"
  using assms
  by (auto simp: create_in_db_def io_inv dest!: on_db_cache split: if_splits)

lemma cache_session_io_db: "cache_session_io S s w = (r, w') \<Longrightarrow> w_db w' = w_db w"
  by (auto simp: cache_session_io_def dest: on_cache_db)

lemma create_cache_error_Some:
  "create_cache_error b e = Some e' \<Longrightarrow> e' = cache_unavailable \<or> e' = e \<and> \<not> is_exception e"
  by (cases e) (auto simp: create_cache_error_def split: if_splits)

lemma create_in_cache_cases:
  assumes "create_in_cache S s w = (r, w')"
  shows "w_db w' = w_db w"
    and "r = Inl e \<Longrightarrow> e = cache_unavailable \<or> \<not> is_exception e"
proof -
  obtain q v where q: "cache_session_io S s w = (q, v)" by force
  then have v: "w_db v = w_db w" by (rule cache_session_io_db)
  have "w_db w' = w_db w \<and> (\<forall>e. r = Inl e \<longrightarrow> e = cache_unavailable \<or> \<not> is_exception e)"
  proof (cases q)
    case (Inl e0)
    with assms q v create_cache_error_Some [of _ e0] show ?thesis
      by (auto simp: create_in_cache_def split: option.splits)
  next
    case (Inr u)
    with assms q v show ?thesis by (auto simp: create_in_cache_def)
  qed
  then show "w_db w' = w_db w" and "r = Inl e \<Longrightarrow> e = cache_unavailable \<or> \<not> is_exception e"
    by simp_all
qed

text \<open>
  C2: With a database, create_session writes the row first: it either fails with a mapped
  database error and leaves the cache untouched, or the row is written and the result is the
  new active session (or the cache-unavailable error, or a cancellation) with the requested
  id, model, parent and owner hash, no turns and no cost.
\<close>

theorem create_session_durable:
  assumes "ss_repo S = Some R"
    and "create_session S model sid parent owner w = (x, w')"
  shows "(\<exists>e0. x = Inl (create_db_error e0) \<and> w_cache w' = w_cache w) \<or>
    (\<exists>i pid row. sr_create R i model pid owner (w_db w) = (Inr row, w_db w') \<and>
      (if given parent then uuid_of (ss_lib S) (the parent) = Inr (the pid) else pid = None) \<and>
      (x = Inl cache_unavailable \<or> (\<exists>e. x = Inl e \<and> \<not> is_exception e) \<or>
       (\<exists>s. x = Inr s \<and> uuid_of (ss_lib S) (s_id s) = Inr i \<and>
         (\<forall>i'. sid = Some i' \<longrightarrow> s_id s = i') \<and> s_model s = model \<and> s_status s = Active \<and>
         s_total_turns s = 0 \<and> s_total_cost_usd s = None \<and> s_parent_session_id s = parent \<and>
         s_owner_api_key_hash s = hash_of_owner (ss_lib S) owner \<and>
         s_created_at s = s_updated_at s)))"
proof -
  obtain j w1 where tok: "(case sid of None \<Rightarrow> draw_token | Some i \<Rightarrow> ret i) w = (Inr j, w1)"
    and w1: "w_cache w1 = w_cache w" "w_db w1 = w_db w" and j: "\<forall>i'. sid = Some i' \<longrightarrow> j = i'"
    by (cases sid) auto
  define now where "now = w_clock w1 (w_ticks w1)"
  define w2 where "w2 = w1\<lparr>w_ticks := Suc (w_ticks w1)\<rparr>"
  define s where "s = \<lparr>s_id = j, s_model = model, s_status = Active, s_created_at = now,
              s_updated_at = now, s_total_turns = 0, s_total_cost_usd = None,
              s_parent_session_id = parent,
              s_owner_api_key_hash = hash_of_owner (ss_lib S) owner,
              s_session_metadata = None\<rparr>"
  have run: "and_then (create_in_db (ss_lib S) R j model parent owner) (\<lambda>_.
      and_then (create_in_cache S s) (\<lambda>_. ret s)) w2 = (x, w')"
    using assms tok by (simp add: create_session_def s_def w2_def now_def Let_def)
  obtain q w3 where db: "create_in_db (ss_lib S) R j model parent owner w2 = (q, w3)" by force
  show ?thesis
  proof (cases q)
    case (Inl e)
    with run db create_in_db_Inl [OF db [unfolded Inl]] w1 show ?thesis
      by (auto simp: w2_def)
  next
    case (Inr u)
    from create_in_db_Inr [OF db [unfolded Inr]] w1 obtain pid row i where
      i: "uuid_of (ss_lib S) j = Inr i" and c: "sr_create R i model pid owner (w_db w) = (Inr row, w_db w3)"
      and p: "if given parent then uuid_of (ss_lib S) (the parent) = Inr (the pid) else pid = None"
      by (auto simp: w2_def split: if_splits)
    obtain r w4 where cached: "create_in_cache S s w3 = (r, w4)" by force
    note after = create_in_cache_cases [OF cached]
    have x: "x = (case r of Inl e \<Rightarrow> Inl e | Inr _ \<Rightarrow> Inr s)" and "w' = w4"
      using run db Inr cached by (cases r; simp)+
    with c after(1) have "sr_create R i model pid owner (w_db w) = (Inr row, w_db w')"
      by simp
    moreover have "x = Inl cache_unavailable \<or> (\<exists>e. x = Inl e \<and> \<not> is_exception e) \<or> x = Inr s"
      using x after(2) by (cases r) auto
    ultimately show ?thesis
      using i j p
      by - (rule disjI2, rule exI [of _ i], rule exI [of _ pid], rule exI [of _ row],
        auto simp: s_def)
  qed
qed

definition ref_session :: session where
  "ref_session =
     \<lparr>s_id = ''s1'', s_model = ''m'', s_status = Active, s_created_at = 1000000,
      s_updated_at = 1000000, s_total_turns = 0, s_total_cost_usd = None,
      s_parent_session_id = None, s_owner_api_key_hash = Some ''#key'', s_session_metadata = None\<rparr>"

definition ref_text :: string where
  "ref_text = enc (JObj (session_payload ref_lib ref_session))"

definition ref_created :: "(server redis_world, session_row list) world" where
  "ref_created = (ref_world [owned_row])\<lparr>w_ticks := 1, w_cache :=
     \<lparr>rw_server = \<lparr>sv_now = 0,
        sv_data = [(''session:owner:#key'', Bag [Utf8 ''s1''], Some 3600),
                   (''session:s1'', Text (Utf8 ref_text), Some 3600)]\<rparr>,
      rw_uuids = ref_tokens, rw_draws = 0\<rparr>\<rparr>"

lemma ref_create_run:
  "create_session ref_service ''m'' (Some ''s1'') None (Some ''key'') (ref_world []) =
     (Inr ref_session, ref_created)"
  by (simp add: create_session_def create_in_db_def create_in_cache_def ref_session_def ref_text_def
      ref_created_def owned_row_def ref_world_def Let_def session_eval ref_eval del: ref_world_sel eval_rules)

lemma ref_text_json [simp]:
  "ref_loads ref_text = Some (JObj (session_payload ref_lib ref_session))"
  "\<not> is_blank ref_text"
  by (simp_all add: ref_text_def)

lemma create_session_durable_witness:
  "\<exists>i pid row. sr_create ref_repo i ''m'' pid (Some ''key'') [] = (Inr row, w_db ref_created) \<and>
     uuid_of ref_lib (s_id ref_session) = Inr i"
  using create_session_durable [OF _ ref_create_run, of ref_repo]
  by (auto simp: ref_service_def)

section \<open>The session in the cache\<close>

context steady_cache
begin

lemma cache_session_live:
  assumes "ss_cache S = Some C" and "ss_lib S = L" and "cache_session_io S s w = (Inr u, w')"
  shows "ent (w_cache w') (cache_key (s_id s)) = Some (dump_entry L (session_payload L s))"
    and "w_db w' = w_db w"
proof -
  let ?k = "cache_key (s_id s)" and ?h = "the (s_owner_api_key_hash s)"
  from assms(3) show "w_db w' = w_db w" by (rule cache_session_io_db)
  have "scm_cache_session L (Some C) (ss_ttl S) s (w_cache w) = (Inr u, w_cache w')"
    using assms on_cache_Inr by (fastforce simp: cache_session_io_def)
  then obtain b c where set: "c_set_json C ?k (session_payload L s) (Some (ss_ttl S)) (w_cache w) =
      (Inr b, c)"
    and rest: "(if given (s_owner_api_key_hash s)
       then and_then (c_add_to_set C (owner_index_key ?h) (s_id s)) (\<lambda>_.
            and_then (c_expire C (owner_index_key ?h) (ss_ttl S)) (\<lambda>_. ret ()))
       else ret ()) c = (Inr u, w_cache w')"
    unfolding scm_cache_session_def option.case and_then_Inr Let_def by blast
  have stored: "ent c ?k = Some (dump_entry L (session_payload L s))"
    using live_set_json [OF set] by simp
  show "ent (w_cache w') ?k = Some (dump_entry L (session_payload L s))"
  proof (cases "given (s_owner_api_key_hash s)")
    case False
    with rest stored show ?thesis by simp
  next
    case True
    with rest obtain b1 c1 b2 where add: "c_add_to_set C (owner_index_key ?h) (s_id s) c = (Inr b1, c1)"
      and exp: "c_expire C (owner_index_key ?h) (ss_ttl S) c1 = (Inr b2, w_cache w')"
      by (auto simp: io_inv)
    from live_add_to_set [OF add] obtain A where "set_at (ent c (owner_index_key ?h)) = Some A"
      and c1: "ent c1 = (ent c)(owner_index_key ?h \<mapsto> Members (insert (Utf8 (s_id s)) A))"
      by blast
    with stored have "owner_index_key ?h \<noteq> ?k"
      by (auto simp: dump_entry_def)
    with c1 stored have "ent c1 ?k = Some (dump_entry L (session_payload L s))"
      by simp
    moreover have "ent (w_cache w') ?k = ent c1 ?k"
      using expire_other [OF exp] \<open>owner_index_key ?h \<noteq> ?k\<close> by simp
    ultimately show ?thesis by simp
  qed
qed

lemma get_cached_live:
  assumes "ss_cache S = Some C" and "ss_lib S = L"
    and "get_cached_session_io S i w = (Inr found, w')"
  shows "w_db w' = w_db w"
    and "wf_session s \<Longrightarrow> ent (w_cache w) (cache_key i) = Some (dump_entry L (session_payload L s)) \<Longrightarrow>
      found = Some s \<and> ent (w_cache w') = ent (w_cache w)"
    and "ent (w_cache w) (cache_key i) = None \<Longrightarrow> found = None \<and> ent (w_cache w') = ent (w_cache w)"
proof -
  from assms(3) show "w_db w' = w_db w"
    by (auto simp: get_cached_session_io_def dest: on_cache_db)
  have "scm_get_cached_session L (Some C) i (w_cache w) = (Inr found, w_cache w')"
    using assms on_cache_Inr by (fastforce simp: get_cached_session_io_def)
  then obtain j c where get: "c_get_json C (cache_key i) (w_cache w) = (Inr j, c)"
    and rest: "(if \<not> truthy j then ret None
       else and_then (lift_sum (parse_cached_session L j)) (\<lambda>session.
         case session of
           Some s \<Rightarrow> ret (Some s)
         | None \<Rightarrow> try_except (and_then (c_delete C (cache_key i)) (\<lambda>_. ret None))
             (\<lambda>e. if is_exception e then ret None else throw e))) c = (Inr found, w_cache w')"
    unfolding scm_get_cached_session_def option.case and_then_Inr by blast
  note read = live_get_json [OF get]
  show "found = Some s \<and> ent (w_cache w') = ent (w_cache w)"
    if "wf_session s" and "ent (w_cache w) (cache_key i) = Some (dump_entry L (session_payload L s))"
  proof -
    from that read have "j = JObj (session_payload L s)"
      by (simp add: wf_session_payload)
    moreover have "session_payload L s \<noteq> []"
      by (simp add: session_payload_def)
    ultimately show ?thesis
      using rest read by (simp add: parse_session_payload)
  qed
  show "found = None \<and> ent (w_cache w') = ent (w_cache w)"
    if "ent (w_cache w) (cache_key i) = None"
    using that read rest by simp
qed

end

text \<open>
  A session that was just cached is what get_session returns to its owner, without
  reading the database; a failure can only be the owner check or the cache read itself.
\<close>

theorem cached_session_read_back:
  assumes "steady_cache L C ent ages matches" and "ss_cache S = Some C" and "ss_lib S = L"
    and "cache_session_io S s w = (Inr (), w1)" and "wf_session s"
    and "get_session S (s_id s) key w1 = (r, w2)"
  shows "r = Inr (Some s) \<and> enforce_owner L s key = Inr s \<and> w_db w2 = w_db w \<or>
    (\<exists>e. r = Inl e \<and>
      (enforce_owner L s key = Inl e \<or> (\<exists>v. get_cached_session_io S (s_id s) w1 = (Inl e, v))))"
proof -
  note stored = steady_cache.cache_session_live [OF assms(1-4)]
  obtain q v where got: "get_cached_session_io S (s_id s) w1 = (q, v)" by force
  show ?thesis
  proof (cases q)
    case (Inl e)
    with got assms(6) have "r = Inl e" by (simp add: get_session_def)
    with got Inl show ?thesis by auto
  next
    case (Inr found)
    note here = steady_cache.get_cached_live [OF assms(1-3) got [unfolded Inr]]
    with stored assms(5) have "found = Some s" and "w_db v = w_db w" by simp_all
    with got Inr assms(6) show ?thesis
      using enforce_owner_Inr(1) [of "ss_lib S" s key] assms(3)
      by (cases "enforce_owner (ss_lib S) s key") (auto simp: get_session_def)
  qed
qed

lemma ref_cache_run: "cache_session_io ref_service ref_session (ref_world []) =
    (Inr (), snd (cache_session_io ref_service ref_session (ref_world [])))"
  by (rule fst_run) (simp add: session_eval ref_eval ref_session_def Let_def del: eval_rules)

lemma cached_session_read_back_witness:
  "fst (get_session ref_service ''s1'' (Some ''key'')
     (snd (cache_session_io ref_service ref_session (ref_world [])))) = Inr (Some ref_session)"
proof -
  let ?w = "snd (cache_session_io ref_service ref_session (ref_world []))"
  have "fst (get_cached_session_io ref_service ''s1'' ?w) = Inr (Some ref_session)"
    by (simp add: session_eval ref_eval ref_session_def Let_def
        pylib_laws.parse_session_payload [OF ref_lib.pylib_laws_axioms] del: eval_rules)
  moreover have "enforce_owner ref_lib ref_session (Some ''key'') = Inr ref_session"
    by (simp add: session_eval ref_session_def)
  moreover have "wf_session ref_session" and "s_id ref_session = ''s1''"
    by (simp_all add: wf_session_def ref_session_def)
  ultimately show ?thesis
    using cached_session_read_back [OF ref_steady, of ref_service ref_session "ref_world []" ?w
        "Some ''key''" "fst (get_session ref_service ''s1'' (Some ''key'') ?w)"
        "snd (get_session ref_service ''s1'' (Some ''key'') ?w)"] ref_cache_run
    by (auto simp: ref_service_def prod_eq_iff)
qed

end
