(* ===== verification/SessionUpdates.thy ===== *)
theory SessionUpdates
  imports SessionProperties
begin

text \<open>
  The writes of the session service after creation: the fall back to the database with its new
  cache entry, updates under the lock, deletion, promotion and tags.
\<close>

section \<open>Falling back to the database\<close>

context steady_cache
begin

lemma get_session_miss_live:
  assumes "ss_cache S = Some C" and "ss_lib S = L"
    and "ent (w_cache w) (cache_key i) = None"
    and "get_session S i key w = (Inr found, w')"
  shows "case ss_repo S of
      None \<Rightarrow> found = None \<and> w_db w' = w_db w
    | Some R \<Rightarrow> \<exists>sid row. uuid_of L i = Inr sid \<and> sr_get R sid (w_db w) = (Inr row, w_db w') \<and>
        found = map_option map_db_to_service row \<and>
        (\<forall>s. found = Some s \<longrightarrow> enforce_owner L s key = Inr s \<and>
          ent (w_cache w') (cache_key (s_id s)) = Some (dump_entry L (session_payload L s)))"
proof -
  obtain q v where got: "get_cached_session_io S i w = (q, v)" by force
  with assms(4) obtain f where q: "q = Inr f"
    by (cases q) (simp_all add: get_session_def)
  note here = get_cached_live [OF assms(1,2) got [unfolded q]]
  then have f: "f = None" and db: "w_db v = w_db w"
    using assms(3) by simp_all
  show ?thesis
  proof (cases "ss_repo S")
    case None
    with assms(4) got q f db show ?thesis by (simp add: get_session_def)
  next
    case (Some R)
    with assms(4) got q f have "get_from_db S R i key v = (Inr found, w')"
      by (simp add: get_session_def)
    then obtain sid row v1 where sid: "uuid_of L i = Inr sid"
      and row: "on_db (sr_get R sid) v = (Inr row, v1)"
      and rest: "(case row of None \<Rightarrow> ret None
         | Some r \<Rightarrow> and_then (lift_sum (enforce_owner L (map_db_to_service r) key)) (\<lambda>s.
             and_then (cache_session_io S s) (\<lambda>_. ret (Some s)))) v1 = (Inr found, w')"
      using assms(2) by (auto simp: get_from_db_def io_inv)
    have read: "sr_get R sid (w_db w) = (Inr row, w_db v1)"
      using on_db_Inr [OF row] db by simp
    show ?thesis
    proof (cases row)
      case None
      with Some sid read rest show ?thesis by simp
    next
      case row: (Some r)
      with rest obtain s u where e: "enforce_owner L (map_db_to_service r) key = Inr s"
        and c: "cache_session_io S s v1 = (Inr u, w')" and found: "found = Some s"
        by (auto simp: io_inv)
      from enforce_owner_Inr(1) [OF e] have s: "s = map_db_to_service r" .
      from cache_session_live [OF assms(1,2) c] Some sid read row found e s show ?thesis
        by simp
    qed
  qed
qed

end

text \<open>
  On a cache miss get_session answers from the database row, subject to the owner check,
  and stores it in the cache; the errors it can raise are the mapped ones.
\<close>

theorem get_session_falls_back:
  assumes "steady_cache L C ent ages matches" and "ss_cache S = Some C" and "ss_lib S = L"
    and "ent (w_cache w) (cache_key session_id) = None"
    and "get_session S session_id key w = (Inr found, w')"
  shows "case ss_repo S of
      None \<Rightarrow> found = None \<and> w_db w' = w_db w
    | Some R \<Rightarrow> \<exists>sid row. uuid_of L session_id = Inr sid \<and>
        sr_get R sid (w_db w) = (Inr row, w_db w') \<and> found = map_option map_db_to_service row \<and>
        (\<forall>s. found = Some s \<longrightarrow> enforce_owner L s key = Inr s \<and>
          ent (w_cache w') (cache_key (s_id s)) = Some (dump_entry L (session_payload L s)))"
  by (rule steady_cache.get_session_miss_live [OF assms])

lemma ref_fallback_run: "get_session ref_service ''s1'' (Some ''key'') (ref_world [owned_row]) =
    (Inr (Some (map_db_to_service owned_row)),
     snd (get_session ref_service ''s1'' (Some ''key'') (ref_world [owned_row])))"
  by (rule fst_run) (simp add: get_session_def get_from_db_def session_eval ref_eval Let_def
      owned_row_def new_row_def del: eval_rules)

lemma get_session_falls_back_witness:
  "ref_ent (w_cache (snd (get_session ref_service ''s1'' (Some ''key'') (ref_world [owned_row]))))
     (cache_key ''s1'') =
   Some (dump_entry ref_lib (session_payload ref_lib (map_db_to_service owned_row)))"
proof -
  have "ref_ent (w_cache (ref_world [owned_row])) (cache_key ''s1'') = None"
    by (simp add: ref_ent_def server_ent_def look_def empty_server_def)
  moreover have "s_id (map_db_to_service owned_row) = ''s1''"
    by (simp add: map_db_to_service_def owned_row_def new_row_def)
  ultimately show ?thesis
    using get_session_falls_back [OF ref_steady _ _ _ ref_fallback_run]
    by (auto simp: ref_service_def)
qed

section \<open>Updating\<close>

lemma acquire_loop_db:
  "acquire_loop n C i ttl tmo start delay w = (r, w') \<Longrightarrow> w_db w' = w_db w"
proof (induction n arbitrary: delay w)
  case (Suc n)
  obtain q v where acq: "on_cache (c_acquire_lock C (session_lock_key i) ttl None) w = (q, v)"
    by force
  then have "w_db v = w_db w" by (rule on_cache_db)
  with Suc acq show ?case
    by (cases q; cases "projr q") (auto simp: Let_def split: if_splits)
qed simp

lemma release_quietly_run: "release_quietly C k v w = (r, w') \<Longrightarrow> w_db w' = w_db w"
proof -
  assume run: "release_quietly C k v w = (r, w')"
  obtain q u where rel: "on_cache (c_release_lock C k v) w = (q, u)" by force
  then have "w_db u = w_db w" by (rule on_cache_db)
  with run rel show ?thesis
    by (cases q) (auto simp: release_quietly_def split: if_splits)
qed

text \<open>A result under the lock is the result of the operation, run on the same database.\<close>

lemma ss_with_session_lock_Inr:
  assumes "ss_with_session_lock S i func w = (Inr x, w')"
  shows "\<exists>w1 w2. func w1 = (Inr x, w2) \<and> w_db w1 = w_db w \<and> w_db w' = w_db w2"
proof (cases "ss_cache S")
  case None
  with assms show ?thesis
    by (auto simp: ss_with_session_lock_def with_session_lock_def)
next
  case (Some C)
  with assms have "and_then monotonic (\<lambda>start. and_then
      (acquire_loop lock_turns C i default_lock_ttl default_acquire_timeout start lock_initial_retry_delay)
      (\<lambda>t. try_finally func (release_quietly C (session_lock_key i) t))) w = (Inr x, w')"
    by (simp add: ss_with_session_lock_def with_session_lock_def del: monotonic_run)
  then obtain start v t w1 where
    mono: "monotonic w = (Inr start, v)"
    and acq: "acquire_loop lock_turns C i default_lock_ttl default_acquire_timeout start
      lock_initial_retry_delay v = (Inr t, w1)"
    and body: "try_finally func (release_quietly C (session_lock_key i) t) w1 = (Inr x, w')"
    unfolding and_then_Inr by blast
  obtain q w2 where func: "func w1 = (q, w2)" by force
  obtain u w3 where rel: "release_quietly C (session_lock_key i) t w2 = (u, w3)" by force
  from body func rel have "q = Inr x" and "w' = w3"
    by (cases u; simp)+
  moreover have "w_db v = w_db w"
    using mono by (auto simp: monotonic_def Let_def)
  ultimately show ?thesis
    using func acquire_loop_db [OF acq] release_quietly_run [OF rel] by auto
qed

lemma updated_session_fields:
  assumes "s = updated_session status turns cost inc now s0"
  shows "s_status s = (case status of None \<Rightarrow> s_status s0 | Some st \<Rightarrow> st)"
    and "s_total_turns s = (case turns of None \<Rightarrow> s_total_turns s0 | Some n \<Rightarrow> n) + of_bool inc"
    and "s_total_cost_usd s = (case cost of None \<Rightarrow> s_total_cost_usd s0 | Some c \<Rightarrow> Some c)"
    and "s = s0\<lparr>s_status := s_status s, s_total_turns := s_total_turns s,
      s_total_cost_usd := s_total_cost_usd s, s_updated_at := now\<rparr>"
  using assms by (simp_all add: updated_session_def Let_def split: option.split)

text \<open>What the update writes to the database.\<close>

definition db_updated ::
  "('c, 'd) session_service \<Rightarrow> string \<Rightarrow> session \<Rightarrow> 'd \<Rightarrow> 'd \<Rightarrow> bool" where
  "db_updated S i s d d' \<longleftrightarrow>
     (case ss_repo S of
        None \<Rightarrow> d' = d
      | Some R \<Rightarrow> \<exists>sid row. uuid_of (ss_lib S) i = Inr sid \<and>
          sr_update R sid (Some (status_text (s_status s))) (Some (s_total_turns s))
            (s_total_cost_usd s) d = (Inr row, d'))"

lemma update_in_db_Inr: "update_in_db S i s w = (Inr u, w') \<Longrightarrow> db_updated S i s (w_db w) (w_db w')"
  by (auto simp: update_in_db_def db_updated_def io_inv dest!: on_db_Inr split: option.splits)

lemma do_update_Inr:
  assumes "do_update S i status turns cost inc key w = (Inr r, w')"
  shows "\<exists>found w1. get_session S i key w = (Inr found, w1) \<and>
    (case found of
       None \<Rightarrow> r = None \<and> w_db w' = w_db w1
     | Some s0 \<Rightarrow> \<exists>s. r = Some s \<and> s = updated_session status turns cost inc (w_clock w1 (w_ticks w1)) s0 \<and>
         db_updated S i s (w_db w1) (w_db w'))"
proof -
  from assms obtain found w1 where got: "get_session S i key w = (Inr found, w1)"
    by (auto simp: do_update_def and_then_Inr)
  show ?thesis
  proof (cases found)
    case None
    with assms got show ?thesis by (auto simp: do_update_def)
  next
    case (Some s0)
    define t where "t = updated_session status turns cost inc (w_clock w1 (w_ticks w1)) s0"
    define w2 where "w2 = w1\<lparr>w_ticks := Suc (w_ticks w1)\<rparr>"
    have "and_then (update_in_db S i t) (\<lambda>_. and_then (cache_session_io S t) (\<lambda>_. ret (Some t))) w2 =
        (Inr r, w')"
      using assms got Some by (simp add: do_update_def Let_def t_def w2_def)
    then obtain u v w3 where db: "update_in_db S i t w2 = (Inr u, w3)"
      and cache: "cache_session_io S t w3 = (Inr v, w')" and r: "r = Some t"
      by (auto simp: and_then_Inr)
    from update_in_db_Inr [OF db] have "db_updated S i t (w_db w1) (w_db w')"
      using cache_session_io_db [OF cache] by (simp add: w2_def)
    with got Some r t_def show ?thesis by auto
  qed
qed


definition ref_stepped :: session where
  "ref_stepped = (map_db_to_service owned_row)\<lparr>s_total_turns := 1, s_updated_at := 1000000\<rparr>"

lemmas db_eval = db_service_def ref_service_def ref_repo_def uuid_of_def on_db_def owned_row_def
  new_row_def change_row_def

lemma ref_update_run:
  "update_session db_service ''s1'' None None None True (Some ''key'') (ref_world [owned_row]) =
     (Inr (Some ref_stepped),
      snd (update_session db_service ''s1'' None None None True (Some ''key'') (ref_world [owned_row])))"
  by (rule fst_run) (simp add: update_session_def ss_with_session_lock_def with_session_lock_def
      do_update_def updated_session_def update_in_db_def get_session_def get_from_db_def
      session_eval db_eval Let_def ref_stepped_def)


section \<open>The lock around updates\<close>

lemma lock_key_other [simp]:
  "lock_entry k \<noteq> cache_key i" "lock_entry k \<noteq> owner_index_key h"
  by (simp_all add: lock_entry_def cache_key_def owner_index_key_def)

text \<open>
  \<open>stays P m\<close>: whether \<open>m\<close> returns or raises, what \<open>P\<close> says of the cache stays true. The rules
  follow the operators.
\<close>

definition stays :: "('c \<Rightarrow> bool) \<Rightarrow> (('c, 'd) world, 'a) io \<Rightarrow> bool" where
  "stays P m \<longleftrightarrow> (\<forall>w r w'. m w = (r, w') \<longrightarrow> P (w_cache w) \<longrightarrow> P (w_cache w'))"

named_theorems stays_intros \<open>coroutines that keep a property of the cache\<close>

lemma staysD: "stays P m \<Longrightarrow> m w = (r, w') \<Longrightarrow> P (w_cache w) \<Longrightarrow> P (w_cache w')"
  by (auto simp: stays_def)

lemma stays_pure [stays_intros]: "stays P (ret x)" "stays P (throw e)" "stays P (lift_sum r)"
  "stays P utc_now" "stays P draw_token" "stays P (on_db m)"
  by (auto simp: stays_def on_db_run)

lemma stays_operators [stays_intros]:
  "stays P m \<Longrightarrow> (\<And>x. stays P (f x)) \<Longrightarrow> stays P (and_then m f)"
  "stays P m \<Longrightarrow> (\<And>e. stays P (h e)) \<Longrightarrow> stays P (try_except m h)"
  by (fastforce simp: stays_def and_then_def try_except_def split: prod.splits sum.splits)+

lemma stays_cases [stays_intros]:
  "stays P m \<Longrightarrow> (\<And>x. stays P (f x)) \<Longrightarrow> stays P (case r of None \<Rightarrow> m | Some x \<Rightarrow> f x)"
  "stays P m \<Longrightarrow> stays P m' \<Longrightarrow> stays P (if b then m else m')"
  "(\<And>x. stays P (f x)) \<Longrightarrow> stays P (Let y f)"
  by (cases r) simp_all

lemma stays_on_cache: "(\<And>s r s'. m s = (r, s') \<Longrightarrow> P s \<Longrightarrow> P s') \<Longrightarrow> stays P (on_cache m)"
  by (auto simp: stays_def on_cache_run)

text \<open>
  Entries may expire at any call, locks included, and calls may fail. A call that fails leaves
  the entries under other keys than its own alone, apart from their expiry.
\<close>

locale failing_cache = cache_contract +
  assumes get_json_fails_alone: "c_get_json C k s = (Inl e, s') \<Longrightarrow> k' \<noteq> k \<Longrightarrow> ent s' k' \<in> {None, ent s k'}"
    and set_json_fails_alone: "c_set_json C k d ttl s = (Inl e, s') \<Longrightarrow> k' \<noteq> k \<Longrightarrow> ent s' k' \<in> {None, ent s k'}"
    and add_to_set_fails_alone: "c_add_to_set C k v s = (Inl e, s') \<Longrightarrow> k' \<noteq> k \<Longrightarrow> ent s' k' \<in> {None, ent s k'}"
    and delete_fails_alone: "c_delete C k s = (Inl e, s') \<Longrightarrow> k' \<noteq> k \<Longrightarrow> ent s' k' \<in> {None, ent s k'}"
    and expire_alone: "c_expire C k secs s = (r, s') \<Longrightarrow> k' \<noteq> k \<Longrightarrow> ent s' k' \<in> {None, ent s k'}"
begin

lemma ages_either: "ages m m' \<Longrightarrow> m' k = None \<or> m' k = m k"
  using ages_le [of m m'] by (cases "m' k") (auto simp: map_le_def dom_def)

lemma get_json_alone: "c_get_json C k s = (r, s') \<Longrightarrow> k' \<noteq> k \<Longrightarrow> ent s' k' \<in> {None, ent s k'}"
  by (cases r) (auto dest: get_json_fails_alone get_json_law ages_either)

lemma set_json_alone:
  assumes "c_set_json C k d ttl s = (r, s')" and "k' \<noteq> k"
  shows "ent s' k' \<in> {None, ent s k'}"
proof (cases r)
  case (Inl e)
  with assms set_json_fails_alone show ?thesis by blast
next
  case (Inr b)
  with assms set_json_law [of k d ttl s b s'] obtain m where "ages (ent s) m" "ent s' k' = m k'" by auto
  with ages_either [of "ent s" m k'] show ?thesis by auto
qed

lemma add_to_set_alone:
  assumes "c_add_to_set C k v s = (r, s')" and "k' \<noteq> k"
  shows "ent s' k' \<in> {None, ent s k'}"
proof (cases r)
  case (Inl e)
  with assms add_to_set_fails_alone show ?thesis by blast
next
  case (Inr b)
  with assms add_to_set_law [of k v s b s'] obtain m A where "ages (ent s) m" "ent s' = m(k \<mapsto> Members A)" by blast
  with assms(2) have "ages (ent s) m" "ent s' k' = m k'" by auto
  with ages_either [of "ent s" m k'] show ?thesis by auto
qed

lemma delete_alone:
  assumes "c_delete C k s = (r, s')" and "k' \<noteq> k"
  shows "ent s' k' \<in> {None, ent s k'}"
proof (cases r)
  case (Inl e)
  with assms delete_fails_alone show ?thesis by blast
next
  case (Inr b)
  with assms delete_law [of k s b s'] obtain m where "ages (ent s) m" "ent s' k' = m k'" by auto
  with ages_either [of "ent s" m k'] show ?thesis by auto
qed

text \<open>The lock is held with a token, or its entry has expired.\<close>

abbreviation own_lock :: "string \<Rightarrow> string \<Rightarrow> 'a \<Rightarrow> bool" where
  "own_lock k t \<equiv> \<lambda>s. ent s (lock_entry k) = None \<or> ent s (lock_entry k) = Some (Value (Utf8 t))"

lemma own_lock_steps:
  "k' \<noteq> lock_entry k \<Longrightarrow> stays (own_lock k t) (on_cache (c_get_json C k'))"
  "k' \<noteq> lock_entry k \<Longrightarrow> stays (own_lock k t) (on_cache (c_set_json C k' d ttl))"
  "k' \<noteq> lock_entry k \<Longrightarrow> stays (own_lock k t) (on_cache (c_delete C k'))"
  "k' \<noteq> lock_entry k \<Longrightarrow> stays (own_lock k t) (on_cache (c_add_to_set C k' v))"
  "k' \<noteq> lock_entry k \<Longrightarrow> stays (own_lock k t) (on_cache (c_expire C k' secs))"
  by (rule stays_on_cache, drule get_json_alone set_json_alone delete_alone add_to_set_alone expire_alone,
      rule not_sym, assumption, auto)+

lemma own_lock_update:
  assumes "ss_cache S = Some C"
  shows "stays (own_lock k t) (do_update S i status turns cost inc key)"
proof -
  have cached: "stays (own_lock k t) (get_cached_session_io S j)" for j
    using assms unfolding get_cached_session_io_def scm_get_cached_session_def
    by (simp add: on_cache_parts stays_intros own_lock_steps not_sym [OF lock_key_other(1)])
  have stored: "stays (own_lock k t) (cache_session_io S s)" for s
    using assms unfolding cache_session_io_def scm_cache_session_def
    by (simp add: on_cache_parts stays_intros own_lock_steps not_sym [OF lock_key_other(1)]
        not_sym [OF lock_key_other(2)] Let_def)
  show ?thesis
    unfolding do_update_def get_session_def get_from_db_def update_in_db_def
    by (simp add: stays_intros cached stored)
qed

lemma acquire_loop_owns:
  "acquire_loop n C i ttl tmo start delay w = (Inr t, w') \<Longrightarrow> own_lock (session_lock_key i) t (w_cache w')"
proof (induction n arbitrary: delay w)
  case (Suc n)
  obtain q v where acq: "on_cache (c_acquire_lock C (session_lock_key i) ttl None) w = (q, v)"
    by force
  show ?case
  proof (cases q)
    case (Inl e)
    with Suc.prems acq show ?thesis by simp
  next
    case (Inr r)
    from on_cache_Inr [OF acq [unfolded Inr]]
    have c: "c_acquire_lock C (session_lock_key i) ttl None (w_cache w) = (Inr r, w_cache v)" by simp
    from Suc acq Inr acquire_lock_law [OF c] show ?thesis
      by (cases r) (auto simp: Let_def split: if_splits)
  qed
qed simp

lemma release_frees:
  assumes "release_quietly C k t w = (u, w')" and "own_lock k t (w_cache w)"
    and "\<And>s. own_lock k t s \<Longrightarrow> \<exists>b s'. c_release_lock C k t s = (Inr b, s')"
  shows "u = Inr () \<and> ent (w_cache w') (lock_entry k) = None"
proof -
  from assms(2,3) obtain b c where rel: "c_release_lock C k t (w_cache w) = (Inr b, c)" by blast
  then have "on_cache (c_release_lock C k t) w = (Inr b, w\<lparr>w_cache := c\<rparr>)"
    by (simp add: on_cache_def)
  with assms(1) have "u = Inr ()" and "w_cache w' = c"
    by (auto simp: release_quietly_def)
  moreover from release_lock_law [OF rel] obtain m where "ages (ent (w_cache w)) m"
    and "b = (m (lock_entry k) = Some (Value (Utf8 t)))" and "ent c = (if b then m(lock_entry k := None) else m)"
    by blast
  ultimately show ?thesis
    using assms(2) ages_either [of "ent (w_cache w)" m "lock_entry k"] by auto
qed

lemma lock_given_back:
  assumes run: "with_session_lock turns (Some C) i func tmo ttl w = (r, w')"
    and func: "\<And>t. stays (own_lock (session_lock_key i) t) func"
    and release: "\<And>t s. own_lock (session_lock_key i) t s \<Longrightarrow>
      \<exists>b s'. c_release_lock C (session_lock_key i) t s = (Inr b, s')"
  shows "ent (w_cache w') (lock_entry (session_lock_key i)) = None \<or>
    (\<exists>e start v. r = Inl e \<and> acquire_loop turns C i ttl tmo start lock_initial_retry_delay v = (Inl e, w'))"
proof -
  obtain start v1 where mono: "monotonic w = (Inr start, v1)"
    by (simp add: monotonic_def Let_def)
  obtain a v2 where acq: "acquire_loop turns C i ttl tmo start lock_initial_retry_delay v1 = (a, v2)"
    by force
  show ?thesis
  proof (cases a)
    case (Inl e)
    with run mono acq have "r = Inl e" and "w' = v2"
      by (simp_all add: with_session_lock_def del: monotonic_run)
    with acq Inl show ?thesis by blast
  next
    case (Inr t)
    with run mono acq
    have body: "try_finally func (release_quietly C (session_lock_key i) t) v2 = (r, w')"
      by (simp add: with_session_lock_def del: monotonic_run)
    obtain q v3 where f: "func v2 = (q, v3)" by force
    obtain u v4 where rel: "release_quietly C (session_lock_key i) t v3 = (u, v4)" by force
    from staysD [OF func f acquire_loop_owns [OF acq [unfolded Inr]]]
    have "own_lock (session_lock_key i) t (w_cache v3)" .
    from release_frees [OF rel this release] body f rel show ?thesis by simp
  qed
qed

end

sublocale steady_cache \<subseteq> failing: failing_cache L C ent ages matches
  by unfold_locales (auto dest: get_json_same set_json_other add_to_set_other delete_other expire_other)

text \<open>
  C5: After update_session the entry of the session's lock is gone, whether the update
  returned or raised, unless it raised because the lock was never acquired. Entries, the
  lock included, may expire at any call and calls may fail; assumed are the cache contract,
  that a failing call leaves the entries under other keys alone apart from their expiry,
  that a release goes through when the lock is held or has expired, and that no other worker
  writes the lock in between (workers beside one another are the subject of
  session_lock_mutual_exclusion).
\<close>

theorem update_session_frees_lock:
  assumes "failing_cache L C ent ages matches" and "ss_cache S = Some C"
    and "\<And>k t s. ent s (lock_entry k) = None \<or> ent s (lock_entry k) = Some (Value (Utf8 t)) \<Longrightarrow>
      \<exists>b s'. c_release_lock C k t s = (Inr b, s')"
    and "update_session S session_id status turns cost inc key w = (r, w')"
  shows "ent (w_cache w') (lock_entry (session_lock_key session_id)) = None \<or>
    (\<exists>e start v. r = Inl e \<and>
      acquire_loop lock_turns C session_id default_lock_ttl default_acquire_timeout start
        lock_initial_retry_delay v = (Inl e, w'))"
proof -
  have "with_session_lock lock_turns (Some C) session_id
      (do_update S session_id status turns cost inc key) default_acquire_timeout default_lock_ttl w = (r, w')"
    using assms(2,4) by (simp add: update_session_def ss_with_session_lock_def)
  from failing_cache.lock_given_back [OF assms(1) this failing_cache.own_lock_update [OF assms(1,2)] assms(3)]
  show ?thesis .
qed

lemma ref_release_total:
  assumes "ref_ent s (lock_entry k) = None \<or> ref_ent s (lock_entry k) = Some (Value (Utf8 t))"
  shows "\<exists>b c. c_release_lock (ref_cache 0) k t s = (Inr b, c)"
proof -
  from assms have "look (rw_server s) (lock_entry k) = None \<or>
      (\<exists>e. look (rw_server s) (lock_entry k) = Some (Text (Utf8 t), e))"
    by (auto simp: ref_ent_def server_ent_def split: option.splits elim!: held_entry.elims)
  moreover have "tick 0 s' = s'" for s'
    by (simp add: tick_def)
  ultimately show ?thesis
    by (auto simp: ref_cache_def redis_cache_def rc_release_lock_def ref_redis_def command_def
        on_server_def sv_eval_def lock_entry_def and_then_def)
qed

lemma update_session_frees_lock_witness:
  "let w' = snd (update_session ref_service ''s1'' None None None True (Some ''key'') (ref_world [owned_row]))
   in ref_ent (w_cache w') (lock_entry (session_lock_key ''s1'')) = None \<or>
     (\<exists>e start v. acquire_loop lock_turns (ref_cache 0) ''s1'' default_lock_ttl
        default_acquire_timeout start lock_initial_retry_delay v = (Inl e, w'))"
  using update_session_frees_lock [OF steady.failing.failing_cache_axioms _ ref_release_total prod.collapse [symmetric],
      of ref_service "''s1''" None None None True "Some ''key''" "ref_world [owned_row]"]
  by (auto simp: ref_service_def Let_def)

text \<open>
  The retry loop of the session lock always ends: on a clock that only moves forward,
  the number of turns in the model is enough for the default timeout, so an operation under
  the lock never runs out of fuel by itself.
\<close>

theorem session_lock_terminates:
  assumes "sane_clock w"
    and "\<And>C k t v s s'. ss_cache S = Some C \<Longrightarrow> c_acquire_lock C k t v s \<noteq> (Inl OutOfFuel, s')"
    and "\<And>C k t s s'. ss_cache S = Some C \<Longrightarrow> c_release_lock C k t s \<noteq> (Inl OutOfFuel, s')"
    and "\<And>v v'. func v \<noteq> (Inl OutOfFuel, v')"
  shows "ss_with_session_lock S session_id func w \<noteq> (Inl OutOfFuel, w')"
proof (cases "ss_cache S")
  case None
  with assms(4) show ?thesis by (simp add: ss_with_session_lock_def with_session_lock_def)
next
  case (Some C)
  define start where "start = w_mono w + w_lags w (w_reads w)"
  define v where "v = w\<lparr>w_mono := start, w_reads := Suc (w_reads w)\<rparr>"
  have mono: "monotonic w = (Inr start, v)"
    by (simp add: start_def v_def)
  have v: "start = w_mono v" "sane_clock v"
    using assms(1) by (simp_all add: v_def)
  obtain q v1 where acq: "acquire_loop lock_turns C session_id default_lock_ttl
      default_acquire_timeout start lock_initial_retry_delay v = (q, v1)"
    by force
  have "q \<noteq> Inl OutOfFuel"
    using acquire_loop_terminates [of C v lock_initial_retry_delay default_acquire_timeout start
        lock_turns session_id default_lock_ttl v1] assms(2) [OF Some] v acq
    by (auto simp: lock_initial_retry_delay_def default_acquire_timeout_def lock_turns_def)
  moreover have "try_finally func (release_quietly C (session_lock_key session_id) t) v1 \<noteq>
      (Inl OutOfFuel, w')" for t
  proof -
    have "release_quietly C (session_lock_key session_id) t v2 \<noteq> (Inl OutOfFuel, v3)" for v2 v3 :: "('a, 'b) world"
      using assms(3) [OF Some] by (auto simp: release_quietly_def io_inv on_cache_run split: if_splits)
    then show ?thesis
      using assms(4) by (auto simp: try_finally_def split: prod.splits sum.splits)
  qed
  ultimately show ?thesis
    using mono acq Some
    by (cases q) (simp_all add: ss_with_session_lock_def with_session_lock_def del: monotonic_run)
qed

lemma session_lock_terminates_witness:
  "\<forall>w'. ss_with_session_lock ref_service ''s1'' (ret ()) (ref_world []) \<noteq> (Inl OutOfFuel, w')"
proof (rule allI, rule session_lock_terminates [OF sane_ref_world])
  fix C k t v and s s' :: "server redis_world"
  assume "ss_cache ref_service = Some C"
  then have C: "C = ref_cache 0" by (simp add: ref_service_def)
  show "c_acquire_lock C k t v s \<noteq> (Inl OutOfFuel, s')"
    by (auto simp: C ref_cache_def redis_cache_def rc_acquire_lock_def draw_uuid_def io_inv
        on_server_run ref_redis_def command_def sv_set_def deadline_def
        split: if_splits option.splits sum.splits)
next
  fix C k t and s s' :: "server redis_world"
  assume "ss_cache ref_service = Some C"
  then have C: "C = ref_cache 0" by (simp add: ref_service_def)
  show "c_release_lock C k t s \<noteq> (Inl OutOfFuel, s')"
    by (auto simp: C ref_cache_def redis_cache_def rc_release_lock_def io_inv on_server_run
        ref_redis_def command_def sv_eval_def wrong_type_def
        split: if_splits option.splits held.splits prod.splits)
qed simp

section \<open>Deleting\<close>

text \<open>The last database call was the deletion of the row, whatever it answered.\<close>

definition row_deleted :: "('c, 'd) session_service \<Rightarrow> string \<Rightarrow> 'd \<Rightarrow> bool" where
  "row_deleted S i d' \<longleftrightarrow>
     (case ss_repo S of
        None \<Rightarrow> True
      | Some R \<Rightarrow> \<forall>sid. uuid_of (ss_lib S) i = Inr sid \<longrightarrow> (\<exists>d r. sr_delete_session R sid d = (r, d')))"

text \<open>The database was at most read.\<close>

definition row_read :: "('c, 'd) session_service \<Rightarrow> 'd \<Rightarrow> 'd \<Rightarrow> bool" where
  "row_read S d d' \<longleftrightarrow> d' = d \<or> (\<exists>R sid r. ss_repo S = Some R \<and> sr_get R sid d = (r, d'))"

lemma delete_from_db_run:
  assumes "delete_from_db L R i w = (Inr u, w')"
  shows "w_cache w' = w_cache w"
    and "uuid_of L i = Inr sid \<Longrightarrow> \<exists>d r. sr_delete_session R sid d = (r, w_db w')"
proof -
  show "w_cache w' = w_cache w"
    using assms by (auto simp: delete_from_db_def io_inv on_db_run split: if_splits)
  show "\<exists>d r. sr_delete_session R sid d = (r, w_db w')" if "uuid_of L i = Inr sid"
  proof (cases "on_db (sr_delete_session R sid) w")
    case (Pair r v)
    then have "sr_delete_session R sid (w_db w) = (r, w_db v)"
      by (auto simp: on_db_run)
    moreover have "w' = v"
      using assms that Pair by (cases r) (auto simp: delete_from_db_def split: if_splits)
    ultimately show ?thesis by blast
  qed
qed

lemma owner_hash_from_db_run:
  assumes "owner_hash_from_db L R i w = (Inr h, w')"
  shows "w_cache w' = w_cache w" and "w_db w' = w_db w \<or> (\<exists>sid r. sr_get R sid (w_db w) = (r, w_db w'))"
  using assms by (auto simp: owner_hash_from_db_def io_inv on_db_run split: if_splits)

lemma delete_session_Inr:
  assumes "ss_cache S = Some C" and "delete_session S i w = (Inr b, w')"
  shows "\<exists>found h w1 w2 w3. get_cached_session_io S i w = (Inr found, w1) \<and>
    w_cache w2 = w_cache w1 \<and> row_read S (w_db w1) (w_db w2) \<and>
    on_cache (scm_delete_session (Some C) i h) w2 = (Inr b, w3) \<and> w_cache w' = w_cache w3 \<and>
    (if b then row_deleted S i (w_db w') else w_db w' = w_db w3)"
proof -
  from assms obtain found w1 h w2 b' w3 where
    got: "get_cached_session_io S i w = (Inr found, w1)"
    and hash: "(case found of
         Some s \<Rightarrow> ret (s_owner_api_key_hash s)
       | None \<Rightarrow> (case ss_repo S of None \<Rightarrow> ret None
         | Some R \<Rightarrow> owner_hash_from_db (ss_lib S) R i)) w1 = (Inr h, w2)"
    and del: "on_cache (scm_delete_session (Some C) i h) w2 = (Inr b', w3)"
    and rest: "(if b' then and_then
           (case ss_repo S of None \<Rightarrow> ret () | Some R \<Rightarrow> delete_from_db (ss_lib S) R i) (\<lambda>_. ret True)
         else ret False) w3 = (Inr b, w')"
    unfolding delete_session_def and_then_Inr by (auto simp: and_then_Inr)
  have "w_cache w2 = w_cache w1 \<and> row_read S (w_db w1) (w_db w2)"
    using hash owner_hash_from_db_run [of "ss_lib S" _ i w1 h w2]
    by (auto simp: row_read_def split: option.splits)
  moreover have "b' = b" and "w_cache w' = w_cache w3"
    and "if b then row_deleted S i (w_db w') else w_db w' = w_db w3"
    using rest delete_from_db_run [of "ss_lib S" _ i w3 _ w']
    by (auto simp: row_deleted_def io_inv split: option.splits if_splits)
  ultimately show ?thesis
    using got del by blast
qed

context live_cache
begin

lemma scm_delete_live:
  assumes "scm_delete_session (Some C) i h c = (Inr b, c')"
  shows "ent c' (cache_key i) = None" and "ent c (cache_key i) = None \<Longrightarrow> \<not> b"
proof -
  from assms obtain u c1 where idx: "(if given h
       then and_then (c_remove_from_set C (owner_index_key (the h)) i) (\<lambda>_. ret ()) else ret ()) c = (Inr u, c1)"
    and del: "c_delete C (cache_key i) c1 = (Inr b, c')"
    unfolding scm_delete_session_def option.case and_then_Inr by blast
  from live_delete [OF del] show "ent c' (cache_key i) = None" by simp
  show "\<not> b" if "ent c (cache_key i) = None"
  proof -
    have "ent c1 (cache_key i) = None"
    proof (cases "given h")
      case False
      with idx that show ?thesis by simp
    next
      case True
      with idx obtain b1 where "c_remove_from_set C (owner_index_key (the h)) i c = (Inr b1, c1)"
        by (auto simp: io_inv)
      from live_remove_from_set [OF this] that show ?thesis
        by (cases "owner_index_key (the h) = cache_key i") (auto simp: set_entry_def)
    qed
    with live_delete [OF del] show ?thesis by simp
  qed
qed

end

text \<open>
  When delete_session returns true, the session's cache entry is gone and the last
  database call was the deletion of its row.
\<close>

theorem delete_session_removes:
  assumes "live_cache L C ent ages matches" and "ss_cache S = Some C"
    and "delete_session S session_id w = (Inr True, w')"
  shows "ent (w_cache w') (cache_key session_id) = None \<and> row_deleted S session_id (w_db w')"
proof -
  from delete_session_Inr [OF assms(2,3)] obtain found h w1 w2 w3 where
    got: "get_cached_session_io S session_id w = (Inr found, w1)"
    and w2: "w_cache w2 = w_cache w1" "row_read S (w_db w1) (w_db w2)"
    and del: "on_cache (scm_delete_session (Some C) session_id h) w2 = (Inr True, w3)"
    and rest: "w_cache w' = w_cache w3" "row_deleted S session_id (w_db w')"
    unfolding if_True by blast
  from live_cache.scm_delete_live(1) [OF assms(1)] on_cache_Inr [OF del] rest show ?thesis
    by metis
qed

text \<open>
  Deleting a session that is not in the cache returns false and at most reads the
  database: a row that exists stays.
\<close>

theorem delete_session_misses_uncached:
  assumes "steady_cache L C ent ages matches" and "ss_cache S = Some C" and "ss_lib S = L"
    and "ent (w_cache w) (cache_key session_id) = None"
    and "delete_session S session_id w = (Inr b, w')"
  shows "b = False \<and> row_read S (w_db w) (w_db w')"
proof -
  from delete_session_Inr [OF assms(2,5)] obtain found h w1 w2 w3 where
    got: "get_cached_session_io S session_id w = (Inr found, w1)"
    and w2: "w_cache w2 = w_cache w1" "row_read S (w_db w1) (w_db w2)"
    and del: "on_cache (scm_delete_session (Some C) session_id h) w2 = (Inr b, w3)"
    and rest: "if b then row_deleted S session_id (w_db w') else w_db w' = w_db w3"
    by blast
  note here = steady_cache.get_cached_live [OF assms(1-3) got]
  have live: "live_cache L C ent ages matches"
    using assms(1) by (rule steady_cache.axioms(1))
  have "ent (w_cache w2) (cache_key session_id) = None"
    using here(3) assms(4) w2 by simp
  then have "\<not> b"
    using live_cache.scm_delete_live(2) [OF live] on_cache_Inr [OF del] by blast
  with rest w2(2) here(1) on_cache_db [OF del] show ?thesis by simp
qed

text \<open>A created session is deleted with its row; once its entry is evicted, its row stays.\<close>

lemma ref_delete_run:
  "delete_session ref_service ''s1'' ref_created =
     (Inr True, snd (delete_session ref_service ''s1'' ref_created))"
  by (rule fst_run) (simp add: Let_def session_eval ref_eval delete_session_def ref_created_def
      scm_delete_session_def delete_from_db_def ref_session_def rc_remove_from_set_def sv_srem_def
      pylib_laws.parse_session_payload [OF ref_lib.pylib_laws_axioms] del: eval_rules)

lemma delete_session_removes_witness:
  "ref_ent (w_cache (snd (delete_session ref_service ''s1'' ref_created))) (cache_key ''s1'') = None"
  using delete_session_removes [OF ref_live _ ref_delete_run] by (simp add: ref_service_def)

lemma ref_delete_uncached_run:
  "delete_session ref_service ''s1'' (ref_world [owned_row]) =
     (Inr False, snd (delete_session ref_service ''s1'' (ref_world [owned_row])))"
  by (rule fst_run) (simp add: Let_def session_eval ref_eval delete_session_def
      scm_delete_session_def owner_hash_from_db_def owned_row_def new_row_def
      rc_remove_from_set_def sv_srem_def del: eval_rules)

lemma delete_session_misses_uncached_witness:
  "row_read ref_service [owned_row] (w_db (snd (delete_session ref_service ''s1'' (ref_world [owned_row]))))"
proof -
  have "ref_ent (w_cache (ref_world [owned_row])) (cache_key ''s1'') = None"
    by (simp add: ref_ent_def server_ent_def look_def empty_server_def)
  from delete_session_misses_uncached [OF ref_steady _ _ this ref_delete_uncached_run] show ?thesis
    by (simp add: ref_service_def)
qed

section \<open>Metadata\<close>

text \<open>What the repository holds as metadata of a session.\<close>

definition row_metadata :: "session_row option \<Rightarrow> json dict" where
  "row_metadata row =
     (case row of None \<Rightarrow> [] | Some r \<Rightarrow> (case row_session_metadata r of None \<Rightarrow> [] | Some m \<Rightarrow> m))"

lemma store_metadata_Inr:
  assumes "store_metadata S i m w = (Inr (Some s), w')"
  shows "\<exists>R sid row. ss_repo S = Some R \<and> uuid_of (ss_lib S) i = Inr sid \<and>
    sr_update_metadata R sid m (w_db w) = (Inr (Some row), w_db w') \<and> s = map_db_to_service row"
proof -
  from assms obtain R where R: "ss_repo S = Some R"
    by (auto simp: store_metadata_def split: option.splits)
  with assms obtain sid upd w1 where sid: "uuid_of (ss_lib S) i = Inr sid"
    and upd: "on_db (sr_update_metadata R sid m) w = (Inr upd, w1)"
    and rest: "(case upd of None \<Rightarrow> ret None
       | Some row \<Rightarrow> and_then (cache_session_io S (map_db_to_service row)) (\<lambda>_.
           ret (Some (map_db_to_service row)))) w1 = (Inr (Some s), w')"
    by (auto simp: store_metadata_def io_inv)
  from rest obtain row u where row: "upd = Some row" and s: "s = map_db_to_service row"
    and "cache_session_io S (map_db_to_service row) w1 = (Inr u, w')"
    by (auto simp: io_inv split: option.splits)
  with cache_session_io_db have "w_db w' = w_db w1" by blast
  with R sid on_db_Inr [OF upd] row s show ?thesis by auto
qed

text \<open>The metadata read for an update: what the row holds, or nothing if the read fails on a value.\<close>

definition metadata_read ::
  "'d session_repo \<Rightarrow> uuid \<Rightarrow> 'd \<Rightarrow> json dict \<Rightarrow> 'd \<Rightarrow> bool" where
  "metadata_read R sid d m d' \<longleftrightarrow>
     (\<exists>row. sr_get R sid d = (Inr row, d') \<and> m = row_metadata row) \<or>
     (\<exists>e. sr_get R sid d = (Inl e, d') \<and> is_value_error e \<and> m = [])"

lemma metadata_for_update_Inr:
  assumes "ss_repo S = Some R" and "uuid_of (ss_lib S) i = Inr sid"
    and "get_session_metadata_for_update S i w = (Inr m, w')"
  shows "metadata_read R sid (w_db w) m (w_db w')"
  using assms unfolding metadata_read_def
  by (auto simp: get_session_metadata_for_update_def io_inv on_db_run row_metadata_def
      split: if_splits option.splits)

text \<open>
  A metadata write happens after the ownership check, on what the database holds, and adds the
  given items to it.
\<close>

lemma metadata_write:
  assumes "and_then (get_session S i (Some key)) (\<lambda>found.
      case found of None \<Rightarrow> ret None
      | Some _ \<Rightarrow> and_then (get_session_metadata_for_update S i) (\<lambda>m. store_metadata S i (f m))) w =
      (Inr (Some s), w')"
  shows "\<exists>s0 w1 w2 R sid m row. get_session S i (Some key) w = (Inr (Some s0), w1) \<and>
    ss_repo S = Some R \<and> uuid_of (ss_lib S) i = Inr sid \<and>
    get_session_metadata_for_update S i w1 = (Inr m, w2) \<and>
    sr_update_metadata R sid (f m) (w_db w2) = (Inr (Some row), w_db w') \<and> s = map_db_to_service row"
proof -
  from assms obtain found w1 where got: "get_session S i (Some key) w = (Inr found, w1)"
    by (auto simp: and_then_Inr)
  with assms obtain s0 where found: "found = Some s0"
    by (cases found) simp_all
  with assms got obtain m w2 where meta: "get_session_metadata_for_update S i w1 = (Inr m, w2)"
    and store: "store_metadata S i (f m) w2 = (Inr (Some s), w')"
    by (auto simp: and_then_Inr)
  from store_metadata_Inr [OF store] got found meta show ?thesis by blast
qed

text \<open>
  Promote_session writes the metadata read from the database with exactly mode set to
  code and project_id set to the given project, and only after the owner check passed.
\<close>

theorem promote_session_effect:
  assumes "promote_session S session_id project_id key w = (Inr (Some s), w')"
  shows "\<exists>s0 w1 d R sid m m' row. get_session S session_id (Some key) w = (Inr (Some s0), w1) \<and>
    (key \<noteq> [] \<longrightarrow> s_owner_api_key_hash s0 = Some (hash_api_key (ss_lib S) key)) \<and>
    ss_repo S = Some R \<and> uuid_of (ss_lib S) session_id = Inr sid \<and>
    metadata_read R sid (w_db w1) m d \<and>
    sr_update_metadata R sid m' d = (Inr (Some row), w_db w') \<and>
    map_of m' = (map_of m)(''mode'' \<mapsto> JStr ''code'', ''project_id'' \<mapsto> JStr project_id) \<and>
    s = map_db_to_service row"
proof -
  from metadata_write [OF assms [unfolded promote_session_def]]
  obtain s0 w1 w2 R sid m row where got: "get_session S session_id (Some key) w = (Inr (Some s0), w1)"
    and R: "ss_repo S = Some R" and sid: "uuid_of (ss_lib S) session_id = Inr sid"
    and meta: "get_session_metadata_for_update S session_id w1 = (Inr m, w2)"
    and upd: "sr_update_metadata R sid
      (dict_update m [(''mode'', JStr ''code''), (''project_id'', JStr project_id)]) (w_db w2) =
      (Inr (Some row), w_db w')" and s: "s = map_db_to_service row"
    by blast
  have "key \<noteq> [] \<longrightarrow> s_owner_api_key_hash s0 = Some (hash_api_key (ss_lib S) key)"
    using get_session_enforced [OF got] enforce_owner_Inr by fastforce
  moreover have "map_of (dict_update m [(''mode'', JStr ''code''), (''project_id'', JStr project_id)]) =
      (map_of m)(''mode'' \<mapsto> JStr ''code'', ''project_id'' \<mapsto> JStr project_id)"
    by (simp add: map_of_dict_update fun_eq_iff map_add_def)
  ultimately show ?thesis
    using got R sid metadata_for_update_Inr [OF R sid meta] upd s by blast
qed

text \<open>
  Update_tags writes the metadata read from the database with exactly the tags
  replaced, and only after the owner check passed.
\<close>

theorem update_tags_effect:
  assumes "update_tags S session_id tags key w = (Inr (Some s), w')"
  shows "\<exists>s0 w1 d R sid m m' row. get_session S session_id (Some key) w = (Inr (Some s0), w1) \<and>
    (key \<noteq> [] \<longrightarrow> s_owner_api_key_hash s0 = Some (hash_api_key (ss_lib S) key)) \<and>
    ss_repo S = Some R \<and> uuid_of (ss_lib S) session_id = Inr sid \<and>
    metadata_read R sid (w_db w1) m d \<and>
    sr_update_metadata R sid m' d = (Inr (Some row), w_db w') \<and>
    map_of m' = (map_of m)(''tags'' \<mapsto> JArr (map JStr tags)) \<and> s = map_db_to_service row"
proof -
  from metadata_write [OF assms [unfolded update_tags_def]]
  obtain s0 w1 w2 R sid m row where got: "get_session S session_id (Some key) w = (Inr (Some s0), w1)"
    and R: "ss_repo S = Some R" and sid: "uuid_of (ss_lib S) session_id = Inr sid"
    and meta: "get_session_metadata_for_update S session_id w1 = (Inr m, w2)"
    and upd: "sr_update_metadata R sid (dict_set ''tags'' (JArr (map JStr tags)) m) (w_db w2) =
      (Inr (Some row), w_db w')" and s: "s = map_db_to_service row"
    by blast
  have "key \<noteq> [] \<longrightarrow> s_owner_api_key_hash s0 = Some (hash_api_key (ss_lib S) key)"
    using get_session_enforced [OF got] enforce_owner_Inr by fastforce
  then show ?thesis
    using got R sid metadata_for_update_Inr [OF R sid meta] upd s
      map_of_dict_set [of "''tags''" "JArr (map JStr tags)" m] by blast
qed

lemma ref_promote_run:
  "promote_session db_service ''s1'' ''p'' ''key'' (ref_world [owned_row]) =
     (Inr (Some (map_db_to_service (owned_row\<lparr>row_session_metadata :=
        Some [(''mode'', JStr ''code''), (''project_id'', JStr ''p'')]\<rparr>))),
      snd (promote_session db_service ''s1'' ''p'' ''key'' (ref_world [owned_row])))"
  by (rule fst_run) (simp add: promote_session_def get_session_metadata_for_update_def
      store_metadata_def get_session_def get_from_db_def dict_update_def dict_set_def
      session_eval db_eval Let_def)

lemma promote_session_effect_witness:
  "\<exists>s0 w1 d sid m m' row. get_session db_service ''s1'' (Some ''key'') (ref_world [owned_row]) = (Inr (Some s0), w1) \<and>
     s_owner_api_key_hash s0 = Some (hash_api_key ref_lib ''key'') \<and>
     sr_update_metadata ref_repo sid m' d =
       (Inr (Some row), w_db (snd (promote_session db_service ''s1'' ''p'' ''key'' (ref_world [owned_row])))) \<and>
     map_of m' = (map_of m)(''mode'' \<mapsto> JStr ''code'', ''project_id'' \<mapsto> JStr ''p'')"
  by (insert promote_session_effect [OF ref_promote_run], elim exE conjE, intro exI conjI)
     (assumption | simp add: db_service_def ref_service_def)+

lemma ref_tags_run:
  "update_tags db_service ''s1'' [''x''] ''key'' (ref_world [owned_row]) =
     (Inr (Some (map_db_to_service (owned_row\<lparr>row_session_metadata :=
        Some [(''tags'', JArr [JStr ''x''])]\<rparr>))),
      snd (update_tags db_service ''s1'' [''x''] ''key'' (ref_world [owned_row])))"
  by (rule fst_run) (simp add: update_tags_def get_session_metadata_for_update_def
      store_metadata_def get_session_def get_from_db_def dict_set_def
      session_eval db_eval Let_def)

lemma update_tags_effect_witness:
  "\<exists>s0 w1 d sid m m' row. get_session db_service ''s1'' (Some ''key'') (ref_world [owned_row]) = (Inr (Some s0), w1) \<and>
     s_owner_api_key_hash s0 = Some (hash_api_key ref_lib ''key'') \<and>
     sr_update_metadata ref_repo sid m' d =
       (Inr (Some row), w_db (snd (update_tags db_service ''s1'' [''x''] ''key'' (ref_world [owned_row])))) \<and>
     map_of m' = (map_of m)(''tags'' \<mapsto> JArr (map JStr [''x'']))"
  by (insert update_tags_effect [OF ref_tags_run], elim exE conjE, intro exI conjI)
     (assumption | simp add: db_service_def ref_service_def)+

end
