(* ===== verification/SessionListing.thy ===== *)
theory SessionListing
  imports SessionProperties
begin

text \<open>
  Listing sessions: what the metadata filters mean, how a listing is cut into pages, and what
  the owner index gives. Also the codec of a cached session and the errors of its parser.
\<close>

section \<open>The codec\<close>

text \<open>
  A session whose metadata and cost are JSON values survives being written to the cache
  as JSON text and parsed back, field for field.
\<close>

theorem session_roundtrip:
  assumes "pylib_laws L" and "wf_session s"
  shows "parse_cached_session L (json_of_text L (json_dumps L (JObj (session_payload L s)))) = Inr (Some s)"
proof -
  have "wf_json (JObj (session_payload L s))"
    using wf_session_payload [OF assms(2)] unfolding wf_dict_def .
  from pylib_laws.json_of_text_dumps [OF assms(1) this] show ?thesis
    by (simp only: pylib_laws.parse_session_payload [OF assms(1)])
qed

lemma session_roundtrip_witness:
  "parse_cached_session ref_lib (json_of_text ref_lib (json_dumps ref_lib
     (JObj (session_payload ref_lib (ref_session\<lparr>s_session_metadata := Some [(''tags'', JArr [JStr ''x''])]\<rparr>))))) =
   Inr (Some (ref_session\<lparr>s_session_metadata := Some [(''tags'', JArr [JStr ''x''])]\<rparr>))"
  by (rule session_roundtrip [OF ref_lib.pylib_laws_axioms])
     (simp add: wf_session_def ref_session_def)

text \<open>
  Parsing a cached session raises only for a value that is no dictionary or for a
  number out of range; every other malformed dictionary is treated as a cache miss.
\<close>

theorem cached_session_errors:
  "case parse_cached_session L v of
     Inl e \<Rightarrow> (\<nexists>d. v = JObj d) \<and> e = AttributeError ''get'' \<or> (\<exists>m. e = OverflowError m)
   | Inr None \<Rightarrow> \<exists>d e. v = JObj d \<and> session_of_dict L d = Inl e \<and> is_parse_error e
   | Inr (Some s) \<Rightarrow> \<exists>d. v = JObj d \<and> session_of_dict L d = Inr s"
proof (cases "parse_cached_session L v")
  case (Inl e)
  with parse_cached_session_error [OF Inl] show ?thesis by simp
next
  case (Inr r)
  then obtain d where v: "v = JObj d"
    and d: "none_on_parse_error (bind_sum (session_of_dict L d) (\<lambda>s. Inr (Some s))) = Inr r"
    by (auto simp: parse_cached_session_def split: json.splits)
  with Inr show ?thesis
    by (cases "session_of_dict L d") (auto simp: none_on_parse_error_def split: if_splits)
qed

section \<open>Filters\<close>

lemma string_items_Some: "string_items xs = Some ts \<longleftrightarrow> xs = map JStr ts"
proof (induction xs arbitrary: ts rule: string_items.induct)
  case (2 s xs)
  then show ?case by (cases ts) auto
qed auto

lemma metadata_tags_mem:
  "t \<in> set (metadata_tags m) \<longleftrightarrow> (\<exists>ts. dict_get m ''tags'' = Some (JArr (map JStr ts)) \<and> t \<in> set ts)"
proof (cases "\<exists>xs ts. dict_get m ''tags'' = Some (JArr xs) \<and> string_items xs = Some ts")
  case True
  then obtain ts where tags: "dict_get m ''tags'' = Some (JArr (map JStr ts))"
    and items: "string_items (map JStr ts) = Some ts"
    by (auto simp: string_items_Some)
  moreover have "map JStr ts = map JStr us \<longleftrightarrow> us = ts" for us
    by (auto simp: inj_map_eq_map inj_def)
  ultimately show ?thesis by (simp add: metadata_tags_def)
next
  case False
  then have "metadata_tags m = []"
    unfolding metadata_tags_def by (auto split: option.split json.split)
  with False show ?thesis by (auto simp: string_items_Some)
qed

text \<open>
  The metadata filter accepts a session exactly when mode and project match, every
  requested tag is among its tags, and the search text occurs in its title up to case.
\<close>

theorem metadata_filters_meaning:
  "matches_metadata_filters s mode project_id tags search \<longleftrightarrow>
     (let metadata = (case s_session_metadata s of None \<Rightarrow> [] | Some m \<Rightarrow> m) in
      (\<forall>m. mode = Some m \<longrightarrow> dict_get metadata ''mode'' = Some (JStr m)) \<and>
      (\<forall>p. project_id = Some p \<longrightarrow> dict_get metadata ''project_id'' = Some (JStr p)) \<and>
      (\<forall>ts t. tags = Some ts \<longrightarrow> t \<in> set ts \<longrightarrow>
        (\<exists>us. dict_get metadata ''tags'' = Some (JArr (map JStr us)) \<and> t \<in> set us)) \<and>
      (\<forall>q. search = Some q \<longrightarrow> sublist (lower q) (lower (metadata_title metadata))))"
proof -
  have none: "sublist (lower []) xs" for xs
    by (simp add: lower_def)
  show ?thesis
    unfolding matches_metadata_filters_def Let_def metadata_tags_mem [symmetric]
    by (cases search) (auto simp: contains_iff none split: option.splits if_splits)
qed

definition ref_tagged :: session where
  "ref_tagged = ref_session\<lparr>s_session_metadata :=
     Some [(''mode'', JStr ''code''), (''tags'', JArr [JStr ''x'', JStr ''y'']), (''title'', JStr ''My Title'')]\<rparr>"

lemma metadata_filters_meaning_witness:
  "matches_metadata_filters ref_tagged (Some ''code'') None (Some [''y'']) (Some ''TITLE'') \<and>
   \<not> matches_metadata_filters ref_tagged None (Some ''p'') None None"
proof
  have "lower ''My Title'' = ''my '' @ lower ''TITLE''"
    by code_simp
  then have "sublist (lower ''TITLE'') (lower ''My Title'')"
    by (metis sublist_append_leftI)
  then show "matches_metadata_filters ref_tagged (Some ''code'') None (Some [''y'']) (Some ''TITLE'')"
    unfolding metadata_filters_meaning Let_def
    by (auto simp: ref_tagged_def dict_get_def metadata_title_def intro!: exI [of _ "[''x'', ''y'']"])
  show "\<not> matches_metadata_filters ref_tagged None (Some ''p'') None None"
    unfolding metadata_filters_meaning Let_def by (simp add: ref_tagged_def dict_get_def)
qed

section \<open>Pages\<close>

lemma concat_slices:
  "0 \<le> n \<Longrightarrow> concat (map (\<lambda>p. py_slice xs ((int p - 1) * n) ((int p - 1) * n + n)) [1..<Suc k]) =
     take (k * nat n) xs"
proof (induction k)
  case 0
  then show ?case by simp
next
  case (Suc k)
  have "py_slice xs (int k * n) (int k * n + n) = take (nat n) (drop (k * nat n) xs)"
    using Suc.prems by (simp add: py_slice_nonneg nat_mult_distrib nat_add_distrib)
  moreover have "take (Suc k * nat n) xs = take (k * nat n) xs @ take (nat n) (drop (k * nat n) xs)"
    by (metis add.commute mult_Suc take_add)
  ultimately show ?case
    using Suc by simp
qed

text \<open>
  The first k pages of a cached listing, put together, are the first k times page_size
  matching sessions, newest first; the total counts all matching sessions.
\<close>

theorem pages_partition:
  assumes "0 \<le> page_size"
  shows "concat (map (\<lambda>p. slr_sessions (filtered_page (int p) page_size keep xs)) [1..<Suc k]) =
      take (k * nat page_size) (filter keep (sort_desc s_created_at xs)) \<and>
    slr_total (filtered_page page page_size keep xs) = int (length (filter keep xs)) \<and>
    sorted_wrt (\<lambda>s t. s_created_at t \<le> s_created_at s) (slr_sessions (filtered_page page page_size keep xs)) \<and>
    set (slr_sessions (filtered_page page page_size keep xs)) \<subseteq> {s \<in> set xs. keep s}"
proof (intro conjI)
  let ?fs = "filter keep (sort_desc s_created_at xs)"
  show "concat (map (\<lambda>p. slr_sessions (filtered_page (int p) page_size keep xs)) [1..<Suc k]) =
      take (k * nat page_size) ?fs"
    using concat_slices [OF assms, of ?fs k] by (simp add: filtered_page_def Let_def)
  have "length ?fs = length (filter keep xs)"
    by (simp add: sort_desc_def filter_sort)
  then show "slr_total (filtered_page page page_size keep xs) = int (length (filter keep xs))"
    by (simp add: filtered_page_def Let_def)
  show "sorted_wrt (\<lambda>s t. s_created_at t \<le> s_created_at s) (slr_sessions (filtered_page page page_size keep xs))"
    by (simp add: filtered_page_def Let_def sorted_wrt_py_slice sorted_wrt_filter sorted_sort_desc)
  show "set (slr_sessions (filtered_page page page_size keep xs)) \<subseteq> {s \<in> set xs. keep s}"
    using set_py_slice [of ?fs "(page - 1) * page_size" "(page - 1) * page_size + page_size"]
    by (auto simp: filtered_page_def Let_def)
qed

lemma pages_partition_witness:
  "concat (map (\<lambda>p. slr_sessions (filtered_page (int p) 1 (\<lambda>s. True)
       [ref_session, ref_session\<lparr>s_created_at := 5\<rparr>])) [1..<Suc 2]) =
     [ref_session, ref_session\<lparr>s_created_at := 5\<rparr>]"
  using pages_partition [of 1 "\<lambda>s. True" "[ref_session, ref_session\<lparr>s_created_at := 5\<rparr>]" 2]
  by (simp add: sort_desc_def ref_session_def)

section \<open>The owner index\<close>

text \<open>Whatever is stored under an identifier in the index of an owner is a session.\<close>

definition index_sound :: "pylib \<Rightarrow> store \<Rightarrow> string \<Rightarrow> bool" where
  "index_sound L m h \<longleftrightarrow>
     (\<forall>A i. set_at (m (owner_index_key h)) = Some A \<longrightarrow> Utf8 i \<in> A \<longrightarrow> m (cache_key i) \<noteq> None \<longrightarrow>
       (\<exists>x. wf_session x \<and> m (cache_key i) = Some (dump_entry L (session_payload L x))))"

context live_cache
begin

text \<open>The sessions of an owner: those stored under the identifiers in the index.\<close>

lemma list_for_owner_live:
  assumes "scm_list_sessions_for_owner L (Some C) h s = (Inr xs, s')"
    and "index_sound L (ent s) h"
  obtains ids where "set_at (ent s (owner_index_key h)) = Some (Utf8 ` ids)" and "ent s' = ent s"
    and "set xs = {x. wf_session x \<and>
      (\<exists>i \<in> ids. ent s (cache_key i) = Some (dump_entry L (session_payload L x)))}"
proof -
  from assms(1) obtain js s1 rows where
      mem: "c_set_members C (owner_index_key h) s = (Inr js, s1)"
    and rows: "c_get_many_json C (map cache_key js) s1 = (Inr rows, s')"
    and parse: "parse_rows (parse_cached_session L) rows = Inr xs"
    by (auto simp: scm_list_sessions_for_owner_def io_inv)
  note members = live_set_members [OF mem] and read = live_get_many_json [OF rows]
  have cells: "rows = map (\<lambda>i. stored_json L (ent s (cache_key i))) js" and "ent s' = ent s"
    using read members by simp_all
  have "x \<in> set xs \<longleftrightarrow> wf_session x \<and>
      (\<exists>i \<in> set js. ent s (cache_key i) = Some (dump_entry L (session_payload L x)))" for x
  proof
    assume "x \<in> set xs"
    then obtain i where i: "i \<in> set js" and t: "truthy (stored_json L (ent s (cache_key i)))"
      and p: "parse_cached_session L (stored_json L (ent s (cache_key i))) = Inr (Some x)"
      by (auto simp: parse_rows_mem [OF parse] cells)
    from t have "ent s (cache_key i) \<noteq> None" by (intro notI) simp
    with assms(2) members i obtain y where y: "wf_session y"
      "ent s (cache_key i) = Some (dump_entry L (session_payload L y))"
      unfolding index_sound_def by blast
    with p have "y = x"
      by (simp add: wf_session_payload parse_session_payload)
    with y i show "wf_session x \<and>
      (\<exists>i \<in> set js. ent s (cache_key i) = Some (dump_entry L (session_payload L x)))" by blast
  next
    assume "wf_session x \<and>
      (\<exists>i \<in> set js. ent s (cache_key i) = Some (dump_entry L (session_payload L x)))"
    then show "x \<in> set xs"
      by (auto simp: parse_rows_mem [OF parse] cells wf_session_payload parse_session_payload
          intro!: rev_bexI)
  qed
  with that [of "set js"] members \<open>ent s' = ent s\<close> show ?thesis by blast
qed

end

text \<open>
  Without a database, list_sessions for a key pages exactly the stored sessions whose
  identifiers are in the index of that key's hash, and changes nothing in the cache.
\<close>

theorem list_sessions_of_owner:
  assumes "live_cache L C ent ages matches" and "ss_cache S = Some C" and "ss_lib S = L"
    and "ss_repo S = None"
    and "index_sound L (ent (w_cache w)) (hash_api_key L key)"
    and "list_sessions S page page_size (Some key) mode project_id tags search w = (Inr result, w')"
  shows "\<exists>ids xs. set_at (ent (w_cache w) (owner_index_key (hash_api_key L key))) = Some (Utf8 ` ids) \<and>
    ent (w_cache w') = ent (w_cache w) \<and>
    set xs = {x. wf_session x \<and>
      (\<exists>i \<in> ids. ent (w_cache w) (cache_key i) = Some (dump_entry L (session_payload L x)))} \<and>
    result = filtered_page page page_size
      (\<lambda>s. matches_metadata_filters s mode project_id tags search) xs"
proof -
  from assms(6) have "and_then (on_cache (scm_list_sessions_for_owner L (Some C) (hash_api_key L key)))
      (\<lambda>xs. ret (filtered_page page page_size
        (\<lambda>s. matches_metadata_filters s mode project_id tags search) xs)) w = (Inr result, w')"
    by (simp add: list_sessions_def cached_sessions_for_def assms(2-4))
  then obtain xs where
      run: "on_cache (scm_list_sessions_for_owner L (Some C) (hash_api_key L key)) w = (Inr xs, w')"
    and r: "result = filtered_page page page_size
      (\<lambda>s. matches_metadata_filters s mode project_id tags search) xs"
    unfolding and_then_Inr by auto
  from on_cache_Inr [OF run]
  have "scm_list_sessions_for_owner L (Some C) (hash_api_key L key) (w_cache w) = (Inr xs, w_cache w')"
    by simp
  from live_cache.list_for_owner_live [OF assms(1) this assms(5)]
  obtain ids where "set_at (ent (w_cache w) (owner_index_key (hash_api_key L key))) = Some (Utf8 ` ids)"
    and "ent (w_cache w') = ent (w_cache w)"
    and "set xs = {x. wf_session x \<and>
      (\<exists>i \<in> ids. ent (w_cache w) (cache_key i) = Some (dump_entry L (session_payload L x)))}"
    by blast
  with r show ?thesis by blast
qed

definition ref_cached :: "(server redis_world, session_row list) world" where
  "ref_cached = (ref_world [])\<lparr>w_cache :=
     \<lparr>rw_server = \<lparr>sv_now = 0,
        sv_data = [(''session:owner:#key'', Bag [Utf8 ''s1''], Some 3600),
                   (''session:s1'', Text (Utf8 ref_text), Some 3600)]\<rparr>,
      rw_uuids = ref_tokens, rw_draws = 0\<rparr>\<rparr>"

definition cache_service :: "(server redis_world, session_row list) session_service" where
  "cache_service = ref_service\<lparr>ss_repo := None\<rparr>"

lemma ref_cached_ent:
  "ref_ent (w_cache ref_cached) (owner_index_key ''#key'') = Some (Members {Utf8 ''s1''})"
  "ref_ent (w_cache ref_cached) (cache_key ''s1'') =
     Some (dump_entry ref_lib (session_payload ref_lib ref_session))"
  by (simp_all add: ref_cached_def ref_ent_def server_ent_def look_def not_due_def
      owner_index_key_def cache_key_def dump_entry_def ref_text_def)

lemma ref_list_run:
  "list_sessions cache_service 1 20 (Some ''key'') None None None None ref_cached =
     (Inr (filtered_page 1 20 (\<lambda>s. True) [ref_session]),
      snd (list_sessions cache_service 1 20 (Some ''key'') None None None None ref_cached))"
  by (rule fst_run) (simp add: list_sessions_def cached_sessions_for_def cache_service_def
      scm_list_sessions_for_owner_def rc_set_members_def rc_get_many_json_def sv_smembers_def
      sv_mget_def mget_row_def ref_cached_def session_eval ref_eval parse_row_def
      pylib_laws.parse_session_payload [OF ref_lib.pylib_laws_axioms]
      matches_metadata_filters_def Let_def ref_world_def del: eval_rules ref_world_sel)

lemma list_sessions_of_owner_witness:
  "\<exists>xs. set xs = {x. wf_session x \<and>
       ref_ent (w_cache ref_cached) (cache_key ''s1'') = Some (dump_entry ref_lib (session_payload ref_lib x))} \<and>
     filtered_page 1 20 (\<lambda>s. True) [ref_session] =
       filtered_page 1 20 (\<lambda>s. matches_metadata_filters s None None None None) xs"
proof -
  have "wf_session ref_session"
    by (simp add: wf_session_def ref_session_def)
  then have stored: "index_sound ref_lib (ref_ent (w_cache ref_cached)) (hash_api_key ref_lib ''key'')"
    by (auto simp: index_sound_def hash_api_key_def ref_cached_ent)
  have "ss_cache cache_service = Some (ref_cache 0)" "ss_lib cache_service = ref_lib"
      "ss_repo cache_service = None"
    by (simp_all add: cache_service_def ref_service_def)
  note parts = this
  have ids: "ids = {''s1''}" if "{Utf8 ''s1''} = Utf8 ` ids" for ids
    using that by auto
  show ?thesis
    using list_sessions_of_owner [OF ref_live parts stored ref_list_run]
    by (auto simp: hash_api_key_def ref_cached_ent dest!: ids)
qed

end
