(* ===== verification/CacheProperties.thy ===== *)
theory CacheProperties
  imports Reference
begin

text \<open>
  What the Redis adapter promises to the services, and the session tracker seen as two sets.
  The adapter's properties hold for every client whose commands behave as documented
  (\<open>redis_laws\<close>); the tracker's for every cache on which nothing expires meanwhile.
\<close>

section \<open>The adapter\<close>

text \<open>
  C6: The Redis adapter implements the cache interface the services rely on: over any client
  whose commands behave as documented, every operation of the adapter meets the abstract
  cache contract.
\<close>

theorem redis_cache_refines_contract:
  assumes "redis_laws L cl ent ages matches unseen rank"
  shows "cache_contract L (redis_cache fuel L cl) (\<lambda>w. ent (rw_server w)) ages matches"
  by (rule redis_laws.adapter_contract [OF assms])

lemma redis_cache_refines_contract_witness:
  "cache_contract ref_lib (redis_cache 1 ref_lib (ref_redis 1)) (\<lambda>w. server_ent (rw_server w))
     (server_ages 1) glob"
  by (rule redis_cache_refines_contract [OF server_redis_laws])

text \<open>
  The loop of a scan only ever stops early for lack of fuel: with more fuel than the server has
  calls left to answer, the result is the same whatever the fuel.
\<close>

lemma scan_loop_more_fuel:
  assumes "scan_loop n cl p mx c acc w = (r, w')" and "r \<noteq> Inl OutOfFuel" and "n \<le> n'"
  shows "scan_loop n' cl p mx c acc w = (r, w')"
  using assms
proof (induction n arbitrary: n' c acc w)
  case 0
  then show ?case by auto
next
  case (Suc n)
  then obtain n1 where n': "n' = Suc n1" and "n \<le> n1"
    by (cases n') auto
  obtain a w1 where scan: "on_server (r_scan cl c p 1000) w = (a, w1)" by force
  show ?case
  proof (cases a)
    case (Inl e)
    with Suc.prems(1) scan n' show ?thesis by simp
  next
    case (Inr x)
    obtain c' found where x: "x = (c', found)" by force
    show ?thesis
    proof (cases "map_sum_list decode_utf8 found")
      case (Inl e)
      with Suc.prems(1) scan Inr x have "r = Inl e" and "w' = w1" by auto
      with scan n' Inr x \<open>map_sum_list decode_utf8 found = Inl e\<close> show ?thesis by simp
    next
      case (Inr batch)
      with Suc.prems scan n' \<open>a = Inr x\<close> x Suc.IH [OF _ _ \<open>n \<le> n1\<close>] show ?thesis
        by (auto split: if_splits)
    qed
  qed
qed

text \<open>
  Scan_keys ends once the server's cursors are exhausted: with more fuel than the
  server has calls left to answer, the result is never out of fuel and does not depend on
  the fuel.
\<close>

theorem scan_keys_terminates:
  assumes "redis_laws L cl ent ages matches unseen rank"
    and "\<And>c s s'. r_scan cl c p 1000 s \<noteq> (Inl OutOfFuel, s')"
    and "rank (rw_server w) 0 < fuel" and "fuel \<le> fuel'"
  shows "fst (rc_scan_keys fuel cl p max_keys w) \<noteq> Inl OutOfFuel \<and>
    rc_scan_keys fuel' cl p max_keys w = rc_scan_keys fuel cl p max_keys w"
proof -
  obtain r w' where loop: "scan_loop fuel cl p max_keys 0 [] w = (r, w')" by force
  have r: "r \<noteq> Inl OutOfFuel"
    using redis_laws.scan_loop_terminates [OF assms(1), of w 0 fuel p max_keys "[]" w']
      assms(2,3) loop by auto
  with scan_loop_more_fuel [OF loop r assms(4)] loop show ?thesis
    by (cases r) (auto simp: rc_scan_keys_def)
qed

definition ref_keys_server :: server where
  "ref_keys_server = \<lparr>sv_now = 0, sv_data =
     [(''run:t:1'', Text (Utf8 ''x''), None), (''run:t:2'', Text (Utf8 ''y''), None),
      (''run:u:1'', Text (Utf8 ''z''), None)]\<rparr>"

definition ref_keys_world :: "server redis_world" where
  "ref_keys_world = \<lparr>rw_server = ref_keys_server, rw_uuids = ref_tokens, rw_draws = 0\<rparr>"

lemma ref_scan_fuel: "r_scan (ref_redis dt) c p n s \<noteq> (Inl OutOfFuel, s')"
  by (simp add: ref_redis_def command_def sv_scan_def)

lemma scan_keys_terminates_witness:
  "rc_scan_keys 7 (ref_redis 1) ''run:t:*'' 1000 ref_keys_world =
     rc_scan_keys 1 (ref_redis 1) ''run:t:*'' 1000 ref_keys_world"
  using scan_keys_terminates [OF server_redis_laws [of 1] ref_scan_fuel,
      where w = ref_keys_world and fuel = 1 and fuel' = 7]
  by simp

text \<open>
  Scan_keys refuses limits above 10000 without sending a command, returns at most
  max_keys existing matching keys, and returns all matching keys when it stays below the
  limit.
\<close>

theorem scan_keys_sound:
  assumes "redis_laws L cl ent ages matches unseen rank"
    and "rc_scan_keys fuel cl pattern max_keys w = (r, w')"
  shows "if 10000 < max_keys then (\<exists>m. r = Inl (ValueError m)) \<and> w' = w
    else case r of
        Inl e \<Rightarrow> True
      | Inr ks \<Rightarrow> (0 \<le> max_keys \<longrightarrow> int (length ks) \<le> max_keys) \<and>
          (\<forall>k \<in> set ks. ent (rw_server w) k \<noteq> None \<and> matches pattern k) \<and>
          (int (length ks) < max_keys \<longrightarrow>
            {k. ent (rw_server w') k \<noteq> None \<and> matches pattern k} \<subseteq> set ks)"
proof (cases r)
  case (Inl e)
  with assms(2) show ?thesis by (auto simp: rc_scan_keys_def)
next
  case (Inr ks)
  with redis_laws.rc_scan_keys_contract [OF assms(1)] assms(2) show ?thesis by fastforce
qed

lemma ref_scan_run:
  "rc_scan_keys 1 (ref_redis 0) ''run:t:*'' 1000 ref_keys_world =
     (Inr [''run:t:1'', ''run:t:2''], ref_keys_world)"
  by (simp add: rc_scan_keys_def ref_keys_world_def ref_keys_server_def ref_redis_def command_def
      sv_scan_def tick_def live_keys_def look_def not_due_def on_server_def py_slice_prefix)

lemma scan_keys_sound_witness:
  "server_ent ref_keys_server ''run:t:1'' \<noteq> None \<and> glob ''run:t:*'' ''run:t:1''"
  using scan_keys_sound [OF server_redis_laws [of 0] ref_scan_run]
  by (simp add: ref_keys_world_def)

section \<open>The tracker\<close>

datatype tracker_op = Register string | Unregister string | Interrupt string

fun track :: "'c session_tracker \<Rightarrow> tracker_op \<Rightarrow> ('c, unit) io" where
  "track T (Register i) = register T i"
| "track T (Unregister i) = unregister T i"
| "track T (Interrupt i) = mark_interrupted T i"

fun track_all :: "'c session_tracker \<Rightarrow> tracker_op list \<Rightarrow> ('c, unit) io" where
  "track_all T [] = ret ()"
| "track_all T (p # ps) = and_then (track T p) (\<lambda>_. track_all T ps)"

text \<open>The abstract tracker: the active and the interrupted sessions.\<close>

fun track_sets :: "tracker_op \<Rightarrow> string set \<times> string set \<Rightarrow> string set \<times> string set" where
  "track_sets (Register i) (active, interrupted) = (insert i active, interrupted)"
| "track_sets (Unregister i) (active, interrupted) = (active - {i}, interrupted)"
| "track_sets (Interrupt i) (active, interrupted) = (active, insert i interrupted)"

definition tracked :: "store \<Rightarrow> string set \<times> string set" where
  "tracked m = (marked active_key m, marked interrupted_key m)"

context live_cache
begin

lemma track_step:
  "track T p s = (Inr u, s') \<Longrightarrow> st_cache T = Some C \<Longrightarrow>
     tracked (ent s') = track_sets p (tracked (ent s))"
  by (cases p) (auto simp: tracked_def dest: register_marks unregister_unmarks mark_interrupted_marks)

lemma track_all_steps:
  "track_all T ps s = (Inr u, s') \<Longrightarrow> st_cache T = Some C \<Longrightarrow>
     tracked (ent s') = fold track_sets ps (tracked (ent s))"
proof (induction ps arbitrary: s)
  case Nil
  then show ?case by simp
next
  case (Cons p ps)
  then show ?case by (auto simp: io_inv dest: track_step)
qed

end

text \<open>
  After any sequence of register, unregister and mark_interrupted, the tracker's
  queries answer as two sets updated by insertion and removal would.
\<close>

theorem tracker_refines_sets:
  assumes "live_cache L C ent ages matches" and "st_cache T = Some C"
    and "track_all T ops s = (Inr (), s1)"
    and "is_active T i s1 = (Inr active, s2)" and "is_interrupted T i s2 = (Inr interrupted, s3)"
  shows "tracked (ent s3) = fold track_sets ops (tracked (ent s)) \<and>
    active = (i \<in> fst (fold track_sets ops (tracked (ent s)))) \<and>
    interrupted = (i \<in> snd (fold track_sets ops (tracked (ent s))))"
proof -
  note after = live_cache.track_all_steps [OF assms(1,3,2)]
  note a = live_cache.queries_read_marks(1) [OF assms(1,2,4)]
  note b = live_cache.queries_read_marks(2) [OF assms(1,2,5)]
  show ?thesis
    using a b by (simp add: after [symmetric]) (simp add: tracked_def)
qed

definition ref_tracker :: "server redis_world session_tracker" where
  "ref_tracker = \<lparr>st_cache = Some (ref_cache 0), st_session_ttl = 7200, st_interrupt_ttl = 300\<rparr>"

definition ref_cache_world :: "server redis_world" where
  "ref_cache_world = \<lparr>rw_server = empty_server, rw_uuids = ref_tokens, rw_draws = 0\<rparr>"

definition ref_ops :: "tracker_op list" where
  "ref_ops = [Register ''a'', Register ''b'', Interrupt ''b'', Unregister ''a'']"

lemmas tracker_eval = register_def unregister_def mark_interrupted_def is_active_def
  is_interrupted_def with_tracker_cache_def active_key_def interrupted_key_def ref_tracker_def
  ref_cache_world_def ref_ops_def ref_eval rc_exists_def sv_exists_def

lemma ref_track_run:
  "track_all ref_tracker ref_ops ref_cache_world =
     (Inr (), snd (track_all ref_tracker ref_ops ref_cache_world))"
  by (rule fst_run) (simp add: tracker_eval del: eval_rules)

lemma ref_track_queries:
  "is_active ref_tracker ''b'' (snd (track_all ref_tracker ref_ops ref_cache_world)) =
     (Inr True, snd (track_all ref_tracker ref_ops ref_cache_world))"
  "is_interrupted ref_tracker ''b'' (snd (track_all ref_tracker ref_ops ref_cache_world)) =
     (Inr True, snd (track_all ref_tracker ref_ops ref_cache_world))"
  by (simp_all add: tracker_eval del: eval_rules)

lemma tracker_refines_sets_witness:
  "''b'' \<in> fst (fold track_sets ref_ops (tracked (ref_ent ref_cache_world)))"
  using tracker_refines_sets [OF ref_live _ ref_track_run ref_track_queries]
  by (simp add: ref_tracker_def)

end
