(* ===== verification/RunProperties.thy ===== *)
theory RunProperties
  imports Reference Runs
begin

text \<open>
  What the run service and the executor promise: the codec of a run, the state machine of its
  status, the pages of a listing, the status an execution ends in, and the text of the events.
\<close>

section \<open>The codec\<close>

text \<open>
  A run without empty optional fields survives being written to the cache as JSON text
  and parsed back, field for field.
\<close>

theorem run_roundtrip:
  assumes "pylib_laws L" and "wf_run r"
  shows "parse_cached_run L (json_of_text L (json_dumps L (JObj (run_payload r)))) = Inr (Some r)"
proof -
  have "wf_json (JObj (run_payload r))"
    using wf_run_payload [OF assms(2)] unfolding wf_dict_def .
  from pylib_laws.json_of_text_dumps [OF assms(1) this] show ?thesis
    by (simp add: parse_cached_run_def run_of_payload [OF assms(2)])
qed

definition ref_run :: run where
  "ref_run = \<lparr>run_id = ''run_a'', run_thread_id = ''t1'', run_assistant_id = ''asst_1'', run_created_at = 1,
     run_state = Queued, run_model = ''m'', run_instructions = Some ''be kind'',
     run_tools = [[(''type'', JStr ''function'')]], run_metadata = [(''k'', ''v'')],
     run_required_action = None, run_last_error = None, run_usage = None, run_started_at = None,
     run_expires_at = None, run_cancelled_at = None, run_failed_at = None, run_completed_at = None\<rparr>"

lemma wf_ref_run: "wf_run ref_run"
  by (simp add: wf_run_def ref_run_def distinct_keys_def)

lemma run_roundtrip_witness:
  "parse_cached_run ref_lib (json_of_text ref_lib (json_dumps ref_lib (JObj (run_payload ref_run)))) =
     Inr (Some ref_run)"
  by (rule run_roundtrip [OF ref_lib.pylib_laws_axioms wf_ref_run])

section \<open>The state machine\<close>

text \<open>
  Each run operation on a stored run moves its status as the state machine says, stores
  and returns the changed run, mirrors it in the database, keeps the fields that identify it
  and touches no other key.
\<close>

theorem run_operation_refines:
  assumes "live_cache L C ent ages matches" and "rs_cache S = Some C" and "rs_lib S = L"
    and "run_at L (ent (w_cache w)) r" and "op_wf op"
    and "perform S (run_thread_id r) (run_id r) op w = (Inr found, w')"
  shows "\<exists>r'. found = Some r' \<and> run_at L (ent (w_cache w')) r' \<and> same_run r r' \<and>
    run_state r' = next_status op (run_state r) \<and>
    (if op_allowed op (run_state r) then mirrored S r' w w' else r' = r \<and> w_db w' = w_db w) \<and>
    (\<forall>k. k \<noteq> run_cache_key (run_thread_id r) (run_id r) \<longrightarrow> ent (w_cache w') k = ent (w_cache w) k)"
proof (cases "op_allowed op (run_state r)")
  case True
  with live_cache.perform_live [OF assms] obtain now where
    "found = Some (op_change op now r)" "mirrored S (op_change op now r) w w'"
    "run_at L (ent (w_cache w')) (op_change op now r)"
    "ent (w_cache w') = (ent (w_cache w))(run_cache_key (run_thread_id r) (run_id r) \<mapsto>
       dump_entry L (run_payload (op_change op now r)))"
    by auto
  with True show ?thesis
    by (auto simp: op_change_state op_change_same next_status_def simp del: op_change.simps)
next
  case False
  with live_cache.perform_live [OF assms] assms(4) show ?thesis
    by (simp add: next_status_def same_run_def)
qed

text \<open>A run in the server of the concrete world.\<close>

definition run_server :: "run \<Rightarrow> server" where
  "run_server r = \<lparr>sv_now = 0, sv_data =
     [(run_cache_key (run_thread_id r) (run_id r), Text (Utf8 (enc (JObj (run_payload r)))), None)]\<rparr>"

definition run_world :: "run \<Rightarrow> (server redis_world, unit) world" where
  "run_world r = (ref_world ())\<lparr>w_cache :=
     \<lparr>rw_server = run_server r, rw_uuids = ref_tokens, rw_draws = 0\<rparr>\<rparr>"

definition ref_runs :: "(server redis_world, unit) run_service" where
  "ref_runs = \<lparr>rs_lib = ref_lib, rs_cache = Some (ref_cache 0), rs_repo = None, rs_ttl = 3600\<rparr>"

lemma ref_runs_sel [simp]:
  "rs_lib ref_runs = ref_lib" "rs_cache ref_runs = Some (ref_cache 0)" "rs_repo ref_runs = None"
  "rs_ttl ref_runs = 3600"
  by (simp_all add: ref_runs_def)

lemma run_world_time [simp]: "w_clock (run_world r) n = 1000000 * (int n + 1)" "w_ticks (run_world r) = 0"
  by (simp_all add: run_world_def)

lemma run_world_at: "wf_run r \<Longrightarrow> run_at ref_lib (ref_ent (w_cache (run_world r))) r"
  by (simp add: run_at_def run_world_def run_server_def ref_ent_def server_ent_def look_def
      not_due_def dump_entry_def)

lemma ref_parse_run: "wf_run r \<Longrightarrow> parse_cached_run ref_lib (JObj (run_payload r)) = Inr (Some r)"
  by (simp add: parse_cached_run_def run_of_payload)

lemma run_payload_nonempty [simp]: "run_payload r \<noteq> []"
  by (simp add: run_payload_def)

lemmas run_eval = run_world_def run_server_def get_run_def load_entity_def parse_row_def
  ref_eval ref_parse_run update_run_def cache_run_def transition_def

lemma ref_get_run:
  "get_run ref_runs ''t1'' ''run_a'' (run_world ref_run) = (Inr (Some ref_run), run_world ref_run)"
proof -
  have key: "run_cache_key (run_thread_id ref_run) (run_id ref_run) = run_cache_key ''t1'' ''run_a''"
    by (simp add: ref_run_def)
  show ?thesis
    by (simp add: run_world_def run_server_def get_run_def load_entity_def parse_row_def
  ref_eval ref_parse_run key wf_ref_run wf_run_payload ref_world_def del: eval_rules ref_world_sel)
qed

text \<open>Storing a run succeeds on that server.\<close>

definition ref_stored :: "run \<Rightarrow> (server redis_world, unit) world \<Rightarrow> (server redis_world, unit) world" where
  "ref_stored r w = snd (update_run ref_runs r w)"

lemma ref_set_run: "update_run ref_runs r w = (Inr (), ref_stored r w)"
  unfolding ref_stored_def
  by (rule fst_run) (simp add: update_run_def cache_run_def ref_eval del: eval_rules)

lemma ref_cancel_run:
  "perform ref_runs ''t1'' ''run_a'' OpCancel (run_world ref_run) =
     (Inr (Some (op_change OpCancel 1000000 ref_run)),
      snd (perform ref_runs ''t1'' ''run_a'' OpCancel (run_world ref_run)))"
proof -
  have "run_state ref_run = Queued"
    by (simp add: ref_run_def)
  then show ?thesis
    by (intro fst_run) (simp add: cancel_run_def transition_def ref_get_run ref_set_run)
qed

lemma run_operation_refines_witness:
  "run_at ref_lib (ref_ent (w_cache (snd (perform ref_runs ''t1'' ''run_a'' OpCancel (run_world ref_run)))))
     (op_change OpCancel 1000000 ref_run) \<and>
   run_state (op_change OpCancel 1000000 ref_run) = next_status OpCancel Queued"
proof -
  have "run_thread_id ref_run = ''t1''" "run_id ref_run = ''run_a''" "run_state ref_run = Queued"
    by (simp_all add: ref_run_def)
  with run_operation_refines [OF ref_live _ _ run_world_at [OF wf_ref_run], of ref_runs OpCancel]
    ref_cancel_run show ?thesis
    by (simp del: op_change.simps perform.simps) blast
qed

text \<open>A history of operations, each run whatever the one before returned.\<close>

fun perform_all :: "('c, 'd) run_service \<Rightarrow> string \<Rightarrow> string \<Rightarrow> run_op list \<Rightarrow> (('c, 'd) world, unit) io" where
  "perform_all S t i [] = ret ()"
| "perform_all S t i (op # ops) = and_then (perform S t i op) (\<lambda>_. perform_all S t i ops)"

text \<open>
  The run of any history: the stored run is in the status that folding the guards over it gives.
\<close>

lemma perform_all_folds:
  assumes "live_cache L C ent ages matches" and "rs_cache S = Some C" and "rs_lib S = L"
    and "run_at L (ent (w_cache w)) r" and "\<forall>op \<in> set ops. op_wf op"
    and "perform_all S (run_thread_id r) (run_id r) ops w = (Inr (), w')"
  shows "\<exists>r'. run_at L (ent (w_cache w')) r' \<and> same_run r r' \<and>
    run_state r' = fold next_status ops (run_state r)"
  using assms(4-6)
proof (induction ops arbitrary: w r)
  case Nil
  then show ?case by (auto simp: same_run_def)
next
  case (Cons op ops)
  from Cons.prems(3) obtain found w1 where step: "perform S (run_thread_id r) (run_id r) op w = (Inr found, w1)"
    and rest: "perform_all S (run_thread_id r) (run_id r) ops w1 = (Inr (), w')"
    by (auto simp: and_then_Inr simp del: perform.simps)
  have op: "op_wf op" and ops: "\<forall>op \<in> set ops. op_wf op"
    using Cons.prems(2) by auto
  obtain r1 where at: "run_at L (ent (w_cache w1)) r1" and same: "same_run r r1"
    and st: "run_state r1 = next_status op (run_state r)"
  proof (cases "op_allowed op (run_state r)")
    case True
    with live_cache.perform_live [OF assms(1-3) Cons.prems(1) op step] obtain now where
      "run_at L (ent (w_cache w1)) (op_change op now r)" by auto
    with that True show ?thesis
      by (simp add: op_change_state op_change_same next_status_def del: op_change.simps)
  next
    case False
    with live_cache.perform_live [OF assms(1-3) Cons.prems(1) op step] Cons.prems(1) that show ?thesis
      by (simp add: next_status_def same_run_def)
  qed
  from same rest have "perform_all S (run_thread_id r1) (run_id r1) ops w1 = (Inr (), w')"
    by (simp add: same_run_def)
  from Cons.IH [OF at ops this] st same same_run_trans show ?case
    by auto
qed

text \<open>
  The documented state machine: the transitions of the class's docstring, with the cancellation
  of a queued run of the comment in \<open>cancel_run\<close>; start, cancel and submit on a run that is in
  none of their states are refused and leave it. \<open>None\<close> is a call the documentation has no
  transition for.
\<close>

fun documented_step :: "run_op \<Rightarrow> run_status \<Rightarrow> run_status option" where
  "documented_step OpStart Queued = Some InProgress"
| "documented_step OpStart st = Some st"
| "documented_step (OpComplete u) InProgress = Some RunCompleted"
| "documented_step (OpComplete u) _ = None"
| "documented_step (OpFail e) InProgress = Some Failed"
| "documented_step (OpFail e) _ = None"
| "documented_step (OpRequireAction c) InProgress = Some RequiresAction"
| "documented_step (OpRequireAction c) _ = None"
| "documented_step OpSubmit RequiresAction = Some InProgress"
| "documented_step OpSubmit st = Some st"
| "documented_step OpCancel Queued = Some Cancelled"
| "documented_step OpCancel InProgress = Some Cancelled"
| "documented_step OpCancel RequiresAction = None"
| "documented_step OpCancel st = Some st"

fun documented :: "run_op list \<Rightarrow> run_status \<Rightarrow> run_status option" where
  "documented [] st = Some st"
| "documented (op # ops) st = (case documented_step op st of None \<Rightarrow> None | Some st' \<Rightarrow> documented ops st')"

lemma documented_step_next: "documented_step op st = Some st' \<Longrightarrow> st' = next_status op st"
  by (cases "(op, st)" rule: documented_step.cases) (auto simp: next_status_def)

lemma documented_fold: "documented ops st = Some st' \<Longrightarrow> fold next_status ops st = st'"
  by (induction ops arbitrary: st) (auto dest: documented_step_next split: option.splits)

text \<open>
  C7: From a stored run, any history of operations that the documented state machine has
  transitions for (queued, in progress, then completed, failed, cancelled or requires
  action, and back by submitting; a queued run can be cancelled) leaves the same run stored,
  in the status the documented machine reaches; start, cancel and submit on a run in no
  state of theirs are refused and leave it. The documented machine is a table of its own;
  what the documentation has no transition for (completing a settled run, cancelling one
  that requires action) is excluded. Assumed: a cache is configured that keeps its contract,
  nothing expires meanwhile and no call raises; the stored run is well-formed (its
  instructions and other optional values are not empty, dictionaries have distinct keys),
  and so are the usage and the error, which is not empty.
\<close>

theorem run_history_refines:
  assumes "live_cache L C ent ages matches" and "rs_cache S = Some C" and "rs_lib S = L"
    and "run_at L (ent (w_cache w)) r" and "\<forall>op \<in> set ops. op_wf op"
    and "documented ops (run_state r) = Some st"
    and "perform_all S (run_thread_id r) (run_id r) ops w = (Inr (), w')"
  shows "\<exists>r'. run_at L (ent (w_cache w')) r' \<and> same_run r r' \<and> run_state r' = st"
  using perform_all_folds [OF assms(1-5,7)] documented_fold [OF assms(6)] by simp

lemma ref_history:
  "perform_all ref_runs ''t1'' ''run_a'' [OpCancel] (run_world ref_run) =
     (Inr (), snd (perform_all ref_runs ''t1'' ''run_a'' [OpCancel] (run_world ref_run)))"
  by (rule fst_run) (simp only: perform_all.simps ret_def fst_conv
    and_then_run(1) [where m = "perform ref_runs ''t1'' ''run_a'' OpCancel" and w = "run_world ref_run", OF ref_cancel_run])

lemma run_history_refines_witness:
  "\<exists>r'. run_at ref_lib (ref_ent (w_cache (snd (perform_all ref_runs ''t1'' ''run_a'' [OpCancel] (run_world ref_run))))) r' \<and>
     run_state r' = Cancelled"
proof -
  have "run_thread_id ref_run = ''t1''" "run_id ref_run = ''run_a''" "run_state ref_run = Queued"
    by (simp_all add: ref_run_def)
  with run_history_refines [OF ref_live _ _ run_world_at [OF wf_ref_run], of ref_runs "[OpCancel]"]
    ref_history show ?thesis
    by (auto simp del: perform_all.simps)
qed

text \<open>The statuses in which the documented life of a run is over.\<close>

definition settled :: "run_status \<Rightarrow> bool" where
  "settled st \<longleftrightarrow> st \<in> {Cancelling, Cancelled, Failed, RunCompleted, Expired}"

fun guarded_op :: "run_op \<Rightarrow> bool" where
  "guarded_op OpStart = True"
| "guarded_op OpCancel = True"
| "guarded_op OpSubmit = True"
| "guarded_op _ = False"

text \<open>
  On a run that is cancelled, failed, completed, cancelling or expired, the client's
  operations start, cancel and submit change nothing, while complete, fail and
  require_action still overwrite its status.
\<close>

theorem settled_runs:
  assumes "live_cache L C ent ages matches" and "rs_cache S = Some C" and "rs_lib S = L"
    and "run_at L (ent (w_cache w)) r" and "op_wf op" and "settled (run_state r)"
    and "perform S (run_thread_id r) (run_id r) op w = (Inr found, w')"
  shows "if guarded_op op
    then found = Some r \<and> ent (w_cache w') = ent (w_cache w) \<and> w_db w' = w_db w
    else \<exists>r'. found = Some r' \<and> run_at L (ent (w_cache w')) r' \<and> run_state r' = op_target op"
proof -
  have "guarded_op op \<longleftrightarrow> \<not> op_allowed op (run_state r)"
    using assms(6) by (cases op) (auto simp: settled_def)
  with live_cache.perform_live [OF assms(1-5,7)] show ?thesis
    using op_change_state by auto
qed

definition ref_cancelled :: run where
  "ref_cancelled = ref_run\<lparr>run_state := Cancelled, run_cancelled_at := Some 1\<rparr>"

lemma wf_ref_cancelled: "wf_run ref_cancelled"
  using wf_ref_run by (simp add: ref_cancelled_def wf_run_def)

lemma ref_late_complete:
  "perform ref_runs ''t1'' ''run_a'' (OpComplete None) (run_world ref_cancelled) =
     (Inr (Some (op_change (OpComplete None) 1000000 ref_cancelled)),
      snd (perform ref_runs ''t1'' ''run_a'' (OpComplete None) (run_world ref_cancelled)))"
proof -
  have key: "run_cache_key (run_thread_id ref_cancelled) (run_id ref_cancelled) = run_cache_key ''t1'' ''run_a''"
    by (simp add: ref_cancelled_def ref_run_def)
  have "get_run ref_runs ''t1'' ''run_a'' (run_world ref_cancelled) =
      (Inr (Some ref_cancelled), run_world ref_cancelled)"
    by (simp add: run_world_def run_server_def get_run_def load_entity_def parse_row_def
      ref_eval ref_parse_run key wf_ref_cancelled wf_run_payload ref_world_def del: eval_rules ref_world_sel)
  then show ?thesis
    by (intro fst_run) (simp add: complete_run_def transition_def ref_set_run)
qed

lemma settled_runs_witness:
  "\<exists>r'. run_at ref_lib (ref_ent (w_cache (snd (perform ref_runs ''t1'' ''run_a'' (OpComplete None)
     (run_world ref_cancelled))))) r' \<and> run_state r' = RunCompleted \<and> settled (run_state ref_cancelled)"
proof -
  have ids: "run_thread_id ref_cancelled = ''t1''" "run_id ref_cancelled = ''run_a''"
    and "settled (run_state ref_cancelled)"
    by (simp_all add: ref_cancelled_def ref_run_def settled_def)
  with settled_runs [OF ref_live _ _ run_world_at [OF wf_ref_cancelled], of ref_runs "OpComplete None"]
    ref_late_complete show ?thesis
    by (simp del: op_change.simps perform.simps) blast
qed

section \<open>Creating and listing\<close>

lemma create_run_db:
  assumes "create_run S thread_id assistant_id model instructions tools metadata w = (Inr r, w')"
  shows "case rs_repo S of
      None \<Rightarrow> w_db w' = w_db w
    | Some R \<Rightarrow> rr_create R (run_id r) thread_id assistant_id ''queued'' model instructions
        (run_tools r) (run_metadata r) (w_db w) = (Inr (), w_db w')"
proof -
  have "w_db w2 = w_db w1" if "cache_run S r w1 = (Inr u, w2)" for w1 w2 u
    using that by (auto simp: cache_run_def io_inv dest!: on_cache_db split: option.splits)
  with assms show ?thesis
    by (auto simp: create_run_def Let_def io_inv dest!: on_db_Inr split: option.splits)
qed

text \<open>
  A run that create_run returned is queued, was recorded in the database, is the only
  new cache entry, and is what get_run returns.
\<close>

theorem created_run_read_back:
  assumes "live_cache L C ent ages matches" and "rs_cache S = Some C" and "rs_lib S = L"
    and "instructions \<noteq> Some []" and "list_all wf_dict (case tools of None \<Rightarrow> [] | Some ts \<Rightarrow> ts)"
    and "distinct_keys (case metadata of None \<Rightarrow> [] | Some m \<Rightarrow> m)"
    and "create_run S thread_id assistant_id model instructions tools metadata w = (Inr r, w1)"
    and "get_run S thread_id (run_id r) w1 = (Inr found, w2)"
  shows "found = Some r \<and> run_state r = Queued \<and> run_thread_id r = thread_id \<and>
    ent (w_cache w2) = (ent (w_cache w))(run_cache_key thread_id (run_id r) \<mapsto> dump_entry L (run_payload r)) \<and>
    (case rs_repo S of
       None \<Rightarrow> w_db w2 = w_db w
     | Some R \<Rightarrow> rr_create R (run_id r) thread_id assistant_id ''queued'' model instructions
         (run_tools r) (run_metadata r) (w_db w) = (Inr (), w_db w2))"
proof -
  note made = live_cache.create_run_live [OF assms(1-3,7)]
  have at: "run_at L (ent (w_cache w1)) r"
    using made(1) made(4) [OF assms(4-6)] by (simp add: run_at_def)
  have "get_run S (run_thread_id r) (run_id r) w1 = (Inr found, w2)"
    using assms(8) made(3) by simp
  note got = live_cache.get_run_live [OF assms(1-3) at this]
  have "ent (w_cache w2) =
      (ent (w_cache w))(run_cache_key thread_id (run_id r) \<mapsto> dump_entry L (run_payload r))"
    unfolding got(2) made(1) made(3) ..
  with create_run_db [OF assms(7)] got(1,3) made(2,3) show ?thesis
    by (simp split: option.splits)
qed

definition ref_new_run :: run where
  "ref_new_run = \<lparr>run_id = ''run_a'', run_thread_id = ''t1'', run_assistant_id = ''asst_1'', run_created_at = 1,
     run_state = Queued, run_model = ''m'', run_instructions = None, run_tools = [],
     run_metadata = [(''k'', ''v'')], run_required_action = None, run_last_error = None,
     run_usage = None, run_started_at = None, run_expires_at = None, run_cancelled_at = None,
     run_failed_at = None, run_completed_at = None\<rparr>"

definition ref_new_world :: "(server redis_world, unit) world" where
  "ref_new_world =
     snd (create_run ref_runs ''t1'' ''asst_1'' ''m'' None None (Some [(''k'', ''v'')]) (ref_world ()))"

lemma ref_new_run_made:
  "create_run ref_runs ''t1'' ''asst_1'' ''m'' None None (Some [(''k'', ''v'')]) (ref_world ()) =
     (Inr ref_new_run, ref_new_world)"
  unfolding ref_new_world_def
  by (rule fst_run) (simp add: create_run_def cache_run_def on_cache_def ref_json_ok ref_new_run_def
      unix_seconds_def trunc_div_def ref_tokens_def Let_def)

lemma wf_ref_new_run: "wf_run ref_new_run"
  by (simp add: wf_run_def ref_new_run_def distinct_keys_def)

lemma ref_new_run_stored:
  "ref_ent (w_cache ref_new_world) (run_cache_key ''t1'' ''run_a'') =
     Some (dump_entry ref_lib (run_payload ref_new_run))"
  using live_cache.create_run_live(1) [OF ref_live _ _ ref_new_run_made]
  by (simp add: ref_new_run_def)

lemma ref_load_run:
  assumes "run_at ref_lib (ref_ent (w_cache w)) r"
  shows "get_run ref_runs (run_thread_id r) (run_id r) w = (Inr (Some r), w)"
proof -
  have json: "stored_json ref_lib (Some (dump_entry ref_lib (run_payload r))) = JObj (run_payload r)"
    using assms by (intro steady.stored_json_dump) (simp add: run_at_def wf_run_payload)
  have "w\<lparr>w_cache := w_cache w\<rparr> = w" by simp
  with assms json show ?thesis
    by (simp add: get_run_def load_entity_def on_cache_def ref_get_json_ok run_at_def parse_row_def
      ref_parse_run dump_entry_def)
qed

lemma created_run_read_back_witness:
  "ref_ent (w_cache ref_new_world) =
     (ref_ent (w_cache (ref_world ())))(run_cache_key ''t1'' ''run_a'' \<mapsto>
        dump_entry ref_lib (run_payload ref_new_run))"
proof -
  have ids: "run_thread_id ref_new_run = ''t1''" "run_id ref_new_run = ''run_a''"
    by (simp_all add: ref_new_run_def)
  have "run_at ref_lib (ref_ent (w_cache ref_new_world)) ref_new_run"
    by (simp add: run_at_def wf_ref_new_run ids ref_new_run_stored)
  from ref_load_run [OF this] have got: "get_run ref_runs ''t1'' (run_id ref_new_run) ref_new_world =
      (Inr (Some ref_new_run), ref_new_world)"
    by (simp add: ids)
  from created_run_read_back [OF ref_live _ _ _ _ _ ref_new_run_made got] show ?thesis
    by (simp add: ids distinct_keys_def)
qed

text \<open>The key of a run, and the pattern of its thread.\<close>

lemma run_key_prefix: "run_cache_key t i = (''run:'' @ t @ '':'') @ i"
  by (simp add: run_cache_key_def)

context live_cache
begin

lemma list_runs_live:
  assumes run: "list_entities C (parse_cached_run L) (\<lambda>_. True) run_id run_created_at
      (''run:'' @ t @ '':*'') limit order s = (Inr page, s')"
    and lit: "glob_literal t"
    and objs: "\<And>i. ent s (run_cache_key t i) \<noteq> None \<Longrightarrow>
      \<exists>r. wf_run r \<and> ent s (run_cache_key t i) = Some (dump_entry L (run_payload r))"
  shows "ent s' = ent s"
    and "r \<in> set (lr_data page) \<Longrightarrow>
      wf_run r \<and> (\<exists>i. ent s (run_cache_key t i) = Some (dump_entry L (run_payload r)))"
    and "c_scan_keys C (''run:'' @ t @ '':*'') 1000 s = (Inr keys, s1) \<Longrightarrow> int (length keys) < 1000 \<Longrightarrow>
      0 \<le> limit \<Longrightarrow> \<not> lr_has_more page \<Longrightarrow> wf_run r \<Longrightarrow>
      ent s (run_cache_key t i) = Some (dump_entry L (run_payload r)) \<Longrightarrow> r \<in> set (lr_data page)"
proof -
  have key: "matches (''run:'' @ t @ '':*'') k \<longleftrightarrow> (\<exists>i. k = run_cache_key t i)" for k
  proof -
    have "matches ((''run:'' @ t @ '':'') @ ''*'') k \<longleftrightarrow> prefix (''run:'' @ t @ '':'') k"
      using lit by (intro matches_prefix) (simp add: glob_literal_def)
    then show ?thesis
      by (auto simp: run_key_prefix prefix_def)
  qed
  have stored: "\<exists>r. wf_run r \<and> ent s k = Some (dump_entry L (run_payload r))"
    if "ent s k \<noteq> None" and "matches (''run:'' @ t @ '':*'') k" for k
    using that key objs by metis
  show "ent s' = ent s"
    using run_store.live_list(1) [OF run] stored by blast
  show "wf_run r \<and> (\<exists>i. ent s (run_cache_key t i) = Some (dump_entry L (run_payload r)))"
    if "r \<in> set (lr_data page)"
  proof -
    have "wf_run r \<and> (\<exists>k. matches (''run:'' @ t @ '':*'') k \<and> ent s k = Some (dump_entry L (run_payload r)))"
      using run_store.live_list(2) [OF run _ that] stored by blast
    then show ?thesis unfolding key by blast
  qed
  show "r \<in> set (lr_data page)" if "c_scan_keys C (''run:'' @ t @ '':*'') 1000 s = (Inr keys, s1)"
    "int (length keys) < 1000" "0 \<le> limit" "\<not> lr_has_more page" "wf_run r"
    "ent s (run_cache_key t i) = Some (dump_entry L (run_payload r))"
  proof (rule run_store.live_list(3) [OF run _ that(1-4) TrueI that(5) _ that(6)])
    show "matches (''run:'' @ t @ '':*'') (run_cache_key t i)"
      using key by blast
    show "\<exists>r. wf_run r \<and> ent s k = Some (dump_entry L (run_payload r))"
      if "ent s k \<noteq> None" and "matches (''run:'' @ t @ '':*'') k" for k
      using that by (rule stored)
  qed
qed

end

text \<open>
  List_runs returns only stored runs of the thread, in the order asked for and within
  the limit, and all of them when the scan saw all keys and there are no more pages.
\<close>

theorem list_runs_page:
  assumes "live_cache L C ent ages matches" and "rs_cache S = Some C" and "rs_lib S = L"
    and "glob_literal thread_id"
    and "\<forall>i. ent (w_cache w) (run_cache_key thread_id i) \<noteq> None \<longrightarrow>
      (\<exists>r. wf_run r \<and> ent (w_cache w) (run_cache_key thread_id i) = Some (dump_entry L (run_payload r)))"
    and "list_runs S thread_id limit order w = (Inr page, w')"
  shows "ent (w_cache w') = ent (w_cache w) \<and>
    (\<forall>r \<in> set (lr_data page). wf_run r \<and>
      (\<exists>i. ent (w_cache w) (run_cache_key thread_id i) = Some (dump_entry L (run_payload r)))) \<and>
    sorted_wrt (\<lambda>r r'. if order = ''desc'' then run_created_at r' \<le> run_created_at r
      else run_created_at r \<le> run_created_at r') (lr_data page) \<and>
    (0 \<le> limit \<longrightarrow> int (length (lr_data page)) \<le> limit) \<and>
    (\<exists>keys s1. c_scan_keys C (''run:'' @ thread_id @ '':*'') 1000 (w_cache w) = (Inr keys, s1) \<and>
      (int (length keys) < 1000 \<and> 0 \<le> limit \<and> \<not> lr_has_more page \<longrightarrow>
        (\<forall>r i. wf_run r \<and> ent (w_cache w) (run_cache_key thread_id i) = Some (dump_entry L (run_payload r)) \<longrightarrow>
          r \<in> set (lr_data page))))"
proof -
  from assms(2,3,6) have run: "list_entities C (parse_cached_run L) (\<lambda>_. True) run_id run_created_at
      (''run:'' @ thread_id @ '':*'') limit order (w_cache w) = (Inr page, w_cache w')"
    by (auto simp: list_runs_def dest!: on_cache_Inr)
  have objs: "\<exists>r. wf_run r \<and>
      ent (w_cache w) (run_cache_key thread_id i) = Some (dump_entry L (run_payload r))"
    if "ent (w_cache w) (run_cache_key thread_id i) \<noteq> None" for i
    using assms(5) that by blast
  note listed = live_cache.list_runs_live [OF assms(1) run assms(4) objs]
  have "\<exists>keys s1. c_scan_keys C (''run:'' @ thread_id @ '':*'') 1000 (w_cache w) = (Inr keys, s1)"
    using run by (cases rule: list_entities_Inr) auto
  with listed list_entities_shape [OF run] show ?thesis
    by blast
qed

text \<open>A listing of the run in the concrete world.\<close>

lemma ref_list_runs:
  "list_runs ref_runs ''t1'' 20 ''desc'' (run_world ref_run) =
     (Inr (page_of run_id run_created_at 20 ''desc'' [ref_run]),
      snd (list_runs ref_runs ''t1'' 20 ''desc'' (run_world ref_run)))"
proof -
  have key: "run_cache_key (run_thread_id ref_run) (run_id ref_run) = ''run:t1:run_a''"
    by (simp add: ref_run_def run_cache_key_def)
  show ?thesis
    by (rule fst_run) (simp add: list_runs_def list_entities_def rc_scan_keys_def rc_get_many_json_def
      mget_row_def sv_scan_def sv_mget_def live_keys_def py_slice_prefix parse_row_def key
      run_world_def run_server_def ref_eval ref_parse_run wf_ref_run wf_run_payload
      del: eval_rules)
qed

lemma ref_run_cells:
  "ref_ent (w_cache (run_world ref_run)) k =
     (if k = ''run:t1:run_a'' then Some (dump_entry ref_lib (run_payload ref_run)) else None)"
  by (simp add: run_world_def run_server_def ref_ent_def server_ent_def look_def not_due_def
      dump_entry_def ref_run_def run_cache_key_def)

lemma list_runs_page_witness:
  "sorted_wrt (\<lambda>r r'. run_created_at r' \<le> run_created_at r)
     (lr_data (page_of run_id run_created_at 20 ''desc'' [ref_run])) \<and>
   (\<exists>i. ref_ent (w_cache (run_world ref_run)) (run_cache_key ''t1'' i) =
     Some (dump_entry ref_lib (run_payload ref_run)))"
proof -
  have "glob_literal ''t1''"
    by (simp add: glob_literal_def)
  moreover have "\<forall>i. ref_ent (w_cache (run_world ref_run)) (run_cache_key ''t1'' i) \<noteq> None \<longrightarrow>
      (\<exists>r. wf_run r \<and> ref_ent (w_cache (run_world ref_run)) (run_cache_key ''t1'' i) =
        Some (dump_entry ref_lib (run_payload r)))"
    using wf_ref_run by (auto simp: ref_run_cells)
  ultimately show ?thesis
    using list_runs_page [OF ref_live _ _ _ _ ref_list_runs]
    by (simp add: page_of_data py_slice_prefix sort_desc_def)
qed

end
