(* ===== verification/ExecutorProperties.thy ===== *)
theory ExecutorProperties
  imports RunProperties
begin

text \<open>
  What an execution of a run leaves behind: the run is stored in the status that the result
  calls for, whatever the SDK does to it; and the text of the streamed events.
\<close>

section \<open>A concrete executor\<close>

definition ref_asst :: assistant where
  "ref_asst = \<lparr>a_id = ''asst_1'', a_model = ''m'', a_created_at = 0, a_updated_at = 0, a_name = Some ''n'',
     a_description = None, a_instructions = None, a_tools = [], a_metadata = [],
     a_owner_api_key_hash = None, a_temperature = None, a_top_p = None, a_response_format = None\<rparr>"

definition ref_assistants :: "(server redis_world, unit) assistant_service" where
  "ref_assistants = \<lparr>as_lib = ref_lib, as_cache = Some (ref_cache 0), as_repo = None, as_ttl = 3600\<rparr>"

definition ref_messages :: "server redis_world message_service" where
  "ref_messages = \<lparr>ms_lib = ref_lib, ms_cache = Some (ref_cache 0), ms_ttl = 3600\<rparr>"

definition ref_answer :: execution_result where
  "ref_answer = \<lparr>er_response_text = Some ''hi'', er_tool_calls = [],
     er_usage = Some [(''total_tokens'', JInt 7)]\<rparr>"

definition ref_executor :: "(server redis_world, unit) run_executor" where
  "ref_executor = \<lparr>ex_runs = ref_runs, ex_messages = ref_messages, ex_assistants = ref_assistants,
     ex_sdk = (\<lambda>t r a outs. ret ref_answer), ex_stream = stream_with_sdk, ex_text = (\<lambda>e. ''error'')\<rparr>"

definition exec_world :: "run \<Rightarrow> (server redis_world, unit) world" where
  "exec_world r = (run_world r)\<lparr>w_cache :=
     ref_put (assistant_cache_key ''asst_1'') (assistant_payload ref_lib ref_asst) 3600 (w_cache (run_world r))\<rparr>"

lemma ref_executor_sel [simp]:
  "ex_runs ref_executor = ref_runs" "ex_messages ref_executor = ref_messages"
  "ex_assistants ref_executor = ref_assistants" "ex_sdk ref_executor = (\<lambda>t r a outs. ret ref_answer)"
  "as_lib ref_assistants = ref_lib" "as_cache ref_assistants = Some (ref_cache 0)"
  "as_repo ref_assistants = None" "as_ttl ref_assistants = 3600"
  "ms_lib ref_messages = ref_lib" "ms_cache ref_messages = Some (ref_cache 0)" "ms_ttl ref_messages = 3600"
  by (simp_all add: ref_executor_def ref_assistants_def ref_messages_def)

lemma ref_wired: "wired ref_lib (ref_cache 0) ref_executor"
  by (simp add: wired_def)

lemma ref_fair: "sdk_fair ref_ent ref_executor t i"
  by (simp add: sdk_fair_def keeps_intros) (simp add: ref_answer_def usage_of_def dict_get_or_def)

lemma exec_world_at:
  assumes "wf_run r"
  shows "run_at ref_lib (ref_ent (w_cache (exec_world r))) r"
  using run_world_at [OF assms] by (simp add: run_at_def exec_world_def ref_json_ok)

lemma wf_ref_asst: "wf_dict (assistant_payload ref_lib ref_asst)"
  by (simp add: assistant_payload_def ref_asst_def strings_obj_def)

lemma parse_ref_asst:
  "parse_cached_assistant ref_lib (JObj (assistant_payload ref_lib ref_asst)) = Inr (Some ref_asst)"
  by (simp add: parse_cached_assistant_def assistant_of_dict_def assistant_payload_def ref_asst_def
      dict_read_defs iso_datetime_def float_field_def truthy_str_def dict_list_field_def
      string_dict_field_def pylib_laws.fromisoformat_isoformat [OF ref_lib.pylib_laws_axioms])

lemma assistant_payload_nonempty [simp]: "assistant_payload L a \<noteq> []"
  by (simp add: assistant_payload_def)

lemma ref_run_sel [simp]:
  "run_thread_id ref_run = ''t1''" "run_id ref_run = ''run_a''" "run_state ref_run = Queued"
  "run_assistant_id ref_run = ''asst_1''"
  by (simp_all add: ref_run_def)

text \<open>Every operation that the status allows returns, on that server.\<close>

lemma ref_perform:
  assumes "run_at ref_lib (ref_ent (w_cache w)) r" and "op_allowed op (run_state r)" and "op_wf op"
  shows "\<exists>now w'. perform ref_runs (run_thread_id r) (run_id r) op w = (Inr (Some (op_change op now r)), w') \<and>
    ref_ent (w_cache w') = (ref_ent (w_cache w))(run_cache_key (run_thread_id r) (run_id r) \<mapsto>
      dump_entry ref_lib (run_payload (op_change op now r))) \<and>
    run_at ref_lib (ref_ent (w_cache w')) (op_change op now r)"
proof -
  obtain now v where eff: "op_effect op w = (Inr (op_change op now), v)"
    and v: "w_cache v = w_cache w"
    using op_effect_run by blast
  from ref_load_run [OF assms(1)] eff
  have run: "perform ref_runs (run_thread_id r) (run_id r) op w =
      (Inr (Some (op_change op now r)), ref_stored (op_change op now r) v)"
    using assms(2) by (simp add: perform_transition transition_def ref_set_run del: perform.simps)
  from live_cache.perform_live [OF ref_live _ _ assms(1,3) run] assms(2)
  show ?thesis
    using run by (auto simp del: op_change.simps perform.simps)
qed

abbreviation asst_at :: "(server redis_world, unit) world \<Rightarrow> bool" where
  "asst_at w \<equiv> ref_ent (w_cache w) (assistant_cache_key ''asst_1'') =
     Some (dump_entry ref_lib (assistant_payload ref_lib ref_asst))"

lemma ref_with_sdk:
  assumes "run_at ref_lib (ref_ent (w_cache w)) r" and "run_assistant_id r = ''asst_1''" and "asst_at w"
  shows "\<exists>w'. run_with_sdk ref_executor (run_thread_id r) (run_id r) r outs w = (Inr (Some ref_answer), w')"
proof -
  define op where "op = OpComplete (map_option usage_of (nonempty_dict (er_usage ref_answer)))"
  have "stored_json ref_lib (Some (dump_entry ref_lib (assistant_payload ref_lib ref_asst))) =
      JObj (assistant_payload ref_lib ref_asst)"
    by (rule steady.stored_json_dump [OF wf_ref_asst])
  then have got: "get_assistant ref_assistants ''asst_1'' None w = (Inr (Some ref_asst), w)"
    using assms(3)
    by (simp add: get_assistant_def get_cached_assistant_def load_entity_def on_cache_def
      ref_get_json_ok parse_row_def parse_ref_asst enforce_assistant_owner_def dump_entry_def)
  obtain w2 where said: "say_response ref_executor (run_thread_id r) (run_id r) ref_asst ref_answer w = (Inr (), w2)"
    and "\<And>k. (\<forall>i. k \<noteq> message_cache_key (run_thread_id r) i) \<Longrightarrow> ref_ent (w_cache w2) k = ref_ent (w_cache w) k"
    by (fastforce simp: say_response_def create_message_def cache_message_def on_cache_def Let_def
      ref_answer_def ref_set_json_ok)
  then have "run_at ref_lib (ref_ent (w_cache w2)) r"
    using assms(1) by (simp add: run_at_def)
  moreover have "op_wf op"
    by (simp add: op_def ref_answer_def nonempty_dict_def usage_of_def dict_get_or_def)
  ultimately obtain f w3 where "complete_run ref_runs (run_thread_id r) (run_id r)
      (map_option usage_of (nonempty_dict (er_usage ref_answer))) w2 = (Inr f, w3)"
    using ref_perform [of w2 r op] by (auto simp: op_def simp del: op_change.simps)
  moreover have "er_tool_calls ref_answer = []"
    by (simp add: ref_answer_def)
  ultimately show ?thesis
    using got said by (simp add: run_with_sdk_def finish_run_def assms(2))
qed

text \<open>Resuming a run by an operation and handing it to the SDK.\<close>

lemma ref_resumed:
  assumes "run_at ref_lib (ref_ent (w_cache w)) r" and "op_allowed op (run_state r)" and "op_wf op"
    and "run_assistant_id r = ''asst_1''" and "asst_at w"
  shows "\<exists>r1 w1 w'. perform ref_runs (run_thread_id r) (run_id r) op w = (Inr (Some r1), w1) \<and>
    run_with_sdk ref_executor (run_thread_id r) (run_id r) r1 outs w1 = (Inr (Some ref_answer), w')"
proof -
  obtain now w1 where step: "perform ref_runs (run_thread_id r) (run_id r) op w =
      (Inr (Some (op_change op now r)), w1)"
    and ent: "ref_ent (w_cache w1) = (ref_ent (w_cache w))(run_cache_key (run_thread_id r) (run_id r) \<mapsto>
      dump_entry ref_lib (run_payload (op_change op now r)))"
    and at: "run_at ref_lib (ref_ent (w_cache w1)) (op_change op now r)"
    using ref_perform [OF assms(1-3)] by blast
  have ids: "run_thread_id (op_change op now r) = run_thread_id r"
    "run_id (op_change op now r) = run_id r" "run_assistant_id (op_change op now r) = ''asst_1''"
    using op_change_same [of r op now] assms(4) by (simp_all add: same_run_def)
  have "asst_at w1"
    using ent assms(5) run_key_other(2) [symmetric] by simp
  from ref_with_sdk [OF at ids(3) this] step show ?thesis
    unfolding ids by blast
qed

lemma ref_execution:
  assumes "run_at ref_lib (ref_ent (w_cache w)) r" and "run_state r = Queued"
    and "run_assistant_id r = ''asst_1''" and "asst_at w"
  shows "\<exists>w'. execute_run ref_executor (run_thread_id r) (run_id r) w = (Inr (Some ref_answer), w')"
  using ref_resumed [OF assms(1) _ _ assms(3,4), of OpStart None] assms(2)
  by (auto simp: execute_run_def)

lemma ref_submission:
  assumes "run_at ref_lib (ref_ent (w_cache w)) r" and "run_state r = RequiresAction"
    and "run_assistant_id r = ''asst_1''" and "asst_at w"
  shows "\<exists>w'. executor_submit_tool_outputs ref_executor (run_thread_id r) (run_id r) outs w =
    (Inr (Some ref_answer), w')"
  using ref_resumed [OF assms(1) _ _ assms(3,4), of OpSubmit "Some outs"] assms(2)
  by (auto simp: executor_submit_tool_outputs_def)

section \<open>Executing\<close>

text \<open>
  C8: Executing a queued stored run, when it returns, leaves the same run stored: failed
  without a result, requires_action with tool calls, completed otherwise, whatever the
  assistant lookup and the message write do and whether the SDK answers or raises. Assumed
  of the SDK: it leaves the entry of the run in the cache to the run service, and the usage
  it reports is a JSON value; of the rest: the services share one cache that keeps its
  contract, nothing expires meanwhile, and a call of the cache that fails leaves other
  entries alone.
\<close>

theorem execute_run_settles:
  assumes "steady_cache L C ent ages matches" and "wired L C X"
    and "sdk_fair ent X (run_thread_id r) (run_id r)" and "run_at L (ent (w_cache w)) r"
    and "run_state r = Queued"
    and "execute_run X (run_thread_id r) (run_id r) w = (Inr res, w')"
  shows "\<exists>r'. run_at L (ent (w_cache w')) r' \<and> same_run r r' \<and> run_state r' =
    (case res of None \<Rightarrow> Failed | Some x \<Rightarrow> if er_tool_calls x \<noteq> [] then RequiresAction else RunCompleted)"
  using steady_cache.execute_run_outcome [OF assms(1-4,6)] by (simp add: outcome_status_def split: option.split)

lemma exec_world_asst:
  "ref_ent (w_cache (exec_world r)) (assistant_cache_key ''asst_1'') =
     Some (dump_entry ref_lib (assistant_payload ref_lib ref_asst))"
  by (simp add: exec_world_def ref_set_json_ok)

lemma execute_run_settles_witness:
  "\<exists>w' r'. execute_run ref_executor ''t1'' ''run_a'' (exec_world ref_run) = (Inr (Some ref_answer), w') \<and>
     run_at ref_lib (ref_ent (w_cache w')) r' \<and> same_run ref_run r' \<and> run_state r' = RunCompleted"
proof -
  note at = exec_world_at [OF wf_ref_run]
  from ref_execution [OF at _ _ exec_world_asst] obtain w' where
    run: "execute_run ref_executor (run_thread_id ref_run) (run_id ref_run) (exec_world ref_run) =
      (Inr (Some ref_answer), w')"
    by auto
  from execute_run_settles [OF ref_steady ref_wired ref_fair at ref_run_sel(3) run] run show ?thesis
    by (auto simp: ref_answer_def)
qed

context steady_cache
begin

lemma submit_outputs_outcome:
  assumes wired: "wired L C X" and fair: "sdk_fair ent X (run_thread_id r) (run_id r)"
    and at: "run_at L (ent (w_cache w)) r"
    and run: "executor_submit_tool_outputs X (run_thread_id r) (run_id r) outs w = (Inr res, w')"
  shows "\<exists>r'. run_at L (ent (w_cache w')) r' \<and> same_run r r' \<and> run_state r' = outcome_status res"
proof -
  have cache: "rs_cache (ex_runs X) = Some C" "rs_lib (ex_runs X) = L"
    using wired by (simp_all add: wired_def)
  obtain y w1 where step: "perform (ex_runs X) (run_thread_id r) (run_id r) OpSubmit w = (y, w1)"
    by force
  have kept: "run_kept L r (ent (w_cache w1))"
    by (rule perform_kept [OF cache _ _ step]) (auto intro: run_keptI [OF at])
  from run step obtain found where y: "y = Inr found"
    by (cases y) (simp_all add: executor_submit_tool_outputs_def)
  with perform_live [OF cache at _ step [unfolded y]] obtain r1 where "found = Some r1"
    by (auto split: if_splits)
  with run step y have "run_with_sdk X (run_thread_id r) (run_id r) r1 (Some outs) w1 = (Inr res, w')"
    by (simp add: executor_submit_tool_outputs_def)
  from run_with_sdk_outcome [OF wired fair kept this] show ?thesis .
qed

end

text \<open>
  Submitting tool outputs and continuing leaves the same run stored in the status its
  result calls for, as an execution does.
\<close>

theorem submit_outputs_settles:
  assumes "steady_cache L C ent ages matches" and "wired L C X"
    and "sdk_fair ent X (run_thread_id r) (run_id r)" and "run_at L (ent (w_cache w)) r"
    and "executor_submit_tool_outputs X (run_thread_id r) (run_id r) tool_outputs w = (Inr res, w')"
  shows "\<exists>r'. run_at L (ent (w_cache w')) r' \<and> same_run r r' \<and> run_state r' = outcome_status res"
  by (rule steady_cache.submit_outputs_outcome [OF assms])

definition ref_waiting :: run where
  "ref_waiting = ref_run\<lparr>run_state := RequiresAction, run_required_action := Some (required_action_of [])\<rparr>"

lemma wf_ref_waiting: "wf_run ref_waiting"
  using wf_ref_run wf_required_action required_action_nonempty
  by (simp add: ref_waiting_def wf_run_def)

lemma submit_outputs_settles_witness:
  "\<exists>w' r'. executor_submit_tool_outputs ref_executor ''t1'' ''run_a'' [] (exec_world ref_waiting) =
       (Inr (Some ref_answer), w') \<and>
     run_at ref_lib (ref_ent (w_cache w')) r' \<and> same_run ref_waiting r' \<and> run_state r' = RunCompleted"
proof -
  have ids: "run_thread_id ref_waiting = ''t1''" "run_id ref_waiting = ''run_a''"
    "run_state ref_waiting = RequiresAction" "run_assistant_id ref_waiting = ''asst_1''"
    by (simp_all add: ref_waiting_def)
  note at = exec_world_at [OF wf_ref_waiting]
  from ref_submission [OF at ids(3,4) exec_world_asst] obtain w' where
    run: "executor_submit_tool_outputs ref_executor (run_thread_id ref_waiting) (run_id ref_waiting) []
      (exec_world ref_waiting) = (Inr (Some ref_answer), w')"
    by blast
  from submit_outputs_settles [OF ref_steady ref_wired ref_fair at run] run show ?thesis
    by (auto simp: outcome_status_def ref_answer_def ids)
qed

section \<open>The SDK methods as they stand\<close>

lemma fail_run_None:
  "and_then (fail_run S t i e) (\<lambda>_. ret None) w = (Inr res, w') \<Longrightarrow> res = None"
  by (auto simp: and_then_Inr)

text \<open>
  With the SDK method as it stands in the source, which only raises
  NotImplementedError, every execution of a stored run that returns has no result and leaves
  the run failed.
\<close>

theorem unfinished_sdk_fails_runs:
  assumes "steady_cache L C ent ages matches" and "wired L C X"
    and "ex_sdk X = execute_with_sdk (ex_messages X)"
    and "sdk_fair ent X (run_thread_id r) (run_id r)" and "run_at L (ent (w_cache w)) r"
    and "execute_run X (run_thread_id r) (run_id r) w = (Inr res, w')"
  shows "res = None \<and> (\<exists>r'. run_at L (ent (w_cache w')) r' \<and> same_run r r' \<and> run_state r' = Failed)"
proof -
  have raises: "\<exists>e v. ex_sdk X t r0 a outs u = (Inl e, v)" for t r0 a outs u
    by (cases "get_thread_messages (ex_messages X) t u"; cases "fst (get_thread_messages (ex_messages X) t u)")
       (simp_all add: assms(3) execute_with_sdk_def)
  have none: "res = None" if "run_with_sdk X t i r0 outs u = (Inr res, w')" for t i r0 outs u
  proof -
    from that obtain found u1 where rest: "(case found of
         None \<Rightarrow> and_then (fail_run (ex_runs X) t i
             (error_dict ''assistant_not_found'' ''Assistant not found'')) (\<lambda>_. ret None)
       | Some a \<Rightarrow> try_except (and_then (ex_sdk X t r0 a outs) (finish_run X t i a))
             (\<lambda>e. if is_exception e
                  then and_then (fail_run (ex_runs X) t i
                         (error_dict ''execution_error'' (ex_text X e))) (\<lambda>_. ret None)
                  else throw e)) u1 = (Inr res, w')"
      unfolding run_with_sdk_def and_then_Inr by blast
    show ?thesis
    proof (cases found)
      case None
      with rest show ?thesis by (auto dest: fail_run_None)
    next
      case (Some a)
      obtain e v where "ex_sdk X t r0 a outs u1 = (Inl e, v)"
        using raises by blast
      with rest Some show ?thesis
        by (cases "is_exception e") (auto dest: fail_run_None)
    qed
  qed
  from assms(6) have "res = None"
    by (auto simp: execute_run_def and_then_Inr dest: none split: option.splits)
  with steady_cache.execute_run_outcome [OF assms(1,2,4-6)] show ?thesis
    by (simp add: outcome_status_def)
qed

definition ref_stub :: "(server redis_world, unit) run_executor" where
  "ref_stub = ref_executor\<lparr>ex_sdk := execute_with_sdk ref_messages\<rparr>"

lemma ref_reads_same:
  "c_scan_keys (ref_cache 0) p n s = (r, s') \<Longrightarrow> ref_ent s' = ref_ent s"
  "c_get_many_json (ref_cache 0) ks s = (q, s') \<Longrightarrow> ref_ent s' = ref_ent s"
  by (auto simp: ref_cache_def ref_ent_def rc_scan_keys_def rc_get_many_json_def on_server_def
      ref_redis_def command_def sv_scan_def sv_mget_def tick_def io_operator_defs
      split: if_splits sum.splits prod.splits)

lemma ref_stub_fair: "sdk_fair ref_ent ref_stub t i"
proof -
  have list: "keeps (\<lambda>s. ref_ent s (run_cache_key t i))
      (on_cache (list_entities (ref_cache 0) parse keep ident created p l ord))"
    for parse :: "json \<Rightarrow> exn + message option" and keep ident created p l ord
    unfolding list_entities_def on_cache_parts
    by (intro keeps_intros keeps_on_cache) (auto dest: ref_reads_same)
  have "keeps (\<lambda>s. ref_ent s (run_cache_key t i)) (execute_with_sdk ref_messages th r a outs
      :: ((server redis_world, unit) world, execution_result) io)"
    for th r a outs
    unfolding execute_with_sdk_def get_thread_messages_def list_messages_def ref_executor_sel
    by (simp add: keeps_intros list)
  moreover have "execute_with_sdk ref_messages th r a outs w \<noteq> (Inr x, v)"
    for th r a outs x and w v :: "(server redis_world, unit) world"
    by (simp add: execute_with_sdk_def and_then_Inr)
  ultimately show ?thesis
    unfolding sdk_fair_def ref_stub_def by simp
qed

lemma ref_stub_run:
  assumes "run_at ref_lib (ref_ent (w_cache w)) r" and "run_state r = Queued"
    and "ref_ent (w_cache w) (assistant_cache_key (run_assistant_id r)) = None"
  shows "\<exists>w'. execute_run ref_stub (run_thread_id r) (run_id r) w = (Inr None, w')"
proof -
  obtain now w1 where step: "perform ref_runs (run_thread_id r) (run_id r) OpStart w =
      (Inr (Some (op_change OpStart now r)), w1)"
    and ent: "ref_ent (w_cache w1) = (ref_ent (w_cache w))(run_cache_key (run_thread_id r) (run_id r) \<mapsto>
      dump_entry ref_lib (run_payload (op_change OpStart now r)))"
    and at: "run_at ref_lib (ref_ent (w_cache w1)) (op_change OpStart now r)"
    using ref_perform [OF assms(1), of OpStart] assms(2) by (auto simp del: op_change.simps)
  have "ref_ent (w_cache w1) (assistant_cache_key (run_assistant_id r)) = None"
    using ent assms(3) run_key_other(2) [symmetric] by simp
  then have got: "get_assistant ref_assistants (run_assistant_id r) None w1 = (Inr None, w1)"
    by (simp add: get_assistant_def get_cached_assistant_def load_entity_def on_cache_def
      ref_get_json_ok parse_row_def)
  have wf: "op_wf (OpFail (error_dict c t))" for c t
    by (simp add: error_dict_def)
  have ids: "run_thread_id (op_change OpStart now r) = run_thread_id r" "run_id (op_change OpStart now r) = run_id r"
    by simp_all
  obtain f w2 where "fail_run ref_runs (run_thread_id r) (run_id r)
      (error_dict ''assistant_not_found'' ''Assistant not found'') w1 = (Inr f, w2)"
    using ref_perform [OF at _ wf [of "''assistant_not_found''" "''Assistant not found''"]]
    unfolding ids perform.simps op_allowed.simps by blast
  with step got show ?thesis
    by (auto simp: execute_run_def run_with_sdk_def ref_stub_def)
qed

lemma unfinished_sdk_fails_runs_witness:
  "\<exists>w' r'. execute_run ref_stub ''t1'' ''run_a'' (run_world ref_run) = (Inr None, w') \<and>
     run_at ref_lib (ref_ent (w_cache w')) r' \<and> same_run ref_run r' \<and> run_state r' = Failed"
proof -
  note at = run_world_at [OF wf_ref_run]
  have "ref_ent (w_cache (run_world ref_run)) (assistant_cache_key (run_assistant_id ref_run)) = None"
    by (simp add: ref_run_cells assistant_cache_key_def)
  from ref_stub_run [OF at _ this] obtain w' where
    run: "execute_run ref_stub (run_thread_id ref_run) (run_id ref_run) (run_world ref_run) = (Inr None, w')"
    by auto
  have "wired ref_lib (ref_cache 0) ref_stub" "ex_sdk ref_stub = execute_with_sdk (ex_messages ref_stub)"
    using ref_wired by (simp_all add: ref_stub_def wired_def)
  from unfinished_sdk_fails_runs [OF ref_steady this ref_stub_fair at run] run show ?thesis
    by auto
qed

section \<open>The events\<close>

text \<open>The emitters with the names of their events.\<close>

definition run_emitters :: "((run \<Rightarrow> stream_event) \<times> string) list" where
  "run_emitters =
     [(emit_run_created, ''thread.run.created''), (emit_run_in_progress, ''thread.run.in_progress''),
      (emit_run_completed, ''thread.run.completed''), (emit_run_failed, ''thread.run.failed''),
      (emit_run_requires_action, ''thread.run.requires_action''),
      (emit_run_cancelled, ''thread.run.cancelled'')]"

lemma wf_run_to_dict: "wf_run r \<Longrightarrow> wf_dict (run_to_dict r)"
  by (cases "run_required_action r"; cases "run_last_error r"; cases "run_usage r")
     (simp_all add: run_to_dict_def wf_run_def wf_strings_obj list_all_iff json_of_dict_none_def)

lemma read_sse_event:
  assumes "pylib_laws L" and "CHR 0x0A \<notin> set name"
  shows "read_sse (format_sse_event L (sse_event name d) @ rest) = Some ((name, json_dumps L (JObj d)), rest)"
proof -
  let ?l1 = "''event: '' @ name" and ?l2 = "''data: '' @ json_dumps L (JObj d)"
  have lines: "format_sse_event L (sse_event name d) @ rest =
      ?l1 @ CHR 0x0A # (?l2 @ CHR 0x0A # ([] @ CHR 0x0A # rest))"
    by (simp add: format_sse_event_def sse_event_def dict_get_or_def newline_def)
  have "CHR 0x0A \<notin> set ?l1" and "CHR 0x0A \<notin> set ?l2"
    using assms pylib_laws.dumps_one_line by auto
  from split_line_append [OF this(1)] split_line_append [OF this(2)]
    split_line_append [of "[]"] show ?thesis
    unfolding read_sse_def lines by simp
qed

text \<open>
  A reader of the event stream gets back, from the text of any run event, its event
  name and a data line that parses to the dictionary of the run, and the rest of the stream
  after it.
\<close>

theorem run_events_read_back:
  assumes "pylib_laws L" and "wf_run r" and "(emit, name) \<in> set run_emitters"
  shows "\<exists>data. read_sse (format_sse_event L (emit r) @ rest) = Some ((name, data), rest) \<and>
    json_loads L data = Some (JObj (run_to_dict r))"
proof -
  have "emit r = sse_event name (run_to_dict r) \<and> CHR 0x0A \<notin> set name"
    using assms(3)
    by (auto simp: run_emitters_def emit_run_created_def emit_run_in_progress_def emit_run_completed_def
      emit_run_failed_def emit_run_requires_action_def emit_run_cancelled_def)
  moreover have "wf_json (JObj (run_to_dict r))"
    using wf_run_to_dict [OF assms(2)] unfolding wf_dict_def .
  ultimately show ?thesis
    using read_sse_event [OF assms(1)] pylib_laws.loads_dumps [OF assms(1)] by auto
qed

lemma run_events_read_back_witness:
  "\<exists>data. read_sse (format_sse_event ref_lib (emit_run_failed ref_run) @ ''event: x'') =
       Some ((''thread.run.failed'', data), ''event: x'') \<and>
     json_loads ref_lib data = Some (JObj (run_to_dict ref_run))"
  by (rule run_events_read_back [OF ref_lib.pylib_laws_axioms wf_ref_run]) (simp add: run_emitters_def)

end
