(* ===== verification/AssistantProperties.thy ===== *)
theory AssistantProperties
  imports ExecutorProperties
begin

text \<open>
  What the assistant, message and thread services promise: ownership of assistants and the way
  around it in deletion, what the cache keeps of each object, and objects read back after they
  were written.
\<close>

section \<open>Ownership of assistants\<close>

lemma enforce_assistant_Inr:
  assumes "enforce_assistant_owner L a key = Inr a'"
  shows "a' = a" and "given key \<Longrightarrow> given (a_owner_api_key_hash a) \<Longrightarrow>
    a_owner_api_key_hash a = Some (hash_api_key L (the key))"
proof -
  show "a' = a"
    using assms by (auto simp: enforce_assistant_owner_def bind_sum_Inr split: if_splits)
  show "a_owner_api_key_hash a = Some (hash_api_key L (the key))"
    if "given key" and "given (a_owner_api_key_hash a)"
  proof -
    from assms that have "compare_digest (the (a_owner_api_key_hash a)) (hash_api_key L (the key)) = Inr True"
      by (auto simp: enforce_assistant_owner_def bind_sum_Inr split: if_splits)
    then have "the (a_owner_api_key_hash a) = hash_api_key L (the key)"
      by (auto simp: compare_digest_def split: if_splits)
    with that show ?thesis by (auto simp: given_iff)
  qed
qed

text \<open>
  An assistant that get_assistant returns to a request with a non-empty API key has no
  owner or carries the hash of that key.
\<close>

theorem get_assistant_owner:
  assumes "get_assistant S assistant_id (Some key) w = (Inr (Some a), w')" and "key \<noteq> []"
  shows "a_owner_api_key_hash a \<in> {None, Some [], Some (hash_api_key (as_lib S) key)}"
proof -
  from assms(1) have "\<exists>a0. enforce_assistant_owner (as_lib S) a0 (Some key) = Inr a"
    by (auto simp: get_assistant_def io_inv split: option.splits if_splits)
  then show ?thesis
    using enforce_assistant_Inr [of "as_lib S" _ "Some key" a] assms(2)
    by (cases "a_owner_api_key_hash a") fastforce+
qed

definition ref_owned_asst :: db_assistant where
  "ref_owned_asst = \<lparr>da_id = ''asst_1'', da_model = ''m'', da_created_at = 0, da_updated_at = 0, da_name = None, da_description = None,
     da_instructions = None, da_tools = [], da_metadata = None,
     da_owner_api_key_hash = Some ''#key'', da_temperature = None, da_top_p = None\<rparr>"

text \<open>A repository that holds one row, or none after its deletion.\<close>

definition ref_asst_repo :: "bool assistant_repo" where
  "ref_asst_repo = \<lparr>ar_create = (\<lambda>i fs owner d. (Inr (), True)),
     ar_get = (\<lambda>i d. (Inr (if d \<and> i = ''asst_1'' then Some ref_owned_asst else None), d)),
     ar_list_assistants = (\<lambda>owner limit offset order after before d. (Inr ([], 0), d)),
     ar_update = (\<lambda>i fs d. (Inr d, d)),
     ar_delete = (\<lambda>i d. (Inr d, d \<and> i \<noteq> ''asst_1''))\<rparr>"

definition db_assistants :: "(server redis_world, bool) assistant_service" where
  "db_assistants = \<lparr>as_lib = ref_lib, as_cache = None, as_repo = Some ref_asst_repo, as_ttl = 3600\<rparr>"

lemma ref_get_asst:
  "get_assistant db_assistants ''asst_1'' (Some ''key'') (ref_world True) =
     (Inr (Some (map_db_assistant ref_owned_asst)), ref_world True)"
proof -
  have "(ref_world True)\<lparr>w_db := True\<rparr> = ref_world True"
    by (simp add: ref_world_def)
  then show ?thesis
    by (simp add: get_assistant_def get_cached_assistant_def db_assistants_def ref_asst_repo_def on_db_def
      map_db_assistant_def ref_owned_asst_def enforce_assistant_owner_def compare_digest_def is_ascii_def
      hash_api_key_def cache_assistant_def)
qed

lemma get_assistant_owner_witness:
  "a_owner_api_key_hash (map_db_assistant ref_owned_asst) \<in> {None, Some [], Some (hash_api_key ref_lib ''key'')}"
  using get_assistant_owner [OF ref_get_asst] by (simp add: db_assistants_def)

text \<open>
  On the database path, delete_assistant with a key that is refused the assistant still
  deletes its row and returns true, because get_assistant turns the refusal into an absent
  assistant.
\<close>

theorem delete_assistant_ignores_owner:
  assumes "as_repo S = Some R" and "as_cache S = None"
    and "ar_get R assistant_id (w_db w) = (Inr (Some row), d)"
    and "enforce_assistant_owner (as_lib S) (map_db_assistant row) (Some key) = Inl e" and "is_exception e"
    and "ar_delete R assistant_id d = (Inr True, d')"
  shows "get_assistant S assistant_id (Some key) w = (Inr None, w\<lparr>w_db := d\<rparr>) \<and>
    delete_assistant S assistant_id (Some key) w = (Inr True, w\<lparr>w_db := d'\<rparr>)"
proof
  show got: "get_assistant S assistant_id (Some key) w = (Inr None, w\<lparr>w_db := d\<rparr>)"
    using assms by (simp add: get_assistant_def get_cached_assistant_def on_db_def)
  show "delete_assistant S assistant_id (Some key) w = (Inr True, w\<lparr>w_db := d'\<rparr>)"
    using assms by (simp add: delete_assistant_def got on_db_def)
qed

lemma delete_assistant_ignores_owner_witness:
  "get_assistant db_assistants ''asst_1'' (Some ''thief'') (ref_world True) =
     (Inr None, (ref_world True)\<lparr>w_db := True\<rparr>) \<and>
   delete_assistant db_assistants ''asst_1'' (Some ''thief'') (ref_world True) =
     (Inr True, (ref_world True)\<lparr>w_db := False\<rparr>)"
  by (rule delete_assistant_ignores_owner [where R = ref_asst_repo and row = ref_owned_asst
        and e = "AssistantNotFoundError ''asst_1''"])
     (simp_all add: db_assistants_def ref_asst_repo_def enforce_assistant_owner_def map_db_assistant_def
       ref_owned_asst_def compare_digest_def is_ascii_def hash_api_key_def)

section \<open>Creating assistants\<close>

text \<open>
  With a database, create_assistant writes the row first: it fails with the mapped
  error and leaves the cache untouched, or the row is written and the assistant is returned
  whatever the cache does, short of a cancellation.
\<close>

theorem create_assistant_durable:
  assumes "as_repo S = Some R"
    and "create_assistant S model fs owner w = (x, w')"
  shows "(\<exists>e0 i gs d. ar_create R i gs owner (w_db w) = (Inl e0, d) \<and> x = Inl (create_assistant_error e0) \<and>
      w_cache w' = w_cache w \<and> w_db w' = d) \<or>
    (\<exists>i gs. ar_create R i gs owner (w_db w) = (Inr (), w_db w') \<and> f_model gs = Some model \<and>
      ((\<exists>e. x = Inl e \<and> \<not> is_exception e) \<or>
       (\<exists>a. x = Inr a \<and> a_id a = i \<and> a_model a = model \<and>
         a_owner_api_key_hash a = hash_of_owner (as_lib S) owner \<and> a_created_at a = a_updated_at a \<and>
         a_name a = f_name fs \<and> a_instructions a = f_instructions fs)))"
proof -
  define i where "i = ''asst_'' @ w_tokens w (w_draws w)"
  define now where "now = w_clock w (w_ticks w)"
  define w1 where "w1 = w\<lparr>w_draws := Suc (w_draws w), w_ticks := Suc (w_ticks w)\<rparr>"
  define gs where "gs = fs\<lparr>f_model := Some model,
    f_tools := Some (case f_tools fs of None \<Rightarrow> [] | Some ts \<Rightarrow> ts),
    f_metadata := Some (case f_metadata fs of None \<Rightarrow> [] | Some m \<Rightarrow> m)\<rparr>"
  define a where "a = \<lparr>a_id = i, a_model = model, a_created_at = now, a_updated_at = now,
    a_name = f_name fs, a_description = f_description fs, a_instructions = f_instructions fs,
    a_tools = (case f_tools fs of None \<Rightarrow> [] | Some ts \<Rightarrow> ts),
    a_metadata = (case f_metadata fs of None \<Rightarrow> [] | Some m \<Rightarrow> m),
    a_owner_api_key_hash = hash_of_owner (as_lib S) owner,
    a_temperature = f_temperature fs, a_top_p = f_top_p fs, a_response_format = None\<rparr>"
  have run: "and_then (try_except (on_db (ar_create R i gs owner)) (\<lambda>e. throw (create_assistant_error e)))
      (\<lambda>_. and_then (try_except (cache_assistant S a) (\<lambda>e. if is_exception e then ret () else throw e))
        (\<lambda>_. ret a)) w1 = (x, w')"
    using assms by (simp add: create_assistant_def i_def now_def w1_def gs_def a_def Let_def)
  have w1: "w_db w1 = w_db w" "w_cache w1 = w_cache w"
    by (simp_all add: w1_def)
  have db: "w_db v' = w_db v" if "cache_assistant S a v = (r, v')" for v r v'
    using that by (auto simp: cache_assistant_def io_defs dest!: on_cache_db
      split: option.splits prod.splits sum.splits if_splits)
  obtain q d where made: "ar_create R i gs owner (w_db w) = (q, d)" by force
  show ?thesis
  proof (cases q)
    case (Inl e0)
    with run made w1 have "x = Inl (create_assistant_error e0)" and "w_cache w' = w_cache w" and "w_db w' = d"
      by (auto simp: on_db_def)
    with made Inl show ?thesis by blast
  next
    case (Inr u)
    obtain r w2 where cached: "cache_assistant S a (w1\<lparr>w_db := d\<rparr>) = (r, w2)" by force
    with db have w2: "w_db w2 = d" by fastforce
    have "on_db (ar_create R i gs owner) w1 = (Inr (), w1\<lparr>w_db := d\<rparr>)"
      using made Inr w1 by (simp add: on_db_def)
    with run cached have "(x, w') = (case r of Inl e \<Rightarrow> (if is_exception e then Inr a else Inl e, w2) | Inr _ \<Rightarrow> (Inr a, w2))"
      by (cases r; cases "is_exception (projl r)") simp_all
    then have "w_db w' = d" and "x = Inr a \<or> (\<exists>e. x = Inl e \<and> \<not> is_exception e)"
      using w2 by (auto split: sum.splits if_splits)
    with made Inr show ?thesis
      by (intro disjI2 exI [of _ i] exI [of _ gs]) (auto simp: a_def gs_def)
  qed
qed

definition no_fields :: assistant_fields where
  "no_fields = \<lparr>f_model = None, f_name = None, f_description = None, f_instructions = None,
     f_tools = None, f_metadata = None, f_temperature = None, f_top_p = None\<rparr>"

lemma create_assistant_durable_witness:
  "\<exists>i gs a. ar_create ref_asst_repo i gs (Some ''key'') False =
       (Inr (), w_db (snd (create_assistant db_assistants ''m'' no_fields (Some ''key'') (ref_world False)))) \<and>
     fst (create_assistant db_assistants ''m'' no_fields (Some ''key'') (ref_world False)) = Inr a \<and>
     a_id a = i \<and> a_owner_api_key_hash a = Some ''#key''"
proof -
  have repo: "as_repo db_assistants = Some ref_asst_repo" and hash: "hash_of_owner ref_lib (Some ''key'') = Some ''#key''"
    by (simp_all add: db_assistants_def hash_of_owner_def hash_api_key_def)
  have "\<exists>a. fst (create_assistant db_assistants ''m'' no_fields (Some ''key'') (ref_world False)) = Inr a"
    by (simp add: create_assistant_def cache_assistant_def db_assistants_def ref_asst_repo_def on_db_def Let_def)
  then obtain a where a: "fst (create_assistant db_assistants ''m'' no_fields (Some ''key'') (ref_world False)) = Inr a"
    by blast
  note run = fst_run [of "create_assistant db_assistants ''m'' no_fields (Some ''key'')" "ref_world False", OF a]
  from create_assistant_durable [OF repo run] hash a show ?thesis
    by (auto simp: db_assistants_def)
qed

section \<open>Round trips through the cache\<close>

text \<open>
  An assistant written to the cache as JSON text is parsed back as itself, except that
  empty texts, zero sampling parameters and the response format are read as missing.
\<close>

theorem assistant_roundtrip:
  assumes "pylib_laws L" and "storable_assistant a"
  shows "parse_cached_assistant L (json_of_text L (json_dumps L (JObj (assistant_payload L a)))) =
    Inr (Some (kept_assistant a))"
proof -
  have "wf_json (JObj (assistant_payload L a))"
    using wf_assistant_payload [OF assms(2)] unfolding wf_dict_def .
  from pylib_laws.json_of_text_dumps [OF assms(1) this] show ?thesis
    by (simp only: pylib_laws.parse_assistant_payload [OF assms])
qed

lemma assistant_roundtrip_witness:
  "parse_cached_assistant ref_lib (json_of_text ref_lib (json_dumps ref_lib (JObj (assistant_payload ref_lib
     (ref_asst\<lparr>a_temperature := Some (Finite 0 0), a_top_p := Some (Finite 9 (- 1))\<rparr>))))) =
   Inr (Some (ref_asst\<lparr>a_temperature := None, a_top_p := Some (Finite 9 (- 1))\<rparr>))"
proof -
  have "storable_assistant (ref_asst\<lparr>a_temperature := Some (Finite 0 0), a_top_p := Some (Finite 9 (- 1))\<rparr>)"
    by (simp add: storable_assistant_def canonical_opt_def ref_asst_def distinct_keys_def)
  from assistant_roundtrip [OF ref_lib.pylib_laws_axioms this] show ?thesis
    by (simp add: kept_assistant_def nonzero_def ref_asst_def nonempty_text_def)
qed

section \<open>Messages and threads\<close>

context live_cache
begin

lemma get_message_live:
  assumes "ms_cache S = Some C" and "ms_lib S = L" and "wf_message m"
    and "ent (w_cache w) (message_cache_key t i) = Some (dump_entry L (message_payload m))"
    and "get_message S t i w = (Inr found, w')"
  shows "found = Some m" and "ent (w_cache w') = ent (w_cache w)"
proof -
  from assms(1,2,5) have "load_entity C (parse_cached_message L) (message_cache_key t i) (w_cache w) =
      (Inr found, w_cache w')"
    by (auto simp: get_message_def dest!: on_cache_Inr)
  from message_store.live_load [OF assms(4,3) this]
  show "found = Some m" and "ent (w_cache w') = ent (w_cache w)" by simp_all
qed

lemma cache_message_live:
  assumes "ms_cache S = Some C" and "cache_message S m w = (Inr u, w')"
  shows "ent (w_cache w') = (ent (w_cache w))(message_cache_key (msg_thread_id m) (msg_id m) \<mapsto>
      dump_entry L (message_payload m))"
proof -
  from assms obtain b where "c_set_json C (message_cache_key (msg_thread_id m) (msg_id m)) (message_payload m)
      (Some (ms_ttl S)) (w_cache w) = (Inr b, w_cache w')"
    by (auto simp: cache_message_def io_inv dest!: on_cache_Inr)
  from live_set_json [OF this] show ?thesis .
qed

lemma get_thread_live:
  assumes "ts_cache S = Some C" and "ts_lib S = L" and "wf_thread t"
    and "ent (w_cache w) (thread_cache_key i) = Some (dump_entry L (thread_payload t))"
    and "get_thread S i key w = (Inr found, w')"
  shows "found = Some t" and "ent (w_cache w') = ent (w_cache w)"
proof -
  from assms(1,2,5) have "load_entity C (parse_cached_thread L) (thread_cache_key i) (w_cache w) =
      (Inr found, w_cache w')"
    by (auto simp: get_thread_def dest!: on_cache_Inr)
  from thread_store.live_load [OF assms(4,3) this]
  show "found = Some t" and "ent (w_cache w') = ent (w_cache w)" by simp_all
qed

end

text \<open>
  A message that create_message returned has the given role, content and references, is
  the only new cache entry, and is what get_message returns.
\<close>

theorem created_message_read_back:
  assumes "live_cache L C ent ages matches" and "ms_cache S = Some C" and "ms_lib S = L"
    and "assistant_id \<noteq> Some []" and "rid \<noteq> Some []"
    and "distinct_keys (case metadata of None \<Rightarrow> [] | Some d \<Rightarrow> d)"
    and "create_message S thread_id role content metadata assistant_id rid w = (Inr m, w1)"
    and "get_message S thread_id (msg_id m) w1 = (Inr found, w2)"
  shows "found = Some m \<and> msg_thread_id m = thread_id \<and> msg_role m = role \<and>
    msg_content m = [TextContent content []] \<and> msg_assistant_id m = assistant_id \<and> msg_run_id m = rid \<and>
    ent (w_cache w2) = (ent (w_cache w))(message_cache_key thread_id (msg_id m) \<mapsto>
      dump_entry L (message_payload m))"
proof -
  from assms(7) obtain w0 u where put: "cache_message S m w0 = (Inr u, w1)" and w0: "w_cache w0 = w_cache w"
    and m: "msg_thread_id m = thread_id" "msg_role m = role" "msg_content m = [TextContent content []]"
      "msg_assistant_id m = assistant_id" "msg_run_id m = rid"
      "msg_metadata m = (case metadata of None \<Rightarrow> [] | Some d \<Rightarrow> d)"
    by (auto simp: create_message_def Let_def io_inv)
  have kept: "kept_text x = x" if "x \<noteq> Some []" for x
    using that by (cases x) (auto simp: kept_text_def)
  have wf: "wf_message m"
    using m assms(4-6) by (simp add: wf_message_def kept_message_def kept)
  note stored = live_cache.cache_message_live [OF assms(1,2) put]
  then have "ent (w_cache w1) (message_cache_key thread_id (msg_id m)) = Some (dump_entry L (message_payload m))"
    by (simp add: m(1))
  note got = live_cache.get_message_live [OF assms(1-3) wf this assms(8)]
  have "ent (w_cache w2) = (ent (w_cache w))(message_cache_key thread_id (msg_id m) \<mapsto>
      dump_entry L (message_payload m))"
    unfolding got(2) stored w0 m(1) ..
  with got(1) m show ?thesis by simp
qed

definition ref_said :: message where
  "ref_said = \<lparr>msg_id = ''msg_a'', msg_thread_id = ''t1'', msg_created_at = 1, msg_role = User,
     msg_content = [TextContent ''hi'' []], msg_metadata = [], msg_assistant_id = None, msg_run_id = None\<rparr>"

definition ref_said_world :: "(server redis_world, unit) world" where
  "ref_said_world = snd (create_message ref_messages ''t1'' User ''hi'' None None None (ref_world ()))"

lemma ref_say:
  "create_message ref_messages ''t1'' User ''hi'' None None None (ref_world ()) = (Inr ref_said, ref_said_world)"
  unfolding ref_said_world_def
  by (rule fst_run) (simp add: create_message_def cache_message_def on_cache_def ref_set_json_ok ref_said_def
      unix_seconds_def trunc_div_def ref_tokens_def Let_def)

lemma ref_said_stored:
  "ref_ent (w_cache ref_said_world) (message_cache_key ''t1'' ''msg_a'') =
     Some (dump_entry ref_lib (message_payload ref_said))"
  unfolding ref_said_world_def
  by (simp add: create_message_def cache_message_def on_cache_def ref_set_json_ok ref_said_def
      unix_seconds_def trunc_div_def ref_tokens_def Let_def)

lemma wf_ref_said: "wf_message ref_said"
  by (simp add: wf_message_def kept_message_def kept_text_def ref_said_def distinct_keys_def)

lemma ref_hear:
  "get_message ref_messages ''t1'' (msg_id ref_said) ref_said_world = (Inr (Some ref_said), ref_said_world)"
proof -
  have "msg_id ref_said = ''msg_a''" and "message_payload ref_said \<noteq> []" and "kept_message ref_said = ref_said"
    using wf_ref_said by (simp_all add: ref_said_def message_payload_def wf_message_def)
  then show ?thesis
    by (simp add: get_message_def on_cache_def parse_message_payload
      ref_load_ok [OF ref_said_stored wf_message_payload [OF wf_ref_said]])
qed

lemma created_message_read_back_witness:
  "ref_ent (w_cache ref_said_world) = (ref_ent (w_cache (ref_world ())))(message_cache_key ''t1'' ''msg_a'' \<mapsto>
     dump_entry ref_lib (message_payload ref_said))"
  using created_message_read_back [OF ref_live _ _ _ _ _ ref_say ref_hear]
  by (simp add: distinct_keys_def ref_said_def)

text \<open>The deletion of a thread, on the store.\<close>

context live_cache
begin

lemma get_thread_reads:
  assumes "ts_cache S = Some C" and "get_thread S i key w = (Inr found, w1)"
  shows "ent (w_cache w1) = ent (w_cache w)"
    and "parse_row (parse_cached_thread (ts_lib S)) (stored_json L (ent (w_cache w) (thread_cache_key i))) = Inr found"
    and "w_db w1 = w_db w"
proof -
  from assms obtain j where "c_get_json C (thread_cache_key i) (w_cache w) = (Inr j, w_cache w1)"
    and "parse_row (parse_cached_thread (ts_lib S)) j = Inr found" and "w_db w1 = w_db w"
    by (auto simp: get_thread_def load_entity_def io_inv dest!: on_cache_Inr)
  with live_get_json show "ent (w_cache w1) = ent (w_cache w)"
    and "parse_row (parse_cached_thread (ts_lib S)) (stored_json L (ent (w_cache w) (thread_cache_key i))) = Inr found"
    and "w_db w1 = w_db w"
    by blast+
qed

lemma delete_thread_gone:
  assumes "ts_cache S = Some C" and "delete_thread S i key w = (Inr b, w1)"
    and "get_thread S i key' w1 = (Inr found, w2)"
  shows "found = None"
    and "\<exists>t0 v. get_thread S i key w = (Inr t0, v) \<and> (b \<longleftrightarrow> t0 \<noteq> None)"
proof -
  from assms(2) obtain t0 v where got: "get_thread S i key w = (Inr t0, v)"
    and rest: "(case t0 of None \<Rightarrow> ret False
       | Some t \<Rightarrow>
           and_then
             (case (ts_sessions S, th_session_id t) of
                (Some SS, Some i) \<Rightarrow>
                  if i \<noteq> [] then and_then (delete_session SS i) (\<lambda>_. ret ()) else ret ()
              | _ \<Rightarrow> ret ()) (\<lambda>_.
           and_then (and_then (on_cache (c_delete C (thread_cache_key i))) (\<lambda>_. ret ())) (\<lambda>_.
           ret True))) v = (Inr b, w1)"
    unfolding delete_thread_def and_then_Inr assms(1) option.case by blast
  have "found = None \<and> (b \<longleftrightarrow> t0 \<noteq> None)"
  proof (cases t0)
    case None
    with rest have "w1 = v" and "\<not> b" by simp_all
    with get_thread_reads(2) [OF assms(1) assms(3)] get_thread_reads(1,2) [OF assms(1) got] None
    show ?thesis by simp
  next
    case (Some t)
    with rest obtain d w0 where "on_cache (c_delete C (thread_cache_key i)) w0 = (Inr d, w1)" and "b"
      by (auto simp: and_then_Inr)
    with live_delete on_cache_Inr have "ent (w_cache w1) (thread_cache_key i) = None"
      by (metis fun_upd_same)
    with get_thread_reads(2) [OF assms(1) assms(3)] Some \<open>b\<close> show ?thesis
      by (simp add: parse_row_def)
  qed
  then show "found = None" and "\<exists>t0 v. get_thread S i key w = (Inr t0, v) \<and> (b \<longleftrightarrow> t0 \<noteq> None)"
    using got by blast+
qed

end

text \<open>
  After delete_thread returned, get_thread finds nothing under that identifier for any
  key; delete_thread answered true exactly when the thread was found, whoever asked.
\<close>

theorem deleted_thread_gone:
  assumes "live_cache L C ent ages matches" and "ts_cache S = Some C"
    and "delete_thread S thread_id key w = (Inr deleted, w1)"
    and "get_thread S thread_id key' w1 = (Inr found, w2)"
  shows "found = None \<and>
    (\<exists>t v. get_thread S thread_id key w = (Inr t, v) \<and> (deleted \<longleftrightarrow> t \<noteq> None))"
  using live_cache.delete_thread_gone [OF assms] by blast

definition ref_threads :: "(server redis_world, session_row list) thread_service" where
  "ref_threads = \<lparr>ts_lib = ref_lib, ts_sessions = None, ts_cache = Some (ref_cache 0), ts_ttl = 3600\<rparr>"

definition ref_thread :: thread where
  "ref_thread = \<lparr>th_id = ''thread_a'', th_created_at = 1, th_metadata = [(''k'', ''v'')], th_session_id = None\<rparr>"

definition thread_world :: "(server redis_world, session_row list) world" where
  "thread_world = snd (create_thread ref_threads (Some [(''k'', ''v'')]) None (ref_world []))"

lemma thread_created:
  "create_thread ref_threads (Some [(''k'', ''v'')]) None (ref_world []) = (Inr ref_thread, thread_world)"
  unfolding thread_world_def
  by (rule fst_run) (simp add: create_thread_def cache_thread_def on_cache_def ref_threads_def ref_set_json_ok
      ref_thread_def unix_seconds_def trunc_div_def ref_tokens_def Let_def)

lemma thread_stored:
  "ref_ent (w_cache thread_world) (thread_cache_key ''thread_a'') = Some (dump_entry ref_lib (thread_payload ref_thread))"
  unfolding thread_world_def
  by (simp add: create_thread_def cache_thread_def on_cache_def ref_threads_def ref_set_json_ok ref_thread_def
      unix_seconds_def trunc_div_def ref_tokens_def Let_def)

lemma ref_threads_cache: "ts_cache ref_threads = Some (ref_cache 0)" "ts_lib ref_threads = ref_lib"
    "ts_sessions ref_threads = None"
  by (simp_all add: ref_threads_def)

lemma thread_found:
  "get_thread ref_threads ''thread_a'' key thread_world = (Inr (Some ref_thread), thread_world)"
proof -
  have wf: "wf_thread ref_thread"
    by (simp add: wf_thread_def ref_thread_def distinct_keys_def)
  then have "wf_dict (thread_payload ref_thread)" and "thread_payload ref_thread \<noteq> []"
    by (simp_all add: thread_payload_def wf_thread_def wf_strings_obj)
  with wf show ?thesis
    by (simp add: get_thread_def on_cache_def ref_threads_cache parse_thread_payload wf_thread_def
      ref_load_ok [OF thread_stored])
qed

lemma thread_deleted:
  "delete_thread ref_threads ''thread_a'' (Some ''other'') thread_world =
     (Inr True, thread_world\<lparr>w_cache := ref_drop (thread_cache_key ''thread_a'') (w_cache thread_world)\<rparr>)"
  by (simp add: delete_thread_def thread_found ref_threads_cache on_cache_def ref_delete_ok)

lemma thread_missed:
  "get_thread ref_threads ''thread_a'' key
     (thread_world\<lparr>w_cache := ref_drop (thread_cache_key ''thread_a'') (w_cache thread_world)\<rparr>) =
   (Inr None, thread_world\<lparr>w_cache := ref_drop (thread_cache_key ''thread_a'') (w_cache thread_world)\<rparr>)"
  by (simp add: get_thread_def on_cache_def ref_threads_cache ref_load_none ref_delete_ok)

lemma deleted_thread_gone_witness:
  "\<exists>t v. get_thread ref_threads ''thread_a'' (Some ''other'') thread_world = (Inr t, v) \<and> t \<noteq> None"
  using deleted_thread_gone [OF ref_live ref_threads_cache(1) thread_deleted thread_missed] by blast

end
