(* ===== verification/Registries.thy ===== *)
theory Registries
  imports World
begin

text \<open>
  The pattern that the persistence services of \<open>apps/api/services\<close> share (agents, projects,
  skills, slash commands, tool presets, MCP server configurations): a record is stored as the
  dictionary of its fields under a key of its own, and its identifier is a member of an index
  set. A \<open>registry\<close> holds what varies: the key prefix, the index key, the dictionary
  (\<open>record.__dict__\<close>) and the reader of a stored dictionary, which is given the identifier
  asked for. The services are instances of the operations below (\<open>RegistryServices\<close>).

  \<open>stored_records\<close> is the contract a registry meets; \<open>record_store\<close> puts it on a cache and
  proves, once for all services, that the operations act on a finite map from identifiers
  to records.
\<close>

record 'a registry =
  rg_prefix :: string
  rg_index :: string
  rg_payload :: "'a \<Rightarrow> json dict"
  rg_parse :: "string \<Rightarrow> json dict \<Rightarrow> exn + 'a"

definition record_key :: "'a registry \<Rightarrow> string \<Rightarrow> string" where
  "record_key R i = rg_prefix R @ i"

section \<open>Readers\<close>

text \<open>\<open>str(raw.get(k, x))\<close>, and \<open>raw.get(k)\<close> with a \<open>cast\<close>, which checks nothing.\<close>

definition str_get :: "pylib \<Rightarrow> json dict \<Rightarrow> string \<Rightarrow> string \<Rightarrow> string" where
  "str_get L d k x = py_str L (dict_get_or d k (JStr x))"

definition raw_get :: "json dict \<Rightarrow> string \<Rightarrow> json" where
  "raw_get d k = dict_get_or d k JNull"

text \<open>\<open>list(x)\<close>\<close>

fun py_list :: "json \<Rightarrow> exn + json list" where
  "py_list (JArr xs) = Inr xs"
| "py_list (JStr s) = Inr (map (\<lambda>c. JStr [c]) s)"
| "py_list (JObj d) = Inr (map (JStr \<circ> fst) d)"
| "py_list _ = Inl (TypeError ''object is not iterable'')"

text \<open>A stored value that is no dictionary has no \<open>get\<close>.\<close>

definition read_record :: "'a registry \<Rightarrow> string \<Rightarrow> json \<Rightarrow> exn + 'a" where
  "read_record R i raw =
     (case raw of JObj d \<Rightarrow> rg_parse R i d | _ \<Rightarrow> Inl (AttributeError ''get''))"

section \<open>Operations\<close>

definition get_record :: "'c cache \<Rightarrow> 'a registry \<Rightarrow> string \<Rightarrow> (('c, 'd) world, 'a option) io" where
  "get_record C R i =
     and_then (on_cache (c_get_json C (record_key R i))) (\<lambda>raw.
       if raw = JNull then ret None
       else lift_sum (bind_sum (read_record R i raw) (\<lambda>x. Inr (Some x))))"

text \<open>
  The loop over \<open>zip(ids, rows, strict=True)\<close>: an identifier whose record is gone is taken out
  of the index.
\<close>

fun collect_records ::
  "'c cache \<Rightarrow> 'a registry \<Rightarrow> string list \<Rightarrow> json list \<Rightarrow> (('c, 'd) world, 'a list) io" where
  "collect_records C R [] [] = ret []"
| "collect_records C R (i # is) (raw # rows) =
     (if raw = JNull
      then and_then (on_cache (c_remove_from_set C (rg_index R) i)) (\<lambda>_. collect_records C R is rows)
      else
        and_then (lift_sum (read_record R i raw)) (\<lambda>x.
        and_then (collect_records C R is rows) (\<lambda>xs. ret (x # xs))))"
| "collect_records C R _ _ = throw (ValueError ''zip() arguments differ in length'')"

definition list_records :: "'c cache \<Rightarrow> 'a registry \<Rightarrow> (('c, 'd) world, 'a list) io" where
  "list_records C R =
     and_then (on_cache (c_set_members C (rg_index R))) (\<lambda>ids.
       if ids = [] then ret []
       else
         and_then (on_cache (c_get_many_json C (map (record_key R) ids))) (\<lambda>rows.
         collect_records C R ids rows))"

definition store_record :: "'c cache \<Rightarrow> 'a registry \<Rightarrow> string \<Rightarrow> 'a \<Rightarrow> (('c, 'd) world, unit) io" where
  "store_record C R i x =
     and_then (on_cache (c_set_json C (record_key R i) (rg_payload R x) None)) (\<lambda>_. ret ())"

definition index_record :: "'c cache \<Rightarrow> 'a registry \<Rightarrow> string \<Rightarrow> (('c, 'd) world, unit) io" where
  "index_record C R i = and_then (on_cache (c_add_to_set C (rg_index R) i)) (\<lambda>_. ret ())"

definition insert_record :: "'c cache \<Rightarrow> 'a registry \<Rightarrow> string \<Rightarrow> 'a \<Rightarrow> (('c, 'd) world, 'a) io" where
  "insert_record C R i x =
     and_then (store_record C R i x) (\<lambda>_. and_then (index_record C R i) (\<lambda>_. ret x))"

text \<open>A fresh identifier, then the time, then the two writes.\<close>

definition create_record ::
  "'c cache \<Rightarrow> 'a registry \<Rightarrow> (string \<Rightarrow> datetime \<Rightarrow> 'a) \<Rightarrow> (('c, 'd) world, 'a) io" where
  "create_record C R build =
     and_then draw_token (\<lambda>i. and_then utc_now (\<lambda>now. insert_record C R i (build i now)))"

text \<open>Nothing happens to a record that is not there; \<open>change\<close> may read the clock.\<close>

definition update_record ::
  "'c cache \<Rightarrow> 'a registry \<Rightarrow> string \<Rightarrow> ('a \<Rightarrow> (('c, 'd) world, 'a) io) \<Rightarrow>
     (('c, 'd) world, 'a option) io" where
  "update_record C R i change =
     and_then (get_record C R i) (\<lambda>existing.
       case existing of
         None \<Rightarrow> ret None
       | Some x \<Rightarrow>
           and_then (change x) (\<lambda>y. and_then (store_record C R i y) (\<lambda>_. ret (Some y))))"

definition delete_record :: "'c cache \<Rightarrow> 'a registry \<Rightarrow> string \<Rightarrow> (('c, 'd) world, bool) io" where
  "delete_record C R i =
     and_then (on_cache (c_remove_from_set C (rg_index R) i)) (\<lambda>_.
     on_cache (c_delete C (record_key R i)))"

section \<open>The contract of a registry\<close>

text \<open>
  A record that the services write is read back as \<open>canon\<close> of it: the reader may forget a
  difference that the writer makes, such as an empty list of tools from no list.
\<close>

locale stored_records =
  fixes R :: "'a registry"
    and canon :: "'a \<Rightarrow> 'a"
    and good :: "'a \<Rightarrow> bool"
  assumes payload_wf: "good x \<Longrightarrow> wf_dict (rg_payload R x)"
    and parse_payload: "good x \<Longrightarrow> rg_parse R i (rg_payload R x) = Inr (canon x)"
    and good_canon: "good x \<Longrightarrow> good (canon x)"
    and key_no_index: "record_key R i \<noteq> rg_index R"
begin

lemma record_key_inj [simp]: "record_key R i = record_key R j \<longleftrightarrow> i = j"
  by (simp add: record_key_def)

lemmas key_index_simps [simp] = key_no_index key_no_index [symmetric]

lemma read_payload: "good x \<Longrightarrow> read_record R i (JObj (rg_payload R x)) = Inr (canon x)"
  by (simp add: read_record_def parse_payload)

end

section \<open>Registries on a cache\<close>

text \<open>
  \<open>slot L R canon good e r\<close>: the entry \<open>e\<close> stores the record \<open>r\<close>. \<open>holds L R canon good m M\<close>: the store \<open>m\<close>
  holds the map \<open>M\<close>, and the index its identifiers.
\<close>

definition slot ::
  "pylib \<Rightarrow> 'a registry \<Rightarrow> ('a \<Rightarrow> 'a) \<Rightarrow> ('a \<Rightarrow> bool) \<Rightarrow> entry option \<Rightarrow> 'a option \<Rightarrow> bool" where
  "slot L R canon good e r \<longleftrightarrow>
     (case r of
        None \<Rightarrow> e = None
      | Some x \<Rightarrow> \<exists>y. good y \<and> x = canon y \<and> e = Some (dump_entry L (rg_payload R y)))"

definition holds ::
  "pylib \<Rightarrow> 'a registry \<Rightarrow> ('a \<Rightarrow> 'a) \<Rightarrow> ('a \<Rightarrow> bool) \<Rightarrow> store \<Rightarrow> (string \<Rightarrow> 'a option) \<Rightarrow> bool" where
  "holds L R canon good m M \<longleftrightarrow>
     set_at (m (rg_index R)) = Some (Utf8 ` dom M) \<and>
     (\<forall>i. slot L R canon good (m (record_key R i)) (M i))"

text \<open>
  A change of a record that an update may make: it keeps the record well-formed, leaves the cache
  alone, and draws identifiers at most.
\<close>

definition sound_change :: "('a \<Rightarrow> bool) \<Rightarrow> ('a \<Rightarrow> (('c, 'd) world, 'a) io) \<Rightarrow> bool" where
  "sound_change good change \<longleftrightarrow>
     (\<forall>x v y v'. good x \<longrightarrow> change x v = (Inr y, v') \<longrightarrow>
        good y \<and> w_cache v' = w_cache v \<and> w_tokens v' = w_tokens v \<and> w_draws v \<le> w_draws v')"

lemma sound_changeD:
  "sound_change good change \<Longrightarrow> good x \<Longrightarrow> change x v = (Inr y, v') \<Longrightarrow>
     good y \<and> w_cache v' = w_cache v \<and> w_tokens v' = w_tokens v \<and> w_draws v \<le> w_draws v'"
  unfolding sound_change_def by blast

locale record_store = live_cache L C ent ages matches + stored_records R canon good
  for L :: pylib and C :: "'c cache" and ent ages matches
    and R :: "'a registry" and canon :: "'a \<Rightarrow> 'a" and good :: "'a \<Rightarrow> bool"
begin

lemma slot_simps [simp]:
  "slot L R canon good e None \<longleftrightarrow> e = None"
  "good y \<Longrightarrow> slot L R canon good (Some (dump_entry L (rg_payload R y))) (Some (canon y))"
  by (auto simp: slot_def)

lemma holds_index: "holds L R canon good m M \<Longrightarrow> set_at (m (rg_index R)) = Some (Utf8 ` dom M)"
  by (simp add: holds_def)

lemma holds_slot: "holds L R canon good m M \<Longrightarrow> slot L R canon good (m (record_key R i)) (M i)"
  by (simp add: holds_def)

lemma holds_None: "holds L R canon good m M \<Longrightarrow> M i = None \<Longrightarrow> m (record_key R i) = None"
  using holds_slot [of m M i] by simp

lemma holds_Some: "holds L R canon good m M \<Longrightarrow> M i = Some x \<Longrightarrow>
    \<exists>y. good y \<and> x = canon y \<and> m (record_key R i) = Some (dump_entry L (rg_payload R y))"
  using holds_slot [of m M i] by (simp add: slot_def)

lemma holds_wf: "holds L R canon good m M \<Longrightarrow> M i = Some x \<Longrightarrow> good x"
  using holds_Some good_canon by blast

lemma holds_empty: "m (rg_index R) = None \<Longrightarrow> (\<And>i. m (record_key R i) = None) \<Longrightarrow> holds L R canon good m Map.empty"
  by (simp add: holds_def)

text \<open>What a read of one key gives.\<close>

lemma stored_record:
  assumes "holds L R canon good m M"
  shows "stored_json L (m (record_key R i)) = JNull \<longleftrightarrow> M i = None"
    and "M i = Some x \<Longrightarrow> read_record R i (stored_json L (m (record_key R i))) = Inr x"
  using holds_None [OF assms, of i] holds_Some [OF assms, of i]
  by (cases "M i"; fastforce simp: payload_wf read_payload)+

lemma get_record_map:
  assumes "holds L R canon good (ent (w_cache w)) M" and "get_record C R i w = (Inr r, w')"
  shows "r = M i" and "ent (w_cache w') = ent (w_cache w)" and "w' = w\<lparr>w_cache := w_cache w'\<rparr>"
proof -
  from assms(2) obtain raw w1 where run: "on_cache (c_get_json C (record_key R i)) w = (Inr raw, w1)"
    and r: "(if raw = JNull then ret None
      else lift_sum (bind_sum (read_record R i raw) (\<lambda>x. Inr (Some x)))) w1 = (Inr r, w')"
    by (auto simp: get_record_def io_inv)
  note get = on_cache_Inr [OF run]
  from r have "w' = w1" by (simp split: if_splits)
  with get live_get_json show "ent (w_cache w') = ent (w_cache w)" and "w' = w\<lparr>w_cache := w_cache w'\<rparr>"
    by blast+
  from get live_get_json have "raw = stored_json L (ent (w_cache w) (record_key R i))"
    by blast
  with r show "r = M i"
    using stored_record [OF assms(1), of i]
    by (cases "M i") (auto split: if_splits)
qed

text \<open>Listing reads every record of the index, in the order of its members.\<close>

lemma collect_records_map:
  assumes "holds L R canon good m M" and "\<And>i. i \<in> set ids \<Longrightarrow> M i \<noteq> None"
  shows "collect_records C R ids (map (\<lambda>i. stored_json L (m (record_key R i))) ids) w =
    (Inr (map (\<lambda>i. the (M i)) ids), w)"
  using assms(2)
proof (induction ids)
  case Nil
  show ?case by simp
next
  case (Cons i ids)
  then obtain x where x: "M i = Some x" by fastforce
  with stored_record [OF assms(1), of i]
  have "stored_json L (m (record_key R i)) \<noteq> JNull"
    and "read_record R i (stored_json L (m (record_key R i))) = Inr x"
    by auto
  with Cons x show ?case
    by (simp add: io_defs)
qed

lemma list_records_map:
  assumes h: "holds L R canon good (ent (w_cache w)) M" and run: "list_records C R w = (Inr xs, w')"
  shows "\<exists>ids. distinct ids \<and> set ids = dom M \<and> xs = map (\<lambda>i. the (M i)) ids"
    and "ent (w_cache w') = ent (w_cache w)" and "w' = w\<lparr>w_cache := w_cache w'\<rparr>"
proof -
  from run obtain ids w1 where mem: "on_cache (c_set_members C (rg_index R)) w = (Inr ids, w1)"
    and k: "(if ids = [] then ret []
       else and_then (on_cache (c_get_many_json C (map (record_key R) ids)))
              (\<lambda>rows. collect_records C R ids rows)) w1 = (Inr xs, w')"
    by (auto simp: list_records_def io_inv)
  note mem = on_cache_Inr [OF mem]
  from live_set_members mem have e1: "ent (w_cache w1) = ent (w_cache w)" and "distinct ids"
    and "set_at (ent (w_cache w) (rg_index R)) = Some (Utf8 ` set ids)"
    by blast+
  with holds_index [OF h] have ids: "set ids = dom M"
    by (auto simp: inj_image_eq_iff [of Utf8] inj_def)
  show "\<exists>ids. distinct ids \<and> set ids = dom M \<and> xs = map (\<lambda>i. the (M i)) ids"
    and "ent (w_cache w') = ent (w_cache w)" and "w' = w\<lparr>w_cache := w_cache w'\<rparr>"
  proof (atomize(full), cases "ids = []")
    case True
    with k mem ids \<open>distinct ids\<close> e1
    show "(\<exists>ids. distinct ids \<and> set ids = dom M \<and> xs = map (\<lambda>i. the (M i)) ids) \<and>
        ent (w_cache w') = ent (w_cache w) \<and> w' = w\<lparr>w_cache := w_cache w'\<rparr>"
      by auto
  next
    case False
    with k obtain rows w2 where many: "on_cache (c_get_many_json C (map (record_key R) ids)) w1 = (Inr rows, w2)"
      and coll: "collect_records C R ids rows w2 = (Inr xs, w')"
      by (auto simp: io_inv)
    note same = cache_step_trans [OF mem [THEN conjunct2, THEN conjunct2] on_cache_step [OF many]]
    note many = on_cache_Inr [OF many]
    from live_get_many_json many have e2: "ent (w_cache w2) = ent (w_cache w1)"
      and "rows = map (\<lambda>k. stored_json L (ent (w_cache w1) k)) (map (record_key R) ids)"
      by blast+
    then have rows: "rows = map (\<lambda>i. stored_json L (ent (w_cache w) (record_key R i))) ids"
      using e1 by simp
    have "collect_records C R ids rows w2 = (Inr (map (\<lambda>i. the (M i)) ids), w2)"
      unfolding rows by (rule collect_records_map [OF h]) (use ids in auto)
    with coll have "xs = map (\<lambda>i. the (M i)) ids" and "w' = w2" by simp_all
    with \<open>distinct ids\<close> ids e1 e2 same
    show "(\<exists>ids. distinct ids \<and> set ids = dom M \<and> xs = map (\<lambda>i. the (M i)) ids) \<and>
        ent (w_cache w') = ent (w_cache w) \<and> w' = w\<lparr>w_cache := w_cache w'\<rparr>"
      by auto
  qed
qed

text \<open>Writing a record, and putting it into the index.\<close>

lemma store_record_map:
  assumes "holds L R canon good (ent (w_cache w)) M" and "good x" and "store_record C R i x w = (Inr u, w')"
  shows "ent (w_cache w') = (ent (w_cache w))(record_key R i \<mapsto> dump_entry L (rg_payload R x))"
    and "w' = w\<lparr>w_cache := w_cache w'\<rparr>"
    and "M i \<noteq> None \<Longrightarrow> holds L R canon good (ent (w_cache w')) (M(i \<mapsto> canon x))"
proof -
  from assms(3) obtain b where run: "on_cache (c_set_json C (record_key R i) (rg_payload R x) None) w = (Inr b, w')"
    by (auto simp: store_record_def io_inv)
  note set = on_cache_Inr [OF run]
  from set live_set_json show e: "ent (w_cache w') = (ent (w_cache w))(record_key R i \<mapsto> dump_entry L (rg_payload R x))"
    by blast
  from set show "w' = w\<lparr>w_cache := w_cache w'\<rparr>" by blast
  assume "M i \<noteq> None"
  then have "dom (M(i \<mapsto> canon x)) = dom M" by auto
  with e assms(1,2) show "holds L R canon good (ent (w_cache w')) (M(i \<mapsto> canon x))"
    by (auto simp: holds_def)
qed

lemma insert_record_map:
  assumes h: "holds L R canon good (ent (w_cache w)) M" and x: "good x" and run: "insert_record C R i x w = (Inr y, w')"
  shows "holds L R canon good (ent (w_cache w')) (M(i \<mapsto> canon x))" and "y = x" and "w' = w\<lparr>w_cache := w_cache w'\<rparr>"
proof -
  from run obtain w1 b where st: "store_record C R i x w = (Inr (), w1)"
    and add: "on_cache (c_add_to_set C (rg_index R) i) w1 = (Inr b, w')" and "y = x"
    by (auto simp: insert_record_def index_record_def io_inv)
  show "y = x" by fact
  note st = store_record_map [OF h x st]
  show "w' = w\<lparr>w_cache := w_cache w'\<rparr>"
    by (rule cache_step_trans [OF st(2) on_cache_step [OF add]])
  note add = on_cache_Inr [OF add]
  from live_add_to_set add obtain A where A: "set_at (ent (w_cache w1) (rg_index R)) = Some A"
    and e: "ent (w_cache w') = (ent (w_cache w1))(rg_index R \<mapsto> Members (insert (Utf8 i) A))"
    by blast
  from A st(1) holds_index [OF h] have "A = Utf8 ` dom M" by simp
  with e st(1) h x show "holds L R canon good (ent (w_cache w')) (M(i \<mapsto> canon x))"
    by (auto simp: holds_def)
qed

lemma create_record_map:
  assumes "holds L R canon good (ent (w_cache w)) M" and "create_record C R build w = (Inr y, w')"
    and "good (build (w_tokens w (w_draws w)) (w_clock w (w_ticks w)))"
  shows "y = build (w_tokens w (w_draws w)) (w_clock w (w_ticks w))"
    and "holds L R canon good (ent (w_cache w')) (M(w_tokens w (w_draws w) \<mapsto> canon y))"
    and "w' = w\<lparr>w_draws := Suc (w_draws w), w_ticks := Suc (w_ticks w), w_cache := w_cache w'\<rparr>"
proof -
  let ?v = "w\<lparr>w_draws := Suc (w_draws w), w_ticks := Suc (w_ticks w)\<rparr>"
  let ?i = "w_tokens w (w_draws w)" and ?x = "build (w_tokens w (w_draws w)) (w_clock w (w_ticks w))"
  from assms(2) have "insert_record C R ?i ?x ?v = (Inr y, w')"
    by (simp add: create_record_def and_then_run(1) [where m = draw_token, OF draw_token_run]
        and_then_run(1) [where m = utc_now, OF utc_now_run])
  from insert_record_map [OF _ assms(3) this, of M] assms(1)
  show "y = ?x" and "holds L R canon good (ent (w_cache w')) (M(?i \<mapsto> canon y))"
    and "w' = w\<lparr>w_draws := Suc (w_draws w), w_ticks := Suc (w_ticks w), w_cache := w_cache w'\<rparr>"
    by simp_all
qed

text \<open>Updating: nothing is written when the record is absent.\<close>

lemma update_record_map:
  assumes h: "holds L R canon good (ent (w_cache w)) M" and run: "update_record C R i change w = (Inr r, w')"
    and change: "sound_change good change"
  shows "M i = None \<Longrightarrow> r = None \<and> holds L R canon good (ent (w_cache w')) M \<and> w' = w\<lparr>w_cache := w_cache w'\<rparr>"
    and "M i = Some x \<Longrightarrow> \<exists>y v v'. r = Some y \<and> v = w\<lparr>w_cache := w_cache v\<rparr> \<and> change x v = (Inr y, v') \<and>
      w' = v'\<lparr>w_cache := w_cache w'\<rparr> \<and> holds L R canon good (ent (w_cache w')) (M(i \<mapsto> canon y))"
proof -
  from run obtain e v where get: "get_record C R i w = (Inr e, v)"
    and k: "(case e of None \<Rightarrow> ret None | Some x \<Rightarrow>
      and_then (change x) (\<lambda>y. and_then (store_record C R i y) (\<lambda>_. ret (Some y)))) v = (Inr r, w')"
    by (auto simp: update_record_def io_inv)
  note get = get_record_map [OF h get]
  show "r = None \<and> holds L R canon good (ent (w_cache w')) M \<and> w' = w\<lparr>w_cache := w_cache w'\<rparr>" if "M i = None"
    using that get k h by auto
  assume x: "M i = Some x"
  with get k obtain y v' where ch: "change x v = (Inr y, v')" and r: "r = Some y"
    and st: "store_record C R i y v' = (Inr (), w')"
    by (auto simp: io_inv)
  from sound_changeD [OF change holds_wf [OF h x] ch] have y: "good y" and "w_cache v' = w_cache v" by simp_all
  with get(2) h have "holds L R canon good (ent (w_cache v')) M" by simp
  note st = store_record_map [OF this y st]
  from st x have "holds L R canon good (ent (w_cache w')) (M(i \<mapsto> canon y))" by simp
  with r ch get(3) st(2)
  show "\<exists>y v v'. r = Some y \<and> v = w\<lparr>w_cache := w_cache v\<rparr> \<and> change x v = (Inr y, v') \<and>
      w' = v'\<lparr>w_cache := w_cache w'\<rparr> \<and> holds L R canon good (ent (w_cache w')) (M(i \<mapsto> canon y))"
    by blast
qed

lemma set_at_set_entry [simp]: "set_at (set_entry A) = Some A"
  by (simp add: set_entry_def)

lemma delete_record_map:
  assumes h: "holds L R canon good (ent (w_cache w)) M" and run: "delete_record C R i w = (Inr b, w')"
  shows "b = (M i \<noteq> None)" and "holds L R canon good (ent (w_cache w')) (M(i := None))"
    and "w' = w\<lparr>w_cache := w_cache w'\<rparr>"
proof -
  from run obtain b1 w1 where rem: "on_cache (c_remove_from_set C (rg_index R) i) w = (Inr b1, w1)"
    and del: "on_cache (c_delete C (record_key R i)) w1 = (Inr b, w')"
    by (auto simp: delete_record_def io_inv)
  show "w' = w\<lparr>w_cache := w_cache w'\<rparr>"
    by (rule cache_step_trans [OF on_cache_step [OF rem] on_cache_step [OF del]])
  note rem = on_cache_Inr [OF rem] and del = on_cache_Inr [OF del]
  from live_remove_from_set rem obtain A where "set_at (ent (w_cache w) (rg_index R)) = Some A"
    and e1: "ent (w_cache w1) = (ent (w_cache w))(rg_index R := set_entry (A - {Utf8 i}))"
    by blast
  with holds_index [OF h] have A: "A = Utf8 ` dom M" by simp
  from live_delete del have b: "b = (ent (w_cache w1) (record_key R i) \<noteq> None)"
    and e2: "ent (w_cache w') = (ent (w_cache w1))(record_key R i := None)"
    by blast+
  from b e1 holds_None [OF h, of i] holds_Some [OF h, of i] show "b = (M i \<noteq> None)"
    by (cases "M i") auto
  have "Utf8 ` dom M - {Utf8 i} = Utf8 ` (dom M - {i})" by auto
  with e1 e2 A h show "holds L R canon good (ent (w_cache w')) (M(i := None))"
    by (simp add: holds_def)
qed

end

end
