(* ===== verification/RegistryServices.thy ===== *)
theory RegistryServices
  imports Registries
begin

text \<open>
  The persistence services over a registry: \<open>services/agents.py\<close>, \<open>services/projects.py\<close>,
  \<open>services/skills_crud.py\<close>, \<open>services/slash_commands.py\<close> and \<open>services/tool_presets.py\<close>. Each
  has its record, the dictionary and the reader of it, and its operations; the last part of
  the theory discharges the contract of a registry for each of them.

  A field that the source reads with a \<open>cast\<close> can be any JSON value and has type \<open>json\<close> here,
  with \<open>JNull\<close> for \<open>None\<close>.
\<close>

text \<open>The string items of a list.\<close>

fun str_items :: "json list \<Rightarrow> string list" where
  "str_items [] = []"
| "str_items (JStr s # xs) = s # str_items xs"
| "str_items (_ # xs) = str_items xs"

lemma str_items_JStr [simp]: "str_items (map JStr ts) = ts"
  by (induction ts) simp_all

definition json_strings :: "string list \<Rightarrow> json" where
  "json_strings ts = JArr (map JStr ts)"

lemma wf_json_strings [simp]: "wf_json (json_strings ts)"
  by (simp add: json_strings_def list_all_iff)

definition now_text :: "pylib \<Rightarrow> (('c, 'd) world, string) io" where
  "now_text L = and_then utc_now (\<lambda>now. ret (isoformat L now))"

section \<open>Agents\<close>

record agent_record =
  ag_id :: string
  ag_name :: string
  ag_description :: string
  ag_prompt :: string
  ag_tools :: "string list option"
  ag_model :: json
  ag_created_at :: string
  ag_updated_at :: json
  ag_is_shared :: json
  ag_share_url :: json
  ag_share_token :: json

definition parse_tools :: "json \<Rightarrow> string list option" where
  "parse_tools raw_tools =
     (case raw_tools of
        JArr xs \<Rightarrow> (let tools = str_items xs in if tools = [] then None else Some tools)
      | _ \<Rightarrow> None)"

definition agent_payload :: "agent_record \<Rightarrow> json dict" where
  "agent_payload a =
     [(''id'', JStr (ag_id a)), (''name'', JStr (ag_name a)),
      (''description'', JStr (ag_description a)), (''prompt'', JStr (ag_prompt a)),
      (''tools'', json_of_opt json_strings (ag_tools a)), (''model'', ag_model a),
      (''created_at'', JStr (ag_created_at a)), (''updated_at'', ag_updated_at a),
      (''is_shared'', ag_is_shared a), (''share_url'', ag_share_url a),
      (''share_token'', ag_share_token a)]"

definition agent_of_dict :: "pylib \<Rightarrow> string \<Rightarrow> json dict \<Rightarrow> exn + agent_record" where
  "agent_of_dict L agent_id raw =
     Inr \<lparr>ag_id = str_get L raw ''id'' agent_id, ag_name = str_get L raw ''name'' [],
          ag_description = str_get L raw ''description'' [],
          ag_prompt = str_get L raw ''prompt'' [], ag_tools = parse_tools (raw_get raw ''tools''),
          ag_model = raw_get raw ''model'', ag_created_at = str_get L raw ''created_at'' [],
          ag_updated_at = raw_get raw ''updated_at'', ag_is_shared = raw_get raw ''is_shared'',
          ag_share_url = raw_get raw ''share_url'', ag_share_token = raw_get raw ''share_token''\<rparr>"

definition agents :: "pylib \<Rightarrow> agent_record registry" where
  "agents L = \<lparr>rg_prefix = ''agent:'', rg_index = ''agents:index'', rg_payload = agent_payload,
               rg_parse = agent_of_dict L\<rparr>"

definition list_agents :: "pylib \<Rightarrow> 'c cache \<Rightarrow> (('c, 'd) world, agent_record list) io" where
  "list_agents L C = list_records C (agents L)"

definition create_agent ::
  "pylib \<Rightarrow> 'c cache \<Rightarrow> string \<Rightarrow> string \<Rightarrow> string \<Rightarrow> string list option \<Rightarrow> string option \<Rightarrow>
     (('c, 'd) world, agent_record) io" where
  "create_agent L C name description prompt tools model =
     create_record C (agents L) (\<lambda>agent_id now.
       \<lparr>ag_id = agent_id, ag_name = name, ag_description = description, ag_prompt = prompt,
        ag_tools = tools, ag_model = json_of_opt JStr model, ag_created_at = isoformat L now,
        ag_updated_at = JNull, ag_is_shared = JBool False, ag_share_url = JNull,
        ag_share_token = JNull\<rparr>)"

definition get_agent :: "pylib \<Rightarrow> 'c cache \<Rightarrow> string \<Rightarrow> (('c, 'd) world, agent_record option) io" where
  "get_agent L C agent_id = get_record C (agents L) agent_id"

definition update_agent ::
  "pylib \<Rightarrow> 'c cache \<Rightarrow> string \<Rightarrow> string \<Rightarrow> string \<Rightarrow> string \<Rightarrow> string list option \<Rightarrow> string option \<Rightarrow>
     (('c, 'd) world, agent_record option) io" where
  "update_agent L C agent_id name description prompt tools model =
     update_record C (agents L) agent_id (\<lambda>existing.
       and_then (now_text L) (\<lambda>now.
       ret (existing\<lparr>ag_name := name, ag_description := description, ag_prompt := prompt,
                     ag_tools := tools, ag_model := json_of_opt JStr model,
                     ag_updated_at := JStr now\<rparr>)))"

definition delete_agent :: "pylib \<Rightarrow> 'c cache \<Rightarrow> string \<Rightarrow> (('c, 'd) world, bool) io" where
  "delete_agent L C agent_id = delete_record C (agents L) agent_id"

text \<open>\<open>secrets.token_urlsafe(24)\<close> comes from the source of identifiers.\<close>

definition share_agent ::
  "pylib \<Rightarrow> 'c cache \<Rightarrow> string \<Rightarrow> string \<Rightarrow> (('c, 'd) world, agent_record option) io" where
  "share_agent L C agent_id share_url =
     update_record C (agents L) agent_id (\<lambda>existing.
       and_then draw_token (\<lambda>token.
       ret (existing\<lparr>ag_is_shared := JBool True, ag_share_url := JStr share_url,
                     ag_share_token := JStr token\<rparr>)))"

section \<open>Projects\<close>

record project_record =
  pj_id :: string
  pj_name :: string
  pj_path :: string
  pj_created_at :: string
  pj_last_accessed_at :: json
  pj_session_count :: json
  pj_metadata :: json

definition project_payload :: "project_record \<Rightarrow> json dict" where
  "project_payload p =
     [(''id'', JStr (pj_id p)), (''name'', JStr (pj_name p)), (''path'', JStr (pj_path p)),
      (''created_at'', JStr (pj_created_at p)), (''last_accessed_at'', pj_last_accessed_at p),
      (''session_count'', pj_session_count p), (''metadata'', pj_metadata p)]"

definition project_of_dict :: "pylib \<Rightarrow> string \<Rightarrow> json dict \<Rightarrow> exn + project_record" where
  "project_of_dict L project_id raw =
     Inr \<lparr>pj_id = str_get L raw ''id'' project_id, pj_name = str_get L raw ''name'' [],
          pj_path = str_get L raw ''path'' [], pj_created_at = str_get L raw ''created_at'' [],
          pj_last_accessed_at = raw_get raw ''last_accessed_at'',
          pj_session_count = raw_get raw ''session_count'', pj_metadata = raw_get raw ''metadata''\<rparr>"

definition projects :: "pylib \<Rightarrow> project_record registry" where
  "projects L = \<lparr>rg_prefix = ''project:'', rg_index = ''projects:index'',
                 rg_payload = project_payload, rg_parse = project_of_dict L\<rparr>"

definition list_projects :: "pylib \<Rightarrow> 'c cache \<Rightarrow> (('c, 'd) world, project_record list) io" where
  "list_projects L C = list_records C (projects L)"

text \<open>\<open>path or name\<close>; a project whose name or path is taken is refused.\<close>

definition project_path :: "string option \<Rightarrow> string \<Rightarrow> string" where
  "project_path path name = (if given path then the path else name)"

definition create_project ::
  "pylib \<Rightarrow> 'c cache \<Rightarrow> string \<Rightarrow> string option \<Rightarrow> json dict option \<Rightarrow>
     (('c, 'd) world, project_record option) io" where
  "create_project L C name path metadata =
     and_then (list_projects L C) (\<lambda>existing.
       let normalized_path = project_path path name in
       if list_ex (\<lambda>p. pj_name p = name \<or> pj_path p = normalized_path) existing then ret None
       else
         and_then
           (create_record C (projects L) (\<lambda>project_id now.
              \<lparr>pj_id = project_id, pj_name = name, pj_path = normalized_path,
               pj_created_at = isoformat L now, pj_last_accessed_at = JNull,
               pj_session_count = JInt 0, pj_metadata = json_of_opt JObj metadata\<rparr>))
           (\<lambda>p. ret (Some p)))"

definition get_project :: "pylib \<Rightarrow> 'c cache \<Rightarrow> string \<Rightarrow> (('c, 'd) world, project_record option) io" where
  "get_project L C project_id = get_record C (projects L) project_id"

definition update_project ::
  "pylib \<Rightarrow> 'c cache \<Rightarrow> string \<Rightarrow> string option \<Rightarrow> json dict option \<Rightarrow>
     (('c, 'd) world, project_record option) io" where
  "update_project L C project_id name metadata =
     update_record C (projects L) project_id (\<lambda>existing.
       ret (existing\<lparr>pj_name := (if given name then the name else pj_name existing),
                     pj_metadata := (case metadata of None \<Rightarrow> pj_metadata existing | Some m \<Rightarrow> JObj m)\<rparr>))"

definition delete_project :: "pylib \<Rightarrow> 'c cache \<Rightarrow> string \<Rightarrow> (('c, 'd) world, bool) io" where
  "delete_project L C project_id = delete_record C (projects L) project_id"

section \<open>Skills\<close>

record skill_record =
  sk_id :: string
  sk_name :: string
  sk_description :: string
  sk_content :: string
  sk_enabled :: bool
  sk_created_at :: string
  sk_updated_at :: json
  sk_is_shared :: json
  sk_share_url :: json

definition skill_payload :: "skill_record \<Rightarrow> json dict" where
  "skill_payload s =
     [(''id'', JStr (sk_id s)), (''name'', JStr (sk_name s)),
      (''description'', JStr (sk_description s)), (''content'', JStr (sk_content s)),
      (''enabled'', JBool (sk_enabled s)), (''created_at'', JStr (sk_created_at s)),
      (''updated_at'', sk_updated_at s), (''is_shared'', sk_is_shared s),
      (''share_url'', sk_share_url s)]"

definition skill_of_dict :: "pylib \<Rightarrow> string \<Rightarrow> json dict \<Rightarrow> exn + skill_record" where
  "skill_of_dict L skill_id raw =
     Inr \<lparr>sk_id = str_get L raw ''id'' skill_id, sk_name = str_get L raw ''name'' [],
          sk_description = str_get L raw ''description'' [],
          sk_content = str_get L raw ''content'' [],
          sk_enabled = truthy (dict_get_or raw ''enabled'' (JBool True)),
          sk_created_at = str_get L raw ''created_at'' [],
          sk_updated_at = raw_get raw ''updated_at'', sk_is_shared = raw_get raw ''is_shared'',
          sk_share_url = raw_get raw ''share_url''\<rparr>"

definition skills :: "pylib \<Rightarrow> skill_record registry" where
  "skills L = \<lparr>rg_prefix = ''skill:'', rg_index = ''skills:index'', rg_payload = skill_payload,
               rg_parse = skill_of_dict L\<rparr>"

definition list_skills :: "pylib \<Rightarrow> 'c cache \<Rightarrow> (('c, 'd) world, skill_record list) io" where
  "list_skills L C = list_records C (skills L)"

definition create_skill ::
  "pylib \<Rightarrow> 'c cache \<Rightarrow> string \<Rightarrow> string \<Rightarrow> string \<Rightarrow> bool \<Rightarrow> (('c, 'd) world, skill_record) io" where
  "create_skill L C name description content enabled =
     create_record C (skills L) (\<lambda>skill_id now.
       \<lparr>sk_id = skill_id, sk_name = name, sk_description = description, sk_content = content,
        sk_enabled = enabled, sk_created_at = isoformat L now, sk_updated_at = JNull,
        sk_is_shared = JBool False, sk_share_url = JNull\<rparr>)"

definition get_skill :: "pylib \<Rightarrow> 'c cache \<Rightarrow> string \<Rightarrow> (('c, 'd) world, skill_record option) io" where
  "get_skill L C skill_id = get_record C (skills L) skill_id"

definition update_skill ::
  "pylib \<Rightarrow> 'c cache \<Rightarrow> string \<Rightarrow> string \<Rightarrow> string \<Rightarrow> string \<Rightarrow> bool \<Rightarrow>
     (('c, 'd) world, skill_record option) io" where
  "update_skill L C skill_id name description content enabled =
     update_record C (skills L) skill_id (\<lambda>existing.
       and_then (now_text L) (\<lambda>now.
       ret (existing\<lparr>sk_name := name, sk_description := description, sk_content := content,
                     sk_enabled := enabled, sk_updated_at := JStr now\<rparr>)))"

definition delete_skill :: "pylib \<Rightarrow> 'c cache \<Rightarrow> string \<Rightarrow> (('c, 'd) world, bool) io" where
  "delete_skill L C skill_id = delete_record C (skills L) skill_id"

section \<open>Slash commands\<close>

record slash_command =
  sc_id :: string
  sc_name :: string
  sc_description :: string
  sc_content :: string
  sc_enabled :: bool
  sc_created_at :: string
  sc_updated_at :: json

definition command_payload :: "slash_command \<Rightarrow> json dict" where
  "command_payload c =
     [(''id'', JStr (sc_id c)), (''name'', JStr (sc_name c)),
      (''description'', JStr (sc_description c)), (''content'', JStr (sc_content c)),
      (''enabled'', JBool (sc_enabled c)), (''created_at'', JStr (sc_created_at c)),
      (''updated_at'', sc_updated_at c)]"

definition command_of_dict :: "pylib \<Rightarrow> string \<Rightarrow> json dict \<Rightarrow> exn + slash_command" where
  "command_of_dict L command_id raw =
     Inr \<lparr>sc_id = str_get L raw ''id'' command_id, sc_name = str_get L raw ''name'' [],
          sc_description = str_get L raw ''description'' [],
          sc_content = str_get L raw ''content'' [],
          sc_enabled = truthy (dict_get_or raw ''enabled'' (JBool True)),
          sc_created_at = str_get L raw ''created_at'' [],
          sc_updated_at = raw_get raw ''updated_at''\<rparr>"

definition slash_commands :: "pylib \<Rightarrow> slash_command registry" where
  "slash_commands L = \<lparr>rg_prefix = ''slash_command:'', rg_index = ''slash_commands:index'',
                       rg_payload = command_payload, rg_parse = command_of_dict L\<rparr>"

definition list_commands :: "pylib \<Rightarrow> 'c cache \<Rightarrow> (('c, 'd) world, slash_command list) io" where
  "list_commands L C = list_records C (slash_commands L)"

definition create_command ::
  "pylib \<Rightarrow> 'c cache \<Rightarrow> string \<Rightarrow> string \<Rightarrow> string \<Rightarrow> bool \<Rightarrow> (('c, 'd) world, slash_command) io" where
  "create_command L C name description content enabled =
     create_record C (slash_commands L) (\<lambda>command_id now.
       \<lparr>sc_id = command_id, sc_name = name, sc_description = description, sc_content = content,
        sc_enabled = enabled, sc_created_at = isoformat L now, sc_updated_at = JNull\<rparr>)"

definition get_command :: "pylib \<Rightarrow> 'c cache \<Rightarrow> string \<Rightarrow> (('c, 'd) world, slash_command option) io" where
  "get_command L C command_id = get_record C (slash_commands L) command_id"

definition update_command ::
  "pylib \<Rightarrow> 'c cache \<Rightarrow> string \<Rightarrow> string \<Rightarrow> string \<Rightarrow> string \<Rightarrow> bool \<Rightarrow>
     (('c, 'd) world, slash_command option) io" where
  "update_command L C command_id name description content enabled =
     update_record C (slash_commands L) command_id (\<lambda>existing.
       and_then (now_text L) (\<lambda>now.
       ret (existing\<lparr>sc_name := name, sc_description := description, sc_content := content,
                     sc_enabled := enabled, sc_updated_at := JStr now\<rparr>)))"

definition delete_command :: "pylib \<Rightarrow> 'c cache \<Rightarrow> string \<Rightarrow> (('c, 'd) world, bool) io" where
  "delete_command L C command_id = delete_record C (slash_commands L) command_id"

section \<open>Tool presets\<close>

record tool_preset =
  tp_id :: string
  tp_name :: string
  tp_description :: json
  tp_allowed_tools :: "json list"
  tp_disallowed_tools :: "json list"
  tp_is_system :: bool
  tp_created_at :: string

definition preset_payload :: "tool_preset \<Rightarrow> json dict" where
  "preset_payload p =
     [(''id'', JStr (tp_id p)), (''name'', JStr (tp_name p)), (''description'', tp_description p),
      (''allowed_tools'', JArr (tp_allowed_tools p)),
      (''disallowed_tools'', JArr (tp_disallowed_tools p)),
      (''is_system'', JBool (tp_is_system p)), (''created_at'', JStr (tp_created_at p))]"

definition preset_of_dict :: "pylib \<Rightarrow> string \<Rightarrow> json dict \<Rightarrow> exn + tool_preset" where
  "preset_of_dict L preset_id raw =
     bind_sum (py_list (dict_get_or raw ''allowed_tools'' (JArr []))) (\<lambda>allowed.
     bind_sum (py_list (dict_get_or raw ''disallowed_tools'' (JArr []))) (\<lambda>disallowed.
     Inr \<lparr>tp_id = str_get L raw ''id'' preset_id, tp_name = str_get L raw ''name'' [],
          tp_description = raw_get raw ''description'', tp_allowed_tools = allowed,
          tp_disallowed_tools = disallowed,
          tp_is_system = truthy (dict_get_or raw ''is_system'' (JBool False)),
          tp_created_at = str_get L raw ''created_at'' []\<rparr>))"

definition tool_presets :: "pylib \<Rightarrow> tool_preset registry" where
  "tool_presets L = \<lparr>rg_prefix = ''tool_preset:'', rg_index = ''tool_presets:index'',
                     rg_payload = preset_payload, rg_parse = preset_of_dict L\<rparr>"

definition create_preset ::
  "pylib \<Rightarrow> 'c cache \<Rightarrow> string \<Rightarrow> string option \<Rightarrow> string list \<Rightarrow> string list \<Rightarrow> bool \<Rightarrow>
     (('c, 'd) world, tool_preset) io" where
  "create_preset L C name description allowed_tools disallowed_tools is_system =
     create_record C (tool_presets L) (\<lambda>preset_id now.
       \<lparr>tp_id = preset_id, tp_name = name, tp_description = json_of_opt JStr description,
        tp_allowed_tools = map JStr allowed_tools, tp_disallowed_tools = map JStr disallowed_tools,
        tp_is_system = is_system, tp_created_at = isoformat L now\<rparr>)"

definition list_presets :: "pylib \<Rightarrow> 'c cache \<Rightarrow> (('c, 'd) world, tool_preset list) io" where
  "list_presets L C = list_records C (tool_presets L)"

definition get_preset :: "pylib \<Rightarrow> 'c cache \<Rightarrow> string \<Rightarrow> (('c, 'd) world, tool_preset option) io" where
  "get_preset L C preset_id = get_record C (tool_presets L) preset_id"

definition update_preset ::
  "pylib \<Rightarrow> 'c cache \<Rightarrow> string \<Rightarrow> string \<Rightarrow> string option \<Rightarrow> string list \<Rightarrow> string list \<Rightarrow>
     (('c, 'd) world, tool_preset option) io" where
  "update_preset L C preset_id name description allowed_tools disallowed_tools =
     update_record C (tool_presets L) preset_id (\<lambda>existing.
       ret (existing\<lparr>tp_name := name, tp_description := json_of_opt JStr description,
                     tp_allowed_tools := map JStr allowed_tools,
                     tp_disallowed_tools := map JStr disallowed_tools\<rparr>))"

definition delete_preset :: "pylib \<Rightarrow> 'c cache \<Rightarrow> string \<Rightarrow> (('c, 'd) world, bool) io" where
  "delete_preset L C preset_id = delete_record C (tool_presets L) preset_id"

section \<open>The contracts\<close>

text \<open>Well-formed: the unchecked fields hold JSON values. An empty list of tools is read as none.\<close>

definition wf_agent :: "agent_record \<Rightarrow> bool" where
  "wf_agent a \<longleftrightarrow> list_all wf_json
     [ag_model a, ag_updated_at a, ag_is_shared a, ag_share_url a, ag_share_token a]"

definition stored_agent :: "agent_record \<Rightarrow> agent_record" where
  "stored_agent a = a\<lparr>ag_tools := (if ag_tools a = Some [] then None else ag_tools a)\<rparr>"

definition wf_project :: "project_record \<Rightarrow> bool" where
  "wf_project p \<longleftrightarrow> list_all wf_json [pj_last_accessed_at p, pj_session_count p, pj_metadata p]"

definition wf_skill :: "skill_record \<Rightarrow> bool" where
  "wf_skill s \<longleftrightarrow> list_all wf_json [sk_updated_at s, sk_is_shared s, sk_share_url s]"

definition wf_command :: "slash_command \<Rightarrow> bool" where
  "wf_command c \<longleftrightarrow> wf_json (sc_updated_at c)"

definition wf_preset :: "tool_preset \<Rightarrow> bool" where
  "wf_preset p \<longleftrightarrow> wf_json (tp_description p) \<and>
     list_all wf_json (tp_allowed_tools p) \<and> list_all wf_json (tp_disallowed_tools p)"

lemmas field_read_defs = str_get_def raw_get_def dict_get_or_def

lemma parse_tools_stored [simp]:
  "parse_tools (json_of_opt json_strings t) = (if t = Some [] then None else t)"
  by (cases t) (simp_all add: parse_tools_def json_strings_def Let_def)

interpretation agent_registry: stored_records "agents L" stored_agent wf_agent
proof (unfold_locales, goal_cases)
  case (1 x)
  then show ?case
    by (cases "ag_tools x") (simp_all add: agents_def agent_payload_def wf_agent_def)
next
  case (2 x i)
  show ?case
    by (cases x) (simp add: agents_def agent_payload_def agent_of_dict_def field_read_defs stored_agent_def)
qed (simp_all add: agents_def stored_agent_def wf_agent_def record_key_def)

interpretation project_registry: stored_records "projects L" "\<lambda>p. p" wf_project
  by unfold_locales (auto simp: projects_def project_payload_def project_of_dict_def field_read_defs
      wf_project_def record_key_def)

interpretation skill_registry: stored_records "skills L" "\<lambda>s. s" wf_skill
  by unfold_locales (auto simp: skills_def skill_payload_def skill_of_dict_def field_read_defs
      wf_skill_def record_key_def)

interpretation command_registry: stored_records "slash_commands L" "\<lambda>c. c" wf_command
  by unfold_locales (auto simp: slash_commands_def command_payload_def command_of_dict_def
      field_read_defs wf_command_def record_key_def)

interpretation preset_registry: stored_records "tool_presets L" "\<lambda>p. p" wf_preset
  by unfold_locales (auto simp: tool_presets_def preset_payload_def preset_of_dict_def
      field_read_defs wf_preset_def record_key_def)

end
