(* ===== verification/RegistryProperties.thy ===== *)
theory RegistryProperties
  imports RegistryServices Reference
begin

text \<open>
  The registries as finite maps: every history of operations of the agent service agrees with a
  map from identifiers to agents, and creating projects keeps their names and paths unique,
  which renaming one does not. Both hold on every cache that keeps its contract while nothing
  expires, for the operations that return.
\<close>

text \<open>A registry on a cache that keeps its contract.\<close>

lemma agents_on: "live_cache L C ent ages matches \<Longrightarrow>
    record_store L C ent ages matches (agents L) stored_agent wf_agent"
  by (rule record_store.intro) (assumption, rule agent_registry.stored_records_axioms)

lemma projects_on: "live_cache L C ent ages matches \<Longrightarrow>
    record_store L C ent ages matches (projects L) (\<lambda>p. p) wf_project"
  by (rule record_store.intro) (assumption, rule project_registry.stored_records_axioms)

section \<open>Agents\<close>

text \<open>The agents that a cache holds, as a map.\<close>

definition agents_held :: "pylib \<Rightarrow> store \<Rightarrow> (string \<Rightarrow> agent_record option) \<Rightarrow> bool" where
  "agents_held L m M \<longleftrightarrow> holds L (agents L) stored_agent wf_agent m M"

datatype agent_op =
    CreateAgent string string string "string list option" "string option"
  | GetAgent string
  | UpdateAgent string string string string "string list option" "string option"
  | DeleteAgent string
  | ShareAgent string string
  | ListAgents

datatype agent_answer =
    Made agent_record
  | Found "agent_record option"
  | Removed bool
  | Listed "agent_record list"

definition answer :: "('a \<Rightarrow> 'b) \<Rightarrow> ('w, 'a) io \<Rightarrow> ('w, 'b) io" where
  "answer f m = and_then m (\<lambda>x. ret (f x))"

fun agent_do :: "pylib \<Rightarrow> 'c cache \<Rightarrow> agent_op \<Rightarrow> (('c, 'd) world, agent_answer) io" where
  "agent_do L C (CreateAgent n d p t m) = answer Made (create_agent L C n d p t m)"
| "agent_do L C (GetAgent i) = answer Found (get_agent L C i)"
| "agent_do L C (UpdateAgent i n d p t m) = answer Found (update_agent L C i n d p t m)"
| "agent_do L C (DeleteAgent i) = answer Removed (delete_agent L C i)"
| "agent_do L C (ShareAgent i u) = answer Found (share_agent L C i u)"
| "agent_do L C ListAgents = answer Listed (list_agents L C)"

fun agent_history :: "pylib \<Rightarrow> 'c cache \<Rightarrow> agent_op list \<Rightarrow> (('c, 'd) world, agent_answer list) io" where
  "agent_history L C [] = ret []"
| "agent_history L C (op # ops) =
     and_then (agent_do L C op) (\<lambda>r. and_then (agent_history L C ops) (\<lambda>rs. ret (r # rs)))"

text \<open>
  The specification: what an operation may answer on a map, and the map after it. Times and
  tokens are whatever the answer says; an identifier must be new.
\<close>

fun agent_ok :: "agent_op \<Rightarrow> agent_answer \<Rightarrow> (string \<Rightarrow> agent_record option) \<Rightarrow> bool" where
  "agent_ok (CreateAgent n d p t m) (Made a) M =
     (M (ag_id a) = None \<and>
      a = \<lparr>ag_id = ag_id a, ag_name = n, ag_description = d, ag_prompt = p, ag_tools = t,
           ag_model = json_of_opt JStr m, ag_created_at = ag_created_at a, ag_updated_at = JNull,
           ag_is_shared = JBool False, ag_share_url = JNull, ag_share_token = JNull\<rparr>)"
| "agent_ok (GetAgent i) (Found r) M = (r = M i)"
| "agent_ok (UpdateAgent i n d p t m) (Found r) M =
     (case (M i, r) of
        (None, None) \<Rightarrow> True
      | (Some x, Some a) \<Rightarrow>
          a = x\<lparr>ag_name := n, ag_description := d, ag_prompt := p, ag_tools := t,
                ag_model := json_of_opt JStr m, ag_updated_at := ag_updated_at a\<rparr>
      | _ \<Rightarrow> False)"
| "agent_ok (DeleteAgent i) (Removed b) M = (b = (M i \<noteq> None))"
| "agent_ok (ShareAgent i u) (Found r) M =
     (case (M i, r) of
        (None, None) \<Rightarrow> True
      | (Some x, Some a) \<Rightarrow>
          a = x\<lparr>ag_is_shared := JBool True, ag_share_url := JStr u, ag_share_token := ag_share_token a\<rparr>
      | _ \<Rightarrow> False)"
| "agent_ok ListAgents (Listed xs) M =
     (\<exists>ids. distinct ids \<and> set ids = dom M \<and> xs = map (\<lambda>i. the (M i)) ids)"
| "agent_ok _ _ M = False"

fun agent_next :: "agent_op \<Rightarrow> agent_answer \<Rightarrow> (string \<Rightarrow> agent_record option) \<Rightarrow> (string \<Rightarrow> agent_record option)"
where
  "agent_next (CreateAgent n d p t m) (Made a) M = M(ag_id a \<mapsto> stored_agent a)"
| "agent_next (UpdateAgent i n d p t m) (Found (Some a)) M = M(i \<mapsto> stored_agent a)"
| "agent_next (ShareAgent i u) (Found (Some a)) M = M(i \<mapsto> stored_agent a)"
| "agent_next (DeleteAgent i) _ M = M(i := None)"
| "agent_next _ _ M = M"

fun agents_agree ::
  "agent_op list \<Rightarrow> agent_answer list \<Rightarrow> (string \<Rightarrow> agent_record option) \<Rightarrow> bool" where
  "agents_agree [] [] M = True"
| "agents_agree (op # ops) (r # rs) M = (agent_ok op r M \<and> agents_agree ops rs (agent_next op r M))"
| "agents_agree _ _ M = False"

fun agents_after ::
  "agent_op list \<Rightarrow> agent_answer list \<Rightarrow> (string \<Rightarrow> agent_record option) \<Rightarrow> (string \<Rightarrow> agent_record option)"
where
  "agents_after (op # ops) (r # rs) M = agents_after ops rs (agent_next op r M)"
| "agents_after _ _ M = M"

text \<open>Identifiers are drawn once: none drawn later is in use.\<close>

definition new_ids :: "('c, 'd) world \<Rightarrow> (string \<Rightarrow> 'a option) \<Rightarrow> bool" where
  "new_ids w M \<longleftrightarrow> inj (w_tokens w) \<and> dom M \<subseteq> w_tokens w ` {..< w_draws w}"

lemma new_ids_fresh: "new_ids w M \<Longrightarrow> M (w_tokens w (w_draws w)) = None"
proof (rule ccontr)
  assume new: "new_ids w M" and "M (w_tokens w (w_draws w)) \<noteq> None"
  then obtain n where "n < w_draws w" and "w_tokens w (w_draws w) = w_tokens w n"
    by (auto simp: new_ids_def)
  moreover from new have "inj (w_tokens w)" by (simp add: new_ids_def)
  ultimately show False by (simp add: inj_eq)
qed

lemma wf_agent_sel: "wf_agent a \<longleftrightarrow> wf_json (ag_model a) \<and> wf_json (ag_updated_at a) \<and>
    wf_json (ag_is_shared a) \<and> wf_json (ag_share_url a) \<and> wf_json (ag_share_token a)"
  by (simp add: wf_agent_def)

lemma stored_agent_id [simp]: "ag_id (stored_agent a) = ag_id a"
  by (simp add: stored_agent_def)

context record_store
begin

text \<open>An update whose change may draw from the world but leaves the cache alone.\<close>

lemma update_record_step:
  assumes h: "holds L R canon good (ent (w_cache w)) M" and run: "update_record C R i change w = (Inr r, w')"
    and change: "sound_change good change"
    and rel: "\<forall>x v y v'. change x v = (Inr y, v') \<longrightarrow> rel x y"
  shows "(case (M i, r) of (None, None) \<Rightarrow> True | (Some x, Some y) \<Rightarrow> rel x y | _ \<Rightarrow> False) \<and>
    holds L R canon good (ent (w_cache w')) (case r of None \<Rightarrow> M | Some y \<Rightarrow> M(i \<mapsto> canon y)) \<and>
    w_tokens w' = w_tokens w \<and> w_draws w \<le> w_draws w'"
proof (cases "M i")
  case None
  with update_record_map(1) [OF h run change] have "r = None" and "holds L R canon good (ent (w_cache w')) M"
    and w': "w' = w\<lparr>w_cache := w_cache w'\<rparr>" by simp_all
  moreover have "w_tokens w' = w_tokens w" and "w_draws w' = w_draws w"
    by (subst w', simp)+
  ultimately show ?thesis using None by simp
next
  case (Some x)
  from update_record_map(2) [OF h run change Some] obtain y v v' where "r = Some y"
    and v: "v = w\<lparr>w_cache := w_cache v\<rparr>" and ch: "change x v = (Inr y, v')"
    and w': "w' = v'\<lparr>w_cache := w_cache w'\<rparr>" and h': "holds L R canon good (ent (w_cache w')) (M(i \<mapsto> canon y))"
    by blast
  moreover have "w_tokens v = w_tokens w" and "w_draws v = w_draws w"
    by (subst v, simp)+
  moreover have "w_tokens w' = w_tokens v'" and "w_draws w' = w_draws v'"
    by (subst w', simp)+
  moreover from rel ch have "rel x y" by blast
  ultimately show ?thesis
    using Some sound_changeD [OF change holds_wf [OF h Some] ch] by simp
qed

end

lemma new_ids_mono:
  assumes "new_ids w M" and "w_tokens w' = w_tokens w" and "w_draws w \<le> w_draws w'" and "dom M' \<subseteq> dom M"
  shows "new_ids w' M'"
  using assms by (fastforce simp: new_ids_def)

text \<open>The two changes of an agent.\<close>

lemma agent_changes:
  "sound_change wf_agent (\<lambda>existing. and_then (now_text L) (\<lambda>now.
     ret (existing\<lparr>ag_name := n, ag_description := d, ag_prompt := p, ag_tools := t,
                   ag_model := json_of_opt JStr m, ag_updated_at := JStr now\<rparr>)))"
  "sound_change wf_agent (\<lambda>existing. and_then draw_token (\<lambda>token.
     ret (existing\<lparr>ag_is_shared := JBool True, ag_share_url := JStr u, ag_share_token := JStr token\<rparr>)))"
  by (auto simp: sound_change_def now_text_def io_inv wf_agent_sel utc_now_def draw_token_def)

lemma agent_change_effects:
  "\<forall>x v y v'. and_then (now_text L) (\<lambda>now.
     ret (x\<lparr>ag_name := n, ag_description := d, ag_prompt := p, ag_tools := t,
            ag_model := json_of_opt JStr m, ag_updated_at := JStr now\<rparr>)) v = (Inr y, v') \<longrightarrow>
     y = x\<lparr>ag_name := n, ag_description := d, ag_prompt := p, ag_tools := t,
           ag_model := json_of_opt JStr m, ag_updated_at := ag_updated_at y\<rparr>"
  "\<forall>x v y v'. and_then draw_token (\<lambda>token.
     ret (x\<lparr>ag_is_shared := JBool True, ag_share_url := JStr u, ag_share_token := JStr token\<rparr>)) v =
       (Inr y, v') \<longrightarrow>
     y = x\<lparr>ag_is_shared := JBool True, ag_share_url := JStr u, ag_share_token := ag_share_token y\<rparr>"
  by (auto simp: io_inv)

lemma agent_do_step:
  assumes live: "live_cache L C ent ages matches" and h: "agents_held L (ent (w_cache w)) M"
    and new: "new_ids w M" and run: "agent_do L C op w = (Inr r, w')"
  shows "agent_ok op r M \<and> agents_held L (ent (w_cache w')) (agent_next op r M) \<and> new_ids w' (agent_next op r M)"
proof -
  note on = agents_on [OF live]
  note h' = h [unfolded agents_held_def]
  show ?thesis
  proof (cases op)
    case (CreateAgent n d p t m)
    with run obtain a where r: "r = Made a" and mk: "create_agent L C n d p t m w = (Inr a, w')"
      by (auto simp: answer_def io_inv)
    note step = record_store.create_record_map [OF on h' mk [unfolded create_agent_def]]
    have a: "a = \<lparr>ag_id = w_tokens w (w_draws w), ag_name = n, ag_description = d, ag_prompt = p,
        ag_tools = t, ag_model = json_of_opt JStr m, ag_created_at = isoformat L (w_clock w (w_ticks w)),
        ag_updated_at = JNull, ag_is_shared = JBool False, ag_share_url = JNull, ag_share_token = JNull\<rparr>"
      by (rule step(1)) (simp add: wf_agent_sel)
    have h2: "agents_held L (ent (w_cache w')) (M(w_tokens w (w_draws w) \<mapsto> stored_agent a))"
      unfolding agents_held_def by (rule step(2)) (simp add: wf_agent_sel)
    have w': "w' = w\<lparr>w_draws := Suc (w_draws w), w_ticks := Suc (w_ticks w), w_cache := w_cache w'\<rparr>"
      by (rule step(3)) (simp add: wf_agent_sel)
    have "w_tokens w' = w_tokens w" and "w_draws w' = Suc (w_draws w)"
      by (subst w', simp)+
    with new have "new_ids w' (M(w_tokens w (w_draws w) \<mapsto> stored_agent a))"
      by (auto simp: new_ids_def lessThan_Suc)
    with CreateAgent r a h2 new_ids_fresh [OF new] show ?thesis by simp
  next
    case (GetAgent i)
    with run obtain x where r: "r = Found x" and get: "get_agent L C i w = (Inr x, w')"
      by (auto simp: answer_def io_inv)
    note step = record_store.get_record_map [OF on h' get [unfolded get_agent_def]]
    have "w_tokens w' = w_tokens w" and "w_draws w' = w_draws w"
      by (subst step(3), simp)+
    with new have "new_ids w' M"
      by (simp add: new_ids_def)
    with GetAgent r step(1,2) h show ?thesis by simp
  next
    case (UpdateAgent i n d p t m)
    with run obtain x where r: "r = Found x" and up: "update_agent L C i n d p t m w = (Inr x, w')"
      by (auto simp: answer_def io_inv)
    note step = record_store.update_record_step [OF on h' up [unfolded update_agent_def] agent_changes(1)
      agent_change_effects(1)]
    show ?thesis
      using step UpdateAgent r new
      by (cases x; cases "M i") (auto simp: agents_held_def new_ids_def)
  next
    case (DeleteAgent i)
    with run obtain b where r: "r = Removed b" and del: "delete_agent L C i w = (Inr b, w')"
      by (auto simp: answer_def io_inv)
    note step = record_store.delete_record_map [OF on h' del [unfolded delete_agent_def]]
    have "w_tokens w' = w_tokens w" and "w_draws w' = w_draws w"
      by (subst step(3), simp)+
    with new have "new_ids w' (M(i := None))"
      by (auto simp: new_ids_def)
    with DeleteAgent r step(1,2) show ?thesis by (simp add: agents_held_def)
  next
    case (ShareAgent i u)
    with run obtain x where r: "r = Found x" and up: "share_agent L C i u w = (Inr x, w')"
      by (auto simp: answer_def io_inv)
    note step = record_store.update_record_step [OF on h' up [unfolded share_agent_def] agent_changes(2)
      agent_change_effects(2)]
    show ?thesis
      using step ShareAgent r new
      by (cases x; cases "M i") (auto simp: agents_held_def new_ids_def)
  next
    case ListAgents
    with run obtain xs where r: "r = Listed xs" and ls: "list_agents L C w = (Inr xs, w')"
      by (auto simp: answer_def io_inv)
    note step = record_store.list_records_map [OF on h' ls [unfolded list_agents_def]]
    have "w_tokens w' = w_tokens w" and "w_draws w' = w_draws w"
      by (subst step(3), simp)+
    with new have "new_ids w' M"
      by (simp add: new_ids_def)
    with ListAgents r step(1,2) h show ?thesis by simp
  qed
qed

text \<open>
  C9: Any sequence of agent operations (list, create, get, update, delete, share), with
  fresh identifiers and no call raising, answers as a finite map from identifiers to agents
  would that the same sequence updates, and leaves that map stored.
\<close>

theorem agent_history_refines:
  assumes "live_cache L C ent ages matches" and "agents_held L (ent (w_cache w)) M"
    and "new_ids w M" and "agent_history L C ops w = (Inr rs, w')"
  shows "agents_agree ops rs M \<and> agents_held L (ent (w_cache w')) (agents_after ops rs M)"
  using assms(2-)
proof (induction ops arbitrary: w M rs)
  case Nil
  then show ?case by simp
next
  case (Cons op ops)
  from Cons.prems(3) obtain r rs' w1 where run: "agent_do L C op w = (Inr r, w1)"
    and rest: "agent_history L C ops w1 = (Inr rs', w')" and rs: "rs = r # rs'"
    by (auto simp: io_inv simp del: agent_do.simps)
  note step = agent_do_step [OF assms(1) Cons.prems(1,2) run]
  with Cons.IH [OF _ _ rest, of "agent_next op r M"] rs show ?case by simp
qed

definition first_agent :: agent_record where
  "first_agent = \<lparr>ag_id = ''a'', ag_name = ''n'', ag_description = ''d'', ag_prompt = ''p'',
     ag_tools = Some [], ag_model = JNull, ag_created_at = isoformat ref_lib 1000000,
     ag_updated_at = JNull, ag_is_shared = JBool False, ag_share_url = JNull, ag_share_token = JNull\<rparr>"

definition agent_ops :: "agent_op list" where
  "agent_ops = [CreateAgent ''n'' ''d'' ''p'' (Some []) None, DeleteAgent ''a'', GetAgent ''a'']"

lemmas registry_eval = create_record_def insert_record_def store_record_def index_record_def
  update_record_def delete_record_def get_record_def list_records_def record_key_def
  rc_remove_from_set_def sv_srem_def rc_set_members_def sv_smembers_def

lemma agent_ops_run:
  "agent_history ref_lib (ref_cache 0) agent_ops (ref_world ()) =
     (Inr [Made first_agent, Removed True, Found None],
      snd (agent_history ref_lib (ref_cache 0) agent_ops (ref_world ())))"
  by (rule fst_run)
     (simp add: agent_ops_def first_agent_def answer_def create_agent_def delete_agent_def
      get_agent_def agents_def agent_payload_def registry_eval utc_now_def draw_token_def ref_eval
      del: eval_rules)

lemma agent_history_refines_witness:
  "agents_agree agent_ops [Made first_agent, Removed True, Found None] Map.empty"
proof -
  have "agents_held ref_lib (ref_ent (w_cache (ref_world ()))) Map.empty"
    unfolding agents_held_def holds_def slot_def by (simp add: ref_world_empty del: ref_world_sel)
  moreover have "new_ids (ref_world ()) (Map.empty :: string \<Rightarrow> agent_record option)"
    by (simp add: new_ids_def ref_tokens_inj)
  ultimately show ?thesis
    using agent_history_refines [OF ref_live _ _ agent_ops_run] by blast
qed

section \<open>Projects\<close>

definition projects_held :: "pylib \<Rightarrow> store \<Rightarrow> (string \<Rightarrow> project_record option) \<Rightarrow> bool" where
  "projects_held L m M \<longleftrightarrow> holds L (projects L) (\<lambda>p. p) wf_project m M"

definition unique_projects :: "(string \<Rightarrow> project_record option) \<Rightarrow> bool" where
  "unique_projects M \<longleftrightarrow>
     (\<forall>i j p q. M i = Some p \<and> M j = Some q \<and> i \<noteq> j \<longrightarrow> pj_name p \<noteq> pj_name q \<and> pj_path p \<noteq> pj_path q)"

lemma unique_projects_insert:
  assumes "unique_projects M" and "\<not> (\<exists>q \<in> ran M. pj_name q = pj_name p \<or> pj_path q = pj_path p)"
  shows "unique_projects (M(i \<mapsto> p))"
  using assms by (fastforce simp: unique_projects_def ran_def)

lemma wf_json_metadata: "(\<forall>d. metadata = Some d \<longrightarrow> wf_dict d) \<Longrightarrow> wf_json (json_of_opt JObj metadata)"
  by (cases metadata) simp_all

text \<open>
  Create_project refuses a name or path exactly when a stored project has it, and then
  changes no project; otherwise it adds one with that name and path, so projects that differ
  pairwise in name and path still do.
\<close>

theorem create_project_unique:
  assumes "live_cache L C ent ages matches" and "projects_held L (ent (w_cache w)) M"
    and "\<forall>d. metadata = Some d \<longrightarrow> wf_dict d"
    and "create_project L C name path metadata w = (Inr r, w')"
  shows "(r = None \<longleftrightarrow> (\<exists>q \<in> ran M. pj_name q = name \<or> pj_path q = project_path path name)) \<and>
    (case r of
       None \<Rightarrow> projects_held L (ent (w_cache w')) M
     | Some p \<Rightarrow> pj_name p = name \<and> pj_path p = project_path path name \<and>
         projects_held L (ent (w_cache w')) (M(pj_id p \<mapsto> p)) \<and>
         (unique_projects M \<longrightarrow> unique_projects (M(pj_id p \<mapsto> p))))"
proof -
  note on = projects_on [OF assms(1)]
  let ?taken = "\<lambda>q. pj_name q = name \<or> pj_path q = project_path path name"
  let ?build = "\<lambda>i now. \<lparr>pj_id = i, pj_name = name, pj_path = project_path path name,
    pj_created_at = isoformat L now, pj_last_accessed_at = JNull, pj_session_count = JInt 0,
    pj_metadata = json_of_opt JObj metadata\<rparr>"
  from assms(4) obtain existing w1 where ls: "list_projects L C w = (Inr existing, w1)"
    and k: "(if list_ex ?taken existing then ret None
      else and_then (create_record C (projects L) ?build) (\<lambda>p. ret (Some p))) w1 = (Inr r, w')"
    by (auto simp: create_project_def io_inv Let_def)
  note ls = record_store.list_records_map [OF on assms(2) [unfolded projects_held_def]
      ls [unfolded list_projects_def]]
  have "ran M = (\<lambda>i. the (M i)) ` dom M"
    by (force simp: ran_def)
  with ls(1) have "set existing = ran M" by (metis set_map)
  then have ex: "list_ex ?taken existing \<longleftrightarrow> (\<exists>q \<in> ran M. ?taken q)"
    by (simp add: list_ex_iff)
  have h1: "holds L (projects L) (\<lambda>p. p) wf_project (ent (w_cache w1)) M"
    using assms(2) ls(2) by (simp add: projects_held_def)
  show ?thesis
  proof (cases "list_ex ?taken existing")
    case True
    with k ex h1 show ?thesis by (auto simp: projects_held_def)
  next
    case False
    with k obtain p where mk: "create_record C (projects L) ?build w1 = (Inr p, w')" and r: "r = Some p"
      by (auto simp: io_inv)
    have "wf_project (?build (w_tokens w1 (w_draws w1)) (w_clock w1 (w_ticks w1)))"
      using wf_json_metadata [OF assms(3)] by (simp add: wf_project_def)
    note step = record_store.create_record_map [OF on h1 mk this]
    from step(1,2) have p: "pj_name p = name" "pj_path p = project_path path name"
      and h2: "projects_held L (ent (w_cache w')) (M(pj_id p \<mapsto> p))"
      by (simp_all add: projects_held_def)
    moreover have "unique_projects M \<longrightarrow> unique_projects (M(pj_id p \<mapsto> p))"
      using False ex p by (intro impI unique_projects_insert) auto
    ultimately show ?thesis
      using False ex r by auto
  qed
qed

definition first_project :: project_record where
  "first_project = \<lparr>pj_id = ''a'', pj_name = ''n'', pj_path = ''n'',
     pj_created_at = isoformat ref_lib 1000000, pj_last_accessed_at = JNull, pj_session_count = JInt 0,
     pj_metadata = JNull\<rparr>"

lemma create_project_run:
  "create_project ref_lib (ref_cache 0) ''n'' None None (ref_world ()) =
     (Inr (Some first_project), snd (create_project ref_lib (ref_cache 0) ''n'' None None (ref_world ())))"
  by (rule fst_run)
     (simp add: create_project_def first_project_def list_projects_def project_path_def Let_def
      projects_def project_payload_def registry_eval utc_now_def draw_token_def ref_eval
      del: eval_rules)

lemma create_project_unique_witness:
  "projects_held ref_lib
     (ref_ent (w_cache (snd (create_project ref_lib (ref_cache 0) ''n'' None None (ref_world ())))))
     [''a'' \<mapsto> first_project]"
proof -
  have "projects_held ref_lib (ref_ent (w_cache (ref_world ()))) Map.empty"
    unfolding projects_held_def holds_def slot_def by (simp add: ref_world_empty del: ref_world_sel)
  from create_project_unique [OF ref_live this _ create_project_run]
  show ?thesis by (simp add: first_project_def)
qed

text \<open>
  Renaming a project checks nothing: after it two projects may have the same name.
\<close>

lemma rename_project_duplicates:
  fixes w w' :: "('c, 'd) world"
  assumes live: "live_cache L C ent ages matches" and h: "projects_held L (ent (w_cache w)) M"
    and two: "M i = Some p" "M j = Some q" "i \<noteq> j" and named: "pj_name q \<noteq> []"
    and run: "update_project L C i (Some (pj_name q)) None w = (Inr r, w')"
  shows "\<exists>p'. projects_held L (ent (w_cache w')) (M(i \<mapsto> p')) \<and> \<not> unique_projects (M(i \<mapsto> p'))"
proof -
  note on = projects_on [OF live]
  let ?change = "\<lambda>existing. ret (existing\<lparr>pj_name := (if given (Some (pj_name q)) then the (Some (pj_name q))
      else pj_name existing), pj_metadata := (case None of None \<Rightarrow> pj_metadata existing | Some m \<Rightarrow> JObj m)\<rparr>)
    :: (('c, 'd) world, project_record) io"
  have "sound_change wf_project ?change"
    by (auto simp: sound_change_def wf_project_def)
  from record_store.update_record_map(2) [OF on h [unfolded projects_held_def]
      run [unfolded update_project_def] this two(1)]
  obtain y and v v' :: "('c, 'd) world" where "?change p v = (Inr y, v')"
    and "holds L (projects L) (\<lambda>p. p) wf_project (ent (w_cache w')) (M(i \<mapsto> y))"
    by blast
  moreover from this named have "pj_name y = pj_name q" by auto
  moreover have "\<not> unique_projects (M(i \<mapsto> y))" if "pj_name y = pj_name q"
  proof -
    have "(M(i \<mapsto> y)) i = Some y" and "(M(i \<mapsto> y)) j = Some q"
      using two by simp_all
    with that two(3) show ?thesis unfolding unique_projects_def by metis
  qed
  ultimately show ?thesis
    by (auto simp: projects_held_def)
qed

end
