(* ===== verification/Checkpoints.thy ===== *)
theory Checkpoints
  imports RegistryServices SessionCache
begin

text \<open>
  \<open>CheckpointService\<close>, \<open>services/checkpoint.py\<close>: file checkpoints of a session, each under a
  key of its own, in the list of its session, and in an index by the UUID of the user message.
  Without a cache a checkpoint is made but not kept.
\<close>

record checkpoint =
  cp_id :: string
  cp_session_id :: string
  cp_user_message_uuid :: string
  cp_created_at :: datetime
  cp_files_modified :: "string list"

record 'c checkpoint_service =
  cs_lib :: pylib
  cs_cache :: "'c cache option"
  cs_ttl :: int

definition checkpoints_key :: "string \<Rightarrow> string" where
  "checkpoints_key session_id = ''checkpoints:'' @ session_id"

definition checkpoint_key :: "string \<Rightarrow> string" where
  "checkpoint_key checkpoint_id = ''checkpoint:'' @ checkpoint_id"

definition uuid_index_key :: "string \<Rightarrow> string" where
  "uuid_index_key user_message_uuid = ''checkpoint_uuid_index:'' @ user_message_uuid"

definition checkpoint_payload :: "pylib \<Rightarrow> checkpoint \<Rightarrow> json dict" where
  "checkpoint_payload L c =
     [(''id'', JStr (cp_id c)),
      (''session_id'', JStr (cp_session_id c)),
      (''user_message_uuid'', JStr (cp_user_message_uuid c)),
      (''created_at'', JStr (isoformat L (cp_created_at c))),
      (''files_modified'', json_strings (cp_files_modified c))]"

section \<open>Parsing\<close>

definition checkpoint_of_dict :: "pylib \<Rightarrow> json dict \<Rightarrow> exn + checkpoint" where
  "checkpoint_of_dict L data =
     bind_sum (dict_item data ''id'') (\<lambda>checkpoint_id.
     bind_sum (dict_item data ''session_id'') (\<lambda>session_id.
     bind_sum (dict_item data ''user_message_uuid'') (\<lambda>user_message_uuid.
     bind_sum (dict_item data ''created_at'') (\<lambda>created_at_str.
     let files_modified =
       (case dict_get_or data ''files_modified'' (JArr []) of
          JArr xs \<Rightarrow> map (py_str L) xs
        | _ \<Rightarrow> []) in
     bind_sum (iso_datetime L (py_str L created_at_str)) (\<lambda>created_at.
     Inr \<lparr>cp_id = py_str L checkpoint_id, cp_session_id = py_str L session_id,
          cp_user_message_uuid = py_str L user_message_uuid, cp_created_at = created_at,
          cp_files_modified = files_modified\<rparr>)))))"

text \<open>
  A value that is no dictionary cannot be subscripted with a string: \<open>TypeError\<close>, which is
  caught as well.
\<close>

definition parse_checkpoint_data :: "pylib \<Rightarrow> json \<Rightarrow> exn + checkpoint option" where
  "parse_checkpoint_data L data =
     (case data of
        JObj d \<Rightarrow> none_on_parse_error (bind_sum (checkpoint_of_dict L d) (\<lambda>c. Inr (Some c)))
      | _ \<Rightarrow> Inr None)"

section \<open>Operations\<close>

definition cache_checkpoint :: "'c checkpoint_service \<Rightarrow> checkpoint \<Rightarrow> (('c, 'd) world, unit) io" where
  "cache_checkpoint S c =
     (case cs_cache S of
        None \<Rightarrow> ret ()
      | Some C \<Rightarrow>
          and_then (on_cache (c_set_json C (checkpoint_key (cp_id c))
            (checkpoint_payload (cs_lib S) c) (Some (cs_ttl S)))) (\<lambda>_. ret ()))"

definition get_cached_checkpoint ::
  "'c checkpoint_service \<Rightarrow> string \<Rightarrow> (('c, 'd) world, checkpoint option) io" where
  "get_cached_checkpoint S checkpoint_id =
     (case cs_cache S of
        None \<Rightarrow> ret None
      | Some C \<Rightarrow>
          and_then (on_cache (c_get_json C (checkpoint_key checkpoint_id))) (\<lambda>parsed.
            if truthy parsed then lift_sum (parse_checkpoint_data (cs_lib S) parsed) else ret None))"

text \<open>The list that a session's entry holds, before the new checkpoint is appended.\<close>

definition checkpoints_raw :: "json dict \<Rightarrow> json list" where
  "checkpoints_raw data = (case dict_get_or data ''checkpoints'' (JArr []) of JArr xs \<Rightarrow> xs | _ \<Rightarrow> [])"

definition with_checkpoint :: "pylib \<Rightarrow> checkpoint \<Rightarrow> json \<Rightarrow> exn + json dict" where
  "with_checkpoint L c found =
     (case (if found = JNull then JObj [(''checkpoints'', JArr [])] else found) of
        JObj data \<Rightarrow>
          Inr (dict_set ''checkpoints'' (JArr (checkpoints_raw data @ [JObj (checkpoint_payload L c)])) data)
      | _ \<Rightarrow> Inl (AttributeError ''get''))"

definition add_to_session_checkpoints ::
  "'c checkpoint_service \<Rightarrow> checkpoint \<Rightarrow> (('c, 'd) world, unit) io" where
  "add_to_session_checkpoints S c =
     (case cs_cache S of
        None \<Rightarrow> ret ()
      | Some C \<Rightarrow>
          let key = checkpoints_key (cp_session_id c) in
          and_then (on_cache (c_get_json C key)) (\<lambda>found.
          and_then (lift_sum (with_checkpoint (cs_lib S) c found)) (\<lambda>data.
          and_then (on_cache (c_set_json C key data (Some (cs_ttl S)))) (\<lambda>_. ret ()))))"

definition create_uuid_index :: "'c checkpoint_service \<Rightarrow> checkpoint \<Rightarrow> (('c, 'd) world, unit) io" where
  "create_uuid_index S c =
     (case cs_cache S of
        None \<Rightarrow> ret ()
      | Some C \<Rightarrow>
          and_then (on_cache (c_cache_set C (uuid_index_key (cp_user_message_uuid c)) (cp_id c)
            (Some (cs_ttl S)))) (\<lambda>_. ret ()))"

definition create_checkpoint ::
  "'c checkpoint_service \<Rightarrow> string \<Rightarrow> string \<Rightarrow> string list \<Rightarrow> (('c, 'd) world, checkpoint) io" where
  "create_checkpoint S session_id user_message_uuid files_modified =
     and_then utc_now (\<lambda>now.
     and_then draw_token (\<lambda>checkpoint_id.
     let c = \<lparr>cp_id = checkpoint_id, cp_session_id = session_id,
              cp_user_message_uuid = user_message_uuid, cp_created_at = now,
              cp_files_modified = files_modified\<rparr> in
     and_then (cache_checkpoint S c) (\<lambda>_.
     and_then (add_to_session_checkpoints S c) (\<lambda>_.
     and_then (create_uuid_index S c) (\<lambda>_.
     ret c)))))"

definition get_checkpoint ::
  "'c checkpoint_service \<Rightarrow> string \<Rightarrow> (('c, 'd) world, checkpoint option) io" where
  "get_checkpoint S checkpoint_id = get_cached_checkpoint S checkpoint_id"

definition get_checkpoint_by_user_message_uuid ::
  "'c checkpoint_service \<Rightarrow> string \<Rightarrow> (('c, 'd) world, checkpoint option) io" where
  "get_checkpoint_by_user_message_uuid S user_message_uuid =
     (case cs_cache S of
        None \<Rightarrow> ret None
      | Some C \<Rightarrow>
          and_then (on_cache (c_get C (uuid_index_key user_message_uuid))) (\<lambda>checkpoint_id.
            if given checkpoint_id then get_checkpoint S (the checkpoint_id) else ret None))"

text \<open>The loop over the rows: what is no dictionary or does not parse is skipped.\<close>

fun parse_checkpoints :: "pylib \<Rightarrow> json list \<Rightarrow> exn + checkpoint list" where
  "parse_checkpoints L [] = Inr []"
| "parse_checkpoints L (JObj d # rows) =
     bind_sum (parse_checkpoint_data L (JObj d)) (\<lambda>c.
     bind_sum (parse_checkpoints L rows) (\<lambda>cs.
     Inr (case c of None \<Rightarrow> cs | Some x \<Rightarrow> x # cs)))"
| "parse_checkpoints L (_ # rows) = parse_checkpoints L rows"

definition list_checkpoints ::
  "'c checkpoint_service \<Rightarrow> string \<Rightarrow> (('c, 'd) world, checkpoint list) io" where
  "list_checkpoints S session_id =
     (case cs_cache S of
        None \<Rightarrow> ret []
      | Some C \<Rightarrow>
          and_then (on_cache (c_get_json C (checkpoints_key session_id))) (\<lambda>found.
            if \<not> truthy found then ret []
            else case found of
              JObj data \<Rightarrow>
                (case dict_get_or data ''checkpoints'' (JArr []) of
                   JArr rows \<Rightarrow>
                     and_then (lift_sum (parse_checkpoints (cs_lib S) rows)) (\<lambda>cs.
                     ret (sort_asc cp_created_at cs))
                 | _ \<Rightarrow> ret [])
            | _ \<Rightarrow> throw (AttributeError ''get'')))"

definition validate_checkpoint ::
  "'c checkpoint_service \<Rightarrow> string \<Rightarrow> string \<Rightarrow> (('c, 'd) world, bool) io" where
  "validate_checkpoint S session_id checkpoint_id =
     and_then (get_checkpoint S checkpoint_id) (\<lambda>c.
       ret (case c of None \<Rightarrow> False | Some x \<Rightarrow> cp_session_id x = session_id))"

section \<open>Lemmas\<close>

lemma wf_checkpoint_payload [simp]: "wf_dict (checkpoint_payload L c)"
  by (simp add: checkpoint_payload_def)

lemma checkpoint_payload_nonempty [simp]: "checkpoint_payload L c \<noteq> []"
  by (simp add: checkpoint_payload_def)

text \<open>A checkpoint is read back as it was written.\<close>

context pylib_laws
begin

lemma parse_checkpoint_payload [simp]:
  "parse_checkpoint_data L (JObj (checkpoint_payload L c)) = Inr (Some c)"
  by (simp add: parse_checkpoint_data_def checkpoint_of_dict_def checkpoint_payload_def dict_read_defs
      json_strings_def iso_datetime_def fromisoformat_isoformat o_def Let_def)

lemma parse_checkpoints_payloads [simp]:
  "parse_checkpoints L (map (JObj \<circ> checkpoint_payload L) cs) = Inr cs"
  by (induction cs) simp_all

end

end
