(* ===== verification/CheckpointProperties.thy ===== *)
theory CheckpointProperties
  imports Checkpoints Reference
begin

text \<open>
  The checkpoint service as a log: over a cache that keeps its contract while nothing expires,
  the service answers from the list of the checkpoints made so far, in the order they were made.
\<close>

section \<open>The log that a store holds\<close>

definition by_id :: "checkpoint list \<Rightarrow> string \<Rightarrow> checkpoint option" where
  "by_id made i = find (\<lambda>c. cp_id c = i) made"

definition by_message :: "checkpoint list \<Rightarrow> string \<Rightarrow> checkpoint option" where
  "by_message made u = find (\<lambda>c. cp_user_message_uuid c = u) (rev made)"

definition of_session :: "checkpoint list \<Rightarrow> string \<Rightarrow> checkpoint list" where
  "of_session made s = filter (\<lambda>c. cp_session_id c = s) made"

definition session_entry :: "pylib \<Rightarrow> checkpoint list \<Rightarrow> entry option" where
  "session_entry L cs =
     (if cs = [] then None
      else Some (dump_entry L [(''checkpoints'', JArr (map (JObj \<circ> checkpoint_payload L) cs))]))"

definition log_held :: "pylib \<Rightarrow> store \<Rightarrow> checkpoint list \<Rightarrow> bool" where
  "log_held L m made \<longleftrightarrow>
     (\<forall>i. m (checkpoint_key i) = map_option (dump_entry L \<circ> checkpoint_payload L) (by_id made i)) \<and>
     (\<forall>u. m (uuid_index_key u) = map_option (Value \<circ> Utf8 \<circ> cp_id) (by_message made u)) \<and>
     (\<forall>s. m (checkpoints_key s) = session_entry L (of_session made s))"

lemma checkpoint_keys [simp]:
  "checkpoint_key i = checkpoint_key j \<longleftrightarrow> i = j"
  "checkpoints_key s = checkpoints_key t \<longleftrightarrow> s = t"
  "uuid_index_key u = uuid_index_key v \<longleftrightarrow> u = v"
  "checkpoint_key i \<noteq> checkpoints_key s" "checkpoints_key s \<noteq> checkpoint_key i"
  "checkpoint_key i \<noteq> uuid_index_key u" "uuid_index_key u \<noteq> checkpoint_key i"
  "checkpoints_key s \<noteq> uuid_index_key u" "uuid_index_key u \<noteq> checkpoints_key s"
  by (simp_all add: checkpoint_key_def checkpoints_key_def uuid_index_key_def)

lemma by_id_append: "by_id made (cp_id c) = None \<Longrightarrow>
    by_id (made @ [c]) i = (if i = cp_id c then Some c else by_id made i)"
  by (induction made) (auto simp: by_id_def)

lemma by_message_append:
  "by_message (made @ [c]) u = (if u = cp_user_message_uuid c then Some c else by_message made u)"
  by (auto simp: by_message_def)

lemma of_session_append:
  "of_session (made @ [c]) s = (if s = cp_session_id c then of_session made s @ [c] else of_session made s)"
  by (auto simp: of_session_def)

lemma by_message_mem: "by_message made u = Some c \<Longrightarrow> c \<in> set made"
  by (auto simp: by_message_def find_Some_iff) (metis length_rev nth_mem set_rev)

lemma by_id_None: "by_id made i = None \<longleftrightarrow> i \<notin> cp_id ` set made"
  by (auto simp: by_id_def find_None_iff)

lemma by_id_mem: "distinct (map cp_id made) \<Longrightarrow> c \<in> set made \<Longrightarrow> by_id made (cp_id c) = Some c"
  by (induction made) (auto simp: by_id_def)

section \<open>Operations on the log\<close>

datatype checkpoint_op =
    CreateCp string string "string list"
  | GetCp string
  | GetByMessage string
  | ListCp string
  | ValidateCp string string

datatype checkpoint_answer =
    Stored checkpoint
  | Fetched "checkpoint option"
  | Timeline "checkpoint list"
  | Valid bool

definition outcome_reply :: "('a \<Rightarrow> 'b) \<Rightarrow> ('w, 'a) io \<Rightarrow> ('w, 'b) io" where
  "outcome_reply f m = and_then m (\<lambda>x. ret (f x))"

fun checkpoint_do :: "'c checkpoint_service \<Rightarrow> checkpoint_op \<Rightarrow> (('c, 'd) world, checkpoint_answer) io" where
  "checkpoint_do S (CreateCp s u fs) = outcome_reply Stored (create_checkpoint S s u fs)"
| "checkpoint_do S (GetCp i) = outcome_reply Fetched (get_checkpoint S i)"
| "checkpoint_do S (GetByMessage u) = outcome_reply Fetched (get_checkpoint_by_user_message_uuid S u)"
| "checkpoint_do S (ListCp s) = outcome_reply Timeline (list_checkpoints S s)"
| "checkpoint_do S (ValidateCp s i) = outcome_reply Valid (validate_checkpoint S s i)"

fun checkpoint_history ::
  "'c checkpoint_service \<Rightarrow> checkpoint_op list \<Rightarrow> (('c, 'd) world, checkpoint_answer list) io" where
  "checkpoint_history S [] = ret []"
| "checkpoint_history S (op # ops) =
     and_then (checkpoint_do S op) (\<lambda>r. and_then (checkpoint_history S ops) (\<lambda>rs. ret (r # rs)))"

text \<open>What an operation may answer from a log, and the log after it.\<close>

fun checkpoint_ok :: "checkpoint_op \<Rightarrow> checkpoint_answer \<Rightarrow> checkpoint list \<Rightarrow> bool" where
  "checkpoint_ok (CreateCp s u fs) (Stored c) made =
     (cp_id c \<notin> cp_id ` set made \<and> cp_session_id c = s \<and> cp_user_message_uuid c = u \<and>
      cp_files_modified c = fs)"
| "checkpoint_ok (GetCp i) (Fetched r) made = (r = by_id made i)"
| "checkpoint_ok (GetByMessage u) (Fetched r) made = (r = by_message made u)"
| "checkpoint_ok (ListCp s) (Timeline cs) made = (cs = sort_asc cp_created_at (of_session made s))"
| "checkpoint_ok (ValidateCp s i) (Valid b) made = (b = (\<exists>c \<in> set made. cp_id c = i \<and> cp_session_id c = s))"
| "checkpoint_ok _ _ made = False"

fun checkpoint_next :: "checkpoint_answer \<Rightarrow> checkpoint list \<Rightarrow> checkpoint list" where
  "checkpoint_next (Stored c) made = made @ [c]"
| "checkpoint_next _ made = made"

fun checkpoints_agree :: "checkpoint_op list \<Rightarrow> checkpoint_answer list \<Rightarrow> checkpoint list \<Rightarrow> bool" where
  "checkpoints_agree [] [] made = True"
| "checkpoints_agree (op # ops) (r # rs) made =
     (checkpoint_ok op r made \<and> checkpoints_agree ops rs (checkpoint_next r made))"
| "checkpoints_agree _ _ made = False"

text \<open>Identifiers are drawn once, and are not empty.\<close>

definition new_cp_ids :: "('c, 'd) world \<Rightarrow> checkpoint list \<Rightarrow> bool" where
  "new_cp_ids w made \<longleftrightarrow> inj (w_tokens w) \<and> (\<forall>n. w_tokens w n \<noteq> []) \<and>
     cp_id ` set made \<subseteq> w_tokens w ` {..< w_draws w} \<and> distinct (map cp_id made)"

lemma new_cp_ids_fresh:
  assumes "new_cp_ids w made"
  shows "w_tokens w (w_draws w) \<notin> cp_id ` set made"
proof
  assume "w_tokens w (w_draws w) \<in> cp_id ` set made"
  with assms obtain n where "n < w_draws w" and "w_tokens w (w_draws w) = w_tokens w n"
    by (auto simp: new_cp_ids_def)
  moreover from assms have "inj (w_tokens w)" by (simp add: new_cp_ids_def)
  ultimately show False by (simp add: inj_eq)
qed

lemma new_cp_ids_nonempty:
  assumes "new_cp_ids w made" and "c \<in> set made"
  shows "cp_id c \<noteq> []"
proof -
  from assms obtain n where "cp_id c = w_tokens w n"
    by (auto simp: new_cp_ids_def)
  with assms(1) show ?thesis by (simp add: new_cp_ids_def)
qed

context live_cache
begin

lemma log_get:
  assumes "log_held L (ent (w_cache w)) made" and "cs_cache S = Some C" and "cs_lib S = L"
    and "get_checkpoint S i w = (Inr r, w')"
  shows "r = by_id made i" and "ent (w_cache w') = ent (w_cache w)" and "w' = w\<lparr>w_cache := w_cache w'\<rparr>"
proof -
  from assms(2-4) obtain j w1 where run: "on_cache (c_get_json C (checkpoint_key i)) w = (Inr j, w1)"
    and k: "(if truthy j then lift_sum (parse_checkpoint_data L j) else ret None) w1 = (Inr r, w')"
    by (auto simp: get_checkpoint_def get_cached_checkpoint_def io_inv)
  note get = on_cache_Inr [OF run]
  from k have "w' = w1" by (simp split: if_splits)
  with get live_get_json show "ent (w_cache w') = ent (w_cache w)" and "w' = w\<lparr>w_cache := w_cache w'\<rparr>"
    by blast+
  from get live_get_json have "j = stored_json L (ent (w_cache w) (checkpoint_key i))" by blast
  with assms(1) have "j = (case by_id made i of None \<Rightarrow> JNull | Some c \<Rightarrow> JObj (checkpoint_payload L c))"
    by (simp add: log_held_def split: option.split)
  with k show "r = by_id made i"
    by (auto split: option.splits)
qed

lemma log_get_by_message:
  assumes h: "log_held L (ent (w_cache w)) made" and S: "cs_cache S = Some C" "cs_lib S = L"
    and ids: "new_cp_ids w made" and run: "get_checkpoint_by_user_message_uuid S u w = (Inr r, w')"
  shows "r = by_message made u" and "ent (w_cache w') = ent (w_cache w)" and "w' = w\<lparr>w_cache := w_cache w'\<rparr>"
proof -
  from S run obtain t w1 where run: "on_cache (c_get C (uuid_index_key u)) w = (Inr t, w1)"
    and k: "(if given t then get_checkpoint S (the t) else ret None) w1 = (Inr r, w')"
    by (auto simp: get_checkpoint_by_user_message_uuid_def io_inv)
  note get = on_cache_Inr [OF run]
  from get live_get have e: "ent (w_cache w1) = ent (w_cache w)"
    and "t = stored_text (ent (w_cache w) (uuid_index_key u))" by blast+
  with h have t: "t = map_option cp_id (by_message made u)"
    by (cases "by_message made u") (simp_all add: log_held_def)
  have h1: "log_held L (ent (w_cache w1)) made" using h e by simp
  have "r = by_message made u \<and> ent (w_cache w') = ent (w_cache w1) \<and> w' = w1\<lparr>w_cache := w_cache w'\<rparr>"
  proof (cases "by_message made u")
    case None
    with k t show ?thesis by simp
  next
    case (Some c)
    with by_message_mem have c: "c \<in> set made" by blast
    with k t Some new_cp_ids_nonempty [OF ids c] have "get_checkpoint S (cp_id c) w1 = (Inr r, w')"
      by simp
    note step = log_get [OF h1 S this]
    from ids have "distinct (map cp_id made)" by (simp add: new_cp_ids_def)
    with step by_id_mem c Some show ?thesis by simp
  qed
  note k = this
  from k e show "r = by_message made u" and "ent (w_cache w') = ent (w_cache w)" by simp_all
  from k have "w' = w1\<lparr>w_cache := w_cache w'\<rparr>" by simp
  with get show "w' = w\<lparr>w_cache := w_cache w'\<rparr>"
    by (blast intro: cache_step_trans)
qed

lemma log_list:
  assumes h: "log_held L (ent (w_cache w)) made" and S: "cs_cache S = Some C" "cs_lib S = L"
    and run: "list_checkpoints S s w = (Inr cs, w')"
  shows "cs = sort_asc cp_created_at (of_session made s)" and "ent (w_cache w') = ent (w_cache w)"
    and "w' = w\<lparr>w_cache := w_cache w'\<rparr>"
proof -
  from S run obtain j w1 where get: "on_cache (c_get_json C (checkpoints_key s)) w = (Inr j, w1)"
    and k: "(if \<not> truthy j then ret [] else case j of
        JObj data \<Rightarrow> (case dict_get_or data ''checkpoints'' (JArr []) of
          JArr rows \<Rightarrow> and_then (lift_sum (parse_checkpoints L rows)) (\<lambda>cs. ret (sort_asc cp_created_at cs))
        | _ \<Rightarrow> ret [])
      | _ \<Rightarrow> throw (AttributeError ''get'')) w1 = (Inr cs, w')"
    by (auto simp: list_checkpoints_def io_inv)
  note get = on_cache_Inr [OF get]
  from get live_get_json have "j = stored_json L (ent (w_cache w) (checkpoints_key s))" by blast
  with h have j: "j = (if of_session made s = [] then JNull
      else JObj [(''checkpoints'', JArr (map (JObj \<circ> checkpoint_payload L) (of_session made s)))])"
    by (simp add: log_held_def session_entry_def list_all_iff)
  from k have "w' = w1 \<and> cs = sort_asc cp_created_at (of_session made s)"
    unfolding j by (cases "of_session made s = []") (auto simp: dict_get_or_def sort_asc_def)
  with get live_get_json show "cs = sort_asc cp_created_at (of_session made s)"
    and "ent (w_cache w') = ent (w_cache w)" and "w' = w\<lparr>w_cache := w_cache w'\<rparr>"
    by blast+
qed

lemma log_create:
  assumes h: "log_held L (ent (w_cache w)) made" and S: "cs_cache S = Some C" "cs_lib S = L"
    and ids: "new_cp_ids w made" and run: "create_checkpoint S s u fs w = (Inr c, w')"
  shows "checkpoint_ok (CreateCp s u fs) (Stored c) made"
    and "log_held L (ent (w_cache w')) (made @ [c])" and "new_cp_ids w' (made @ [c])"
proof -
  let ?v = "w\<lparr>w_ticks := Suc (w_ticks w), w_draws := Suc (w_draws w)\<rparr>"
  let ?c = "\<lparr>cp_id = w_tokens w (w_draws w), cp_session_id = s, cp_user_message_uuid = u,
    cp_created_at = w_clock w (w_ticks w), cp_files_modified = fs\<rparr>"
  note fresh = new_cp_ids_fresh [OF ids]
  from run have "and_then (cache_checkpoint S ?c) (\<lambda>_. and_then (add_to_session_checkpoints S ?c)
      (\<lambda>_. and_then (create_uuid_index S ?c) (\<lambda>_. ret ?c))) ?v = (Inr c, w')"
    by (simp add: create_checkpoint_def Let_def and_then_run(1) [where m = draw_token, OF draw_token_run]
        and_then_run(1) [where m = utc_now, OF utc_now_run])
  then obtain w1 w2 where 1: "cache_checkpoint S ?c ?v = (Inr (), w1)"
    and 2: "add_to_session_checkpoints S ?c w1 = (Inr (), w2)"
    and 3: "create_uuid_index S ?c w2 = (Inr (), w')" and c: "c = ?c"
    by (auto simp: io_inv)
  from c fresh show "checkpoint_ok (CreateCp s u fs) (Stored c) made" by simp
  from 1 S obtain b1 where 1: "on_cache (c_set_json C (checkpoint_key (cp_id ?c))
      (checkpoint_payload L ?c) (Some (cs_ttl S))) ?v = (Inr b1, w1)"
    by (auto simp: cache_checkpoint_def io_inv)
  note 1 = on_cache_Inr [OF 1]
  from live_set_json [OF 1 [THEN conjunct1]]
  have e1: "ent (w_cache w1) = (ent (w_cache w))(checkpoint_key (cp_id ?c) \<mapsto> dump_entry L (checkpoint_payload L ?c))"
    by simp
  from 3 S obtain b3 where 3: "on_cache (c_cache_set C (uuid_index_key u) (cp_id ?c)
      (Some (cs_ttl S))) w2 = (Inr b3, w')"
    by (auto simp: create_uuid_index_def io_inv)
  note 3 = on_cache_Inr [OF 3]
  from live_cache_set [OF 3 [THEN conjunct1]]
  have e3: "ent (w_cache w') = (ent (w_cache w2))(uuid_index_key u \<mapsto> Value (Utf8 (cp_id ?c)))"
    by simp
  let ?rows = "map (JObj \<circ> checkpoint_payload L) (of_session made s)"
  from 2 S obtain j w3 data b2 where get: "on_cache (c_get_json C (checkpoints_key s)) w1 = (Inr j, w3)"
    and data: "with_checkpoint L ?c j = Inr data"
    and 2: "on_cache (c_set_json C (checkpoints_key s) data (Some (cs_ttl S))) w3 = (Inr b2, w2)"
    by (auto simp: add_to_session_checkpoints_def Let_def io_inv)
  note get = on_cache_Inr [OF get]
  from get live_get_json have ge: "ent (w_cache w3) = ent (w_cache w1)"
    and "j = stored_json L (ent (w_cache w1) (checkpoints_key s))" by blast+
  with h e1 have "j = (if of_session made s = [] then JNull else JObj [(''checkpoints'', JArr ?rows)])"
    by (simp add: log_held_def session_entry_def list_all_iff)
  with data have data: "data = [(''checkpoints'', JArr (?rows @ [JObj (checkpoint_payload L ?c)]))]"
    by (auto simp: with_checkpoint_def checkpoints_raw_def dict_get_or_def dict_set_def split: if_splits)
  note 2 = on_cache_Inr [OF 2]
  from live_set_json [OF 2 [THEN conjunct1]] ge data
  have e2: "ent (w_cache w2) = (ent (w_cache w1))(checkpoints_key s \<mapsto>
      dump_entry L [(''checkpoints'', JArr (?rows @ [JObj (checkpoint_payload L ?c)]))])"
    by simp
  have "by_id made (cp_id ?c) = None" using fresh by (simp add: by_id_None)
  then show "log_held L (ent (w_cache w')) (made @ [c])"
    unfolding c log_held_def e3 e2 e1
    using h by (simp add: log_held_def by_id_append by_message_append of_session_append session_entry_def)
  have "w_tokens w' = w_tokens w \<and> w_draws w' = Suc (w_draws w)"
    using cache_step_sel(1,2) [of w1 ?v] cache_step_sel(1,2) [of w3 w1]
      cache_step_sel(1,2) [of w2 w3] cache_step_sel(1,2) [of w' w2] 1 2 3 get by simp
  with ids fresh show "new_cp_ids w' (made @ [c])"
    by (auto simp: new_cp_ids_def c lessThan_Suc)
qed

lemma checkpoint_do_step:
  assumes h: "log_held L (ent (w_cache w)) made" and S: "cs_cache S = Some C" "cs_lib S = L"
    and ids: "new_cp_ids w made" and run: "checkpoint_do S op w = (Inr r, w')"
  shows "checkpoint_ok op r made \<and> log_held L (ent (w_cache w')) (checkpoint_next r made) \<and>
    new_cp_ids w' (checkpoint_next r made)"
proof (cases op)
  case (CreateCp s u fs)
  with run obtain c where "r = Stored c" and mk: "create_checkpoint S s u fs w = (Inr c, w')"
    by (auto simp: outcome_reply_def io_inv)
  with CreateCp log_create [OF h S ids mk] show ?thesis by simp
next
  case (GetCp i)
  with run obtain x where r: "r = Fetched x" and get: "get_checkpoint S i w = (Inr x, w')"
    by (auto simp: outcome_reply_def io_inv)
  note step = log_get [OF h S get]
  from cache_step_sel(1,2) [OF step(3)] ids have "new_cp_ids w' made"
    by (simp add: new_cp_ids_def)
  with GetCp r step(1,2) h show ?thesis by simp
next
  case (GetByMessage u)
  with run obtain x where r: "r = Fetched x"
    and get: "get_checkpoint_by_user_message_uuid S u w = (Inr x, w')"
    by (auto simp: outcome_reply_def io_inv)
  note step = log_get_by_message [OF h S ids get]
  from cache_step_sel(1,2) [OF step(3)] ids have "new_cp_ids w' made"
    by (simp add: new_cp_ids_def)
  with GetByMessage r step(1,2) h show ?thesis by simp
next
  case (ListCp s)
  with run obtain cs where r: "r = Timeline cs" and ls: "list_checkpoints S s w = (Inr cs, w')"
    by (auto simp: outcome_reply_def io_inv)
  note step = log_list [OF h S ls]
  from cache_step_sel(1,2) [OF step(3)] ids have "new_cp_ids w' made"
    by (simp add: new_cp_ids_def)
  with ListCp r step(1,2) h show ?thesis by simp
next
  case (ValidateCp s i)
  with run obtain x where r: "r = Valid (case x of None \<Rightarrow> False | Some c \<Rightarrow> cp_session_id c = s)"
    and get: "get_checkpoint S i w = (Inr x, w')"
    by (auto simp: outcome_reply_def validate_checkpoint_def io_inv)
  note step = log_get [OF h S get]
  from cache_step_sel(1,2) [OF step(3)] ids have new: "new_cp_ids w' made"
    by (simp add: new_cp_ids_def)
  have "(case by_id made i of None \<Rightarrow> False | Some c \<Rightarrow> cp_session_id c = s) \<longleftrightarrow>
      (\<exists>c \<in> set made. cp_id c = i \<and> cp_session_id c = s)"
  proof (cases "by_id made i")
    case None
    then have "i \<notin> cp_id ` set made" by (simp add: by_id_None)
    with None show ?thesis by auto
  next
    case (Some c)
    then have "c \<in> set made" and "cp_id c = i"
      by (auto simp: by_id_def find_Some_iff)
    moreover from ids have "distinct (map cp_id made)" by (simp add: new_cp_ids_def)
    ultimately show ?thesis
      using Some by (auto simp: distinct_map inj_on_def)
  qed
  with ValidateCp r step(1,2) h new show ?thesis by simp
qed

end

text \<open>
  C21: Over a cache whose entries do not expire, from one that holds a list of checkpoints,
  and with drawn identifiers that are not empty and never drawn twice: any sequence of calls
  of the checkpoint service by one worker that all return answers as the list of the
  checkpoints made would. A checkpoint is created under a new identifier with the session,
  user message and files given; it is found by its identifier, and by its user message where
  no later one has the same; a session lists exactly its own, sorted by their times; and one
  is valid for a session exactly when it was made for it.
\<close>

theorem checkpoint_history_refines:
  assumes "live_cache L C ent ages matches" and "cs_cache S = Some C" and "cs_lib S = L"
    and "log_held L (ent (w_cache w)) made" and "new_cp_ids w made"
    and "checkpoint_history S ops w = (Inr rs, w')"
  shows "checkpoints_agree ops rs made"
  using assms(4-)
proof (induction ops arbitrary: w made rs)
  case Nil
  then show ?case by simp
next
  case (Cons op ops)
  from Cons.prems(3) obtain r rs' w1 where run: "checkpoint_do S op w = (Inr r, w1)"
    and rest: "checkpoint_history S ops w1 = (Inr rs', w')" and rs: "rs = r # rs'"
    by (auto simp: io_inv simp del: checkpoint_do.simps)
  note step = live_cache.checkpoint_do_step [OF assms(1) Cons.prems(1) assms(2,3) Cons.prems(2) run]
  with Cons.IH [OF _ _ rest, of "checkpoint_next r made"] rs show ?case by simp
qed

definition ref_checkpoints :: "server redis_world checkpoint_service" where
  "ref_checkpoints = \<lparr>cs_lib = ref_lib, cs_cache = Some (ref_cache 0), cs_ttl = 3600\<rparr>"

definition first_checkpoint :: checkpoint where
  "first_checkpoint = \<lparr>cp_id = ''a'', cp_session_id = ''s'', cp_user_message_uuid = ''u'',
     cp_created_at = 1000000, cp_files_modified = [''f'']\<rparr>"

definition checkpoint_ops :: "checkpoint_op list" where
  "checkpoint_ops = [GetByMessage ''u'', ListCp ''s'', CreateCp ''s'' ''u'' [''f'']]"

lemma checkpoint_ops_run:
  "checkpoint_history ref_checkpoints checkpoint_ops (ref_world ()) =
     (Inr [Fetched None, Timeline [], Stored first_checkpoint],
      snd (checkpoint_history ref_checkpoints checkpoint_ops (ref_world ())))"
  by (rule fst_run)
     (simp add: checkpoint_ops_def first_checkpoint_def outcome_reply_def create_checkpoint_def
      get_checkpoint_by_user_message_uuid_def list_checkpoints_def cache_checkpoint_def
      add_to_session_checkpoints_def create_uuid_index_def with_checkpoint_def checkpoint_payload_def
      ref_checkpoints_def Let_def utc_now_def draw_token_def ref_eval del: eval_rules)

lemma checkpoint_history_refines_witness:
  "checkpoints_agree checkpoint_ops [Fetched None, Timeline [], Stored first_checkpoint] []"
proof -
  have "log_held ref_lib (ref_ent (w_cache (ref_world ()))) []"
    by (simp add: log_held_def ref_world_empty by_id_def by_message_def of_session_def
        session_entry_def del: ref_world_sel)
  moreover have "new_cp_ids (ref_world ()) []"
    by (simp add: new_cp_ids_def ref_tokens_inj) (simp add: ref_tokens_def)
  ultimately show ?thesis
    using checkpoint_history_refines [OF ref_live _ _ _ _ checkpoint_ops_run]
    by (simp add: ref_checkpoints_def)
qed

text \<open>
  Two checkpoints of one session made at once: both read the list before either writes it, and
  the list keeps the one written last only.
\<close>

lemma concurrent_checkpoint_lost:
  assumes "pylib_laws L" and "log_held L m made" and "cp_session_id c = s" and "cp_session_id c' = s"
    and "with_checkpoint L c (stored_json L (m (checkpoints_key s))) = Inr d"
    and "with_checkpoint L c' (stored_json L (m (checkpoints_key s))) = Inr d'"
  shows "(m(checkpoints_key s \<mapsto> dump_entry L d, checkpoints_key s \<mapsto> dump_entry L d')) (checkpoints_key s) =
    session_entry L (of_session made s @ [c'])"
proof -
  let ?rows = "map (JObj \<circ> checkpoint_payload L) (of_session made s)"
  have "wf_dict [(''checkpoints'', JArr ?rows)]"
    by (simp add: list_all_iff)
  with assms(1,2) have "stored_json L (m (checkpoints_key s)) =
      (if of_session made s = [] then JNull else JObj [(''checkpoints'', JArr ?rows)])"
    by (simp add: log_held_def session_entry_def stored_json_def dump_entry_def
        pylib_laws.json_of_text_dumps)
  with assms(6) have "d' = [(''checkpoints'', JArr (?rows @ [JObj (checkpoint_payload L c')]))]"
    by (auto simp: with_checkpoint_def checkpoints_raw_def dict_get_or_def dict_set_def split: if_splits)
  then show ?thesis by (simp add: session_entry_def)
qed

end
