(* ===== verification/Validators.thy ===== *)
theory Validators
  imports PyJson
begin

text \<open>
  The checks on request fields: \<open>schemas/validators.py\<close>, the nested schemas with their
  validators (\<open>schemas/requests/config.py\<close>) and the query request
  (\<open>schemas/requests/query.py\<close>) with the lists of names they use (\<open>constants.py\<close>, \<open>types.py\<close>).

  Parsing a URL and classifying an address belong to the standard library (\<open>urlparse\<close>,
  \<open>ipaddress\<close>); they are the fields of \<open>net_lib\<close>. Pydantic collects the errors of all
  validators into one exception, a \<open>ValueError\<close>; here a model that fails any of its checks
  raises one \<open>ValueError\<close>.
\<close>

record net_lib =
  url_hostname :: "string \<Rightarrow> exn + string option" \<comment> \<open>\<open>urlparse(url).hostname\<close>\<close>
  ip_internal :: "string \<Rightarrow> bool option" \<comment> \<open>private, loopback, link-local or reserved; \<open>None\<close>: no address\<close>

section \<open>Text\<close>

definition quoted :: "string \<Rightarrow> string" where
  "quoted s = [CHR 0x27] @ s @ [CHR 0x27]"

text \<open>\<open>[;&|`$(){}[\]<>!\n\r\\]\<close>\<close>

definition shell_metachars :: string where
  "shell_metachars =
     [CHR '';'', CHR ''&'', CHR ''|'', CHR 0x60, CHR ''$'', CHR ''('', CHR '')'', CHR ''{'', CHR ''}'',
      CHR ''['', CHR '']'', CHR ''<'', CHR ''>'', CHR ''!'', CHR 0x0A, CHR 0x0D, CHR 0x5C]"

definition has_shell_metachar :: "string \<Rightarrow> bool" where
  "has_shell_metachar s \<longleftrightarrow> list_ex (\<lambda>c. c \<in> set shell_metachars) s"

definition has_null_byte :: "string \<Rightarrow> bool" where
  "has_null_byte s \<longleftrightarrow> list_ex (\<lambda>c. c = CHR 0x00) s"

definition path_traversal_patterns :: "string list" where
  "path_traversal_patterns =
     [''../'', [CHR ''.'', CHR ''.'', CHR 0x5C], ''%2e%2e%2f'', ''%2e%2e/'', ''.%2e/'', ''%2e./'']"

definition has_path_traversal :: "string \<Rightarrow> bool" where
  "has_path_traversal s \<longleftrightarrow> list_ex (\<lambda>p. contains p s) path_traversal_patterns"

definition validate_no_null_bytes :: "string \<Rightarrow> string \<Rightarrow> exn + string" where
  "validate_no_null_bytes v field_name =
     (if has_null_byte v then Inl (ValueError (''Null bytes not allowed in '' @ field_name)) else Inr v)"

definition validate_no_path_traversal :: "string \<Rightarrow> string \<Rightarrow> exn + string" where
  "validate_no_path_traversal v field_name =
     (if has_path_traversal (lower v)
      then Inl (ValueError (''Path traversal not allowed in '' @ field_name)) else Inr v)"

section \<open>URLs\<close>

definition internal_url :: exn where
  "internal_url = ValueError ''URLs targeting internal resources are not allowed''"

definition blocked_hostname :: "string \<Rightarrow> bool" where
  "blocked_hostname h \<longleftrightarrow>
     h = ''localhost'' \<or> h = ''metadata.google.internal'' \<or> prefix ''metadata.aws.'' h \<or> h = ''instance-data''"

definition validate_url_not_internal :: "net_lib \<Rightarrow> string \<Rightarrow> exn + string" where
  "validate_url_not_internal N url =
     bind_sum (url_hostname N url) (\<lambda>hostname.
       if \<not> given hostname then Inl (ValueError ''Invalid URL: missing hostname'')
       else if blocked_hostname (lower (the hostname)) then Inl internal_url
       else case ip_internal N (the hostname) of
         None \<Rightarrow> Inr url
       | Some internal \<Rightarrow> if internal then Inl internal_url else Inr url)"

section \<open>Tools and models\<close>

definition built_in_tools :: "string list" where
  "built_in_tools =
     [''Read'', ''Write'', ''Edit'', ''MultiEdit'', ''Bash'', ''Glob'', ''Grep'', ''LS'', ''WebFetch'',
      ''WebSearch'', ''Task'', ''TodoWrite'', ''NotebookEdit'', ''NotebookRead'', ''AskUserQuestion'',
      ''Skill'', ''SlashCommand'']"

definition validate_tool_name :: "string \<Rightarrow> bool" where
  "validate_tool_name tool \<longleftrightarrow> tool \<in> set built_in_tools \<or> prefix ''mcp__'' tool"

definition valid_short_model_names :: "string list" where
  "valid_short_model_names = [''sonnet'', ''opus'', ''haiku'', ''gpt-4'']"

definition valid_full_model_ids :: "string list" where
  "valid_full_model_ids =
     [''claude-opus-4-20250514'', ''claude-sonnet-4-20250514'', ''claude-haiku-4-5-20251001'',
      ''claude-sonnet-4-5-20250929'', ''claude-3-5-haiku-20241022'', ''claude-opus-4-5-20251101'',
      ''claude-opus-4-1-20250805'', ''claude-3-7-sonnet-20250219'']"

definition valid_model_prefixes :: "string list" where
  "valid_model_prefixes =
     [''claude-sonnet-'', ''claude-opus-'', ''claude-haiku-'', ''claude-3-5-sonnet-'',
      ''claude-3-5-haiku-'', ''claude-3-opus-'', ''claude-3-7-sonnet-'']"

definition validate_model_name :: "string option \<Rightarrow> exn + string option" where
  "validate_model_name model =
     (case model of
        None \<Rightarrow> Inr None
      | Some m \<Rightarrow>
          if m = [] then Inl (ValueError ''Model cannot be empty'')
          else if m \<in> set valid_short_model_names then Inr (Some m)
          else if m \<in> set valid_full_model_ids then Inr (Some m)
          else if list_ex (\<lambda>p. prefix p m) valid_model_prefixes then Inr (Some m)
          else Inl (ValueError (''Invalid model: '' @ m)))"

section \<open>The schema of an MCP server\<close>

datatype transport = Stdio | Sse | Http

fun transport_text :: "transport \<Rightarrow> string" where
  "transport_text Stdio = ''stdio''"
| "transport_text Sse = ''sse''"
| "transport_text Http = ''http''"

record mcp_server =
  ms_command :: "string option"
  ms_args :: "string list"
  ms_type :: transport
  ms_url :: "string option"
  ms_headers :: "string dict"
  ms_env :: "string dict"

definition validate_command_security :: "string option \<Rightarrow> exn + string option" where
  "validate_command_security v =
     (case v of
        None \<Rightarrow> Inr v
      | Some s \<Rightarrow>
          bind_sum (validate_no_null_bytes s ''command'') (\<lambda>_.
            if has_shell_metachar s
            then Inl (ValueError (''Shell metacharacters not allowed in command. Use '' @ quoted ''args'' @ '' for command arguments.''))
            else Inr v))"

definition validate_args_security :: "string list \<Rightarrow> exn + string list" where
  "validate_args_security v =
     bind_sum (map_sum_list (\<lambda>arg. validate_no_null_bytes arg ''args'') v) (\<lambda>_. Inr v)"

definition validate_url_security :: "net_lib \<Rightarrow> string option \<Rightarrow> exn + string option" where
  "validate_url_security N v =
     (case v of None \<Rightarrow> Inr v | Some u \<Rightarrow> bind_sum (validate_url_not_internal N u) (\<lambda>_. Inr v))"

definition validate_transport :: "mcp_server \<Rightarrow> exn + mcp_server" where
  "validate_transport m =
     (if ms_type m = Stdio \<and> \<not> given (ms_command m)
      then Inl (ValueError (''stdio transport requires '' @ quoted ''command''))
      else if ms_type m \<in> {Sse, Http} \<and> \<not> given (ms_url m)
      then Inl (ValueError (transport_text (ms_type m) @ '' transport requires '' @ quoted ''url''))
      else Inr m)"

text \<open>The validators of the class, after the fields have their types.\<close>

definition check_mcp_server :: "net_lib \<Rightarrow> mcp_server \<Rightarrow> exn + mcp_server" where
  "check_mcp_server N m =
     bind_sum (validate_command_security (ms_command m)) (\<lambda>_.
     bind_sum (validate_args_security (ms_args m)) (\<lambda>_.
     bind_sum (validate_url_security N (ms_url m)) (\<lambda>_.
     validate_transport m)))"

section \<open>Hooks\<close>

text \<open>\<open>hw_url\<close> is the text of the parsed \<open>HttpUrl\<close>.\<close>

record hook_webhook =
  hw_url :: string
  hw_headers :: "string dict"
  hw_timeout :: int
  hw_matcher :: "string option"

record hooks_config =
  hk_pre_tool_use :: "hook_webhook option"
  hk_post_tool_use :: "hook_webhook option"
  hk_stop :: "hook_webhook option"
  hk_subagent_stop :: "hook_webhook option"
  hk_user_prompt_submit :: "hook_webhook option"
  hk_pre_compact :: "hook_webhook option"
  hk_notification :: "hook_webhook option"

definition check_hook_webhook :: "net_lib \<Rightarrow> hook_webhook \<Rightarrow> exn + hook_webhook" where
  "check_hook_webhook N h =
     (if hw_timeout h < 1 \<or> 300 < hw_timeout h then Inl (ValueError ''field out of bounds'')
      else bind_sum (validate_url_not_internal N (hw_url h)) (\<lambda>_. Inr h))"

definition configured_hooks :: "hooks_config \<Rightarrow> hook_webhook list" where
  "configured_hooks H =
     concat (map (\<lambda>h. case h of None \<Rightarrow> [] | Some x \<Rightarrow> [x])
       [hk_pre_tool_use H, hk_post_tool_use H, hk_stop H, hk_subagent_stop H,
        hk_user_prompt_submit H, hk_pre_compact H, hk_notification H])"

definition check_hooks_config :: "net_lib \<Rightarrow> hooks_config \<Rightarrow> exn + hooks_config" where
  "check_hooks_config N H =
     bind_sum (map_sum_list (check_hook_webhook N) (configured_hooks H)) (\<lambda>_. Inr H)"

section \<open>The other nested schemas\<close>

record image_content =
  im_type :: string
  im_media_type :: string
  im_data :: string

definition check_image :: "image_content \<Rightarrow> exn + image_content" where
  "check_image i =
     (if im_type i \<in> {''base64'', ''url''} \<and>
         im_media_type i \<in> {''image/jpeg'', ''image/png'', ''image/gif'', ''image/webp''}
      then Inr i else Inl (ValueError ''field out of bounds''))"

record agent_definition =
  ad_description :: string
  ad_prompt :: string
  ad_tools :: "string list option"
  ad_model :: "string option"

definition validate_no_task_tool :: "agent_definition \<Rightarrow> exn + agent_definition" where
  "validate_no_task_tool a =
     (case ad_tools a of
        None \<Rightarrow> Inr a
      | Some tools \<Rightarrow>
          if ''Task'' \<in> set tools
          then Inl (ValueError ''Subagents cannot have Task tool (no nested subagents)'') else Inr a)"

definition check_agent_definition :: "agent_definition \<Rightarrow> exn + agent_definition" where
  "check_agent_definition a =
     (if 1 \<le> length (ad_description a) \<and> length (ad_description a) \<le> 1000 \<and>
         1 \<le> length (ad_prompt a) \<and> length (ad_prompt a) \<le> 50000 \<and>
         (case ad_model a of None \<Rightarrow> True | Some m \<Rightarrow> m \<in> {''sonnet'', ''opus'', ''haiku'', ''inherit''})
      then validate_no_task_tool a else Inl (ValueError ''field out of bounds''))"

record output_format =
  of_type :: string
  of_schema :: "json dict option"

definition validate_schema_requirement :: "output_format \<Rightarrow> exn + output_format" where
  "validate_schema_requirement f =
     (if of_type f = ''json_schema'' \<and> (of_schema f = None \<or> of_schema f = Some [])
      then Inl (ValueError (''json_schema type requires '' @ quoted ''schema'' @ '' field'')) else Inr f)"

definition validate_json_schema :: "json dict option \<Rightarrow> exn + json dict option" where
  "validate_json_schema v =
     (case v of
        None \<Rightarrow> Inr v
      | Some d \<Rightarrow>
          if dict_get d ''type'' = None
          then Inl (ValueError (''JSON schema must have '' @ quoted ''type'' @ '' property'')) else Inr v)"

definition check_output_format :: "output_format \<Rightarrow> exn + output_format" where
  "check_output_format f =
     (if of_type f \<in> {''json'', ''json_schema''}
      then bind_sum (validate_json_schema (of_schema f)) (\<lambda>_. validate_schema_requirement f)
      else Inl (ValueError ''field out of bounds''))"

record sdk_plugin =
  pl_name :: string
  pl_path :: "string option"
  pl_enabled :: bool

definition check_plugin :: "sdk_plugin \<Rightarrow> exn + sdk_plugin" where
  "check_plugin p = (if pl_name p = [] then Inl (ValueError ''field out of bounds'') else Inr p)"

record sandbox_settings =
  sb_enabled :: bool
  sb_allowed_paths :: "string list"
  sb_network_access :: bool

section \<open>The query request\<close>

record query_request =
  qr_prompt :: string
  qr_images :: "image_content list option"
  qr_session_id :: "string option"
  qr_fork_session :: bool
  qr_continue_conversation :: bool
  qr_allowed_tools :: "string list"
  qr_disallowed_tools :: "string list"
  qr_permission_mode :: string
  qr_permission_prompt_tool_name :: "string option"
  qr_model :: "string option"
  qr_max_turns :: "int option"
  qr_max_buffer_size :: "int option"
  qr_cwd :: "string option"
  qr_add_dirs :: "string list"
  qr_env :: "string dict"
  qr_system_prompt :: "string option"
  qr_system_prompt_append :: "string option"
  qr_output_style :: "string option"
  qr_settings :: "string option"
  qr_setting_sources :: "string list option"
  qr_agents :: "agent_definition dict option"
  qr_mcp_servers :: "mcp_server dict option"
  qr_plugins :: "sdk_plugin list option"
  qr_hooks :: "hooks_config option"
  qr_enable_file_checkpointing :: bool
  qr_output_format :: "output_format option"
  qr_include_partial_messages :: bool
  qr_sandbox :: "sandbox_settings option"
  qr_user :: "string option"
  qr_extra_args :: "string option dict"

text \<open>A request with a prompt and the defaults of the other fields.\<close>

definition plain_request :: "string \<Rightarrow> query_request" where
  "plain_request prompt =
     \<lparr>qr_prompt = prompt, qr_images = None, qr_session_id = None, qr_fork_session = False,
      qr_continue_conversation = False, qr_allowed_tools = [], qr_disallowed_tools = [],
      qr_permission_mode = ''default'', qr_permission_prompt_tool_name = None, qr_model = None,
      qr_max_turns = None, qr_max_buffer_size = None, qr_cwd = None, qr_add_dirs = [], qr_env = [],
      qr_system_prompt = None, qr_system_prompt_append = None, qr_output_style = None,
      qr_settings = None, qr_setting_sources = None, qr_agents = None, qr_mcp_servers = None,
      qr_plugins = None, qr_hooks = None, qr_enable_file_checkpointing = False,
      qr_output_format = None, qr_include_partial_messages = False, qr_sandbox = None,
      qr_user = None, qr_extra_args = []\<rparr>"

definition permission_modes :: "string list" where
  "permission_modes = [''default'', ''acceptEdits'', ''plan'', ''bypassPermissions'']"

definition validate_path_field :: "string \<Rightarrow> string \<Rightarrow> exn + string" where
  "validate_path_field field_name v =
     bind_sum (validate_no_null_bytes v field_name) (\<lambda>_. validate_no_path_traversal v field_name)"

definition validate_cwd_security :: "string option \<Rightarrow> exn + string option" where
  "validate_cwd_security v =
     (case v of None \<Rightarrow> Inr v | Some p \<Rightarrow> bind_sum (validate_path_field ''cwd'' p) (\<lambda>_. Inr v))"

definition validate_add_dirs_security :: "string list \<Rightarrow> exn + string list" where
  "validate_add_dirs_security v =
     bind_sum (map_sum_list (validate_path_field ''add_dirs'') v) (\<lambda>_. Inr v)"

text \<open>\<open>s.upper()\<close> on ASCII letters; the names it is compared with are ASCII.\<close>

definition upper_char :: "char \<Rightarrow> char" where
  "upper_char c = (let n = of_char c :: nat in if 97 \<le> n \<and> n \<le> 122 then char_of (n - 32) else c)"

definition validate_env_var :: "string \<times> string \<Rightarrow> exn + unit" where
  "validate_env_var kv =
     bind_sum (validate_no_null_bytes (fst kv) ''env key'') (\<lambda>_.
     bind_sum (validate_no_null_bytes (snd kv) ''env value'') (\<lambda>_.
     if map upper_char (fst kv) \<in> {''LD_PRELOAD'', ''LD_LIBRARY_PATH'', ''PATH''}
     then Inl (ValueError (''Setting '' @ fst kv @ '' environment variable is not allowed'')) else Inr ()))"

definition validate_env_security :: "string dict \<Rightarrow> exn + string dict" where
  "validate_env_security v = bind_sum (map_sum_list validate_env_var v) (\<lambda>_. Inr v)"

definition validate_tool_names :: "string list \<Rightarrow> exn + string list" where
  "validate_tool_names tools =
     (if list_all validate_tool_name tools then Inr tools else Inl (ValueError ''Invalid tool names''))"

definition validate_no_tool_conflicts :: "query_request \<Rightarrow> exn + query_request" where
  "validate_no_tool_conflicts q =
     (if list_ex (\<lambda>t. t \<in> set (qr_disallowed_tools q)) (qr_allowed_tools q)
      then Inl (ValueError ''Tool conflict'') else Inr q)"

text \<open>The bounds of the field declarations.\<close>

definition check_field_bounds :: "query_request \<Rightarrow> exn + unit" where
  "check_field_bounds q =
     (if 1 \<le> length (qr_prompt q) \<and> length (qr_prompt q) \<le> 100000 \<and>
         (case qr_max_turns q of None \<Rightarrow> True | Some n \<Rightarrow> 1 \<le> n \<and> n \<le> 1000) \<and>
         qr_permission_mode q \<in> set permission_modes \<and>
         (case qr_setting_sources q of None \<Rightarrow> True | Some s \<Rightarrow> set s \<subseteq> {''project'', ''user''})
      then Inr () else Inl (ValueError ''field out of bounds''))"

definition opt_list :: "'a list option \<Rightarrow> 'a list" where
  "opt_list x = (case x of None \<Rightarrow> [] | Some xs \<Rightarrow> xs)"

text \<open>The schemas of the nested fields.\<close>

definition check_nested :: "net_lib \<Rightarrow> query_request \<Rightarrow> exn + unit" where
  "check_nested N q =
     bind_sum (map_sum_list check_image (opt_list (qr_images q))) (\<lambda>_.
     bind_sum (map_sum_list (check_agent_definition \<circ> snd) (opt_list (qr_agents q))) (\<lambda>_.
     bind_sum (map_sum_list (check_mcp_server N \<circ> snd) (opt_list (qr_mcp_servers q))) (\<lambda>_.
     bind_sum (map_sum_list check_plugin (opt_list (qr_plugins q))) (\<lambda>_.
     bind_sum (case qr_hooks q of None \<Rightarrow> Inr () | Some h \<Rightarrow>
       bind_sum (check_hooks_config N h) (\<lambda>_. Inr ())) (\<lambda>_.
     case qr_output_format q of None \<Rightarrow> Inr () | Some f \<Rightarrow>
       bind_sum (check_output_format f) (\<lambda>_. Inr ()))))))"

definition check_query_request :: "net_lib \<Rightarrow> query_request \<Rightarrow> exn + query_request" where
  "check_query_request N q =
     bind_sum (check_field_bounds q) (\<lambda>_.
     bind_sum (check_nested N q) (\<lambda>_.
     bind_sum (validate_model_name (qr_model q)) (\<lambda>_.
     bind_sum (validate_cwd_security (qr_cwd q)) (\<lambda>_.
     bind_sum (validate_add_dirs_security (qr_add_dirs q)) (\<lambda>_.
     bind_sum (validate_env_security (qr_env q)) (\<lambda>_.
     bind_sum (validate_tool_names (qr_allowed_tools q)) (\<lambda>_.
     bind_sum (validate_tool_names (qr_disallowed_tools q)) (\<lambda>_.
     validate_no_tool_conflicts q))))))))"

section \<open>What passes\<close>

lemma map_sum_list_passes: "map_sum_list f xs = Inr ys \<Longrightarrow> x \<in> set xs \<Longrightarrow> \<exists>y. f x = Inr y"
  by (induction xs arbitrary: ys) (auto simp: bind_sum_Inr)

lemma no_null_bytes_Inr: "validate_no_null_bytes v n = Inr r \<longleftrightarrow> \<not> has_null_byte v \<and> r = v"
  by (auto simp: validate_no_null_bytes_def)

lemma no_path_traversal_Inr:
  "validate_no_path_traversal v n = Inr r \<longleftrightarrow> \<not> has_path_traversal (lower v) \<and> r = v"
  by (auto simp: validate_no_path_traversal_def)

text \<open>A URL that passes: a host that is none of the blocked names and no internal address.\<close>

definition external_url :: "net_lib \<Rightarrow> string \<Rightarrow> bool" where
  "external_url N url \<longleftrightarrow>
     (\<exists>h. url_hostname N url = Inr (Some h) \<and> h \<noteq> [] \<and> \<not> blocked_hostname (lower h) \<and>
        ip_internal N h \<noteq> Some True)"

lemma url_not_internal_Inr: "validate_url_not_internal N url = Inr r \<longleftrightarrow> external_url N url \<and> r = url"
proof (cases "url_hostname N url")
  case (Inl e)
  then show ?thesis by (simp add: validate_url_not_internal_def external_url_def)
next
  case host: (Inr r')
  show ?thesis
  proof (cases "given r'")
    case True
    then obtain h where "r' = Some h" and "h \<noteq> []" by (auto simp: given_iff)
    with host show ?thesis
      by (cases "ip_internal N h") (auto simp: validate_url_not_internal_def external_url_def)
  next
    case False
    with host show ?thesis
      by (cases r') (auto simp: validate_url_not_internal_def external_url_def)
  qed
qed

text \<open>A server configuration that is safe to start or to call.\<close>

definition safe_server :: "net_lib \<Rightarrow> mcp_server \<Rightarrow> bool" where
  "safe_server N m \<longleftrightarrow>
     (\<forall>s. ms_command m = Some s \<longrightarrow> \<not> has_null_byte s \<and> \<not> has_shell_metachar s) \<and>
     (\<forall>a \<in> set (ms_args m). \<not> has_null_byte a) \<and>
     (\<forall>u. ms_url m = Some u \<longrightarrow> external_url N u) \<and>
     (if ms_type m = Stdio then given (ms_command m) else given (ms_url m))"

lemma command_security_Inr: "validate_command_security v = Inr r \<Longrightarrow> v = Some s \<Longrightarrow>
    \<not> has_null_byte s \<and> \<not> has_shell_metachar s"
  by (auto simp: validate_command_security_def bind_sum_Inr no_null_bytes_Inr split: if_splits)

lemma args_security_Inr:
  assumes "validate_args_security v = Inr r" and "a \<in> set v"
  shows "\<not> has_null_byte a"
proof -
  from assms(1) obtain ys where "map_sum_list (\<lambda>arg. validate_no_null_bytes arg ''args'') v = Inr ys"
    by (auto simp: validate_args_security_def bind_sum_Inr)
  from map_sum_list_passes [OF this assms(2)] show ?thesis
    by (auto simp: no_null_bytes_Inr)
qed

lemma url_security_Inr: "validate_url_security N v = Inr r \<Longrightarrow> v = Some u \<Longrightarrow> external_url N u"
  by (auto simp: validate_url_security_def bind_sum_Inr url_not_internal_Inr)

lemma transport_Inr: "validate_transport m = Inr r \<Longrightarrow>
    r = m \<and> (if ms_type m = Stdio then given (ms_command m) else given (ms_url m))"
  by (cases "ms_type m") (simp_all add: validate_transport_def split: if_splits)

lemma check_mcp_server_Inr:
  assumes "check_mcp_server N m = Inr m'"
  shows "m' = m \<and> safe_server N m"
proof -
  from assms obtain a b c where "validate_command_security (ms_command m) = Inr a"
    and "validate_args_security (ms_args m) = Inr b"
    and "validate_url_security N (ms_url m) = Inr c" and "validate_transport m = Inr m'"
    unfolding check_mcp_server_def bind_sum_Inr by blast
  then show ?thesis
    using command_security_Inr args_security_Inr url_security_Inr transport_Inr
    unfolding safe_server_def by blast
qed

text \<open>
  The traversal check looks for a separator after the dots: a path that ends in them passes,
  and so does one whose separator alone is percent-encoded.
\<close>

lemma traversal_missed:
  "validate_no_path_traversal ''/srv/..'' ''cwd'' = Inr ''/srv/..''"
  "validate_no_path_traversal ''/srv/..%2fetc'' ''cwd'' = Inr ''/srv/..%2fetc''"
  by (simp_all add: validate_no_path_traversal_def has_path_traversal_def path_traversal_patterns_def
      contains_def lower_def lower_char_def Let_def)

end
