(* ===== verification/Webhooks.thy ===== *)
theory Webhooks
  imports Validators
begin

text \<open>
  \<open>WebhookService\<close> (\<open>services/webhook.py\<close>) and the classes that call it for each lifecycle event,
  \<open>HookExecutor\<close> (\<open>services/agent/hooks.py\<close>) and \<open>HookFacade\<close> (\<open>services/agent/hook_facade.py\<close>).

  The HTTP client is a parameter: \<open>ws_post\<close> is one POST request under \<open>asyncio.wait_for\<close>, given
  the URL, the JSON body, the headers and the timeout in seconds. It is the client the service
  was built with, or one opened for the request. \<open>ws_re_match\<close> is \<open>re.compile\<close> and \<open>match\<close> of
  the standard library, \<open>None\<close> standing for \<open>re.error\<close>. \<open>ws_text\<close> is \<open>str\<close> of an exception.
\<close>

datatype hook_event =
    PreToolUse | PostToolUse | Stop | SubagentStop | UserPromptSubmit | PreCompact | Notification

fun hook_event_text :: "hook_event \<Rightarrow> string" where
  "hook_event_text PreToolUse = ''PreToolUse''"
| "hook_event_text PostToolUse = ''PostToolUse''"
| "hook_event_text Stop = ''Stop''"
| "hook_event_text SubagentStop = ''SubagentStop''"
| "hook_event_text UserPromptSubmit = ''UserPromptSubmit''"
| "hook_event_text PreCompact = ''PreCompact''"
| "hook_event_text Notification = ''Notification''"

text \<open>A response; its body parsed as JSON, or the text of the decoding error.\<close>

record http_response =
  hr_status_code :: int
  hr_text :: string
  hr_json :: "string + json"

record 'w webhook_service =
  ws_post :: "string \<Rightarrow> json dict \<Rightarrow> string dict \<Rightarrow> int \<Rightarrow> ('w, http_response) io"
  ws_re_match :: "string \<Rightarrow> string \<Rightarrow> bool option"
  ws_text :: "exn \<Rightarrow> string"

section \<open>Decisions\<close>

text \<open>\<open>PreToolUse\<close> fails closed, every other event fails open.\<close>

definition default_decision :: "hook_event \<Rightarrow> string" where
  "default_decision ev = (if ev = PreToolUse then ''deny'' else ''allow'')"

definition error_response :: "hook_event \<Rightarrow> string \<Rightarrow> json dict" where
  "error_response ev reason =
     [(''decision'', JStr (default_decision ev)), (''reason'', JStr reason)]"

definition should_execute_hook :: "'w webhook_service \<Rightarrow> hook_webhook \<Rightarrow> string \<Rightarrow> bool" where
  "should_execute_hook S cfg tool_name =
     (case hw_matcher cfg of
        None \<Rightarrow> True
      | Some matcher \<Rightarrow>
          (case ws_re_match S matcher tool_name of None \<Rightarrow> True | Some found \<Rightarrow> found))"

fun get_hook_for_event :: "hooks_config \<Rightarrow> hook_event \<Rightarrow> hook_webhook option" where
  "get_hook_for_event H PreToolUse = hk_pre_tool_use H"
| "get_hook_for_event H PostToolUse = hk_post_tool_use H"
| "get_hook_for_event H Stop = hk_stop H"
| "get_hook_for_event H SubagentStop = hk_subagent_stop H"
| "get_hook_for_event H UserPromptSubmit = hk_user_prompt_submit H"
| "get_hook_for_event H PreCompact = hk_pre_compact H"
| "get_hook_for_event H Notification = hk_notification H"

section \<open>The request\<close>

definition add_given :: "string \<Rightarrow> json option \<Rightarrow> json dict \<Rightarrow> json dict" where
  "add_given k v d = (case v of None \<Rightarrow> d | Some x \<Rightarrow> dict_set k x d)"

definition build_payload ::
  "hook_event \<Rightarrow> string \<Rightarrow> string option \<Rightarrow> json dict option \<Rightarrow> json dict option \<Rightarrow> json dict option \<Rightarrow>
     json dict" where
  "build_payload ev session_id tool_name tool_input tool_result result_data =
     add_given ''result_data'' (map_option JObj result_data)
       (add_given ''tool_result'' (map_option JObj tool_result)
         (add_given ''tool_input'' (map_option JObj tool_input)
           (add_given ''tool_name'' (map_option JStr tool_name)
             [(''hook_event'', JStr (hook_event_text ev)), (''session_id'', JStr session_id)])))"

text \<open>A status of 400 or above and a body that is no JSON raise.\<close>

definition read_response :: "http_response \<Rightarrow> exn + json" where
  "read_response response =
     (if 400 \<le> hr_status_code response
      then Inl (WebhookHttpError (hr_status_code response) (hr_text response))
      else case hr_json response of
        Inl e \<Rightarrow> Inl (ValueError (''Invalid JSON response: '' @ e))
      | Inr j \<Rightarrow> Inr j)"

definition make_request ::
  "'w webhook_service \<Rightarrow> string \<Rightarrow> json dict \<Rightarrow> string dict \<Rightarrow> int \<Rightarrow> ('w, json) io" where
  "make_request S url body headers timeout =
     (let request_headers = dict_update [(''Content-Type'', ''application/json'')] headers in
      and_then (ws_post S url body request_headers timeout) (\<lambda>response.
      lift_sum (read_response response)))"

text \<open>The clauses of the \<open>except\<close> chain, in their order; the rest escapes.\<close>

fun webhook_failure :: "(exn \<Rightarrow> string) \<Rightarrow> int \<Rightarrow> exn \<Rightarrow> string option" where
  "webhook_failure str timeout (TimeoutError _) =
     Some (''Webhook timeout after '' @ int_text timeout @ ''s'')"
| "webhook_failure str timeout (ConnectionError m) =
     Some (''Webhook connection error: '' @ str (ConnectionError m))"
| "webhook_failure str timeout (HttpxRequestError m) =
     Some (''Webhook connection error: '' @ str (HttpxRequestError m))"
| "webhook_failure str timeout (WebhookHttpError _ m) = Some (''Webhook HTTP error: '' @ m)"
| "webhook_failure str timeout (ValueError m) =
     Some (''Invalid JSON response: '' @ str (ValueError m))"
| "webhook_failure str timeout _ = None"

definition skipped_hook :: json where
  "skipped_hook = JObj [(''decision'', JStr ''allow''), (''reason'', JStr ''Tool did not match hook filter'')]"

definition execute_hook ::
  "'w webhook_service \<Rightarrow> hook_event \<Rightarrow> hook_webhook \<Rightarrow> string \<Rightarrow> string option \<Rightarrow> json dict option \<Rightarrow>
     json dict option \<Rightarrow> json dict option \<Rightarrow> ('w, json) io" where
  "execute_hook S ev cfg session_id tool_name tool_input tool_result result_data =
     (if given tool_name \<and> \<not> should_execute_hook S cfg (the tool_name) then ret skipped_hook
      else
        try_except
          (make_request S (hw_url cfg)
             (build_payload ev session_id tool_name tool_input tool_result result_data)
             (hw_headers cfg) (hw_timeout cfg))
          (\<lambda>e. case webhook_failure (ws_text S) (hw_timeout cfg) e of
                 None \<Rightarrow> throw e
               | Some reason \<Rightarrow> ret (JObj (error_response ev reason))))"

section \<open>One method per event\<close>

definition acknowledged :: json where
  "acknowledged = JObj [(''acknowledged'', JBool True)]"

definition allowed :: json where
  "allowed = JObj [(''decision'', JStr ''allow'')]"

definition hook_of :: "(hooks_config \<Rightarrow> hook_webhook option) \<Rightarrow> hooks_config option \<Rightarrow> hook_webhook option"
where
  "hook_of sel H = (case H of None \<Rightarrow> None | Some h \<Rightarrow> sel h)"

definition execute_pre_tool_use ::
  "'w webhook_service \<Rightarrow> hooks_config option \<Rightarrow> string \<Rightarrow> string \<Rightarrow> json dict option \<Rightarrow> ('w, json) io" where
  "execute_pre_tool_use S H session_id tool_name tool_input =
     (case hook_of hk_pre_tool_use H of
        None \<Rightarrow> ret allowed
      | Some cfg \<Rightarrow>
          execute_hook S PreToolUse cfg session_id (Some tool_name) tool_input None None)"

definition execute_post_tool_use ::
  "'w webhook_service \<Rightarrow> hooks_config option \<Rightarrow> string \<Rightarrow> string \<Rightarrow> json dict option \<Rightarrow> json dict option \<Rightarrow>
     ('w, json) io" where
  "execute_post_tool_use S H session_id tool_name tool_input tool_result =
     (case hook_of hk_post_tool_use H of
        None \<Rightarrow> ret acknowledged
      | Some cfg \<Rightarrow>
          execute_hook S PostToolUse cfg session_id (Some tool_name) tool_input tool_result None)"

text \<open>\<open>if result: result_data["result"] = result\<close>\<close>

definition with_result :: "string option \<Rightarrow> json dict \<Rightarrow> json dict" where
  "with_result result d = (if given result then dict_set ''result'' (JStr (the result)) d else d)"

definition execute_stop ::
  "'w webhook_service \<Rightarrow> hooks_config option \<Rightarrow> string \<Rightarrow> bool \<Rightarrow> int \<Rightarrow> string option \<Rightarrow> ('w, json) io" where
  "execute_stop S H session_id is_error duration_ms result =
     (case hook_of hk_stop H of
        None \<Rightarrow> ret acknowledged
      | Some cfg \<Rightarrow>
          execute_hook S Stop cfg session_id None None None
            (Some (with_result result
               [(''is_error'', JBool is_error), (''duration_ms'', JInt duration_ms)])))"

definition execute_subagent_stop ::
  "'w webhook_service \<Rightarrow> hooks_config option \<Rightarrow> string \<Rightarrow> string \<Rightarrow> bool \<Rightarrow> string option \<Rightarrow> ('w, json) io" where
  "execute_subagent_stop S H session_id subagent_name is_error result =
     (case hook_of hk_subagent_stop H of
        None \<Rightarrow> ret acknowledged
      | Some cfg \<Rightarrow>
          execute_hook S SubagentStop cfg session_id None None None
            (Some (with_result result
               [(''subagent_name'', JStr subagent_name), (''is_error'', JBool is_error)])))"

definition execute_user_prompt_submit ::
  "'w webhook_service \<Rightarrow> hooks_config option \<Rightarrow> string \<Rightarrow> string \<Rightarrow> ('w, json) io" where
  "execute_user_prompt_submit S H session_id prompt =
     (case hook_of hk_user_prompt_submit H of
        None \<Rightarrow> ret allowed
      | Some cfg \<Rightarrow>
          execute_hook S UserPromptSubmit cfg session_id None (Some [(''prompt'', JStr prompt)]) None None)"

text \<open>The facade forwards every call.\<close>

definition facade_pre_tool_use ::
  "'w webhook_service \<Rightarrow> hooks_config option \<Rightarrow> string \<Rightarrow> string \<Rightarrow> json dict option \<Rightarrow> ('w, json) io" where
  "facade_pre_tool_use S H session_id tool_name tool_input =
     execute_pre_tool_use S H session_id tool_name tool_input"

definition facade_post_tool_use ::
  "'w webhook_service \<Rightarrow> hooks_config option \<Rightarrow> string \<Rightarrow> string \<Rightarrow> json dict option \<Rightarrow> json dict option \<Rightarrow>
     ('w, json) io" where
  "facade_post_tool_use S H session_id tool_name tool_input tool_result =
     execute_post_tool_use S H session_id tool_name tool_input tool_result"

definition facade_stop ::
  "'w webhook_service \<Rightarrow> hooks_config option \<Rightarrow> string \<Rightarrow> bool \<Rightarrow> int \<Rightarrow> string option \<Rightarrow> ('w, json) io" where
  "facade_stop S H session_id is_error duration_ms result =
     execute_stop S H session_id is_error duration_ms result"

definition facade_subagent_stop ::
  "'w webhook_service \<Rightarrow> hooks_config option \<Rightarrow> string \<Rightarrow> string \<Rightarrow> bool \<Rightarrow> string option \<Rightarrow> ('w, json) io" where
  "facade_subagent_stop S H session_id subagent_name is_error result =
     execute_subagent_stop S H session_id subagent_name is_error result"

definition facade_user_prompt_submit ::
  "'w webhook_service \<Rightarrow> hooks_config option \<Rightarrow> string \<Rightarrow> string \<Rightarrow> ('w, json) io" where
  "facade_user_prompt_submit S H session_id prompt = execute_user_prompt_submit S H session_id prompt"

section \<open>What a hook decides\<close>

text \<open>The decision a response carries.\<close>

definition decision_of :: "json \<Rightarrow> json option" where
  "decision_of j = (case j of JObj d \<Rightarrow> dict_get d ''decision'' | _ \<Rightarrow> None)"

lemma decision_of_error [simp]:
  "decision_of (JObj (error_response ev reason)) = Some (JStr (default_decision ev))"
  by (simp add: decision_of_def error_response_def dict_get_def)

text \<open>The endpoint itself gave this answer.\<close>

definition endpoint_said :: "http_response \<Rightarrow> json \<Rightarrow> bool" where
  "endpoint_said response j \<longleftrightarrow> hr_status_code response < 400 \<and> hr_json response = Inr j"

lemma read_response_Inr: "read_response response = Inr j \<longleftrightarrow> endpoint_said response j"
  by (auto simp: read_response_def endpoint_said_def split: sum.splits)

text \<open>What a request that returned was: the one POST, with its headers.\<close>

definition posted :: "'w webhook_service \<Rightarrow> hook_webhook \<Rightarrow> json dict \<Rightarrow> ('w, http_response) io" where
  "posted S cfg body =
     ws_post S (hw_url cfg) body
       (dict_update [(''Content-Type'', ''application/json'')] (hw_headers cfg)) (hw_timeout cfg)"

lemma make_request_Inr:
  "make_request S (hw_url cfg) body (hw_headers cfg) (hw_timeout cfg) w = (Inr j, w') \<longleftrightarrow>
     (\<exists>response. posted S cfg body w = (Inr response, w') \<and> endpoint_said response j)"
  by (auto simp: make_request_def posted_def Let_def io_inv read_response_Inr)

text \<open>
  A hook's answer that carries another decision than the default of its event (deny for
  PreToolUse, allow otherwise) is one that the endpoint itself sent with a status below 400,
  or the answer for a tool outside the matcher; no error, timeout or malformed response
  yields it.
\<close>

theorem hook_decision_default:
  assumes "execute_hook S ev cfg session_id tool_name tool_input tool_result result_data w = (Inr j, w')"
    and "decision_of j \<noteq> Some (JStr (default_decision ev))"
  shows "given tool_name \<and> \<not> should_execute_hook S cfg (the tool_name) \<and> j = skipped_hook \<and> w' = w \<or>
    (\<exists>response. posted S cfg (build_payload ev session_id tool_name tool_input tool_result result_data) w =
       (Inr response, w') \<and> endpoint_said response j)"
proof (cases "given tool_name \<and> \<not> should_execute_hook S cfg (the tool_name)")
  case True
  with assms(1) show ?thesis by (simp add: execute_hook_def)
next
  case False
  with assms show ?thesis
    by (fastforce simp: execute_hook_def try_except_Inr make_request_Inr split: option.splits)
qed

definition ref_webhook :: "unit webhook_service" where
  "ref_webhook =
     \<lparr>ws_post = (\<lambda>url body headers timeout. if url = ''up'' then ret \<lparr>hr_status_code = 200, hr_text = ''ok'',
          hr_json = Inr (JObj [(''decision'', JStr ''allow'')])\<rparr>
        else throw (TimeoutError [])),
      ws_re_match = (\<lambda>pattern s. if pattern = ''('' then None else Some (prefix pattern s)),
      ws_text = (\<lambda>e. [])\<rparr>"

definition ref_hook :: hook_webhook where
  "ref_hook = \<lparr>hw_url = ''up'', hw_headers = [], hw_timeout = 30, hw_matcher = Some ''Bash''\<rparr>"

lemma hook_decision_default_witness:
  "\<exists>response. posted ref_webhook ref_hook (build_payload PreToolUse ''s'' (Some ''Bash'') None None None) () =
     (Inr response, ()) \<and> endpoint_said response (JObj [(''decision'', JStr ''allow'')])"
proof -
  have run: "execute_hook ref_webhook PreToolUse ref_hook ''s'' (Some ''Bash'') None None None () =
      (Inr (JObj [(''decision'', JStr ''allow'')]), ())"
    by (simp add: execute_hook_def should_execute_hook_def ref_webhook_def ref_hook_def make_request_def
        read_response_def Let_def io_operator_defs del: and_then_run try_except_run)
  have "should_execute_hook ref_webhook ref_hook ''Bash''"
    by (simp add: should_execute_hook_def ref_webhook_def ref_hook_def)
  with hook_decision_default [OF run] show ?thesis
    by (auto simp: decision_of_def dict_get_def default_decision_def)
qed

end
