(* ===== verification/McpConfig.thy ===== *)
theory McpConfig
  imports Validators
begin

text \<open>
  MCP server configuration without its storage: the keys (\<open>services/mcp_redis_keys.py\<close>), the
  validator with the redaction of credentials (\<open>services/mcp_config_validator.py\<close>), and the
  loader with the resolution of environment variables and the merge of the three tiers
  (\<open>services/mcp_config_loader.py\<close>). The environment is the argument \<open>env\<close>; the file on disk
  is a value of type \<open>config_file\<close>.
\<close>

section \<open>Keys\<close>

definition key_forbidden :: string where
  "key_forbidden = [CHR '' '', CHR 0x0A, CHR 0x0D, CHR 0x09, CHR '':'', CHR ''*'', CHR ''?'', CHR ''['', CHR '']'']"

definition validate_api_key :: "string \<Rightarrow> exn + unit" where
  "validate_api_key api_key =
     (if is_blank api_key then Inl (ValueError ''API key cannot be empty'')
      else case find (\<lambda>c. c \<in> set api_key) key_forbidden of
        None \<Rightarrow> Inr ()
      | Some c \<Rightarrow> Inl (ValueError (''API key contains invalid character '' @ quoted [c] @
          '' (not allowed in Redis keys)'')))"

definition mcp_server_key :: "string \<Rightarrow> string \<Rightarrow> exn + string" where
  "mcp_server_key api_key name =
     bind_sum (validate_api_key api_key) (\<lambda>_.
     bind_sum (validate_api_key name) (\<lambda>_.
     Inr (''mcp_server:'' @ api_key @ '':'' @ name)))"

definition mcp_index_key :: "string \<Rightarrow> exn + string" where
  "mcp_index_key api_key =
     bind_sum (validate_api_key api_key) (\<lambda>_. Inr (''mcp_servers:index:'' @ api_key))"

lemma validate_api_key_Inr: "validate_api_key k = Inr u \<Longrightarrow> CHR '':'' \<notin> set k"
  by (auto simp: validate_api_key_def find_None_iff key_forbidden_def split: if_splits option.splits)

lemma append_colon_inj:
  "CHR '':'' \<notin> set a \<Longrightarrow> CHR '':'' \<notin> set b \<Longrightarrow> a @ CHR '':'' # n = b @ CHR '':'' # m \<Longrightarrow> a = b \<and> n = m"
proof (induction a arbitrary: b)
  case Nil
  then show ?case by (cases b) auto
next
  case (Cons c a)
  then show ?case by (cases b) auto
qed

text \<open>Keys tell tenants and names apart.\<close>

lemma mcp_server_key_inj:
  assumes "mcp_server_key a n = Inr x" and "mcp_server_key b m = Inr x"
  shows "a = b \<and> n = m"
proof -
  from assms have "CHR '':'' \<notin> set a" and "CHR '':'' \<notin> set b" and "a @ CHR '':'' # n = b @ CHR '':'' # m"
    by (auto simp: mcp_server_key_def bind_sum_Inr dest!: validate_api_key_Inr)
  then show ?thesis by (rule append_colon_inj)
qed

section \<open>The validator\<close>

definition validate_command_injection :: "string option \<Rightarrow> exn + string option" where
  "validate_command_injection command =
     (case command of
        None \<Rightarrow> Inr None
      | Some s \<Rightarrow>
          if has_shell_metachar s
          then Inl (ValueError ''Dangerous shell metacharacter detected in command'') else Inr command)"

definition validate_ssrf :: "net_lib \<Rightarrow> string option \<Rightarrow> exn + string option" where
  "validate_ssrf N url =
     (case url of
        None \<Rightarrow> Inr None
      | Some u \<Rightarrow> bind_sum (validate_url_not_internal N u) (\<lambda>r. Inr (Some r)))"

text \<open>A field that is no string is not looked at.\<close>

definition str_field :: "json dict \<Rightarrow> string \<Rightarrow> string option" where
  "str_field d k = (case dict_get d k of Some (JStr s) \<Rightarrow> Some s | _ \<Rightarrow> None)"

definition validate_config :: "net_lib \<Rightarrow> json dict \<Rightarrow> exn + unit" where
  "validate_config N config =
     bind_sum (validate_command_injection (str_field config ''command'')) (\<lambda>_.
     bind_sum (validate_ssrf N (str_field config ''url'')) (\<lambda>_. Inr ()))"

section \<open>Redaction\<close>

definition sensitive_patterns :: "string list" where
  "sensitive_patterns =
     [''api_key'', ''apikey'', ''secret'', ''password'', ''token'', ''auth'', ''credential'', ''authorization'']"

definition is_sensitive_key :: "string \<Rightarrow> bool" where
  "is_sensitive_key key =
     (let key_normalized = map (\<lambda>c. if c = CHR ''-'' then CHR ''_'' else c) (lower key)
      in list_ex (\<lambda>p. contains p key_normalized) sensitive_patterns)"

definition redacted :: json where
  "redacted = JStr ''***REDACTED***''"

text \<open>The recursion works on a deep copy, so the argument itself is left alone.\<close>

fun sanitize :: "json \<Rightarrow> json" where
  "sanitize (JObj d) = JObj (map (\<lambda>(k, v). (k, if is_sensitive_key k then redacted else sanitize v)) d)"
| "sanitize (JArr xs) = JArr (map sanitize xs)"
| "sanitize v = v"

definition sanitize_credentials :: "json dict \<Rightarrow> json dict" where
  "sanitize_credentials config =
     (case sanitize (JObj config) of JObj d \<Rightarrow> d | _ \<Rightarrow> [])"

section \<open>Environment variables\<close>

text \<open>\<open>\$\{([A-Z_][A-Z0-9_]*)\}\<close>, matched after the dollar sign: the name and the rest.\<close>

definition name_start :: "char \<Rightarrow> bool" where
  "name_start c \<longleftrightarrow> (let n = of_char c :: nat in (65 \<le> n \<and> n \<le> 90) \<or> n = 95)"

definition name_char :: "char \<Rightarrow> bool" where
  "name_char c \<longleftrightarrow> (let n = of_char c :: nat in name_start c \<or> (48 \<le> n \<and> n \<le> 57))"

definition valid_name :: "string \<Rightarrow> bool" where
  "valid_name s \<longleftrightarrow> s \<noteq> [] \<and> name_start (hd s) \<and> list_all name_char s"

definition placeholder :: "string \<Rightarrow> (string \<times> string) option" where
  "placeholder cs =
     (case cs of
        [] \<Rightarrow> None
      | c # r \<Rightarrow>
          if c \<noteq> CHR ''{'' then None
          else
            let name = takeWhile name_char r; rest = dropWhile name_char r in
            if valid_name name \<and> rest \<noteq> [] \<and> hd rest = CHR ''}'' then Some (name, tl rest) else None)"

lemma placeholder_length: "placeholder cs = Some (name, rest) \<Longrightarrow> length rest < length cs"
  by (auto simp: placeholder_def Let_def split: list.splits if_splits)
     (metis diff_le_self dual_order.trans length_dropWhile_le less_Suc_eq_le)

definition env_value :: "(string \<Rightarrow> string option) \<Rightarrow> string \<Rightarrow> string" where
  "env_value env name = (case env name of None \<Rightarrow> ''${'' @ name @ ''}'' | Some v \<Rightarrow> v)"

text \<open>\<open>re.sub\<close>: from left to right; what was put in is not looked at again.\<close>

function resolve_string :: "(string \<Rightarrow> string option) \<Rightarrow> string \<Rightarrow> string" where
  "resolve_string env [] = []"
| "resolve_string env (c # cs) =
     (case (if c = CHR ''$'' then placeholder cs else None) of
        None \<Rightarrow> c # resolve_string env cs
      | Some (name, rest) \<Rightarrow> env_value env name @ resolve_string env rest)"
  by pat_completeness auto
termination
  by (relation "measure (length \<circ> snd)") (auto dest!: placeholder_length split: if_splits)

fun resolve_value :: "(string \<Rightarrow> string option) \<Rightarrow> json \<Rightarrow> json" where
  "resolve_value env (JStr s) = JStr (resolve_string env s)"
| "resolve_value env (JObj d) = JObj (map (\<lambda>(k, v). (k, resolve_value env v)) d)"
| "resolve_value env (JArr xs) = JArr (map (resolve_value env) xs)"
| "resolve_value env v = v"

definition resolve_env_vars :: "(string \<Rightarrow> string option) \<Rightarrow> json dict \<Rightarrow> json dict" where
  "resolve_env_vars env config = map (\<lambda>(k, v). (k, resolve_value env v)) config"

section \<open>The configuration file\<close>

text \<open>
  What reading the file gives: no file, an \<open>OSError\<close>, bytes that are no UTF-8 (a
  \<open>UnicodeDecodeError\<close>, which no clause catches), or text.
\<close>

datatype config_file = NoFile | Unreadable string | NoText string | FileText string

definition mcp_servers_of :: "json \<Rightarrow> exn + json dict" where
  "mcp_servers_of config =
     (case config of
        JObj d \<Rightarrow> (case dict_get_or d ''mcpServers'' (JObj []) of JObj servers \<Rightarrow> Inr servers | _ \<Rightarrow> Inr [])
      | _ \<Rightarrow> Inl (AttributeError ''get''))"

definition load_and_parse_file :: "pylib \<Rightarrow> config_file \<Rightarrow> exn + json dict" where
  "load_and_parse_file L f =
     (case f of
        FileText content \<Rightarrow>
          (case json_loads L content of None \<Rightarrow> Inr [] | Some config \<Rightarrow> mcp_servers_of config)
      | NoText m \<Rightarrow> Inl (ValueError m)
      | _ \<Rightarrow> Inr [])"

text \<open>The loader keeps what it loaded; an exception leaves nothing behind.\<close>

definition load_application_config ::
  "pylib \<Rightarrow> config_file \<Rightarrow> json dict option \<Rightarrow> (exn + json dict) \<times> json dict option" where
  "load_application_config L f cached =
     (case cached of
        Some c \<Rightarrow> (Inr c, cached)
      | None \<Rightarrow>
          if f = NoFile then (Inr [], Some [])
          else case load_and_parse_file L f of
            Inl e \<Rightarrow> (Inl e, None)
          | Inr servers \<Rightarrow> (Inr servers, Some servers))"

section \<open>The merge\<close>

definition is_opt_out :: "json dict option \<Rightarrow> bool" where
  "is_opt_out request_config \<longleftrightarrow> request_config = Some []"

text \<open>\<open>{**application_config, **api_key_config}\<close>\<close>

definition merge_configs :: "json dict \<Rightarrow> json dict \<Rightarrow> json dict option \<Rightarrow> json dict" where
  "merge_configs application_config api_key_config request_config =
     (if is_opt_out request_config then []
      else case request_config of
        Some r \<Rightarrow> r
      | None \<Rightarrow> dict_update application_config api_key_config)"

section \<open>What redaction leaves\<close>

text \<open>A place inside a value, and what is there.\<close>

datatype step = Key string | Index nat

fun at_path :: "json \<Rightarrow> step list \<Rightarrow> json option" where
  "at_path v [] = Some v"
| "at_path (JObj d) (Key k # p) = (case map_of d k of None \<Rightarrow> None | Some v \<Rightarrow> at_path v p)"
| "at_path (JArr xs) (Index i # p) = (if i < length xs then at_path (xs ! i) p else None)"
| "at_path _ _ = None"

text \<open>No key on the way is sensitive.\<close>

fun open_path :: "step list \<Rightarrow> bool" where
  "open_path [] = True"
| "open_path (Key k # p) = (\<not> is_sensitive_key k \<and> open_path p)"
| "open_path (Index i # p) = open_path p"

lemma map_of_sanitize:
  "map_of (map (\<lambda>(k, v). (k, if is_sensitive_key k then redacted else sanitize v)) d) k =
     map_option (\<lambda>v. if is_sensitive_key k then redacted else sanitize v) (map_of d k)"
  by (induction d) auto

lemma sanitize_redacted [simp]: "sanitize redacted = redacted"
  by (simp add: redacted_def)

lemma sanitize_open: "open_path p \<Longrightarrow> at_path (sanitize v) p = map_option sanitize (at_path v p)"
proof (induction v p rule: at_path.induct)
  case (2 d k p)
  then show ?case by (cases "map_of d k") (auto simp: map_of_sanitize)
qed auto

lemma sanitize_hidden:
  assumes "open_path p" and "is_sensitive_key k"
  shows "at_path (sanitize v) (p @ Key k # q) =
    (if at_path v (p @ [Key k]) = None then None else at_path redacted q)"
  using assms
proof (induction v p rule: at_path.induct)
  case (1 v)
  then show ?case
    by (cases v) (auto simp: map_of_sanitize split: option.splits)
next
  case (2 d k' p)
  then show ?case by (cases "map_of d k'") (auto simp: map_of_sanitize)
qed auto

text \<open>
  In a sanitized configuration everything below a sensitive key is replaced by the
  redaction mark, at any depth and inside lists, and every value reached by no sensitive key
  is there unchanged up to its own redactions.
\<close>

theorem sanitized_config_paths:
  assumes "open_path p" and "is_sensitive_key k"
  shows "at_path (JObj (sanitize_credentials config)) p = map_option sanitize (at_path (JObj config) p) \<and>
    at_path (JObj (sanitize_credentials config)) (p @ Key k # q) =
      (if at_path (JObj config) (p @ [Key k]) = None then None else at_path redacted q)"
  using sanitize_open [OF assms(1), of "JObj config"] sanitize_hidden [OF assms, of "JObj config" q]
  by (simp add: sanitize_credentials_def)

definition secret_config :: "json dict" where
  "secret_config = [(''env'', JObj [(''GITHUB-Token'', JStr ''s3cret''), (''HOME'', JStr ''/root'')])]"

lemma env_not_sensitive: "\<not> is_sensitive_key ''env''" "is_sensitive_key ''GITHUB-Token''"
  by code_simp+

lemma sanitized_config_paths_witness:
  "at_path (JObj (sanitize_credentials secret_config)) [Key ''env'', Key ''GITHUB-Token''] = Some redacted"
  using sanitized_config_paths [of "[Key ''env'']" "''GITHUB-Token''" secret_config "[]"] env_not_sensitive
  by (simp add: secret_config_def)

section \<open>Resolution against a reference\<close>

text \<open>A template: text without a dollar sign, and names.\<close>

datatype piece = Plain string | Var string

fun piece_text :: "piece \<Rightarrow> string" where
  "piece_text (Plain s) = s"
| "piece_text (Var n) = ''${'' @ n @ ''}''"

fun piece_value :: "(string \<Rightarrow> string option) \<Rightarrow> piece \<Rightarrow> string" where
  "piece_value env (Plain s) = s"
| "piece_value env (Var n) = env_value env n"

fun good_piece :: "piece \<Rightarrow> bool" where
  "good_piece (Plain s) = (CHR ''$'' \<notin> set s)"
| "good_piece (Var n) = valid_name n"

lemma close_no_name [simp]: "\<not> name_char CHR ''}''"
  by (simp add: name_char_def name_start_def Let_def)

lemma placeholder_name:
  assumes "valid_name n"
  shows "placeholder (CHR ''{'' # n @ CHR ''}'' # rest) = Some (n, rest)"
proof -
  from assms have "\<forall>c \<in> set n. name_char c" by (simp add: valid_name_def list_all_iff)
  then have "takeWhile name_char (n @ CHR ''}'' # rest) = n"
    and "dropWhile name_char (n @ CHR ''}'' # rest) = CHR ''}'' # rest"
    by (simp_all add: takeWhile_append dropWhile_append)
  with assms show ?thesis by (simp add: placeholder_def)
qed

lemma resolve_plain: "CHR ''$'' \<notin> set s \<Longrightarrow> resolve_string env (s @ t) = s @ resolve_string env t"
  by (induction s) auto

text \<open>
  C10: Resolving a string built from literal pieces without a dollar sign and placeholders
  replaces each placeholder by the value of its variable, or leaves it as written when the
  variable is unset, and does not look at inserted text again.
\<close>

theorem resolve_string_template:
  assumes "list_all good_piece ps"
  shows "resolve_string env (concat (map piece_text ps)) = concat (map (piece_value env) ps)"
  using assms
proof (induction ps)
  case Nil
  then show ?case by simp
next
  case (Cons p ps)
  then show ?case
    by (cases p) (simp_all add: resolve_plain placeholder_name)
qed

lemma resolve_string_template_witness:
  "resolve_string (\<lambda>n. if n = ''A'' then Some ''${B}'' else if n = ''B'' then Some ''x'' else None)
     ''k=${A};${C}'' = ''k=${B};${C}''"
  using resolve_string_template [of "[Plain ''k='', Var ''A'', Plain '';'', Var ''C'']"
      "\<lambda>n. if n = ''A'' then Some ''${B}'' else if n = ''B'' then Some ''x'' else None"]
  by (simp add: valid_name_def name_char_def name_start_def env_value_def Let_def del: resolve_string.simps)

end
