(* ===== verification/McpServers.thy ===== *)
theory McpServers
  imports McpConfig RegistryServices
begin

text \<open>
  MCP servers in the cache: \<open>McpServerConfigService\<close> (\<open>services/mcp_server_configs.py\<close>), with its
  operations for one API key and the older ones without, \<open>McpShareService\<close>
  (\<open>services/mcp_share.py\<close>), and \<open>McpConfigInjector\<close> (\<open>services/mcp_config_injector.py\<close>), which
  merges the three tiers into a query request.
\<close>

section \<open>Records\<close>

record mcp_record =
  mr_id :: string
  mr_name :: string
  mr_transport_type :: string
  mr_command :: json
  mr_args :: json
  mr_url :: json
  mr_headers :: json
  mr_env :: json
  mr_enabled :: bool
  mr_status :: string
  mr_error :: json
  mr_created_at :: string
  mr_updated_at :: json
  mr_metadata :: json
  mr_resources :: json

definition mcp_payload :: "mcp_record \<Rightarrow> json dict" where
  "mcp_payload r =
     [(''id'', JStr (mr_id r)), (''name'', JStr (mr_name r)),
      (''transport_type'', JStr (mr_transport_type r)), (''command'', mr_command r),
      (''args'', mr_args r), (''url'', mr_url r), (''headers'', mr_headers r), (''env'', mr_env r),
      (''enabled'', JBool (mr_enabled r)), (''status'', JStr (mr_status r)), (''error'', mr_error r),
      (''created_at'', JStr (mr_created_at r)), (''updated_at'', mr_updated_at r),
      (''metadata'', mr_metadata r), (''resources'', mr_resources r)]"

text \<open>\<open>list(d.get("args", [])) if d.get("args") is not None else None\<close>\<close>

definition args_list :: "json dict \<Rightarrow> exn + json" where
  "args_list d =
     (if raw_get d ''args'' = JNull then Inr JNull
      else bind_sum (py_list (raw_get d ''args'')) (\<lambda>xs. Inr (JArr xs)))"

text \<open>\<open>list(d.get("resources", [])) if d.get("resources") else []\<close>\<close>

definition resources_list :: "json dict \<Rightarrow> exn + json" where
  "resources_list d =
     (if truthy (raw_get d ''resources'')
      then bind_sum (py_list (raw_get d ''resources'')) (\<lambda>xs. Inr (JArr xs)) else Inr (JArr []))"

definition mcp_of_dict :: "pylib \<Rightarrow> string \<Rightarrow> json dict \<Rightarrow> exn + mcp_record" where
  "mcp_of_dict L name raw =
     bind_sum (args_list raw) (\<lambda>args.
     bind_sum (resources_list raw) (\<lambda>resources.
     Inr \<lparr>mr_id = str_get L raw ''id'' [], mr_name = str_get L raw ''name'' name,
          mr_transport_type =
            py_str L (dict_get_or raw ''transport_type'' (dict_get_or raw ''type'' (JStr []))),
          mr_command = raw_get raw ''command'', mr_args = args, mr_url = raw_get raw ''url'',
          mr_headers = raw_get raw ''headers'', mr_env = raw_get raw ''env'',
          mr_enabled = truthy (dict_get_or raw ''enabled'' (JBool True)),
          mr_status = str_get L raw ''status'' ''active'', mr_error = raw_get raw ''error'',
          mr_created_at = str_get L raw ''created_at'' [], mr_updated_at = raw_get raw ''updated_at'',
          mr_metadata = raw_get raw ''metadata'', mr_resources = resources\<rparr>))"

definition new_server ::
  "pylib \<Rightarrow> string \<Rightarrow> datetime \<Rightarrow> string \<Rightarrow> string \<Rightarrow> json dict \<Rightarrow> exn + mcp_record" where
  "new_server L server_id now name transport_type config =
     bind_sum (args_list config) (\<lambda>args.
     bind_sum (resources_list config) (\<lambda>resources.
     Inr \<lparr>mr_id = server_id, mr_name = name, mr_transport_type = transport_type,
          mr_command = raw_get config ''command'', mr_args = args, mr_url = raw_get config ''url'',
          mr_headers = raw_get config ''headers'', mr_env = raw_get config ''env'',
          mr_enabled = truthy (dict_get_or config ''enabled'' (JBool True)),
          mr_status = str_get L config ''status'' ''active'', mr_error = raw_get config ''error'',
          mr_created_at = isoformat L now, mr_updated_at = JNull,
          mr_metadata = raw_get config ''metadata'', mr_resources = resources\<rparr>))"

definition changed_server ::
  "pylib \<Rightarrow> mcp_record \<Rightarrow> datetime \<Rightarrow> string option \<Rightarrow> json dict option \<Rightarrow> mcp_record" where
  "changed_server L existing now transport_type config =
     (let next = (case config of None \<Rightarrow> [] | Some c \<Rightarrow> c) in
      existing\<lparr>
        mr_transport_type := (if given transport_type then the transport_type else mr_transport_type existing),
        mr_command := dict_get_or next ''command'' (mr_command existing),
        mr_args := dict_get_or next ''args'' (mr_args existing),
        mr_url := dict_get_or next ''url'' (mr_url existing),
        mr_headers := dict_get_or next ''headers'' (mr_headers existing),
        mr_env := dict_get_or next ''env'' (mr_env existing),
        mr_enabled := truthy (dict_get_or next ''enabled'' (JBool (mr_enabled existing))),
        mr_status := py_str L (dict_get_or next ''status'' (JStr (mr_status existing))),
        mr_error := dict_get_or next ''error'' (mr_error existing),
        mr_updated_at := JStr (isoformat L now),
        mr_metadata := dict_get_or next ''metadata'' (mr_metadata existing),
        mr_resources := dict_get_or next ''resources'' (mr_resources existing)\<rparr>)"

section \<open>The service without API keys\<close>

definition legacy_servers :: "pylib \<Rightarrow> mcp_record registry" where
  "legacy_servers L = \<lparr>rg_prefix = ''mcp_server:'', rg_index = ''mcp_servers:index'',
                       rg_payload = mcp_payload, rg_parse = mcp_of_dict L\<rparr>"

text \<open>The servers of one API key; the keys are those of \<open>mcp_server_key\<close> and \<open>mcp_index_key\<close>.\<close>

definition scoped_servers :: "pylib \<Rightarrow> string \<Rightarrow> mcp_record registry" where
  "scoped_servers L api_key =
     \<lparr>rg_prefix = ''mcp_server:'' @ api_key @ '':'', rg_index = ''mcp_servers:index:'' @ api_key,
      rg_payload = mcp_payload, rg_parse = mcp_of_dict L\<rparr>"

text \<open>Both variants of creating and updating do the same on their registry.\<close>

definition create_server_in ::
  "pylib \<Rightarrow> 'c cache \<Rightarrow> mcp_record registry \<Rightarrow> string \<Rightarrow> string \<Rightarrow> json dict \<Rightarrow>
     (('c, 'd) world, mcp_record option) io" where
  "create_server_in L C R name transport_type config =
     and_then (get_record C R name) (\<lambda>existing.
       if existing \<noteq> None then ret None
       else
         and_then utc_now (\<lambda>now.
         and_then draw_token (\<lambda>server_id.
         and_then (lift_sum (new_server L server_id now name transport_type config)) (\<lambda>r.
         and_then (insert_record C R name r) (\<lambda>r. ret (Some r))))))"

definition update_server_in ::
  "pylib \<Rightarrow> 'c cache \<Rightarrow> mcp_record registry \<Rightarrow> string \<Rightarrow> string option \<Rightarrow> json dict option \<Rightarrow>
     (('c, 'd) world, mcp_record option) io" where
  "update_server_in L C R name transport_type config =
     update_record C R name (\<lambda>existing.
       and_then utc_now (\<lambda>now. ret (changed_server L existing now transport_type config)))"

definition list_servers :: "pylib \<Rightarrow> 'c cache \<Rightarrow> (('c, 'd) world, mcp_record list) io" where
  "list_servers L C = list_records C (legacy_servers L)"

definition create_server ::
  "pylib \<Rightarrow> 'c cache \<Rightarrow> string \<Rightarrow> string \<Rightarrow> json dict \<Rightarrow> (('c, 'd) world, mcp_record option) io" where
  "create_server L C name transport_type config =
     create_server_in L C (legacy_servers L) name transport_type config"

definition get_server :: "pylib \<Rightarrow> 'c cache \<Rightarrow> string \<Rightarrow> (('c, 'd) world, mcp_record option) io" where
  "get_server L C name = get_record C (legacy_servers L) name"

definition update_server ::
  "pylib \<Rightarrow> 'c cache \<Rightarrow> string \<Rightarrow> string option \<Rightarrow> json dict option \<Rightarrow>
     (('c, 'd) world, mcp_record option) io" where
  "update_server L C name transport_type config =
     update_server_in L C (legacy_servers L) name transport_type config"

definition delete_server :: "pylib \<Rightarrow> 'c cache \<Rightarrow> string \<Rightarrow> (('c, 'd) world, bool) io" where
  "delete_server L C name = delete_record C (legacy_servers L) name"

section \<open>The service for an API key\<close>

text \<open>The keys are built, and checked, where the code builds them.\<close>

definition list_servers_for_api_key ::
  "pylib \<Rightarrow> 'c cache \<Rightarrow> string \<Rightarrow> (('c, 'd) world, mcp_record list) io" where
  "list_servers_for_api_key L C api_key =
     and_then (lift_sum (mcp_index_key api_key)) (\<lambda>index_key.
     and_then (on_cache (c_set_members C index_key)) (\<lambda>names.
       if names = [] then ret []
       else
         and_then (lift_sum (map_sum_list (mcp_server_key api_key) names)) (\<lambda>keys.
         and_then (on_cache (c_get_many_json C keys)) (\<lambda>raw_servers.
         collect_records C (scoped_servers L api_key) names raw_servers))))"

definition get_server_for_api_key ::
  "pylib \<Rightarrow> 'c cache \<Rightarrow> string \<Rightarrow> string \<Rightarrow> (('c, 'd) world, mcp_record option) io" where
  "get_server_for_api_key L C api_key name =
     and_then (lift_sum (mcp_server_key api_key name)) (\<lambda>_.
     get_record C (scoped_servers L api_key) name)"

definition create_server_for_api_key ::
  "pylib \<Rightarrow> 'c cache \<Rightarrow> string \<Rightarrow> string \<Rightarrow> string \<Rightarrow> json dict \<Rightarrow> (('c, 'd) world, mcp_record option) io"
where
  "create_server_for_api_key L C api_key name transport_type config =
     and_then (lift_sum (mcp_server_key api_key name)) (\<lambda>_.
     create_server_in L C (scoped_servers L api_key) name transport_type config)"

definition update_server_for_api_key ::
  "pylib \<Rightarrow> 'c cache \<Rightarrow> string \<Rightarrow> string \<Rightarrow> string option \<Rightarrow> json dict option \<Rightarrow>
     (('c, 'd) world, mcp_record option) io" where
  "update_server_for_api_key L C api_key name transport_type config =
     and_then (lift_sum (mcp_server_key api_key name)) (\<lambda>_.
     update_server_in L C (scoped_servers L api_key) name transport_type config)"

definition delete_server_for_api_key ::
  "pylib \<Rightarrow> 'c cache \<Rightarrow> string \<Rightarrow> string \<Rightarrow> (('c, 'd) world, bool) io" where
  "delete_server_for_api_key L C api_key name =
     and_then (lift_sum (mcp_index_key api_key)) (\<lambda>index_key.
     and_then (on_cache (c_remove_from_set C index_key name)) (\<lambda>_.
     and_then (lift_sum (mcp_server_key api_key name)) (\<lambda>key.
     on_cache (c_delete C key))))"

section \<open>Shares\<close>

record mcp_share =
  sh_name :: string
  sh_config :: json
  sh_created_at :: string

definition share_key :: "string \<Rightarrow> string" where
  "share_key token = ''mcp_share:'' @ token"

definition share_payload :: "mcp_share \<Rightarrow> json dict" where
  "share_payload p =
     [(''name'', JStr (sh_name p)), (''config'', sh_config p), (''created_at'', JStr (sh_created_at p))]"

definition cache_error :: "string \<Rightarrow> exn" where
  "cache_error m = APIError m ''CACHE_ERROR'' 500"

text \<open>The loop \<open>for _ in range(5)\<close>: a token in use is skipped.\<close>

fun allocate_share ::
  "'c cache \<Rightarrow> int \<Rightarrow> mcp_share \<Rightarrow> nat \<Rightarrow> (('c, 'd) world, string \<times> mcp_share) io" where
  "allocate_share C ttl payload 0 = throw (cache_error ''Unable to allocate MCP share token'')"
| "allocate_share C ttl payload (Suc n) =
     and_then draw_token (\<lambda>token.
     and_then (on_cache (c_exists C (share_key token))) (\<lambda>taken.
       if taken then allocate_share C ttl payload n
       else
         and_then (on_cache (c_set_json C (share_key token) (share_payload payload) (Some ttl)))
           (\<lambda>_. ret (token, payload))))"

definition create_share ::
  "pylib \<Rightarrow> 'c cache \<Rightarrow> int \<Rightarrow> string \<Rightarrow> json dict \<Rightarrow> (('c, 'd) world, string \<times> mcp_share) io" where
  "create_share L C ttl name config =
     and_then utc_now (\<lambda>now.
       allocate_share C ttl
         \<lparr>sh_name = name, sh_config = JObj config, sh_created_at = isoformat L now\<rparr> 5)"

definition get_share :: "pylib \<Rightarrow> 'c cache \<Rightarrow> string \<Rightarrow> (('c, 'd) world, mcp_share option) io" where
  "get_share L C token =
     and_then (on_cache (c_get_json C (share_key token))) (\<lambda>payload.
       if payload = JNull then ret None
       else case payload of
         JObj d \<Rightarrow>
           ret (Some \<lparr>sh_name = str_get L d ''name'' [], sh_config = dict_get_or d ''config'' (JObj []),
                      sh_created_at = str_get L d ''created_at'' []\<rparr>)
       | _ \<Rightarrow> throw (AttributeError ''get''))"

section \<open>The contract of the registries\<close>

text \<open>What the services write: lists where the reader expects lists.\<close>

definition wf_mcp :: "mcp_record \<Rightarrow> bool" where
  "wf_mcp r \<longleftrightarrow>
     list_all wf_json [mr_command r, mr_args r, mr_url r, mr_headers r, mr_env r, mr_error r,
       mr_updated_at r, mr_metadata r, mr_resources r] \<and>
     (case mr_args r of JNull \<Rightarrow> True | JArr _ \<Rightarrow> True | _ \<Rightarrow> False) \<and>
     (case mr_resources r of JArr _ \<Rightarrow> True | _ \<Rightarrow> False)"

lemma mcp_payload_wf: "wf_mcp r \<Longrightarrow> wf_dict (mcp_payload r)"
  by (simp add: mcp_payload_def wf_mcp_def)

lemma mcp_parse_payload:
  assumes "wf_mcp r"
  shows "mcp_of_dict L name (mcp_payload r) = Inr r"
proof -
  from assms obtain xs where res: "mr_resources r = JArr xs"
    by (auto simp: wf_mcp_def split: json.splits)
  have "mr_args r = JNull \<or> (\<exists>ys. mr_args r = JArr ys)"
    using assms by (auto simp: wf_mcp_def split: json.splits)
  with res show ?thesis
    by (cases r) (auto simp: mcp_of_dict_def mcp_payload_def args_list_def resources_list_def field_read_defs)
qed

interpretation legacy_registry: stored_records "legacy_servers L" "\<lambda>r. r" wf_mcp
  by unfold_locales
     (auto simp: legacy_servers_def record_key_def mcp_payload_wf mcp_parse_payload)

interpretation scoped_registry: stored_records "scoped_servers L k" "\<lambda>r. r" wf_mcp
  by unfold_locales
     (auto simp: scoped_servers_def record_key_def mcp_payload_wf mcp_parse_payload)

section \<open>Injection\<close>

text \<open>
  \<open>McpConfigInjector\<close> (\<open>services/mcp_config_injector.py\<close>): the servers of the configuration file,
  of the API key and of the request are merged, validated and put into the request.

  The injector runs over the world of the services paired with what the loader has cached.
  Pydantic's conversion of a dictionary to the typed fields is the parameter \<open>mi_parse\<close>; the
  validators of the schema are those of \<open>Validators\<close>.
\<close>

record 'c mcp_injector =
  mi_lib :: pylib
  mi_net :: net_lib
  mi_cache :: "'c cache"
  mi_env :: "string \<Rightarrow> string option"
  mi_file :: config_file
  mi_parse :: "json dict \<Rightarrow> exn + mcp_server"

type_synonym ('c, 'd) loader_world = "('c, 'd) world \<times> json dict option"

definition in_world :: "(('c, 'd) world, 'a) io \<Rightarrow> (('c, 'd) loader_world, 'a) io" where
  "in_world m = (\<lambda>(w, l). case m w of (r, w') \<Rightarrow> (r, (w', l)))"

definition load_config :: "'c mcp_injector \<Rightarrow> (('c, 'd) loader_world, json dict) io" where
  "load_config I =
     (\<lambda>(w, l). case load_application_config (mi_lib I) (mi_file I) l of (r, l') \<Rightarrow> (r, (w, l')))"

subsection \<open>Conversions\<close>

text \<open>\<open>if record.f: server_config["f"] = record.f\<close>\<close>

definition set_truthy :: "string \<Rightarrow> json \<Rightarrow> json dict \<Rightarrow> json dict" where
  "set_truthy k v d = (if truthy v then dict_set k v d else d)"

definition record_config :: "mcp_record \<Rightarrow> json dict" where
  "record_config r =
     set_truthy ''env'' (mr_env r)
       (set_truthy ''headers'' (mr_headers r)
         (set_truthy ''url'' (mr_url r)
           (set_truthy ''args'' (mr_args r)
             (set_truthy ''command'' (mr_command r) [(''type'', JStr (mr_transport_type r))]))))"

text \<open>Disabled servers are left out; of two records of one name the later counts.\<close>

definition records_to_config_dict :: "mcp_record list \<Rightarrow> json dict" where
  "records_to_config_dict records =
     fold (\<lambda>r d. if mr_enabled r then dict_set (mr_name r) (JObj (record_config r)) d else d) records []"

text \<open>\<open>schema.model_dump(exclude_defaults=False)\<close>\<close>

definition server_dump :: "mcp_server \<Rightarrow> json dict" where
  "server_dump m =
     [(''command'', json_of_opt JStr (ms_command m)), (''args'', json_strings (ms_args m)),
      (''type'', JStr (transport_text (ms_type m))), (''url'', json_of_opt JStr (ms_url m)),
      (''headers'', JObj (strings_obj (ms_headers m))), (''env'', JObj (strings_obj (ms_env m)))]"

definition schemas_to_config_dict :: "(string \<times> mcp_server) list \<Rightarrow> json dict" where
  "schemas_to_config_dict schemas = map (\<lambda>(name, m). (name, JObj (server_dump m))) schemas"

definition model_validate :: "'c mcp_injector \<Rightarrow> json dict \<Rightarrow> exn + mcp_server" where
  "model_validate I d = bind_sum (mi_parse I d) (check_mcp_server (mi_net I))"

text \<open>What is no dictionary, or fails the validation, is left out.\<close>

definition config_schema :: "'c mcp_injector \<Rightarrow> json \<Rightarrow> mcp_server option" where
  "config_schema I v =
     (case v of
        JObj d \<Rightarrow> (case model_validate I d of Inl _ \<Rightarrow> None | Inr m \<Rightarrow> Some m)
      | _ \<Rightarrow> None)"

definition config_dict_to_schemas :: "'c mcp_injector \<Rightarrow> json dict \<Rightarrow> (string \<times> mcp_server) list" where
  "config_dict_to_schemas I config =
     fold (\<lambda>(name, v) schemas. case config_schema I v of None \<Rightarrow> schemas | Some m \<Rightarrow> dict_set name m schemas)
       config []"

subsection \<open>The injection\<close>

definition tool_pattern :: "string \<Rightarrow> string" where
  "tool_pattern name = ''mcp__'' @ name @ ''__*''"

definition enriched_request :: "query_request \<Rightarrow> (string \<times> mcp_server) list \<Rightarrow> query_request" where
  "enriched_request q schemas =
     q\<lparr>qr_mcp_servers := Some schemas,
       qr_allowed_tools := qr_allowed_tools q @ map (tool_pattern \<circ> fst) schemas\<rparr>"

definition request_config :: "query_request \<Rightarrow> json dict option" where
  "request_config q =
     (case qr_mcp_servers q of
        None \<Rightarrow> None
      | Some servers \<Rightarrow> if servers = [] then None else Some (schemas_to_config_dict servers))"

definition inject_servers ::
  "'c mcp_injector \<Rightarrow> query_request \<Rightarrow> string \<Rightarrow> (('c, 'd) loader_world, query_request) io" where
  "inject_servers I q api_key =
     and_then (load_config I) (\<lambda>app_config_raw.
     and_then (in_world (list_servers_for_api_key (mi_lib I) (mi_cache I) api_key)) (\<lambda>records.
     ret (enriched_request q
       (config_dict_to_schemas I
         (merge_configs (resolve_env_vars (mi_env I) app_config_raw)
           (records_to_config_dict records) (request_config q))))))"

definition inject ::
  "'c mcp_injector \<Rightarrow> query_request \<Rightarrow> string \<Rightarrow> (('c, 'd) loader_world, query_request) io" where
  "inject I q api_key =
     (if qr_mcp_servers q = Some [] then ret q
      else try_except (inject_servers I q api_key) (\<lambda>e. if is_exception e then ret q else throw e))"

subsection \<open>The servers of a request\<close>

lemma fold_schemas_map:
  "map_of (fold (\<lambda>(name, v) schemas. case config_schema I v of None \<Rightarrow> schemas | Some m \<Rightarrow> dict_set name m schemas)
     config schemas) =
   fold (\<lambda>(name, v) M. case config_schema I v of None \<Rightarrow> M | Some m \<Rightarrow> M(name \<mapsto> m)) config (map_of schemas)"
  by (induction config arbitrary: schemas) (auto split: option.split)

lemma fold_schemas_lookup:
  assumes "distinct_keys config"
  shows "fold (\<lambda>(name, v) M. case config_schema I v of None \<Rightarrow> M | Some m \<Rightarrow> M(name \<mapsto> m)) config M n =
    (case map_of config n of
       None \<Rightarrow> M n
     | Some v \<Rightarrow> (case config_schema I v of None \<Rightarrow> M n | Some m \<Rightarrow> Some m))"
  using assms
proof (induction config arbitrary: M)
  case Nil
  then show ?case by simp
next
  case (Cons kv config)
  obtain k v where kv: "kv = (k, v)" by (cases kv)
  with Cons.prems have "distinct_keys config" and "map_of config k = None"
    by (auto simp: distinct_keys_def map_of_eq_None_iff)
  with Cons.IH kv show ?case
    by (cases "config_schema I v"; cases "n = k") (auto split: option.splits)
qed

lemma config_dict_to_schemas_lookup:
  "distinct_keys config \<Longrightarrow>
     map_of (config_dict_to_schemas I config) n = Option.bind (map_of config n) (config_schema I)"
  unfolding config_dict_to_schemas_def fold_schemas_map fold_schemas_lookup
  by (cases "map_of config n") (auto split: option.splits)

lemma fold_schemas_safe:
  assumes "\<forall>(n, m) \<in> set schemas. safe_server (mi_net I) m"
  shows "\<forall>(n, m) \<in> set (fold (\<lambda>(name, v) schemas. case config_schema I v of None \<Rightarrow> schemas
     | Some m \<Rightarrow> dict_set name m schemas) config schemas). safe_server (mi_net I) m"
  using assms
proof (induction config arbitrary: schemas)
  case Nil
  then show ?case by simp
next
  case (Cons kv config)
  obtain k v where kv: "kv = (k, v)" by (cases kv)
  show ?case
  proof (cases "config_schema I v")
    case None
    with Cons kv show ?thesis by simp
  next
    case (Some m)
    then have "safe_server (mi_net I) m"
      by (auto simp: config_schema_def model_validate_def bind_sum_Inr split: json.splits sum.splits
          dest: check_mcp_server_Inr)
    with Cons.prems have "\<forall>(n, m) \<in> set (dict_set k m schemas). safe_server (mi_net I) m"
      using set_dict_set [of k m schemas] by fastforce
    with Cons.IH Some kv show ?thesis by simp
  qed
qed

lemma config_dict_to_schemas_safe:
  "(n, m) \<in> set (config_dict_to_schemas I config) \<Longrightarrow> safe_server (mi_net I) m"
  using fold_schemas_safe [of "[]" I config] by (auto simp: config_dict_to_schemas_def)

end
