(* ===== verification/McpProperties.thy ===== *)
theory McpProperties
  imports McpServers Reference
begin

text \<open>
  MCP servers: an operation for one API key leaves the servers of every other key alone, the
  injected request holds the servers of the right tier, and none of them fails the checks.
\<close>

section \<open>Tenants\<close>

datatype server_op =
    ListServers
  | GetServer string
  | CreateServer string string "json dict"
  | UpdateServer string "string option" "json dict option"
  | DeleteServer string

fun server_do :: "pylib \<Rightarrow> 'c cache \<Rightarrow> string \<Rightarrow> server_op \<Rightarrow> (('c, 'd) world, unit) io" where
  "server_do L C k ListServers = and_then (list_servers_for_api_key L C k) (\<lambda>_. ret ())"
| "server_do L C k (GetServer n) = and_then (get_server_for_api_key L C k n) (\<lambda>_. ret ())"
| "server_do L C k (CreateServer n t c) = and_then (create_server_for_api_key L C k n t c) (\<lambda>_. ret ())"
| "server_do L C k (UpdateServer n t c) = and_then (update_server_for_api_key L C k n t c) (\<lambda>_. ret ())"
| "server_do L C k (DeleteServer n) = and_then (delete_server_for_api_key L C k n) (\<lambda>_. ret ())"

text \<open>The keys under which an API key's servers and index are stored.\<close>

definition tenant_key :: "string \<Rightarrow> string \<Rightarrow> bool" where
  "tenant_key k x \<longleftrightarrow> mcp_index_key k = Inr x \<or> (\<exists>n. mcp_server_key k n = Inr x)"

lemma tenant_key_forms:
  assumes "tenant_key k x"
  shows "CHR '':'' \<notin> set k"
    and "x = ''mcp_servers:index:'' @ k \<or> (\<exists>n. x = ''mcp_server:'' @ k @ CHR '':'' # n)"
  using assms
  by (auto simp: tenant_key_def mcp_index_key_def mcp_server_key_def bind_sum_Inr
      dest!: validate_api_key_Inr)

lemma tenant_keys_differ:
  assumes "tenant_key b x" and "a \<noteq> b" and "validate_api_key a = Inr ()"
  shows "x \<noteq> rg_index (scoped_servers L a)" and "x \<noteq> record_key (scoped_servers L a) n"
proof -
  note a = validate_api_key_Inr [OF assms(3)] and x = tenant_key_forms [OF assms(1)]
  from x(2) assms(2) show "x \<noteq> rg_index (scoped_servers L a)"
    by (elim disjE exE) (simp_all add: scoped_servers_def)
  from x(2) show "x \<noteq> record_key (scoped_servers L a) n"
  proof (elim disjE exE)
    fix m assume "x = ''mcp_server:'' @ b @ CHR '':'' # m"
    with append_colon_inj [OF x(1) a, of m n] assms(2) show ?thesis
      by (auto simp: scoped_servers_def record_key_def)
  qed (simp add: scoped_servers_def record_key_def)
qed

context steady_cache
begin

text \<open>The operations of a registry touch its own keys only, whether they return or raise.\<close>

lemma keeps_cache_steps:
  "keeps (\<lambda>c. ent c x) (on_cache (c_get_json C k))"
  "keeps (\<lambda>c. ent c x) (on_cache (c_set_members C k))"
  "keeps (\<lambda>c. ent c x) (on_cache (c_get_many_json C ks))"
  "x \<noteq> k \<Longrightarrow> keeps (\<lambda>c. ent c x) (on_cache (c_set_json C k d ttl))"
  "x \<noteq> k \<Longrightarrow> keeps (\<lambda>c. ent c x) (on_cache (c_add_to_set C k v))"
  "x \<noteq> k \<Longrightarrow> keeps (\<lambda>c. ent c x) (on_cache (c_remove_from_set C k v))"
  "x \<noteq> k \<Longrightarrow> keeps (\<lambda>c. ent c x) (on_cache (c_delete C k))"
  by (rule keeps_on_cache; auto dest: get_json_same reads_same set_json_other add_to_set_other
      remove_from_set_other delete_other)+

lemma keeps_get_record: "keeps (\<lambda>c. ent c x) (get_record C R i)"
  by (simp add: get_record_def keeps_intros keeps_cache_steps)

lemma keeps_collect_records:
  assumes "x \<noteq> rg_index R"
  shows "keeps (\<lambda>c. ent c x) (collect_records C R ids rows)"
proof (induction ids arbitrary: rows)
  case Nil
  show ?case by (cases rows) (auto simp: keeps_def)
next
  case (Cons i ids)
  show ?case
  proof (cases rows)
    case Nil
    then show ?thesis by (auto simp: keeps_def)
  next
    case (Cons raw rows')
    with Cons.IH assms show ?thesis by (simp add: keeps_intros keeps_cache_steps)
  qed
qed

lemma keeps_insert_record:
  "x \<noteq> rg_index R \<Longrightarrow> x \<noteq> record_key R i \<Longrightarrow> keeps (\<lambda>c. ent c x) (insert_record C R i r)"
  by (simp add: insert_record_def store_record_def index_record_def keeps_intros keeps_cache_steps)

lemma keeps_update_record:
  "x \<noteq> record_key R i \<Longrightarrow> (\<And>r. keeps (\<lambda>c. ent c x) (change r)) \<Longrightarrow>
     keeps (\<lambda>c. ent c x) (update_record C R i change)"
  by (simp add: update_record_def store_record_def keeps_get_record keeps_intros keeps_cache_steps)

end

lemma server_do_invalid: "validate_api_key a = Inl e \<Longrightarrow> server_do L C a op = throw e"
  by (cases op)
     (simp_all add: list_servers_for_api_key_def get_server_for_api_key_def create_server_for_api_key_def
       update_server_for_api_key_def delete_server_for_api_key_def mcp_index_key_def mcp_server_key_def)

text \<open>What the key functions return is what the registry of the key uses.\<close>

lemma scoped_keys:
  "mcp_server_key a n = Inr k \<Longrightarrow> k = record_key (scoped_servers L a) n"
  "mcp_index_key a = Inr k \<Longrightarrow> k = rg_index (scoped_servers L a)"
  by (auto simp: mcp_server_key_def mcp_index_key_def bind_sum_Inr scoped_servers_def record_key_def)

lemma keeps_after_key:
  assumes "\<And>k. r = Inr k \<Longrightarrow> keeps view (f k)"
  shows "keeps view (and_then (lift_sum r) f)"
  using assms by (cases r) (simp_all add: keeps_intros)

context steady_cache
begin

lemma keeps_server_do:
  assumes "x \<noteq> rg_index (scoped_servers L' a)" and "\<And>n. x \<noteq> record_key (scoped_servers L' a) n"
  shows "keeps (\<lambda>c. ent c x) (server_do L' C a op)"
proof (cases op)
  case ListServers
  then show ?thesis
    using assms scoped_keys(2)
    by (auto simp: list_servers_for_api_key_def keeps_intros keeps_cache_steps keeps_collect_records
        intro!: keeps_intros keeps_after_key)
next
  case (GetServer n)
  then show ?thesis
    by (simp add: get_server_for_api_key_def keeps_intros keeps_get_record)
next
  case (CreateServer n t c)
  with assms show ?thesis
    by (simp add: create_server_for_api_key_def create_server_in_def keeps_intros keeps_get_record
        keeps_insert_record)
next
  case (UpdateServer n t c)
  with assms show ?thesis
    by (simp add: update_server_for_api_key_def update_server_in_def keeps_intros keeps_update_record)
next
  case (DeleteServer n)
  with assms show ?thesis
    by (auto simp: delete_server_for_api_key_def
        intro!: keeps_intros keeps_after_key keeps_cache_steps
        dest!: scoped_keys(1) [where L = L'] scoped_keys(2) [where L = L'])
qed

end

text \<open>
  C11: Whatever an operation on the servers of one API key does, returning or raising, every
  cache entry of another key's servers stays as it was.
\<close>

theorem servers_of_other_keys_kept:
  assumes "steady_cache L C ent ages matches" and "a \<noteq> b" and "tenant_key b x"
    and "server_do L C a op w = (r, w')"
  shows "ent (w_cache w') x = ent (w_cache w) x"
proof (cases "validate_api_key a")
  case (Inl e)
  with assms(4) show ?thesis by (simp add: server_do_invalid)
next
  case (Inr u)
  then have "validate_api_key a = Inr ()" by simp
  note other = tenant_keys_differ [OF assms(3,2) this]
  have "keeps (\<lambda>c. ent c x) (server_do L C a op :: (('a, 'b) world, unit) io)"
    by (rule steady_cache.keeps_server_do [OF assms(1)]) (rule other)+
  from keepsD [OF this assms(4)] show ?thesis .
qed

lemma servers_of_other_keys_kept_witness:
  "ref_ent (w_cache (snd (server_do ref_lib (ref_cache 0) ''a'' (DeleteServer ''s'') (ref_world ()))))
     ''mcp_server:b:s'' = None"
proof -
  have "tenant_key ''b'' ''mcp_server:b:s''"
    unfolding tenant_key_def
    by (intro disjI2 exI [of _ "''s''"])
       (simp add: mcp_server_key_def validate_api_key_def is_blank_def is_space_def key_forbidden_def Let_def)
  from servers_of_other_keys_kept [OF ref_steady _ this, of "''a''" "DeleteServer ''s''" "ref_world ()"
      "fst (server_do ref_lib (ref_cache 0) ''a'' (DeleteServer ''s'') (ref_world ()))"
      "snd (server_do ref_lib (ref_cache 0) ''a'' (DeleteServer ''s'') (ref_world ()))"]
  show ?thesis
    by (simp add: ref_world_empty del: ref_world_sel server_do.simps)
qed

text \<open>The operations without an API key can name a tenant's server.\<close>

lemma legacy_reads_tenant:
  "get_server L C (a @ CHR '':'' # n) = get_record C (legacy_servers L) (a @ CHR '':'' # n) \<and>
   record_key (legacy_servers L) (a @ CHR '':'' # n) = record_key (scoped_servers L a) n"
  by (simp add: get_server_def legacy_servers_def scoped_servers_def record_key_def)

section \<open>Injection\<close>

text \<open>
  C12: Inject returns the request unchanged, or with servers that all pass the schema:
  commands without shell metacharacters or null bytes, URLs that are not internal, and the
  transport's required field present.
\<close>

theorem injected_servers_safe:
  assumes "inject I q api_key wl = (r, wl')"
  shows "case r of
      Inl e \<Rightarrow> \<not> is_exception e
    | Inr q' \<Rightarrow> q' = q \<or>
        (\<exists>schemas. q' = enriched_request q schemas \<and> (\<forall>(n, m) \<in> set schemas. safe_server (mi_net I) m))"
proof (cases "qr_mcp_servers q = Some []")
  case True
  with assms show ?thesis by (auto simp: inject_def)
next
  case False
  with assms have run: "try_except (inject_servers I q api_key)
      (\<lambda>e. if is_exception e then ret q else throw e) wl = (r, wl')"
    by (simp add: inject_def)
  show ?thesis
  proof (cases r)
    case (Inl e)
    with run show ?thesis by (auto simp: try_except_Inl split: if_splits)
  next
    case (Inr q')
    with run have "inject_servers I q api_key wl = (Inr q', wl') \<or> q' = q"
      by (auto simp: try_except_Inr split: if_splits)
    with Inr show ?thesis
      by (fastforce simp: inject_servers_def io_inv dest: config_dict_to_schemas_safe)
  qed
qed

definition ref_net :: net_lib where
  "ref_net = \<lparr>url_hostname = (\<lambda>u. Inr (Some u)), ip_internal = (\<lambda>h. None)\<rparr>"

definition ref_server :: mcp_server where
  "ref_server = \<lparr>ms_command = Some ''npx'', ms_args = [], ms_type = Stdio, ms_url = None,
     ms_headers = [], ms_env = []\<rparr>"

definition ref_injector :: "server redis_world mcp_injector" where
  "ref_injector = \<lparr>mi_lib = ref_lib, mi_net = ref_net, mi_cache = ref_cache 0, mi_env = (\<lambda>n. None),
     mi_file = NoFile, mi_parse = (\<lambda>d. Inr ref_server)\<rparr>"

definition ref_query :: query_request where
  "ref_query = (plain_request ''hi'')\<lparr>qr_mcp_servers := Some [(''s'', ref_server)]\<rparr>"

lemma ref_inject_run:
  "inject_servers ref_injector ref_query ''k'' (ref_world (), Some []) =
     (Inr (enriched_request ref_query [(''s'', ref_server)]),
      snd (inject_servers ref_injector ref_query ''k'' (ref_world (), Some [])))"
proof (rule fst_run)
  have "validate_api_key ''k'' = Inr ()"
    by (simp add: validate_api_key_def is_blank_def is_space_def key_forbidden_def Let_def)
  moreover have "check_mcp_server ref_net ref_server = Inr ref_server"
    by (simp add: check_mcp_server_def validate_command_security_def validate_no_null_bytes_def
        has_null_byte_def has_shell_metachar_def shell_metachars_def validate_args_security_def
        validate_url_security_def validate_transport_def ref_server_def)
  ultimately show "fst (inject_servers ref_injector ref_query ''k'' (ref_world (), Some [])) =
      Inr (enriched_request ref_query [(''s'', ref_server)])"
    by (simp add: inject_servers_def load_config_def load_application_config_def in_world_def
        list_servers_for_api_key_def mcp_index_key_def config_dict_to_schemas_def config_schema_def
        model_validate_def merge_configs_def is_opt_out_def request_config_def schemas_to_config_dict_def
        resolve_env_vars_def ref_injector_def ref_query_def plain_request_def dict_set_def
        rc_set_members_def sv_smembers_def ref_eval del: eval_rules)
qed

lemma injected_servers_safe_witness: "safe_server ref_net ref_server"
proof -
  have "qr_mcp_servers ref_query \<noteq> Some []"
    by (simp add: ref_query_def plain_request_def)
  with ref_inject_run have "inject ref_injector ref_query ''k'' (ref_world (), Some []) =
      (Inr (enriched_request ref_query [(''s'', ref_server)]),
       snd (inject_servers ref_injector ref_query ''k'' (ref_world (), Some [])))"
    by (simp only: inject_def if_False try_except_run(1) [where
        m = "inject_servers ref_injector ref_query ''k''" and w = "(ref_world (), Some [])", OF ref_inject_run])
  from injected_servers_safe [OF this] show ?thesis
    by (auto simp: enriched_request_def ref_query_def plain_request_def ref_injector_def)
qed

text \<open>The records of an API key, as the service lists them, and the value of a name in them.\<close>

definition key_tier :: "(string \<Rightarrow> mcp_record option) \<Rightarrow> string \<Rightarrow> json option" where
  "key_tier M n =
     (case M n of None \<Rightarrow> None
      | Some r \<Rightarrow> if mr_enabled r then Some (JObj (record_config r)) else None)"

lemma records_fold_map:
  "map_of (fold (\<lambda>r d. if mr_enabled r then dict_set (mr_name r) (JObj (record_config r)) d else d) rs d) =
   fold (\<lambda>r M. if mr_enabled r then M(mr_name r \<mapsto> JObj (record_config r)) else M) rs (map_of d)"
  by (induction rs arbitrary: d) auto

lemma records_fold_lookup:
  assumes "distinct (map mr_name rs)"
  shows "fold (\<lambda>r M. if mr_enabled r then M(mr_name r \<mapsto> JObj (record_config r)) else M) rs M n =
    (case find (\<lambda>r. mr_name r = n) rs of
       None \<Rightarrow> M n
     | Some r \<Rightarrow> if mr_enabled r then Some (JObj (record_config r)) else M n)"
  using assms
proof (induction rs arbitrary: M)
  case Nil
  then show ?case by simp
next
  case (Cons r rs)
  from Cons.prems have "mr_name r = n \<Longrightarrow> find (\<lambda>r. mr_name r = n) rs = None"
    unfolding find_None_iff by (metis distinct.simps(2) image_eqI list.set_map list.simps(9))
  with Cons show ?case by (auto split: option.split)
qed

lemma find_by_name:
  assumes "set ids = dom M" and "\<And>i r. M i = Some r \<Longrightarrow> mr_name r = i"
  shows "find (\<lambda>r. mr_name r = n) (map (\<lambda>i. the (M i)) ids) = M n"
    and "map mr_name (map (\<lambda>i. the (M i)) ids) = ids"
proof -
  have names: "mr_name (the (M i)) = i" if "i \<in> set ids" for i
    using that assms by auto
  then show "map mr_name (map (\<lambda>i. the (M i)) ids) = ids"
    by (simp add: map_idI)
  from names have "find (\<lambda>r. mr_name r = n) (map (\<lambda>i. the (M i)) ids) =
      (if n \<in> set ids then Some (the (M n)) else None)"
    by (induction ids) auto
  then show "find (\<lambda>r. mr_name r = n) (map (\<lambda>i. the (M i)) ids) = M n"
    using assms(1) by auto
qed

text \<open>The listing of an API key is the listing of its registry.\<close>

lemma list_servers_registry:
  assumes "list_servers_for_api_key L C k w = (Inr xs, w')"
  shows "list_records C (scoped_servers L k) w = (Inr xs, w')"
proof -
  have keys: "map_sum_list (mcp_server_key k) names = Inr keys \<Longrightarrow>
      keys = map (record_key (scoped_servers L k)) names" for names keys
    by (induction names arbitrary: keys) (auto simp: bind_sum_Inr dest: scoped_keys(1))
  from assms obtain names w1 where mem: "on_cache (c_set_members C (rg_index (scoped_servers L k))) w = (Inr names, w1)"
    and rest: "(if names = [] then ret [] else
      and_then (lift_sum (map_sum_list (mcp_server_key k) names)) (\<lambda>keys.
      and_then (on_cache (c_get_many_json C keys)) (\<lambda>raw. collect_records C (scoped_servers L k) names raw)))
      w1 = (Inr xs, w')"
    by (auto simp: list_servers_for_api_key_def io_inv dest: scoped_keys(2) [where L = L])
  show ?thesis
  proof (cases "names = []")
    case True
    with mem rest show ?thesis by (simp add: list_records_def)
  next
    case False
    with rest obtain ks where "map_sum_list (mcp_server_key k) names = Inr ks"
      and "and_then (on_cache (c_get_many_json C ks)) (\<lambda>raw. collect_records C (scoped_servers L k) names raw)
        w1 = (Inr xs, w')"
      by (auto simp: and_then_Inr [of "lift_sum _"])
    with keys mem False show ?thesis by (simp add: list_records_def)
  qed
qed

lemma scoped_on: "live_cache L C ent ages matches \<Longrightarrow>
    record_store L C ent ages matches (scoped_servers L k) (\<lambda>r. r) wf_mcp"
  by (rule record_store.intro) (assumption, rule scoped_registry.stored_records_axioms)

definition servers_held :: "pylib \<Rightarrow> string \<Rightarrow> store \<Rightarrow> (string \<Rightarrow> mcp_record option) \<Rightarrow> bool" where
  "servers_held L k m M \<longleftrightarrow> holds L (scoped_servers L k) (\<lambda>r. r) wf_mcp m M \<and>
     (\<forall>i r. M i = Some r \<longrightarrow> mr_name r = i)"

text \<open>The configuration of a name: the request alone, or the API key over the application.\<close>

definition effective_config ::
  "query_request \<Rightarrow> (string \<Rightarrow> mcp_record option) \<Rightarrow> json dict \<Rightarrow> string \<Rightarrow> json option" where
  "effective_config q M app n =
     (case request_config q of
        Some r \<Rightarrow> map_of r n
      | None \<Rightarrow> (case key_tier M n of None \<Rightarrow> map_of app n | Some v \<Rightarrow> Some v))"

lemma distinct_records_config: "distinct_keys (records_to_config_dict rs)"
proof -
  have "distinct_keys d \<Longrightarrow> distinct_keys
      (fold (\<lambda>r d. if mr_enabled r then dict_set (mr_name r) (JObj (record_config r)) d else d) rs d)" for d
    by (induction rs arbitrary: d) (auto simp: distinct_keys_dict_set)
  then show ?thesis
    by (simp add: records_to_config_dict_def distinct_keys_def)
qed

lemma map_of_rev: "distinct_keys d \<Longrightarrow> map_of (rev d) = map_of d"
  by (subst map_of_inject_set) (simp_all add: distinct_keys_def rev_map [symmetric])

text \<open>
  The servers that inject puts into a request are those of the request alone when it
  names any, and otherwise the servers of the configuration file overridden by the enabled
  servers of the API key, as far as they validate.
\<close>

theorem injected_tiers:
  assumes "live_cache L C ent ages matches" and "mi_lib I = L" and "mi_cache I = C"
    and "servers_held L k (ent (w_cache w)) M" and "load_application_config L (mi_file I) l = (Inr app, l1)"
    and "distinct_keys app" and "\<forall>s. qr_mcp_servers q = Some s \<longrightarrow> distinct_keys s"
    and "inject_servers I q k (w, l) = (Inr q', (w', l'))"
  shows "\<exists>schemas. q' = enriched_request q schemas \<and> ent (w_cache w') = ent (w_cache w) \<and>
    (\<forall>n. map_of schemas n =
      Option.bind (effective_config q M (resolve_env_vars (mi_env I) app) n) (config_schema I))"
proof -
  let ?app = "resolve_env_vars (mi_env I) app"
  have app: "distinct_keys ?app"
    using assms(6) by (simp add: resolve_env_vars_def distinct_keys_def o_def case_prod_unfold)
  from assms(2,3,5,8) obtain rs where ls: "list_servers_for_api_key L C k w = (Inr rs, w')"
    and q': "q' = enriched_request q (config_dict_to_schemas I
      (merge_configs ?app (records_to_config_dict rs) (request_config q)))"
    by (auto simp: inject_servers_def load_config_def in_world_def io_inv split: prod.splits)
  note on = scoped_on [OF assms(1)]
  from assms(4) have h: "holds L (scoped_servers L k) (\<lambda>r. r) wf_mcp (ent (w_cache w)) M"
    and named: "\<And>i r. M i = Some r \<Longrightarrow> mr_name r = i"
    by (auto simp: servers_held_def)
  note step = record_store.list_records_map [OF on h list_servers_registry [OF ls]]
  from step(1) obtain ids where ids: "distinct ids" "set ids = dom M" and rs: "rs = map (\<lambda>i. the (M i)) ids"
    by blast
  have tier: "map_of (records_to_config_dict rs) n = key_tier M n" for n
    using records_fold_lookup [where rs = rs and M = Map.empty and n = n]
      find_by_name(1) [OF ids(2) named, of n] find_by_name(2) [OF ids(2) named] ids(1)
    unfolding records_to_config_dict_def records_fold_map rs key_tier_def
    by (simp split: option.split)
  let ?config = "merge_configs ?app (records_to_config_dict rs) (request_config q)"
  have "distinct_keys ?config \<and> (\<forall>n. map_of ?config n = effective_config q M ?app n)"
  proof (cases "request_config q")
    case None
    with app show ?thesis
      by (simp add: merge_configs_def is_opt_out_def effective_config_def distinct_keys_dict_update
          map_of_dict_update map_of_rev distinct_records_config tier map_add_def)
  next
    case (Some r)
    then obtain s where "qr_mcp_servers q = Some s" and "r = schemas_to_config_dict s"
      by (auto simp: request_config_def split: option.splits if_splits)
    with assms(7) have "distinct_keys r"
      by (simp add: schemas_to_config_dict_def distinct_keys_def o_def case_prod_unfold)
    with Some show ?thesis
      by (auto simp: merge_configs_def is_opt_out_def effective_config_def)
  qed
  with q' step(2) show ?thesis
    by (intro exI [of _ "config_dict_to_schemas I ?config"]) (simp add: config_dict_to_schemas_lookup)
qed

lemma injected_tiers_witness:
  "Option.bind (effective_config ref_query Map.empty [] ''s'') (config_schema ref_injector) = Some ref_server"
proof -
  have "servers_held ref_lib ''k'' (ref_ent (w_cache (ref_world ()))) Map.empty"
    unfolding servers_held_def holds_def slot_def by (simp add: ref_world_empty del: ref_world_sel)
  moreover have "load_application_config ref_lib (mi_file ref_injector) (Some []) = (Inr [], Some [])"
    by (simp add: load_application_config_def)
  moreover obtain w' l' where "inject_servers ref_injector ref_query ''k'' (ref_world (), Some []) =
      (Inr (enriched_request ref_query [(''s'', ref_server)]), (w', l'))"
    using ref_inject_run by (metis surj_pair)
  ultimately have "\<exists>schemas. enriched_request ref_query [(''s'', ref_server)] = enriched_request ref_query schemas \<and>
      (\<forall>n. map_of schemas n = Option.bind (effective_config ref_query Map.empty [] n) (config_schema ref_injector))"
    using injected_tiers [OF ref_live, of ref_injector "''k''" "ref_world ()" Map.empty "Some []" "[]" "Some []" ref_query]
    by (auto simp: ref_injector_def ref_query_def plain_request_def distinct_keys_def resolve_env_vars_def)
  then obtain schemas where eq: "enriched_request ref_query [(''s'', ref_server)] = enriched_request ref_query schemas"
    and tiers: "\<And>n. map_of schemas n =
      Option.bind (effective_config ref_query Map.empty [] n) (config_schema ref_injector)"
    by blast
  from arg_cong [OF eq, of qr_mcp_servers] have "schemas = [(''s'', ref_server)]"
    by (simp add: enriched_request_def)
  with tiers [of "''s''"] show ?thesis by simp
qed

end
