(* ===== verification/Responses.thy ===== *)
theory Responses
  imports Validators
begin

text \<open>
  The response schemas of \<open>schemas/responses.py\<close> that a query produces, the dictionaries that
  \<open>model_dump\<close> makes of them, and the events of a stream with \<open>MessageHandler.format_sse\<close>
  (\<open>services/agent/handlers.py\<close>) and \<open>StreamOrchestrator\<close>
  (\<open>services/agent/stream_orchestrator.py\<close>).

  Where a schema is built from values that need not have its types, Pydantic converts them or
  raises; the conversions are the fields of \<open>pydantic\<close>.
\<close>

section \<open>Schemas\<close>

record content_block =
  cb_type :: string
  cb_text :: "string option"
  cb_thinking :: "string option"
  cb_id :: "string option"
  cb_name :: "string option"
  cb_input :: "json dict option"
  cb_tool_use_id :: "string option"
  cb_content :: "(string + json list) option"
  cb_is_error :: "bool option"

record usage =
  us_input_tokens :: int
  us_output_tokens :: int
  us_cache_read_input_tokens :: int
  us_cache_creation_input_tokens :: int

record single_query_response =
  sr_session_id :: string
  sr_model :: string
  sr_content :: "content_block list"
  sr_is_error :: bool
  sr_is_complete :: bool
  sr_stop_reason :: "string option"
  sr_duration_ms :: int
  sr_num_turns :: int
  sr_total_cost_usd :: "pyfloat option"
  sr_usage :: "usage option"
  sr_result :: "string option"
  sr_structured_output :: "json dict option"

section \<open>Pydantic\<close>

record pydantic =
  pd_bool :: "json \<Rightarrow> exn + bool"
  pd_int :: "json \<Rightarrow> exn + int"
  pd_float :: "json \<Rightarrow> exn + pyfloat"

text \<open>Values of the right type are kept.\<close>

definition pydantic_laws :: "pydantic \<Rightarrow> bool" where
  "pydantic_laws D \<longleftrightarrow>
     (\<forall>b. pd_bool D (JBool b) = Inr b) \<and> (\<forall>i. pd_int D (JInt i) = Inr i) \<and>
     (\<forall>f. pd_float D (JFloat f) = Inr f)"

definition invalid_field :: exn where
  "invalid_field = ValueError ''validation error''"

fun check_opt :: "(json \<Rightarrow> exn + 'a) \<Rightarrow> json \<Rightarrow> exn + 'a option" where
  "check_opt f JNull = Inr None"
| "check_opt f v = bind_sum (f v) (\<lambda>x. Inr (Some x))"

fun check_str :: "json \<Rightarrow> exn + string" where
  "check_str (JStr s) = Inr s"
| "check_str _ = Inl invalid_field"

fun check_dict :: "json \<Rightarrow> exn + json dict" where
  "check_dict (JObj d) = Inr d"
| "check_dict _ = Inl invalid_field"

text \<open>\<open>UsageSchema(...)\<close> with the four counts.\<close>

definition make_usage :: "pydantic \<Rightarrow> json \<Rightarrow> json \<Rightarrow> json \<Rightarrow> json \<Rightarrow> exn + usage" where
  "make_usage D i out cr cc =
     bind_sum (pd_int D i) (\<lambda>i'.
     bind_sum (pd_int D out) (\<lambda>o'.
     bind_sum (pd_int D cr) (\<lambda>cr'.
     bind_sum (pd_int D cc) (\<lambda>cc'.
     Inr \<lparr>us_input_tokens = i', us_output_tokens = o', us_cache_read_input_tokens = cr',
          us_cache_creation_input_tokens = cc'\<rparr>))))"

section \<open>Dictionaries of the schemas\<close>

definition usage_json :: "usage \<Rightarrow> json" where
  "usage_json u =
     JObj [(''input_tokens'', JInt (us_input_tokens u)), (''output_tokens'', JInt (us_output_tokens u)),
       (''cache_read_input_tokens'', JInt (us_cache_read_input_tokens u)),
       (''cache_creation_input_tokens'', JInt (us_cache_creation_input_tokens u))]"

definition block_content_json :: "string + json list \<Rightarrow> json" where
  "block_content_json c = (case c of Inl s \<Rightarrow> JStr s | Inr xs \<Rightarrow> JArr xs)"

definition block_json :: "content_block \<Rightarrow> json" where
  "block_json b =
     JObj [(''type'', JStr (cb_type b)), (''text'', json_of_opt JStr (cb_text b)),
       (''thinking'', json_of_opt JStr (cb_thinking b)), (''id'', json_of_opt JStr (cb_id b)),
       (''name'', json_of_opt JStr (cb_name b)), (''input'', json_of_opt JObj (cb_input b)),
       (''tool_use_id'', json_of_opt JStr (cb_tool_use_id b)),
       (''content'', json_of_opt block_content_json (cb_content b)),
       (''is_error'', json_of_opt JBool (cb_is_error b))]"

section \<open>Events\<close>

text \<open>\<open>{"event": ..., "data": json.dumps(...)}\<close>: the name and the text of an event.\<close>

record agent_event =
  ev_event :: string
  ev_data :: string

definition format_sse :: "pylib \<Rightarrow> string \<Rightarrow> json dict \<Rightarrow> agent_event" where
  "format_sse L event_type d = \<lparr>ev_event = event_type, ev_data = json_dumps L (JObj d)\<rparr>"

definition init_event ::
  "pylib \<Rightarrow> string \<Rightarrow> string \<Rightarrow> string list \<Rightarrow> string list \<Rightarrow> (string \<times> string) list \<Rightarrow> string \<Rightarrow>
     json list \<Rightarrow> agent_event" where
  "init_event L session_id model tools plugins commands permission_mode mcp_servers =
     format_sse L ''init''
       [(''session_id'', JStr session_id), (''model'', JStr model), (''tools'', JArr (map JStr tools)),
        (''mcp_servers'', JArr mcp_servers), (''plugins'', JArr (map JStr plugins)),
        (''commands'', JArr (map (\<lambda>(n, p). JObj [(''name'', JStr n), (''path'', JStr p)]) commands)),
        (''permission_mode'', JStr permission_mode)]"

definition message_event ::
  "pylib \<Rightarrow> string \<Rightarrow> content_block list \<Rightarrow> string option \<Rightarrow> string option \<Rightarrow> usage option \<Rightarrow> agent_event"
where
  "message_event L message_type content model uuid u =
     format_sse L ''message''
       [(''type'', JStr message_type), (''content'', JArr (map block_json content)),
        (''model'', json_of_opt JStr model), (''uuid'', json_of_opt JStr uuid),
        (''usage'', json_of_opt usage_json u), (''parent_tool_use_id'', JNull)]"

definition question_event :: "pylib \<Rightarrow> string \<Rightarrow> string \<Rightarrow> string \<Rightarrow> agent_event" where
  "question_event L tool_use_id question session_id =
     format_sse L ''question''
       [(''tool_use_id'', JStr tool_use_id), (''question'', JStr question), (''session_id'', JStr session_id)]"

definition done_event :: "pylib \<Rightarrow> string \<Rightarrow> agent_event" where
  "done_event L reason = format_sse L ''done'' [(''reason'', JStr reason)]"

definition failure_event :: "pylib \<Rightarrow> string \<Rightarrow> string \<Rightarrow> json dict option \<Rightarrow> agent_event" where
  "failure_event L code message details =
     format_sse L ''error''
       [(''code'', JStr code), (''message'', JStr message), (''details'', json_of_opt JObj details)]"

end
