(* ===== verification/OpenAI.thy ===== *)
theory OpenAI
  imports Responses World
begin

text \<open>
  The translation between the chat completion interface of OpenAI and the query interface of
  the agent: model names (\<open>services/openai/models.py\<close>), errors (\<open>errors.py\<close>), tools
  (\<open>tools.py\<close>), requests and responses (\<open>translator.py\<close>), with the schemas of
  \<open>schemas/openai/requests.py\<close>. The streaming side (\<open>streaming.py\<close>) follows at the end. Typed
  dictionaries of the source are dictionaries here; \<open>ReplySchemas\<close> has their types.
\<close>

section \<open>Text\<close>

text \<open>\<open>sep.join(xs)\<close>\<close>

fun join :: "string \<Rightarrow> string list \<Rightarrow> string" where
  "join sep [] = []"
| "join sep [s] = s"
| "join sep (s # t # ss) = s @ sep @ join sep (t # ss)"

definition line_break :: string where
  "line_break = [CHR 0x0A]"

section \<open>Model names\<close>

record model_mapper =
  mm_models :: "string dict"

definition claude_models :: "string dict" where
  "claude_models =
     [(''claude-sonnet-4-5-20250929'', ''sonnet''),
      (''claude-opus-4-5-20251101'', ''opus''),
      (''claude-haiku-4-5-20251001'', ''haiku'')]"

definition new_model_mapper :: "string dict option \<Rightarrow> model_mapper" where
  "new_model_mapper models =
     \<lparr>mm_models = (case models of None \<Rightarrow> claude_models | Some ms \<Rightarrow> ms)\<rparr>"

text \<open>\<open>{v: k for k, v in models.items()}\<close>: of two names with one alias the later counts.\<close>

definition mm_aliases :: "model_mapper \<Rightarrow> string dict" where
  "mm_aliases M = dict_update [] (map (\<lambda>(k, v). (v, k)) (mm_models M))"

definition unknown_model :: "string \<Rightarrow> exn" where
  "unknown_model model = ValueError (''Unknown model: '' @ model)"

definition to_claude :: "model_mapper \<Rightarrow> string \<Rightarrow> exn + string" where
  "to_claude M model =
     (case dict_get (mm_models M) model of
        Some alias \<Rightarrow> Inr alias
      | None \<Rightarrow>
          if dict_get (mm_aliases M) model \<noteq> None then Inr model else Inl (unknown_model model))"

definition to_full_name :: "model_mapper \<Rightarrow> string \<Rightarrow> exn + string" where
  "to_full_name M model =
     (if dict_get (mm_models M) model \<noteq> None then Inr model
      else case dict_get (mm_aliases M) model of
        Some full \<Rightarrow> Inr full
      | None \<Rightarrow> Inl (unknown_model model))"

definition model_info :: "string \<Rightarrow> json dict" where
  "model_info full_name =
     [(''id'', JStr full_name), (''object'', JStr ''model''), (''created'', JInt 1700000000),
      (''owned_by'', JStr ''anthropic'')]"

definition list_models :: "model_mapper \<Rightarrow> json dict list" where
  "list_models M = map (model_info \<circ> fst) (mm_models M)"

definition get_model_info :: "model_mapper \<Rightarrow> string \<Rightarrow> exn + json dict" where
  "get_model_info M model = bind_sum (to_full_name M model) (\<lambda>full. Inr (model_info full))"

section \<open>Errors\<close>

definition map_status_to_type :: "int \<Rightarrow> string" where
  "map_status_to_type status_code =
     (case map_of
        [(401, ''authentication_error''), (400, ''invalid_request_error''),
         (403, ''permission_error''), (404, ''invalid_request_error''),
         (429, ''rate_limit_exceeded'')] status_code of
        None \<Rightarrow> ''api_error''
      | Some t \<Rightarrow> t)"

definition translate_error :: "string \<Rightarrow> string \<Rightarrow> int \<Rightarrow> json dict" where
  "translate_error message code status_code =
     [(''error'', JObj [(''type'', JStr (map_status_to_type status_code)),
        (''message'', JStr message), (''code'', JStr code)])]"

section \<open>Requests\<close>

record function_parameters =
  fp_type :: string
  fp_properties :: "json dict dict"
  fp_required :: "string list"
  fp_additional_properties :: bool

record openai_function =
  fn_name :: string
  fn_description :: "string option"
  fn_parameters :: "function_parameters option"
  fn_strict :: "bool option"

record openai_tool =
  ot_type :: string
  ot_function :: openai_function

text \<open>A tool call in the history of a conversation: its id, and the name and arguments.\<close>

record history_call =
  hc_id :: string
  hc_name :: string
  hc_arguments :: string

record content_part =
  pt_type :: string
  pt_text :: "string option"
  pt_image_url :: "string dict option"

datatype chat_content = PlainText string | ContentParts "content_part list"

record chat_message =
  cm_role :: string
  cm_content :: "chat_content option"
  cm_tool_calls :: "history_call list option"
  cm_tool_call_id :: "string option"
  cm_name :: "string option"

datatype tool_choice = ChoiceWord string | ChoiceFunction string

record chat_request =
  cr_model :: string
  cr_messages :: "chat_message list"
  cr_temperature :: "pyfloat option"
  cr_max_tokens :: "int option"
  cr_top_p :: "pyfloat option"
  cr_stop :: "(string list + string) option"
  cr_stream :: bool
  cr_user :: "string option"
  cr_tools :: "openai_tool list option"
  cr_tool_choice :: "tool_choice option"
  cr_parallel_tool_calls :: bool

fun part_text :: "content_part \<Rightarrow> string list" where
  "part_text p = (if pt_type p = ''text'' \<and> given (pt_text p) then [the (pt_text p)] else [])"

definition extract_text_content :: "chat_content option \<Rightarrow> string" where
  "extract_text_content content =
     (case content of
        None \<Rightarrow> []
      | Some (PlainText s) \<Rightarrow> s
      | Some (ContentParts parts) \<Rightarrow> join line_break (concat (map part_text parts)))"

definition is_system :: "chat_message \<Rightarrow> bool" where
  "is_system m \<longleftrightarrow> cm_role m = ''system''"

definition system_texts :: "chat_message list \<Rightarrow> string list" where
  "system_texts messages =
     filter (\<lambda>s. s \<noteq> []) (map (extract_text_content \<circ> cm_content) (filter is_system messages))"

definition separate_system_messages :: "chat_message list \<Rightarrow> string option \<times> chat_message list" where
  "separate_system_messages messages =
     (if system_texts messages = [] then None else Some (join (line_break @ line_break) (system_texts messages)),
      filter (\<lambda>m. \<not> is_system m) messages)"

definition or_unknown :: "string option \<Rightarrow> string" where
  "or_unknown s = (if given s then the s else ''unknown'')"

definition call_line :: "history_call \<Rightarrow> string" where
  "call_line c = ''  - '' @ hc_name c @ ''(id='' @ hc_id c @ ''): '' @ hc_arguments c"

definition message_part :: "chat_message \<Rightarrow> string" where
  "message_part m =
     (let content_text = extract_text_content (cm_content m) in
      if cm_role m = ''tool'' then
        ''TOOL_RESULT ('' @ or_unknown (cm_name m) @ '', id='' @ or_unknown (cm_tool_call_id m) @ ''): '' @
          content_text @ line_break @ line_break
      else if cm_role m = ''assistant'' \<and> opt_list (cm_tool_calls m) \<noteq> [] then
        ''ASSISTANT: '' @ content_text @ line_break @ ''[Tool Calls]'' @ line_break @
          join line_break (map call_line (opt_list (cm_tool_calls m))) @ line_break @ line_break
      else map upper_char (cm_role m) @ '': '' @ content_text @ line_break @ line_break)"

definition concatenate_messages :: "chat_message list \<Rightarrow> string" where
  "concatenate_messages messages = concat (map message_part messages)"

definition final_permission_mode :: "string option \<Rightarrow> string" where
  "final_permission_mode permission_mode =
     (case permission_mode of
        None \<Rightarrow> ''default''
      | Some m \<Rightarrow> if m \<in> set permission_modes then m else ''default'')"

text \<open>The sampling parameters, the tools and the choice of a tool are not passed on.\<close>

definition translate_request ::
  "net_lib \<Rightarrow> model_mapper \<Rightarrow> chat_request \<Rightarrow> string option \<Rightarrow> exn + query_request" where
  "translate_request N M request permission_mode =
     (case to_claude M (cr_model request) of
        Inl (ValueError m) \<Rightarrow> Inl (APIError m ''MODEL_NOT_FOUND'' 400)
      | Inl e \<Rightarrow> Inl e
      | Inr claude_model \<Rightarrow>
          (case separate_system_messages (cr_messages request) of
             (system_prompt, conversation) \<Rightarrow>
               let prompt = concatenate_messages conversation in
               if prompt = []
               then Inl (APIError ''At least one user or assistant message is required''
                 ''VALIDATION_ERROR'' 400)
               else check_query_request N
                 ((plain_request prompt)\<lparr>qr_model := Some claude_model,
                    qr_system_prompt := system_prompt, qr_user := cr_user request,
                    qr_permission_mode := final_permission_mode permission_mode\<rparr>)))"

section \<open>Tools\<close>

definition input_schema :: "function_parameters option \<Rightarrow> json dict" where
  "input_schema parameters =
     (case parameters of
        None \<Rightarrow> [(''type'', JStr ''object''), (''properties'', JObj [])]
      | Some p \<Rightarrow>
          [(''type'', JStr (fp_type p)), (''properties'', JObj (map (\<lambda>(k, d). (k, JObj d)) (fp_properties p)))] @
          (if fp_required p = [] then [] else [(''required'', JArr (map JStr (fp_required p)))]) @
          (if fp_additional_properties p then [] else [(''additionalProperties'', JBool False)]))"

definition claude_tool :: "openai_function \<Rightarrow> json dict" where
  "claude_tool f =
     [(''name'', JStr (fn_name f))] @
     (if given (fn_description f) then [(''description'', JStr (the (fn_description f)))] else []) @
     [(''input_schema'', JObj (input_schema (fn_parameters f)))]"

definition translate_tools_to_claude :: "openai_tool list \<Rightarrow> json dict list" where
  "translate_tools_to_claude tools =
     map (claude_tool \<circ> ot_function) (filter (\<lambda>t. ot_type t = ''function'') tools)"

text \<open>\<open>f"call_{uuid.uuid4().hex[:24]}"\<close>; the default of \<open>get\<close> is computed for every block.\<close>

definition call_id :: "string \<Rightarrow> string" where
  "call_id token = ''call_'' @ take 24 (filter (\<lambda>c. c \<noteq> CHR ''-'') token)"

definition arguments_text :: "pylib \<Rightarrow> json \<Rightarrow> string" where
  "arguments_text L input_data =
     (case input_data of JObj d \<Rightarrow> json_dumps L (JObj d) | v \<Rightarrow> py_str L v)"

definition block_type :: "json dict \<Rightarrow> json" where
  "block_type b = dict_get_or b ''type'' JNull"

definition openai_call :: "pylib \<Rightarrow> string \<Rightarrow> json dict \<Rightarrow> json dict" where
  "openai_call L token b =
     [(''id'', JStr (py_str L (dict_get_or b ''id'' (JStr (call_id token))))),
      (''type'', JStr ''function''),
      (''function'', JObj
        [(''name'', JStr (py_str L (dict_get_or b ''name'' (JStr [])))),
         (''arguments'', JStr (arguments_text L (dict_get_or b ''input'' (JObj []))))])]"

fun translate_claude_tool_use_to_openai ::
  "pylib \<Rightarrow> json dict list \<Rightarrow> (('c, 'd) world, json dict list) io" where
  "translate_claude_tool_use_to_openai L [] = ret []"
| "translate_claude_tool_use_to_openai L (b # bs) =
     (if block_type b \<noteq> JStr ''tool_use'' then translate_claude_tool_use_to_openai L bs
      else
        and_then draw_token (\<lambda>token.
        and_then (translate_claude_tool_use_to_openai L bs) (\<lambda>calls.
        ret (openai_call L token b # calls))))"

text \<open>A block \<open>{"type": "tool_result", ...}\<close>; its content stays what the message had.\<close>

record tool_result =
  tr_tool_use_id :: string
  tr_content :: chat_content

definition content_or_empty :: "chat_content option \<Rightarrow> chat_content" where
  "content_or_empty content =
     (case content of
        None \<Rightarrow> PlainText []
      | Some (ContentParts []) \<Rightarrow> PlainText []
      | Some c \<Rightarrow> c)"

definition translate_tool_messages_to_claude :: "chat_message list \<Rightarrow> tool_result list" where
  "translate_tool_messages_to_claude messages =
     map (\<lambda>m. \<lparr>tr_tool_use_id = the (cm_tool_call_id m), tr_content = content_or_empty (cm_content m)\<rparr>)
       (filter (\<lambda>m. cm_role m = ''tool'' \<and> given (cm_tool_call_id m)) messages)"

definition has_tool_calls :: "json dict list \<Rightarrow> bool" where
  "has_tool_calls bs \<longleftrightarrow> list_ex (\<lambda>b. block_type b = JStr ''tool_use'') bs"

definition text_content :: "pylib \<Rightarrow> json dict list \<Rightarrow> string" where
  "text_content L bs =
     join '' '' (concat (map (\<lambda>b.
       let t = dict_get_or b ''text'' (JStr []) in
       if block_type b = JStr ''text'' \<and> truthy t then [py_str L t] else []) bs))"

section \<open>Responses\<close>

definition map_stop_reason :: "string option \<Rightarrow> bool \<Rightarrow> string" where
  "map_stop_reason stop_reason tool_calls =
     (if tool_calls then ''tool_calls''
      else if stop_reason = Some ''completed'' then ''stop''
      else if stop_reason = Some ''max_turns_reached'' then ''length''
      else if stop_reason = Some ''interrupted'' then ''stop''
      else if stop_reason = Some ''error'' then ''error''
      else ''stop'')"

text \<open>\<open>if x: d[k] = x\<close> for optional text.\<close>

definition given_item :: "string \<Rightarrow> string option \<Rightarrow> json dict" where
  "given_item k x = (if given x then [(k, JStr (the x))] else [])"

definition block_dict :: "content_block \<Rightarrow> json dict" where
  "block_dict b =
     [(''type'', JStr (cb_type b))] @ given_item ''text'' (cb_text b) @ given_item ''id'' (cb_id b) @
     given_item ''name'' (cb_name b) @
     (case cb_input b of None \<Rightarrow> [] | Some d \<Rightarrow> if d = [] then [] else [(''input'', JObj d)])"

definition response_text :: "content_block list \<Rightarrow> string option" where
  "response_text bs =
     (case concat (map (\<lambda>b. if cb_type b = ''text'' \<and> given (cb_text b) then [the (cb_text b)] else []) bs) of
        [] \<Rightarrow> None
      | parts \<Rightarrow> Some (join '' '' parts))"

definition usage_dict :: "usage option \<Rightarrow> json dict" where
  "usage_dict u =
     (case u of
        None \<Rightarrow> [(''prompt_tokens'', JInt 0), (''completion_tokens'', JInt 0), (''total_tokens'', JInt 0)]
      | Some x \<Rightarrow>
          [(''prompt_tokens'', JInt (us_input_tokens x)), (''completion_tokens'', JInt (us_output_tokens x)),
           (''total_tokens'', JInt (us_input_tokens x + us_output_tokens x))])"

text \<open>\<open>tool_calls\<close> is \<open>None\<close> without tool uses; an empty list is never made.\<close>

definition response_message :: "string option \<Rightarrow> json dict list \<Rightarrow> json dict" where
  "response_message content tool_calls =
     [(''role'', JStr ''assistant''), (''content'', json_of_opt JStr content)] @
     (if tool_calls = [] then [] else [(''tool_calls'', JArr (map JObj tool_calls))])"

definition completion_dict ::
  "string \<Rightarrow> datetime \<Rightarrow> single_query_response \<Rightarrow> string \<Rightarrow> json dict list \<Rightarrow> json dict" where
  "completion_dict completion_id now r original_model tool_calls =
     [(''id'', JStr completion_id), (''object'', JStr ''chat.completion''),
      (''created'', JInt (unix_seconds now)),
      (''model'', JStr (if sr_model r \<noteq> [] then sr_model r else original_model)),
      (''choices'', JArr [JObj
         [(''index'', JInt 0),
          (''message'', JObj (response_message (response_text (sr_content r)) tool_calls)),
          (''finish_reason'', JStr (map_stop_reason (sr_stop_reason r)
             (has_tool_calls (map block_dict (sr_content r)))))]]),
      (''usage'', JObj (usage_dict (sr_usage r)))]"

definition translate_response ::
  "pylib \<Rightarrow> single_query_response \<Rightarrow> string \<Rightarrow> (('c, 'd) world, json dict) io" where
  "translate_response L r original_model =
     and_then draw_token (\<lambda>token.
       let content_dicts = map block_dict (sr_content r) in
       and_then (if has_tool_calls content_dicts
                 then translate_claude_tool_use_to_openai L content_dicts else ret []) (\<lambda>tool_calls.
       and_then utc_now (\<lambda>now.
       ret (completion_dict (''chatcmpl-'' @ token) now r original_model tool_calls))))"

section \<open>Streaming\<close>

text \<open>
  \<open>StreamingAdapter\<close> (\<open>services/openai/streaming.py\<close>), which turns the events of a query into
  chat completion chunks, and \<open>StreamingChatHandler\<close> (\<open>routes/openai/chat.py\<close>), which parses
  the events before and writes the chunks as text after it.

  The events are the list that the agent service yields; an exception of the service after
  the list would escape before the final marker and is left out.
\<close>

subsection \<open>The events\<close>

text \<open>\<open>_parse_event_data\<close>\<close>

definition parse_event_data :: "pylib \<Rightarrow> json \<Rightarrow> json dict option" where
  "parse_event_data L raw =
     (case raw of
        JStr s \<Rightarrow> dict_or_none (json_loads L s)
      | JObj d \<Rightarrow> Some d
      | _ \<Rightarrow> None)"

fun native_event_tuple :: "pylib \<Rightarrow> json \<Rightarrow> (string \<times> json dict) list" where
  "native_event_tuple L (JObj event) =
     (case (dict_get_or event ''event'' (JStr []),
            parse_event_data L (dict_get_or event ''data'' (JStr ''{}''))) of
        (JStr event_type, Some event_data) \<Rightarrow>
          if event_type \<in> {''message'', ''partial'', ''result''} then [(event_type, event_data)] else []
      | _ \<Rightarrow> [])"
| "native_event_tuple L _ = []"

definition native_event_tuples :: "pylib \<Rightarrow> json list \<Rightarrow> (string \<times> json dict) list" where
  "native_event_tuples L events = concat (map (native_event_tuple L) events)"

subsection \<open>The adapter\<close>

record streaming_adapter =
  sa_original_model :: string
  sa_mapped_model :: "string option"
  sa_completion_id :: string
  sa_first_chunk :: bool

definition new_streaming_adapter ::
  "string \<Rightarrow> string option \<Rightarrow> string option \<Rightarrow> (('c, 'd) world, streaming_adapter) io" where
  "new_streaming_adapter original_model mapped_model completion_id =
     and_then (if given completion_id then ret (the completion_id)
               else and_then draw_token (\<lambda>token. ret (''chatcmpl-'' @ token))) (\<lambda>cid.
     ret \<lparr>sa_original_model = original_model, sa_mapped_model = mapped_model,
          sa_completion_id = cid, sa_first_chunk = True\<rparr>)"

definition model_name :: "streaming_adapter \<Rightarrow> string" where
  "model_name A =
     (if given (sa_mapped_model A) then the (sa_mapped_model A)
      else if sa_original_model A \<noteq> [] then sa_original_model A else ''unknown'')"

definition stream_chunk :: "streaming_adapter \<Rightarrow> int \<Rightarrow> json dict \<Rightarrow> json \<Rightarrow> json" where
  "stream_chunk A created delta finish_reason =
     JObj [(''id'', JStr (sa_completion_id A)), (''object'', JStr ''chat.completion.chunk''),
       (''created'', JInt created), (''model'', JStr (model_name A)),
       (''choices'', JArr [JObj [(''index'', JInt 0), (''delta'', JObj delta),
          (''finish_reason'', finish_reason)]])]"

text \<open>What one block becomes: its delta, and whether it is a tool use.\<close>

definition tool_delta :: "pylib \<Rightarrow> string \<Rightarrow> int \<Rightarrow> json dict \<Rightarrow> json dict" where
  "tool_delta L token i b =
     [(''tool_calls'', JArr [JObj ((''index'', JInt i) # openai_call L token b)])]"

text \<open>What \<open>len\<close> takes, in the log of a text that was sent.\<close>

fun has_len :: "json \<Rightarrow> bool" where
  "has_len (JStr s) = True"
| "has_len (JArr xs) = True"
| "has_len (JObj d) = True"
| "has_len _ = False"

text \<open>
  The loop over the blocks of one event, with the index that the next tool use gets; a block
  that is no dictionary is skipped. The result is the deltas.
\<close>

fun block_deltas :: "pylib \<Rightarrow> int \<Rightarrow> json list \<Rightarrow> (('c, 'd) world, json dict list) io" where
  "block_deltas L i [] = ret []"
| "block_deltas L i (JObj b # bs) =
     (if block_type b = JStr ''text'' then
        (let t = dict_get_or b ''text'' (JStr []) in
         if truthy t \<and> \<not> has_len t then throw (TypeError ''object has no len()'')
         else and_then (block_deltas L i bs) (\<lambda>ds. ret (if truthy t then [(''content'', t)] # ds else ds)))
      else if block_type b = JStr ''tool_use'' then
        and_then draw_token (\<lambda>token.
        and_then (block_deltas L (i + 1) bs) (\<lambda>ds. ret (tool_delta L token i b # ds)))
      else block_deltas L i bs)"
| "block_deltas L i (_ # bs) = block_deltas L i bs"

definition event_blocks :: "json dict \<Rightarrow> json list" where
  "event_blocks d = (case dict_get_or d ''content'' (JArr []) of JArr bs \<Rightarrow> bs | _ \<Rightarrow> [])"

definition is_tool_delta :: "json dict \<Rightarrow> bool" where
  "is_tool_delta d \<longleftrightarrow> dict_get d ''tool_calls'' \<noteq> None"

definition stream_finish :: "bool \<Rightarrow> json dict \<Rightarrow> string" where
  "stream_finish tool_calls d =
     (if truthy (dict_get_or d ''is_error'' (JBool False)) then ''error''
      else if tool_calls then ''tool_calls'' else ''stop'')"

text \<open>
  The loop over the events: \<open>first\<close> is \<open>first_chunk\<close> and \<open>tool_calls\<close> is \<open>has_tool_calls\<close>.
\<close>

fun adapt_events ::
  "pylib \<Rightarrow> streaming_adapter \<Rightarrow> int \<Rightarrow> bool \<Rightarrow> bool \<Rightarrow> (string \<times> json dict) list \<Rightarrow>
     (('c, 'd) world, json list) io" where
  "adapt_events L A created first tool_calls [] = ret []"
| "adapt_events L A created first tool_calls ((event_type, d) # events) =
     (let role = (if first then [stream_chunk A created [(''role'', JStr ''assistant'')] JNull] else []) in
      if event_type = ''message'' \<or> event_type = ''partial'' then
        and_then (block_deltas L 0 (event_blocks d)) (\<lambda>ds.
        and_then (adapt_events L A created False (tool_calls \<or> list_ex is_tool_delta ds) events) (\<lambda>rest.
        ret (role @ map (\<lambda>delta. stream_chunk A created delta JNull) ds @ rest)))
      else
        and_then (adapt_events L A created False tool_calls events) (\<lambda>rest.
        ret (role @
             (if event_type = ''result''
              then [stream_chunk A created [] (JStr (stream_finish tool_calls d))] else []) @ rest)))"

definition done_marker :: string where
  "done_marker = ''[DONE]''"

definition adapt_stream ::
  "pylib \<Rightarrow> streaming_adapter \<Rightarrow> (string \<times> json dict) list \<Rightarrow> (('c, 'd) world, json list) io" where
  "adapt_stream L A events =
     and_then utc_now (\<lambda>now.
     and_then (adapt_events L A (unix_seconds now) (sa_first_chunk A) False events) (\<lambda>chunks.
     ret (chunks @ [JStr done_marker])))"

text \<open>The response of the route: the marker as it is, a chunk as JSON text.\<close>

definition chunk_text :: "pylib \<Rightarrow> json \<Rightarrow> string" where
  "chunk_text L c = (if c = JStr done_marker then done_marker else json_dumps L c)"

definition stream_response ::
  "pylib \<Rightarrow> chat_request \<Rightarrow> json list \<Rightarrow> (('c, 'd) world, string list) io" where
  "stream_response L payload native_events =
     and_then (new_streaming_adapter (cr_model payload) (Some (cr_model payload)) None) (\<lambda>A.
     and_then (adapt_stream L A (native_event_tuples L native_events)) (\<lambda>chunks.
     ret (map (chunk_text L) chunks)))"

end
