(* ===== verification/OpenAIProperties.thy ===== *)
theory OpenAIProperties
  imports OpenAI Reference
begin

text \<open>
  Properties of the OpenAI interface: what a client reads from a stream, what a request is
  translated to, and what a response carries back.
\<close>

section \<open>A client of the stream\<close>

text \<open>
  The client appends the text deltas, collects the tool calls by their index (a repeated index
  adds to the arguments), and keeps the last finish reason.
\<close>

record streamed_call =
  sl_id :: json
  sl_name :: json
  sl_arguments :: string

record chat_client =
  cc_text :: string
  cc_calls :: "(int \<times> streamed_call) list"
  cc_finish :: "string option"
  cc_done :: bool

definition new_client :: chat_client where
  "new_client = \<lparr>cc_text = [], cc_calls = [], cc_finish = None, cc_done = False\<rparr>"

definition obj_field :: "json dict \<Rightarrow> string \<Rightarrow> json dict" where
  "obj_field d k = (case dict_get d k of Some (JObj x) \<Rightarrow> x | _ \<Rightarrow> [])"

definition str_field_or :: "json dict \<Rightarrow> string \<Rightarrow> string" where
  "str_field_or d k = (case dict_get d k of Some (JStr s) \<Rightarrow> s | _ \<Rightarrow> [])"

definition add_call :: "int \<Rightarrow> streamed_call \<Rightarrow> (int \<times> streamed_call) list \<Rightarrow> (int \<times> streamed_call) list" where
  "add_call i c calls =
     (case map_of calls i of
        None \<Rightarrow> calls @ [(i, c)]
      | Some old \<Rightarrow> AList.update i (old\<lparr>sl_arguments := sl_arguments old @ sl_arguments c\<rparr>) calls)"

fun read_call :: "json \<Rightarrow> (int \<times> streamed_call) list \<Rightarrow> (int \<times> streamed_call) list" where
  "read_call (JObj d) calls =
     (case dict_get d ''index'' of
        Some (JInt i) \<Rightarrow>
          (let f = obj_field d ''function'' in
           add_call i \<lparr>sl_id = dict_get_or d ''id'' JNull, sl_name = dict_get_or f ''name'' JNull,
             sl_arguments = str_field_or f ''arguments''\<rparr> calls)
      | _ \<Rightarrow> calls)"
| "read_call _ calls = calls"

definition read_delta :: "json dict \<Rightarrow> chat_client \<Rightarrow> chat_client" where
  "read_delta d c =
     c\<lparr>cc_text := cc_text c @ str_field_or d ''content'',
       cc_calls := (case dict_get d ''tool_calls'' of
          Some (JArr xs) \<Rightarrow> fold read_call xs (cc_calls c) | _ \<Rightarrow> cc_calls c)\<rparr>"

definition read_choice :: "json dict \<Rightarrow> chat_client \<Rightarrow> chat_client" where
  "read_choice ch c =
     (read_delta (obj_field ch ''delta'') c)\<lparr>cc_finish :=
        (case dict_get ch ''finish_reason'' of Some (JStr s) \<Rightarrow> Some s | _ \<Rightarrow> cc_finish c)\<rparr>"

definition client_read :: "pylib \<Rightarrow> string \<Rightarrow> chat_client \<Rightarrow> chat_client" where
  "client_read L t c =
     (if t = done_marker then c\<lparr>cc_done := True\<rparr>
      else case json_loads L t of
        Some (JObj chunk) \<Rightarrow>
          (case dict_get chunk ''choices'' of Some (JArr (JObj ch # _)) \<Rightarrow> read_choice ch c | _ \<Rightarrow> c)
      | _ \<Rightarrow> c)"

definition client_after :: "pylib \<Rightarrow> string list \<Rightarrow> chat_client" where
  "client_after L texts = fold (client_read L) texts new_client"

section \<open>What the events say\<close>

fun block_text :: "json \<Rightarrow> string" where
  "block_text (JObj b) = (if block_type b = JStr ''text'' then str_field_or b ''text'' else [])"
| "block_text _ = []"

definition call_of_block :: "pylib \<Rightarrow> json dict \<Rightarrow> streamed_call" where
  "call_of_block L b =
     \<lparr>sl_id = JStr (py_str L (dict_get_or b ''id'' JNull)),
      sl_name = JStr (py_str L (dict_get_or b ''name'' (JStr []))),
      sl_arguments = arguments_text L (dict_get_or b ''input'' (JObj []))\<rparr>"

fun block_calls :: "pylib \<Rightarrow> int \<Rightarrow> json list \<Rightarrow> (int \<times> streamed_call) list" where
  "block_calls L i [] = []"
| "block_calls L i (JObj b # bs) =
     (if block_type b = JStr ''tool_use'' then (i, call_of_block L b) # block_calls L (i + 1) bs
      else block_calls L i bs)"
| "block_calls L i (_ # bs) = block_calls L i bs"

definition event_text :: "string \<times> json dict \<Rightarrow> string" where
  "event_text e = concat (map block_text (event_blocks (snd e)))"

definition event_calls :: "pylib \<Rightarrow> string \<times> json dict \<Rightarrow> (int \<times> streamed_call) list" where
  "event_calls L e = block_calls L 0 (event_blocks (snd e))"

text \<open>Text blocks hold text and tool uses have an identifier, as in the events of the SDK.\<close>

fun plain_block :: "json \<Rightarrow> bool" where
  "plain_block (JObj b) =
     ((block_type b = JStr ''text'' \<longrightarrow>
        (case dict_get_or b ''text'' (JStr []) of JStr _ \<Rightarrow> True | _ \<Rightarrow> False)) \<and>
      (block_type b = JStr ''tool_use'' \<longrightarrow> dict_get b ''id'' \<noteq> None))"
| "plain_block _ = True"

definition plain_event :: "string \<times> json dict \<Rightarrow> bool" where
  "plain_event e \<longleftrightarrow> fst e \<in> {''message'', ''partial''} \<and> list_all plain_block (event_blocks (snd e))"

section \<open>Reading the chunks\<close>

lemma read_chunk:
  assumes "pylib_laws L" and "json_loads L done_marker = None"
    and "wf_dict delta" and "fin = JNull \<or> (\<exists>s. fin = JStr s)"
  shows "client_read L (chunk_text L (stream_chunk A created delta fin)) c =
    (read_delta delta c)\<lparr>cc_finish := (case fin of JStr s \<Rightarrow> Some s | _ \<Rightarrow> cc_finish c)\<rparr>"
proof -
  let ?j = "stream_chunk A created delta fin"
  have "wf_json ?j"
    using assms(3,4) by (auto simp: stream_chunk_def)
  with assms(1) have loads: "json_loads L (json_dumps L ?j) = Some ?j"
    by (rule pylib_laws.loads_dumps)
  with assms(2) have "json_dumps L ?j \<noteq> done_marker" by auto
  with loads assms(4) show ?thesis
    by (auto simp: client_read_def chunk_text_def stream_chunk_def dict_get_def read_choice_def obj_field_def)
qed

lemma read_delta_finish [simp]: "(read_delta d c)\<lparr>cc_finish := cc_finish c\<rparr> = read_delta d c"
  by (cases c) (simp add: read_delta_def)

lemma read_delta_content [simp]:
  "read_delta [(''content'', JStr s)] c = c\<lparr>cc_text := cc_text c @ s\<rparr>"
  "read_delta [(''role'', v)] c = c"
  "read_delta [] c = c"
  by (simp_all add: read_delta_def str_field_or_def dict_get_def)

lemma openai_call_id:
  assumes "dict_get b ''id'' \<noteq> None"
  shows "openai_call L token b =
    [(''id'', sl_id (call_of_block L b)), (''type'', JStr ''function''),
     (''function'', JObj [(''name'', sl_name (call_of_block L b)),
        (''arguments'', JStr (sl_arguments (call_of_block L b)))])]"
  using assms by (auto simp: openai_call_def call_of_block_def dict_read_defs)

lemma read_delta_tool:
  assumes "dict_get b ''id'' \<noteq> None"
  shows "read_delta (tool_delta L token i b) c =
    c\<lparr>cc_calls := add_call i (call_of_block L b) (cc_calls c)\<rparr>"
proof -
  obtain x n a where x: "call_of_block L b = \<lparr>sl_id = x, sl_name = n, sl_arguments = a\<rparr>"
    by (cases "call_of_block L b")
  show ?thesis
    by (simp add: read_delta_def tool_delta_def openai_call_id [OF assms] str_field_or_def dict_read_defs
        obj_field_def Let_def x)
qed

lemma is_tool_delta_simps [simp]:
  "\<not> is_tool_delta [(''content'', v)]"
  "is_tool_delta (tool_delta L token i b)"
  by (simp_all add: is_tool_delta_def tool_delta_def dict_get_def)

lemma wf_tool_delta: "wf_dict (tool_delta L token i b)"
  by (simp add: tool_delta_def openai_call_def)

text \<open>The deltas of the blocks of one event, as a client reads them.\<close>

lemma block_deltas_read:
  assumes "list_all plain_block bs"
  shows "\<exists>ds w'. block_deltas L i bs w = (Inr ds, w') \<and> list_all wf_dict ds \<and>
    (list_ex is_tool_delta ds \<longleftrightarrow> block_calls L i bs \<noteq> []) \<and>
    (\<forall>c. fold read_delta ds c =
       c\<lparr>cc_text := cc_text c @ concat (map block_text bs),
         cc_calls := fold (\<lambda>(k, x). add_call k x) (block_calls L i bs) (cc_calls c)\<rparr>)"
  using assms
proof (induction L i bs arbitrary: w rule: block_calls.induct)
  case (1 L i)
  then show ?case by simp
next
  case (2 L i b bs)
  show ?case
  proof (cases "block_type b = JStr ''text''")
    case True
    with 2(3) obtain s where s: "dict_get_or b ''text'' (JStr []) = JStr s"
      by (auto split: json.splits)
    from True 2 obtain ds w' where ds: "block_deltas L i bs w = (Inr ds, w')" and "list_all wf_dict ds"
      and "list_ex is_tool_delta ds \<longleftrightarrow> block_calls L i bs \<noteq> []"
      and "\<forall>c. fold read_delta ds c =
        c\<lparr>cc_text := cc_text c @ concat (map block_text bs),
          cc_calls := fold (\<lambda>(k, x). add_call k x) (block_calls L i bs) (cc_calls c)\<rparr>"
      by (auto simp del: block_deltas.simps) metis
    moreover have "block_text (JObj b) = s"
      using True s by (auto simp: str_field_or_def dict_read_defs split: option.splits)
    ultimately show ?thesis
      using True s by (cases "s = []") (auto simp: Let_def io_operator_defs)
  next
    case False
    show ?thesis
    proof (cases "block_type b = JStr ''tool_use''")
      case True
      let ?w = "w\<lparr>w_draws := Suc (w_draws w)\<rparr>"
      from True 2 obtain ds w' where "block_deltas L (i + 1) bs ?w = (Inr ds, w')" and "list_all wf_dict ds"
        and "list_ex is_tool_delta ds \<longleftrightarrow> block_calls L (i + 1) bs \<noteq> []"
        and "\<forall>c. fold read_delta ds c =
          c\<lparr>cc_text := cc_text c @ concat (map block_text bs),
            cc_calls := fold (\<lambda>(k, x). add_call k x) (block_calls L (i + 1) bs) (cc_calls c)\<rparr>"
        by (auto simp del: block_deltas.simps) metis
      moreover have "dict_get b ''id'' \<noteq> None"
        using True 2(3) by simp
      ultimately show ?thesis
        using True by (auto simp: io_operator_defs read_delta_tool wf_tool_delta)
    next
      case no_tool: False
      with False 2 show ?thesis by auto
    qed
  qed
qed simp_all

text \<open>Fresh indices append.\<close>

lemma fold_add_calls:
  "\<forall>k \<in> fst ` set calls. k < i \<Longrightarrow>
     fold (\<lambda>(k, x). add_call k x) (block_calls L i bs) calls = calls @ block_calls L i bs"
proof (induction L i bs arbitrary: calls rule: block_calls.induct)
  case (2 L i b bs)
  then have "map_of calls i = None"
    by (auto simp: map_of_eq_None_iff)
  then have "add_call i x calls = calls @ [(i, x)]" for x
    by (simp add: add_call_def)
  moreover have "\<forall>k \<in> fst ` set (calls @ [(i, x)]). k < i + 1" for x :: streamed_call
    using 2(3) by auto
  ultimately show ?case
    using 2 by simp
qed simp_all

lemma event_calls_read: "fold (\<lambda>(k, x). add_call k x) (event_calls L e) [] = event_calls L e"
  using fold_add_calls [of "[]" 0 L "event_blocks (snd e)"] by (simp add: event_calls_def)

lemma chunks_read:
  assumes "pylib_laws L" and "json_loads L done_marker = None" and "list_all wf_dict ds"
  shows "fold (client_read L) (map (\<lambda>delta. chunk_text L (stream_chunk A created delta JNull)) ds) c =
    fold read_delta ds c"
  using assms(3) by (induction ds arbitrary: c) (simp_all add: read_chunk [OF assms(1,2)])

definition merged_calls :: "pylib \<Rightarrow> (string \<times> json dict) list \<Rightarrow> (int \<times> streamed_call) list \<Rightarrow>
    (int \<times> streamed_call) list" where
  "merged_calls L events calls = fold (\<lambda>(k, x). add_call k x) (concat (map (event_calls L) events)) calls"

text \<open>All events before the result, then the result.\<close>

lemma adapt_events_read:
  assumes "pylib_laws L" and "json_loads L done_marker = None" and "list_all plain_event body"
  shows "\<exists>chunks w'. adapt_events L A created first tc (body @ [(''result'', d)]) w = (Inr chunks, w') \<and>
    (\<forall>c. fold (client_read L) (map (chunk_text L) chunks) c =
      c\<lparr>cc_text := cc_text c @ concat (map event_text body),
        cc_calls := merged_calls L body (cc_calls c),
        cc_finish := Some (stream_finish (tc \<or> list_ex (\<lambda>e. event_calls L e \<noteq> []) body) d)\<rparr>)"
  using assms(3)
proof (induction body arbitrary: first tc w)
  case Nil
  show ?case
    by (simp add: Let_def io_operator_defs read_chunk [OF assms(1,2)] merged_calls_def)
next
  case (Cons e body)
  obtain t b where e: "e = (t, b)" by (cases e)
  with Cons.prems have t: "t = ''message'' \<or> t = ''partial''" and blocks: "list_all plain_block (event_blocks b)"
    by (auto simp: plain_event_def)
  from block_deltas_read [OF blocks, of L 0 w] obtain ds w1 where
      run: "block_deltas L 0 (event_blocks b) w = (Inr ds, w1)" and wf: "list_all wf_dict ds"
    and tool: "list_ex is_tool_delta ds \<longleftrightarrow> event_calls L e \<noteq> []"
    and read: "\<And>c. fold read_delta ds c = c\<lparr>cc_text := cc_text c @ event_text e,
      cc_calls := fold (\<lambda>(k, x). add_call k x) (event_calls L e) (cc_calls c)\<rparr>"
    by (auto simp: event_calls_def event_text_def e)
  from Cons.IH [of False "tc \<or> list_ex is_tool_delta ds" w1] Cons.prems obtain rest w' where
      rest: "adapt_events L A created False (tc \<or> list_ex is_tool_delta ds) (body @ [(''result'', d)]) w1 =
        (Inr rest, w')"
    and ih: "\<And>c. fold (client_read L) (map (chunk_text L) rest) c =
      c\<lparr>cc_text := cc_text c @ concat (map event_text body),
        cc_calls := merged_calls L body (cc_calls c),
        cc_finish := Some (stream_finish ((tc \<or> list_ex is_tool_delta ds) \<or>
          list_ex (\<lambda>e. event_calls L e \<noteq> []) body) d)\<rparr>"
    by auto
  from t run rest show ?case
    by (auto simp: e Let_def io_operator_defs o_def read_chunk [OF assms(1,2)] ih merged_calls_def read
        chunks_read [OF assms(1,2) wf] tool [unfolded e])
qed

lemma merged_calls_single:
  assumes "length (filter (\<lambda>e. event_calls L e \<noteq> []) body) \<le> 1"
  shows "merged_calls L body [] = concat (map (event_calls L) body)"
  using assms
proof (induction body)
  case Nil
  then show ?case by (simp add: merged_calls_def)
next
  case (Cons e body)
  show ?case
  proof (cases "event_calls L e = []")
    case True
    with Cons show ?thesis by (simp add: merged_calls_def)
  next
    case False
    with Cons.prems have "filter (\<lambda>e. event_calls L e \<noteq> []) body = []" by simp
    then have rest: "concat (map (event_calls L) body) = []"
      by (simp add: filter_empty_conv)
    then show ?thesis
      by (simp add: merged_calls_def event_calls_read rest del: concat_eq_Nil_conv)
  qed
qed

text \<open>
  A client that reads the chunks of an OpenAI stream back gets the text of all text
  blocks in order, the finish reason the result calls for and the end marker, and, when the
  tool calls are all in one event, each tool call with its identifier, name and arguments.
\<close>

theorem stream_read_back:
  assumes "pylib_laws L" and "json_loads L done_marker = None"
    and "native_event_tuples L native = body @ [(''result'', d)]" and "list_all plain_event body"
  shows "\<exists>texts w'. stream_response L payload native w = (Inr texts, w') \<and>
    cc_text (client_after L texts) = concat (map event_text body) \<and>
    cc_finish (client_after L texts) =
      Some (stream_finish (\<exists>e \<in> set body. event_calls L e \<noteq> []) d) \<and>
    cc_done (client_after L texts) \<and>
    (length (filter (\<lambda>e. event_calls L e \<noteq> []) body) \<le> 1 \<longrightarrow>
      cc_calls (client_after L texts) = concat (map (event_calls L) body))"
proof -
  obtain A w1 where A: "new_streaming_adapter (cr_model payload) (Some (cr_model payload)) None w = (Inr A, w1)"
    by (simp add: new_streaming_adapter_def io_operator_defs)
  from adapt_events_read [OF assms(1,2,4), of A "unix_seconds (w_clock w1 (w_ticks w1))" "sa_first_chunk A"
      False d "w1\<lparr>w_ticks := Suc (w_ticks w1)\<rparr>"] obtain chunks w' where
      run: "adapt_events L A (unix_seconds (w_clock w1 (w_ticks w1))) (sa_first_chunk A) False
        (body @ [(''result'', d)]) (w1\<lparr>w_ticks := Suc (w_ticks w1)\<rparr>) = (Inr chunks, w')"
    and read: "\<And>c. fold (client_read L) (map (chunk_text L) chunks) c =
      c\<lparr>cc_text := cc_text c @ concat (map event_text body),
        cc_calls := merged_calls L body (cc_calls c),
        cc_finish := Some (stream_finish (False \<or> list_ex (\<lambda>e. event_calls L e \<noteq> []) body) d)\<rparr>"
    by blast
  let ?texts = "map (chunk_text L) chunks @ [done_marker]"
  from A run have "stream_response L payload native w = (Inr ?texts, w')"
    by (simp add: stream_response_def adapt_stream_def assms(3) io_operator_defs chunk_text_def)
  moreover have "client_after L ?texts = new_client\<lparr>cc_text := concat (map event_text body),
      cc_calls := merged_calls L body [], cc_done := True,
      cc_finish := Some (stream_finish (list_ex (\<lambda>e. event_calls L e \<noteq> []) body) d)\<rparr>"
    by (simp add: client_after_def read client_read_def new_client_def)
  ultimately show ?thesis
    by (intro exI [of _ ?texts] exI [of _ w']) (simp add: list_ex_iff merged_calls_single)
qed

definition ref_chat_request :: chat_request where
  "ref_chat_request =
     \<lparr>cr_model = ''sonnet'',
      cr_messages = [\<lparr>cm_role = ''user'', cm_content = Some (PlainText ''hi''), cm_tool_calls = None,
        cm_tool_call_id = None, cm_name = None\<rparr>],
      cr_temperature = None, cr_max_tokens = None, cr_top_p = None, cr_stop = None, cr_stream = True,
      cr_user = None, cr_tools = None, cr_tool_choice = None, cr_parallel_tool_calls = True\<rparr>"

definition ref_event :: "string \<Rightarrow> json dict \<Rightarrow> json" where
  "ref_event t d = JObj [(''event'', JStr t), (''data'', JObj d)]"

definition ref_tool_event :: "string \<Rightarrow> json dict" where
  "ref_tool_event i = [(''content'', JArr [JObj [(''type'', JStr ''text''), (''text'', JStr ''hi'')],
     JObj [(''type'', JStr ''tool_use''), (''id'', JStr i), (''name'', JStr ''LS'')]])]"

lemma ref_done_marker: "json_loads ref_lib done_marker = None"
  by (simp add: done_marker_def) code_simp

lemmas ref_stream_defs = native_event_tuples_def ref_event_def parse_event_data_def dict_read_defs
  event_blocks_def plain_event_def block_type_def event_text_def event_calls_def str_field_or_def
  ref_tool_event_def

lemma ref_native:
  "native_event_tuples ref_lib [ref_event ''message'' (ref_tool_event ''t1''), ref_event ''result'' []] =
     [(''message'', ref_tool_event ''t1'')] @ [(''result'', [])]"
  by (simp add: ref_stream_defs)

lemma ref_tool_event_plain: "list_all plain_event [(''message'', ref_tool_event ''t1'')]"
  by (simp add: ref_stream_defs)

lemma ref_tool_event_says:
  "event_text (''message'', ref_tool_event ''t1'') = ''hi''"
  "event_calls L (''message'', ref_tool_event ''t1'') =
     [(0, \<lparr>sl_id = JStr ''t1'', sl_name = JStr ''LS'', sl_arguments = json_dumps L (JObj [])\<rparr>)]"
  by (simp_all add: ref_stream_defs call_of_block_def arguments_text_def)

lemma stream_read_back_witness:
  "\<exists>texts w'. stream_response ref_lib ref_chat_request
      [ref_event ''message'' (ref_tool_event ''t1''), ref_event ''result'' []] (ref_world ()) = (Inr texts, w') \<and>
    cc_text (client_after ref_lib texts) = ''hi'' \<and>
    cc_finish (client_after ref_lib texts) = Some ''tool_calls'' \<and> length (cc_calls (client_after ref_lib texts)) = 1"
  using stream_read_back [OF ref_lib.pylib_laws_axioms ref_done_marker ref_native ref_tool_event_plain,
      of ref_chat_request "ref_world ()"]
  by (auto simp: ref_tool_event_says stream_finish_def dict_read_defs)

text \<open>
  The index starts again with every event: the calls of two messages share an index, and the
  client takes the second for more of the first.
\<close>

lemma calls_of_two_messages_merge:
  "merged_calls L [(''message'', ref_tool_event ''t1''), (''message'', ref_tool_event ''t1'')] [] =
     [(0, \<lparr>sl_id = JStr ''t1'', sl_name = JStr ''LS'',
        sl_arguments = json_dumps L (JObj []) @ json_dumps L (JObj [])\<rparr>)]"
  by (simp add: merged_calls_def ref_tool_event_says add_call_def)

section \<open>Requests\<close>

lemma message_part_nonempty: "message_part m \<noteq> []"
  by (simp add: message_part_def Let_def line_break_def)

lemma concatenate_messages_Nil: "concatenate_messages ms = [] \<longleftrightarrow> ms = []"
  by (cases ms) (simp_all add: concatenate_messages_def message_part_nonempty)

lemma default_models:
  "mm_models (new_model_mapper None) = claude_models"
  "mm_aliases (new_model_mapper None) = map (\<lambda>(k, v). (v, k)) claude_models"
  by (simp_all add: new_model_mapper_def mm_aliases_def claude_models_def dict_update_def dict_set_def)

lemma default_to_claude:
  "to_claude (new_model_mapper None) m = Inr a \<Longrightarrow> a \<in> set valid_short_model_names"
  by (auto simp: to_claude_def default_models claude_models_def dict_get_def valid_short_model_names_def
      split: option.splits if_splits)

lemma to_claude_error: "to_claude M m = Inl e \<Longrightarrow> e = unknown_model m"
  by (auto simp: to_claude_def split: option.splits if_splits)

text \<open>The request that a translation builds, before its checks.\<close>

definition chat_query :: "string \<Rightarrow> chat_request \<Rightarrow> string option \<Rightarrow> query_request" where
  "chat_query claude_model r permission_mode =
     (plain_request (concatenate_messages (filter (\<lambda>m. \<not> is_system m) (cr_messages r))))
       \<lparr>qr_model := Some claude_model, qr_system_prompt := fst (separate_system_messages (cr_messages r)),
        qr_user := cr_user r, qr_permission_mode := final_permission_mode permission_mode\<rparr>"

lemma check_chat_query:
  assumes "m \<in> set valid_short_model_names" and "qr_prompt (chat_query m r p) \<noteq> []"
  shows "check_query_request N (chat_query m r p) =
    (if length (qr_prompt (chat_query m r p)) \<le> 100000 then Inr (chat_query m r p)
     else Inl (ValueError ''field out of bounds''))"
proof -
  have "final_permission_mode p \<in> set permission_modes"
    by (auto simp: final_permission_mode_def permission_modes_def split: option.split)
  moreover have "m \<noteq> []"
    using assms(1) by (auto simp: valid_short_model_names_def)
  moreover have "1 \<le> length (qr_prompt (chat_query m r p))"
    using assms(2) by (cases "qr_prompt (chat_query m r p)") simp_all
  ultimately show ?thesis
    using assms(1)
    by (simp add: check_query_request_def check_field_bounds_def check_nested_def opt_list_def
        chat_query_def plain_request_def validate_model_name_def validate_cwd_security_def
        validate_add_dirs_security_def validate_env_security_def validate_tool_names_def
        validate_no_tool_conflicts_def)
qed

text \<open>
  What a translation should be, said anew: the table of the model names, the texts, one turn of
  the conversation, the prompts, and the permission modes.
\<close>

definition alias_table :: "(string \<times> string) list" where
  "alias_table =
     [(''claude-sonnet-4-5-20250929'', ''sonnet''), (''claude-opus-4-5-20251101'', ''opus''),
      (''claude-haiku-4-5-20251001'', ''haiku''), (''sonnet'', ''sonnet''), (''opus'', ''opus''), (''haiku'', ''haiku'')]"

definition joined :: "string \<Rightarrow> string list \<Rightarrow> string" where
  "joined sep ts = drop (length sep) (concat (map (\<lambda>t. sep @ t) ts))"

fun spoken :: "chat_content option \<Rightarrow> string" where
  "spoken None = []"
| "spoken (Some (PlainText t)) = t"
| "spoken (Some (ContentParts ps)) =
     joined [CHR 0x0A] [the (pt_text p). p \<leftarrow> ps, pt_type p = ''text'' \<and> pt_text p \<notin> {None, Some []}]"

definition named_or_unknown :: "string option \<Rightarrow> string" where
  "named_or_unknown x = (case x of None \<Rightarrow> ''unknown'' | Some n \<Rightarrow> if n = [] then ''unknown'' else n)"

definition role_label :: "string \<Rightarrow> string" where
  "role_label r = (if r = ''user'' then ''USER'' else if r = ''assistant'' then ''ASSISTANT'' else map upper_char r)"

definition turn :: "chat_message \<Rightarrow> string" where
  "turn m =
     (let text = spoken (cm_content m); end = [CHR 0x0A, CHR 0x0A] in
      if cm_role m = ''tool''
      then ''TOOL_RESULT ('' @ named_or_unknown (cm_name m) @ '', id='' @ named_or_unknown (cm_tool_call_id m) @
        ''): '' @ text @ end
      else if cm_role m = ''assistant'' \<and> cm_tool_calls m \<notin> {None, Some []}
      then ''ASSISTANT: '' @ text @ [CHR 0x0A] @ ''[Tool Calls]'' @
        concat (map (\<lambda>c. [CHR 0x0A] @ ''  - '' @ hc_name c @ ''(id='' @ hc_id c @ ''): '' @ hc_arguments c)
          (the (cm_tool_calls m))) @ end
      else role_label (cm_role m) @ '': '' @ text @ end)"

definition conversation_of :: "chat_message list \<Rightarrow> string" where
  "conversation_of ms = concat [turn m. m \<leftarrow> ms, cm_role m \<noteq> ''system'']"

definition system_prompt_of :: "chat_message list \<Rightarrow> string option" where
  "system_prompt_of ms =
     (case [spoken (cm_content m). m \<leftarrow> ms, cm_role m = ''system'' \<and> spoken (cm_content m) \<noteq> []] of
        [] \<Rightarrow> None
      | ts \<Rightarrow> Some (joined [CHR 0x0A, CHR 0x0A] ts))"

definition mode_of :: "string option \<Rightarrow> string" where
  "mode_of permission_mode =
     (if permission_mode \<in> {Some ''default'', Some ''acceptEdits'', Some ''plan'', Some ''bypassPermissions''}
      then the permission_mode else ''default'')"

text \<open>The definitions of the code agree with them.\<close>

lemma join_joined: "join sep ts = joined sep ts"
  by (induction sep ts rule: join.induct) (simp_all add: joined_def)

lemma extract_spoken: "extract_text_content c = spoken c"
proof -
  have "concat (map part_text ps) =
      [the (pt_text p). p \<leftarrow> ps, pt_type p = ''text'' \<and> pt_text p \<notin> {None, Some []}]" for ps
  proof (rule arg_cong [of _ _ concat], rule map_cong)
    fix p
    show "part_text p = (if pt_type p = ''text'' \<and> pt_text p \<notin> {None, Some []} then [the (pt_text p)] else [])"
      by (cases "pt_text p") auto
  qed simp
  then show ?thesis
    by (cases c rule: spoken.cases) (simp_all add: extract_text_content_def join_joined line_break_def)
qed

lemma or_unknown_named: "or_unknown x = named_or_unknown x"
  by (cases x) (auto simp: or_unknown_def named_or_unknown_def)

lemma join_lines: "ts \<noteq> [] \<Longrightarrow> [CHR 0x0A] @ joined [CHR 0x0A] ts = concat (map (\<lambda>t. [CHR 0x0A] @ t) ts)"
  by (cases ts) (simp_all add: joined_def)

lemma message_part_turn: "message_part m = turn m"
proof -
  have calls: "line_break @ ''[Tool Calls]'' @ line_break @ join line_break (map call_line (c # cs)) =
      [CHR 0x0A] @ ''[Tool Calls]'' @ concat (map (\<lambda>c. [CHR 0x0A] @ call_line c) (c # cs))" for c cs
    using join_lines [of "map call_line (c # cs)"] by (simp add: join_joined line_break_def o_def)
  have upper: "map upper_char ''user'' = ''USER''" "map upper_char ''assistant'' = ''ASSISTANT''"
    by code_simp+
  then have role: "map upper_char r = role_label r" for r
    by (simp add: role_label_def)
  show ?thesis
  proof (cases "cm_role m = ''assistant'' \<and> opt_list (cm_tool_calls m) \<noteq> []")
    case True
    then obtain c cs where c: "cm_tool_calls m = Some (c # cs)"
      by (cases "cm_tool_calls m"; cases "the (cm_tool_calls m)") (auto simp: opt_list_def)
    with True have "turn m = ''ASSISTANT: '' @ spoken (cm_content m) @
        ([CHR 0x0A] @ ''[Tool Calls]'' @ concat (map (\<lambda>c. [CHR 0x0A] @ call_line c) (c # cs))) @ line_break @ line_break"
      by (simp add: turn_def Let_def call_line_def line_break_def)
    moreover from True c have "message_part m = ''ASSISTANT: '' @ spoken (cm_content m) @
        (line_break @ ''[Tool Calls]'' @ line_break @ join line_break (map call_line (c # cs))) @ line_break @ line_break"
      by (simp add: message_part_def Let_def extract_spoken opt_list_def)
    ultimately show ?thesis
      by (simp only: calls)
  next
    case False
    then have "\<not> (cm_role m = ''assistant'' \<and> cm_tool_calls m \<notin> {None, Some []})"
      by (auto simp: opt_list_def split: option.splits)
    with False show ?thesis
      by (simp only: message_part_def turn_def Let_def extract_spoken or_unknown_named role line_break_def
          if_False append.simps append_assoc)
  qed
qed

lemma concatenate_conversation: "concatenate_messages (filter (\<lambda>m. \<not> is_system m) ms) = conversation_of ms"
  by (induction ms) (simp_all add: concatenate_messages_def conversation_of_def message_part_turn is_system_def)

lemma separate_system_prompt: "fst (separate_system_messages ms) = system_prompt_of ms"
proof -
  have texts: "system_texts ms = [spoken (cm_content m). m \<leftarrow> ms, cm_role m = ''system'' \<and> spoken (cm_content m) \<noteq> []]"
    by (induction ms) (auto simp: system_texts_def is_system_def extract_spoken)
  then show ?thesis
    unfolding separate_system_messages_def system_prompt_of_def texts [symmetric]
    by (cases "system_texts ms") (simp_all add: join_joined line_break_def)
qed

lemma final_mode_of: "final_permission_mode p = mode_of p"
  by (auto simp: final_permission_mode_def mode_of_def permission_modes_def split: option.split)

lemma to_claude_alias:
  "to_claude (new_model_mapper None) m =
     (case map_of alias_table m of None \<Rightarrow> Inl (unknown_model m) | Some a \<Rightarrow> Inr a)"
  by (simp add: to_claude_def default_models claude_models_def alias_table_def dict_get_def)

lemma chat_query_spelled_out:
  "chat_query a r p = (plain_request (conversation_of (cr_messages r)))
     \<lparr>qr_model := Some a, qr_system_prompt := system_prompt_of (cr_messages r), qr_user := cr_user r,
      qr_permission_mode := mode_of p\<rparr>"
  by (simp add: chat_query_def concatenate_conversation separate_system_prompt final_mode_of)


section \<open>Tool calls of a response\<close>

definition is_tool_use :: "json dict \<Rightarrow> bool" where
  "is_tool_use b \<longleftrightarrow> block_type b = JStr ''tool_use''"

text \<open>A call names the tool of its block and carries its input.\<close>

definition carries :: "pylib \<Rightarrow> json dict \<Rightarrow> json dict \<Rightarrow> bool" where
  "carries L b call \<longleftrightarrow>
     (\<forall>i. dict_get b ''id'' = Some (JStr i) \<longrightarrow> dict_get call ''id'' = Some (JStr i)) \<and>
     (\<forall>n. dict_get b ''name'' = Some (JStr n) \<longrightarrow>
        dict_get (obj_field call ''function'') ''name'' = Some (JStr n)) \<and>
     (\<forall>d. dict_get_or b ''input'' (JObj []) = JObj d \<longrightarrow>
        json_loads L (str_field_or (obj_field call ''function'') ''arguments'') = Some (JObj d))"

lemma openai_call_carries:
  assumes "pylib_laws L" and "wf_dict b"
  shows "carries L b (openai_call L token b)"
proof -
  have "wf_json (JObj d)" if "dict_get_or b ''input'' (JObj []) = JObj d" for d
  proof (cases "map_of b ''input''")
    case None
    with that show ?thesis by (simp add: dict_get_or_def)
  next
    case (Some v)
    then have "(''input'', v) \<in> set b" by (rule map_of_SomeD)
    with assms(2) that Some show ?thesis by (fastforce simp: dict_get_or_def wf_dict_iff)
  qed
  with pylib_laws.loads_dumps [OF assms(1)] show ?thesis
    by (auto simp: carries_def openai_call_def dict_get_def dict_get_or_def obj_field_def str_field_or_def
        arguments_text_def)
qed

text \<open>
  The tool calls of a response are the tool uses of its blocks in order, each with its
  identifier and name, and arguments that parse back to the tool's input.
\<close>

theorem tool_calls_carried:
  assumes "pylib_laws L" and "list_all wf_dict bs"
    and "translate_claude_tool_use_to_openai L bs w = (r, w')"
  shows "\<exists>calls. r = Inr calls \<and> list_all2 (carries L) (filter is_tool_use bs) calls"
  using assms(2,3)
proof (induction bs arbitrary: r w w')
  case Nil
  then show ?case by simp
next
  case (Cons b bs)
  show ?case
  proof (cases "is_tool_use b")
    case False
    with Cons show ?thesis by (simp add: is_tool_use_def)
  next
    case True
    obtain r1 w1 where run: "translate_claude_tool_use_to_openai L bs (w\<lparr>w_draws := Suc (w_draws w)\<rparr>) = (r1, w1)"
      by (cases "translate_claude_tool_use_to_openai L bs (w\<lparr>w_draws := Suc (w_draws w)\<rparr>)")
    with Cons.IH Cons.prems(1) obtain calls where "r1 = Inr calls"
      and "list_all2 (carries L) (filter is_tool_use bs) calls"
      by (metis list.pred_inject(2))
    moreover have "block_type b = JStr ''tool_use''"
      using True by (simp add: is_tool_use_def)
    ultimately show ?thesis
      using True run Cons.prems openai_call_carries [OF assms(1), of b] by (auto simp: io_operator_defs)
  qed
qed

lemma tool_calls_carried_witness:
  "\<exists>calls. fst (translate_claude_tool_use_to_openai ref_lib [[(''type'', JStr ''tool_use'')]] (ref_world ())) =
     Inr calls \<and> list_all2 (carries ref_lib) [[(''type'', JStr ''tool_use'')]] calls"
proof -
  let ?bs = "[[(''type'', JStr ''tool_use'')]]"
  have "list_all wf_dict ?bs" by simp
  from tool_calls_carried [OF ref_lib.pylib_laws_axioms this surjective_pairing [of
      "translate_claude_tool_use_to_openai ref_lib ?bs (ref_world ())"]]
  show ?thesis by (simp add: is_tool_use_def block_type_def dict_get_or_def)
qed

end
