(* ===== verification/SdkMessages.thy ===== *)
theory SdkMessages
  imports Responses World
begin

text \<open>
  \<open>MessageHandler\<close> (\<open>services/agent/handlers.py\<close>) and the block and usage mappings of
  \<open>schemas/messages.py\<close>: the messages of the Claude Agent SDK become events of the stream and
  updates of the \<open>StreamContext\<close> (\<open>services/agent/types.py\<close>).

  The SDK is not in the repository and the code reads its messages with \<open>getattr\<close> and
  \<open>isinstance\<close> only. So a message is any object: a class name with attributes, whose values are
  JSON values, lists, or objects again. A handler is a coroutine over the context.
\<close>

section \<open>Objects\<close>

datatype pyobj = Val json | Lst "pyobj list" | Obj string "(string \<times> pyobj) list"

abbreviation (input) py_none :: pyobj where
  "py_none \<equiv> Val JNull"

definition getattr_or :: "pyobj \<Rightarrow> string \<Rightarrow> pyobj \<Rightarrow> pyobj" where
  "getattr_or x k d =
     (case x of
        Obj c attrs \<Rightarrow> (case map_of attrs k of None \<Rightarrow> d | Some v \<Rightarrow> v)
      | _ \<Rightarrow> d)"

fun class_name :: "pyobj \<Rightarrow> string" where
  "class_name (Obj c _) = c"
| "class_name (Val _) = ''builtin''"
| "class_name (Lst _) = ''list''"

fun py_true :: "pyobj \<Rightarrow> bool" where
  "py_true (Val v) = truthy v"
| "py_true (Lst xs) = (xs \<noteq> [])"
| "py_true (Obj _ _) = True"

fun py_iter :: "pyobj \<Rightarrow> exn + pyobj list" where
  "py_iter (Lst xs) = Inr xs"
| "py_iter (Val (JArr xs)) = Inr (map Val xs)"
| "py_iter (Val (JObj d)) = Inr (map (Val \<circ> JStr \<circ> fst) d)"
| "py_iter (Val (JStr s)) = Inr (map (\<lambda>c. Val (JStr [c])) s)"
| "py_iter _ = Inl (TypeError ''object is not iterable'')"

text \<open>The value of a field that Pydantic checks: an object of a foreign class fails every check.\<close>

fun plain_value :: "pyobj \<Rightarrow> exn + json" where
  "plain_value (Val v) = Inr v"
| "plain_value _ = Inl invalid_field"

fun str_of_obj :: "pyobj \<Rightarrow> string option" where
  "str_of_obj (Val (JStr s)) = Some s"
| "str_of_obj _ = None"

section \<open>The context of a query\<close>

record stream_context =
  sc_session_id :: string
  sc_model :: string
  sc_start_time :: rat
  sc_num_turns :: pyobj
  sc_total_cost_usd :: pyobj
  sc_is_error :: pyobj
  sc_result_text :: pyobj
  sc_structured_output :: "json dict option"
  sc_usage :: "(string \<times> pyobj) list option"
  sc_model_usage :: "json dict option"
  sc_enable_file_checkpointing :: bool
  sc_last_user_message_uuid :: pyobj
  sc_files_modified :: "string list"
  sc_include_partial_messages :: bool

definition new_context :: "string \<Rightarrow> string \<Rightarrow> rat \<Rightarrow> bool \<Rightarrow> bool \<Rightarrow> stream_context" where
  "new_context session_id model start_time checkpointing partials =
     \<lparr>sc_session_id = session_id, sc_model = model, sc_start_time = start_time,
      sc_num_turns = Val (JInt 0), sc_total_cost_usd = py_none, sc_is_error = Val (JBool False),
      sc_result_text = py_none, sc_structured_output = None, sc_usage = None, sc_model_usage = None,
      sc_enable_file_checkpointing = checkpointing, sc_last_user_message_uuid = py_none,
      sc_files_modified = [], sc_include_partial_messages = partials\<rparr>"

section \<open>Content blocks\<close>

definition block_types :: "string list" where
  "block_types = [''text'', ''thinking'', ''tool_use'', ''tool_result'']"

definition empty_block :: "string \<Rightarrow> content_block" where
  "empty_block t =
     \<lparr>cb_type = t, cb_text = None, cb_thinking = None, cb_id = None, cb_name = None, cb_input = None,
      cb_tool_use_id = None, cb_content = None, cb_is_error = None\<rparr>"

fun str_value :: "json \<Rightarrow> string option" where
  "str_value (JStr s) = Some s"
| "str_value _ = None"

fun content_value :: "json \<Rightarrow> (string + json list) option" where
  "content_value (JStr s) = Some (Inl s)"
| "content_value (JArr xs) = Some (Inr xs)"
| "content_value _ = None"

definition map_sdk_content_block :: "json dict \<Rightarrow> content_block" where
  "map_sdk_content_block d =
     (let t = dict_get_or d ''type'' (JStr ''text''); str = (\<lambda>k. str_value (dict_get_or d k JNull)) in
      if t = JStr ''text'' then
        (empty_block ''text'')\<lparr>cb_text := Some (case str ''text'' of None \<Rightarrow> [] | Some s \<Rightarrow> s)\<rparr>
      else if t = JStr ''thinking'' then
        (empty_block ''thinking'')\<lparr>cb_thinking := Some (case str ''thinking'' of None \<Rightarrow> [] | Some s \<Rightarrow> s)\<rparr>
      else if t = JStr ''tool_use'' then
        (empty_block ''tool_use'')\<lparr>cb_id := str ''id'', cb_name := str ''name'',
           cb_input := Some (case dict_get_or d ''input'' (JObj []) of JObj x \<Rightarrow> x | _ \<Rightarrow> [])\<rparr>
      else if t = JStr ''tool_result'' then
        (empty_block ''tool_result'')\<lparr>cb_tool_use_id := str ''tool_use_id'',
           cb_content := content_value (dict_get_or d ''content'' JNull),
           cb_is_error := Some (case dict_get_or d ''is_error'' (JBool False) of JBool b \<Rightarrow> b | _ \<Rightarrow> False)\<rparr>
      else empty_block ''text'')"

definition block_type_of :: "pyobj \<Rightarrow> string" where
  "block_type_of x =
     (case str_of_obj (getattr_or x ''type'' (Val (JStr ''text''))) of
        None \<Rightarrow> ''text''
      | Some t \<Rightarrow> if t \<in> set block_types then t else ''text'')"

text \<open>
  A list is written as JSON when its items can be; an object cannot. A block keeps the list
  that can be written, and \<open>check_dumpable\<close> raises when an event with the others is written.
\<close>

fun to_json :: "pyobj \<Rightarrow> json option" where
  "to_json (Val v) = Some v"
| "to_json (Lst xs) = map_option JArr (those (map to_json xs))"
| "to_json (Obj _ _) = None"

definition object_content :: "pyobj \<Rightarrow> (string + json list) option" where
  "object_content x =
     (case getattr_or x ''content'' py_none of
        Val v \<Rightarrow> content_value v
      | Lst xs \<Rightarrow> map_option Inr (those (map to_json xs))
      | Obj _ _ \<Rightarrow> None)"

definition object_block :: "pyobj \<Rightarrow> content_block" where
  "object_block x =
     (let str = (\<lambda>k. str_of_obj (getattr_or x k py_none)) in
      \<lparr>cb_type = block_type_of x, cb_text = str ''text'', cb_thinking = str ''thinking'',
       cb_id = str ''id'', cb_name = str ''name'',
       cb_input = (case getattr_or x ''input'' py_none of Val (JObj d) \<Rightarrow> Some d | _ \<Rightarrow> None),
       cb_tool_use_id = str ''tool_use_id'', cb_content = object_content x,
       cb_is_error = (case getattr_or x ''is_error'' py_none of Val (JBool b) \<Rightarrow> Some b | _ \<Rightarrow> None)\<rparr>)"

fun sdk_block :: "pyobj \<Rightarrow> content_block" where
  "sdk_block (Val (JObj d)) = map_sdk_content_block d"
| "sdk_block x = object_block x"

definition extract_content_blocks :: "pyobj \<Rightarrow> exn + content_block list" where
  "extract_content_blocks message =
     (let content = getattr_or message ''content'' (Val (JArr [])) in
      case str_of_obj content of
        Some s \<Rightarrow> Inr [(empty_block ''text'')\<lparr>cb_text := Some s\<rparr>]
      | None \<Rightarrow> bind_sum (py_iter content) (\<lambda>blocks. Inr (map sdk_block blocks)))"

definition dumpable :: "pyobj \<Rightarrow> bool" where
  "dumpable x =
     (case getattr_or x ''content'' py_none of
        Lst xs \<Rightarrow> those (map to_json xs) \<noteq> None
      | _ \<Rightarrow> True)"

definition check_dumpable :: "pyobj \<Rightarrow> exn + unit" where
  "check_dumpable message =
     (case getattr_or message ''content'' (Val (JArr [])) of
        Lst blocks \<Rightarrow>
          if list_all dumpable blocks then Inr ()
          else Inl (TypeError ''Object is not JSON serializable'')
      | _ \<Rightarrow> Inr ())"

section \<open>Usage\<close>

fun to_int :: "pylib \<Rightarrow> json \<Rightarrow> exn + int" where
  "to_int L (JInt i) = Inr i"
| "to_int L (JBool b) = Inr (of_bool b)"
| "to_int L (JFloat f) = int_of_float f"
| "to_int L (JStr s) = value_or (ValueError ''invalid literal for int()'') (int_of_text L s)"
| "to_int L _ = Inr 0"

definition usage_keys :: "string list" where
  "usage_keys = [''input_tokens'', ''output_tokens'', ''cache_read_input_tokens'', ''cache_creation_input_tokens'']"

definition map_sdk_usage :: "pylib \<Rightarrow> json dict \<Rightarrow> exn + usage" where
  "map_sdk_usage L d =
     (let count = (\<lambda>k. to_int L (dict_get_or d k (JInt 0))) in
      bind_sum (count ''input_tokens'') (\<lambda>i.
      bind_sum (count ''output_tokens'') (\<lambda>out.
      bind_sum (count ''cache_read_input_tokens'') (\<lambda>cr.
      bind_sum (count ''cache_creation_input_tokens'') (\<lambda>cc.
      Inr \<lparr>us_input_tokens = i, us_output_tokens = out, us_cache_read_input_tokens = cr,
           us_cache_creation_input_tokens = cc\<rparr>)))))"

definition object_usage :: "pydantic \<Rightarrow> pyobj \<Rightarrow> exn + usage" where
  "object_usage D x =
     (let attr = (\<lambda>k. plain_value (getattr_or x k (Val (JInt 0)))) in
      bind_sum (attr ''input_tokens'') (\<lambda>i.
      bind_sum (attr ''output_tokens'') (\<lambda>out.
      bind_sum (attr ''cache_read_input_tokens'') (\<lambda>cr.
      bind_sum (attr ''cache_creation_input_tokens'') (\<lambda>cc.
      make_usage D i out cr cc)))))"

definition extract_usage :: "pylib \<Rightarrow> pydantic \<Rightarrow> pyobj \<Rightarrow> exn + usage option" where
  "extract_usage L D message =
     (case getattr_or message ''usage'' py_none of
        Val JNull \<Rightarrow> Inr None
      | Val (JObj d) \<Rightarrow> bind_sum (map_sdk_usage L d) (\<lambda>u. Inr (Some u))
      | x \<Rightarrow> bind_sum (object_usage D x) (\<lambda>u. Inr (Some u)))"

section \<open>Handlers\<close>

definition modify :: "('w \<Rightarrow> 'w) \<Rightarrow> ('w, unit) io" where
  "modify f = (\<lambda>w. (Inr (), f w))"

definition reads :: "('w \<Rightarrow> 'a) \<Rightarrow> ('w, 'a) io" where
  "reads f = (\<lambda>w. (Inr (f w), w))"

lemma modify_reads_run [simp]:
  "modify f w = (Inr (), f w)"
  "reads g w = (Inr (g w), w)"
  by (simp_all add: modify_def reads_def)

text \<open>The file that a block writes or edits.\<close>

definition modified_file :: "content_block \<Rightarrow> string option" where
  "modified_file b =
     (if cb_type b = ''tool_use'' \<and> (cb_name b = Some ''Write'' \<or> cb_name b = Some ''Edit'') then
        (case cb_input b of
           None \<Rightarrow> None
         | Some d \<Rightarrow>
             (case dict_get d ''file_path'' of
                Some (JStr p) \<Rightarrow> if p = [] then None else Some p
              | _ \<Rightarrow> None))
      else None)"

fun add_files :: "content_block list \<Rightarrow> string list \<Rightarrow> string list" where
  "add_files [] files = files"
| "add_files (b # bs) files =
     add_files bs
       (case modified_file b of
          None \<Rightarrow> files
        | Some p \<Rightarrow> if p \<in> set files then files else files @ [p])"

definition track_file_modifications :: "content_block list \<Rightarrow> stream_context \<Rightarrow> stream_context" where
  "track_file_modifications bs ctx = ctx\<lparr>sc_files_modified := add_files bs (sc_files_modified ctx)\<rparr>"

definition is_ask_user_question :: "content_block \<Rightarrow> bool" where
  "is_ask_user_question b \<longleftrightarrow> cb_type b = ''tool_use'' \<and> cb_name b = Some ''AskUserQuestion''"

definition check_special_tool_uses ::
  "pylib \<Rightarrow> content_block list \<Rightarrow> stream_context \<Rightarrow> agent_event option" where
  "check_special_tool_uses L bs ctx =
     map_option (\<lambda>b.
       question_event L (case cb_id b of None \<Rightarrow> [] | Some i \<Rightarrow> i)
         (case cb_input b of
            None \<Rightarrow> []
          | Some d \<Rightarrow> py_str L (dict_get_or d ''question'' (JStr [])))
         (sc_session_id ctx))
       (find is_ask_user_question bs)"

definition checked_str :: "pyobj \<Rightarrow> exn + string option" where
  "checked_str x = bind_sum (plain_value x) (check_opt check_str)"

definition handle_user_message :: "pylib \<Rightarrow> pyobj \<Rightarrow> (stream_context, agent_event option) io" where
  "handle_user_message L message =
     and_then (lift_sum (extract_content_blocks message)) (\<lambda>blocks.
     let user_uuid = getattr_or message ''uuid'' py_none in
     and_then (modify (\<lambda>ctx. if sc_enable_file_checkpointing ctx \<and> py_true user_uuid
                            then ctx\<lparr>sc_last_user_message_uuid := user_uuid\<rparr> else ctx)) (\<lambda>_.
     and_then (lift_sum (checked_str user_uuid)) (\<lambda>uuid.
     and_then (lift_sum (check_dumpable message)) (\<lambda>_.
     ret (Some (message_event L ''user'' blocks None uuid None))))))"

definition handle_assistant_message ::
  "pylib \<Rightarrow> pydantic \<Rightarrow> pyobj \<Rightarrow> (stream_context, agent_event option) io" where
  "handle_assistant_message L D message =
     and_then (lift_sum (extract_content_blocks message)) (\<lambda>blocks.
     and_then (lift_sum (extract_usage L D message)) (\<lambda>usage.
     and_then (modify (\<lambda>ctx. if sc_enable_file_checkpointing ctx
                            then track_file_modifications blocks ctx else ctx)) (\<lambda>_.
     and_then (reads (check_special_tool_uses L blocks)) (\<lambda>special.
       if special \<noteq> None then ret special
       else
         and_then (reads (\<lambda>ctx. getattr_or message ''model'' (Val (JStr (sc_model ctx))))) (\<lambda>model.
         and_then (lift_sum (checked_str model)) (\<lambda>m.
         and_then (lift_sum (check_dumpable message)) (\<lambda>_.
         ret (Some (message_event L ''assistant'' blocks m None usage)))))))))"

definition object_usage_dict :: "pyobj \<Rightarrow> (string \<times> pyobj) list" where
  "object_usage_dict x = map (\<lambda>k. (k, getattr_or x k (Val (JInt 0)))) usage_keys"

definition handle_result_message :: "pyobj \<Rightarrow> stream_context \<Rightarrow> stream_context" where
  "handle_result_message message ctx =
     (let ctx1 = ctx\<lparr>sc_is_error := getattr_or message ''is_error'' (Val (JBool False)),
                   sc_num_turns := getattr_or message ''num_turns'' (sc_num_turns ctx),
                   sc_total_cost_usd := getattr_or message ''total_cost_usd'' py_none,
                   sc_result_text := getattr_or message ''result'' py_none\<rparr>;
          ctx2 = (case getattr_or message ''usage'' py_none of
                    Val JNull \<Rightarrow> ctx1
                  | Val (JObj d) \<Rightarrow> ctx1\<lparr>sc_usage := Some (map (\<lambda>(k, v). (k, Val v)) d)\<rparr>
                  | x \<Rightarrow> ctx1\<lparr>sc_usage := Some (object_usage_dict x)\<rparr>);
          ctx3 = (case getattr_or message ''model_usage'' py_none of
                    Val (JObj d) \<Rightarrow> ctx2\<lparr>sc_model_usage := Some d\<rparr>
                  | _ \<Rightarrow> ctx2) in
      case getattr_or message ''structured_output'' py_none of
        Val JNull \<Rightarrow> ctx3
      | Val (JObj d) \<Rightarrow> ctx3\<lparr>sc_structured_output := Some d\<rparr>
      | _ \<Rightarrow> ctx3\<lparr>sc_is_error := Val (JBool True)\<rparr>)"

section \<open>Partial messages\<close>

text \<open>An index from a dictionary counts when it is an \<open>int\<close>; an attribute is checked by the schema.\<close>

definition partial_index :: "pydantic \<Rightarrow> pyobj \<Rightarrow> exn + int" where
  "partial_index D message =
     (case message of
        Val (JObj d) \<Rightarrow>
          Inr (case dict_get_or d ''index'' (JInt 0) of JInt i \<Rightarrow> i | JBool b \<Rightarrow> of_bool b | _ \<Rightarrow> 0)
      | x \<Rightarrow> bind_sum (plain_value (getattr_or x ''index'' (Val (JInt 0)))) (pd_int D))"

definition partial_part :: "pyobj \<Rightarrow> string \<Rightarrow> pyobj" where
  "partial_part message k =
     (case message of
        Val (JObj d) \<Rightarrow> Val (dict_get_or d k JNull)
      | x \<Rightarrow> getattr_or x k py_none)"

text \<open>\<open>x.get(k)\<close> of a dictionary, \<open>getattr(x, k, d)\<close> of an object.\<close>

definition item_or_attr :: "pyobj \<Rightarrow> string \<Rightarrow> pyobj \<Rightarrow> pyobj" where
  "item_or_attr x k d =
     (case x of
        Val (JObj items) \<Rightarrow> Val (dict_get_or items k JNull)
      | _ \<Rightarrow> getattr_or x k d)"

definition partial_block :: "pyobj \<Rightarrow> content_block" where
  "partial_block x =
     (let str = (\<lambda>k. str_of_obj (item_or_attr x k py_none)) in
      (empty_block (case str_of_obj (item_or_attr x ''type'' (Val (JStr ''text''))) of
          None \<Rightarrow> ''text''
        | Some t \<Rightarrow> if t \<in> set block_types then t else ''text''))
        \<lparr>cb_text := str ''text'', cb_id := str ''id'', cb_name := str ''name''\<rparr>)"

definition partial_event :: "pylib \<Rightarrow> string \<Rightarrow> int \<Rightarrow> json \<Rightarrow> json \<Rightarrow> agent_event" where
  "partial_event L t index content_block delta =
     format_sse L ''partial''
       [(''type'', JStr t), (''index'', JInt index), (''content_block'', content_block), (''delta'', delta)]"

definition handle_partial_start :: "pylib \<Rightarrow> pydantic \<Rightarrow> pyobj \<Rightarrow> exn + agent_event" where
  "handle_partial_start L D message =
     (let content_block = partial_part message ''content_block'' in
      bind_sum (partial_index D message) (\<lambda>index.
      Inr (partial_event L ''content_block_start'' index
        (if py_true content_block then block_json (partial_block content_block) else JNull) JNull)))"

definition delta_types :: "string list" where
  "delta_types = [''text_delta'', ''thinking_delta'', ''input_json_delta'']"

definition delta_type_of :: "pyobj \<Rightarrow> string" where
  "delta_type_of x =
     (case str_of_obj (item_or_attr x ''type'' (Val (JStr ''text_delta''))) of
        None \<Rightarrow> ''text_delta''
      | Some t \<Rightarrow> if t \<in> set delta_types then t else ''text_delta'')"

text \<open>
  The one field that the type of the delta calls for. From a dictionary only text counts; an
  attribute that is no text is refused by the schema.
\<close>

definition delta_field :: "pyobj \<Rightarrow> string \<Rightarrow> string \<Rightarrow> exn + string option" where
  "delta_field x t k =
     (if delta_type_of x \<noteq> t then Inr None
      else case x of
        Val (JObj d) \<Rightarrow> Inr (str_value (dict_get_or d k JNull))
      | _ \<Rightarrow> checked_str (getattr_or x k py_none))"

definition delta_json :: "pyobj \<Rightarrow> exn + json" where
  "delta_json x =
     bind_sum (delta_field x ''text_delta'' ''text'') (\<lambda>text.
     bind_sum (delta_field x ''thinking_delta'' ''thinking'') (\<lambda>thinking.
     bind_sum (delta_field x ''input_json_delta'' ''partial_json'') (\<lambda>partial_json.
     Inr (JObj [(''type'', JStr (delta_type_of x)), (''text'', json_of_opt JStr text),
       (''thinking'', json_of_opt JStr thinking), (''partial_json'', json_of_opt JStr partial_json)]))))"

definition handle_partial_delta :: "pylib \<Rightarrow> pydantic \<Rightarrow> pyobj \<Rightarrow> exn + agent_event" where
  "handle_partial_delta L D message =
     (let delta = partial_part message ''delta'' in
      bind_sum (if py_true delta then delta_json delta else Inr JNull) (\<lambda>d.
      bind_sum (partial_index D message) (\<lambda>index.
      Inr (partial_event L ''content_block_delta'' index JNull d))))"

definition handle_partial_stop :: "pylib \<Rightarrow> pydantic \<Rightarrow> pyobj \<Rightarrow> exn + agent_event" where
  "handle_partial_stop L D message =
     bind_sum (partial_index D message) (\<lambda>index.
     Inr (partial_event L ''content_block_stop'' index JNull JNull))"

definition some_event :: "exn + agent_event \<Rightarrow> (stream_context, agent_event option) io" where
  "some_event r = lift_sum (bind_sum r (\<lambda>e. Inr (Some e)))"

definition handle_stream_event_partial ::
  "pylib \<Rightarrow> pydantic \<Rightarrow> pyobj \<Rightarrow> (stream_context, agent_event option) io" where
  "handle_stream_event_partial L D message =
     (case getattr_or message ''event'' py_none of
        Val (JObj d) \<Rightarrow>
          (let t = dict_get_or d ''type'' JNull; x = Val (JObj d) in
           if t = JStr ''content_block_start'' then some_event (handle_partial_start L D x)
           else if t = JStr ''content_block_delta'' then some_event (handle_partial_delta L D x)
           else if t = JStr ''content_block_stop'' then some_event (handle_partial_stop L D x)
           else ret None)
      | _ \<Rightarrow> ret None)"

section \<open>Dispatch\<close>

definition map_sdk_message ::
  "pylib \<Rightarrow> pydantic \<Rightarrow> pyobj \<Rightarrow> (stream_context, agent_event option) io" where
  "map_sdk_message L D message =
     (let t = class_name message in
      if t = ''SystemMessage'' then ret None
      else if t = ''UserMessage'' then handle_user_message L message
      else if t = ''AssistantMessage'' then handle_assistant_message L D message
      else if t = ''ResultMessage'' then
        and_then (modify (handle_result_message message)) (\<lambda>_. ret None)
      else
        and_then (reads sc_include_partial_messages) (\<lambda>partials.
          if \<not> partials then ret None
          else if t = ''StreamEvent'' then handle_stream_event_partial L D message
          else if t = ''ContentBlockStart'' then some_event (handle_partial_start L D message)
          else if t = ''ContentBlockDelta'' then some_event (handle_partial_delta L D message)
          else if t = ''ContentBlockStop'' then some_event (handle_partial_stop L D message)
          else ret None))"

end
