(* ===== verification/AgentOptions.thy ===== *)
theory AgentOptions
  imports Responses
begin

text \<open>
  What a query hands to the Claude Agent SDK: \<open>OptionsBuilder\<close> (\<open>services/agent/options.py\<close>), the
  multimodal content of \<open>QueryExecutor\<close> (\<open>services/agent/query_executor.py\<close>), and the slash
  commands of a prompt (\<open>services/agent/utils.py\<close>, \<open>services/commands.py\<close>). The discovery of
  skills only logs here; \<open>SkillDiscovery\<close> has it.
\<close>

section \<open>Options\<close>

record agent_options =
  ao_allowed_tools :: "string list"
  ao_disallowed_tools :: "string list"
  ao_permission_mode :: "string option"
  ao_permission_prompt_tool_name :: "string option"
  ao_model :: "string option"
  ao_max_turns :: "int option"
  ao_cwd :: "string option"
  ao_env :: "string dict"
  ao_system_prompt :: "string option"
  ao_enable_file_checkpointing :: bool
  ao_resume :: "string option"
  ao_fork_session :: bool
  ao_mcp_servers :: "json dict"
  ao_agents :: "json dict option"
  ao_output_format :: "json option"
  ao_plugins :: "json list"
  ao_setting_sources :: "string list option"
  ao_sandbox :: "json option"
  ao_include_partial_messages :: bool

definition or_none :: "string option \<Rightarrow> string option" where
  "or_none x = (if given x then x else None)"

definition resume_of :: "query_request \<Rightarrow> string option \<times> bool" where
  "resume_of q =
     (if qr_continue_conversation q \<and> \<not> qr_fork_session q then (None, False)
      else if given (qr_session_id q) then (qr_session_id q, qr_fork_session q)
      else (None, False))"

text \<open>Values pass through as they are: nothing in them is resolved against the environment.\<close>

definition server_config_json :: "mcp_server \<Rightarrow> json" where
  "server_config_json m =
     JObj [(''command'', json_of_opt JStr (ms_command m)), (''args'', JArr (map JStr (ms_args m))),
       (''type'', JStr (transport_text (ms_type m))), (''url'', json_of_opt JStr (ms_url m)),
       (''headers'', JObj (strings_obj (ms_headers m))), (''env'', JObj (strings_obj (ms_env m)))]"

definition build_mcp_configs :: "query_request \<Rightarrow> json dict" where
  "build_mcp_configs q = map (\<lambda>(n, m). (n, server_config_json m)) (opt_list (qr_mcp_servers q))"

definition build_agent_defs :: "query_request \<Rightarrow> json dict option" where
  "build_agent_defs q =
     (case opt_list (qr_agents q) of
        [] \<Rightarrow> None
      | agents \<Rightarrow> Some (map (\<lambda>(n, a). (n, JObj
          [(''description'', JStr (ad_description a)), (''prompt'', JStr (ad_prompt a)),
           (''tools'', json_of_opt (\<lambda>ts. JArr (map JStr ts)) (ad_tools a)),
           (''model'', json_of_opt JStr (ad_model a))])) agents))"

definition build_output_format :: "query_request \<Rightarrow> json option" where
  "build_output_format q =
     map_option (\<lambda>f. JObj [(''type'', JStr (of_type f)), (''schema'', json_of_opt JObj (of_schema f))])
       (qr_output_format q)"

definition build_plugins :: "query_request \<Rightarrow> json list" where
  "build_plugins q =
     map (\<lambda>p. JObj [(''name'', JStr (pl_name p)), (''path'', json_of_opt JStr (pl_path p))])
       (filter pl_enabled (opt_list (qr_plugins q)))"

definition build_sandbox_config :: "query_request \<Rightarrow> json option" where
  "build_sandbox_config q =
     map_option (\<lambda>s. JObj [(''enabled'', JBool (sb_enabled s)),
       (''allowed_paths'', JArr (map JStr (sb_allowed_paths s))),
       (''network_access'', JBool (sb_network_access s))]) (qr_sandbox q)"

definition resolve_system_prompt :: "query_request \<Rightarrow> string option" where
  "resolve_system_prompt q =
     (if given (qr_system_prompt_append q) then
        (if given (qr_system_prompt q)
         then Some (the (qr_system_prompt q) @ [CHR 0x0A, CHR 0x0A] @ the (qr_system_prompt_append q))
         else qr_system_prompt_append q)
      else or_none (qr_system_prompt q))"

text \<open>\<open>max_turns\<close> of zero counts as missing.\<close>

definition build_options :: "query_request \<Rightarrow> agent_options" where
  "build_options q =
     \<lparr>ao_allowed_tools = qr_allowed_tools q, ao_disallowed_tools = qr_disallowed_tools q,
      ao_permission_mode = or_none (Some (qr_permission_mode q)),
      ao_permission_prompt_tool_name = or_none (qr_permission_prompt_tool_name q),
      ao_model = or_none (qr_model q),
      ao_max_turns = (if qr_max_turns q = Some 0 then None else qr_max_turns q),
      ao_cwd = or_none (qr_cwd q), ao_env = qr_env q, ao_system_prompt = resolve_system_prompt q,
      ao_enable_file_checkpointing = qr_enable_file_checkpointing q,
      ao_resume = fst (resume_of q), ao_fork_session = snd (resume_of q),
      ao_mcp_servers = build_mcp_configs q, ao_agents = build_agent_defs q,
      ao_output_format = build_output_format q, ao_plugins = build_plugins q,
      ao_setting_sources = (if opt_list (qr_setting_sources q) = [] then None else qr_setting_sources q),
      ao_sandbox = build_sandbox_config q,
      ao_include_partial_messages = qr_include_partial_messages q\<rparr>"

section \<open>The content of a query\<close>

definition image_json :: "image_content \<Rightarrow> json" where
  "image_json i =
     JObj [(''type'', JStr ''image''),
       (''source'', JObj (
          if im_type i = ''base64''
          then [(''type'', JStr ''base64''), (''media_type'', JStr (im_media_type i)), (''data'', JStr (im_data i))]
          else [(''type'', JStr ''url''), (''url'', JStr (im_data i))]))]"

definition build_multimodal_content :: "query_request \<Rightarrow> json list" where
  "build_multimodal_content q =
     JObj [(''type'', JStr ''text''), (''text'', JStr (qr_prompt q))] #
     map image_json (opt_list (qr_images q))"

text \<open>\<open>client.query\<close> is given the prompt, or the list of blocks when there are images.\<close>

definition query_content :: "query_request \<Rightarrow> string + json list" where
  "query_content q =
     (if opt_list (qr_images q) \<noteq> [] then Inr (build_multimodal_content q) else Inl (qr_prompt q))"

section \<open>Slash commands\<close>

definition strip :: "string \<Rightarrow> string" where
  "strip s = rev (dropWhile is_space (rev (dropWhile is_space s)))"

definition is_letter :: "char \<Rightarrow> bool" where
  "is_letter c \<longleftrightarrow> (let n = of_char c :: nat in (65 \<le> n \<and> n \<le> 90) \<or> (97 \<le> n \<and> n \<le> 122))"

text \<open>\<open>[a-zA-Z0-9_-]\<close>\<close>

definition command_char :: "char \<Rightarrow> bool" where
  "command_char c \<longleftrightarrow>
     (let n = of_char c :: nat in is_letter c \<or> (48 \<le> n \<and> n \<le> 57) \<or> c = CHR ''_'' \<or> c = CHR ''-'')"

definition detect_slash_command :: "string \<Rightarrow> string option" where
  "detect_slash_command prompt =
     (case strip prompt of
        c # rest \<Rightarrow>
          if c = CHR ''/'' \<and> rest \<noteq> [] \<and> is_letter (hd rest) then Some (takeWhile command_char rest) else None
      | [] \<Rightarrow> None)"

text \<open>The command and what follows its name.\<close>

definition parse_command :: "string \<Rightarrow> (string \<times> string) option" where
  "parse_command prompt =
     map_option (\<lambda>name. (name, strip (dropWhile command_char (tl (strip prompt)))))
       (detect_slash_command prompt)"

end
