(* ===== verification/AgentQuery.thy ===== *)
theory AgentQuery
  imports SdkMessages AgentOptions SessionTracker SessionModels
begin

text \<open>
  The execution of a query: \<open>QueryExecutor\<close> (\<open>services/agent/query_executor.py\<close>) drives the SDK
  client, \<open>StreamQueryRunner\<close> (\<open>stream_query_runner.py\<close>) streams its events and stops at an
  interrupt, \<open>SingleQueryRunner\<close> and \<open>SingleQueryAggregator\<close> (\<open>single_query_runner.py\<close>,
  \<open>single_query_aggregator.py\<close>) collect them into one response, \<open>StreamOrchestrator\<close>
  (\<open>stream_orchestrator.py\<close>) builds the closing events, and \<open>SessionControl\<close>
  (\<open>session_control.py\<close>) acts on a running session. The memory calls are those of
  \<open>MemoryService\<close> (\<open>services/memory.py\<close>).

  A generator hands each event to its consumer, which says whether to go on; a consumer that
  stops leaves the generator where it is. What the SDK and the memory client do is given by
  the fields of \<open>agent_env\<close>; each message is one call of \<open>ae_receive\<close>, which may change the
  shared world, so other requests act between the events of a query.
\<close>

section \<open>The state of a query\<close>

record aggregator =
  ag_content_blocks :: "json list"
  ag_usage_data :: "json option"
  ag_is_error :: bool

record ('c, 'd) query_state =
  qs_world :: "('c, 'd) world"
  qs_ctx :: stream_context
  qs_responses :: "pyobj list"
  qs_events :: "agent_event list"
  qs_aggregator :: aggregator

definition in_services :: "(('c, 'd) world, 'a) io \<Rightarrow> (('c, 'd) query_state, 'a) io" where
  "in_services m = (\<lambda>q. case m (qs_world q) of (r, w) \<Rightarrow> (r, q\<lparr>qs_world := w\<rparr>))"

definition in_ctx :: "(stream_context, 'a) io \<Rightarrow> (('c, 'd) query_state, 'a) io" where
  "in_ctx m = (\<lambda>q. case m (qs_ctx q) of (r, c) \<Rightarrow> (r, q\<lparr>qs_ctx := c\<rparr>))"

datatype sdk_error = SDKMissing | CLINotFound | CLIConnection | ProcessFailed | CLIJSONDecode | OtherSDKError | NoSDKError

record ('c, 'd) agent_env =
  ae_lib :: pylib
  ae_pydantic :: pydantic
  ae_tracker :: "'c session_tracker"
  ae_connect :: "agent_options \<Rightarrow> string + json list \<Rightarrow> (('c, 'd) world, unit) io"
  ae_receive :: "(('c, 'd) world, pyobj option) io"
  ae_disconnect :: "exn option \<Rightarrow> (('c, 'd) world, unit) io"
  ae_sdk_error :: "exn \<Rightarrow> sdk_error"
  ae_memory_search :: "(string \<Rightarrow> string \<Rightarrow> int \<Rightarrow> (('c, 'd) world, json dict list) io) option"
  ae_memory_add :: "string \<Rightarrow> string \<Rightarrow> json dict \<Rightarrow> (('c, 'd) world, unit) io"
  ae_error_text :: "exn \<Rightarrow> string"

section \<open>Numbers\<close>

text \<open>\<open>a + b\<close> for numbers; floats are added exactly.\<close>

fun float_add :: "pyfloat \<Rightarrow> pyfloat \<Rightarrow> pyfloat" where
  "float_add (Finite m e) (Finite n f) =
     (let k = min e f in Finite (m * 10 ^ nat (e - k) + n * 10 ^ nat (f - k)) k)"
| "float_add NaN _ = NaN"
| "float_add _ NaN = NaN"
| "float_add (Infinity a) (Infinity b) = (if a = b then Infinity a else NaN)"
| "float_add (Infinity a) _ = Infinity a"
| "float_add _ (Infinity b) = Infinity b"

fun int_value :: "json \<Rightarrow> int option" where
  "int_value (JInt i) = Some i"
| "int_value (JBool b) = Some (of_bool b)"
| "int_value _ = None"

fun float_value :: "json \<Rightarrow> pyfloat option" where
  "float_value (JFloat f) = Some f"
| "float_value v = map_option (\<lambda>i. Finite i 0) (int_value v)"

definition py_plus :: "json \<Rightarrow> json \<Rightarrow> exn + json" where
  "py_plus a b =
     (case (int_value a, int_value b) of
        (Some i, Some j) \<Rightarrow> Inr (JInt (i + j))
      | _ \<Rightarrow>
          (case (float_value a, float_value b) of
             (Some x, Some y) \<Rightarrow> Inr (JFloat (float_add x y))
           | _ \<Rightarrow> Inl (TypeError ''unsupported operand type(s) for +'')))"

definition next_turn :: "(stream_context, unit) io" where
  "next_turn = (\<lambda>ctx.
     case bind_sum (case sc_num_turns ctx of Val v \<Rightarrow> Inr v | _ \<Rightarrow> Inl (TypeError ''+='')) (\<lambda>v. py_plus v (JInt 1)) of
       Inl e \<Rightarrow> (Inl e, ctx)
     | Inr v \<Rightarrow> (Inr (), ctx\<lparr>sc_num_turns := Val v\<rparr>))"

section \<open>Memory\<close>

text \<open>\<open>format_memory_context\<close>: at most five memories; a result without the text raises.\<close>

definition memory_lines :: "pylib \<Rightarrow> json dict list \<Rightarrow> exn + string" where
  "memory_lines L memories =
     (if memories = [] then Inr []
      else bind_sum (map_sum_list (\<lambda>m. bind_sum (dict_item m ''memory'') (\<lambda>v.
               Inr (CHR 0x0A # ''- '' @ py_str L v))) memories) (\<lambda>ls.
           Inr (''RELEVANT MEMORIES:'' @ concat ls)))"

definition enhanced_prompt :: "query_request \<Rightarrow> string \<Rightarrow> string" where
  "enhanced_prompt q memory_context =
     strip ((case qr_system_prompt q of None \<Rightarrow> [] | Some s \<Rightarrow> s) @ [CHR 0x0A, CHR 0x0A] @ memory_context)"

text \<open>Any exception but a cancellation leaves the request as it was.\<close>

definition inject_memory_context ::
  "('c, 'd) agent_env \<Rightarrow> query_request \<Rightarrow> string \<Rightarrow> (('c, 'd) world, query_request) io" where
  "inject_memory_context E q api_key =
     (case ae_memory_search E of
        None \<Rightarrow> ret q
      | Some search \<Rightarrow>
          if api_key = [] then ret q
          else try_except
            (and_then (search (qr_prompt q) (sha256 (ae_lib E) api_key) 5) (\<lambda>memories.
             and_then (lift_sum (memory_lines (ae_lib E) memories)) (\<lambda>memory_context.
             ret (if memory_context = [] then q
                  else q\<lparr>qr_system_prompt := Some (enhanced_prompt q memory_context)\<rparr>))))
            (\<lambda>e. if is_exception e then ret q else throw e))"

text \<open>\<open>" ".join(responses)\<close>, which needs strings.\<close>

definition conversation_text :: "query_request \<Rightarrow> pyobj list \<Rightarrow> exn + string" where
  "conversation_text q responses =
     (if responses = [] then Inr (''User: '' @ qr_prompt q)
      else bind_sum (map_sum_list (\<lambda>r. value_or (TypeError ''expected str instance'') (str_of_obj r)) responses)
        (\<lambda>texts. Inr (''User: '' @ qr_prompt q @ [CHR 0x0A, CHR 0x0A] @ ''Assistant: '' @
           tl (concat (map (\<lambda>t. CHR '' '' # t) texts)))))"

definition extract_memory ::
  "('c, 'd) agent_env \<Rightarrow> query_request \<Rightarrow> pyobj list \<Rightarrow> string \<Rightarrow> string \<Rightarrow>
     (('c, 'd) world, agent_event option) io" where
  "extract_memory E q responses api_key session_id =
     try_except
       (and_then (lift_sum (conversation_text q responses)) (\<lambda>conversation.
        and_then (ae_memory_add E conversation (sha256 (ae_lib E) api_key)
          [(''session_id'', JStr session_id), (''source'', JStr ''query'')]) (\<lambda>_. ret None)))
       (\<lambda>e. if is_exception e
             then ret (Some (failure_event (ae_lib E) ''MEMORY_EXTRACTION_FAILED''
               ''Failed to save conversation to memory'' (Some [(''error'', JStr (ae_error_text E e))])))
             else throw e)"

section \<open>The executor\<close>

text \<open>The texts of a message that says it is the assistant's.\<close>

definition has_attr :: "pyobj \<Rightarrow> string \<Rightarrow> bool" where
  "has_attr x k \<longleftrightarrow> (case x of Obj c attrs \<Rightarrow> map_of attrs k \<noteq> None | _ \<Rightarrow> False)"

definition assistant_texts :: "pyobj \<Rightarrow> pyobj list" where
  "assistant_texts message =
     (if getattr_or message ''type'' py_none = Val (JStr ''assistant'') then
        (case getattr_or message ''content'' py_none of
           Lst blocks \<Rightarrow>
             map (\<lambda>b. getattr_or b ''text'' py_none)
               (filter (\<lambda>b. getattr_or b ''type'' py_none = Val (JStr ''text'') \<and> has_attr b ''text'') blocks)
         | _ \<Rightarrow> [])
      else [])"

text \<open>What a consumer answers: go on, or why it stopped.\<close>

datatype verdict = Continue | StopInterrupted | StopFailed exn

type_synonym ('c, 'd) event_consumer = "agent_event \<Rightarrow> (('c, 'd) query_state, verdict) io"

definition emit_opt ::
  "('c, 'd) event_consumer \<Rightarrow> agent_event option \<Rightarrow> (('c, 'd) query_state, verdict) io" where
  "emit_opt emit e = (case e of None \<Rightarrow> ret Continue | Some x \<Rightarrow> emit x)"

definition on_message ::
  "('c, 'd) agent_env \<Rightarrow> pyobj \<Rightarrow> (('c, 'd) query_state, agent_event option) io" where
  "on_message E message =
     and_then (in_ctx next_turn) (\<lambda>_.
     and_then (modify (\<lambda>q. q\<lparr>qs_responses := qs_responses q @ assistant_texts message\<rparr>)) (\<lambda>_.
     in_ctx (map_sdk_message (ae_lib E) (ae_pydantic E) message)))"

text \<open>The loop over \<open>receive_response\<close>; the stream may go on for ever, so it has fuel.\<close>

fun receive_loop ::
  "('c, 'd) agent_env \<Rightarrow> ('c, 'd) event_consumer \<Rightarrow> nat \<Rightarrow> (('c, 'd) query_state, verdict) io" where
  "receive_loop E emit 0 = throw OutOfFuel"
| "receive_loop E emit (Suc n) =
     and_then (in_services (ae_receive E)) (\<lambda>message.
       case message of
         None \<Rightarrow> ret Continue
       | Some m \<Rightarrow>
           and_then (on_message E m) (\<lambda>e.
           and_then (emit_opt emit e) (\<lambda>v.
             if v = Continue then receive_loop E emit n else ret v)))"

text \<open>
  \<open>async with ClaudeSDKClient(options) as client\<close>: the client is closed when the body ends or
  raises; a consumer that stopped leaves it open.
\<close>

definition with_client ::
  "('c, 'd) agent_env \<Rightarrow> agent_options \<Rightarrow> string + json list \<Rightarrow>
     (('c, 'd) query_state, verdict) io \<Rightarrow> (('c, 'd) query_state, verdict) io" where
  "with_client E options content body =
     and_then
       (try_except (and_then (in_services (ae_connect E options content)) (\<lambda>_. body))
          (\<lambda>e. and_then (in_services (ae_disconnect E (Some e))) (\<lambda>_. throw e)))
       (\<lambda>v. if v = Continue then and_then (in_services (ae_disconnect E None)) (\<lambda>_. ret v) else ret v)"

definition execute_with_sdk_client ::
  "('c, 'd) agent_env \<Rightarrow> nat \<Rightarrow> ('c, 'd) event_consumer \<Rightarrow> query_request \<Rightarrow> string \<Rightarrow>
     (('c, 'd) query_state, verdict) io" where
  "execute_with_sdk_client E fuel emit q0 api_key =
     and_then (in_services (inject_memory_context E q0 api_key)) (\<lambda>q.
     and_then (with_client E (build_options q) (query_content q) (receive_loop E emit fuel)) (\<lambda>v.
       if v \<noteq> Continue \<or> ae_memory_search E = None \<or> api_key = [] then ret v
       else
         and_then (reads qs_responses) (\<lambda>responses.
         and_then (reads (sc_session_id \<circ> qs_ctx)) (\<lambda>session_id.
         and_then (in_services (extract_memory E q responses api_key session_id)) (\<lambda>e.
         emit_opt emit e)))))"

definition agent_error :: "string \<Rightarrow> exn" where
  "agent_error m = APIError m ''AGENT_ERROR'' 500"

fun sdk_error_message :: "sdk_error \<Rightarrow> string" where
  "sdk_error_message SDKMissing =
     ''Claude Agent SDK not installed. Install it with: uv add claude-agent-sdk''"
| "sdk_error_message CLINotFound = ''Claude Code CLI is not installed''"
| "sdk_error_message CLIConnection = ''Connection to Claude Code failed''"
| "sdk_error_message ProcessFailed = ''Process failed''"
| "sdk_error_message CLIJSONDecode = ''SDK response parsing failed''"
| "sdk_error_message OtherSDKError = ''SDK error''"
| "sdk_error_message NoSDKError = ''Agent execution failed''"

definition handle_sdk_error ::
  "('c, 'd) agent_env \<Rightarrow> exn \<Rightarrow> (('c, 'd) query_state, 'a) io" where
  "handle_sdk_error E e =
     and_then (in_ctx (modify (\<lambda>ctx. ctx\<lparr>sc_is_error := Val (JBool True)\<rparr>))) (\<lambda>_.
     throw (agent_error (sdk_error_message (ae_sdk_error E e))))"

definition execute_query ::
  "('c, 'd) agent_env \<Rightarrow> nat \<Rightarrow> ('c, 'd) event_consumer \<Rightarrow> query_request \<Rightarrow> string \<Rightarrow>
     (('c, 'd) query_state, verdict) io" where
  "execute_query E fuel emit q api_key =
     try_except (execute_with_sdk_client E fuel emit q api_key)
       (\<lambda>e. if is_exception e then handle_sdk_error E e else throw e)"

section \<open>The closing events\<close>

definition plain_items :: "(string \<times> pyobj) list \<Rightarrow> string \<Rightarrow> exn + json" where
  "plain_items d k = (case map_of d k of None \<Rightarrow> Inr (JInt 0) | Some x \<Rightarrow> plain_value x)"

definition context_usage :: "pydantic \<Rightarrow> (string \<times> pyobj) list \<Rightarrow> exn + usage" where
  "context_usage D d =
     bind_sum (plain_items d ''input_tokens'') (\<lambda>i.
     bind_sum (plain_items d ''output_tokens'') (\<lambda>out.
     bind_sum (plain_items d ''cache_read_input_tokens'') (\<lambda>cr.
     bind_sum (plain_items d ''cache_creation_input_tokens'') (\<lambda>cc.
     make_usage D i out cr cc))))"

text \<open>The usage of each model, and the four totals; an entry that is no dictionary is skipped.\<close>

fun model_usages ::
  "pydantic \<Rightarrow> json dict \<Rightarrow> json \<times> json \<times> json \<times> json \<Rightarrow>
     exn + (usage dict \<times> (json \<times> json \<times> json \<times> json))" where
  "model_usages D [] totals = Inr ([], totals)"
| "model_usages D ((name, JObj d) # ms) (ti, to, tr, tc) =
     (let get = (\<lambda>k. dict_get_or d k (JInt 0)) in
      bind_sum (make_usage D (get ''input_tokens'') (get ''output_tokens'')
        (get ''cache_read_input_tokens'') (get ''cache_creation_input_tokens'')) (\<lambda>u.
      bind_sum (py_plus ti (get ''input_tokens'')) (\<lambda>ti'.
      bind_sum (py_plus to (get ''output_tokens'')) (\<lambda>to'.
      bind_sum (py_plus tr (get ''cache_read_input_tokens'')) (\<lambda>tr'.
      bind_sum (py_plus tc (get ''cache_creation_input_tokens'')) (\<lambda>tc'.
      bind_sum (model_usages D ms (ti', to', tr', tc')) (\<lambda>(us, totals).
      Inr (dict_update [(name, u)] us, totals))))))))"
| "model_usages D (_ # ms) totals = model_usages D ms totals"

definition no_counts :: "json \<times> json \<times> json \<times> json" where
  "no_counts = (JInt 0, JInt 0, JInt 0, JInt 0)"

text \<open>
  The total of the context when there is one, and otherwise the sum over the models; with the
  usage of each model.
\<close>

definition result_usage :: "pydantic \<Rightarrow> stream_context \<Rightarrow> exn + (usage option \<times> usage dict option)" where
  "result_usage D ctx =
     bind_sum (case sc_usage ctx of
         None \<Rightarrow> Inr None
       | Some d \<Rightarrow> if d = [] then Inr None else bind_sum (context_usage D d) (\<lambda>u. Inr (Some u))) (\<lambda>total.
     case sc_model_usage ctx of
       None \<Rightarrow> Inr (total, None)
     | Some d \<Rightarrow>
         if d = [] then Inr (total, None)
         else
           bind_sum (model_usages D d no_counts) (\<lambda>(us, (ti, to, tr, tc)).
           case total of
             Some u \<Rightarrow> Inr (Some u, Some us)
           | None \<Rightarrow> bind_sum (make_usage D ti to tr tc) (\<lambda>u. Inr (Some u, Some us))))"

definition result_data :: "pydantic \<Rightarrow> stream_context \<Rightarrow> int \<Rightarrow> exn + json dict" where
  "result_data D ctx duration_ms =
     bind_sum (result_usage D ctx) (\<lambda>(total, models).
     bind_sum (bind_sum (plain_value (sc_is_error ctx)) (pd_bool D)) (\<lambda>is_error.
     bind_sum (bind_sum (plain_value (sc_num_turns ctx)) (pd_int D)) (\<lambda>num_turns.
     bind_sum (bind_sum (plain_value (sc_total_cost_usd ctx)) (check_opt (pd_float D))) (\<lambda>cost.
     bind_sum (checked_str (sc_result_text ctx)) (\<lambda>result.
     Inr [(''session_id'', JStr (sc_session_id ctx)), (''is_error'', JBool is_error),
       (''is_complete'', JBool True), (''stop_reason'', JNull), (''duration_ms'', JInt duration_ms),
       (''num_turns'', JInt num_turns), (''total_cost_usd'', json_of_opt JFloat cost),
       (''usage'', json_of_opt usage_json total),
       (''model_usage'', json_of_opt (\<lambda>us. JObj (map (\<lambda>(n, u). (n, usage_json u)) us)) models),
       (''result'', json_of_opt JStr result),
       (''structured_output'', json_of_opt JObj (sc_structured_output ctx))])))))"

definition build_result_event :: "('c, 'd) agent_env \<Rightarrow> stream_context \<Rightarrow> int \<Rightarrow> exn + agent_event" where
  "build_result_event E ctx duration_ms =
     bind_sum (result_data (ae_pydantic E) ctx duration_ms) (\<lambda>d.
     Inr (format_sse (ae_lib E) ''result'' d))"

text \<open>\<open>int((time.perf_counter() - start_time) * 1000)\<close>\<close>

definition trunc_rat :: "rat \<Rightarrow> int" where
  "trunc_rat x = (if x < 0 then \<lceil>x\<rceil> else \<lfloor>x\<rfloor>)"

definition elapsed_ms :: "(('c, 'd) query_state, int) io" where
  "elapsed_ms =
     and_then (in_services monotonic) (\<lambda>now.
     and_then (reads (sc_start_time \<circ> qs_ctx)) (\<lambda>start.
     ret (trunc_rat ((now - start) * 1000))))"

section \<open>The streaming runner\<close>

definition yield_event :: "agent_event \<Rightarrow> (('c, 'd) query_state, unit) io" where
  "yield_event e = modify (\<lambda>q. q\<lparr>qs_events := qs_events q @ [e]\<rparr>)"

text \<open>After each event the interrupt marker is looked up; that may fail.\<close>

definition stream_consumer :: "('c, 'd) agent_env \<Rightarrow> string \<Rightarrow> ('c, 'd) event_consumer" where
  "stream_consumer E session_id event =
     and_then (yield_event event) (\<lambda>_.
     try_except
       (and_then (in_services (on_cache (is_interrupted (ae_tracker E) session_id))) (\<lambda>stop.
        ret (if stop then StopInterrupted else Continue)))
       (\<lambda>e. ret (StopFailed e)))"

definition yield_result :: "('c, 'd) agent_env \<Rightarrow> (('c, 'd) query_state, unit) io" where
  "yield_result E =
     and_then elapsed_ms (\<lambda>duration_ms.
     and_then (reads qs_ctx) (\<lambda>ctx.
     and_then (lift_sum (build_result_event E ctx duration_ms)) yield_event))"

definition yield_done :: "('c, 'd) agent_env \<Rightarrow> string \<Rightarrow> (('c, 'd) query_state, unit) io" where
  "yield_done E reason = yield_event (done_event (ae_lib E) reason)"

definition stream_body ::
  "('c, 'd) agent_env \<Rightarrow> nat \<Rightarrow> query_request \<Rightarrow> string \<Rightarrow> string \<Rightarrow> (('c, 'd) query_state, unit) io" where
  "stream_body E fuel q session_id api_key =
     and_then (in_services (on_cache (register (ae_tracker E) session_id))) (\<lambda>_.
     and_then (execute_query E fuel (stream_consumer E session_id) q api_key) (\<lambda>v.
     case v of
       StopFailed e \<Rightarrow> throw e
     | StopInterrupted \<Rightarrow> and_then (yield_result E) (\<lambda>_. yield_done E ''interrupted'')
     | Continue \<Rightarrow>
         and_then (yield_result E) (\<lambda>_.
         and_then (reads (\<lambda>s. py_true (sc_is_error (qs_ctx s)))) (\<lambda>is_error.
         yield_done E (if is_error then ''error'' else ''completed'')))))"

definition stream_failure :: "('c, 'd) agent_env \<Rightarrow> (('c, 'd) query_state, unit) io" where
  "stream_failure E =
     and_then (yield_event (failure_event (ae_lib E) ''AGENT_ERROR'' ''Internal error'' None)) (\<lambda>_.
     yield_done E ''error'')"

definition start_query ::
  "query_request \<Rightarrow> string \<Rightarrow> (('c, 'd) query_state, unit) io" where
  "start_query q session_id =
     and_then (in_services monotonic) (\<lambda>now.
     modify (\<lambda>s. s\<lparr>qs_ctx := new_context session_id (if given (qr_model q) then the (qr_model q) else ''sonnet'')
        now (qr_enable_file_checkpointing q) (qr_include_partial_messages q),
        qs_responses := [], qs_events := [],
        qs_aggregator := \<lparr>ag_content_blocks = [], ag_usage_data = None, ag_is_error = False\<rparr>\<rparr>))"

definition session_id_or_new :: "string option \<Rightarrow> (('c, 'd) query_state, string) io" where
  "session_id_or_new x = (if given x then ret (the x) else in_services draw_token)"

definition run_stream ::
  "('c, 'd) agent_env \<Rightarrow> nat \<Rightarrow> query_request \<Rightarrow> string option \<Rightarrow> string \<Rightarrow>
     (('c, 'd) query_state, unit) io" where
  "run_stream E fuel q session_id_override api_key =
     and_then (session_id_or_new (if given session_id_override then session_id_override else qr_session_id q))
       (\<lambda>session_id.
     and_then (start_query q session_id) (\<lambda>_.
     try_finally
       (try_except (stream_body E fuel q session_id api_key)
          (\<lambda>e. if is_exception e then stream_failure E else throw e))
       (in_services (on_cache (unregister (ae_tracker E) session_id)))))"

section \<open>The aggregator\<close>

text \<open>\<open>list.extend(x)\<close>\<close>

fun extend_items :: "json \<Rightarrow> exn + json list" where
  "extend_items (JArr xs) = Inr xs"
| "extend_items (JObj d) = Inr (map (JStr \<circ> fst) d)"
| "extend_items (JStr s) = Inr (map (\<lambda>c. JStr [c]) s)"
| "extend_items _ = Inl (TypeError ''object is not iterable'')"

text \<open>The loop over the items of a usage: values that are integers are added.\<close>

fun add_counts :: "json dict \<Rightarrow> json \<Rightarrow> exn + json" where
  "add_counts [] u = Inr u"
| "add_counts ((k, v) # d) u =
     (if int_value v = None then add_counts d u
      else case u of
        JObj counts \<Rightarrow>
          bind_sum (py_plus (dict_get_or counts k (JInt 0)) v) (\<lambda>x.
          add_counts d (JObj (dict_set k x counts)))
      | _ \<Rightarrow> Inl (AttributeError ''get''))"

definition accumulate_usage :: "json \<Rightarrow> json option \<Rightarrow> exn + json option" where
  "accumulate_usage usage data =
     (if \<not> truthy usage then Inr data
      else case data of
        None \<Rightarrow>
          (case usage of
             JObj _ \<Rightarrow> Inr (Some usage)
           | JArr _ \<Rightarrow> Inr (Some usage)
           | _ \<Rightarrow> Inl (AttributeError ''copy''))
      | Some u \<Rightarrow>
          (case usage of
             JObj d \<Rightarrow> bind_sum (add_counts d u) (\<lambda>x. Inr (Some x))
           | _ \<Rightarrow> Inl (AttributeError ''items'')))"

definition json_get :: "json \<Rightarrow> string \<Rightarrow> json \<Rightarrow> exn + json" where
  "json_get j k d = (case j of JObj items \<Rightarrow> Inr (dict_get_or items k d) | _ \<Rightarrow> Inl (AttributeError ''get''))"

text \<open>
  The content is extended before the usage is added; an exception of the second keeps the
  effect of the first.
\<close>

definition handle_message_data :: "json \<Rightarrow> aggregator \<Rightarrow> (exn + unit) \<times> aggregator" where
  "handle_message_data j =
     and_then (lift_sum (json_get j ''type'' JNull)) (\<lambda>t.
       if t \<noteq> JStr ''assistant'' then ret ()
       else
         and_then (lift_sum (bind_sum (json_get j ''content'' (JArr [])) extend_items)) (\<lambda>blocks.
         and_then (modify (\<lambda>a. a\<lparr>ag_content_blocks := ag_content_blocks a @ blocks\<rparr>)) (\<lambda>_.
         and_then (lift_sum (json_get j ''usage'' JNull)) (\<lambda>usage.
         and_then (reads ag_usage_data) (\<lambda>data.
         and_then (lift_sum (accumulate_usage usage data)) (\<lambda>data'.
         modify (\<lambda>a. a\<lparr>ag_usage_data := data'\<rparr>)))))))"

definition handle_result_data :: "json \<Rightarrow> aggregator \<Rightarrow> (exn + unit) \<times> aggregator" where
  "handle_result_data j =
     and_then (lift_sum (json_get j ''usage'' JNull)) (\<lambda>usage.
     and_then (reads ag_usage_data) (\<lambda>data.
     and_then (lift_sum (accumulate_usage usage data)) (\<lambda>data'.
     modify (\<lambda>a. a\<lparr>ag_usage_data := data'\<rparr>))))"

definition handle_event :: "pylib \<Rightarrow> agent_event \<Rightarrow> (aggregator, unit) io" where
  "handle_event L e =
     (if ev_event e = ''message'' then
        (case json_loads L (ev_data e) of None \<Rightarrow> ret () | Some j \<Rightarrow> handle_message_data j)
      else if ev_event e = ''result'' then
        (case json_loads L (ev_data e) of None \<Rightarrow> ret () | Some j \<Rightarrow> handle_result_data j)
      else if ev_event e = ''error'' then modify (\<lambda>a. a\<lparr>ag_is_error := True\<rparr>)
      else ret ())"

definition in_aggregator :: "(aggregator, 'a) io \<Rightarrow> (('c, 'd) query_state, 'a) io" where
  "in_aggregator m = (\<lambda>q. case m (qs_aggregator q) of (r, a) \<Rightarrow> (r, q\<lparr>qs_aggregator := a\<rparr>))"

section \<open>The single-query runner\<close>

record query_response =
  qp_session_id :: string
  qp_model :: string
  qp_content :: "json list"
  qp_is_error :: pyobj
  qp_duration_ms :: int
  qp_num_turns :: pyobj
  qp_total_cost_usd :: pyobj
  qp_usage :: "pyobj option"
  qp_result :: pyobj
  qp_structured_output :: "json dict option"

text \<open>A dictionary with values from attributes is an object of the class \<open>dict\<close> here.\<close>

definition usage_object :: "(string \<times> pyobj) list \<Rightarrow> pyobj" where
  "usage_object d = Obj ''dict'' d"

definition finalize ::
  "aggregator \<Rightarrow> string \<Rightarrow> string \<Rightarrow> stream_context \<Rightarrow> int \<Rightarrow> query_response" where
  "finalize a session_id model ctx duration_ms =
     \<lparr>qp_session_id = session_id, qp_model = model, qp_content = ag_content_blocks a,
      qp_is_error = (if ag_is_error a then Val (JBool True) else sc_is_error ctx),
      qp_duration_ms = duration_ms, qp_num_turns = sc_num_turns ctx,
      qp_total_cost_usd = sc_total_cost_usd ctx,
      qp_usage = (case sc_usage ctx of
          Some (x # d) \<Rightarrow> Some (usage_object (x # d))
        | _ \<Rightarrow> map_option Val (ag_usage_data a)),
      qp_result = sc_result_text ctx, qp_structured_output = sc_structured_output ctx\<rparr>"

definition single_consumer :: "('c, 'd) agent_env \<Rightarrow> ('c, 'd) event_consumer" where
  "single_consumer E event =
     try_except (and_then (in_aggregator (handle_event (ae_lib E) event)) (\<lambda>_. ret Continue))
       (\<lambda>e. ret (StopFailed e))"

definition internal_error_block :: json where
  "internal_error_block = JObj [(''type'', JStr ''text''), (''text'', JStr ''Error: Internal error'')]"

definition single_failure :: "(('c, 'd) query_state, unit) io" where
  "single_failure =
     modify (\<lambda>s. s\<lparr>qs_ctx := (qs_ctx s)\<lparr>sc_is_error := Val (JBool True)\<rparr>,
       qs_aggregator := (qs_aggregator s)\<lparr>ag_content_blocks := [internal_error_block]\<rparr>\<rparr>)"

definition run_single ::
  "('c, 'd) agent_env \<Rightarrow> nat \<Rightarrow> query_request \<Rightarrow> string \<Rightarrow> (('c, 'd) query_state, query_response) io" where
  "run_single E fuel q api_key =
     and_then (session_id_or_new (qr_session_id q)) (\<lambda>session_id.
     and_then (start_query q session_id) (\<lambda>_.
     and_then
       (try_except
          (and_then (execute_query E fuel (single_consumer E) q api_key) (\<lambda>v.
             case v of StopFailed e \<Rightarrow> throw e | _ \<Rightarrow> ret ()))
          (\<lambda>e. if is_exception e then single_failure else throw e)) (\<lambda>_.
     and_then elapsed_ms (\<lambda>duration_ms.
     reads (\<lambda>s. finalize (qs_aggregator s) session_id (sc_model (qs_ctx s)) (qs_ctx s) duration_ms)))))"

section \<open>The response schema\<close>

fun check_list :: "json \<Rightarrow> exn + json list" where
  "check_list (JArr xs) = Inr xs"
| "check_list _ = Inl invalid_field"

definition check_block_content :: "json \<Rightarrow> exn + (string + json list)" where
  "check_block_content v = (case content_value v of None \<Rightarrow> Inl invalid_field | Some c \<Rightarrow> Inr c)"

text \<open>\<open>ContentBlockSchema.model_validate\<close> of a dictionary; missing fields are \<open>None\<close>.\<close>

definition validate_block :: "pydantic \<Rightarrow> json \<Rightarrow> exn + content_block" where
  "validate_block D j =
     (case j of
        JObj d \<Rightarrow>
          (let field = (\<lambda>k. dict_get_or d k JNull) in
           bind_sum (check_str (field ''type'')) (\<lambda>t.
           if t \<notin> set block_types then Inl invalid_field
           else
             bind_sum (check_opt check_str (field ''text'')) (\<lambda>text.
             bind_sum (check_opt check_str (field ''thinking'')) (\<lambda>thinking.
             bind_sum (check_opt check_str (field ''id'')) (\<lambda>i.
             bind_sum (check_opt check_str (field ''name'')) (\<lambda>name.
             bind_sum (check_opt check_dict (field ''input'')) (\<lambda>inp.
             bind_sum (check_opt check_str (field ''tool_use_id'')) (\<lambda>tool_use_id.
             bind_sum (check_opt check_block_content (field ''content'')) (\<lambda>content.
             bind_sum (check_opt (pd_bool D) (field ''is_error'')) (\<lambda>is_error.
             Inr \<lparr>cb_type = t, cb_text = text, cb_thinking = thinking, cb_id = i, cb_name = name,
                  cb_input = inp, cb_tool_use_id = tool_use_id, cb_content = content,
                  cb_is_error = is_error\<rparr>))))))))))
      | _ \<Rightarrow> Inl invalid_field)"

text \<open>The token counts of a usage are required, the cache counts default to zero.\<close>

definition usage_field :: "pyobj \<Rightarrow> string \<Rightarrow> json option \<Rightarrow> exn + json" where
  "usage_field x k otherwise =
     (case x of
        Obj _ d \<Rightarrow> (case map_of d k of None \<Rightarrow> value_or invalid_field otherwise | Some v \<Rightarrow> plain_value v)
      | Val (JObj d) \<Rightarrow> (case map_of d k of None \<Rightarrow> value_or invalid_field otherwise | Some v \<Rightarrow> Inr v)
      | _ \<Rightarrow> Inl invalid_field)"

definition validate_usage :: "pydantic \<Rightarrow> pyobj \<Rightarrow> exn + usage" where
  "validate_usage D x =
     bind_sum (usage_field x ''input_tokens'' None) (\<lambda>i.
     bind_sum (usage_field x ''output_tokens'' None) (\<lambda>out.
     bind_sum (usage_field x ''cache_read_input_tokens'' (Some (JInt 0))) (\<lambda>cr.
     bind_sum (usage_field x ''cache_creation_input_tokens'' (Some (JInt 0))) (\<lambda>cc.
     make_usage D i out cr cc))))"

text \<open>\<open>SingleQueryResponse.model_validate\<close>; the payload has no \<open>stop_reason\<close>.\<close>

definition validate_response :: "pydantic \<Rightarrow> query_response \<Rightarrow> exn + single_query_response" where
  "validate_response D p =
     bind_sum (map_sum_list (validate_block D) (qp_content p)) (\<lambda>content.
     bind_sum (bind_sum (plain_value (qp_is_error p)) (pd_bool D)) (\<lambda>is_error.
     bind_sum (bind_sum (plain_value (qp_num_turns p)) (pd_int D)) (\<lambda>num_turns.
     bind_sum (bind_sum (plain_value (qp_total_cost_usd p)) (check_opt (pd_float D))) (\<lambda>cost.
     bind_sum (case qp_usage p of None \<Rightarrow> Inr None
       | Some x \<Rightarrow> bind_sum (validate_usage D x) (\<lambda>u. Inr (Some u))) (\<lambda>usage.
     bind_sum (checked_str (qp_result p)) (\<lambda>result.
     Inr \<lparr>sr_session_id = qp_session_id p, sr_model = qp_model p, sr_content = content,
          sr_is_error = is_error, sr_is_complete = True, sr_stop_reason = None,
          sr_duration_ms = qp_duration_ms p, sr_num_turns = num_turns, sr_total_cost_usd = cost,
          sr_usage = usage, sr_result = result, sr_structured_output = qp_structured_output p\<rparr>))))))"

section \<open>Control of a running session\<close>

definition require_active :: "'c session_tracker \<Rightarrow> string \<Rightarrow> ('c, bool) io" where
  "require_active T session_id = is_active T session_id"

definition interrupt :: "'c session_tracker \<Rightarrow> string \<Rightarrow> ('c, bool) io" where
  "interrupt T session_id =
     and_then (require_active T session_id) (\<lambda>active.
       if \<not> active then ret False
       else and_then (mark_interrupted T session_id) (\<lambda>_. ret True))"

text \<open>The answer and the mode are logged, and not used.\<close>

definition submit_answer :: "'c session_tracker \<Rightarrow> string \<Rightarrow> string \<Rightarrow> ('c, bool) io" where
  "submit_answer T session_id answer = require_active T session_id"

definition update_permission_mode :: "'c session_tracker \<Rightarrow> string \<Rightarrow> string \<Rightarrow> ('c, bool) io" where
  "update_permission_mode T session_id permission_mode = require_active T session_id"

end
