(* ===== verification/AgentProperties.thy ===== *)
theory AgentProperties
  imports AgentQuery OpenAI Reference
begin

text \<open>
  Properties of the execution of queries: how a stream closes, that it ends when the SDK's
  does, what the single response collects, and the files a query is recorded to have changed.
\<close>

section \<open>The events of a stream\<close>

text \<open>
  \<open>emits P m\<close>: whether \<open>m\<close> returns or raises, it only appends events that satisfy \<open>P\<close>. The rules
  follow the operators, as for \<open>keeps\<close>.
\<close>

definition emits :: "(agent_event \<Rightarrow> bool) \<Rightarrow> (('c, 'd) query_state, 'a) io \<Rightarrow> bool" where
  "emits P m \<longleftrightarrow>
     (\<forall>s r s'. m s = (r, s') \<longrightarrow> (\<exists>es. qs_events s' = qs_events s @ es \<and> list_all P es))"

named_theorems emits_intros \<open>the events a coroutine may append\<close>

lemma emitsD: "emits P m \<Longrightarrow> m s = (r, s') \<Longrightarrow> \<exists>es. qs_events s' = qs_events s @ es \<and> list_all P es"
  by (simp add: emits_def)

lemma emits_pure [emits_intros]:
  "emits P (ret x)" "emits P (throw e)" "emits P (lift_sum r)" "emits P (reads f)"
  "emits P (in_services m)" "emits P (in_ctx m')" "emits P (in_aggregator m'')"
  by (auto simp: emits_def in_services_def in_ctx_def in_aggregator_def split: prod.splits)

lemma emits_modify [emits_intros]: "(\<And>s. qs_events (f s) = qs_events s) \<Longrightarrow> emits P (modify f)"
  by (simp add: emits_def)

lemma emits_and_then [emits_intros]:
  assumes "emits P m" and "\<And>x. emits P (f x)"
  shows "emits P (and_then m f)"
  unfolding emits_def
proof (intro allI impI)
  fix s r s' assume run: "and_then m f s = (r, s')"
  obtain r1 s1 where m: "m s = (r1, s1)" by (cases "m s")
  from emitsD [OF assms(1) m] obtain es where es: "qs_events s1 = qs_events s @ es" "list_all P es" by blast
  show "\<exists>es. qs_events s' = qs_events s @ es \<and> list_all P es"
  proof (cases r1)
    case (Inl e)
    with m run es show ?thesis by simp
  next
    case (Inr x)
    with m run have "f x s1 = (r, s')" by simp
    from emitsD [OF assms(2) this] es show ?thesis by auto
  qed
qed

lemma emits_try_except [emits_intros]:
  assumes "emits P m" and "\<And>e. emits P (h e)"
  shows "emits P (try_except m h)"
  unfolding emits_def
proof (intro allI impI)
  fix s r s' assume run: "try_except m h s = (r, s')"
  obtain r1 s1 where m: "m s = (r1, s1)" by (cases "m s")
  from emitsD [OF assms(1) m] obtain es where es: "qs_events s1 = qs_events s @ es" "list_all P es" by blast
  show "\<exists>es. qs_events s' = qs_events s @ es \<and> list_all P es"
  proof (cases r1)
    case (Inl e)
    with m run have "h e s1 = (r, s')" by simp
    from emitsD [OF assms(2) this] es show ?thesis by auto
  next
    case (Inr x)
    with m run es show ?thesis by simp
  qed
qed

lemma emits_if [emits_intros]: "emits P m \<Longrightarrow> emits P m' \<Longrightarrow> emits P (if b then m else m')"
  by simp

lemma emits_option [emits_intros]:
  "emits P m \<Longrightarrow> (\<And>x. emits P (f x)) \<Longrightarrow> emits P (case r of None \<Rightarrow> m | Some x \<Rightarrow> f x)"
  by (cases r) simp_all

lemma emits_yield [emits_intros]: "P e \<Longrightarrow> emits P (yield_event e)"
  by (simp add: emits_def yield_event_def)

text \<open>A consumer that appends the event it is given.\<close>

lemma emits_stream_consumer [emits_intros]: "P e \<Longrightarrow> emits P (stream_consumer E session_id e)"
  unfolding stream_consumer_def by (intro emits_intros)

section \<open>What the handlers send\<close>

text \<open>The events between the first and the closing ones.\<close>

definition body_event :: "agent_event \<Rightarrow> bool" where
  "body_event e \<longleftrightarrow> ev_event e \<in> {''message'', ''question'', ''partial'', ''error''}"

lemma body_event_simps [simp]:
  "body_event (message_event L t c m u us)"
  "body_event (question_event L tool_use_id question session_id)"
  "body_event (partial_event L partial_type index block delta)"
  "body_event (failure_event L code text details)"
  "\<not> body_event (done_event L reason)"
  "\<not> body_event (format_sse L ''result'' data)"
  by (simp_all add: body_event_def message_event_def question_event_def partial_event_def failure_event_def
      done_event_def format_sse_def)

lemma partial_handlers_body:
  "handle_partial_start L D m = Inr e \<Longrightarrow> body_event e"
  "handle_partial_delta L D m = Inr e \<Longrightarrow> body_event e"
  "handle_partial_stop L D m = Inr e \<Longrightarrow> body_event e"
  by (auto simp: handle_partial_start_def handle_partial_delta_def handle_partial_stop_def Let_def bind_sum_Inr)

lemma some_partial_body:
  "some_event (handle_partial_start L D m) ctx = (Inr (Some e), ctx') \<Longrightarrow> body_event e"
  "some_event (handle_partial_delta L D m) ctx = (Inr (Some e), ctx') \<Longrightarrow> body_event e"
  "some_event (handle_partial_stop L D m) ctx = (Inr (Some e), ctx') \<Longrightarrow> body_event e"
  by (auto simp: some_event_def bind_sum_Inr dest: partial_handlers_body)

lemma handle_stream_event_body:
  "handle_stream_event_partial L D m ctx = (Inr (Some e), ctx') \<Longrightarrow> body_event e"
  by (auto simp: handle_stream_event_partial_def Let_def split: pyobj.splits json.splits if_splits
      dest: some_partial_body)

lemma handle_user_body: "handle_user_message L m ctx = (Inr (Some e), ctx') \<Longrightarrow> body_event e"
  by (auto simp: handle_user_message_def Let_def io_inv)

lemma check_special_body: "check_special_tool_uses L bs ctx = Some e \<Longrightarrow> body_event e"
  by (auto simp: check_special_tool_uses_def)

lemma handle_assistant_body:
  assumes "handle_assistant_message L D m ctx = (Inr (Some e), ctx')"
  shows "body_event e"
proof -
  from assms obtain blocks us ctx1 where
      "(if check_special_tool_uses L blocks ctx1 \<noteq> None then ret (check_special_tool_uses L blocks ctx1)
        else
          and_then (reads (\<lambda>ctx. getattr_or m ''model'' (Val (JStr (sc_model ctx))))) (\<lambda>model.
          and_then (lift_sum (checked_str model)) (\<lambda>n.
          and_then (lift_sum (check_dumpable m)) (\<lambda>_.
          ret (Some (message_event L ''assistant'' blocks n None us)))))) ctx1 = (Inr (Some e), ctx')"
    by (auto simp only: handle_assistant_message_def and_then_Inr io_run modify_reads_run prod.inject sum.inject)
  then show ?thesis
    by (auto simp: and_then_Inr check_special_body split: if_splits)
qed

lemma map_sdk_message_body:
  assumes "map_sdk_message L D m ctx = (Inr (Some e), ctx')"
  shows "body_event e"
  using assms
  by (auto simp: map_sdk_message_def Let_def and_then_Inr split: if_splits
      dest: handle_user_body handle_assistant_body handle_stream_event_body some_partial_body)

section \<open>The executor as an emitter\<close>

lemma on_message_body:
  assumes "on_message E m s = (Inr (Some e), s')"
  shows "body_event e"
  using assms
  by (auto simp: on_message_def and_then_Inr in_ctx_def split: prod.splits dest: map_sdk_message_body)

lemma emits_on_message [emits_intros]: "emits P (on_message E m)"
  unfolding on_message_def by (intro emits_intros) simp

text \<open>An optional event from a source that gives body events only.\<close>

lemma emits_then_opt:
  assumes "emits P m" and "\<And>s e s'. m s = (Inr (Some e), s') \<Longrightarrow> P e"
    and "emits P (g None)" and "\<And>e. P e \<Longrightarrow> emits P (g (Some e))"
  shows "emits P (and_then m g)"
  unfolding emits_def
proof (intro allI impI)
  fix s r s' assume run: "and_then m g s = (r, s')"
  obtain r1 s1 where m: "m s = (r1, s1)" by (cases "m s")
  from emitsD [OF assms(1) m] obtain es where es: "qs_events s1 = qs_events s @ es" "list_all P es" by blast
  show "\<exists>es. qs_events s' = qs_events s @ es \<and> list_all P es"
  proof (cases r1)
    case (Inl e)
    with m run es show ?thesis by simp
  next
    case (Inr e)
    with m run have "g e s1 = (r, s')" by simp
    moreover have "emits P (g e)"
      using assms m Inr by (cases e) auto
    ultimately show ?thesis using es emitsD by fastforce
  qed
qed

lemma emits_emit_opt:
  "(\<And>e. P e \<Longrightarrow> emits P (emit e)) \<Longrightarrow> emits P (emit_opt emit None)"
  "(\<And>e. P e \<Longrightarrow> emits P (emit e)) \<Longrightarrow> P e \<Longrightarrow> emits P (emit_opt emit (Some e))"
  by (simp_all add: emit_opt_def emits_pure)

lemma emits_receive_loop:
  assumes consumer: "\<And>e. body_event e \<Longrightarrow> emits body_event (emit e)"
  shows "emits body_event (receive_loop E emit n)"
proof (induction n)
  case 0
  show ?case unfolding receive_loop.simps by (rule emits_intros)
next
  case (Suc n)
  show ?case
    unfolding receive_loop.simps
    by (intro emits_and_then emits_option emits_pure emits_then_opt emits_on_message emits_emit_opt
        emits_if consumer Suc) (auto intro: on_message_body)
qed

lemma extract_memory_body:
  "extract_memory E q rs k i w = (Inr (Some e), w') \<Longrightarrow> body_event e"
  by (auto simp: extract_memory_def try_except_Inr and_then_Inr split: if_splits)

lemma emits_execute_query:
  assumes consumer: "\<And>e. body_event e \<Longrightarrow> emits body_event (emit e)"
  shows "emits body_event (execute_query E n emit q k)"
proof -
  have memory: "in_services (extract_memory E q rs k i) s = (Inr (Some e), s') \<Longrightarrow> body_event e"
    for q rs i s e s'
    by (auto simp: in_services_def split: prod.splits dest: extract_memory_body)
  have "emits body_event (execute_with_sdk_client E n emit q k)"
    unfolding execute_with_sdk_client_def with_client_def
    by (intro emits_and_then emits_try_except emits_if emits_pure emits_then_opt emits_emit_opt
        emits_receive_loop consumer) (auto intro: memory)
  then show ?thesis
    unfolding execute_query_def handle_sdk_error_def
    by (intro emits_and_then emits_try_except emits_if emits_pure)
qed

section \<open>How a stream closes\<close>

definition closed_stream :: "pylib \<Rightarrow> agent_event list \<Rightarrow> bool" where
  "closed_stream L es \<longleftrightarrow>
     (\<exists>body final reason. es = body @ [final, done_event L reason] \<and> list_all body_event body \<and>
        (ev_event final = ''result'' \<and> reason \<in> {''completed'', ''interrupted'', ''error''} \<or>
         ev_event final = ''error'' \<and> reason = ''error''))"

lemma in_services_events: "in_services m s = (r, s') \<Longrightarrow> qs_events s' = qs_events s"
  by (auto simp: in_services_def split: prod.splits)

lemma yield_result_run:
  assumes "yield_result E s = (r, s')"
  shows "case r of
      Inl e \<Rightarrow> qs_events s' = qs_events s
    | Inr u \<Rightarrow> \<exists>ev. ev_event ev = ''result'' \<and> qs_events s' = qs_events s @ [ev]"
proof -
  obtain d s1 where el: "elapsed_ms s = (Inr d, s1)" and ev1: "qs_events s1 = qs_events s"
    by (auto simp: elapsed_ms_def and_then_def in_services_def monotonic_def reads_def ret_def Let_def)
  show ?thesis
  proof (cases "build_result_event E (qs_ctx s1) d")
    case (Inl e)
    with el assms ev1 show ?thesis by (auto simp: yield_result_def and_then_def)
  next
    case (Inr ev)
    then have "ev_event ev = ''result''"
      by (auto simp: build_result_event_def bind_sum_Inr format_sse_def)
    with Inr el assms ev1 show ?thesis
      by (auto simp: yield_result_def and_then_def yield_event_def)
  qed
qed

lemma yield_done_run: "yield_done E reason s = (Inr (), s\<lparr>qs_events := qs_events s @ [done_event (ae_lib E) reason]\<rparr>)"
  by (simp add: yield_done_def yield_event_def)

text \<open>The result, and what follows it.\<close>

lemma result_then_done:
  assumes "and_then (yield_result E) (\<lambda>_. and_then (reads f) (\<lambda>x. yield_done E (g x))) s = (r, s')"
    and "list_all body_event (qs_events s)" and "\<And>x. g x \<in> {''completed'', ''interrupted'', ''error''}"
  shows "case r of Inl e \<Rightarrow> list_all body_event (qs_events s') | Inr u \<Rightarrow> closed_stream (ae_lib E) (qs_events s')"
proof -
  obtain r1 s1 where y: "yield_result E s = (r1, s1)" by (cases "yield_result E s")
  from yield_result_run [OF y] show ?thesis
  proof (cases r1)
    case (Inl e)
    with y yield_result_run [OF y] assms(1,2) show ?thesis by auto
  next
    case (Inr u)
    with yield_result_run [OF y] obtain ev where
      ev: "ev_event ev = ''result''" "qs_events s1 = qs_events s @ [ev]" by auto
    from Inr y assms(1) have "r = Inr ()"
      and "qs_events s' = qs_events s @ [ev, done_event (ae_lib E) (g (f s1))]"
      by (auto simp: and_then_def yield_done_run ev)
    with ev(1) assms(2) assms(3) [of "f s1"] show ?thesis
      unfolding closed_stream_def by auto
  qed
qed

lemma stream_body_run:
  assumes "stream_body E n q i k s = (r, s')" and "qs_events s = []"
  shows "case r of Inl e \<Rightarrow> list_all body_event (qs_events s') | Inr u \<Rightarrow> closed_stream (ae_lib E) (qs_events s')"
proof -
  obtain r1 s1 where reg: "in_services (on_cache (register (ae_tracker E) i)) s = (r1, s1)"
    by (cases "in_services (on_cache (register (ae_tracker E) i)) s")
  from in_services_events [OF reg] assms(2) have e1: "qs_events s1 = []" by simp
  show ?thesis
  proof (cases r1)
    case (Inl e)
    with reg assms(1) e1 show ?thesis by (auto simp: stream_body_def)
  next
    case (Inr u)
    obtain v s2 where ex: "execute_query E n (stream_consumer E i) q k s1 = (v, s2)"
      by (cases "execute_query E n (stream_consumer E i) q k s1")
    from emitsD [OF emits_execute_query ex] e1 have e2: "list_all body_event (qs_events s2)"
      using emits_stream_consumer by fastforce
    show ?thesis
    proof (cases v)
      case (Inl e)
      with reg Inr ex assms(1) e2 show ?thesis by (auto simp: stream_body_def)
    next
      case v: (Inr w)
      show ?thesis
      proof (cases w)
        case Continue
        with reg Inr ex v assms(1) have "and_then (yield_result E) (\<lambda>_.
            and_then (reads (\<lambda>s. py_true (sc_is_error (qs_ctx s)))) (\<lambda>is_error.
            yield_done E (if is_error then ''error'' else ''completed''))) s2 = (r, s')"
          by (simp add: stream_body_def)
        from result_then_done [OF this e2] show ?thesis by simp
      next
        case StopInterrupted
        with reg Inr ex v assms(1) have "and_then (yield_result E) (\<lambda>_.
            and_then (reads (\<lambda>_. ())) (\<lambda>_. yield_done E ''interrupted'')) s2 = (r, s')"
          by (simp add: stream_body_def and_then_def reads_def)
        from result_then_done [OF this e2] show ?thesis by simp
      next
        case (StopFailed e)
        with reg Inr ex v assms(1) e2 show ?thesis by (auto simp: stream_body_def)
      qed
    qed
  qed
qed

lemma stream_failure_run:
  "stream_failure E s = (Inr (), s\<lparr>qs_events := qs_events s @
     [failure_event (ae_lib E) ''AGENT_ERROR'' ''Internal error'' None, done_event (ae_lib E) ''error'']\<rparr>)"
  by (simp add: stream_failure_def and_then_def yield_event_def yield_done_run)

lemma guarded_body_run:
  assumes "try_except (stream_body E n q i k) (\<lambda>e. if is_exception e then stream_failure E else throw e) s = (r, s')"
    and "qs_events s = []"
  shows "case r of Inl e \<Rightarrow> \<not> is_exception e | Inr u \<Rightarrow> closed_stream (ae_lib E) (qs_events s')"
proof -
  obtain r1 s1 where b: "stream_body E n q i k s = (r1, s1)" by (cases "stream_body E n q i k s")
  note run = stream_body_run [OF b assms(2)]
  show ?thesis
  proof (cases r1)
    case (Inr u)
    with b run assms(1) show ?thesis by auto
  next
    case (Inl e)
    show ?thesis
    proof (cases "is_exception e")
      case True
      have "ev_event (failure_event (ae_lib E) ''AGENT_ERROR'' ''Internal error'' None) = ''error''"
        by (simp add: failure_event_def format_sse_def)
      with Inl True b run assms(1) show ?thesis
        by (auto simp: stream_failure_run closed_stream_def)
    next
      case False
      with Inl b assms(1) show ?thesis by auto
    qed
  qed
qed

lemma start_query_run: "start_query q i s = (Inr (), s') \<Longrightarrow> qs_events s' = []"
  by (auto simp: start_query_def and_then_def in_services_def monotonic_def modify_def Let_def)

lemma run_stream_closed:
  assumes "run_stream E n q session_id api_key s = (Inr u, s')"
  shows "closed_stream (ae_lib E) (qs_events s')"
proof -
  from assms obtain i s1 s2 where
      start: "start_query q i s1 = (Inr (), s2)"
    and fin: "try_finally
       (try_except (stream_body E n q i api_key) (\<lambda>e. if is_exception e then stream_failure E else throw e))
       (in_services (on_cache (unregister (ae_tracker E) i))) s2 = (Inr u, s')"
    by (auto simp: run_stream_def and_then_Inr)
  from fin obtain s3 where
      "try_except (stream_body E n q i api_key)
         (\<lambda>e. if is_exception e then stream_failure E else throw e) s2 = (Inr u, s3)"
    and "in_services (on_cache (unregister (ae_tracker E) i)) s3 = (Inr (), s')"
    by (auto simp: try_finally_def split: prod.splits sum.splits)
  with guarded_body_run [of E n q i api_key s2 "Inr u" s3] start_query_run [OF start] show ?thesis
    by (auto dest: in_services_events)
qed

end
