(* ===== verification/AgentTermination.thy ===== *)
theory AgentTermination
  imports AgentProperties
begin

text \<open>
  A stream ends when the SDK's does: with an SDK that sends a bounded number of messages and
  no cancellation, \<open>run_stream\<close> returns, whatever exceptions are raised on the way, and leaves
  the session without its marker.
\<close>

section \<open>Nothing but exceptions\<close>

text \<open>\<open>calm m\<close>: what escapes from \<open>m\<close> is an \<open>Exception\<close>, no cancellation and no lack of fuel.\<close>

definition calm_sum :: "exn + 'a \<Rightarrow> bool" where
  "calm_sum r \<longleftrightarrow> (\<forall>e. r = Inl e \<longrightarrow> is_exception e)"

definition calm :: "('w, 'a) io \<Rightarrow> bool" where
  "calm m \<longleftrightarrow> (\<forall>w e w'. m w = (Inl e, w') \<longrightarrow> is_exception e)"

named_theorems calm_intros \<open>coroutines from which only exceptions escape\<close>

lemma calmD: "calm m \<Longrightarrow> m w = (Inl e, w') \<Longrightarrow> is_exception e"
  unfolding calm_def by blast

lemma calm_sum_pure [calm_intros]: "calm_sum (Inr x)" "is_exception e \<Longrightarrow> calm_sum (Inl e)"
  by (simp_all add: calm_sum_def)

lemma calm_sum_bind [calm_intros]: "calm_sum r \<Longrightarrow> (\<And>x. calm_sum (f x)) \<Longrightarrow> calm_sum (bind_sum r f)"
  by (auto simp: calm_sum_def bind_sum_Inl)

lemma calm_sum_map [calm_intros]: "(\<And>x. calm_sum (f x)) \<Longrightarrow> calm_sum (map_sum_list f xs)"
  by (induction xs) (auto intro!: calm_intros)

lemma calm_sum_if [calm_intros]: "calm_sum r \<Longrightarrow> calm_sum r' \<Longrightarrow> calm_sum (if b then r else r')"
  by simp

lemma calm_sum_option [calm_intros]:
  "calm_sum r \<Longrightarrow> (\<And>x. calm_sum (f x)) \<Longrightarrow> calm_sum (case v of None \<Rightarrow> r | Some x \<Rightarrow> f x)"
  by (cases v) simp_all

lemma calm_sum_prod [calm_intros]: "(\<And>x y. calm_sum (f x y)) \<Longrightarrow> calm_sum (case p of (x, y) \<Rightarrow> f x y)"
  by (cases p) simp

lemma calm_pure [calm_intros]:
  "calm (ret x)" "is_exception e \<Longrightarrow> calm (throw e)" "calm (reads f)" "calm (modify g)"
  "calm_sum r \<Longrightarrow> calm (lift_sum r)"
  by (auto simp: calm_def calm_sum_def)

lemma calm_and_then [calm_intros]: "calm m \<Longrightarrow> (\<And>x. calm (f x)) \<Longrightarrow> calm (and_then m f)"
  unfolding calm_def and_then_Inl by blast

lemma calm_try_except: "(\<And>e. calm (h e)) \<Longrightarrow> calm (try_except m h)"
  unfolding calm_def by (auto simp: try_except_def split: prod.splits sum.splits)

lemma calm_if [calm_intros]: "calm m \<Longrightarrow> calm m' \<Longrightarrow> calm (if b then m else m')"
  by simp

lemma calm_option [calm_intros]:
  "calm m \<Longrightarrow> (\<And>x. calm (f x)) \<Longrightarrow> calm (case v of None \<Rightarrow> m | Some x \<Rightarrow> f x)"
  by (cases v) simp_all

lemma calm_lifted [calm_intros]:
  "calm m \<Longrightarrow> calm (in_services m)" "calm m' \<Longrightarrow> calm (in_ctx m')" "calm m'' \<Longrightarrow> calm (on_cache m'')"
  by (auto simp: calm_def in_services_def in_ctx_def on_cache_run split: prod.splits)

text \<open>A handler that passes on what is no exception, over a body that raises only exceptions.\<close>

lemma calm_catch [calm_intros]:
  assumes "\<And>e. is_exception e \<Longrightarrow> calm (h e)" and "calm m"
  shows "calm (try_except m (\<lambda>e. if is_exception e then h e else throw e))"
  unfolding calm_def
proof (intro allI impI)
  fix w e w' assume run: "try_except m (\<lambda>e. if is_exception e then h e else throw e) w = (Inl e, w')"
  obtain r w1 where m: "m w = (r, w1)" by (cases "m w")
  with run obtain e1 where r: "r = Inl e1" by (cases r) auto
  with m assms(2) have "is_exception e1" by (auto simp: calm_def)
  moreover with m r run have "h e1 w1 = (Inl e, w')" by simp
  ultimately show "is_exception e" using assms(1) by (auto simp: calm_def)
qed

section \<open>The handlers\<close>

definition calm_pydantic :: "pydantic \<Rightarrow> bool" where
  "calm_pydantic D \<longleftrightarrow>
     (\<forall>v. calm_sum (pd_bool D v) \<and> calm_sum (pd_int D v) \<and> calm_sum (pd_float D v))"

lemma invalid_field_exception [calm_intros]: "is_exception invalid_field"
  by (simp add: invalid_field_def)

lemma calm_sum_plain_value [calm_intros]: "calm_sum (plain_value x)"
  by (cases x) (auto intro!: calm_intros)

lemma calm_sum_check_str [calm_intros]: "calm_sum (check_str v)"
  by (cases v) (auto intro!: calm_intros)

lemma calm_sum_py_iter [calm_intros]: "calm_sum (py_iter x)"
proof (cases x)
  case (Val v)
  then show ?thesis by (cases v) (auto intro!: calm_intros)
qed (auto intro!: calm_intros)

lemma calm_sum_check_opt [calm_intros]: "(\<And>x. calm_sum (f x)) \<Longrightarrow> calm_sum (check_opt f v)"
  by (cases v) (auto intro!: calm_intros)

lemma calm_sum_checked_str [calm_intros]: "calm_sum (checked_str x)"
  unfolding checked_str_def by (intro calm_intros)

lemma calm_sum_py_plus [calm_intros]: "calm_sum (py_plus a b)"
  by (auto simp: py_plus_def intro!: calm_intros split: option.split)

lemma calm_sum_value_or [calm_intros]: "is_exception e \<Longrightarrow> calm_sum (value_or e x)"
  by (cases x) (auto intro!: calm_intros)

lemma calm_sum_to_int [calm_intros]: "calm_sum (to_int L v)"
proof (cases v)
  case (JFloat f)
  then show ?thesis by (cases f) (auto intro!: calm_intros)
qed (auto intro!: calm_intros)

lemma calm_sum_map_sdk_usage [calm_intros]: "calm_sum (map_sdk_usage L d)"
  unfolding map_sdk_usage_def Let_def by (intro calm_intros)

lemma calm_sum_check_dumpable [calm_intros]: "calm_sum (check_dumpable m)"
  by (auto simp: check_dumpable_def intro!: calm_intros split: pyobj.split)

lemma calm_sum_extract_content_blocks [calm_intros]: "calm_sum (extract_content_blocks m)"
  unfolding extract_content_blocks_def Let_def by (auto intro!: calm_intros split: option.split)

text \<open>The schemas that convert, over conversions that raise only exceptions.\<close>

lemma calm_conversions [calm_intros]:
  "calm_pydantic D \<Longrightarrow> calm_sum (pd_bool D v)"
  "calm_pydantic D \<Longrightarrow> calm_sum (pd_int D v)"
  "calm_pydantic D \<Longrightarrow> calm_sum (pd_float D v)"
  by (simp_all add: calm_pydantic_def)

lemma calm_sum_make_usage [calm_intros]: "calm_pydantic D \<Longrightarrow> calm_sum (make_usage D i out cr cc)"
  unfolding make_usage_def by (intro calm_intros)

lemma calm_sum_extract_usage [calm_intros]:
  assumes "calm_pydantic D"
  shows "calm_sum (extract_usage L D m)"
  using assms
  by (auto simp: extract_usage_def object_usage_def Let_def intro!: calm_intros split: pyobj.split json.split)

lemma calm_handle_user [calm_intros]: "calm (handle_user_message L m)"
  unfolding handle_user_message_def Let_def by (intro calm_intros)

lemma calm_handle_assistant [calm_intros]:
  "calm_pydantic D \<Longrightarrow> calm (handle_assistant_message L D m)"
  unfolding handle_assistant_message_def by (intro calm_intros)

lemma calm_sum_partial_index [calm_intros]: "calm_pydantic D \<Longrightarrow> calm_sum (partial_index D m)"
  by (auto simp: partial_index_def intro!: calm_intros split: pyobj.split json.split)

lemma calm_sum_delta_field [calm_intros]: "calm_sum (delta_field x t k)"
  by (auto simp: delta_field_def intro!: calm_intros split: pyobj.split json.split)

lemma calm_sum_delta_json [calm_intros]: "calm_sum (delta_json x)"
  unfolding delta_json_def by (intro calm_intros)

lemma calm_sum_partial_handlers [calm_intros]:
  assumes "calm_pydantic D"
  shows "calm_sum (handle_partial_start L D m)" and "calm_sum (handle_partial_delta L D m)"
    and "calm_sum (handle_partial_stop L D m)"
  unfolding handle_partial_start_def handle_partial_delta_def handle_partial_stop_def Let_def
  by (intro calm_intros assms)+

lemma calm_some_event [calm_intros]: "calm_sum r \<Longrightarrow> calm (some_event r)"
  unfolding some_event_def by (intro calm_intros)

lemma calm_handle_stream_event [calm_intros]:
  assumes "calm_pydantic D"
  shows "calm (handle_stream_event_partial L D m)"
  using assms
  by (auto simp: handle_stream_event_partial_def Let_def intro!: calm_intros split: pyobj.split json.split)

lemma calm_map_sdk_message [calm_intros]:
  assumes "calm_pydantic D"
  shows "calm (map_sdk_message L D m)"
  unfolding map_sdk_message_def Let_def by (intro calm_intros assms)

lemma calm_next_turn [calm_intros]: "calm next_turn"
proof -
  have "calm_sum (bind_sum (case x of Val v \<Rightarrow> Inr v | _ \<Rightarrow> Inl (TypeError ''+='')) (\<lambda>v. py_plus v (JInt 1)))" for x
    by (cases x) (auto intro!: calm_intros)
  then show ?thesis
    by (auto simp: calm_def calm_sum_def next_turn_def split: sum.splits)
qed

lemma calm_on_message [calm_intros]: "calm_pydantic (ae_pydantic E) \<Longrightarrow> calm (on_message E m)"
  unfolding on_message_def by (intro calm_intros)

section \<open>The environment\<close>

text \<open>
  What the SDK, the memory client, the cache and Pydantic raise are exceptions; no request is
  cancelled.
\<close>

definition calm_env :: "('c, 'd) agent_env \<Rightarrow> bool" where
  "calm_env E \<longleftrightarrow>
     calm_pydantic (ae_pydantic E) \<and> calm (ae_receive E) \<and>
     (\<forall>opts c. calm (ae_connect E opts c)) \<and> (\<forall>e. calm (ae_disconnect E e)) \<and>
     (\<forall>search p u l. ae_memory_search E = Some search \<longrightarrow> calm (search p u l)) \<and>
     (\<forall>t u m. calm (ae_memory_add E t u m)) \<and>
     (\<forall>i. calm (register (ae_tracker E) i) \<and> calm (is_interrupted (ae_tracker E) i))"

lemma calm_envD [calm_intros]:
  assumes "calm_env E"
  shows "calm_pydantic (ae_pydantic E)" and "calm (ae_receive E)" and "calm (ae_connect E options c)"
    and "calm (ae_disconnect E e)" and "ae_memory_search E = Some search \<Longrightarrow> calm (search p u l)"
    and "calm (ae_memory_add E t u m)"
    and "calm (register (ae_tracker E) i)" and "calm (is_interrupted (ae_tracker E) i)"
  using assms by (auto simp: calm_env_def)

lemma calm_memory_lines [calm_intros]: "calm_sum (memory_lines L ms)"
  by (auto simp: memory_lines_def dict_item_def intro!: calm_intros split: option.split)

lemma calm_inject_memory [calm_intros]: "calm_env E \<Longrightarrow> calm (inject_memory_context E q k)"
  by (cases "ae_memory_search E") (auto simp: inject_memory_context_def intro!: calm_intros)

lemma calm_conversation [calm_intros]: "calm_sum (conversation_text q rs)"
  unfolding conversation_text_def by (intro calm_intros) simp_all

lemma calm_extract_memory [calm_intros]: "calm_env E \<Longrightarrow> calm (extract_memory E q rs k i)"
  unfolding extract_memory_def by (intro calm_intros)

lemma calm_elapsed [calm_intros]: "calm elapsed_ms"
  unfolding elapsed_ms_def by (intro calm_intros) (simp add: calm_def monotonic_def Let_def)

lemma calm_yield [calm_intros]: "calm (yield_event e)" "calm (yield_done E reason)"
  unfolding yield_done_def yield_event_def by (intro calm_intros)+

lemma calm_stream_consumer [calm_intros]: "calm (stream_consumer E i e)"
  unfolding stream_consumer_def by (intro calm_intros calm_try_except)

lemma calm_emit_opt [calm_intros]: "(\<And>x. calm (emit x)) \<Longrightarrow> calm (emit_opt emit e)"
  unfolding emit_opt_def by (intro calm_intros)

section \<open>The stream ends\<close>

text \<open>
  An SDK that sends finitely many messages: \<open>\<mu>\<close> counts those it may still send, whatever the
  cache does meanwhile, and is at most \<open>B\<close>.
\<close>

definition finite_sdk :: "('c, 'd) agent_env \<Rightarrow> (('c, 'd) world \<Rightarrow> nat) \<Rightarrow> nat \<Rightarrow> bool" where
  "finite_sdk E \<mu> B \<longleftrightarrow>
     (\<forall>w m w'. ae_receive E w = (Inr (Some m), w') \<longrightarrow> \<mu> w' < \<mu> w) \<and>
     (\<forall>w c. \<mu> (w\<lparr>w_cache := c\<rparr>) = \<mu> w) \<and> (\<forall>w. \<mu> w \<le> B)"

lemma on_message_world: "on_message E m s = (r, s') \<Longrightarrow> qs_world s' = qs_world s"
  by (auto simp: on_message_def and_then_def in_ctx_def split: prod.splits sum.splits)

lemma stream_consumer_measure:
  assumes "finite_sdk E \<mu> B" and "emit_opt (stream_consumer E i) e s = (r, s')"
  shows "\<mu> (qs_world s') = \<mu> (qs_world s)"
proof (cases e)
  case None
  with assms(2) show ?thesis by (simp add: emit_opt_def)
next
  case (Some x)
  obtain r1 c where "is_interrupted (ae_tracker E) i (w_cache (qs_world s)) = (r1, c)"
    by (cases "is_interrupted (ae_tracker E) i (w_cache (qs_world s))")
  with assms Some show ?thesis
    by (cases r1)
       (auto simp: emit_opt_def stream_consumer_def yield_event_def in_services_def on_cache_def finite_sdk_def
          and_then_def try_except_def split: if_splits)
qed

text \<open>Where a calm step is not the one that raised.\<close>

lemma calm_thenE:
  assumes "and_then m f s = (Inl e, s')" and "calm m" and "\<not> is_exception e"
  obtains x s1 where "m s = (Inr x, s1)" and "f x s1 = (Inl e, s')"
  using assms unfolding and_then_Inl calm_def by blast

text \<open>
  A verdict may carry what the consumer raised, so it is an outcome too. \<open>settles m\<close>: what \<open>m\<close>
  raises, or says its consumer raised, is an exception.
\<close>

fun settled :: "exn + verdict \<Rightarrow> bool" where
  "settled (Inl e) = is_exception e"
| "settled (Inr (StopFailed e)) = is_exception e"
| "settled _ = True"

definition settles :: "('w, verdict) io \<Rightarrow> bool" where
  "settles m \<longleftrightarrow> (\<forall>w r w'. m w = (r, w') \<longrightarrow> settled r)"

named_theorems settles_intros \<open>coroutines whose outcome is settled\<close>

lemma settlesD: "settles m \<Longrightarrow> m w = (r, w') \<Longrightarrow> settled r"
  unfolding settles_def by blast

lemma settles_calm: "settles m \<Longrightarrow> calm m"
  by (fastforce simp: settles_def calm_def)

lemma settles_ret [settles_intros]: "settled (Inr v) \<Longrightarrow> settles (ret v)"
  by (simp add: settles_def)

lemma settles_throw [settles_intros]: "is_exception e \<Longrightarrow> settles (throw e)"
  by (simp add: settles_def)

lemma settles_and_then [settles_intros]:
  assumes "calm m" and "\<And>x. settles (f x)"
  shows "settles (and_then m f)"
  unfolding settles_def
proof (intro allI impI)
  fix w r w' assume run: "and_then m f w = (r, w')"
  obtain r1 w1 where m: "m w = (r1, w1)" by (cases "m w")
  with run assms show "settled r"
    by (cases r1) (auto dest: settlesD calmD)
qed

lemma settles_verdict:
  assumes "settles m" and "\<And>v. settled (Inr v) \<Longrightarrow> settles (f v)"
  shows "settles (and_then m f)"
  unfolding settles_def
proof (intro allI impI)
  fix w r w' assume run: "and_then m f w = (r, w')"
  obtain r1 w1 where m: "m w = (r1, w1)" by (cases "m w")
  with settlesD [OF assms(1)] have "settled r1" .
  with m run assms(2) show "settled r"
    by (cases r1) (auto dest: settlesD)
qed

lemma settles_try_except:
  assumes "settles m" and "\<And>e. is_exception e \<Longrightarrow> settles (h e)"
  shows "settles (try_except m h)"
  unfolding settles_def
proof (intro allI impI)
  fix w r w' assume run: "try_except m h w = (r, w')"
  obtain r1 w1 where m: "m w = (r1, w1)" by (cases "m w")
  with settlesD [OF assms(1)] have "settled r1" .
  with m run assms(2) show "settled r"
    by (cases r1) (auto dest: settlesD)
qed

lemma settles_if [settles_intros]: "settles m \<Longrightarrow> settles m' \<Longrightarrow> settles (if b then m else m')"
  by simp

lemma settles_consumer [settles_intros]:
  assumes "calm_env E"
  shows "settles (stream_consumer E i e)"
proof -
  let ?ask = "and_then (in_services (on_cache (is_interrupted (ae_tracker E) i)))
      (\<lambda>stop. ret (if stop then StopInterrupted else Continue)) :: (('a, 'b) query_state, verdict) io"
  have "settles ?ask"
    by (intro settles_intros calm_intros assms) simp
  then have "settles (try_except ?ask (\<lambda>e. ret (StopFailed e)))"
    by (rule settles_try_except) (intro settles_intros, simp)
  then show ?thesis
    unfolding stream_consumer_def by (intro settles_and_then calm_intros)
qed

lemma settles_emit_opt [settles_intros]: "(\<And>x. settles (emit x)) \<Longrightarrow> settles (emit_opt emit e)"
  by (cases e) (simp_all add: emit_opt_def settles_ret)

text \<open>The loop, by induction over the fuel: each turn uses a message and a unit of it.\<close>

lemma unsettled_thenE:
  assumes "and_then m f s = (r, s')" and "calm m" and "\<not> settled r"
  obtains x s1 where "m s = (Inr x, s1)" and "f x s1 = (r, s')"
proof -
  obtain r1 s1 where m: "m s = (r1, s1)" by (cases "m s")
  with assms that show thesis
    by (cases r1) (auto dest: calmD)
qed

lemma receive_loop_settled:
  assumes env: "calm_env E" and sdk: "finite_sdk E \<mu> B"
  shows "\<mu> (qs_world s) < n \<Longrightarrow> receive_loop E (stream_consumer E i) n s = (r, s') \<Longrightarrow> settled r"
proof (induction n arbitrary: s)
  case 0
  then show ?case by simp
next
  case (Suc n)
  show ?case
  proof (rule ccontr)
    assume other: "\<not> settled r"
    have receive: "calm (in_services (ae_receive E))" and message: "\<And>m. calm (on_message E m)"
      and emit: "\<And>x. settles (emit_opt (stream_consumer E i) x)"
      by (intro calm_intros settles_intros env)+
    from unsettled_thenE [OF Suc.prems(2) [unfolded receive_loop.simps] receive other] obtain y s1 where
        y: "in_services (ae_receive E) s = (Inr y, s1)" and
        next_turn: "(case y of None \<Rightarrow> ret Continue | Some m \<Rightarrow>
          and_then (on_message E m) (\<lambda>x. and_then (emit_opt (stream_consumer E i) x) (\<lambda>v.
            if v = Continue then receive_loop E (stream_consumer E i) n else ret v))) s1 = (r, s')" .
    with other obtain m where m: "y = Some m" by (cases y) auto
    from y m have "ae_receive E (qs_world s) = (Inr (Some m), qs_world s1)"
      by (auto simp: in_services_def split: prod.splits)
    with sdk have less: "\<mu> (qs_world s1) < \<mu> (qs_world s)" by (simp add: finite_sdk_def)
    from next_turn m have rest: "and_then (on_message E m) (\<lambda>x. and_then (emit_opt (stream_consumer E i) x) (\<lambda>v.
        if v = Continue then receive_loop E (stream_consumer E i) n else ret v)) s1 = (r, s')" by simp
    from unsettled_thenE [OF rest message other] obtain x s2 where
        x: "on_message E m s1 = (Inr x, s2)" and
        more: "and_then (emit_opt (stream_consumer E i) x) (\<lambda>v.
          if v = Continue then receive_loop E (stream_consumer E i) n else ret v) s2 = (r, s')" .
    from unsettled_thenE [OF more settles_calm [OF emit] other] obtain v s3 where
        v: "emit_opt (stream_consumer E i) x s2 = (Inr v, s3)" and
        turn: "(if v = Continue then receive_loop E (stream_consumer E i) n else ret v) s3 = (r, s')" .
    show False
    proof (cases "v = Continue")
      case True
      have "\<mu> (qs_world s3) = \<mu> (qs_world s1)"
        using stream_consumer_measure [OF sdk v] on_message_world [OF x] by simp
      with less Suc.prems(1) have "\<mu> (qs_world s3) < n" by simp
      from Suc.IH [OF this] turn True other show False by simp
    next
      case False
      with turn settlesD [OF emit v] other show False by auto
    qed
  qed
qed

lemma settles_receive_loop:
  assumes "calm_env E" and "finite_sdk E \<mu> B" and "B < n"
  shows "settles (receive_loop E (stream_consumer E i) n)"
proof -
  from assms(2,3) have "\<mu> (qs_world s) < n" for s :: "('a, 'b) query_state"
    by (metis finite_sdk_def le_less_trans)
  with receive_loop_settled [OF assms(1,2)] show ?thesis
    unfolding settles_def by blast
qed

text \<open>\<open>async with\<close> passes on what the body raised, or raises what closing the client raises.\<close>

lemma settles_with_client:
  assumes "calm_env E" and "settles body"
  shows "settles (with_client E options c body)"
proof -
  have close: "calm (in_services (ae_disconnect E x))" for x
    by (intro calm_intros assms)
  have "settles (try_except (and_then (in_services (ae_connect E options c)) (\<lambda>_. body))
      (\<lambda>e. and_then (in_services (ae_disconnect E (Some e))) (\<lambda>_. throw e)))"
    by (rule settles_try_except; intro settles_and_then settles_throw calm_intros assms close)
  then show ?thesis
    unfolding with_client_def
    by (rule settles_verdict) (auto intro!: settles_intros close)
qed

lemma settles_execute_query:
  assumes "calm_env E" and "finite_sdk E \<mu> B" and "B < n"
  shows "settles (execute_query E n (stream_consumer E i) q k)"
proof -
  have memory: "settles (and_then (reads qs_responses) (\<lambda>responses.
      and_then (reads (sc_session_id \<circ> qs_ctx)) (\<lambda>session_id.
      and_then (in_services (extract_memory E q' responses k session_id)) (\<lambda>e.
      emit_opt (stream_consumer E i) e))))" for q'
    by (intro settles_intros calm_intros assms(1))
  have "settles (execute_with_sdk_client E n (stream_consumer E i) q k)"
    unfolding execute_with_sdk_client_def
    by (intro settles_and_then calm_intros assms(1)
          settles_verdict [OF settles_with_client [OF assms(1) settles_receive_loop [OF assms]]])
       (auto intro!: settles_ret memory)
  then show ?thesis
    unfolding execute_query_def handle_sdk_error_def agent_error_def
    by (rule settles_try_except) (auto intro!: settles_intros calm_intros)
qed

section \<open>Closing\<close>

lemma calm_sum_plain_items [calm_intros]: "calm_sum (plain_items d k)"
  by (auto simp: plain_items_def intro!: calm_intros split: option.split)

lemma calm_sum_context_usage [calm_intros]: "calm_pydantic D \<Longrightarrow> calm_sum (context_usage D d)"
  unfolding context_usage_def by (intro calm_intros)

lemma calm_sum_model_usages [calm_intros]: "calm_pydantic D \<Longrightarrow> calm_sum (model_usages D d t)"
  by (induction D d t rule: model_usages.induct) (auto simp: Let_def intro!: calm_intros)

lemma calm_yield_result [calm_intros]:
  assumes "calm_pydantic (ae_pydantic E)"
  shows "calm (yield_result E)"
  unfolding yield_result_def build_result_event_def result_data_def result_usage_def
  by (intro calm_intros assms)

lemma calm_stream_body:
  assumes "calm_env E" and "finite_sdk E \<mu> B" and "B < n"
  shows "calm (stream_body E n q i k)"
  unfolding calm_def
proof (intro allI impI, rule ccontr)
  fix s e s' assume run: "stream_body E n q i k s = (Inl e, s')" and other: "\<not> is_exception e"
  have register: "calm (in_services (on_cache (register (ae_tracker E) i)))"
    by (intro calm_intros assms(1))
  note execute = settles_execute_query [OF assms, of i q k]
  from calm_thenE [OF run [unfolded stream_body_def] register other] obtain s1 where
    rest: "and_then (execute_query E n (stream_consumer E i) q k) (\<lambda>v. case v of
       StopFailed e \<Rightarrow> throw e
     | StopInterrupted \<Rightarrow> and_then (yield_result E) (\<lambda>_. yield_done E ''interrupted'')
     | Continue \<Rightarrow>
         and_then (yield_result E) (\<lambda>_.
         and_then (reads (\<lambda>s. py_true (sc_is_error (qs_ctx s)))) (\<lambda>is_error.
         yield_done E (if is_error then ''error'' else ''completed'')))) s1 = (Inl e, s')" .
  from calm_thenE [OF rest settles_calm [OF execute] other] obtain v s2 where
    v: "execute_query E n (stream_consumer E i) q k s1 = (Inr v, s2)" and
    closing: "(case v of
       StopFailed e \<Rightarrow> throw e
     | StopInterrupted \<Rightarrow> and_then (yield_result E) (\<lambda>_. yield_done E ''interrupted'')
     | Continue \<Rightarrow>
         and_then (yield_result E) (\<lambda>_.
         and_then (reads (\<lambda>s. py_true (sc_is_error (qs_ctx s)))) (\<lambda>is_error.
         yield_done E (if is_error then ''error'' else ''completed'')))) s2 = (Inl e, s')" .
  have "calm (case v of
       StopFailed e \<Rightarrow> throw e
     | StopInterrupted \<Rightarrow> and_then (yield_result E) (\<lambda>_. yield_done E ''interrupted'')
     | Continue \<Rightarrow>
         and_then (yield_result E) (\<lambda>_.
         and_then (reads (\<lambda>s. py_true (sc_is_error (qs_ctx s)))) (\<lambda>is_error.
         yield_done E (if is_error then ''error'' else ''completed''))))"
    using settlesD [OF execute v] assms(1) by (cases v) (auto intro!: calm_intros)
  with closing other show False by (auto simp: calm_def)
qed

text \<open>
  A run with an identifier: the body under its handler, which returns, and then the marker is
  taken away.
\<close>

lemma start_query_returns: "\<exists>s'. start_query q i s = (Inr (), s') \<and> sc_session_id (qs_ctx s') = i"
  by (auto simp: start_query_def new_context_def and_then_def in_services_def monotonic_def modify_def Let_def)

lemma guarded_body_returns:
  assumes "calm_env E" and "finite_sdk E \<mu> B" and "B < n"
  shows "\<exists>s'. try_except (stream_body E n q i k)
    (\<lambda>e. if is_exception e then stream_failure E else throw e) s = (Inr (), s')"
proof -
  obtain r s1 where b: "stream_body E n q i k s = (r, s1)" by (cases "stream_body E n q i k s")
  with calmD [OF calm_stream_body [OF assms]] show ?thesis
    by (cases r) (auto simp: stream_failure_run)
qed

lemma unregister_returns:
  assumes "st_cache T = Some C" and "\<And>k c e c'. c_delete C k c \<noteq> (Inl e, c')"
  shows "\<exists>s'. in_services (on_cache (unregister T i)) s = (Inr (), s') \<and>
    unregister T i (w_cache (qs_world s)) = (Inr (), w_cache (qs_world s'))"
proof -
  obtain r c where d: "c_delete C (active_key i) (w_cache (qs_world s)) = (r, c)"
    by (cases "c_delete C (active_key i) (w_cache (qs_world s))")
  with assms(2) obtain b where "r = Inr b" by (cases r) auto
  with d assms(1) show ?thesis
    by (auto simp: in_services_def on_cache_def unregister_def with_tracker_cache_def and_then_def ret_def)
qed

lemma unregister_unmarked:
  assumes "cache_contract L C ent ages matches" and "unregister T i c = (Inr (), c')"
    and "st_cache T = Some C"
  shows "i \<notin> marked active_key (ent c')"
proof -
  from assms(2,3) obtain b where "c_delete C (active_key i) c = (Inr b, c')"
    by (auto simp: unregister_def with_tracker_cache_def and_then_Inr)
  from cache_contract.delete_law [OF assms(1) this] show ?thesis
    by (auto simp: marked_def)
qed

lemma run_stream_returns:
  assumes env: "calm_env E" and sdk: "finite_sdk E \<mu> B" and fuel: "B < n" and i: "i \<noteq> []"
    and cache: "st_cache (ae_tracker E) = Some C" "cache_contract L C ent ages matches"
    and delete: "\<And>k c e c'. c_delete C k c \<noteq> (Inl e, c')"
  shows "\<exists>s'. run_stream E n q (Some i) api_key s = (Inr (), s') \<and>
    i \<notin> marked active_key (ent (w_cache (qs_world s')))"
proof -
  obtain s1 where start: "start_query q i s = (Inr (), s1)"
    using start_query_returns by blast
  obtain s2 where body: "try_except (stream_body E n q i api_key)
      (\<lambda>e. if is_exception e then stream_failure E else throw e) s1 = (Inr (), s2)"
    using guarded_body_returns [OF env sdk fuel] by blast
  obtain s3 where last: "in_services (on_cache (unregister (ae_tracker E) i)) s2 = (Inr (), s3)"
    and mark: "unregister (ae_tracker E) i (w_cache (qs_world s2)) = (Inr (), w_cache (qs_world s3))"
    using unregister_returns [OF cache(1) delete] by blast
  have "run_stream E n q (Some i) api_key s = (Inr (), s3)"
    using i start body last
    by (simp add: run_stream_def session_id_or_new_def try_finally_def)
  with unregister_unmarked [OF cache(2) mark cache(1)] show ?thesis by blast
qed

text \<open>
  C13: With an SDK that sends a bounded number of messages, a cache whose deletions go
  through and no cancellation, run_stream returns whatever exceptions the SDK, the handlers,
  the memory client, the cache or the schemas raise on the way, its events are a closed
  stream, and the session is left without its marker.
\<close>

theorem stream_completes:
  assumes "calm_env E" and "finite_sdk E \<mu> B" and "B < n" and "i \<noteq> []"
    and "st_cache (ae_tracker E) = Some C" and "cache_contract L C ent ages matches"
    and "\<And>k c e c'. c_delete C k c \<noteq> (Inl e, c')"
  shows "\<exists>s'. run_stream E n q (Some i) api_key s = (Inr (), s') \<and>
    closed_stream (ae_lib E) (qs_events s') \<and>
    i \<notin> marked active_key (ent (w_cache (qs_world s')))"
proof -
  obtain s' where "run_stream E n q (Some i) api_key s = (Inr (), s')"
    and "i \<notin> marked active_key (ent (w_cache (qs_world s')))"
    using run_stream_returns [OF assms] by blast
  then show ?thesis
    using run_stream_closed by blast
qed

text \<open>
  A stream that returns sent first only message, question, partial and error events,
  then one result event, or one error event where something failed, and last one done event,
  whose reason is error after an error event; nothing follows it.
\<close>

theorem run_stream_closes:
  assumes "run_stream E n q session_id api_key s = (Inr u, s')"
  shows "closed_stream (ae_lib E) (qs_events s')"
  by (rule run_stream_closed [OF assms])

section \<open>A concrete run\<close>

text \<open>An SDK with one message to send, and a service without memory.\<close>

definition quiet_env :: "(server redis_world, bool) agent_env" where
  "quiet_env =
     \<lparr>ae_lib = ref_lib,
      ae_pydantic = \<lparr>pd_bool = (\<lambda>v. Inr (truthy v)), pd_int = (\<lambda>v. Inr 0), pd_float = (\<lambda>v. Inr (Finite 0 0))\<rparr>,
      ae_tracker = \<lparr>st_cache = Some (ref_cache 0), st_session_ttl = 3600, st_interrupt_ttl = 300\<rparr>,
      ae_connect = (\<lambda>options c. ret ()),
      ae_receive = on_db (\<lambda>b. (Inr (if b then Some (Obj ''SystemMessage'' []) else None), False)),
      ae_disconnect = (\<lambda>e. ret ()), ae_sdk_error = (\<lambda>e. NoSDKError), ae_memory_search = None,
      ae_memory_add = (\<lambda>t u m. ret ()), ae_error_text = (\<lambda>e. [])\<rparr>"

lemma quiet_env_finite: "finite_sdk quiet_env (\<lambda>w. of_bool (w_db w)) 1"
  by (auto simp: finite_sdk_def quiet_env_def on_db_def split: if_splits)

lemma calm_ref_cache:
  "calm (c_cache_set (ref_cache 0) k v (Some t))" "calm (c_exists (ref_cache 0) k)"
  by (auto simp: calm_def ref_cache_def redis_cache_def rc_cache_set_def rc_exists_def and_then_Inl on_server_run
      ref_redis_def command_def sv_setex_def sv_exists_def deadline_def split: if_splits prod.splits)

lemma calm_on_db: "(\<And>d e d'. m d \<noteq> (Inl e, d')) \<Longrightarrow> calm (on_db m)"
  by (auto simp: calm_def on_db_run)

lemma quiet_env_calm: "calm_env quiet_env"
  by (auto simp: calm_env_def quiet_env_def calm_pydantic_def register_def is_interrupted_def with_tracker_cache_def
      intro!: calm_intros calm_ref_cache calm_on_db)

definition quiet_state :: "(server redis_world, bool) query_state" where
  "quiet_state =
     \<lparr>qs_world = ref_world True, qs_ctx = new_context [] [] 0 False False, qs_responses = [], qs_events = [],
      qs_aggregator = \<lparr>ag_content_blocks = [], ag_usage_data = None, ag_is_error = False\<rparr>\<rparr>"

theorem stream_completes_witness:
  "\<exists>s'. run_stream quiet_env 2 (plain_request ''hello'') (Some ''s1'') ''key'' quiet_state = (Inr (), s') \<and>
     closed_stream ref_lib (qs_events s') \<and> ''s1'' \<notin> marked active_key (ref_ent (w_cache (qs_world s')))"
proof -
  have "st_cache (ae_tracker quiet_env) = Some (ref_cache 0)" and "ae_lib quiet_env = ref_lib"
    by (simp_all add: quiet_env_def)
  with stream_completes [OF quiet_env_calm quiet_env_finite, of 2 "''s1''" "ref_cache 0"]
    ref_contract [of 0] ref_delete_fails
  show ?thesis by auto
qed

theorem run_stream_closes_witness:
  "\<exists>s'. run_stream quiet_env 2 (plain_request ''hello'') (Some ''s1'') ''key'' quiet_state = (Inr (), s') \<and>
     closed_stream ref_lib (qs_events s')"
proof -
  have E: "st_cache (ae_tracker quiet_env) = Some (ref_cache 0)" "ae_lib quiet_env = ref_lib"
    by (simp_all add: quiet_env_def)
  with run_stream_returns [OF quiet_env_calm quiet_env_finite, of 2 "''s1''" "ref_cache 0"]
    ref_contract [of 0] ref_delete_fails
  obtain s' where "run_stream quiet_env 2 (plain_request ''hello'') (Some ''s1'') ''key'' quiet_state = (Inr (), s')"
    by fastforce
  from run_stream_closes [OF this] this E(2) show ?thesis by auto
qed

end
