(* ===== verification/AnswerProperties.thy ===== *)
theory AnswerProperties
  imports AgentTermination
begin

text \<open>
  The single response: the events of a query, read by the aggregator, give back the blocks of
  the assistant's messages and the sum of their usages, and the response schema accepts them.
\<close>

section \<open>Blocks and usages as JSON\<close>

definition good_block :: "content_block \<Rightarrow> bool" where
  "good_block b \<longleftrightarrow>
     cb_type b \<in> set block_types \<and>
     (case cb_input b of None \<Rightarrow> True | Some d \<Rightarrow> wf_dict d) \<and>
     (case cb_content b of Some (Inr xs) \<Rightarrow> list_all wf_json xs | _ \<Rightarrow> True)"

lemma wf_block_json: "good_block b \<Longrightarrow> wf_json (block_json b)"
  by (auto simp: good_block_def block_json_def block_content_json_def intro!: wf_json_of_opt
      split: sum.splits option.splits)

lemma validate_block_json:
  assumes "pydantic_laws D" and "cb_type b \<in> set block_types"
  shows "validate_block D (block_json b) = Inr b"
proof -
  have texts: "check_opt check_str (json_of_opt JStr x) = Inr x" for x
    by (cases x) simp_all
  have dict: "check_opt check_dict (json_of_opt JObj x) = Inr x" for x
    by (cases x) simp_all
  have content: "check_opt check_block_content (json_of_opt block_content_json x) = Inr x" for x
    by (cases x) (auto simp: check_block_content_def block_content_json_def split: sum.splits)
  have truth: "check_opt (pd_bool D) (json_of_opt JBool x) = Inr x" for x
    using assms(1) by (cases x) (simp_all add: pydantic_laws_def)
  show ?thesis
    using assms(2)
    by (simp add: validate_block_def block_json_def dict_get_or_def texts dict content truth)
qed

definition usage_plus :: "usage \<Rightarrow> usage \<Rightarrow> usage" where
  "usage_plus u v =
     \<lparr>us_input_tokens = us_input_tokens u + us_input_tokens v,
      us_output_tokens = us_output_tokens u + us_output_tokens v,
      us_cache_read_input_tokens = us_cache_read_input_tokens u + us_cache_read_input_tokens v,
      us_cache_creation_input_tokens = us_cache_creation_input_tokens u + us_cache_creation_input_tokens v\<rparr>"

fun usage_sum :: "usage option \<Rightarrow> usage option \<Rightarrow> usage option" where
  "usage_sum None v = v"
| "usage_sum u None = u"
| "usage_sum (Some u) (Some v) = Some (usage_plus u v)"

lemma accumulate_usage_json:
  "accumulate_usage (json_of_opt usage_json v) (map_option usage_json u) = Inr (map_option usage_json (usage_sum u v))"
  by (cases u; cases v)
     (simp_all add: accumulate_usage_def usage_json_def usage_plus_def py_plus_def dict_get_or_def dict_set_def)

lemma validate_usage_json:
  "pydantic_laws D \<Longrightarrow> validate_usage D (Val (usage_json u)) = Inr u"
  by (simp add: validate_usage_def usage_field_def usage_json_def make_usage_def pydantic_laws_def)

section \<open>Reading the events\<close>

text \<open>The consumer of a single query, event by event.\<close>

fun collect :: "pylib \<Rightarrow> agent_event list \<Rightarrow> (aggregator, unit) io" where
  "collect L [] = ret ()"
| "collect L (e # es) = and_then (handle_event L e) (\<lambda>_. collect L es)"

definition new_aggregator :: aggregator where
  "new_aggregator = \<lparr>ag_content_blocks = [], ag_usage_data = None, ag_is_error = False\<rparr>"

lemma handle_assistant_event:
  assumes "pylib_laws L" and "list_all good_block bs" and "ag_usage_data a = map_option usage_json u"
  shows "handle_event L (message_event L ''assistant'' bs model uuid v) a =
    (Inr (), a\<lparr>ag_content_blocks := ag_content_blocks a @ map block_json bs,
               ag_usage_data := map_option usage_json (usage_sum u v)\<rparr>)"
proof -
  let ?j = "JObj [(''type'', JStr ''assistant''), (''content'', JArr (map block_json bs)),
        (''model'', json_of_opt JStr model), (''uuid'', json_of_opt JStr uuid),
        (''usage'', json_of_opt usage_json v), (''parent_tool_use_id'', JNull)]"
  have "wf_json ?j"
    using assms(2) by (auto simp: list_all_iff usage_json_def intro!: wf_json_of_opt wf_block_json)
  with assms(1) have "json_loads L (json_dumps L ?j) = Some ?j"
    by (rule pylib_laws.loads_dumps)
  then show ?thesis
    using assms(3)
    by (simp add: handle_event_def message_event_def format_sse_def handle_message_data_def json_get_def
        dict_get_or_def and_then_def lift_sum_def accumulate_usage_json)
qed

lemma collect_messages:
  assumes "pylib_laws L" and "\<forall>(bs, u) \<in> set ms. list_all good_block bs"
    and "ag_usage_data a = map_option usage_json v"
  shows "collect L (map (\<lambda>(bs, u). message_event L ''assistant'' bs model None u) ms) a =
    (Inr (), a\<lparr>ag_content_blocks := ag_content_blocks a @ map block_json (concat (map fst ms)),
               ag_usage_data := map_option usage_json (foldl usage_sum v (map snd ms))\<rparr>)"
  using assms(2,3)
proof (induction ms arbitrary: a v)
  case Nil
  then show ?case by simp
next
  case (Cons m ms)
  obtain bs u where m: "m = (bs, u)" by (cases m)
  with Cons.prems have "handle_event L (message_event L ''assistant'' bs model None u) a =
    (Inr (), a\<lparr>ag_content_blocks := ag_content_blocks a @ map block_json bs,
               ag_usage_data := map_option usage_json (usage_sum v u)\<rparr>)"
    by (intro handle_assistant_event [OF assms(1)]) auto
  with m Cons.prems Cons.IH show ?case
    by (simp add: and_then_def)
qed

lemma map_validate_blocks:
  assumes "pydantic_laws D" and "list_all good_block bs"
  shows "map_sum_list (validate_block D) (map block_json bs) = Inr bs"
  using assms(2) by (induction bs) (auto simp: validate_block_json [OF assms(1)] good_block_def)

text \<open>The message with which the SDK ends a query; each of the last four may be missing.\<close>

definition result_message ::
  "bool \<Rightarrow> int \<Rightarrow> pyfloat option \<Rightarrow> string option \<Rightarrow> usage option \<Rightarrow> json dict option \<Rightarrow> pyobj" where
  "result_message err turns cost result u out =
     Obj ''ResultMessage''
       [(''is_error'', Val (JBool err)), (''num_turns'', Val (JInt turns)),
        (''total_cost_usd'', Val (json_of_opt JFloat cost)), (''result'', Val (json_of_opt JStr result)),
        (''usage'', Val (json_of_opt usage_json u)), (''structured_output'', Val (json_of_opt JObj out))]"

lemma result_message_context:
  assumes "sc_usage ctx0 = None" and "sc_structured_output ctx0 = None"
  shows "\<exists>ctx. map_sdk_message L D (result_message err turns cost result u out) ctx0 = (Inr None, ctx) \<and>
    sc_is_error ctx = Val (JBool err) \<and> sc_num_turns ctx = Val (JInt turns) \<and>
    sc_total_cost_usd ctx = Val (json_of_opt JFloat cost) \<and> sc_result_text ctx = Val (json_of_opt JStr result) \<and>
    sc_usage ctx = map_option (\<lambda>u. map (\<lambda>(k, v). (k, Val v)) (case usage_json u of JObj d \<Rightarrow> d)) u \<and>
    sc_structured_output ctx = out"
  using assms
  by (cases u; cases out)
     (simp_all add: map_sdk_message_def result_message_def handle_result_message_def getattr_or_def
        and_then_def modify_def usage_json_def)

lemma validate_result_usage:
  "pydantic_laws D \<Longrightarrow>
     validate_usage D (usage_object (map (\<lambda>(k, v). (k, Val v)) (case usage_json u of JObj d \<Rightarrow> d))) = Inr u"
  by (simp add: validate_usage_def usage_field_def usage_object_def usage_json_def make_usage_def pydantic_laws_def)

text \<open>
  C14: The events of an assistant's messages and the ResultMessage that ends the query give,
  through the aggregator and the stream context, a response that the schema accepts: its
  content is all blocks of the messages in order, as they were before they were written as
  JSON; error flag, number of turns, cost, result text and structured output are those of
  the ResultMessage; the usage is that of the ResultMessage when it has one (as a
  dictionary), and otherwise the sum of the messages' usages. The blocks have one of the
  schema's types and JSON values, and no other ResultMessage came before.
\<close>

theorem answer_collected:
  assumes "pylib_laws L" and "pydantic_laws D" and "\<forall>(bs, u) \<in> set ms. list_all good_block bs"
    and "sc_usage ctx0 = None" and "sc_structured_output ctx0 = None"
  shows "\<exists>a ctx.
    collect L (map (\<lambda>(bs, u). message_event L ''assistant'' bs model None u) ms) new_aggregator = (Inr (), a) \<and>
    map_sdk_message L D (result_message err turns cost result u out) ctx0 = (Inr None, ctx) \<and>
    validate_response D (finalize a session_id name_of_model ctx duration_ms) =
      Inr \<lparr>sr_session_id = session_id, sr_model = name_of_model, sr_content = concat (map fst ms),
           sr_is_error = err, sr_is_complete = True, sr_stop_reason = None, sr_duration_ms = duration_ms,
           sr_num_turns = turns, sr_total_cost_usd = cost,
           sr_usage = (case u of Some v \<Rightarrow> Some v | None \<Rightarrow> foldl usage_sum None (map snd ms)),
           sr_result = result, sr_structured_output = out\<rparr>"
proof -
  let ?u = "foldl usage_sum None (map snd ms)"
  let ?a = "new_aggregator\<lparr>ag_content_blocks := map block_json (concat (map fst ms)),
               ag_usage_data := map_option usage_json ?u\<rparr>"
  have collected: "collect L (map (\<lambda>(bs, u). message_event L ''assistant'' bs model None u) ms) new_aggregator = (Inr (), ?a)"
    using collect_messages [OF assms(1,3), of new_aggregator None] by (simp add: new_aggregator_def)
  from result_message_context [OF assms(4,5), of L D err turns cost result u out] obtain ctx where
    mapped: "map_sdk_message L D (result_message err turns cost result u out) ctx0 = (Inr None, ctx)"
    and ctx: "sc_is_error ctx = Val (JBool err)" "sc_num_turns ctx = Val (JInt turns)"
      "sc_total_cost_usd ctx = Val (json_of_opt JFloat cost)" "sc_result_text ctx = Val (json_of_opt JStr result)"
      "sc_structured_output ctx = out"
    and usage_ctx: "sc_usage ctx = map_option (\<lambda>u. map (\<lambda>(k, v). (k, Val v)) (case usage_json u of JObj d \<Rightarrow> d)) u"
    by blast
  have "list_all good_block (concat (map fst ms))"
    using assms(3) by (auto simp: list_all_iff)
  then have blocks: "map_sum_list (validate_block D) (map block_json (concat (map fst ms))) = Inr (concat (map fst ms))"
    by (rule map_validate_blocks [OF assms(2)])
  have usage: "(case qp_usage (finalize ?a session_id name_of_model ctx duration_ms) of None \<Rightarrow> Inr None
       | Some x \<Rightarrow> bind_sum (validate_usage D x) (\<lambda>u. Inr (Some u))) =
      Inr (case u of Some v \<Rightarrow> Some v | None \<Rightarrow> ?u)"
  proof (cases u)
    case None
    with usage_ctx show ?thesis
      by (cases ?u) (simp_all add: finalize_def validate_usage_json [OF assms(2)])
  next
    case (Some v)
    then obtain x d where d: "map (\<lambda>(k, v). (k, Val v)) (case usage_json v of JObj d \<Rightarrow> d) = x # d"
      by (simp add: usage_json_def)
    with Some usage_ctx validate_result_usage [OF assms(2), of v] show ?thesis
      by (simp add: finalize_def)
  qed
  have cost: "check_opt (pd_float D) (json_of_opt JFloat cost) = Inr cost" and
    result: "check_opt check_str (json_of_opt JStr result) = Inr result"
    using assms(2) by (cases cost; cases result; simp add: pydantic_laws_def)+
  have "validate_response D (finalize ?a session_id name_of_model ctx duration_ms) =
      Inr \<lparr>sr_session_id = session_id, sr_model = name_of_model, sr_content = concat (map fst ms),
           sr_is_error = err, sr_is_complete = True, sr_stop_reason = None, sr_duration_ms = duration_ms,
           sr_num_turns = turns, sr_total_cost_usd = cost,
           sr_usage = (case u of Some v \<Rightarrow> Some v | None \<Rightarrow> ?u), sr_result = result,
           sr_structured_output = out\<rparr>"
    using assms(2) ctx blocks usage cost result
    by (simp add: validate_response_def) (simp add: finalize_def new_aggregator_def pydantic_laws_def checked_str_def)
  with collected mapped show ?thesis by blast
qed

text \<open>Two messages of an assistant: a text with a usage, and a call with another.\<close>

definition ref_pydantic :: pydantic where
  "ref_pydantic =
     \<lparr>pd_bool = (\<lambda>v. case v of JBool b \<Rightarrow> Inr b | _ \<Rightarrow> Inl invalid_field),
      pd_int = (\<lambda>v. case v of JInt i \<Rightarrow> Inr i | _ \<Rightarrow> Inl invalid_field),
      pd_float = (\<lambda>v. case v of JFloat f \<Rightarrow> Inr f | _ \<Rightarrow> Inl invalid_field)\<rparr>"

lemma ref_pydantic_laws: "pydantic_laws ref_pydantic"
  by (simp add: pydantic_laws_def ref_pydantic_def)

definition said :: "string \<Rightarrow> content_block" where
  "said t = (empty_block ''text'')\<lparr>cb_text := Some t\<rparr>"

definition called :: "string \<Rightarrow> content_block" where
  "called name =
     (empty_block ''tool_use'')\<lparr>cb_id := Some ''t1'', cb_name := Some name,
        cb_input := Some [(''file_path'', JStr ''a.py'')]\<rparr>"

definition counts :: "int \<Rightarrow> int \<Rightarrow> usage" where
  "counts i j =
     \<lparr>us_input_tokens = i, us_output_tokens = j, us_cache_read_input_tokens = 0,
      us_cache_creation_input_tokens = 0\<rparr>"

lemma answer_collected_witness:
  "\<exists>a ctx. collect ref_lib
        [message_event ref_lib ''assistant'' [said ''done''] None None (Some (counts 3 4)),
         message_event ref_lib ''assistant'' [called ''Edit''] None None (Some (counts 5 6))]
        new_aggregator = (Inr (), a) \<and>
     map_sdk_message ref_lib ref_pydantic (result_message False 2 None (Some ''done'') None None)
       (new_context ''s1'' ''sonnet'' 0 False False) = (Inr None, ctx) \<and>
     validate_response ref_pydantic (finalize a ''s1'' ''sonnet'' ctx 12) =
      Inr \<lparr>sr_session_id = ''s1'', sr_model = ''sonnet'', sr_content = [said ''done'', called ''Edit''],
           sr_is_error = False, sr_is_complete = True, sr_stop_reason = None, sr_duration_ms = 12,
           sr_num_turns = 2, sr_total_cost_usd = None, sr_usage = Some (counts 8 10), sr_result = Some ''done'',
           sr_structured_output = None\<rparr>"
proof -
  have "\<forall>(bs, u) \<in> set [([said ''done''], Some (counts 3 4)), ([called ''Edit''], Some (counts 5 6))].
      list_all good_block bs"
    by (simp add: good_block_def said_def called_def empty_block_def block_types_def)
  from answer_collected [OF ref_lib.pylib_laws_axioms ref_pydantic_laws this,
      of "new_context ''s1'' ''sonnet'' 0 False False" None False 2 None "Some ''done''" None None "''s1''" "''sonnet''" 12]
  show ?thesis
    by (simp add: new_context_def counts_def usage_plus_def)
qed

section \<open>What the OpenAI answer can say\<close>

text \<open>
  The single response has no stop reason, so its finish reason never is \<open>error\<close> or \<open>length\<close>,
  also when the query failed.
\<close>

lemma finish_reason_never_error:
  assumes "validate_response D p = Inr r"
  shows "map_stop_reason (sr_stop_reason r) calls \<in> {''stop'', ''tool_calls''}"
proof -
  from assms have "sr_stop_reason r = None"
    by (auto simp: validate_response_def bind_sum_Inr)
  then show ?thesis by (simp add: map_stop_reason_def)
qed

section \<open>The files of a query\<close>

text \<open>Each file that a \<open>Write\<close> or \<open>Edit\<close> names is recorded once.\<close>

lemma set_add_files:
  "set (add_files bs files) = set files \<union> {p. \<exists>b \<in> set bs. modified_file b = Some p}"
  by (induction bs arbitrary: files) (auto split: option.split)

lemma distinct_add_files: "distinct files \<Longrightarrow> distinct (add_files bs files)"
  by (induction bs arbitrary: files) (auto split: option.split)

lemma modified_file_iff:
  "modified_file b = Some p \<longleftrightarrow>
     cb_type b = ''tool_use'' \<and> (cb_name b = Some ''Write'' \<or> cb_name b = Some ''Edit'') \<and> p \<noteq> [] \<and>
     (\<exists>d. cb_input b = Some d \<and> dict_get d ''file_path'' = Some (JStr p))"
  by (auto simp: modified_file_def split: option.splits json.splits)

end
