(* ===== verification/Enrichment.thy ===== *)
theory Enrichment
  imports McpServers
begin

text \<open>
  \<open>McpDiscoveryService\<close> (\<open>services/mcp_discovery.py\<close>) reads MCP servers from the user's and the
  project's configuration files, and \<open>QueryEnrichmentService\<close> (\<open>services/query_enrichment.py\<close>)
  puts them into a query before the injector of \<open>McpServers\<close> sees it.

  What reading a file gives is a \<open>config_file\<close>. The three files are an argument.
\<close>

section \<open>Discovery\<close>

record mcp_server_info = mcp_server +
  mf_name :: string

record server_files =
  sf_global :: config_file \<comment> \<open>\<open>~/.claude.json\<close>\<close>
  sf_project :: config_file \<comment> \<open>\<open>.mcp.json\<close>\<close>
  sf_claude :: config_file \<comment> \<open>\<open>.claude/mcp.json\<close>\<close>

definition server_type :: "pylib \<Rightarrow> json dict \<Rightarrow> transport" where
  "server_type L config =
     (let raw = dict_get_or config ''type'' (JStr ''stdio'');
          t = (if truthy raw then py_str L raw else ''stdio'')
      in if t = ''sse'' then Sse else if t = ''http'' then Http else Stdio)"

text \<open>\<open>[str(a) for a in raw] if isinstance(raw, list) else []\<close>\<close>

definition list_texts :: "pylib \<Rightarrow> json \<Rightarrow> string list" where
  "list_texts L raw = (case raw of JArr xs \<Rightarrow> map (py_str L) xs | _ \<Rightarrow> [])"

definition dict_texts :: "pylib \<Rightarrow> json \<Rightarrow> string dict" where
  "dict_texts L raw = (case raw of JObj d \<Rightarrow> map (\<lambda>(k, v). (k, py_str L v)) d | _ \<Rightarrow> [])"

definition parse_server :: "pylib \<Rightarrow> string \<Rightarrow> json dict \<Rightarrow> mcp_server_info" where
  "parse_server L name config =
     \<lparr>ms_command = truthy_str L (dict_get config ''command''),
      ms_args = list_texts L (dict_get_or config ''args'' (JArr [])),
      ms_type = server_type L config,
      ms_url = truthy_str L (dict_get config ''url''),
      ms_headers = dict_texts L (dict_get_or config ''headers'' (JObj [])),
      ms_env = dict_texts L (dict_get_or config ''env'' (JObj [])),
      mf_name = name\<rparr>"

text \<open>What is no object is skipped; \<open>items()\<close> of what is no dictionary raises.\<close>

fun parse_servers :: "pylib \<Rightarrow> json \<Rightarrow> exn + mcp_server_info dict" where
  "parse_servers L (JObj raw_servers) =
     Inr (fold (\<lambda>(name, raw_config) servers.
       case raw_config of JObj config \<Rightarrow> dict_set name (parse_server L name config) servers | _ \<Rightarrow> servers)
       raw_servers [])"
| "parse_servers L _ = Inl (AttributeError ''items'')"

text \<open>
  Both readers: a missing file, one that cannot be read and text that is no JSON give no servers;
  bytes that are no text and JSON that is no object raise. The user's file must have the key
  \<open>mcpServers\<close>, a project file may be the dictionary of servers itself.
\<close>

definition read_servers ::
  "pylib \<Rightarrow> (json dict \<Rightarrow> json) \<Rightarrow> config_file \<Rightarrow> exn + mcp_server_info dict" where
  "read_servers L servers_in f =
     (case f of
        FileText content \<Rightarrow>
          (case json_loads L content of
             None \<Rightarrow> Inr []
           | Some (JObj config) \<Rightarrow> parse_servers L (servers_in config)
           | Some _ \<Rightarrow> Inl (AttributeError ''get''))
      | NoText m \<Rightarrow> Inl (ValueError m)
      | _ \<Rightarrow> Inr [])"

definition load_global_config :: "pylib \<Rightarrow> config_file \<Rightarrow> exn + mcp_server_info dict" where
  "load_global_config L = read_servers L (\<lambda>config. dict_get_or config ''mcpServers'' (JObj []))"

definition load_mcp_json :: "pylib \<Rightarrow> config_file \<Rightarrow> exn + mcp_server_info dict" where
  "load_mcp_json L = read_servers L (\<lambda>config. dict_get_or config ''mcpServers'' (JObj config))"

definition load_project_config :: "pylib \<Rightarrow> server_files \<Rightarrow> exn + mcp_server_info dict" where
  "load_project_config L fs =
     bind_sum (load_mcp_json L (sf_project fs)) (\<lambda>project_servers.
     bind_sum (load_mcp_json L (sf_claude fs)) (\<lambda>claude_servers.
     Inr (dict_update (dict_update [] project_servers) claude_servers)))"

definition discover_servers :: "pylib \<Rightarrow> server_files \<Rightarrow> exn + mcp_server_info dict" where
  "discover_servers L fs =
     bind_sum (load_global_config L (sf_global fs)) (\<lambda>global_servers.
     bind_sum (load_project_config L fs) (\<lambda>project_servers.
     Inr (dict_update (dict_update [] global_servers) project_servers)))"

definition get_enabled_servers :: "pylib \<Rightarrow> server_files \<Rightarrow> string list \<Rightarrow> exn + mcp_server_info dict" where
  "get_enabled_servers L fs disabled_servers =
     bind_sum (discover_servers L fs) (\<lambda>servers.
     Inr (filter (\<lambda>(name, _). name \<notin> set disabled_servers) servers))"

section \<open>Enrichment\<close>

record enrichment =
  en_lib :: pylib
  en_net :: net_lib
  en_files :: server_files
  en_disabled :: "string list"

definition convert_mcp_info_to_schema :: "net_lib \<Rightarrow> mcp_server_info \<Rightarrow> mcp_server option" where
  "convert_mcp_info_to_schema N info =
     (case check_mcp_server N (mcp_server.truncate info) of Inl _ \<Rightarrow> None | Inr m \<Rightarrow> Some m)"

definition converted_servers :: "net_lib \<Rightarrow> mcp_server_info dict \<Rightarrow> mcp_server dict" where
  "converted_servers N servers =
     fold (\<lambda>(name, server) result.
       case convert_mcp_info_to_schema N server of None \<Rightarrow> result | Some m \<Rightarrow> dict_set name m result)
       servers []"

text \<open>Any exception of the discovery gives no servers at all.\<close>

definition load_mcp_servers :: "enrichment \<Rightarrow> mcp_server dict" where
  "load_mcp_servers En =
     (case get_enabled_servers (en_lib En) (en_files En) (en_disabled En) of
        Inl _ \<Rightarrow> []
      | Inr servers \<Rightarrow> converted_servers (en_net En) servers)"

definition merge_mcp_servers :: "query_request \<Rightarrow> mcp_server dict \<Rightarrow> mcp_server dict option" where
  "merge_mcp_servers q configured =
     (let requested = opt_list (qr_mcp_servers q) in
      if configured = [] \<and> requested = [] then None
      else let merged = dict_update configured requested in if merged = [] then None else Some merged)"

text \<open>\<open>==\<close> of dictionaries, which does not look at the order.\<close>

definition dict_equal :: "'v dict \<Rightarrow> 'v dict \<Rightarrow> bool" where
  "dict_equal a b \<longleftrightarrow> length a = length b \<and> list_all (\<lambda>(k, v). map_of b k = Some v) a"

definition enrich_query :: "enrichment \<Rightarrow> query_request \<Rightarrow> query_request" where
  "enrich_query En q =
     (case merge_mcp_servers q (load_mcp_servers En) of
        None \<Rightarrow> q
      | Some merged \<Rightarrow>
          if (case qr_mcp_servers q of None \<Rightarrow> False | Some servers \<Rightarrow> dict_equal merged servers) then q
          else q\<lparr>qr_mcp_servers := Some merged\<rparr>)"

definition get_available_mcp_servers :: "enrichment \<Rightarrow> exn + mcp_server_info dict" where
  "get_available_mcp_servers En = get_enabled_servers (en_lib En) (en_files En) (en_disabled En)"

section \<open>Which file a server comes from\<close>

lemma parse_servers_fold:
  "map_of (fold (\<lambda>(name, raw_config) servers.
       case raw_config of JObj config \<Rightarrow> dict_set name (parse_server L name config) servers | _ \<Rightarrow> servers) raw ss) =
   fold (\<lambda>(name, raw_config) M.
       case raw_config of JObj config \<Rightarrow> M(name \<mapsto> parse_server L name config) | _ \<Rightarrow> M) raw (map_of ss)"
  by (induction raw arbitrary: ss) (auto split: json.split)

lemma parse_servers_lookup_fold:
  assumes "distinct_keys raw"
  shows "fold (\<lambda>(name, raw_config) M.
       case raw_config of JObj config \<Rightarrow> M(name \<mapsto> parse_server L name config) | _ \<Rightarrow> M) raw M n =
    (case map_of raw n of Some (JObj config) \<Rightarrow> Some (parse_server L n config) | _ \<Rightarrow> M n)"
  using assms
proof (induction raw arbitrary: M)
  case Nil
  then show ?case by simp
next
  case (Cons kv raw)
  obtain k v where kv: "kv = (k, v)" by (cases kv)
  with Cons.prems have "distinct_keys raw" and "map_of raw k = None"
    by (auto simp: distinct_keys_def map_of_eq_None_iff)
  with Cons.IH kv show ?case
    by (cases "n = k"; cases v) (auto split: option.splits json.splits)
qed

definition server_in :: "pylib \<Rightarrow> json dict \<Rightarrow> string \<Rightarrow> mcp_server_info option" where
  "server_in L raw n = (case map_of raw n of Some (JObj config) \<Rightarrow> Some (parse_server L n config) | _ \<Rightarrow> None)"

lemma distinct_keys_fold_set:
  "distinct_keys ss \<Longrightarrow> distinct_keys (fold (\<lambda>(name, raw_config) servers.
     case raw_config of JObj config \<Rightarrow> dict_set name (f name config) servers | _ \<Rightarrow> servers) raw ss)"
  by (induction raw arbitrary: ss) (auto simp: distinct_keys_dict_set split: json.split)

lemma parse_servers_lookup:
  assumes "distinct_keys raw"
  obtains ss where "parse_servers L (JObj raw) = Inr ss" and "map_of ss = server_in L raw"
    and "distinct_keys ss"
proof -
  obtain ss where ss: "parse_servers L (JObj raw) = Inr ss" by simp
  have "map_of ss n = server_in L raw n" for n
    using ss assms by (auto simp: parse_servers_fold parse_servers_lookup_fold server_in_def split: option.split json.split)
  moreover have "distinct_keys ss"
    using ss distinct_keys_fold_set [of "[]"] by (auto simp: distinct_keys_def)
  ultimately show ?thesis using ss that by blast
qed

text \<open>The servers that the text of a file names, where reading it does not raise.\<close>

definition project_part :: "json dict \<Rightarrow> json" where
  "project_part config = dict_get_or config ''mcpServers'' (JObj config)"

definition global_part :: "json dict \<Rightarrow> json" where
  "global_part config = dict_get_or config ''mcpServers'' (JObj [])"

definition named_servers :: "pylib \<Rightarrow> (json dict \<Rightarrow> json) \<Rightarrow> config_file \<Rightarrow> json dict option" where
  "named_servers L part f =
     (case f of
        FileText content \<Rightarrow>
          (case json_loads L content of
             None \<Rightarrow> Some []
           | Some (JObj config) \<Rightarrow> (case part config of JObj raw \<Rightarrow> Some raw | _ \<Rightarrow> None)
           | Some _ \<Rightarrow> None)
      | NoText m \<Rightarrow> None
      | _ \<Rightarrow> Some [])"

lemma read_servers_Inl: "named_servers L part f = None \<Longrightarrow> \<exists>e. read_servers L part f = Inl e"
  by (auto simp: named_servers_def read_servers_def split: config_file.splits option.splits json.splits)

lemma read_servers_named:
  "named_servers L part f = Some raw \<Longrightarrow> read_servers L part f = parse_servers L (JObj raw)"
  by (auto simp: named_servers_def read_servers_def split: config_file.splits option.splits json.splits)

end
