(* ===== verification/EnrichmentProperties.thy ===== *)
theory EnrichmentProperties
  imports Enrichment McpProperties
begin

text \<open>
  Which servers a query runs with when the configuration files on disk name servers: enrichment
  comes first, and the injection that follows adds nothing.
\<close>

section \<open>The servers of the files\<close>

lemma converted_fold:
  "map_of (fold (\<lambda>(name, server) result.
       case convert_mcp_info_to_schema N server of None \<Rightarrow> result | Some m \<Rightarrow> dict_set name m result) servers rs) =
   fold (\<lambda>(name, server) M.
       case convert_mcp_info_to_schema N server of None \<Rightarrow> M | Some m \<Rightarrow> M(name \<mapsto> m)) servers (map_of rs)"
  by (induction servers arbitrary: rs) (auto split: option.split)

lemma converted_fold_lookup:
  assumes "distinct_keys servers"
  shows "fold (\<lambda>(name, server) M.
       case convert_mcp_info_to_schema N server of None \<Rightarrow> M | Some m \<Rightarrow> M(name \<mapsto> m)) servers M n =
    (case Option.bind (map_of servers n) (convert_mcp_info_to_schema N) of None \<Rightarrow> M n | Some m \<Rightarrow> Some m)"
  using assms
proof (induction servers arbitrary: M)
  case Nil
  then show ?case by simp
next
  case (Cons kv servers)
  obtain k v where kv: "kv = (k, v)" by (cases kv)
  with Cons.prems have "distinct_keys servers" and "map_of servers k = None"
    by (auto simp: distinct_keys_def map_of_eq_None_iff)
  with Cons.IH kv show ?case
    by (cases "n = k"; cases "convert_mcp_info_to_schema N v") (auto split: option.splits)
qed

lemma converted_lookup:
  "distinct_keys servers \<Longrightarrow>
     map_of (converted_servers N servers) n = Option.bind (map_of servers n) (convert_mcp_info_to_schema N)"
  unfolding converted_servers_def converted_fold converted_fold_lookup by (auto split: option.split)

lemma distinct_converted: "distinct_keys (converted_servers N servers)"
proof -
  have "distinct_keys rs \<Longrightarrow> distinct_keys (fold (\<lambda>(name, server) result.
       case convert_mcp_info_to_schema N server of None \<Rightarrow> result | Some m \<Rightarrow> dict_set name m result) servers rs)" for rs
    by (induction servers arbitrary: rs) (auto simp: distinct_keys_dict_set split: option.split)
  then show ?thesis
    by (simp add: converted_servers_def distinct_keys_def)
qed

lemma map_of_filter_names:
  "map_of (filter (\<lambda>(name, _). P name) d) n = (if P n then map_of d n else None)"
  by (induction d) auto

lemma distinct_keys_filter: "distinct_keys d \<Longrightarrow> distinct_keys (filter p d)"
  by (simp add: distinct_keys_def distinct_map_filter)

text \<open>The server that the files together give a name: the later file counts.\<close>

definition file_server ::
  "pylib \<Rightarrow> json dict \<Rightarrow> json dict \<Rightarrow> json dict \<Rightarrow> string \<Rightarrow> mcp_server_info option" where
  "file_server L global project claude n =
     (case server_in L claude n of
        Some s \<Rightarrow> Some s
      | None \<Rightarrow> (case server_in L project n of Some s \<Rightarrow> Some s | None \<Rightarrow> server_in L global n))"

definition files_name :: "pylib \<Rightarrow> server_files \<Rightarrow> json dict \<Rightarrow> json dict \<Rightarrow> json dict \<Rightarrow> bool" where
  "files_name L fs global project claude \<longleftrightarrow>
     named_servers L global_part (sf_global fs) = Some global \<and>
     named_servers L project_part (sf_project fs) = Some project \<and>
     named_servers L project_part (sf_claude fs) = Some claude \<and>
     distinct_keys global \<and> distinct_keys project \<and> distinct_keys claude"

lemma discover_lookup:
  assumes "files_name L fs g p c"
  obtains ss where "discover_servers L fs = Inr ss" and "distinct_keys ss"
    and "\<And>n. map_of ss n = file_server L g p c n"
proof -
  from assms have "distinct_keys g" and "distinct_keys p" and "distinct_keys c"
    by (auto simp: files_name_def)
  from parse_servers_lookup [OF this(1)] obtain gs where g: "parse_servers L (JObj g) = Inr gs"
    "map_of gs = server_in L g" "distinct_keys gs" by metis
  from parse_servers_lookup [OF \<open>distinct_keys p\<close>] obtain ps where p: "parse_servers L (JObj p) = Inr ps"
    "map_of ps = server_in L p" "distinct_keys ps" by metis
  from parse_servers_lookup [OF \<open>distinct_keys c\<close>] obtain cs where c: "parse_servers L (JObj c) = Inr cs"
    "map_of cs = server_in L c" "distinct_keys cs" by metis
  let ?ps = "dict_update (dict_update [] ps) cs"
  let ?ss = "dict_update (dict_update [] gs) ?ps"
  from assms have "load_global_config L (sf_global fs) = Inr gs" and "load_mcp_json L (sf_project fs) = Inr ps"
    and "load_mcp_json L (sf_claude fs) = Inr cs"
    using g(1) p(1) c(1)
    by (simp_all add: files_name_def load_global_config_def load_mcp_json_def read_servers_named
        global_part_def [abs_def, symmetric] project_part_def [abs_def, symmetric])
  then have "discover_servers L fs = Inr ?ss"
    by (simp add: discover_servers_def load_project_config_def)
  moreover have "distinct_keys ?ps" and "distinct_keys ?ss"
    by (simp_all add: distinct_keys_dict_update distinct_keys_def [of "[]"])
  moreover from this(1) p(2,3) c(2,3) g(2,3) have "map_of ?ss n = file_server L g p c n" for n
    by (simp add: map_of_dict_update map_of_rev file_server_def map_add_def split: option.split)
  ultimately show ?thesis using that by blast
qed

lemma loaded_lookup:
  assumes "files_name (en_lib En) (en_files En) g p c"
  shows "map_of (load_mcp_servers En) n =
    (if n \<in> set (en_disabled En) then None
     else Option.bind (file_server (en_lib En) g p c n) (convert_mcp_info_to_schema (en_net En)))"
proof -
  from discover_lookup [OF assms] obtain ss where "discover_servers (en_lib En) (en_files En) = Inr ss"
    and "distinct_keys ss" and "map_of ss n = file_server (en_lib En) g p c n" by metis
  then show ?thesis
    by (simp add: load_mcp_servers_def get_enabled_servers_def converted_lookup distinct_keys_filter
        map_of_filter_names)
qed

lemma distinct_loaded: "distinct_keys (load_mcp_servers En)"
  by (simp add: load_mcp_servers_def distinct_converted distinct_keys_def [of "[]"] split: sum.split)

section \<open>The enriched query\<close>

lemma dict_equal_lookup:
  assumes "dict_equal a b" and "distinct_keys a" and "distinct_keys b"
  shows "map_of a = map_of b"
proof -
  from assms(1) have sub: "set a \<subseteq> set b" and len: "length a = length b"
    by (auto simp: dict_equal_def list_all_iff dest: map_of_SomeD)
  with assms(2,3) have "set a = set b"
    by (metis card_subset_eq distinct_card distinct_keys_def distinct_map List.finite_set)
  with assms(2,3) show ?thesis
    by (intro map_of_inject_set [THEN iffD2]) (simp_all add: distinct_keys_def)
qed

lemma enriched_lookup:
  assumes "load_mcp_servers En \<noteq> []" and "distinct_keys (opt_list (qr_mcp_servers q))"
  obtains servers where "qr_mcp_servers (enrich_query En q) = Some servers" and "servers \<noteq> []"
    and "distinct_keys servers" and "map_of servers = map_of (load_mcp_servers En) ++ map_of (opt_list (qr_mcp_servers q))"
proof -
  let ?c = "load_mcp_servers En" and ?r = "opt_list (qr_mcp_servers q)"
  let ?m = "dict_update ?c ?r"
  have m: "map_of ?m = map_of ?c ++ map_of ?r" and dm: "distinct_keys ?m"
    using assms(2) distinct_loaded by (simp_all add: map_of_dict_update map_of_rev distinct_keys_dict_update)
  from assms(1) have "map_of ?c \<noteq> Map.empty"
    by simp
  with m have ne: "?m \<noteq> []"
    by (metis map_add_None map_of.simps(1) map_of_eq_empty_iff)
  with assms(1) have merged: "merge_mcp_servers q ?c = Some ?m"
    by (simp add: merge_mcp_servers_def Let_def)
  show ?thesis
  proof (cases "\<exists>s. qr_mcp_servers q = Some s \<and> dict_equal ?m s")
    case True
    then obtain s where s: "qr_mcp_servers q = Some s" "dict_equal ?m s" by blast
    with assms(2) have "distinct_keys s" by (simp add: opt_list_def)
    with s dm have "map_of ?m = map_of s" by (simp add: dict_equal_lookup)
    moreover from s merged have "enrich_query En q = q" by (simp add: enrich_query_def)
    moreover from s ne have "s \<noteq> []" by (auto simp: dict_equal_def)
    ultimately show ?thesis using s \<open>distinct_keys s\<close> m that by simp
  next
    case False
    with merged have "qr_mcp_servers (enrich_query En q) = Some ?m"
      by (auto simp: enrich_query_def split: option.split)
    with ne dm m that show ?thesis by blast
  qed
qed

section \<open>Enrichment and injection\<close>

lemma schemas_lookup:
  assumes "distinct_keys servers" and "\<forall>(n, m) \<in> set servers. model_validate I (server_dump m) = Inr m"
  shows "map_of (config_dict_to_schemas I (schemas_to_config_dict servers)) = map_of servers"
proof
  fix n
  have "distinct_keys (schemas_to_config_dict servers)"
    using assms(1) by (simp add: schemas_to_config_dict_def distinct_keys_def o_def case_prod_unfold)
  moreover have "map_of (schemas_to_config_dict servers) n = map_option (\<lambda>m. JObj (server_dump m)) (map_of servers n)"
    by (simp add: schemas_to_config_dict_def map_of_map)
  moreover have "map_of servers n = Some m \<Longrightarrow> config_schema I (JObj (server_dump m)) = Some m" for m
    using assms(2) by (fastforce simp: config_schema_def dest: map_of_SomeD)
  ultimately show "map_of (config_dict_to_schemas I (schemas_to_config_dict servers)) n = map_of servers n"
    by (cases "map_of servers n") (simp_all add: config_dict_to_schemas_lookup)
qed

lemma inject_own_servers:
  assumes "inject I q k s = (Inr q', s')" and "qr_mcp_servers q = Some servers" and "servers \<noteq> []"
    and "distinct_keys servers" and "\<forall>(n, m) \<in> set servers. model_validate I (server_dump m) = Inr m"
  shows "\<exists>servers'. qr_mcp_servers q' = Some servers' \<and> map_of servers' = map_of servers"
proof -
  from assms(1-3) have "inject_servers I q k s = (Inr q', s') \<or> q' = q"
    by (auto simp: inject_def try_except_Inr split: if_splits)
  then show ?thesis
  proof
    assume "inject_servers I q k s = (Inr q', s')"
    then obtain app records where "q' = enriched_request q (config_dict_to_schemas I
        (merge_configs (resolve_env_vars (mi_env I) app) (records_to_config_dict records) (request_config q)))"
      by (auto simp: inject_servers_def and_then_Inr ret_def)
    moreover have "request_config q = Some (schemas_to_config_dict servers)" and "schemas_to_config_dict servers \<noteq> []"
      using assms(2,3) by (simp_all add: request_config_def schemas_to_config_dict_def)
    ultimately have "q' = enriched_request q (config_dict_to_schemas I (schemas_to_config_dict servers))"
      by (simp add: merge_configs_def is_opt_out_def)
    with schemas_lookup [OF assms(4,5)] show ?thesis
      by (simp add: enriched_request_def)
  qed (use assms(2) in simp)
qed

lemma converted_valid: "convert_mcp_info_to_schema N info = Some m \<Longrightarrow> check_mcp_server N m = Inr m"
  using check_mcp_server_Inr by (fastforce simp: convert_mcp_info_to_schema_def split: sum.splits)

lemma distinct_enabled: "get_enabled_servers L fs disabled = Inr ss \<Longrightarrow> distinct_keys ss"
  by (auto simp: get_enabled_servers_def discover_servers_def bind_sum_Inr distinct_keys_def [of "[]"]
      intro!: distinct_keys_filter distinct_keys_dict_update)

lemma loaded_valid: "map_of (load_mcp_servers En) n = Some m \<Longrightarrow> check_mcp_server (en_net En) m = Inr m"
  by (auto simp: load_mcp_servers_def converted_lookup distinct_enabled bind_eq_Some_conv
      dest: converted_valid split: sum.splits)

text \<open>
  When the configuration files on disk name an enabled, valid server, a query that was
  enriched and then injected runs with exactly the servers of the request and, for other
  names, those of the files in their precedence; the servers of the API key play no part,
  and a request that opted out gets the servers of the files.
\<close>

theorem query_servers:
  assumes "files_name (en_lib En) (en_files En) global project claude" and "load_mcp_servers En \<noteq> []"
    and "mi_net I = en_net En" and "\<forall>m. mi_parse I (server_dump m) = Inr m"
    and "distinct_keys (opt_list (qr_mcp_servers q))"
    and "\<forall>(n, m) \<in> set (opt_list (qr_mcp_servers q)). check_mcp_server (en_net En) m = Inr m"
    and "inject I (enrich_query En q) api_key s = (Inr q', s')"
  shows "map_of (opt_list (qr_mcp_servers q')) n =
    (case map_of (opt_list (qr_mcp_servers q)) n of
       Some m \<Rightarrow> Some m
     | None \<Rightarrow>
         if n \<in> set (en_disabled En) then None
         else Option.bind (file_server (en_lib En) global project claude n) (convert_mcp_info_to_schema (en_net En)))"
proof -
  from enriched_lookup [OF assms(2,5)] obtain servers where "qr_mcp_servers (enrich_query En q) = Some servers"
    and "servers \<noteq> []" and d: "distinct_keys servers"
    and l: "map_of servers = map_of (load_mcp_servers En) ++ map_of (opt_list (qr_mcp_servers q))" by metis
  moreover have "model_validate I (server_dump m) = Inr m" if "(n, m) \<in> set servers" for n m
  proof -
    from that d l have "map_of (opt_list (qr_mcp_servers q)) n = Some m \<or> map_of (load_mcp_servers En) n = Some m"
      by (metis distinct_keys_def map_add_Some_iff map_of_is_SomeI)
    with assms(6) have "check_mcp_server (en_net En) m = Inr m"
      by (auto dest: map_of_SomeD loaded_valid)
    with assms(3,4) show ?thesis
      by (simp add: model_validate_def)
  qed
  ultimately obtain servers' where "qr_mcp_servers q' = Some servers'" "map_of servers' = map_of servers"
    using inject_own_servers [OF assms(7)] by blast
  with l loaded_lookup [OF assms(1), of n] show ?thesis
    by (simp add: opt_list_def [of "Some servers'"] map_add_def split: option.split)
qed

section \<open>A concrete run\<close>

text \<open>The inverse of the dump, which stands for Pydantic's conversion.\<close>

fun undump_text :: "json \<Rightarrow> string" where
  "undump_text (JStr t) = t"
| "undump_text _ = []"

fun undump_opt :: "json \<Rightarrow> string option" where
  "undump_opt (JStr t) = Some t"
| "undump_opt _ = None"

fun undump_list :: "json \<Rightarrow> string list" where
  "undump_list (JArr xs) = map undump_text xs"
| "undump_list _ = []"

fun undump_dict :: "json \<Rightarrow> string dict" where
  "undump_dict (JObj d) = map (\<lambda>(k, v). (k, undump_text v)) d"
| "undump_dict _ = []"

definition undump_server :: "json dict \<Rightarrow> mcp_server" where
  "undump_server d =
     \<lparr>ms_command = undump_opt (dict_get_or d ''command'' JNull), ms_args = undump_list (dict_get_or d ''args'' JNull),
      ms_type =
        (if dict_get_or d ''type'' JNull = JStr ''stdio'' then Stdio
         else if dict_get_or d ''type'' JNull = JStr ''sse'' then Sse else Http),
      ms_url = undump_opt (dict_get_or d ''url'' JNull), ms_headers = undump_dict (dict_get_or d ''headers'' JNull),
      ms_env = undump_dict (dict_get_or d ''env'' JNull)\<rparr>"

lemma undump_server_dump: "undump_server (server_dump m) = m"
proof -
  have "undump_dict (JObj (strings_obj d)) = d" for d
    by (induction d) (auto simp: strings_obj_def)
  moreover have "undump_list (json_strings xs) = xs" for xs
    by (induction xs) (auto simp: json_strings_def)
  moreover have "undump_opt (json_of_opt JStr x) = x" for x
    by (cases x) simp_all
  ultimately show ?thesis
    by (cases m; cases "ms_type m") (simp_all add: undump_server_def server_dump_def dict_get_or_def)
qed

definition file_text :: string where
  "file_text = json_dumps ref_lib (JObj [(''s'', JObj [(''command'', JStr ''npx'')])])"

definition ref_enrichment :: enrichment where
  "ref_enrichment = \<lparr>en_lib = ref_lib, en_net = ref_net,
     en_files = \<lparr>sf_global = NoFile, sf_project = FileText file_text, sf_claude = NoFile\<rparr>, en_disabled = []\<rparr>"

lemma file_text_loads: "json_loads ref_lib file_text = Some (JObj [(''s'', JObj [(''command'', JStr ''npx'')])])"
  unfolding file_text_def by (rule ref_lib.loads_dumps) simp

lemmas file_text_ref_loads = file_text_loads [simplified]

lemma ref_server_valid: "check_mcp_server ref_net ref_server = Inr ref_server"
  by (simp add: check_mcp_server_def validate_command_security_def validate_no_null_bytes_def
      has_null_byte_def has_shell_metachar_def shell_metachars_def validate_args_security_def
      validate_url_security_def validate_transport_def ref_server_def)

lemma ref_info: "convert_mcp_info_to_schema ref_net (parse_server ref_lib ''s'' [(''command'', JStr ''npx'')]) = Some ref_server"
proof -
  have "mcp_server.truncate (parse_server ref_lib ''s'' [(''command'', JStr ''npx'')]) = ref_server"
    by (simp add: parse_server_def ref_server_def mcp_server.truncate_def truthy_str_def dict_get_def dict_get_or_def
        list_texts_def dict_texts_def server_type_def)
  with ref_server_valid show ?thesis
    by (simp add: convert_mcp_info_to_schema_def)
qed

lemma ref_loaded: "load_mcp_servers ref_enrichment = [(''s'', ref_server)]"
  by (simp add: load_mcp_servers_def ref_enrichment_def get_enabled_servers_def discover_servers_def
      load_global_config_def load_project_config_def load_mcp_json_def read_servers_def file_text_ref_loads
      dict_get_or_def dict_update_def dict_set_def converted_servers_def ref_info)

text \<open>The request opted out, the API key has no servers, and the query runs with the server of the file.\<close>

lemma query_servers_witness:
  "\<exists>q' s'. inject (ref_injector\<lparr>mi_parse := Inr \<circ> undump_server\<rparr>)
      (enrich_query ref_enrichment ((plain_request ''hi'')\<lparr>qr_mcp_servers := Some []\<rparr>)) ''k'' (ref_world (), Some []) =
      (Inr q', s') \<and>
     map_of (opt_list (qr_mcp_servers q')) ''s'' = Some ref_server"
proof -
  let ?I = "ref_injector\<lparr>mi_parse := Inr \<circ> undump_server\<rparr>" and ?q = "(plain_request ''hi'')\<lparr>qr_mcp_servers := Some []\<rparr>"
  let ?raw = "[(''s'', JObj [(''command'', JStr ''npx'')])]"
  have names: "files_name (en_lib ref_enrichment) (en_files ref_enrichment) [] ?raw []"
    by (simp add: files_name_def ref_enrichment_def named_servers_def file_text_ref_loads project_part_def
        dict_get_or_def distinct_keys_def)
  let ?q1 = "?q\<lparr>qr_mcp_servers := Some [(''s'', ref_server)]\<rparr>"
  have q1: "enrich_query ref_enrichment ?q = ?q1"
    by (simp add: enrich_query_def merge_mcp_servers_def ref_loaded opt_list_def dict_equal_def dict_update_def)
  have "validate_api_key ''k'' = Inr ()"
    by (simp add: validate_api_key_def is_blank_def is_space_def key_forbidden_def Let_def)
  then have "fst (inject_servers ?I ?q1 ''k'' (ref_world (), Some [])) = Inr (enriched_request ?q1 [(''s'', ref_server)])"
    using ref_server_valid
    by (simp add: inject_servers_def load_config_def load_application_config_def in_world_def
        list_servers_for_api_key_def mcp_index_key_def config_dict_to_schemas_def config_schema_def
        model_validate_def merge_configs_def is_opt_out_def request_config_def schemas_to_config_dict_def
        resolve_env_vars_def ref_injector_def plain_request_def dict_set_def undump_server_dump
        rc_set_members_def sv_smembers_def ref_eval del: eval_rules)
  then obtain s' where "inject_servers ?I ?q1 ''k'' (ref_world (), Some []) = (Inr (enriched_request ?q1 [(''s'', ref_server)]), s')"
    by (metis fst_conv surj_pair)
  then obtain q' where run: "inject ?I (enrich_query ref_enrichment ?q) ''k'' (ref_world (), Some []) = (Inr q', s')"
    unfolding q1 by (simp add: inject_def try_except_Inr)
  moreover have "map_of (opt_list (qr_mcp_servers q')) ''s'' = Some ref_server"
    using query_servers [OF names _ _ _ _ _ run, of "''s''", unfolded ref_loaded]
    by (simp add: ref_injector_def undump_server_dump opt_list_def distinct_keys_def
        file_server_def server_in_def ref_enrichment_def ref_info)
  ultimately show ?thesis by blast
qed

end
