(* ===== verification/QueryStream.thy ===== *)
theory QueryStream
  imports AgentQuery
begin

text \<open>
  \<open>QueryStreamEventGenerator\<close>, \<open>routes/query_stream.py\<close>: a producer task reads the events of the
  agent service and puts them into a bounded queue, the generator takes them out and sends them
  to the client, and the session's status is written when the stream is over.

  The two run concurrently. A step is what one of them does up to its next \<open>await\<close>: the program
  counters \<open>producer\<close> and \<open>consumer\<close> say where it waits. The client may leave, which cancels the
  generator where it waits for the queue or closes it where it yielded, and the world of the
  services may change between steps. A call of a service is one step. The session identifier
  and the counts are whatever JSON value was last stored in them.
\<close>

section \<open>State\<close>

datatype producer =
    NotStarted
  | Fetching \<comment> \<open>waits for the next event of \<open>query_stream\<close>\<close>
  | Creating agent_event json \<comment> \<open>in \<open>create_session\<close>, with the model\<close>
  | InitFailed agent_event agent_event \<comment> \<open>puts the first, an error, and goes on with the second\<close>
  | Checking agent_event \<comment> \<open>in \<open>is_disconnected\<close>\<close>
  | Interrupting
  | Putting agent_event
  | Failing \<comment> \<open>puts the error event of \<open>except Exception\<close>\<close>
  | ProducerCancelled
  | Closing "exn option" \<comment> \<open>puts the sentinel, in \<open>finally\<close>\<close>
  | Ended "exn option"

datatype consumer =
    Getting
  | Resuming \<comment> \<open>at \<open>yield\<close>\<close>
  | Signalling \<comment> \<open>in \<open>except CancelledError\<close>\<close>
  | Cleaning "exn option"
  | Awaiting "exn option" \<comment> \<open>waits for the cancelled producer\<close>
  | Updating "exn option"
  | Finished "exn option"

record 'w stream_state =
  gs_world :: 'w
  gs_queue :: "agent_event option list"
  gs_session :: json
  gs_is_error :: bool
  gs_num_turns :: json
  gs_total_cost :: json
  gs_producer :: producer
  gs_consumer :: consumer
  gs_gone :: bool

record 'w stream_services =
  sv_lib :: pylib
  sv_next :: "('w, agent_event option) io"
  sv_interrupt :: "json \<Rightarrow> ('w, bool) io"
  sv_create :: "json \<Rightarrow> json \<Rightarrow> ('w, unit) io"
  sv_update :: "json \<Rightarrow> string \<Rightarrow> json \<Rightarrow> json \<Rightarrow> ('w, unit) io"

definition stream_init :: "string option \<Rightarrow> 'w \<Rightarrow> 'w stream_state" where
  "stream_init session_id w =
     \<lparr>gs_world = w, gs_queue = [], gs_session = json_of_opt JStr session_id, gs_is_error = False,
      gs_num_turns = JInt 0, gs_total_cost = JNull, gs_producer = NotStarted, gs_consumer = Getting,
      gs_gone = False\<rparr>"

definition queue_size :: nat where
  "queue_size = 100"

section \<open>Metadata\<close>

text \<open>\<open>k in x\<close> and \<open>x[k]\<close>\<close>

fun in_json :: "json \<Rightarrow> string \<Rightarrow> exn + bool" where
  "in_json (JObj d) k = Inr (map_of d k \<noteq> None)"
| "in_json (JArr xs) k = Inr (JStr k \<in> set xs)"
| "in_json (JStr s) k = Inr (contains k s)"
| "in_json _ k = Inl (TypeError ''argument is not iterable'')"

fun json_item :: "json \<Rightarrow> string \<Rightarrow> exn + json" where
  "json_item (JObj d) k = value_or (KeyError k) (map_of d k)"
| "json_item _ k = Inl (TypeError ''indices must be integers'')"

definition item_if_there :: "json \<Rightarrow> string \<Rightarrow> json \<Rightarrow> exn + json" where
  "item_if_there j k x = bind_sum (in_json j k) (\<lambda>there. if there then json_item j k else Inr x)"

definition track_result :: "json \<Rightarrow> 'w stream_state \<Rightarrow> exn + 'w stream_state" where
  "track_result j s =
     bind_sum (item_if_there j ''turns'' (gs_num_turns s)) (\<lambda>turns.
     bind_sum (item_if_there j ''total_cost_usd'' (gs_total_cost s)) (\<lambda>cost.
     Inr (s\<lparr>gs_num_turns := turns, gs_total_cost := cost\<rparr>)))"

definition track_event_metadata ::
  "pylib \<Rightarrow> agent_event \<Rightarrow> 'w stream_state \<Rightarrow> exn + 'w stream_state" where
  "track_event_metadata L e s =
     (if ev_event e = ''message'' then
        bind_sum (py_plus (gs_num_turns s) (JInt 1)) (\<lambda>n. Inr (s\<lparr>gs_num_turns := n\<rparr>))
      else if ev_event e = ''error'' then Inr (s\<lparr>gs_is_error := True\<rparr>)
      else if ev_event e = ''result'' then
        (case json_loads L (ev_data e) of None \<Rightarrow> Inr s | Some j \<Rightarrow> track_result j s)
      else Inr s)"

section \<open>The producer\<close>

datatype action =
    Silent
  | Fetched agent_event
  | Put agent_event
  | PutError agent_event
  | Sent agent_event
  | Created json json \<comment> \<open>\<open>create_session\<close>, with the model and the session\<close>
  | Updated json string json json \<comment> \<open>\<open>update_session\<close>: session, status, turns and cost\<close>
  | Stopped

definition stream_error :: "pylib \<Rightarrow> string \<Rightarrow> string \<Rightarrow> agent_event" where
  "stream_error L err text =
     format_sse L ''error'' [(''error'', JStr err), (''message'', JStr text)]"

definition producer_error :: "pylib \<Rightarrow> agent_event" where
  "producer_error L =
     stream_error L ''Internal stream error'' ''An unexpected error occurred while processing the stream''"

definition at_producer :: "producer \<Rightarrow> 'w stream_state \<Rightarrow> 'w stream_state" where
  "at_producer p s = s\<lparr>gs_producer := p\<rparr>"

definition at_consumer :: "consumer \<Rightarrow> 'w stream_state \<Rightarrow> 'w stream_state" where
  "at_consumer c s = s\<lparr>gs_consumer := c\<rparr>"

text \<open>Where an exception in the body of the producer leads.\<close>

definition raised :: "exn \<Rightarrow> producer" where
  "raised e = (if is_exception e then Failing else ProducerCancelled)"

text \<open>A call of a service, and where its outcome leads.\<close>

definition call ::
  "('w, 'a) io \<Rightarrow> ('a \<Rightarrow> 'w stream_state \<Rightarrow> 'w stream_state) \<Rightarrow> (exn \<Rightarrow> 'w stream_state \<Rightarrow> 'w stream_state) \<Rightarrow>
     'w stream_state \<Rightarrow> 'w stream_state" where
  "call m ok failed s =
     (case m (gs_world s) of
        (Inr x, w) \<Rightarrow> ok x (s\<lparr>gs_world := w\<rparr>)
      | (Inl e, w) \<Rightarrow> failed e (s\<lparr>gs_world := w\<rparr>))"

definition put_item ::
  "agent_event option \<Rightarrow> action \<Rightarrow> ('w stream_state \<Rightarrow> 'w stream_state) \<Rightarrow> 'w stream_state \<Rightarrow>
     (action \<times> 'w stream_state) option" where
  "put_item x a next s =
     (if length (gs_queue s) < queue_size then Some (a, next (s\<lparr>gs_queue := gs_queue s @ [x]\<rparr>))
      else None)"

text \<open>\<open>_handle_init_event\<close> up to its first \<open>await\<close>\<close>

definition init_failed :: "pylib \<Rightarrow> agent_event \<Rightarrow> producer" where
  "init_failed L e =
     InitFailed (stream_error L ''Session creation failed'' ''Unable to initialize session'') e"

definition handle_init_event :: "pylib \<Rightarrow> agent_event \<Rightarrow> 'w stream_state \<Rightarrow> 'w stream_state" where
  "handle_init_event L e s =
     (case json_loads L (ev_data e) of
        None \<Rightarrow>
          at_producer (InitFailed
            (stream_error L ''Session initialization failed'' ''Invalid session initialization format'') e) s
      | Some (JObj d) \<Rightarrow>
          (let session_id = dict_get_or d ''session_id'' JNull;
               s' = s\<lparr>gs_session := session_id\<rparr> in
           if \<not> truthy session_id then at_producer (Checking e) s'
           else at_producer (Creating e (dict_get_or d ''model'' (JStr ''sonnet''))) s')
      | Some _ \<Rightarrow> at_producer (init_failed L e) s)"

definition fetched :: "pylib \<Rightarrow> agent_event \<Rightarrow> 'w stream_state \<Rightarrow> 'w stream_state" where
  "fetched L e s =
     (case track_event_metadata L e s of
        Inl x \<Rightarrow> at_producer (raised x) s
      | Inr s' \<Rightarrow>
          if gs_session s' = JNull \<and> ev_event e = ''init'' then handle_init_event L e s'
          else at_producer (Checking e) s')"

definition interrupt_then ::
  "'w stream_services \<Rightarrow> ('w stream_state \<Rightarrow> 'w stream_state) \<Rightarrow> (exn \<Rightarrow> 'w stream_state \<Rightarrow> 'w stream_state) \<Rightarrow>
     'w stream_state \<Rightarrow> 'w stream_state" where
  "interrupt_then E ok failed s =
     (if truthy (gs_session s) then call (sv_interrupt E (gs_session s)) (\<lambda>_. ok) failed s else ok s)"

definition fetch :: "'w stream_services \<Rightarrow> 'w stream_state \<Rightarrow> action \<times> 'w stream_state" where
  "fetch E s =
     (case sv_next E (gs_world s) of
        (Inr (Some e), w) \<Rightarrow> (Fetched e, fetched (sv_lib E) e (s\<lparr>gs_world := w\<rparr>))
      | (Inr None, w) \<Rightarrow> (Silent, at_producer (Closing None) (s\<lparr>gs_world := w\<rparr>))
      | (Inl x, w) \<Rightarrow> (Silent, at_producer (raised x) (s\<lparr>gs_world := w\<rparr>)))"

definition producer_step ::
  "'w stream_services \<Rightarrow> 'w stream_state \<Rightarrow> (action \<times> 'w stream_state) option" where
  "producer_step E s =
     (case gs_producer s of
        NotStarted \<Rightarrow> Some (Silent, at_producer Fetching s)
      | Fetching \<Rightarrow> Some (fetch E s)
      | Creating e model \<Rightarrow>
          Some (Created model (gs_session s), call (sv_create E model (gs_session s)) (\<lambda>_. at_producer (Checking e))
            (\<lambda>x. at_producer (if is_exception x then init_failed (sv_lib E) e else ProducerCancelled)) s)
      | InitFailed err e \<Rightarrow>
          put_item (Some err) (PutError err) (\<lambda>s'. at_producer (Checking e) (s'\<lparr>gs_is_error := True\<rparr>)) s
      | Checking e \<Rightarrow> Some (Silent, at_producer (if gs_gone s then Interrupting else Putting e) s)
      | Interrupting \<Rightarrow>
          Some (Silent, interrupt_then E (at_producer (Closing None)) (\<lambda>x. at_producer (raised x)) s)
      | Putting e \<Rightarrow> put_item (Some e) (Put e) (at_producer Fetching) s
      | Failing \<Rightarrow>
          put_item (Some (producer_error (sv_lib E))) (PutError (producer_error (sv_lib E)))
            (at_producer (Closing None)) s
      | ProducerCancelled \<Rightarrow>
          Some (Silent, interrupt_then E (at_producer (Closing (Some CancelledError)))
            (\<lambda>x. at_producer (Closing (Some x))) s)
      | Closing x \<Rightarrow> put_item None Silent (at_producer (Ended x)) s
      | Ended x \<Rightarrow> None)"

section \<open>The generator\<close>

text \<open>\<open>producer_task.cancel()\<close>: the exception is raised where the producer waits.\<close>

fun cancel_producer :: "producer \<Rightarrow> producer" where
  "cancel_producer NotStarted = Ended (Some CancelledError)"
| "cancel_producer Failing = Closing (Some CancelledError)"
| "cancel_producer ProducerCancelled = Closing (Some CancelledError)"
| "cancel_producer (Closing x) = Ended (Some CancelledError)"
| "cancel_producer (Ended x) = Ended x"
| "cancel_producer _ = ProducerCancelled"

definition update_session_status ::
  "'w stream_services \<Rightarrow> exn option \<Rightarrow> 'w stream_state \<Rightarrow> action \<times> 'w stream_state" where
  "update_session_status E x s =
     (if \<not> truthy (gs_session s) then (Silent, at_consumer (Finished x) s)
      else
        (let status = (if gs_is_error s then ''error'' else ''completed'') in
         (Updated (gs_session s) status (gs_num_turns s) (gs_total_cost s),
          call (sv_update E (gs_session s) status (gs_num_turns s) (gs_total_cost s))
            (\<lambda>_. at_consumer (Finished x)) (\<lambda>e. at_consumer (Finished (Some e))) s)))"

definition consumer_step ::
  "'w stream_services \<Rightarrow> 'w stream_state \<Rightarrow> (action \<times> 'w stream_state) option" where
  "consumer_step E s =
     (case gs_consumer s of
        Getting \<Rightarrow>
          (case gs_queue s of
             [] \<Rightarrow> None
           | None # q \<Rightarrow> Some (Silent, at_consumer (Cleaning None) (s\<lparr>gs_queue := q\<rparr>))
           | Some e # q \<Rightarrow> Some (Sent e, at_consumer Resuming (s\<lparr>gs_queue := q\<rparr>)))
      | Resuming \<Rightarrow> Some (Silent, at_consumer Getting s)
      | Signalling \<Rightarrow>
          Some (Silent, interrupt_then E (at_consumer (Cleaning (Some CancelledError)))
            (\<lambda>x. at_consumer (Cleaning (Some x))) s)
      | Cleaning x \<Rightarrow>
          Some (Silent, case gs_producer s of
              Ended y \<Rightarrow> at_consumer (Updating x) s
            | p \<Rightarrow> at_consumer (Awaiting x) (at_producer (cancel_producer p) s))
      | Awaiting x \<Rightarrow>
          (case gs_producer s of
             Ended y \<Rightarrow>
               Some (Silent, at_consumer
                 (if y = None \<or> y = Some CancelledError then Updating x else Finished y) s)
           | _ \<Rightarrow> None)
      | Updating x \<Rightarrow> Some (update_session_status E x s)
      | Finished x \<Rightarrow> None)"

section \<open>Runs\<close>

text \<open>A step of the two tasks alone, and one of them or of what is around them.\<close>

inductive task_step :: "'w stream_services \<Rightarrow> 'w stream_state \<Rightarrow> action \<Rightarrow> 'w stream_state \<Rightarrow> bool"
  for E where
  produce: "producer_step E s = Some (a, s') \<Longrightarrow> task_step E s a s'"
| consume: "consumer_step E s = Some (a, s') \<Longrightarrow> task_step E s a s'"

inductive queue_step :: "'w stream_services \<Rightarrow> 'w stream_state \<Rightarrow> action \<Rightarrow> 'w stream_state \<Rightarrow> bool"
  for E where
  task: "task_step E s a s' \<Longrightarrow> queue_step E s a s'"
| cancel: "gs_consumer s = Getting \<Longrightarrow> queue_step E s Stopped (at_consumer Signalling s)"
| close: "gs_consumer s = Resuming \<Longrightarrow> queue_step E s Stopped (at_consumer (Cleaning None) s)"
| leave: "queue_step E s Silent (s\<lparr>gs_gone := True\<rparr>)"
| others: "queue_step E s Silent (s\<lparr>gs_world := w\<rparr>)"

inductive queue_run ::
  "'w stream_services \<Rightarrow> 'w stream_state \<Rightarrow> action list \<Rightarrow> 'w stream_state \<Rightarrow> bool" for E s where
  none: "queue_run E s [] s"
| step: "queue_run E s tr s' \<Longrightarrow> queue_step E s' a s'' \<Longrightarrow> queue_run E s (tr @ [a]) s''"

inductive task_run ::
  "'w stream_services \<Rightarrow> 'w stream_state \<Rightarrow> action list \<Rightarrow> 'w stream_state \<Rightarrow> bool" for E s where
  none: "task_run E s [] s"
| step: "task_run E s tr s' \<Longrightarrow> task_step E s' a s'' \<Longrightarrow> task_run E s (tr @ [a]) s''"

end
