(* ===== verification/QueryStreamProperties.thy ===== *)
theory QueryStreamProperties
  imports QueryStream AgentTermination
begin

text \<open>
  The queue between producer and generator: its bound, the order of the events, what is
  delivered when the client stays, that the tasks stop, and the one way in which they block.
\<close>

section \<open>Traces\<close>

text \<open>The events of a trace: those fetched, those put, those sent.\<close>

fun fetches :: "action list \<Rightarrow> agent_event list" where
  "fetches [] = []"
| "fetches (Fetched e # tr) = e # fetches tr"
| "fetches (_ # tr) = fetches tr"

fun goods :: "action list \<Rightarrow> agent_event list" where
  "goods [] = []"
| "goods (Put e # tr) = e # goods tr"
| "goods (_ # tr) = goods tr"

fun puts :: "action list \<Rightarrow> agent_event list" where
  "puts [] = []"
| "puts (Put e # tr) = e # puts tr"
| "puts (PutError e # tr) = e # puts tr"
| "puts (_ # tr) = puts tr"

fun sents :: "action list \<Rightarrow> agent_event list" where
  "sents [] = []"
| "sents (Sent e # tr) = e # sents tr"
| "sents (_ # tr) = sents tr"

fun updates :: "action list \<Rightarrow> action list" where
  "updates [] = []"
| "updates (Updated i st n c # tr) = Updated i st n c # updates tr"
| "updates (_ # tr) = updates tr"

fun creations :: "action list \<Rightarrow> action list" where
  "creations [] = []"
| "creations (Created m i # tr) = Created m i # creations tr"
| "creations (_ # tr) = creations tr"

lemma trace_append [simp]:
  "fetches (tr @ tr') = fetches tr @ fetches tr'" "goods (tr @ tr') = goods tr @ goods tr'"
  "puts (tr @ tr') = puts tr @ puts tr'" "sents (tr @ tr') = sents tr @ sents tr'"
  "updates (tr @ tr') = updates tr @ updates tr'" "creations (tr @ tr') = creations tr @ creations tr'"
proof -
  have "fetches (a # tr) = fetches [a] @ fetches tr" "goods (a # tr) = goods [a] @ goods tr"
    "puts (a # tr) = puts [a] @ puts tr" "sents (a # tr) = sents [a] @ sents tr"
    "updates (a # tr) = updates [a] @ updates tr" "creations (a # tr) = creations [a] @ creations tr" for a tr
    by (cases a; simp)+
  note one = this
  show "fetches (tr @ tr') = fetches tr @ fetches tr'" "goods (tr @ tr') = goods tr @ goods tr'"
    "puts (tr @ tr') = puts tr @ puts tr'" "sents (tr @ tr') = sents tr @ sents tr'"
    "updates (tr @ tr') = updates tr @ updates tr'" "creations (tr @ tr') = creations tr @ creations tr'"
    by (induction tr; simp; subst (1 2) one; simp)+
qed

definition queued :: "agent_event option list \<Rightarrow> agent_event list" where
  "queued q = concat (map (\<lambda>x. case x of None \<Rightarrow> [] | Some e \<Rightarrow> [e]) q)"

lemma queued_simps [simp]:
  "queued [] = []" "queued (None # q) = queued q" "queued (Some e # q) = e # queued q"
  "queued (q @ q') = queued q @ queued q'"
  by (simp_all add: queued_def)

section \<open>The steps\<close>

lemma at_simps [simp]:
  "gs_queue (at_producer p s) = gs_queue s" "gs_consumer (at_producer p s) = gs_consumer s"
  "gs_producer (at_producer p s) = p" "gs_gone (at_producer p s) = gs_gone s"
  "gs_is_error (at_producer p s) = gs_is_error s" "gs_world (at_producer p s) = gs_world s"
  "gs_session (at_producer p s) = gs_session s"
  "gs_queue (at_consumer c s) = gs_queue s" "gs_consumer (at_consumer c s) = c"
  "gs_producer (at_consumer c s) = gs_producer s" "gs_gone (at_consumer c s) = gs_gone s"
  "gs_is_error (at_consumer c s) = gs_is_error s" "gs_world (at_consumer c s) = gs_world s"
  "gs_session (at_consumer c s) = gs_session s"
  by (simp_all add: at_producer_def at_consumer_def)

text \<open>The outcome of a call, seen through a property of states.\<close>

lemma call_cases:
  assumes "\<And>x w. m (gs_world s) = (Inr x, w) \<Longrightarrow> P (ok x (s\<lparr>gs_world := w\<rparr>))"
    and "\<And>e w. m (gs_world s) = (Inl e, w) \<Longrightarrow> P (failed e (s\<lparr>gs_world := w\<rparr>))"
  shows "P (call m ok failed s)"
  using assms by (auto simp: call_def split: prod.split sum.split)

lemma track_keeps:
  assumes "track_event_metadata L e s = Inr s'"
  shows "gs_queue s' = gs_queue s \<and> gs_consumer s' = gs_consumer s \<and> gs_gone s' = gs_gone s \<and>
    gs_world s' = gs_world s \<and> gs_session s' = gs_session s \<and>
    gs_is_error s' = (gs_is_error s \<or> ev_event e = ''error'')"
  using assms
  by (auto simp: track_event_metadata_def track_result_def bind_sum_Inr split: if_splits option.splits)

lemma track_error_raises:
  "track_event_metadata L e s = Inl x \<Longrightarrow> ev_event e \<noteq> ''error''"
  by (auto simp: track_event_metadata_def)

lemma handle_init_keeps [simp]:
  "gs_queue (handle_init_event L e s) = gs_queue s" "gs_consumer (handle_init_event L e s) = gs_consumer s"
  "gs_gone (handle_init_event L e s) = gs_gone s" "gs_world (handle_init_event L e s) = gs_world s"
  "gs_is_error (handle_init_event L e s) = gs_is_error s"
  by (auto simp: handle_init_event_def Let_def split: option.split json.split)

lemma fetched_keeps [simp]:
  "gs_queue (fetched L e s) = gs_queue s" "gs_consumer (fetched L e s) = gs_consumer s"
  "gs_gone (fetched L e s) = gs_gone s" "gs_world (fetched L e s) = gs_world s"
  "gs_is_error (fetched L e s) = (gs_is_error s \<or> ev_event e = ''error'')"
  by (auto simp: fetched_def dest: track_keeps track_error_raises split: sum.split)

text \<open>A step of the producer: it leaves the generator alone and puts at most one item.\<close>

lemma producer_step_queue:
  assumes "producer_step E s = Some (a, s')"
  shows "gs_consumer s' = gs_consumer s \<and> gs_gone s' = gs_gone s \<and> sents [a] = [] \<and> updates [a] = [] \<and>
    (gs_queue s' = gs_queue s \<and> puts [a] = [] \<or>
     (\<exists>x. length (gs_queue s) < queue_size \<and> gs_queue s' = gs_queue s @ [x] \<and> puts [a] = queued [x]))"
  using assms
  by (auto simp: producer_step_def put_item_def fetch_def interrupt_then_def call_def
      split: producer.splits if_splits prod.splits sum.splits option.splits)

text \<open>A step of the generator: it takes at most the first item and sends it.\<close>

lemma consumer_step_queue:
  assumes "consumer_step E s = Some (a, s')"
  shows "gs_gone s' = gs_gone s \<and> puts [a] = [] \<and> goods [a] = [] \<and> fetches [a] = [] \<and>
    (gs_queue s' = gs_queue s \<and> sents [a] = [] \<or>
     (\<exists>x. gs_queue s = x # gs_queue s' \<and> sents [a] = queued [x]))"
  using assms
  by (auto simp: consumer_step_def interrupt_then_def call_def update_session_status_def Let_def
      split: consumer.splits producer.splits if_splits prod.splits sum.splits option.splits list.splits)

inductive_cases task_stepE: "task_step E s a s'"
inductive_cases queue_stepE: "queue_step E s a s'"

section \<open>The queue\<close>

text \<open>What every step does to the queue, the tasks' and the others'.\<close>

lemma task_step_queue:
  assumes "task_step E s a s'"
  shows "gs_queue s' = gs_queue s \<and> puts [a] = [] \<and> sents [a] = [] \<or>
     (\<exists>x. length (gs_queue s) < queue_size \<and> gs_queue s' = gs_queue s @ [x] \<and> puts [a] = queued [x] \<and> sents [a] = []) \<or>
     (\<exists>x. gs_queue s = x # gs_queue s' \<and> sents [a] = queued [x] \<and> puts [a] = [])"
  using assms
  by (rule task_stepE) (use producer_step_queue consumer_step_queue in blast)+

lemma stream_step_queue:
  assumes "queue_step E s a s'"
  shows "gs_queue s' = gs_queue s \<and> puts [a] = [] \<and> sents [a] = [] \<or>
     (\<exists>x. length (gs_queue s) < queue_size \<and> gs_queue s' = gs_queue s @ [x] \<and> puts [a] = queued [x] \<and> sents [a] = []) \<or>
     (\<exists>x. gs_queue s = x # gs_queue s' \<and> sents [a] = queued [x] \<and> puts [a] = [])"
  using assms
proof cases
  case task
  then show ?thesis by (rule task_step_queue)
qed simp_all

lemma queue_bounded:
  "queue_run E (stream_init sid w) tr s \<Longrightarrow> length (gs_queue s) \<le> queue_size"
proof (induction rule: queue_run.induct)
  case none
  show ?case by (simp add: stream_init_def)
next
  case (step tr s' a s'')
  from stream_step_queue [OF step.hyps(2)] step.IH show ?case by auto
qed

lemma queue_fifo:
  "queue_run E (stream_init sid w) tr s \<Longrightarrow> puts tr = sents tr @ queued (gs_queue s)"
proof (induction rule: queue_run.induct)
  case none
  show ?case by (simp add: stream_init_def)
next
  case (step tr s' a s'')
  from stream_step_queue [OF step.hyps(2)] step.IH show ?case
    by (auto split: option.splits simp: queued_def)
qed

text \<open>
  C17: In every run, disconnections and cancellations included, the queue never holds more
  than 100 items, and what was put is what was sent followed by what is still queued, in
  order.
\<close>

theorem stream_queue_bounded:
  assumes "queue_run E (stream_init session_id w) tr s"
  shows "length (gs_queue s) \<le> 100 \<and> puts tr = sents tr @ queued (gs_queue s)"
  using queue_bounded [OF assms] queue_fifo [OF assms] by (simp add: queue_size_def)

section \<open>Where the tasks wait\<close>

text \<open>
  The sentinel is the last item, it is there while the producer's end has not been noticed, and
  a producer that was cancelled is in its handlers.
\<close>

definition is_ended :: "producer \<Rightarrow> bool" where
  "is_ended p \<longleftrightarrow> (\<exists>x. p = Ended x)"

definition in_handlers :: "producer \<Rightarrow> bool" where
  "in_handlers p \<longleftrightarrow> p = ProducerCancelled \<or> (\<exists>x. p = Closing x) \<or> is_ended p"

definition waits_ok :: "'w stream_state \<Rightarrow> bool" where
  "waits_ok s \<longleftrightarrow>
     (\<not> is_ended (gs_producer s) \<longrightarrow> None \<notin> set (gs_queue s)) \<and>
     (is_ended (gs_producer s) \<longrightarrow> gs_consumer s \<in> {Getting, Resuming} \<longrightarrow> None \<in> set (gs_queue s)) \<and>
     None \<notin> set (butlast (gs_queue s)) \<and>
     ((\<exists>x. gs_consumer s = Awaiting x) \<longrightarrow> in_handlers (gs_producer s))"

lemma is_ended_simps [simp]:
  "is_ended (Ended x)" "\<not> is_ended NotStarted" "\<not> is_ended Fetching" "\<not> is_ended (Creating e m)"
  "\<not> is_ended (InitFailed err e)" "\<not> is_ended (Checking e)" "\<not> is_ended Interrupting"
  "\<not> is_ended (Putting e)" "\<not> is_ended Failing" "\<not> is_ended ProducerCancelled" "\<not> is_ended (Closing y)"
  by (simp_all add: is_ended_def)

lemma is_ended_raised [simp]: "\<not> is_ended (raised e)"
  by (simp add: raised_def)

lemma producer_fetched_not_ended [simp]: "\<not> is_ended (gs_producer (fetched L e s))"
  by (auto simp: fetched_def handle_init_event_def init_failed_def Let_def split: sum.split option.split json.split)

text \<open>What a step of the producer can be, by where it waits.\<close>

lemma producer_step_ends:
  assumes "producer_step E s = Some (a, s')"
  shows "\<not> is_ended (gs_producer s) \<and>
    (is_ended (gs_producer s') \<longleftrightarrow> (\<exists>x. gs_producer s = Closing x)) \<and>
    ((\<exists>x. gs_producer s = Closing x) \<longrightarrow> gs_queue s' = gs_queue s @ [None]) \<and>
    ((\<nexists>x. gs_producer s = Closing x) \<longrightarrow> gs_queue s' = gs_queue s \<or> (\<exists>e. gs_queue s' = gs_queue s @ [Some e])) \<and>
    (in_handlers (gs_producer s) \<longrightarrow> in_handlers (gs_producer s'))"
  using assms
  by (auto simp: producer_step_def put_item_def fetch_def interrupt_then_def call_def in_handlers_def init_failed_def
      split: producer.splits if_splits prod.splits sum.splits option.splits)

lemma cancel_producer_handlers: "\<not> is_ended p \<Longrightarrow> in_handlers (cancel_producer p)"
  by (cases p) (simp_all add: in_handlers_def)

lemma butlast_append_item: "None \<notin> set q \<Longrightarrow> None \<notin> set (butlast (q @ [x]))"
  by simp

lemma waits_ok_producer:
  assumes "producer_step E s = Some (a, s')" and "waits_ok s"
  shows "waits_ok s'"
  using producer_step_ends [OF assms(1)] producer_step_queue [OF assms(1)] assms(2)
  by (auto simp: waits_ok_def)

lemma waits_ok_consumer:
  assumes "consumer_step E s = Some (a, s')" and "waits_ok s"
  shows "waits_ok s'"
  using assms
  by (auto simp: consumer_step_def waits_ok_def interrupt_then_def call_def update_session_status_def Let_def in_handlers_def
      split: consumer.splits producer.splits if_splits prod.splits sum.splits option.splits list.splits)

lemma waits_ok_init: "waits_ok (stream_init sid w)"
  by (simp add: waits_ok_def stream_init_def)

lemma waits_ok_task: "task_step E s a s' \<Longrightarrow> waits_ok s \<Longrightarrow> waits_ok s'"
  by (erule task_stepE) (blast intro: waits_ok_producer waits_ok_consumer)+

lemma waits_ok_step:
  assumes "queue_step E s a s'" and "waits_ok s"
  shows "waits_ok s'"
  using assms(1)
proof cases
  case task
  then show ?thesis using assms(2) by (rule waits_ok_task)
qed (use assms(2) in \<open>auto simp: waits_ok_def\<close>)

lemma waits_ok_run: "queue_run E (stream_init sid w) tr s \<Longrightarrow> waits_ok s"
  by (induction rule: queue_run.induct) (blast intro: waits_ok_init waits_ok_step)+

section \<open>Blocking\<close>

text \<open>
  The one way to block: the generator waits for the producer that it cancelled, and the
  producer waits for room in the queue to put the sentinel.
\<close>

definition blocked :: "'w stream_state \<Rightarrow> bool" where
  "blocked s \<longleftrightarrow>
     (\<exists>x. gs_consumer s = Awaiting x) \<and> (\<exists>y. gs_producer s = Closing y) \<and>
     queue_size \<le> length (gs_queue s)"

lemma producer_blocks:
  "producer_step E s = None \<Longrightarrow>
     is_ended (gs_producer s) \<or>
     queue_size \<le> length (gs_queue s) \<and> (in_handlers (gs_producer s) \<longrightarrow> (\<exists>y. gs_producer s = Closing y))"
  by (auto simp: producer_step_def put_item_def in_handlers_def split: producer.splits if_splits)

lemma consumer_blocks:
  "consumer_step E s = None \<Longrightarrow>
     (\<exists>x. gs_consumer s = Finished x) \<or> gs_consumer s = Getting \<and> gs_queue s = [] \<or>
     (\<exists>x. gs_consumer s = Awaiting x) \<and> \<not> is_ended (gs_producer s)"
  by (auto simp: consumer_step_def is_ended_def split: consumer.splits producer.splits list.splits option.splits)

lemma no_task_step:
  assumes "\<nexists>a s'. task_step E s a s'"
  shows "producer_step E s = None \<and> consumer_step E s = None"
  using assms task_step.intros by (metis option.exhaust surj_pair)

lemma queue_size_pos: "0 < queue_size"
  by (simp add: queue_size_def)

lemma blocks_when:
  assumes "waits_ok s" and "\<nexists>a s'. task_step E s a s'"
  shows "(\<exists>x. gs_consumer s = Finished x) \<or> blocked s"
  using no_task_step [OF assms(2)] producer_blocks [of E s] consumer_blocks [of E s] assms(1) queue_size_pos
  by (auto simp: waits_ok_def blocked_def)

text \<open>A blocked stream stays blocked, whatever happens around it.\<close>

lemma blocked_task: "blocked s \<Longrightarrow> \<not> task_step E s a s'"
  by (auto simp: blocked_def producer_step_def consumer_step_def put_item_def elim!: task_stepE)

lemma blocked_stays:
  assumes "queue_step E s a s'" and "blocked s"
  shows "blocked s' \<and> updates [a] = []"
  using assms(1)
proof cases
  case task
  with assms(2) show ?thesis by (simp add: blocked_task)
qed (use assms(2) in \<open>auto simp: blocked_def\<close>)

lemma blocked_forever: "queue_run E s tr s' \<Longrightarrow> blocked s \<Longrightarrow> blocked s' \<and> updates tr = []"
proof (induction rule: queue_run.induct)
  case none
  then show ?case by simp
next
  case (step tr s' a s'')
  with blocked_stays [OF step.hyps(2)] show ?case by simp
qed

section \<open>Termination\<close>

text \<open>Each step of a task uses up some of what is left to do.\<close>

fun producer_rank :: "producer \<Rightarrow> nat" where
  "producer_rank NotStarted = 9"
| "producer_rank Fetching = 8"
| "producer_rank (Creating e m) = 17"
| "producer_rank (InitFailed err e) = 16"
| "producer_rank (Checking e) = 12"
| "producer_rank Interrupting = 7"
| "producer_rank (Putting e) = 11"
| "producer_rank Failing = 6"
| "producer_rank ProducerCancelled = 4"
| "producer_rank (Closing x) = 3"
| "producer_rank (Ended x) = 0"

fun consumer_rank :: "consumer \<Rightarrow> nat" where
  "consumer_rank Getting = 5"
| "consumer_rank Resuming = 6"
| "consumer_rank Signalling = 4"
| "consumer_rank (Cleaning x) = 3"
| "consumer_rank (Awaiting x) = 2"
| "consumer_rank (Updating x) = 1"
| "consumer_rank (Finished x) = 0"

text \<open>
  \<open>bounded_services E \<mu>\<close>: the service sends at most \<open>\<mu>\<close> more events, and no call makes it more.
\<close>

definition no_more :: "('w \<Rightarrow> nat) \<Rightarrow> ('w, 'a) io \<Rightarrow> bool" where
  "no_more \<mu> m \<longleftrightarrow> (\<forall>w. \<mu> (snd (m w)) \<le> \<mu> w)"

definition bounded_services :: "'w stream_services \<Rightarrow> ('w \<Rightarrow> nat) \<Rightarrow> bool" where
  "bounded_services E \<mu> \<longleftrightarrow>
     (\<forall>w e w'. sv_next E w = (Inr (Some e), w') \<longrightarrow> \<mu> w' < \<mu> w) \<and> no_more \<mu> (sv_next E) \<and>
     (\<forall>i. no_more \<mu> (sv_interrupt E i)) \<and> (\<forall>m i. no_more \<mu> (sv_create E m i)) \<and>
     (\<forall>i st n c. no_more \<mu> (sv_update E i st n c))"

definition work_left :: "('w \<Rightarrow> nat) \<Rightarrow> 'w stream_state \<Rightarrow> nat" where
  "work_left \<mu> s =
     10 * \<mu> (gs_world s) + producer_rank (gs_producer s) + 2 * length (gs_queue s) + consumer_rank (gs_consumer s)"

lemma fetched_rank: "producer_rank (gs_producer (fetched L e s)) \<le> 17"
  by (auto simp: fetched_def handle_init_event_def init_failed_def raised_def Let_def
      split: sum.split option.split json.split)

lemma raised_rank: "producer_rank (raised e) \<le> 6"
  by (simp add: raised_def)

lemma no_moreD: "no_more \<mu> m \<Longrightarrow> m w = (r, w') \<Longrightarrow> \<mu> w' \<le> \<mu> w"
  by (metis no_more_def snd_conv)

lemma bounded_next: "bounded_services E \<mu> \<Longrightarrow> sv_next E w = (Inr (Some e), w') \<Longrightarrow> \<mu> w' < \<mu> w"
  by (simp add: bounded_services_def)

lemma bounded_calls:
  assumes "bounded_services E \<mu>"
  shows "no_more \<mu> (sv_next E)" and "no_more \<mu> (sv_interrupt E i)" and "no_more \<mu> (sv_create E m i)"
    and "no_more \<mu> (sv_update E i st n c)"
  using assms by (simp_all add: bounded_services_def)

lemmas bounded_end = bounded_calls(1) [THEN no_moreD]
  and bounded_interrupt = bounded_calls(2) [THEN no_moreD]
  and bounded_create = bounded_calls(3) [THEN no_moreD]
  and bounded_update = bounded_calls(4) [THEN no_moreD]

lemma interrupt_then_work:
  assumes "bounded_services E \<mu>"
    and "\<And>w. \<mu> w \<le> \<mu> (gs_world s) \<Longrightarrow> work_left \<mu> (ok (s\<lparr>gs_world := w\<rparr>)) < k"
    and "\<And>x w. \<mu> w \<le> \<mu> (gs_world s) \<Longrightarrow> work_left \<mu> (failed x (s\<lparr>gs_world := w\<rparr>)) < k"
  shows "work_left \<mu> (interrupt_then E ok failed s) < k"
  using assms(2) [of "gs_world s"] assms(2,3) bounded_interrupt [OF assms(1)]
  by (auto simp: interrupt_then_def intro!: call_cases [where P = "\<lambda>s. work_left \<mu> s < k"])

lemma fetch_work:
  assumes "bounded_services E \<mu>" and "gs_producer s = Fetching" and "fetch E s = (a, s')"
  shows "work_left \<mu> s' < work_left \<mu> s"
proof -
  obtain r w where next_event: "sv_next E (gs_world s) = (r, w)" by (cases "sv_next E (gs_world s)")
  show ?thesis
  proof (cases r)
    case (Inl x)
    with next_event assms(2,3) bounded_end [OF assms(1) next_event] raised_rank [of x] show ?thesis
      by (auto simp: fetch_def work_left_def)
  next
    case (Inr y)
    show ?thesis
    proof (cases y)
      case None
      with Inr next_event assms(2,3) bounded_end [OF assms(1) next_event] show ?thesis
        by (auto simp: fetch_def work_left_def)
    next
      case (Some e)
      with Inr next_event have "\<mu> w < \<mu> (gs_world s)" using bounded_next [OF assms(1)] by blast
      with Some Inr next_event assms(2,3) fetched_rank [of "sv_lib E" e "s\<lparr>gs_world := w\<rparr>"] show ?thesis
        by (auto simp: fetch_def work_left_def)
    qed
  qed
qed

lemma producer_work:
  assumes "bounded_services E \<mu>" and "producer_step E s = Some (a, s')"
  shows "work_left \<mu> s' < work_left \<mu> s"
proof (cases "gs_producer s")
  case Fetching
  with assms show ?thesis
    by (intro fetch_work [OF assms(1)]) (auto simp: producer_step_def)
next
  case (Creating e m)
  have "work_left \<mu> (call (sv_create E m (gs_session s)) (\<lambda>_. at_producer (Checking e))
      (\<lambda>x. at_producer (if is_exception x then init_failed (sv_lib E) e else ProducerCancelled)) s) < work_left \<mu> s"
    using Creating bounded_create [OF assms(1)]
    by (intro call_cases [where P = "\<lambda>s'. work_left \<mu> s' < work_left \<mu> s"])
       (force simp: work_left_def init_failed_def)+
  with Creating assms(2) show ?thesis by (auto simp: producer_step_def)
next
  case Interrupting
  have "work_left \<mu> (interrupt_then E (at_producer (Closing None)) (\<lambda>x. at_producer (raised x)) s) < work_left \<mu> s"
    using Interrupting
    by (intro interrupt_then_work [OF assms(1)]) (simp_all add: work_left_def raised_def)
  with Interrupting assms(2) show ?thesis by (auto simp: producer_step_def)
next
  case ProducerCancelled
  have "work_left \<mu> (interrupt_then E (at_producer (Closing (Some CancelledError)))
      (\<lambda>x. at_producer (Closing (Some x))) s) < work_left \<mu> s"
    using ProducerCancelled by (intro interrupt_then_work [OF assms(1)]) (simp_all add: work_left_def)
  with ProducerCancelled assms(2) show ?thesis by (auto simp: producer_step_def)
qed (use assms(2) in \<open>auto simp: producer_step_def put_item_def work_left_def split: if_splits\<close>)

lemma cancel_rank: "producer_rank (cancel_producer p) \<le> producer_rank p"
  by (cases p) simp_all

lemma consumer_work:
  assumes "bounded_services E \<mu>" and "consumer_step E s = Some (a, s')"
  shows "work_left \<mu> s' < work_left \<mu> s"
proof (cases "gs_consumer s")
  case Signalling
  have "work_left \<mu> (interrupt_then E (at_consumer (Cleaning (Some CancelledError)))
      (\<lambda>x. at_consumer (Cleaning (Some x))) s) < work_left \<mu> s"
    using Signalling by (intro interrupt_then_work [OF assms(1)]) (simp_all add: work_left_def)
  with Signalling assms(2) show ?thesis by (auto simp: consumer_step_def)
next
  case (Cleaning x)
  with assms(2) cancel_rank [of "gs_producer s"] show ?thesis
    by (auto simp: consumer_step_def work_left_def split: producer.splits)
next
  case (Updating x)
  have "work_left \<mu> (call (sv_update E i st n c) (\<lambda>_. at_consumer (Finished x))
      (\<lambda>e. at_consumer (Finished (Some e))) s) < work_left \<mu> s" for i st n c
    using Updating bounded_update [OF assms(1)]
    by (intro call_cases [where P = "\<lambda>s'. work_left \<mu> s' < work_left \<mu> s"]) (force simp: work_left_def)+
  with Updating assms(2) show ?thesis
    by (auto simp: consumer_step_def update_session_status_def Let_def work_left_def split: if_splits)
qed (use assms(2) in \<open>auto simp: consumer_step_def work_left_def split: list.splits option.splits producer.splits if_splits\<close>)

lemma task_work:
  assumes "bounded_services E \<mu>" and "task_step E s a s'"
  shows "work_left \<mu> s' < work_left \<mu> s"
  using assms(2) by (rule task_stepE) (blast intro: producer_work consumer_work assms(1))+

text \<open>
  With services that yield a bounded number of events every step of the two tasks uses
  up work, so no run of them alone is longer than the work that was left.
\<close>

theorem stream_tasks_stop:
  assumes "bounded_services E \<mu>" and "task_run E s tr s'"
  shows "length tr + work_left \<mu> s' \<le> work_left \<mu> s"
  using assms(2)
proof (induction rule: task_run.induct)
  case none
  show ?case by simp
next
  case (step tr s' a s'')
  with task_work [OF assms(1) step.hyps(2)] show ?case by simp
qed

section \<open>A client that stays\<close>

text \<open>When nothing cancels the tasks, the generator goes on until the sentinel, after which all is sent.\<close>

definition undisturbed :: "'w stream_state \<Rightarrow> bool" where
  "undisturbed s \<longleftrightarrow>
     \<not> gs_gone s \<and> gs_producer s \<noteq> ProducerCancelled \<and> gs_producer s \<noteq> Interrupting \<and>
     (gs_consumer s \<in> {Getting, Resuming} \<or>
      gs_queue s = [] \<and> is_ended (gs_producer s) \<and>
      (gs_consumer s \<in> {Cleaning None, Updating None} \<or> (\<exists>x. gs_consumer s = Finished x)))"

definition calm_services :: "'w stream_services \<Rightarrow> bool" where
  "calm_services E \<longleftrightarrow> calm (sv_next E) \<and> (\<forall>m i. calm (sv_create E m i))"

lemma calm_sum_in_json [calm_intros]: "calm_sum (in_json j k)"
  by (cases j) (auto intro!: calm_intros)

lemma calm_sum_json_item [calm_intros]: "calm_sum (json_item j k)"
  by (cases j) (auto intro!: calm_intros)

lemma calm_sum_track [calm_intros]: "calm_sum (track_event_metadata L e s)"
  unfolding track_event_metadata_def track_result_def item_if_there_def by (intro calm_intros)

lemma raised_calm: "is_exception x \<Longrightarrow> raised x = Failing"
  by (simp add: raised_def)

text \<open>Where the producer is after it fetched an event.\<close>

definition pending :: "producer \<Rightarrow> agent_event list" where
  "pending p =
     (case p of Creating e m \<Rightarrow> [e] | InitFailed err e \<Rightarrow> [e] | Checking e \<Rightarrow> [e] | Putting e \<Rightarrow> [e] | _ \<Rightarrow> [])"

lemma pending_simps [simp]:
  "pending NotStarted = []" "pending Fetching = []" "pending (Creating e m) = [e]"
  "pending (InitFailed err e) = [e]" "pending (Checking e) = [e]" "pending Interrupting = []"
  "pending (Putting e) = [e]" "pending Failing = []" "pending ProducerCancelled = []"
  "pending (Closing x) = []" "pending (Ended x) = []"
  by (simp_all add: pending_def)

lemma fetched_producer:
  "pending (gs_producer (fetched L e s)) = [e] \<and>
     gs_producer (fetched L e s) \<notin> {ProducerCancelled, Interrupting, Failing, Fetching} \<or>
   gs_producer (fetched L e s) = Failing"
proof (cases "track_event_metadata L e s")
  case (Inl x)
  with calm_sum_track [of L e s] have "is_exception x" by (simp add: calm_sum_def)
  with Inl show ?thesis by (simp add: fetched_def raised_def)
next
  case (Inr s')
  then show ?thesis
    by (auto simp: fetched_def handle_init_event_def init_failed_def Let_def split: option.split json.split)
qed

lemma undisturbed_producer:
  assumes "calm_services E" and "producer_step E s = Some (a, s')" and "undisturbed s"
  shows "undisturbed s'"
proof -
  from producer_step_ends [OF assms(2)] assms(3) have c: "gs_consumer s \<in> {Getting, Resuming}"
    by (auto simp: undisturbed_def)
  have "gs_producer s' \<notin> {ProducerCancelled, Interrupting}"
  proof (cases "gs_producer s")
    case Fetching
    obtain r w where n: "sv_next E (gs_world s) = (r, w)" by (cases "sv_next E (gs_world s)")
    with calmD [of "sv_next E"] assms(1) have "r = Inl x \<Longrightarrow> is_exception x" for x
      by (auto simp: calm_services_def)
    with Fetching n assms(2) fetched_producer [of "sv_lib E" _ "s\<lparr>gs_world := w\<rparr>"] show ?thesis
      by (fastforce simp: producer_step_def fetch_def raised_def split: sum.splits option.splits)
  next
    case (Creating e m)
    obtain r w where n: "sv_create E m (gs_session s) (gs_world s) = (r, w)"
      by (cases "sv_create E m (gs_session s) (gs_world s)")
    with calmD [of "sv_create E m (gs_session s)"] assms(1) have "r = Inl x \<Longrightarrow> is_exception x" for x
      by (auto simp: calm_services_def)
    with Creating n assms(2) show ?thesis
      by (auto simp: producer_step_def call_def init_failed_def split: sum.splits)
  qed (use assms(2,3) in \<open>auto simp: producer_step_def put_item_def undisturbed_def split: if_splits\<close>)
  with c producer_step_queue [OF assms(2)] assms(3) show ?thesis
    by (auto simp: undisturbed_def)
qed

lemma undisturbed_consumer:
  assumes "consumer_step E s = Some (a, s')" and "undisturbed s" and "waits_ok s"
  shows "undisturbed s'"
proof (cases "gs_consumer s")
  case Getting
  then show ?thesis
  proof (cases "gs_queue s")
    case (Cons x q)
    show ?thesis
    proof (cases x)
      case None
      with Cons assms(3) have "is_ended (gs_producer s)" and "q = []"
        by (auto simp: waits_ok_def split: if_splits)
      with Getting Cons None assms show ?thesis
        by (auto simp: consumer_step_def undisturbed_def)
    next
      case (Some e)
      with Getting Cons assms show ?thesis
        by (auto simp: consumer_step_def undisturbed_def)
    qed
  qed (use Getting assms in \<open>auto simp: consumer_step_def\<close>)
next
  case (Updating x)
  with assms show ?thesis
    by (auto simp: consumer_step_def undisturbed_def update_session_status_def Let_def call_def
        split: if_splits prod.splits sum.splits)
qed (use assms in \<open>auto simp: consumer_step_def undisturbed_def is_ended_def\<close>)

lemma undisturbed_run:
  assumes "calm_services E"
  shows "task_run E (stream_init sid w) tr s \<Longrightarrow> undisturbed s \<and> waits_ok s"
proof (induction rule: task_run.induct)
  case none
  show ?case using waits_ok_init by (auto simp: undisturbed_def stream_init_def)
next
  case (step tr s' a s'')
  then show ?case
    by (auto elim!: task_stepE intro: undisturbed_producer [OF assms] undisturbed_consumer
        waits_ok_producer waits_ok_consumer)
qed

text \<open>
  What was fetched has been put or is about to be, until the producer fails; after that no more
  is fetched or put but the error.
\<close>

definition failing :: "pylib \<Rightarrow> action list \<Rightarrow> producer \<Rightarrow> bool" where
  "failing L tr p \<longleftrightarrow>
     p = Failing \<or> PutError (producer_error L) \<in> set tr \<and> in_handlers p \<and> p \<noteq> ProducerCancelled"

definition fetch_ok :: "pylib \<Rightarrow> action list \<Rightarrow> 'w stream_state \<Rightarrow> bool" where
  "fetch_ok L tr s \<longleftrightarrow>
     fetches tr = goods tr @ pending (gs_producer s) \<or>
     prefix (goods tr) (fetches tr) \<and> failing L tr (gs_producer s)"

lemma in_handlers_simps [simp]:
  "in_handlers (Closing x)" "in_handlers (Ended x)" "in_handlers ProducerCancelled"
  "\<not> in_handlers NotStarted" "\<not> in_handlers Fetching" "\<not> in_handlers (Creating e m)"
  "\<not> in_handlers (InitFailed err e)" "\<not> in_handlers (Checking e)" "\<not> in_handlers Interrupting"
  "\<not> in_handlers (Putting e)" "\<not> in_handlers Failing"
  by (simp_all add: in_handlers_def)

lemma fetch_ok_fetching:
  assumes "calm_services E" and "gs_producer s = Fetching" and "fetch E s = (a, s')" and "fetch_ok (sv_lib E) tr s"
  shows "fetch_ok (sv_lib E) (tr @ [a]) s'"
proof -
  from assms(2,4) have eq: "fetches tr = goods tr" by (simp add: fetch_ok_def failing_def)
  obtain r w where n: "sv_next E (gs_world s) = (r, w)" by (cases "sv_next E (gs_world s)")
  show ?thesis
  proof (cases r)
    case (Inl x)
    with calmD [of "sv_next E"] assms(1) n have "is_exception x" by (auto simp: calm_services_def)
    with Inl n assms(3) eq show ?thesis
      by (auto simp: fetch_def fetch_ok_def raised_def)
  next
    case (Inr y)
    show ?thesis
    proof (cases y)
      case None
      with Inr n assms(3) eq show ?thesis by (auto simp: fetch_def fetch_ok_def)
    next
      case (Some e)
      with Inr n assms(3) eq fetched_producer [of "sv_lib E" e "s\<lparr>gs_world := w\<rparr>"] show ?thesis
        by (auto simp: fetch_def fetch_ok_def failing_def)
    qed
  qed
qed

lemma fetch_ok_producer:
  assumes "calm_services E" and "producer_step E s = Some (a, s')" and "undisturbed s"
    and "fetch_ok (sv_lib E) tr s"
  shows "fetch_ok (sv_lib E) (tr @ [a]) s'"
proof (cases "gs_producer s")
  case Fetching
  with assms show ?thesis
    by (intro fetch_ok_fetching [OF assms(1)]) (auto simp: producer_step_def)
next
  case (Creating e m)
  obtain r w where n: "sv_create E m (gs_session s) (gs_world s) = (r, w)"
    by (cases "sv_create E m (gs_session s) (gs_world s)")
  with calmD [of "sv_create E m (gs_session s)"] assms(1) have "r = Inl x \<Longrightarrow> is_exception x" for x
    by (auto simp: calm_services_def)
  with Creating n assms(2,4) show ?thesis
    by (auto simp: producer_step_def call_def init_failed_def fetch_ok_def failing_def split: sum.splits)
qed (use assms(2-4) in \<open>auto simp: producer_step_def put_item_def undisturbed_def fetch_ok_def failing_def split: if_splits\<close>)

text \<open>The flag that decides the status.\<close>

definition saw_error :: "pylib \<Rightarrow> action list \<Rightarrow> bool" where
  "saw_error L tr \<longleftrightarrow>
     (\<exists>e \<in> set (fetches tr). ev_event e = ''error'') \<or> (\<exists>e. PutError e \<in> set tr \<and> e \<noteq> producer_error L)"

lemma init_errors_differ:
  assumes "pylib_laws L"
  shows "stream_error L ''Session creation failed'' ''Unable to initialize session'' \<noteq> producer_error L"
    and "stream_error L ''Session initialization failed'' ''Invalid session initialization format'' \<noteq> producer_error L"
proof -
  have "json_dumps L (JObj [(''error'', JStr a), (''message'', JStr b)]) \<noteq>
      json_dumps L (JObj [(''error'', JStr c), (''message'', JStr d)])" if "a \<noteq> c" for a b c d
    using that pylib_laws.loads_dumps [OF assms, of "JObj [(''error'', JStr a), (''message'', JStr b)]"]
      pylib_laws.loads_dumps [OF assms, of "JObj [(''error'', JStr c), (''message'', JStr d)]"] by auto
  then show "stream_error L ''Session creation failed'' ''Unable to initialize session'' \<noteq> producer_error L"
    and "stream_error L ''Session initialization failed'' ''Invalid session initialization format'' \<noteq> producer_error L"
    by (simp_all add: stream_error_def producer_error_def format_sse_def)
qed

definition init_errors_ok :: "pylib \<Rightarrow> 'w stream_state \<Rightarrow> bool" where
  "init_errors_ok L s \<longleftrightarrow> (\<forall>err e. gs_producer s = InitFailed err e \<longrightarrow> err \<noteq> producer_error L)"

definition status_ok :: "pylib \<Rightarrow> action list \<Rightarrow> 'w stream_state \<Rightarrow> bool" where
  "status_ok L tr s \<longleftrightarrow>
     gs_is_error s = saw_error L tr \<and> init_errors_ok L s \<and>
     updates tr =
       (if (\<exists>x. gs_consumer s = Finished x) \<and> truthy (gs_session s)
        then [Updated (gs_session s) (if gs_is_error s then ''error'' else ''completed'') (gs_num_turns s) (gs_total_cost s)] else [])"

lemma saw_error_append:
  "saw_error L (tr @ [a]) \<longleftrightarrow>
     saw_error L tr \<or> (\<exists>e. a = Fetched e \<and> ev_event e = ''error'') \<or> (\<exists>e. a = PutError e \<and> e \<noteq> producer_error L)"
  by (cases a) (auto simp: saw_error_def)

lemma raised_no_init [simp]: "raised x \<noteq> InitFailed err e"
  by (simp add: raised_def)

lemma init_errors_fetched:
  assumes "pylib_laws L"
  shows "init_errors_ok L (fetched L e s)"
  using init_errors_differ [OF assms]
  by (auto simp: init_errors_ok_def fetched_def handle_init_event_def init_failed_def raised_def Let_def
      split: sum.split option.split json.split)

lemma status_ok_producer:
  assumes "pylib_laws (sv_lib E)" and "producer_step E s = Some (a, s')" and "undisturbed s"
    and "status_ok (sv_lib E) tr s"
  shows "status_ok (sv_lib E) (tr @ [a]) s'"
proof -
  from producer_step_ends [OF assms(2)] assms(3) have c: "gs_consumer s \<in> {Getting, Resuming}"
    by (auto simp: undisturbed_def)
  from assms(4) have old: "gs_is_error s = saw_error (sv_lib E) tr" "init_errors_ok (sv_lib E) s"
    by (simp_all add: status_ok_def)
  have "gs_is_error s' = saw_error (sv_lib E) (tr @ [a]) \<and> init_errors_ok (sv_lib E) s'"
  proof (cases "gs_producer s")
    case Fetching
    with assms(2) old init_errors_fetched [OF assms(1)] show ?thesis
      by (auto simp: producer_step_def fetch_def saw_error_append init_errors_ok_def
          split: prod.splits sum.splits option.splits)
  next
    case (Creating e m)
    with assms(2) old init_errors_differ [OF assms(1)] show ?thesis
      by (auto simp: producer_step_def call_def saw_error_append init_errors_ok_def init_failed_def
          split: prod.splits sum.splits if_splits)
  qed (use assms(2,3) old in \<open>auto simp: producer_step_def put_item_def saw_error_append init_errors_ok_def
        undisturbed_def split: if_splits\<close>)
  with c producer_step_queue [OF assms(2)] assms(4) show ?thesis
    by (auto simp: status_ok_def)
qed

lemma status_ok_consumer:
  assumes "consumer_step E s = Some (a, s')" and "undisturbed s" and "status_ok (sv_lib E) tr s"
  shows "status_ok (sv_lib E) (tr @ [a]) s'"
proof (cases "gs_consumer s")
  case (Updating x)
  obtain r w where u: "sv_update E (gs_session s) (if gs_is_error s then ''error'' else ''completed'')
      (gs_num_turns s) (gs_total_cost s) (gs_world s) = (r, w)"
    by fastforce
  with Updating assms show ?thesis
    by (cases r; cases "gs_is_error s"; cases "truthy (gs_session s)")
       (auto simp: consumer_step_def update_session_status_def Let_def call_def at_consumer_def status_ok_def
          saw_error_append init_errors_ok_def)
qed (use assms in \<open>auto simp: consumer_step_def status_ok_def undisturbed_def is_ended_def saw_error_append
      init_errors_ok_def at_consumer_def split: list.splits option.splits\<close>)

lemma fetch_ok_consumer:
  assumes "consumer_step E s = Some (a, s')" and "undisturbed s" and "fetch_ok L tr s"
  shows "fetch_ok L (tr @ [a]) s'"
proof -
  have "gs_producer s' = gs_producer s"
    using assms(1,2)
    by (auto simp: consumer_step_def undisturbed_def is_ended_def update_session_status_def call_def Let_def
        split: list.splits option.splits prod.splits sum.splits if_splits)
  with consumer_step_queue [OF assms(1)] assms(3) show ?thesis
    by (auto simp: fetch_ok_def failing_def)
qed

lemma served_run:
  assumes "pylib_laws (sv_lib E)" and "calm_services E"
  shows "task_run E (stream_init sid w) tr s \<Longrightarrow>
    undisturbed s \<and> waits_ok s \<and> fetch_ok (sv_lib E) tr s \<and> status_ok (sv_lib E) tr s"
proof (induction rule: task_run.induct)
  case none
  show ?case
    using undisturbed_run [OF assms(2) task_run.none, of sid w]
    by (simp add: fetch_ok_def status_ok_def saw_error_def init_errors_ok_def stream_init_def)
next
  case (step tr s' a s'')
  from undisturbed_run [OF assms(2) task_run.step [OF step.hyps]] have "undisturbed s'' \<and> waits_ok s''" .
  with step show ?case
    by (auto elim!: task_stepE intro: fetch_ok_producer [OF assms(2)] fetch_ok_consumer
        status_ok_producer [OF assms(1)] status_ok_consumer)
qed

lemma task_run_queue_run: "task_run E s tr s' \<Longrightarrow> queue_run E s tr s'"
  by (induction rule: task_run.induct) (blast intro: queue_run.intros queue_step.task)+

text \<open>
  With services that raise no cancellation and a client that stays, the two tasks of a
  stream stop only when the generator has finished: it sent exactly what the producer put,
  in order, up to the first event that could not be tracked, and updated the session once
  with error or completed.
\<close>

theorem stream_delivers:
  assumes "pylib_laws (sv_lib E)" and "calm_services E"
    and "task_run E (stream_init session_id w) tr s" and "\<nexists>a s'. task_step E s a s'"
  shows "(\<exists>x. gs_consumer s = Finished x) \<and> sents tr = puts tr \<and> prefix (goods tr) (fetches tr) \<and>
    (PutError (producer_error (sv_lib E)) \<notin> set tr \<longrightarrow> goods tr = fetches tr) \<and>
    updates tr =
      (if truthy (gs_session s)
       then [Updated (gs_session s) (if saw_error (sv_lib E) tr then ''error'' else ''completed'') (gs_num_turns s) (gs_total_cost s)]
       else [])"
proof -
  from served_run [OF assms(1-3)] have u: "undisturbed s" and ok: "waits_ok s"
    and f: "fetch_ok (sv_lib E) tr s" and st: "status_ok (sv_lib E) tr s" by auto
  from blocks_when [OF ok assms(4)] u have fin: "\<exists>x. gs_consumer s = Finished x"
    by (auto simp: undisturbed_def blocked_def)
  with u have "gs_queue s = []" and "is_ended (gs_producer s)" by (auto simp: undisturbed_def)
  with queue_fifo [OF task_run_queue_run [OF assms(3)]] f st fin show ?thesis
    by (auto simp: fetch_ok_def failing_def is_ended_def status_ok_def)
qed

section \<open>A client that leaves\<close>

text \<open>
  A service that sends as many messages as its world says. The client takes the first and reads
  no more; the queue fills up, and when the client leaves, the cancelled producer has no room
  for its sentinel.
\<close>

definition chatter :: agent_event where
  "chatter = \<lparr>ev_event = ''message'', ev_data = ''{}''\<rparr>"

definition chatty :: "nat stream_services" where
  "chatty =
     \<lparr>sv_lib = ref_lib,
      sv_next = (\<lambda>n. case n of 0 \<Rightarrow> (Inr None, 0) | Suc m \<Rightarrow> (Inr (Some chatter), m)),
      sv_interrupt = (\<lambda>i n. (Inr True, n)), sv_create = (\<lambda>m i n. (Inr (), n)),
      sv_update = (\<lambda>i st t c n. (Inr (), n))\<rparr>"

lemma chatty_bounded: "bounded_services chatty id"
  by (auto simp: bounded_services_def no_more_def chatty_def split: nat.splits)

lemma chatty_calm: "calm_services chatty"
  by (auto simp: calm_services_def calm_def chatty_def split: nat.splits)

lemma queue_run_trans: "queue_run E s' tr' s'' \<Longrightarrow> queue_run E s tr s' \<Longrightarrow> queue_run E s (tr @ tr') s''"
proof (induction rule: queue_run.induct)
  case none
  then show ?case by simp
next
  case (step tr' s1 a s2)
  then have "queue_run E s ((tr @ tr') @ [a]) s2" by (blast intro: queue_run.step)
  then show ?case by simp
qed

lemma queue_run_first: "queue_step E s a s' \<Longrightarrow> queue_run E s' tr s'' \<Longrightarrow> queue_run E s (a # tr) s''"
  using queue_run_trans [of E s' tr s'' s "[a]"] queue_run.step [OF queue_run.none, of E s a s'] by simp

lemmas queue_run_produce = queue_run_first [OF queue_step.task [OF task_step.produce]]
  and queue_run_consume = queue_run_first [OF queue_step.task [OF task_step.consume]]
  and queue_run_close = queue_run_first [OF queue_step.close]

text \<open>Three steps put a message; with room for all, \<open>k\<close> messages are put.\<close>

lemma chatty_puts_one:
  assumes "gs_producer s = Fetching" and "gs_world s = Suc m" and "gs_num_turns s = JInt t"
    and "gs_session s = JStr i" and "\<not> gs_gone s" and "length (gs_queue s) < queue_size"
  shows "queue_run chatty s [Fetched chatter, Silent, Put chatter]
    (s\<lparr>gs_world := m, gs_num_turns := JInt (t + 1), gs_queue := gs_queue s @ [Some chatter]\<rparr>)"
proof -
  let ?s1 = "s\<lparr>gs_world := m, gs_num_turns := JInt (t + 1), gs_producer := Checking chatter\<rparr>"
  let ?s2 = "?s1\<lparr>gs_producer := Putting chatter\<rparr>"
  have "producer_step chatty s = Some (Fetched chatter, ?s1)"
    using assms
    by (simp add: producer_step_def fetch_def chatty_def fetched_def track_event_metadata_def chatter_def py_plus_def
        at_producer_def)
  moreover have "producer_step chatty ?s1 = Some (Silent, ?s2)"
    using assms by (simp add: producer_step_def at_producer_def)
  moreover have "producer_step chatty ?s2 = Some (Put chatter,
      s\<lparr>gs_world := m, gs_num_turns := JInt (t + 1), gs_queue := gs_queue s @ [Some chatter]\<rparr>)"
    using assms by (simp add: producer_step_def at_producer_def put_item_def)
  ultimately show ?thesis
    by (blast intro: queue_run_produce queue_run.none)
qed

lemma chatty_puts:
  assumes "gs_producer s = Fetching" and "gs_num_turns s = JInt t"
    and "gs_session s = JStr i" and "\<not> gs_gone s"
    and "gs_world s = k + m" and "length (gs_queue s) + k \<le> queue_size"
  shows "\<exists>tr t'. updates tr = [] \<and> queue_run chatty s tr
    (s\<lparr>gs_world := m, gs_num_turns := JInt t', gs_queue := gs_queue s @ replicate k (Some chatter)\<rparr>)"
  using assms
proof (induction k arbitrary: s t)
  case 0
  then have "s\<lparr>gs_world := m, gs_num_turns := JInt t, gs_queue := gs_queue s @ replicate 0 (Some chatter)\<rparr> = s" by simp
  then show ?case using queue_run.none by (metis updates.simps(1))
next
  case (Suc k)
  let ?s = "s\<lparr>gs_world := k + m, gs_num_turns := JInt (t + 1), gs_queue := gs_queue s @ [Some chatter]\<rparr>"
  from Suc.prems have first: "queue_run chatty s [Fetched chatter, Silent, Put chatter] ?s"
    by (intro chatty_puts_one) auto
  from Suc.IH [of ?s "t + 1"] Suc.prems obtain tr t' where none: "updates tr = []" and
      "queue_run chatty ?s tr (?s\<lparr>gs_world := m, gs_num_turns := JInt t',
         gs_queue := gs_queue ?s @ replicate k (Some chatter)\<rparr>)"
    by auto
  from queue_run_trans [OF this(2) first] none show ?case
    by (intro exI [of _ "[Fetched chatter, Silent, Put chatter] @ tr"] exI [of _ t']) simp
qed

text \<open>With a full queue and one more message at hand, a client that leaves blocks the stream.\<close>

lemma chatty_leaves:
  assumes "gs_producer s = Fetching" and "gs_world s = Suc m" and "gs_num_turns s = JInt t"
    and "gs_session s = JStr (c # i)" and "\<not> gs_gone s" and "length (gs_queue s) = queue_size"
    and "gs_consumer s = Resuming"
  shows "\<exists>tr s'. updates tr = [] \<and> queue_run chatty s tr s' \<and> blocked s'"
proof -
  let ?s1 = "s\<lparr>gs_world := m, gs_num_turns := JInt (t + 1), gs_producer := Checking chatter\<rparr>"
  let ?s2 = "?s1\<lparr>gs_producer := Putting chatter\<rparr>"
  let ?s3 = "?s2\<lparr>gs_consumer := Cleaning None\<rparr>"
  let ?s4 = "?s3\<lparr>gs_producer := ProducerCancelled, gs_consumer := Awaiting None\<rparr>"
  let ?s5 = "?s4\<lparr>gs_producer := Closing (Some CancelledError)\<rparr>"
  have p1: "producer_step chatty s = Some (Fetched chatter, ?s1)"
    using assms
    by (simp add: producer_step_def fetch_def chatty_def fetched_def track_event_metadata_def chatter_def py_plus_def
        at_producer_def)
  have p2: "producer_step chatty ?s1 = Some (Silent, ?s2)"
    using assms by (simp add: producer_step_def at_producer_def)
  have p3: "queue_step chatty ?s2 Stopped ?s3"
    using queue_step.close [of ?s2 chatty] assms by (simp add: at_consumer_def)
  have p4: "consumer_step chatty ?s3 = Some (Silent, ?s4)"
    by (simp add: consumer_step_def at_producer_def at_consumer_def)
  have p5: "producer_step chatty ?s4 = Some (Silent, ?s5)"
    using assms by (simp add: producer_step_def interrupt_then_def call_def at_producer_def chatty_def)
  have "queue_run chatty s [Fetched chatter, Silent, Stopped, Silent, Silent] ?s5"
    by (rule queue_run_produce [OF p1 queue_run_produce [OF p2 queue_run_first [OF p3
          queue_run_consume [OF p4 queue_run_produce [OF p5 queue_run.none]]]]])
  moreover have "blocked ?s5" using assms by (simp add: blocked_def)
  ultimately show ?thesis by (intro exI [of _ "[Fetched chatter, Silent, Stopped, Silent, Silent]"] exI [of _ ?s5]) simp
qed

text \<open>
  A client that leaves while the event queue is full can leave the stream stuck: there
  is a run after which the generator awaits its producer forever, because the producer's
  last put waits for room, and the session's status is never updated.
\<close>

theorem stream_can_block:
  "\<exists>tr s. queue_run chatty (stream_init (Some ''s1'') 102) tr s \<and> updates tr = [] \<and>
     (\<forall>tr' s'. queue_run chatty s tr' s' \<longrightarrow> (\<exists>x. gs_consumer s' = Awaiting x) \<and> updates tr' = [])"
proof -
  let ?s0 = "stream_init (Some ''s1'') 102 :: nat stream_state"
  let ?s1 = "?s0\<lparr>gs_producer := Fetching\<rparr>"
  let ?s2 = "?s1\<lparr>gs_world := 101, gs_num_turns := JInt 1, gs_queue := [Some chatter]\<rparr>"
  let ?s3 = "?s2\<lparr>gs_queue := [], gs_consumer := Resuming\<rparr>"
  have a: "producer_step chatty ?s0 = Some (Silent, ?s1)"
    by (simp add: producer_step_def stream_init_def at_producer_def)
  have b: "queue_run chatty ?s1 [Fetched chatter, Silent, Put chatter] ?s2"
    using chatty_puts_one [of ?s1 101 0 "''s1''"] by (simp add: stream_init_def queue_size_def)
  have c: "consumer_step chatty ?s2 = Some (Sent chatter, ?s3)"
    by (simp add: consumer_step_def stream_init_def at_consumer_def)
  have world: "101 = queue_size + 1" by (simp add: queue_size_def)
  have "\<exists>tr t'. updates tr = [] \<and> queue_run chatty ?s3 tr (?s3\<lparr>gs_world := 1, gs_num_turns := JInt t',
      gs_queue := gs_queue ?s3 @ replicate queue_size (Some chatter)\<rparr>)"
    by (rule chatty_puts) (simp_all only: stream_state.simps stream_init_def world list.size not_False_eq_True
      add_0 order_refl json_of_opt.simps)
  then obtain tr4 t where u4: "updates tr4 = []" and
    d: "queue_run chatty ?s3 tr4 (?s3\<lparr>gs_world := 1, gs_num_turns := JInt t,
          gs_queue := replicate queue_size (Some chatter)\<rparr>)"
    by auto
  obtain tr5 s where u5: "updates tr5 = []" and
    e: "queue_run chatty (?s3\<lparr>gs_world := 1, gs_num_turns := JInt t, gs_queue := replicate queue_size (Some chatter)\<rparr>) tr5 s"
    and bl: "blocked s"
    using chatty_leaves [of "?s3\<lparr>gs_world := 1, gs_num_turns := JInt t, gs_queue := replicate queue_size (Some chatter)\<rparr>"
        0 t "CHR ''s''" "''1''"] by (auto simp: stream_init_def)
  have "queue_run chatty ?s0 (Silent # [Fetched chatter, Silent, Put chatter] @ Sent chatter # tr4 @ tr5) s"
    by (intro queue_run_produce [OF a] queue_run_trans [OF _ b] queue_run_consume [OF c] queue_run_trans [OF e d])
  moreover have "updates (Silent # [Fetched chatter, Silent, Put chatter] @ Sent chatter # tr4 @ tr5) = []"
    using u4 u5 by simp
  moreover have "queue_run chatty s tr' s' \<Longrightarrow> (\<exists>x. gs_consumer s' = Awaiting x) \<and> updates tr' = []" for tr' s'
    using blocked_forever [of chatty s tr' s'] bl by (auto simp: blocked_def)
  ultimately show ?thesis by blast
qed

section \<open>Concrete runs\<close>

theorem stream_can_block_witness:
  "\<exists>tr s tr' s' x. queue_run chatty (stream_init (Some ''s1'') 102) tr s \<and> queue_run chatty s tr' s' \<and>
     gs_consumer s' = Awaiting x \<and> updates (tr @ tr') = []"
proof -
  obtain tr s where run: "queue_run chatty (stream_init (Some ''s1'') 102) tr s" "updates tr = []"
    and stuck: "\<forall>tr' s'. queue_run chatty s tr' s' \<longrightarrow> (\<exists>x. gs_consumer s' = Awaiting x) \<and> updates tr' = []"
    using stream_can_block by blast
  have "queue_run chatty s [] s"
    by (rule queue_run.intros)
  with stuck have "\<exists>x. gs_consumer s = Awaiting x"
    by blast
  with run \<open>queue_run chatty s [] s\<close> show ?thesis
    by fastforce
qed

theorem stream_queue_bounded_witness:
  "\<exists>tr s. queue_run chatty (stream_init (Some ''s1'') 1) tr s \<and> tr \<noteq> [] \<and>
     length (gs_queue s) \<le> 100 \<and> puts tr = sents tr @ queued (gs_queue s)"
proof -
  let ?s0 = "stream_init (Some ''s1'') 1 :: nat stream_state"
  have a: "producer_step chatty ?s0 = Some (Silent, ?s0\<lparr>gs_producer := Fetching\<rparr>)"
    by (simp add: producer_step_def stream_init_def at_producer_def)
  have "queue_run chatty (?s0\<lparr>gs_producer := Fetching\<rparr>) [Fetched chatter, Silent, Put chatter]
      (?s0\<lparr>gs_producer := Fetching, gs_world := 0, gs_num_turns := JInt 1, gs_queue := [Some chatter]\<rparr>)"
    using chatty_puts_one [of "?s0\<lparr>gs_producer := Fetching\<rparr>" 0 0 "''s1''"]
    by (simp add: stream_init_def queue_size_def)
  from queue_run_produce [OF a this] have run: "queue_run chatty ?s0 (Silent # [Fetched chatter, Silent, Put chatter])
      (?s0\<lparr>gs_producer := Fetching, gs_world := 0, gs_num_turns := JInt 1, gs_queue := [Some chatter]\<rparr>)" .
  from stream_queue_bounded [OF run] run show ?thesis by blast
qed

text \<open>With a bound on the events there is a run of the tasks that cannot go on.\<close>

lemma task_run_trans: "task_run E s' tr' s'' \<Longrightarrow> task_run E s tr s' \<Longrightarrow> task_run E s (tr @ tr') s''"
proof (induction rule: task_run.induct)
  case none
  then show ?case by simp
next
  case (step tr' s1 a s2)
  then have "task_run E s ((tr @ tr') @ [a]) s2" by (blast intro: task_run.step)
  then show ?case by simp
qed

lemma maximal_task_run:
  assumes "bounded_services E \<mu>"
  shows "\<exists>tr s'. task_run E s tr s' \<and> (\<nexists>a s''. task_step E s' a s'')"
proof (induction "work_left \<mu> s" arbitrary: s rule: less_induct)
  case less
  show ?case
  proof (cases "\<exists>a s'. task_step E s a s'")
    case True
    then obtain a s1 where one: "task_step E s a s1" by blast
    from less [OF task_work [OF assms one]] obtain tr s' where
        "task_run E s1 tr s'" and "\<nexists>a s''. task_step E s' a s''" by blast
    with task_run_trans [OF this(1) task_run.step [OF task_run.none one]] show ?thesis by blast
  qed (use task_run.none in blast)
qed

theorem stream_tasks_stop_witness:
  "\<exists>tr s. task_run chatty (stream_init (Some ''s1'') 3) tr s \<and> (\<nexists>a s'. task_step chatty s a s') \<and>
     length tr + work_left id s \<le> work_left id (stream_init (Some ''s1'') 3)"
proof -
  obtain tr s where "task_run chatty (stream_init (Some ''s1'') 3) tr s" "\<nexists>a s'. task_step chatty s a s'"
    using maximal_task_run [OF chatty_bounded] by blast
  with stream_tasks_stop [OF chatty_bounded this(1)] show ?thesis by blast
qed

theorem stream_delivers_witness:
  "\<exists>tr s. task_run chatty (stream_init (Some ''s1'') 3) tr s \<and> (\<exists>x. gs_consumer s = Finished x) \<and>
     sents tr = puts tr \<and> prefix (goods tr) (fetches tr)"
proof -
  obtain tr s where run: "task_run chatty (stream_init (Some ''s1'') 3) tr s" "\<nexists>a s'. task_step chatty s a s'"
    using maximal_task_run [OF chatty_bounded] by blast
  have "pylib_laws (sv_lib chatty)" by (simp add: chatty_def ref_lib.pylib_laws_axioms)
  from stream_delivers [OF this chatty_calm run] run(1) show ?thesis by blast
qed

section \<open>The status of a failed query\<close>

text \<open>
  The error event of the producer's own failure does not count as one, and the result event is
  searched for \<open>turns\<close>, a key that results do not have; its \<open>is_error\<close> is not read.
\<close>

lemma producer_failure_not_counted: "\<not> saw_error L [PutError (producer_error L)]"
  by (simp add: saw_error_def)

lemma result_turns_ignored:
  assumes "pylib_laws L" and "result_data D ctx ms = Inr d" and "wf_dict d"
    and "track_event_metadata L (format_sse L ''result'' d) s = Inr s'"
  shows "gs_num_turns s' = gs_num_turns s \<and> gs_is_error s' = gs_is_error s"
proof -
  have "map_of d ''turns'' = None"
    using assms(2) by (auto simp: result_data_def bind_sum_Inr)
  moreover have "json_loads L (json_dumps L (JObj d)) = Some (JObj d)"
    using assms(1,3) pylib_laws.loads_dumps by fastforce
  ultimately show ?thesis
    using assms(4)
    by (auto simp: track_event_metadata_def format_sse_def track_result_def item_if_there_def bind_sum_Inr)
qed

end
