(* ===== verification/AgentFacade.thy ===== *)
theory AgentFacade
  imports AgentProperties McpServers Checkpoints Webhooks
begin

text \<open>
  \<open>AgentService\<close> (\<open>services/agent/service.py\<close>), with its \<open>AgentServiceConfig\<close> (\<open>config.py\<close>),
  \<open>CommandDiscovery\<close> (\<open>command_discovery.py\<close>) over \<open>CommandsService\<close> (\<open>services/commands.py\<close>)
  and \<open>CheckpointManager\<close> (\<open>checkpoint_manager.py\<close>): what the routes call.

  The service runs over the state of a query paired with what the configuration loader has
  cached. The command files of a project are an argument: the directory may be missing, or
  looking at it may raise.
\<close>

section \<open>Command discovery\<close>

text \<open>\<open>Path.name\<close> and \<open>Path.stem\<close>, of paths without a slash at the end\<close>

definition path_name :: "string \<Rightarrow> string" where
  "path_name p = rev (takeWhile (\<lambda>c. c \<noteq> CHR ''/'') (rev p))"

definition stem_of :: "string \<Rightarrow> string" where
  "stem_of p =
     (let name = path_name p; ext = takeWhile (\<lambda>c. c \<noteq> CHR ''.'') (rev name);
          before = drop (Suc (length ext)) (rev name)
      in if CHR ''.'' \<in> set name \<and> ext \<noteq> [] \<and> before \<noteq> [] then rev before else name)"

text \<open>\<open>None\<close> stands for a directory that does not exist.\<close>

definition discover_commands :: "string list option \<Rightarrow> (string \<times> string) list" where
  "discover_commands files = (case files of None \<Rightarrow> [] | Some ps \<Rightarrow> map (\<lambda>p. (stem_of p, p)) ps)"

section \<open>State\<close>

record ('c, 'd) agent_service =
  as_env :: "('c, 'd) agent_env"
  as_injector :: "'c mcp_injector option"
  as_commands :: "string option \<Rightarrow> exn + string list option" \<comment> \<open>the project's directory of commands\<close>
  as_checkpoints :: "'c checkpoint_service option"
  as_webhooks :: "(('c, 'd) world) webhook_service"

type_synonym ('c, 'd) service_state = "('c, 'd) query_state \<times> json dict option"

definition in_loader :: "(('c, 'd) loader_world, 'a) io \<Rightarrow> (('c, 'd) service_state, 'a) io" where
  "in_loader m = (\<lambda>(q, l). case m (qs_world q, l) of (r, (w, l')) \<Rightarrow> (r, (q\<lparr>qs_world := w\<rparr>, l')))"

definition in_query :: "(('c, 'd) query_state, 'a) io \<Rightarrow> (('c, 'd) service_state, 'a) io" where
  "in_query m = (\<lambda>(q, l). case m q of (r, q') \<Rightarrow> (r, (q', l)))"

section \<open>Queries\<close>

definition inject_servers_for ::
  "('c, 'd) agent_service \<Rightarrow> query_request \<Rightarrow> string \<Rightarrow> (('c, 'd) service_state, query_request) io" where
  "inject_servers_for S q api_key =
     (case as_injector S of
        None \<Rightarrow> ret q
      | Some I \<Rightarrow> if api_key = [] then ret q else in_loader (inject I q api_key))"

text \<open>\<open>McpServerStatusSchema\<close> has no field for the type.\<close>

definition server_status :: "string \<Rightarrow> json" where
  "server_status name = JObj [(''name'', JStr name), (''status'', JStr ''connected''), (''error'', JNull)]"

definition build_init_event ::
  "('c, 'd) agent_service \<Rightarrow> query_request \<Rightarrow> string \<Rightarrow> (string \<times> string) list \<Rightarrow> exn + agent_event" where
  "build_init_event S q session_id commands =
     (if qr_permission_mode q \<in> set permission_modes
      then Inr (init_event (ae_lib (as_env S)) session_id
        (if given (qr_model q) then the (qr_model q) else ''sonnet'') (qr_allowed_tools q)
        (map pl_name (filter pl_enabled (opt_list (qr_plugins q)))) commands (qr_permission_mode q)
        (map (server_status \<circ> fst) (opt_list (qr_mcp_servers q))))
      else Inl invalid_field)"

text \<open>The events of a query, with the first one in front of those of the runner.\<close>

definition after_event :: "agent_event \<Rightarrow> (('c, 'd) query_state, 'a) io \<Rightarrow> (('c, 'd) query_state, 'a) io" where
  "after_event e m = (\<lambda>q. case m q of (r, q') \<Rightarrow> (r, q'\<lparr>qs_events := e # qs_events q'\<rparr>))"

definition query_stream ::
  "('c, 'd) agent_service \<Rightarrow> nat \<Rightarrow> query_request \<Rightarrow> string \<Rightarrow> (('c, 'd) service_state, unit) io" where
  "query_stream S fuel request api_key =
     and_then (in_query (modify (\<lambda>s. s\<lparr>qs_events := []\<rparr>))) (\<lambda>_.
     and_then (inject_servers_for S request api_key) (\<lambda>q.
     and_then (in_query (session_id_or_new (qr_session_id q))) (\<lambda>session_id.
     and_then (lift_sum (as_commands S (or_none (qr_cwd q)))) (\<lambda>files.
     and_then (lift_sum (build_init_event S q session_id (discover_commands files))) (\<lambda>event.
     in_query (after_event event (run_stream (as_env S) fuel q (Some session_id) api_key)))))))"

definition query_single ::
  "('c, 'd) agent_service \<Rightarrow> nat \<Rightarrow> query_request \<Rightarrow> string \<Rightarrow> (('c, 'd) service_state, query_response) io" where
  "query_single S fuel request api_key =
     and_then (inject_servers_for S request api_key) (\<lambda>q.
     in_query (run_single (as_env S) fuel q api_key))"

section \<open>Control\<close>

definition service_interrupt :: "('c, 'd) agent_service \<Rightarrow> string \<Rightarrow> (('c, 'd) world, bool) io" where
  "service_interrupt S session_id = on_cache (interrupt (ae_tracker (as_env S)) session_id)"

definition service_submit_answer :: "('c, 'd) agent_service \<Rightarrow> string \<Rightarrow> string \<Rightarrow> (('c, 'd) world, bool) io" where
  "service_submit_answer S session_id answer =
     on_cache (submit_answer (ae_tracker (as_env S)) session_id answer)"

definition service_update_permission_mode ::
  "('c, 'd) agent_service \<Rightarrow> string \<Rightarrow> string \<Rightarrow> (('c, 'd) world, bool) io" where
  "service_update_permission_mode S session_id permission_mode =
     on_cache (update_permission_mode (ae_tracker (as_env S)) session_id permission_mode)"

section \<open>Checkpoints\<close>

text \<open>
  A UUID that is no text makes the message handler fail before it could get here; it counts as
  a failed creation.
\<close>

definition create_from_context ::
  "'c checkpoint_service option \<Rightarrow> stream_context \<Rightarrow> (('c, 'd) world, checkpoint option) io" where
  "create_from_context service ctx =
     (if \<not> sc_enable_file_checkpointing ctx then ret None
      else if \<not> py_true (sc_last_user_message_uuid ctx) then ret None
      else case service of
        None \<Rightarrow> ret None
      | Some K \<Rightarrow>
          try_except
            (and_then (lift_sum (checked_str (sc_last_user_message_uuid ctx))) (\<lambda>uuid.
             and_then (create_checkpoint K (sc_session_id ctx) (the uuid) (sc_files_modified ctx)) (\<lambda>c.
             ret (Some c))))
            (\<lambda>e. if is_exception e then ret None else throw e))"

definition create_checkpoint_from_context ::
  "('c, 'd) agent_service \<Rightarrow> stream_context \<Rightarrow> (('c, 'd) world, checkpoint option) io" where
  "create_checkpoint_from_context S ctx = create_from_context (as_checkpoints S) ctx"

section \<open>Hooks\<close>

definition execute_pre_tool_use_hook ::
  "('c, 'd) agent_service \<Rightarrow> hooks_config option \<Rightarrow> string \<Rightarrow> string \<Rightarrow> json dict option \<Rightarrow>
     (('c, 'd) world, json) io" where
  "execute_pre_tool_use_hook S H session_id tool_name tool_input =
     facade_pre_tool_use (as_webhooks S) H session_id tool_name tool_input"

definition execute_post_tool_use_hook ::
  "('c, 'd) agent_service \<Rightarrow> hooks_config option \<Rightarrow> string \<Rightarrow> string \<Rightarrow> json dict option \<Rightarrow> json dict option \<Rightarrow>
     (('c, 'd) world, json) io" where
  "execute_post_tool_use_hook S H session_id tool_name tool_input tool_result =
     facade_post_tool_use (as_webhooks S) H session_id tool_name tool_input tool_result"

definition execute_stop_hook ::
  "('c, 'd) agent_service \<Rightarrow> hooks_config option \<Rightarrow> string \<Rightarrow> bool \<Rightarrow> int \<Rightarrow> string option \<Rightarrow>
     (('c, 'd) world, json) io" where
  "execute_stop_hook S H session_id is_error duration_ms result =
     facade_stop (as_webhooks S) H session_id is_error duration_ms result"

definition execute_subagent_stop_hook ::
  "('c, 'd) agent_service \<Rightarrow> hooks_config option \<Rightarrow> string \<Rightarrow> string \<Rightarrow> bool \<Rightarrow> string option \<Rightarrow>
     (('c, 'd) world, json) io" where
  "execute_subagent_stop_hook S H session_id subagent_name is_error result =
     facade_subagent_stop (as_webhooks S) H session_id subagent_name is_error result"

definition execute_user_prompt_submit_hook ::
  "('c, 'd) agent_service \<Rightarrow> hooks_config option \<Rightarrow> string \<Rightarrow> string \<Rightarrow> (('c, 'd) world, json) io" where
  "execute_user_prompt_submit_hook S H session_id prompt =
     facade_user_prompt_submit (as_webhooks S) H session_id prompt"

section \<open>What injection leaves alone\<close>

lemma injected_request:
  fixes S :: "('c, 'd) agent_service"
  assumes "inject_servers_for S request api_key s = (Inr q, s')"
  shows "q = request \<or> (\<exists>schemas. q = enriched_request request schemas)"
proof (cases "as_injector S")
  case None
  with assms show ?thesis by (simp add: inject_servers_for_def)
next
  case (Some I)
  show ?thesis
  proof (cases "api_key = []")
    case False
    with Some assms have "\<exists>s0 s0'. inject I request api_key (s0 :: ('c, 'd) loader_world) = (Inr q, s0')"
      by (fastforce simp: inject_servers_for_def in_loader_def split: prod.splits)
    then show ?thesis
      by (auto simp: inject_def try_except_Inr inject_servers_def and_then_Inr split: if_splits)
  qed (use Some assms in \<open>simp add: inject_servers_for_def\<close>)
qed

end
