(* ===== verification/QueryService.thy ===== *)
theory QueryService
  imports QueryStreamProperties AgentFacade
begin

text \<open>
  The composition of \<open>AgentService.query_stream\<close> and the route's generator: what the agent service
  yields is what the client of the route gets.
\<close>

section \<open>A service that yields given events\<close>

definition keeps_in :: "('w \<Rightarrow> 'b) \<Rightarrow> ('w, 'a) io \<Rightarrow> bool" where
  "keeps_in f m \<longleftrightarrow> (\<forall>w. f (snd (m w)) = f w)"

definition feeds :: "'w stream_services \<Rightarrow> ('w \<Rightarrow> agent_event list) \<Rightarrow> bool" where
  "feeds E rest \<longleftrightarrow>
     (\<forall>w. case rest w of
        [] \<Rightarrow> \<exists>w'. sv_next E w = (Inr None, w') \<and> rest w' = []
      | e # es \<Rightarrow> \<exists>w'. sv_next E w = (Inr (Some e), w') \<and> rest w' = es) \<and>
     (\<forall>m i. keeps_in rest (sv_create E m i)) \<and> (\<forall>i st n c. keeps_in rest (sv_update E i st n c))"

lemma feeds_none: "feeds E rest \<Longrightarrow> rest w = [] \<Longrightarrow> \<exists>w'. sv_next E w = (Inr None, w') \<and> rest w' = []"
  by (auto simp: feeds_def split: list.splits)

lemma feeds_some: "feeds E rest \<Longrightarrow> rest w = e # es \<Longrightarrow> \<exists>w'. sv_next E w = (Inr (Some e), w') \<and> rest w' = es"
  unfolding feeds_def by (drule conjunct1, drule spec [of _ w]) simp

lemma keeps_inD: "keeps_in f m \<Longrightarrow> m w = (r, w') \<Longrightarrow> f w' = f w"
  unfolding keeps_in_def by (drule spec [of _ w]) simp

lemma feeds_keep:
  "feeds E rest \<Longrightarrow> keeps_in rest (sv_create E m i)" "feeds E rest \<Longrightarrow> keeps_in rest (sv_update E i st n c)"
  by (simp_all add: feeds_def)

text \<open>A result event is an object without the key that the route looks for.\<close>

definition result_readable :: "pylib \<Rightarrow> agent_event \<Rightarrow> bool" where
  "result_readable L e \<longleftrightarrow>
     (ev_event e = ''result'' \<longrightarrow> (\<exists>d. json_loads L (ev_data e) = Some (JObj d) \<and> map_of d ''turns'' = None))"

definition message_count :: "agent_event list \<Rightarrow> int" where
  "message_count es = int (length (filter (\<lambda>e. ev_event e = ''message'') es))"

definition recorded_cost :: "pylib \<Rightarrow> agent_event list \<Rightarrow> json" where
  "recorded_cost L es =
     fold (\<lambda>e c. if ev_event e = ''result''
        then (case json_loads L (ev_data e) of Some (JObj d) \<Rightarrow> dict_get_or d ''total_cost_usd'' c | _ \<Rightarrow> c) else c)
       es JNull"

lemma message_count_append [simp]:
  "message_count (es @ [e]) = message_count es + of_bool (ev_event e = ''message'')"
  by (simp add: message_count_def)

lemma track_readable:
  assumes "result_readable L e" and "gs_num_turns s = JInt (message_count es)" and "gs_total_cost s = recorded_cost L es"
  obtains s' where "track_event_metadata L e s = Inr s'"
    and "gs_num_turns s' = JInt (message_count (es @ [e]))" and "gs_total_cost s' = recorded_cost L (es @ [e])"
    and "gs_world s' = gs_world s" "gs_session s' = gs_session s"
proof (cases "ev_event e = ''result''")
  case True
  with assms(1) obtain d where d: "json_loads L (ev_data e) = Some (JObj d)" "map_of d ''turns'' = None"
    by (auto simp: result_readable_def)
  with True assms(2,3) that show ?thesis
    by (cases "map_of d ''total_cost_usd''")
       (auto simp: track_event_metadata_def track_result_def item_if_there_def recorded_cost_def
          dict_get_or_def dict_item_def)
next
  case False
  let ?s = "if ev_event e = ''message'' then s\<lparr>gs_num_turns := JInt (message_count es + 1)\<rparr>
    else if ev_event e = ''error'' then s\<lparr>gs_is_error := True\<rparr> else s"
  from False assms(2,3) show ?thesis
    by (intro that [of ?s]) (simp_all add: track_event_metadata_def py_plus_def recorded_cost_def)
qed

text \<open>What the route has fetched and what is left are the events; nothing has gone wrong.\<close>

definition fed :: "pylib \<Rightarrow> ('w \<Rightarrow> agent_event list) \<Rightarrow> agent_event list \<Rightarrow> action list \<Rightarrow> 'w stream_state \<Rightarrow> bool" where
  "fed L rest es tr s \<longleftrightarrow>
     fetches tr @ rest (gs_world s) = es \<and> gs_producer s \<noteq> Failing \<and> PutError (producer_error L) \<notin> set tr \<and>
     (in_handlers (gs_producer s) \<longrightarrow> rest (gs_world s) = []) \<and>
     gs_num_turns s = JInt (message_count (fetches tr)) \<and> gs_total_cost s = recorded_cost L (fetches tr)"

lemma fetched_run:
  assumes "track_event_metadata L e s = Inr s'"
  shows "gs_world (fetched L e s) = gs_world s' \<and> gs_num_turns (fetched L e s) = gs_num_turns s' \<and>
    gs_total_cost (fetched L e s) = gs_total_cost s' \<and> gs_producer (fetched L e s) \<noteq> Failing \<and>
    \<not> in_handlers (gs_producer (fetched L e s))"
  using assms
  by (auto simp: fetched_def handle_init_event_def init_failed_def at_producer_def Let_def
      split: option.split json.split)

lemma fed_fetching:
  assumes "feeds E rest" and "\<forall>e \<in> set es. result_readable (sv_lib E) e" and "gs_producer s = Fetching"
    and "fetch E s = (a, s')" and "fed (sv_lib E) rest es tr s"
  shows "fed (sv_lib E) rest es (tr @ [a]) s'"
proof (cases "rest (gs_world s)")
  case Nil
  from feeds_none [OF assms(1) this] obtain w' where w': "sv_next E (gs_world s) = (Inr None, w')"
    and "rest w' = []" by blast
  with assms(4) have "a = Silent" and "s' = at_producer (Closing None) (s\<lparr>gs_world := w'\<rparr>)"
    by (simp_all add: fetch_def)
  with assms(5) Nil \<open>rest w' = []\<close> show ?thesis by (simp add: fed_def at_producer_def)
next
  case (Cons e es')
  from feeds_some [OF assms(1) this] obtain w' where
      w': "sv_next E (gs_world s) = (Inr (Some e), w')" and r: "rest w' = es'" by blast
  from assms(5) Cons have es: "fetches tr @ e # es' = es" and
      n: "gs_num_turns (s\<lparr>gs_world := w'\<rparr>) = JInt (message_count (fetches tr))" and
      c: "gs_total_cost (s\<lparr>gs_world := w'\<rparr>) = recorded_cost (sv_lib E) (fetches tr)"
    by (simp_all add: fed_def)
  from es assms(2) have "result_readable (sv_lib E) e" by auto
  from track_readable [OF this n c] obtain s2 where t: "track_event_metadata (sv_lib E) e (s\<lparr>gs_world := w'\<rparr>) = Inr s2"
    and "gs_num_turns s2 = JInt (message_count (fetches tr @ [e]))"
    and "gs_total_cost s2 = recorded_cost (sv_lib E) (fetches tr @ [e])" and "gs_world s2 = w'"
    by (metis stream_state.select_convs(1) stream_state.surjective stream_state.update_convs(1))
  with fetched_run [OF t] w' assms(4,5) es r show ?thesis
    by (auto simp: fetch_def fed_def)
qed

lemma keeps_call:
  assumes "keeps_in rest m" and "\<And>x s. gs_world (ok x s) = gs_world s" and "\<And>x s. gs_world (failed x s) = gs_world s"
  shows "rest (gs_world (call m ok failed s)) = rest (gs_world s)"
proof -
  obtain r w where run: "m (gs_world s) = (r, w)" by fastforce
  with assms(1) have "rest w = rest (gs_world s)"
    by (rule keeps_inD)
  with run assms(2,3) show ?thesis
    by (cases r) (simp_all add: call_def)
qed

lemma fed_producer:
  assumes "feeds E rest" and "\<forall>e \<in> set es. result_readable (sv_lib E) e" and "pylib_laws (sv_lib E)"
    and "calm_services E" and "producer_step E s = Some (a, s')" and "undisturbed s"
    and "init_errors_ok (sv_lib E) s" and "fed (sv_lib E) rest es tr s"
  shows "fed (sv_lib E) rest es (tr @ [a]) s'"
proof (cases "gs_producer s")
  case Fetching
  with assms show ?thesis
    by (intro fed_fetching [OF assms(1,2)]) (auto simp: producer_step_def)
next
  case (Creating e m)
  obtain r w where n: "sv_create E m (gs_session s) (gs_world s) = (r, w)"
    by (cases "sv_create E m (gs_session s) (gs_world s)")
  from keeps_inD [OF feeds_keep(1) [OF assms(1)] this] have "rest w = rest (gs_world s)" .
  with assms(8) Creating have fed: "fed (sv_lib E) rest es (tr @ [Created m (gs_session s)]) (at_producer p (s\<lparr>gs_world := w\<rparr>))"
    if "\<not> in_handlers p" "p \<noteq> Failing" for p
    using that by (simp add: fed_def at_producer_def)
  show ?thesis
  proof (cases r)
    case (Inl x)
    with n calmD [of "sv_create E m (gs_session s)"] assms(4) have "is_exception x"
      by (auto simp: calm_services_def)
    with Inl n Creating assms(5) have "a = Created m (gs_session s)" and "s' = at_producer (init_failed (sv_lib E) e) (s\<lparr>gs_world := w\<rparr>)"
      by (simp_all add: producer_step_def call_def)
    with fed show ?thesis by (simp add: init_failed_def)
  next
    case (Inr x)
    with n Creating assms(5) have "a = Created m (gs_session s)" and "s' = at_producer (Checking e) (s\<lparr>gs_world := w\<rparr>)"
      by (simp_all add: producer_step_def call_def)
    with fed show ?thesis by simp
  qed
next
  case (InitFailed err e)
  with assms(5,7,8) show ?thesis
    by (auto simp: producer_step_def put_item_def fed_def at_producer_def init_errors_ok_def split: if_splits)
qed (use assms(5-8) in \<open>auto simp: producer_step_def put_item_def undisturbed_def fed_def at_producer_def
      split: if_splits\<close>)

lemma fed_consumer:
  assumes "feeds E rest" and "consumer_step E s = Some (a, s')" and "undisturbed s" and "fed L rest es tr s"
  shows "fed L rest es (tr @ [a]) s'"
proof (cases "gs_consumer s")
  case (Updating x)
  have "rest (gs_world (call (sv_update E i st n c) (\<lambda>_. at_consumer (Finished y)) (\<lambda>e. at_consumer (Finished (Some e))) s)) =
      rest (gs_world s)" for i st n c y
    by (rule keeps_call [OF feeds_keep(2) [OF assms(1)]]) (simp_all add: at_consumer_def)
  moreover have "gs_producer (call m ok failed s) = gs_producer s \<and> gs_num_turns (call m ok failed s) = gs_num_turns s \<and>
      gs_total_cost (call m ok failed s) = gs_total_cost s"
    if "ok = (\<lambda>_. at_consumer (Finished y))" "failed = (\<lambda>e. at_consumer (Finished (Some e)))"
    for m :: "('a, unit) io" and ok failed y
    using that by (auto simp: call_def at_consumer_def split: prod.splits sum.splits)
  ultimately show ?thesis
    using Updating assms(2,4)
    by (auto simp: consumer_step_def update_session_status_def Let_def fed_def at_consumer_def split: if_splits)
qed (use assms(2-4) in \<open>auto simp: consumer_step_def undisturbed_def is_ended_def fed_def at_consumer_def
      split: list.splits option.splits\<close>)

lemma fed_run:
  assumes "feeds E rest" and "\<forall>e \<in> set (rest w). result_readable (sv_lib E) e" and "pylib_laws (sv_lib E)"
    and "calm_services E"
  shows "task_run E (stream_init sid w) tr s \<Longrightarrow> fed (sv_lib E) rest (rest w) tr s"
proof (induction rule: task_run.induct)
  case none
  show ?case
    by (simp add: fed_def stream_init_def message_count_def recorded_cost_def)
next
  case (step tr s' a s'')
  from served_run [OF assms(3,4) step.hyps(1)] have "undisturbed s'" and "init_errors_ok (sv_lib E) s'"
    by (auto simp: status_ok_def)
  with step show ?case
    by (auto elim!: task_stepE intro: fed_producer [OF assms] fed_consumer [OF assms(1)])
qed

section \<open>The session of the stream\<close>

text \<open>
  With the init event at hand that names a session and a model: a query without a session gets
  this session, once the event is fetched, and it is created once, with the model.
\<close>

definition starts_with :: "pylib \<Rightarrow> string \<Rightarrow> string \<Rightarrow> agent_event list \<Rightarrow> bool" where
  "starts_with L i m es \<longleftrightarrow>
     es \<noteq> [] \<and> ev_event (hd es) = ''init'' \<and>
     (\<exists>d. json_loads L (ev_data (hd es)) = Some (JObj d) \<and> map_of d ''session_id'' = Some (JStr i) \<and>
        map_of d ''model'' = Some (JStr m))"

definition is_creating :: "producer \<Rightarrow> bool" where
  "is_creating p \<longleftrightarrow> (\<exists>e m. p = Creating e m)"

definition session_ok :: "string option \<Rightarrow> string \<Rightarrow> string \<Rightarrow> action list \<Rightarrow> 'w stream_state \<Rightarrow> bool" where
  "session_ok sid i m tr s \<longleftrightarrow>
     (case sid of
        Some k \<Rightarrow> gs_session s = JStr k \<and> creations tr = [] \<and> \<not> is_creating (gs_producer s)
      | None \<Rightarrow>
          if fetches tr = [] then gs_session s = JNull \<and> creations tr = [] \<and> \<not> is_creating (gs_producer s)
          else gs_session s = JStr i \<and>
            (if is_creating (gs_producer s)
             then i \<noteq> [] \<and> creations tr = [] \<and> (\<exists>e. gs_producer s = Creating e (JStr m))
             else creations tr = (if i = [] then [] else [Created (JStr m) (JStr i)])))"

lemma is_creating_simps [simp]:
  "is_creating (Creating e m)" "\<not> is_creating NotStarted" "\<not> is_creating Fetching" "\<not> is_creating (InitFailed err e)"
  "\<not> is_creating (Checking e)" "\<not> is_creating Interrupting" "\<not> is_creating (Putting e)" "\<not> is_creating Failing"
  "\<not> is_creating ProducerCancelled" "\<not> is_creating (Closing x)" "\<not> is_creating (Ended x)" "\<not> is_creating (raised y)"
  by (simp_all add: is_creating_def raised_def)

lemma fetched_with_session:
  assumes "gs_session s = JStr k"
  shows "gs_session (fetched L e s) = JStr k \<and> \<not> is_creating (gs_producer (fetched L e s))"
  using assms by (cases "track_event_metadata L e s") (auto simp: fetched_def dest: track_keeps)

lemma fetched_first:
  assumes "starts_with L i m (e # es)" and "gs_session s = JNull"
  shows "gs_session (fetched L e s) = JStr i \<and>
    gs_producer (fetched L e s) = (if i = [] then Checking e else Creating e (JStr m))"
proof -
  from assms(1) obtain d where "ev_event e = ''init''" "json_loads L (ev_data e) = Some (JObj d)"
      "map_of d ''session_id'' = Some (JStr i)" "map_of d ''model'' = Some (JStr m)"
    by (auto simp: starts_with_def)
  moreover from this have "track_event_metadata L e s = Inr s"
    by (simp add: track_event_metadata_def)
  ultimately show ?thesis
    using assms(2) by (simp add: fetched_def handle_init_event_def Let_def dict_get_or_def at_producer_def)
qed

lemma session_ok_same:
  assumes "session_ok sid i m tr s" and "\<not> is_creating (gs_producer s)" and "\<not> is_creating (gs_producer s')"
    and "gs_session s' = gs_session s" and "creations [a] = []" and "fetches [a] = []"
  shows "session_ok sid i m (tr @ [a]) s'"
  using assms by (auto simp: session_ok_def split: option.splits if_splits)

lemma session_ok_fetching:
  assumes "feeds E rest" and "starts_with (sv_lib E) i m es" and "gs_producer s = Fetching" and "fetch E s = (a, s')"
    and "fed (sv_lib E) rest es tr s" and "session_ok sid i m tr s"
  shows "session_ok sid i m (tr @ [a]) s'"
proof (cases "rest (gs_world s)")
  case Nil
  from feeds_none [OF assms(1) this] obtain w' where "sv_next E (gs_world s) = (Inr None, w')" by blast
  with assms(3,4,6) show ?thesis
    by (intro session_ok_same [OF assms(6)]) (auto simp: fetch_def)
next
  case (Cons e es')
  from feeds_some [OF assms(1) this] obtain w' where "sv_next E (gs_world s) = (Inr (Some e), w')" by blast
  with assms(4) have a: "a = Fetched e" and s': "s' = fetched (sv_lib E) e (s\<lparr>gs_world := w'\<rparr>)"
    by (simp_all add: fetch_def)
  show ?thesis
  proof (cases "gs_session s = JNull")
    case True
    with assms(3,6) have none: "sid = None" "fetches tr = []" "creations tr = []"
      by (auto simp: session_ok_def split: option.splits if_splits)
    from assms(5) Cons none have "starts_with (sv_lib E) i m (e # es')"
      using assms(2) by (simp add: fed_def)
    from fetched_first [OF this, of "s\<lparr>gs_world := w'\<rparr>"] True none show ?thesis
      by (simp add: session_ok_def a s')
  next
    case False
    with assms(3,6) obtain k where k: "gs_session s = JStr k"
      by (auto simp: session_ok_def split: option.splits if_splits)
    with fetched_with_session [of "s\<lparr>gs_world := w'\<rparr>" k "sv_lib E" e] assms(3,6) False show ?thesis
      by (auto simp: session_ok_def a s' split: option.splits if_splits)
  qed
qed

lemma producer_step_session:
  assumes "producer_step E s = Some (a, s')" and "gs_producer s \<noteq> Fetching" and "\<not> is_creating (gs_producer s)"
    and "undisturbed s"
  shows "gs_session s' = gs_session s \<and> \<not> is_creating (gs_producer s') \<and> creations [a] = [] \<and> fetches [a] = []"
  using assms
  by (cases "gs_producer s") (auto simp: producer_step_def put_item_def undisturbed_def split: if_splits)

lemma session_ok_producer:
  assumes "feeds E rest" and "starts_with (sv_lib E) i m es" and "calm_services E"
    and "producer_step E s = Some (a, s')" and "undisturbed s"
    and "fed (sv_lib E) rest es tr s" and "session_ok sid i m tr s"
  shows "session_ok sid i m (tr @ [a]) s'"
proof (cases "gs_producer s")
  case Fetching
  with assms show ?thesis
    by (intro session_ok_fetching [OF assms(1,2)]) (auto simp: producer_step_def)
next
  case (Creating e x)
  with assms(7) have x: "x = JStr m" and sess: "gs_session s = JStr i" "sid = None" "fetches tr \<noteq> []" "i \<noteq> []"
      "creations tr = []"
    by (auto simp: session_ok_def split: option.splits if_splits)
  let ?s' = "call (sv_create E x (gs_session s)) (\<lambda>_. at_producer (Checking e))
    (\<lambda>y. at_producer (if is_exception y then init_failed (sv_lib E) e else ProducerCancelled)) s"
  from Creating assms(4) have a: "a = Created x (gs_session s)" and s': "s' = ?s'"
    by (simp_all add: producer_step_def)
  have "gs_session ?s' = gs_session s \<and> \<not> is_creating (gs_producer ?s')"
    by (rule call_cases [where P = "\<lambda>s'. gs_session s' = gs_session s \<and> \<not> is_creating (gs_producer s')"])
       (simp_all add: init_failed_def)
  with sess x show ?thesis
    by (simp add: session_ok_def a s')
qed (use session_ok_same [OF assms(7)] producer_step_session [OF assms(4) _ _ assms(5)] in auto)

lemma session_ok_consumer:
  assumes "consumer_step E s = Some (a, s')" and "undisturbed s" and "session_ok sid i m tr s"
  shows "session_ok sid i m (tr @ [a]) s'"
proof -
  have "gs_producer s' = gs_producer s" and "gs_session s' = gs_session s" and "creations [a] = []"
    using assms(1,2)
    by (auto simp: consumer_step_def undisturbed_def is_ended_def update_session_status_def call_def Let_def
        split: list.splits option.splits prod.splits sum.splits if_splits)
  moreover from consumer_step_queue [OF assms(1)] have "fetches [a] = []" by simp
  ultimately show ?thesis
    using assms(3) by (simp only: session_ok_def trace_append append_Nil2)
qed

lemma session_ok_run:
  assumes "feeds E rest" and "\<forall>e \<in> set (rest w). result_readable (sv_lib E) e" and "pylib_laws (sv_lib E)"
    and "calm_services E" and "starts_with (sv_lib E) i m (rest w)"
  shows "task_run E (stream_init sid w) tr s \<Longrightarrow> session_ok sid i m tr s"
proof (induction rule: task_run.induct)
  case none
  show ?case by (cases sid) (simp_all add: session_ok_def stream_init_def)
next
  case (step tr s' a s'')
  from served_run [OF assms(3,4) step.hyps(1)] have "undisturbed s'" by blast
  with fed_run [OF assms(1-4) step.hyps(1)] step show ?case
    by (auto elim!: task_stepE intro: session_ok_producer [OF assms(1,5,4)] session_ok_consumer)
qed

section \<open>The whole stream\<close>

lemma in_query_Inr: "in_query m s = (Inr x, s') \<Longrightarrow> m (fst s) = (Inr x, fst s')"
  by (auto simp: in_query_def split: prod.splits)

lemma after_event_Inr:
  assumes "after_event e m s = (Inr x, s')"
  obtains s1 where "m s = (Inr x, s1)" and "qs_events s' = e # qs_events s1"
  using assms by (auto simp: after_event_def split: prod.splits)

text \<open>The first event of a stream, for the request with its servers.\<close>

definition first_event :: "pylib \<Rightarrow> query_request \<Rightarrow> string \<Rightarrow> (string \<times> string) list \<Rightarrow> agent_event" where
  "first_event L q i commands =
     init_event L i (if given (qr_model q) then the (qr_model q) else ''sonnet'') (qr_allowed_tools q)
       (map pl_name (filter pl_enabled (opt_list (qr_plugins q)))) commands (qr_permission_mode q)
       (map (server_status \<circ> fst) (opt_list (qr_mcp_servers q)))"

lemma query_stream_run:
  fixes S :: "('c, 'd) agent_service"
  assumes "query_stream S n request api_key s = (Inr u, s')"
  obtains q i files rest where "qs_events (fst s') = first_event (ae_lib (as_env S)) q i (discover_commands files) # rest"
    and "closed_stream (ae_lib (as_env S)) rest"
    and "q = request \<or> (\<exists>schemas. q = enriched_request request schemas)"
    and "given (qr_session_id request) \<Longrightarrow> i = the (qr_session_id request)"
proof -
  from assms obtain q i files event s0 s0' s3 and s1 s2 :: "('c, 'd) service_state" where
      q: "inject_servers_for S request api_key s0 = (Inr q, s0')"
    and i: "in_query (session_id_or_new (qr_session_id q)) s1 = (Inr i, s2)"
    and ev: "build_init_event S q i (discover_commands files) = Inr event"
    and run: "in_query (after_event event (run_stream (as_env S) n q (Some i) api_key)) s3 = (Inr u, s')"
    unfolding query_stream_def and_then_Inr io_run prod.inject by blast
  from in_query_Inr [OF run] obtain s4 where "run_stream (as_env S) n q (Some i) api_key (fst s3) = (Inr u, s4)"
    and "qs_events (fst s') = event # qs_events s4"
    by (rule after_event_Inr)
  moreover from q have "q = request \<or> (\<exists>schemas. q = enriched_request request schemas)"
    by (rule injected_request)
  moreover from this have "qr_session_id q = qr_session_id request"
    by (auto simp: enriched_request_def)
  with in_query_Inr [OF i] have "given (qr_session_id request) \<Longrightarrow> i = the (qr_session_id request)"
    by (simp add: session_id_or_new_def)
  moreover from ev have "event = first_event (ae_lib (as_env S)) q i (discover_commands files)"
    by (simp add: build_init_event_def first_event_def split: if_splits)
  ultimately show ?thesis
    using run_stream_closed that by blast
qed

lemma first_event_starts:
  assumes "pylib_laws L"
  shows "starts_with L i (if given (qr_model q) then the (qr_model q) else ''sonnet'') (first_event L q i commands # body)"
proof -
  let ?j = "JObj [(''session_id'', JStr i), (''model'', JStr (if given (qr_model q) then the (qr_model q) else ''sonnet'')),
     (''tools'', JArr (map JStr (qr_allowed_tools q))),
     (''mcp_servers'', JArr (map (server_status \<circ> fst) (opt_list (qr_mcp_servers q)))),
     (''plugins'', JArr (map JStr (map pl_name (filter pl_enabled (opt_list (qr_plugins q)))))),
     (''commands'', JArr (map (\<lambda>(n, p). JObj [(''name'', JStr n), (''path'', JStr p)]) commands)),
     (''permission_mode'', JStr (qr_permission_mode q))]"
  have "wf_json ?j"
    by (auto simp: list_all_iff server_status_def)
  with assms have "json_loads L (json_dumps L ?j) = Some ?j"
    by (rule pylib_laws.loads_dumps)
  then show ?thesis
    by (simp add: starts_with_def first_event_def init_event_def format_sse_def)
qed

text \<open>
  C18: A client that stays until a streaming query is over gets all events of the agent
  service in order: the init event with the session, model, tools and servers of the
  injected request, then a closed stream. A query without a session takes the session that
  the init event names and asks the session service once to create it, with the event's
  model; a query with a session asks for no creation and keeps its own. At the end this
  session, if it is not empty, is updated exactly once, with the number of messages, the
  cost of the result, and error exactly if an error event was sent, else completed. Assumed:
  the agent service yields the events of its query_stream, the calls of the services raise
  no cancellation, and a result event is a JSON object without the key turns, as the agent
  service makes them.
\<close>

theorem query_served:
  assumes "pylib_laws L" and "sv_lib E = L" and "ae_lib (as_env S) = L" and "calm_services E" and "feeds E rest"
    and "query_stream S n request api_key s = (Inr u, s')" and "rest w = qs_events (fst s')"
    and "\<forall>e \<in> set (rest w). result_readable L e"
    and "task_run E (stream_init (qr_session_id request) w) tr t" and "\<nexists>a t'. task_step E t a t'"
  shows "\<exists>q i session model files body. goods tr = first_event L q i (discover_commands files) # body \<and>
    closed_stream L body \<and> (q = request \<or> (\<exists>schemas. q = enriched_request request schemas)) \<and>
    (given (qr_session_id request) \<longrightarrow> i = the (qr_session_id request)) \<and>
    sents tr = puts tr \<and> (\<exists>x. gs_consumer t = Finished x) \<and>
    session = (case qr_session_id request of Some k \<Rightarrow> k | None \<Rightarrow> i) \<and>
    model = (if given (qr_model q) then the (qr_model q) else ''sonnet'') \<and>
    creations tr = (if qr_session_id request = None \<and> session \<noteq> [] then [Created (JStr model) (JStr session)] else []) \<and>
    updates tr =
      (if session = [] then []
       else [Updated (JStr session) (if saw_error L tr then ''error'' else ''completed'') (JInt (message_count body))
         (recorded_cost L body)])"
proof -
  from query_stream_run [OF assms(6)] obtain q i files body where
      events: "qs_events (fst s') = first_event L q i (discover_commands files) # body" and "closed_stream L body"
    and "q = request \<or> (\<exists>schemas. q = enriched_request request schemas)"
    and "given (qr_session_id request) \<Longrightarrow> i = the (qr_session_id request)"
    unfolding assms(3) by metis
  moreover from assms(1,2,4,9) have laws: "pylib_laws (sv_lib E)" by simp
  note served = served_run [OF this assms(4,9)]
  then have u: "undisturbed t" and ok: "waits_ok t" and f: "fetch_ok L tr t" and st: "status_ok L tr t"
    unfolding assms(2) by auto
  from blocks_when [OF ok assms(10)] u have fin: "\<exists>x. gs_consumer t = Finished x"
    by (auto simp: undisturbed_def blocked_def)
  with u have queue: "gs_queue t = []" and ended: "is_ended (gs_producer t)" by (auto simp: undisturbed_def)
  from assms(2,8) have readable: "\<forall>e \<in> set (rest w). result_readable (sv_lib E) e" by simp
  from fed_run [OF assms(5) readable laws assms(4,9)] assms(2) have fed: "fed L rest (rest w) tr t" by simp
  with ended f have goods: "goods tr = rest w" and fetched: "fetches tr = goods tr"
    by (auto simp: fed_def fetch_ok_def failing_def is_ended_def)
  let ?m = "if given (qr_model q) then the (qr_model q) else ''sonnet''"
  let ?session = "case qr_session_id request of Some k \<Rightarrow> k | None \<Rightarrow> i"
  have starts: "starts_with (sv_lib E) i ?m (rest w)"
    unfolding assms(2,7) events by (rule first_event_starts [OF assms(1)])
  from ended have "\<not> is_creating (gs_producer t)"
    by (auto simp: is_ended_def)
  with session_ok_run [OF assms(5) readable laws assms(4) starts assms(9)] fetched goods events assms(7)
  have session: "gs_session t = JStr ?session" and
    created: "creations tr =
      (if qr_session_id request = None \<and> ?session \<noteq> [] then [Created (JStr ?m) (JStr ?session)] else [])"
    by (auto simp: session_ok_def split: option.splits)
  have "message_count (first_event L q i (discover_commands files) # body) = message_count body"
    and "recorded_cost L (first_event L q i (discover_commands files) # body) = recorded_cost L body"
    by (simp_all add: message_count_def recorded_cost_def first_event_def init_event_def format_sse_def)
  with fed fetched goods events assms(7) have "gs_num_turns t = JInt (message_count body)"
    and "gs_total_cost t = recorded_cost L body"
    by (simp_all add: fed_def)
  with st fin session have updated: "updates tr = (if ?session = [] then []
      else [Updated (JStr ?session) (if saw_error L tr then ''error'' else ''completed'') (JInt (message_count body))
        (recorded_cost L body)])"
    by (simp add: status_ok_def)
  have "sents tr = puts tr"
    using queue_fifo [OF task_run_queue_run [OF assms(9)]] queue by simp
  with calculation goods created updated fin assms(7) show ?thesis
    by (intro exI [of _ q] exI [of _ i] exI [of _ ?session] exI [of _ ?m] exI [of _ files] exI [of _ body]) simp
qed

section \<open>A concrete stream\<close>

definition replay :: "agent_event list stream_services" where
  "replay =
     \<lparr>sv_lib = ref_lib,
      sv_next = (\<lambda>es. case es of [] \<Rightarrow> (Inr None, []) | e # es' \<Rightarrow> (Inr (Some e), es')),
      sv_interrupt = (\<lambda>i es. (Inr True, es)), sv_create = (\<lambda>m i es. (Inr (), es)),
      sv_update = (\<lambda>i st t c es. (Inr (), es))\<rparr>"

lemma replay_bounded: "bounded_services replay length"
  by (auto simp: bounded_services_def no_more_def replay_def split: list.splits)

lemma replay_calm: "calm_services replay"
  by (auto simp: calm_services_def calm_def replay_def split: list.splits)

lemma replay_feeds: "feeds replay (\<lambda>es. es)"
  by (auto simp: feeds_def keeps_in_def replay_def split: list.splits)

definition ref_agent_service :: "(server redis_world, bool) agent_service" where
  "ref_agent_service =
     \<lparr>as_env = quiet_env, as_injector = None, as_commands = (\<lambda>cwd. Inr None), as_checkpoints = None,
      as_webhooks = \<lparr>ws_post = (\<lambda>u b h t. throw (TimeoutError [])), ws_re_match = (\<lambda>p t. None), ws_text = (\<lambda>e. [])\<rparr>\<rparr>"

definition resumed_request :: query_request where
  "resumed_request = (plain_request ''hello'')\<lparr>qr_session_id := Some ''s1''\<rparr>"

definition resumed_result :: "json dict" where
  "resumed_result =
     [(''session_id'', JStr ''s1''), (''is_error'', JBool False), (''is_complete'', JBool True), (''stop_reason'', JNull),
      (''duration_ms'', JInt 0), (''num_turns'', JInt 0), (''total_cost_usd'', JNull), (''usage'', JNull),
      (''model_usage'', JNull), (''result'', JNull), (''structured_output'', JNull)]"

lemma resumed_run:
  "\<exists>s'. run_stream quiet_env 2 resumed_request (Some ''s1'') [] (quiet_state\<lparr>qs_events := []\<rparr>) = (Inr (), s') \<and>
     qs_events s' = [format_sse ref_lib ''result'' resumed_result, done_event ref_lib ''completed'']"
  by (simp add: run_stream_def stream_body_def session_id_or_new_def start_query_def in_services_def monotonic_def
      modify_def quiet_env_def resumed_request_def plain_request_def quiet_state_def register_def unregister_def
      with_tracker_cache_def execute_query_def execute_with_sdk_client_def with_client_def inject_memory_context_def
      on_message_def map_sdk_message_def in_ctx_def next_turn_def py_plus_def assistant_texts_def getattr_or_def
      yield_result_def elapsed_ms_def build_result_event_def result_data_def emit_opt_def yield_event_def
      yield_done_def result_usage_def trunc_rat_def checked_str_def numeral_2_eq_2 reads_def ref_eval Let_def
      new_context_def resumed_result_def done_event_def del: eval_rules cong: option.case_cong)

definition resumed_first :: agent_event where
  "resumed_first = first_event ref_lib resumed_request ''s1'' []"

lemma ref_query_stream:
  "\<exists>s'. query_stream ref_agent_service 2 resumed_request [] (quiet_state, None) = (Inr (), s') \<and>
     qs_events (fst s') = [resumed_first, format_sse ref_lib ''result'' resumed_result, done_event ref_lib ''completed'']"
proof -
  obtain s' where run: "run_stream quiet_env 2 resumed_request (Some ''s1'') [] (quiet_state\<lparr>qs_events := []\<rparr>) = (Inr (), s')"
    and ev: "qs_events s' = [format_sse ref_lib ''result'' resumed_result, done_event ref_lib ''completed'']"
    using resumed_run by blast
  have "build_init_event ref_agent_service resumed_request ''s1'' [] = Inr resumed_first"
    by (simp add: build_init_event_def resumed_first_def first_event_def ref_agent_service_def quiet_env_def
        resumed_request_def plain_request_def permission_modes_def)
  moreover have "qr_session_id resumed_request = Some ''s1''"
    by (simp add: resumed_request_def)
  ultimately show ?thesis
    using run ev
    by (simp add: query_stream_def in_query_def inject_servers_for_def session_id_or_new_def discover_commands_def
        ref_agent_service_def after_event_def modify_def and_then_def)
qed

lemma resumed_readable:
  assumes "e \<in> {resumed_first, format_sse ref_lib ''result'' resumed_result, done_event ref_lib ''completed''}"
  shows "result_readable ref_lib e"
proof -
  have "json_loads ref_lib (json_dumps ref_lib (JObj resumed_result)) = Some (JObj resumed_result)"
    by (rule ref_lib.loads_dumps) (simp add: resumed_result_def)
  moreover have "map_of resumed_result ''turns'' = None"
    by (simp add: resumed_result_def)
  ultimately show ?thesis
    using assms by (auto simp: result_readable_def resumed_first_def first_event_def init_event_def done_event_def
        format_sse_def simp del: ref_lib_loads ref_lib_sel)
qed

lemma query_served_witness:
  "\<exists>s' tr t. query_stream ref_agent_service 2 resumed_request [] (quiet_state, None) = (Inr (), s') \<and>
     task_run replay (stream_init (Some ''s1'') (qs_events (fst s'))) tr t \<and>
     (\<exists>x. gs_consumer t = Finished x) \<and> sents tr = puts tr"
proof -
  obtain s' where s': "query_stream ref_agent_service 2 resumed_request [] (quiet_state, None) = (Inr (), s')"
    and ev: "qs_events (fst s') = [resumed_first, format_sse ref_lib ''result'' resumed_result, done_event ref_lib ''completed'']"
    using ref_query_stream by blast
  obtain tr t where run: "task_run replay (stream_init (Some ''s1'') (qs_events (fst s'))) tr t" "\<nexists>a t'. task_step replay t a t'"
    using maximal_task_run [OF replay_bounded] by blast
  have lib: "sv_lib replay = ref_lib" "ae_lib (as_env ref_agent_service) = ref_lib" "pylib_laws ref_lib"
    "qr_session_id resumed_request = Some ''s1''"
    by (simp_all add: replay_def ref_agent_service_def quiet_env_def ref_lib.pylib_laws_axioms resumed_request_def)
  have "\<forall>e \<in> set (qs_events (fst s')). result_readable ref_lib e"
    using ev resumed_readable by simp
  from query_served [OF lib(3,1,2) replay_calm replay_feeds s' refl this, unfolded lib(4), OF run] s' run(1)
  show ?thesis by blast
qed

end
