(* ===== verification/Errors.thy ===== *)
theory Errors
  imports OpenAI RegistryServices RefLibrary
begin

text \<open>
  The exceptions of the API (\<open>apps/api/exceptions/\<close>) with their codes, statuses and details, and
  the handlers that turn what a route raises into a reply (\<open>apps/api/exception_handlers.py\<close>).

  A class of the package is a function to the fields that \<open>APIError\<close> stores. The services of
  the other theories raise values of \<open>exn\<close>, whose \<open>api_error_of\<close> is the error they stand for.
\<close>

section \<open>The exceptions\<close>

record api_error =
  x_message :: string
  x_code :: string
  x_status :: int
  x_details :: "json dict"

definition details_if :: "bool \<Rightarrow> string \<Rightarrow> json \<Rightarrow> json dict" where
  "details_if b k v = (if b then [(k, v)] else [])"

definition json_opt_entry :: "string \<Rightarrow> ('a \<Rightarrow> json) \<Rightarrow> 'a option \<Rightarrow> json dict" where
  "json_opt_entry k f v = (case v of None \<Rightarrow> [] | Some x \<Rightarrow> [(k, f x)])"

definition given_entry :: "string \<Rightarrow> string option \<Rightarrow> json dict" where
  "given_entry k v = (if given v then [(k, JStr (the v))] else [])"

definition to_dict :: "api_error \<Rightarrow> json" where
  "to_dict e =
     JObj [(''error'', JObj [(''code'', JStr (x_code e)), (''message'', JStr (x_message e)), (''details'', JObj (x_details e))])]"

definition api_exception :: "string \<Rightarrow> string \<Rightarrow> int \<Rightarrow> json dict \<Rightarrow> api_error" where
  "api_exception message code status details =
     \<lparr>x_message = message, x_code = code, x_status = status, x_details = details\<rparr>"

definition agent_exception :: "string \<Rightarrow> string option \<Rightarrow> api_error" where
  "agent_exception message original_error =
     api_exception message ''AGENT_ERROR'' 500 (given_entry ''original_error'' original_error)"

definition tool_not_allowed :: "string \<Rightarrow> string list \<Rightarrow> api_error" where
  "tool_not_allowed tool_name allowed_tools =
     api_exception (''Tool '' @ quoted tool_name @ '' is not allowed'') ''TOOL_NOT_ALLOWED'' 400
       [(''tool_name'', JStr tool_name), (''allowed_tools'', json_strings allowed_tools)]"

definition hook_exception :: "string \<Rightarrow> string \<Rightarrow> api_error" where
  "hook_exception ev message = api_exception message ''HOOK_ERROR'' 502 [(''hook_event'', JStr ev)]"

definition assistant_not_found :: "string \<Rightarrow> api_error" where
  "assistant_not_found i =
     api_exception (''Assistant '' @ quoted i @ '' not found'') ''ASSISTANT_NOT_FOUND'' 404 [(''assistant_id'', JStr i)]"

definition authentication_error :: "string \<Rightarrow> api_error" where
  "authentication_error message = api_exception message ''AUTHENTICATION_ERROR'' 401 []"

definition rate_limit_error :: "int option \<Rightarrow> api_error" where
  "rate_limit_error retry_after =
     api_exception ''Rate limit exceeded'' ''RATE_LIMIT_EXCEEDED'' 429 (json_opt_entry ''retry_after'' JInt retry_after)"

definition checkpoint_not_found :: "string \<Rightarrow> api_error" where
  "checkpoint_not_found i =
     api_exception (''Checkpoint '' @ quoted i @ '' not found'') ''CHECKPOINT_NOT_FOUND'' 404 [(''checkpoint_id'', JStr i)]"

definition invalid_checkpoint :: "string \<Rightarrow> string \<Rightarrow> string option \<Rightarrow> api_error" where
  "invalid_checkpoint i session_id reason =
     api_exception (if given reason then the reason else ''Checkpoint '' @ quoted i @ '' is not valid for session'')
       ''INVALID_CHECKPOINT'' 400 [(''checkpoint_id'', JStr i), (''session_id'', JStr session_id)]"

definition database_error :: "string \<Rightarrow> api_error" where
  "database_error message = api_exception message ''DATABASE_ERROR'' 500 []"

definition cache_exception :: "string \<Rightarrow> api_error" where
  "cache_exception message = api_exception message ''CACHE_ERROR'' 500 []"

definition request_timeout :: "string \<Rightarrow> int option \<Rightarrow> string option \<Rightarrow> api_error" where
  "request_timeout message timeout_seconds operation =
     api_exception message ''REQUEST_TIMEOUT'' 504
       (json_opt_entry ''timeout_seconds'' JInt timeout_seconds @ given_entry ''operation'' operation)"

definition service_unavailable :: "string \<Rightarrow> int option \<Rightarrow> api_error" where
  "service_unavailable message retry_after =
     api_exception message ''SERVICE_UNAVAILABLE'' 503 (json_opt_entry ''retry_after'' JInt retry_after)"

definition share_not_found :: "string \<Rightarrow> api_error" where
  "share_not_found token = api_exception ''MCP share token not found'' ''MCP_SHARE_NOT_FOUND'' 404 [(''token'', JStr token)]"

definition memory_not_found :: "string \<Rightarrow> string option \<Rightarrow> api_error" where
  "memory_not_found i message =
     api_exception (if given message then the message else ''Memory '' @ i @ '' not found or not authorized'')
       ''MEMORY_NOT_FOUND'' 404 [(''memory_id'', JStr i)]"

definition session_not_found :: "string \<Rightarrow> api_error" where
  "session_not_found i =
     api_exception (''Session '' @ quoted i @ '' not found'') ''SESSION_NOT_FOUND'' 404 [(''session_id'', JStr i)]"

definition session_locked :: "string \<Rightarrow> api_error" where
  "session_locked i =
     api_exception (''Session '' @ quoted i @ '' is currently in use'') ''SESSION_LOCKED'' 409 [(''session_id'', JStr i)]"

definition status_display :: "string \<Rightarrow> string" where
  "status_display status = (if status = ''error'' then ''errored'' else status)"

definition session_completed :: "string \<Rightarrow> string \<Rightarrow> api_error" where
  "session_completed i status =
     api_exception (''Session '' @ quoted i @ '' has already '' @ status_display status) ''SESSION_COMPLETED'' 400
       [(''session_id'', JStr i), (''status'', JStr status)]"

definition preset_not_found :: "string \<Rightarrow> api_error" where
  "preset_not_found i =
     api_exception (''Tool preset '' @ quoted i @ '' not found'') ''TOOL_PRESET_NOT_FOUND'' 404 [(''preset_id'', JStr i)]"

definition validation_error :: "string \<Rightarrow> string option \<Rightarrow> api_error" where
  "validation_error message field = api_exception message ''VALIDATION_ERROR'' 422 (given_entry ''field'' field)"

definition structured_output_error :: "string \<Rightarrow> string list \<Rightarrow> string option \<Rightarrow> api_error" where
  "structured_output_error message errors schema_type =
     api_exception message ''STRUCTURED_OUTPUT_VALIDATION_ERROR'' 422
       (details_if (errors \<noteq> []) ''validation_errors'' (json_strings errors) @ given_entry ''schema_type'' schema_type)"

section \<open>The handlers\<close>

record reply =
  rp_status :: int
  rp_content :: json

definition is_openai_path :: "string \<Rightarrow> bool" where
  "is_openai_path path \<longleftrightarrow> prefix ''/v1/'' path"

definition openai_reply :: "int \<Rightarrow> api_error \<Rightarrow> reply" where
  "openai_reply status e =
     \<lparr>rp_status = status, rp_content = JObj (translate_error (x_message e) (x_code e) (x_status e))\<rparr>"

definition api_error_handler :: "string \<Rightarrow> api_error \<Rightarrow> reply" where
  "api_error_handler path e =
     (if is_openai_path path then openai_reply (x_status e) e
      else \<lparr>rp_status = x_status e, rp_content = to_dict e\<rparr>)"

text \<open>The errors of Pydantic are dictionaries; \<open>loc\<close> is a sequence of names and indices.\<close>

definition loc_of :: "json dict \<Rightarrow> json list" where
  "loc_of err = (case dict_get err ''loc'' of Some (JArr xs) \<Rightarrow> xs | _ \<Rightarrow> [])"

definition serialize_error :: "pylib \<Rightarrow> json dict \<Rightarrow> json" where
  "serialize_error L err =
     JObj ([(''loc'', JArr (loc_of err)), (''msg'', JStr (py_str L (dict_get_or err ''msg'' (JStr [])))),
        (''type'', JStr (py_str L (dict_get_or err ''type'' (JStr []))))] @
       (case dict_get err ''ctx'' of
          Some (JObj ctx) \<Rightarrow> [(''ctx'', JObj (map (\<lambda>(k, v). (k, JStr (py_str L v))) ctx))]
        | _ \<Rightarrow> []))"

definition serialize_validation_errors :: "pylib \<Rightarrow> json dict list \<Rightarrow> json" where
  "serialize_validation_errors L errs = JArr (map (serialize_error L) errs)"

definition first_error :: "json dict list \<Rightarrow> json dict" where
  "first_error errs = (case errs of [] \<Rightarrow> [] | e # _ \<Rightarrow> e)"

text \<open>Both validation handlers; \<open>msg\<close> is text in Pydantic's errors.\<close>

definition validation_error_handler :: "pylib \<Rightarrow> string \<Rightarrow> json dict list \<Rightarrow> reply" where
  "validation_error_handler L path errs =
     (if is_openai_path path
      then
        (let message = py_str L (dict_get_or (first_error errs) ''msg'' (JStr ''Validation failed''));
             field = join ''.'' (map (py_str L) (loc_of (first_error errs)))
         in openai_reply 400 (api_exception message ''VALIDATION_ERROR'' 400
              (details_if (field \<noteq> []) ''field'' (JStr field))))
      else \<lparr>rp_status = 422, rp_content = JObj [(''detail'', serialize_validation_errors L errs)]\<rparr>)"

record settings =
  se_api_key :: string
  se_request_timeout :: int
  se_debug :: bool

definition timeout_handler :: "settings \<Rightarrow> string \<Rightarrow> reply" where
  "timeout_handler S text =
     (let e = request_timeout (if text \<noteq> [] then text else ''Request timed out'') (Some (se_request_timeout S)) (Some ''request'')
      in \<lparr>rp_status = x_status e, rp_content = to_dict e\<rparr>)"

definition general_handler :: "settings \<Rightarrow> string \<Rightarrow> reply" where
  "general_handler S class_name =
     \<lparr>rp_status = 500, rp_content = to_dict (api_exception ''An unexpected error occurred'' ''INTERNAL_ERROR'' 500
        (details_if (se_debug S) ''type'' (JStr class_name)))\<rparr>"

definition http_exception_code :: "int \<Rightarrow> string" where
  "http_exception_code status =
     (case map_of [(400, ''VALIDATION_ERROR''), (401, ''AUTHENTICATION_ERROR''), (403, ''FORBIDDEN''),
         (404, ''NOT_FOUND''), (409, ''CONFLICT''), (422, ''VALIDATION_ERROR''), (429, ''RATE_LIMIT_EXCEEDED''),
         (500, ''INTERNAL_ERROR''), (503, ''SERVICE_UNAVAILABLE'')] status of
        None \<Rightarrow> ''HTTP_ERROR''
      | Some c \<Rightarrow> c)"

definition http_exception_handler :: "pylib \<Rightarrow> string \<Rightarrow> int \<Rightarrow> json \<Rightarrow> reply" where
  "http_exception_handler L path status detail =
     (if is_openai_path path
      then openai_reply status (api_exception (py_str L detail) (http_exception_code status) status [])
      else \<lparr>rp_status = status, rp_content = JObj [(''detail'', detail)]\<rparr>)"

section \<open>What a route raises\<close>

text \<open>The services raise \<open>APIError\<close> itself without details.\<close>

fun api_error_of :: "exn \<Rightarrow> api_error option" where
  "api_error_of (APIError message code status) = Some (api_exception message code status [])"
| "api_error_of (SessionNotFoundError i) = Some (session_not_found i)"
| "api_error_of (AssistantNotFoundError i) = Some (assistant_not_found i)"
| "api_error_of _ = None"

text \<open>
  What reaches the handlers: an exception of the package, the errors of a request or of a model
  that Pydantic refused, an \<open>HTTPException\<close> of FastAPI, and anything else that is raised. Where another theory has
  a \<open>ValueError\<close> for a value that a schema refuses, what arrives here is \<open>ModelInvalid\<close>.
\<close>

datatype raised_error =
    ApiException api_error
  | RequestInvalid "json dict list"
  | ModelInvalid "json dict list"
  | HttpException int json
  | Raised exn

text \<open>
  The handler registered for the most specific class; what is no \<open>Exception\<close>, a cancellation,
  reaches none.
\<close>

definition handle_exception ::
  "pylib \<Rightarrow> settings \<Rightarrow> (exn \<Rightarrow> string) \<Rightarrow> string \<Rightarrow> raised_error \<Rightarrow> reply option" where
  "handle_exception L S class_name path x =
     (case x of
        ApiException e \<Rightarrow> Some (api_error_handler path e)
      | RequestInvalid errs \<Rightarrow> Some (validation_error_handler L path errs)
      | ModelInvalid errs \<Rightarrow> Some (validation_error_handler L path errs)
      | HttpException status detail \<Rightarrow> Some (http_exception_handler L path status detail)
      | Raised e \<Rightarrow>
          if \<not> is_exception e then None
          else case api_error_of e of
            Some err \<Rightarrow> Some (api_error_handler path err)
          | None \<Rightarrow>
              Some (case e of TimeoutError text \<Rightarrow> timeout_handler S text | _ \<Rightarrow> general_handler S (class_name e)))"

section \<open>The shape of an error\<close>

text \<open>The three formats: the native one, that of OpenAI, and that of FastAPI.\<close>

definition native_error :: "string \<Rightarrow> string \<Rightarrow> json dict \<Rightarrow> json" where
  "native_error code message details =
     JObj [(''error'', JObj [(''code'', JStr code), (''message'', JStr message), (''details'', JObj details)])]"

definition openai_type :: "int \<Rightarrow> string" where
  "openai_type status =
     (if status = 401 then ''authentication_error'' else if status = 400 \<or> status = 404 then ''invalid_request_error''
      else if status = 403 then ''permission_error'' else if status = 429 then ''rate_limit_exceeded'' else ''api_error'')"

definition openai_error :: "int \<Rightarrow> string \<Rightarrow> string \<Rightarrow> json" where
  "openai_error status code message =
     JObj [(''error'', JObj [(''type'', JStr (openai_type status)), (''message'', JStr message), (''code'', JStr code)])]"

definition detail_error :: "json \<Rightarrow> json" where
  "detail_error d = JObj [(''detail'', d)]"

text \<open>An entry of a refused request: where, what and which kind of error, and perhaps its context.\<close>

definition located_error :: "json \<Rightarrow> bool" where
  "located_error j \<longleftrightarrow>
     (\<exists>loc msg kind rest. j = JObj ([(''loc'', JArr loc), (''msg'', JStr msg), (''type'', JStr kind)] @ rest) \<and>
        map fst rest \<in> {[], [''ctx'']})"

text \<open>The reply that belongs to what was raised, on a path of the OpenAI interface or not.\<close>

definition proper_reply :: "bool \<Rightarrow> pylib \<Rightarrow> raised_error \<Rightarrow> reply \<Rightarrow> bool" where
  "proper_reply openai L x r \<longleftrightarrow>
     (case x of
        ApiException e \<Rightarrow>
          rp_status r = x_status e \<and> rp_content r =
            (if openai then openai_error (x_status e) (x_code e) (x_message e)
             else native_error (x_code e) (x_message e) (x_details e))
      | HttpException status detail \<Rightarrow>
          rp_status r = status \<and>
          (if openai then \<exists>code. rp_content r = openai_error status code (py_str L detail)
           else rp_content r = detail_error detail)
      | Raised e \<Rightarrow>
          (case e of
             APIError message code status \<Rightarrow>
               rp_status r = status \<and> rp_content r =
                 (if openai then openai_error status code message else native_error code message [])
           | SessionNotFoundError i \<Rightarrow>
               rp_status r = 404 \<and>
               (\<exists>message details. rp_content r =
                 (if openai then openai_error 404 ''SESSION_NOT_FOUND'' message
                  else native_error ''SESSION_NOT_FOUND'' message details))
           | AssistantNotFoundError i \<Rightarrow>
               rp_status r = 404 \<and>
               (\<exists>message details. rp_content r =
                 (if openai then openai_error 404 ''ASSISTANT_NOT_FOUND'' message
                  else native_error ''ASSISTANT_NOT_FOUND'' message details))
           | TimeoutError text \<Rightarrow>
               rp_status r = 504 \<and> (\<exists>message details. rp_content r = native_error ''REQUEST_TIMEOUT'' message details)
           | _ \<Rightarrow>
               rp_status r = 500 \<and>
               (\<exists>details. rp_content r = native_error ''INTERNAL_ERROR'' ''An unexpected error occurred'' details))
      | RequestInvalid errs \<Rightarrow>
          (if openai then rp_status r = 400 \<and> (\<exists>message. rp_content r = openai_error 400 ''VALIDATION_ERROR'' message)
           else rp_status r = 422 \<and>
             (\<exists>ds. rp_content r = detail_error (JArr ds) \<and> length ds = length errs \<and> list_all located_error ds))
      | ModelInvalid errs \<Rightarrow>
          (if openai then rp_status r = 400 \<and> (\<exists>message. rp_content r = openai_error 400 ''VALIDATION_ERROR'' message)
           else rp_status r = 422 \<and>
             (\<exists>ds. rp_content r = detail_error (JArr ds) \<and> length ds = length errs \<and> list_all located_error ds)))"

lemma translated_error: "JObj (translate_error message code status) = openai_error status code message"
  by (simp add: translate_error_def openai_error_def map_status_to_type_def openai_type_def)

lemma dict_error: "to_dict e = native_error (x_code e) (x_message e) (x_details e)"
  by (simp add: to_dict_def native_error_def)

lemma serialized_located: "located_error (serialize_error L err)"
  unfolding located_error_def serialize_error_def
  by (intro exI conjI) (rule refl, simp split: option.split json.split)

lemma api_error_reply:
  "rp_status (api_error_handler path e) = x_status e"
  "rp_content (api_error_handler path e) =
     (if is_openai_path path then openai_error (x_status e) (x_code e) (x_message e)
      else native_error (x_code e) (x_message e) (x_details e))"
  by (simp_all add: api_error_handler_def openai_reply_def translated_error dict_error)

lemma validation_reply:
  "if is_openai_path path
   then rp_status (validation_error_handler L path errs) = 400 \<and>
     (\<exists>message. rp_content (validation_error_handler L path errs) = openai_error 400 ''VALIDATION_ERROR'' message)
   else rp_status (validation_error_handler L path errs) = 422 \<and>
     (\<exists>ds. rp_content (validation_error_handler L path errs) = detail_error (JArr ds) \<and> length ds = length errs \<and>
       list_all located_error ds)"
  by (auto simp: validation_error_handler_def Let_def openai_reply_def translated_error api_exception_def detail_error_def
      serialize_validation_errors_def list_all_iff serialized_located)

lemma raised_reply:
  assumes "is_exception e"
  shows "\<exists>r. handle_exception L S class_name path (Raised e) = Some r \<and> proper_reply (is_openai_path path) L (Raised e) r"
  using assms
  by (cases e)
     (simp_all add: handle_exception_def proper_reply_def api_error_reply api_exception_def session_not_found_def
        assistant_not_found_def timeout_handler_def general_handler_def request_timeout_def Let_def dict_error, auto)



end
