(* ===== verification/Access.thy ===== *)
theory Access
  imports Errors SessionModels AgentOptions
begin

text \<open>
  Who reaches a route: the middleware of the application (\<open>middleware/auth.py\<close>,
  \<open>openai_auth.py\<close>, \<open>correlation.py\<close>), in the order in which \<open>create_app\<close> (\<open>main.py\<close>) adds it, the
  dependency \<open>verify_api_key\<close> (\<open>dependencies.py\<close>), and the keys of the rate limiter
  (\<open>ratelimit.py\<close>).

  The names of headers are in lower case. \<open>CORSMiddleware\<close> of Starlette stands in front of the
  stack, answers preflight requests and is not modelled. The request log is in \<open>RequestLog\<close>.
\<close>

record http_request =
  rq_path :: string
  rq_method :: string
  rq_headers :: "string dict"
  rq_remote :: string \<comment> \<open>what \<open>get_remote_address\<close> of slowapi gives\<close>
  rq_api_key :: "string option" \<comment> \<open>\<open>request.state.api_key\<close>\<close>
  rq_correlation :: "string option"

record full_reply = reply +
  rp_headers :: "string dict"

type_synonym 'w handler = "http_request \<Rightarrow> ('w, full_reply) io"

definition header :: "http_request \<Rightarrow> string \<Rightarrow> string option" where
  "header rq name = map_of (rq_headers rq) name"

section \<open>The API key\<close>

definition public_paths :: "string list" where
  "public_paths =
     [''/'', ''/health'', ''/api/v1/health'', ''/api/v1/mcp-servers/share'', ''/docs'', ''/redoc'', ''/openapi.json'']"

definition is_public :: "string \<Rightarrow> bool" where
  "is_public path \<longleftrightarrow> path \<in> set public_paths \<or> prefix ''/api/v1/mcp-servers/share/'' path"

definition json_response :: "api_error \<Rightarrow> full_reply" where
  "json_response e = \<lparr>rp_status = x_status e, rp_content = to_dict e, rp_headers = []\<rparr>"

definition api_key_auth :: "settings \<Rightarrow> 'w handler \<Rightarrow> 'w handler" where
  "api_key_auth S next rq =
     (if is_public (rq_path rq) then next rq
      else if rq_method rq = ''OPTIONS'' then next rq
      else
        (let api_key = header rq ''x-api-key'' in
         if \<not> given api_key then ret (json_response (authentication_error ''Missing API key''))
         else and_then (lift_sum (compare_digest (the api_key) (se_api_key S))) (\<lambda>same.
           if \<not> same then ret (json_response (authentication_error ''Invalid API key''))
           else next (rq\<lparr>rq_api_key := api_key\<rparr>))))"

definition bearer_token :: "http_request \<Rightarrow> string" where
  "bearer_token rq =
     (let auth = strip (case header rq ''authorization'' of None \<Rightarrow> [] | Some v \<Rightarrow> v) in
      if prefix ''bearer '' (lower auth) then strip (drop 7 auth) else [])"

definition bearer_auth :: "'w handler \<Rightarrow> 'w handler" where
  "bearer_auth next rq =
     (if \<not> prefix ''/v1/'' (rq_path rq) then next rq
      else if header rq ''x-api-key'' \<noteq> None then next rq
      else if bearer_token rq = [] then next rq
      else next (rq\<lparr>rq_headers := dict_set ''x-api-key'' (bearer_token rq) (rq_headers rq)\<rparr>))"

section \<open>Correlation\<close>

definition correlate :: "('w, string) io \<Rightarrow> 'w handler \<Rightarrow> 'w handler" where
  "correlate new_id next rq =
     and_then (if given (header rq ''x-correlation-id'') then ret (the (header rq ''x-correlation-id'')) else new_id) (\<lambda>i.
     and_then (next (rq\<lparr>rq_correlation := Some i\<rparr>)) (\<lambda>r.
     ret (r\<lparr>rp_headers := dict_set ''x-correlation-id'' i (rp_headers r)\<rparr>)))"

text \<open>What is added last is the outermost.\<close>

definition application :: "settings \<Rightarrow> ('w, string) io \<Rightarrow> 'w handler \<Rightarrow> 'w handler" where
  "application S new_id route = correlate new_id (bearer_auth (api_key_auth S route))"

section \<open>The dependency of the routes\<close>

definition verified_key :: "settings \<Rightarrow> http_request \<Rightarrow> exn + string" where
  "verified_key S rq =
     (case rq_api_key rq of
        Some k \<Rightarrow> Inr k
      | None \<Rightarrow>
          (let k = header rq ''x-api-key'' in
           if \<not> given k then Inl (APIError ''Missing API key'' ''AUTHENTICATION_ERROR'' 401)
           else bind_sum (compare_digest (the k) (se_api_key S)) (\<lambda>same.
             if same then Inr (the k) else Inl (APIError ''Invalid API key'' ''AUTHENTICATION_ERROR'' 401))))"

section \<open>Rate limits\<close>

text \<open>\<open>split\<close> at each comma, the last part\<close>

definition last_part :: "string \<Rightarrow> string" where
  "last_part s = rev (takeWhile (\<lambda>c. c \<noteq> CHR '','') (rev s))"

definition get_client_ip :: "bool \<Rightarrow> http_request \<Rightarrow> string" where
  "get_client_ip trust_proxy_headers rq =
     (if trust_proxy_headers \<and> given (header rq ''x-forwarded-for'')
      then strip (last_part (the (header rq ''x-forwarded-for'')))
      else rq_remote rq)"

definition limiter_key :: "bool \<Rightarrow> http_request \<Rightarrow> string" where
  "limiter_key trust_proxy_headers rq =
     (let api_key = header rq ''x-api-key'' in
      if given api_key then ''key:'' @ the api_key else get_client_ip trust_proxy_headers rq)"

definition rate_limit_reply :: "string \<Rightarrow> int option \<Rightarrow> full_reply" where
  "rate_limit_reply detail retry_after =
     \<lparr>rp_status = 429,
      rp_content = JObj [(''error'', JObj [(''code'', JStr ''RATE_LIMIT_EXCEEDED''),
        (''message'', JStr (''Rate limit exceeded: '' @ detail)),
        (''details'', JObj [(''retry_after'', json_of_opt JInt retry_after)])])],
      rp_headers = [(''retry-after'', int_text (case retry_after of None \<Rightarrow> 60 | Some n \<Rightarrow> n))]\<rparr>"

definition rate_limit :: "int \<Rightarrow> string" where
  "rate_limit per_minute = int_text per_minute @ ''/minute''"

section \<open>Which requests reach a route\<close>

text \<open>The key a request presents: its header, or on the OpenAI paths a bearer token in its place.\<close>

definition presented_key :: "http_request \<Rightarrow> string option" where
  "presented_key rq =
     (if header rq ''x-api-key'' = None \<and> is_openai_path (rq_path rq) \<and> bearer_token rq \<noteq> []
      then Some (bearer_token rq) else header rq ''x-api-key'')"

text \<open>The paths that need no key, listed anew: the pages of the API, its health, and shared servers.\<close>

definition open_path :: "string \<Rightarrow> bool" where
  "open_path path \<longleftrightarrow>
     path \<in> {''/'', ''/health'', ''/api/v1/health'', ''/docs'', ''/redoc'', ''/openapi.json''} \<or>
     path = ''/api/v1/mcp-servers/share'' \<or> prefix ''/api/v1/mcp-servers/share/'' path"

definition admitted :: "settings \<Rightarrow> http_request \<Rightarrow> bool" where
  "admitted S rq \<longleftrightarrow>
     open_path (rq_path rq) \<or> rq_method rq = ''OPTIONS'' \<or> presented_key rq = Some (se_api_key S)"

lemma open_is_public: "open_path path = is_public path"
  by (auto simp: open_path_def is_public_def public_paths_def)

text \<open>A route that writes down the requests it gets.\<close>

definition recording :: "(http_request \<Rightarrow> exn + full_reply) \<Rightarrow> http_request list handler" where
  "recording answer rq = (\<lambda>seen. (answer rq, seen @ [rq]))"

lemma header_set:
  "header (rq\<lparr>rq_headers := dict_set k v (rq_headers rq)\<rparr>) n = (if n = k then Some v else header rq n)"
  by (simp add: header_def)

lemma api_key_auth_sees:
  assumes "is_ascii (se_api_key S)" and "se_api_key S \<noteq> []"
  shows "snd (api_key_auth S (recording answer) rq seen) =
    (if is_public (rq_path rq) \<or> rq_method rq = ''OPTIONS'' then seen @ [rq]
     else if header rq ''x-api-key'' = Some (se_api_key S) then seen @ [rq\<lparr>rq_api_key := Some (se_api_key S)\<rparr>]
     else seen)"
proof (cases "header rq ''x-api-key''")
  case None
  then show ?thesis by (simp add: api_key_auth_def recording_def)
next
  case (Some k)
  with assms show ?thesis
    by (cases "is_ascii k") (auto simp: api_key_auth_def recording_def compare_digest_def and_then_def Let_def)
qed

lemma bearer_auth_presents:
  "\<exists>rq'. bearer_auth next rq = next rq' \<and> header rq' ''x-api-key'' = presented_key rq \<and>
     rq_path rq' = rq_path rq \<and> rq_method rq' = rq_method rq \<and> rq_api_key rq' = rq_api_key rq"
proof (cases "header rq ''x-api-key'' = None \<and> is_openai_path (rq_path rq) \<and> bearer_token rq \<noteq> []")
  case True
  then show ?thesis
    by (intro exI [of _ "rq\<lparr>rq_headers := dict_set ''x-api-key'' (bearer_token rq) (rq_headers rq)\<rparr>"])
       (simp add: bearer_auth_def presented_key_def header_set is_openai_path_def)
next
  case False
  then show ?thesis
    by (intro exI [of _ rq]) (auto simp: bearer_auth_def presented_key_def is_openai_path_def)
qed

text \<open>What a request without the configured key gets.\<close>

definition refused :: "string option \<Rightarrow> exn + full_reply \<Rightarrow> bool" where
  "refused key res \<longleftrightarrow>
     (case key of
        Some (c # k) \<Rightarrow>
          if is_ascii (c # k)
          then \<exists>r. res = Inr r \<and> rp_status r = 401 \<and>
            rp_content r = native_error ''AUTHENTICATION_ERROR'' ''Invalid API key'' []
          else \<exists>m. res = Inl (TypeError m)
      | _ \<Rightarrow>
          \<exists>r. res = Inr r \<and> rp_status r = 401 \<and>
            rp_content r = native_error ''AUTHENTICATION_ERROR'' ''Missing API key'' [])"

lemma api_key_auth_refuses:
  assumes "is_ascii (se_api_key S)" and "\<not> is_public (rq_path rq)" and "rq_method rq \<noteq> ''OPTIONS''"
    and "header rq ''x-api-key'' \<noteq> Some (se_api_key S)"
  shows "refused (header rq ''x-api-key'') (fst (api_key_auth S next rq seen))"
proof (cases "header rq ''x-api-key''")
  case None
  with assms show ?thesis
    by (simp add: refused_def api_key_auth_def json_response_def dict_error authentication_error_def api_exception_def)
next
  case (Some k)
  with assms show ?thesis
    by (cases k) (auto simp: refused_def api_key_auth_def compare_digest_def and_then_def Let_def json_response_def
        dict_error authentication_error_def api_exception_def)
qed

lemma refused_more: "refused key (Inr r) \<Longrightarrow> refused key (Inr (r\<lparr>rp_headers := h\<rparr>))"
  by (auto simp: refused_def split: option.splits list.splits if_splits)

lemma application_run:
  "application S (ret i) route rq seen =
     (case bearer_auth (api_key_auth S route)
         (rq\<lparr>rq_correlation := Some (if given (header rq ''x-correlation-id'') then the (header rq ''x-correlation-id'') else i)\<rparr>) seen of
        (Inl e, seen') \<Rightarrow> (Inl e, seen')
      | (Inr r, seen') \<Rightarrow>
          (Inr (r\<lparr>rp_headers := dict_set ''x-correlation-id''
             (if given (header rq ''x-correlation-id'') then the (header rq ''x-correlation-id'') else i) (rp_headers r)\<rparr>), seen'))"
  by (simp add: application_def correlate_def and_then_def split: prod.split sum.split)

lemma header_more [simp]:
  "header (rq\<lparr>rq_correlation := c\<rparr>) n = header rq n" "header (rq\<lparr>rq_api_key := k\<rparr>) n = header rq n"
  "presented_key (rq\<lparr>rq_correlation := c\<rparr>) = presented_key rq"
  by (simp_all add: header_def presented_key_def bearer_token_def)

text \<open>
  C19: With a configured key that is not empty and ASCII, a route is called exactly for the
  public paths, OPTIONS requests and requests that present that key, in the API key header
  or on the OpenAI paths as a bearer token; past the check the route's own dependency gives
  that key. Every other request gets 401, with the message Missing API key or Invalid API
  key, except that a presented key that is not ASCII raises a TypeError.
\<close>

theorem route_reached:
  assumes "is_ascii (se_api_key S)" and "se_api_key S \<noteq> []"
  shows "\<exists>rq'. snd (application S (ret i) (recording answer) rq []) = (if admitted S rq then [rq'] else []) \<and>
    rq_path rq' = rq_path rq \<and>
    (\<not> open_path (rq_path rq) \<and> rq_method rq \<noteq> ''OPTIONS'' \<longrightarrow> verified_key S rq' = Inr (se_api_key S)) \<and>
    (admitted S rq \<or> refused (presented_key rq) (fst (application S (ret i) (recording answer) rq [])))"
proof -
  let ?i = "if given (header rq ''x-correlation-id'') then the (header rq ''x-correlation-id'') else i"
  let ?c = "rq\<lparr>rq_correlation := Some ?i\<rparr>"
  from bearer_auth_presents [of "api_key_auth S (recording answer)" ?c] obtain rq1 where
      run: "bearer_auth (api_key_auth S (recording answer)) ?c = api_key_auth S (recording answer) rq1"
    and key: "header rq1 ''x-api-key'' = presented_key rq" and path: "rq_path rq1 = rq_path rq"
    and m: "rq_method rq1 = rq_method rq" by auto
  have app: "application S (ret i) (recording answer) rq [] =
      (case api_key_auth S (recording answer) rq1 [] of
        (Inl e, seen') \<Rightarrow> (Inl e, seen')
      | (Inr r, seen') \<Rightarrow> (Inr (r\<lparr>rp_headers := dict_set ''x-correlation-id'' ?i (rp_headers r)\<rparr>), seen'))"
    unfolding application_run run by simp
  obtain res seen' where res: "api_key_auth S (recording answer) rq1 [] = (res, seen')" by fastforce
  from app res have snd: "snd (application S (ret i) (recording answer) rq []) = seen'"
    by (simp split: sum.split)
  from api_key_auth_sees [OF assms, of answer rq1 "[]"] res key path m have seen: "seen' =
      (if is_public (rq_path rq) \<or> rq_method rq = ''OPTIONS'' then [rq1]
       else if presented_key rq = Some (se_api_key S) then [rq1\<lparr>rq_api_key := Some (se_api_key S)\<rparr>] else [])"
    by (auto split: if_splits)
  show ?thesis
  proof (cases "admitted S rq")
    case True
    with seen snd path show ?thesis
      by (intro exI [of _ "if is_public (rq_path rq) \<or> rq_method rq = ''OPTIONS'' then rq1
          else rq1\<lparr>rq_api_key := Some (se_api_key S)\<rparr>"])
         (auto simp: admitted_def open_is_public verified_key_def)
  next
    case False
    then have no: "\<not> is_public (rq_path rq1)" "rq_method rq1 \<noteq> ''OPTIONS''" "header rq1 ''x-api-key'' \<noteq> Some (se_api_key S)"
      using key path m by (auto simp: admitted_def open_is_public)
    from api_key_auth_refuses [OF assms(1) no, of "recording answer" "[]"] res key
    have "refused (presented_key rq) res" by simp
    with app res have "refused (presented_key rq) (fst (application S (ret i) (recording answer) rq []))"
      by (simp add: refused_more split: sum.splits)
    with False seen snd show ?thesis
      by (intro exI [of _ "rq\<lparr>rq_api_key := Some (se_api_key S)\<rparr>"])
         (auto simp: admitted_def open_is_public verified_key_def)
  qed
qed

definition bearer_request :: http_request where
  "bearer_request = \<lparr>rq_path = ''/v1/models'', rq_method = ''GET'', rq_headers = [(''authorization'', ''bearer secret'')],
     rq_remote = ''10.0.0.1'', rq_api_key = None, rq_correlation = None\<rparr>"

lemma route_reached_witness:
  "\<exists>rq'. snd (application \<lparr>se_api_key = ''secret'', se_request_timeout = 300, se_debug = False\<rparr> (ret ''i'')
      (recording (\<lambda>rq. Inr \<lparr>rp_status = 200, rp_content = JNull, rp_headers = []\<rparr>)) bearer_request []) = [rq'] \<and>
     verified_key \<lparr>se_api_key = ''secret'', se_request_timeout = 300, se_debug = False\<rparr> rq' = Inr ''secret''"
proof -
  let ?S = "\<lparr>se_api_key = ''secret'', se_request_timeout = 300, se_debug = False\<rparr>"
  have "presented_key bearer_request = Some ''secret''"
    by (simp add: presented_key_def bearer_token_def bearer_request_def header_def is_openai_path_def strip_def
        is_space_def lower_def lower_char_def Let_def)
  then have adm: "admitted ?S bearer_request"
    by (simp add: admitted_def)
  have np: "\<not> open_path (rq_path bearer_request)" "rq_method bearer_request \<noteq> ''OPTIONS''"
    by (simp_all add: open_path_def bearer_request_def)
  have "is_ascii (se_api_key ?S)" and "se_api_key ?S \<noteq> []"
    by (simp_all add: is_ascii_def)
  from route_reached [OF this, of "''i''" "\<lambda>rq. Inr \<lparr>rp_status = 200, rp_content = JNull, rp_headers = []\<rparr>" bearer_request]
    adm np show ?thesis by auto
qed

end
