(* ===== verification/Lifecycle.thy ===== *)
theory Lifecycle
  imports Errors SessionLock
begin

text \<open>
  The life of the application: the health check of the cache at the start (\<open>init_cache\<close>,
  \<open>dependencies.py\<close>), the shutdown manager (\<open>services/shutdown.py\<close>) and the check of the routes
  that start queries (\<open>check_shutdown_state\<close>).

  \<open>wait_for_sessions\<close> runs beside the requests: where it waits, it is a state of its own, and the
  steps of the manager are those of the event loop.
\<close>

section \<open>The shutdown manager\<close>

record shutdown_manager =
  sd_shutting_down :: bool
  sd_active :: "string set"
  sd_event :: bool

definition new_manager :: shutdown_manager where
  "new_manager = \<lparr>sd_shutting_down = False, sd_active = {}, sd_event = False\<rparr>"

definition register_session :: "string \<Rightarrow> shutdown_manager \<Rightarrow> bool \<times> shutdown_manager" where
  "register_session i m =
     (if sd_shutting_down m then (False, m) else (True, m\<lparr>sd_active := insert i (sd_active m)\<rparr>))"

definition unregister_session :: "string \<Rightarrow> shutdown_manager \<Rightarrow> shutdown_manager" where
  "unregister_session i m =
     (let m' = m\<lparr>sd_active := sd_active m - {i}\<rparr> in
      if sd_shutting_down m' \<and> sd_active m' = {} then m'\<lparr>sd_event := True\<rparr> else m')"

definition initiate_shutdown :: "shutdown_manager \<Rightarrow> shutdown_manager" where
  "initiate_shutdown m =
     (let m' = m\<lparr>sd_shutting_down := True\<rparr> in if sd_active m' = {} then m'\<lparr>sd_event := True\<rparr> else m')"

definition active_session_count :: "shutdown_manager \<Rightarrow> nat" where
  "active_session_count m = card (sd_active m)"

definition shutdown_refusal :: exn where
  "shutdown_refusal =
     APIError ''Service is shutting down, not accepting new requests'' ''SERVICE_UNAVAILABLE'' 503"

definition check_shutdown_state :: "shutdown_manager \<Rightarrow> exn + shutdown_manager" where
  "check_shutdown_state m = (if sd_shutting_down m then Inl shutdown_refusal else Inr m)"

section \<open>Waiting\<close>

datatype waiter = NotCalled | Waiting | Returned bool

definition wait_for_sessions :: "shutdown_manager \<Rightarrow> waiter" where
  "wait_for_sessions m = (if sd_active m = {} then Returned True else Waiting)"

inductive manager_step :: "shutdown_manager \<times> waiter \<Rightarrow> shutdown_manager \<times> waiter \<Rightarrow> bool" where
  register: "manager_step (m, w) (snd (register_session i m), w)"
| unregister: "manager_step (m, w) (unregister_session i m, w)"
| shutdown: "manager_step (m, w) (initiate_shutdown m, w)"
| wait: "manager_step (m, NotCalled) (m, wait_for_sessions m)"
| woken: "sd_event m \<Longrightarrow> manager_step (m, Waiting) (m, Returned True)"
| timed_out: "manager_step (m, Waiting) (m, Returned False)"

inductive_cases manager_stepE: "manager_step s s'"

inductive manager_run :: "shutdown_manager \<times> waiter \<Rightarrow> shutdown_manager \<times> waiter \<Rightarrow> bool" for s where
  start: "manager_run s s"
| step: "manager_run s s' \<Longrightarrow> manager_step s' s'' \<Longrightarrow> manager_run s s''"

text \<open>The event is set exactly when a shutdown has no session left.\<close>

definition event_exact :: "shutdown_manager \<Rightarrow> bool" where
  "event_exact m \<longleftrightarrow> sd_event m = (sd_shutting_down m \<and> sd_active m = {})"

lemma event_exact_steps:
  "event_exact m \<Longrightarrow> event_exact (snd (register_session i m))"
  "event_exact m \<Longrightarrow> event_exact (unregister_session i m)"
  "event_exact m \<Longrightarrow> event_exact (initiate_shutdown m)"
  by (auto simp: event_exact_def register_session_def unregister_session_def initiate_shutdown_def Let_def)

lemma event_exact_run: "manager_run (new_manager, NotCalled) s \<Longrightarrow> event_exact (fst s)"
proof (induction rule: manager_run.induct)
  case start
  show ?case by (simp add: event_exact_def new_manager_def)
next
  case (step s' s'')
  then show ?case
    by (elim manager_stepE) (auto intro: event_exact_steps)
qed

text \<open>Once shutting down, sessions only leave, and the flag stays.\<close>

lemma shutdown_step_shrinks:
  "manager_step s s' \<Longrightarrow> sd_shutting_down (fst s) \<Longrightarrow>
     sd_shutting_down (fst s') \<and> sd_active (fst s') \<subseteq> sd_active (fst s)"
  by (elim manager_stepE)
     (auto simp: register_session_def unregister_session_def initiate_shutdown_def Let_def)

lemma shutdown_shrinks:
  assumes "manager_run s s'"
  shows "sd_shutting_down (fst s) \<Longrightarrow> sd_shutting_down (fst s') \<and> sd_active (fst s') \<subseteq> sd_active (fst s)"
  using assms
proof (induction rule: manager_run.induct)
  case start
  then show ?case by simp
next
  case (step s' s'')
  with shutdown_step_shrinks [OF step.hyps(2)] show ?case by blast
qed

lemma manager_run_trans: "manager_run s' s'' \<Longrightarrow> manager_run s s' \<Longrightarrow> manager_run s s''"
  by (induction rule: manager_run.induct) (auto intro: manager_run.step)

lemma returned_stays: "manager_step s s' \<Longrightarrow> snd s = Returned b \<Longrightarrow> snd s' = Returned b"
  by (elim manager_stepE) auto

lemma wait_true:
  assumes "manager_run s s'"
  shows "event_exact (fst s) \<Longrightarrow> sd_shutting_down (fst s) \<Longrightarrow> snd s \<noteq> Returned True \<Longrightarrow>
    event_exact (fst s') \<and> sd_shutting_down (fst s') \<and> (snd s' = Returned True \<longrightarrow> sd_active (fst s') = {})"
  using assms
proof (induction rule: manager_run.induct)
  case start
  then show ?case by simp
next
  case (step s' s'')
  then have IH: "event_exact (fst s')" "sd_shutting_down (fst s')" "snd s' = Returned True \<longrightarrow> sd_active (fst s') = {}"
    by auto
  with shutdown_step_shrinks [OF step.hyps(2)] have "sd_shutting_down (fst s'')" "sd_active (fst s'') \<subseteq> sd_active (fst s')"
    by auto
  moreover from step.hyps(2) IH(1) have "event_exact (fst s'')"
    by (elim manager_stepE) (auto intro: event_exact_steps)
  moreover from step.hyps(2) IH have "snd s'' = Returned True \<longrightarrow> sd_active (fst s'') = {}"
    by (elim manager_stepE)
       (auto simp: event_exact_def wait_for_sessions_def register_session_def unregister_session_def
          initiate_shutdown_def Let_def split: if_splits)
  ultimately show ?case by simp
qed

text \<open>
  C23: From the start of a shutdown on, no session is added; when the wait answers that all
  sessions are over, none is active and none will be, and while it waits with no session
  left, it can return.
\<close>

theorem shutdown_waits:
  assumes "manager_run (new_manager, NotCalled) (m, NotCalled)" and "manager_run (initiate_shutdown m, NotCalled) (m', w)"
  shows "sd_shutting_down m' \<and> sd_active m' \<subseteq> sd_active m \<and> check_shutdown_state m' = Inl shutdown_refusal \<and>
    (w = Returned True \<longrightarrow> sd_active m' = {}) \<and>
    (w = Waiting \<and> sd_active m' = {} \<longrightarrow> manager_step (m', w) (m', Returned True))"
proof -
  from event_exact_run [OF assms(1)] have "event_exact (initiate_shutdown m)"
    by (simp add: event_exact_steps(3))
  moreover have i: "sd_shutting_down (initiate_shutdown m)" "sd_active (initiate_shutdown m) = sd_active m"
    by (simp_all add: initiate_shutdown_def Let_def)
  ultimately have "event_exact m'" and "sd_shutting_down m'" and "w = Returned True \<longrightarrow> sd_active m' = {}"
    using wait_true [OF assms(2)] by auto
  moreover from shutdown_shrinks [OF assms(2)] i have "sd_active m' \<subseteq> sd_active m" by simp
  ultimately show ?thesis
    by (auto simp: check_shutdown_state_def event_exact_def intro: manager_step.woken)
qed

lemma shutdown_waits_witness:
  "\<exists>m m' w. manager_run (new_manager, NotCalled) (m, NotCalled) \<and> sd_active m = {''s1''} \<and>
     manager_run (initiate_shutdown m, NotCalled) (m', w) \<and> w = Returned True \<and> sd_active m' = {}"
proof -
  let ?m = "snd (register_session ''s1'' new_manager)"
  let ?m' = "unregister_session ''s1'' (initiate_shutdown ?m)"
  have a: "manager_run (new_manager, NotCalled) (?m, NotCalled)"
    by (blast intro: manager_run.intros manager_step.register)
  have m: "sd_active ?m = {''s1''}" "sd_active (initiate_shutdown ?m) = {''s1''}"
    by (simp_all add: register_session_def new_manager_def initiate_shutdown_def Let_def)
  then have "wait_for_sessions (initiate_shutdown ?m) = Waiting"
    by (simp add: wait_for_sessions_def)
  then have "manager_step (initiate_shutdown ?m, NotCalled) (initiate_shutdown ?m, Waiting)"
    by (metis manager_step.wait)
  moreover have "manager_step (initiate_shutdown ?m, Waiting) (?m', Waiting)"
    by (rule manager_step.unregister)
  moreover have "sd_event ?m'"
    by (simp add: register_session_def new_manager_def initiate_shutdown_def unregister_session_def Let_def)
  then have "manager_step (?m', Waiting) (?m', Returned True)"
    by (rule manager_step.woken)
  ultimately have b: "manager_run (initiate_shutdown ?m, NotCalled) (?m', Returned True)"
    by (blast intro: manager_run.intros)
  from shutdown_waits [OF a b] have "sd_active ?m' = {}" by simp
  with a b m show ?thesis by blast
qed

text \<open>Nothing in the program registers a session, so the wait never waits.\<close>

lemma unused_manager_never_waits: "wait_for_sessions (initiate_shutdown new_manager) = Returned True"
  by (simp add: wait_for_sessions_def initiate_shutdown_def new_manager_def Let_def)

section \<open>The health check of the cache\<close>

definition max_attempts :: nat where
  "max_attempts = 10"

text \<open>Seconds to wait after a failed attempt: \<open>100 * 2 ** (attempt - 1)\<close> milliseconds.\<close>

definition backoff :: "nat \<Rightarrow> rat" where
  "backoff attempt = 100 * 2 ^ (attempt - 1) / 1000"

definition unreachable :: "exn \<Rightarrow> exn" where
  "unreachable e = APIError ''Redis health check failed after 10 attempts'' ''SERVICE_UNAVAILABLE'' 503"

text \<open>The loop over the attempts, with the number of this one and of those that follow.\<close>

fun ping_attempts ::
  "('s, unit) io \<Rightarrow> (rat \<Rightarrow> ('s, unit) io) \<Rightarrow> nat \<Rightarrow> nat \<Rightarrow> ('s, unit) io" where
  "ping_attempts ping pause attempt 0 =
     try_except ping (\<lambda>e. if is_exception e then throw (unreachable e) else throw e)"
| "ping_attempts ping pause attempt (Suc n) =
     try_except ping
       (\<lambda>e. if is_exception e then and_then (pause (backoff attempt)) (\<lambda>_. ping_attempts ping pause (Suc attempt) n)
             else throw e)"

definition check_cache ::
  "('s, unit) io \<Rightarrow> (rat \<Rightarrow> ('s, unit) io) \<Rightarrow> ('s, unit) io" where
  "check_cache ping pause = ping_attempts ping pause 1 (max_attempts - 1)"

lemma total_backoff: "(\<Sum>attempt = 1..9. backoff attempt) = 511 / 10"
  by (simp add: backoff_def numeral_eq_Suc)

end
