(* ===== verification/SessionRoutes.thy ===== *)
theory SessionRoutes
  imports AgentFacade SessionService Enrichment
begin

text \<open>
  The routes over sessions: \<open>routes/session_control.py\<close> (resume, fork, interrupt, control),
  \<open>routes/interactions.py\<close> (answers), \<open>routes/checkpoints.py\<close>, \<open>routes/sessions.py\<close> with
  \<open>map_session_with_metadata\<close> (\<open>utils/response_helpers.py\<close>), the single query of
  \<open>routes/query.py\<close>, and the request schemas of \<open>schemas/requests/sessions.py\<close> and \<open>control.py\<close>.

  A request object has passed its schema. A streamed reply is consumed to its end; its events are
  those the agent service leaves in the state.
\<close>

record ('c, 'd) routes =
  rt_sessions :: "('c, 'd) session_service"
  rt_agent :: "('c, 'd) agent_service"
  rt_checkpoints :: "'c checkpoint_service"
  rt_enrichment :: enrichment
  rt_net :: net_lib

definition in_sessions :: "(('c, 'd) world, 'a) io \<Rightarrow> (('c, 'd) service_state, 'a) io" where
  "in_sessions m = in_query (in_services m)"

section \<open>Request schemas\<close>

record resume_request =
  rsm_prompt :: string
  rsm_images :: "image_content list option"
  rsm_allowed_tools :: "string list option"
  rsm_disallowed_tools :: "string list option"
  rsm_permission_mode :: "string option"
  rsm_max_turns :: "int option"
  rsm_hooks :: "hooks_config option"

record fork_request = resume_request +
  fr_model :: "string option"

definition check_tool_overrides :: "string list option \<Rightarrow> exn + unit" where
  "check_tool_overrides tools =
     (case tools of None \<Rightarrow> Inr () | Some ts \<Rightarrow> bind_sum (validate_tool_names ts) (\<lambda>_. Inr ()))"

definition tools_conflict :: "string list option \<Rightarrow> string list option \<Rightarrow> bool" where
  "tools_conflict yes no \<longleftrightarrow> list_ex (\<lambda>t. t \<in> set (opt_list no)) (opt_list yes)"

definition check_resume_request :: "net_lib \<Rightarrow> ('x) resume_request_scheme \<Rightarrow> exn + unit" where
  "check_resume_request N r =
     (if 1 \<le> length (rsm_prompt r) \<and> length (rsm_prompt r) \<le> 100000 \<and>
         (case rsm_max_turns r of None \<Rightarrow> True | Some n \<Rightarrow> 1 \<le> n \<and> n \<le> 1000) \<and>
         (case rsm_permission_mode r of None \<Rightarrow> True | Some m \<Rightarrow> m \<in> set permission_modes)
      then
        bind_sum (map_sum_list check_image (opt_list (rsm_images r))) (\<lambda>_.
        bind_sum (case rsm_hooks r of None \<Rightarrow> Inr () | Some h \<Rightarrow> bind_sum (check_hooks_config N h) (\<lambda>_. Inr ())) (\<lambda>_.
        bind_sum (check_tool_overrides (rsm_allowed_tools r)) (\<lambda>_.
        bind_sum (check_tool_overrides (rsm_disallowed_tools r)) (\<lambda>_.
        if tools_conflict (rsm_allowed_tools r) (rsm_disallowed_tools r) then Inl (ValueError ''Tool conflict'')
        else Inr ()))))
      else Inl (ValueError ''field out of bounds''))"

definition check_fork_request :: "net_lib \<Rightarrow> fork_request \<Rightarrow> exn + unit" where
  "check_fork_request N r =
     bind_sum (check_resume_request N r) (\<lambda>_.
     bind_sum (validate_model_name (fr_model r)) (\<lambda>_. Inr ()))"

text \<open>\<open>ControlRequest\<close>: the only type of event, with its mode.\<close>

definition check_control_request :: "string \<Rightarrow> string option \<Rightarrow> exn + unit" where
  "check_control_request kind mode =
     (if kind \<noteq> ''permission_mode_change'' \<or> (case mode of None \<Rightarrow> False | Some m \<Rightarrow> m \<notin> set permission_modes)
      then Inl (ValueError ''field out of bounds'')
      else if mode = None
      then Inl (ValueError ''permission_mode is required for permission_mode_change control event'')
      else Inr ())"

section \<open>The owner of a session\<close>

text \<open>The first lines of every route on a session.\<close>

definition owned_session ::
  "('c, 'd) routes \<Rightarrow> string \<Rightarrow> string \<Rightarrow> (('c, 'd) service_state, session) io" where
  "owned_session R session_id api_key =
     and_then (in_sessions (get_session (rt_sessions R) session_id (Some api_key))) (\<lambda>found.
       case found of None \<Rightarrow> throw (SessionNotFoundError session_id) | Some s \<Rightarrow> ret s)"

section \<open>Resume and fork\<close>

text \<open>What both have in common of the query they build.\<close>

definition override_request :: "('x) resume_request_scheme \<Rightarrow> query_request" where
  "override_request r =
     (plain_request (rsm_prompt r))
       \<lparr>qr_images := rsm_images r, qr_allowed_tools := opt_list (rsm_allowed_tools r),
        qr_disallowed_tools := opt_list (rsm_disallowed_tools r),
        qr_permission_mode := (if given (rsm_permission_mode r) then the (rsm_permission_mode r) else ''bypassPermissions''),
        qr_max_turns := rsm_max_turns r, qr_hooks := rsm_hooks r\<rparr>"

definition resume_query :: "string \<Rightarrow> resume_request \<Rightarrow> query_request" where
  "resume_query session_id r =
     (override_request r)\<lparr>qr_session_id := Some session_id, qr_fork_session := False, qr_continue_conversation := True\<rparr>"

definition fork_query :: "string \<Rightarrow> string \<Rightarrow> fork_request \<Rightarrow> query_request" where
  "fork_query new_id model r =
     (override_request r)\<lparr>qr_session_id := Some new_id, qr_fork_session := True, qr_model := Some model\<rparr>"

definition resume_session ::
  "('c, 'd) routes \<Rightarrow> nat \<Rightarrow> string \<Rightarrow> resume_request \<Rightarrow> string \<Rightarrow> (('c, 'd) service_state, unit) io" where
  "resume_session R fuel session_id r api_key =
     and_then (owned_session R session_id api_key) (\<lambda>_.
     and_then (lift_sum (check_query_request (rt_net R) (resume_query session_id r))) (\<lambda>q.
     query_stream (rt_agent R) fuel q api_key))"

definition fork_session ::
  "('c, 'd) routes \<Rightarrow> nat \<Rightarrow> string \<Rightarrow> fork_request \<Rightarrow> string \<Rightarrow> (('c, 'd) service_state, unit) io" where
  "fork_session R fuel session_id r api_key =
     and_then (owned_session R session_id api_key) (\<lambda>parent.
     let model = (if given (fr_model r) then the (fr_model r) else s_model parent) in
     and_then (in_sessions (create_session (rt_sessions R) model None (Some session_id) (Some api_key))) (\<lambda>forked.
     and_then (lift_sum (check_query_request (rt_net R) (fork_query (s_id forked) model r))) (\<lambda>q.
     query_stream (rt_agent R) fuel q api_key)))"

section \<open>Interrupt, control and answers\<close>

definition interrupt_session ::
  "('c, 'd) routes \<Rightarrow> string \<Rightarrow> string \<Rightarrow> (('c, 'd) service_state, string) io" where
  "interrupt_session R session_id api_key =
     and_then (owned_session R session_id api_key) (\<lambda>_.
     and_then (in_sessions (service_interrupt (rt_agent R) session_id)) (\<lambda>success.
       if success then ret ''interrupted'' else throw (SessionNotFoundError session_id)))"

definition send_control_event ::
  "('c, 'd) routes \<Rightarrow> string \<Rightarrow> string \<Rightarrow> string option \<Rightarrow> string \<Rightarrow> (('c, 'd) service_state, string) io" where
  "send_control_event R session_id kind mode api_key =
     and_then (owned_session R session_id api_key) (\<lambda>_.
       if kind = ''permission_mode_change'' \<and> mode \<noteq> None
       then and_then (in_sessions (service_update_permission_mode (rt_agent R) session_id (the mode))) (\<lambda>success.
         if success then ret ''accepted'' else throw (SessionNotFoundError session_id))
       else ret ''unknown_type'')"

definition answer_question ::
  "('c, 'd) routes \<Rightarrow> string \<Rightarrow> string \<Rightarrow> string \<Rightarrow> (('c, 'd) service_state, string) io" where
  "answer_question R session_id answer api_key =
     and_then (in_sessions (service_submit_answer (rt_agent R) session_id answer)) (\<lambda>success.
       if success then ret ''accepted'' else throw (SessionNotFoundError session_id))"

section \<open>Checkpoints\<close>

definition list_session_checkpoints ::
  "('c, 'd) routes \<Rightarrow> string \<Rightarrow> string \<Rightarrow> (('c, 'd) service_state, checkpoint list) io" where
  "list_session_checkpoints R session_id api_key =
     and_then (owned_session R session_id api_key) (\<lambda>_.
     in_sessions (list_checkpoints (rt_checkpoints R) session_id))"

definition rewind_to_checkpoint ::
  "('c, 'd) routes \<Rightarrow> string \<Rightarrow> string \<Rightarrow> string \<Rightarrow> (('c, 'd) service_state, string) io" where
  "rewind_to_checkpoint R session_id checkpoint_id api_key =
     and_then (owned_session R session_id api_key) (\<lambda>_.
     and_then (in_sessions (validate_checkpoint (rt_checkpoints R) session_id checkpoint_id)) (\<lambda>valid.
       if valid then ret ''validated''
       else throw (APIError (''Checkpoint '' @ quoted checkpoint_id @ '' is not valid for session'') ''INVALID_CHECKPOINT'' 400)))"

section \<open>Sessions with metadata\<close>

record session_view =
  sw_id :: string
  sw_mode :: string
  sw_status :: session_status
  sw_project_id :: "string option"
  sw_title :: "string option"
  sw_created_at :: datetime
  sw_updated_at :: datetime
  sw_total_turns :: int
  sw_total_cost_usd :: "pyfloat option"
  sw_parent_session_id :: "string option"
  sw_tags :: "string list option"
  sw_metadata :: "json dict"

text \<open>A list of tags is validated when the response is built.\<close>

definition view_tags :: "json option \<Rightarrow> exn + string list option" where
  "view_tags tags =
     (case tags of
        Some (JArr xs) \<Rightarrow> (case string_items xs of None \<Rightarrow> Inl (ValueError ''validation error'') | Some ts \<Rightarrow> Inr (Some ts))
      | _ \<Rightarrow> Inr None)"

definition map_session_with_metadata :: "pylib \<Rightarrow> session \<Rightarrow> json dict option \<Rightarrow> exn + session_view" where
  "map_session_with_metadata L s metadata =
     (let m = (case metadata of
          Some d \<Rightarrow> d
        | None \<Rightarrow> (case s_session_metadata s of None \<Rightarrow> [] | Some d \<Rightarrow> d)) in
      bind_sum (view_tags (dict_get m ''tags'')) (\<lambda>tags.
      Inr \<lparr>sw_id = s_id s,
        sw_mode = (if dict_get m ''mode'' = Some (JStr ''brainstorm'') then ''brainstorm'' else ''code''),
        sw_status = parse_session_status (status_text (s_status s)),
        sw_project_id = truthy_str L (dict_get m ''project_id''), sw_title = truthy_str L (dict_get m ''title''),
        sw_created_at = s_created_at s, sw_updated_at = s_updated_at s, sw_total_turns = s_total_turns s,
        sw_total_cost_usd = s_total_cost_usd s, sw_parent_session_id = or_none (s_parent_session_id s),
        sw_tags = tags, sw_metadata = m\<rparr>))"

definition invalid_session_id :: "string \<Rightarrow> exn" where
  "invalid_session_id session_id = APIError (''Invalid session ID format: '' @ session_id) ''VALIDATION_ERROR'' 422"

definition check_uuid :: "pylib \<Rightarrow> string \<Rightarrow> exn + unit" where
  "check_uuid L session_id =
     (case parse_uuid L session_id of None \<Rightarrow> Inl (invalid_session_id session_id) | Some _ \<Rightarrow> Inr ())"

definition list_sessions_route ::
  "('c, 'd) routes \<Rightarrow> string \<Rightarrow> string option \<Rightarrow> string option \<Rightarrow> string list option \<Rightarrow> string option \<Rightarrow> int \<Rightarrow> int \<Rightarrow>
     (('c, 'd) service_state, session_view list \<times> int) io" where
  "list_sessions_route R api_key mode project_id tags search page page_size =
     and_then (in_sessions (list_sessions (rt_sessions R) page page_size (Some api_key) mode project_id tags search)) (\<lambda>result.
     and_then (lift_sum (map_sum_list
         (\<lambda>s. map_session_with_metadata (ss_lib (rt_sessions R)) s
            (Some (case s_session_metadata s of None \<Rightarrow> [] | Some m \<Rightarrow> m))) (slr_sessions result))) (\<lambda>views.
     ret (views, slr_total result)))"

definition get_session_route ::
  "('c, 'd) routes \<Rightarrow> string \<Rightarrow> string \<Rightarrow> (('c, 'd) service_state, session) io" where
  "get_session_route R session_id api_key =
     and_then (lift_sum (check_uuid (ss_lib (rt_sessions R)) session_id)) (\<lambda>_. owned_session R session_id api_key)"

definition view_updated ::
  "('c, 'd) routes \<Rightarrow> string \<Rightarrow> session option \<Rightarrow> (('c, 'd) service_state, session_view) io" where
  "view_updated R session_id updated =
     (case updated of
        None \<Rightarrow> throw (SessionNotFoundError session_id)
      | Some s \<Rightarrow> lift_sum (map_session_with_metadata (ss_lib (rt_sessions R)) s None))"

definition promote_session_route ::
  "('c, 'd) routes \<Rightarrow> string \<Rightarrow> string \<Rightarrow> string \<Rightarrow> (('c, 'd) service_state, session_view) io" where
  "promote_session_route R session_id project_id api_key =
     and_then (lift_sum (check_uuid (ss_lib (rt_sessions R)) session_id)) (\<lambda>_.
     and_then (in_sessions (promote_session (rt_sessions R) session_id project_id api_key)) (view_updated R session_id))"

definition update_session_tags ::
  "('c, 'd) routes \<Rightarrow> string \<Rightarrow> string list \<Rightarrow> string \<Rightarrow> (('c, 'd) service_state, session_view) io" where
  "update_session_tags R session_id tags api_key =
     and_then (lift_sum (check_uuid (ss_lib (rt_sessions R)) session_id)) (\<lambda>_.
     and_then (in_sessions (update_tags (rt_sessions R) session_id tags api_key)) (view_updated R session_id))"

section \<open>A query in one reply\<close>

text \<open>
  The counts of a response, as the session stores them: numbers, or none; the stored session has no
  room for other values, which make the write fail.
\<close>

definition turns_value :: "pyobj \<Rightarrow> exn + int option" where
  "turns_value v =
     (case v of
        Val JNull \<Rightarrow> Inr None
      | Val (JInt i) \<Rightarrow> Inr (Some i)
      | _ \<Rightarrow> Inl (TypeError ''total_turns''))"

definition cost_value :: "pyobj \<Rightarrow> exn + pyfloat option" where
  "cost_value v =
     (case v of
        Val JNull \<Rightarrow> Inr None
      | Val (JFloat x) \<Rightarrow> Inr (Some x)
      | Val (JInt i) \<Rightarrow> Inr (Some (Finite i 0))
      | _ \<Rightarrow> Inl (TypeError ''total_cost_usd''))"

definition persist_result ::
  "('c, 'd) routes \<Rightarrow> query_response \<Rightarrow> string \<Rightarrow> (('c, 'd) service_state, unit) io" where
  "persist_result R result api_key =
     and_then (in_sessions (create_session (rt_sessions R) (qp_model result) (Some (qp_session_id result)) None (Some api_key))) (\<lambda>_.
     and_then (lift_sum (turns_value (qp_num_turns result))) (\<lambda>turns.
     and_then (lift_sum (cost_value (qp_total_cost_usd result))) (\<lambda>cost.
     and_then (in_sessions (update_session (rt_sessions R) (qp_session_id result)
         (Some (if py_true (qp_is_error result) then Errored else Completed)) turns cost False (Some api_key))) (\<lambda>_.
     ret ()))))"

definition persist_error :: "exn \<Rightarrow> exn" where
  "persist_error e =
     (case e of
        OperationalError _ \<Rightarrow> APIError ''Database temporarily unavailable'' ''DATABASE_UNAVAILABLE'' 503
      | IntegrityError _ \<Rightarrow> APIError ''Session already exists'' ''SESSION_ALREADY_EXISTS'' 409
      | _ \<Rightarrow> if is_exception e then APIError ''Failed to save session state'' ''SESSION_CREATION_FAILED'' 500 else e)"

definition query_single_route ::
  "('c, 'd) routes \<Rightarrow> nat \<Rightarrow> query_request \<Rightarrow> string \<Rightarrow> (('c, 'd) service_state, query_response) io" where
  "query_single_route R fuel request api_key =
     (let q = enrich_query (rt_enrichment R) request in
      and_then (query_single (rt_agent R) fuel q api_key) (\<lambda>result.
        if qr_session_id q = None
        then and_then (try_except (persist_result R result api_key) (\<lambda>e. throw (persist_error e))) (\<lambda>_. ret result)
        else ret result))"

end
