(* ===== verification/SessionRouteProperties.thy ===== *)
theory SessionRouteProperties
  imports SessionRoutes SessionProperties AgentTermination
begin

text \<open>What the routes over sessions guarantee, and what resuming and forking hand to the SDK.\<close>

section \<open>What the SDK is asked to resume\<close>

lemma resume_query_options: "ao_resume (build_options (resume_query i r)) = None"
  by (simp add: build_options_def resume_of_def resume_query_def)

lemma fork_query_options:
  "ao_resume (build_options (fork_query i m r)) = (if i = [] then None else Some i)"
  by (simp add: build_options_def resume_of_def fork_query_def override_request_def plain_request_def)

text \<open>Only the connection looks at the options, and the request keeps what is resumed on its way there.\<close>

definition with_connect ::
  "(agent_options \<Rightarrow> string + json list \<Rightarrow> (('c, 'd) world, unit) io) \<Rightarrow> ('c, 'd) agent_env \<Rightarrow> ('c, 'd) agent_env" where
  "with_connect f E = E\<lparr>ae_connect := f\<rparr>"

lemma with_connect_sel [simp]:
  "ae_lib (with_connect f E) = ae_lib E" "ae_pydantic (with_connect f E) = ae_pydantic E"
  "ae_tracker (with_connect f E) = ae_tracker E" "ae_connect (with_connect f E) = f"
  "ae_receive (with_connect f E) = ae_receive E" "ae_disconnect (with_connect f E) = ae_disconnect E"
  "ae_sdk_error (with_connect f E) = ae_sdk_error E" "ae_memory_search (with_connect f E) = ae_memory_search E"
  "ae_memory_add (with_connect f E) = ae_memory_add E" "ae_error_text (with_connect f E) = ae_error_text E"
  by (simp_all add: with_connect_def)

lemma on_message_connect [simp]: "on_message (with_connect f E) = on_message E"
  by (intro ext) (simp add: on_message_def)

lemma receive_loop_connect [simp]: "receive_loop (with_connect f E) emit n = receive_loop E emit n"
  by (induction n) (simp_all cong: if_cong)

lemma extract_memory_connect [simp]: "extract_memory (with_connect f E) = extract_memory E"
  by (intro ext) (simp add: extract_memory_def cong: if_cong)

lemma inject_memory_connect [simp]: "inject_memory_context (with_connect f E) = inject_memory_context E"
  by (intro ext) (simp add: inject_memory_context_def cong: if_cong option.case_cong)

lemma handle_sdk_error_connect [simp]: "handle_sdk_error (with_connect f E) = handle_sdk_error E"
  by (intro ext) (simp add: handle_sdk_error_def)

lemma stream_parts_connect [simp]:
  "stream_consumer (with_connect f E) = stream_consumer E" "yield_result (with_connect f E) = yield_result E"
  "yield_done (with_connect f E) = yield_done E" "stream_failure (with_connect f E) = stream_failure E"
  by (intro ext | simp add: stream_consumer_def yield_result_def yield_done_def stream_failure_def build_result_event_def)+

text \<open>Injecting memories changes the system prompt only.\<close>

lemma injected_memory:
  assumes "inject_memory_context E q k w = (Inr q', w')"
  shows "fst (resume_of q') = fst (resume_of q)"
proof -
  from assms have "q' = q \<or> (\<exists>p. q' = q\<lparr>qr_system_prompt := p\<rparr>)"
    by (auto simp: inject_memory_context_def try_except_Inr and_then_Inr split: option.splits if_splits)
  then show ?thesis
    by (auto simp: resume_of_def)
qed

lemma and_then_cong2:
  assumes "\<And>x w w'. m w = (Inr x, w') \<Longrightarrow> f x w' = g x w'"
  shows "and_then m f = and_then m g"
  using assms by (intro ext) (simp add: and_then_def split: prod.split sum.split)

lemma execute_query_connect:
  assumes "\<And>q' c. fst (resume_of q') = fst (resume_of q) \<Longrightarrow> f (build_options q') c = ae_connect E (build_options q') c"
  shows "execute_query (with_connect f E) n emit q k = execute_query E n emit q k"
proof -
  have "with_client (with_connect f E) (build_options q') c body = with_client E (build_options q') c body"
    if "fst (resume_of q') = fst (resume_of q)" for q' c and body :: "(('a, 'b) query_state, verdict) io"
    using assms [OF that] by (simp add: with_client_def cong: if_cong)
  then have "execute_with_sdk_client (with_connect f E) n emit q k = execute_with_sdk_client E n emit q k"
    unfolding execute_with_sdk_client_def
    by (simp cong: if_cong) (rule and_then_cong2, auto simp: in_services_def split: prod.splits dest: injected_memory cong: if_cong)
  then show ?thesis
    by (simp add: execute_query_def cong: if_cong)
qed

lemma run_stream_connect:
  assumes "\<And>q' c. fst (resume_of q') = fst (resume_of q) \<Longrightarrow> f (build_options q') c = ae_connect E (build_options q') c"
  shows "run_stream (with_connect f E) n q i k = run_stream E n q i k"
proof -
  have "stream_body (with_connect f E) n q sid k = stream_body E n q sid k" for sid
    by (simp add: stream_body_def execute_query_connect [OF assms] cong: verdict.case_cong)
  then show ?thesis
    by (simp add: run_stream_def cong: if_cong)
qed

definition with_agent_connect ::
  "(agent_options \<Rightarrow> string + json list \<Rightarrow> (('c, 'd) world, unit) io) \<Rightarrow> ('c, 'd) agent_service \<Rightarrow>
     ('c, 'd) agent_service" where
  "with_agent_connect f S = S\<lparr>as_env := with_connect f (as_env S)\<rparr>"

lemma with_agent_connect_sel [simp]:
  "as_env (with_agent_connect f S) = with_connect f (as_env S)" "as_injector (with_agent_connect f S) = as_injector S"
  "as_commands (with_agent_connect f S) = as_commands S"
  by (simp_all add: with_agent_connect_def)

lemma inject_servers_for_connect [simp]: "inject_servers_for (with_agent_connect f S) = inject_servers_for S"
  by (intro ext) (simp add: inject_servers_for_def)

lemma build_init_event_connect [simp]: "build_init_event (with_agent_connect f S) = build_init_event S"
  by (intro ext) (simp add: build_init_event_def)

lemma query_stream_connect:
  assumes "\<And>q' c. fst (resume_of q') = fst (resume_of q) \<Longrightarrow>
    f (build_options q') c = ae_connect (as_env S) (build_options q') c"
  shows "query_stream (with_agent_connect f S) n q k = query_stream S n q k"
proof -
  have "run_stream (with_connect f (as_env S)) n q' i k = run_stream (as_env S) n q' i k"
    if "fst (resume_of q') = fst (resume_of q)" for q' i
    using assms that by (intro run_stream_connect) simp
  then have "run_stream (with_connect f (as_env S)) n q' i k = run_stream (as_env S) n q' i k"
    if "inject_servers_for S q k s = (Inr q', s')" for q' i s s'
    using injected_request [OF that] by (auto simp: enriched_request_def resume_of_def)
  then show ?thesis
    unfolding query_stream_def with_agent_connect_sel inject_servers_for_connect build_init_event_connect
    by (intro arg_cong [where f = "and_then _"] ext and_then_cong2 [THEN fun_cong]) auto
qed

text \<open>An environment whose client can only start new conversations.\<close>

definition starts_only :: "exn \<Rightarrow> ('c, 'd) routes \<Rightarrow> ('c, 'd) routes" where
  "starts_only e R =
     R\<lparr>rt_agent := with_agent_connect
         (\<lambda>options c. if ao_resume options = None then ae_connect (as_env (rt_agent R)) options c else throw e)
         (rt_agent R)\<rparr>"

text \<open>
  Resuming a session never asks the SDK to resume one: the route behaves, from every
  state, as it would with a client that fails whenever it is given a session to resume.
\<close>

theorem resume_never_resumes:
  "resume_session (starts_only e R) n session_id r api_key = resume_session R n session_id r api_key"
proof -
  let ?f = "\<lambda>options c. if ao_resume options = None then ae_connect (as_env (rt_agent R)) options c else throw e"
  have "query_stream (with_agent_connect ?f (rt_agent R)) n q api_key = query_stream (rt_agent R) n q api_key"
    if "check_query_request (rt_net R) (resume_query session_id r) = Inr q" for q
  proof (rule query_stream_connect)
    fix q' c
    from that have "q = resume_query session_id r"
      by (auto simp: check_query_request_def validate_no_tool_conflicts_def bind_sum_Inr split: if_splits)
    moreover assume "fst (resume_of q') = fst (resume_of q)"
    ultimately have "ao_resume (build_options q') = None"
      by (simp add: build_options_def resume_of_def resume_query_def)
    then show "?f (build_options q') c = ae_connect (as_env (rt_agent R)) (build_options q') c"
      by simp
  qed
  then have "and_then (lift_sum (check_query_request (rt_net R) (resume_query session_id r)))
       (\<lambda>q. query_stream (with_agent_connect ?f (rt_agent R)) n q api_key) =
     and_then (lift_sum (check_query_request (rt_net R) (resume_query session_id r)))
       (\<lambda>q. query_stream (rt_agent R) n q api_key)"
    by (intro and_then_cong2) simp
  then show ?thesis
    by (simp add: resume_session_def starts_only_def owned_session_def)
qed

section \<open>The owner\<close>

lemma owned_session_owner:
  assumes "owned_session R i k s = (Inr session, s')" and "k \<noteq> []"
  shows "s_owner_api_key_hash session = Some (hash_api_key (ss_lib (rt_sessions R)) k)"
proof -
  from assms(1) obtain w w' where "get_session (rt_sessions R) i (Some k) w = (Inr (Some session), w')"
    by (auto simp: owned_session_def in_sessions_def in_query_def in_services_def and_then_Inr
        split: option.splits prod.splits)
  from get_session_enforced [OF this] obtain s0 where
    "enforce_owner (ss_lib (rt_sessions R)) s0 (Some k) = Inr session" by blast
  with enforce_owner_Inr [OF this] assms(2) show ?thesis by simp
qed

text \<open>
  C22: The routes that resume, fork, interrupt or control a session or read its checkpoints
  act only after the session was read for the request's key: where that fails they raise the
  same and leave the same state, and where it succeeds with a non-empty key the session's
  owner is that key.
\<close>

theorem routes_need_owner:
  assumes "owned_session R session_id api_key s = (r, s')"
  shows "case r of
      Inl e \<Rightarrow>
        resume_session R n session_id rq api_key s = (Inl e, s') \<and> fork_session R n session_id fq api_key s = (Inl e, s') \<and>
        interrupt_session R session_id api_key s = (Inl e, s') \<and>
        send_control_event R session_id kind mode api_key s = (Inl e, s') \<and>
        list_session_checkpoints R session_id api_key s = (Inl e, s') \<and>
        rewind_to_checkpoint R session_id checkpoint_id api_key s = (Inl e, s')
    | Inr session \<Rightarrow>
        api_key \<noteq> [] \<longrightarrow> s_owner_api_key_hash session = Some (hash_api_key (ss_lib (rt_sessions R)) api_key)"
proof (cases r)
  case (Inl e)
  with assms show ?thesis
    by (simp add: resume_session_def fork_session_def interrupt_session_def send_control_event_def
        list_session_checkpoints_def rewind_to_checkpoint_def and_then_def)
next
  case (Inr session)
  with assms owned_session_owner show ?thesis by fastforce
qed

lemma answer_ignores_owner: "answer_question R session_id answer k = answer_question R session_id answer k'"
  by (simp add: answer_question_def)

text \<open>A fork resumes the session it has just created, not its parent.\<close>

lemma fork_resumes_new:
  assumes "create_session S model None (Some parent) k w = (Inr forked, w')" and "s_id forked \<noteq> parent"
  shows "ao_resume (build_options (fork_query (s_id forked) model r)) \<noteq> Some parent"
  using assms(2) by (simp add: fork_query_options)

text \<open>Whatever the service says of the database, the route answers the same.\<close>

lemma single_errors_flattened:
  assumes "create_session (rt_sessions R) (qp_model p) (Some (qp_session_id p)) None (Some k) (qs_world (fst s)) = (Inl (APIError m c st), w)"
  shows "fst (try_except (persist_result R p k) (\<lambda>e. throw (persist_error e)) s) =
    Inl (APIError ''Failed to save session state'' ''SESSION_CREATION_FAILED'' 500)"
  using assms
  by (cases s) (simp add: persist_result_def and_then_def try_except_def in_sessions_def in_query_def in_services_def
      persist_error_def)

section \<open>A concrete route\<close>

definition offline_env :: "(server redis_world, session_row list) agent_env" where
  "offline_env =
     \<lparr>ae_lib = ref_lib,
      ae_pydantic = \<lparr>pd_bool = (\<lambda>v. Inr (truthy v)), pd_int = (\<lambda>v. Inr 0), pd_float = (\<lambda>v. Inr (Finite 0 0))\<rparr>,
      ae_tracker = \<lparr>st_cache = Some (ref_cache 0), st_session_ttl = 3600, st_interrupt_ttl = 300\<rparr>,
      ae_connect = (\<lambda>options c. throw (OtherException ''offline'')), ae_receive = ret None,
      ae_disconnect = (\<lambda>e. ret ()), ae_sdk_error = (\<lambda>e. CLINotFound), ae_memory_search = None,
      ae_memory_add = (\<lambda>t u m. ret ()), ae_error_text = (\<lambda>e. [])\<rparr>"

definition ref_routes :: "(server redis_world, session_row list) routes" where
  "ref_routes =
     \<lparr>rt_sessions = db_service,
      rt_agent = \<lparr>as_env = offline_env, as_injector = None, as_commands = (\<lambda>cwd. Inr None), as_checkpoints = None,
        as_webhooks = \<lparr>ws_post = (\<lambda>u b h t. throw (TimeoutError [])), ws_re_match = (\<lambda>p t. None), ws_text = (\<lambda>e. [])\<rparr>\<rparr>,
      rt_checkpoints = \<lparr>cs_lib = ref_lib, cs_cache = None, cs_ttl = 3600\<rparr>,
      rt_enrichment = \<lparr>en_lib = ref_lib, en_net = \<lparr>url_hostname = (\<lambda>u. Inr (Some u)), ip_internal = (\<lambda>h. None)\<rparr>,
        en_files = \<lparr>sf_global = NoFile, sf_project = NoFile, sf_claude = NoFile\<rparr>, en_disabled = []\<rparr>,
      rt_net = \<lparr>url_hostname = (\<lambda>u. Inr (Some u)), ip_internal = (\<lambda>h. None)\<rparr>\<rparr>"

definition route_state :: "(server redis_world, session_row list) service_state" where
  "route_state =
     (\<lparr>qs_world = ref_world [owned_row], qs_ctx = new_context [] [] 0 False False, qs_responses = [], qs_events = [],
       qs_aggregator = \<lparr>ag_content_blocks = [], ag_usage_data = None, ag_is_error = False\<rparr>\<rparr>, None)"

lemma ref_owned_session:
  "owned_session ref_routes ''s1'' ''key'' route_state = (Inr (map_db_to_service owned_row), route_state)"
  by (simp add: owned_session_def in_sessions_def in_query_def in_services_def ref_routes_def route_state_def
      and_then_def db_get_run)

lemma routes_need_owner_witness:
  "s_owner_api_key_hash (map_db_to_service owned_row) = Some (hash_api_key ref_lib ''key'')"
  using routes_need_owner [OF ref_owned_session, of 0 undefined undefined undefined undefined undefined]
  by (simp add: ref_routes_def db_service_def ref_service_def)

end
