(* ===== verification/WebSocket.thy ===== *)
theory WebSocket
  imports SessionRoutes Access
begin

text \<open>
  The WebSocket route, \<open>routes/websocket.py\<close>: the loop that reads messages and the task that
  streams the events of a query, which run concurrently over one connection.

  A step is what one of the two does up to its next \<open>await\<close>; \<open>socket_phase\<close> and \<open>query_task\<close> say
  where it waits. A call of a service is one step, and a send may fail with any exception. The
  tasks that \<open>create_task\<close> started stay in the state, numbered from one, and each of them that is not
  over can make steps, whether or not \<open>state.query_task\<close>, the last of them, still points to it.
  What Starlette does before \<open>accept\<close> and a shutdown of the server, which would cancel the route
  itself, are left out.
\<close>

section \<open>State\<close>

datatype query_task =
    Created \<comment> \<open>not started yet\<close>
  | NextEvent \<comment> \<open>waits for the generator of \<open>query_stream\<close>\<close>
  | Unwinding \<comment> \<open>cancelled there\<close>
  | SendEvent json
  | ReportStream \<comment> \<open>sends the error of \<open>except Exception\<close>\<close>
  | TaskDone "exn option"

datatype socket_phase =
    AwaitMessage
  | SendReply json
  | StopQuery query_request \<comment> \<open>waits for the cancelled query, then starts this one\<close>
  | FindSession json \<comment> \<open>in \<open>get_session\<close>, before an interrupt\<close>
  | SendInterrupt json
  | SendAnswer json json
  | SendMode json string
  | ReportFailure \<comment> \<open>sends the error of \<open>except Exception\<close>\<close>
  | Leave "exn option" \<comment> \<open>\<open>finally\<close>\<close>
  | AwaitQuery "exn option" \<comment> \<open>waits there for the cancelled query\<close>
  | SocketClosed "exn option"

record 'w socket_state =
  wk_world :: 'w
  wk_phase :: socket_phase
  wk_queries :: "(query_request \<times> query_task) list" \<comment> \<open>all tasks created so far\<close>
  wk_current :: "string option"

record 'w socket_services =
  wv_lib :: pylib
  wv_net :: net_lib
  wv_parse :: "json dict \<Rightarrow> exn + query_request" \<comment> \<open>Pydantic's conversion of the arguments\<close>
  wv_next :: "nat \<Rightarrow> query_request \<Rightarrow> ('w, agent_event option) io"
  wv_unwind :: "nat \<Rightarrow> query_request \<Rightarrow> ('w, agent_event option) io"
  wv_session :: "json \<Rightarrow> ('w, bool) io"
  wv_interrupt :: "json \<Rightarrow> ('w, bool) io"
  wv_answer :: "json \<Rightarrow> json \<Rightarrow> ('w, bool) io"
  wv_mode :: "json \<Rightarrow> string \<Rightarrow> ('w, bool) io"

definition connected :: "'w \<Rightarrow> 'w socket_state" where
  "connected w =
     \<lparr>wk_world = w, wk_phase = AwaitMessage, wk_queries = [], wk_current = None\<rparr>"

text \<open>\<open>state.query_task\<close>, and its number.\<close>

definition wk_query :: "'w socket_state \<Rightarrow> (query_request \<times> query_task) option" where
  "wk_query s = (if wk_queries s = [] then None else Some (last (wk_queries s)))"

definition wk_number :: "'w socket_state \<Rightarrow> nat" where
  "wk_number s = length (wk_queries s)"

definition at_task :: "nat \<Rightarrow> query_request \<Rightarrow> query_task \<Rightarrow> 'w socket_state \<Rightarrow> 'w socket_state" where
  "at_task n q t s = s\<lparr>wk_queries := (wk_queries s)[n - 1 := (q, t)]\<rparr>"

text \<open>The check of the key; \<open>None\<close> closes the connection.\<close>

definition socket_key :: "settings \<Rightarrow> string option \<Rightarrow> exn + string option" where
  "socket_key S api_key =
     (if \<not> given api_key then Inr None
      else bind_sum (compare_digest (the api_key) (se_api_key S)) (\<lambda>same. Inr (if same then api_key else None)))"

section \<open>Replies\<close>

definition socket_error :: "string \<Rightarrow> json" where
  "socket_error message = JObj [(''type'', JStr ''error''), (''message'', JStr message)]"

definition socket_ack :: "string \<Rightarrow> json" where
  "socket_ack message = JObj [(''type'', JStr ''ack''), (''message'', JStr message)]"

definition internal_error :: json where
  "internal_error = socket_error ''An internal error occurred''"

definition socket_event :: "pylib \<Rightarrow> agent_event \<Rightarrow> json" where
  "socket_event L e =
     JObj [(''type'', JStr ''sse_event''), (''event'', JStr (ev_event e)),
       (''data'', case json_loads L (ev_data e) of None \<Rightarrow> JObj [(''raw'', JStr (ev_data e))] | Some j \<Rightarrow> j)]"

definition at_phase :: "socket_phase \<Rightarrow> 'w socket_state \<Rightarrow> 'w socket_state" where
  "at_phase p s = s\<lparr>wk_phase := p\<rparr>"

definition disconnect :: exn where
  "disconnect = OtherException ''WebSocketDisconnect''"

text \<open>Where an exception in the loop leads.\<close>

definition route_raises :: "exn \<Rightarrow> 'w socket_state \<Rightarrow> 'w socket_state" where
  "route_raises e =
     at_phase (if e = disconnect then Leave None else if is_exception e then ReportFailure else Leave (Some e))"

section \<open>The query task\<close>

definition query_done :: "'w socket_state \<Rightarrow> bool" where
  "query_done s \<longleftrightarrow> (case wk_query s of None \<Rightarrow> True | Some (q, t) \<Rightarrow> (\<exists>x. t = TaskDone x))"

text \<open>\<open>query_task.cancel()\<close>: the exception is raised where the task waits.\<close>

fun cancel_task :: "query_task \<Rightarrow> query_task" where
  "cancel_task NextEvent = Unwinding"
| "cancel_task Unwinding = Unwinding"
| "cancel_task (TaskDone x) = TaskDone x"
| "cancel_task _ = TaskDone (Some CancelledError)"

definition cancel_query :: "'w socket_state \<Rightarrow> 'w socket_state" where
  "cancel_query s =
     (case wk_query s of None \<Rightarrow> s | Some (q, t) \<Rightarrow> at_task (wk_number s) q (cancel_task t) s)"

definition begin_query :: "query_request \<Rightarrow> 'w socket_state \<Rightarrow> 'w socket_state" where
  "begin_query q s =
     s\<lparr>wk_queries := wk_queries s @ [(q, Created)], wk_current := qr_session_id q,
       wk_phase := SendReply (socket_ack ''Query started'')\<rparr>"

section \<open>Messages\<close>

definition get_value :: "json dict \<Rightarrow> string \<Rightarrow> json" where
  "get_value d k = dict_get_or d k JNull"

text \<open>\<open>message.get(k) or x\<close>\<close>

definition get_or :: "json dict \<Rightarrow> string \<Rightarrow> json \<Rightarrow> json" where
  "get_or d k x = (if truthy (get_value d k) then get_value d k else x)"

definition prompt_arguments :: "json dict \<Rightarrow> json dict" where
  "prompt_arguments d =
     [(''prompt'', get_value d ''prompt''), (''session_id'', get_value d ''session_id''),
      (''model'', get_value d ''model''), (''max_turns'', get_value d ''max_turns''),
      (''allowed_tools'', get_or d ''allowed_tools'' (JArr [])),
      (''disallowed_tools'', get_or d ''disallowed_tools'' (JArr [])),
      (''permission_mode'', get_or d ''permission_mode'' (JStr ''bypassPermissions'')),
      (''include_partial_messages'', get_or d ''include_partial_messages'' (JBool False))]"

definition prompt_request :: "'w socket_services \<Rightarrow> json dict \<Rightarrow> exn + query_request" where
  "prompt_request S d = bind_sum (wv_parse S (prompt_arguments d)) (check_query_request (wv_net S))"

definition handle_prompt_message :: "'w socket_services \<Rightarrow> json dict \<Rightarrow> 'w socket_state \<Rightarrow> 'w socket_state" where
  "handle_prompt_message S d s =
     (if \<not> truthy (get_value d ''prompt'') then at_phase (SendReply (socket_error ''prompt is required'')) s
      else case prompt_request S d of
        Inl e \<Rightarrow> route_raises e s
      | Inr q \<Rightarrow> if query_done s then begin_query q s else at_phase (StopQuery q) (cancel_query s))"

definition session_or_current :: "json dict \<Rightarrow> 'w socket_state \<Rightarrow> json" where
  "session_or_current d s = get_or d ''session_id'' (json_of_opt JStr (wk_current s))"

definition handle_interrupt_message :: "json dict \<Rightarrow> 'w socket_state \<Rightarrow> 'w socket_state" where
  "handle_interrupt_message d s =
     at_phase (if \<not> truthy (session_or_current d s) then SendReply (socket_error ''No active session to interrupt'')
       else FindSession (session_or_current d s)) s"

definition handle_answer_message :: "json dict \<Rightarrow> 'w socket_state \<Rightarrow> 'w socket_state" where
  "handle_answer_message d s =
     at_phase (if \<not> truthy (get_value d ''answer'') then SendReply (socket_error ''answer is required'')
       else if truthy (session_or_current d s) then SendAnswer (session_or_current d s) (get_value d ''answer'')
       else SendReply (socket_error ''No active session'')) s"

definition invalid_mode :: "pylib \<Rightarrow> json \<Rightarrow> json" where
  "invalid_mode L mode =
     socket_error (''Invalid permission_mode: '' @ py_str L mode @
       ''. Must be one of: acceptEdits, bypassPermissions, default, plan'')"

text \<open>A list or dictionary cannot be looked up in a set.\<close>

definition handle_control_message :: "pylib \<Rightarrow> json dict \<Rightarrow> 'w socket_state \<Rightarrow> 'w socket_state" where
  "handle_control_message L d s =
     (let session_id = session_or_current d s; mode = get_value d ''permission_mode'' in
      if \<not> (truthy mode \<and> truthy session_id)
      then at_phase (SendReply (socket_error ''session_id and permission_mode required'')) s
      else case mode of
        JStr m \<Rightarrow> at_phase (if m \<in> set permission_modes then SendMode session_id m else SendReply (invalid_mode L mode)) s
      | JArr xs \<Rightarrow> route_raises (TypeError ''unhashable type'') s
      | JObj xs \<Rightarrow> route_raises (TypeError ''unhashable type'') s
      | _ \<Rightarrow> at_phase (SendReply (invalid_mode L mode)) s)"

definition process_message :: "'w socket_services \<Rightarrow> json \<Rightarrow> 'w socket_state \<Rightarrow> 'w socket_state" where
  "process_message S j s =
     (case j of
        JObj d \<Rightarrow>
          (let kind = get_value d ''type'' in
           if kind = JStr ''prompt'' then handle_prompt_message S d s
           else if kind = JStr ''interrupt'' then handle_interrupt_message d s
           else if kind = JStr ''answer'' then handle_answer_message d s
           else if kind = JStr ''control'' then handle_control_message (wv_lib S) d s
           else at_phase (SendReply (socket_error (''Unknown message type: '' @ py_str (wv_lib S) kind))) s)
      | _ \<Rightarrow> route_raises (AttributeError ''get'') s)"

text \<open>A frame with text, or a binary one, for which \<open>receive_text\<close> raises.\<close>

definition received :: "'w socket_services \<Rightarrow> string option \<Rightarrow> 'w socket_state \<Rightarrow> 'w socket_state" where
  "received S frame s =
     (case frame of
        None \<Rightarrow> route_raises (KeyError ''text'') s
      | Some raw \<Rightarrow>
          (case json_loads (wv_lib S) raw of
             None \<Rightarrow> at_phase (SendReply (socket_error ''Invalid JSON message'')) s
           | Some j \<Rightarrow> process_message S j s))"

section \<open>Steps\<close>

datatype socket_action =
    Quiet
  | Received "string option"
  | Replied json
  | Yielded nat agent_event
  | EventSent nat json
  | ErrorSent nat

text \<open>A call of a service that answers yes or no, and the replies to both.\<close>

definition ask ::
  "('w, bool) io \<Rightarrow> socket_phase \<Rightarrow> socket_phase \<Rightarrow> 'w socket_state \<Rightarrow> 'w socket_state" where
  "ask m yes no s =
     (case m (wk_world s) of
        (Inr b, w) \<Rightarrow> at_phase (if b then yes else no) (s\<lparr>wk_world := w\<rparr>)
      | (Inl e, w) \<Rightarrow> route_raises e (s\<lparr>wk_world := w\<rparr>))"

definition ask_session :: "'w socket_services \<Rightarrow> json \<Rightarrow> 'w socket_state \<Rightarrow> 'w socket_state" where
  "ask_session S i s =
     (let refused = SendReply (socket_error ''Session not found or not authorized'') in
      case wv_session S i (wk_world s) of
        (Inl (SessionNotFoundError j), w) \<Rightarrow> at_phase refused (s\<lparr>wk_world := w\<rparr>)
      | _ \<Rightarrow> ask (wv_session S i) (SendInterrupt i) refused s)"

text \<open>The end of a cancelled query that is awaited with \<open>suppress(CancelledError)\<close>.\<close>

definition task_end :: "'w socket_state \<Rightarrow> exn option option" where
  "task_end s =
     (case wk_query s of
        Some (q, TaskDone x) \<Rightarrow> Some (if x = Some CancelledError then None else x)
      | _ \<Rightarrow> None)"

definition route_step :: "'w socket_services \<Rightarrow> 'w socket_state \<Rightarrow> (socket_action \<times> 'w socket_state) option" where
  "route_step S s =
     (case wk_phase s of
        AwaitMessage \<Rightarrow> None
      | SendReply j \<Rightarrow> Some (Replied j, at_phase AwaitMessage s)
      | StopQuery q \<Rightarrow>
          (case task_end s of
             None \<Rightarrow> None
           | Some None \<Rightarrow> Some (Quiet, begin_query q s)
           | Some (Some e) \<Rightarrow> Some (Quiet, route_raises e s))
      | FindSession i \<Rightarrow> Some (Quiet, ask_session S i s)
      | SendInterrupt i \<Rightarrow>
          Some (Quiet, ask (wv_interrupt S i) (SendReply (socket_ack ''Query interrupted''))
            (SendReply (socket_error ''Session not found or not active'')) s)
      | SendAnswer i a \<Rightarrow>
          Some (Quiet, ask (wv_answer S i a) (SendReply (socket_ack ''Answer submitted''))
            (SendReply (socket_error ''Session not found or no pending question'')) s)
      | SendMode i m \<Rightarrow>
          Some (Quiet, ask (wv_mode S i m) (SendReply (socket_ack ''Permission mode updated''))
            (SendReply (socket_error ''Session not found or not active'')) s)
      | ReportFailure \<Rightarrow> Some (Replied internal_error, at_phase (Leave None) s)
      | Leave x \<Rightarrow>
          Some (Quiet, if query_done s then at_phase (SocketClosed x) s else at_phase (AwaitQuery x) (cancel_query s))
      | AwaitQuery x \<Rightarrow>
          (case task_end s of
             None \<Rightarrow> None
           | Some None \<Rightarrow> Some (Quiet, at_phase (SocketClosed x) s)
           | Some (Some e) \<Rightarrow> Some (Quiet, at_phase (SocketClosed (Some e)) s))
      | SocketClosed x \<Rightarrow> None)"

definition stream_raises :: "exn \<Rightarrow> query_task" where
  "stream_raises e = (if is_exception e then ReportStream else TaskDone (Some e))"

definition next_event ::
  "'w socket_services \<Rightarrow> ('w, agent_event option) io \<Rightarrow> nat \<Rightarrow> query_request \<Rightarrow> 'w socket_state \<Rightarrow>
     socket_action \<times> 'w socket_state" where
  "next_event S m n q s =
     (case m (wk_world s) of
        (Inr (Some e), w) \<Rightarrow>
          (Yielded n e, at_task n q (SendEvent (socket_event (wv_lib S) e)) (s\<lparr>wk_world := w\<rparr>))
      | (Inr None, w) \<Rightarrow> (Quiet, at_task n q (TaskDone None) (s\<lparr>wk_world := w\<rparr>))
      | (Inl x, w) \<Rightarrow> (Quiet, at_task n q (stream_raises x) (s\<lparr>wk_world := w\<rparr>)))"

text \<open>The task with a number, and a step of it.\<close>

definition task_at :: "'w socket_state \<Rightarrow> nat \<Rightarrow> (query_request \<times> query_task) option" where
  "task_at s n = (if 1 \<le> n \<and> n \<le> wk_number s then Some (wk_queries s ! (n - 1)) else None)"

definition stream_step ::
  "'w socket_services \<Rightarrow> nat \<Rightarrow> 'w socket_state \<Rightarrow> (socket_action \<times> 'w socket_state) option" where
  "stream_step S n s =
     (case task_at s n of
        None \<Rightarrow> None
      | Some (q, t) \<Rightarrow>
          (case t of
             Created \<Rightarrow> Some (Quiet, at_task n q NextEvent s)
           | NextEvent \<Rightarrow> Some (next_event S (wv_next S n q) n q s)
           | Unwinding \<Rightarrow> Some (next_event S (wv_unwind S n q) n q s)
           | SendEvent j \<Rightarrow> Some (EventSent n j, at_task n q NextEvent s)
           | ReportStream \<Rightarrow> Some (ErrorSent n, at_task n q (TaskDone None) s)
           | TaskDone x \<Rightarrow> None))"

text \<open>What the route and the tasks do, what the client does, and sends that fail.\<close>

inductive socket_step ::
  "'w socket_services \<Rightarrow> 'w socket_state \<Rightarrow> socket_action \<Rightarrow> 'w socket_state \<Rightarrow> bool" for S where
  route: "route_step S s = Some (a, s') \<Longrightarrow> socket_step S s a s'"
| stream: "stream_step S n s = Some (a, s') \<Longrightarrow> socket_step S s a s'"
| message: "wk_phase s = AwaitMessage \<Longrightarrow> socket_step S s (Received frame) (received S frame s)"
| leaves: "wk_phase s = AwaitMessage \<Longrightarrow> socket_step S s Quiet (at_phase (Leave None) s)"
| reply_fails: "wk_phase s = SendReply j \<Longrightarrow> socket_step S s Quiet (route_raises e s)"
| report_fails: "wk_phase s = ReportFailure \<Longrightarrow> socket_step S s Quiet (at_phase (Leave (Some e)) s)"
| event_fails: "task_at s n = Some (q, SendEvent j) \<Longrightarrow> socket_step S s Quiet (at_task n q (stream_raises e) s)"
| error_fails: "task_at s n = Some (q, ReportStream) \<Longrightarrow> socket_step S s Quiet (at_task n q (TaskDone (Some e)) s)"
| others: "socket_step S s Quiet (s\<lparr>wk_world := w\<rparr>)"

inductive socket_run ::
  "'w socket_services \<Rightarrow> 'w socket_state \<Rightarrow> socket_action list \<Rightarrow> 'w socket_state \<Rightarrow> bool" for S s where
  none: "socket_run S s [] s"
| step: "socket_run S s tr s' \<Longrightarrow> socket_step S s' a s'' \<Longrightarrow> socket_run S s (tr @ [a]) s''"

section \<open>Over the services\<close>

text \<open>The calls that name a session by a string are those of the session and agent services.\<close>

definition named :: "(string \<Rightarrow> ('w, 'a) io) \<Rightarrow> (json \<Rightarrow> ('w, 'a) io) \<Rightarrow> json \<Rightarrow> ('w, 'a) io" where
  "named f g j = (case j of JStr i \<Rightarrow> f i | _ \<Rightarrow> g j)"

definition over_services ::
  "('c, 'd) routes \<Rightarrow> string \<Rightarrow> ('c, 'd) service_state socket_services \<Rightarrow> ('c, 'd) service_state socket_services" where
  "over_services R api_key S =
     S\<lparr>wv_session := named (\<lambda>i. and_then (in_sessions (get_session (rt_sessions R) i (Some api_key)))
           (\<lambda>found. ret (found \<noteq> None))) (wv_session S),
       wv_interrupt := named (\<lambda>i. in_sessions (service_interrupt (rt_agent R) i)) (wv_interrupt S),
       wv_mode := (\<lambda>j m. named (\<lambda>i. in_sessions (service_update_permission_mode (rt_agent R) i m)) (\<lambda>j. wv_mode S j m) j)\<rparr>"

end
