(* ===== verification/WebSocketProperties.thy ===== *)
theory WebSocketProperties
  imports WebSocket
begin

text \<open>What a WebSocket connection guarantees, whatever its two tasks and its client do.\<close>

lemma at_phase_sel [simp]:
  "wk_phase (at_phase p s) = p" "wk_world (at_phase p s) = wk_world s" "wk_current (at_phase p s) = wk_current s"
  by (simp_all add: at_phase_def)

lemma current_task: "wk_query s = Some (q, t) \<longleftrightarrow> wk_number s > 0 \<and> task_at s (wk_number s) = Some (q, t)"
  by (auto simp: wk_query_def wk_number_def task_at_def last_conv_nth Suc_le_eq)

lemma world_sel [simp]:
  "wk_query (s\<lparr>wk_world := w\<rparr>) = wk_query s" "wk_number (s\<lparr>wk_world := w\<rparr>) = wk_number s"
  "task_at (s\<lparr>wk_world := w\<rparr>) n = task_at s n" "wk_query (at_phase p s) = wk_query s"
  "wk_number (at_phase p s) = wk_number s" "wk_queries (at_phase p s) = wk_queries s" "task_at (at_phase p s) n = task_at s n"
  by (simp_all add: wk_query_def wk_number_def task_at_def at_phase_def)

lemma at_task_sel [simp]:
  "wk_phase (at_task n q t s) = wk_phase s" "wk_number (at_task n q t s) = wk_number s"
  "wk_queries (at_task n q t s) = (wk_queries s)[n - 1 := (q, t)]"
  by (simp_all add: at_task_def wk_number_def)

lemma at_current_task:
  assumes "wk_query s \<noteq> None"
  shows "wk_query (at_task (wk_number s) q t s) = Some (q, t)"
  using assms by (auto simp: wk_query_def wk_number_def at_task_def last_list_update split: if_splits)

lemma cancel_query_sel [simp]:
  "wk_phase (cancel_query s) = wk_phase s" "wk_number (cancel_query s) = wk_number s"
  "wk_query (cancel_query s) = map_option (map_prod id cancel_task) (wk_query s)"
  by (auto simp: cancel_query_def at_current_task split: option.split)

lemma begin_query_sel [simp]:
  "wk_phase (begin_query q s) = SendReply (socket_ack ''Query started'')"
  "wk_number (begin_query q s) = Suc (wk_number s)" "wk_query (begin_query q s) = Some (q, Created)"
  "wk_queries (begin_query q s) = wk_queries s @ [(q, Created)]"
  "wk_current (begin_query q s) = qr_session_id q"
  by (simp_all add: begin_query_def wk_number_def wk_query_def)

lemma query_done_sel [simp]:
  "query_done (at_phase p s) = query_done s" "query_done (s\<lparr>wk_world := w\<rparr>) = query_done s"
  by (simp_all add: query_done_def)

section \<open>What the route does to the query\<close>

definition query_kept :: "'w socket_state \<Rightarrow> 'w socket_state \<Rightarrow> bool" where
  "query_kept s s' \<longleftrightarrow> wk_queries s' = wk_queries s"

definition query_cancelled :: "'w socket_state \<Rightarrow> 'w socket_state \<Rightarrow> bool" where
  "query_cancelled s s' \<longleftrightarrow> wk_queries s' = wk_queries (cancel_query s)"

definition query_started :: "'w socket_state \<Rightarrow> 'w socket_state \<Rightarrow> bool" where
  "query_started s s' \<longleftrightarrow> query_done s \<and> (\<exists>q. wk_queries s' = wk_queries s @ [(q, Created)])"

text \<open>The tasks before \<open>state.query_task\<close> are over.\<close>

definition task_over :: "query_request \<times> query_task \<Rightarrow> bool" where
  "task_over p \<longleftrightarrow> (\<exists>x. snd p = TaskDone x)"

definition older_done :: "'w socket_state \<Rightarrow> bool" where
  "older_done s \<longleftrightarrow> list_all task_over (butlast (wk_queries s))"

lemma same_queries:
  "wk_queries s' = wk_queries s \<Longrightarrow> wk_query s' = wk_query s \<and> wk_number s' = wk_number s \<and> older_done s' = older_done s"
  by (simp add: wk_query_def wk_number_def older_done_def)

lemma query_done_over: "query_done s \<longleftrightarrow> wk_queries s = [] \<or> task_over (last (wk_queries s))"
  by (auto simp: query_done_def wk_query_def task_over_def split: prod.splits)

lemma all_over: "older_done s \<Longrightarrow> query_done s \<Longrightarrow> list_all task_over (wk_queries s)"
  by (cases "wk_queries s" rule: rev_cases) (auto simp: older_done_def query_done_over)

lemma older_done_update:
  "wk_queries s' = (wk_queries s)[wk_number s - 1 := p] \<Longrightarrow> older_done s' = older_done s"
  by (cases "wk_queries s" rule: rev_cases) (simp_all add: older_done_def wk_number_def)

lemma older_done_cancel: "wk_queries s' = wk_queries (cancel_query s) \<Longrightarrow> older_done s' = older_done s"
proof (cases "wk_query s")
  case None
  then show "wk_queries s' = wk_queries (cancel_query s) \<Longrightarrow> older_done s' = older_done s"
    by (simp add: cancel_query_def older_done_def)
next
  case (Some p)
  then show "wk_queries s' = wk_queries (cancel_query s) \<Longrightarrow> older_done s' = older_done s"
    by (cases p) (simp add: cancel_query_def older_done_update)
qed

lemma older_done_started: "query_started s s' \<Longrightarrow> older_done s \<Longrightarrow> older_done s'"
  by (auto simp: query_started_def older_done_def dest: all_over [unfolded older_done_def])

text \<open>So only the last task can make a step.\<close>

lemma running_task:
  assumes "older_done s" and "task_at s n = Some (q, t)" and "\<not> task_over (q, t)"
  shows "n = wk_number s \<and> wk_query s = Some (q, t)"
proof (cases "wk_queries s" rule: rev_cases)
  case Nil
  with assms(2) show ?thesis by (simp add: task_at_def wk_number_def split: if_splits)
next
  case (snoc ts p)
  from assms(2) snoc have n: "1 \<le> n" "n \<le> Suc (length ts)" "(ts @ [p]) ! (n - 1) = (q, t)"
    by (auto simp: task_at_def wk_number_def split: if_splits)
  have "\<not> n - 1 < length ts"
  proof
    assume "n - 1 < length ts"
    moreover from this n(3) have "ts ! (n - 1) = (q, t)" by (simp add: nth_append)
    ultimately have "(q, t) \<in> set ts" by (metis nth_mem)
    with assms(1,3) snoc show False by (auto simp: older_done_def list_all_iff)
  qed
  with n(1,2) have "n - 1 = length ts" by simp
  with n snoc show ?thesis by (auto simp: wk_query_def wk_number_def nth_append)
qed

lemma query_kept_simps [simp]:
  "query_kept s (at_phase p s)" "query_kept s (route_raises e s)"
  by (simp_all add: query_kept_def route_raises_def)

text \<open>The phases a message leads to: a reply, a call, or the failure; a prompt may cancel or start a query.\<close>

fun answering :: "socket_phase \<Rightarrow> bool" where
  "answering (SendReply j) \<longleftrightarrow> j \<noteq> internal_error"
| "answering (FindSession i) \<longleftrightarrow> True"
| "answering (SendInterrupt i) \<longleftrightarrow> True"
| "answering (SendAnswer i a) \<longleftrightarrow> True"
| "answering (SendMode i m) \<longleftrightarrow> True"
| "answering ReportFailure \<longleftrightarrow> True"
| "answering _ \<longleftrightarrow> False"

lemma not_internal [simp]:
  "socket_ack m \<noteq> internal_error" "invalid_mode L j \<noteq> internal_error"
  "socket_error m = internal_error \<longleftrightarrow> m = ''An internal error occurred''"
  by (simp_all add: socket_ack_def invalid_mode_def internal_error_def socket_error_def)

lemma raises_caught:
  "is_exception e \<Longrightarrow> e \<noteq> disconnect \<Longrightarrow> wk_phase (route_raises e s) = ReportFailure"
  by (simp add: route_raises_def)

lemma raises_leaving: "wk_phase (route_raises e s) = ReportFailure \<or> (\<exists>x. wk_phase (route_raises e s) = Leave x)"
  by (simp add: route_raises_def)

lemma raises_answering: "\<forall>x. wk_phase (route_raises e s) \<noteq> Leave x \<Longrightarrow> answering (wk_phase (route_raises e s))"
  using raises_leaving [of e s] by auto

definition stops_query :: "'w socket_state \<Rightarrow> bool" where
  "stops_query s \<longleftrightarrow> (\<exists>q. wk_phase s = StopQuery q)"

definition leaving :: "'w socket_state \<Rightarrow> bool" where
  "leaving s \<longleftrightarrow> (\<exists>x. wk_phase s \<in> {Leave x, AwaitQuery x, SocketClosed x})"

text \<open>Every message is taken up in one of three ways.\<close>

definition taken_up :: "'w socket_state \<Rightarrow> 'w socket_state \<Rightarrow> bool" where
  "taken_up s s' \<longleftrightarrow>
     query_kept s s' \<and> (answering (wk_phase s') \<or> (\<exists>x. wk_phase s' = Leave x)) \<or>
     query_started s s' \<and> answering (wk_phase s') \<or>
     query_cancelled s s' \<and> \<not> query_done s \<and> stops_query s'"

lemma taken_up_simps [simp]:
  "answering p \<Longrightarrow> taken_up s (at_phase p s)" "taken_up s (route_raises e s)"
  using raises_leaving [of e s] by (auto simp: taken_up_def)

lemma prompt_outcome: "taken_up s (handle_prompt_message S d s)"
  by (cases "prompt_request S d")
     (auto simp: handle_prompt_message_def taken_up_def [of s "begin_query q s" for q]
        taken_up_def [of s "at_phase p (cancel_query s)" for p] query_started_def query_cancelled_def stops_query_def)

lemma control_outcome: "taken_up s (handle_control_message L d s)"
  by (cases "get_value d ''permission_mode''") (simp_all add: handle_control_message_def Let_def)

lemma received_outcome: "taken_up s (received S frame s)"
proof (cases frame)
  case None
  then show ?thesis by (simp add: received_def)
next
  case (Some raw)
  show ?thesis
  proof (cases "json_loads (wv_lib S) raw")
    case None
    with Some show ?thesis by (simp add: received_def)
  next
    case j: (Some j)
    with Some have "received S frame s = process_message S j s" by (simp add: received_def)
    then show ?thesis
      by (cases j) (simp_all add: process_message_def Let_def prompt_outcome control_outcome
          handle_interrupt_message_def handle_answer_message_def)
  qed
qed

text \<open>The other steps of the route.\<close>

lemma ask_kept: "query_kept s (ask m yes no s)"
proof (cases "m (wk_world s)")
  case (Pair r w)
  then show ?thesis
    by (cases r) (simp_all add: ask_def query_kept_def route_raises_def)
qed

lemma ask_phase:
  "wk_phase (ask m yes no s) \<in> {yes, no, ReportFailure} \<or> (\<exists>x. wk_phase (ask m yes no s) = Leave x)"
proof (cases "m (wk_world s)")
  case (Pair r w)
  then show ?thesis
  proof (cases r)
    case (Inl e)
    with Pair raises_leaving [of e "s\<lparr>wk_world := w\<rparr>"] show ?thesis by (auto simp: ask_def)
  qed (simp add: ask_def)
qed

lemma ask_session_cases:
  obtains w where "ask_session S i s = at_phase (SendReply (socket_error ''Session not found or not authorized'')) (s\<lparr>wk_world := w\<rparr>)"
  | "ask_session S i s =
       ask (wv_session S i) (SendInterrupt i) (SendReply (socket_error ''Session not found or not authorized'')) s"
proof (cases "\<exists>j w. wv_session S i (wk_world s) = (Inl (SessionNotFoundError j), w)")
  case True
  with that(1) show ?thesis by (auto simp: ask_session_def)
next
  case False
  then have "ask_session S i s =
      ask (wv_session S i) (SendInterrupt i) (SendReply (socket_error ''Session not found or not authorized'')) s"
    by (auto simp: ask_session_def Let_def split: prod.split sum.split exn.split)
  with that(2) show ?thesis by blast
qed

lemma ask_session_kept: "query_kept s (ask_session S i s)"
  by (cases rule: ask_session_cases [of S i s]) (simp_all add: query_kept_def ask_kept [unfolded query_kept_def])

lemma ask_session_phase:
  "wk_phase (ask_session S i s) \<in>
     {SendInterrupt i, SendReply (socket_error ''Session not found or not authorized''), ReportFailure} \<or>
   (\<exists>x. wk_phase (ask_session S i s) = Leave x)"
  by (cases rule: ask_session_cases [of S i s]) (use ask_phase in auto)

lemma task_end_done: "task_end s = Some x \<Longrightarrow> query_done s"
  by (auto simp: task_end_def query_done_def split: option.splits prod.splits query_task.splits)

lemma route_step_query:
  assumes "route_step S s = Some (a, s')"
  shows "query_kept s s' \<or> query_cancelled s s' \<or> query_started s s'"
  using assms
  by (cases "wk_phase s")
     (auto simp: route_step_def query_started_def query_cancelled_def task_end_done ask_kept ask_session_kept
       split: option.splits if_splits)

section \<open>The order of the queries\<close>

fun query_of :: "socket_action \<Rightarrow> nat list" where
  "query_of (Yielded n e) = [n]"
| "query_of (EventSent n j) = [n]"
| "query_of (ErrorSent n) = [n]"
| "query_of _ = []"

definition query_numbers :: "socket_action list \<Rightarrow> nat list" where
  "query_numbers tr = concat (map query_of tr)"

fun event_of :: "nat \<Rightarrow> socket_action \<Rightarrow> agent_event list" where
  "event_of n (Yielded m e) = (if m = n then [e] else [])"
| "event_of n _ = []"

fun message_of :: "nat \<Rightarrow> socket_action \<Rightarrow> json list" where
  "message_of n (EventSent m j) = (if m = n then [j] else [])"
| "message_of n _ = []"

definition yielded :: "nat \<Rightarrow> socket_action list \<Rightarrow> agent_event list" where
  "yielded n tr = concat (map (event_of n) tr)"

definition messages :: "nat \<Rightarrow> socket_action list \<Rightarrow> json list" where
  "messages n tr = concat (map (message_of n) tr)"

lemma projections [simp]:
  "query_numbers (tr @ [a]) = query_numbers tr @ query_of a" "query_numbers [] = []"
  "yielded n (tr @ [a]) = yielded n tr @ event_of n a" "yielded n [] = []"
  "messages n (tr @ [a]) = messages n tr @ message_of n a" "messages n [] = []"
  by (simp_all add: query_numbers_def yielded_def messages_def)

lemma other_query: "n \<notin> set (query_of a) \<Longrightarrow> event_of n a = [] \<and> message_of n a = []"
  by (cases a) auto

lemma unseen_query: "n \<notin> set (query_numbers tr) \<Longrightarrow> yielded n tr = [] \<and> messages n tr = []"
  by (induction tr rule: rev_induct) (auto simp: other_query)

text \<open>What was sent of a query, and what its generator yielded.\<close>

fun progress :: "query_task \<Rightarrow> json list \<Rightarrow> json list \<Rightarrow> bool" where
  "progress Created sent all \<longleftrightarrow> sent = [] \<and> all = []"
| "progress NextEvent sent all \<longleftrightarrow> sent = all"
| "progress Unwinding sent all \<longleftrightarrow> sent = all"
| "progress (SendEvent j) sent all \<longleftrightarrow> all = sent @ [j]"
| "progress _ sent all \<longleftrightarrow> sent = all \<or> sent = butlast all"

lemma progress_weak: "progress t sent all \<Longrightarrow> sent = all \<or> sent = butlast all"
  by (cases t) auto

lemma progress_cancel: "progress t sent all \<Longrightarrow> progress (cancel_task t) sent all"
  by (cases t) auto

definition streams_ok :: "pylib \<Rightarrow> socket_action list \<Rightarrow> 'w socket_state \<Rightarrow> bool" where
  "streams_ok L tr s \<longleftrightarrow>
     older_done s \<and> sorted (query_numbers tr) \<and> (\<forall>n\<in>set (query_numbers tr). n \<le> wk_number s) \<and>
     (\<forall>n. progress (TaskDone None) (messages n tr) (map (socket_event L) (yielded n tr))) \<and>
     (case wk_query s of
        None \<Rightarrow> True
      | Some (q, t) \<Rightarrow> progress t (messages (wk_number s) tr) (map (socket_event L) (yielded (wk_number s) tr)))"

lemma streams_ok_route:
  assumes "streams_ok L tr s" and "query_of a = []"
    and "query_kept s s' \<or> query_cancelled s s' \<or> query_started s s'"
  shows "streams_ok L (tr @ [a]) s'"
proof -
  from assms(2) have a: "event_of n a = []" "message_of n a = []" for n
    by (simp_all add: other_query)
  from assms(1) have fresh: "Suc (wk_number s) \<notin> set (query_numbers tr)"
    by (auto simp: streams_ok_def)
  from assms(3) show ?thesis
  proof (elim disjE)
    assume "query_kept s s'"
    with assms(1,2) a show ?thesis by (auto simp: streams_ok_def query_kept_def dest!: same_queries split: option.splits)
  next
    assume *: "query_cancelled s s'"
    from * have "wk_query s' = map_option (map_prod id cancel_task) (wk_query s) \<and> wk_number s' = wk_number s \<and>
        older_done s' = older_done s"
      using same_queries [of s' "cancel_query s"] older_done_cancel [of s' s] by (simp add: query_cancelled_def)
    with assms(1,2) a show ?thesis
      by (cases "wk_query s") (auto simp: streams_ok_def progress_cancel)
  next
    assume *: "query_started s s'"
    then obtain q where "wk_query s' = Some (q, Created)" "wk_number s' = Suc (wk_number s)"
      by (auto simp: query_started_def wk_query_def wk_number_def)
    with assms(1,2) a unseen_query [OF fresh] older_done_started [OF *] show ?thesis
      by (auto simp: streams_ok_def)
  qed
qed

text \<open>A step of the current query that is recorded by \<open>a\<close>.\<close>

lemma streams_ok_task:
  assumes "streams_ok L tr s" and "set (query_of a) \<subseteq> {wk_number s}" and "length (query_of a) \<le> 1"
    and "wk_query s = Some (q, t)" and "wk_queries s' = (wk_queries s)[wk_number s - 1 := (q, t')]"
    and "\<And>sent all. progress t sent all \<Longrightarrow>
      progress t' (sent @ message_of (wk_number s) a) (all @ map (socket_event L) (event_of (wk_number s) a))"
  shows "streams_ok L (tr @ [a]) s'"
proof -
  let ?n = "wk_number s"
  from assms(4,5) have s': "wk_query s' = Some (q, t')" "wk_number s' = ?n" "older_done s' = older_done s"
    using at_current_task [of s q t'] same_queries [of s' "at_task ?n q t' s"] older_done_update [of s' s]
    by simp_all
  from assms(1,4) have "progress t (messages ?n tr) (map (socket_event L) (yielded ?n tr))"
    by (simp add: streams_ok_def)
  from assms(6) [OF this] have now: "progress t' (messages ?n (tr @ [a])) (map (socket_event L) (yielded ?n (tr @ [a])))"
    by simp
  have "progress (TaskDone None) (messages n (tr @ [a])) (map (socket_event L) (yielded n (tr @ [a])))" for n
  proof (cases "n = ?n")
    case True
    with progress_weak [OF now] show ?thesis by simp
  next
    case False
    with assms(2) have "n \<notin> set (query_of a)" by auto
    with assms(1) show ?thesis by (simp add: streams_ok_def other_query)
  qed
  moreover from assms(1-3) have "sorted (query_numbers (tr @ [a]))"
    by (cases "query_of a") (auto simp: streams_ok_def sorted_append)
  ultimately show ?thesis
    using assms(1,2) s' now by (auto simp: streams_ok_def)
qed

lemma streams_ok_stream:
  assumes "streams_ok (wv_lib S) tr s" and "stream_step S n s = Some (a, s')"
  shows "streams_ok (wv_lib S) (tr @ [a]) s' \<and> wk_phase s' = wk_phase s \<and> \<not> query_done s"
proof -
  from assms(2) obtain q t where at: "task_at s n = Some (q, t)" "\<not> task_over (q, t)"
    by (auto simp: stream_step_def task_over_def split: option.splits query_task.splits)
  from assms(1) have "older_done s" by (simp add: streams_ok_def)
  from running_task [OF this at] have n: "n = wk_number s" and t: "wk_query s = Some (q, t)" by simp_all
  have event: "streams_ok (wv_lib S) (tr @ [a]) s' \<and> wk_phase s' = wk_phase s"
    if "next_event S m n q s = (a, s')" and "t = NextEvent \<or> t = Unwinding" for m
  proof (cases "m (wk_world s)")
    case (Pair r w)
    with that t n show ?thesis
      by (cases r; (cases "projr r")?)
         (auto simp: next_event_def stream_raises_def split: if_splits intro!: streams_ok_task [OF assms(1) _ _ t])
  qed
  from at(2) have "\<not> query_done s" by (simp add: query_done_def t task_over_def)
  with assms(2) at n t event show ?thesis
    by (cases t) (auto simp: stream_step_def intro!: streams_ok_task [OF assms(1) _ _ t])
qed

text \<open>A closed connection has no query left.\<close>

definition closed_ok :: "'w socket_state \<Rightarrow> bool" where
  "closed_ok s \<longleftrightarrow> ((\<exists>x. wk_phase s = SocketClosed x) \<longrightarrow> query_done s)"

lemma taken_up_open: "taken_up s s' \<Longrightarrow> closed_ok s' \<and> (query_kept s s' \<or> query_cancelled s s' \<or> query_started s s')"
  by (auto simp: taken_up_def closed_ok_def stops_query_def)

lemma closed_ok_open: "\<nexists>x. wk_phase s = SocketClosed x \<Longrightarrow> closed_ok s"
  by (simp add: closed_ok_def)

lemma closed_ok_done: "query_done s \<Longrightarrow> closed_ok (at_phase p s)"
  by (simp add: closed_ok_def)

lemma closed_ok_calls [simp]:
  "closed_ok (ask m (SendReply x) (SendReply y) s)" "closed_ok (ask_session S i s)" "closed_ok (route_raises e s)"
  using ask_phase [of m "SendReply x" "SendReply y" s] ask_session_phase [of S i s] raises_leaving [of e s]
  by (auto intro: closed_ok_open)

lemma route_step_closed:
  assumes "route_step S s = Some (a, s')"
  shows "closed_ok s' \<and> query_of a = []"
  using assms
  by (cases "wk_phase s")
     (auto simp: route_step_def task_end_done split: option.splits if_splits intro: closed_ok_open closed_ok_done)

lemma socket_step_ok:
  assumes "socket_step S s a s'" and "streams_ok (wv_lib S) tr s" and "closed_ok s"
  shows "streams_ok (wv_lib S) (tr @ [a]) s' \<and> closed_ok s'"
  using assms(1)
proof cases
  case route
  with route_step_query route_step_closed streams_ok_route [OF assms(2)] show ?thesis by blast
next
  case stream
  from streams_ok_stream [OF assms(2) stream(1)] assms(3) show ?thesis by (auto simp: closed_ok_def)
next
  case (message frame)
  with taken_up_open [OF received_outcome [of s S frame]] streams_ok_route [OF assms(2), of a s'] show ?thesis by auto
next
  case leaves
  with streams_ok_route [OF assms(2), of a s'] show ?thesis by (simp add: closed_ok_def)
next
  case (reply_fails j e)
  with streams_ok_route [OF assms(2), of a s'] raises_leaving [of e s] show ?thesis by (auto simp: closed_ok_def)
next
  case (report_fails e)
  with streams_ok_route [OF assms(2), of a s'] show ?thesis by (simp add: closed_ok_def)
next
  case (event_fails n q j e)
  from assms(2) have "older_done s" by (simp add: streams_ok_def)
  from running_task [OF this event_fails(3)] have "n = wk_number s" and t: "wk_query s = Some (q, SendEvent j)"
    by (simp_all add: task_over_def)
  with event_fails assms(3) show ?thesis
    by (auto simp: closed_ok_def query_done_def stream_raises_def split: if_splits
        intro!: streams_ok_task [OF assms(2) _ _ t])
next
  case (error_fails n q e)
  from assms(2) have "older_done s" by (simp add: streams_ok_def)
  from running_task [OF this error_fails(3)] have "n = wk_number s" and t: "wk_query s = Some (q, ReportStream)"
    by (simp_all add: task_over_def)
  with error_fails assms(3) show ?thesis
    by (auto simp: closed_ok_def query_done_def intro!: streams_ok_task [OF assms(2) _ _ t])
next
  case (others w)
  with assms(3) streams_ok_route [OF assms(2), of a s'] show ?thesis
    by (simp add: closed_ok_def query_done_def query_kept_def)
qed

lemma socket_run_ok:
  assumes "socket_run S (connected w) tr s"
  shows "streams_ok (wv_lib S) tr s \<and> closed_ok s"
  using assms
proof (induction rule: socket_run.induct)
  case none
  show ?case by (simp add: connected_def streams_ok_def closed_ok_def older_done_def wk_query_def)
next
  case (step tr s' a s'')
  with socket_step_ok show ?case by blast
qed

text \<open>
  C24: The queries of a WebSocket connection follow one another: all that is sent of a query
  comes before the first of the next one, the events of a query are sent in the order in
  which its generator yields them, without a gap and all but at most the last; of all tasks
  that were started, only the last one can be running at any time, and when the connection
  is closed none is.
\<close>

theorem socket_queries_in_order:
  assumes "socket_run S (connected w) tr s"
  shows "sorted (query_numbers tr) \<and>
    messages n tr \<in> {map (socket_event (wv_lib S)) (yielded n tr), butlast (map (socket_event (wv_lib S)) (yielded n tr))} \<and>
    list_all task_over (butlast (wk_queries s)) \<and>
    (wk_phase s = SocketClosed x \<longrightarrow> list_all task_over (wk_queries s))"
  using socket_run_ok [OF assms] all_over [of s] by (auto simp: streams_ok_def closed_ok_def older_done_def)

section \<open>Replies\<close>

fun frame_of :: "socket_action \<Rightarrow> string option list" where
  "frame_of (Received f) = [f]"
| "frame_of _ = []"

fun reply_of :: "socket_action \<Rightarrow> json list" where
  "reply_of (Replied j) = [j]"
| "reply_of _ = []"

definition frames :: "socket_action list \<Rightarrow> string option list" where
  "frames tr = concat (map frame_of tr)"

definition replies :: "socket_action list \<Rightarrow> json list" where
  "replies tr = concat (map reply_of tr)"

lemma reply_projections [simp]:
  "frames (tr @ [a]) = frames tr @ frame_of a" "frames [] = []"
  "replies (tr @ [a]) = replies tr @ reply_of a" "replies [] = []"
  by (simp_all add: frames_def replies_def)

text \<open>A message is being answered, or the route is on its way out.\<close>

definition replies_ok :: "socket_action list \<Rightarrow> 'w socket_state \<Rightarrow> bool" where
  "replies_ok tr s \<longleftrightarrow>
     (if leaving s
      then length (replies tr) \<le> length (frames tr) \<and> length (frames tr) \<le> Suc (length (replies tr)) \<and>
        internal_error \<notin> set (butlast (replies tr))
      else internal_error \<notin> set (replies tr) \<and>
        (if wk_phase s = AwaitMessage then length (frames tr) = length (replies tr)
         else (answering (wk_phase s) \<or> stops_query s) \<and> length (frames tr) = Suc (length (replies tr))))"

lemma leaving_simps [simp]:
  "leaving (at_phase (Leave x) s)" "leaving (at_phase (AwaitQuery x) s)" "leaving (at_phase (SocketClosed x) s)"
  "leaving (s\<lparr>wk_world := w\<rparr>) = leaving s" "stops_query (s\<lparr>wk_world := w\<rparr>) = stops_query s"
  by (auto simp: leaving_def stops_query_def)

lemma leaving_phase: "wk_phase s' = wk_phase s \<Longrightarrow> leaving s' = leaving s \<and> stops_query s' = stops_query s"
  by (simp add: leaving_def stops_query_def)

text \<open>On from a state where a message is being answered.\<close>

lemma replies_ok_answering:
  assumes "replies_ok tr s" and "\<not> leaving s" and "wk_phase s \<noteq> AwaitMessage" and "reply_of a = []" and "frame_of a = []"
    and "answering (wk_phase s') \<or> (\<exists>x. wk_phase s' = Leave x)"
  shows "replies_ok (tr @ [a]) s'"
proof -
  from assms(1-3) have tr: "internal_error \<notin> set (replies tr)" "length (frames tr) = Suc (length (replies tr))"
    by (simp_all add: replies_ok_def)
  from assms(6) show ?thesis
  proof
    assume "answering (wk_phase s')"
    then have "\<not> leaving s'" and "wk_phase s' \<noteq> AwaitMessage"
      by (auto simp: leaving_def)
    with tr assms(4,5) \<open>answering (wk_phase s')\<close> show ?thesis by (simp add: replies_ok_def)
  next
    assume "\<exists>x. wk_phase s' = Leave x"
    then have "leaving s'" by (auto simp: leaving_def)
    with tr assms(4,5) show ?thesis by (auto simp: replies_ok_def dest: in_set_butlastD)
  qed
qed

lemma replies_ok_received:
  assumes "replies_ok tr s" and "wk_phase s = AwaitMessage" and "taken_up s s'"
  shows "replies_ok (tr @ [Received f]) s'"
proof -
  from assms(2) have "\<not> leaving s" by (auto simp: leaving_def)
  with assms(1,2) have tr: "internal_error \<notin> set (replies tr)" "length (frames tr) = length (replies tr)"
    by (simp_all add: replies_ok_def)
  from assms(3) consider "answering (wk_phase s')" | x where "wk_phase s' = Leave x" | q where "wk_phase s' = StopQuery q"
    by (auto simp: taken_up_def stops_query_def)
  then show ?thesis
  proof cases
    case 1
    then have "\<not> leaving s'" and "wk_phase s' \<noteq> AwaitMessage" by (auto simp: leaving_def)
    with 1 tr show ?thesis by (simp add: replies_ok_def)
  next
    case 2
    then have "leaving s'" by (auto simp: leaving_def)
    with tr show ?thesis by (auto simp: replies_ok_def dest: in_set_butlastD)
  next
    case 3
    then have "\<not> leaving s'" and "wk_phase s' \<noteq> AwaitMessage" and "stops_query s'"
      by (auto simp: leaving_def stops_query_def)
    with tr show ?thesis by (simp add: replies_ok_def)
  qed
qed

text \<open>A step that leads to no other kind of phase, or leaves it.\<close>

lemma replies_ok_same:
  assumes "replies_ok tr s" and "reply_of a = []" and "frame_of a = []"
    and "wk_phase s' = wk_phase s \<or> leaving s \<and> leaving s'"
  shows "replies_ok (tr @ [a]) s'"
  using assms leaving_phase [of s' s] by (auto simp: replies_ok_def)

lemma answering_calls:
  assumes "y \<noteq> ''An internal error occurred''"
    and "\<forall>x'. wk_phase (ask m (SendReply (socket_ack x)) (SendReply (socket_error y)) s) \<noteq> Leave x'"
  shows "answering (wk_phase (ask m (SendReply (socket_ack x)) (SendReply (socket_error y)) s))"
  using ask_phase [of m "SendReply (socket_ack x)" "SendReply (socket_error y)" s] assms by auto

lemma replies_ok_route:
  assumes "route_step S s = Some (a, s')" and "replies_ok tr s"
  shows "replies_ok (tr @ [a]) s'"
proof (cases "wk_phase s")
  case (SendReply j)
  with assms show ?thesis
    by (auto simp: route_step_def replies_ok_def leaving_def stops_query_def)
next
  case (StopQuery q)
  with assms(1) show ?thesis
    by (intro replies_ok_answering [OF assms(2)])
       (auto simp: route_step_def leaving_def split: option.splits intro: raises_answering)
next
  case (FindSession i)
  with assms(1) ask_session_phase [of S i s] show ?thesis
    by (intro replies_ok_answering [OF assms(2)]) (auto simp: route_step_def leaving_def)
next
  case (SendInterrupt i)
  with assms(1) show ?thesis
    by (intro replies_ok_answering [OF assms(2)]) (auto simp: route_step_def leaving_def intro: answering_calls)
next
  case (SendAnswer i x)
  with assms(1) show ?thesis
    by (intro replies_ok_answering [OF assms(2)]) (auto simp: route_step_def leaving_def intro: answering_calls)
next
  case (SendMode i x)
  with assms(1) show ?thesis
    by (intro replies_ok_answering [OF assms(2)]) (auto simp: route_step_def leaving_def intro: answering_calls)
next
  case ReportFailure
  then have "\<not> leaving s" by (simp add: leaving_def)
  with ReportFailure assms show ?thesis
    by (auto simp: route_step_def replies_ok_def stops_query_def)
next
  case (Leave x)
  with assms(1) show ?thesis
    by (intro replies_ok_same [OF assms(2)]) (auto simp: route_step_def leaving_def split: if_splits)
next
  case (AwaitQuery x)
  with assms(1) show ?thesis
    by (intro replies_ok_same [OF assms(2)]) (auto simp: route_step_def leaving_def split: option.splits)
qed (use assms(1) in \<open>simp_all add: route_step_def\<close>)

lemma stream_step_silent:
  assumes "stream_step S n s = Some (a, s')"
  shows "reply_of a = [] \<and> frame_of a = [] \<and> wk_phase s' = wk_phase s \<and> wk_number s' = wk_number s"
proof -
  have "reply_of a = [] \<and> frame_of a = [] \<and> wk_phase s' = wk_phase s \<and> wk_number s' = wk_number s"
    if "next_event S m n q s = (a, s')" for m q
    using that by (auto simp: next_event_def split: prod.splits sum.splits option.splits)
  with assms show ?thesis
    by (auto simp: stream_step_def split: option.splits prod.splits query_task.splits)
qed

lemma replies_ok_step:
  assumes "socket_step S s a s'" and "replies_ok tr s"
  shows "replies_ok (tr @ [a]) s'"
  using assms(1)
proof cases
  case route
  then show ?thesis by (rule replies_ok_route [OF _ assms(2)])
next
  case stream
  from stream_step_silent [OF stream(1)] show ?thesis by (intro replies_ok_same [OF assms(2)]) auto
next
  case (message frame)
  with replies_ok_received [OF assms(2) message(3) received_outcome] show ?thesis by simp
next
  case leaves
  with assms(2) have "internal_error \<notin> set (replies tr)" "length (frames tr) = length (replies tr)"
    by (auto simp: replies_ok_def leaving_def split: if_splits)
  with leaves show ?thesis by (auto simp: replies_ok_def dest: in_set_butlastD)
next
  case (reply_fails j e)
  with raises_leaving [of e s] show ?thesis
    by (intro replies_ok_answering [OF assms(2)]) (auto simp: leaving_def)
next
  case (report_fails e)
  then show ?thesis
    by (intro replies_ok_answering [OF assms(2)]) (auto simp: leaving_def)
qed (auto intro: replies_ok_same [OF assms(2)])


section \<open>Progress\<close>

fun waiting :: "socket_phase \<Rightarrow> bool" where
  "waiting (StopQuery q) \<longleftrightarrow> True"
| "waiting (AwaitQuery x) \<longleftrightarrow> True"
| "waiting _ \<longleftrightarrow> False"

definition waits_for_query :: "'w socket_state \<Rightarrow> bool" where
  "waits_for_query s \<longleftrightarrow> (waiting (wk_phase s) \<longrightarrow> wk_number s > 0)"

lemma not_waiting: "\<not> waiting (wk_phase s) \<Longrightarrow> waits_for_query s"
  by (simp add: waits_for_query_def)

lemma raises_not_waiting [simp]: "\<not> waiting (wk_phase (route_raises e s))"
  using raises_leaving [of e s] by auto

lemma calls_not_waiting [simp]:
  "\<not> waiting (wk_phase (ask m (SendReply x) (SendReply y) s))" "\<not> waiting (wk_phase (ask_session S i s))"
  using ask_phase [of m "SendReply x" "SendReply y" s] ask_session_phase [of S i s] by auto

lemma answering_not_waiting: "answering p \<Longrightarrow> \<not> waiting p"
  by (cases p) auto

lemma still_running: "\<not> query_done s \<Longrightarrow> wk_number s > 0"
  by (auto simp: query_done_def wk_query_def wk_number_def)

lemma waits_for_query_step:
  assumes "socket_step S s a s'" and "waits_for_query s"
  shows "waits_for_query s'"
  using assms(1)
proof cases
  case route
  then show ?thesis
    by (cases "wk_phase s")
       (auto simp: route_step_def split: option.splits if_splits
          intro: not_waiting simp: waits_for_query_def [of "at_phase p (cancel_query s)" for p] still_running)
next
  case stream
  from stream_step_silent [OF stream(1)] assms(2) show ?thesis by (simp add: waits_for_query_def)
next
  case (message frame)
  from received_outcome [of s S frame] consider
      "\<not> waiting (wk_phase (received S frame s))" | "query_cancelled s (received S frame s)" "\<not> query_done s"
    by (auto simp: taken_up_def dest: answering_not_waiting)
  then show ?thesis
    by cases (auto simp: message waits_for_query_def query_cancelled_def still_running dest!: same_queries)
next
  case (reply_fails j e)
  then show ?thesis by (simp add: not_waiting)
qed (use assms(2) in \<open>auto simp: waits_for_query_def\<close>)

text \<open>
  C25: A WebSocket connection does not get stuck: unless it waits for a message or is
  closed, its route or one of the query tasks it started has a step to make, also while a
  prompt or the end of the connection waits for a query to stop.
\<close>

theorem socket_never_stuck:
  assumes "socket_run S (connected w) tr s"
  shows "wk_phase s = AwaitMessage \<or> (\<exists>x. wk_phase s = SocketClosed x) \<or>
    route_step S s \<noteq> None \<or> (\<exists>n. stream_step S n s \<noteq> None)"
proof -
  have "waits_for_query s"
    using assms
  proof (induction rule: socket_run.induct)
    case none
    show ?case by (simp add: connected_def waits_for_query_def)
  next
    case (step tr s' a s'')
    with waits_for_query_step show ?case by blast
  qed
  moreover have "route_step S s \<noteq> None \<or> stream_step S (wk_number s) s \<noteq> None"
    if "wk_number s > 0" and "waiting (wk_phase s)"
  proof -
    from that(1) obtain q t where "wk_query s = Some (q, t)" "task_at s (wk_number s) = Some (q, t)"
      by (cases "last (wk_queries s)") (auto simp: wk_query_def wk_number_def task_at_def last_conv_nth Suc_le_eq)
    with that(2) show ?thesis
      by (cases "wk_phase s") (auto simp: route_step_def stream_step_def task_end_def split: option.split query_task.split)
  qed
  ultimately show ?thesis
    by (cases "wk_phase s") (auto simp: waits_for_query_def route_step_def)
qed

section \<open>A query that nobody can interrupt\<close>

text \<open>A prompt without a session leaves the connection without one, so an interrupt must name it.\<close>

lemma own_query_not_interrupted:
  assumes "qr_session_id q = None" and "get_value d ''session_id'' = JNull"
  shows "handle_interrupt_message d (begin_query q s) =
    at_phase (SendReply (socket_error ''No active session to interrupt'')) (begin_query q s)"
  using assms by (simp add: handle_interrupt_message_def session_or_current_def get_or_def begin_query_def)

text \<open>Answers and changes of the mode reach the agent service without a look at the session's owner.\<close>

lemma answer_unchecked:
  assumes "truthy (get_value d ''answer'')" and "truthy (get_value d ''session_id'')"
  shows "wk_phase (handle_answer_message d s) = SendAnswer (get_value d ''session_id'') (get_value d ''answer'')"
  using assms by (simp add: handle_answer_message_def session_or_current_def get_or_def)

section \<open>A concrete connection\<close>

definition ref_socket :: "unit socket_services" where
  "ref_socket =
     \<lparr>wv_lib = ref_lib, wv_net = \<lparr>url_hostname = (\<lambda>u. Inr (Some u)), ip_internal = (\<lambda>h. None)\<rparr>,
      wv_parse = (\<lambda>d. Inr (plain_request ''hi'')), wv_next = (\<lambda>n q. ret (Some \<lparr>ev_event = ''message'', ev_data = ''x''\<rparr>)),
      wv_unwind = (\<lambda>n q. throw CancelledError), wv_session = (\<lambda>i. ret True), wv_interrupt = (\<lambda>i. ret True),
      wv_answer = (\<lambda>i a. ret True), wv_mode = (\<lambda>i m. ret True)\<rparr>"

definition ref_event :: json where
  "ref_event = socket_event ref_lib \<lparr>ev_event = ''message'', ev_data = ''x''\<rparr>"

definition ref_frame :: string where
  "ref_frame = enc (JObj [(''type'', JStr ''prompt''), (''prompt'', JStr ''hi'')])"

text \<open>A prompt whose first event is sent before the client leaves.\<close>

definition ref_trace :: "socket_action list" where
  "ref_trace =
     [Received (Some ref_frame), Replied (socket_ack ''Query started''), Quiet,
      Yielded 1 \<lparr>ev_event = ''message'', ev_data = ''x''\<rparr>, EventSent 1 ref_event, Quiet, Quiet, Quiet, Quiet]"

definition ref_connection :: "unit socket_state" where
  "ref_connection =
     \<lparr>wk_world = (), wk_phase = SocketClosed None,
      wk_queries = [(plain_request ''hi'', TaskDone (Some CancelledError))], wk_current = None\<rparr>"

definition ref_at :: "socket_phase \<Rightarrow> query_task \<Rightarrow> unit socket_state" where
  "ref_at p t = \<lparr>wk_world = (), wk_phase = p, wk_queries = [(plain_request ''hi'', t)], wk_current = None\<rparr>"

lemma ref_at_sel [simp]:
  "wk_phase (ref_at p t) = p" "wk_query (ref_at p t) = Some (plain_request ''hi'', t)" "wk_number (ref_at p t) = 1"
  "at_phase p' (ref_at p t) = ref_at p' t" "at_task (Suc 0) (plain_request ''hi'') t' (ref_at p t) = ref_at p t'"
  "task_at (ref_at p t) (Suc 0) = Some (plain_request ''hi'', t)" "cancel_query (ref_at p t) = ref_at p (cancel_task t)"
  by (simp_all add: ref_at_def at_phase_def at_task_def wk_query_def wk_number_def task_at_def cancel_query_def)

lemma ref_received: "received ref_socket (Some ref_frame) (connected ()) = ref_at (SendReply (socket_ack ''Query started'')) Created"
proof -
  have "check_query_request (wv_net ref_socket) (plain_request ''hi'') = Inr (plain_request ''hi'')"
    by (simp add: check_query_request_def plain_request_def check_field_bounds_def check_nested_def validate_model_name_def
        validate_no_tool_conflicts_def validate_tool_names_def validate_cwd_security_def permission_modes_def
        validate_add_dirs_security_def validate_env_security_def opt_list_def)
  then have "prompt_request ref_socket d = Inr (plain_request ''hi'')" for d
    by (simp add: prompt_request_def ref_socket_def)
  moreover have "json_loads (wv_lib ref_socket) ref_frame = Some (JObj [(''type'', JStr ''prompt''), (''prompt'', JStr ''hi'')])"
    unfolding ref_frame_def by (simp only: ref_socket_def socket_services.simps ref_lib_loads ref_loads_enc)
  moreover have "qr_session_id (plain_request ''hi'') = None"
    by (simp add: plain_request_def)
  ultimately show ?thesis
    by (simp add: received_def process_message_def get_value_def dict_get_or_def dict_item_def
        handle_prompt_message_def begin_query_def connected_def ref_at_def query_done_def wk_query_def)
qed

lemma ref_connection_run: "socket_run ref_socket (connected ()) ref_trace ref_connection"
proof -
  have s1: "socket_step ref_socket (connected ()) (Received (Some ref_frame))
      (ref_at (SendReply (socket_ack ''Query started'')) Created)"
    unfolding ref_received [symmetric] by (rule socket_step.message) (simp add: connected_def)
  have s2: "socket_step ref_socket (ref_at (SendReply (socket_ack ''Query started'')) Created)
      (Replied (socket_ack ''Query started'')) (ref_at AwaitMessage Created)"
    by (rule socket_step.route) (simp add: route_step_def)
  have s3: "socket_step ref_socket (ref_at AwaitMessage Created) Quiet (ref_at AwaitMessage NextEvent)"
    by (rule socket_step.stream [where n = 1]) (simp add: stream_step_def)
  have s4: "socket_step ref_socket (ref_at AwaitMessage NextEvent) (Yielded 1 \<lparr>ev_event = ''message'', ev_data = ''x''\<rparr>)
      (ref_at AwaitMessage (SendEvent ref_event))"
    by (rule socket_step.stream [where n = 1])
       (simp add: stream_step_def next_event_def ref_socket_def ref_event_def, simp add: ref_at_def at_task_def)
  have s5: "socket_step ref_socket (ref_at AwaitMessage (SendEvent ref_event)) (EventSent 1 ref_event)
      (ref_at AwaitMessage NextEvent)"
    by (rule socket_step.stream [where n = 1]) (simp add: stream_step_def)
  have s6: "socket_step ref_socket (ref_at AwaitMessage NextEvent) Quiet (ref_at (Leave None) NextEvent)"
    using socket_step.leaves [of "ref_at AwaitMessage NextEvent" ref_socket] by simp
  have s7: "socket_step ref_socket (ref_at (Leave None) NextEvent) Quiet (ref_at (AwaitQuery None) Unwinding)"
    by (rule socket_step.route) (simp add: route_step_def query_done_def)
  have s8: "socket_step ref_socket (ref_at (AwaitQuery None) Unwinding) Quiet
      (ref_at (AwaitQuery None) (TaskDone (Some CancelledError)))"
    by (rule socket_step.stream [where n = 1])
       (simp add: stream_step_def next_event_def ref_socket_def stream_raises_def, simp add: ref_at_def at_task_def)
  have s9: "socket_step ref_socket (ref_at (AwaitQuery None) (TaskDone (Some CancelledError))) Quiet ref_connection"
    by (rule socket_step.route)
       (simp add: route_step_def task_end_def, simp add: ref_at_def ref_connection_def)
  have "socket_run ref_socket (connected ()) [] (connected ())"
    by (rule socket_run.none)
  from socket_run.step [OF socket_run.step [OF socket_run.step [OF socket_run.step [OF socket_run.step [OF socket_run.step [OF socket_run.step [OF socket_run.step [OF socket_run.step [OF this s1] s2] s3] s4] s5] s6] s7] s8] s9]
  show ?thesis by (simp add: ref_trace_def)
qed

lemma socket_queries_in_order_witness:
  "messages 1 ref_trace = [ref_event] \<and> list_all task_over (wk_queries ref_connection) \<and> sorted (query_numbers ref_trace)"
  using socket_queries_in_order [OF ref_connection_run, of 1 None]
  by (simp add: ref_connection_def ref_trace_def messages_def)


lemma socket_never_stuck_witness: "\<exists>x. wk_phase ref_connection = SocketClosed x"
  using socket_never_stuck [OF ref_connection_run]
  by (auto simp: ref_connection_def route_step_def stream_step_def)

end
