(* ===== verification/SessionTable.thy ===== *)
theory SessionTable
  imports SessionService "HOL-Library.Multiset"
begin

text \<open>
  \<open>SessionRepository\<close>, \<open>adapters/session_repo.py\<close>: the statements it hands to the database for
  sessions, their messages and checkpoints (\<open>models/session.py\<close>).

  The database behind SQLAlchemy is a parameter, the record \<open>database\<close> of the statements the
  repository executes; \<open>sql_laws\<close> states what it relies on of each, over a view of the three
  tables. A statement that writes includes its \<open>commit\<close>; one that raises leaves no trace.
\<close>

section \<open>Rows and conditions\<close>

record message_row =
  mr_id :: uuid
  mr_session_id :: uuid
  mr_message_type :: string
  mr_content :: "json dict"
  mr_created_at :: datetime

record checkpoint_row =
  cr_id :: uuid
  cr_session_id :: uuid
  cr_user_message_uuid :: string
  cr_created_at :: datetime
  cr_files_modified :: "string list"

text \<open>What \<open>Session(...)\<close> is constructed from.\<close>

record new_session =
  ns_id :: uuid
  ns_model :: string
  ns_working_directory :: "string option"
  ns_parent_session_id :: "uuid option"
  ns_session_metadata :: "json dict option"
  ns_owner_api_key_hash :: "string option"

text \<open>The values of an \<open>UPDATE\<close>; what is \<open>None\<close> is not among them.\<close>

record session_values =
  va_updated_at :: datetime
  va_status :: "string option"
  va_total_turns :: "int option"
  va_total_cost_usd :: "pyfloat option"
  va_session_metadata :: "json dict option"

text \<open>The conditions of a \<open>WHERE\<close>.\<close>

datatype condition =
    IdIs uuid
  | StatusIs string
  | OwnerIs string
  | PublicOrOwner string
  | FieldIs string string \<comment> \<open>\<open>session_metadata[k].astext == v\<close>\<close>
  | TagsContain "string list" \<comment> \<open>\<open>session_metadata["tags"] @> tags\<close>\<close>
  | TitleLike string \<comment> \<open>\<open>session_metadata["title"].astext.ilike(pattern)\<close>\<close>

record 'd database =
  dq_now :: "('d, datetime) io"
  dq_insert_session :: "new_session \<Rightarrow> ('d, unit) io"
  dq_refresh_session :: "uuid \<Rightarrow> ('d, session_row) io"
  dq_select :: "condition list \<Rightarrow> ('d, session_row list) io"
  dq_count :: "condition list \<Rightarrow> ('d, int) io"
  dq_page :: "condition list \<Rightarrow> int \<Rightarrow> int \<Rightarrow> ('d, session_row list) io" \<comment> \<open>newest first, limit, offset\<close>
  dq_update :: "uuid \<Rightarrow> session_values \<Rightarrow> ('d, session_row list) io"
  dq_delete_session :: "uuid \<Rightarrow> ('d, unit) io"
  dq_insert_message :: "uuid \<Rightarrow> string \<Rightarrow> json dict \<Rightarrow> ('d, message_row) io"
  dq_messages :: "uuid \<Rightarrow> int option \<Rightarrow> ('d, message_row list) io"
  dq_insert_checkpoint :: "uuid \<Rightarrow> string \<Rightarrow> string list \<Rightarrow> ('d, checkpoint_row) io"
  dq_checkpoints :: "uuid \<Rightarrow> ('d, checkpoint_row list) io"
  dq_checkpoints_by_uuid :: "string \<Rightarrow> ('d, checkpoint_row list) io"
  dq_rollback :: "('d, unit) io"

definition scalar_one_or_none :: "'a list \<Rightarrow> exn + 'a option" where
  "scalar_one_or_none xs =
     (case xs of [] \<Rightarrow> Inr None | [x] \<Rightarrow> Inr (Some x) | _ \<Rightarrow> Inl (OtherException ''MultipleResultsFound''))"

section \<open>Sessions\<close>

definition repo_create ::
  "pylib \<Rightarrow> 'd database \<Rightarrow> uuid \<Rightarrow> string \<Rightarrow> string option \<Rightarrow> uuid option \<Rightarrow> json dict option \<Rightarrow> string option \<Rightarrow>
     ('d, session_row) io" where
  "repo_create L D session_id model working_directory parent_session_id metadata owner_api_key =
     and_then (dq_insert_session D
       \<lparr>ns_id = session_id, ns_model = model, ns_working_directory = working_directory,
        ns_parent_session_id = parent_session_id, ns_session_metadata = metadata,
        ns_owner_api_key_hash = hash_of_owner L owner_api_key\<rparr>) (\<lambda>_.
     dq_refresh_session D session_id)"

definition repo_get :: "'d database \<Rightarrow> uuid \<Rightarrow> ('d, session_row option) io" where
  "repo_get D session_id = and_then (dq_select D [IdIs session_id]) (\<lambda>rows. lift_sum (scalar_one_or_none rows))"

definition update_values :: "datetime \<Rightarrow> string option \<Rightarrow> int option \<Rightarrow> pyfloat option \<Rightarrow> session_values" where
  "update_values now status total_turns total_cost_usd =
     \<lparr>va_updated_at = now, va_status = status, va_total_turns = total_turns, va_total_cost_usd = total_cost_usd,
      va_session_metadata = None\<rparr>"

definition repo_update ::
  "'d database \<Rightarrow> uuid \<Rightarrow> string option \<Rightarrow> int option \<Rightarrow> pyfloat option \<Rightarrow> ('d, session_row option) io" where
  "repo_update D session_id status total_turns total_cost_usd =
     and_then (dq_now D) (\<lambda>now.
     and_then (dq_update D session_id (update_values now status total_turns total_cost_usd)) (\<lambda>rows.
     lift_sum (scalar_one_or_none rows)))"

definition repo_update_metadata :: "'d database \<Rightarrow> uuid \<Rightarrow> json dict \<Rightarrow> ('d, session_row option) io" where
  "repo_update_metadata D session_id metadata =
     and_then (dq_now D) (\<lambda>now.
     and_then (dq_update D session_id
       \<lparr>va_updated_at = now, va_status = None, va_total_turns = None, va_total_cost_usd = None,
        va_session_metadata = Some metadata\<rparr>) (\<lambda>rows.
     lift_sum (scalar_one_or_none rows)))"

text \<open>\<open>if x:\<close> adds a condition.\<close>

definition where_given :: "string option \<Rightarrow> (string \<Rightarrow> condition) \<Rightarrow> condition list" where
  "where_given x c = (if given x then [c (the x)] else [])"

definition list_conditions ::
  "pylib \<Rightarrow> string option \<Rightarrow> string option \<Rightarrow> bool \<Rightarrow> string option \<Rightarrow> string option \<Rightarrow> string list option \<Rightarrow>
     string option \<Rightarrow> condition list" where
  "list_conditions L status owner_api_key filter_by_owner_or_public mode project_id tags search =
     where_given status StatusIs @
     where_given owner_api_key (\<lambda>k.
       if filter_by_owner_or_public then PublicOrOwner (hash_api_key L k) else OwnerIs (hash_api_key L k)) @
     where_given mode (FieldIs ''mode'') @
     where_given project_id (FieldIs ''project_id'') @
     (case tags of None \<Rightarrow> [] | Some ts \<Rightarrow> if ts = [] then [] else [TagsContain ts]) @
     where_given search (\<lambda>s. TitleLike (''%'' @ s @ ''%''))"

definition repo_list_sessions ::
  "pylib \<Rightarrow> 'd database \<Rightarrow> string option \<Rightarrow> string option \<Rightarrow> int \<Rightarrow> int \<Rightarrow> bool \<Rightarrow> string option \<Rightarrow> string option \<Rightarrow>
     string list option \<Rightarrow> string option \<Rightarrow> ('d, session_row list \<times> int) io" where
  "repo_list_sessions L D status owner_api_key limit offset filter_by_owner_or_public mode project_id tags search =
     (let conditions = list_conditions L status owner_api_key filter_by_owner_or_public mode project_id tags search in
      and_then (dq_count D conditions) (\<lambda>total.
      and_then (dq_page D conditions limit offset) (\<lambda>sessions.
      ret (sessions, total))))"

definition repo_delete_session :: "'d database \<Rightarrow> uuid \<Rightarrow> ('d, bool) io" where
  "repo_delete_session D session_id =
     and_then (repo_get D session_id) (\<lambda>s.
       if s = None then ret False else and_then (dq_delete_session D session_id) (\<lambda>_. ret True))"

section \<open>Messages and checkpoints\<close>

text \<open>The handlers of \<open>add_message\<close> and \<open>add_checkpoint\<close>.\<close>

definition add_errors :: "'d database \<Rightarrow> string \<Rightarrow> string \<Rightarrow> exn \<Rightarrow> ('d, 'a) io" where
  "add_errors D violated failed e =
     (case e of
        IntegrityError _ \<Rightarrow> and_then (dq_rollback D) (\<lambda>_. throw (APIError violated ''ALREADY_EXISTS'' 409))
      | OperationalError _ \<Rightarrow>
          and_then (dq_rollback D) (\<lambda>_. throw (APIError ''Database temporarily unavailable'' ''DATABASE_UNAVAILABLE'' 503))
      | SessionNotFoundError _ \<Rightarrow> throw e
      | _ \<Rightarrow>
          if is_exception e then and_then (dq_rollback D) (\<lambda>_. throw (APIError failed ''INTERNAL_ERROR'' 500))
          else throw e)"

definition add_for_session :: "'d database \<Rightarrow> uuid \<Rightarrow> ('d, 'a) io \<Rightarrow> ('d, 'a) io" where
  "add_for_session D session_id statement =
     and_then (repo_get D session_id) (\<lambda>s. if s = None then throw (SessionNotFoundError session_id) else statement)"

definition add_message :: "'d database \<Rightarrow> uuid \<Rightarrow> string \<Rightarrow> json dict \<Rightarrow> ('d, message_row) io" where
  "add_message D session_id message_type content =
     try_except (add_for_session D session_id (dq_insert_message D session_id message_type content))
       (add_errors D ''Message already exists or violates constraints'' ''Failed to add message'')"

definition get_messages :: "'d database \<Rightarrow> uuid \<Rightarrow> int option \<Rightarrow> ('d, message_row list) io" where
  "get_messages D session_id limit = dq_messages D session_id limit"

definition add_checkpoint :: "'d database \<Rightarrow> uuid \<Rightarrow> string \<Rightarrow> string list \<Rightarrow> ('d, checkpoint_row) io" where
  "add_checkpoint D session_id user_message_uuid files_modified =
     try_except (add_for_session D session_id (dq_insert_checkpoint D session_id user_message_uuid files_modified))
       (add_errors D ''Checkpoint already exists or violates constraints'' ''Failed to add checkpoint'')"

definition get_checkpoints :: "'d database \<Rightarrow> uuid \<Rightarrow> ('d, checkpoint_row list) io" where
  "get_checkpoints D session_id = dq_checkpoints D session_id"

definition get_checkpoint_by_uuid :: "'d database \<Rightarrow> string \<Rightarrow> ('d, checkpoint_row option) io" where
  "get_checkpoint_by_uuid D user_message_uuid =
     and_then (dq_checkpoints_by_uuid D user_message_uuid) (\<lambda>rows. lift_sum (scalar_one_or_none rows))"

text \<open>The repository as the session service uses it.\<close>

definition session_repository :: "pylib \<Rightarrow> 'd database \<Rightarrow> 'd session_repo" where
  "session_repository L D =
     \<lparr>sr_create = (\<lambda>i model parent owner. repo_create L D i model None parent None owner),
      sr_get = repo_get D, sr_update = repo_update D,
      sr_list_sessions = (\<lambda>owner limit offset. repo_list_sessions L D None owner limit offset False),
      sr_update_metadata = repo_update_metadata D, sr_delete_session = repo_delete_session D\<rparr>"

section \<open>What the database promises\<close>

text \<open>
  \<open>LIKE\<close>: \<open>%\<close> stands for any text, \<open>_\<close> for any character, a backslash takes the next character
  literally.
\<close>

fun like :: "string \<Rightarrow> string \<Rightarrow> bool" where
  "like [] s = (s = [])"
| "like (p # ps) [] = (p = CHR ''%'' \<and> like ps [])"
| "like (p # ps) (c # cs) =
     (if p = CHR ''%'' then like ps (c # cs) \<or> like (p # ps) cs
      else if p = CHR ''_'' then like ps cs
      else if p = CHR 0x5C then (case ps of [] \<Rightarrow> False | q # qs \<Rightarrow> q = c \<and> like qs cs)
      else p = c \<and> like ps cs)"

text \<open>\<open>session_metadata ->> k\<close>, where \<open>text\<close> writes values that are no strings.\<close>

definition astext :: "(json \<Rightarrow> string) \<Rightarrow> json dict option \<Rightarrow> string \<Rightarrow> string option" where
  "astext to_text m k =
     (case m of
        None \<Rightarrow> None
      | Some d \<Rightarrow> (case dict_get d k of None \<Rightarrow> None | Some JNull \<Rightarrow> None | Some (JStr s) \<Rightarrow> Some s | Some v \<Rightarrow> Some (to_text v)))"

definition tags_contain :: "json dict option \<Rightarrow> string list \<Rightarrow> bool" where
  "tags_contain m ts =
     (case m of
        None \<Rightarrow> False
      | Some d \<Rightarrow> (case dict_get d ''tags'' of Some (JArr xs) \<Rightarrow> list_all (\<lambda>t. JStr t \<in> set xs) ts | _ \<Rightarrow> False))"

fun holds :: "(json \<Rightarrow> string) \<Rightarrow> condition \<Rightarrow> session_row \<Rightarrow> bool" where
  "holds to_text (IdIs i) r \<longleftrightarrow> row_id r = i"
| "holds to_text (StatusIs s) r \<longleftrightarrow> row_status r = s"
| "holds to_text (OwnerIs h) r \<longleftrightarrow> row_owner_api_key_hash r = Some h"
| "holds to_text (PublicOrOwner h) r \<longleftrightarrow> row_owner_api_key_hash r = None \<or> row_owner_api_key_hash r = Some h"
| "holds to_text (FieldIs k v) r \<longleftrightarrow> astext to_text (row_session_metadata r) k = Some v"
| "holds to_text (TagsContain ts) r \<longleftrightarrow> tags_contain (row_session_metadata r) ts"
| "holds to_text (TitleLike p) r \<longleftrightarrow>
     (case astext to_text (row_session_metadata r) ''title'' of None \<Rightarrow> False | Some t \<Rightarrow> like (lower p) (lower t))"

definition selected :: "(json \<Rightarrow> string) \<Rightarrow> condition list \<Rightarrow> session_row list \<Rightarrow> session_row list" where
  "selected to_text cs = filter (\<lambda>r. list_all (\<lambda>c. holds to_text c r) cs)"

text \<open>The row an \<open>INSERT\<close> leaves, and what an \<open>UPDATE\<close> makes of one.\<close>

definition inserted_row :: "new_session \<Rightarrow> datetime \<Rightarrow> session_row" where
  "inserted_row n now =
     \<lparr>row_id = ns_id n, row_created_at = now, row_updated_at = now, row_status = ''active'', row_model = ns_model n,
      row_working_directory = ns_working_directory n, row_total_turns = 0, row_total_cost_usd = None,
      row_owner_api_key_hash = ns_owner_api_key_hash n, row_parent_session_id = ns_parent_session_id n,
      row_session_metadata = ns_session_metadata n\<rparr>"

definition with_values :: "(pyfloat \<Rightarrow> pyfloat) \<Rightarrow> session_values \<Rightarrow> session_row \<Rightarrow> session_row" where
  "with_values numeric v r =
     r\<lparr>row_updated_at := va_updated_at v,
       row_status := (case va_status v of None \<Rightarrow> row_status r | Some s \<Rightarrow> s),
       row_total_turns := (case va_total_turns v of None \<Rightarrow> row_total_turns r | Some n \<Rightarrow> n),
       row_total_cost_usd := (case va_total_cost_usd v of None \<Rightarrow> row_total_cost_usd r | Some c \<Rightarrow> Some (numeric c)),
       row_session_metadata := (case va_session_metadata v of None \<Rightarrow> row_session_metadata r | Some m \<Rightarrow> Some m)\<rparr>"

record tables =
  tb_sessions :: "session_row list"
  tb_messages :: "message_row list"
  tb_checkpoints :: "checkpoint_row list"

text \<open>
  \<open>view\<close> are the tables in a state of the database, \<open>numeric\<close> is the conversion to
  \<open>Numeric(10, 6)\<close>. Rows without an order, or equal in it, come in any order.
\<close>

locale sql_laws =
  fixes D :: "'d database"
    and view :: "'d \<Rightarrow> tables"
    and numeric :: "pyfloat \<Rightarrow> pyfloat"
    and to_text :: "json \<Rightarrow> string"
  assumes now: "dq_now D d = (rt, d') \<Longrightarrow> view d' = view d"
    and insert_session: "dq_insert_session D n d = (ru, d') \<Longrightarrow>
      (case ru of
         Inl e \<Rightarrow> view d' = view d
       | Inr u \<Rightarrow> ns_id n \<notin> row_id ` set (tb_sessions (view d)) \<and>
           (\<forall>p. ns_parent_session_id n = Some p \<longrightarrow> p \<in> insert (ns_id n) (row_id ` set (tb_sessions (view d)))) \<and>
           (\<exists>t. view d' = (view d)\<lparr>tb_sessions := tb_sessions (view d) @ [inserted_row n t]\<rparr>))"
    and refresh_session: "dq_refresh_session D i d = (rr, d') \<Longrightarrow>
      view d' = view d \<and> (\<forall>x. rr = Inr x \<longrightarrow> x \<in> set (tb_sessions (view d)) \<and> row_id x = i)"
    and select: "dq_select D cs d = (rs, d') \<Longrightarrow>
      view d' = view d \<and> (\<forall>xs. rs = Inr xs \<longrightarrow> mset xs = mset (selected to_text cs (tb_sessions (view d))))"
    and count: "dq_count D cs d = (rn, d') \<Longrightarrow>
      view d' = view d \<and> (\<forall>n. rn = Inr n \<longrightarrow> n = int (length (selected to_text cs (tb_sessions (view d)))))"
    and page: "dq_page D cs limit offset d = (rs, d') \<Longrightarrow>
      view d' = view d \<and>
      (\<forall>xs. rs = Inr xs \<longrightarrow> 0 \<le> limit \<and> 0 \<le> offset \<and>
         (\<exists>ys. mset ys = mset (selected to_text cs (tb_sessions (view d))) \<and>
            sorted_wrt (\<lambda>a b. row_created_at b \<le> row_created_at a) ys \<and> xs = take (nat limit) (drop (nat offset) ys)))"
    and update: "dq_update D i v d = (rs, d') \<Longrightarrow>
      (case rs of
         Inl e \<Rightarrow> view d' = view d
       | Inr xs \<Rightarrow>
           mset xs = mset (map (with_values numeric v) (filter (\<lambda>x. row_id x = i) (tb_sessions (view d)))) \<and>
           view d' = (view d)\<lparr>tb_sessions :=
             map (\<lambda>x. if row_id x = i then with_values numeric v x else x) (tb_sessions (view d))\<rparr>)"
    and delete_session: "dq_delete_session D i d = (ru, d') \<Longrightarrow>
      (case ru of
         Inl e \<Rightarrow> view d' = view d
       | Inr u \<Rightarrow> (\<forall>x\<in>set (tb_sessions (view d)). row_parent_session_id x = Some i \<longrightarrow> row_id x = i) \<and>
           view d' =
             \<lparr>tb_sessions = filter (\<lambda>x. row_id x \<noteq> i) (tb_sessions (view d)),
              tb_messages = filter (\<lambda>x. mr_session_id x \<noteq> i) (tb_messages (view d)),
              tb_checkpoints = filter (\<lambda>x. cr_session_id x \<noteq> i) (tb_checkpoints (view d))\<rparr>)"
    and insert_message: "dq_insert_message D i t c d = (rm, d') \<Longrightarrow>
      (case rm of
         Inl e \<Rightarrow> view d' = view d
       | Inr x \<Rightarrow> i \<in> row_id ` set (tb_sessions (view d)) \<and> mr_session_id x = i \<and> mr_message_type x = t \<and>
           mr_content x = c \<and> view d' = (view d)\<lparr>tb_messages := tb_messages (view d) @ [x]\<rparr>)"
    and messages: "dq_messages D i most d = (rms, d') \<Longrightarrow>
      view d' = view d \<and>
      (\<forall>xs. rms = Inr xs \<longrightarrow>
         (\<exists>ys. mset ys = mset (filter (\<lambda>x. mr_session_id x = i) (tb_messages (view d))) \<and>
            sorted_wrt (\<lambda>a b. mr_created_at a \<le> mr_created_at b) ys \<and>
            xs = (case most of None \<Rightarrow> ys | Some k \<Rightarrow> take (nat k) ys)))"
    and insert_checkpoint: "dq_insert_checkpoint D i u fs d = (rk, d') \<Longrightarrow>
      (case rk of
         Inl e \<Rightarrow> view d' = view d
       | Inr x \<Rightarrow> i \<in> row_id ` set (tb_sessions (view d)) \<and> cr_session_id x = i \<and> cr_user_message_uuid x = u \<and>
           cr_files_modified x = fs \<and> u \<notin> cr_user_message_uuid ` set (tb_checkpoints (view d)) \<and>
           view d' = (view d)\<lparr>tb_checkpoints := tb_checkpoints (view d) @ [x]\<rparr>)"
    and checkpoints: "dq_checkpoints D i d = (rks, d') \<Longrightarrow>
      view d' = view d \<and>
      (\<forall>xs. rks = Inr xs \<longrightarrow> mset xs = mset (filter (\<lambda>x. cr_session_id x = i) (tb_checkpoints (view d))) \<and>
         sorted_wrt (\<lambda>a b. cr_created_at a \<le> cr_created_at b) xs)"
    and checkpoints_by_uuid: "dq_checkpoints_by_uuid D u d = (rks, d') \<Longrightarrow>
      view d' = view d \<and>
      (\<forall>xs. rks = Inr xs \<longrightarrow> mset xs = mset (filter (\<lambda>x. cr_user_message_uuid x = u) (tb_checkpoints (view d))))"
    and rollback: "dq_rollback D d = (ru, d') \<Longrightarrow> view d' = view d"

end
