(* ===== verification/SessionTableProperties.thy ===== *)
theory SessionTableProperties
  imports SessionTable SessionListing
begin

text \<open>
  What the session repository guarantees over any database that keeps its promises, and what the
  session service guarantees over the repository.
\<close>

section \<open>The tables as maps\<close>

text \<open>Keys are unique and references point at rows.\<close>

definition consistent :: "tables \<Rightarrow> bool" where
  "consistent T \<longleftrightarrow>
     distinct (map row_id (tb_sessions T)) \<and>
     (\<forall>r\<in>set (tb_sessions T). \<forall>p. row_parent_session_id r = Some p \<longrightarrow> p \<in> row_id ` set (tb_sessions T)) \<and>
     (\<forall>m\<in>set (tb_messages T). mr_session_id m \<in> row_id ` set (tb_sessions T)) \<and>
     (\<forall>c\<in>set (tb_checkpoints T). cr_session_id c \<in> row_id ` set (tb_sessions T)) \<and>
     distinct (map cr_user_message_uuid (tb_checkpoints T))"

definition row_at :: "tables \<Rightarrow> uuid \<Rightarrow> session_row option" where
  "row_at T i = find (\<lambda>r. row_id r = i) (tb_sessions T)"

lemma find_None: "i \<notin> f ` set xs \<Longrightarrow> find (\<lambda>x. f x = i) xs = None"
  by (induction xs) auto

lemma find_append: "find P (xs @ ys) = (case find P xs of None \<Rightarrow> find P ys | Some x \<Rightarrow> Some x)"
  by (induction xs) auto

lemma filter_key:
  assumes "distinct (map f xs)"
  shows "filter (\<lambda>x. f x = i) xs = (case find (\<lambda>x. f x = i) xs of None \<Rightarrow> [] | Some x \<Rightarrow> [x])"
  using assms
proof (induction xs)
  case (Cons x xs)
  show ?case
  proof (cases "f x = i")
    case True
    with Cons.prems have "\<forall>y\<in>set xs. f y \<noteq> i"
      by (metis distinct.simps(2) image_eqI list.simps(9) set_map)
    then have "filter (\<lambda>y. f y = i) xs = []"
      by (simp add: filter_empty_conv)
    with True show ?thesis by simp
  next
    case False
    with Cons show ?thesis by simp
  qed
qed simp

lemma find_map_key:
  "(\<And>x. f (g x) = f x) \<Longrightarrow>
     find (\<lambda>x. f x = j) (map (\<lambda>x. if f x = i then g x else x) xs) =
     (if j = i then map_option g (find (\<lambda>x. f x = i) xs) else find (\<lambda>x. f x = j) xs)"
  by (induction xs) auto

lemma find_filter_key: "find (\<lambda>x. f x = j) (filter (\<lambda>x. f x \<noteq> i) xs) = (if j = i then None else find (\<lambda>x. f x = j) xs)"
  by (induction xs) auto

lemma with_values_id [simp]: "row_id (with_values numeric v r) = row_id r"
  "row_parent_session_id (with_values numeric v r) = row_parent_session_id r"
  by (simp_all add: with_values_def)

lemma inserted_row_sel [simp]:
  "row_id (inserted_row n t) = ns_id n" "row_parent_session_id (inserted_row n t) = ns_parent_session_id n"
  by (simp_all add: inserted_row_def)

lemma mset_one: "mset xs = mset (case r of None \<Rightarrow> [] | Some x \<Rightarrow> [x]) \<longleftrightarrow> xs = (case r of None \<Rightarrow> [] | Some x \<Rightarrow> [x])"
  by (cases r) auto

lemma scalar_of [simp]: "scalar_one_or_none (case r of None \<Rightarrow> [] | Some x \<Rightarrow> [x]) = Inr r"
  by (cases r) (simp_all add: scalar_one_or_none_def)

lemma row_id_some: "row_at T i = Some r \<Longrightarrow> row_id r = i \<and> r \<in> set (tb_sessions T)"
  by (auto simp: row_at_def find_Some_iff)

lemma row_at_None: "row_at T i = None \<longleftrightarrow> i \<notin> row_id ` set (tb_sessions T)"
  by (auto simp: row_at_def find_None_iff)

lemma map_option_case: "map f (case r of None \<Rightarrow> [] | Some x \<Rightarrow> [x]) = (case map_option f r of None \<Rightarrow> [] | Some x \<Rightarrow> [x])"
  by (cases r) simp_all

section \<open>The operations\<close>

context sql_laws
begin

lemma create_outcome:
  assumes "repo_create L D i model wd parent metadata owner d = (r, d')"
  shows "case r of
      Inl e \<Rightarrow> view d' = view d \<or> row_at (view d) i = None \<and> (\<exists>t. let n = \<lparr>ns_id = i, ns_model = model,
          ns_working_directory = wd, ns_parent_session_id = parent, ns_session_metadata = metadata,
          ns_owner_api_key_hash = hash_of_owner L owner\<rparr> in
        (\<forall>p. parent = Some p \<longrightarrow> p \<in> insert i (row_id ` set (tb_sessions (view d)))) \<and>
        view d' = (view d)\<lparr>tb_sessions := tb_sessions (view d) @ [inserted_row n t]\<rparr>)
    | Inr row \<Rightarrow> row_at (view d) i = None \<and> (\<exists>t. let n = \<lparr>ns_id = i, ns_model = model,
          ns_working_directory = wd, ns_parent_session_id = parent, ns_session_metadata = metadata,
          ns_owner_api_key_hash = hash_of_owner L owner\<rparr> in
        (\<forall>p. parent = Some p \<longrightarrow> p \<in> insert i (row_id ` set (tb_sessions (view d)))) \<and> row = inserted_row n t \<and>
        view d' = (view d)\<lparr>tb_sessions := tb_sessions (view d) @ [inserted_row n t]\<rparr>)"
proof -
  let ?n = "\<lparr>ns_id = i, ns_model = model, ns_working_directory = wd, ns_parent_session_id = parent,
    ns_session_metadata = metadata, ns_owner_api_key_hash = hash_of_owner L owner\<rparr>"
  obtain u d1 where ins: "dq_insert_session D ?n d = (u, d1)" by fastforce
  show ?thesis
  proof (cases u)
    case (Inl e)
    with assms ins insert_session [OF ins] show ?thesis by (auto simp: repo_create_def and_then_def)
  next
    case (Inr x)
    with insert_session [OF ins] obtain t where t: "i \<notin> row_id ` set (tb_sessions (view d))"
        "\<forall>p. parent = Some p \<longrightarrow> p \<in> insert i (row_id ` set (tb_sessions (view d)))"
        "view d1 = (view d)\<lparr>tb_sessions := tb_sessions (view d) @ [inserted_row ?n t]\<rparr>"
      by auto
    from assms ins Inr have ref: "dq_refresh_session D i d1 = (r, d')"
      by (simp add: repo_create_def and_then_def)
    from refresh_session [OF ref] t have v: "view d' = view d1"
      and row: "r = Inr row \<Longrightarrow> row = inserted_row ?n t" for row
      by (auto simp: inserted_row_def)
    from t(1) have "row_at (view d) i = None" by (simp add: row_at_None)
    with t v row show ?thesis
      by (cases r) (auto simp: Let_def)
  qed
qed

lemma get_outcome:
  assumes "repo_get D i d = (r, d')" and "consistent (view d)"
  shows "view d' = view d \<and> (\<forall>x. r = Inr x \<longrightarrow> x = row_at (view d) i)"
proof -
  obtain xs d1 where sel: "dq_select D [IdIs i] d = (xs, d1)" by fastforce
  have "selected to_text [IdIs i] (tb_sessions (view d)) = (case row_at (view d) i of None \<Rightarrow> [] | Some x \<Rightarrow> [x])"
    using assms(2) filter_key [of row_id "tb_sessions (view d)" i] by (simp add: selected_def consistent_def row_at_def)
  with select [OF sel] have "view d1 = view d"
    and "xs = Inr ys \<Longrightarrow> ys = (case row_at (view d) i of None \<Rightarrow> [] | Some x \<Rightarrow> [x])" for ys
    by (auto simp: mset_one)
  with assms(1) sel show ?thesis
    by (cases xs) (auto simp: repo_get_def and_then_def)
qed

lemma update_outcome:
  assumes "dq_update D i v d = (Inr xs, d')" and "consistent (view d)"
  shows "scalar_one_or_none xs = Inr (map_option (with_values numeric v) (row_at (view d) i)) \<and>
    view d' = (view d)\<lparr>tb_sessions := map (\<lambda>x. if row_id x = i then with_values numeric v x else x) (tb_sessions (view d))\<rparr>"
proof -
  have "map (with_values numeric v) (filter (\<lambda>x. row_id x = i) (tb_sessions (view d))) =
      (case map_option (with_values numeric v) (row_at (view d) i) of None \<Rightarrow> [] | Some x \<Rightarrow> [x])"
    using assms(2) filter_key [of row_id "tb_sessions (view d)" i]
    by (simp add: consistent_def row_at_def map_option_case)
  with update [OF assms(1)] show ?thesis
    by (cases "row_at (view d) i") (auto simp: scalar_one_or_none_def)
qed

text \<open>The two operations that add a row for a session.\<close>

lemma add_outcome:
  assumes "try_except (add_for_session D i stmt) (add_errors D m1 m2) d = (r, d')" and "consistent (view d)"
    and undone: "\<forall>d1 e d2. stmt d1 = (Inl e, d2) \<longrightarrow> view d2 = view d1"
  shows "case r of
      Inl e \<Rightarrow> view d' = view d
    | Inr x \<Rightarrow> \<exists>d1. stmt d1 = (Inr x, d') \<and> view d1 = view d \<and> row_at (view d) i \<noteq> None"
proof -
  obtain g d1 where g: "repo_get D i d = (g, d1)" by fastforce
  with get_outcome [OF g assms(2)] have v: "view d1 = view d" and found: "g = Inr x \<Longrightarrow> x = row_at (view d) i" for x
    by auto
  have errors: "view d'' = view d2 \<and> (\<exists>e'. r' = Inl e')" if "add_errors D m1 m2 e d2 = (r', d'')" for e d2 d'' and r' :: "exn + 'b"
    using that rollback by (cases e) (fastforce simp: add_errors_def and_then_def split: prod.splits sum.splits)+
  show ?thesis
  proof (cases g)
    case (Inl e)
    with g assms(1) have "add_errors D m1 m2 e d1 = (r, d')"
      by (simp add: add_for_session_def and_then_def try_except_def)
    from errors [OF this] v show ?thesis by auto
  next
    case (Inr x)
    show ?thesis
    proof (cases x)
      case None
      with g Inr assms(1) have "add_errors D m1 m2 (SessionNotFoundError i) d1 = (r, d')"
        by (simp add: add_for_session_def and_then_def try_except_def)
      from errors [OF this] v show ?thesis by auto
    next
      case (Some row)
      obtain r2 d2 where st: "stmt d1 = (r2, d2)" by fastforce
      show ?thesis
      proof (cases r2)
        case (Inl e)
        with g Inr Some st assms(1) have "add_errors D m1 m2 e d2 = (r, d')"
          by (simp add: add_for_session_def and_then_def try_except_def)
        from errors [OF this] st Inl v undone show ?thesis by auto
      next
        case (Inr y)
        with g \<open>g = Inr x\<close> Some st assms(1) have "r = Inr y" "d' = d2"
          by (simp_all add: add_for_session_def and_then_def try_except_def)
        moreover from found [OF \<open>g = Inr x\<close>] Some have "row_at (view d) i \<noteq> None" by (metis option.distinct(1))
        ultimately show ?thesis using st Inr v by auto
      qed
    qed
  qed
qed

end

section \<open>Histories\<close>

datatype repo_op =
    CreateRow uuid string "uuid option" "string option"
  | GetRow uuid
  | UpdateRow uuid "string option" "int option" "pyfloat option"
  | UpdateMetadata uuid "json dict"
  | DeleteRow uuid
  | ListRows "string option" int int
  | AddMessage uuid string "json dict"
  | AddCheckpoint uuid string "string list"

datatype repo_result =
    RowIs session_row
  | RowFound "session_row option"
  | Removed bool
  | Listed "session_row list" int
  | MessageIs message_row
  | CheckpointIs checkpoint_row

definition giving :: "('a \<Rightarrow> 'b) \<Rightarrow> ('w, 'a) io \<Rightarrow> ('w, 'b) io" where
  "giving f m = and_then m (\<lambda>x. ret (f x))"

lemma giving_run: "giving f m w = (r, w') \<longleftrightarrow> (\<exists>r0. m w = (r0, w') \<and> r = map_sum id f r0)"
  by (auto simp: giving_def and_then_def split: prod.splits sum.splits)

fun repo_do :: "pylib \<Rightarrow> 'd database \<Rightarrow> repo_op \<Rightarrow> ('d, repo_result) io" where
  "repo_do L D (CreateRow i model parent owner) = giving RowIs (repo_create L D i model None parent None owner)"
| "repo_do L D (GetRow i) = giving RowFound (repo_get D i)"
| "repo_do L D (UpdateRow i st n c) = giving RowFound (repo_update D i st n c)"
| "repo_do L D (UpdateMetadata i m) = giving RowFound (repo_update_metadata D i m)"
| "repo_do L D (DeleteRow i) = giving Removed (repo_delete_session D i)"
| "repo_do L D (ListRows owner most start) =
     giving (\<lambda>(rows, total). Listed rows total) (repo_list_sessions L D None owner most start False None None None None)"
| "repo_do L D (AddMessage i t c) = giving MessageIs (add_message D i t c)"
| "repo_do L D (AddCheckpoint i u fs) = giving CheckpointIs (add_checkpoint D i u fs)"

definition repo_history :: "pylib \<Rightarrow> 'd database \<Rightarrow> repo_op list \<Rightarrow> 'd \<Rightarrow> 'd" where
  "repo_history L D ops d = fold (\<lambda>op d. snd (repo_do L D op d)) ops d"

text \<open>
  What each operation gives and does to the tables; \<open>now\<close> is what the clock says, \<open>numeric\<close> how the
  database keeps a cost. Apart from the clock, the columns are written out.
\<close>

definition others_kept :: "tables \<Rightarrow> tables \<Rightarrow> bool" where
  "others_kept T T' \<longleftrightarrow> tb_messages T' = tb_messages T \<and> tb_checkpoints T' = tb_checkpoints T"

definition owned_rows :: "pylib \<Rightarrow> string option \<Rightarrow> tables \<Rightarrow> session_row list" where
  "owned_rows L owner T =
     filter (\<lambda>r. \<not> given owner \<or> row_owner_api_key_hash r = Some (hash_api_key L (the owner))) (tb_sessions T)"

definition created_row :: "pylib \<Rightarrow> uuid \<Rightarrow> string \<Rightarrow> uuid option \<Rightarrow> string option \<Rightarrow> session_row \<Rightarrow> bool" where
  "created_row L i model parent owner row \<longleftrightarrow>
     row_id row = i \<and> row_model row = model \<and> row_status row = ''active'' \<and> row_total_turns row = 0 \<and>
     row_total_cost_usd row = None \<and> row_parent_session_id row = parent \<and>
     row_owner_api_key_hash row = (if given owner then Some (hash_api_key L (the owner)) else None) \<and>
     row_session_metadata row = None"

fun repo_spec ::
  "pylib \<Rightarrow> (pyfloat \<Rightarrow> pyfloat) \<Rightarrow> exn + datetime \<Rightarrow> repo_op \<Rightarrow> tables \<Rightarrow> repo_result \<Rightarrow> tables \<Rightarrow> bool" where
  "repo_spec L numeric now (CreateRow i model parent owner) T res T' \<longleftrightarrow>
     row_at T i = None \<and> others_kept T T' \<and>
     (\<exists>row. res = RowIs row \<and> created_row L i model parent owner row \<and> row_at T' = (row_at T)(i \<mapsto> row))"
| "repo_spec L numeric now (GetRow i) T res T' \<longleftrightarrow> res = RowFound (row_at T i) \<and> T' = T"
| "repo_spec L numeric now (UpdateRow i st n c) T res T' \<longleftrightarrow>
     others_kept T T' \<and>
     (\<exists>t. now = Inr t \<and>
       (let new = map_option (\<lambda>row. row\<lparr>
            row_updated_at := t,
            row_status := (case st of None \<Rightarrow> row_status row | Some x \<Rightarrow> x),
            row_total_turns := (case n of None \<Rightarrow> row_total_turns row | Some k \<Rightarrow> k),
            row_total_cost_usd := (case c of None \<Rightarrow> row_total_cost_usd row | Some x \<Rightarrow> Some (numeric x))\<rparr>) (row_at T i)
        in res = RowFound new \<and> row_at T' = (row_at T)(i := new)))"
| "repo_spec L numeric now (UpdateMetadata i m) T res T' \<longleftrightarrow>
     others_kept T T' \<and>
     (\<exists>t. now = Inr t \<and>
       (let new = map_option (\<lambda>row. row\<lparr>row_updated_at := t, row_session_metadata := Some m\<rparr>) (row_at T i)
        in res = RowFound new \<and> row_at T' = (row_at T)(i := new)))"
| "repo_spec L numeric now (DeleteRow i) T res T' \<longleftrightarrow>
     res = Removed (row_at T i \<noteq> None) \<and> row_at T' = (row_at T)(i := None) \<and>
     tb_messages T' = filter (\<lambda>m. mr_session_id m \<noteq> i) (tb_messages T) \<and>
     tb_checkpoints T' = filter (\<lambda>c. cr_session_id c \<noteq> i) (tb_checkpoints T)"
| "repo_spec L numeric now (AddMessage i t c) T res T' \<longleftrightarrow>
     row_at T i \<noteq> None \<and>
     (\<exists>m. res = MessageIs m \<and> mr_session_id m = i \<and> mr_message_type m = t \<and> mr_content m = c \<and>
       T' = T\<lparr>tb_messages := tb_messages T @ [m]\<rparr>)"
| "repo_spec L numeric now (AddCheckpoint i u fs) T res T' \<longleftrightarrow>
     row_at T i \<noteq> None \<and> u \<notin> cr_user_message_uuid ` set (tb_checkpoints T) \<and>
     (\<exists>c. res = CheckpointIs c \<and> cr_session_id c = i \<and> cr_user_message_uuid c = u \<and> cr_files_modified c = fs \<and>
       T' = T\<lparr>tb_checkpoints := tb_checkpoints T @ [c]\<rparr>)"
| "repo_spec L numeric now (ListRows owner most start) T res T' \<longleftrightarrow>
     T' = T \<and>
     (\<exists>rows. mset rows = mset (owned_rows L owner T) \<and> sorted_wrt (\<lambda>a b. row_created_at b \<le> row_created_at a) rows \<and>
       res = Listed (take (nat most) (drop (nat start) rows)) (int (length rows)))"

text \<open>An operation that raises changes nothing, but for a row that was inserted and not read back.\<close>

fun failed_spec :: "pylib \<Rightarrow> repo_op \<Rightarrow> tables \<Rightarrow> tables \<Rightarrow> bool" where
  "failed_spec L (CreateRow i model parent owner) T T' \<longleftrightarrow>
     T' = T \<or> row_at T i = None \<and>
       (\<exists>row. created_row L i model parent owner row \<and> T' = T\<lparr>tb_sessions := tb_sessions T @ [row]\<rparr>)"
| "failed_spec L _ T T' \<longleftrightarrow> T' = T"

lemma row_at_insert:
  "row_id x = i \<Longrightarrow> row_at T i = None \<Longrightarrow> row_at (T\<lparr>tb_sessions := tb_sessions T @ [x]\<rparr>) = (row_at T)(i \<mapsto> x)"
  by (rule ext) (auto simp: row_at_def find_append split: option.split)

lemma row_at_update:
  "row_at (T\<lparr>tb_sessions := map (\<lambda>x. if row_id x = i then with_values numeric v x else x) (tb_sessions T)\<rparr>) =
     (row_at T)(i := map_option (with_values numeric v) (row_at T i))"
  by (rule ext) (simp add: row_at_def find_map_key [where f = row_id])

lemma row_at_delete:
  "row_at \<lparr>tb_sessions = filter (\<lambda>x. row_id x \<noteq> i) xs, tb_messages = ms, tb_checkpoints = cs\<rparr> =
     (\<lambda>j. if j = i then None else find (\<lambda>x. row_id x = j) xs)"
  by (rule ext) (simp add: row_at_def find_filter_key [where f = row_id])

lemma consistent_insert:
  assumes "consistent T" and "row_at T (row_id x) = None"
    and "\<forall>p. row_parent_session_id x = Some p \<longrightarrow> p \<in> insert (row_id x) (row_id ` set (tb_sessions T))"
  shows "consistent (T\<lparr>tb_sessions := tb_sessions T @ [x]\<rparr>)"
  using assms by (auto simp: consistent_def row_at_None)

lemma consistent_update:
  assumes "consistent T"
  shows "consistent (T\<lparr>tb_sessions := map (\<lambda>x. if row_id x = i then with_values numeric v x else x) (tb_sessions T)\<rparr>)"
proof -
  let ?xs = "map (\<lambda>x. if row_id x = i then with_values numeric v x else x) (tb_sessions T)"
  have ids: "map row_id ?xs = map row_id (tb_sessions T)"
    by simp
  then have img: "row_id ` set ?xs = row_id ` set (tb_sessions T)"
    by (metis set_map)
  have par: "p \<in> row_id ` set (tb_sessions T)" if "r \<in> set ?xs" and "row_parent_session_id r = Some p" for r p
  proof -
    from that obtain x where "x \<in> set (tb_sessions T)" and "row_parent_session_id x = Some p"
      by (auto split: if_splits)
    with assms show ?thesis by (auto simp: consistent_def)
  qed
  have sel: "tb_sessions (T\<lparr>tb_sessions := ?xs\<rparr>) = ?xs" "tb_messages (T\<lparr>tb_sessions := ?xs\<rparr>) = tb_messages T"
      "tb_checkpoints (T\<lparr>tb_sessions := ?xs\<rparr>) = tb_checkpoints T"
    by simp_all
  show ?thesis
    unfolding consistent_def sel ids img using par assms [unfolded consistent_def] by blast
qed

lemma consistent_delete:
  assumes "consistent T" and "\<forall>x\<in>set (tb_sessions T). row_parent_session_id x = Some i \<longrightarrow> row_id x = i"
  shows "consistent \<lparr>tb_sessions = filter (\<lambda>x. row_id x \<noteq> i) (tb_sessions T),
    tb_messages = filter (\<lambda>x. mr_session_id x \<noteq> i) (tb_messages T),
    tb_checkpoints = filter (\<lambda>x. cr_session_id x \<noteq> i) (tb_checkpoints T)\<rparr>"
  using assms by (fastforce simp: consistent_def distinct_map_filter)

lemma consistent_more:
  "consistent T \<Longrightarrow> mr_session_id m \<in> row_id ` set (tb_sessions T) \<Longrightarrow> consistent (T\<lparr>tb_messages := tb_messages T @ [m]\<rparr>)"
  "consistent T \<Longrightarrow> cr_session_id c \<in> row_id ` set (tb_sessions T) \<Longrightarrow>
     cr_user_message_uuid c \<notin> cr_user_message_uuid ` set (tb_checkpoints T) \<Longrightarrow>
     consistent (T\<lparr>tb_checkpoints := tb_checkpoints T @ [c]\<rparr>)"
  by (auto simp: consistent_def)

lemma row_at_more [simp]:
  "row_at (T\<lparr>tb_messages := ms\<rparr>) = row_at T" "row_at (T\<lparr>tb_checkpoints := cs\<rparr>) = row_at T"
  by (simp_all add: row_at_def fun_eq_iff)

text \<open>One step keeps the tables consistent and does what it should to the map.\<close>

definition step_ok ::
  "pylib \<Rightarrow> (pyfloat \<Rightarrow> pyfloat) \<Rightarrow> exn + datetime \<Rightarrow> repo_op \<Rightarrow> tables \<Rightarrow> exn + repo_result \<Rightarrow> tables \<Rightarrow> bool"
where
  "step_ok L numeric now op T r T' \<longleftrightarrow>
     consistent T' \<and> (case r of Inl e \<Rightarrow> failed_spec L op T T' | Inr res \<Rightarrow> repo_spec L numeric now op T res T')"

lemma failed_same [simp]: "failed_spec L op T T"
  by (cases op) simp_all

context sql_laws
begin

lemma create_step:
  assumes "repo_create L D i model None parent None owner d = (r, d')" and "consistent (view d)"
  shows "step_ok L numeric now (CreateRow i model parent owner) (view d) (map_sum id RowIs r) (view d')"
proof -
  let ?n = "\<lparr>ns_id = i, ns_model = model, ns_working_directory = None, ns_parent_session_id = parent,
    ns_session_metadata = None, ns_owner_api_key_hash = hash_of_owner L owner\<rparr>"
  from create_outcome [OF assms(1)] consider
      (same) e where "r = Inl e" "view d' = view d"
    | (new) t where "row_at (view d) i = None" "\<forall>p. parent = Some p \<longrightarrow> p \<in> insert i (row_id ` set (tb_sessions (view d)))"
        "view d' = (view d)\<lparr>tb_sessions := tb_sessions (view d) @ [inserted_row ?n t]\<rparr>"
        "(\<exists>e. r = Inl e) \<or> r = Inr (inserted_row ?n t)"
    by (cases r) (auto simp: Let_def)
  then show ?thesis
  proof cases
    case same
    with assms(2) show ?thesis by (simp add: step_ok_def)
  next
    case (new t)
    then have "consistent (view d')" and "row_at (view d') = (row_at (view d))(i \<mapsto> inserted_row ?n t)"
      using consistent_insert [OF assms(2), of "inserted_row ?n t"] row_at_insert [of "inserted_row ?n t" i "view d"] by auto
    moreover have "created_row L i model parent owner (inserted_row ?n t)"
      by (simp add: created_row_def inserted_row_def hash_of_owner_def)
    ultimately show ?thesis using new
      by (auto simp: step_ok_def others_kept_def)
  qed
qed

lemma update_step:
  assumes "and_then (dq_update D i v) (\<lambda>rows. lift_sum (scalar_one_or_none rows)) d = (r, d')" and "consistent (view d)"
  shows "consistent (view d') \<and>
    (case r of
       Inl e \<Rightarrow> view d' = view d
     | Inr x \<Rightarrow> others_kept (view d) (view d') \<and> x = map_option (with_values numeric v) (row_at (view d) i) \<and> row_at (view d') = (row_at (view d))(i := x))"
proof -
  obtain xs d1 where up: "dq_update D i v d = (xs, d1)" by fastforce
  show ?thesis
  proof (cases xs)
    case (Inl e)
    with up assms update [OF up] show ?thesis by (auto simp: and_then_def)
  next
    case (Inr ys)
    with up update_outcome [OF _ assms(2)] have
        one: "scalar_one_or_none ys = Inr (map_option (with_values numeric v) (row_at (view d) i))" and
        new: "view d1 = (view d)\<lparr>tb_sessions := map (\<lambda>x. if row_id x = i then with_values numeric v x else x) (tb_sessions (view d))\<rparr>"
      by blast+
    from up Inr assms(1) one have "r = Inr (map_option (with_values numeric v) (row_at (view d) i))" and "d' = d1"
      by (simp_all add: and_then_def)
    with new consistent_update [OF assms(2)] show ?thesis
      by (simp add: row_at_update others_kept_def)
  qed
qed

lemma timed_update_step:
  assumes "and_then (dq_now D) (\<lambda>now. and_then (dq_update D i (v now)) (\<lambda>rows. lift_sum (scalar_one_or_none rows))) d = (r, d')"
    and "consistent (view d)"
  shows "consistent (view d') \<and>
    (case r of
       Inl e \<Rightarrow> view d' = view d
     | Inr x \<Rightarrow> others_kept (view d) (view d') \<and> (\<exists>t. fst (dq_now D d) = Inr t \<and> x = map_option (with_values numeric (v t)) (row_at (view d) i) \<and> row_at (view d') = (row_at (view d))(i := x)))"
proof -
  obtain t d1 where n: "dq_now D d = (t, d1)" by fastforce
  from now [OF n] have v: "view d1 = view d" .
  show ?thesis
  proof (cases t)
    case (Inl e)
    with n assms v show ?thesis by (auto simp: and_then_def)
  next
    case (Inr t0)
    with n assms(1) have "and_then (dq_update D i (v t0)) (\<lambda>rows. lift_sum (scalar_one_or_none rows)) d1 = (r, d')"
      by (simp add: and_then_def)
    from update_step [OF this] assms(2) v n Inr show ?thesis
      by (cases r) auto
  qed
qed

lemma delete_step:
  assumes "repo_delete_session D i d = (r, d')" and "consistent (view d)"
  shows "step_ok L numeric now (DeleteRow i) (view d) (map_sum id Removed r) (view d')"
proof -
  obtain g d1 where g: "repo_get D i d = (g, d1)" by fastforce
  from get_outcome [OF g assms(2)] have v: "view d1 = view d" and found: "g = Inr x \<Longrightarrow> x = row_at (view d) i" for x
    by auto
  show ?thesis
  proof (cases g)
    case (Inl e)
    with g assms v show ?thesis by (auto simp: repo_delete_session_def and_then_def step_ok_def)
  next
    case (Inr x)
    show ?thesis
    proof (cases x)
      case None
      with found [OF Inr] have none: "row_at (view d) i = None" by simp
      then have "(row_at (view d))(i := None) = row_at (view d)" by (simp add: fun_upd_idem)
      moreover from none assms(2) have "filter (\<lambda>x. mr_session_id x \<noteq> i) (tb_messages (view d)) = tb_messages (view d)"
          "filter (\<lambda>x. cr_session_id x \<noteq> i) (tb_checkpoints (view d)) = tb_checkpoints (view d)"
        by (auto simp: consistent_def row_at_None intro!: filter_True)
      ultimately show ?thesis using None Inr g assms v none
        by (auto simp: repo_delete_session_def and_then_def step_ok_def)
    next
      case (Some row)
      obtain u d2 where del: "dq_delete_session D i d1 = (u, d2)" by fastforce
      with Some Inr g assms(1) have r: "r = map_sum id (\<lambda>_. True) u" "d' = d2"
        by (cases u; simp add: repo_delete_session_def and_then_def)+
      show ?thesis
      proof (cases u)
        case (Inl e)
        with delete_session [OF del] v r assms(2) show ?thesis by (simp add: step_ok_def)
      next
        case u: (Inr y)
        from delete_session [OF del] u v have
          del1: "\<forall>x\<in>set (tb_sessions (view d)). row_parent_session_id x = Some i \<longrightarrow> row_id x = i" and
          del2: "view d2 = \<lparr>tb_sessions = filter (\<lambda>x. row_id x \<noteq> i) (tb_sessions (view d)),
              tb_messages = filter (\<lambda>x. mr_session_id x \<noteq> i) (tb_messages (view d)),
              tb_checkpoints = filter (\<lambda>x. cr_session_id x \<noteq> i) (tb_checkpoints (view d))\<rparr>"
          by auto
        from del2 have "row_at (view d2) = (row_at (view d))(i := None)"
          by (auto simp: row_at_delete fun_eq_iff) (auto simp: row_at_def)
        moreover from found [OF Inr] Some have "row_at (view d) i = Some row" by simp
        ultimately show ?thesis using consistent_delete [OF assms(2) del1] del2 r u
          by (auto simp: step_ok_def)
      qed
    qed
  qed
qed

text \<open>Every operation.\<close>

lemma message_step:
  assumes "add_message D i t c d = (r, d')" and "consistent (view d)"
  shows "step_ok L numeric now (AddMessage i t c) (view d) (map_sum id MessageIs r) (view d')"
proof -
  have "\<forall>d1 e d2. dq_insert_message D i t c d1 = (Inl e, d2) \<longrightarrow> view d2 = view d1"
    by (auto dest: insert_message)
  note out = add_outcome [OF assms(1) [unfolded add_message_def] assms(2) this]
  show ?thesis
  proof (cases r)
    case (Inl e)
    with out assms(2) show ?thesis by (simp add: step_ok_def)
  next
    case (Inr x)
    with out obtain d1 where ins: "dq_insert_message D i t c d1 = (Inr x, d')" "view d1 = view d" and "row_at (view d) i \<noteq> None"
      by auto
    moreover from insert_message [OF ins(1)] ins(2) have "mr_session_id x \<in> row_id ` set (tb_sessions (view d))"
        "mr_session_id x = i" "mr_message_type x = t" "mr_content x = c"
        "view d' = (view d)\<lparr>tb_messages := tb_messages (view d) @ [x]\<rparr>"
      by auto
    ultimately show ?thesis
      using Inr consistent_more(1) [OF assms(2), of x] by (simp add: step_ok_def)
  qed
qed

lemma checkpoint_step:
  assumes "add_checkpoint D i u fs d = (r, d')" and "consistent (view d)"
  shows "step_ok L numeric now (AddCheckpoint i u fs) (view d) (map_sum id CheckpointIs r) (view d')"
proof -
  have "\<forall>d1 e d2. dq_insert_checkpoint D i u fs d1 = (Inl e, d2) \<longrightarrow> view d2 = view d1"
    by (auto dest: insert_checkpoint)
  note out = add_outcome [OF assms(1) [unfolded add_checkpoint_def] assms(2) this]
  show ?thesis
  proof (cases r)
    case (Inl e)
    with out assms(2) show ?thesis by (simp add: step_ok_def)
  next
    case (Inr x)
    with out obtain d1 where ins: "dq_insert_checkpoint D i u fs d1 = (Inr x, d')" "view d1 = view d" and "row_at (view d) i \<noteq> None"
      by auto
    moreover from insert_checkpoint [OF ins(1)] ins(2) have "cr_session_id x \<in> row_id ` set (tb_sessions (view d))"
        "cr_session_id x = i" "cr_user_message_uuid x = u" "cr_files_modified x = fs"
        "cr_user_message_uuid x \<notin> cr_user_message_uuid ` set (tb_checkpoints (view d))"
        "view d' = (view d)\<lparr>tb_checkpoints := tb_checkpoints (view d) @ [x]\<rparr>"
      by auto
    ultimately show ?thesis
      using Inr consistent_more(2) [OF assms(2), of x] by (simp add: step_ok_def)
  qed
qed

lemma list_step:
  assumes "repo_list_sessions L D None owner most start False None None None None d = (r, d')" and "consistent (view d)"
  shows "step_ok L numeric now (ListRows owner most start) (view d) (map_sum id (\<lambda>(rows, total). Listed rows total) r) (view d')"
proof -
  let ?cs = "list_conditions L None owner False None None None None"
  have sel: "selected to_text ?cs (tb_sessions (view d)) = owned_rows L owner (view d)"
    by (auto simp: selected_def owned_rows_def list_conditions_def where_given_def)
  obtain n d1 where c: "dq_count D ?cs d = (n, d1)" by fastforce
  with count [OF c] have v: "view d1 = view d" and n: "n = Inr k \<Longrightarrow> k = int (length (owned_rows L owner (view d)))" for k
    by (auto simp: sel)
  obtain xs d2 where p: "dq_page D ?cs most start d1 = (xs, d2)" by fastforce
  note pages = page [OF p, unfolded v sel]
  show ?thesis
  proof (cases r)
    case (Inl e)
    with assms c p v pages show ?thesis
      by (auto simp: repo_list_sessions_def Let_def and_then_def step_ok_def split: sum.splits)
  next
    case (Inr res)
    with assms(1) c p obtain k ys where "n = Inr k" "xs = Inr ys" "res = (ys, k)" "d' = d2"
      by (auto simp: repo_list_sessions_def Let_def and_then_def split: sum.splits)
    moreover from this pages obtain rows where rows: "mset rows = mset (owned_rows L owner (view d))"
      "sorted_wrt (\<lambda>a b. row_created_at b \<le> row_created_at a) rows" "ys = take (nat most) (drop (nat start) rows)"
      by auto
    moreover from rows(1) have "length rows = length (owned_rows L owner (view d))"
      by (rule mset_eq_length)
    ultimately show ?thesis
      using Inr assms(2) pages n by (auto simp: step_ok_def)
  qed
qed

lemma repo_step:
  assumes "repo_do L D op d = (r, d')" and "consistent (view d)"
  shows "step_ok L numeric (fst (dq_now D d)) op (view d) r (view d')"
proof (cases op)
  case (CreateRow i model parent owner)
  with assms create_step [of L i model parent owner d _ d'] show ?thesis by (auto simp: giving_run)
next
  case (GetRow i)
  with assms(1) obtain r0 where "repo_get D i d = (r0, d')" and "r = map_sum id RowFound r0" by (auto simp: giving_run)
  with get_outcome [OF _ assms(2)] GetRow assms(2) show ?thesis
    by (cases r0) (auto simp: step_ok_def)
next
  case (UpdateRow i st n c)
  have stored: "with_values numeric (update_values t st n c) = (\<lambda>row. row\<lparr>
            row_updated_at := t,
            row_status := (case st of None \<Rightarrow> row_status row | Some x \<Rightarrow> x),
            row_total_turns := (case n of None \<Rightarrow> row_total_turns row | Some k \<Rightarrow> k),
            row_total_cost_usd := (case c of None \<Rightarrow> row_total_cost_usd row | Some x \<Rightarrow> Some (numeric x))\<rparr>)" for t
    by (rule ext) (simp add: with_values_def update_values_def)
  from UpdateRow assms(1) obtain r0 where run: "repo_update D i st n c d = (r0, d')" and "r = map_sum id RowFound r0"
    by (auto simp: giving_run)
  with timed_update_step [OF run [unfolded repo_update_def] assms(2)] UpdateRow show ?thesis
    by (cases r0) (auto simp: step_ok_def Let_def stored)
next
  case (UpdateMetadata i m)
  have stored: "with_values numeric \<lparr>va_updated_at = t, va_status = None, va_total_turns = None, va_total_cost_usd = None,
      va_session_metadata = Some m\<rparr> = (\<lambda>row. row\<lparr>row_updated_at := t, row_session_metadata := Some m\<rparr>)" for t
    by (rule ext) (simp add: with_values_def)
  from UpdateMetadata assms(1) obtain r0 where run: "repo_update_metadata D i m d = (r0, d')" and "r = map_sum id RowFound r0"
    by (auto simp: giving_run)
  with timed_update_step [OF run [unfolded repo_update_metadata_def] assms(2)] UpdateMetadata show ?thesis
    by (cases r0) (auto simp: step_ok_def Let_def stored)
next
  case (DeleteRow i)
  with assms delete_step show ?thesis by (auto simp: giving_run)
next
  case (ListRows owner most start)
  with assms list_step show ?thesis by (auto simp: giving_run)
next
  case (AddMessage i t c)
  with assms message_step show ?thesis by (auto simp: giving_run)
next
  case (AddCheckpoint i u fs)
  with assms checkpoint_step show ?thesis by (auto simp: giving_run)
qed

lemma history_consistent: "consistent (view d) \<Longrightarrow> consistent (view (repo_history L D ops d))"
proof (induction ops arbitrary: d)
  case Nil
  then show ?case by (simp add: repo_history_def)
next
  case (Cons op ops)
  obtain r d1 where "repo_do L D op d = (r, d1)" by fastforce
  with repo_step [OF this Cons.prems] Cons.IH show ?case
    by (simp add: repo_history_def step_ok_def)
qed

end


section \<open>Filters in SQL and in memory\<close>

lemma like_any: "like (CHR ''%'' # p) s \<longleftrightarrow> (\<exists>a b. s = a @ b \<and> like p b)"
proof (induction s)
  case (Cons c cs)
  then show ?case by (auto simp: Cons_eq_append_conv)
qed simp

text \<open>Text that \<open>LIKE\<close> takes as it is.\<close>

definition literal :: "string \<Rightarrow> bool" where
  "literal p \<longleftrightarrow> list_all (\<lambda>c. c \<notin> {CHR ''%'', CHR ''_'', CHR 0x5C}) p"

lemma like_literal: "literal p \<Longrightarrow> like (p @ q) s \<longleftrightarrow> (\<exists>b. s = p @ b \<and> like q b)"
proof (induction p arbitrary: s)
  case (Cons c p)
  then show ?case by (cases s) (auto simp: literal_def)
qed (simp add: literal_def)

lemma like_contains: "literal p \<Longrightarrow> like (CHR ''%'' # p @ ''%'') s \<longleftrightarrow> sublist p s"
  by (auto simp: like_any like_literal sublist_def)

lemma lower_char_literal: "lower_char c \<in> {CHR ''%'', CHR ''_'', CHR 0x5C} \<Longrightarrow> c \<in> {CHR ''%'', CHR ''_'', CHR 0x5C}"
proof -
  have "lower_char c \<notin> {CHR ''%'', CHR ''_'', CHR 0x5C}" if "lower_char c \<noteq> c"
  proof -
    from that have big: "(65 \<le> (of_char c :: nat) \<and> (of_char c :: nat) \<le> 90 \<or> 192 \<le> (of_char c :: nat) \<and> (of_char c :: nat) \<le> 222)"
      and l: "lower_char c = char_of ((of_char c :: nat) + 32)"
      by (auto simp: lower_char_def Let_def split: if_splits)
    from big have "(of_char (char_of ((of_char c :: nat) + 32) :: char) :: nat) = of_char c + 32"
      by (auto simp: of_char_of)
    with big l have "(of_char (lower_char c) :: nat) \<notin> {37, 95, 92}" by auto
    moreover have "(of_char (CHR ''%'') :: nat) = 37" "(of_char (CHR ''_'') :: nat) = 95" "(of_char (CHR 0x5C) :: nat) = 92"
      by simp_all
    ultimately show ?thesis by (metis insert_iff singletonD)
  qed
  then show "lower_char c \<in> {CHR ''%'', CHR ''_'', CHR 0x5C} \<Longrightarrow> c \<in> {CHR ''%'', CHR ''_'', CHR 0x5C}" by metis
qed

lemma lower_literal: "literal p \<Longrightarrow> literal (lower p)"
  using lower_char_literal by (fastforce simp: literal_def lower_def list_all_iff)

lemma lower_pattern: "lower (CHR ''%'' # p @ ''%'') = CHR ''%'' # lower p @ ''%''"
  by (simp add: lower_def lower_char_def)

text \<open>Metadata as the service writes it: texts, and a list of texts.\<close>

definition text_metadata :: "json dict \<Rightarrow> bool" where
  "text_metadata m \<longleftrightarrow>
     (\<forall>k\<in>{''mode'', ''project_id'', ''title''}. dict_get m k = None \<or> dict_get m k = Some JNull \<or> (\<exists>t. dict_get m k = Some (JStr t))) \<and>
     (dict_get m ''tags'' = None \<or> dict_get m ''tags'' = Some JNull \<or> (\<exists>ts. dict_get m ''tags'' = Some (JArr (map JStr ts))))"

definition text_row :: "session_row \<Rightarrow> bool" where
  "text_row r \<longleftrightarrow> (\<forall>m. row_session_metadata r = Some m \<longrightarrow> text_metadata m)"

lemma field_is:
  assumes "text_row r" and "k \<in> {''mode'', ''project_id'', ''title''}"
  shows "astext f (row_session_metadata r) k = Some v \<longleftrightarrow>
    dict_get (case row_session_metadata r of None \<Rightarrow> [] | Some m \<Rightarrow> m) k = Some (JStr v)"
  using assms by (cases "row_session_metadata r") (auto simp: text_row_def text_metadata_def astext_def dict_get_def)

lemma tags_are:
  assumes "text_row r" and "ts \<noteq> []"
  shows "tags_contain (row_session_metadata r) ts \<longleftrightarrow>
    set ts \<subseteq> set (metadata_tags (case row_session_metadata r of None \<Rightarrow> [] | Some m \<Rightarrow> m))"
proof (cases "row_session_metadata r")
  case None
  with assms(2) show ?thesis by (auto simp: tags_contain_def metadata_tags_def dict_get_def)
next
  case (Some m)
  have items: "string_items (map JStr us) = Some us" for us by (induction us) simp_all
  from Some assms(1) consider "dict_get m ''tags'' = None" | "dict_get m ''tags'' = Some JNull"
    | us where "dict_get m ''tags'' = Some (JArr (map JStr us))"
    by (auto simp: text_row_def text_metadata_def)
  then show ?thesis
    using Some assms(2) by cases (auto simp: tags_contain_def metadata_tags_def list_all_iff items)
qed

text \<open>Filters that both readings take alike: no empty names, and a search without wildcards.\<close>

definition plain_filters :: "string option \<Rightarrow> string option \<Rightarrow> string option \<Rightarrow> bool" where
  "plain_filters mode project_id search \<longleftrightarrow>
     mode \<noteq> Some [] \<and> project_id \<noteq> Some [] \<and> (\<forall>q. search = Some q \<longrightarrow> literal q)"

lemma title_like:
  assumes "text_row r" and "literal q" and "q \<noteq> []"
  shows "holds f (TitleLike (CHR ''%'' # q @ ''%'')) r \<longleftrightarrow>
    contains (lower q) (lower (metadata_title (case row_session_metadata r of None \<Rightarrow> [] | Some m \<Rightarrow> m)))"
proof -
  have empty: "\<not> sublist (lower q) []" using assms(3) by (simp add: lower_def)
  let ?m = "case row_session_metadata r of None \<Rightarrow> [] | Some m \<Rightarrow> m"
  show ?thesis
  proof (cases "\<exists>t. dict_get ?m ''title'' = Some (JStr t)")
    case True
    then obtain t where t: "dict_get ?m ''title'' = Some (JStr t)" by blast
    with field_is [OF assms(1), of "''title''" f t] have "astext f (row_session_metadata r) ''title'' = Some t" by simp
    with t assms(2) show ?thesis
      by (simp add: lower_pattern like_contains lower_literal contains_iff metadata_title_def)
  next
    case False
    with field_is [OF assms(1), of "''title''" f] have "astext f (row_session_metadata r) ''title'' = None" by fastforce
    moreover from False have "metadata_title ?m = []"
      by (auto simp: metadata_title_def split: option.split json.split)
    moreover have "lower [] = []" by (simp add: lower_def)
    ultimately show ?thesis using empty by (simp add: contains_iff)
  qed
qed

lemma filters_agree:
  assumes "text_row r" and "plain_filters mode project_id search"
  shows "list_all (\<lambda>c. holds f c r) (list_conditions L None (Some k) False mode project_id tags search) \<longleftrightarrow>
    (k = [] \<or> row_owner_api_key_hash r = Some (hash_api_key L k)) \<and>
    matches_metadata_filters (map_db_to_service r) mode project_id tags search"
proof -
  let ?m = "case row_session_metadata r of None \<Rightarrow> [] | Some m \<Rightarrow> m"
  have mode: "list_all (\<lambda>c. holds f c r) (where_given mode (FieldIs ''mode'')) \<longleftrightarrow>
      (\<forall>v. mode = Some v \<longrightarrow> dict_get ?m ''mode'' = Some (JStr v))"
    using assms field_is [OF assms(1), of "''mode''" f] by (cases mode) (auto simp: where_given_def plain_filters_def)
  have project: "list_all (\<lambda>c. holds f c r) (where_given project_id (FieldIs ''project_id'')) \<longleftrightarrow>
      (\<forall>v. project_id = Some v \<longrightarrow> dict_get ?m ''project_id'' = Some (JStr v))"
    using assms field_is [OF assms(1), of "''project_id''" f] by (cases project_id) (auto simp: where_given_def plain_filters_def)
  have search: "list_all (\<lambda>c. holds f c r) (where_given search (\<lambda>s. TitleLike (''%'' @ s @ ''%''))) \<longleftrightarrow>
      (given search \<longrightarrow> contains (lower (the search)) (lower (metadata_title ?m)))"
  proof (cases "given search")
    case True
    then obtain q where q: "search = Some q" "q \<noteq> []" by (auto simp: given_iff)
    with assms(2) title_like [OF assms(1), of q f] True show ?thesis
      by (simp add: where_given_def plain_filters_def)
  qed (simp add: where_given_def)
  have tags: "list_all (\<lambda>c. holds f c r) (case tags of None \<Rightarrow> [] | Some ts \<Rightarrow> if ts = [] then [] else [TagsContain ts]) \<longleftrightarrow>
      (\<forall>ts. tags = Some ts \<longrightarrow> ts \<noteq> [] \<longrightarrow> set ts \<subseteq> set (metadata_tags ?m))"
    using tags_are [OF assms(1)] by (cases tags) auto
  show ?thesis
    unfolding list_conditions_def list_all_append mode project search tags
    by (cases mode; cases project_id; cases tags; cases "k = []")
       (auto simp: matches_metadata_filters_def map_db_to_service_def where_given_def Let_def)
qed

section \<open>The service over the repository\<close>

text \<open>
  C28: With a database, listing sessions with a key counts and pages exactly the rows of
  that key's sessions that the in-memory filter accepts, newest first, for metadata as the
  service writes it and a search text without wildcards.
\<close>

theorem listing_of_owner:
  assumes "sql_laws D view numeric to_text" and "ss_repo S = Some (session_repository (ss_lib S) D)" and "key \<noteq> []"
    and "list_sessions S page page_size (Some key) mode project_id tags search w = (Inr res, w')"
    and "\<forall>r\<in>set (tb_sessions (view (w_db w))). text_row r" and "plain_filters mode project_id search"
  shows "\<exists>rows. mset rows = mset (filter (\<lambda>r. row_owner_api_key_hash r = Some (hash_api_key (ss_lib S) key) \<and>
        matches_metadata_filters (map_db_to_service r) mode project_id tags search) (tb_sessions (view (w_db w)))) \<and>
    sorted_wrt (\<lambda>a b. row_created_at b \<le> row_created_at a) rows \<and> slr_total res = int (length rows) \<and>
    slr_sessions res = map map_db_to_service (take (nat page_size) (drop (nat ((page - 1) * page_size)) rows))"
proof -
  let ?L = "ss_lib S"
  let ?cs = "list_conditions ?L None (Some key) False mode project_id tags search"
  let ?T = "tb_sessions (view (w_db w))"
  from assms(2,4) obtain xs n d1 d2 where
      c: "dq_count D ?cs (w_db w) = (Inr n, d1)" and p: "dq_page D ?cs page_size ((page - 1) * page_size) d1 = (Inr xs, d2)" and
      res: "res = \<lparr>slr_sessions = map map_db_to_service xs, slr_total = n, slr_page = page, slr_page_size = page_size\<rparr>"
    by (auto simp: list_sessions_def session_repository_def repo_list_sessions_def Let_def and_then_Inr on_db_run)
  from sql_laws.count [OF assms(1) c] have v: "view d1 = view (w_db w)" and n: "n = int (length (selected to_text ?cs ?T))"
    by auto
  from sql_laws.page [OF assms(1) p] v obtain rows where rows: "mset rows = mset (selected to_text ?cs ?T)"
      "sorted_wrt (\<lambda>a b. row_created_at b \<le> row_created_at a) rows"
      "xs = take (nat page_size) (drop (nat ((page - 1) * page_size)) rows)"
    by auto
  have "selected to_text ?cs ?T = filter (\<lambda>r. row_owner_api_key_hash r = Some (hash_api_key ?L key) \<and>
      matches_metadata_filters (map_db_to_service r) mode project_id tags search) ?T"
    unfolding selected_def using filters_agree [OF _ assms(6), of _ to_text ?L key tags] assms(3,5)
    by (intro filter_cong) auto
  moreover from rows(1) n have "n = int (length rows)" by (metis size_mset)
  ultimately show ?thesis using rows res by auto
qed

text \<open>
  C29: Over a database that keeps the laws of sql_laws, with consistent tables, a session
  that was created for a non-empty key, under the identifier the caller gave or the one that
  was drawn, is there for its owner without the cache: reading the identifier that
  create_session answered, where the read succeeds, gives the session with its model, its
  parent and its owner, active and without turns.
\<close>

theorem session_outlives_cache:
  assumes "sql_laws D view numeric to_text" and "ss_repo S = Some (session_repository (ss_lib S) D)"
    and "consistent (view (w_db w))" and "key \<noteq> []"
    and "create_session S model sid parent (Some key) w = (Inr s, w')"
    and "get_session (S\<lparr>ss_cache := None\<rparr>) (s_id s) (Some key) w' = (Inr found, w'')"
  shows "s_id s = (case sid of None \<Rightarrow> w_tokens w (w_draws w) | Some i \<Rightarrow> i) \<and>
    (\<exists>s' u. found = Some s' \<and> uuid_of (ss_lib S) (s_id s) = Inr u \<and> s_id s' = u \<and> s_model s' = model \<and>
    s_status s' = Active \<and> s_total_turns s' = 0 \<and> s_owner_api_key_hash s' = Some (hash_api_key (ss_lib S) key) \<and>
    s_parent_session_id s' = (if given parent then parse_uuid (ss_lib S) (the parent) else None))"
proof -
  let ?L = "ss_lib S" and ?S = "S\<lparr>ss_cache := None\<rparr>"
  define i where "i = (case sid of None \<Rightarrow> w_tokens w (w_draws w) | Some i \<Rightarrow> i)"
  from assms(2,5) obtain w1 w2 w3 where id: "s_id s = i" and
      db: "create_in_db ?L (session_repository ?L D) i model parent (Some key) w1 = (Inr (), w2)" and w1: "w_db w1 = w_db w" and
      c: "create_in_cache S (s::session) w2 = (Inr (), w3)" and w3: "w_db w' = w_db w3"
    by (cases sid) (auto simp: create_session_def and_then_Inr Let_def i_def draw_token_def)
  from c have w2: "w_db w3 = w_db w2"
    by (auto simp: create_in_cache_def try_except_Inr cache_session_io_def dest: on_cache_db split: option.splits)
  from db obtain u pid row d where u: "uuid_of ?L i = Inr u"
      and pid: "pid = (if given parent then parse_uuid ?L (the parent) else None)"
      and run: "repo_create ?L D u model None pid None (Some key) (w_db w) = (Inr row, d)" and d: "w_db w2 = d"
    using w1 by (auto simp: create_in_db_def try_except_Inr and_then_Inr on_db_run session_repository_def uuid_of_def value_or_def
        split: if_splits option.splits)
  from sql_laws.create_step [OF assms(1) run assms(3)] have cons: "consistent (view d)"
    and row: "row_at (view d) u = Some row" "row_id row = u" "row_model row = model" "row_status row = ''active''"
      "row_total_turns row = 0" "row_parent_session_id row = pid" "row_owner_api_key_hash row = Some (hash_api_key ?L key)"
    using assms(4) by (auto simp: step_ok_def created_row_def)
  from w3 w2 d have wd: "w_db w' = d" by simp
  have "get_session ?S i (Some key) w' = get_from_db ?S (session_repository ?L D) i (Some key) w'"
    using assms(2) by (simp add: get_session_def get_cached_session_io_def scm_get_cached_session_def)
  with assms(6) id have "get_from_db ?S (session_repository ?L D) i (Some key) w' = (Inr found, w'')" by simp
  then obtain r d' where g: "repo_get D u d = (Inr r, d')" and
      f: "found = None \<and> r = None \<or> (\<exists>row' s'. r = Some row' \<and> enforce_owner ?L (map_db_to_service row') (Some key) = Inr s' \<and> found = Some s')"
    using u wd
    by (auto simp: get_from_db_def try_except_Inr and_then_Inr on_db_run session_repository_def split: option.splits)
  from sql_laws.get_outcome [OF assms(1) g cons] row(1) have "r = Some row" by simp
  with f obtain s' where s': "enforce_owner ?L (map_db_to_service row) (Some key) = Inr s'" "found = Some s'" by auto
  then have "s' = map_db_to_service row"
    by (auto simp: enforce_owner_def bind_sum_Inr split: if_splits)
  with s' row u pid parse_status_text [of Active] show ?thesis
    by (auto simp: map_db_to_service_def id i_def)
qed

section \<open>A concrete database\<close>

definition ref_database :: "tables database" where
  "ref_database =
     \<lparr>dq_now = ret 5,
      dq_insert_session = (\<lambda>n T.
        if list_ex (\<lambda>r. row_id r = ns_id n) (tb_sessions T) \<or>
           (case ns_parent_session_id n of None \<Rightarrow> False | Some p \<Rightarrow> \<not> list_ex (\<lambda>r. row_id r = p) (tb_sessions T))
        then (Inl (IntegrityError ''constraint''), T)
        else (Inr (), T\<lparr>tb_sessions := tb_sessions T @ [inserted_row n 5]\<rparr>)),
      dq_refresh_session = (\<lambda>i T. (value_or (OtherException ''gone'') (row_at T i), T)),
      dq_select = (\<lambda>cs T. (Inr (selected (\<lambda>v. []) cs (tb_sessions T)), T)),
      dq_count = (\<lambda>cs T. (Inr (int (length (selected (\<lambda>v. []) cs (tb_sessions T)))), T)),
      dq_page = (\<lambda>cs most start T.
        if most < 0 \<or> start < 0 then (Inl (OtherException ''DataError''), T)
        else (Inr (take (nat most) (drop (nat start) (sort_desc row_created_at (selected (\<lambda>v. []) cs (tb_sessions T))))), T)),
      dq_update = (\<lambda>i v T.
        (Inr (map (with_values (\<lambda>c. c) v) (filter (\<lambda>x. row_id x = i) (tb_sessions T))),
         T\<lparr>tb_sessions := map (\<lambda>x. if row_id x = i then with_values (\<lambda>c. c) v x else x) (tb_sessions T)\<rparr>)),
      dq_delete_session = (\<lambda>i T.
        if list_ex (\<lambda>x. row_parent_session_id x = Some i \<and> row_id x \<noteq> i) (tb_sessions T)
        then (Inl (IntegrityError ''constraint''), T)
        else (Inr (),
          \<lparr>tb_sessions = filter (\<lambda>x. row_id x \<noteq> i) (tb_sessions T),
           tb_messages = filter (\<lambda>x. mr_session_id x \<noteq> i) (tb_messages T),
           tb_checkpoints = filter (\<lambda>x. cr_session_id x \<noteq> i) (tb_checkpoints T)\<rparr>)),
      dq_insert_message = (\<lambda>i t c T.
        let x = \<lparr>mr_id = ''m'', mr_session_id = i, mr_message_type = t, mr_content = c, mr_created_at = 5\<rparr> in
        if list_ex (\<lambda>r. row_id r = i) (tb_sessions T) then (Inr x, T\<lparr>tb_messages := tb_messages T @ [x]\<rparr>)
        else (Inl (IntegrityError ''constraint''), T)),
      dq_messages = (\<lambda>i most T.
        let ys = sort_asc mr_created_at (filter (\<lambda>x. mr_session_id x = i) (tb_messages T)) in
        (Inr (case most of None \<Rightarrow> ys | Some k \<Rightarrow> take (nat k) ys), T)),
      dq_insert_checkpoint = (\<lambda>i u fs T.
        let x = \<lparr>cr_id = ''c'', cr_session_id = i, cr_user_message_uuid = u, cr_created_at = 5, cr_files_modified = fs\<rparr> in
        if list_ex (\<lambda>r. row_id r = i) (tb_sessions T) \<and> \<not> list_ex (\<lambda>c. cr_user_message_uuid c = u) (tb_checkpoints T)
        then (Inr x, T\<lparr>tb_checkpoints := tb_checkpoints T @ [x]\<rparr>)
        else (Inl (IntegrityError ''constraint''), T)),
      dq_checkpoints = (\<lambda>i T. (Inr (sort_asc cr_created_at (filter (\<lambda>x. cr_session_id x = i) (tb_checkpoints T))), T)),
      dq_checkpoints_by_uuid = (\<lambda>u T. (Inr (filter (\<lambda>x. cr_user_message_uuid x = u) (tb_checkpoints T)), T)),
      dq_rollback = ret ()\<rparr>"

lemma mset_sorts: "mset (sort_asc f xs) = mset xs" "mset (sort_desc f xs) = mset xs"
  by (simp_all add: sort_asc_def sort_desc_def)

interpretation ref_tables: sql_laws ref_database "\<lambda>T. T" "\<lambda>c. c" "\<lambda>v. []"
proof (unfold_locales, goal_cases)
  case (2 n d ru d')
  have ids: "ns_id n \<notin> row_id ` set (tb_sessions d)" if "\<forall>r\<in>set (tb_sessions d). row_id r \<noteq> ns_id n"
    using that by (metis imageE)
  from 2 show ?case
    by (auto simp: ref_database_def list_ex_iff ids intro!: exI [of _ 5] split: if_splits option.splits)
next
  case (3 i d rr d')
  then show ?case
    by (cases "row_at d i") (auto simp: ref_database_def dest: row_id_some)
next
  case (6 cs most start d rs d')
  then show ?case
    by (auto simp: sorted_sort_desc mset_sorts ref_database_def split: if_splits
        intro!: exI [of _ "sort_desc row_created_at (selected (\<lambda>v. []) cs (tb_sessions d))"])
next
  case (8 i d ru d')
  then show ?case by (auto simp: ref_database_def list_ex_iff split: if_splits)
next
  case (9 i t c d rm d')
  then show ?case by (auto simp: ref_database_def list_ex_iff Let_def split: if_splits)
next
  case (10 i most d rms d')
  then show ?case
    by (auto simp: ref_database_def Let_def sorted_sort_asc mset_sorts intro!: exI [of _ "sort_asc mr_created_at (filter (\<lambda>x. mr_session_id x = i) (tb_messages d))"])
next
  case (11 i u fs d rk d')
  then show ?case by (auto simp: ref_database_def list_ex_iff Let_def split: if_splits)
qed (auto simp: ref_database_def sorted_sort_asc mset_sorts)

definition table_service :: "(server redis_world, tables) session_service" where
  "table_service =
     \<lparr>ss_lib = ref_lib, ss_cache = None, ss_repo = Some (session_repository ref_lib ref_database), ss_ttl = 3600\<rparr>"

definition parent_table :: tables where
  "parent_table =
     \<lparr>tb_sessions = [owned_row, owned_row\<lparr>row_id := ''s2'', row_parent_session_id := Some ''s1''\<rparr>],
      tb_messages = [], tb_checkpoints = []\<rparr>"

lemma parent_table_consistent: "consistent parent_table"
  by (simp add: parent_table_def consistent_def owned_row_def new_row_def)


lemma listing_of_owner_witness:
  "\<exists>res w'. list_sessions table_service 1 10 (Some ''key'') None None None None (ref_world parent_table) = (Inr res, w') \<and>
     slr_total res = 2"
proof -
  obtain r w' where run: "list_sessions table_service 1 10 (Some ''key'') None None None None (ref_world parent_table) = (r, w')"
    by fastforce
  then obtain res where r: "r = Inr res"
    by (auto simp: list_sessions_def table_service_def session_repository_def repo_list_sessions_def ref_database_def
        on_db_def and_then_def Let_def)
  have "ss_repo table_service = Some (session_repository (ss_lib table_service) ref_database)"
    by (simp add: table_service_def)
  from listing_of_owner [OF ref_tables.sql_laws_axioms this _ run [unfolded r]] obtain rows where
    "mset rows = mset (filter (\<lambda>r. row_owner_api_key_hash r = Some (hash_api_key ref_lib ''key'')) (tb_sessions parent_table))"
    "slr_total res = int (length rows)"
    by (auto simp: parent_table_def owned_row_def new_row_def text_row_def plain_filters_def matches_metadata_filters_def
        table_service_def)
  then have "slr_total res = int (length (filter (\<lambda>r. row_owner_api_key_hash r = Some (hash_api_key ref_lib ''key'')) (tb_sessions parent_table)))"
    by (metis size_mset)
  also have "\<dots> = 2"
    by (simp add: parent_table_def owned_row_def new_row_def hash_of_owner_def)
  finally show ?thesis using run r by blast
qed

lemma session_outlives_cache_witness:
  "\<exists>s w' s' w''. create_session table_service ''m'' (Some ''s3'') (Some ''s1'') (Some ''key'') (ref_world parent_table) = (Inr s, w') \<and>
     get_session (table_service\<lparr>ss_cache := None\<rparr>) ''s3'' (Some ''key'') w' = (Inr (Some s'), w'') \<and>
     s_parent_session_id s' = Some ''s1''"
proof -
  obtain r w' where c: "create_session table_service ''m'' (Some ''s3'') (Some ''s1'') (Some ''key'') (ref_world parent_table) = (r, w')"
    by fastforce
  then obtain s where s: "r = Inr s" and w': "w_db w' = parent_table\<lparr>tb_sessions := tb_sessions parent_table @
      [inserted_row \<lparr>ns_id = ''s3'', ns_model = ''m'', ns_working_directory = None, ns_parent_session_id = Some ''s1'',
        ns_session_metadata = None, ns_owner_api_key_hash = Some (hash_api_key ref_lib ''key'')\<rparr> 5]\<rparr>"
    by (auto simp: create_session_def table_service_def create_in_db_def uuid_of_def session_repository_def repo_create_def
        ref_database_def parent_table_def owned_row_def new_row_def row_at_def create_in_cache_def cache_session_io_def
        scm_cache_session_def on_db_def and_then_def try_except_def hash_of_owner_def inserted_row_def)
  obtain r2 w'' where g: "get_session (table_service\<lparr>ss_cache := None\<rparr>) ''s3'' (Some ''key'') w' = (r2, w'')" by fastforce
  then obtain found where f: "r2 = Inr found"
    by (auto simp: get_session_def get_cached_session_io_def scm_get_cached_session_def table_service_def get_from_db_def
        uuid_of_def session_repository_def repo_get_def ref_database_def on_db_def w' selected_def parent_table_def
        owned_row_def new_row_def inserted_row_def scalar_one_or_none_def enforce_owner_def map_db_to_service_def
        compare_digest_def hash_api_key_def is_ascii_def cache_session_io_def scm_cache_session_def and_then_def try_except_def)
  have repo: "ss_repo table_service = Some (session_repository (ss_lib table_service) ref_database)"
    by (simp add: table_service_def)
  from c s have "s_id s = ''s3''"
    by (auto simp: create_session_def and_then_Inr Let_def)
  with g f have read: "get_session (table_service\<lparr>ss_cache := None\<rparr>) (s_id s) (Some ''key'') w' = (Inr found, w'')"
    by simp
  from session_outlives_cache [OF ref_tables.sql_laws_axioms repo _ _ c [unfolded s] read] parent_table_consistent
  obtain s' where "found = Some s'" and "s_parent_session_id s' = Some ''s1''"
    by (auto simp: table_service_def)
  with c g s f show ?thesis by blast
qed

text \<open>A session that was forked cannot be deleted: the error of the database reaches the caller.\<close>

lemma delete_forked_raises:
  "fst (repo_delete_session ref_database ''s1'' parent_table) = Inl (IntegrityError ''constraint'')"
  by (simp add: repo_delete_session_def repo_get_def ref_database_def parent_table_def selected_def owned_row_def new_row_def
      scalar_one_or_none_def and_then_def)

text \<open>A wildcard in the search text matches titles that do not contain it.\<close>

lemma search_wildcard: "like ''%a_c%'' ''abc'' \<and> \<not> contains ''a_c'' ''abc''"
  by (simp add: contains_def)

end
