(* ===== verification/Memory.thy ===== *)
theory Memory
  imports Errors AgentQuery
begin

text \<open>
  The memories of a user: \<open>Mem0MemoryAdapter\<close> (\<open>adapters/memory.py\<close>) over the mem0 library,
  \<open>MemoryService\<close> (\<open>services/memory.py\<close>) and the routes of \<open>routes/memories.py\<close> with their
  schemas (\<open>schemas/memory.py\<close>).

  The mem0 library is a parameter, the record \<open>mem0_client\<close> of the calls the adapter makes; the
  adapter holds two clients on one store, with and without the graph. \<open>mem0_laws\<close> states what
  the library documents of its calls, over a view of the stored memories.
\<close>

section \<open>The adapter\<close>

text \<open>What a call of the library returns is any value; in the order of the keyword arguments.\<close>

record 'm mem0_client =
  mm_search :: "string \<Rightarrow> string \<Rightarrow> string \<Rightarrow> int \<Rightarrow> ('m, json) io"
  mm_add :: "string \<Rightarrow> string \<Rightarrow> string \<Rightarrow> json dict \<Rightarrow> ('m, json) io"
  mm_get_all :: "string \<Rightarrow> string \<Rightarrow> ('m, json) io"
  mm_get :: "string \<Rightarrow> ('m, json) io"
  mm_delete :: "string \<Rightarrow> ('m, json) io"
  mm_delete_all :: "string \<Rightarrow> ('m, json) io"

record 'm memory_adapter =
  ma_lib :: pylib
  ma_agent_id :: string
  ma_memory :: "'m mem0_client"
  ma_vector_memory :: "'m mem0_client"
  ma_class_name :: "exn \<Rightarrow> string" \<comment> \<open>\<open>exc.__class__.__name__\<close>\<close>

record memory_search_result =
  mh_id :: string
  mh_memory :: json
  mh_score :: pyfloat
  mh_metadata :: "json dict"

definition memory_client :: "'m memory_adapter \<Rightarrow> bool \<Rightarrow> 'm mem0_client" where
  "memory_client A enable_graph = (if enable_graph then ma_memory A else ma_vector_memory A)"

text \<open>The \<open>except\<close> clauses of \<open>search\<close> and \<open>add\<close>.\<close>

definition unless_denied :: "'m memory_adapter \<Rightarrow> ('m, json) io \<Rightarrow> ('m, json option) io" where
  "unless_denied A m =
     try_except (and_then m (\<lambda>r. ret (Some r)))
       (\<lambda>e. if is_exception e \<and> ma_class_name A e = ''PermissionDeniedError'' then ret None else throw e)"

text \<open>\<open>enumerate(results)\<close>: the items of a list, the keys of a dictionary, the characters of a text.\<close>

fun iterate :: "json \<Rightarrow> exn + json list" where
  "iterate (JArr xs) = Inr xs"
| "iterate (JObj d) = Inr (map (\<lambda>(k, v). JStr k) d)"
| "iterate (JStr s) = Inr (map (\<lambda>c. JStr [c]) s)"
| "iterate _ = Inl (TypeError ''object is not iterable'')"

definition mem_index :: "nat \<Rightarrow> string" where
  "mem_index i = ''mem_'' @ nat_text i"

text \<open>\<open>a or b or ... or ""\<close> over \<open>result.get(key)\<close>.\<close>

fun first_truthy :: "json dict \<Rightarrow> string list \<Rightarrow> json" where
  "first_truthy d [] = JStr []"
| "first_truthy d (k # ks) =
     (case dict_get d k of Some v \<Rightarrow> if truthy v then v else first_truthy d ks | None \<Rightarrow> first_truthy d ks)"

text \<open>\<open>float(x)\<close>\<close>

fun to_float :: "pylib \<Rightarrow> json \<Rightarrow> exn + pyfloat" where
  "to_float L (JFloat f) = Inr f"
| "to_float L (JInt i) = value_or (OverflowError ''int too large to convert to float'') (float_of_int L i)"
| "to_float L (JBool b) = value_or (OverflowError ''int too large to convert to float'') (float_of_int L (of_bool b))"
| "to_float L (JStr t) = value_or (ValueError ''could not convert string to float'') (float_of_text L t)"
| "to_float L _ = Inl (TypeError ''float() argument must be a string or a real number'')"

definition search_relations :: "pylib \<Rightarrow> json \<Rightarrow> json list" where
  "search_relations L results =
     (case results of
        JObj d \<Rightarrow>
          (case dict_get d ''relations'' of
             Some (JArr rels) \<Rightarrow> map (\<lambda>rel. JObj (map (\<lambda>(k, v). (k, JStr (py_str L v))) rel)) (dicts_of rels)
           | _ \<Rightarrow> [])
      | _ \<Rightarrow> [])"

definition search_items :: "json \<Rightarrow> json" where
  "search_items results =
     (case results of
        JObj d \<Rightarrow> (case dict_get d ''results'' of Some (JArr xs) \<Rightarrow> JArr xs | _ \<Rightarrow> results)
      | _ \<Rightarrow> results)"

definition graph_metadata :: "bool \<Rightarrow> json list \<Rightarrow> json dict \<Rightarrow> json dict" where
  "graph_metadata enable_graph relations metadata =
     (let m = dict_set ''_graph_enabled'' (JBool enable_graph) metadata in
      if enable_graph \<and> relations \<noteq> [] then dict_set ''_graph_relations'' (JArr relations) m else m)"

definition search_result :: "pylib \<Rightarrow> bool \<Rightarrow> json list \<Rightarrow> nat \<times> json \<Rightarrow> exn + memory_search_result" where
  "search_result L enable_graph relations = (\<lambda>(index, result).
     case result of
       JObj d \<Rightarrow>
         bind_sum (to_float L (dict_get_or d ''score'' (JFloat (Finite 0 0)))) (\<lambda>score.
         Inr \<lparr>mh_id = (case dict_get d ''id'' of
                         Some v \<Rightarrow> if truthy v then py_str L v else mem_index index
                       | None \<Rightarrow> mem_index index),
              mh_memory = first_truthy d [''memory'', ''text'', ''content'', ''data''],
              mh_score = score,
              mh_metadata = graph_metadata enable_graph relations
                (case dict_get_or d ''metadata'' (JObj []) of JObj m \<Rightarrow> m | _ \<Rightarrow> [])\<rparr>)
     | _ \<Rightarrow>
         Inr \<lparr>mh_id = mem_index index, mh_memory = JStr (py_str L result), mh_score = Finite 0 0,
              mh_metadata = graph_metadata enable_graph relations []\<rparr>)"

definition normalize_search :: "pylib \<Rightarrow> bool \<Rightarrow> json \<Rightarrow> exn + memory_search_result list" where
  "normalize_search L enable_graph results =
     bind_sum (iterate (search_items results)) (\<lambda>items.
     map_sum_list (search_result L enable_graph (search_relations L results)) (enumerate 0 items))"

definition ma_search ::
  "'m memory_adapter \<Rightarrow> string \<Rightarrow> string \<Rightarrow> int \<Rightarrow> bool \<Rightarrow> ('m, memory_search_result list) io" where
  "ma_search A query user_id limit enable_graph =
     and_then (unless_denied A
       (mm_search (memory_client A enable_graph) query user_id (ma_agent_id A) limit)) (\<lambda>r.
     case r of None \<Rightarrow> ret [] | Some results \<Rightarrow> lift_sum (normalize_search (ma_lib A) enable_graph results))"

text \<open>The unwrapping of \<open>add\<close> and \<open>get_all\<close>.\<close>

definition unwrap_memories :: "json \<Rightarrow> json" where
  "unwrap_memories results =
     (case results of
        JObj d \<Rightarrow>
          (case dict_get d ''memories'' of
             Some v \<Rightarrow> v
           | None \<Rightarrow> (case dict_get d ''results'' of Some (JArr xs) \<Rightarrow> JArr xs | _ \<Rightarrow> results))
      | _ \<Rightarrow> results)"

definition without_none :: "json dict \<Rightarrow> json dict" where
  "without_none d = filter (\<lambda>(k, v). v \<noteq> JNull) d"

fun first_text :: "json dict \<Rightarrow> string list \<Rightarrow> string option" where
  "first_text d [] = None"
| "first_text d (k # ks) = (case dict_get d k of Some (JStr s) \<Rightarrow> Some s | _ \<Rightarrow> first_text d ks)"

definition clean_added :: "nat \<Rightarrow> json dict \<Rightarrow> json dict" where
  "clean_added index item =
     (let d = without_none item;
          d1 = (if dict_get d ''memory'' \<noteq> None then d
                else case first_text d [''text'', ''content'', ''data''] of
                  None \<Rightarrow> d | Some s \<Rightarrow> dict_set ''memory'' (JStr s) d) in
      if dict_get d1 ''memory'' \<noteq> None \<and> dict_get d1 ''id'' = None
      then dict_set ''id'' (JStr (mem_index index)) d1 else d1)"

fun added_records :: "nat \<Rightarrow> json list \<Rightarrow> json dict list" where
  "added_records i [] = []"
| "added_records i (JObj d # xs) = clean_added i d # added_records (Suc i) xs"
| "added_records i (JStr s # xs) =
     [(''id'', JStr (mem_index i)), (''memory'', JStr s)] # added_records (Suc i) xs"
| "added_records i (_ # xs) = added_records (Suc i) xs"

definition normalize_added :: "json \<Rightarrow> json dict list" where
  "normalize_added results =
     (case unwrap_memories results of
        JArr xs \<Rightarrow> added_records 0 xs
      | JStr s \<Rightarrow> [[(''id'', JStr ''mem_0''), (''memory'', JStr s)]]
      | _ \<Rightarrow> [])"

definition opt_dict :: "json dict option \<Rightarrow> json dict" where
  "opt_dict metadata = (case metadata of None \<Rightarrow> [] | Some d \<Rightarrow> d)"

definition ma_add ::
  "'m memory_adapter \<Rightarrow> string \<Rightarrow> string \<Rightarrow> json dict option \<Rightarrow> bool \<Rightarrow> ('m, json dict list) io" where
  "ma_add A messages user_id metadata enable_graph =
     and_then (unless_denied A
       (mm_add (memory_client A enable_graph) messages user_id (ma_agent_id A) (opt_dict metadata))) (\<lambda>r.
     ret (case r of None \<Rightarrow> [] | Some results \<Rightarrow> normalize_added results))"

definition listed_records :: "json \<Rightarrow> json dict list" where
  "listed_records results =
     (case unwrap_memories results of JArr xs \<Rightarrow> map without_none (dicts_of xs) | _ \<Rightarrow> [])"

definition ma_get_all :: "'m memory_adapter \<Rightarrow> string \<Rightarrow> ('m, json dict list) io" where
  "ma_get_all A user_id =
     and_then (mm_get_all (ma_memory A) user_id (ma_agent_id A)) (\<lambda>results. ret (listed_records results))"

text \<open>The details of \<open>MemoryNotFoundError\<close> are in \<open>memory_not_found\<close>.\<close>

definition memory_missing :: "string \<Rightarrow> exn" where
  "memory_missing message = APIError message ''MEMORY_NOT_FOUND'' 404"

definition ma_delete :: "'m memory_adapter \<Rightarrow> string \<Rightarrow> string \<Rightarrow> ('m, unit) io" where
  "ma_delete A memory_id user_id =
     and_then (mm_get (ma_memory A) memory_id) (\<lambda>memory_data.
       case memory_data of
         JObj d \<Rightarrow>
           if dict_get d ''user_id'' \<noteq> Some (JStr user_id)
           then throw (memory_missing ''Memory not found or not authorized'')
           else and_then (mm_delete (ma_memory A) memory_id) (\<lambda>_. ret ())
       | _ \<Rightarrow> throw (memory_missing ''Memory not found or returned unexpected format''))"

definition ma_delete_all :: "'m memory_adapter \<Rightarrow> string \<Rightarrow> ('m, unit) io" where
  "ma_delete_all A user_id = and_then (mm_delete_all (ma_memory A) user_id) (\<lambda>_. ret ())"

section \<open>The service\<close>

text \<open>\<open>MemoryProtocol\<close>, the client of the service.\<close>

record 'm memory_protocol =
  mp_search :: "string \<Rightarrow> string \<Rightarrow> int \<Rightarrow> bool \<Rightarrow> ('m, memory_search_result list) io"
  mp_add :: "string \<Rightarrow> string \<Rightarrow> json dict option \<Rightarrow> bool \<Rightarrow> ('m, json dict list) io"
  mp_get_all :: "string \<Rightarrow> ('m, json dict list) io"
  mp_delete :: "string \<Rightarrow> string \<Rightarrow> ('m, unit) io"
  mp_delete_all :: "string \<Rightarrow> ('m, unit) io"

definition mem0_adapter :: "'m memory_adapter \<Rightarrow> 'm memory_protocol" where
  "mem0_adapter A =
     \<lparr>mp_search = ma_search A, mp_add = ma_add A, mp_get_all = ma_get_all A, mp_delete = ma_delete A,
      mp_delete_all = ma_delete_all A\<rparr>"

definition search_memories ::
  "'m memory_protocol \<Rightarrow> string \<Rightarrow> string \<Rightarrow> int \<Rightarrow> bool \<Rightarrow> ('m, memory_search_result list) io" where
  "search_memories C query user_id limit enable_graph = mp_search C query user_id limit enable_graph"

definition add_memory ::
  "'m memory_protocol \<Rightarrow> string \<Rightarrow> string \<Rightarrow> json dict option \<Rightarrow> bool \<Rightarrow> ('m, json dict list) io" where
  "add_memory C messages user_id metadata enable_graph = mp_add C messages user_id metadata enable_graph"

definition get_all_memories :: "'m memory_protocol \<Rightarrow> string \<Rightarrow> ('m, json dict list) io" where
  "get_all_memories C user_id = mp_get_all C user_id"

definition delete_memory :: "'m memory_protocol \<Rightarrow> string \<Rightarrow> string \<Rightarrow> ('m, unit) io" where
  "delete_memory C memory_id user_id = mp_delete C memory_id user_id"

definition delete_all_memories :: "'m memory_protocol \<Rightarrow> string \<Rightarrow> ('m, unit) io" where
  "delete_all_memories C user_id = mp_delete_all C user_id"

text \<open>A search result as the dictionary it is, for \<open>memory_lines\<close> of the context.\<close>

definition result_dict :: "memory_search_result \<Rightarrow> json dict" where
  "result_dict r =
     [(''id'', JStr (mh_id r)), (''memory'', mh_memory r), (''score'', JFloat (mh_score r)),
      (''metadata'', JObj (mh_metadata r))]"

definition format_memory_context ::
  "pylib \<Rightarrow> 'm memory_protocol \<Rightarrow> string \<Rightarrow> string \<Rightarrow> int \<Rightarrow> ('m, string) io" where
  "format_memory_context L C query user_id limit =
     and_then (search_memories C query user_id limit True) (\<lambda>memories.
     lift_sum (memory_lines L (map result_dict memories)))"

section \<open>The routes\<close>

text \<open>\<open>rm_micros\<close> is \<open>int(time.time() * 1000000)\<close>.\<close>

record 'm memory_routes =
  rm_lib :: pylib
  rm_service :: "'m memory_protocol"
  rm_micros :: "('m, int) io"

record memory_search_request =
  msr_query :: string
  msr_limit :: int
  msr_enable_graph :: bool

definition check_memory_search :: "memory_search_request \<Rightarrow> exn + memory_search_request" where
  "check_memory_search q =
     (if msr_query q \<noteq> [] \<and> 1 \<le> msr_limit q \<and> msr_limit q \<le> 100 then Inr q
      else Inl (ValueError ''field out of bounds''))"

record memory_add_request =
  mar_messages :: string
  mar_metadata :: "json dict option"
  mar_enable_graph :: bool

record memory_result =
  me_id :: string
  me_memory :: string
  me_score :: pyfloat
  me_metadata :: "json dict"

record memory_record =
  mrd_id :: string
  mrd_memory :: string
  mrd_hash :: "string option"
  mrd_created_at :: "string option"
  mrd_updated_at :: "string option"
  mrd_user_id :: "string option"
  mrd_agent_id :: "string option"
  mrd_metadata :: "json dict option"

text \<open>The replies with \<open>results\<close> or \<open>memories\<close> and their \<open>count\<close>, and the one of a deletion.\<close>

record memory_search_response =
  mse_results :: "memory_result list"
  mse_count :: int

record memory_list_response =
  mli_memories :: "memory_record list"
  mli_count :: int

record memory_delete_response =
  mde_deleted :: bool
  mde_message :: string

definition str_item :: "json dict \<Rightarrow> string \<Rightarrow> string option" where
  "str_item d k = (case dict_get d k of Some (JStr s) \<Rightarrow> Some s | _ \<Rightarrow> None)"

definition validate_memory_record :: "'m memory_routes \<Rightarrow> json dict \<Rightarrow> ('m, memory_record) io" where
  "validate_memory_record R d =
     (case str_item d ''memory'' of
        None \<Rightarrow> throw (ValueError ''Memory record missing required 'memory' field'')
      | Some memory_value \<Rightarrow>
          and_then
            (if given (str_item d ''id'') then ret (the (str_item d ''id''))
             else and_then (rm_micros R) (\<lambda>timestamp.
               ret (''mem_'' @ take 12 (sha256 (rm_lib R) memory_value) @ ''_'' @ int_text timestamp))) (\<lambda>memory_id.
          ret \<lparr>mrd_id = memory_id, mrd_memory = memory_value, mrd_hash = str_item d ''hash'',
               mrd_created_at = str_item d ''created_at'', mrd_updated_at = str_item d ''updated_at'',
               mrd_user_id = str_item d ''user_id'', mrd_agent_id = str_item d ''agent_id'',
               mrd_metadata = dict_or_none (dict_get d ''metadata'')\<rparr>))"

fun validate_records :: "'m memory_routes \<Rightarrow> json dict list \<Rightarrow> ('m, memory_record list) io" where
  "validate_records R [] = ret []"
| "validate_records R (d # ds) =
     and_then (validate_memory_record R d) (\<lambda>x. and_then (validate_records R ds) (\<lambda>xs. ret (x # xs)))"

definition route_search_memories ::
  "'m memory_routes \<Rightarrow> memory_search_request \<Rightarrow> string \<Rightarrow> ('m, memory_search_response) io" where
  "route_search_memories R request api_key =
     and_then (search_memories (rm_service R) (msr_query request) (hash_api_key (rm_lib R) api_key)
       (msr_limit request) (msr_enable_graph request)) (\<lambda>results.
     ret \<lparr>mse_results = map (\<lambda>r. \<lparr>me_id = mh_id r, me_memory = py_str (rm_lib R) (mh_memory r),
                                 me_score = mh_score r, me_metadata = mh_metadata r\<rparr>) results,
          mse_count = int (length results)\<rparr>)"

definition answer_memories :: "'m memory_routes \<Rightarrow> json dict list \<Rightarrow> ('m, memory_list_response) io" where
  "answer_memories R results =
     and_then (validate_records R results) (\<lambda>validated.
     ret \<lparr>mli_memories = validated, mli_count = int (length validated)\<rparr>)"

definition route_add_memory ::
  "'m memory_routes \<Rightarrow> memory_add_request \<Rightarrow> string \<Rightarrow> ('m, memory_list_response) io" where
  "route_add_memory R request api_key =
     and_then (add_memory (rm_service R) (mar_messages request) (hash_api_key (rm_lib R) api_key)
       (mar_metadata request) (mar_enable_graph request)) (\<lambda>results.
     answer_memories R results)"

definition route_list_memories :: "'m memory_routes \<Rightarrow> string \<Rightarrow> ('m, memory_list_response) io" where
  "route_list_memories R api_key =
     and_then (get_all_memories (rm_service R) (hash_api_key (rm_lib R) api_key)) (\<lambda>memories.
     answer_memories R memories)"

definition route_delete_memory :: "'m memory_routes \<Rightarrow> string \<Rightarrow> string \<Rightarrow> ('m, memory_delete_response) io" where
  "route_delete_memory R memory_id api_key =
     and_then (delete_memory (rm_service R) memory_id (hash_api_key (rm_lib R) api_key)) (\<lambda>_.
     ret \<lparr>mde_deleted = True, mde_message = ''Memory '' @ memory_id @ '' deleted''\<rparr>)"

definition route_delete_all_memories :: "'m memory_routes \<Rightarrow> string \<Rightarrow> ('m, memory_delete_response) io" where
  "route_delete_all_memories R api_key =
     and_then (delete_all_memories (rm_service R) (hash_api_key (rm_lib R) api_key)) (\<lambda>_.
     ret \<lparr>mde_deleted = True, mde_message = ''All memories deleted''\<rparr>)"

end
