(* ===== verification/MemoryProperties.thy ===== *)
theory MemoryProperties
  imports Memory RefLibrary
begin

text \<open>
  The laws of the mem0 client, an instance, and what follows for the memory routes: who may
  change and read which memory, and what a deletion does.
\<close>

section \<open>What the library promises\<close>

lemma list_map_member: "map f xs = map g ys \<Longrightarrow> x \<in> set xs \<Longrightarrow> \<exists>y \<in> set ys. f x = g y"
  by (metis image_iff list.set_map)

lemma filter_weaker:
  assumes "filter P xs = filter P ys" and "\<And>x. x \<in> set xs \<union> set ys \<Longrightarrow> Q x \<Longrightarrow> P x"
  shows "filter Q xs = filter Q ys"
proof -
  have "filter Q zs = filter Q (filter P zs)" if "set zs \<subseteq> set xs \<union> set ys" for zs
    using assms(2) that by (induction zs) auto
  then show ?thesis using assms(1) by (metis Un_upper1 Un_upper2)
qed

record memory_row =
  mw_id :: string
  mw_user :: string
  mw_agent :: string
  mw_text :: string

text \<open>
  \<open>view\<close> are the memories in a state of the store, \<open>entry\<close> is the dictionary the library returns
  for one. A listing may be cut off; an addition may merge or drop memories of the same user and
  agent; a deletion that fails may have been made in part.
\<close>

locale mem0_laws =
  fixes C :: "'m mem0_client"
    and view :: "'m \<Rightarrow> memory_row list"
    and entry :: "memory_row \<Rightarrow> json dict"
  assumes entry: "dict_get (entry x) ''id'' = Some (JStr (mw_id x))"
      "dict_get (entry x) ''memory'' = Some (JStr (mw_text x))"
      "dict_get (entry x) ''user_id'' = Some (JStr (mw_user x))"
    and entry_keys: "distinct_keys (entry x)"
    and search: "mm_search C q u a n m = (r, m') \<Longrightarrow> view m' = view m"
    and add: "mm_add C t u a d m = (r, m') \<Longrightarrow>
      filter (\<lambda>x. mw_user x \<noteq> u \<or> mw_agent x \<noteq> a) (view m') = filter (\<lambda>x. mw_user x \<noteq> u \<or> mw_agent x \<noteq> a) (view m)"
    and get_all: "mm_get_all C u a m = (r, m') \<Longrightarrow>
      view m' = view m \<and>
      (\<forall>v. r = Inr v \<longrightarrow> (\<exists>d rows. v = JObj d \<and> dict_get d ''memories'' = None \<and>
         dict_get d ''results'' = Some (JArr (map (\<lambda>x. JObj (entry x)) rows)) \<and>
         set rows \<subseteq> {x \<in> set (view m). mw_user x = u \<and> mw_agent x = a}))"
    and get: "mm_get C i m = (r, m') \<Longrightarrow>
      view m' = view m \<and>
      (\<forall>d. r = Inr (JObj d) \<longrightarrow> (\<exists>x. filter (\<lambda>y. mw_id y = i) (view m) = [x] \<and> d = entry x))"
    and delete: "mm_delete C i m = (r, m') \<Longrightarrow>
      filter (\<lambda>x. mw_id x \<noteq> i) (view m') = filter (\<lambda>x. mw_id x \<noteq> i) (view m) \<and>
      set (view m') \<subseteq> set (view m) \<and> (\<forall>v. r = Inr v \<longrightarrow> i \<notin> mw_id ` set (view m'))"
    and delete_all: "mm_delete_all C u m = (r, m') \<Longrightarrow>
      filter (\<lambda>x. mw_user x \<noteq> u) (view m') = filter (\<lambda>x. mw_user x \<noteq> u) (view m) \<and>
      (\<forall>v. r = Inr v \<longrightarrow> u \<notin> mw_user ` set (view m'))"
begin

lemma add_keeps: "mm_add C t u a d m = (r, m') \<Longrightarrow> v \<noteq> u \<Longrightarrow>
    filter (\<lambda>x. mw_user x = v) (view m') = filter (\<lambda>x. mw_user x = v) (view m)"
  by (rule filter_weaker [OF add]) auto

lemma delete_all_keeps: "mm_delete_all C u m = (r, m') \<Longrightarrow> v \<noteq> u \<Longrightarrow>
    filter (\<lambda>x. mw_user x = v) (view m') = filter (\<lambda>x. mw_user x = v) (view m)"
  by (rule filter_weaker [OF conjunct1 [OF delete_all]]) auto

text \<open>A memory whose owner is \<open>u\<close> is the only one with its identifier.\<close>

lemma get_owner:
  assumes "mm_get C i m = (Inr (JObj d), m')" and "dict_get d ''user_id'' = Some (JStr u)"
  shows "\<exists>x. filter (\<lambda>y. mw_id y = i) (view m) = [x] \<and> mw_user x = u"
  using get [OF assms(1)] assms(2) entry(3) by auto

lemma delete_keeps:
  assumes "mm_delete C i m = (r, m')" and one: "filter (\<lambda>y. mw_id y = i) (view m) = [x]" and "mw_user x \<noteq> v"
  shows "filter (\<lambda>x. mw_user x = v) (view m') = filter (\<lambda>x. mw_user x = v) (view m)"
proof (rule filter_weaker)
  show "filter (\<lambda>x. mw_id x \<noteq> i) (view m') = filter (\<lambda>x. mw_id x \<noteq> i) (view m)"
    using delete [OF assms(1)] by simp
  fix y assume "y \<in> set (view m') \<union> set (view m)" and "mw_user y = v"
  then have "y \<in> set (view m)" and "y \<noteq> x"
    using delete [OF assms(1)] assms(3) by auto
  then show "mw_id y \<noteq> i"
    using arg_cong [OF one, of set] by auto
qed

end

section \<open>The routes over such a library\<close>

datatype memory_call =
    SearchMemories memory_search_request
  | AddMemory memory_add_request
  | ListMemories
  | DeleteMemory string
  | DeleteAllMemories

datatype memory_reply =
    Found memory_search_response
  | Records memory_list_response
  | Deleted memory_delete_response

definition replied :: "('a \<Rightarrow> memory_reply) \<Rightarrow> ('m, 'a) io \<Rightarrow> ('m, memory_reply) io" where
  "replied f m = and_then m (\<lambda>x. ret (f x))"

fun call_memory :: "'m memory_routes \<Rightarrow> string \<Rightarrow> memory_call \<Rightarrow> ('m, memory_reply) io" where
  "call_memory R k (SearchMemories q) = replied Found (route_search_memories R q k)"
| "call_memory R k (AddMemory q) = replied Records (route_add_memory R q k)"
| "call_memory R k ListMemories = replied Records (route_list_memories R k)"
| "call_memory R k (DeleteMemory i) = replied Deleted (route_delete_memory R i k)"
| "call_memory R k DeleteAllMemories = replied Deleted (route_delete_all_memories R k)"

text \<open>A history of calls with the keys they present; a call that raises leaves its effects.\<close>

fun memory_history :: "'m memory_routes \<Rightarrow> (string \<times> memory_call) list \<Rightarrow> 'm \<Rightarrow> 'm" where
  "memory_history R [] m = m"
| "memory_history R ((k, c) # h) m = memory_history R h (snd (call_memory R k c m))"

definition memories_of :: "('m \<Rightarrow> memory_row list) \<Rightarrow> string \<Rightarrow> 'm \<Rightarrow> memory_row list" where
  "memories_of view u m = filter (\<lambda>x. mw_user x = u) (view m)"

lemmas memory_route_defs = route_search_memories_def route_add_memory_def route_list_memories_def
  route_delete_memory_def route_delete_all_memories_def answer_memories_def replied_def
  search_memories_def add_memory_def get_all_memories_def delete_memory_def delete_all_memories_def

lemma get_without_none:
  "distinct_keys d \<Longrightarrow> dict_get d k = Some v \<Longrightarrow> v \<noteq> JNull \<Longrightarrow> dict_get (without_none d) k = Some v"
  by (induction d) (auto simp: dict_get_def without_none_def distinct_keys_def split: if_splits)

text \<open>What only reads, or writes nothing of a user, step by step.\<close>

definition keeps_memories :: "('m \<Rightarrow> memory_row list) \<Rightarrow> string \<Rightarrow> ('m, 'a) io \<Rightarrow> bool" where
  "keeps_memories view u c \<longleftrightarrow> (\<forall>m. memories_of view u (snd (c m)) = memories_of view u m)"

named_theorems unchanged_intros \<open>effects that leave the memories of a user alone\<close>

lemma unchanged_ret [unchanged_intros]: "keeps_memories view u (ret x)"
  by (simp add: keeps_memories_def)

lemma unchanged_throw [unchanged_intros]: "keeps_memories view u (throw e)"
  by (simp add: keeps_memories_def)

lemma unchanged_lift [unchanged_intros]: "keeps_memories view u (lift_sum r)"
  by (simp add: keeps_memories_def)

lemma unchanged_and_then [unchanged_intros]:
  "keeps_memories view u c \<Longrightarrow> (\<And>x. keeps_memories view u (f x)) \<Longrightarrow> keeps_memories view u (and_then c f)"
  by (auto simp: keeps_memories_def and_then_def split: prod.split sum.split) (metis snd_conv)+

lemma unchanged_try [unchanged_intros]:
  "keeps_memories view u c \<Longrightarrow> (\<And>e. keeps_memories view u (h e)) \<Longrightarrow> keeps_memories view u (try_except c h)"
  by (auto simp: keeps_memories_def try_except_def split: prod.split sum.split) (metis snd_conv)+

lemma unchanged_option [unchanged_intros]:
  "keeps_memories view u c \<Longrightarrow> (\<And>x. keeps_memories view u (f x)) \<Longrightarrow>
     keeps_memories view u (case r of None \<Rightarrow> c | Some x \<Rightarrow> f x)"
  by (cases r) simp_all

lemma unchanged_if [unchanged_intros]:
  "keeps_memories view u c \<Longrightarrow> keeps_memories view u c' \<Longrightarrow> keeps_memories view u (if b then c else c')"
  by simp

lemma unchangedI: "(\<And>m r m'. c m = (r, m') \<Longrightarrow> memories_of view u m' = memories_of view u m) \<Longrightarrow> keeps_memories view u c"
  by (auto simp: keeps_memories_def) (metis surjective_pairing)

lemma unchanged_unless_denied [unchanged_intros]: "keeps_memories view u c \<Longrightarrow> keeps_memories view u (unless_denied A c)"
  unfolding unless_denied_def by (intro unchanged_intros)

lemma unchanged_replied [unchanged_intros]: "keeps_memories view u c \<Longrightarrow> keeps_memories view u (replied f c)"
  unfolding replied_def by (intro unchanged_intros)

text \<open>
  Why a deletion stops before it reaches the store: the lookup raised, the memory is another
  user's, or the lookup gave nothing that is a memory.
\<close>

definition refused_deletion ::
  "'m memory_adapter \<Rightarrow> ('m \<Rightarrow> memory_row list) \<Rightarrow> string \<Rightarrow> string \<Rightarrow> 'm \<Rightarrow> exn \<Rightarrow> bool" where
  "refused_deletion A view i u m e \<longleftrightarrow>
     (case fst (mm_get (ma_memory A) i m) of
        Inl raised \<Rightarrow> e = raised
      | Inr (JObj d) \<Rightarrow> (\<exists>z. filter (\<lambda>y. mw_id y = i) (view m) = [z] \<and> mw_user z \<noteq> u) \<and>
          e = APIError ''Memory not found or not authorized'' ''MEMORY_NOT_FOUND'' 404
      | Inr _ \<Rightarrow> e = APIError ''Memory not found or returned unexpected format'' ''MEMORY_NOT_FOUND'' 404)"

locale adapter_laws = mem: mem0_laws "ma_memory A" view entry + vec: mem0_laws "ma_vector_memory A" view entry
  for A :: "'m memory_adapter" and view entry +
  fixes R :: "'m memory_routes"
  assumes service: "rm_service R = mem0_adapter A"
    and micros: "rm_micros R m = (r, m') \<Longrightarrow> view m' = view m"
begin

lemma unchanged_client:
  "keeps_memories view v (mm_search (memory_client A g) q u a n)"
  "u \<noteq> v \<Longrightarrow> keeps_memories view v (mm_add (memory_client A g) t u a d)"
  "keeps_memories view v (mm_get_all (ma_memory A) u a)"
  "u \<noteq> v \<Longrightarrow> keeps_memories view v (mm_delete_all (ma_memory A) u)"
  "keeps_memories view v (rm_micros R)"
  by (rule unchangedI, auto simp: memories_of_def memory_client_def
      dest: mem.search vec.search mem.add_keeps vec.add_keeps mem.get_all mem.delete_all_keeps micros split: if_splits)+

lemma unchanged_search: "keeps_memories view v (ma_search A q u n g)"
  unfolding ma_search_def by (intro unchanged_intros unchanged_client)

lemma unchanged_add: "u \<noteq> v \<Longrightarrow> keeps_memories view v (ma_add A t u d g)"
  unfolding ma_add_def by (intro unchanged_intros unchanged_client)

lemma unchanged_get_all: "keeps_memories view v (ma_get_all A u)"
  unfolding ma_get_all_def by (intro unchanged_intros unchanged_client)

lemma unchanged_delete_all: "u \<noteq> v \<Longrightarrow> keeps_memories view v (ma_delete_all A u)"
  unfolding ma_delete_all_def by (intro unchanged_intros unchanged_client)

text \<open>Only the owner's request gets as far as the deletion.\<close>

lemma delete_outcome:
  assumes "ma_delete A i u m = (r, m')"
  obtains (missing) e where "r = Inl e" "view m' = view m" "refused_deletion A view i u m e"
  | (deleted) x m1 r' where "filter (\<lambda>y. mw_id y = i) (view m) = [x]" "mw_user x = u"
      "m1 = snd (mm_get (ma_memory A) i m)" "view m1 = view m" "mm_delete (ma_memory A) i m1 = (r', m')" "r = (case r' of Inl e \<Rightarrow> Inl e | Inr _ \<Rightarrow> Inr ())"
proof -
  obtain r1 m1 where g: "mm_get (ma_memory A) i m = (r1, m1)" by fastforce
  then have v1: "view m1 = view m" using mem.get by blast
  show ?thesis
  proof (cases "\<exists>d. r1 = Inr (JObj d) \<and> dict_get d ''user_id'' = Some (JStr u)")
    case True
    then obtain d where d: "r1 = Inr (JObj d)" "dict_get d ''user_id'' = Some (JStr u)" by blast
    obtain r' m2 where m2: "mm_delete (ma_memory A) i m1 = (r', m2)" by fastforce
    show ?thesis
      using mem.get_owner [of i m d m1 u] g d m2 v1 assms
      by (auto simp: ma_delete_def and_then_def split: sum.splits intro: deleted)
  next
    case False
    have foreign: "\<exists>z. filter (\<lambda>y. mw_id y = i) (view m) = [z] \<and> mw_user z \<noteq> u"
      if "r1 = Inr (JObj d)" and "dict_get d ''user_id'' \<noteq> Some (JStr u)" for d
      using mem.get [OF g] mem.entry(3) that by auto
    have "(\<exists>e. r = Inl e \<and> refused_deletion A view i u m e) \<and> m' = m1"
      using assms g False foreign
      by (auto simp: ma_delete_def and_then_def refused_deletion_def memory_missing_def split: sum.splits json.splits if_splits)
    then show ?thesis using v1 missing by blast
  qed
qed

lemma unchanged_delete: "u \<noteq> v \<Longrightarrow> keeps_memories view v (ma_delete A i u)"
proof (rule unchangedI)
  fix m r m' assume "u \<noteq> v" and "ma_delete A i u m = (r, m')"
  from this(2) show "memories_of view v m' = memories_of view v m"
  proof (cases rule: delete_outcome)
    case missing
    then show ?thesis by (simp add: memories_of_def)
  next
    case (deleted x m1 r')
    then show ?thesis
      using mem.delete_keeps [of i m1 r' m' x v] \<open>u \<noteq> v\<close> by (simp add: memories_of_def)
  qed
qed

lemma unchanged_validate: "keeps_memories view v (validate_memory_record R d)"
  unfolding validate_memory_record_def by (intro unchanged_intros unchanged_client)

lemma unchanged_validate_records: "keeps_memories view v (validate_records R ds)"
  by (induction ds) (simp_all only: validate_records.simps, (intro unchanged_intros unchanged_validate | assumption)+)

lemmas unchanged_operations = unchanged_search unchanged_add unchanged_get_all unchanged_delete unchanged_delete_all unchanged_validate_records

lemma unchanged_call:
  assumes "hash_api_key (rm_lib R) k \<noteq> v"
  shows "keeps_memories view v (call_memory R k c)"
  using assms
  by (cases c) (simp_all only: call_memory.simps memory_route_defs service mem0_adapter_def memory_protocol.simps,
      (intro unchanged_intros unchanged_operations | assumption)+)

lemma unchanged_history:
  "\<forall>(k, c) \<in> set h. hash_api_key (rm_lib R) k \<noteq> v \<Longrightarrow>
     memories_of view v (memory_history R h m) = memories_of view v m"
proof (induction h arbitrary: m)
  case (Cons kc h)
  obtain k c where kc: "kc = (k, c)" by fastforce
  have "memories_of view v (memory_history R (kc # h) m) = memories_of view v (snd (call_memory R k c m))"
    using Cons by (simp add: kc)
  also have "\<dots> = memories_of view v m"
    using unchanged_call [of k v c] Cons.prems by (simp add: kc keeps_memories_def)
  finally show ?case .
qed simp

text \<open>The route of a deletion.\<close>

lemma delete_route:
  assumes "route_delete_memory R i k m = (r, m')"
  obtains (refused) e where "r = Inl e" "view m' = view m" "refused_deletion A view i (hash_api_key (rm_lib R) k) m e"
  | (failed) x e where "r = Inl e" "filter (\<lambda>y. mw_id y = i) (view m) = [x]" "mw_user x = hash_api_key (rm_lib R) k"
      "fst (mm_delete (ma_memory A) i (snd (mm_get (ma_memory A) i m))) = Inl e"
      "filter (\<lambda>y. mw_id y \<noteq> i) (view m') = filter (\<lambda>y. mw_id y \<noteq> i) (view m)"
  | (deleted) x where "r = Inr \<lparr>mde_deleted = True, mde_message = ''Memory '' @ i @ '' deleted''\<rparr>"
      "filter (\<lambda>y. mw_id y = i) (view m) = [x]" "mw_user x = hash_api_key (rm_lib R) k"
      "view m' = filter (\<lambda>y. mw_id y \<noteq> i) (view m)"
proof -
  obtain r1 m1 where d: "ma_delete A i (hash_api_key (rm_lib R) k) m = (r1, m1)" by fastforce
  have "m' = m1" and r: "r = (case r1 of Inl e \<Rightarrow> Inl e
      | Inr _ \<Rightarrow> Inr \<lparr>mde_deleted = True, mde_message = ''Memory '' @ i @ '' deleted''\<rparr>)"
    using assms d by (auto simp: route_delete_memory_def delete_memory_def service mem0_adapter_def
        and_then_def split: sum.splits)
  from d show ?thesis
  proof (cases rule: delete_outcome)
    case missing
    then show ?thesis using refused r \<open>m' = m1\<close> by simp
  next
    case (deleted x m2 r')
    note gone = deleted
    have kept: "filter (\<lambda>y. mw_id y \<noteq> i) (view m1) = filter (\<lambda>y. mw_id y \<noteq> i) (view m)"
      using mem.delete [of i m2 r' m1] gone by simp
    show ?thesis
    proof (cases r')
      case (Inl e)
      then show ?thesis using failed gone r kept \<open>m' = m1\<close> by simp
    next
      case (Inr v)
      then have "\<forall>y \<in> set (view m1). mw_id y \<noteq> i"
        using mem.delete [of i m2 r' m1] gone by force
      then have "view m1 = filter (\<lambda>y. mw_id y \<noteq> i) (view m)"
        using kept by (simp add: filter_id_conv [THEN iffD2] flip: kept)
      then show ?thesis
        using that(3) gone r Inr \<open>m' = m1\<close> by simp
    qed
  qed
qed

text \<open>What a listing answers are memories of the user.\<close>

lemma entry_items:
  "str_item (without_none (entry x)) ''memory'' = Some (mw_text x)"
  "str_item (without_none (entry x)) ''user_id'' = Some (mw_user x)"
  using mem.entry [of x] mem.entry_keys [of x] by (simp_all add: str_item_def get_without_none)

lemma validated_entry:
  assumes "validate_memory_record R (without_none (entry x)) m = (r, m')"
  shows "view m' = view m \<and> (\<forall>z. r = Inr z \<longrightarrow> mrd_memory z = mw_text x \<and> mrd_user_id z = Some (mw_user x))"
  using assms micros
  by (fastforce simp: validate_memory_record_def entry_items and_then_def split: if_splits prod.splits sum.splits)

lemma validated_entries:
  "validate_records R (map (\<lambda>x. without_none (entry x)) rows) m = (r, m') \<Longrightarrow>
     view m' = view m \<and>
     (\<forall>zs. r = Inr zs \<longrightarrow> map mrd_memory zs = map mw_text rows \<and> map mrd_user_id zs = map (\<lambda>x. Some (mw_user x)) rows)"
proof (induction rows arbitrary: m r m')
  case (Cons x rows)
  obtain r1 m1 where one: "validate_memory_record R (without_none (entry x)) m = (r1, m1)" by fastforce
  obtain r2 m2 where rest: "validate_records R (map (\<lambda>x. without_none (entry x)) rows) m1 = (r2, m2)" by fastforce
  show ?case
    using Cons.prems one rest validated_entry [OF one] Cons.IH [OF rest]
    by (cases r1; cases r2) auto
qed simp

lemma list_route:
  assumes "route_list_memories R k m = (r, m')"
  shows "view m' = view m \<and> (\<forall>x. r = Inr x \<longrightarrow>
     (\<exists>rows. set rows \<subseteq> set (memories_of view (hash_api_key (rm_lib R) k) m) \<and> mli_count x = int (length rows) \<and>
        map mrd_memory (mli_memories x) = map mw_text rows \<and>
        map mrd_user_id (mli_memories x) = map (\<lambda>x. Some (mw_user x)) rows))"
proof -
  let ?u = "hash_api_key (rm_lib R) k"
  obtain r1 m1 where g: "mm_get_all (ma_memory A) ?u (ma_agent_id A) m = (r1, m1)" by fastforce
  note law = mem.get_all [OF g]
  show ?thesis
  proof (cases r1)
    case (Inl e)
    with g law assms show ?thesis
      by (auto simp: memory_route_defs service mem0_adapter_def ma_get_all_def)
  next
    case (Inr v)
    then obtain d rows where v: "v = JObj d" "dict_get d ''memories'' = None"
        "dict_get d ''results'' = Some (JArr (map (\<lambda>x. JObj (entry x)) rows))"
        "set rows \<subseteq> {x \<in> set (view m). mw_user x = ?u \<and> mw_agent x = ma_agent_id A}"
      using law by blast
    have listed: "listed_records v = map (\<lambda>x. without_none (entry x)) rows"
      using v dicts_of_JObj [of "map entry rows"] by (simp add: listed_records_def unwrap_memories_def comp_def)
    obtain r2 m2 where val: "validate_records R (listed_records v) m1 = (r2, m2)" by fastforce
    note valid = validated_entries [OF val [unfolded listed]]
    have own: "set rows \<subseteq> set (memories_of view ?u m)"
      using v(4) by (auto simp: memories_of_def)
    have run: "r = (case r2 of Inl e \<Rightarrow> Inl e | Inr zs \<Rightarrow> Inr \<lparr>mli_memories = zs, mli_count = int (length zs)\<rparr>) \<and> m' = m2"
      using g val assms Inr
      by (auto simp: memory_route_defs service mem0_adapter_def ma_get_all_def and_then_def split: sum.splits)
    show ?thesis
    proof (cases r2)
      case (Inr zs)
      with valid have zs: "map mrd_memory zs = map mw_text rows"
        "map mrd_user_id zs = map (\<lambda>x. Some (mw_user x)) rows" by auto
      show ?thesis
        using own zs map_eq_imp_length_eq [OF zs(1)] run valid law Inr by auto
    qed (use run valid law in auto)
  qed
qed

lemma delete_all_route:
  assumes "route_delete_all_memories R k m = (r, m')"
  shows "filter (\<lambda>x. mw_user x \<noteq> hash_api_key (rm_lib R) k) (view m') =
      filter (\<lambda>x. mw_user x \<noteq> hash_api_key (rm_lib R) k) (view m) \<and>
    (case r of
       Inr reply \<Rightarrow> memories_of view (hash_api_key (rm_lib R) k) m' = []
     | Inl e \<Rightarrow> fst (mm_delete_all (ma_memory A) (hash_api_key (rm_lib R) k) m) = Inl e)"
proof -
  obtain r1 m1 where g: "mm_delete_all (ma_memory A) (hash_api_key (rm_lib R) k) m = (r1, m1)" by fastforce
  show ?thesis
    using g mem.delete_all [OF g] assms
    by (cases r1, auto simp: memory_route_defs service mem0_adapter_def ma_delete_all_def memories_of_def
        filter_empty_conv image_iff, metis)
qed

end

section \<open>An instance\<close>

text \<open>A library that keeps the texts as they come in a list.\<close>

definition ref_entry :: "memory_row \<Rightarrow> json dict" where
  "ref_entry x =
     [(''id'', JStr (mw_id x)), (''memory'', JStr (mw_text x)), (''user_id'', JStr (mw_user x)),
      (''agent_id'', JStr (mw_agent x))]"

definition ref_results :: "memory_row list \<Rightarrow> json" where
  "ref_results rows = JObj [(''results'', JArr (map (\<lambda>x. JObj (ref_entry x)) rows))]"

definition ref_own :: "string \<Rightarrow> string \<Rightarrow> memory_row list \<Rightarrow> memory_row list" where
  "ref_own u a = filter (\<lambda>x. mw_user x = u \<and> mw_agent x = a)"

definition ref_mem0 :: "memory_row list mem0_client" where
  "ref_mem0 =
     \<lparr>mm_search = (\<lambda>q u a n m. (Inr (ref_results (take (nat n) (ref_own u a m))), m)),
      mm_add = (\<lambda>t u a d m.
        let x = \<lparr>mw_id = nat_text (length m), mw_user = u, mw_agent = a, mw_text = t\<rparr>
        in (Inr (ref_results [x]), m @ [x])),
      mm_get_all = (\<lambda>u a m. (Inr (ref_results (ref_own u a m)), m)),
      mm_get = (\<lambda>i m. (Inr (case filter (\<lambda>x. mw_id x = i) m of [x] \<Rightarrow> JObj (ref_entry x) | _ \<Rightarrow> JNull), m)),
      mm_delete = (\<lambda>i m. (Inr JNull, filter (\<lambda>x. mw_id x \<noteq> i) m)),
      mm_delete_all = (\<lambda>u m. (Inr JNull, filter (\<lambda>x. mw_user x \<noteq> u) m))\<rparr>"

definition ref_memory_adapter :: "memory_row list memory_adapter" where
  "ref_memory_adapter =
     \<lparr>ma_lib = ref_lib, ma_agent_id = ''agent'', ma_memory = ref_mem0, ma_vector_memory = ref_mem0,
      ma_class_name = (\<lambda>e. [])\<rparr>"

definition ref_memory_routes :: "memory_row list memory_routes" where
  "ref_memory_routes =
     \<lparr>rm_lib = ref_lib, rm_service = mem0_adapter ref_memory_adapter, rm_micros = ret 7\<rparr>"

lemmas ref_memory_defs = ref_mem0_def ref_memory_adapter_def ref_memory_routes_def ref_entry_def
  ref_results_def ref_own_def

interpretation ref_memory: adapter_laws ref_memory_adapter "\<lambda>m. m" ref_entry ref_memory_routes
  by unfold_locales
    (auto simp: ref_memory_defs dict_get_def distinct_keys_def Let_def filter_empty_conv split: list.splits)

section \<open>Properties\<close>

text \<open>
  C30: No history of memory calls made with other keys changes the memories of a user,
  whether the calls return or raise; and what the list route then answers to the user are
  texts the library holds for that user, each under the user's own identifier.
\<close>

theorem memories_isolated:
  assumes "adapter_laws A view entry R"
    and "\<forall>(k', c) \<in> set h. hash_api_key (rm_lib R) k' \<noteq> hash_api_key (rm_lib R) k"
    and "m1 = memory_history R h m" and "route_list_memories R k m1 = (r, m2)"
  shows "memories_of view (hash_api_key (rm_lib R) k) m2 = memories_of view (hash_api_key (rm_lib R) k) m \<and>
    (\<forall>x z. r = Inr x \<longrightarrow> z \<in> set (mli_memories x) \<longrightarrow>
       mrd_user_id z = Some (hash_api_key (rm_lib R) k) \<and>
       mrd_memory z \<in> mw_text ` set (memories_of view (hash_api_key (rm_lib R) k) m))"
  using adapter_laws.unchanged_history [OF assms(1,2), of m] adapter_laws.list_route [OF assms(1,4)]
  unfolding assms(3) [symmetric]
  by (fastforce simp: memories_of_def dest: list_map_member)

theorem memories_isolated_witness:
  "memories_of (\<lambda>m. m) ''#ann'' (snd (route_list_memories ref_memory_routes ''ann''
     (memory_history ref_memory_routes [(''bob'', DeleteMemory ''0''), (''bob'', DeleteAllMemories)]
       [\<lparr>mw_id = ''0'', mw_user = ''#ann'', mw_agent = ''agent'', mw_text = ''tea''\<rparr>]))) =
   [\<lparr>mw_id = ''0'', mw_user = ''#ann'', mw_agent = ''agent'', mw_text = ''tea''\<rparr>]"
  using memories_isolated [OF ref_memory.adapter_laws_axioms, of
      "[(''bob'', DeleteMemory ''0''), (''bob'', DeleteAllMemories)]" "''ann''" _
      "[\<lparr>mw_id = ''0'', mw_user = ''#ann'', mw_agent = ''agent'', mw_text = ''tea''\<rparr>]", OF _ refl prod.collapse [symmetric]]
  by (simp add: ref_memory_routes_def hash_api_key_def memories_of_def)


text \<open>Of three memories Ann deletes one of her two; Bob's is not hers to delete.\<close>

definition three_memories :: "memory_row list" where
  "three_memories =
     [\<lparr>mw_id = ''0'', mw_user = ''#ann'', mw_agent = ''agent'', mw_text = ''tea''\<rparr>,
      \<lparr>mw_id = ''1'', mw_user = ''#bob'', mw_agent = ''agent'', mw_text = ''milk''\<rparr>,
      \<lparr>mw_id = ''2'', mw_user = ''#ann'', mw_agent = ''other'', mw_text = ''salt''\<rparr>]"

lemmas memory_example_defs = three_memories_def ref_memory_defs memory_route_defs mem0_adapter_def ma_delete_def
  ma_delete_all_def ma_get_all_def hash_api_key_def dict_get_def listed_records_def unwrap_memories_def memory_missing_def

lemma ann_deletes:
  "route_delete_memory ref_memory_routes ''0'' ''ann'' three_memories =
     (Inr \<lparr>mde_deleted = True, mde_message = ''Memory 0 deleted''\<rparr>, tl three_memories)"
  by (simp_all add: memory_example_defs)


section \<open>Findings\<close>

text \<open>
  The list passes the agent, the deletion of all does not: a memory of another agent is not
  listed, and is deleted.
\<close>

lemma other_agents_memory:
  "map mrd_memory (mli_memories (projr (fst (route_list_memories ref_memory_routes ''ann'' three_memories)))) = [''tea'']"
  "map mw_text (snd (route_delete_all_memories ref_memory_routes ''ann'' three_memories)) = [''milk'']"
  by (simp_all add: memory_example_defs validate_memory_record_def str_item_def without_none_def)

text \<open>One record without a text fails the whole listing.\<close>

lemma record_without_text:
  "str_item d ''memory'' = None \<Longrightarrow> validate_records R (ds @ d # es) m \<noteq> (Inr x, m')"
proof (induction ds arbitrary: m x)
  case Nil
  then show ?case by (simp add: validate_memory_record_def and_then_def)
next
  case (Cons d' ds)
  then show ?case by (auto simp: and_then_Inr)
qed

end
