(* ===== verification/McpRoutes.thy ===== *)
theory McpRoutes
  imports Enrichment Errors
begin

text \<open>
  The routes over MCP servers (\<open>routes/mcp_servers.py\<close>, \<open>routes/mcp_servers_routes/\<close>): the servers
  of the configuration files and of an API key, their resources, and the share tokens, with the
  redaction of credentials in every reply.

  What Pydantic refuses when a reply is constructed is a \<open>ValueError\<close>. The files of the discovery
  are an argument.
\<close>

section \<open>Redaction\<close>

definition sensitive_env_patterns :: "string list" where
  "sensitive_env_patterns =
     [''api_key'', ''apikey'', ''secret'', ''password'', ''token'', ''auth'', ''credential'']"

definition sensitive_header_patterns :: "string list" where
  "sensitive_header_patterns = [''auth'', ''token'', ''authorization'']"

definition matches_pattern :: "string list \<Rightarrow> string \<Rightarrow> bool" where
  "matches_pattern patterns key = list_ex (\<lambda>p. contains p (lower key)) patterns"

text \<open>The loop over \<open>mapping.items()\<close>; what has no items raises.\<close>

definition sanitize_mapping :: "pylib \<Rightarrow> json \<Rightarrow> string list \<Rightarrow> exn + string dict" where
  "sanitize_mapping L mapping patterns =
     (case mapping of
        JObj d \<Rightarrow> Inr (map (\<lambda>(k, v).
          (k, if matches_pattern patterns k then ''***REDACTED***'' else if v = JNull then [] else py_str L v)) d)
      | _ \<Rightarrow> Inl (AttributeError ''items''))"

definition sanitize_part :: "pylib \<Rightarrow> string \<Rightarrow> string list \<Rightarrow> json dict \<Rightarrow> json dict" where
  "sanitize_part L k patterns config =
     (case dict_get config k of
        Some (JObj d) \<Rightarrow>
          (case sanitize_mapping L (JObj d) patterns of Inr s \<Rightarrow> dict_set k (JObj (strings_obj s)) config | _ \<Rightarrow> config)
      | _ \<Rightarrow> config)"

definition sanitize_mcp_config :: "pylib \<Rightarrow> json dict \<Rightarrow> json dict" where
  "sanitize_mcp_config L config =
     sanitize_part L ''headers'' sensitive_header_patterns (sanitize_part L ''env'' sensitive_env_patterns config)"

section \<open>Replies\<close>

record mcp_response =
  mv_id :: string
  mv_name :: string
  mv_transport_type :: string
  mv_command :: "string option"
  mv_args :: "string list option"
  mv_url :: "string option"
  mv_headers :: "string dict"
  mv_env :: "string dict"
  mv_enabled :: bool
  mv_status :: string
  mv_error :: "string option"
  mv_created_at :: "datetime option"
  mv_updated_at :: "datetime option"
  mv_metadata :: "json dict option"
  mv_source :: string

text \<open>The fields \<open>str | None\<close>, \<open>list[str] | None\<close> and \<open>dict[str, object] | None\<close>.\<close>

fun field_text :: "json \<Rightarrow> exn + string option" where
  "field_text JNull = Inr None"
| "field_text (JStr s) = Inr (Some s)"
| "field_text _ = Inl (ValueError ''Input should be a valid string'')"

fun text_item :: "json \<Rightarrow> exn + string" where
  "text_item (JStr s) = Inr s"
| "text_item _ = Inl (ValueError ''Input should be a valid string'')"

fun field_texts :: "json \<Rightarrow> exn + string list option" where
  "field_texts JNull = Inr None"
| "field_texts (JArr xs) = bind_sum (map_sum_list text_item xs) (\<lambda>ts. Inr (Some ts))"
| "field_texts _ = Inl (ValueError ''Input should be a valid list'')"

fun field_dict :: "json \<Rightarrow> exn + json dict option" where
  "field_dict JNull = Inr None"
| "field_dict (JObj d) = Inr (Some d)"
| "field_dict _ = Inl (ValueError ''Input should be a valid dictionary'')"

text \<open>\<open>parse_datetime\<close>: \<open>fromisoformat\<close> of what is no text raises a \<open>TypeError\<close>.\<close>

definition parse_datetime :: "pylib \<Rightarrow> json \<Rightarrow> exn + datetime option" where
  "parse_datetime L v =
     (case v of
        JNull \<Rightarrow> Inr None
      | JStr s \<Rightarrow>
          (case fromisoformat L s of
             Some d \<Rightarrow> Inr (Some d)
           | None \<Rightarrow> Inl (APIError (''Invalid timestamp format: '' @ s) ''VALIDATION_ERROR'' 422))
      | _ \<Rightarrow> Inl (TypeError ''fromisoformat: argument must be str''))"

definition map_filesystem_server :: "pylib \<Rightarrow> string \<Rightarrow> mcp_server_info \<Rightarrow> exn + mcp_response" where
  "map_filesystem_server L name server =
     bind_sum (sanitize_mapping L (JObj (strings_obj (ms_env server))) sensitive_env_patterns) (\<lambda>env.
     bind_sum (sanitize_mapping L (JObj (strings_obj (ms_headers server))) sensitive_header_patterns) (\<lambda>headers.
     Inr \<lparr>mv_id = ''fs:'' @ name, mv_name = name, mv_transport_type = transport_text (ms_type server),
          mv_command = ms_command server, mv_args = Some (ms_args server), mv_url = ms_url server,
          mv_headers = headers, mv_env = env, mv_enabled = True, mv_status = ''active'', mv_error = None,
          mv_created_at = None, mv_updated_at = None, mv_metadata = None, mv_source = ''filesystem''\<rparr>))"

definition sanitized_if_any :: "pylib \<Rightarrow> json \<Rightarrow> string list \<Rightarrow> exn + string dict" where
  "sanitized_if_any L mapping patterns =
     (if truthy mapping then sanitize_mapping L mapping patterns else Inr [])"

definition map_server :: "pylib \<Rightarrow> mcp_record \<Rightarrow> exn + mcp_response" where
  "map_server L r =
     bind_sum (sanitized_if_any L (mr_env r) sensitive_env_patterns) (\<lambda>env.
     bind_sum (sanitized_if_any L (mr_headers r) sensitive_header_patterns) (\<lambda>headers.
     bind_sum (parse_datetime L (JStr (mr_created_at r))) (\<lambda>created.
     bind_sum (if truthy (mr_updated_at r) then parse_datetime L (mr_updated_at r) else Inr None) (\<lambda>updated.
     bind_sum (field_text (mr_command r)) (\<lambda>command.
     bind_sum (field_texts (mr_args r)) (\<lambda>args.
     bind_sum (field_text (mr_url r)) (\<lambda>url.
     bind_sum (field_text (mr_error r)) (\<lambda>error.
     bind_sum (field_dict (mr_metadata r)) (\<lambda>metadata.
     Inr \<lparr>mv_id = mr_id r, mv_name = mr_name r, mv_transport_type = mr_transport_type r, mv_command = command,
          mv_args = args, mv_url = url, mv_headers = headers, mv_env = env, mv_enabled = mr_enabled r,
          mv_status = mr_status r, mv_error = error, mv_created_at = created, mv_updated_at = updated,
          mv_metadata = metadata, mv_source = ''database''\<rparr>)))))))))"

section \<open>Servers\<close>

record 'c mcp_routes =
  mx_lib :: pylib
  mx_cache :: "'c cache"
  mx_files :: server_files
  mx_share_ttl :: int

definition handle_database_errors :: "string \<Rightarrow> ('w, 'a) io \<Rightarrow> ('w, 'a) io" where
  "handle_database_errors operation func =
     try_except func (\<lambda>e.
       case e of
         OperationalError _ \<Rightarrow> throw (APIError ''Database temporarily unavailable'' ''DATABASE_UNAVAILABLE'' 503)
       | IntegrityError _ \<Rightarrow> throw e
       | _ \<Rightarrow>
           if api_error_of e \<noteq> None \<or> \<not> is_exception e then throw e
           else throw (APIError (''Failed to '' @ map (\<lambda>c. if c = CHR ''_'' then CHR '' '' else c) operation)
                  ''INTERNAL_ERROR'' 500))"

definition server_missing :: exn where
  "server_missing = APIError ''MCP server not found'' ''MCP_SERVER_NOT_FOUND'' 404"

definition is_fs_name :: "string \<Rightarrow> bool" where
  "is_fs_name name = prefix ''fs:'' name"

definition list_mcp_servers ::
  "'c mcp_routes \<Rightarrow> string \<Rightarrow> string option \<Rightarrow> (('c, 'd) world, mcp_response list) io" where
  "list_mcp_servers R api_key source =
     and_then
       (if source = Some ''database'' then ret []
        else lift_sum (bind_sum (discover_servers (mx_lib R) (mx_files R)) (\<lambda>fs_servers.
          map_sum_list (\<lambda>(name, server). map_filesystem_server (mx_lib R) name server) fs_servers))) (\<lambda>fs.
     and_then
       (if source = Some ''filesystem'' then ret []
        else and_then (handle_database_errors ''list_servers''
               (list_servers_for_api_key (mx_lib R) (mx_cache R) api_key)) (\<lambda>db_servers.
             lift_sum (map_sum_list (map_server (mx_lib R)) db_servers))) (\<lambda>db.
     ret (fs @ db)))"

text \<open>The schema of the request: a name of 1 to 100 characters.\<close>

definition check_create_name :: "string \<Rightarrow> exn + string" where
  "check_create_name name =
     (if 1 \<le> length name \<and> length name \<le> 100 then Inr name else Inl (ValueError ''field out of bounds''))"

definition server_exists :: exn where
  "server_exists = APIError ''MCP server with this name already exists'' ''MCP_SERVER_EXISTS'' 409"

definition create_mcp_server ::
  "'c mcp_routes \<Rightarrow> string \<Rightarrow> string \<Rightarrow> string \<Rightarrow> json dict \<Rightarrow> (('c, 'd) world, mcp_response) io" where
  "create_mcp_server R api_key name transport_type config =
     try_except
       (and_then (handle_database_errors ''create_server''
          (create_server_for_api_key (mx_lib R) (mx_cache R) api_key name transport_type config)) (\<lambda>server.
        case server of None \<Rightarrow> throw server_exists | Some r \<Rightarrow> lift_sum (map_server (mx_lib R) r)))
       (\<lambda>e. case e of IntegrityError _ \<Rightarrow> throw server_exists | _ \<Rightarrow> throw e)"

definition fs_server :: "'c mcp_routes \<Rightarrow> string \<Rightarrow> exn + mcp_response" where
  "fs_server R server_name =
     bind_sum (discover_servers (mx_lib R) (mx_files R)) (\<lambda>fs_servers.
       case map_of fs_servers server_name of
         Some server \<Rightarrow> map_filesystem_server (mx_lib R) server_name server
       | None \<Rightarrow> Inl (APIError ''Filesystem MCP server not found'' ''MCP_SERVER_NOT_FOUND'' 404))"

definition stored_server ::
  "'c mcp_routes \<Rightarrow> string \<Rightarrow> string \<Rightarrow> string \<Rightarrow> (('c, 'd) world, mcp_record) io" where
  "stored_server R operation api_key name =
     and_then (handle_database_errors operation
       (get_server_for_api_key (mx_lib R) (mx_cache R) api_key name)) (\<lambda>server.
     case server of None \<Rightarrow> throw server_missing | Some r \<Rightarrow> ret r)"

definition get_mcp_server :: "'c mcp_routes \<Rightarrow> string \<Rightarrow> string \<Rightarrow> (('c, 'd) world, mcp_response) io" where
  "get_mcp_server R api_key name =
     (if is_fs_name name then lift_sum (fs_server R (drop 3 name))
      else and_then (stored_server R ''get_server'' api_key name) (\<lambda>r. lift_sum (map_server (mx_lib R) r)))"

definition server_readonly :: "string \<Rightarrow> exn" where
  "server_readonly verb =
     APIError (''Filesystem MCP servers cannot be '' @ verb @ '' via API. Edit the config file directly.'')
       ''MCP_SERVER_READONLY'' 400"

definition update_mcp_server ::
  "'c mcp_routes \<Rightarrow> string \<Rightarrow> string \<Rightarrow> string option \<Rightarrow> json dict option \<Rightarrow>
     (('c, 'd) world, mcp_response) io" where
  "update_mcp_server R api_key name transport_type config =
     (if is_fs_name name then throw (server_readonly ''updated'')
      else and_then (handle_database_errors ''update_server''
             (update_server_for_api_key (mx_lib R) (mx_cache R) api_key name transport_type config)) (\<lambda>server.
           case server of None \<Rightarrow> throw server_missing | Some r \<Rightarrow> lift_sum (map_server (mx_lib R) r)))"

definition delete_mcp_server :: "'c mcp_routes \<Rightarrow> string \<Rightarrow> string \<Rightarrow> (('c, 'd) world, unit) io" where
  "delete_mcp_server R api_key name =
     (if is_fs_name name then throw (server_readonly ''deleted'')
      else and_then (handle_database_errors ''delete_server''
             (delete_server_for_api_key (mx_lib R) (mx_cache R) api_key name)) (\<lambda>deleted.
           if deleted then ret () else throw server_missing))"

section \<open>Resources\<close>

record mcp_resource =
  rs_uri :: string
  rs_name :: "string option"
  rs_description :: "string option"
  rs_mime_type :: "string option"

record mcp_resource_content =
  rk_uri :: string
  rk_mime_type :: "string option"
  rk_text :: "string option"

text \<open>\<open>server.resources or []\<close>, then \<open>resource.get\<close> on each item, which only a dictionary has.\<close>

definition resource_items :: "json \<Rightarrow> exn + json list" where
  "resource_items v = (if truthy v then py_list v else Inr [])"

fun resource_dict :: "json \<Rightarrow> exn + json dict" where
  "resource_dict (JObj d) = Inr d"
| "resource_dict _ = Inl (AttributeError ''get'')"

definition resource_response :: "pylib \<Rightarrow> json \<Rightarrow> exn + mcp_resource" where
  "resource_response L v =
     bind_sum (resource_dict v) (\<lambda>d.
     bind_sum (field_text (raw_get d ''name'')) (\<lambda>name.
     bind_sum (field_text (raw_get d ''description'')) (\<lambda>description.
     bind_sum (field_text (raw_get d ''mimeType'')) (\<lambda>mime_type.
     Inr \<lparr>rs_uri = py_str L (dict_get_or d ''uri'' (JStr [])), rs_name = name, rs_description = description,
          rs_mime_type = mime_type\<rparr>))))"

definition list_mcp_resources ::
  "'c mcp_routes \<Rightarrow> string \<Rightarrow> string \<Rightarrow> (('c, 'd) world, mcp_resource list) io" where
  "list_mcp_resources R api_key name =
     and_then (stored_server R ''list_resources'' api_key name) (\<lambda>server.
     lift_sum (bind_sum (resource_items (mr_resources server)) (map_sum_list (resource_response (mx_lib R)))))"

fun find_resource :: "pylib \<Rightarrow> string \<Rightarrow> json list \<Rightarrow> exn + mcp_resource_content" where
  "find_resource L uri [] = Inl (APIError ''Resource not found'' ''MCP_RESOURCE_NOT_FOUND'' 404)"
| "find_resource L uri (v # vs) =
     bind_sum (resource_dict v) (\<lambda>d.
       if py_str L (raw_get d ''uri'') = uri then
         bind_sum (field_text (raw_get d ''mimeType'')) (\<lambda>mime_type.
         bind_sum (field_text (raw_get d ''text'')) (\<lambda>content.
         Inr \<lparr>rk_uri = uri, rk_mime_type = mime_type, rk_text = content\<rparr>))
       else find_resource L uri vs)"

definition get_mcp_resource ::
  "'c mcp_routes \<Rightarrow> string \<Rightarrow> string \<Rightarrow> string \<Rightarrow> (('c, 'd) world, mcp_resource_content) io" where
  "get_mcp_resource R api_key name uri =
     and_then (stored_server R ''get_resource'' api_key name) (\<lambda>server.
     lift_sum (bind_sum (resource_items (mr_resources server)) (find_resource (mx_lib R) uri)))"

section \<open>Shares\<close>

record mcp_share_response =
  mq_share_token :: string
  mq_name :: string
  mq_config :: "json dict"
  mq_created_at :: string

definition required_dict :: "json \<Rightarrow> exn + json dict" where
  "required_dict v =
     bind_sum (field_dict v) (\<lambda>d. value_or (ValueError ''Input should be a valid dictionary'') d)"

definition create_mcp_share ::
  "'c mcp_routes \<Rightarrow> string \<Rightarrow> json dict \<Rightarrow> (('c, 'd) world, mcp_share_response) io" where
  "create_mcp_share R name config =
     and_then (create_share (mx_lib R) (mx_cache R) (mx_share_ttl R) name (sanitize_mcp_config (mx_lib R) config))
       (\<lambda>(token, payload).
     lift_sum (bind_sum (required_dict (sh_config payload)) (\<lambda>shared.
       Inr \<lparr>mq_share_token = token, mq_name = sh_name payload, mq_config = shared,
            mq_created_at = sh_created_at payload\<rparr>)))"

record mcp_share_payload =
  mz_name :: string
  mz_config :: "json dict"
  mz_created_at :: string

definition get_mcp_share :: "'c mcp_routes \<Rightarrow> string \<Rightarrow> (('c, 'd) world, mcp_share_payload) io" where
  "get_mcp_share R x_share_token =
     and_then (get_share (mx_lib R) (mx_cache R) x_share_token) (\<lambda>payload.
       case payload of
         None \<Rightarrow> throw (APIError ''MCP share token not found'' ''MCP_SHARE_NOT_FOUND'' 404)
       | Some p \<Rightarrow>
           lift_sum (bind_sum (required_dict (sh_config p)) (\<lambda>config.
             Inr \<lparr>mz_name = sh_name p, mz_config = config, mz_created_at = sh_created_at p\<rparr>)))"

section \<open>Dispatch\<close>

text \<open>The endpoints in the order in which the routers are included.\<close>

datatype endpoint =
    ListServers | CreateServer | GetServer | UpdateServer | DeleteServer | ListResources | GetResource
  | CreateShare | GetShare

definition mcp_endpoints :: "(string \<times> string \<times> endpoint) list" where
  "mcp_endpoints =
     [(''GET'', ''/mcp-servers'', ListServers), (''POST'', ''/mcp-servers'', CreateServer),
      (''GET'', ''/mcp-servers/{name}'', GetServer), (''PUT'', ''/mcp-servers/{name}'', UpdateServer),
      (''DELETE'', ''/mcp-servers/{name}'', DeleteServer), (''GET'', ''/mcp-servers/{name}/resources'', ListResources),
      (''GET'', ''/mcp-servers/{name}/resources/{uri:path}'', GetResource),
      (''POST'', ''/mcp-servers/{name}/share'', CreateShare), (''GET'', ''/mcp-servers/share'', GetShare)]"

text \<open>The framework takes the first route whose method and path match; how paths match is its affair.\<close>

definition endpoint_for :: "(string \<Rightarrow> string \<Rightarrow> bool) \<Rightarrow> string \<Rightarrow> string \<Rightarrow> endpoint option" where
  "endpoint_for matches http_method path =
     map_option (\<lambda>(m, p, e). e) (find (\<lambda>(m, p, e). m = http_method \<and> matches p path) mcp_endpoints)"

end
