(* ===== verification/McpRouteProperties.thy ===== *)
theory McpRouteProperties
  imports McpRoutes McpProperties RegistryProperties
begin

text \<open>
  The MCP routes act on the servers of an API key as on a finite map, and no reply shows a
  credential under one of the names the redaction knows.
\<close>

section \<open>Redaction\<close>

definition hides :: "string list \<Rightarrow> string dict \<Rightarrow> bool" where
  "hides patterns d \<longleftrightarrow> (\<forall>(k, v) \<in> set d. matches_pattern patterns k \<longrightarrow> v = ''***REDACTED***'')"

definition credentials_hidden :: "mcp_response \<Rightarrow> bool" where
  "credentials_hidden v \<longleftrightarrow> hides sensitive_env_patterns (mv_env v) \<and> hides sensitive_header_patterns (mv_headers v)"

lemma sanitize_hides: "sanitize_mapping L m patterns = Inr d \<Longrightarrow> hides patterns d"
  by (auto simp: sanitize_mapping_def hides_def split: json.splits)

lemma sanitized_if_any_hides: "sanitized_if_any L m patterns = Inr d \<Longrightarrow> hides patterns d"
  by (auto simp: sanitized_if_any_def hides_def dest!: sanitize_hides split: if_splits)

lemma map_server_hides: "map_server L r = Inr v \<Longrightarrow> credentials_hidden v"
  by (auto simp: map_server_def bind_sum_Inr credentials_hidden_def dest: sanitized_if_any_hides)

lemma map_filesystem_hides: "map_filesystem_server L n s = Inr v \<Longrightarrow> credentials_hidden v"
  by (auto simp: map_filesystem_server_def bind_sum_Inr credentials_hidden_def dest: sanitize_hides)

lemma map_sum_list_all:
  "map_sum_list f xs = Inr ys \<Longrightarrow> y \<in> set ys \<Longrightarrow> \<exists>x \<in> set xs. f x = Inr y"
  by (induction xs arbitrary: ys) (auto simp: bind_sum_Inr)

lemma map_sum_list_rel: "map_sum_list f xs = Inr ys \<longleftrightarrow> list_all2 (\<lambda>x y. f x = Inr y) xs ys"
  by (induction xs arbitrary: ys) (auto simp: bind_sum_Inr list_all2_Cons1)

section \<open>Calls\<close>

datatype mcp_call =
    ListMcp "string option"
  | CreateMcp string string "json dict"
  | GetMcp string
  | UpdateMcp string "string option" "json dict option"
  | DeleteMcp string

datatype mcp_reply = Servers "mcp_response list" | Server mcp_response | NoContent

fun call_mcp :: "'c mcp_routes \<Rightarrow> string \<Rightarrow> mcp_call \<Rightarrow> (('c, 'd) world, mcp_reply) io" where
  "call_mcp R k (ListMcp source) = and_then (list_mcp_servers R k source) (\<lambda>vs. ret (Servers vs))"
| "call_mcp R k (CreateMcp n t c) = and_then (create_mcp_server R k n t c) (\<lambda>v. ret (Server v))"
| "call_mcp R k (GetMcp n) = and_then (get_mcp_server R k n) (\<lambda>v. ret (Server v))"
| "call_mcp R k (UpdateMcp n t c) = and_then (update_mcp_server R k n t c) (\<lambda>v. ret (Server v))"
| "call_mcp R k (DeleteMcp n) = and_then (delete_mcp_server R k n) (\<lambda>_. ret NoContent)"

text \<open>
  A configuration the service reads back as it was given: a JSON object in which the arguments and
  the resources, where they are given in an update, are lists. A creation makes lists of them.
\<close>

definition good_config :: "json dict \<Rightarrow> bool" where
  "good_config c \<longleftrightarrow> wf_dict c \<and>
     (case dict_get_or c ''args'' (JArr []) of JNull \<Rightarrow> True | JArr _ \<Rightarrow> True | _ \<Rightarrow> False) \<and>
     (case dict_get_or c ''resources'' (JArr []) of JArr _ \<Rightarrow> True | _ \<Rightarrow> False)"

fun good_call :: "mcp_call \<Rightarrow> bool" where
  "good_call (CreateMcp n t c) = wf_dict c"
| "good_call (UpdateMcp n t c) = (case c of None \<Rightarrow> True | Some d \<Rightarrow> good_config d)"
| "good_call _ = True"

text \<open>What a reply says of the map before and after.\<close>

definition discovered :: "'c mcp_routes \<Rightarrow> mcp_response list \<Rightarrow> bool" where
  "discovered R vs \<longleftrightarrow> (\<exists>infos. discover_servers (mx_lib R) (mx_files R) = Inr infos \<and>
     list_all2 (\<lambda>x v. map_filesystem_server (mx_lib R) (fst x) (snd x) = Inr v) infos vs)"

text \<open>
  The record a creation stores and the one an update leaves: what the configuration names is
  taken from it; the rest is the default, or stays.
\<close>

definition taken :: "json dict \<Rightarrow> string \<Rightarrow> json \<Rightarrow> json" where
  "taken c k old = (case dict_get c k of None \<Rightarrow> old | Some v \<Rightarrow> v)"

definition server_made :: "string \<Rightarrow> string \<Rightarrow> json dict \<Rightarrow> mcp_record \<Rightarrow> bool" where
  "server_made n t c r \<longleftrightarrow>
     mr_name r = n \<and> mr_transport_type r = t \<and> mr_updated_at r = JNull \<and>
     mr_command r = taken c ''command'' JNull \<and> mr_url r = taken c ''url'' JNull \<and>
     mr_headers r = taken c ''headers'' JNull \<and> mr_env r = taken c ''env'' JNull \<and>
     mr_error r = taken c ''error'' JNull \<and> mr_metadata r = taken c ''metadata'' JNull \<and>
     mr_enabled r = truthy (taken c ''enabled'' (JBool True))"

definition server_revised :: "mcp_record \<Rightarrow> string option \<Rightarrow> json dict option \<Rightarrow> mcp_record \<Rightarrow> bool" where
  "server_revised r t c r' \<longleftrightarrow>
     (let d = (case c of None \<Rightarrow> [] | Some d \<Rightarrow> d) in
      mr_id r' = mr_id r \<and> mr_name r' = mr_name r \<and> mr_created_at r' = mr_created_at r \<and>
      mr_transport_type r' = (if given t then the t else mr_transport_type r) \<and> mr_updated_at r' \<noteq> JNull \<and>
      mr_command r' = taken d ''command'' (mr_command r) \<and> mr_args r' = taken d ''args'' (mr_args r) \<and>
      mr_url r' = taken d ''url'' (mr_url r) \<and> mr_headers r' = taken d ''headers'' (mr_headers r) \<and>
      mr_env r' = taken d ''env'' (mr_env r) \<and> mr_error r' = taken d ''error'' (mr_error r) \<and>
      mr_metadata r' = taken d ''metadata'' (mr_metadata r) \<and> mr_resources r' = taken d ''resources'' (mr_resources r) \<and>
      mr_enabled r' = truthy (taken d ''enabled'' (JBool (mr_enabled r))))"

lemma taken_or: "dict_get_or c k old = taken c k old"
  by (simp add: dict_get_or_def taken_def dict_get_def)

lemma new_server_made: "new_server L i now n t c = Inr r \<Longrightarrow> server_made n t c r"
  unfolding new_server_def bind_sum_Inr server_made_def raw_get_def taken_or by force

lemma changed_server_revised [simp]: "server_revised r t c (changed_server L r now t c)"
  by (simp add: changed_server_def server_revised_def Let_def taken_or)

fun mcp_outcome ::
  "'c mcp_routes \<Rightarrow> mcp_call \<Rightarrow> (string \<Rightarrow> mcp_record option) \<Rightarrow> mcp_reply \<Rightarrow> (string \<Rightarrow> mcp_record option) \<Rightarrow> bool" where
  "mcp_outcome R (ListMcp source) M (Servers vs) M' \<longleftrightarrow> M' = M \<and>
     (\<exists>fs db names. vs = fs @ db \<and>
        (if source = Some ''database'' then fs = [] else discovered R fs) \<and>
        (if source = Some ''filesystem'' then db = []
         else distinct names \<and> set names = dom M \<and>
              list_all2 (\<lambda>n v. map_server (mx_lib R) (the (M n)) = Inr v) names db))"
| "mcp_outcome R (CreateMcp n t c) M (Server v) M' \<longleftrightarrow> M n = None \<and>
     (\<exists>i now r. new_server (mx_lib R) i now n t c = Inr r \<and> server_made n t c r \<and> map_server (mx_lib R) r = Inr v \<and> M' = M(n \<mapsto> r))"
| "mcp_outcome R (GetMcp n) M (Server v) M' \<longleftrightarrow> M' = M \<and>
     (if is_fs_name n then fs_server R (drop 3 n) = Inr v
      else \<exists>r. M n = Some r \<and> map_server (mx_lib R) r = Inr v)"
| "mcp_outcome R (UpdateMcp n t c) M (Server v) M' \<longleftrightarrow> \<not> is_fs_name n \<and>
     (\<exists>r now. M n = Some r \<and> server_revised r t c (changed_server (mx_lib R) r now t c) \<and> map_server (mx_lib R) (changed_server (mx_lib R) r now t c) = Inr v \<and>
        M' = M(n \<mapsto> changed_server (mx_lib R) r now t c))"
| "mcp_outcome R (DeleteMcp n) M NoContent M' \<longleftrightarrow> \<not> is_fs_name n \<and> M n \<noteq> None \<and> M' = M(n := None)"
| "mcp_outcome R _ M _ M' \<longleftrightarrow> False"

fun shown :: "mcp_reply \<Rightarrow> mcp_response list" where
  "shown (Servers vs) = vs"
| "shown (Server v) = [v]"
| "shown NoContent = []"

lemma all2_mem: "list_all2 P xs ys \<Longrightarrow> (\<And>x y. P x y \<Longrightarrow> Q y) \<Longrightarrow> y \<in> set ys \<Longrightarrow> Q y"
  by (induction xs ys rule: list_all2_induct) auto

lemma discovered_hides: "discovered R vs \<Longrightarrow> v \<in> set vs \<Longrightarrow> credentials_hidden v"
  unfolding discovered_def by (auto dest: map_filesystem_hides elim!: all2_mem)

lemma fs_server_hides: "fs_server R n = Inr v \<Longrightarrow> credentials_hidden v"
  by (auto simp: fs_server_def bind_sum_Inr dest: map_filesystem_hides split: option.splits)

lemma stored_hides:
  "list_all2 (\<lambda>n v. map_server L (the (M n)) = Inr v) names vs \<Longrightarrow> v \<in> set vs \<Longrightarrow> credentials_hidden v"
  by (erule all2_mem) (auto dest: map_server_hides)

lemma outcome_hides: "mcp_outcome R c M reply M' \<Longrightarrow> v \<in> set (shown reply) \<Longrightarrow> credentials_hidden v"
  by (cases c; cases reply)
     (auto dest: map_server_hides fs_server_hides discovered_hides stored_hides split: if_splits)

section \<open>The steps\<close>

lemma errors_pass [simp]: "handle_database_errors operation f w = (Inr x, w') \<longleftrightarrow> f w = (Inr x, w')"
proof -
  have "(case e of
      OperationalError _ \<Rightarrow> throw (APIError ''Database temporarily unavailable'' ''DATABASE_UNAVAILABLE'' 503)
    | IntegrityError _ \<Rightarrow> throw e
    | _ \<Rightarrow> if api_error_of e \<noteq> None \<or> \<not> is_exception e then throw e
        else throw (APIError (''Failed to '' @ map (\<lambda>c. if c = CHR ''_'' then CHR '' '' else c) operation)
          ''INTERNAL_ERROR'' 500)) v \<noteq> (Inr x, w')" for e v
    by (cases e) auto
  then show ?thesis unfolding handle_database_errors_def try_except_Inr by blast
qed

lemma create_server_reply:
  assumes "create_mcp_server R k n t c w = (Inr v, w')"
  obtains r where "create_server_for_api_key (mx_lib R) (mx_cache R) k n t c w = (Inr (Some r), w')"
    and "map_server (mx_lib R) r = Inr v"
proof -
  have "(case e of IntegrityError _ \<Rightarrow> throw server_exists | _ \<Rightarrow> throw e) w1 \<noteq> (Inr v, w')" for e w1
    by (cases e) auto
  with assms obtain s w1 where s: "create_server_for_api_key (mx_lib R) (mx_cache R) k n t c w = (Inr s, w1)"
    and "(case s of None \<Rightarrow> throw server_exists | Some r \<Rightarrow> lift_sum (map_server (mx_lib R) r)) w1 = (Inr v, w')"
    unfolding create_mcp_server_def try_except_Inr and_then_Inr errors_pass by blast
  then show ?thesis using that by (cases s) auto
qed

lemma wf_get: "wf_dict c \<Longrightarrow> wf_json x \<Longrightarrow> wf_json (dict_get_or c k x)"
  by (auto simp: dict_get_or_def wf_dict_iff dest!: map_of_SomeD split: option.split)

lemma wf_py_list: "wf_json v \<Longrightarrow> py_list v = Inr xs \<Longrightarrow> list_all wf_json xs"
  by (cases v rule: py_list.cases) (auto simp: list_all_iff)

lemma new_server_good:
  assumes "wf_dict c" and "new_server L i now n t c = Inr r"
  shows "wf_mcp r" and "mr_name r = n"
proof -
  have raw: "wf_json (raw_get c k)" for k
    using assms(1) by (simp add: raw_get_def wf_get)
  show "wf_mcp r"
    using assms(2) raw
    by (auto simp: new_server_def wf_mcp_def bind_sum_Inr args_list_def resources_list_def
        dest: wf_py_list [OF raw] split: if_splits)
  show "mr_name r = n"
    using assms(2) by (auto simp: new_server_def bind_sum_Inr)
qed

lemma changed_server_good:
  assumes "wf_mcp r" and "case c of None \<Rightarrow> True | Some d \<Rightarrow> good_config d"
  shows "wf_mcp (changed_server L r now t c)" and "mr_name (changed_server L r now t c) = mr_name r"
proof -
  define d where "d = (case c of None \<Rightarrow> [] | Some c \<Rightarrow> c)"
  have d: "good_config d"
    using assms(2) by (cases c) (simp_all add: d_def good_config_def dict_get_or_def)
  have w: "wf_json x \<Longrightarrow> wf_json (dict_get_or d k x)" for k x
    using d wf_get by (simp add: good_config_def)
  have args: "case dict_get_or d ''args'' (mr_args r) of JNull \<Rightarrow> True | JArr _ \<Rightarrow> True | _ \<Rightarrow> False"
    using d assms(1) by (simp add: good_config_def wf_mcp_def dict_get_or_def split: option.splits)
  have resources: "case dict_get_or d ''resources'' (mr_resources r) of JArr _ \<Rightarrow> True | _ \<Rightarrow> False"
    using d assms(1) by (simp add: good_config_def wf_mcp_def dict_get_or_def split: option.splits)
  show "wf_mcp (changed_server L r now t c)"
    using assms(1) w args resources by (simp add: changed_server_def Let_def wf_mcp_def flip: d_def)
  show "mr_name (changed_server L r now t c) = mr_name r"
    by (simp add: changed_server_def Let_def)
qed

lemma scoped_calls:
  "get_server_for_api_key L C k n w = (Inr x, w') \<Longrightarrow> get_record C (scoped_servers L k) n w = (Inr x, w')"
  "create_server_for_api_key L C k n t c w = (Inr x, w') \<Longrightarrow>
     create_server_in L C (scoped_servers L k) n t c w = (Inr x, w')"
  "update_server_for_api_key L C k n u d w = (Inr x, w') \<Longrightarrow>
     update_server_in L C (scoped_servers L k) n u d w = (Inr x, w')"
  "delete_server_for_api_key L C k n w = (Inr b, w') \<Longrightarrow> delete_record C (scoped_servers L k) n w = (Inr b, w')"
  by (auto simp: get_server_for_api_key_def create_server_for_api_key_def update_server_for_api_key_def
      delete_server_for_api_key_def delete_record_def and_then_Inr dest: scoped_keys [where L = L])

text \<open>One call on the servers of a key, over a cache that behaves as one.\<close>

locale held_servers = live_cache L C ent ages matches
  for L :: pylib and C :: "'c cache" and ent ages matches +
  fixes k :: string
begin

sublocale rs: record_store L C ent ages matches "scoped_servers L k" "\<lambda>r. r" wf_mcp
  by (rule scoped_on) (rule live_cache_axioms)

lemma held_upd:
  "servers_held L k m M \<Longrightarrow> holds L (scoped_servers L k) (\<lambda>r. r) wf_mcp m' (M(n \<mapsto> r)) \<Longrightarrow> mr_name r = n \<Longrightarrow>
     servers_held L k m' (M(n \<mapsto> r))"
  by (simp add: servers_held_def)

lemma get_step:
  assumes "servers_held L k (ent (w_cache w)) M" and "get_server_for_api_key L C k n w = (Inr x, w')"
  shows "x = M n \<and> ent (w_cache w') = ent (w_cache w)"
  using rs.get_record_map [OF _ scoped_calls(1) [OF assms(2)]] assms(1) by (auto simp: servers_held_def)

lemma list_step:
  assumes "servers_held L k (ent (w_cache w)) M" and "list_servers_for_api_key L C k w = (Inr xs, w')"
  shows "(\<exists>ids. distinct ids \<and> set ids = dom M \<and> xs = map (\<lambda>i. the (M i)) ids) \<and>
    ent (w_cache w') = ent (w_cache w)"
  using rs.list_records_map [OF _ list_servers_registry [OF assms(2)]] assms(1) by (auto simp: servers_held_def)

lemma create_step:
  assumes h: "servers_held L k (ent (w_cache w)) M" and "wf_dict c"
    and run: "create_server_for_api_key L C k n t c w = (Inr (Some r), w')"
  shows "M n = None \<and> (\<exists>i now. new_server L i now n t c = Inr r) \<and> servers_held L k (ent (w_cache w')) (M(n \<mapsto> r))"
proof -
  let ?S = "scoped_servers L k"
  from scoped_calls(2) [OF run] obtain e w1 where get: "get_record C ?S n w = (Inr e, w1)"
    and rest: "(if e \<noteq> None then ret None else
         and_then utc_now (\<lambda>now. and_then draw_token (\<lambda>i.
         and_then (lift_sum (new_server L i now n t c)) (\<lambda>r.
         and_then (insert_record C ?S n r) (\<lambda>r. ret (Some r)))))) w1 = (Inr (Some r), w')"
    by (auto simp: create_server_in_def and_then_Inr)
  from h have held: "holds L ?S (\<lambda>r. r) wf_mcp (ent (w_cache w)) M" by (simp add: servers_held_def)
  note get = rs.get_record_map [OF held get]
  from rest have "e = None" by (auto split: if_splits)
  define w2 where "w2 = w1\<lparr>w_ticks := Suc (w_ticks w1), w_draws := Suc (w_draws w1)\<rparr>"
  from rest \<open>e = None\<close> obtain r' where
    new': "new_server L (w_tokens w1 (w_draws w1)) (w_clock w1 (w_ticks w1)) n t c = Inr r'"
    and "insert_record C ?S n r' w2 = (Inr r, w')"
    by (auto simp: and_then_Inr utc_now_run draw_token_run w2_def)
  then have ins: "insert_record C ?S n r w2 = (Inr r, w')" and "r' = r"
    by (auto simp: insert_record_def and_then_Inr)
  with new' obtain i now where new: "new_server L i now n t c = Inr r" by blast
  have w2: "w_cache w2 = w_cache w1" by (simp add: w2_def)
  note good = new_server_good [OF assms(2) new]
  have "holds L ?S (\<lambda>r. r) wf_mcp (ent (w_cache w')) (M(n \<mapsto> r))"
    using rs.insert_record_map(1) [OF _ good(1) ins] held get w2 by simp
  with held_upd [OF h _ good(2)] get(1) \<open>e = None\<close> new show ?thesis by auto
qed

lemma update_step:
  fixes w :: "('c, 'd) world"
  assumes h: "servers_held L k (ent (w_cache w)) M" and c: "case c of None \<Rightarrow> True | Some d \<Rightarrow> good_config d"
    and run: "update_server_for_api_key L C k n t c w = (Inr (Some y), w')"
  shows "\<exists>r now. M n = Some r \<and> y = changed_server L r now t c \<and> servers_held L k (ent (w_cache w')) (M(n \<mapsto> y))"
proof -
  let ?S = "scoped_servers L k" and ?ch = "\<lambda>r. and_then utc_now (\<lambda>now. ret (changed_server L r now t c))"
  from h have held: "holds L ?S (\<lambda>r. r) wf_mcp (ent (w_cache w)) M" by (simp add: servers_held_def)
  have sound: "sound_change wf_mcp ?ch"
    using changed_server_good(1) [OF _ c]
    by (auto simp: sound_change_def and_then_Inr utc_now_run)
  from scoped_calls(3) [OF run] have run: "update_record C ?S n ?ch w = (Inr (Some y), w')"
    by (simp add: update_server_in_def)
  note upd = rs.update_record_map [OF held run sound]
  from upd(1) obtain r where r: "M n = Some r" by (cases "M n") auto
  from upd(2) [OF this] obtain z and v v' :: "('c, 'd) world" where "Some y = Some z" and "?ch r v = (Inr z, v')"
    and "holds L ?S (\<lambda>r. r) wf_mcp (ent (w_cache w')) (M(n \<mapsto> z))"
    by blast
  then have ch: "?ch r v = (Inr y, v')" and held': "holds L ?S (\<lambda>r. r) wf_mcp (ent (w_cache w')) (M(n \<mapsto> y))"
    by simp_all
  from ch have y: "y = changed_server L r (w_clock v (w_ticks v)) t c" by (auto simp: and_then_Inr utc_now_run)
  have "mr_name y = n"
    using h r changed_server_good(2) [OF rs.holds_wf [OF held r] c] y by (simp add: servers_held_def)
  with held_upd [OF h held'] r y show ?thesis by auto
qed

lemma delete_step:
  assumes "servers_held L k (ent (w_cache w)) M" and "delete_server_for_api_key L C k n w = (Inr b, w')"
  shows "b = (M n \<noteq> None) \<and> servers_held L k (ent (w_cache w')) (M(n := None))"
  using rs.delete_record_map [OF _ scoped_calls(4) [OF assms(2)]] assms(1) by (auto simp: servers_held_def)

text \<open>What each route answers, and the servers it leaves.\<close>

lemma list_outcome:
  assumes h: "servers_held L k (ent (w_cache w)) M" and R: "mx_lib R = L" "mx_cache R = C"
    and run: "list_mcp_servers R k source w = (Inr vs, w')"
  shows "mcp_outcome R (ListMcp source) M (Servers vs) M \<and> ent (w_cache w') = ent (w_cache w)"
proof -
  from run obtain fs w1 db where vs: "vs = fs @ db"
    and fs: "(if source = Some ''database'' then ret []
      else lift_sum (bind_sum (discover_servers (mx_lib R) (mx_files R)) (\<lambda>fs_servers.
        map_sum_list (\<lambda>(name, server). map_filesystem_server (mx_lib R) name server) fs_servers))) w = (Inr fs, w1)"
    and db: "(if source = Some ''filesystem'' then ret []
      else and_then (handle_database_errors ''list_servers''
             (list_servers_for_api_key (mx_lib R) (mx_cache R) k)) (\<lambda>db_servers.
           lift_sum (map_sum_list (map_server (mx_lib R)) db_servers))) w1 = (Inr db, w')"
    by (auto simp: list_mcp_servers_def and_then_Inr)
  from fs have "w1 = w" and fs: "if source = Some ''database'' then fs = [] else discovered R fs"
    by (auto simp: discovered_def bind_sum_Inr map_sum_list_rel case_prod_beta split: if_splits)
  show ?thesis
  proof (cases "source = Some ''filesystem''")
    case True
    with db fs vs \<open>w1 = w\<close> show ?thesis by auto
  next
    case False
    with db \<open>w1 = w\<close> obtain xs where xs: "list_servers_for_api_key L C k w = (Inr xs, w')"
      and db: "map_sum_list (map_server L) xs = Inr db"
      using R by (auto simp: and_then_Inr)
    from list_step [OF h xs] obtain ids where ids: "distinct ids" "set ids = dom M" "xs = map (\<lambda>i. the (M i)) ids"
      and e: "ent (w_cache w') = ent (w_cache w)" by blast
    have "list_all2 (\<lambda>n v. map_server (mx_lib R) (the (M n)) = Inr v) ids db"
      using db ids(3) R by (simp add: map_sum_list_rel list_all2_map1)
    with fs False ids have "mcp_outcome R (ListMcp source) M (Servers vs) M"
      unfolding vs mcp_outcome.simps
      by (intro conjI refl exI [of _ fs] exI [of _ db] exI [of _ ids]) auto
    with e show ?thesis by simp
  qed
qed

lemma create_outcome:
  assumes "servers_held L k (ent (w_cache w)) M" and R: "mx_lib R = L" "mx_cache R = C" and "wf_dict cfg"
    and run: "create_mcp_server R k n t cfg w = (Inr v, w')"
  shows "\<exists>M'. mcp_outcome R (CreateMcp n t cfg) M (Server v) M' \<and> servers_held L k (ent (w_cache w')) M'"
proof -
  from create_server_reply [OF run] obtain r where
    r: "create_server_for_api_key L C k n t cfg w = (Inr (Some r), w')" and "map_server L r = Inr v"
    unfolding R by blast
  with create_step [OF assms(1,4) r] R show ?thesis
    by (intro exI [of _ "M(n \<mapsto> r)"]) (auto intro: new_server_made)
qed

lemma get_outcome:
  assumes h: "servers_held L k (ent (w_cache w)) M" and R: "mx_lib R = L" "mx_cache R = C"
    and run: "get_mcp_server R k n w = (Inr v, w')"
  shows "mcp_outcome R (GetMcp n) M (Server v) M \<and> ent (w_cache w') = ent (w_cache w)"
proof (cases "is_fs_name n")
  case True
  with run show ?thesis by (auto simp: get_mcp_server_def and_then_Inr)
next
  case False
  with R run obtain r where r: "get_server_for_api_key L C k n w = (Inr (Some r), w')" and "map_server L r = Inr v"
    by (auto simp: get_mcp_server_def stored_server_def and_then_Inr split: option.splits)
  moreover from get_step [OF h r] have "M n = Some r" "ent (w_cache w') = ent (w_cache w)" by simp_all
  ultimately show ?thesis using R False by simp
qed

lemma update_outcome:
  assumes h: "servers_held L k (ent (w_cache w)) M" and R: "mx_lib R = L" "mx_cache R = C"
    and c: "case cfg of None \<Rightarrow> True | Some d \<Rightarrow> good_config d" and run: "update_mcp_server R k n t cfg w = (Inr v, w')"
  shows "\<exists>M'. mcp_outcome R (UpdateMcp n t cfg) M (Server v) M' \<and> servers_held L k (ent (w_cache w')) M'"
proof -
  from R run obtain y where y: "update_server_for_api_key L C k n t cfg w = (Inr (Some y), w')"
    and "\<not> is_fs_name n" "map_server L y = Inr v"
    by (auto simp: update_mcp_server_def and_then_Inr split: option.splits if_splits)
  with update_step [OF h c y] R show ?thesis
    by (intro exI [of _ "M(n \<mapsto> y)"]) auto
qed

lemma delete_outcome:
  assumes h: "servers_held L k (ent (w_cache w)) M" and R: "mx_lib R = L" "mx_cache R = C"
    and run: "delete_mcp_server R k n w = (Inr x, w')"
  shows "\<exists>M'. mcp_outcome R (DeleteMcp n) M NoContent M' \<and> servers_held L k (ent (w_cache w')) M'"
proof -
  from R run have d: "delete_server_for_api_key L C k n w = (Inr True, w')" and "\<not> is_fs_name n"
    by (auto simp: delete_mcp_server_def and_then_Inr split: if_splits)
  with delete_step [OF h d] show ?thesis
    by (intro exI [of _ "M(n := None)"]) auto
qed

lemma call_outcome:
  assumes h: "servers_held L k (ent (w_cache w)) M" and R: "mx_lib R = L" "mx_cache R = C"
    and "good_call c" and "call_mcp R k c w = (Inr reply, w')"
  shows "\<exists>M'. mcp_outcome R c M reply M' \<and> servers_held L k (ent (w_cache w')) M'"
proof (cases c)
  case (ListMcp source)
  with assms(5) obtain vs where "reply = Servers vs" "list_mcp_servers R k source w = (Inr vs, w')"
    by (auto simp: and_then_Inr)
  with list_outcome [OF h R, of source vs w'] h ListMcp show ?thesis by (metis)
next
  case (CreateMcp n t cfg)
  with assms(4,5) create_outcome [OF h R, of cfg n t] show ?thesis by (auto simp: and_then_Inr simp del: mcp_outcome.simps)
next
  case (GetMcp n)
  with assms(5) obtain v where "reply = Server v" "get_mcp_server R k n w = (Inr v, w')"
    by (auto simp: and_then_Inr)
  with get_outcome [OF h R, of n v w'] h GetMcp show ?thesis by (metis)
next
  case (UpdateMcp n t cfg)
  with assms(4,5) update_outcome [OF h R, of cfg n t] show ?thesis
    by (auto simp: and_then_Inr simp del: mcp_outcome.simps)
next
  case (DeleteMcp n)
  with assms(5) delete_outcome [OF h R, of n] show ?thesis by (auto simp: and_then_Inr simp del: mcp_outcome.simps)
qed

end


text \<open>A server with a token in its environment and a header that holds a key.\<close>

definition ref_mcp_routes :: "server redis_world mcp_routes" where
  "ref_mcp_routes =
     \<lparr>mx_lib = ref_lib, mx_cache = ref_cache 0,
      mx_files = \<lparr>sf_global = NoFile, sf_project = NoFile, sf_claude = NoFile\<rparr>, mx_share_ttl = 60\<rparr>"

definition token_config :: "json dict" where
  "token_config =
     [(''env'', JObj [(''GITHUB_TOKEN'', JStr ''t'')]), (''headers'', JObj [(''X-API-Key'', JStr ''t'')])]"

definition token_response :: mcp_response where
  "token_response =
     \<lparr>mv_id = ''a'', mv_name = ''s'', mv_transport_type = ''stdio'', mv_command = None, mv_args = None, mv_url = None,
      mv_headers = [(''X-API-Key'', ''t'')], mv_env = [(''GITHUB_TOKEN'', ''***REDACTED***'')], mv_enabled = True,
      mv_status = ''active'', mv_error = None, mv_created_at = Some 1000000, mv_updated_at = None, mv_metadata = None,
      mv_source = ''database''\<rparr>"

lemma token_patterns:
  "matches_pattern sensitive_env_patterns ''GITHUB_TOKEN''"
  "\<not> matches_pattern sensitive_header_patterns ''X-API-Key''"
  by code_simp+

lemma token_call:
  "call_mcp ref_mcp_routes ''k'' (CreateMcp ''s'' ''stdio'' token_config) (ref_world ()) =
     (Inr (Server token_response),
      snd (call_mcp ref_mcp_routes ''k'' (CreateMcp ''s'' ''stdio'' token_config) (ref_world ())))"
proof (rule fst_run)
  have "validate_api_key ''k'' = Inr ()" "validate_api_key ''s'' = Inr ()"
    by code_simp+
  then show "fst (call_mcp ref_mcp_routes ''k'' (CreateMcp ''s'' ''stdio'' token_config) (ref_world ())) =
      Inr (Server token_response)"
    by (simp add: create_mcp_server_def handle_database_errors_def create_server_for_api_key_def create_server_in_def
        mcp_server_key_def token_config_def token_response_def ref_mcp_routes_def scoped_servers_def new_server_def
        args_list_def resources_list_def field_read_defs map_server_def sanitized_if_any_def sanitize_mapping_def
        parse_datetime_def token_patterns mcp_payload_def registry_eval utc_now_def draw_token_def ref_eval
        del: eval_rules)
qed


section \<open>Findings\<close>

text \<open>The header that carries the key of this very API is no sensitive one.\<close>

lemma api_key_header_shown:
  "map_server ref_lib r = Inr v \<Longrightarrow> mr_headers r = JObj [(''X-API-Key'', JStr ''t'')] \<Longrightarrow>
     mv_headers v = [(''X-API-Key'', ''t'')]"
  by (auto simp: map_server_def bind_sum_Inr sanitized_if_any_def sanitize_mapping_def token_patterns)

text \<open>No request is dispatched to the endpoint that resolves a share token.\<close>

lemma share_unreachable:
  assumes "\<And>path. matches ''/mcp-servers/share'' path \<Longrightarrow> matches ''/mcp-servers/{name}'' path"
  shows "endpoint_for matches m path \<noteq> Some GetShare"
  using assms by (auto simp: endpoint_for_def mcp_endpoints_def)

text \<open>A server whose environment is no object is stored, and every listing of the key fails from then on.\<close>

lemma unlistable_server:
  assumes "i \<in> dom M" and "mr_env (the (M i)) = JStr (c # cs)" and "mcp_outcome R (ListMcp None) M (Servers vs) M'"
  shows False
proof -
  from assms(3) obtain names db where "set names = dom M"
    and db: "list_all2 (\<lambda>n v. map_server (mx_lib R) (the (M n)) = Inr v) names db" by auto
  with assms(1) obtain j where "j < length names" and "names ! j = i"
    by (metis in_set_conv_nth)
  with list_all2_nthD [OF db] obtain v where "map_server (mx_lib R) (the (M i)) = Inr v" by blast
  with assms(2) show False
    by (simp add: map_server_def sanitized_if_any_def sanitize_mapping_def)
qed

end
