(* ===== verification/SkillDiscovery.thy ===== *)
theory SkillDiscovery
  imports McpConfig AgentOptions
begin

text \<open>
  \<open>SkillsService\<close> (\<open>services/skills.py\<close>): the skills that files on disk describe. A directory is
  what listing it gives: the files of the two patterns in the order of \<open>glob\<close>, each with its path,
  its name and what reading it gives.

  The three regular expressions are written out as the alternatives a backtracking matcher tries,
  in its order; the first that goes through is the match.
\<close>

section \<open>Front matter\<close>

definition line_feed :: char where
  "line_feed = CHR 0x0A"

definition after_literal :: "string \<Rightarrow> string \<Rightarrow> string option" where
  "after_literal p s = (if prefix p s then Some (drop (length p) s) else None)"

text \<open>A greedy \<open>\s*\<close>: what follows the longest run of spaces first.\<close>

definition after_spaces :: "string \<Rightarrow> string list" where
  "after_spaces s = map (\<lambda>n. drop n s) (rev [0..<Suc (length (takeWhile is_space s))])"

text \<open>\<open>\s*\n\<close>\<close>

definition after_line_end :: "string \<Rightarrow> string list" where
  "after_line_end s = map tl (filter (\<lambda>r. r \<noteq> [] \<and> hd r = line_feed) (after_spaces s))"

text \<open>A lazy \<open>(.*?)\<close> under \<open>DOTALL\<close>: the shortest first.\<close>

definition lazy_splits :: "string \<Rightarrow> (string \<times> string) list" where
  "lazy_splits s = map (\<lambda>n. (take n s, drop n s)) [0..<Suc (length s)]"

definition closes :: "string \<Rightarrow> bool" where
  "closes s = (case after_literal (line_feed # ''---'') s of None \<Rightarrow> False | Some r \<Rightarrow> after_line_end r \<noteq> [])"

text \<open>\<open>re.match(r"^---\s*\n(.*?)\n---\s*\n", content, re.DOTALL)\<close> and its group.\<close>

definition frontmatter_of :: "string \<Rightarrow> string option" where
  "frontmatter_of content =
     (case after_literal ''---'' content of
        None \<Rightarrow> None
      | Some r \<Rightarrow>
          (case concat (map (\<lambda>r. filter (\<lambda>(_, rest). closes rest) (lazy_splits r)) (after_line_end r)) of
             [] \<Rightarrow> None
           | (body, _) # _ \<Rightarrow> Some body))"

text \<open>Where \<open>^\<close> matches under \<open>MULTILINE\<close>: the start, and after every newline.\<close>

fun after_line_feeds :: "string \<Rightarrow> string list" where
  "after_line_feeds [] = []"
| "after_line_feeds (c # s) = (if c = line_feed then s # after_line_feeds s else after_line_feeds s)"

definition line_starts :: "string \<Rightarrow> string list" where
  "line_starts s = s # after_line_feeds s"

text \<open>
  \<open>re.search(r"^<key>\s*(.+)$", frontmatter, re.MULTILINE)\<close>: \<open>.+\<close> goes to the end of its line, so
  the end of a line follows; \<open>\s*\<close> may leave the line of the key.
\<close>

definition field_matches :: "string \<Rightarrow> string \<Rightarrow> string list" where
  "field_matches key s =
     (case after_literal key s of
        None \<Rightarrow> []
      | Some r \<Rightarrow> filter (\<lambda>l. l \<noteq> []) (map (takeWhile (\<lambda>c. c \<noteq> line_feed)) (after_spaces r)))"

definition search_field :: "string \<Rightarrow> string \<Rightarrow> string option" where
  "search_field key frontmatter =
     (case concat (map (field_matches key) (line_starts frontmatter)) of [] \<Rightarrow> None | l # _ \<Rightarrow> Some l)"

section \<open>Files\<close>

record skill_info =
  ki_name :: string
  ki_description :: string
  ki_path :: string
  ki_source :: string

record skill_file =
  kf_path :: string
  kf_name :: string
  kf_content :: config_file

text \<open>No clause but the one of \<open>_parse_skill_file\<close> is needed: every failure to read gives no skill.\<close>

definition parse_skill_file :: "string \<Rightarrow> skill_file \<Rightarrow> skill_info option" where
  "parse_skill_file source f =
     (case kf_content f of
        FileText content \<Rightarrow>
          (case frontmatter_of content of
             None \<Rightarrow> None
           | Some frontmatter \<Rightarrow>
               (case (search_field ''name:'' frontmatter, search_field ''description:'' frontmatter) of
                  (Some name, Some description) \<Rightarrow>
                    Some \<lparr>ki_name = strip name, ki_description = strip description, ki_path = kf_path f,
                          ki_source = source\<rparr>
                | _ \<Rightarrow> None))
      | _ \<Rightarrow> None)"

text \<open>A directory that exists: the files of \<open>*/SKILL.md\<close> and those of \<open>*.md\<close>.\<close>

record skill_dir =
  sd_nested :: "skill_file list"
  sd_flat :: "skill_file list"

definition discover_from_dir :: "skill_dir option \<Rightarrow> string \<Rightarrow> skill_info list" where
  "discover_from_dir skills_dir source =
     (case skills_dir of
        None \<Rightarrow> []
      | Some d \<Rightarrow>
          List.map_filter (parse_skill_file source) (sd_nested d) @
          List.map_filter (parse_skill_file source) (filter (\<lambda>f. kf_name f \<noteq> ''SKILL.md'') (sd_flat d)))"

record skills_service =
  kd_global :: "skill_dir option"
  kd_project :: "skill_dir option"

definition by_name :: "skill_info list \<Rightarrow> skill_info dict \<Rightarrow> skill_info dict" where
  "by_name infos skills = fold (\<lambda>s. dict_set (ki_name s) s) infos skills"

definition discover_skills :: "skills_service \<Rightarrow> skill_info list" where
  "discover_skills K =
     map snd (by_name (discover_from_dir (kd_project K) ''project'')
       (by_name (discover_from_dir (kd_global K) ''global'') []))"

section \<open>What is discovered\<close>

text \<open>Names are unique, and a project's skill hides the user's of the same name.\<close>

definition named_skills :: "skill_info dict \<Rightarrow> bool" where
  "named_skills d \<longleftrightarrow> distinct_keys d \<and> (\<forall>(k, s) \<in> set d. ki_name s = k)"

lemma named_skills_set: "named_skills d \<Longrightarrow> named_skills (dict_set (ki_name s) s d)"
  using set_dict_set [of "ki_name s" s d] by (fastforce simp: named_skills_def distinct_keys_dict_set)

lemma named_skills_by_name: "named_skills d \<Longrightarrow> named_skills (by_name infos d)"
  unfolding by_name_def by (induction infos arbitrary: d) (auto intro: named_skills_set)

lemma named_skills_empty: "named_skills []"
  by (simp add: named_skills_def distinct_keys_def)

lemma discovered_names: "distinct (map ki_name (discover_skills K))"
proof -
  define d where "d = by_name (discover_from_dir (kd_project K) ''project'')
    (by_name (discover_from_dir (kd_global K) ''global'') [])"
  have "named_skills d"
    unfolding d_def by (intro named_skills_by_name named_skills_empty)
  then have "distinct (map fst d)" and eq: "map (ki_name \<circ> snd) d = map fst d"
    by (auto simp: named_skills_def distinct_keys_def)
  then have "distinct (map (ki_name \<circ> snd) d)" unfolding eq by simp
  then show ?thesis by (simp add: discover_skills_def flip: d_def)
qed

lemma map_of_by_name:
  "map_of (by_name infos d) n =
     (case List.find (\<lambda>s. ki_name s = n) (rev infos) of None \<Rightarrow> map_of d n | Some s \<Rightarrow> Some s)"
proof (induction infos arbitrary: d)
  case Nil
  show ?case by (simp add: by_name_def)
next
  case (Cons s infos)
  have "by_name (s # infos) d = by_name infos (dict_set (ki_name s) s d)"
    by (simp add: by_name_def)
  moreover have "List.find P (xs @ [x]) = (case List.find P xs of None \<Rightarrow> if P x then Some x else None | r \<Rightarrow> r)"
    for P and xs :: "skill_info list" and x
    by (induction xs) auto
  ultimately show ?case
    by (simp add: Cons.IH map_of_dict_set split: option.split)
qed

section \<open>Reading a file that was written as documented\<close>

lemma after_spaces_word: "s \<noteq> [] \<Longrightarrow> \<not> is_space (hd s) \<Longrightarrow> after_spaces s = [s]"
  by (cases s) (simp_all add: after_spaces_def)

lemma after_spaces_one:
  assumes "is_space c" and "s \<noteq> []" and "\<not> is_space (hd s)"
  shows "after_spaces (c # s) = [s, c # s]"
proof -
  have "takeWhile is_space s = []" using assms(2,3) by (cases s) simp_all
  with assms(1) show ?thesis by (simp add: after_spaces_def)
qed

lemma closes_starts: "closes s \<Longrightarrow> \<exists>r. s = line_feed # ''---'' @ r"
  by (auto simp: closes_def after_literal_def prefix_def split: if_splits)

lemma newline_is_space [simp]: "is_space line_feed"
  by (simp add: is_space_def line_feed_def)

lemma closes_end: "closes (line_feed # ''---'' @ line_feed # body)"
proof -
  have "line_feed # body \<in> set (after_spaces (line_feed # body))"
    unfolding after_spaces_def by (simp del: upt_Suc) (rule image_eqI [of _ _ 0], simp_all)
  then have "after_line_end (line_feed # body) \<noteq> []"
    by (auto simp: after_line_end_def filter_empty_conv)
  then show ?thesis by (simp add: closes_def after_literal_def)
qed

lemma drop_after_line_feed: "n < length s \<Longrightarrow> s ! n = line_feed \<Longrightarrow> drop (Suc n) s \<in> set (after_line_feeds s)"
proof (induction s arbitrary: n)
  case (Cons c s)
  then show ?case by (cases n) auto
qed simp

lemma first_filter:
  assumes "n < m" and "P (f n)" and "\<And>k. k < n \<Longrightarrow> \<not> P (f k)"
  shows "\<exists>xs. filter P (map f [0..<m]) = f n # xs"
proof -
  have "[0..<m] = [0..<n] @ [n..<m]"
    using upt_add_eq_append [of 0 n "m - n"] assms(1) by simp
  moreover have "filter P (map f [0..<n]) = []"
    using assms(3) by (auto simp: filter_empty_conv)
  ultimately show ?thesis
    using assms(1,2) by (simp add: upt_conv_Cons)
qed

lemma dashes_over_line_feed: "prefix ''---'' (x @ line_feed # y) \<Longrightarrow> prefix ''---'' x"
proof (cases "length x < 3")
  case True
  assume "prefix ''---'' (x @ line_feed # y)"
  then obtain z where "x @ line_feed # y = ''---'' @ z" by (auto simp: prefix_def)
  then have "(x @ line_feed # y) ! length x = (''---'' @ z) ! length x" by simp
  with True show ?thesis
    by (cases x; cases "tl x"; cases "tl (tl x)") (auto simp: line_feed_def)
next
  case False
  assume "prefix ''---'' (x @ line_feed # y)"
  then obtain z where "x @ line_feed # y = ''---'' @ z" by (auto simp: prefix_def)
  then have "take 3 (x @ line_feed # y) = take 3 (''---'' @ z)" by (simp only:)
  with False have "take 3 x = ''---''" by simp
  then show ?thesis by (metis take_is_prefix)
qed

lemma frontmatter_read:
  assumes "front \<noteq> []" and "\<not> is_space (hd front)" and "\<And>l. l \<in> set (after_line_feeds front) \<Longrightarrow> \<not> prefix ''---'' l"
  shows "frontmatter_of (''---'' @ line_feed # front @ line_feed # ''---'' @ line_feed # body) = Some front"
proof -
  let ?t = "line_feed # ''---'' @ line_feed # body"
  let ?r = "front @ ?t"
  have "after_spaces (line_feed # ?r) = [?r, line_feed # ?r]"
    by (rule after_spaces_one) (use assms(1,2) in auto)
  then have ends: "after_line_end (line_feed # ?r) = [?r]"
    using assms(1,2) by (auto simp: after_line_end_def)
  have open': "\<not> closes (drop k ?r)" if "k < length front" for k
  proof
    assume "closes (drop k ?r)"
    then obtain r where r: "drop k ?r = line_feed # ''---'' @ r" using closes_starts by blast
    moreover have "drop k ?r = front ! k # drop (Suc k) front @ ?t"
      using that by (simp add: Cons_nth_drop_Suc)
    ultimately have "front ! k = line_feed" and "drop (Suc k) front @ ?t = ''---'' @ r" by simp_all
    then have "prefix ''---'' (drop (Suc k) front)"
      by (metis dashes_over_line_feed prefixI)
    with assms(3) drop_after_line_feed [OF that \<open>front ! k = line_feed\<close>] show False by blast
  qed
  have "\<exists>xs. filter (\<lambda>(_, rest). closes rest) (lazy_splits ?r) = (take (length front) ?r, drop (length front) ?r) # xs"
    unfolding lazy_splits_def
    by (rule first_filter) (use closes_end open' in auto)
  then show ?thesis
    using ends by (auto simp: frontmatter_of_def after_literal_def)
qed

lemma field_found:
  assumes "v \<noteq> []" and "\<not> is_space (hd v)" and "line_feed \<notin> set v" and "rest = [] \<or> hd rest = line_feed"
  shows "\<exists>ls. field_matches key (key @ CHR '' '' # v @ rest) = v # ls"
proof -
  have "after_spaces (CHR '' '' # v @ rest) = [v @ rest, CHR '' '' # v @ rest]"
    by (rule after_spaces_one) (use assms(1,2) in \<open>auto simp: is_space_def\<close>)
  moreover have "takeWhile (\<lambda>c. c \<noteq> line_feed) (v @ rest) = v"
    using assms(3,4) by (cases rest) (auto simp: takeWhile_append)
  ultimately show ?thesis
    using assms(1) by (simp add: field_matches_def after_literal_def)
qed

lemma after_line_feeds_line: "line_feed \<notin> set v \<Longrightarrow> after_line_feeds (v @ s) = after_line_feeds s"
  by (induction v) auto

lemma stripped_starts: "strip v = v \<Longrightarrow> v \<noteq> [] \<Longrightarrow> \<not> is_space (hd v)"
proof
  assume v: "strip v = v" "v \<noteq> []" "is_space (hd v)"
  have "length (strip v) \<le> length (dropWhile is_space v)"
    unfolding strip_def by (metis length_dropWhile_le length_rev)
  moreover have "length (dropWhile is_space v) < length v"
    using v(2,3) by (cases v) (auto simp: less_Suc_eq_le length_dropWhile_le)
  ultimately show False using v(1) by simp
qed

definition skill_text :: "string \<Rightarrow> string \<Rightarrow> string \<Rightarrow> string" where
  "skill_text name description body =
     ''---'' @ line_feed # (''name: '' @ name @ line_feed # ''description: '' @ description) @
     line_feed # ''---'' @ line_feed # body"

definition one_line :: "string \<Rightarrow> bool" where
  "one_line v \<longleftrightarrow> v \<noteq> [] \<and> strip v = v \<and> line_feed \<notin> set v"

lemma skill_file_read:
  assumes "one_line name" and "one_line description" and "kf_content f = FileText (skill_text name description body)"
  shows "parse_skill_file source f =
    Some \<lparr>ki_name = name, ki_description = description, ki_path = kf_path f, ki_source = source\<rparr>"
proof -
  let ?d = "''description: '' @ description"
  let ?front = "''name: '' @ name @ line_feed # ?d"
  have n: "name \<noteq> []" "line_feed \<notin> set name" "\<not> is_space (hd name)" "strip name = name"
    and d: "description \<noteq> []" "line_feed \<notin> set description" "\<not> is_space (hd description)"
      "strip description = description"
    using assms(1,2) stripped_starts by (auto simp: one_line_def)
  have lines: "after_line_feeds ?front = [?d]"
    using after_line_feeds_line [of "''name: '' @ name" "line_feed # ?d"]
      after_line_feeds_line [of ?d "[]"] n(2) d(2)
    by (simp add: line_feed_def)
  have "frontmatter_of (skill_text name description body) = Some ?front"
    unfolding skill_text_def
    by (rule frontmatter_read) (use lines in \<open>auto simp: is_space_def\<close>)
  moreover obtain ls where "field_matches ''name:'' ?front = name # ls"
    using field_found [OF n(1,3,2), of "line_feed # ?d" "''name:''"] by auto
  then have "search_field ''name:'' ?front = Some name"
    by (simp add: search_field_def line_starts_def)
  moreover obtain ls' where "field_matches ''description:'' ?d = description # ls'"
    using field_found [OF d(1,3,2), of "[]" "''description:''"] by auto
  moreover have "field_matches ''description:'' ?front = []"
    by (simp add: field_matches_def after_literal_def)
  ultimately show ?thesis
    using assms(3) lines n(4) d(4)
    by (simp add: parse_skill_file_def search_field_def line_starts_def)
qed

text \<open>An empty name takes the next line.\<close>

lemma empty_name_takes_description:
  "parse_skill_file ''project''
     \<lparr>kf_path = ''p'', kf_name = ''SKILL.md'',
      kf_content = FileText (''---'' @ line_feed # ''name:'' @ line_feed # ''description: reads'' @ line_feed # ''---'' @ [line_feed])\<rparr> =
   Some \<lparr>ki_name = ''description: reads'', ki_description = ''reads'', ki_path = ''p'', ki_source = ''project''\<rparr>"
  by code_simp

end
