(* ===== verification/RegistryRoutes.thy ===== *)
theory RegistryRoutes
  imports RegistryServices SkillDiscovery Responses Errors
begin

text \<open>
  The routes over the registries: \<open>routes/agents.py\<close>, \<open>routes/projects.py\<close>, \<open>routes/skills.py\<close>,
  \<open>routes/slash_commands.py\<close> and \<open>routes/tool_presets.py\<close>, with their request and response schemas.
  The routes see the services through the protocols of \<open>protocols.py\<close>; the dependencies that
  build the services give each protocol its implementation.

  Pydantic's reading of a timestamp is a parameter, as are its other conversions (\<open>Responses\<close>). A
  reply that its schema refuses is a \<open>ValueError\<close>, which the general handler answers with 500.
\<close>

section \<open>Fields\<close>

record conversions = pydantic +
  pd_datetime :: "json \<Rightarrow> exn + datetime"

text \<open>An ISO timestamp is read as what it says.\<close>

definition conversion_laws :: "pylib \<Rightarrow> conversions \<Rightarrow> bool" where
  "conversion_laws L D \<longleftrightarrow> pydantic_laws (pydantic.truncate D) \<and> (\<forall>d. pd_datetime D (JStr (isoformat L d)) = Inr d)"

definition check_literal :: "string list \<Rightarrow> json \<Rightarrow> exn + string" where
  "check_literal ts v = (case v of JStr s \<Rightarrow> if s \<in> set ts then Inr s else Inl invalid_field | _ \<Rightarrow> Inl invalid_field)"

definition length_within :: "nat \<Rightarrow> nat \<Rightarrow> string \<Rightarrow> bool" where
  "length_within lo hi s \<longleftrightarrow> lo \<le> length s \<and> length s \<le> hi"

definition if_within :: "bool \<Rightarrow> 'a \<Rightarrow> exn + 'a" where
  "if_within b x = (if b then Inr x else Inl invalid_field)"

definition not_found_error :: "string \<Rightarrow> string \<Rightarrow> exn" where
  "not_found_error message code = APIError message code 404"

text \<open>\<open>if x is None: raise ...\<close>\<close>

definition found :: "exn \<Rightarrow> 'a option \<Rightarrow> ('s, 'a) io" where
  "found e x = (case x of None \<Rightarrow> throw e | Some y \<Rightarrow> ret y)"

section \<open>Agents\<close>

record agent_reply =
  agd_id :: string
  agd_name :: string
  agd_description :: string
  agd_prompt :: string
  agd_tools :: "string list option"
  agd_model :: "string option"
  agd_created_at :: datetime
  agd_updated_at :: "datetime option"
  agd_is_shared :: "bool option"
  agd_share_url :: "string option"

definition agent_response :: "conversions \<Rightarrow> agent_record \<Rightarrow> exn + agent_reply" where
  "agent_response D a =
     bind_sum (check_opt (check_literal [''sonnet'', ''opus'', ''haiku'', ''inherit'']) (ag_model a)) (\<lambda>model.
     bind_sum (pd_datetime D (JStr (ag_created_at a))) (\<lambda>created.
     bind_sum (check_opt (pd_datetime D) (ag_updated_at a)) (\<lambda>updated.
     bind_sum (check_opt (pd_bool D) (ag_is_shared a)) (\<lambda>shared.
     bind_sum (check_opt check_str (ag_share_url a)) (\<lambda>url.
     Inr \<lparr>agd_id = ag_id a, agd_name = ag_name a, agd_description = ag_description a, agd_prompt = ag_prompt a,
          agd_tools = ag_tools a, agd_model = model, agd_created_at = created, agd_updated_at = updated,
          agd_is_shared = shared, agd_share_url = url\<rparr>)))))"

record agent_request =
  agq_name :: string
  agq_description :: string
  agq_prompt :: string
  agq_tools :: "string list option"
  agq_model :: "string option"

definition check_agent_create :: "agent_request \<Rightarrow> exn + agent_request" where
  "check_agent_create q =
     if_within (length_within 1 100 (agq_name q) \<and> length_within 1 1000 (agq_description q) \<and>
       length_within 1 50000 (agq_prompt q)) q"

text \<open>\<open>AgentConfigProtocol\<close>\<close>

record 's agent_config_protocol =
  acp_list :: "('s, agent_record list) io"
  acp_create :: "string \<Rightarrow> string \<Rightarrow> string \<Rightarrow> string list option \<Rightarrow> string option \<Rightarrow> ('s, agent_record) io"
  acp_get :: "string \<Rightarrow> ('s, agent_record option) io"
  acp_update ::
    "string \<Rightarrow> string \<Rightarrow> string \<Rightarrow> string \<Rightarrow> string list option \<Rightarrow> string option \<Rightarrow> ('s, agent_record option) io"
  acp_delete :: "string \<Rightarrow> ('s, bool) io"
  acp_share :: "string \<Rightarrow> string \<Rightarrow> ('s, agent_record option) io"

definition get_agent_config_service :: "pylib \<Rightarrow> 'c cache \<Rightarrow> ('c, 'd) world agent_config_protocol" where
  "get_agent_config_service L C =
     \<lparr>acp_list = list_agents L C, acp_create = create_agent L C, acp_get = get_agent L C, acp_update = update_agent L C,
      acp_delete = delete_agent L C, acp_share = share_agent L C\<rparr>"

definition agent_missing :: exn where
  "agent_missing = not_found_error ''Agent not found'' ''AGENT_NOT_FOUND''"

definition route_list_agents :: "conversions \<Rightarrow> 's agent_config_protocol \<Rightarrow> ('s, agent_reply list) io" where
  "route_list_agents D S =
     and_then (acp_list S) (\<lambda>as. lift_sum (map_sum_list (agent_response D) as))"

definition route_create_agent ::
  "conversions \<Rightarrow> 's agent_config_protocol \<Rightarrow> agent_request \<Rightarrow> ('s, agent_reply) io" where
  "route_create_agent D S q =
     and_then (acp_create S (agq_name q) (agq_description q) (agq_prompt q) (agq_tools q) (agq_model q)) (\<lambda>a.
     lift_sum (agent_response D a))"

definition route_get_agent :: "conversions \<Rightarrow> 's agent_config_protocol \<Rightarrow> string \<Rightarrow> ('s, agent_reply) io" where
  "route_get_agent D S agent_id =
     and_then (acp_get S agent_id) (\<lambda>x. and_then (found agent_missing x) (\<lambda>a. lift_sum (agent_response D a)))"

definition route_update_agent ::
  "conversions \<Rightarrow> 's agent_config_protocol \<Rightarrow> string \<Rightarrow> agent_request \<Rightarrow> ('s, agent_reply) io" where
  "route_update_agent D S agent_id q =
     and_then (acp_update S agent_id (agq_name q) (agq_description q) (agq_prompt q) (agq_tools q) (agq_model q)) (\<lambda>x.
     and_then (found agent_missing x) (\<lambda>a. lift_sum (agent_response D a)))"

definition route_delete_agent :: "'s agent_config_protocol \<Rightarrow> string \<Rightarrow> ('s, unit) io" where
  "route_delete_agent S agent_id =
     and_then (acp_delete S agent_id) (\<lambda>deleted. if deleted then ret () else throw agent_missing)"

text \<open>The link and the token of the reply; FastAPI checks that both are texts.\<close>

definition route_share_agent :: "'s agent_config_protocol \<Rightarrow> string \<Rightarrow> string \<Rightarrow> ('s, string \<times> string) io" where
  "route_share_agent S request_base agent_id =
     (let base_url = rev (dropWhile (\<lambda>c. c = CHR ''/'') (rev request_base));
          share_url = base_url @ ''/share/agents/'' @ agent_id
      in and_then (acp_share S agent_id share_url) (\<lambda>x.
         and_then (found agent_missing x) (\<lambda>a.
         lift_sum (bind_sum (if truthy (ag_share_url a) then check_str (ag_share_url a) else Inr share_url) (\<lambda>url.
           bind_sum (check_str (ag_share_token a)) (\<lambda>token. Inr (url, token)))))))"

section \<open>Projects\<close>

record project_response =
  pjr_id :: string
  pjr_name :: string
  pjr_path :: string
  pjr_created_at :: datetime
  pjr_last_accessed_at :: "datetime option"
  pjr_session_count :: "int option"
  pjr_metadata :: "json dict option"

definition make_project_response :: "conversions \<Rightarrow> project_record \<Rightarrow> exn + project_response" where
  "make_project_response D p =
     bind_sum (pd_datetime D (JStr (pj_created_at p))) (\<lambda>created.
     bind_sum (check_opt (pd_datetime D) (pj_last_accessed_at p)) (\<lambda>accessed.
     bind_sum (check_opt (pd_int D) (pj_session_count p)) (\<lambda>sessions.
     bind_sum (check_opt check_dict (pj_metadata p)) (\<lambda>metadata.
     Inr \<lparr>pjr_id = pj_id p, pjr_name = pj_name p, pjr_path = pj_path p, pjr_created_at = created,
          pjr_last_accessed_at = accessed, pjr_session_count = sessions, pjr_metadata = metadata\<rparr>))))"

record project_create_request =
  pjq_name :: string
  pjq_path :: "string option"
  pjq_metadata :: "json dict option"

definition check_project_create :: "project_create_request \<Rightarrow> exn + project_create_request" where
  "check_project_create q = if_within (length_within 1 100 (pjq_name q)) q"

definition check_project_update :: "string option \<Rightarrow> exn + string option" where
  "check_project_update name = if_within (case name of None \<Rightarrow> True | Some n \<Rightarrow> length_within 1 100 n) name"

record 's project_protocol =
  pjp_list :: "('s, project_record list) io"
  pjp_create :: "string \<Rightarrow> string option \<Rightarrow> json dict option \<Rightarrow> ('s, project_record option) io"
  pjp_get :: "string \<Rightarrow> ('s, project_record option) io"
  pjp_update :: "string \<Rightarrow> string option \<Rightarrow> json dict option \<Rightarrow> ('s, project_record option) io"
  pjp_delete :: "string \<Rightarrow> ('s, bool) io"

definition get_project_service :: "pylib \<Rightarrow> 'c cache \<Rightarrow> ('c, 'd) world project_protocol" where
  "get_project_service L C =
     \<lparr>pjp_list = list_projects L C, pjp_create = create_project L C, pjp_get = get_project L C,
      pjp_update = update_project L C, pjp_delete = delete_project L C\<rparr>"

definition project_missing :: exn where
  "project_missing = not_found_error ''Project not found'' ''PROJECT_NOT_FOUND''"

definition project_exists :: exn where
  "project_exists = APIError ''Project with this name or path already exists'' ''PROJECT_EXISTS'' 409"

definition route_list_projects ::
  "conversions \<Rightarrow> 's project_protocol \<Rightarrow> ('s, project_response list \<times> nat) io" where
  "route_list_projects D S =
     and_then (pjp_list S) (\<lambda>ps.
     lift_sum (bind_sum (map_sum_list (make_project_response D) ps) (\<lambda>rs. Inr (rs, length ps))))"

definition route_create_project ::
  "conversions \<Rightarrow> 's project_protocol \<Rightarrow> project_create_request \<Rightarrow> ('s, project_response) io" where
  "route_create_project D S q =
     and_then (pjp_create S (pjq_name q) (pjq_path q) (pjq_metadata q)) (\<lambda>x.
     and_then (found project_exists x) (\<lambda>p. lift_sum (make_project_response D p)))"

definition route_get_project :: "conversions \<Rightarrow> 's project_protocol \<Rightarrow> string \<Rightarrow> ('s, project_response) io" where
  "route_get_project D S project_id =
     and_then (pjp_get S project_id) (\<lambda>x.
     and_then (found project_missing x) (\<lambda>p. lift_sum (make_project_response D p)))"

definition route_update_project ::
  "conversions \<Rightarrow> 's project_protocol \<Rightarrow> string \<Rightarrow> string option \<Rightarrow> json dict option \<Rightarrow> ('s, project_response) io" where
  "route_update_project D S project_id name metadata =
     and_then (pjp_update S project_id name metadata) (\<lambda>x.
     and_then (found project_missing x) (\<lambda>p. lift_sum (make_project_response D p)))"

definition route_delete_project :: "'s project_protocol \<Rightarrow> string \<Rightarrow> ('s, unit) io" where
  "route_delete_project S project_id =
     and_then (pjp_delete S project_id) (\<lambda>deleted. if deleted then ret () else throw project_missing)"

section \<open>Slash commands\<close>

record command_response =
  scr_id :: string
  scr_name :: string
  scr_description :: string
  scr_content :: string
  scr_enabled :: bool
  scr_created_at :: datetime
  scr_updated_at :: "datetime option"

definition make_command_response :: "conversions \<Rightarrow> slash_command \<Rightarrow> exn + command_response" where
  "make_command_response D c =
     bind_sum (pd_datetime D (JStr (sc_created_at c))) (\<lambda>created.
     bind_sum (check_opt (pd_datetime D) (sc_updated_at c)) (\<lambda>updated.
     Inr \<lparr>scr_id = sc_id c, scr_name = sc_name c, scr_description = sc_description c, scr_content = sc_content c,
          scr_enabled = sc_enabled c, scr_created_at = created, scr_updated_at = updated\<rparr>))"

text \<open>The requests of commands and of skills have the same fields and bounds.\<close>

record content_request =
  ctq_name :: string
  ctq_description :: string
  ctq_content :: string
  ctq_enabled :: bool

definition check_content_create :: "content_request \<Rightarrow> exn + content_request" where
  "check_content_create q =
     if_within (length_within 1 100 (ctq_name q) \<and> length_within 1 1000 (ctq_description q) \<and> ctq_content q \<noteq> []) q"

record 's command_protocol =
  scp_list :: "('s, slash_command list) io"
  scp_create :: "string \<Rightarrow> string \<Rightarrow> string \<Rightarrow> bool \<Rightarrow> ('s, slash_command) io"
  scp_get :: "string \<Rightarrow> ('s, slash_command option) io"
  scp_update :: "string \<Rightarrow> string \<Rightarrow> string \<Rightarrow> string \<Rightarrow> bool \<Rightarrow> ('s, slash_command option) io"
  scp_delete :: "string \<Rightarrow> ('s, bool) io"

definition get_slash_command_service :: "pylib \<Rightarrow> 'c cache \<Rightarrow> ('c, 'd) world command_protocol" where
  "get_slash_command_service L C =
     \<lparr>scp_list = list_commands L C, scp_create = create_command L C, scp_get = get_command L C,
      scp_update = update_command L C, scp_delete = delete_command L C\<rparr>"

definition command_missing :: exn where
  "command_missing = not_found_error ''Slash command not found'' ''SLASH_COMMAND_NOT_FOUND''"

definition list_slash_commands :: "conversions \<Rightarrow> 's command_protocol \<Rightarrow> ('s, command_response list) io" where
  "list_slash_commands D S =
     and_then (scp_list S) (\<lambda>cs. lift_sum (map_sum_list (make_command_response D) cs))"

definition create_slash_command ::
  "conversions \<Rightarrow> 's command_protocol \<Rightarrow> content_request \<Rightarrow> ('s, command_response) io" where
  "create_slash_command D S q =
     and_then (scp_create S (ctq_name q) (ctq_description q) (ctq_content q) (ctq_enabled q)) (\<lambda>c.
     lift_sum (make_command_response D c))"

definition get_slash_command :: "conversions \<Rightarrow> 's command_protocol \<Rightarrow> string \<Rightarrow> ('s, command_response) io" where
  "get_slash_command D S command_id =
     and_then (scp_get S command_id) (\<lambda>x.
     and_then (found command_missing x) (\<lambda>c. lift_sum (make_command_response D c)))"

definition update_slash_command ::
  "conversions \<Rightarrow> 's command_protocol \<Rightarrow> string \<Rightarrow> content_request \<Rightarrow> ('s, command_response) io" where
  "update_slash_command D S command_id q =
     and_then (scp_update S command_id (ctq_name q) (ctq_description q) (ctq_content q) (ctq_enabled q)) (\<lambda>x.
     and_then (found command_missing x) (\<lambda>c. lift_sum (make_command_response D c)))"

definition delete_slash_command :: "'s command_protocol \<Rightarrow> string \<Rightarrow> ('s, unit) io" where
  "delete_slash_command S command_id =
     and_then (scp_delete S command_id) (\<lambda>deleted. if deleted then ret () else throw command_missing)"

section \<open>Tool presets\<close>

record preset_response =
  tpr_id :: string
  tpr_name :: string
  tpr_description :: "string option"
  tpr_allowed_tools :: "string list"
  tpr_disallowed_tools :: "string list"
  tpr_is_system :: bool
  tpr_created_at :: datetime

definition make_preset_response :: "conversions \<Rightarrow> tool_preset \<Rightarrow> exn + preset_response" where
  "make_preset_response D p =
     bind_sum (check_opt check_str (tp_description p)) (\<lambda>description.
     bind_sum (map_sum_list check_str (tp_allowed_tools p)) (\<lambda>allowed.
     bind_sum (map_sum_list check_str (tp_disallowed_tools p)) (\<lambda>disallowed.
     bind_sum (pd_datetime D (JStr (tp_created_at p))) (\<lambda>created.
     Inr \<lparr>tpr_id = tp_id p, tpr_name = tp_name p, tpr_description = description, tpr_allowed_tools = allowed,
          tpr_disallowed_tools = disallowed, tpr_is_system = tp_is_system p, tpr_created_at = created\<rparr>))))"

text \<open>\<open>is_default\<close> of a creation is accepted and never read.\<close>

record preset_request =
  tpq_name :: string
  tpq_description :: "string option"
  tpq_allowed_tools :: "string list"
  tpq_disallowed_tools :: "string list"

definition check_preset :: "preset_request \<Rightarrow> exn + preset_request" where
  "check_preset q =
     if_within (length_within 1 100 (tpq_name q) \<and>
       (case tpq_description q of None \<Rightarrow> True | Some d \<Rightarrow> length d \<le> 500)) q"

record 's preset_protocol =
  tpp_list :: "('s, tool_preset list) io"
  tpp_create :: "string \<Rightarrow> string option \<Rightarrow> string list \<Rightarrow> string list \<Rightarrow> ('s, tool_preset) io"
  tpp_get :: "string \<Rightarrow> ('s, tool_preset option) io"
  tpp_update ::
    "string \<Rightarrow> string \<Rightarrow> string option \<Rightarrow> string list \<Rightarrow> string list \<Rightarrow> ('s, tool_preset option) io"
  tpp_delete :: "string \<Rightarrow> ('s, bool) io"

text \<open>The routes leave \<open>is_system\<close> of the service at its default.\<close>

definition get_tool_preset_service :: "pylib \<Rightarrow> 'c cache \<Rightarrow> ('c, 'd) world preset_protocol" where
  "get_tool_preset_service L C =
     \<lparr>tpp_list = list_presets L C, tpp_create = (\<lambda>n d a dis. create_preset L C n d a dis False),
      tpp_get = get_preset L C, tpp_update = update_preset L C, tpp_delete = delete_preset L C\<rparr>"

definition preset_missing :: "string \<Rightarrow> exn" where
  "preset_missing preset_id =
     APIError (''Tool preset '' @ quoted preset_id @ '' not found'') ''TOOL_PRESET_NOT_FOUND'' 404"

definition list_tool_presets :: "conversions \<Rightarrow> 's preset_protocol \<Rightarrow> ('s, preset_response list) io" where
  "list_tool_presets D S =
     and_then (tpp_list S) (\<lambda>ps. lift_sum (map_sum_list (make_preset_response D) ps))"

definition create_tool_preset ::
  "conversions \<Rightarrow> 's preset_protocol \<Rightarrow> preset_request \<Rightarrow> ('s, preset_response) io" where
  "create_tool_preset D S q =
     and_then (tpp_create S (tpq_name q) (tpq_description q) (tpq_allowed_tools q) (tpq_disallowed_tools q)) (\<lambda>p.
     lift_sum (make_preset_response D p))"

definition get_tool_preset :: "conversions \<Rightarrow> 's preset_protocol \<Rightarrow> string \<Rightarrow> ('s, preset_response) io" where
  "get_tool_preset D S preset_id =
     and_then (tpp_get S preset_id) (\<lambda>x.
     and_then (found (preset_missing preset_id) x) (\<lambda>p. lift_sum (make_preset_response D p)))"

definition update_tool_preset ::
  "conversions \<Rightarrow> 's preset_protocol \<Rightarrow> string \<Rightarrow> preset_request \<Rightarrow> ('s, preset_response) io" where
  "update_tool_preset D S preset_id q =
     and_then (tpp_update S preset_id (tpq_name q) (tpq_description q) (tpq_allowed_tools q) (tpq_disallowed_tools q)) (\<lambda>x.
     and_then (found (preset_missing preset_id) x) (\<lambda>p. lift_sum (make_preset_response D p)))"

definition delete_tool_preset :: "'s preset_protocol \<Rightarrow> string \<Rightarrow> ('s, unit) io" where
  "delete_tool_preset S preset_id =
     and_then (tpp_delete S preset_id) (\<lambda>deleted. if deleted then ret () else throw (preset_missing preset_id))"

section \<open>Skills\<close>

record skill_response =
  skr_id :: string
  skr_name :: string
  skr_description :: string
  skr_content :: string
  skr_enabled :: bool
  skr_created_at :: "datetime option"
  skr_updated_at :: "datetime option"
  skr_is_shared :: "bool option"
  skr_share_url :: "string option"
  skr_source :: string
  skr_path :: "string option"

record 's skill_protocol =
  skp_list :: "('s, skill_record list) io"
  skp_create :: "string \<Rightarrow> string \<Rightarrow> string \<Rightarrow> bool \<Rightarrow> ('s, skill_record) io"
  skp_get :: "string \<Rightarrow> ('s, skill_record option) io"
  skp_update :: "string \<Rightarrow> string \<Rightarrow> string \<Rightarrow> string \<Rightarrow> bool \<Rightarrow> ('s, skill_record option) io"
  skp_delete :: "string \<Rightarrow> ('s, bool) io"

definition get_skills_crud_service :: "pylib \<Rightarrow> 'c cache \<Rightarrow> ('c, 'd) world skill_protocol" where
  "get_skills_crud_service L C =
     \<lparr>skp_list = list_skills L C, skp_create = create_skill L C, skp_get = get_skill L C, skp_update = update_skill L C,
      skp_delete = delete_skill L C\<rparr>"

text \<open>The files on disk: the two directories, and what reading a path gives.\<close>

record 's skill_routes =
  ks_lib :: pylib
  ks_conversions :: conversions
  ks_discovery :: skills_service
  ks_read :: "string \<Rightarrow> config_file"
  ks_crud :: "'s skill_protocol"

text \<open>\<open>_parse_datetime\<close>: only a \<open>ValueError\<close> is caught.\<close>

definition parse_skill_datetime :: "pylib \<Rightarrow> json \<Rightarrow> exn + datetime option" where
  "parse_skill_datetime L v =
     (if truthy v
      then (case v of JStr s \<Rightarrow> Inr (fromisoformat L s) | _ \<Rightarrow> Inl (TypeError ''fromisoformat: argument must be str''))
      else Inr None)"

definition skill_content :: "'s skill_routes \<Rightarrow> string \<Rightarrow> exn + string" where
  "skill_content R path =
     (case ks_read R path of FileText s \<Rightarrow> Inr s | NoText m \<Rightarrow> Inl (ValueError m) | _ \<Rightarrow> Inr [])"

definition fs_skill_response :: "'s skill_routes \<Rightarrow> string \<Rightarrow> skill_info \<Rightarrow> exn + skill_response" where
  "fs_skill_response R skill_id k =
     bind_sum (skill_content R (ki_path k)) (\<lambda>content.
     Inr \<lparr>skr_id = skill_id, skr_name = ki_name k, skr_description = ki_description k, skr_content = content,
          skr_enabled = True, skr_created_at = None, skr_updated_at = None, skr_is_shared = None, skr_share_url = None,
          skr_source = ''filesystem'', skr_path = Some (ki_path k)\<rparr>)"

definition db_skill_response :: "'s skill_routes \<Rightarrow> skill_record \<Rightarrow> exn + skill_response" where
  "db_skill_response R s =
     bind_sum (parse_skill_datetime (ks_lib R) (JStr (sk_created_at s))) (\<lambda>created.
     bind_sum (parse_skill_datetime (ks_lib R) (sk_updated_at s)) (\<lambda>updated.
     bind_sum (check_opt (pd_bool (ks_conversions R)) (sk_is_shared s)) (\<lambda>shared.
     bind_sum (check_opt check_str (sk_share_url s)) (\<lambda>url.
     Inr \<lparr>skr_id = sk_id s, skr_name = sk_name s, skr_description = sk_description s, skr_content = sk_content s,
          skr_enabled = sk_enabled s, skr_created_at = created, skr_updated_at = updated, skr_is_shared = shared,
          skr_share_url = url, skr_source = ''database'', skr_path = None\<rparr>))))"

definition skill_missing :: "string \<Rightarrow> exn" where
  "skill_missing message = not_found_error message ''SKILL_NOT_FOUND''"

definition skill_readonly :: "string \<Rightarrow> exn" where
  "skill_readonly verb =
     APIError (''Filesystem skills cannot be '' @ verb @ '' the file directly.'') ''SKILL_READONLY'' 400"

definition is_fs_skill :: "string \<Rightarrow> bool" where
  "is_fs_skill skill_id = prefix ''fs:'' skill_id"

definition route_list_skills :: "'s skill_routes \<Rightarrow> string option \<Rightarrow> ('s, skill_response list) io" where
  "route_list_skills R source =
     and_then
       (if source = Some ''database'' then ret []
        else lift_sum (map_sum_list (\<lambda>k. fs_skill_response R (''fs:'' @ ki_name k) k) (discover_skills (ks_discovery R))))
       (\<lambda>fs.
     and_then
       (if source = Some ''filesystem'' then ret []
        else and_then (skp_list (ks_crud R)) (\<lambda>ss. lift_sum (map_sum_list (db_skill_response R) ss)))
       (\<lambda>db.
     ret (fs @ db)))"

definition route_create_skill :: "'s skill_routes \<Rightarrow> content_request \<Rightarrow> ('s, skill_response) io" where
  "route_create_skill R q =
     and_then (skp_create (ks_crud R) (ctq_name q) (ctq_description q) (ctq_content q) (ctq_enabled q)) (\<lambda>s.
     lift_sum (db_skill_response R s))"

definition route_get_skill :: "'s skill_routes \<Rightarrow> string \<Rightarrow> ('s, skill_response) io" where
  "route_get_skill R skill_id =
     (if is_fs_skill skill_id
      then
        (case List.find (\<lambda>k. ki_name k = drop 3 skill_id) (discover_skills (ks_discovery R)) of
           Some k \<Rightarrow> lift_sum (fs_skill_response R skill_id k)
         | None \<Rightarrow> throw (skill_missing ''Filesystem skill not found''))
      else
        and_then (skp_get (ks_crud R) skill_id) (\<lambda>x.
        and_then (found (skill_missing ''Skill not found'') x) (\<lambda>s. lift_sum (db_skill_response R s))))"

definition route_update_skill :: "'s skill_routes \<Rightarrow> string \<Rightarrow> content_request \<Rightarrow> ('s, skill_response) io" where
  "route_update_skill R skill_id q =
     (if is_fs_skill skill_id then throw (skill_readonly ''updated via API. Edit'')
      else
        and_then (skp_update (ks_crud R) skill_id (ctq_name q) (ctq_description q) (ctq_content q) (ctq_enabled q)) (\<lambda>x.
        and_then (found (skill_missing ''Skill not found'') x) (\<lambda>s. lift_sum (db_skill_response R s))))"

definition route_delete_skill :: "'s skill_routes \<Rightarrow> string \<Rightarrow> ('s, unit) io" where
  "route_delete_skill R skill_id =
     (if is_fs_skill skill_id then throw (skill_readonly ''deleted via API. Delete'')
      else
        and_then (skp_delete (ks_crud R) skill_id) (\<lambda>deleted.
        if deleted then ret () else throw (skill_missing ''Skill not found'')))"

end
