(* ===== verification/RegistryRouteProperties.thy ===== *)
theory RegistryRouteProperties
  imports RegistryRoutes RegistryProperties
begin

text \<open>
  What the routes over the registries promise: a record that a route created is read back as it was
  answered, every skill that is listed is found under its identifier, and those on disk are
  read-only. An agent with a model outside the four names of the reply is stored and then
  breaks every listing.
\<close>

section \<open>A created record\<close>

lemma found_Inr [simp]: "found e x w = (Inr y, w') \<longleftrightarrow> x = Some y \<and> w' = w"
  by (auto simp: found_def split: option.splits)

lemma check_opt_of_opt: "check_opt f (json_of_opt g x) =
    (case x of None \<Rightarrow> Inr None | Some y \<Rightarrow> if g y = JNull then Inr None else bind_sum (f (g y)) (\<lambda>z. Inr (Some z)))"
  by (cases x; cases "g (the x)") auto

text \<open>A registry whose records are shown to clients: what is shown of a record names its identifier.\<close>

locale shown_records = record_store L C ent ages matches R canon good
  for L :: pylib and C :: "'c cache" and ent ages matches
    and R :: "'a registry" and canon :: "'a \<Rightarrow> 'a" and good :: "'a \<Rightarrow> bool" +
  fixes view :: "'a \<Rightarrow> exn + 'b" and view_id :: "'b \<Rightarrow> string" and record_id :: "'a \<Rightarrow> string"
  assumes view_names: "view x = Inr v \<Longrightarrow> view_id v = record_id x"
begin

lemma created_read_back:
  assumes h: "holds L R canon good (ent (w_cache w)) M"
    and create: "and_then (create_record C R build) (\<lambda>x. lift_sum (view x)) w = (Inr v, w1)"
    and built: "\<And>i now. good (build i now)" "\<And>i now. record_id (build i now) = i"
      "\<And>i now. canon (build i now) = build i now"
    and get: "and_then (get_record C R (view_id v)) (\<lambda>x. and_then (found e x) (\<lambda>x. lift_sum (view x))) w1 = (Inr v', w2)"
  shows "v' = v"
proof -
  from create obtain x where x: "create_record C R build w = (Inr x, w1)" and v: "view x = Inr v"
    by (auto simp: and_then_Inr)
  note made = create_record_map [OF h x built(1)]
  from get obtain r u where r: "get_record C R (view_id v) w1 = (Inr r, u)"
    and found: "and_then (found e r) (\<lambda>x. lift_sum (view x)) u = (Inr v', w2)"
    by (auto simp: and_then_Inr)
  have "view_id v = w_tokens w (w_draws w)"
    using view_names [OF v] made(1) built(2) by simp
  with get_record_map(1) [OF made(2) r] made(1) built(3) have "r = Some x" by simp
  with found v show ?thesis by (auto simp: and_then_Inr)
qed

lemma created_id:
  assumes "holds L R canon good (ent (w_cache w)) M"
    and "and_then (create_record C R build) (\<lambda>x. lift_sum (view x)) w = (Inr v, w1)"
    and "\<And>i now. good (build i now)" "\<And>i now. record_id (build i now) = i"
  shows "view_id v = w_tokens w (w_draws w)"
proof -
  from assms(2) obtain x where x: "create_record C R build w = (Inr x, w1)" and v: "view x = Inr v"
    by (auto simp: and_then_Inr)
  from create_record_map(1) [OF assms(1) x assms(3)] view_names [OF v] assms(4) show ?thesis by simp
qed

text \<open>One record that cannot be shown breaks the listing.\<close>

lemma listing_raises:
  assumes h: "holds L R canon good (ent (w_cache w)) M" and i: "M i = Some x" and bad: "view x = Inl e"
  shows "\<exists>e'. fst (and_then (list_records C R) (\<lambda>xs. lift_sum (map_sum_list view xs)) w) = Inl e'"
proof (cases "list_records C R w")
  case (Pair r w')
  show ?thesis
  proof (cases r)
    case (Inl e')
    with Pair show ?thesis by (auto simp: and_then_def)
  next
    case (Inr xs)
    with list_records_map(1) [OF h] Pair obtain ids where "set ids = dom M" "xs = map (\<lambda>i. the (M i)) ids" by blast
    with i have "x \<in> set xs" by (force simp: image_iff)
    with bad have "map_sum_list view xs \<noteq> Inr ys" for ys
      by (induction xs arbitrary: ys) (auto simp: bind_sum_Inr)
    then obtain e' where "map_sum_list view xs = Inl e'" by (cases "map_sum_list view xs") auto
    with Pair Inr show ?thesis by (simp add: and_then_def lift_sum_def)
  qed
qed

end

section \<open>The registries, shown\<close>

lemma skills_on: "live_cache L C ent ages matches \<Longrightarrow>
    record_store L C ent ages matches (skills L) (\<lambda>s. s) wf_skill"
  by (rule record_store.intro) (assumption, rule skill_registry.stored_records_axioms)

lemma commands_on: "live_cache L C ent ages matches \<Longrightarrow>
    record_store L C ent ages matches (slash_commands L) (\<lambda>c. c) wf_command"
  by (rule record_store.intro) (assumption, rule command_registry.stored_records_axioms)

lemma presets_on: "live_cache L C ent ages matches \<Longrightarrow>
    record_store L C ent ages matches (tool_presets L) (\<lambda>p. p) wf_preset"
  by (rule record_store.intro) (assumption, rule preset_registry.stored_records_axioms)

lemma reply_names:
  "agent_response D a = Inr va \<Longrightarrow> agd_id va = ag_id a"
  "make_project_response D p = Inr vp \<Longrightarrow> pjr_id vp = pj_id p"
  "db_skill_response R s = Inr vs \<Longrightarrow> skr_id vs = sk_id s"
  "make_command_response D c = Inr vc \<Longrightarrow> scr_id vc = sc_id c"
  "make_preset_response D t = Inr vt \<Longrightarrow> tpr_id vt = tp_id t"
  by (auto simp: agent_response_def make_project_response_def db_skill_response_def make_command_response_def
      make_preset_response_def bind_sum_Inr)

lemmas shown_intro = shown_records.intro [OF _ shown_records_axioms.intro]

lemma agents_shown: "live_cache L C ent ages matches \<Longrightarrow>
    shown_records L C ent ages matches (agents L) stored_agent wf_agent (agent_response D) agd_id ag_id"
  by (rule shown_intro) (rule agents_on, assumption, rule reply_names)

lemma projects_shown: "live_cache L C ent ages matches \<Longrightarrow>
    shown_records L C ent ages matches (projects L) (\<lambda>p. p) wf_project (make_project_response D) pjr_id pj_id"
  by (rule shown_intro) (rule projects_on, assumption, rule reply_names)

lemma skills_shown: "live_cache L C ent ages matches \<Longrightarrow>
    shown_records L C ent ages matches (skills L) (\<lambda>s. s) wf_skill (db_skill_response R) skr_id sk_id"
  by (rule shown_intro) (rule skills_on, assumption, rule reply_names)

lemma commands_shown: "live_cache L C ent ages matches \<Longrightarrow>
    shown_records L C ent ages matches (slash_commands L) (\<lambda>c. c) wf_command (make_command_response D) scr_id sc_id"
  by (rule shown_intro) (rule commands_on, assumption, rule reply_names)

lemma presets_shown: "live_cache L C ent ages matches \<Longrightarrow>
    shown_records L C ent ages matches (tool_presets L) (\<lambda>p. p) wf_preset (make_preset_response D) tpr_id tp_id"
  by (rule shown_intro) (rule presets_on, assumption, rule reply_names)

lemmas registry_services = get_agent_config_service_def get_project_service_def get_skills_crud_service_def
  get_slash_command_service_def get_tool_preset_service_def

section \<open>Reading back\<close>

record 's registry_api =
  ra_conversions :: conversions
  ra_agents :: "'s agent_config_protocol"
  ra_projects :: "'s project_protocol"
  ra_skills :: "'s skill_routes"
  ra_commands :: "'s command_protocol"
  ra_presets :: "'s preset_protocol"

datatype creation =
    NewAgent agent_request
  | NewProject project_create_request
  | NewSkill content_request
  | NewCommand content_request
  | NewPreset preset_request

datatype registry_reply =
    AgentReply agent_reply
  | ProjectReply project_response
  | SkillReply skill_response
  | CommandReply command_response
  | PresetReply preset_response

fun create_by_route :: "'s registry_api \<Rightarrow> creation \<Rightarrow> ('s, registry_reply) io" where
  "create_by_route A (NewAgent q) = answer AgentReply (route_create_agent (ra_conversions A) (ra_agents A) q)"
| "create_by_route A (NewProject q) = answer ProjectReply (route_create_project (ra_conversions A) (ra_projects A) q)"
| "create_by_route A (NewSkill q) = answer SkillReply (route_create_skill (ra_skills A) q)"
| "create_by_route A (NewCommand q) = answer CommandReply (create_slash_command (ra_conversions A) (ra_commands A) q)"
| "create_by_route A (NewPreset q) = answer PresetReply (create_tool_preset (ra_conversions A) (ra_presets A) q)"

fun read_by_route :: "'s registry_api \<Rightarrow> registry_reply \<Rightarrow> ('s, registry_reply) io" where
  "read_by_route A (AgentReply v) = answer AgentReply (route_get_agent (ra_conversions A) (ra_agents A) (agd_id v))"
| "read_by_route A (ProjectReply v) =
     answer ProjectReply (route_get_project (ra_conversions A) (ra_projects A) (pjr_id v))"
| "read_by_route A (SkillReply v) = answer SkillReply (route_get_skill (ra_skills A) (skr_id v))"
| "read_by_route A (CommandReply v) =
     answer CommandReply (get_slash_command (ra_conversions A) (ra_commands A) (scr_id v))"
| "read_by_route A (PresetReply v) = answer PresetReply (get_tool_preset (ra_conversions A) (ra_presets A) (tpr_id v))"

text \<open>The services over one cache, and what they hold.\<close>

definition registry_services_on :: "pylib \<Rightarrow> 'c cache \<Rightarrow> ('c, 'd) world registry_api \<Rightarrow> bool" where
  "registry_services_on L C A \<longleftrightarrow>
     ra_agents A = get_agent_config_service L C \<and> ra_projects A = get_project_service L C \<and>
     ks_crud (ra_skills A) = get_skills_crud_service L C \<and> ra_commands A = get_slash_command_service L C \<and>
     ra_presets A = get_tool_preset_service L C"

definition registries_held :: "pylib \<Rightarrow> store \<Rightarrow> bool" where
  "registries_held L m \<longleftrightarrow>
     (\<exists>M. holds L (agents L) stored_agent wf_agent m M) \<and> (\<exists>M. holds L (projects L) (\<lambda>p. p) wf_project m M) \<and>
     (\<exists>M. holds L (skills L) (\<lambda>s. s) wf_skill m M) \<and> (\<exists>M. holds L (slash_commands L) (\<lambda>c. c) wf_command m M) \<and>
     (\<exists>M. holds L (tool_presets L) (\<lambda>p. p) wf_preset m M)"

text \<open>An agent with an empty list of tools is read back with none; metadata is a JSON object.\<close>

fun good_creation :: "creation \<Rightarrow> bool" where
  "good_creation (NewAgent q) \<longleftrightarrow> agq_tools q \<noteq> Some []"
| "good_creation (NewProject q) \<longleftrightarrow> (\<forall>d. pjq_metadata q = Some d \<longrightarrow> wf_dict d)"
| "good_creation _ \<longleftrightarrow> True"

lemma list_all_wf_texts [simp]: "list_all wf_json (map JStr ts)"
  by (simp add: list_all_iff)

lemma answer_Inr: "answer f m w = (Inr r, w') \<longleftrightarrow> (\<exists>x. m w = (Inr x, w') \<and> r = f x)"
  by (auto simp: answer_def and_then_Inr)

locale registry_api_on = live_cache L C ent ages matches
  for L :: pylib and C :: "'c cache" and ent ages matches +
  fixes A :: "('c, 'd) world registry_api"
  assumes on: "registry_services_on L C A"
begin

lemmas on_services = on [unfolded registry_services_on_def]

lemma created_agent_read_back:
  assumes h: "holds L (agents L) stored_agent wf_agent (ent (w_cache w)) M" and q: "agq_tools q \<noteq> Some []"
    and "route_create_agent D (ra_agents A) q w = (Inr v, w1)"
    and "route_get_agent D (ra_agents A) (agd_id v) w1 = (Inr v', w2)"
  shows "v' = v"
  by (rule shown_records.created_read_back [OF agents_shown [OF live_cache_axioms] h, of _ D v w1 agent_missing v' w2])
     (insert q assms(3,4) on_services,
      auto simp: route_create_agent_def route_get_agent_def registry_services create_agent_def get_agent_def
        wf_agent_def stored_agent_def)

lemma created_project_read_back:
  assumes h: "holds L (projects L) (\<lambda>p. p) wf_project (ent (w_cache w)) M"
    and q: "\<And>d. pjq_metadata q = Some d \<Longrightarrow> wf_dict d"
    and create: "route_create_project D (ra_projects A) q w = (Inr v, w1)"
    and get: "route_get_project D (ra_projects A) (pjr_id v) w1 = (Inr v', w2)"
  shows "v' = v"
proof -
  let ?build = "\<lambda>i now. \<lparr>pj_id = i, pj_name = pjq_name q, pj_path = project_path (pjq_path q) (pjq_name q),
    pj_created_at = isoformat L now, pj_last_accessed_at = JNull, pj_session_count = JInt 0,
    pj_metadata = json_of_opt JObj (pjq_metadata q)\<rparr>"
  note on_projects = projects_on [OF live_cache_axioms]
  from create on_services obtain xs u where ls: "list_records C (projects L) w = (Inr xs, u)"
    and mk: "and_then (create_record C (projects L) ?build) (\<lambda>p. lift_sum (make_project_response D p)) u = (Inr v, w1)"
    by (auto simp: route_create_project_def registry_services create_project_def list_projects_def and_then_Inr Let_def
        split: if_splits)
  have h': "holds L (projects L) (\<lambda>p. p) wf_project (ent (w_cache u)) M"
    using record_store.list_records_map(2) [OF on_projects h ls] h by simp
  show ?thesis
    by (rule shown_records.created_read_back [OF projects_shown [OF live_cache_axioms] h' mk, where e = project_missing])
       (insert q get on_services wf_json_metadata [of "pjq_metadata q"],
        auto simp: route_get_project_def registry_services get_project_def wf_project_def)
qed

lemma created_skill_read_back:
  assumes h: "holds L (skills L) (\<lambda>s. s) wf_skill (ent (w_cache w)) M"
    and "route_create_skill (ra_skills A) q w = (Inr v, w1)" and "\<not> is_fs_skill (skr_id v)"
    and "route_get_skill (ra_skills A) (skr_id v) w1 = (Inr v', w2)"
  shows "v' = v"
  by (rule shown_records.created_read_back [OF skills_shown [OF live_cache_axioms] h, of _ "ra_skills A" v w1
        "skill_missing ''Skill not found''" v' w2])
     (insert assms(2-4) on_services,
      auto simp: route_create_skill_def route_get_skill_def registry_services create_skill_def get_skill_def wf_skill_def)

lemma created_skill_id:
  assumes h: "holds L (skills L) (\<lambda>s. s) wf_skill (ent (w_cache w)) M"
    and "route_create_skill (ra_skills A) q w = (Inr v, w1)"
  shows "skr_id v = w_tokens w (w_draws w)"
  by (rule shown_records.created_id [OF skills_shown [OF live_cache_axioms] h, of _ "ra_skills A" v w1])
     (insert assms(2) on_services,
      auto simp: route_create_skill_def registry_services create_skill_def wf_skill_def)

lemma created_command_read_back:
  assumes h: "holds L (slash_commands L) (\<lambda>c. c) wf_command (ent (w_cache w)) M"
    and "create_slash_command D (ra_commands A) q w = (Inr v, w1)"
    and "get_slash_command D (ra_commands A) (scr_id v) w1 = (Inr v', w2)"
  shows "v' = v"
  by (rule shown_records.created_read_back [OF commands_shown [OF live_cache_axioms] h, of _ D v w1 command_missing v' w2])
     (insert assms(2,3) on_services,
      auto simp: create_slash_command_def get_slash_command_def registry_services create_command_def get_command_def
        wf_command_def)

lemma created_preset_read_back:
  assumes h: "holds L (tool_presets L) (\<lambda>p. p) wf_preset (ent (w_cache w)) M"
    and "create_tool_preset D (ra_presets A) q w = (Inr v, w1)"
    and "get_tool_preset D (ra_presets A) (tpr_id v) w1 = (Inr v', w2)"
  shows "v' = v"
  by (rule shown_records.created_read_back [OF presets_shown [OF live_cache_axioms] h, of _ D v w1
        "preset_missing (tpr_id v)" v' w2])
     (insert assms(2,3) on_services,
      auto simp: create_tool_preset_def get_tool_preset_def registry_services create_preset_def get_preset_def
        wf_preset_def wf_json_of_opt_leaf)

lemma created_read_back_api:
  assumes "registries_held L (ent (w_cache w))" and "good_creation c" and "\<And>n. \<not> is_fs_skill (w_tokens w n)"
    and "create_by_route A c w = (Inr r, w1)" and "read_by_route A r w1 = (Inr r', w2)"
  shows "r' = r"
proof (cases c)
  case (NewAgent q)
  with assms created_agent_read_back show ?thesis by (auto simp: answer_Inr registries_held_def)
next
  case (NewProject q)
  with assms(4) obtain v where v: "route_create_project (ra_conversions A) (ra_projects A) q w = (Inr v, w1)"
    and r: "r = ProjectReply v" by (auto simp: answer_Inr)
  from assms(1) obtain M where h: "holds L (projects L) (\<lambda>p. p) wf_project (ent (w_cache w)) M"
    by (auto simp: registries_held_def)
  from created_project_read_back [OF h _ v] assms(2,5) NewProject r show ?thesis by (auto simp: answer_Inr)
next
  case (NewSkill q)
  with assms(4) obtain v where v: "route_create_skill (ra_skills A) q w = (Inr v, w1)" and r: "r = SkillReply v"
    by (auto simp: answer_Inr)
  from assms(1) obtain M where h: "holds L (skills L) (\<lambda>s. s) wf_skill (ent (w_cache w)) M"
    by (auto simp: registries_held_def)
  have "\<not> is_fs_skill (skr_id v)" using created_skill_id [OF h v] assms(3) by simp
  with created_skill_read_back [OF h v] assms(5) r show ?thesis by (auto simp: answer_Inr)
next
  case (NewCommand q)
  with assms created_command_read_back show ?thesis by (auto simp: answer_Inr registries_held_def)
next
  case (NewPreset q)
  with assms created_preset_read_back show ?thesis by (auto simp: answer_Inr registries_held_def)
qed

end

text \<open>
  C34: An agent, project, skill, command or preset that a route created is read back by its
  route exactly as it was answered, for agents whose list of tools is not empty and
  identifiers that do not start like those of skills on disk.
\<close>

theorem registry_replies_read_back:
  assumes "live_cache L C ent ages matches" and "registry_services_on L C A"
    and "registries_held L (ent (w_cache w))" and "good_creation c" and "\<forall>n. \<not> is_fs_skill (w_tokens w n)"
    and "create_by_route A c w = (Inr r, w1)" and "read_by_route A r w1 = (Inr r', w2)"
  shows "r' = r"
  using registry_api_on.created_read_back_api [OF registry_api_on.intro [OF assms(1) registry_api_on_axioms.intro [OF assms(2)]]
      assms(3,4) _ assms(6,7)] assms(5) by blast

section \<open>Skills\<close>

text \<open>Skills in a cache are under their own identifiers, which are not those of files.\<close>

definition skills_held :: "pylib \<Rightarrow> store \<Rightarrow> (string \<Rightarrow> skill_record option) \<Rightarrow> bool" where
  "skills_held L m M \<longleftrightarrow> holds L (skills L) (\<lambda>s. s) wf_skill m M \<and>
     (\<forall>i s. M i = Some s \<longrightarrow> sk_id s = i \<and> \<not> is_fs_skill i)"

lemma find_named: "distinct (map f ks) \<Longrightarrow> k \<in> set ks \<Longrightarrow> List.find (\<lambda>x. f x = f k) ks = Some k"
  by (induction ks) (auto simp: image_iff)

lemma map_sum_list_mem:
  "map_sum_list f xs = Inr ys \<Longrightarrow> y \<in> set ys \<Longrightarrow> \<exists>x \<in> set xs. f x = Inr y"
  by (induction xs arbitrary: ys) (auto simp: bind_sum_Inr)

lemma map_sum_list_names:
  "map_sum_list f xs = Inr ys \<Longrightarrow> (\<And>x y. f x = Inr y \<Longrightarrow> h y = g x) \<Longrightarrow> map h ys = map g xs"
  by (induction xs arbitrary: ys) (auto simp: bind_sum_Inr)

lemma fs_skill_id: "fs_skill_response R i k = Inr v \<Longrightarrow> skr_id v = i"
  by (auto simp: fs_skill_response_def bind_sum_Inr)

lemma fs_id [simp]: "is_fs_skill (''fs:'' @ n)"
  by (simp add: is_fs_skill_def)

lemma fs_skill_found:
  assumes "k \<in> set (discover_skills (ks_discovery R))"
  shows "route_get_skill R (''fs:'' @ ki_name k) = lift_sum (fs_skill_response R (''fs:'' @ ki_name k) k)"
  using find_named [OF discovered_names assms] fs_id [of "ki_name k"]
  by (simp add: route_get_skill_def)

lemma listed_from_disk:
  assumes "(if source = Some ''database'' then ret []
      else lift_sum (map_sum_list (\<lambda>k. fs_skill_response R (''fs:'' @ ki_name k) k) (discover_skills (ks_discovery R)))) w =
    (Inr fs, w')"
  shows "w' = w" and "distinct (map skr_id fs)"
    and "set (map skr_id fs) =
      (if source = Some ''database'' then {} else (\<lambda>k. ''fs:'' @ ki_name k) ` set (discover_skills (ks_discovery R)))"
    and "v \<in> set fs \<Longrightarrow> is_fs_skill (skr_id v) \<and> (route_get_skill R (skr_id v) u = (Inr v', u') \<longrightarrow> v' = v)"
proof -
  let ?ks = "discover_skills (ks_discovery R)"
  from assms show "w' = w" by (auto split: if_splits)
  from assms have fs: "fs = [] \<and> source = Some ''database'' \<or> source \<noteq> Some ''database'' \<and>
      map_sum_list (\<lambda>k. fs_skill_response R (''fs:'' @ ki_name k) k) ?ks = Inr fs"
    by (auto split: if_splits)
  then have ids: "map skr_id fs = (if source = Some ''database'' then [] else map (\<lambda>k. ''fs:'' @ ki_name k) ?ks)"
    using map_sum_list_names [of "\<lambda>k. fs_skill_response R (''fs:'' @ ki_name k) k" ?ks fs skr_id "\<lambda>k. ''fs:'' @ ki_name k"]
      fs_skill_id by auto
  then show "set (map skr_id fs) = (if source = Some ''database'' then {} else (\<lambda>k. ''fs:'' @ ki_name k) ` set ?ks)"
    by simp
  from ids discovered_names [of "ks_discovery R"] show "distinct (map skr_id fs)"
    by (auto simp: distinct_map inj_on_def)
  assume "v \<in> set fs"
  with fs map_sum_list_mem [of "\<lambda>k. fs_skill_response R (''fs:'' @ ki_name k) k" ?ks fs v]
  obtain k where k: "k \<in> set ?ks" "fs_skill_response R (''fs:'' @ ki_name k) k = Inr v" by auto
  with fs_skill_found [OF k(1)] fs_skill_id [OF k(2)]
  show "is_fs_skill (skr_id v) \<and> (route_get_skill R (skr_id v) u = (Inr v', u') \<longrightarrow> v' = v)"
    by (auto simp: is_fs_skill_def)
qed

lemma listed_from_cache:
  assumes live: "live_cache L C ent ages matches" and crud: "ks_crud R = get_skills_crud_service L C"
    and held: "skills_held L (ent (w_cache w)) M"
    and run: "(if source = Some ''filesystem'' then ret []
      else and_then (skp_list (ks_crud R)) (\<lambda>ss. lift_sum (map_sum_list (db_skill_response R) ss))) w = (Inr db, w')"
  shows "distinct (map skr_id db)" and "set (map skr_id db) = (if source = Some ''filesystem'' then {} else dom M)"
    and "v \<in> set db \<Longrightarrow> \<not> is_fs_skill (skr_id v) \<and> (route_get_skill R (skr_id v) w' = (Inr v', u') \<longrightarrow> v' = v)"
proof (atomize(full), cases "source = Some ''filesystem''")
  case True
  with run show "distinct (map skr_id db) \<and>
      set (map skr_id db) = (if source = Some ''filesystem'' then {} else dom M) \<and>
      (v \<in> set db \<longrightarrow> \<not> is_fs_skill (skr_id v) \<and> (route_get_skill R (skr_id v) w' = (Inr v', u') \<longrightarrow> v' = v))"
    by simp
next
  case False
  note store = skills_on [OF live]
  from held have h: "holds L (skills L) (\<lambda>s. s) wf_skill (ent (w_cache w)) M"
    and own: "\<And>i s. M i = Some s \<Longrightarrow> sk_id s = i \<and> \<not> is_fs_skill i"
    by (auto simp: skills_held_def)
  from False run crud obtain ss where ss: "list_records C (skills L) w = (Inr ss, w')"
    and db: "map_sum_list (db_skill_response R) ss = Inr db"
    by (auto simp: and_then_Inr get_skills_crud_service_def list_skills_def)
  from record_store.list_records_map(1) [OF store h ss] obtain ids where
    ids: "distinct ids" "set ids = dom M" "ss = map (\<lambda>i. the (M i)) ids" by blast
  have h': "holds L (skills L) (\<lambda>s. s) wf_skill (ent (w_cache w')) M"
    using record_store.list_records_map(2) [OF store h ss] h by simp
  have "map sk_id ss = ids"
    using ids(2) own unfolding ids(3) map_map by (intro map_idI) fastforce
  moreover have "map skr_id db = map sk_id ss"
    by (rule map_sum_list_names [OF db]) (rule reply_names(3))
  ultimately have names: "map skr_id db = ids" by simp
  have "\<not> is_fs_skill (skr_id v) \<and> (route_get_skill R (skr_id v) w' = (Inr v', u') \<longrightarrow> v' = v)" if "v \<in> set db"
  proof -
    from map_sum_list_mem [OF db that] obtain s where "s \<in> set ss" and v: "db_skill_response R s = Inr v" by blast
    with ids obtain i where i: "M i = Some s" by auto
    with own reply_names(3) [OF v] have id: "skr_id v = i" and nfs: "\<not> is_fs_skill i" by auto
    have "x = Some s" if "get_record C (skills L) i w' = (Inr x, u)" for x u
      using record_store.get_record_map(1) [OF store h' that] i by simp
    with id nfs v crud show ?thesis
      by (auto simp: route_get_skill_def get_skills_crud_service_def get_skill_def and_then_Inr)
  qed
  with names ids False show "distinct (map skr_id db) \<and>
      set (map skr_id db) = (if source = Some ''filesystem'' then {} else dom M) \<and>
      (v \<in> set db \<longrightarrow> \<not> is_fs_skill (skr_id v) \<and> (route_get_skill R (skr_id v) w' = (Inr v', u') \<longrightarrow> v' = v))"
    by simp
qed

text \<open>
  C35: The list of skills names every skill once: those on disk, each once by its name, and
  those that the cache holds, as far as the source asked for; and getting any of them by the
  identifier in the list answers what the list said, where it returns. Skills on disk cannot
  be changed or deleted, and trying leaves everything as it was.
\<close>

theorem listed_skills_found:
  assumes "live_cache L C ent ages matches" and "ks_crud R = get_skills_crud_service L C"
    and "skills_held L (ent (w_cache w)) M" and "route_list_skills R source w = (Inr vs, w1)"
  shows "distinct (map skr_id vs) \<and>
    set (map skr_id vs) =
      (if source = Some ''database'' then {} else (\<lambda>k. ''fs:'' @ ki_name k) ` set (discover_skills (ks_discovery R))) \<union>
      (if source = Some ''filesystem'' then {} else dom M) \<and>
    (\<forall>v v' w2. v \<in> set vs \<longrightarrow> route_get_skill R (skr_id v) w1 = (Inr v', w2) \<longrightarrow> v' = v) \<and>
    (\<forall>i q v. is_fs_skill i \<longrightarrow>
       (\<exists>e. route_update_skill R i q v = (Inl e, v)) \<and> (\<exists>e. route_delete_skill R i v = (Inl e, v)))"
proof -
  from assms(4) obtain fs w' db where vs: "vs = fs @ db"
    and fs: "(if source = Some ''database'' then ret []
      else lift_sum (map_sum_list (\<lambda>k. fs_skill_response R (''fs:'' @ ki_name k) k) (discover_skills (ks_discovery R)))) w =
      (Inr fs, w')"
    and db: "(if source = Some ''filesystem'' then ret []
      else and_then (skp_list (ks_crud R)) (\<lambda>ss. lift_sum (map_sum_list (db_skill_response R) ss))) w' = (Inr db, w1)"
    by (auto simp: route_list_skills_def and_then_Inr)
  note disk = listed_from_disk [OF fs]
  note cache = listed_from_cache [OF assms(1,2,3) db [unfolded disk(1)]]
  have "skr_id ` set fs \<inter> skr_id ` set db = {}"
    using disk(4) cache(3) by fastforce
  moreover have "(\<exists>e. route_update_skill R i q v = (Inl e, v)) \<and> (\<exists>e. route_delete_skill R i v = (Inl e, v))"
    if "is_fs_skill i" for i q v
    using that by (simp add: route_update_skill_def route_delete_skill_def)
  ultimately show ?thesis
    using vs disk(2,3) cache(1,2) disk(4) cache(3) by (intro conjI) auto
qed

section \<open>Models the reply does not know\<close>

lemma unknown_model_not_shown:
  "ag_model a = JStr m \<Longrightarrow> m \<notin> {''sonnet'', ''opus'', ''haiku'', ''inherit''} \<Longrightarrow> agent_response D a = Inl invalid_field"
  by (simp add: agent_response_def check_literal_def)

text \<open>
  The request takes any text as the model of an agent. With one that the reply does not
  know the creation raises after the agent was stored, and from then on so does every
  listing, for as long as the cache holds what it holds.
\<close>

theorem unknown_model_breaks_listing:
  fixes C :: "'c cache" and w w1 :: "('c, 'd) world"
  assumes "live_cache L C ent ages matches" and "agents_held L (ent (w_cache w)) M"
    and "agq_model q = Some m" and "m \<notin> {''sonnet'', ''opus'', ''haiku'', ''inherit''}"
    and "create_agent L C (agq_name q) (agq_description q) (agq_prompt q) (agq_tools q) (agq_model q) w = (Inr a, w1)"
  shows "route_create_agent D (get_agent_config_service L C) q w = (Inl invalid_field, w1) \<and>
    agents_held L (ent (w_cache w1)) (M(ag_id a \<mapsto> stored_agent a)) \<and>
    (\<forall>w2 :: ('c, 'd) world. ent (w_cache w2) = ent (w_cache w1) \<longrightarrow>
       (\<exists>e. fst (route_list_agents D (get_agent_config_service L C) w2) = Inl e))"
proof -
  note store = agents_on [OF assms(1)]
  from assms(2) have h: "holds L (agents L) stored_agent wf_agent (ent (w_cache w)) M" by (simp add: agents_held_def)
  note made = record_store.create_record_map [OF store h assms(5) [unfolded create_agent_def]]
  have a: "a = \<lparr>ag_id = w_tokens w (w_draws w), ag_name = agq_name q, ag_description = agq_description q,
      ag_prompt = agq_prompt q, ag_tools = agq_tools q, ag_model = json_of_opt JStr (agq_model q),
      ag_created_at = isoformat L (w_clock w (w_ticks w)), ag_updated_at = JNull, ag_is_shared = JBool False,
      ag_share_url = JNull, ag_share_token = JNull\<rparr>"
    by (rule made(1)) (simp add: wf_agent_def assms(3))
  have id: "ag_id a = w_tokens w (w_draws w)" by (subst a) simp
  have h1: "holds L (agents L) stored_agent wf_agent (ent (w_cache w1)) (M(ag_id a \<mapsto> stored_agent a))"
    unfolding id by (rule made(2)) (simp add: wf_agent_def assms(3))
  have bad: "agent_response D a = Inl invalid_field" "agent_response D (stored_agent a) = Inl invalid_field"
    using a assms(3,4) by (auto intro!: unknown_model_not_shown simp: stored_agent_def)
  have "route_create_agent D (get_agent_config_service L C) q w = (Inl invalid_field, w1)"
    using assms(5) bad(1)
    by (simp add: route_create_agent_def get_agent_config_service_def and_then_run)
  moreover have "\<exists>e. fst (route_list_agents D (get_agent_config_service L C) w2) = Inl e"
    if "ent (w_cache w2) = ent (w_cache w1)" for w2 :: "('c, 'd) world"
    using shown_records.listing_raises [OF agents_shown [OF assms(1)] _ _ bad(2), of w2
        "M(ag_id a \<mapsto> stored_agent a)" "ag_id a"] h1 that
    by (simp add: route_list_agents_def get_agent_config_service_def list_agents_def)
  ultimately show ?thesis using h1 by (simp add: agents_held_def)
qed

section \<open>A concrete interface\<close>

definition ref_conversions :: conversions where
  "ref_conversions =
     \<lparr>pd_bool = (\<lambda>v. case v of JBool b \<Rightarrow> Inr b | _ \<Rightarrow> Inl invalid_field),
      pd_int = (\<lambda>v. case v of JInt i \<Rightarrow> Inr i | _ \<Rightarrow> Inl invalid_field),
      pd_float = (\<lambda>v. case v of JFloat f \<Rightarrow> Inr f | _ \<Rightarrow> Inl invalid_field),
      pd_datetime = (\<lambda>v. case v of JStr s \<Rightarrow> (case fromisoformat ref_lib s of Some d \<Rightarrow> Inr d | None \<Rightarrow> Inl invalid_field)
        | _ \<Rightarrow> Inl invalid_field)\<rparr>"

lemma ref_conversion_laws: "conversion_laws ref_lib ref_conversions"
  by (simp add: conversion_laws_def pydantic_laws_def ref_conversions_def pydantic.truncate_def)

definition tea_file :: skill_file where
  "tea_file = \<lparr>kf_path = ''/s/tea.md'', kf_name = ''tea.md'', kf_content = FileText (skill_text ''tea'' ''Makes tea.'' [])\<rparr>"

definition ref_skill_routes :: "(server redis_world, unit) world skill_routes" where
  "ref_skill_routes =
     \<lparr>ks_lib = ref_lib, ks_conversions = ref_conversions,
      ks_discovery = \<lparr>kd_global = Some \<lparr>sd_nested = [], sd_flat = [tea_file]\<rparr>, kd_project = None\<rparr>,
      ks_read = (\<lambda>_. kf_content tea_file), ks_crud = get_skills_crud_service ref_lib (ref_cache 0)\<rparr>"

definition ref_api :: "(server redis_world, unit) world registry_api" where
  "ref_api =
     \<lparr>ra_conversions = ref_conversions, ra_agents = get_agent_config_service ref_lib (ref_cache 0),
      ra_projects = get_project_service ref_lib (ref_cache 0), ra_skills = ref_skill_routes,
      ra_commands = get_slash_command_service ref_lib (ref_cache 0),
      ra_presets = get_tool_preset_service ref_lib (ref_cache 0)\<rparr>"

lemma ref_api_on: "registry_services_on ref_lib (ref_cache 0) ref_api"
  by (simp add: registry_services_on_def ref_api_def ref_skill_routes_def)

interpretation ref_registries: registry_api_on ref_lib "ref_cache 0" ref_ent "server_ages 0" glob ref_api
  by (rule registry_api_on.intro [OF ref_live registry_api_on_axioms.intro [OF ref_api_on]])

interpretation ref_presets: shown_records ref_lib "ref_cache 0" ref_ent "server_ages 0" glob "tool_presets ref_lib"
  "\<lambda>p. p" wf_preset "make_preset_response ref_conversions" tpr_id tp_id
  by (rule presets_shown [OF ref_live])

lemma ref_world_holds: "holds ref_lib Q canon good (ref_ent (w_cache (ref_world d))) Map.empty"
  unfolding holds_def slot_def by (simp add: ref_world_empty del: ref_world_sel)

lemma ref_registries_held: "registries_held ref_lib (ref_ent (w_cache (ref_world d)))"
  unfolding registries_held_def by (intro conjI exI; rule ref_world_holds)

definition quiet_preset :: preset_request where
  "quiet_preset = \<lparr>tpq_name = ''quiet'', tpq_description = None, tpq_allowed_tools = [''Read''], tpq_disallowed_tools = []\<rparr>"

definition quiet_response :: preset_response where
  "quiet_response =
     \<lparr>tpr_id = ''a'', tpr_name = ''quiet'', tpr_description = None, tpr_allowed_tools = [''Read''],
      tpr_disallowed_tools = [], tpr_is_system = False, tpr_created_at = 1000000\<rparr>"

lemmas preset_eval = ref_api_def get_tool_preset_service_def quiet_preset_def quiet_response_def answer_def
  create_tool_preset_def get_tool_preset_def make_preset_response_def create_preset_def get_preset_def
  tool_presets_def preset_payload_def preset_of_dict_def field_read_defs ref_conversions_def

lemma quiet_created:
  "create_by_route ref_api (NewPreset quiet_preset) (ref_world ()) =
     (Inr (PresetReply quiet_response), snd (create_by_route ref_api (NewPreset quiet_preset) (ref_world ())))"
  by (rule fst_run)
     (simp add: preset_eval registry_eval utc_now_def draw_token_def ref_eval del: eval_rules)

lemma ref_tokens_no_file: "\<not> is_fs_skill (w_tokens (ref_world ()) n)"
  by (cases n) (auto simp: is_fs_skill_def ref_tokens_def)

lemma ref_record_read:
  assumes "stored_records Q canon good" and "holds ref_lib Q canon good (ref_ent (w_cache w)) M" and "M i = Some x"
  shows "get_record (ref_cache 0) Q i w = (Inr (Some x), w)"
proof -
  note store = record_store.intro [OF ref_live assms(1)]
  have "stored_text (ref_ent (w_cache w) (record_key Q i)) \<noteq> None"
    using record_store.holds_Some [OF store assms(2,3)] by (auto simp: dump_entry_def)
  then have "on_cache (c_get_json (ref_cache 0) (record_key Q i)) w =
      (Inr (stored_json ref_lib (ref_ent (w_cache w) (record_key Q i))), w)"
    by (simp add: on_cache_def ref_get_json_ok)
  then show ?thesis
    using record_store.stored_record [OF store assms(2), of i] assms(3)
    by (simp add: get_record_def and_then_run)
qed

lemma registry_replies_read_back_witness:
  "fst (read_by_route ref_api (PresetReply quiet_response)
     (snd (create_by_route ref_api (NewPreset quiet_preset) (ref_world ())))) = Inr (PresetReply quiet_response)"
proof -
  let ?w = "snd (create_by_route ref_api (NewPreset quiet_preset) (ref_world ()))"
  let ?build = "\<lambda>i now. \<lparr>tp_id = i, tp_name = ''quiet'', tp_description = JNull, tp_allowed_tools = [JStr ''Read''],
    tp_disallowed_tools = [], tp_is_system = False, tp_created_at = isoformat ref_lib now\<rparr>"
  from quiet_created obtain p where mk: "create_record (ref_cache 0) (tool_presets ref_lib) ?build (ref_world ()) = (Inr p, ?w)"
    and p: "make_preset_response ref_conversions p = Inr quiet_response"
    by (auto simp: answer_Inr create_tool_preset_def ref_api_def get_tool_preset_service_def create_preset_def
        quiet_preset_def and_then_Inr)
  have "holds ref_lib (tool_presets ref_lib) (\<lambda>p. p) wf_preset (ref_ent (w_cache ?w)) (Map.empty(''a'' \<mapsto> p))"
    using ref_presets.create_record_map(2) [OF ref_world_holds mk] by (simp add: wf_preset_def ref_tokens_def)
  from ref_record_read [OF preset_registry.stored_records_axioms this, of "''a''" p]
  have "\<exists>r'. read_by_route ref_api (PresetReply quiet_response) ?w = (Inr r', ?w)"
    using p by (simp add: answer_Inr get_tool_preset_def ref_api_def get_tool_preset_service_def get_preset_def
        quiet_response_def and_then_Inr)
  then obtain r' where r': "read_by_route ref_api (PresetReply quiet_response) ?w = (Inr r', ?w)" by blast
  have "r' = PresetReply quiet_response"
    by (rule registry_replies_read_back [OF ref_live ref_api_on ref_registries_held _ _ quiet_created r'])
       (simp_all add: ref_tokens_no_file del: ref_world_sel)
  with r' show ?thesis by simp
qed

lemma tea_discovered:
  "discover_skills (ks_discovery ref_skill_routes) =
     [\<lparr>ki_name = ''tea'', ki_description = ''Makes tea.'', ki_path = ''/s/tea.md'', ki_source = ''global''\<rparr>]"
  by code_simp

lemma listed_skills_found_witness:
  "map skr_id (projr (fst (route_list_skills ref_skill_routes None (ref_world ())))) = [''fs:tea'']"
proof -
  let ?w = "snd (route_list_skills ref_skill_routes None (ref_world ()))"
  have "\<exists>vs. fst (route_list_skills ref_skill_routes None (ref_world ())) = Inr vs"
    unfolding route_list_skills_def tea_discovered
    by (simp add: fs_skill_response_def skill_content_def ref_skill_routes_def tea_file_def skill_text_def
        get_skills_crud_service_def list_skills_def skills_def registry_eval ref_eval del: eval_rules)
  then obtain vs where run: "route_list_skills ref_skill_routes None (ref_world ()) = (Inr vs, ?w)"
    by (metis prod.collapse)
  have "skills_held ref_lib (ref_ent (w_cache (ref_world ()))) Map.empty"
    using ref_world_holds by (simp add: skills_held_def)
  from listed_skills_found [OF ref_live _ this run] have "distinct (map skr_id vs)" "set (map skr_id vs) = {''fs:tea''}"
    using tea_discovered by (auto simp: ref_skill_routes_def)
  then have "map skr_id vs = [''fs:tea'']"
    by (cases "map skr_id vs"; cases "tl (map skr_id vs)") auto
  moreover have "projr (fst (route_list_skills ref_skill_routes None (ref_world ()))) = vs"
    by (subst run) simp
  ultimately show ?thesis by (simp only:)
qed

text \<open>An agent for a model of another vendor.\<close>

definition gpt_agent :: agent_request where
  "gpt_agent = \<lparr>agq_name = ''n'', agq_description = ''d'', agq_prompt = ''p'', agq_tools = None, agq_model = Some ''gpt-4''\<rparr>"

definition after_gpt_agent :: "(server redis_world, unit) world" where
  "after_gpt_agent = snd (create_agent ref_lib (ref_cache 0) ''n'' ''d'' ''p'' None (Some ''gpt-4'') (ref_world ()))"

lemma gpt_agent_created:
  "\<exists>a. create_agent ref_lib (ref_cache 0) ''n'' ''d'' ''p'' None (Some ''gpt-4'') (ref_world ()) = (Inr a, after_gpt_agent)"
proof -
  have "\<exists>a. fst (create_agent ref_lib (ref_cache 0) ''n'' ''d'' ''p'' None (Some ''gpt-4'') (ref_world ())) = Inr a"
    by (simp add: create_agent_def agents_def agent_payload_def registry_eval utc_now_def draw_token_def ref_eval
        del: eval_rules)
  then show ?thesis by (metis after_gpt_agent_def prod.collapse)
qed

lemma unknown_model_breaks_listing_witness:
  "\<exists>e. fst (route_list_agents ref_conversions (get_agent_config_service ref_lib (ref_cache 0)) after_gpt_agent) = Inl e"
proof -
  have held: "agents_held ref_lib (ref_ent (w_cache (ref_world ()))) Map.empty"
    unfolding agents_held_def by (rule ref_world_holds)
  obtain a where "create_agent ref_lib (ref_cache 0) (agq_name gpt_agent) (agq_description gpt_agent)
      (agq_prompt gpt_agent) (agq_tools gpt_agent) (agq_model gpt_agent) (ref_world ()) = (Inr a, after_gpt_agent)"
    using gpt_agent_created by (auto simp: gpt_agent_def)
  from unknown_model_breaks_listing [OF ref_live held _ _ this, of "''gpt-4''" ref_conversions]
  show ?thesis by (simp add: gpt_agent_def)
qed

end
