(* ===== verification/Startup.thy ===== *)
theory Startup
  imports Lifecycle Reference
begin

text \<open>
  The application as a whole: its state (\<open>AppState\<close> of \<open>dependencies.py\<close>), the resources it opens at
  the start and closes at the end (\<open>lifespan\<close> of \<open>main.py\<close>), the dependencies that hand them to
  the routes, and the health route (\<open>routes/health.py\<close>).

  What SQLAlchemy, the Redis client and the memory library do is a parameter, on a world of its own.
\<close>

section \<open>State\<close>

record ('e, 'm, 'c, 'a, 'y) app_state =
  as_engine :: "'e option"
  as_session_maker :: "'m option"
  as_cache :: "'c option"
  as_agent_service :: "'a option"
  as_memory_service :: "'y option"

definition new_app_state :: "('e, 'm, 'c, 'a, 'y) app_state" where
  "new_app_state =
     \<lparr>as_engine = None, as_session_maker = None, as_cache = None, as_agent_service = None, as_memory_service = None\<rparr>"

text \<open>
  The process: \<open>app.state.app_state\<close>, which is not there before the start, the shutdown manager, the
  variable \<open>OPENAI_API_KEY\<close> and everything outside.
\<close>

record ('e, 'm, 'c, 'a, 'y, 's) process =
  pr_state :: "('e, 'm, 'c, 'a, 'y) app_state option"
  pr_manager :: shutdown_manager
  pr_openai_key :: "string option"
  pr_world :: 's

record ('e, 'm, 'c, 's) resources =
  rs_create_engine :: "('s, 'e) io"
  rs_session_maker :: "'e \<Rightarrow> 'm"
  rs_dispose :: "'e \<Rightarrow> ('s, unit) io"
  rs_connect :: "('s, 'c) io" \<comment> \<open>\<open>RedisCache.create\<close>\<close>
  rs_ping :: "'c \<Rightarrow> ('s, bool) io"
  rs_close :: "'c \<Rightarrow> ('s, unit) io"
  rs_pause :: "rat \<Rightarrow> ('s, unit) io" \<comment> \<open>\<open>asyncio.sleep\<close>\<close>
  rs_wait :: "('s, bool) io" \<comment> \<open>\<open>wait_for_sessions\<close>\<close>
  rs_sdk_version :: "string option" \<comment> \<open>\<open>None\<close>: the SDK cannot be imported\<close>
  rs_tei_api_key :: string

definition outside :: "('s, 'b) io \<Rightarrow> (('e, 'm, 'c, 'a, 'y, 's) process, 'b) io" where
  "outside f = (\<lambda>p. case f (pr_world p) of (r, s) \<Rightarrow> (r, p\<lparr>pr_world := s\<rparr>))"

definition change_process ::
  "(('e, 'm, 'c, 'a, 'y, 's) process \<Rightarrow> ('e, 'm, 'c, 'a, 'y, 's) process) \<Rightarrow> (('e, 'm, 'c, 'a, 'y, 's) process, unit) io"
where
  "change_process f = (\<lambda>p. (Inr (), f p))"

definition get_app_state ::
  "(('e, 'm, 'c, 'a, 'y, 's) process, ('e, 'm, 'c, 'a, 'y) app_state) io" where
  "get_app_state = (\<lambda>p.
     (case pr_state p of None \<Rightarrow> Inl (RuntimeError ''App state not initialized'') | Some st \<Rightarrow> Inr st, p))"

definition change_state ::
  "(('e, 'm, 'c, 'a, 'y) app_state \<Rightarrow> ('e, 'm, 'c, 'a, 'y) app_state) \<Rightarrow> (('e, 'm, 'c, 'a, 'y, 's) process, unit) io"
where
  "change_state f = change_process (\<lambda>p. p\<lparr>pr_state := map_option f (pr_state p)\<rparr>)"

section \<open>Resources\<close>

definition init_db ::
  "('e, 'm, 'c, 's) resources \<Rightarrow> (('e, 'm, 'c, 'a, 'y, 's) process, 'm) io" where
  "init_db R =
     and_then (outside (rs_create_engine R)) (\<lambda>e.
     and_then (change_state (\<lambda>st. st\<lparr>as_engine := Some e\<rparr>)) (\<lambda>_.
     and_then (change_state (\<lambda>st. st\<lparr>as_session_maker := Some (rs_session_maker R e)\<rparr>)) (\<lambda>_.
     ret (rs_session_maker R e))))"

definition close_db :: "('e, 'm, 'c, 's) resources \<Rightarrow> (('e, 'm, 'c, 'a, 'y, 's) process, unit) io" where
  "close_db R =
     and_then get_app_state (\<lambda>st.
       case as_engine st of
         None \<Rightarrow> ret ()
       | Some e \<Rightarrow>
           and_then (outside (rs_dispose R e)) (\<lambda>_.
           change_state (\<lambda>st. st\<lparr>as_engine := None, as_session_maker := None\<rparr>)))"

text \<open>The result of the ping is not looked at.\<close>

definition init_cache :: "('e, 'm, 'c, 's) resources \<Rightarrow> (('e, 'm, 'c, 'a, 'y, 's) process, 'c) io" where
  "init_cache R =
     and_then (outside (rs_connect R)) (\<lambda>c.
     and_then (change_state (\<lambda>st. st\<lparr>as_cache := Some c\<rparr>)) (\<lambda>_.
     and_then (outside (check_cache (and_then (rs_ping R c) (\<lambda>_. ret ())) (rs_pause R))) (\<lambda>_.
     ret c)))"

definition close_cache :: "('e, 'm, 'c, 's) resources \<Rightarrow> (('e, 'm, 'c, 'a, 'y, 's) process, unit) io" where
  "close_cache R =
     and_then get_app_state (\<lambda>st.
       case as_cache st of
         None \<Rightarrow> ret ()
       | Some c \<Rightarrow>
           and_then (outside (rs_close R c)) (\<lambda>_. change_state (\<lambda>st. st\<lparr>as_cache := None\<rparr>)))"

section \<open>The life of the process\<close>

text \<open>Version numbers are only compared for the log.\<close>

definition verify_sdk_version :: "('e, 'm, 'c, 's) resources \<Rightarrow> exn + unit" where
  "verify_sdk_version R =
     (case rs_sdk_version R of
        None \<Rightarrow> Inl (RuntimeError ''Claude Agent SDK is not installed.'')
      | Some v \<Rightarrow> Inr ())"

definition reset_shutdown_manager :: "(('e, 'm, 'c, 'a, 'y, 's) process, unit) io" where
  "reset_shutdown_manager = change_process (\<lambda>p. p\<lparr>pr_manager := new_manager\<rparr>)"

definition set_openai_key :: "string \<Rightarrow> (('e, 'm, 'c, 'a, 'y, 's) process, unit) io" where
  "set_openai_key tei_api_key =
     change_process (\<lambda>p. if given (pr_openai_key p) then p else p\<lparr>pr_openai_key := Some tei_api_key\<rparr>)"

definition start_up :: "('e, 'm, 'c, 's) resources \<Rightarrow> (('e, 'm, 'c, 'a, 'y, 's) process, unit) io" where
  "start_up R =
     and_then (lift_sum (verify_sdk_version R)) (\<lambda>_.
     and_then reset_shutdown_manager (\<lambda>_.
     and_then (change_process (\<lambda>p. p\<lparr>pr_state := Some new_app_state\<rparr>)) (\<lambda>_.
     and_then (set_openai_key (rs_tei_api_key R)) (\<lambda>_.
     and_then (init_db R) (\<lambda>_.
     and_then (init_cache R) (\<lambda>_. ret ()))))))"

definition shut_down :: "('e, 'm, 'c, 's) resources \<Rightarrow> (('e, 'm, 'c, 'a, 'y, 's) process, unit) io" where
  "shut_down R =
     and_then (change_process (\<lambda>p. p\<lparr>pr_manager := initiate_shutdown (pr_manager p)\<rparr>)) (\<lambda>_.
     and_then (outside (rs_wait R)) (\<lambda>_.
     and_then (close_cache R) (\<lambda>_.
     close_db R)))"

text \<open>\<open>lifespan\<close>: what runs while the application serves comes in the place of the \<open>yield\<close>.\<close>

definition lifespan ::
  "('e, 'm, 'c, 's) resources \<Rightarrow> (('e, 'm, 'c, 'a, 'y, 's) process, unit) io \<Rightarrow> (('e, 'm, 'c, 'a, 'y, 's) process, unit) io"
where
  "lifespan R serve = and_then (start_up R) (\<lambda>_. and_then serve (\<lambda>_. shut_down R))"

section \<open>Dependencies\<close>

definition get_session_maker :: "(('e, 'm, 'c, 'a, 'y, 's) process, 'm) io" where
  "get_session_maker =
     and_then get_app_state (\<lambda>st.
       case as_session_maker st of None \<Rightarrow> throw (RuntimeError ''Database not initialized'') | Some m \<Rightarrow> ret m)"

definition get_cache :: "(('e, 'm, 'c, 'a, 'y, 's) process, 'c) io" where
  "get_cache =
     and_then get_app_state (\<lambda>st.
       case as_cache st of None \<Rightarrow> throw (RuntimeError ''Cache not initialized'') | Some c \<Rightarrow> ret c)"

text \<open>The memory service is made once and kept; what makes it configures the memory library.\<close>

definition get_memory_service :: "('s, 'y) io \<Rightarrow> (('e, 'm, 'c, 'a, 'y, 's) process, 'y) io" where
  "get_memory_service new_memory =
     and_then get_app_state (\<lambda>st.
       case as_memory_service st of
         Some y \<Rightarrow> ret y
       | None \<Rightarrow>
           and_then (outside new_memory) (\<lambda>y.
           and_then (change_state (\<lambda>st. st\<lparr>as_memory_service := Some y\<rparr>)) (\<lambda>_.
           ret y)))"

text \<open>A new agent service for every request, over the cache and the memory service, but in tests.\<close>

definition get_agent_service ::
  "('s, 'y) io \<Rightarrow> ('c \<Rightarrow> 'y \<Rightarrow> 'a) \<Rightarrow> (('e, 'm, 'c, 'a, 'y, 's) process, 'a) io" where
  "get_agent_service new_memory build =
     and_then get_app_state (\<lambda>st.
     and_then get_cache (\<lambda>c.
       case as_agent_service st of
         Some a \<Rightarrow> ret a
       | None \<Rightarrow> and_then (get_memory_service new_memory) (\<lambda>y. ret (build c y))))"

definition reset_dependencies :: "(('e, 'm, 'c, 'a, 'y, 's) process, unit) io" where
  "reset_dependencies = change_state (\<lambda>st. st\<lparr>as_agent_service := None, as_memory_service := None\<rparr>)"

section \<open>Health\<close>

datatype dependency_status = Healthy pyfloat | Failing string

fun is_healthy :: "dependency_status \<Rightarrow> bool" where
  "is_healthy (Healthy _) \<longleftrightarrow> True"
| "is_healthy (Failing _) \<longleftrightarrow> False"

record health_response =
  hr_status :: string
  hr_version :: string
  hr_dependencies :: "dependency_status dict"

record 's health_checks =
  hc_select_one :: "('s, unit) io"
  hc_ping :: "('s, bool) io"
  hc_perf_counter :: "('s, rat) io"
  hc_latency :: "rat \<Rightarrow> pyfloat" \<comment> \<open>\<open>round(1000 * x, 2)\<close>\<close>
  hc_text :: "exn \<Rightarrow> string"
  hc_version :: string

definition overall_status :: "dependency_status list \<Rightarrow> string" where
  "overall_status ds =
     (if list_all is_healthy ds then ''ok'' else if list_ex is_healthy ds then ''degraded'' else ''unhealthy'')"

text \<open>One probe: what it says when the call returns, and the text of what it raises otherwise.\<close>

definition probe :: "'s health_checks \<Rightarrow> ('s, 'x) io \<Rightarrow> ('x \<Rightarrow> rat \<Rightarrow> dependency_status) \<Rightarrow> ('s, dependency_status) io" where
  "probe H call say =
     try_except
       (and_then (hc_perf_counter H) (\<lambda>start.
        and_then call (\<lambda>x.
        and_then (hc_perf_counter H) (\<lambda>end'.
        ret (say x (end' - start))))))
       (\<lambda>e. if is_exception e then ret (Failing (hc_text H e)) else throw e)"

definition health_check :: "'s health_checks \<Rightarrow> ('s, health_response) io" where
  "health_check H =
     and_then (probe H (hc_select_one H) (\<lambda>_ t. Healthy (hc_latency H t))) (\<lambda>postgres.
     and_then (probe H (hc_ping H)
       (\<lambda>healthy t. if healthy then Healthy (hc_latency H t) else Failing ''Ping failed'')) (\<lambda>redis.
     ret \<lparr>hr_status = overall_status [postgres, redis], hr_version = hc_version H,
          hr_dependencies = [(''postgres'', postgres), (''redis'', redis)]\<rparr>))"

section \<open>What the start and the end guarantee\<close>

lemma get_app_state_run [simp]:
  "get_app_state p = (Inr st, p') \<longleftrightarrow> pr_state p = Some st \<and> p' = p"
  "get_app_state p = (Inl e, p') \<longleftrightarrow>
     pr_state p = None \<and> e = RuntimeError ''App state not initialized'' \<and> p' = p"
  by (auto simp: get_app_state_def split: option.splits)

lemma change_state_run [simp]:
  "change_state f p = (r, p') \<longleftrightarrow> r = Inr () \<and> p' = p\<lparr>pr_state := map_option f (pr_state p)\<rparr>"
  by (auto simp: change_state_def change_process_def)

lemma change_process_run [simp]: "change_process f p = (r, p') \<longleftrightarrow> r = Inr () \<and> p' = f p"
  by (auto simp: change_process_def)

lemma outside_state: "outside f p = (r, p') \<Longrightarrow> p' = p\<lparr>pr_world := pr_world p'\<rparr>"
  by (auto simp: outside_def split: prod.splits)

lemma outside_pr_state: "outside f p = (r, p') \<Longrightarrow> pr_state p' = pr_state p"
  by (auto simp: outside_def split: prod.splits)

text \<open>
  The loop of \<open>init_cache\<close> retries when a ping raises; the ping of the cache adapter raises nothing
  that the loop catches, and its answer is dropped.
\<close>

lemma rc_ping_raises: "rc_ping cl s = (Inl e, s') \<Longrightarrow> \<not> is_exception e"
  by (auto simp: rc_ping_def try_except_Inl split: if_splits)

lemma ping_once:
  assumes "\<And>s e s'. m s = (Inl e, s') \<Longrightarrow> \<not> is_exception e"
  shows "check_cache m pause = m"
proof (rule ext)
  fix s
  have "try_except m (\<lambda>e. if is_exception e then h e else throw e) s = m s" for h
    using assms [of s] by (cases "m s"; cases "fst (m s)") (auto simp: try_except_def)
  then show "check_cache m pause s = m s"
    by (simp add: check_cache_def max_attempts_def numeral_eq_Suc)
qed

text \<open>
  Over the Redis adapter the retry loop of the start is one ping whose answer is
  dropped: it never waits, and the start of the application goes through with a server that
  cannot be reached, as long as the client itself can be made.
\<close>

theorem start_ignores_dead_cache:
  fixes R :: "('e, 'm, 'r redis_client, 'r redis_world) resources"
  assumes "rs_ping R = rc_ping" and "rs_connect R (pr_world p) = (Inr cl, s)"
  shows "(\<forall>pause. check_cache (and_then (rs_ping R cl) (\<lambda>_. ret ())) pause = and_then (rs_ping R cl) (\<lambda>_. ret ())) \<and>
    (case init_cache R p of
       (Inr c, p') \<Rightarrow> c = cl \<and> (\<forall>st. pr_state p = Some st \<longrightarrow> pr_state p' = Some (st\<lparr>as_cache := Some cl\<rparr>))
     | (Inl e, p') \<Rightarrow> \<not> is_exception e)"
proof -
  have once: "check_cache (and_then (rs_ping R cl) (\<lambda>_. ret ())) pause = and_then (rs_ping R cl) (\<lambda>_. ret ())" for pause
    unfolding assms(1) by (rule ping_once) (auto simp: and_then_Inl dest: rc_ping_raises)
  define p1 where "p1 = p\<lparr>pr_world := s, pr_state := map_option (\<lambda>st. st\<lparr>as_cache := Some cl\<rparr>) (pr_state p)\<rparr>"
  have run: "init_cache R p =
      and_then (outside (and_then (rc_ping cl) (\<lambda>_. ret ()))) (\<lambda>_. ret cl) p1"
    using assms(2) once
    by (simp add: init_cache_def and_then_def outside_def change_state_def change_process_def assms(1) p1_def
        split: prod.split)
  obtain r s' where ping: "rc_ping cl s = (r, s')" by (cases "rc_ping cl s")
  have "pr_world p1 = s" by (simp add: p1_def)
  with ping have "init_cache R p = (case r of Inl e \<Rightarrow> Inl e | Inr b \<Rightarrow> Inr cl, p1\<lparr>pr_world := s'\<rparr>)"
    unfolding run by (simp add: outside_def and_then_def split: sum.split)
  with once ping rc_ping_raises [of cl s] show ?thesis
    by (auto simp: p1_def split: sum.split)
qed

text \<open>A server that refuses every connection.\<close>

definition dead_client :: "server redis_client" where
  "dead_client = (ref_redis 0)\<lparr>r_ping := throw (ConnectionError ''refused'')\<rparr>"

definition dead_resources :: "(unit, unit, server redis_client, server redis_world) resources" where
  "dead_resources =
     \<lparr>rs_create_engine = ret (), rs_session_maker = (\<lambda>_. ()), rs_dispose = (\<lambda>_. ret ()), rs_connect = ret dead_client,
      rs_ping = rc_ping, rs_close = rc_close, rs_pause = (\<lambda>_. ret ()), rs_wait = ret True,
      rs_sdk_version = Some ''0.1.19'', rs_tei_api_key = ''not-needed''\<rparr>"

definition cold_process ::
  "(unit, unit, server redis_client, unit, unit, server redis_world) process" where
  "cold_process =
     \<lparr>pr_state = Some new_app_state, pr_manager = new_manager, pr_openai_key = None, pr_world = w_cache (ref_world ())\<rparr>"

lemma start_ignores_dead_cache_witness:
  "fst (rc_ping dead_client (w_cache (ref_world ()))) = Inr False \<and>
   (\<exists>p'. init_cache dead_resources cold_process = (Inr dead_client, p'))"
proof -
  have ping: "rc_ping dead_client s = (Inr False, s)" for s
    by (simp add: rc_ping_def dead_client_def try_except_def on_server_def throw_def ret_def)
  have "rs_ping dead_resources = rc_ping"
    "rs_connect dead_resources (pr_world cold_process) = (Inr dead_client, pr_world cold_process)"
    by (simp_all add: dead_resources_def)
  note T = start_ignores_dead_cache [OF this]
  have once: "check_cache (Pair (Inr ())) pause = Pair (Inr ())" for pause :: "rat \<Rightarrow> (server redis_world, unit) io"
    by (rule ping_once) simp
  have "init_cache dead_resources cold_process = and_then (outside (ret dead_client)) (\<lambda>c.
      and_then (change_state (\<lambda>st. st\<lparr>as_cache := Some c\<rparr>)) (\<lambda>_.
      and_then (outside (check_cache (and_then (rc_ping c) (\<lambda>_. ret ())) (\<lambda>_. ret ()))) (\<lambda>_. ret c))) cold_process"
    by (simp add: init_cache_def dead_resources_def)
  then have "\<exists>c p'. init_cache dead_resources cold_process = (Inr c, p')"
    by (simp add: and_then_def outside_def change_state_def change_process_def ret_def
        once ping)
  with T have "\<exists>p'. init_cache dead_resources cold_process = (Inr dead_client, p')" by auto
  with ping show ?thesis by simp
qed

text \<open>An orderly end leaves nothing open.\<close>

lemma close_cache_state:
  "close_cache R p = (Inr (), p') \<Longrightarrow> \<exists>st. pr_state p' = Some st \<and> as_cache st = None"
  by (cases "pr_state p"; cases "as_cache (the (pr_state p))")
     (auto simp: close_cache_def and_then_Inr dest!: outside_pr_state)

lemma close_db_state:
  "close_db R p = (Inr (), p') \<Longrightarrow> pr_state p = Some st \<Longrightarrow> as_cache st = None \<Longrightarrow>
     \<exists>st'. pr_state p' = Some st' \<and> as_cache st' = None \<and> as_engine st' = None"
  by (cases "as_engine st") (auto simp: close_db_def and_then_Inr dest!: outside_pr_state)

lemma lifespan_closes:
  assumes "lifespan R serve p = (Inr (), p')"
  shows "\<exists>st. pr_state p' = Some st \<and> as_cache st = None \<and> as_engine st = None"
proof -
  from assms obtain p1 p2 where "close_cache R p1 = (Inr (), p2)" and db: "close_db R p2 = (Inr (), p')"
    by (auto simp: lifespan_def shut_down_def and_then_Inr)
  from close_cache_state [OF this(1)] close_db_state [OF db] show ?thesis by blast
qed

text \<open>A start that fails at the cache, and an end that fails there, leave the engine open.\<close>

lemma failed_start_leaks_engine:
  assumes "verify_sdk_version R = Inr ()" and "rs_create_engine R (pr_world p) = (Inr e, s)"
    and start: "start_up R p = (Inl x, p')"
  shows "lifespan R serve p = (Inl x, p') \<and> (\<exists>st. pr_state p' = Some st \<and> as_engine st = Some e)"
proof -
  have "lifespan R serve p = (Inl x, p')" using start by (simp add: lifespan_def and_then_def)
  define p1 where "p1 = (set_openai_key (rs_tei_api_key R)
    (p\<lparr>pr_manager := new_manager, pr_state := Some new_app_state\<rparr>))"
  obtain p2 where p2: "p1 = (Inr (), p2)" and st2: "pr_state p2 = Some new_app_state" and w2: "pr_world p2 = pr_world p"
    by (auto simp: p1_def set_openai_key_def change_process_def)
  define p3 where "p3 = p2\<lparr>pr_world := s, pr_state := Some (new_app_state\<lparr>as_engine := Some e, as_session_maker := Some (rs_session_maker R e)\<rparr>)\<rparr>"
  have "init_db R p2 = (Inr (rs_session_maker R e), p3)"
    using assms(2) st2 w2 by (simp add: init_db_def and_then_def outside_def change_state_def change_process_def p3_def)
  with p2 start have cache: "init_cache R p3 = (Inl x, p')"
    by (simp add: start_up_def and_then_def assms(1) reset_shutdown_manager_def p1_def change_process_def lift_sum_def
        split: prod.splits sum.splits)
  have st3: "pr_state p3 = Some (new_app_state\<lparr>as_engine := Some e, as_session_maker := Some (rs_session_maker R e)\<rparr>)"
    by (simp add: p3_def)
  from cache have "\<exists>st. pr_state p' = Some st \<and> as_engine st = Some e"
    by (auto simp: init_cache_def and_then_Inl st3 dest!: outside_pr_state)
  with \<open>lifespan R serve p = _\<close> show ?thesis by simp
qed

lemma failed_close_leaks_engine:
  assumes "pr_state p = Some st" and "as_engine st = Some e" and "as_cache st = Some c"
    and "rs_wait R (pr_world p) = (Inr b, s)" and "rs_close R c s = (Inl x, s')"
  shows "\<exists>p'. shut_down R p = (Inl x, p') \<and> pr_state p' = Some st"
  using assms by (simp add: shut_down_def and_then_def change_process_def outside_def close_cache_def get_app_state_def)

text \<open>The memory service is made once.\<close>

lemma memory_service_made_once:
  assumes "get_memory_service m p = (Inr y, p')"
  shows "get_memory_service m' p' = (Inr y, p')"
  using assms
  by (auto simp: get_memory_service_def and_then_def get_app_state_def outside_def change_state_def change_process_def
      split: prod.splits sum.splits option.splits)

text \<open>The health route answers, whatever the two stores raise, and says ok exactly when both do.\<close>

lemma probe_answers:
  assumes "\<And>s e s'. call s = (Inl e, s') \<Longrightarrow> is_exception e" and "\<And>s. \<exists>t s'. hc_perf_counter H s = (Inr t, s')"
  shows "\<exists>d s'. probe H call say s = (Inr d, s')"
proof -
  obtain t s1 where t: "hc_perf_counter H s = (Inr t, s1)" using assms(2) by blast
  obtain r s2 where c: "call s1 = (r, s2)" by (cases "call s1")
  obtain t' s3 where t': "hc_perf_counter H s2 = (Inr t', s3)" using assms(2) by blast
  show ?thesis
    using t c t' assms(1) [of s1 _ s2] by (cases r) (auto simp: probe_def try_except_def and_then_def)
qed

lemma health_answers:
  assumes "\<And>s e s'. hc_select_one H s = (Inl e, s') \<Longrightarrow> is_exception e"
    and "\<And>s e s'. hc_ping H s = (Inl e, s') \<Longrightarrow> is_exception e" and "\<And>s. \<exists>t s'. hc_perf_counter H s = (Inr t, s')"
  shows "\<exists>h s'. health_check H s = (Inr h, s') \<and>
    (hr_status h = ''ok'' \<longleftrightarrow> list_all (\<lambda>(_, d). is_healthy d) (hr_dependencies h)) \<and>
    (hr_status h = ''unhealthy'' \<longleftrightarrow> \<not> list_ex (\<lambda>(_, d). is_healthy d) (hr_dependencies h))"
proof -
  let ?say = "\<lambda>_ t. Healthy (hc_latency H t)"
    and ?ping = "\<lambda>healthy t. if healthy then Healthy (hc_latency H t) else Failing ''Ping failed''"
  have "\<exists>d s'. probe H (hc_select_one H) ?say s = (Inr d, s')"
    by (rule probe_answers) (erule assms(1), rule assms(3))
  then obtain d s1 where d: "probe H (hc_select_one H) ?say s = (Inr d, s1)" by blast
  have "\<exists>d s'. probe H (hc_ping H) ?ping s1 = (Inr d, s')"
    by (rule probe_answers) (erule assms(2), rule assms(3))
  then obtain d' s2 where d': "probe H (hc_ping H) ?ping s1 = (Inr d', s2)" by blast
  from d d' have "health_check H s = (Inr \<lparr>hr_status = overall_status [d, d'], hr_version = hc_version H,
      hr_dependencies = [(''postgres'', d), (''redis'', d')]\<rparr>, s2)"
    by (simp add: health_check_def and_then_def)
  then show ?thesis by (simp add: overall_status_def)
qed

end
