(* ===== verification/OpenAIRoutes.thy ===== *)
theory OpenAIRoutes
  imports Threads Messages Runs Assistants Errors
begin

text \<open>
  The routes of the Assistants API: \<open>routes/openai/threads.py\<close> (threads, messages, runs) and
  \<open>routes/openai/assistants.py\<close>, with the request schemas of
  \<open>schemas/openai/assistant_requests.py\<close> and the replies of \<open>schemas/openai/assistants.py\<close>,
  whose types are in \<open>ReplySchemas\<close>.

  A reply is the JSON object that the client is sent. A request object has passed the types of its
  schema; the bounds of its fields are the \<open>check_\<close> functions. No route passes an API key on.
\<close>

record ('c, 'd) openai_routes =
  oa_threads :: "('c, 'd) thread_service"
  oa_messages :: "'c message_service"
  oa_runs :: "('c, 'd) run_service"
  oa_assistants :: "('c, 'd) assistant_service"

section \<open>Requests\<close>

definition at_most :: "nat \<Rightarrow> string option \<Rightarrow> bool" where
  "at_most n s = (case s of None \<Rightarrow> True | Some t \<Rightarrow> length t \<le> n)"

text \<open>\<open>Field(ge=0, le=n)\<close> of a float; not-a-number is in no interval.\<close>

fun float_in :: "int \<Rightarrow> pyfloat \<Rightarrow> bool" where
  "float_in n (Finite m e) \<longleftrightarrow> 0 \<le> m \<and> (if 0 \<le> e then m * 10 ^ nat e \<le> n else m \<le> n * 10 ^ nat (- e))"
| "float_in n _ \<longleftrightarrow> False"

definition opt_float_in :: "int \<Rightarrow> pyfloat option \<Rightarrow> bool" where
  "opt_float_in n x = (case x of None \<Rightarrow> True | Some f \<Rightarrow> float_in n f)"

definition in_bounds :: "bool \<Rightarrow> exn + unit" where
  "in_bounds b = (if b then Inr () else Inl (ValueError ''field out of bounds''))"

definition check_create_assistant :: "string \<Rightarrow> assistant_fields \<Rightarrow> exn + unit" where
  "check_create_assistant model fs =
     in_bounds (model \<noteq> [] \<and> at_most 256 (f_name fs) \<and> at_most 512 (f_description fs) \<and>
       at_most 256000 (f_instructions fs) \<and> (case f_tools fs of None \<Rightarrow> True | Some ts \<Rightarrow> length ts \<le> 128) \<and>
       opt_float_in 2 (f_temperature fs) \<and> opt_float_in 1 (f_top_p fs))"

definition check_modify_assistant :: "assistant_fields \<Rightarrow> exn + unit" where
  "check_modify_assistant fs =
     in_bounds (f_model fs \<noteq> Some [] \<and> at_most 256 (f_name fs) \<and> at_most 512 (f_description fs) \<and>
       at_most 256000 (f_instructions fs) \<and> opt_float_in 2 (f_temperature fs) \<and> opt_float_in 1 (f_top_p fs))"

text \<open>A message of a thread to be created; every field may be missing.\<close>

record thread_message_request =
  tq_role :: "message_role option"
  tq_content :: "string option"
  tq_metadata :: "string dict option"

record create_message_request =
  cm_role :: message_role
  cm_content :: string
  cm_metadata :: "string dict option"

definition check_create_message :: "create_message_request \<Rightarrow> exn + unit" where
  "check_create_message q = in_bounds (cm_content q \<noteq> [])"

text \<open>
  \<open>CreateRunRequest\<close>: the fields after \<open>cr_metadata\<close> are accepted and never read.
\<close>

record create_run_request =
  cr_assistant_id :: string
  cr_model :: "string option"
  cr_instructions :: "string option"
  cr_tools :: "json dict list option"
  cr_metadata :: "string dict option"
  cr_additional_instructions :: "string option"
  cr_additional_messages :: "thread_message_request list option"
  cr_stream :: bool

definition check_create_run :: "create_run_request \<Rightarrow> exn + unit" where
  "check_create_run q = in_bounds (cr_assistant_id q \<noteq> [] \<and> at_most 256000 (cr_instructions q))"

definition check_page :: "int \<Rightarrow> string \<Rightarrow> exn + unit" where
  "check_page limit order = in_bounds (1 \<le> limit \<and> limit \<le> 100 \<and> order \<in> {''asc'', ''desc''})"

section \<open>Replies\<close>

definition convert_thread :: "thread \<Rightarrow> json dict" where
  "convert_thread t =
     [(''id'', JStr (th_id t)), (''object'', JStr ''thread''), (''created_at'', JInt (th_created_at t)),
      (''metadata'', JObj (strings_obj (th_metadata t))), (''tool_resources'', JNull)]"

definition convert_blocks :: "json dict list \<Rightarrow> json list" where
  "convert_blocks blocks =
     map JObj (filter (\<lambda>d. dict_get d ''type'' \<in> Some ` JStr ` {''text'', ''image_file'', ''image_url''}) blocks)"

definition convert_message :: "message \<Rightarrow> json dict" where
  "convert_message m =
     [(''id'', JStr (msg_id m)), (''object'', JStr ''thread.message''), (''created_at'', JInt (msg_created_at m)),
      (''thread_id'', JStr (msg_thread_id m)), (''role'', JStr (role_text (msg_role m))),
      (''content'', JArr (convert_blocks (map content_json (msg_content m)))),
      (''metadata'', JObj (strings_obj (msg_metadata m))),
      (''assistant_id'', json_of_opt JStr (msg_assistant_id m)), (''run_id'', json_of_opt JStr (msg_run_id m))]"

definition convert_run :: "run \<Rightarrow> json dict" where
  "convert_run r =
     [(''id'', JStr (run_id r)), (''object'', JStr ''thread.run''), (''created_at'', JInt (run_created_at r)),
      (''thread_id'', JStr (run_thread_id r)), (''assistant_id'', JStr (run_assistant_id r)),
      (''status'', JStr (run_status_text (run_state r))), (''model'', JStr (run_model r)),
      (''instructions'', json_of_opt JStr (run_instructions r)), (''tools'', JArr (map JObj (run_tools r))),
      (''metadata'', JObj (strings_obj (run_metadata r))),
      (''required_action'', json_of_opt JObj (run_required_action r)),
      (''last_error'', json_of_opt JObj (run_last_error r)), (''usage'', json_of_opt JObj (run_usage r)),
      (''started_at'', json_of_opt JInt (run_started_at r)), (''expires_at'', json_of_opt JInt (run_expires_at r)),
      (''cancelled_at'', json_of_opt JInt (run_cancelled_at r)), (''failed_at'', json_of_opt JInt (run_failed_at r)),
      (''completed_at'', json_of_opt JInt (run_completed_at r)), (''parallel_tool_calls'', JBool True)]"

definition convert_assistant :: "assistant \<Rightarrow> json dict" where
  "convert_assistant a =
     [(''id'', JStr (a_id a)), (''object'', JStr ''assistant''), (''created_at'', JInt (unix_seconds (a_created_at a))),
      (''model'', JStr (a_model a)), (''name'', json_of_opt JStr (a_name a)),
      (''description'', json_of_opt JStr (a_description a)), (''instructions'', json_of_opt JStr (a_instructions a)),
      (''tools'', JArr (map JObj (a_tools a))), (''metadata'', JObj (strings_obj (a_metadata a))),
      (''temperature'', json_of_opt JFloat (a_temperature a)), (''top_p'', json_of_opt JFloat (a_top_p a)),
      (''response_format'', JNull)]"

definition convert_page :: "('a \<Rightarrow> json dict) \<Rightarrow> 'a list_result \<Rightarrow> json dict" where
  "convert_page f page =
     [(''object'', JStr ''list''), (''data'', JArr (map (\<lambda>x. JObj (f x)) (lr_data page))),
      (''first_id'', json_of_opt JStr (lr_first_id page)), (''last_id'', json_of_opt JStr (lr_last_id page)),
      (''has_more'', JBool (lr_has_more page))]"

definition deletion_status :: "string \<Rightarrow> string \<Rightarrow> json dict" where
  "deletion_status i object_name = [(''id'', JStr i), (''object'', JStr object_name), (''deleted'', JBool True)]"

text \<open>\<open>HTTPException\<close>, by the reply that \<open>http_exception_handler\<close> makes of it on these paths.\<close>

definition http_not_found :: "string \<Rightarrow> exn" where
  "http_not_found detail = APIError detail (http_exception_code 404) 404"

definition or_404 :: "string \<Rightarrow> ('a \<Rightarrow> json dict) \<Rightarrow> ('w, 'a option) io \<Rightarrow> ('w, json dict) io" where
  "or_404 detail f m =
     and_then m (\<lambda>found. case found of None \<Rightarrow> throw (http_not_found detail) | Some x \<Rightarrow> ret (f x))"

section \<open>Threads\<close>

definition thread_missing :: "string \<Rightarrow> string" where
  "thread_missing i = ''Thread '' @ quoted i @ '' not found''"

text \<open>The loop over the initial messages: one without content is skipped.\<close>

fun add_initial_messages ::
  "('c, 'd) openai_routes \<Rightarrow> string \<Rightarrow> thread_message_request list \<Rightarrow> (('c, 'd) world, unit) io" where
  "add_initial_messages R thread_id [] = ret ()"
| "add_initial_messages R thread_id (q # qs) =
     and_then
       (if given (tq_content q)
        then and_then (create_message (oa_messages R) thread_id
               (case tq_role q of None \<Rightarrow> User | Some r \<Rightarrow> r) (the (tq_content q)) (tq_metadata q) None None)
               (\<lambda>_. ret ())
        else ret ()) (\<lambda>_.
     add_initial_messages R thread_id qs)"

definition create_thread_route ::
  "('c, 'd) openai_routes \<Rightarrow> thread_message_request list option \<Rightarrow> string dict option \<Rightarrow>
     (('c, 'd) world, json dict) io" where
  "create_thread_route R messages metadata =
     and_then (create_thread (oa_threads R) metadata None) (\<lambda>t.
     and_then (add_initial_messages R (th_id t) (case messages of None \<Rightarrow> [] | Some qs \<Rightarrow> qs)) (\<lambda>_.
     ret (convert_thread t)))"

definition get_thread_route :: "('c, 'd) openai_routes \<Rightarrow> string \<Rightarrow> (('c, 'd) world, json dict) io" where
  "get_thread_route R thread_id =
     or_404 (thread_missing thread_id) convert_thread (get_thread (oa_threads R) thread_id None)"

definition modify_thread_route ::
  "('c, 'd) openai_routes \<Rightarrow> string \<Rightarrow> string dict option \<Rightarrow> (('c, 'd) world, json dict) io" where
  "modify_thread_route R thread_id metadata =
     or_404 (thread_missing thread_id) convert_thread (modify_thread (oa_threads R) thread_id metadata None)"

definition delete_thread_route :: "('c, 'd) openai_routes \<Rightarrow> string \<Rightarrow> (('c, 'd) world, json dict) io" where
  "delete_thread_route R thread_id =
     and_then (delete_thread (oa_threads R) thread_id None) (\<lambda>deleted.
       if deleted then ret (deletion_status thread_id ''thread.deleted'')
       else throw (http_not_found (thread_missing thread_id)))"

section \<open>Messages\<close>

definition message_missing :: "string \<Rightarrow> string \<Rightarrow> string" where
  "message_missing thread_id i = ''Message '' @ quoted i @ '' not found in thread '' @ quoted thread_id"

definition create_message_route ::
  "('c, 'd) openai_routes \<Rightarrow> string \<Rightarrow> create_message_request \<Rightarrow> (('c, 'd) world, json dict) io" where
  "create_message_route R thread_id q =
     and_then (create_message (oa_messages R) thread_id (cm_role q) (cm_content q) (cm_metadata q) None None) (\<lambda>m.
     ret (convert_message m))"

definition list_messages_route ::
  "('c, 'd) openai_routes \<Rightarrow> string \<Rightarrow> int \<Rightarrow> string \<Rightarrow> string option \<Rightarrow> string option \<Rightarrow>
     (('c, 'd) world, json dict) io" where
  "list_messages_route R thread_id limit order after before =
     and_then (list_messages (oa_messages R) thread_id limit order after before) (\<lambda>page.
     ret (convert_page convert_message page))"

definition get_message_route ::
  "('c, 'd) openai_routes \<Rightarrow> string \<Rightarrow> string \<Rightarrow> (('c, 'd) world, json dict) io" where
  "get_message_route R thread_id message_id =
     or_404 (message_missing thread_id message_id) convert_message
       (get_message (oa_messages R) thread_id message_id)"

definition modify_message_route ::
  "('c, 'd) openai_routes \<Rightarrow> string \<Rightarrow> string \<Rightarrow> string dict option \<Rightarrow> (('c, 'd) world, json dict) io" where
  "modify_message_route R thread_id message_id metadata =
     or_404 (message_missing thread_id message_id) convert_message
       (modify_message (oa_messages R) thread_id message_id metadata)"

section \<open>Runs\<close>

definition run_missing :: "string \<Rightarrow> string \<Rightarrow> string" where
  "run_missing thread_id i = ''Run '' @ quoted i @ '' not found in thread '' @ quoted thread_id"

definition create_run_route ::
  "('c, 'd) openai_routes \<Rightarrow> string \<Rightarrow> create_run_request \<Rightarrow> (('c, 'd) world, json dict) io" where
  "create_run_route R thread_id q =
     and_then (create_run (oa_runs R) thread_id (cr_assistant_id q)
       (if given (cr_model q) then the (cr_model q) else ''gpt-4'') (cr_instructions q) (cr_tools q) (cr_metadata q)) (\<lambda>r.
     ret (convert_run r))"

definition list_runs_route ::
  "('c, 'd) openai_routes \<Rightarrow> string \<Rightarrow> int \<Rightarrow> string \<Rightarrow> (('c, 'd) world, json dict) io" where
  "list_runs_route R thread_id limit order =
     and_then (list_runs (oa_runs R) thread_id limit order) (\<lambda>page. ret (convert_page convert_run page))"

definition get_run_route :: "('c, 'd) openai_routes \<Rightarrow> string \<Rightarrow> string \<Rightarrow> (('c, 'd) world, json dict) io" where
  "get_run_route R thread_id rid =
     or_404 (run_missing thread_id rid) convert_run (get_run (oa_runs R) thread_id rid)"

definition cancel_run_route :: "('c, 'd) openai_routes \<Rightarrow> string \<Rightarrow> string \<Rightarrow> (('c, 'd) world, json dict) io" where
  "cancel_run_route R thread_id rid =
     or_404 (run_missing thread_id rid) convert_run (cancel_run (oa_runs R) thread_id rid)"

section \<open>Assistants\<close>

definition assistant_missing :: "string \<Rightarrow> string" where
  "assistant_missing i = ''Assistant '' @ quoted i @ '' not found''"

text \<open>An assistant is created with the list of tools and the metadata, empty when none is given.\<close>

definition create_assistant_route ::
  "('c, 'd) openai_routes \<Rightarrow> string \<Rightarrow> assistant_fields \<Rightarrow> (('c, 'd) world, json dict) io" where
  "create_assistant_route R model fs =
     and_then (create_assistant (oa_assistants R) model
       (fs\<lparr>f_tools := Some (case f_tools fs of None \<Rightarrow> [] | Some ts \<Rightarrow> ts),
           f_metadata := Some (case f_metadata fs of None \<Rightarrow> [] | Some m \<Rightarrow> m)\<rparr>) None) (\<lambda>a.
     ret (convert_assistant a))"

definition get_assistant_route :: "('c, 'd) openai_routes \<Rightarrow> string \<Rightarrow> (('c, 'd) world, json dict) io" where
  "get_assistant_route R assistant_id =
     or_404 (assistant_missing assistant_id) convert_assistant (get_assistant (oa_assistants R) assistant_id None)"

definition list_assistants_route ::
  "('c, 'd) openai_routes \<Rightarrow> int \<Rightarrow> string \<Rightarrow> string option \<Rightarrow> string option \<Rightarrow>
     (('c, 'd) world, json dict) io" where
  "list_assistants_route R limit order after before =
     and_then (list_assistants (oa_assistants R) limit order after before None) (\<lambda>page.
     ret (convert_page convert_assistant page))"

definition modify_assistant_route ::
  "('c, 'd) openai_routes \<Rightarrow> string \<Rightarrow> assistant_fields \<Rightarrow> (('c, 'd) world, json dict) io" where
  "modify_assistant_route R assistant_id fs =
     or_404 (assistant_missing assistant_id) convert_assistant
       (update_assistant (oa_assistants R) assistant_id fs None)"

definition delete_assistant_route :: "('c, 'd) openai_routes \<Rightarrow> string \<Rightarrow> (('c, 'd) world, json dict) io" where
  "delete_assistant_route R assistant_id =
     and_then (delete_assistant (oa_assistants R) assistant_id None) (\<lambda>deleted.
       if deleted then ret (deletion_status assistant_id ''assistant.deleted'')
       else throw (http_not_found (assistant_missing assistant_id)))"

text \<open>What the handler of \<open>HTTPException\<close> answers on the OpenAI paths is what it answers to this error.\<close>

lemma http_not_found_reply:
  "is_openai_path path \<Longrightarrow>
     http_exception_handler L path 404 (JStr detail) =
       api_error_handler path (the (api_error_of (http_not_found detail)))"
  by (simp add: http_exception_handler_def api_error_handler_def http_not_found_def openai_reply_def api_exception_def)

end
