(* ===== verification/OpenAIChat.thy ===== *)
theory OpenAIChat
  imports OpenAIProperties AnswerProperties QueryService OpenAIRoutes
begin

text \<open>
  The chat completions and the models of the OpenAI interface: \<open>routes/openai/chat.py\<close>,
  \<open>routes/openai/models.py\<close> and the providers of \<open>routes/openai/dependencies.py\<close>.

  A streamed completion is what its client is sent: the texts, and the exception with which the
  stream broke off, if it did. The adapter takes an event as soon as the query yields it; the
  identifiers and the time it draws do not depend on that, so the events are adapted when the query
  is over.
\<close>

section \<open>Models\<close>

text \<open>\<open>{**CLAUDE_MODELS, "gpt-4": "sonnet"}\<close>\<close>

definition get_model_mapper :: model_mapper where
  "get_model_mapper = new_model_mapper (Some (dict_set ''gpt-4'' ''sonnet'' claude_models))"

definition list_models_route :: "json dict" where
  "list_models_route =
     [(''object'', JStr ''list''), (''data'', JArr (map JObj (list_models get_model_mapper)))]"

text \<open>Only a \<open>ValueError\<close> is turned into the 404.\<close>

definition get_model_route :: "string \<Rightarrow> exn + json dict" where
  "get_model_route model_id =
     (case get_model_info get_model_mapper model_id of
        Inl (ValueError m) \<Rightarrow> Inl (http_not_found m)
      | r \<Rightarrow> r)"

section \<open>Chat completions\<close>

record ('c, 'd) chat_routes =
  ch_lib :: pylib
  ch_net :: net_lib
  ch_agent :: "('c, 'd) agent_service"

datatype chat_reply = Completion "json dict" | Chunks "string list" "exn option"

text \<open>What the query stream yields, as the route sees it.\<close>

definition event_dict :: "agent_event \<Rightarrow> json" where
  "event_dict e = JObj [(''event'', JStr (ev_event e)), (''data'', JStr (ev_data e))]"

definition in_service :: "(('c, 'd) world, 'a) io \<Rightarrow> (('c, 'd) service_state, 'a) io" where
  "in_service m = in_query (in_services m)"

definition streamed_chat ::
  "('c, 'd) chat_routes \<Rightarrow> nat \<Rightarrow> chat_request \<Rightarrow> query_request \<Rightarrow> string \<Rightarrow> (('c, 'd) service_state, chat_reply) io"
where
  "streamed_chat R fuel payload q api_key =
     and_then (in_service (new_streaming_adapter (chat_request.cr_model payload) (Some (chat_request.cr_model payload)) None)) (\<lambda>A.
     and_then (in_service utc_now) (\<lambda>now s.
       case query_stream (ch_agent R) fuel q api_key s of
         (r, s') \<Rightarrow>
           and_then
             (in_service (adapt_events (ch_lib R) A (unix_seconds now) (sa_first_chunk A) False
               (native_event_tuples (ch_lib R) (map event_dict (qs_events (fst s')))))) (\<lambda>chunks.
           ret (case r of
             Inl e \<Rightarrow> Chunks (map (chunk_text (ch_lib R)) chunks) (Some e)
           | Inr _ \<Rightarrow> Chunks (map (chunk_text (ch_lib R)) (chunks @ [JStr done_marker])) None)) s'))"

definition single_chat ::
  "('c, 'd) chat_routes \<Rightarrow> nat \<Rightarrow> chat_request \<Rightarrow> query_request \<Rightarrow> string \<Rightarrow> (('c, 'd) service_state, chat_reply) io"
where
  "single_chat R fuel payload q api_key =
     and_then (query_single (ch_agent R) fuel q api_key) (\<lambda>response_dict.
     and_then (lift_sum (validate_response (ae_pydantic (as_env (ch_agent R))) response_dict)) (\<lambda>response.
     and_then (in_service (translate_response (ch_lib R) response (chat_request.cr_model payload))) (\<lambda>d.
     ret (Completion d))))"

definition create_chat_completion ::
  "('c, 'd) chat_routes \<Rightarrow> nat \<Rightarrow> chat_request \<Rightarrow> string option \<Rightarrow> string \<Rightarrow> (('c, 'd) service_state, chat_reply) io"
where
  "create_chat_completion R fuel payload permission_mode api_key =
     and_then (lift_sum (translate_request (ch_net R) get_model_mapper payload permission_mode)) (\<lambda>q.
     if chat_request.cr_stream payload then streamed_chat R fuel payload q api_key else single_chat R fuel payload q api_key)"

section \<open>What the routes answer\<close>

text \<open>Every model that is listed is found; the alias of a model answers with another name.\<close>

lemma listed_models_found:
  "list_all (\<lambda>d. get_model_route (case dict_get d ''id'' of Some (JStr i) \<Rightarrow> i | _ \<Rightarrow> []) = Inr d) (list_models get_model_mapper)"
  by code_simp

lemma alias_answers_gpt: "get_model_route ''sonnet'' = Inr (model_info ''gpt-4'')"
  by code_simp

text \<open>A model the mapper does not know is refused before anything is done.\<close>

lemma unknown_model_refused:
  assumes "to_claude get_model_mapper (chat_request.cr_model payload) = Inl e"
  shows "create_chat_completion R fuel payload mode key s =
    (Inl (APIError (''Unknown model: '' @ chat_request.cr_model payload) ''MODEL_NOT_FOUND'' 400), s)"
  using assms to_claude_error [OF assms]
  by (simp add: create_chat_completion_def translate_request_def unknown_model_def io_operator_defs)

section \<open>From the query to the client\<close>

lemma event_dict_native:
  "native_event_tuple L (event_dict e) =
     (if ev_event e \<in> {''message'', ''partial'', ''result''}
      then (case json_loads L (ev_data e) of Some (JObj d) \<Rightarrow> [(ev_event e, d)] | _ \<Rightarrow> []) else [])"
  by (auto simp: event_dict_def dict_get_or_def parse_event_data_def split: option.split json.split)

text \<open>What the messages of the SDK become: a JSON object with plain blocks.\<close>

definition plain_data :: "pylib \<Rightarrow> agent_event \<Rightarrow> bool" where
  "plain_data L e \<longleftrightarrow> (ev_event e \<in> {''message'', ''partial'', ''result''} \<longrightarrow>
     (\<exists>d. json_loads L (ev_data e) = Some (JObj d) \<and> list_all plain_block (event_blocks d)))"

lemma body_native:
  "list_all (\<lambda>e. body_event e \<or> ev_event e = ''init'') es \<Longrightarrow> \<forall>e \<in> set es. plain_data L e \<Longrightarrow>
     list_all plain_event (native_event_tuples L (map event_dict es))"
  by (induction es)
     (auto simp: native_event_tuples_def event_dict_native plain_data_def plain_event_def body_event_def
       split: option.split json.split)

lemma closed_native:
  assumes "closed_stream L es" and "ev_event e0 = ''init''" and "\<forall>e \<in> set es. plain_data L e"
    and "\<exists>e \<in> set es. ev_event e = ''result''"
  shows "\<exists>body d. native_event_tuples L (map event_dict (e0 # es)) = body @ [(''result'', d)] \<and> list_all plain_event body"
proof -
  from assms(1) obtain body final reason where es: "es = body @ [final, done_event L reason]"
    and body: "list_all body_event body" and final: "ev_event final = ''result'' \<or> ev_event final = ''error''"
    by (auto simp: closed_stream_def)
  have "ev_event (done_event L reason) = ''done''" by (simp add: done_event_def format_sse_def)
  with assms(4) es body final have "ev_event final = ''result''"
    by (auto simp: list_all_iff body_event_def)
  with assms(3) es obtain d where "native_event_tuples L (map event_dict [final, done_event L reason]) = [(''result'', d)]"
    by (auto simp: native_event_tuples_def event_dict_native plain_data_def done_event_def format_sse_def)
  moreover have "native_event_tuples L (map event_dict (e0 # es)) =
      native_event_tuples L (map event_dict (e0 # body)) @
      native_event_tuples L (map event_dict [final, done_event L reason])"
    by (simp add: es native_event_tuples_def)
  moreover have "list_all plain_event (native_event_tuples L (map event_dict (e0 # body)))"
    by (rule body_native) (use assms(2,3) body es in \<open>auto simp: list_all_iff plain_data_def\<close>)
  ultimately show ?thesis by auto
qed

lemma in_service_Inr:
  "in_service m s = (Inr x, s') \<Longrightarrow> qs_events (fst s') = qs_events (fst s) \<and>
     (\<exists>w w'. m w = (Inr x, w'))"
  by (cases s) (auto simp: in_service_def in_query_def in_services_def split: prod.splits)

text \<open>
  C15: A client that reads a streamed chat completion whose query ended with a result gets
  the text of all text blocks of the query's messages in order, the finish reason the result
  calls for and the end marker, and, when the tool calls are all in one message, each tool
  call with its identifier, name and arguments.
\<close>

theorem chat_stream_answers:
  fixes R :: "('c, 'd) chat_routes"
  assumes "pylib_laws L" and "json_loads L done_marker = None" and "ch_lib R = L" and "ae_lib (as_env (ch_agent R)) = L"
    and "chat_request.cr_stream payload"
    and "create_chat_completion R n payload mode key s = (Inr (Chunks texts None), s')"
    and "\<forall>e \<in> set (qs_events (fst s')). plain_data L e" and "\<exists>e \<in> set (qs_events (fst s')). ev_event e = ''result''"
  shows "\<exists>body d. native_event_tuples L (map event_dict (qs_events (fst s'))) = body @ [(''result'', d)] \<and>
    cc_text (client_after L texts) = concat (map event_text body) \<and>
    cc_finish (client_after L texts) = Some (stream_finish (\<exists>e \<in> set body. event_calls L e \<noteq> []) d) \<and>
    cc_done (client_after L texts) \<and>
    (length (filter (\<lambda>e. event_calls L e \<noteq> []) body) \<le> 1 \<longrightarrow>
      cc_calls (client_after L texts) = concat (map (event_calls L) body))"
proof -
  from assms(3,5,6) obtain q where "streamed_chat R n payload q key s = (Inr (Chunks texts None), s')"
    by (auto simp: create_chat_completion_def and_then_Inr)
  then obtain A now s1 where rest: "(case query_stream (ch_agent R) n q key s1 of (r, s2) \<Rightarrow>
      and_then (in_service (adapt_events L A (unix_seconds now) (sa_first_chunk A) False
        (native_event_tuples L (map event_dict (qs_events (fst s2)))))) (\<lambda>chunks.
      ret (case r of
        Inl e \<Rightarrow> Chunks (map (chunk_text L) chunks) (Some e)
      | Inr _ \<Rightarrow> Chunks (map (chunk_text L) (chunks @ [JStr done_marker])) None)) s2) = (Inr (Chunks texts None), s')"
    unfolding streamed_chat_def assms(3) and_then_Inr by blast
  obtain r s2 where query: "query_stream (ch_agent R) n q key s1 = (r, s2)" by (cases "query_stream (ch_agent R) n q key s1")
  with rest obtain chunks where
      run: "in_service (adapt_events L A (unix_seconds now) (sa_first_chunk A) False
      (native_event_tuples L (map event_dict (qs_events (fst s2))))) s2 = (Inr chunks, s')"
    and reply: "(case r of Inl e \<Rightarrow> Chunks (map (chunk_text L) chunks) (Some e)
      | Inr _ \<Rightarrow> Chunks (map (chunk_text L) (chunks @ [JStr done_marker])) None) = Chunks texts None"
    by (auto simp: and_then_Inr)
  from reply obtain u where "r = Inr u" and texts: "texts = map (chunk_text L) chunks @ [done_marker]"
    by (cases r) (auto simp: chunk_text_def)
  with query obtain q' i files rest where ev: "qs_events (fst s2) = first_event L q' i files # rest"
    and closed: "closed_stream L rest"
    by (metis query_stream_run assms(4))
  from in_service_Inr [OF run] obtain w w' :: "('c, 'd) world" where same: "qs_events (fst s') = qs_events (fst s2)"
    and adapt: "adapt_events L A (unix_seconds now) (sa_first_chunk A) False
      (native_event_tuples L (map event_dict (qs_events (fst s2)))) w = (Inr chunks, w')" by blast
  have init: "ev_event (first_event L q' i files) = ''init''"
    by (simp add: first_event_def init_event_def format_sse_def)
  from closed_native [OF closed init] assms(7,8) same ev init obtain body d where
      native: "native_event_tuples L (map event_dict (qs_events (fst s2))) = body @ [(''result'', d)]"
    and plain: "list_all plain_event body" by auto
  from adapt_events_read [OF assms(1,2) plain, of A "unix_seconds now" "sa_first_chunk A" False d w] adapt native
  have "client_after L texts = new_client\<lparr>cc_text := concat (map event_text body), cc_calls := merged_calls L body [],
      cc_done := True, cc_finish := Some (stream_finish (list_ex (\<lambda>e. event_calls L e \<noteq> []) body) d)\<rparr>"
    by (simp add: texts client_after_def client_read_def new_client_def)
  with native same show ?thesis by (simp add: list_ex_iff merged_calls_single)
qed

section \<open>A concrete completion\<close>

text \<open>A conversation of one message, to an SDK that ends without an answer.\<close>

definition ref_net :: net_lib where
  "ref_net = \<lparr>url_hostname = (\<lambda>u. Inr None), ip_internal = (\<lambda>h. None)\<rparr>"

definition ref_chat :: "(server redis_world, bool) chat_routes" where
  "ref_chat = \<lparr>ch_lib = ref_lib, ch_net = ref_net, ch_agent = ref_agent_service\<rparr>"

lemma ref_chat_sel: "ch_lib ref_chat = ref_lib" "ch_net ref_chat = ref_net" "ch_agent ref_chat = ref_agent_service"
  by (simp_all add: ref_chat_def)

lemma ref_request_sel: "chat_request.cr_model ref_chat_request = ''sonnet''" "chat_request.cr_stream ref_chat_request"
  by (simp_all add: ref_chat_request_def)

definition ref_chat_query :: query_request where
  "ref_chat_query = chat_query ''sonnet'' ref_chat_request None"

lemma ref_translated: "translate_request N get_model_mapper ref_chat_request None = Inr ref_chat_query"
proof -
  have m: "to_claude get_model_mapper (chat_request.cr_model ref_chat_request) = Inr ''sonnet''"
    by code_simp
  have "system_texts (chat_request.cr_messages ref_chat_request) = []"
    by (simp add: ref_chat_request_def system_texts_def is_system_def)
  moreover have "length (concatenate_messages (filter (\<lambda>m. \<not> is_system m) (chat_request.cr_messages ref_chat_request))) \<le> 100000"
    by (simp add: ref_chat_request_def is_system_def concatenate_messages_def message_part_def extract_text_content_def line_break_def)
  moreover have "concatenate_messages (filter (\<lambda>m. \<not> is_system m) (chat_request.cr_messages ref_chat_request)) \<noteq> []"
    by (simp add: ref_chat_request_def is_system_def concatenate_messages_Nil)
  ultimately show ?thesis
    using m check_chat_query [of "''sonnet''" ref_chat_request None N]
    by (simp add: translate_request_def ref_chat_query_def Let_def separate_system_messages_def chat_query_def
        plain_request_def valid_short_model_names_def)
qed

definition ref_first :: agent_event where
  "ref_first = first_event ref_lib ref_chat_query ''aa'' []"

definition ref_result :: "json dict" where
  "ref_result =
     [(''session_id'', JStr ''aa''), (''is_error'', JBool False), (''is_complete'', JBool True), (''stop_reason'', JNull),
      (''duration_ms'', JInt 0), (''num_turns'', JInt 0), (''total_cost_usd'', JNull), (''usage'', JNull),
      (''model_usage'', JNull), (''result'', JNull), (''structured_output'', JNull)]"

lemma ref_run:
  "\<exists>s'. run_stream quiet_env 2 ref_chat_query (Some ''aa'') []
       (quiet_state\<lparr>qs_world := (ref_world True)\<lparr>w_draws := 2, w_ticks := 1\<rparr>\<rparr>) = (Inr (), s') \<and>
     qs_events s' = [format_sse ref_lib ''result'' ref_result, done_event ref_lib ''completed'']"
  by (simp add: run_stream_def stream_body_def session_id_or_new_def start_query_def in_services_def monotonic_def
      modify_def quiet_env_def ref_chat_query_def chat_query_def final_permission_mode_def
      plain_request_def quiet_state_def register_def unregister_def
      with_tracker_cache_def execute_query_def execute_with_sdk_client_def with_client_def inject_memory_context_def
      on_message_def map_sdk_message_def in_ctx_def next_turn_def py_plus_def assistant_texts_def getattr_or_def
      yield_result_def elapsed_ms_def build_result_event_def result_data_def emit_opt_def yield_event_def
      yield_done_def result_usage_def trunc_rat_def checked_str_def numeral_2_eq_2 reads_def ref_eval Let_def
      new_context_def ref_result_def done_event_def del: eval_rules cong: option.case_cong)

definition ref_asked :: "(server redis_world, bool) service_state" where
  "ref_asked = (quiet_state\<lparr>qs_world := (ref_world True)\<lparr>w_draws := 1, w_ticks := 1\<rparr>\<rparr>, None)"

lemma ref_query:
  "\<exists>s'. query_stream ref_agent_service 2 ref_chat_query [] ref_asked = (Inr (), s') \<and>
     qs_events (fst s') = [ref_first, format_sse ref_lib ''result'' ref_result, done_event ref_lib ''completed'']"
proof -
  obtain s' where run: "run_stream quiet_env 2 ref_chat_query (Some ''aa'') []
       (quiet_state\<lparr>qs_world := (ref_world True)\<lparr>w_draws := 2, w_ticks := 1\<rparr>\<rparr>) = (Inr (), s')"
    and ev: "qs_events s' = [format_sse ref_lib ''result'' ref_result, done_event ref_lib ''completed'']"
    using ref_run by blast
  have "build_init_event ref_agent_service ref_chat_query ''aa'' [] = Inr ref_first"
    by (simp add: build_init_event_def ref_first_def first_event_def ref_agent_service_def quiet_env_def
        ref_chat_query_def chat_query_def final_permission_mode_def plain_request_def permission_modes_def)
  moreover have "qr_session_id ref_chat_query = None"
    by (simp add: ref_chat_query_def chat_query_def plain_request_def)
  moreover have "in_query (modify (\<lambda>s. s\<lparr>qs_events := []\<rparr>)) ref_asked = (Inr (), ref_asked)"
    by (simp add: in_query_def modify_def ref_asked_def quiet_state_def)
  moreover have "in_query (session_id_or_new None) ref_asked =
      (Inr ''aa'', (quiet_state\<lparr>qs_world := (ref_world True)\<lparr>w_draws := 2, w_ticks := 1\<rparr>\<rparr>, None))"
    by (simp add: in_query_def ref_asked_def session_id_or_new_def in_services_def draw_token_def ref_tokens_def numeral_2_eq_2)
  moreover have "as_injector ref_agent_service = None" "as_env ref_agent_service = quiet_env" "as_commands ref_agent_service c = Inr None" for c
    by (simp_all add: ref_agent_service_def)
  ultimately show ?thesis
    using run ev
    by (simp add: query_stream_def inject_servers_for_def discover_commands_def after_event_def and_then_def in_query_def
        del: ref_lib_loads)
qed

lemma ref_data:
  assumes "e \<in> {ref_first, format_sse ref_lib ''result'' ref_result, done_event ref_lib ''completed''}"
  shows "plain_data ref_lib e"
proof -
  have "json_loads ref_lib (json_dumps ref_lib (JObj ref_result)) = Some (JObj ref_result)"
    by (rule ref_lib.loads_dumps) (simp add: ref_result_def)
  moreover have "event_blocks ref_result = []"
    by (simp add: event_blocks_def ref_result_def dict_read_defs)
  ultimately show ?thesis
    using assms by (auto simp: plain_data_def ref_first_def first_event_def init_event_def done_event_def
        format_sse_def simp del: ref_lib_loads ref_lib_sel)
qed

lemma ref_native_query:
  "native_event_tuples ref_lib (map event_dict [ref_first, format_sse ref_lib ''result'' ref_result,
     done_event ref_lib ''completed'']) = [(''result'', ref_result)]"
proof -
  have "json_loads ref_lib (json_dumps ref_lib (JObj ref_result)) = Some (JObj ref_result)"
    by (rule ref_lib.loads_dumps) (simp add: ref_result_def)
  then show ?thesis
    by (simp add: native_event_tuples_def event_dict_native ref_first_def first_event_def init_event_def
        done_event_def format_sse_def del: ref_lib_loads ref_lib_sel)
qed

lemma ref_streamed:
  "\<exists>texts s'. create_chat_completion ref_chat 2 ref_chat_request None [] (quiet_state, None) = (Inr (Chunks texts None), s') \<and>
     qs_events (fst s') = [ref_first, format_sse ref_lib ''result'' ref_result, done_event ref_lib ''completed'']"
proof -
  obtain s2 where query: "query_stream ref_agent_service 2 ref_chat_query [] ref_asked = (Inr (), s2)"
    and ev: "qs_events (fst s2) = [ref_first, format_sse ref_lib ''result'' ref_result, done_event ref_lib ''completed'']"
    using ref_query by blast
  from ref_native_query have "native_event_tuples ref_lib (map event_dict (qs_events (fst s2))) = [(''result'', ref_result)]"
    by (simp only: ev)
  then obtain chunks w where "\<And>l. in_service (adapt_events ref_lib
        \<lparr>sa_original_model = ''sonnet'', sa_mapped_model = Some ''sonnet'', sa_completion_id = ''chatcmpl-a'', sa_first_chunk = True\<rparr>
        1 True False (native_event_tuples ref_lib (map event_dict (qs_events (fst s2))))) s2 = (Inr chunks, s2)"
    by (cases s2) (simp add: io_operator_defs in_service_def in_query_def in_services_def)
  moreover have "in_service (new_streaming_adapter ''sonnet'' (Some ''sonnet'') None) (quiet_state, None) =
      (Inr \<lparr>sa_original_model = ''sonnet'', sa_mapped_model = Some ''sonnet'', sa_completion_id = ''chatcmpl-a'', sa_first_chunk = True\<rparr>,
       (quiet_state\<lparr>qs_world := (ref_world True)\<lparr>w_draws := 1\<rparr>\<rparr>, None))"
    by (simp add: in_service_def in_query_def in_services_def new_streaming_adapter_def io_operator_defs ref_tokens_def
        quiet_state_def)
  moreover have "in_service utc_now (quiet_state\<lparr>qs_world := (ref_world True)\<lparr>w_draws := 1\<rparr>\<rparr>, None) = (Inr 1000000, ref_asked)"
    by (simp add: in_service_def in_query_def in_services_def utc_now_def ref_asked_def)
  moreover have "unix_seconds 1000000 = 1"
    by (simp add: unix_seconds_def) code_simp
  ultimately show ?thesis
    using query ev
    by (simp add: create_chat_completion_def ref_translated ref_chat_sel ref_request_sel streamed_chat_def and_then_def
        lift_sum_def ret_def del: One_nat_def)
qed

theorem chat_stream_answers_witness:
  "\<exists>texts s'. create_chat_completion ref_chat 2 ref_chat_request None [] (quiet_state, None) = (Inr (Chunks texts None), s') \<and>
     cc_text (client_after ref_lib texts) = [] \<and> cc_finish (client_after ref_lib texts) = Some ''stop'' \<and>
     cc_done (client_after ref_lib texts)"
proof -
  obtain texts s' where run: "create_chat_completion ref_chat 2 ref_chat_request None [] (quiet_state, None) =
      (Inr (Chunks texts None), s')"
    and ev: "qs_events (fst s') = [ref_first, format_sse ref_lib ''result'' ref_result, done_event ref_lib ''completed'']"
    using ref_streamed by blast
  have lib: "ch_lib ref_chat = ref_lib" "ae_lib (as_env (ch_agent ref_chat)) = ref_lib" "chat_request.cr_stream ref_chat_request"
    by (simp_all add: ref_chat_def ref_agent_service_def quiet_env_def ref_chat_request_def)
  have "\<forall>e \<in> set (qs_events (fst s')). plain_data ref_lib e" "\<exists>e \<in> set (qs_events (fst s')). ev_event e = ''result''"
    using ev ref_data by (simp_all add: format_sse_def)
  from chat_stream_answers [OF ref_lib.pylib_laws_axioms ref_done_marker lib run this] run ref_native_query ev
  show ?thesis
    by (auto simp: stream_finish_def dict_read_defs ref_result_def)
qed

end
