(* ===== verification/ReplySchemas.thy ===== *)
theory ReplySchemas
  imports OpenAIRoutes OpenAI AgentQuery RunExecutor
begin

text \<open>
  The typed dictionaries of the interface, as data: \<open>schemas/openai/assistants.py\<close>,
  \<open>schemas/openai/responses.py\<close>, \<open>schemas/openai/tools.py\<close>, the tools of
  \<open>schemas/openai/assistant_requests.py\<close> and the event data of \<open>types.py\<close>.
  At run time nothing checks them: the handlers \<open>cast\<close> what they build. Here they are checked: a value
  conforms to a type, and the conversions of the routes make conforming values.
\<close>

section \<open>Types and conformance\<close>

datatype reply_type =
    TyStr | TyInt | TyFloat | TyBool | TyNone | TyAny
  | TyLiteral "string list"
  | TyList reply_type
  | TyDict reply_type \<comment> \<open>\<open>dict[str, t]\<close>\<close>
  | TyTyped "(string \<times> bool \<times> reply_type) list" \<comment> \<open>a \<open>TypedDict\<close>: name, required, type\<close>
  | TyUnion "reply_type list"

abbreviation required :: "string \<Rightarrow> reply_type \<Rightarrow> string \<times> bool \<times> reply_type" where
  "required k t \<equiv> (k, True, t)"

abbreviation not_required :: "string \<Rightarrow> reply_type \<Rightarrow> string \<times> bool \<times> reply_type" where
  "not_required k t \<equiv> (k, False, t)"

abbreviation or_null :: "reply_type \<Rightarrow> reply_type" where
  "or_null t \<equiv> TyUnion [t, TyNone]"

text \<open>A typed dictionary has no other keys than its own.\<close>

fun conforms :: "reply_type \<Rightarrow> json \<Rightarrow> bool" where
  "conforms TyStr j = (case j of JStr _ \<Rightarrow> True | _ \<Rightarrow> False)"
| "conforms TyInt j = (case j of JInt _ \<Rightarrow> True | _ \<Rightarrow> False)"
| "conforms TyFloat j = (case j of JFloat _ \<Rightarrow> True | JInt _ \<Rightarrow> True | _ \<Rightarrow> False)"
| "conforms TyBool j = (case j of JBool _ \<Rightarrow> True | _ \<Rightarrow> False)"
| "conforms TyNone j = (j = JNull)"
| "conforms TyAny j = True"
| "conforms (TyLiteral ts) j = (case j of JStr s \<Rightarrow> s \<in> set ts | _ \<Rightarrow> False)"
| "conforms (TyList t) j = (case j of JArr js \<Rightarrow> list_all (conforms t) js | _ \<Rightarrow> False)"
| "conforms (TyDict t) j = (case j of JObj d \<Rightarrow> list_all (\<lambda>(k, v). conforms t v) d | _ \<Rightarrow> False)"
| "conforms (TyTyped items) j =
     (case j of
        JObj d \<Rightarrow>
          list_all (\<lambda>(k, must, t). case dict_get d k of None \<Rightarrow> \<not> must | Some v \<Rightarrow> conforms t v) items \<and>
          list_all (\<lambda>(k, v). k \<in> set (map fst items)) d
      | _ \<Rightarrow> False)"
| "conforms (TyUnion ts) j = list_ex (\<lambda>t. conforms t j) ts"

named_theorems reply_types \<open>the typed dictionaries, unfolded\<close>

lemma conforms_opt:
  "conforms (or_null t) (json_of_opt f x) \<longleftrightarrow> (case x of None \<Rightarrow> True | Some y \<Rightarrow> conforms t (f y) \<or> f y = JNull)"
  by (cases x) auto

lemma conforms_opt_leaf [simp]:
  "conforms (or_null TyStr) (json_of_opt JStr x)" "conforms (or_null TyInt) (json_of_opt JInt i)"
  "conforms (or_null TyFloat) (json_of_opt JFloat f)"
  "conforms (TyUnion [TyStr, TyDict TyStr, TyNone]) JNull" "conforms (or_null t) JNull"
  by (cases x; cases i; cases f; simp)+

lemma conforms_list: "conforms (TyList t) (JArr (map f xs)) \<longleftrightarrow> list_all (\<lambda>x. conforms t (f x)) xs"
  by (simp add: list.pred_map o_def)

lemma conforms_strings [simp]: "conforms (TyDict TyStr) (JObj (strings_obj d))"
  by (auto simp: strings_obj_def list_all_iff)

lemma conforms_item:
  assumes "conforms (TyTyped items) (JObj d)" and "(k, must, t) \<in> set items"
  shows "case dict_get d k of None \<Rightarrow> \<not> must | Some v \<Rightarrow> conforms t v"
  using assms by (auto simp: list_all_iff)

section \<open>Chat completions\<close>

subsection \<open>\<open>schemas/openai/tools.py\<close>\<close>

definition OpenAIFunctionParameters :: reply_type where [reply_types]:
  "OpenAIFunctionParameters = TyTyped
     [required ''type'' (TyLiteral [''object'']), not_required ''properties'' (TyDict (TyDict TyAny)),
      not_required ''required'' (TyList TyStr), not_required ''additionalProperties'' TyBool]"

definition OpenAIFunctionDefinition :: reply_type where [reply_types]:
  "OpenAIFunctionDefinition = TyTyped
     [required ''name'' TyStr, not_required ''description'' TyStr,
      not_required ''parameters'' OpenAIFunctionParameters, not_required ''strict'' TyBool]"

definition OpenAITool :: reply_type where [reply_types]:
  "OpenAITool = TyTyped [required ''type'' (TyLiteral [''function'']), required ''function'' OpenAIFunctionDefinition]"

definition OpenAIToolChoiceFunction :: reply_type where [reply_types]:
  "OpenAIToolChoiceFunction = TyTyped [required ''name'' TyStr]"

definition OpenAIToolChoiceObject :: reply_type where [reply_types]:
  "OpenAIToolChoiceObject = TyTyped
     [required ''type'' (TyLiteral [''function'']), required ''function'' OpenAIToolChoiceFunction]"

definition OpenAIToolChoice :: reply_type where [reply_types]:
  "OpenAIToolChoice = TyUnion [TyLiteral [''auto'', ''none'', ''required''], OpenAIToolChoiceObject]"

definition OpenAIFunctionCall :: reply_type where [reply_types]:
  "OpenAIFunctionCall = TyTyped [required ''name'' TyStr, required ''arguments'' TyStr]"

definition OpenAIToolCall :: reply_type where [reply_types]:
  "OpenAIToolCall = TyTyped
     [required ''id'' TyStr, required ''type'' (TyLiteral [''function'']), required ''function'' OpenAIFunctionCall]"

definition OpenAIToolResultMessage :: reply_type where [reply_types]:
  "OpenAIToolResultMessage = TyTyped
     [required ''role'' (TyLiteral [''tool'']), required ''tool_call_id'' TyStr, not_required ''name'' TyStr,
      required ''content'' TyStr]"

definition FunctionCallDeltaWithTools :: reply_type where [reply_types]:
  "FunctionCallDeltaWithTools = TyTyped [not_required ''name'' TyStr, not_required ''arguments'' TyStr]"

definition ToolCallDeltaWithTools :: reply_type where [reply_types]:
  "ToolCallDeltaWithTools = TyTyped
     [required ''index'' TyInt, not_required ''id'' TyStr, not_required ''type'' (TyLiteral [''function'']),
      not_required ''function'' FunctionCallDeltaWithTools]"

definition finish_reasons :: "string list" where [reply_types]:
  "finish_reasons = [''stop'', ''length'', ''tool_calls'', ''error'']"

definition OpenAIResponseMessageWithTools :: reply_type where [reply_types]:
  "OpenAIResponseMessageWithTools = TyTyped
     [required ''role'' (TyLiteral [''assistant'']), required ''content'' (or_null TyStr),
      not_required ''tool_calls'' (TyList OpenAIToolCall)]"

definition OpenAIChoiceWithTools :: reply_type where [reply_types]:
  "OpenAIChoiceWithTools = TyTyped
     [required ''index'' TyInt, required ''message'' OpenAIResponseMessageWithTools,
      required ''finish_reason'' (or_null (TyLiteral finish_reasons))]"

definition OpenAIDeltaWithTools :: reply_type where [reply_types]:
  "OpenAIDeltaWithTools = TyTyped
     [not_required ''role'' (TyLiteral [''assistant'']), not_required ''content'' TyStr,
      not_required ''tool_calls'' (TyList ToolCallDeltaWithTools)]"

definition OpenAIStreamChoiceWithTools :: reply_type where [reply_types]:
  "OpenAIStreamChoiceWithTools = TyTyped
     [required ''index'' TyInt, required ''delta'' OpenAIDeltaWithTools,
      required ''finish_reason'' (or_null (TyLiteral finish_reasons))]"

subsection \<open>\<open>schemas/openai/responses.py\<close>\<close>

definition OpenAIFunctionCallResponse :: reply_type where [reply_types]:
  "OpenAIFunctionCallResponse = TyTyped [required ''name'' TyStr, required ''arguments'' TyStr]"

definition OpenAIToolCallResponse :: reply_type where [reply_types]:
  "OpenAIToolCallResponse = TyTyped
     [required ''id'' TyStr, required ''type'' (TyLiteral [''function'']), required ''function'' OpenAIFunctionCallResponse]"

definition OpenAIFunctionCallDelta :: reply_type where [reply_types]:
  "OpenAIFunctionCallDelta = TyTyped [not_required ''name'' TyStr, not_required ''arguments'' TyStr]"

definition OpenAIToolCallDelta :: reply_type where [reply_types]:
  "OpenAIToolCallDelta = TyTyped
     [required ''index'' TyInt, not_required ''id'' TyStr, not_required ''type'' (TyLiteral [''function'']),
      not_required ''function'' OpenAIFunctionCallDelta]"

definition OpenAIDelta :: reply_type where [reply_types]:
  "OpenAIDelta = TyTyped
     [not_required ''role'' (TyLiteral [''assistant'']), not_required ''content'' TyStr,
      not_required ''tool_calls'' (TyList OpenAIToolCallDelta)]"

definition OpenAIStreamChoice :: reply_type where [reply_types]:
  "OpenAIStreamChoice = TyTyped
     [required ''index'' TyInt, required ''delta'' OpenAIDelta,
      required ''finish_reason'' (or_null (TyLiteral finish_reasons))]"

definition OpenAIStreamChunk :: reply_type where [reply_types]:
  "OpenAIStreamChunk = TyTyped
     [required ''id'' TyStr, required ''object'' (TyLiteral [''chat.completion.chunk'']), required ''created'' TyInt,
      required ''model'' TyStr, required ''choices'' (TyList OpenAIStreamChoice)]"

definition OpenAIResponseMessage :: reply_type where [reply_types]:
  "OpenAIResponseMessage = TyTyped
     [required ''role'' (TyLiteral [''assistant'']), not_required ''content'' (or_null TyStr),
      not_required ''tool_calls'' (TyList OpenAIToolCallResponse)]"

definition OpenAIChoice :: reply_type where [reply_types]:
  "OpenAIChoice = TyTyped
     [required ''index'' TyInt, required ''message'' OpenAIResponseMessage,
      required ''finish_reason'' (or_null (TyLiteral finish_reasons))]"

definition OpenAIUsage :: reply_type where [reply_types]:
  "OpenAIUsage = TyTyped
     [required ''prompt_tokens'' TyInt, required ''completion_tokens'' TyInt, required ''total_tokens'' TyInt]"

definition OpenAIChatCompletion :: reply_type where [reply_types]:
  "OpenAIChatCompletion = TyTyped
     [required ''id'' TyStr, required ''object'' (TyLiteral [''chat.completion'']), required ''created'' TyInt,
      required ''model'' TyStr, required ''choices'' (TyList OpenAIChoice), required ''usage'' OpenAIUsage]"

definition OpenAIModelInfo :: reply_type where [reply_types]:
  "OpenAIModelInfo = TyTyped
     [required ''id'' TyStr, required ''object'' (TyLiteral [''model'']), required ''created'' TyInt,
      required ''owned_by'' TyStr]"

definition OpenAIModelList :: reply_type where [reply_types]:
  "OpenAIModelList = TyTyped [required ''object'' (TyLiteral [''list'']), required ''data'' (TyList OpenAIModelInfo)]"

definition OpenAIErrorDetails :: reply_type where [reply_types]:
  "OpenAIErrorDetails = TyTyped
     [required ''message'' TyStr, required ''type'' TyStr, required ''code'' (or_null TyStr)]"

definition OpenAIError :: reply_type where [reply_types]:
  "OpenAIError = TyTyped [required ''error'' OpenAIErrorDetails]"

subsection \<open>The replies\<close>

lemma openai_call_conforms: "conforms OpenAIToolCallResponse (JObj (openai_call L token b))"
  by (simp add: openai_call_def reply_types dict_get_def)

lemma tool_calls_conform:
  "translate_claude_tool_use_to_openai L bs w = (Inr calls, w') \<Longrightarrow>
   list_all (\<lambda>d. conforms OpenAIToolCallResponse (JObj d)) calls"
  by (induction L bs arbitrary: w calls w' rule: translate_claude_tool_use_to_openai.induct)
    (auto simp: and_then_def ret_def openai_call_conforms split: if_splits prod.splits sum.splits)

lemma stop_reason_listed: "map_stop_reason r b \<in> set finish_reasons"
  by (simp add: map_stop_reason_def finish_reasons_def)

lemma response_message_conforms:
  assumes "list_all (\<lambda>d. conforms OpenAIToolCallResponse (JObj d)) calls"
  shows "conforms OpenAIResponseMessage (JObj (response_message content calls))"
  using assms by (cases content) (simp_all add: response_message_def OpenAIResponseMessage_def dict_get_def list.pred_map o_def)

lemma usage_dict_conforms: "conforms OpenAIUsage (JObj (usage_dict u))"
  by (cases u) (simp_all add: usage_dict_def OpenAIUsage_def dict_get_def)

lemma completion_conforms:
  assumes "list_all (\<lambda>d. conforms OpenAIToolCallResponse (JObj d)) calls"
  shows "conforms OpenAIChatCompletion (JObj (completion_dict i now r m calls))"
  using response_message_conforms [OF assms] usage_dict_conforms stop_reason_listed
  by (simp add: completion_dict_def OpenAIChatCompletion_def OpenAIChoice_def dict_get_def)

lemma response_conforms:
  "translate_response L r m w = (Inr d, w') \<Longrightarrow> conforms OpenAIChatCompletion (JObj d)"
  by (auto simp: translate_response_def and_then_def ret_def Let_def intro!: completion_conforms
      dest!: tool_calls_conform split: if_splits prod.splits sum.splits)

lemma error_conforms: "conforms OpenAIError (JObj (translate_error message code status))"
  by (simp add: translate_error_def OpenAIError_def OpenAIErrorDetails_def dict_get_def)

lemma models_conform: "list_all (\<lambda>d. conforms OpenAIModelInfo (JObj d)) (list_models M)"
  by (simp add: list_models_def list.pred_map o_def model_info_def OpenAIModelInfo_def dict_get_def list_all_iff)

text \<open>The types of \<open>tools.py\<close> and of \<open>responses.py\<close> differ in one point: whether the content may be left out.\<close>

lemma tool_types_agree:
  "OpenAIToolCall = OpenAIToolCallResponse" "OpenAIStreamChoiceWithTools = OpenAIStreamChoice"
  by (simp_all add: reply_types)

lemma message_with_tools_weaker:
  "conforms OpenAIResponseMessageWithTools j \<Longrightarrow> conforms OpenAIResponseMessage j"
  unfolding OpenAIResponseMessageWithTools_def OpenAIResponseMessage_def tool_types_agree
  by (cases j) (simp_all split: option.splits)

lemma choice_with_tools_weaker: "conforms OpenAIChoiceWithTools j \<Longrightarrow> conforms OpenAIChoice j"
  unfolding OpenAIChoiceWithTools_def OpenAIChoice_def
  by (cases j) (simp_all add: message_with_tools_weaker split: option.splits)

subsection \<open>Streams\<close>

text \<open>
  A chunk carries the text of a block as it came; the schemas of the events say it is a string, and
  the adapter does not check it.
\<close>

definition block_text_typed :: "json \<Rightarrow> bool" where
  "block_text_typed b =
     (case b of JObj d \<Rightarrow> block_type d = JStr ''text'' \<longrightarrow> conforms (or_null TyStr) (dict_get_or d ''text'' (JStr [])) | _ \<Rightarrow> True)"

lemma block_deltas_conform:
  "block_deltas L i bs w = (Inr ds, w') \<Longrightarrow> list_all block_text_typed bs \<Longrightarrow>
   list_all (\<lambda>d. conforms OpenAIDelta (JObj d)) ds"
proof (induction L i bs arbitrary: w ds w' rule: block_deltas.induct)
  case (2 L i b bs)
  have call: "conforms OpenAIDelta (JObj (tool_delta L token i b))" for token
    by (simp add: tool_delta_def openai_call_def reply_types dict_get_def)
  have said: "conforms OpenAIDelta (JObj [(''content'', dict_get_or b ''text'' (JStr []))])"
    if "block_type b = JStr ''text''" and "truthy (dict_get_or b ''text'' (JStr []))"
    using that "2.prems"(2)
    by (cases "dict_get_or b ''text'' (JStr [])") (simp_all add: block_text_typed_def OpenAIDelta_def dict_get_def)
  from "2.prems" "2.IH" show ?case
    by (auto simp: and_then_def ret_def Let_def call said simp del: conforms.simps split: if_splits prod.splits sum.splits)
qed (auto simp: ret_def)

definition event_typed :: "string \<times> json dict \<Rightarrow> bool" where
  "event_typed e \<longleftrightarrow>
     (fst e = ''message'' \<or> fst e = ''partial'' \<longrightarrow> list_all block_text_typed (event_blocks (snd e)))"

lemma stream_chunk_conforms:
  assumes "conforms OpenAIDelta (JObj delta)" and "conforms (or_null (TyLiteral finish_reasons)) finish"
  shows "conforms OpenAIStreamChunk (stream_chunk A created delta finish)"
  using assms by (simp add: stream_chunk_def OpenAIStreamChunk_def OpenAIStreamChoice_def dict_get_def)

lemma unfinished_chunk_conforms:
  "conforms OpenAIDelta (JObj delta) \<Longrightarrow> conforms OpenAIStreamChunk (stream_chunk A created delta JNull)"
  by (rule stream_chunk_conforms) simp_all

lemma role_chunk_conforms: "conforms OpenAIStreamChunk (stream_chunk A created [(''role'', JStr ''assistant'')] JNull)"
  by (rule unfinished_chunk_conforms) (simp add: OpenAIDelta_def dict_get_def)

lemma last_chunk_conforms: "conforms OpenAIStreamChunk (stream_chunk A created [] (JStr (stream_finish b d)))"
  by (rule stream_chunk_conforms) (simp_all add: OpenAIDelta_def dict_get_def stream_finish_def finish_reasons_def)

lemma adapt_events_conform:
  "adapt_events L A created first tools events w = (Inr chunks, w') \<Longrightarrow> list_all event_typed events \<Longrightarrow>
   list_all (conforms OpenAIStreamChunk) chunks"
proof (induction L A created first tools events arbitrary: w chunks w' rule: adapt_events.induct)
  case (2 L A created first tools event_type d events)
  have deltas: "list_all (\<lambda>delta. conforms OpenAIStreamChunk (stream_chunk A created delta JNull)) ds"
    if "list_all (\<lambda>d. conforms OpenAIDelta (JObj d)) ds" for ds
    using that by (induction ds) (simp_all add: unfinished_chunk_conforms)
  let ?role = "if first then [stream_chunk A created [(''role'', JStr ''assistant'')] JNull] else []"
  have role: "list_all (conforms OpenAIStreamChunk) ?role"
    by (simp add: role_chunk_conforms del: conforms.simps)
  from "2.prems"(2) have blocks: "event_typed (event_type, d)" and typed: "list_all event_typed events"
    by simp_all
  show ?case
  proof (cases "event_type = ''message'' \<or> event_type = ''partial''")
    case True
    with "2.prems"(1) obtain ds w1 rest where ds: "block_deltas L 0 (event_blocks d) w = (Inr ds, w1)"
      and rest: "adapt_events L A created False (tools \<or> list_ex is_tool_delta ds) events w1 = (Inr rest, w')"
      and chunks: "chunks = ?role @ map (\<lambda>delta. stream_chunk A created delta JNull) ds @ rest"
      by (auto simp: and_then_def ret_def Let_def simp del: conforms.simps split: prod.splits sum.splits)
    from blocks True have "list_all block_text_typed (event_blocks d)"
      by (auto simp: event_typed_def)
    from "2.IH"(1) [OF refl True rest typed] role deltas [OF block_deltas_conform [OF ds this]] chunks
    show ?thesis by (simp add: list.pred_map o_def del: conforms.simps)
  next
    case False
    with "2.prems"(1) obtain rest where rest: "adapt_events L A created False tools events w = (Inr rest, w')"
      and chunks: "chunks = ?role @ (if event_type = ''result''
        then [stream_chunk A created [] (JStr (stream_finish tools d))] else []) @ rest"
      by (auto simp: and_then_def ret_def Let_def simp del: conforms.simps split: prod.splits sum.splits)
    from "2.IH"(2) [OF refl False rest typed] role last_chunk_conforms chunks
    show ?thesis by (simp del: conforms.simps)
  qed
qed (auto simp: ret_def)

section \<open>The Assistants API\<close>

subsection \<open>Requests: \<open>schemas/openai/assistant_requests.py\<close>\<close>

definition AssistantToolCodeInterpreter :: reply_type where [reply_types]:
  "AssistantToolCodeInterpreter = TyTyped [required ''type'' (TyLiteral [''code_interpreter''])]"

definition AssistantToolFileSearch :: reply_type where [reply_types]:
  "AssistantToolFileSearch = TyTyped [not_required ''type'' (TyLiteral [''file_search''])]"

definition property_type :: reply_type where [reply_types]:
  "property_type = TyDict (TyDict (TyUnion [TyStr, TyList TyStr, TyBool, TyInt]))"

definition FunctionParameters :: reply_type where [reply_types]:
  "FunctionParameters = TyTyped
     [not_required ''type'' TyStr, not_required ''properties'' property_type, not_required ''required'' (TyList TyStr)]"

definition FunctionDefinition :: reply_type where [reply_types]:
  "FunctionDefinition = TyTyped
     [not_required ''name'' TyStr, not_required ''description'' TyStr, not_required ''parameters'' FunctionParameters]"

definition AssistantToolFunction :: reply_type where [reply_types]:
  "AssistantToolFunction = TyTyped
     [required ''type'' (TyLiteral [''function'']), required ''function'' FunctionDefinition]"

definition AssistantToolRequest :: reply_type where [reply_types]:
  "AssistantToolRequest = TyUnion [AssistantToolCodeInterpreter, AssistantToolFileSearch, AssistantToolFunction]"

subsection \<open>Replies: \<open>schemas/openai/assistants.py\<close>\<close>

definition OpenAIAssistantCodeInterpreterTool :: reply_type where [reply_types]:
  "OpenAIAssistantCodeInterpreterTool = TyTyped [required ''type'' (TyLiteral [''code_interpreter''])]"

definition OpenAIAssistantFileSearchTool :: reply_type where [reply_types]:
  "OpenAIAssistantFileSearchTool = TyTyped [required ''type'' (TyLiteral [''file_search''])]"

definition AssistantFunctionParameters :: reply_type where [reply_types]:
  "AssistantFunctionParameters = TyTyped
     [not_required ''type'' TyStr, not_required ''properties'' property_type, not_required ''required'' (TyList TyStr)]"

definition OpenAIAssistantFunctionDefinition :: reply_type where [reply_types]:
  "OpenAIAssistantFunctionDefinition = TyTyped
     [required ''name'' TyStr, not_required ''description'' TyStr, not_required ''parameters'' AssistantFunctionParameters]"

definition OpenAIAssistantFunctionTool :: reply_type where [reply_types]:
  "OpenAIAssistantFunctionTool = TyTyped
     [required ''type'' (TyLiteral [''function'']), required ''function'' OpenAIAssistantFunctionDefinition]"

definition OpenAIAssistantTool :: reply_type where [reply_types]:
  "OpenAIAssistantTool = TyUnion
     [OpenAIAssistantCodeInterpreterTool, OpenAIAssistantFileSearchTool, OpenAIAssistantFunctionTool]"

definition OpenAIAssistant :: reply_type where [reply_types]:
  "OpenAIAssistant = TyTyped
     [required ''id'' TyStr, required ''object'' (TyLiteral [''assistant'']), required ''created_at'' TyInt,
      required ''model'' TyStr, not_required ''name'' (or_null TyStr), not_required ''description'' (or_null TyStr),
      not_required ''instructions'' (or_null TyStr), required ''tools'' (TyList OpenAIAssistantTool),
      required ''metadata'' (TyDict TyStr), not_required ''top_p'' (or_null TyFloat),
      not_required ''temperature'' (or_null TyFloat),
      not_required ''response_format'' (TyUnion [TyStr, TyDict TyStr, TyNone])]"

definition OpenAIThread :: reply_type where [reply_types]:
  "OpenAIThread = TyTyped
     [required ''id'' TyStr, required ''object'' (TyLiteral [''thread'']), required ''created_at'' TyInt,
      required ''metadata'' (TyDict TyStr), not_required ''tool_resources'' (or_null (TyDict (TyDict (TyList TyStr))))]"

definition OpenAITextAnnotation :: reply_type where [reply_types]:
  "OpenAITextAnnotation = TyTyped
     [required ''type'' (TyLiteral [''file_citation'', ''file_path'']), required ''text'' TyStr,
      required ''start_index'' TyInt, required ''end_index'' TyInt,
      not_required ''file_citation'' (TyDict TyStr), not_required ''file_path'' (TyDict TyStr)]"

definition OpenAITextContent :: reply_type where [reply_types]:
  "OpenAITextContent = TyTyped [required ''value'' TyStr, required ''annotations'' (TyList OpenAITextAnnotation)]"

definition OpenAIMessageTextContent :: reply_type where [reply_types]:
  "OpenAIMessageTextContent = TyTyped [required ''type'' (TyLiteral [''text'']), required ''text'' OpenAITextContent]"

definition OpenAIImageFileDetail :: reply_type where [reply_types]:
  "OpenAIImageFileDetail = TyTyped [required ''file_id'' TyStr]"

definition OpenAIMessageImageFileContent :: reply_type where [reply_types]:
  "OpenAIMessageImageFileContent = TyTyped
     [required ''type'' (TyLiteral [''image_file'']), required ''image_file'' OpenAIImageFileDetail]"

definition OpenAIMessageContent :: reply_type where [reply_types]:
  "OpenAIMessageContent = TyUnion [OpenAIMessageTextContent, OpenAIMessageImageFileContent]"

definition OpenAIThreadMessage :: reply_type where [reply_types]:
  "OpenAIThreadMessage = TyTyped
     [required ''id'' TyStr, required ''object'' (TyLiteral [''thread.message'']), required ''created_at'' TyInt,
      required ''thread_id'' TyStr, required ''role'' (TyLiteral [''user'', ''assistant'']),
      required ''content'' (TyList OpenAIMessageContent), required ''metadata'' (TyDict TyStr),
      not_required ''assistant_id'' (or_null TyStr), not_required ''run_id'' (or_null TyStr),
      not_required ''attachments'' (or_null (TyList (TyDict (TyUnion [TyStr, TyList (TyDict TyStr)]))))]"

definition OpenAIRunFunctionCall :: reply_type where [reply_types]:
  "OpenAIRunFunctionCall = TyTyped [required ''name'' TyStr, required ''arguments'' TyStr]"

definition OpenAIRunToolCall :: reply_type where [reply_types]:
  "OpenAIRunToolCall = TyTyped
     [required ''id'' TyStr, required ''type'' (TyLiteral [''function'']), required ''function'' OpenAIRunFunctionCall]"

definition OpenAISubmitToolOutputs :: reply_type where [reply_types]:
  "OpenAISubmitToolOutputs = TyTyped [required ''tool_calls'' (TyList OpenAIRunToolCall)]"

definition OpenAIRequiredAction :: reply_type where [reply_types]:
  "OpenAIRequiredAction = TyTyped
     [required ''type'' (TyLiteral [''submit_tool_outputs'']), required ''submit_tool_outputs'' OpenAISubmitToolOutputs]"

definition OpenAIRunError :: reply_type where [reply_types]:
  "OpenAIRunError = TyTyped [required ''code'' TyStr, required ''message'' TyStr]"

definition OpenAIRunUsage :: reply_type where [reply_types]:
  "OpenAIRunUsage = TyTyped
     [required ''prompt_tokens'' TyInt, required ''completion_tokens'' TyInt, required ''total_tokens'' TyInt]"

definition OpenAIRun :: reply_type where [reply_types]:
  "OpenAIRun = TyTyped
     [required ''id'' TyStr, required ''object'' (TyLiteral [''thread.run'']), required ''created_at'' TyInt,
      required ''thread_id'' TyStr, required ''assistant_id'' TyStr,
      required ''status'' (TyLiteral
        [''queued'', ''in_progress'', ''requires_action'', ''cancelling'', ''cancelled'', ''failed'', ''completed'', ''expired'']),
      required ''model'' TyStr, not_required ''instructions'' (or_null TyStr),
      required ''tools'' (TyList OpenAIAssistantTool), required ''metadata'' (TyDict TyStr),
      not_required ''required_action'' (or_null OpenAIRequiredAction),
      not_required ''last_error'' (or_null OpenAIRunError), not_required ''usage'' (or_null OpenAIRunUsage),
      not_required ''started_at'' (or_null TyInt), not_required ''expires_at'' (or_null TyInt),
      not_required ''cancelled_at'' (or_null TyInt), not_required ''failed_at'' (or_null TyInt),
      not_required ''completed_at'' (or_null TyInt), not_required ''max_prompt_tokens'' (or_null TyInt),
      not_required ''max_completion_tokens'' (or_null TyInt),
      not_required ''truncation_strategy'' (or_null (TyDict (TyUnion [TyStr, TyInt]))),
      not_required ''response_format'' (TyUnion [TyStr, TyDict TyStr, TyNone]),
      not_required ''tool_choice'' (TyUnion [TyStr, TyDict (TyUnion [TyStr, TyDict TyStr]), TyNone]),
      not_required ''parallel_tool_calls'' TyBool]"

definition OpenAIMessageCreationDetails :: reply_type where [reply_types]:
  "OpenAIMessageCreationDetails = TyTyped [required ''message_id'' TyStr]"

definition OpenAIMessageCreationStepDetails :: reply_type where [reply_types]:
  "OpenAIMessageCreationStepDetails = TyTyped
     [required ''type'' (TyLiteral [''message_creation'']), required ''message_creation'' OpenAIMessageCreationDetails]"

definition OpenAIToolCallFunctionOutput :: reply_type where [reply_types]:
  "OpenAIToolCallFunctionOutput = TyTyped
     [required ''name'' TyStr, required ''arguments'' TyStr, not_required ''output'' (or_null TyStr)]"

definition OpenAIToolCallStepItem :: reply_type where [reply_types]:
  "OpenAIToolCallStepItem = TyTyped
     [required ''id'' TyStr, required ''type'' (TyLiteral [''function'', ''code_interpreter'', ''file_search'']),
      not_required ''function'' OpenAIToolCallFunctionOutput]"

definition OpenAIToolCallsStepDetails :: reply_type where [reply_types]:
  "OpenAIToolCallsStepDetails = TyTyped
     [required ''type'' (TyLiteral [''tool_calls'']), required ''tool_calls'' (TyList OpenAIToolCallStepItem)]"

definition OpenAIRunStepDetails :: reply_type where [reply_types]:
  "OpenAIRunStepDetails = TyUnion [OpenAIMessageCreationStepDetails, OpenAIToolCallsStepDetails]"

definition OpenAIRunStep :: reply_type where [reply_types]:
  "OpenAIRunStep = TyTyped
     [required ''id'' TyStr, required ''object'' (TyLiteral [''thread.run.step'']), required ''created_at'' TyInt,
      required ''run_id'' TyStr, required ''assistant_id'' TyStr, required ''thread_id'' TyStr,
      required ''type'' (TyLiteral [''message_creation'', ''tool_calls'']),
      required ''status'' (TyLiteral [''in_progress'', ''cancelled'', ''failed'', ''completed'', ''expired'']),
      required ''step_details'' OpenAIRunStepDetails,
      not_required ''last_error'' (or_null OpenAIRunError), not_required ''usage'' (or_null OpenAIRunUsage),
      not_required ''expired_at'' (or_null TyInt), not_required ''cancelled_at'' (or_null TyInt),
      not_required ''failed_at'' (or_null TyInt), not_required ''completed_at'' (or_null TyInt)]"

definition list_of :: "reply_type \<Rightarrow> reply_type" where [reply_types]:
  "list_of t = TyTyped
     [required ''object'' (TyLiteral [''list'']), required ''data'' (TyList t), required ''first_id'' (or_null TyStr),
      required ''last_id'' (or_null TyStr), required ''has_more'' TyBool]"

definition OpenAIAssistantList :: reply_type where [reply_types]: "OpenAIAssistantList = list_of OpenAIAssistant"

definition OpenAIThreadMessageList :: reply_type where [reply_types]: "OpenAIThreadMessageList = list_of OpenAIThreadMessage"

definition OpenAIRunList :: reply_type where [reply_types]: "OpenAIRunList = list_of OpenAIRun"

definition OpenAIRunStepList :: reply_type where [reply_types]: "OpenAIRunStepList = list_of OpenAIRunStep"

definition OpenAIDeletionStatus :: reply_type where [reply_types]:
  "OpenAIDeletionStatus = TyTyped
     [required ''id'' TyStr,
      required ''object'' (TyLiteral [''assistant.deleted'', ''thread.deleted'', ''thread.message.deleted'']),
      required ''deleted'' TyBool]"

subsection \<open>The conversions\<close>

lemma thread_conforms: "conforms OpenAIThread (JObj (convert_thread t))"
  by (simp add: convert_thread_def OpenAIThread_def dict_get_def del: conforms.simps(9))

definition typed_tools :: "json dict list \<Rightarrow> bool" where
  "typed_tools ts \<longleftrightarrow> list_all (\<lambda>d. conforms OpenAIAssistantTool (JObj d)) ts"

lemma assistant_conforms: "typed_tools (a_tools a) \<Longrightarrow> conforms OpenAIAssistant (JObj (convert_assistant a))"
  by (simp add: convert_assistant_def OpenAIAssistant_def dict_get_def typed_tools_def list.pred_map o_def
      del: conforms.simps(9,11))

text \<open>Annotations are copied from the cache; the service makes none.\<close>

fun content_typed :: "message_content \<Rightarrow> bool" where
  "content_typed (TextContent v annotations) \<longleftrightarrow> list_all (conforms OpenAITextAnnotation) annotations"
| "content_typed (ImageFileContent f) \<longleftrightarrow> True"

lemma content_conforms: "content_typed b \<Longrightarrow> conforms OpenAIMessageContent (JObj (content_json b))"
  by (cases b) (simp_all add: OpenAIMessageContent_def OpenAIMessageTextContent_def OpenAITextContent_def
      OpenAIMessageImageFileContent_def OpenAIImageFileDetail_def dict_get_def)

lemma convert_blocks_all: "convert_blocks (map content_json bs) = map (\<lambda>b. JObj (content_json b)) bs"
proof -
  have "dict_get (content_json b) ''type'' \<in> Some ` JStr ` {''text'', ''image_file'', ''image_url''}" for b
    by (cases b) (simp_all add: dict_get_def)
  then show ?thesis by (simp add: convert_blocks_def filter_map o_def)
qed

lemma message_conforms:
  assumes "list_all content_typed (msg_content m)"
  shows "conforms OpenAIThreadMessage (JObj (convert_message m))"
proof -
  have "list_all (conforms OpenAIMessageContent) (convert_blocks (map content_json (msg_content m)))"
    using assms by (auto simp: convert_blocks_all list_all_iff content_conforms)
  then show ?thesis
    by (cases "msg_role m"; cases "msg_assistant_id m"; cases "msg_run_id m")
      (simp_all add: convert_message_def OpenAIThreadMessage_def dict_get_def del: conforms.simps(9))
qed

lemma page_conforms:
  "list_all (\<lambda>x. conforms t (JObj (f x))) (lr_data page) \<Longrightarrow> conforms (list_of t) (JObj (convert_page f page))"
  by (cases "lr_first_id page"; cases "lr_last_id page")
    (simp_all add: convert_page_def list_of_def dict_get_def list.pred_map o_def)

lemma deletion_conforms:
  "k \<in> {''assistant.deleted'', ''thread.deleted'', ''thread.message.deleted''} \<Longrightarrow>
   conforms OpenAIDeletionStatus (JObj (deletion_status i k))"
  by (simp add: deletion_status_def OpenAIDeletionStatus_def dict_get_def)

subsection \<open>Runs\<close>

definition opt_typed :: "reply_type \<Rightarrow> json dict option \<Rightarrow> bool" where
  "opt_typed t x = (case x of None \<Rightarrow> True | Some d \<Rightarrow> conforms t (JObj d))"

definition typed_run :: "run \<Rightarrow> bool" where
  "typed_run r \<longleftrightarrow> typed_tools (run_tools r) \<and> opt_typed OpenAIRequiredAction (run_required_action r) \<and>
     opt_typed OpenAIRunError (run_last_error r) \<and> opt_typed OpenAIRunUsage (run_usage r)"

text \<open>The executor passes errors and usages of these types on, if the SDK counts in integers.\<close>

fun op_typed :: "run_op \<Rightarrow> bool" where
  "op_typed (OpComplete usage) = opt_typed OpenAIRunUsage usage"
| "op_typed (OpFail error) = conforms OpenAIRunError (JObj error)"
| "op_typed _ = True"

lemma required_action_conforms: "conforms OpenAIRequiredAction (JObj (required_action_of calls))"
  by (simp add: required_action_of_def tool_call_json_def OpenAIRequiredAction_def OpenAISubmitToolOutputs_def
      OpenAIRunToolCall_def OpenAIRunFunctionCall_def dict_get_def list.pred_map o_def list_all_iff)

lemma error_dict_conforms: "conforms OpenAIRunError (JObj (error_dict code message))"
  by (simp add: error_dict_def OpenAIRunError_def dict_get_def)

lemma op_change_typed: "typed_run r \<Longrightarrow> op_typed op \<Longrightarrow> typed_run (op_change op now r)"
  by (cases op) (simp_all add: typed_run_def Let_def opt_typed_def [of OpenAIRequiredAction] opt_typed_def [of OpenAIRunError]
      required_action_conforms nonempty_dict_def)

lemma opt_typed_conforms: "opt_typed t x \<Longrightarrow> conforms (or_null t) (json_of_opt JObj x)"
  by (cases x) (simp_all add: opt_typed_def)

lemma status_listed:
  "run_status_text st \<in> set
     [''queued'', ''in_progress'', ''requires_action'', ''cancelling'', ''cancelled'', ''failed'', ''completed'', ''expired'']"
  by (cases st) simp_all

lemma run_conforms: "typed_run r \<Longrightarrow> conforms OpenAIRun (JObj (convert_run r))"
  using status_listed [of "run_state r"]
  by (simp add: convert_run_def OpenAIRun_def dict_get_def typed_run_def typed_tools_def list.pred_map o_def
      opt_typed_conforms del: conforms.simps(9,11))

text \<open>
  A request may have a tool without a type: the class of file search tools does not require it. What
  is stored and answered for it is no tool of the reply schema.
\<close>

lemma untyped_tool_accepted:
  "conforms AssistantToolRequest (JObj [])" "\<not> conforms OpenAIAssistantTool (JObj [])"
  by (simp_all add: reply_types dict_get_def)

section \<open>The event data of \<open>types.py\<close>\<close>

definition ContentBlockDict :: reply_type where [reply_types]:
  "ContentBlockDict = TyTyped
     [required ''type'' (TyLiteral [''text'', ''thinking'', ''tool_use'', ''tool_result'']),
      not_required ''text'' (or_null TyStr), not_required ''thinking'' (or_null TyStr),
      not_required ''id'' (or_null TyStr), not_required ''name'' (or_null TyStr),
      not_required ''input'' (or_null (TyDict TyAny)), not_required ''tool_use_id'' (or_null TyStr),
      not_required ''content'' (TyUnion [TyStr, TyList TyAny, TyNone]), not_required ''is_error'' (or_null TyBool)]"

definition UsageDict :: reply_type where [reply_types]:
  "UsageDict = TyTyped
     [not_required ''input_tokens'' TyInt, not_required ''output_tokens'' TyInt,
      not_required ''cache_read_input_tokens'' TyInt, not_required ''cache_creation_input_tokens'' TyInt]"

definition McpServerStatusDict :: reply_type where [reply_types]:
  "McpServerStatusDict = TyTyped
     [required ''name'' TyStr, required ''status'' (TyLiteral [''connected'', ''failed'']),
      not_required ''error'' (or_null TyStr)]"

definition InitEventDataDict :: reply_type where [reply_types]:
  "InitEventDataDict = TyTyped
     [required ''session_id'' TyStr, required ''model'' TyStr, required ''tools'' (TyList TyStr),
      required ''mcp_servers'' (TyList McpServerStatusDict), required ''plugins'' (TyList TyStr),
      required ''commands'' (TyList TyStr)]"

definition MessageEventDataDict :: reply_type where [reply_types]:
  "MessageEventDataDict = TyTyped
     [required ''type'' (TyLiteral [''user'', ''assistant'', ''system'', ''result'']),
      required ''content'' (TyList ContentBlockDict), not_required ''model'' (or_null TyStr),
      not_required ''uuid'' (or_null TyStr), not_required ''usage'' (or_null UsageDict),
      not_required ''parent_tool_use_id'' (or_null TyStr)]"

definition ResultEventDataDict :: reply_type where [reply_types]:
  "ResultEventDataDict = TyTyped
     [required ''session_id'' TyStr, required ''is_error'' TyBool, not_required ''duration_ms'' TyInt,
      not_required ''num_turns'' TyInt, not_required ''total_cost_usd'' (or_null TyFloat),
      not_required ''usage'' (or_null UsageDict), not_required ''model_usage'' (or_null (TyDict UsageDict)),
      not_required ''result'' (or_null TyStr), not_required ''structured_output'' (or_null (TyDict TyAny))]"

definition ErrorEventDataDict :: reply_type where [reply_types]:
  "ErrorEventDataDict = TyTyped
     [required ''code'' TyStr, required ''message'' TyStr, required ''details'' (or_null (TyDict TyAny))]"

definition DoneEventDataDict :: reply_type where [reply_types]:
  "DoneEventDataDict = TyTyped [required ''reason'' (TyLiteral [''completed'', ''interrupted'', ''error''])]"

definition HookPayloadDict :: reply_type where [reply_types]:
  "HookPayloadDict = TyTyped
     [required ''hook_event'' (TyLiteral
        [''PreToolUse'', ''PostToolUse'', ''Stop'', ''SubagentStop'', ''UserPromptSubmit'', ''PreCompact'', ''Notification'']),
      required ''session_id'' TyStr, not_required ''tool_name'' (or_null TyStr),
      not_required ''tool_input'' (or_null (TyDict TyAny)), not_required ''tool_result'' (or_null (TyDict TyAny))]"

definition HookResponseDict :: reply_type where [reply_types]:
  "HookResponseDict = TyTyped
     [required ''decision'' (TyLiteral [''allow'', ''deny'', ''ask'']), not_required ''reason'' (or_null TyStr),
      not_required ''modified_input'' (or_null (TyDict TyAny))]"

text \<open>\<open>dict[str, object]\<close> and \<open>list[object]\<close> hold whatever a dictionary or list holds.\<close>

lemma conforms_any [simp]: "conforms (TyDict TyAny) (JObj d)" "conforms (TyList TyAny) (JArr js)"
  by (auto simp: list_all_iff)

lemma conforms_any_opt [simp]:
  "conforms (or_null (TyDict TyAny)) (json_of_opt JObj x)"
  "conforms (or_null TyBool) (json_of_opt JBool b)"
  by (cases x; simp del: conforms.simps(9)) (cases b; simp)

lemma conforms_block_content [simp]:
  "conforms (TyUnion [TyStr, TyList TyAny, TyNone]) (json_of_opt block_content_json c)"
  by (cases c) (simp_all add: block_content_json_def del: conforms.simps(8) split: sum.split)

lemma block_conforms:
  "conforms ContentBlockDict (block_json b) \<longleftrightarrow> cb_type b \<in> {''text'', ''thinking'', ''tool_use'', ''tool_result''}"
  by (simp add: block_json_def ContentBlockDict_def dict_get_def del: conforms.simps(9,11))

lemma usage_conforms: "conforms UsageDict (usage_json u)"
  by (simp add: usage_json_def UsageDict_def dict_get_def)

text \<open>The data of an event, and whether they have the type that \<open>types.py\<close> gives them.\<close>

definition carries :: "pylib \<Rightarrow> reply_type \<Rightarrow> agent_event \<Rightarrow> bool" where
  "carries L t e \<longleftrightarrow> (\<exists>d. e = format_sse L (ev_event e) d \<and> conforms t (JObj d))"

lemma carries_format_sse: "conforms t (JObj d) \<Longrightarrow> carries L t (format_sse L k d)"
  by (auto simp: carries_def format_sse_def)

lemma message_event_typed:
  assumes "t \<in> {''user'', ''assistant'', ''system'', ''result''}"
    and "\<forall>b \<in> set content. cb_type b \<in> {''text'', ''thinking'', ''tool_use'', ''tool_result''}"
  shows "carries L MessageEventDataDict (message_event L t content model uuid u)"
proof -
  have "conforms (or_null UsageDict) (json_of_opt usage_json u)"
    by (cases u) (simp_all add: usage_conforms)
  with assms show ?thesis
    unfolding message_event_def
    by (intro carries_format_sse)
      (simp add: MessageEventDataDict_def dict_get_def block_conforms list.pred_map o_def list_all_iff del: conforms.simps(9,11))
qed

lemma done_event_typed: "reason \<in> {''completed'', ''interrupted'', ''error''} \<Longrightarrow> carries L DoneEventDataDict (done_event L reason)"
  unfolding done_event_def by (intro carries_format_sse) (simp add: DoneEventDataDict_def dict_get_def)

lemma failure_event_typed: "carries L ErrorEventDataDict (failure_event L code message details)"
  unfolding failure_event_def
  by (intro carries_format_sse) (simp add: ErrorEventDataDict_def dict_get_def del: conforms.simps(9,11))

text \<open>
  The data of the first and of the last event have fields that their types in \<open>types.py\<close> do not
  have, and a command is no string.
\<close>

lemma init_event_untyped:
  "\<exists>d. init_event L i model tools plugins commands mode servers = format_sse L ''init'' d \<and>
     \<not> conforms InitEventDataDict (JObj d)"
  by (intro exI conjI, rule init_event_def) (simp add: InitEventDataDict_def)

lemma commands_untyped: "commands \<noteq> [] \<Longrightarrow>
   \<not> conforms (TyList TyStr) (JArr (map (\<lambda>(n, p). JObj [(''name'', JStr n), (''path'', JStr p)]) commands))"
  by (cases commands) auto

lemma result_data_untyped: "result_data D ctx n = Inr d \<Longrightarrow> \<not> conforms ResultEventDataDict (JObj d)"
  by (auto simp: result_data_def bind_sum_Inr ResultEventDataDict_def)

text \<open>What the stream adapter needs of a message follows from the type of its data.\<close>

lemma content_block_text:
  assumes "conforms ContentBlockDict b" shows "block_text_typed b"
proof (cases b)
  case (JObj d)
  with assms have "case dict_get d ''text'' of None \<Rightarrow> \<not> False | Some v \<Rightarrow> conforms (or_null TyStr) v"
    unfolding ContentBlockDict_def by (blast intro: conforms_item list.set_intros)
  then show ?thesis
    by (auto simp: JObj block_text_typed_def dict_get_or_def dict_get_def split: option.splits)
qed (auto simp: block_text_typed_def)

lemma message_data_typed:
  assumes "conforms MessageEventDataDict (JObj d)" shows "event_typed (k, d)"
proof -
  from assms have "case dict_get d ''content'' of None \<Rightarrow> \<not> True | Some v \<Rightarrow> conforms (TyList ContentBlockDict) v"
    unfolding MessageEventDataDict_def by (blast intro: conforms_item list.set_intros)
  then have "\<exists>js. dict_get d ''content'' = Some (JArr js) \<and> list_all (conforms ContentBlockDict) js"
    by (auto split: option.splits json.splits)
  then show ?thesis
    by (auto simp: event_typed_def event_blocks_def dict_get_or_def dict_get_def list_all_iff content_block_text)
qed

end
