(* ===== verification/OpenAIRouteProperties.thy ===== *)
theory OpenAIRouteProperties
  imports OpenAIRoutes RunProperties
begin

text \<open>
  What is created through the routes of the Assistants API is read back as it was answered, and
  what the routes do with a request that names nothing.
\<close>

text \<open>The identifier in a reply.\<close>

definition reply_id :: "json dict \<Rightarrow> string" where
  "reply_id v = (case dict_get v ''id'' of Some (JStr i) \<Rightarrow> i | _ \<Rightarrow> [])"

lemma reply_ids [simp]:
  "reply_id (convert_thread t) = th_id t"
  "reply_id (convert_message m) = msg_id m"
  "reply_id (convert_run r) = run_id r"
  by (simp_all add: reply_id_def convert_thread_def convert_message_def convert_run_def dict_get_def)

lemma key_kinds [simp]:
  "thread_cache_key i \<noteq> message_cache_key t m" "thread_cache_key i \<noteq> run_cache_key t r"
  "message_cache_key t m \<noteq> run_cache_key t' r"
  "message_cache_key t m \<noteq> thread_cache_key i" "run_cache_key t r \<noteq> thread_cache_key i"
  "run_cache_key t' r \<noteq> message_cache_key t m"
  by (simp_all add: thread_cache_key_def message_cache_key_def run_cache_key_def)

lemma or_404_Inr: "or_404 detail f m w = (Inr v, w') \<longleftrightarrow> (\<exists>x. m w = (Inr (Some x), w') \<and> v = f x)"
  by (auto simp: or_404_def and_then_Inr split: option.splits)

lemma create_session_id:
  assumes "create_session S model None p k w = (Inr s, w')"
  shows "s_id s = w_tokens w (w_draws w)"
  using assms by (auto simp: create_session_def Let_def and_then_Inr draw_token_run)

context live_cache
begin

lemma create_thread_live:
  assumes S: "ts_cache S = Some C" "ts_lib S = L" and tokens: "\<forall>n. w_tokens w n \<noteq> []"
    and md: "case md of None \<Rightarrow> True | Some d \<Rightarrow> distinct_keys d" and run: "create_thread S md None w = (Inr t, w')"
  shows "wf_thread t \<and> ent (w_cache w') (thread_cache_key (th_id t)) = Some (dump_entry L (thread_payload t))"
proof -
  from run obtain sid w1 where
    sid: "(case ts_sessions S of None \<Rightarrow> ret None
        | Some SS \<Rightarrow> and_then (create_session SS ''gpt-4'' None None None) (\<lambda>s. ret (Some (s_id s))))
        (w\<lparr>w_draws := Suc (w_draws w), w_ticks := Suc (w_ticks w)\<rparr>) = (Inr sid, w1)"
    and t: "th_session_id t = sid" "th_metadata t = (case md of None \<Rightarrow> [] | Some m \<Rightarrow> m)"
    and c: "\<exists>u. cache_thread S t w1 = (Inr u, w')"
    by (auto simp: create_thread_def Let_def and_then_Inr draw_token_run utc_now_run)
  from sid have "\<forall>i. sid = Some i \<longrightarrow> (\<exists>n. i = w_tokens w n)"
    by (auto simp: and_then_Inr split: option.splits dest!: create_session_id)
  with tokens have "sid \<noteq> Some []" by metis
  with t md have "wf_thread t"
    by (auto simp: wf_thread_def distinct_keys_def split: option.splits)
  moreover from c S obtain b where
    "c_set_json C (thread_cache_key (th_id t)) (thread_payload t) (Some (ts_ttl S)) (w_cache w1) = (Inr b, w_cache w')"
    by (auto simp: cache_thread_def and_then_Inr dest!: on_cache_Inr)
  ultimately show ?thesis using live_set_json by fastforce
qed

lemma create_message_live:
  assumes S: "ms_cache S = Some C" "ms_lib S = L" and md: "case md of None \<Rightarrow> True | Some d \<Rightarrow> distinct_keys d"
    and run: "create_message S thread_id role content md None None w = (Inr m, w')"
  shows "wf_message m \<and> msg_thread_id m = thread_id \<and>
    ent (w_cache w') = (ent (w_cache w))(message_cache_key thread_id (msg_id m) \<mapsto> dump_entry L (message_payload m))"
proof -
  let ?v = "w\<lparr>w_draws := Suc (w_draws w), w_ticks := Suc (w_ticks w)\<rparr>"
  from run have m: "msg_content m = [TextContent content []]" "msg_thread_id m = thread_id"
      "msg_metadata m = (case md of None \<Rightarrow> [] | Some d \<Rightarrow> d)" "msg_assistant_id m = None" "msg_run_id m = None"
    and c: "\<exists>u. cache_message S m ?v = (Inr u, w')"
    by (auto simp: create_message_def Let_def and_then_Inr draw_token_run utc_now_run)
  from c S m obtain b where
    "c_set_json C (message_cache_key thread_id (msg_id m)) (message_payload m) (Some (ms_ttl S)) (w_cache w) = (Inr b, w_cache w')"
    by (auto simp: cache_message_def and_then_Inr dest!: on_cache_Inr)
  moreover have "wf_message m"
    using m md by (auto simp: wf_message_def kept_message_def kept_text_def distinct_keys_def split: option.splits)
  ultimately show ?thesis using live_set_json m by fastforce
qed

lemma get_thread_live:
  assumes "ts_cache S = Some C" and "ts_lib S = L" and "wf_thread t"
    and "ent (w_cache w) (thread_cache_key (th_id t)) = Some (dump_entry L (thread_payload t))"
    and "get_thread S (th_id t) None w = (Inr found, w')"
  shows "found = Some t \<and> ent (w_cache w') = ent (w_cache w)"
  using assms thread_store.live_load [of "w_cache w" _ t]
  by (fastforce simp: get_thread_def dest!: on_cache_Inr)

lemma get_message_live:
  assumes "ms_cache S = Some C" and "ms_lib S = L" and "wf_message m"
    and "ent (w_cache w) (message_cache_key t (msg_id m)) = Some (dump_entry L (message_payload m))"
    and "get_message S t (msg_id m) w = (Inr found, w')"
  shows "found = Some m \<and> ent (w_cache w') = ent (w_cache w)"
  using assms message_store.live_load [of "w_cache w" _ m]
  by (fastforce simp: get_message_def dest!: on_cache_Inr)

lemma initial_messages_live:
  assumes S: "ms_cache (oa_messages R) = Some C" "ms_lib (oa_messages R) = L"
    and "list_all (\<lambda>q. case tq_metadata q of None \<Rightarrow> True | Some d \<Rightarrow> distinct_keys d) qs"
    and "add_initial_messages R i qs w = (Inr u, w')"
  shows "ent (w_cache w') (thread_cache_key j) = ent (w_cache w) (thread_cache_key j)"
  using assms(3,4)
proof (induction qs arbitrary: w)
  case (Cons q qs)
  then obtain w1 where one: "(if given (tq_content q)
        then and_then (create_message (oa_messages R) i (case tq_role q of None \<Rightarrow> User | Some r \<Rightarrow> r)
          (the (tq_content q)) (tq_metadata q) None None) (\<lambda>_. ret ())
        else ret ()) w = (Inr (), w1)" and rest: "add_initial_messages R i qs w1 = (Inr u, w')"
    by (auto simp: and_then_Inr)
  have "ent (w_cache w1) (thread_cache_key j) = ent (w_cache w) (thread_cache_key j)"
    using one create_message_live [OF S] Cons.prems(1)
    by (fastforce simp: and_then_Inr split: if_splits)
  with Cons.IH [OF _ rest] Cons.prems(1) show ?case by simp
qed simp

end


text \<open>Services on one cache, without sessions and repositories.\<close>

definition ref_openai :: "(server redis_world, unit) openai_routes" where
  "ref_openai =
     \<lparr>oa_threads = \<lparr>ts_lib = ref_lib, ts_sessions = None, ts_cache = Some (ref_cache 0), ts_ttl = 60\<rparr>,
      oa_messages = \<lparr>ms_lib = ref_lib, ms_cache = Some (ref_cache 0), ms_ttl = 60\<rparr>, oa_runs = ref_runs,
      oa_assistants = \<lparr>as_lib = ref_lib, as_cache = None, as_repo = None, as_ttl = 60\<rparr>\<rparr>"

definition hello_request :: create_message_request where
  "hello_request = \<lparr>cm_role = User, cm_content = ''hello'', cm_metadata = None\<rparr>"

definition plain_run_request :: create_run_request where
  "plain_run_request =
     \<lparr>cr_assistant_id = ''asst_1'', cr_model = None, cr_instructions = None, cr_tools = None, cr_metadata = None,
      cr_additional_instructions = None, cr_additional_messages = None, cr_stream = False\<rparr>"

lemma ref_openai_sel [simp]:
  "ts_cache (oa_threads ref_openai) = Some (ref_cache 0)" "ts_lib (oa_threads ref_openai) = ref_lib"
  "ms_cache (oa_messages ref_openai) = Some (ref_cache 0)" "ms_lib (oa_messages ref_openai) = ref_lib"
  "oa_runs ref_openai = ref_runs"
  by (simp_all add: ref_openai_def)

lemma ref_creates:
  "\<exists>th w'. create_thread (oa_threads ref_openai) (Some [(''k'', ''v'')]) None w = (Inr th, w')"
  "\<exists>msg w'. create_message (oa_messages ref_openai) i role content md None None w = (Inr msg, w')"
  "\<exists>r w'. create_run ref_runs i a mo None None None w = (Inr r, w')"
  by (simp_all add: create_thread_def cache_thread_def create_message_def cache_message_def create_run_def cache_run_def
      ref_openai_def ref_runs_def on_cache_def ref_set_json_ok draw_token_run utc_now_run Let_def)

lemma payload_facts:
  "thread_payload th \<noteq> []" "message_payload msg \<noteq> []" "wf_thread th \<Longrightarrow> wf_dict (thread_payload th)"
  "wf_thread th \<Longrightarrow> parse_cached_thread ref_lib (JObj (thread_payload th)) = Inr (Some th)"
  "wf_message msg \<Longrightarrow> parse_cached_message ref_lib (JObj (message_payload msg)) = Inr (Some msg)"
  by (simp_all add: parse_thread_payload parse_message_payload wf_thread_def wf_message_def)
     (simp_all add: thread_payload_def message_payload_def wf_strings_obj)

lemma ref_reads:
  "wf_thread th \<Longrightarrow> ref_ent (w_cache w) (thread_cache_key (th_id th)) = Some (dump_entry ref_lib (thread_payload th)) \<Longrightarrow>
     get_thread (oa_threads ref_openai) (th_id th) None w = (Inr (Some th), w)"
  "wf_message msg \<Longrightarrow> ref_ent (w_cache w) (message_cache_key i (msg_id msg)) = Some (dump_entry ref_lib (message_payload msg)) \<Longrightarrow>
     get_message (oa_messages ref_openai) i (msg_id msg) w = (Inr (Some msg), w)"
  by (simp_all add: get_thread_def get_message_def on_cache_def payload_facts wf_message_payload ref_load_ok)

lemma ref_cancels:
  assumes "run_at ref_lib (ref_ent (w_cache w)) r" and "run_state r = Queued"
  shows "\<exists>x w'. cancel_run ref_runs (run_thread_id r) (run_id r) w = (Inr (Some x), w')"
  using assms ref_load_run [OF assms(1)]
  by (auto simp: cancel_run_def transition_def utc_now_run ref_set_run and_then_def)


end
