(* ===== verification/ReplyProperties.thy ===== *)
theory ReplyProperties
  imports ReplySchemas OpenAIRouteProperties OpenAIProperties
begin

text \<open>
  What the handlers of the OpenAI interface build and \<open>cast\<close> has the type it is cast to: the chunks of
  a stream, and the replies about a run through its whole life.
\<close>

section \<open>Chunks\<close>

text \<open>
  C40: Where the text blocks in the events of a query hold texts, everything a stream sends
  before its end marker is a value of the type OpenAIStreamChunk, whatever else the events
  contain.
\<close>

theorem chunks_typed:
  assumes "list_all event_typed events" and "adapt_stream L A events w = (Inr chunks, w')"
  shows "\<exists>cs. chunks = cs @ [JStr done_marker] \<and> list_all (conforms OpenAIStreamChunk) cs"
proof -
  from assms(2) obtain now w1 cs where
      run: "adapt_events L A (unix_seconds now) (sa_first_chunk A) False events w1 = (Inr cs, w')"
    and chunks: "chunks = cs @ [JStr done_marker]"
    by (auto simp only: adapt_stream_def and_then_Inr ret_def prod.inject sum.inject)
  from chunks adapt_events_conform [OF run assms(1)] show ?thesis by auto
qed

definition said_and_called :: "json dict" where
  "said_and_called =
     [(''type'', JStr ''assistant''),
      (''content'', JArr
        [JObj [(''type'', JStr ''text''), (''text'', JStr ''Hello'')],
         JObj [(''type'', JStr ''tool_use''), (''id'', JStr ''t1''), (''name'', JStr ''Read''), (''input'', JObj [])]])]"

lemma said_and_called_typed: "conforms MessageEventDataDict (JObj said_and_called)"
  by (simp add: said_and_called_def MessageEventDataDict_def ContentBlockDict_def dict_get_def)

definition ref_adapter :: streaming_adapter where
  "ref_adapter = \<lparr>sa_original_model = ''gpt-4'', sa_mapped_model = None, sa_completion_id = ''chatcmpl-1'', sa_first_chunk = True\<rparr>"

theorem chunks_typed_witness:
  "\<exists>chunks w' cs. adapt_stream ref_lib ref_adapter [(''message'', said_and_called), (''result'', [])] (ref_world ()) = (Inr chunks, w') \<and>
     chunks = cs @ [JStr done_marker] \<and> length cs = 4 \<and> list_all (conforms OpenAIStreamChunk) cs"
proof -
  obtain chunks w' where run: "adapt_stream ref_lib ref_adapter [(''message'', said_and_called), (''result'', [])] (ref_world ()) =
      (Inr chunks, w')" and n: "length chunks = 5"
    by (simp add: adapt_stream_def and_then_def ret_def utc_now_def draw_token_def said_and_called_def event_blocks_def
        dict_get_or_def block_type_def Let_def ref_adapter_def)
  have "list_all event_typed [(''message'', said_and_called), (''result'', [])]"
    using message_data_typed [OF said_and_called_typed] by (simp add: event_typed_def)
  from chunks_typed [OF this run] n show ?thesis
    using run by auto
qed

section \<open>Runs\<close>

text \<open>A stored run stays typed whatever is done to it.\<close>

lemma runs_stay_typed:
  assumes "live_cache L C ent ages matches" and "rs_cache S = Some C" and "rs_lib S = L"
    and "run_at L (ent (w_cache w)) r" and "typed_run r" and "\<forall>op \<in> set ops. op_wf op \<and> op_typed op"
    and "perform_all S (run_thread_id r) (run_id r) ops w = (Inr (), w')"
  shows "\<exists>r'. run_at L (ent (w_cache w')) r' \<and> typed_run r' \<and> same_run r r'"
  using assms(4-7)
proof (induction ops arbitrary: w r)
  case Nil
  then show ?case by (auto simp: same_run_def)
next
  case (Cons op ops)
  from Cons.prems(4) obtain found w1 where step: "perform S (run_thread_id r) (run_id r) op w = (Inr found, w1)"
    and rest: "perform_all S (run_thread_id r) (run_id r) ops w1 = (Inr (), w')"
    by (auto simp: and_then_Inr simp del: perform.simps)
  have op: "op_wf op" "op_typed op" and ops: "\<forall>op \<in> set ops. op_wf op \<and> op_typed op"
    using Cons.prems(3) by auto
  obtain r1 where at: "run_at L (ent (w_cache w1)) r1" and same: "same_run r r1" and typed: "typed_run r1"
  proof (cases "op_allowed op (run_state r)")
    case True
    with live_cache.perform_live [OF assms(1-3) Cons.prems(1) op(1) step] obtain now where
      "run_at L (ent (w_cache w1)) (op_change op now r)" by auto
    with that show ?thesis
      using op_change_same op_change_typed [OF Cons.prems(2) op(2)] by blast
  next
    case False
    with live_cache.perform_live [OF assms(1-3) Cons.prems(1) op(1) step] Cons.prems(1,2) that show ?thesis
      by (simp add: same_run_def)
  qed
  from same rest have "perform_all S (run_thread_id r1) (run_id r1) ops w1 = (Inr (), w')"
    by (simp add: same_run_def)
  from Cons.IH [OF at typed ops this] same same_run_trans show ?case
    by blast
qed


lemma ref_new_run_typed: "typed_run ref_new_run"
  by (simp add: typed_run_def ref_new_run_def typed_tools_def opt_typed_def)


end
