(* ===== verification/DatabaseSchema.thy ===== *)
theory DatabaseSchema
  imports PyJson
begin

text \<open>
  The database as the migrations see it: tables with their columns, keys and rows, and indexes.

  PostgreSQL and Alembic's operations are parameters of the migrations. What is relied on of them
  is their documented effect on tables, indexes and rows: \<open>apply_ddl\<close> writes it down, \<open>None\<close>
  where the statement is refused, and \<open>ddl_database\<close> says that a database follows it. A session of
  the database has a time zone of a fixed offset to UTC.
\<close>

section \<open>Tables\<close>

datatype column_type =
    UuidType
  | Timestamp bool \<comment> \<open>with a time zone\<close>
  | VarChar nat
  | TextType
  | IntegerType
  | NumericType nat nat
  | FloatType
  | BooleanType
  | JsonbType
  | StringArray

record table_column =
  col_name :: string
  col_type :: column_type
  col_nullable :: bool
  col_default :: "string option" \<comment> \<open>the server's default, as SQL\<close>

datatype table_key =
    PrimaryKey "string list"
  | ForeignKey string "string list" string "string list" bool \<comment> \<open>\<open>ON DELETE CASCADE\<close>\<close>
  | UniqueKey "string list" string

text \<open>A time with a zone is the microseconds since the epoch, one without those of its wall clock.\<close>

datatype table_cell =
    NullCell
  | TextCell string
  | NaiveTime int
  | AwareTime int
  | JsonCell json

type_synonym table_row = "(string \<times> table_cell) list"

record db_table =
  tab_columns :: "table_column list"
  tab_keys :: "table_key list"
  tab_rows :: "table_row list"

record table_index =
  ix_table :: string
  ix_columns :: "(string \<times> bool) list" \<comment> \<open>and whether descending\<close>
  ix_where :: "string option" \<comment> \<open>the column of \<open>WHERE c IS NOT NULL\<close>\<close>

record db_schema =
  sch_tables :: "(string \<times> db_table) list"
  sch_indexes :: "(string \<times> table_index) list"

definition empty_schema :: db_schema where
  "empty_schema = \<lparr>sch_tables = [], sch_indexes = []\<rparr>"

definition has_table :: "db_schema \<Rightarrow> string \<Rightarrow> bool" where
  "has_table v t \<longleftrightarrow> t \<in> set (map fst (sch_tables v))"

definition has_index :: "db_schema \<Rightarrow> string \<Rightarrow> bool" where
  "has_index v i \<longleftrightarrow> i \<in> set (map fst (sch_indexes v))"

definition column_names :: "db_table \<Rightarrow> string list" where
  "column_names T = map col_name (tab_columns T)"

fun key_columns :: "table_key \<Rightarrow> string list" where
  "key_columns (PrimaryKey cs) = cs"
| "key_columns (ForeignKey n cs t rs casc) = cs"
| "key_columns (UniqueKey cs n) = cs"

fun referenced :: "table_key \<Rightarrow> string list" where
  "referenced (ForeignKey n cs t rs casc) = [t]"
| "referenced _ = []"

definition index_columns :: "table_index \<Rightarrow> string list" where
  "index_columns i = map fst (ix_columns i) @ (case ix_where i of None \<Rightarrow> [] | Some c \<Rightarrow> [c])"

section \<open>Statements\<close>

datatype ddl =
    CreateTable string "table_column list" "table_key list"
  | DropTable string
  | AddColumn string string column_type \<comment> \<open>nullable and without a default\<close>
  | DropColumn string string
  | CreateIndex string string "(string \<times> bool) list" "string option"
  | DropIndex string string
  | RenameColumn string string string
  | CreateExtension string \<comment> \<open>\<open>CREATE EXTENSION IF NOT EXISTS\<close>\<close>
  | SetTimeout string \<comment> \<open>\<open>SET LOCAL statement_timeout\<close>\<close>
  | HashColumn string string string
      \<comment> \<open>\<open>UPDATE t SET h = encode(digest(c, 'sha256'), 'hex') WHERE c IS NOT NULL\<close>\<close>
  | AlterZone string string bool
      \<comment> \<open>\<open>ALTER TABLE t ALTER COLUMN c TYPE TIMESTAMP WITH/WITHOUT TIME ZONE USING c AT TIME ZONE 'UTC'\<close>\<close>

record sql_session =
  sql_digest :: "string \<Rightarrow> string" \<comment> \<open>\<open>encode(digest(s, 'sha256'), 'hex')\<close>\<close>
  sql_offset :: int \<comment> \<open>the session's time zone, in microseconds east of UTC\<close>

fun fits :: "column_type \<Rightarrow> string \<Rightarrow> bool" where
  "fits (VarChar n) s \<longleftrightarrow> length s \<le> n"
| "fits TextType s \<longleftrightarrow> True"
| "fits _ s \<longleftrightarrow> False"

definition on_table :: "string \<Rightarrow> (db_table \<Rightarrow> db_table option) \<Rightarrow> db_schema \<Rightarrow> db_schema option" where
  "on_table t f v =
     (case map_of (sch_tables v) t of
        None \<Rightarrow> None
      | Some T \<Rightarrow>
          (case f T of
             None \<Rightarrow> None
           | Some T' \<Rightarrow> Some (v\<lparr>sch_tables := map (\<lambda>(n, U). (n, if n = t then T' else U)) (sch_tables v)\<rparr>)))"

definition column_of :: "db_table \<Rightarrow> string \<Rightarrow> table_column option" where
  "column_of T c = find (\<lambda>k. col_name k = c) (tab_columns T)"

definition key_ok :: "db_schema \<Rightarrow> string \<Rightarrow> table_column list \<Rightarrow> table_key list \<Rightarrow> table_key \<Rightarrow> bool" where
  "key_ok v t cs ks k \<longleftrightarrow> set (key_columns k) \<subseteq> set (map col_name cs) \<and>
     (case k of
        ForeignKey n fs u rs casc \<Rightarrow>
          list_ex (\<lambda>k'. case k' of PrimaryKey ps \<Rightarrow> ps = rs | UniqueKey us n \<Rightarrow> us = rs | _ \<Rightarrow> False)
            (if u = t then ks else case map_of (sch_tables v) u of Some U \<Rightarrow> tab_keys U | None \<Rightarrow> [])
      | _ \<Rightarrow> True)"

definition hashed_row :: "sql_session \<Rightarrow> string \<Rightarrow> string \<Rightarrow> table_row \<Rightarrow> table_row" where
  "hashed_row S h c r =
     (case map_of r c of
        Some (TextCell s) \<Rightarrow> map (\<lambda>(n, x). (n, if n = h then TextCell (sql_digest S s) else x)) r
      | _ \<Rightarrow> r)"

definition hashable :: "sql_session \<Rightarrow> string \<Rightarrow> string \<Rightarrow> db_table \<Rightarrow> bool" where
  "hashable S h c T \<longleftrightarrow>
     (case (column_of T h, column_of T c) of
        (Some hk, Some ck) \<Rightarrow>
          fits (col_type ck) [] \<and>
          list_all (\<lambda>r. case map_of r c of Some (TextCell s) \<Rightarrow> fits (col_type hk) (sql_digest S s) | _ \<Rightarrow> True) (tab_rows T)
      | _ \<Rightarrow> False)"

text \<open>\<open>USING c AT TIME ZONE 'UTC'\<close>, and the session's zone where the type did not change.\<close>

fun in_zone :: "sql_session \<Rightarrow> bool \<Rightarrow> table_cell \<Rightarrow> table_cell" where
  "in_zone S True (NaiveTime t) = AwareTime t"
| "in_zone S True (AwareTime t) = AwareTime (t - sql_offset S)"
| "in_zone S False (AwareTime t) = NaiveTime t"
| "in_zone S False (NaiveTime t) = NaiveTime (t + sql_offset S)"
| "in_zone S w x = x"

definition has_time :: "db_table \<Rightarrow> string \<Rightarrow> bool" where
  "has_time T c \<longleftrightarrow>
     (case column_of T c of
        Some k \<Rightarrow> (case col_type k of Timestamp z \<Rightarrow> True | _ \<Rightarrow> False)
      | None \<Rightarrow> False)"

definition zoned :: "sql_session \<Rightarrow> bool \<Rightarrow> string \<Rightarrow> db_table \<Rightarrow> db_table" where
  "zoned S w c T =
     T\<lparr>tab_columns := map (\<lambda>k. if col_name k = c then k\<lparr>col_type := Timestamp w\<rparr> else k) (tab_columns T),
       tab_rows := map (map (\<lambda>(n, x). (n, if n = c then in_zone S w x else x))) (tab_rows T)\<rparr>"

fun rename_key :: "string \<Rightarrow> string \<Rightarrow> table_key \<Rightarrow> table_key" where
  "rename_key a b (PrimaryKey cs) = PrimaryKey (map (\<lambda>c. if c = a then b else c) cs)"
| "rename_key a b (ForeignKey n cs t rs casc) = ForeignKey n (map (\<lambda>c. if c = a then b else c) cs) t rs casc"
| "rename_key a b (UniqueKey cs n) = UniqueKey (map (\<lambda>c. if c = a then b else c) cs) n"

fun rename_reference :: "string \<Rightarrow> string \<Rightarrow> string \<Rightarrow> table_key \<Rightarrow> table_key" where
  "rename_reference t a b (ForeignKey n cs u rs casc) =
     ForeignKey n cs u (if u = t then map (\<lambda>c. if c = a then b else c) rs else rs) casc"
| "rename_reference t a b k = k"

definition rename_in_table :: "string \<Rightarrow> string \<Rightarrow> db_table \<Rightarrow> db_table" where
  "rename_in_table a b T =
     \<lparr>tab_columns = map (\<lambda>k. if col_name k = a then k\<lparr>col_name := b\<rparr> else k) (tab_columns T),
      tab_keys = map (rename_key a b) (tab_keys T),
      tab_rows = map (map (\<lambda>(n, x). (if n = a then b else n, x))) (tab_rows T)\<rparr>"

definition rename_in_index :: "string \<Rightarrow> string \<Rightarrow> table_index \<Rightarrow> table_index" where
  "rename_in_index a b i =
     i\<lparr>ix_columns := map (\<lambda>(c, d). (if c = a then b else c, d)) (ix_columns i),
       ix_where := map_option (\<lambda>c. if c = a then b else c) (ix_where i)\<rparr>"

definition with_column :: "string \<Rightarrow> column_type \<Rightarrow> db_table \<Rightarrow> db_table" where
  "with_column c ty T =
     T\<lparr>tab_columns := tab_columns T @ [\<lparr>col_name = c, col_type = ty, col_nullable = True, col_default = None\<rparr>],
       tab_rows := map (\<lambda>r. r @ [(c, NullCell)]) (tab_rows T)\<rparr>"

fun refers :: "string \<Rightarrow> string \<Rightarrow> table_key \<Rightarrow> bool" where
  "refers t c (ForeignKey n cs u rs casc) \<longleftrightarrow> u = t \<and> c \<in> set rs"
| "refers t c _ \<longleftrightarrow> False"

definition drop_from_table :: "string \<Rightarrow> db_table \<Rightarrow> db_table" where
  "drop_from_table c T =
     \<lparr>tab_columns = filter (\<lambda>k. col_name k \<noteq> c) (tab_columns T),
      tab_keys = filter (\<lambda>k. c \<notin> set (key_columns k)) (tab_keys T),
      tab_rows = map (filter (\<lambda>(n, x). n \<noteq> c)) (tab_rows T)\<rparr>"

text \<open>\<open>now()\<close> and the other defaults play no part: no script inserts a row.\<close>

fun apply_ddl :: "sql_session \<Rightarrow> ddl \<Rightarrow> db_schema \<Rightarrow> db_schema option" where
  "apply_ddl S (CreateTable t cs ks) v =
     (if has_table v t \<or> has_index v t \<or> \<not> distinct (map col_name cs) \<or> \<not> list_all (key_ok v t cs ks) ks then None
      else Some (v\<lparr>sch_tables := sch_tables v @ [(t, \<lparr>tab_columns = cs, tab_keys = ks, tab_rows = []\<rparr>)]\<rparr>))"
| "apply_ddl S (DropTable t) v =
     (if \<not> has_table v t \<or>
         list_ex (\<lambda>(n, T). n \<noteq> t \<and> list_ex (\<lambda>k. t \<in> set (referenced k)) (tab_keys T)) (sch_tables v) then None
      else Some \<lparr>sch_tables = filter (\<lambda>(n, T). n \<noteq> t) (sch_tables v),
                 sch_indexes = filter (\<lambda>(n, i). ix_table i \<noteq> t) (sch_indexes v)\<rparr>)"
| "apply_ddl S (AddColumn t c ty) v =
     on_table t (\<lambda>T. if c \<in> set (column_names T) then None else Some (with_column c ty T)) v"
| "apply_ddl S (DropColumn t c) v =
     (if list_ex (\<lambda>(n, T). list_ex (refers t c) (tab_keys T)) (sch_tables v) then None
      else map_option (\<lambda>v'. v'\<lparr>sch_indexes := filter (\<lambda>(n, i). ix_table i = t \<longrightarrow> c \<notin> set (index_columns i)) (sch_indexes v)\<rparr>)
        (on_table t (\<lambda>T. if c \<notin> set (column_names T) then None
          else Some (drop_from_table c T)) v))"
| "apply_ddl S (CreateIndex i t cs w) v =
     (case map_of (sch_tables v) t of
        None \<Rightarrow> None
      | Some T \<Rightarrow>
          let ix = \<lparr>ix_table = t, ix_columns = cs, ix_where = w\<rparr> in
          if has_index v i \<or> has_table v i \<or> \<not> set (index_columns ix) \<subseteq> set (column_names T) then None
          else Some (v\<lparr>sch_indexes := sch_indexes v @ [(i, ix)]\<rparr>))"
| "apply_ddl S (DropIndex i t) v =
     (if \<not> has_index v i then None
      else Some (v\<lparr>sch_indexes := filter (\<lambda>(n, ix). n \<noteq> i) (sch_indexes v)\<rparr>))"
| "apply_ddl S (RenameColumn t a b) v =
     (case map_of (sch_tables v) t of
        None \<Rightarrow> None
      | Some T \<Rightarrow>
          if a \<notin> set (column_names T) \<or> b \<in> set (column_names T) then None
          else Some \<lparr>sch_tables = map (\<lambda>(n, U). let U' = (if n = t then rename_in_table a b U else U) in
                         (n, U'\<lparr>tab_keys := map (rename_reference t a b) (tab_keys U')\<rparr>)) (sch_tables v),
                     sch_indexes = map (\<lambda>(n, i). (n, if ix_table i = t then rename_in_index a b i else i)) (sch_indexes v)\<rparr>)"
| "apply_ddl S (CreateExtension e) v = Some v"
| "apply_ddl S (SetTimeout s) v = Some v"
| "apply_ddl S (HashColumn t h c) v =
     on_table t (\<lambda>T. if hashable S h c T then Some (T\<lparr>tab_rows := map (hashed_row S h c) (tab_rows T)\<rparr>) else None) v"
| "apply_ddl S (AlterZone t c w) v =
     on_table t (\<lambda>T. if has_time T c then Some (zoned S w c T) else None) v"

fun apply_all :: "sql_session \<Rightarrow> ddl list \<Rightarrow> db_schema \<Rightarrow> db_schema option" where
  "apply_all S [] v = Some v"
| "apply_all S (o' # os) v = (case apply_ddl S o' v of None \<Rightarrow> None | Some v' \<Rightarrow> apply_all S os v')"

lemma apply_all_append: "apply_all S (xs @ ys) v = (case apply_all S xs v of None \<Rightarrow> None | Some v' \<Rightarrow> apply_all S ys v')"
  by (induction xs arbitrary: v) (auto split: option.split)

section \<open>Consistent databases\<close>

fun cell_ok :: "column_type \<Rightarrow> table_cell \<Rightarrow> bool" where
  "cell_ok ty NullCell \<longleftrightarrow> True"
| "cell_ok ty (NaiveTime t) \<longleftrightarrow> ty = Timestamp False"
| "cell_ok ty (AwareTime t) \<longleftrightarrow> ty = Timestamp True"
| "cell_ok ty (TextCell s) \<longleftrightarrow> (\<forall>z. ty \<noteq> Timestamp z)"
| "cell_ok ty (JsonCell j) \<longleftrightarrow> (\<forall>z. ty \<noteq> Timestamp z)"

definition row_ok :: "table_column list \<Rightarrow> table_row \<Rightarrow> bool" where
  "row_ok ks r \<longleftrightarrow> list_all2 (\<lambda>k (n, x). n = col_name k \<and> cell_ok (col_type k) x) ks r"

definition table_ok :: "string list \<Rightarrow> db_table \<Rightarrow> bool" where
  "table_ok names T \<longleftrightarrow> distinct (column_names T) \<and> list_all (row_ok (tab_columns T)) (tab_rows T) \<and>
     list_all (\<lambda>k. set (key_columns k) \<subseteq> set (column_names T) \<and> set (referenced k) \<subseteq> set names) (tab_keys T)"

definition index_ok :: "(string \<times> db_table) list \<Rightarrow> table_index \<Rightarrow> bool" where
  "index_ok ts i \<longleftrightarrow>
     (case map_of ts (ix_table i) of
        None \<Rightarrow> False
      | Some T \<Rightarrow> set (index_columns i) \<subseteq> set (column_names T))"

definition schema_ok :: "db_schema \<Rightarrow> bool" where
  "schema_ok v \<longleftrightarrow> distinct (map fst (sch_tables v)) \<and> distinct (map fst (sch_indexes v)) \<and>
     list_all (\<lambda>(n, T). table_ok (map fst (sch_tables v)) T) (sch_tables v) \<and>
     list_all (\<lambda>(n, i). index_ok (sch_tables v) i) (sch_indexes v)"

lemma row_ok_names: "row_ok ks r \<Longrightarrow> map fst r = map col_name ks"
  unfolding row_ok_def by (induction rule: list_all2_induct) auto

lemma row_ok_filter:
  "row_ok ks r \<Longrightarrow> row_ok (filter (\<lambda>k. col_name k \<noteq> c) ks) (filter (\<lambda>(n, x). n \<noteq> c) r)"
  unfolding row_ok_def by (induction rule: list_all2_induct) auto

lemma row_ok_map:
  assumes "row_ok ks r" and "\<And>k n x. n = col_name k \<Longrightarrow> cell_ok (col_type k) x \<Longrightarrow> k \<in> set ks \<Longrightarrow>
      fst (g (n, x)) = col_name (f k) \<and> cell_ok (col_type (f k)) (snd (g (n, x)))"
  shows "row_ok (map f ks) (map g r)"
  using assms unfolding row_ok_def
  by (induction rule: list_all2_induct) (fastforce split: prod.splits)+

text \<open>An update of one table.\<close>

lemma on_table_Some:
  "on_table t f v = Some v' \<longleftrightarrow>
     (\<exists>T T'. map_of (sch_tables v) t = Some T \<and> f T = Some T' \<and>
       v' = v\<lparr>sch_tables := map (\<lambda>(n, U). (n, if n = t then T' else U)) (sch_tables v)\<rparr>)"
  by (auto simp: on_table_def split: option.splits)

lemma map_tables_names:
  "map fst (map (\<lambda>(n, U). (n, g n U)) ts) = map fst ts"
  "map (fst \<circ> (\<lambda>(n, U). (n, g n U))) ts = map fst ts"
  by (induction ts) auto

lemma map_of_map_tables: "map_of (map (\<lambda>(n, U). (n, g n U)) ts) t = map_option (g t) (map_of ts t)"
  by (induction ts) auto

lemma schema_ok_table: "schema_ok v \<Longrightarrow> map_of (sch_tables v) t = Some T \<Longrightarrow> table_ok (map fst (sch_tables v)) T"
  by (auto simp: schema_ok_def list_all_iff dest: map_of_SomeD)

lemma schema_ok_map:
  assumes "schema_ok v" and "\<And>n U. (n, U) \<in> set (sch_tables v) \<Longrightarrow> table_ok (map fst (sch_tables v)) U \<Longrightarrow>
      table_ok (map fst (sch_tables v)) (g n U)"
    and "distinct (map fst is)"
    and "\<And>m i. (m, i) \<in> set is \<Longrightarrow> \<exists>T. map_of (sch_tables v) (ix_table i) = Some T \<and>
      set (index_columns i) \<subseteq> set (column_names (g (ix_table i) T))"
  shows "schema_ok \<lparr>sch_tables = map (\<lambda>(n, U). (n, g n U)) (sch_tables v), sch_indexes = is\<rparr>"
proof -
  from assms(1) have "distinct (map fst (sch_tables v))"
    and ok: "\<And>n U. (n, U) \<in> set (sch_tables v) \<Longrightarrow> table_ok (map fst (sch_tables v)) U"
    by (auto simp: schema_ok_def list_all_iff)
  moreover have "list_all (\<lambda>(n, T). table_ok (map fst (sch_tables v)) T) (map (\<lambda>(n, U). (n, g n U)) (sch_tables v))"
    using assms(2) ok by (auto simp: list_all_iff)
  moreover have "list_all (\<lambda>(n, i). index_ok (map (\<lambda>(n, U). (n, g n U)) (sch_tables v)) i) is"
    using assms(4) by (fastforce simp: list_all_iff index_ok_def map_of_map_tables)
  ultimately show ?thesis
    using assms(3) by (simp add: schema_ok_def map_tables_names)
qed

lemma schema_ok_index: "schema_ok v \<Longrightarrow> (m, i) \<in> set (sch_indexes v) \<Longrightarrow>
    \<exists>T. map_of (sch_tables v) (ix_table i) = Some T \<and> set (index_columns i) \<subseteq> set (column_names T)"
  by (fastforce simp: schema_ok_def list_all_iff index_ok_def split: option.splits)

lemma schema_ok_indexes: "schema_ok v \<Longrightarrow> distinct (map fst (sch_indexes v))"
  by (simp add: schema_ok_def)

lemma distinct_fst_filter: "distinct (map fst xs) \<Longrightarrow> distinct (map fst (filter P xs))"
  by (induction xs) auto

lemma on_table_ok:
  assumes "schema_ok v" and "on_table t f v = Some v'"
    and "\<And>T T'. map_of (sch_tables v) t = Some T \<Longrightarrow> table_ok (map fst (sch_tables v)) T \<Longrightarrow> f T = Some T' \<Longrightarrow>
      table_ok (map fst (sch_tables v)) T' \<and> set (column_names T) \<subseteq> set (column_names T')"
  shows "schema_ok v'"
proof -
  from assms(2) obtain T T' where T: "map_of (sch_tables v) t = Some T" and "f T = Some T'"
    and v': "v' = v\<lparr>sch_tables := map (\<lambda>(n, U). (n, if n = t then T' else U)) (sch_tables v)\<rparr>"
    by (auto simp: on_table_Some)
  with assms(3) schema_ok_table [OF assms(1) T] have ok: "table_ok (map fst (sch_tables v)) T'"
    and cols: "set (column_names T) \<subseteq> set (column_names T')" by auto
  have "schema_ok \<lparr>sch_tables = map (\<lambda>(n, U). (n, if n = t then T' else U)) (sch_tables v), sch_indexes = sch_indexes v\<rparr>"
  proof (rule schema_ok_map [OF assms(1)])
    fix m i assume "(m, i) \<in> set (sch_indexes v)"
    from schema_ok_index [OF assms(1) this] T cols
    show "\<exists>U. map_of (sch_tables v) (ix_table i) = Some U \<and>
        set (index_columns i) \<subseteq> set (column_names (if ix_table i = t then T' else U))" by fastforce
  qed (use ok schema_ok_indexes [OF assms(1)] in auto)
  with v' show ?thesis by (cases v) simp
qed

lemma table_ok_map:
  assumes "table_ok names T" and "\<And>k. k \<in> set (tab_columns T) \<Longrightarrow> col_name (f k) = col_name k"
    and "\<And>k x. k \<in> set (tab_columns T) \<Longrightarrow> cell_ok (col_type k) x \<Longrightarrow> cell_ok (col_type (f k)) (g (col_name k) x)"
  shows "table_ok names (T\<lparr>tab_columns := map f (tab_columns T),
      tab_rows := map (map (\<lambda>(n, x). (n, g n x))) (tab_rows T)\<rparr>)"
proof -
  have "column_names (T\<lparr>tab_columns := map f (tab_columns T),
      tab_rows := map (map (\<lambda>(n, x). (n, g n x))) (tab_rows T)\<rparr>) = column_names T"
    using assms(2) by (simp add: column_names_def)
  moreover have "row_ok (map f (tab_columns T)) (map (\<lambda>(n, x). (n, g n x)) r)" if "row_ok (tab_columns T) r" for r
    by (rule row_ok_map [OF that]) (use assms(2,3) in auto)
  ultimately show ?thesis
    using assms(1) by (simp add: table_ok_def list_all_iff)
qed

lemma row_ok_append: "row_ok ks r \<Longrightarrow> cell_ok (col_type k) x \<Longrightarrow> row_ok (ks @ [k]) (r @ [(col_name k, x)])"
  by (simp add: row_ok_def list_all2_appendI)

lemma hashed_row_map:
  "hashed_row S h c r = map (\<lambda>(n, x). (n, if n = h \<and> (\<exists>s. map_of r c = Some (TextCell s))
     then TextCell (sql_digest S (case map_of r c of Some (TextCell s) \<Rightarrow> s | _ \<Rightarrow> [])) else x)) r"
  by (auto simp: hashed_row_def map_idI split: option.split table_cell.split)

lemma fits_type: "fits ty s \<Longrightarrow> ty \<noteq> Timestamp z"
  by (cases ty) simp_all

lemma column_of_Some: "column_of T c = Some k \<Longrightarrow> k \<in> set (tab_columns T) \<and> col_name k = c"
  by (auto simp: column_of_def find_Some_iff)

lemma column_of_unique:
  "distinct (column_names T) \<Longrightarrow> column_of T c = Some k \<Longrightarrow> k' \<in> set (tab_columns T) \<Longrightarrow> col_name k' = c \<Longrightarrow> k' = k"
  using column_of_Some [of T c k] by (auto simp: column_names_def distinct_map inj_on_def)

lemma hash_table_ok:
  assumes "table_ok names T" and "column_of T h = Some hk"
    and "list_all (\<lambda>r. case map_of r c of Some (TextCell s) \<Rightarrow> fits (col_type hk) (sql_digest S s) | _ \<Rightarrow> True) (tab_rows T)"
  shows "table_ok names (T\<lparr>tab_rows := map (hashed_row S h c) (tab_rows T)\<rparr>)"
proof -
  have "row_ok (tab_columns T) (hashed_row S h c r)" if "r \<in> set (tab_rows T)" for r
  proof -
    from assms(1) that have r: "row_ok (tab_columns T) r" by (simp add: table_ok_def list_all_iff)
    have "row_ok (map (\<lambda>k. k) (tab_columns T)) (hashed_row S h c r)"
      unfolding hashed_row_map
    proof (rule row_ok_map [OF r])
      fix k n x assume "n = col_name k" and "cell_ok (col_type k) x" and "k \<in> set (tab_columns T)"
      moreover have "col_type k \<noteq> Timestamp z" if "n = h" and "map_of r c = Some (TextCell s)" for s z
        using assms that \<open>r \<in> set (tab_rows T)\<close> \<open>n = col_name k\<close> \<open>k \<in> set (tab_columns T)\<close>
          column_of_unique [of T h hk k] fits_type
        by (fastforce simp: table_ok_def list_all_iff)
      ultimately show "fst (case (n, x) of (n, x) \<Rightarrow> (n, if n = h \<and> (\<exists>s. map_of r c = Some (TextCell s))
          then TextCell (sql_digest S (case map_of r c of Some (TextCell s) \<Rightarrow> s | _ \<Rightarrow> [])) else x)) = col_name k \<and>
        cell_ok (col_type k) (snd (case (n, x) of (n, x) \<Rightarrow> (n, if n = h \<and> (\<exists>s. map_of r c = Some (TextCell s))
          then TextCell (sql_digest S (case map_of r c of Some (TextCell s) \<Rightarrow> s | _ \<Rightarrow> [])) else x)))"
        by auto
    qed
    then show ?thesis by simp
  qed
  with assms(1) show ?thesis by (simp add: table_ok_def list_all_iff column_names_def)
qed

text \<open>Each statement keeps a database consistent.\<close>

lemma table_ok_more: "table_ok names T \<Longrightarrow> set names \<subseteq> set names' \<Longrightarrow> table_ok names' T"
  unfolding table_ok_def list_all_iff by blast

lemma create_table_ok:
  assumes "schema_ok v" and "apply_ddl S (CreateTable t cs ks) v = Some v'"
  shows "schema_ok v'"
proof -
  let ?T = "\<lparr>tab_columns = cs, tab_keys = ks, tab_rows = []\<rparr>"
  let ?names = "map fst (sch_tables v) @ [t]"
  from assms(2) have t: "t \<notin> set (map fst (sch_tables v))" and cols: "distinct (map col_name cs)"
    and keys: "\<And>k. k \<in> set ks \<Longrightarrow> key_ok v t cs ks k"
    and v': "v' = v\<lparr>sch_tables := sch_tables v @ [(t, ?T)]\<rparr>"
    by (auto simp: has_table_def list_all_iff split: if_splits)
  have "set (referenced k) \<subseteq> set ?names" if "k \<in> set ks" for k
    using keys [OF that] by (cases k) (force simp: key_ok_def split: if_splits option.splits dest: map_of_SomeD)+
  with keys cols have "table_ok ?names ?T"
    by (auto simp: table_ok_def column_names_def list_all_iff key_ok_def)
  moreover have "list_all (\<lambda>(n, T). table_ok ?names T) (sch_tables v)"
    using assms(1) table_ok_more [of "map fst (sch_tables v)" _ ?names] by (fastforce simp: schema_ok_def list_all_iff)
  moreover have "list_all (\<lambda>(n, i). index_ok (sch_tables v @ [(t, ?T)]) i) (sch_indexes v)"
    using schema_ok_index [OF assms(1)] by (fastforce simp: list_all_iff index_ok_def map_of_append)
  ultimately show ?thesis
    using assms(1) t by (simp add: v' schema_ok_def)
qed

lemma map_of_filter_name: "map_of (filter (\<lambda>(n, x). n \<noteq> t) xs) u = (if u = t then None else map_of xs u)"
  by (induction xs) auto

lemma drop_table_ok:
  assumes "schema_ok v" and "apply_ddl S (DropTable t) v = Some v'"
  shows "schema_ok v'"
proof -
  let ?ts = "filter (\<lambda>(n, T). n \<noteq> t) (sch_tables v)"
  from assms(2) have v': "v' = \<lparr>sch_tables = ?ts, sch_indexes = filter (\<lambda>(n, i). ix_table i \<noteq> t) (sch_indexes v)\<rparr>"
    and free: "\<And>n T k. (n, T) \<in> set (sch_tables v) \<Longrightarrow> n \<noteq> t \<Longrightarrow> k \<in> set (tab_keys T) \<Longrightarrow> t \<notin> set (referenced k)"
    by (auto simp: list_ex_iff split: if_splits)
  have names: "set (map fst ?ts) = set (map fst (sch_tables v)) - {t}" by auto
  have "table_ok (map fst ?ts) U" if "(n, U) \<in> set ?ts" for n U
  proof -
    from that have "(n, U) \<in> set (sch_tables v)" and "n \<noteq> t" by auto
    with assms(1) free [of n U] have "table_ok (map fst (sch_tables v)) U" "\<And>k. k \<in> set (tab_keys U) \<Longrightarrow> t \<notin> set (referenced k)"
      by (auto simp: schema_ok_def list_all_iff)
    then show ?thesis
      by (auto simp: table_ok_def list_all_iff names simp del: set_map)
  qed
  moreover have "list_all (\<lambda>(n, i). index_ok ?ts i) (filter (\<lambda>(n, i). ix_table i \<noteq> t) (sch_indexes v))"
    using schema_ok_index [OF assms(1)] by (fastforce simp: list_all_iff index_ok_def map_of_filter_name)
  moreover have "distinct (map fst (sch_tables v))" "distinct (map fst (sch_indexes v))"
    using assms(1) by (simp_all add: schema_ok_def)
  ultimately show ?thesis
    by (simp add: v' schema_ok_def distinct_fst_filter list_all_iff case_prod_beta)
qed

lemma schema_ok_reindexed:
  "schema_ok v \<Longrightarrow> distinct (map fst is) \<Longrightarrow> (\<And>m i. (m, i) \<in> set is \<Longrightarrow> index_ok (sch_tables v) i) \<Longrightarrow>
     schema_ok (v\<lparr>sch_indexes := is\<rparr>)"
  by (auto simp: schema_ok_def list_all_iff)

lemma create_index_ok:
  assumes "schema_ok v" and "apply_ddl S (CreateIndex i t cs w) v = Some v'"
  shows "schema_ok v'"
proof -
  from assms(2) obtain T where "map_of (sch_tables v) t = Some T" and "i \<notin> set (map fst (sch_indexes v))"
    and "set (index_columns \<lparr>ix_table = t, ix_columns = cs, ix_where = w\<rparr>) \<subseteq> set (column_names T)"
    and v': "v' = v\<lparr>sch_indexes := sch_indexes v @ [(i, \<lparr>ix_table = t, ix_columns = cs, ix_where = w\<rparr>)]\<rparr>"
    by (auto simp: has_index_def Let_def split: option.splits if_splits)
  with assms(1) show ?thesis
    unfolding v' by (intro schema_ok_reindexed) (auto simp: schema_ok_def list_all_iff index_ok_def)
qed

lemma drop_index_ok:
  assumes "schema_ok v" and "apply_ddl S (DropIndex i t) v = Some v'"
  shows "schema_ok v'"
proof -
  from assms(2) have v': "v' = v\<lparr>sch_indexes := filter (\<lambda>(n, ix). n \<noteq> i) (sch_indexes v)\<rparr>"
    by (simp split: if_splits)
  show ?thesis
    unfolding v' using assms(1)
    by (intro schema_ok_reindexed) (auto simp: schema_ok_def list_all_iff distinct_fst_filter)
qed

lemma add_column_ok:
  assumes "schema_ok v" and "apply_ddl S (AddColumn t c ty) v = Some v'"
  shows "schema_ok v'"
  using assms(2) unfolding apply_ddl.simps
proof (rule on_table_ok [OF assms(1)])
  fix T T' assume T: "table_ok (map fst (sch_tables v)) T"
    and "(if c \<in> set (column_names T) then None else Some (with_column c ty T)) = Some T'"
  then have c: "c \<notin> set (column_names T)"
    and T': "T' = T\<lparr>tab_columns := tab_columns T @ [\<lparr>col_name = c, col_type = ty, col_nullable = True, col_default = None\<rparr>],
      tab_rows := map (\<lambda>r. r @ [(c, NullCell)]) (tab_rows T)\<rparr>"
    by (simp_all add: with_column_def split: if_splits)
  have "row_ok (tab_columns T @ [k]) (r @ [(col_name k, NullCell)])" if "row_ok (tab_columns T) r" for r k
    by (rule row_ok_append [OF that]) simp
  from this [of _ "\<lparr>col_name = c, col_type = ty, col_nullable = True, col_default = None\<rparr>"] T c
  show "table_ok (map fst (sch_tables v)) T' \<and> set (column_names T) \<subseteq> set (column_names T')"
    by (auto simp: T' table_ok_def column_names_def list_all_iff)
qed

lemma drop_from_table_names: "set (column_names (drop_from_table c T)) = set (column_names T) - {c}"
  by (auto simp: drop_from_table_def column_names_def)

lemma drop_from_table_ok: "table_ok names T \<Longrightarrow> table_ok names (drop_from_table c T)"
  using drop_from_table_names [of c T]
  by (auto simp: table_ok_def list_all_iff drop_from_table_def row_ok_filter column_names_def distinct_map_filter)

lemma drop_column_Some:
  "apply_ddl S (DropColumn t c) v = Some v' \<longleftrightarrow>
     \<not> list_ex (\<lambda>(n, T). list_ex (refers t c) (tab_keys T)) (sch_tables v) \<and>
     (\<exists>T. map_of (sch_tables v) t = Some T \<and> c \<in> set (column_names T) \<and>
        v' = \<lparr>sch_tables = map (\<lambda>(n, U). (n, if n = t then drop_from_table c T else U)) (sch_tables v),
              sch_indexes = filter (\<lambda>(n, i). ix_table i = t \<longrightarrow> c \<notin> set (index_columns i)) (sch_indexes v)\<rparr>)"
  by (cases v) (auto simp: on_table_def split: option.splits)

lemma drop_column_ok:
  assumes "schema_ok v" and "apply_ddl S (DropColumn t c) v = Some v'"
  shows "schema_ok v'"
proof -
  from assms(2) obtain T where T: "map_of (sch_tables v) t = Some T" and
    v': "v' = \<lparr>sch_tables = map (\<lambda>(n, U). (n, if n = t then drop_from_table c T else U)) (sch_tables v),
        sch_indexes = filter (\<lambda>(n, i). ix_table i = t \<longrightarrow> c \<notin> set (index_columns i)) (sch_indexes v)\<rparr>"
    unfolding drop_column_Some by blast
  show ?thesis
    unfolding v'
  proof (rule schema_ok_map [OF assms(1)])
    fix n U assume "table_ok (map fst (sch_tables v)) U"
    with schema_ok_table [OF assms(1) T]
    show "table_ok (map fst (sch_tables v)) (if n = t then drop_from_table c T else U)"
      by (simp add: drop_from_table_ok)
  next
    fix m i assume i: "(m, i) \<in> set (filter (\<lambda>(n, i). ix_table i = t \<longrightarrow> c \<notin> set (index_columns i)) (sch_indexes v))"
    then have "(m, i) \<in> set (sch_indexes v)" by simp
    from schema_ok_index [OF assms(1) this] T i
    show "\<exists>U. map_of (sch_tables v) (ix_table i) = Some U \<and> set (index_columns i) \<subseteq>
        set (column_names (if ix_table i = t then drop_from_table c T else U))"
      by (cases "ix_table i = t") (auto simp: drop_from_table_names)
  qed (simp add: distinct_fst_filter schema_ok_indexes [OF assms(1)])
qed

lemma hash_column_ok:
  assumes "schema_ok v" and "apply_ddl S (HashColumn t h c) v = Some v'"
  shows "schema_ok v'"
  using assms(2) unfolding apply_ddl.simps
  by (rule on_table_ok [OF assms(1)])
     (auto split: option.splits if_splits simp: column_names_def hashable_def intro!: hash_table_ok)

lemma zoned_ok:
  assumes "table_ok names T" and "has_time T c"
  shows "table_ok names (zoned S w c T)"
proof -
  from assms(2) obtain k z where k: "column_of T c = Some k" "col_type k = Timestamp z"
    by (auto simp: has_time_def split: option.splits column_type.splits)
  have "cell_ok (Timestamp w) (in_zone S w x)" if "cell_ok (Timestamp z) x" for x
    using that by (cases x; cases w) auto
  moreover have "k' = k" if "k' \<in> set (tab_columns T)" "col_name k' = c" for k'
    using assms(1) k(1) that by (auto simp: table_ok_def dest: column_of_unique)
  ultimately show ?thesis
    unfolding zoned_def using k(2) by (intro table_ok_map [OF assms(1)]) auto
qed

lemma zoned_names [simp]: "column_names (zoned S w c T) = column_names T" "tab_keys (zoned S w c T) = tab_keys T"
  by (auto simp: zoned_def column_names_def)

lemma alter_zone_ok:
  assumes "schema_ok v" and "apply_ddl S (AlterZone t c w) v = Some v'"
  shows "schema_ok v'"
  using assms(2) unfolding apply_ddl.simps
  by (rule on_table_ok [OF assms(1)]) (auto simp: zoned_ok split: if_splits)

text \<open>Renaming.\<close>

definition renamed_table :: "string \<Rightarrow> string \<Rightarrow> string \<Rightarrow> string \<Rightarrow> db_table \<Rightarrow> db_table" where
  "renamed_table t a b n U =
     (let U' = (if n = t then rename_in_table a b U else U) in
      U'\<lparr>tab_keys := map (rename_reference t a b) (tab_keys U')\<rparr>)"

lemma rename_Some:
  "apply_ddl S (RenameColumn t a b) v = Some v' \<longleftrightarrow>
     (\<exists>T. map_of (sch_tables v) t = Some T \<and> a \<in> set (column_names T) \<and> b \<notin> set (column_names T) \<and>
        v' = \<lparr>sch_tables = map (\<lambda>(n, U). (n, renamed_table t a b n U)) (sch_tables v),
              sch_indexes = map (\<lambda>(n, i). (n, if ix_table i = t then rename_in_index a b i else i)) (sch_indexes v)\<rparr>)"
  by (auto simp: renamed_table_def Let_def split: option.splits)

lemma key_columns_reference [simp]: "key_columns (rename_reference t a b k) = key_columns k"
  "referenced (rename_reference t a b k) = referenced k"
  by (cases k; simp)+

lemma key_columns_rename [simp]: "key_columns (rename_key a b k) = map (\<lambda>c. if c = a then b else c) (key_columns k)"
  "referenced (rename_key a b k) = referenced k"
  by (cases k; simp)+

lemma rename_in_table_names: "column_names (rename_in_table a b T) = map (\<lambda>c. if c = a then b else c) (column_names T)"
  by (simp add: rename_in_table_def column_names_def)

lemma distinct_rename: "distinct xs \<Longrightarrow> b \<notin> set xs \<Longrightarrow> distinct (map (\<lambda>c. if c = a then b else c) xs)"
  by (induction xs) auto

lemma rename_in_table_ok:
  assumes "table_ok names T" and "b \<notin> set (column_names T)"
  shows "table_ok names (rename_in_table a b T)"
proof -
  have "row_ok (map (\<lambda>k. if col_name k = a then k\<lparr>col_name := b\<rparr> else k) (tab_columns T))
      (map (\<lambda>(n, x). (if n = a then b else n, x)) r)" if "row_ok (tab_columns T) r" for r
    by (rule row_ok_map [OF that]) auto
  moreover have "distinct (column_names (rename_in_table a b T))"
    using assms by (simp add: rename_in_table_names distinct_rename table_ok_def)
  moreover have "set (key_columns k) \<subseteq> set (column_names T) \<Longrightarrow>
      set (key_columns (rename_key a b k)) \<subseteq> set (column_names (rename_in_table a b T))" for k
    by (auto simp: rename_in_table_names)
  ultimately show ?thesis
    using assms(1) by (auto simp: table_ok_def list_all_iff rename_in_table_def)
qed

lemma rename_column_ok:
  assumes "schema_ok v" and "apply_ddl S (RenameColumn t a b) v = Some v'"
  shows "schema_ok v'"
proof -
  from assms(2) obtain T where T: "map_of (sch_tables v) t = Some T" and b: "b \<notin> set (column_names T)" and
    v': "v' = \<lparr>sch_tables = map (\<lambda>(n, U). (n, renamed_table t a b n U)) (sch_tables v),
              sch_indexes = map (\<lambda>(n, i). (n, if ix_table i = t then rename_in_index a b i else i)) (sch_indexes v)\<rparr>"
    unfolding rename_Some by blast
  have names: "column_names (renamed_table t a b n U) =
      (if n = t then map (\<lambda>c. if c = a then b else c) (column_names U) else column_names U)" for n U
    by (simp add: renamed_table_def Let_def rename_in_table_names column_names_def [of "_\<lparr>tab_keys := _\<rparr>"]
        flip: column_names_def)
  show ?thesis
    unfolding v'
  proof (rule schema_ok_map [OF assms(1)])
    fix n U assume "(n, U) \<in> set (sch_tables v)" and ok: "table_ok (map fst (sch_tables v)) U"
    then have "map_of (sch_tables v) n = Some U"
      using assms(1) by (simp add: schema_ok_def map_of_is_SomeI)
    with T have "n = t \<Longrightarrow> U = T" by simp
    with ok b have "table_ok (map fst (sch_tables v)) (if n = t then rename_in_table a b U else U)"
      by (cases "n = t") (simp_all add: rename_in_table_ok)
    then show "table_ok (map fst (sch_tables v)) (renamed_table t a b n U)"
      by (auto simp: renamed_table_def Let_def table_ok_def column_names_def list_all_iff)
  next
    fix m i assume "(m, i) \<in> set (map (\<lambda>(n, i). (n, if ix_table i = t then rename_in_index a b i else i)) (sch_indexes v))"
    then obtain i' where "(m, i') \<in> set (sch_indexes v)" and i: "i = (if ix_table i' = t then rename_in_index a b i' else i')"
      by auto
    from schema_ok_index [OF assms(1) this(1)] obtain U where "map_of (sch_tables v) (ix_table i') = Some U"
      and "set (index_columns i') \<subseteq> set (column_names U)" by blast
    moreover have "ix_table i = ix_table i'"
      by (simp add: i rename_in_index_def)
    moreover have "index_columns (rename_in_index a b i') = map (\<lambda>c. if c = a then b else c) (index_columns i')"
      by (auto simp: index_columns_def rename_in_index_def split: option.split)
    ultimately show "\<exists>U. map_of (sch_tables v) (ix_table i) = Some U \<and>
        set (index_columns i) \<subseteq> set (column_names (renamed_table t a b (ix_table i) U))"
      by (auto simp: names i)
  next
    show "distinct (map fst (map (\<lambda>(n, i). (n, if ix_table i = t then rename_in_index a b i else i)) (sch_indexes v)))"
      using schema_ok_indexes [OF assms(1)] by (simp add: comp_def case_prod_beta)
  qed
qed

theorem apply_ddl_ok: "schema_ok v \<Longrightarrow> apply_ddl S d v = Some v' \<Longrightarrow> schema_ok v'"
  by (cases d)
     (fastforce intro: create_table_ok drop_table_ok add_column_ok drop_column_ok create_index_ok drop_index_ok
       rename_column_ok hash_column_ok alter_zone_ok)+

lemma apply_all_ok: "schema_ok v \<Longrightarrow> apply_all S ds v = Some v' \<Longrightarrow> schema_ok v'"
  by (induction ds arbitrary: v) (auto split: option.splits dest: apply_ddl_ok)

section \<open>Databases without rows\<close>

text \<open>What a statement does to columns, keys and indexes does not depend on the rows.\<close>

definition no_rows :: "db_table \<Rightarrow> db_table" where
  "no_rows T = T\<lparr>tab_rows := []\<rparr>"

lemma no_rows_update [simp]:
  "no_rows (T\<lparr>tab_columns := a, tab_rows := b\<rparr>) = no_rows T\<lparr>tab_columns := a, tab_rows := []\<rparr>"
  by (simp add: no_rows_def)

definition emptied :: "db_schema \<Rightarrow> db_schema" where
  "emptied v = v\<lparr>sch_tables := map (\<lambda>(n, T). (n, no_rows T)) (sch_tables v)\<rparr>"

lemma no_rows_sel [simp]:
  "tab_columns (no_rows T) = tab_columns T" "tab_keys (no_rows T) = tab_keys T" "tab_rows (no_rows T) = []"
  "column_names (no_rows T) = column_names T" "column_of (no_rows T) c = column_of T c"
  by (simp_all add: no_rows_def column_names_def column_of_def)

lemma emptied_sel [simp]:
  "sch_indexes (emptied v) = sch_indexes v" "has_index (emptied v) i = has_index v i"
  "has_table (emptied v) t = has_table v t"
  "map_of (sch_tables (emptied v)) t = map_option no_rows (map_of (sch_tables v) t)"
  by (simp_all add: emptied_def has_index_def has_table_def map_tables_names(2) map_of_map_tables [of "\<lambda>n. no_rows"]
      del: list.set_map)

lemma emptied_reindexed: "emptied (v\<lparr>sch_indexes := is\<rparr>) = emptied v\<lparr>sch_indexes := is\<rparr>"
  by (simp add: emptied_def)

lemma emptied_key_ok [simp]: "key_ok (emptied v) t cs ks k = key_ok v t cs ks k"
  by (cases k) (auto simp: key_ok_def split: option.split)

lemma emptied_on_table:
  assumes "\<And>T. f' (no_rows T) = map_option no_rows (f T)"
  shows "on_table t f' (emptied v) = map_option emptied (on_table t f v)"
proof (cases "map_of (sch_tables v) t")
  case None
  then show ?thesis by (simp add: on_table_def)
next
  case (Some T)
  then show ?thesis
    using assms [of T] by (cases "f T") (auto simp: on_table_def, auto simp: emptied_def comp_def split_def if_distrib [of no_rows])
qed

definition updates_rows :: "ddl \<Rightarrow> bool" where
  "updates_rows d \<longleftrightarrow> (case d of HashColumn t h c \<Rightarrow> True | _ \<Rightarrow> False)"

lemma apply_ddl_emptied:
  "\<not> updates_rows d \<Longrightarrow> apply_ddl S d (emptied v) = map_option emptied (apply_ddl S d v)"
proof (cases d)
  case (CreateTable t cs ks)
  have keys: "key_ok (emptied v) t cs ks = key_ok v t cs ks" by (rule ext) simp
  have "emptied (v\<lparr>sch_tables := sch_tables v @ [(t, \<lparr>tab_columns = cs, tab_keys = ks, tab_rows = []\<rparr>)]\<rparr>) =
      emptied v\<lparr>sch_tables := sch_tables (emptied v) @ [(t, \<lparr>tab_columns = cs, tab_keys = ks, tab_rows = []\<rparr>)]\<rparr>"
    by (simp add: emptied_def no_rows_def)
  then show ?thesis
    by (simp add: CreateTable keys)
next
  case (DropTable t)
  then show ?thesis
    by (simp add: list_ex_iff has_table_def emptied_def filter_map comp_def split_def)
next
  case (AddColumn t c ty)
  then show ?thesis
    unfolding AddColumn apply_ddl.simps by (intro emptied_on_table) (simp add: with_column_def)
next
  case (DropColumn t c)
  have refs: "list_ex (\<lambda>(n, T). list_ex (refers t c) (tab_keys T)) (sch_tables (emptied v)) =
      list_ex (\<lambda>(n, T). list_ex (refers t c) (tab_keys T)) (sch_tables v)"
    by (simp add: list_ex_iff emptied_def split_def)
  have "on_table t (\<lambda>T. if c \<notin> set (column_names T) then None else Some (drop_from_table c T)) (emptied v) =
      map_option emptied (on_table t (\<lambda>T. if c \<notin> set (column_names T) then None else Some (drop_from_table c T)) v)"
    by (rule emptied_on_table) (simp add: drop_from_table_def no_rows_def column_names_def)
  then show ?thesis
    unfolding DropColumn apply_ddl.simps refs by (simp add: option.map_comp comp_def emptied_reindexed)
next
  case (RenameColumn t a b)
  then show ?thesis
    by (cases "map_of (sch_tables v) t")
       (simp_all, auto simp: emptied_def split_def comp_def Let_def rename_in_table_def no_rows_def)
next
  case (AlterZone t c w)
  then show ?thesis
    unfolding AlterZone apply_ddl.simps
    by (intro emptied_on_table) (simp add: has_time_def zoned_def)
next
  case (CreateIndex i t cs w)
  then show ?thesis
    by (cases "map_of (sch_tables v) t") (simp_all add: Let_def emptied_reindexed)
next
  case (DropIndex i t)
  then show ?thesis by (simp add: emptied_reindexed)
qed (simp_all add: updates_rows_def)

lemma hash_column_Some:
  "apply_ddl S (HashColumn t h c) v = Some v' \<longleftrightarrow>
     (\<exists>T. map_of (sch_tables v) t = Some T \<and> hashable S h c T \<and>
        v' = v\<lparr>sch_tables := map (\<lambda>(n, U). (n, if n = t then T\<lparr>tab_rows := map (hashed_row S h c) (tab_rows T)\<rparr> else U))
          (sch_tables v)\<rparr>)"
  unfolding apply_ddl.simps on_table_Some by (auto split: if_splits)

lemma hash_column_emptied:
  assumes "apply_ddl S (HashColumn t h c) v = Some v'"
  shows "apply_ddl S (HashColumn t h c) (emptied v) = Some (emptied v')"
proof -
  from assms obtain T where T: "map_of (sch_tables v) t = Some T" "hashable S h c T" and
    v': "v' = v\<lparr>sch_tables := map (\<lambda>(n, U). (n, if n = t then T\<lparr>tab_rows := map (hashed_row S h c) (tab_rows T)\<rparr> else U))
      (sch_tables v)\<rparr>"
    unfolding hash_column_Some by blast
  have "emptied v' = emptied v\<lparr>sch_tables := map (\<lambda>(n, U). (n, if n = t then no_rows T\<lparr>tab_rows := []\<rparr> else U))
      (sch_tables (emptied v))\<rparr>"
    by (auto simp: v' emptied_def comp_def split_def no_rows_def)
  moreover from T(2) have "hashable S h c (no_rows T)"
    by (auto simp: hashable_def split: option.splits)
  ultimately show ?thesis
    using T(1) unfolding hash_column_Some by (simp cong: if_cong)
qed

lemma apply_all_emptied: "apply_all S ds v = Some v' \<Longrightarrow> apply_all S ds (emptied v) = Some (emptied v')"
proof (induction ds arbitrary: v)
  case (Cons d ds)
  then obtain v1 where "apply_ddl S d v = Some v1" and "apply_all S ds v1 = Some v'"
    by (auto split: option.splits)
  moreover from this(1) have "apply_ddl S d (emptied v) = Some (emptied v1)"
    using apply_ddl_emptied [of d S v] hash_column_emptied
    by (cases d) (auto simp: updates_rows_def simp del: apply_ddl.simps)
  ultimately show ?case using Cons.IH by simp
qed simp

lemma apply_all_on_emptied:
  "list_all (\<lambda>d. \<not> updates_rows d) ds \<Longrightarrow> apply_all S ds (emptied v) = map_option emptied (apply_all S ds v)"
  by (induction ds arbitrary: v) (auto simp: apply_ddl_emptied split: option.split)

section \<open>The contract of the database\<close>

text \<open>
  A database follows the documented effects when each statement it is handed succeeds exactly
  where its effect is defined, and then leaves the database that has it.
\<close>

locale ddl_database =
  fixes S :: sql_session and execute :: "ddl \<Rightarrow> ('db, unit) io" and view :: "'db \<Rightarrow> db_schema"
  assumes executes: "\<And>d db. case apply_ddl S d (view db) of
      None \<Rightarrow> \<exists>e. fst (execute d db) = Inl e
    | Some v \<Rightarrow> fst (execute d db) = Inr () \<and> view (snd (execute d db)) = v"

definition ref_execute :: "sql_session \<Rightarrow> ddl \<Rightarrow> (db_schema, unit) io" where
  "ref_execute S d = (\<lambda>v. case apply_ddl S d v of
     None \<Rightarrow> (Inl (OtherException ''ProgrammingError''), v)
   | Some v' \<Rightarrow> (Inr (), v'))"

definition ref_sql :: "(string \<Rightarrow> string) \<Rightarrow> sql_session" where
  "ref_sql digest = \<lparr>sql_digest = digest, sql_offset = 0\<rparr>"

lemma ref_executes: "ddl_database S (ref_execute S) (\<lambda>v. v)"
  by unfold_locales (auto simp: ref_execute_def split: option.split)

end
