(* ===== verification/Migrations.thy ===== *)
theory Migrations
  imports DatabaseSchema SessionModels
begin

text \<open>
  The migrations of the database, \<open>alembic/versions\<close>, as the statements their \<open>upgrade\<close> and
  \<open>downgrade\<close> execute, the transaction of \<open>alembic/env.py\<close> around them, the tables that the
  classes of \<open>models\<close> declare, and \<open>scripts/verify_hash_consistency.py\<close>.
\<close>

section \<open>The scripts\<close>

record migration =
  mg_revision :: string
  mg_down_revision :: "string option"
  mg_upgrade :: "ddl list"
  mg_downgrade :: "ddl list"

definition sa_column :: "string \<Rightarrow> column_type \<Rightarrow> bool \<Rightarrow> string option \<Rightarrow> table_column" where
  "sa_column n ty nullable server_default = \<lparr>col_name = n, col_type = ty, col_nullable = nullable, col_default = server_default\<rparr>"

definition initial_sessions :: migration where
  "initial_sessions =
     \<lparr>mg_revision = ''20260107_000001'', mg_down_revision = None,
      mg_upgrade =
        [CreateTable ''sessions''
           [sa_column ''id'' UuidType False None,
            sa_column ''created_at'' (Timestamp False) False (Some ''now()''),
            sa_column ''updated_at'' (Timestamp False) False (Some ''now()''),
            sa_column ''status'' (VarChar 20) False (Some ''active''),
            sa_column ''model'' (VarChar 50) False None,
            sa_column ''working_directory'' (VarChar 500) True None,
            sa_column ''total_turns'' IntegerType False (Some ''0''),
            sa_column ''total_cost_usd'' (NumericType 10 6) True None,
            sa_column ''parent_session_id'' UuidType True None,
            sa_column ''metadata'' JsonbType True None]
           [PrimaryKey [''id''],
            ForeignKey ''fk_sessions_parent_session_id'' [''parent_session_id''] ''sessions'' [''id''] False],
         CreateIndex ''idx_sessions_status'' ''sessions'' [(''status'', False)] None,
         CreateIndex ''idx_sessions_created_at'' ''sessions'' [(''created_at'', True)] None,
         CreateIndex ''idx_sessions_parent'' ''sessions'' [(''parent_session_id'', False)] (Some ''parent_session_id''),
         CreateTable ''session_messages''
           [sa_column ''id'' UuidType False None,
            sa_column ''session_id'' UuidType False None,
            sa_column ''message_type'' (VarChar 20) False None,
            sa_column ''content'' JsonbType False None,
            sa_column ''created_at'' (Timestamp False) False (Some ''now()'')]
           [PrimaryKey [''id''],
            ForeignKey ''fk_session_messages_session_id'' [''session_id''] ''sessions'' [''id''] True],
         CreateIndex ''idx_messages_session_id'' ''session_messages'' [(''session_id'', False)] None,
         CreateIndex ''idx_messages_created_at'' ''session_messages'' [(''created_at'', False)] None,
         CreateTable ''checkpoints''
           [sa_column ''id'' UuidType False None,
            sa_column ''session_id'' UuidType False None,
            sa_column ''user_message_uuid'' (VarChar 100) False None,
            sa_column ''created_at'' (Timestamp False) False (Some ''now()''),
            sa_column ''files_modified'' StringArray False None]
           [PrimaryKey [''id''],
            ForeignKey ''fk_checkpoints_session_id'' [''session_id''] ''sessions'' [''id''] True,
            UniqueKey [''user_message_uuid''] ''uq_checkpoints_uuid''],
         CreateIndex ''idx_checkpoints_session_id'' ''checkpoints'' [(''session_id'', False)] None],
      mg_downgrade = [DropTable ''checkpoints'', DropTable ''session_messages'', DropTable ''sessions'']\<rparr>"

definition sessions_composite_index :: migration where
  "sessions_composite_index =
     \<lparr>mg_revision = ''20260110_000002'', mg_down_revision = Some ''20260107_000001'',
      mg_upgrade = [CreateIndex ''idx_sessions_status_created'' ''sessions'' [(''status'', False), (''created_at'', True)] None],
      mg_downgrade = [DropIndex ''idx_sessions_status_created'' ''sessions'']\<rparr>"

definition session_owner_api_key :: migration where
  "session_owner_api_key =
     \<lparr>mg_revision = ''20260110_000003'', mg_down_revision = Some ''20260110_000002'',
      mg_upgrade = [AddColumn ''sessions'' ''owner_api_key'' (VarChar 255)],
      mg_downgrade = [DropColumn ''sessions'' ''owner_api_key'']\<rparr>"

definition sessions_owner_index :: migration where
  "sessions_owner_index =
     \<lparr>mg_revision = ''20260110_000004'', mg_down_revision = Some ''20260110_000003'',
      mg_upgrade = [CreateIndex ''idx_sessions_owner_api_key'' ''sessions'' [(''owner_api_key'', False)] None],
      mg_downgrade = [DropIndex ''idx_sessions_owner_api_key'' ''sessions'']\<rparr>"

definition assistants_tables :: migration where
  "assistants_tables =
     \<lparr>mg_revision = ''20260129_000005'', mg_down_revision = Some ''20260110_000004'',
      mg_upgrade =
        [CreateTable ''assistants''
           [sa_column ''id'' (VarChar 64) False None,
            sa_column ''model'' (VarChar 100) False None,
            sa_column ''name'' (VarChar 256) True None,
            sa_column ''description'' (VarChar 512) True None,
            sa_column ''instructions'' TextType True None,
            sa_column ''tools'' JsonbType False (Some ''[]''),
            sa_column ''metadata'' JsonbType False (Some ''{}''),
            sa_column ''temperature'' (NumericType 3 2) True None,
            sa_column ''top_p'' (NumericType 3 2) True None,
            sa_column ''response_format'' JsonbType True None,
            sa_column ''owner_api_key'' (VarChar 256) True None,
            sa_column ''created_at'' (Timestamp True) False (Some ''now()''),
            sa_column ''updated_at'' (Timestamp True) False (Some ''now()'')]
           [PrimaryKey [''id'']],
         CreateIndex ''idx_assistants_owner_api_key'' ''assistants'' [(''owner_api_key'', False)] (Some ''owner_api_key''),
         CreateIndex ''idx_assistants_created_at'' ''assistants'' [(''created_at'', True)] None,
         CreateTable ''runs''
           [sa_column ''id'' (VarChar 64) False None,
            sa_column ''thread_id'' (VarChar 64) False None,
            sa_column ''assistant_id'' (VarChar 64) False None,
            sa_column ''status'' (VarChar 20) False (Some ''queued''),
            sa_column ''model'' (VarChar 100) False None,
            sa_column ''instructions'' TextType True None,
            sa_column ''tools'' JsonbType False (Some ''[]''),
            sa_column ''metadata'' JsonbType False (Some ''{}''),
            sa_column ''required_action'' JsonbType True None,
            sa_column ''last_error'' JsonbType True None,
            sa_column ''usage'' JsonbType True None,
            sa_column ''created_at'' (Timestamp True) False (Some ''now()''),
            sa_column ''started_at'' (Timestamp True) True None,
            sa_column ''expires_at'' (Timestamp True) True None,
            sa_column ''cancelled_at'' (Timestamp True) True None,
            sa_column ''failed_at'' (Timestamp True) True None,
            sa_column ''completed_at'' (Timestamp True) True None]
           [PrimaryKey [''id''],
            ForeignKey ''fk_runs_assistant_id'' [''assistant_id''] ''assistants'' [''id''] True],
         CreateIndex ''idx_runs_thread_id'' ''runs'' [(''thread_id'', False)] None,
         CreateIndex ''idx_runs_assistant_id'' ''runs'' [(''assistant_id'', False)] None,
         CreateIndex ''idx_runs_status'' ''runs'' [(''status'', False)] None,
         CreateIndex ''idx_runs_thread_status'' ''runs'' [(''thread_id'', False), (''status'', False)] None,
         CreateIndex ''idx_runs_created_at'' ''runs'' [(''created_at'', True)] None,
         CreateTable ''run_steps''
           [sa_column ''id'' (VarChar 64) False None,
            sa_column ''run_id'' (VarChar 64) False None,
            sa_column ''assistant_id'' (VarChar 64) False None,
            sa_column ''thread_id'' (VarChar 64) False None,
            sa_column ''type'' (VarChar 20) False None,
            sa_column ''status'' (VarChar 20) False (Some ''in_progress''),
            sa_column ''step_details'' JsonbType False None,
            sa_column ''last_error'' JsonbType True None,
            sa_column ''usage'' JsonbType True None,
            sa_column ''created_at'' (Timestamp True) False (Some ''now()''),
            sa_column ''expired_at'' (Timestamp True) True None,
            sa_column ''cancelled_at'' (Timestamp True) True None,
            sa_column ''failed_at'' (Timestamp True) True None,
            sa_column ''completed_at'' (Timestamp True) True None]
           [PrimaryKey [''id''],
            ForeignKey ''fk_run_steps_run_id'' [''run_id''] ''runs'' [''id''] True,
            ForeignKey ''fk_run_steps_assistant_id'' [''assistant_id''] ''assistants'' [''id''] True],
         CreateIndex ''idx_run_steps_run_id'' ''run_steps'' [(''run_id'', False)] None,
         CreateIndex ''idx_run_steps_thread_id'' ''run_steps'' [(''thread_id'', False)] None,
         CreateIndex ''idx_run_steps_created_at'' ''run_steps'' [(''created_at'', True)] None],
      mg_downgrade = [DropTable ''run_steps'', DropTable ''runs'', DropTable ''assistants'']\<rparr>"

definition hash_api_keys :: migration where
  "hash_api_keys =
     \<lparr>mg_revision = ''20260201_000006'', mg_down_revision = Some ''20260129_000005'',
      mg_upgrade =
        [CreateExtension ''pgcrypto'',
         AddColumn ''sessions'' ''owner_api_key_hash'' (VarChar 64),
         HashColumn ''sessions'' ''owner_api_key_hash'' ''owner_api_key'',
         CreateIndex ''idx_sessions_owner_api_key_hash'' ''sessions'' [(''owner_api_key_hash'', False)] None,
         AddColumn ''assistants'' ''owner_api_key_hash'' (VarChar 64),
         HashColumn ''assistants'' ''owner_api_key_hash'' ''owner_api_key'',
         CreateIndex ''idx_assistants_owner_api_key_hash'' ''assistants'' [(''owner_api_key_hash'', False)] None],
      mg_downgrade =
        [DropIndex ''idx_sessions_owner_api_key_hash'' ''sessions'',
         DropIndex ''idx_assistants_owner_api_key_hash'' ''assistants'',
         DropColumn ''sessions'' ''owner_api_key_hash'',
         DropColumn ''assistants'' ''owner_api_key_hash'']\<rparr>"

definition drop_plaintext_api_keys :: migration where
  "drop_plaintext_api_keys =
     \<lparr>mg_revision = ''20260208_000007'', mg_down_revision = Some ''20260201_000006'',
      mg_upgrade =
        [SetTimeout ''30s'',
         DropIndex ''idx_sessions_owner_api_key'' ''sessions'',
         DropIndex ''idx_assistants_owner_api_key'' ''assistants'',
         DropColumn ''sessions'' ''owner_api_key'',
         DropColumn ''assistants'' ''owner_api_key''],
      mg_downgrade =
        [AddColumn ''sessions'' ''owner_api_key'' (VarChar 255),
         AddColumn ''assistants'' ''owner_api_key'' (VarChar 255),
         CreateIndex ''idx_sessions_owner_api_key'' ''sessions'' [(''owner_api_key'', False)] None,
         CreateIndex ''idx_assistants_owner_api_key'' ''assistants'' [(''owner_api_key'', False)] None]\<rparr>"

definition rename_metadata_columns :: migration where
  "rename_metadata_columns =
     \<lparr>mg_revision = ''0c6d1a600bb1'', mg_down_revision = Some ''20260208_000007'',
      mg_upgrade =
        [RenameColumn ''sessions'' ''metadata'' ''session_metadata'',
         RenameColumn ''assistants'' ''metadata'' ''assistant_metadata'',
         RenameColumn ''runs'' ''metadata'' ''run_metadata''],
      mg_downgrade =
        [RenameColumn ''runs'' ''run_metadata'' ''metadata'',
         RenameColumn ''assistants'' ''assistant_metadata'' ''metadata'',
         RenameColumn ''sessions'' ''session_metadata'' ''metadata'']\<rparr>"

definition datetimes_with_zone :: migration where
  "datetimes_with_zone =
     \<lparr>mg_revision = ''9ddfdd63af30'', mg_down_revision = Some ''0c6d1a600bb1'',
      mg_upgrade =
        [AlterZone ''sessions'' ''created_at'' True, AlterZone ''sessions'' ''updated_at'' True,
         AlterZone ''session_messages'' ''created_at'' True, AlterZone ''checkpoints'' ''created_at'' True],
      mg_downgrade =
        [AlterZone ''sessions'' ''created_at'' False, AlterZone ''sessions'' ''updated_at'' False,
         AlterZone ''session_messages'' ''created_at'' False, AlterZone ''checkpoints'' ''created_at'' False]\<rparr>"

text \<open>The scripts in the order of their revisions.\<close>

definition migrations :: "migration list" where
  "migrations =
     [initial_sessions, sessions_composite_index, session_owner_api_key, sessions_owner_index, assistants_tables,
      hash_api_keys, drop_plaintext_api_keys, rename_metadata_columns, datetimes_with_zone]"

lemmas migration_defs = initial_sessions_def sessions_composite_index_def session_owner_api_key_def
  sessions_owner_index_def assistants_tables_def hash_api_keys_def drop_plaintext_api_keys_def
  rename_metadata_columns_def datetimes_with_zone_def

lemma revisions_linked:
  "map mg_down_revision migrations = None # map (Some \<circ> mg_revision) (butlast migrations)"
  "distinct (map mg_revision migrations)"
  by (simp_all add: migrations_def migration_defs)

section \<open>The environment\<close>

text \<open>Statements run in one transaction: when one fails, all are rolled back.\<close>

primrec run_statements :: "(ddl \<Rightarrow> ('db, unit) io) \<Rightarrow> ddl list \<Rightarrow> ('db, unit) io" where
  "run_statements execute [] = ret ()"
| "run_statements execute (d # ds) = and_then (execute d) (\<lambda>_. run_statements execute ds)"

definition in_transaction :: "('db, 'a) io \<Rightarrow> ('db, 'a) io" where
  "in_transaction m = (\<lambda>db. case m db of (Inl e, db') \<Rightarrow> (Inl e, db) | (Inr x, db') \<Rightarrow> (Inr x, db'))"

definition do_run_migrations :: "(ddl \<Rightarrow> ('db, unit) io) \<Rightarrow> ddl list list \<Rightarrow> ('db, unit) io" where
  "do_run_migrations execute scripts = in_transaction (run_statements execute (concat scripts))"

section \<open>The models\<close>

text \<open>An index as a class declares it, with its \<open>unique\<close>.\<close>

record declared_index = table_index +
  ix_unique :: bool

record model_table =
  md_name :: string
  md_columns :: "table_column list"
  md_indexes :: "(string \<times> declared_index) list"

definition model_index :: "string \<Rightarrow> (string \<times> bool) list \<Rightarrow> string option \<Rightarrow> declared_index" where
  "model_index t cs w = \<lparr>ix_table = t, ix_columns = cs, ix_where = w, ix_unique = False\<rparr>"

definition unique_index :: "string \<Rightarrow> (string \<times> bool) list \<Rightarrow> declared_index" where
  "unique_index t cs = \<lparr>ix_table = t, ix_columns = cs, ix_where = None, ix_unique = True\<rparr>"

definition session_model :: model_table where
  "session_model =
     \<lparr>md_name = ''sessions'',
      md_columns =
        [sa_column ''id'' UuidType False None,
         sa_column ''created_at'' (Timestamp True) False (Some ''now()''),
         sa_column ''updated_at'' (Timestamp True) False (Some ''now()''),
         sa_column ''status'' (VarChar 20) False None,
         sa_column ''model'' (VarChar 50) False None,
         sa_column ''working_directory'' (VarChar 500) True None,
         sa_column ''total_turns'' IntegerType False None,
         sa_column ''total_cost_usd'' (NumericType 10 6) True None,
         sa_column ''owner_api_key_hash'' (VarChar 64) True None,
         sa_column ''parent_session_id'' UuidType True None,
         sa_column ''session_metadata'' JsonbType True None],
      md_indexes =
        [(''ix_sessions_status'', model_index ''sessions'' [(''status'', False)] None),
         (''idx_sessions_created_at'', model_index ''sessions'' [(''created_at'', True)] None),
         (''idx_sessions_status_created'', model_index ''sessions'' [(''status'', False), (''created_at'', True)] None),
         (''idx_sessions_parent'', model_index ''sessions'' [(''parent_session_id'', False)] (Some ''parent_session_id'')),
         (''idx_sessions_owner_api_key_hash'', model_index ''sessions'' [(''owner_api_key_hash'', False)] None)]\<rparr>"

definition session_message_model :: model_table where
  "session_message_model =
     \<lparr>md_name = ''session_messages'',
      md_columns =
        [sa_column ''id'' UuidType False None,
         sa_column ''session_id'' UuidType False None,
         sa_column ''message_type'' (VarChar 20) False None,
         sa_column ''content'' JsonbType False None,
         sa_column ''created_at'' (Timestamp True) False (Some ''now()'')],
      md_indexes =
        [(''ix_session_messages_session_id'', model_index ''session_messages'' [(''session_id'', False)] None),
         (''idx_messages_created_at'', model_index ''session_messages'' [(''created_at'', False)] None)]\<rparr>"

definition checkpoint_model :: model_table where
  "checkpoint_model =
     \<lparr>md_name = ''checkpoints'',
      md_columns =
        [sa_column ''id'' UuidType False None,
         sa_column ''session_id'' UuidType False None,
         sa_column ''user_message_uuid'' (VarChar 100) False None,
         sa_column ''created_at'' (Timestamp True) False (Some ''now()''),
         sa_column ''files_modified'' StringArray False None],
      md_indexes =
        [(''ix_checkpoints_session_id'', model_index ''checkpoints'' [(''session_id'', False)] None),
         (''idx_checkpoints_uuid'', unique_index ''checkpoints'' [(''user_message_uuid'', False)])]\<rparr>"

definition assistant_model :: model_table where
  "assistant_model =
     \<lparr>md_name = ''assistants'',
      md_columns =
        [sa_column ''id'' (VarChar 50) False None,
         sa_column ''created_at'' (Timestamp False) False (Some ''now()''),
         sa_column ''updated_at'' (Timestamp False) False (Some ''now()''),
         sa_column ''model'' (VarChar 100) False None,
         sa_column ''name'' (VarChar 256) True None,
         sa_column ''description'' (VarChar 512) True None,
         sa_column ''instructions'' TextType True None,
         sa_column ''tools'' JsonbType False (Some ''[]''),
         sa_column ''assistant_metadata'' JsonbType True (Some ''{}''),
         sa_column ''owner_api_key_hash'' (VarChar 64) True None,
         sa_column ''temperature'' FloatType True None,
         sa_column ''top_p'' FloatType True None,
         sa_column ''response_format'' JsonbType True None],
      md_indexes =
        [(''idx_assistants_created_at'', model_index ''assistants'' [(''created_at'', True)] None),
         (''idx_assistants_owner_api_key_hash'', model_index ''assistants'' [(''owner_api_key_hash'', False)] None)]\<rparr>"

definition run_model :: model_table where
  "run_model =
     \<lparr>md_name = ''runs'',
      md_columns =
        [sa_column ''id'' (VarChar 50) False None,
         sa_column ''created_at'' (Timestamp False) False (Some ''now()''),
         sa_column ''thread_id'' (VarChar 50) False None,
         sa_column ''assistant_id'' (VarChar 50) False None,
         sa_column ''status'' (VarChar 20) False None,
         sa_column ''model'' (VarChar 100) False None,
         sa_column ''instructions'' TextType True None,
         sa_column ''tools'' JsonbType False (Some ''[]''),
         sa_column ''run_metadata'' JsonbType True (Some ''{}''),
         sa_column ''required_action'' JsonbType True None,
         sa_column ''last_error'' JsonbType True None,
         sa_column ''usage'' JsonbType True None,
         sa_column ''started_at'' (Timestamp False) True None,
         sa_column ''expires_at'' (Timestamp False) True None,
         sa_column ''cancelled_at'' (Timestamp False) True None,
         sa_column ''failed_at'' (Timestamp False) True None,
         sa_column ''completed_at'' (Timestamp False) True None,
         sa_column ''max_prompt_tokens'' IntegerType True None,
         sa_column ''max_completion_tokens'' IntegerType True None,
         sa_column ''truncation_strategy'' JsonbType True None,
         sa_column ''response_format'' JsonbType True None,
         sa_column ''tool_choice'' JsonbType True None,
         sa_column ''parallel_tool_calls'' BooleanType True None],
      md_indexes =
        [(''ix_runs_thread_id'', model_index ''runs'' [(''thread_id'', False)] None),
         (''idx_runs_thread_id'', model_index ''runs'' [(''thread_id'', False)] None),
         (''idx_runs_status'', model_index ''runs'' [(''status'', False)] None),
         (''idx_runs_created_at'', model_index ''runs'' [(''created_at'', True)] None)]\<rparr>"

definition run_step_model :: model_table where
  "run_step_model =
     \<lparr>md_name = ''run_steps'',
      md_columns =
        [sa_column ''id'' (VarChar 50) False None,
         sa_column ''created_at'' (Timestamp False) False (Some ''now()''),
         sa_column ''run_id'' (VarChar 50) False None,
         sa_column ''assistant_id'' (VarChar 50) False None,
         sa_column ''thread_id'' (VarChar 50) False None,
         sa_column ''type'' (VarChar 20) False None,
         sa_column ''status'' (VarChar 20) False None,
         sa_column ''step_details'' JsonbType False None,
         sa_column ''last_error'' JsonbType True None,
         sa_column ''usage'' JsonbType True None,
         sa_column ''expired_at'' (Timestamp False) True None,
         sa_column ''cancelled_at'' (Timestamp False) True None,
         sa_column ''failed_at'' (Timestamp False) True None,
         sa_column ''completed_at'' (Timestamp False) True None],
      md_indexes =
        [(''ix_run_steps_run_id'', model_index ''run_steps'' [(''run_id'', False)] None),
         (''idx_run_steps_run_id'', model_index ''run_steps'' [(''run_id'', False)] None),
         (''idx_run_steps_created_at'', model_index ''run_steps'' [(''created_at'', True)] None)]\<rparr>"

lemmas model_defs = session_model_def session_message_model_def checkpoint_model_def assistant_model_def
  run_model_def run_step_model_def

text \<open>What an object of a class needs of its table: each column with its type, and no other that a row must have.\<close>

definition column_shape :: "table_column \<Rightarrow> string \<times> column_type \<times> bool" where
  "column_shape k = (col_name k, col_type k, col_nullable k)"

definition model_columns :: "db_schema \<Rightarrow> model_table \<Rightarrow> (string \<times> column_type \<times> bool) list" where
  "model_columns v M =
     (case map_of (sch_tables v) (md_name M) of
        None \<Rightarrow> []
      | Some T \<Rightarrow> filter (\<lambda>s. s \<in> set (map column_shape (tab_columns T))) (map column_shape (md_columns M)))"

definition serves :: "db_schema \<Rightarrow> model_table \<Rightarrow> bool" where
  "serves v M \<longleftrightarrow>
     (case map_of (sch_tables v) (md_name M) of
        None \<Rightarrow> False
      | Some T \<Rightarrow> set (map column_shape (tab_columns T)) = set (map column_shape (md_columns M)))"

definition upgrades :: "ddl list list" where
  "upgrades = map mg_upgrade migrations"

lemma upgraded: "case apply_all S (concat upgrades) empty_schema of
    Some v \<Rightarrow> list_all (serves v) [session_model, session_message_model, checkpoint_model] \<and> schema_ok v
  | None \<Rightarrow> False"
  by code_simp

text \<open>The classes of the assistants and runs expect columns that no script makes, or others than it makes.\<close>

definition missing_columns :: "db_schema \<Rightarrow> model_table \<Rightarrow> string list" where
  "missing_columns v M =
     (case map_of (sch_tables v) (md_name M) of
        None \<Rightarrow> map col_name (md_columns M)
      | Some T \<Rightarrow> filter (\<lambda>c. c \<notin> set (column_names T)) (map col_name (md_columns M)))"

definition changed_columns :: "db_schema \<Rightarrow> model_table \<Rightarrow> string list" where
  "changed_columns v M =
     (case map_of (sch_tables v) (md_name M) of
        None \<Rightarrow> []
      | Some T \<Rightarrow> map col_name (filter (\<lambda>k. col_name k \<in> set (column_names T) \<and>
          column_shape k \<notin> set (map column_shape (tab_columns T))) (md_columns M)))"

definition missing_indexes :: "db_schema \<Rightarrow> model_table \<Rightarrow> string list" where
  "missing_indexes v M = filter (\<lambda>i. \<not> has_index v i) (map fst (md_indexes M))"

lemma models_of_runs_differ:
  "case apply_all S (concat upgrades) empty_schema of
     Some v \<Rightarrow> missing_columns v run_model =
       [''max_prompt_tokens'', ''max_completion_tokens'', ''truncation_strategy'', ''response_format'', ''tool_choice'',
        ''parallel_tool_calls''] \<and>
       changed_columns v assistant_model =
         [''id'', ''created_at'', ''updated_at'', ''assistant_metadata'', ''temperature'', ''top_p'']
   | None \<Rightarrow> False"
  by code_simp

lemma indexes_of_models_missing:
  "case apply_all S (concat upgrades) empty_schema of
     Some v \<Rightarrow> map (missing_indexes v) [session_model, session_message_model, checkpoint_model] =
       [[''ix_sessions_status''], [''ix_session_messages_session_id''], [''ix_checkpoints_session_id'', ''idx_checkpoints_uuid'']]
   | None \<Rightarrow> False"
  by code_simp

section \<open>The check of the hashed keys\<close>

text \<open>
  \<open>verify_phase3_state\<close>, of a database the script has reached: what it reads of the catalogue and
  counts in the two tables, and its exit code. Printing is left out; any exception ends in 1.
\<close>

definition check_column_exists :: "db_schema \<Rightarrow> string \<Rightarrow> string \<Rightarrow> bool" where
  "check_column_exists v table_name column_name =
     (case map_of (sch_tables v) table_name of None \<Rightarrow> False | Some T \<Rightarrow> column_name \<in> set (column_names T))"

definition count_hashed_records :: "db_schema \<Rightarrow> string \<Rightarrow> exn + nat \<times> nat" where
  "count_hashed_records v table_name =
     (if table_name \<notin> {''sessions'', ''assistants''} then Inl (ValueError ''Invalid table_name'')
      else case map_of (sch_tables v) table_name of
        None \<Rightarrow> Inl (OtherException ''UndefinedTable'')
      | Some T \<Rightarrow>
          if ''owner_api_key_hash'' \<notin> set (column_names T) then Inl (OtherException ''UndefinedColumn'')
          else Inr (length (tab_rows T),
            length (filter (\<lambda>r. map_of r ''owner_api_key_hash'' \<notin> {None, Some NullCell}) (tab_rows T))))"

definition verify_phase3_state :: "string option \<Rightarrow> db_schema \<Rightarrow> int" where
  "verify_phase3_state database_url v =
     (if \<not> given database_url then 1
      else if \<not> check_column_exists v ''sessions'' ''owner_api_key_hash'' then 1
      else case count_hashed_records v ''sessions'' of
        Inl e \<Rightarrow> 1
      | Inr (sessions_total, sessions_hashed) \<Rightarrow>
          if \<not> check_column_exists v ''assistants'' ''owner_api_key_hash'' then 1
          else case count_hashed_records v ''assistants'' of
            Inl e \<Rightarrow> 1
          | Inr (assistants_total, assistants_hashed) \<Rightarrow>
              let phase3_complete = \<not> check_column_exists v ''sessions'' ''owner_api_key'' \<and>
                    \<not> check_column_exists v ''assistants'' ''owner_api_key'';
                  hashes_complete = (sessions_total = 0 \<or> sessions_hashed = sessions_total) \<and>
                    (assistants_total = 0 \<or> assistants_hashed = assistants_total) in
              if phase3_complete \<and> hashes_complete then 0
              else if \<not> hashes_complete then 1
              else 0)"

end
