(* ===== verification/MigrationProperties.thy ===== *)
theory MigrationProperties
  imports Migrations RefLibrary
begin

text \<open>
  What the migrations do to a database with rows: they lead to the tables of the session models,
  every script but the one that drops the keys is undone by its \<open>downgrade\<close>, and the owners of
  sessions and assistants survive the hashing of their keys.
\<close>

section \<open>Running scripts\<close>

context ddl_database begin

lemma statements_run:
  "case apply_all S ds (view db) of
     None \<Rightarrow> \<exists>e. fst (run_statements execute ds db) = Inl e
   | Some v \<Rightarrow> fst (run_statements execute ds db) = Inr () \<and> view (snd (run_statements execute ds db)) = v"
proof (induction ds arbitrary: db)
  case Nil
  then show ?case by (simp add: ret_def)
next
  case (Cons d ds)
  obtain r db1 where run: "execute d db = (r, db1)" by fastforce
  show ?case
  proof (cases "apply_ddl S d (view db)")
    case None
    with executes [of d db] run show ?thesis by (auto simp: and_then_def)
  next
    case (Some v)
    with executes [of d db] run have "r = Inr ()" and "view db1 = v" by auto
    with Some run Cons.IH [of db1] show ?thesis
      by (auto simp: and_then_def split: option.splits)
  qed
qed

lemma migrations_run:
  "case apply_all S (concat scripts) (view db) of
     None \<Rightarrow> \<exists>e. do_run_migrations execute scripts db = (Inl e, db)
   | Some v \<Rightarrow> \<exists>db'. do_run_migrations execute scripts db = (Inr (), db') \<and> view db' = v"
  using statements_run [of "concat scripts" db]
  by (cases "run_statements execute (concat scripts) db")
     (auto simp: do_run_migrations_def in_transaction_def split: option.splits sum.splits)

lemma migrations_done:
  "do_run_migrations execute scripts db = (Inr (), db') \<longleftrightarrow>
     do_run_migrations execute scripts db = (Inr (), db') \<and> apply_all S (concat scripts) (view db) = Some (view db')"
  using migrations_run [of scripts db] by (auto split: option.splits)

end

section \<open>Databases at a revision\<close>

definition downgrades :: "ddl list list" where
  "downgrades = map mg_downgrade migrations"

text \<open>A database with any rows after the first scripts.\<close>

definition at_revision :: "sql_session \<Rightarrow> nat \<Rightarrow> db_schema \<Rightarrow> bool" where
  "at_revision S k v \<longleftrightarrow> schema_ok v \<and> apply_all S (concat (take k upgrades)) empty_schema = Some (emptied v)"

lemma length_upgrades: "length upgrades = 9"
  by (simp add: upgrades_def migrations_def)

lemma at_revision_upgraded:
  assumes "at_revision S k v" and "k < 9" and "apply_all S (upgrades ! k) v = Some v'"
  shows "at_revision S (Suc k) v'"
  using assms apply_all_emptied [OF assms(3)] apply_all_ok [OF _ assms(3)]
  by (simp add: at_revision_def take_Suc_conv_app_nth length_upgrades apply_all_append)

lemma empty_schema_ok: "schema_ok empty_schema"
  by (simp add: schema_ok_def empty_schema_def)

lemma emptied_empty: "emptied empty_schema = empty_schema"
  by (simp add: emptied_def empty_schema_def)

lemma at_revision_start: "at_revision S 0 v \<longleftrightarrow> v = empty_schema"
  by (cases v) (auto simp: at_revision_def empty_schema_ok emptied_empty, auto simp: emptied_def empty_schema_def)

section \<open>Undoing statements\<close>

lemma tables_id: "(\<And>n U. (n, U) \<in> set ts \<Longrightarrow> g n U = U) \<Longrightarrow> map (\<lambda>(n, U). (n, g n U)) ts = ts"
  by (induction ts) auto

lemma named_table: "schema_ok v \<Longrightarrow> (n, U) \<in> set (sch_tables v) \<Longrightarrow> map_of (sch_tables v) n = Some U"
  by (simp add: schema_ok_def)

text \<open>The table of a name is the only one it has.\<close>

lemma map_table:
  "schema_ok v \<Longrightarrow> map_of (sch_tables v) t = Some T \<Longrightarrow>
     map (\<lambda>(n, U). (n, if n = t then g T else f n U)) (sch_tables v) =
     map (\<lambda>(n, U). (n, if n = t then g U else f n U)) (sch_tables v)"
  by (intro map_cong refl) (auto simp: named_table split: prod.split dest!: named_table)

lemma filter_fresh: "x \<notin> set (map fst xs) \<Longrightarrow> filter (\<lambda>(n, i). n \<noteq> x) xs = xs"
  by (induction xs) auto

lemma undo_index:
  assumes "apply_ddl S (CreateIndex i t cs w) v = Some v'"
  shows "apply_ddl S (DropIndex i u) v' = Some v"
  using assms by (cases v) (auto simp: has_index_def Let_def filter_fresh split: option.splits if_splits)

lemma drop_added_column:
  assumes "table_ok names T" and "col_name k \<notin> set (column_names T)"
    and "\<And>r. r \<in> set (tab_rows T) \<Longrightarrow> filter (\<lambda>(n, x). n \<noteq> col_name k) (f r) = r"
  shows "drop_from_table (col_name k) (T\<lparr>tab_columns := tab_columns T @ [k], tab_rows := map f (tab_rows T)\<rparr>) = T"
proof -
  have "filter (\<lambda>k'. col_name k' \<noteq> col_name k) (tab_columns T) = tab_columns T"
    using assms(2) by (intro filter_True) (metis column_names_def image_eqI list.set_map)
  moreover have "filter (\<lambda>k'. col_name k \<notin> set (key_columns k')) (tab_keys T) = tab_keys T"
    using assms(1,2) by (intro filter_True) (auto simp: table_ok_def list_all_iff)
  moreover have "map (filter (\<lambda>(n, x). n \<noteq> col_name k) \<circ> f) (tab_rows T) = tab_rows T"
    using assms(3) by (simp add: map_idI)
  ultimately show ?thesis
    by (cases T) (simp add: drop_from_table_def)
qed

text \<open>No index of a consistent database names a column its table does not have.\<close>

lemma indexes_without:
  assumes "schema_ok v" and "map_of (sch_tables v) t = Some T" and "c \<notin> set (column_names T)"
  shows "filter (\<lambda>(n, i). ix_table i = t \<longrightarrow> c \<notin> set (index_columns i)) (sch_indexes v) = sch_indexes v"
  using assms schema_ok_index [OF assms(1)] by (fastforce simp: filter_id_conv)

lemma row_without: "row_ok ks r \<Longrightarrow> c \<notin> set (map col_name ks) \<Longrightarrow> filter (\<lambda>(n, x). n \<noteq> c) r = r"
  by (drule row_ok_names) (metis (mono_tags, lifting) case_prodI2 filter_True fst_conv image_eqI list.set_map split_beta)

lemma add_column_run:
  assumes "schema_ok v" and "apply_ddl S (AddColumn t c ty) v = Some v'"
  obtains T where "map_of (sch_tables v) t = Some T" and "c \<notin> set (column_names T)"
    and "v' = v\<lparr>sch_tables := map (\<lambda>(n, U). (n, if n = t then with_column c ty U else U)) (sch_tables v)\<rparr>"
proof -
  from assms(2) obtain T where T: "map_of (sch_tables v) t = Some T" and c: "c \<notin> set (column_names T)"
    and v': "v' = v\<lparr>sch_tables := map (\<lambda>(n, U). (n, if n = t then with_column c ty T else U)) (sch_tables v)\<rparr>"
    by (auto simp: on_table_Some split: if_splits)
  from that [OF T c] show ?thesis
    unfolding v' map_table [OF assms(1) T, of "with_column c ty" "\<lambda>n U. U"] by blast
qed

lemma refers_kept:
  "(\<And>n U. (n, U) \<in> set ts \<Longrightarrow> tab_keys (g n U) = tab_keys U) \<Longrightarrow>
     list_ex (\<lambda>(n, T). list_ex (refers t c) (tab_keys T)) (map (\<lambda>(n, U). (n, g n U)) ts) =
     list_ex (\<lambda>(n, T). list_ex (refers t c) (tab_keys T)) ts"
  by (induction ts) auto

lemma drop_with_column:
  assumes "table_ok names T" and "c \<notin> set (column_names T)"
  shows "drop_from_table c (with_column c ty T) = T"
proof -
  have "filter (\<lambda>(n, x). n \<noteq> c) r = r" if "r \<in> set (tab_rows T)" for r
    using assms that by (intro row_without [of "tab_columns T"]) (auto simp: table_ok_def list_all_iff column_names_def)
  with drop_added_column [OF assms(1), of "\<lparr>col_name = c, col_type = ty, col_nullable = True, col_default = None\<rparr>"
      "\<lambda>r. r @ [(c, NullCell)]"] assms(2)
  show ?thesis by (simp add: with_column_def)
qed

lemma drop_column_run:
  assumes "schema_ok v" and "map_of (sch_tables v) t = Some T" and "c \<in> set (column_names T)"
    and "\<not> list_ex (\<lambda>(n, T). list_ex (refers t c) (tab_keys T)) (sch_tables v)"
  shows "apply_ddl S (DropColumn t c) v = Some
    \<lparr>sch_tables = map (\<lambda>(n, U). (n, if n = t then drop_from_table c U else U)) (sch_tables v),
     sch_indexes = filter (\<lambda>(n, i). ix_table i = t \<longrightarrow> c \<notin> set (index_columns i)) (sch_indexes v)\<rparr>"
  using assms(2-4) map_table [OF assms(1,2), of "drop_from_table c" "\<lambda>n U. U"]
  unfolding drop_column_Some by auto

lemma undo_column:
  assumes "schema_ok v" and "apply_ddl S (AddColumn t c ty) v = Some v'"
    and "\<not> list_ex (\<lambda>(n, T). list_ex (refers t c) (tab_keys T)) (sch_tables v)"
  shows "apply_ddl S (DropColumn t c) v' = Some v"
proof -
  from add_column_run [OF assms(1,2)] obtain T where T: "map_of (sch_tables v) t = Some T" and c: "c \<notin> set (column_names T)"
    and v': "v' = v\<lparr>sch_tables := map (\<lambda>(n, U). (n, if n = t then with_column c ty U else U)) (sch_tables v)\<rparr>" .
  have "map_of (sch_tables v') t = Some (with_column c ty T)"
    using T by (simp add: v' map_of_map_tables)
  moreover have "c \<in> set (column_names (with_column c ty T))"
    by (simp add: column_names_def with_column_def)
  moreover have "\<not> list_ex (\<lambda>(n, T). list_ex (refers t c) (tab_keys T)) (sch_tables v')"
    using assms(3) by (simp add: v' refers_kept with_column_def)
  ultimately have "apply_ddl S (DropColumn t c) v' = Some
    \<lparr>sch_tables = map (\<lambda>(n, U). (n, if n = t then drop_from_table c U else U)) (sch_tables v'),
     sch_indexes = filter (\<lambda>(n, i). ix_table i = t \<longrightarrow> c \<notin> set (index_columns i)) (sch_indexes v')\<rparr>"
    by (rule drop_column_run [OF apply_ddl_ok [OF assms(1,2)]])
  moreover have "map (\<lambda>(n, U). (n, if n = t then drop_from_table c U else U)) (sch_tables v') = sch_tables v"
    using T c drop_with_column [OF schema_ok_table [OF assms(1) T]]
    by (auto simp: v' comp_def split_def intro!: map_idI dest!: named_table [OF assms(1)])
  ultimately show ?thesis
    by (simp add: v' indexes_without [OF assms(1) T c])
qed

text \<open>Times.\<close>

lemma alter_zone_run:
  assumes "schema_ok v" and "apply_ddl S (AlterZone t c w) v = Some v'"
  obtains T where "map_of (sch_tables v) t = Some T" and "has_time T c"
    and "v' = v\<lparr>sch_tables := map (\<lambda>(n, U). (n, if n = t then zoned S w c U else U)) (sch_tables v)\<rparr>"
proof -
  from assms(2) obtain T where T: "map_of (sch_tables v) t = Some T" and c: "has_time T c"
    and v': "v' = v\<lparr>sch_tables := map (\<lambda>(n, U). (n, if n = t then zoned S w c T else U)) (sch_tables v)\<rparr>"
    by (auto simp: on_table_Some split: if_splits)
  from that [OF T c] show ?thesis
    unfolding v' map_table [OF assms(1) T, of "zoned S w c" "\<lambda>n U. U"] by blast
qed

lemma zoned_back:
  assumes "table_ok names T" and "column_of T c = Some k" and "col_type k = Timestamp (\<not> w)"
  shows "zoned S (\<not> w) c (zoned S w c T) = T"
proof -
  have same: "k' = k" if "k' \<in> set (tab_columns T)" "col_name k' = c" for k'
    using assms(1,2) that by (auto simp: table_ok_def dest: column_of_unique)
  have "in_zone S (\<not> w) (in_zone S w x) = x" if "cell_ok (Timestamp (\<not> w)) x" for x
    using that by (cases x; cases w) auto
  moreover have "cell_ok (Timestamp (\<not> w)) x" if "row_ok (tab_columns T) r" and "(c, x) \<in> set r" for r x
  proof -
    from that obtain k' where "k' \<in> set (tab_columns T)" and "c = col_name k'" and "cell_ok (col_type k') x"
      unfolding row_ok_def list_all2_conv_all_nth in_set_conv_nth by fastforce
    with same assms(3) show ?thesis by fastforce
  qed
  ultimately have cells: "in_zone S (\<not> w) (in_zone S w x) = x" if "r \<in> set (tab_rows T)" and "(c, x) \<in> set r" for r x
    using assms(1) that unfolding table_ok_def list_all_iff by blast
  have "map (\<lambda>(n, x). (n, if n = c then in_zone S (\<not> w) x else x)) (map (\<lambda>(n, x). (n, if n = c then in_zone S w x else x)) r) = r"
    if "r \<in> set (tab_rows T)" for r
    using cells [OF that] by (auto intro!: map_idI)
  moreover have "map (\<lambda>k. if col_name k = c then k\<lparr>col_type := Timestamp (\<not> w)\<rparr> else k)
      (map (\<lambda>k. if col_name k = c then k\<lparr>col_type := Timestamp w\<rparr> else k) (tab_columns T)) = tab_columns T"
    using same assms(3) by (auto intro!: map_idI)
  ultimately show ?thesis
    by (cases T) (simp add: zoned_def map_idI)
qed

lemma column_of_zoned:
  "column_of (zoned S w c T) c = map_option (\<lambda>k. k\<lparr>col_type := Timestamp w\<rparr>) (column_of T c)"
proof -
  have "find (\<lambda>k. col_name k = c) (map (\<lambda>k. if col_name k = c then k\<lparr>col_type := Timestamp w\<rparr> else k) ks) =
      map_option (\<lambda>k. k\<lparr>col_type := Timestamp w\<rparr>) (find (\<lambda>k. col_name k = c) ks)" for ks
    by (induction ks) auto
  then show ?thesis by (simp add: column_of_def zoned_def)
qed

lemma undo_zone:
  assumes "schema_ok v" and "apply_ddl S (AlterZone t c w) v = Some v'"
    and "\<And>T. map_of (sch_tables v) t = Some T \<Longrightarrow> \<exists>k. column_of T c = Some k \<and> col_type k = Timestamp (\<not> w)"
  shows "apply_ddl S (AlterZone t c (\<not> w)) v' = Some v"
proof -
  from alter_zone_run [OF assms(1,2)] obtain T where T: "map_of (sch_tables v) t = Some T" and c: "has_time T c"
    and v': "v' = v\<lparr>sch_tables := map (\<lambda>(n, U). (n, if n = t then zoned S w c U else U)) (sch_tables v)\<rparr>" .
  from assms(3) [OF T] obtain k where k: "column_of T c = Some k" "col_type k = Timestamp (\<not> w)" by blast
  have "has_time (zoned S w c T) c"
    by (simp add: has_time_def column_of_zoned k(1))
  moreover have "map_of (sch_tables v') t = Some (zoned S w c T)"
    using T by (simp add: v' map_of_map_tables)
  moreover have "map (\<lambda>(n, U). (n, if n = t then zoned S (\<not> w) c (zoned S w c T) else U)) (sch_tables v') = sch_tables v"
    using T zoned_back [OF schema_ok_table [OF assms(1) T] k]
    by (auto simp: v' comp_def split_def intro!: map_idI dest!: named_table [OF assms(1)])
  ultimately show ?thesis
    by (simp add: on_table_Some) (simp add: v')
qed

text \<open>Names.\<close>

lemma rename_columns_back:
  "b \<notin> set xs \<Longrightarrow> map (\<lambda>c. if c = b then a else c) (map (\<lambda>c. if c = a then b else c) xs) = xs"
  by (induction xs) auto

lemma rename_pairs_back:
  "b \<notin> set (map fst xs) \<Longrightarrow>
     map (\<lambda>(n, x). (if n = b then a else n, x)) (map (\<lambda>(n, x). (if n = a then b else n, x)) xs) = xs"
  by (induction xs) auto

lemma rename_key_back: "b \<notin> set (key_columns k) \<Longrightarrow> rename_key b a (rename_key a b k) = k"
  by (cases k) (simp_all add: rename_columns_back del: list.map_comp map_map)

lemma rename_reference_back: "\<not> refers t b k \<Longrightarrow> rename_reference t b a (rename_reference t a b k) = k"
  by (cases k) (simp_all add: rename_columns_back del: list.map_comp map_map)

lemma rename_key_reference: "rename_key a b (rename_reference t c d k) = rename_reference t c d (rename_key a b k)"
  by (cases k) simp_all

lemma renamed_back:
  assumes "table_ok names U" and "n = t \<Longrightarrow> b \<notin> set (column_names U)" and "list_all (\<lambda>k. \<not> refers t b k) (tab_keys U)"
  shows "renamed_table t b a n (renamed_table t a b n U) = U"
proof (cases "n = t")
  case False
  with assms(3) show ?thesis
    by (cases U) (auto simp: renamed_table_def Let_def list_all_iff rename_reference_back intro!: map_idI)
next
  case True
  with assms have b: "b \<notin> set (column_names U)"
    and keys: "\<And>k. k \<in> set (tab_keys U) \<Longrightarrow> b \<notin> set (key_columns k) \<and> \<not> refers t b k"
    by (auto simp: table_ok_def list_all_iff)
  have "map (\<lambda>(n, x). (if n = b then a else n, x)) (map (\<lambda>(n, x). (if n = a then b else n, x)) r) = r"
    if "r \<in> set (tab_rows U)" for r
  proof -
    have "map fst r = column_names U"
      using assms(1) that by (auto simp: table_ok_def list_all_iff column_names_def dest!: row_ok_names)
    with b show ?thesis by (intro rename_pairs_back) simp
  qed
  moreover have "map (rename_reference t b a) (map (rename_key b a) (map (rename_reference t a b) (map (rename_key a b) (tab_keys U)))) = tab_keys U"
    using keys by (auto simp: rename_key_reference [symmetric] rename_key_back rename_reference_back intro!: map_idI)
  moreover have "map (\<lambda>k. if col_name k = b then k\<lparr>col_name := a\<rparr> else k)
      (map (\<lambda>k. if col_name k = a then k\<lparr>col_name := b\<rparr> else k) (tab_columns U)) = tab_columns U"
    using b by (auto simp: column_names_def intro!: map_idI)
  ultimately show ?thesis
    using True by (cases U) (simp add: renamed_table_def Let_def rename_in_table_def map_idI)
qed

lemma undo_rename:
  assumes "schema_ok v" and "apply_ddl S (RenameColumn t a b) v = Some v'"
    and "\<not> list_ex (\<lambda>(n, T). list_ex (refers t b) (tab_keys T)) (sch_tables v)"
  shows "apply_ddl S (RenameColumn t b a) v' = Some v"
proof -
  from assms(2) obtain T where T: "map_of (sch_tables v) t = Some T" and a: "a \<in> set (column_names T)"
    and b: "b \<notin> set (column_names T)" and
    v': "v' = \<lparr>sch_tables = map (\<lambda>(n, U). (n, renamed_table t a b n U)) (sch_tables v),
              sch_indexes = map (\<lambda>(n, i). (n, if ix_table i = t then rename_in_index a b i else i)) (sch_indexes v)\<rparr>"
    unfolding rename_Some by blast
  have T': "map_of (sch_tables v') t = Some (renamed_table t a b t T)"
    using T by (simp add: v' map_of_map_tables)
  have names: "column_names (renamed_table t a b t T) = map (\<lambda>c. if c = a then b else c) (column_names T)"
    by (simp add: renamed_table_def Let_def rename_in_table_def column_names_def)
  have "b \<in> set (column_names (renamed_table t a b t T))" and "a \<notin> set (column_names (renamed_table t a b t T))"
    using a b by (auto simp: names)
  moreover have "map (\<lambda>(n, U). (n, renamed_table t b a n U)) (sch_tables v') = sch_tables v"
  proof -
    have "renamed_table t b a n (renamed_table t a b n U) = U" if "(n, U) \<in> set (sch_tables v)" for n U
    proof (rule renamed_back)
      show "table_ok (map fst (sch_tables v)) U"
        using assms(1) that by (auto simp: schema_ok_def list_all_iff)
      show "list_all (\<lambda>k. \<not> refers t b k) (tab_keys U)"
        using assms(3) that by (fastforce simp: list_ex_iff list_all_iff)
      show "b \<notin> set (column_names U)" if "n = t"
        using named_table [OF assms(1) \<open>(n, U) \<in> set (sch_tables v)\<close>] that T b by simp
    qed
    then show ?thesis by (auto simp: v' intro!: map_idI)
  qed
  moreover have "map (\<lambda>(n, i). (n, if ix_table i = t then rename_in_index b a i else i)) (sch_indexes v') = sch_indexes v"
  proof -
    have "rename_in_index b a (rename_in_index a b i) = i" if i: "(m, i) \<in> set (sch_indexes v)" "ix_table i = t" for m i
    proof -
      from schema_ok_index [OF assms(1) i(1)] i(2) T b have "b \<notin> set (index_columns i)" by auto
      then show ?thesis
        using rename_pairs_back [of b "ix_columns i" a]
        by (cases i; cases "ix_where i") (auto simp: rename_in_index_def index_columns_def)
    qed
    moreover have "ix_table (rename_in_index a b i) = ix_table i" for i
      by (simp add: rename_in_index_def)
    ultimately show ?thesis by (auto simp: v' intro!: map_idI)
  qed
  ultimately show ?thesis
    unfolding rename_Some by (intro exI [of _ "renamed_table t a b t T"]) (simp add: T')
qed

section \<open>Undoing scripts\<close>

fun inverse_ddl :: "ddl \<Rightarrow> ddl" where
  "inverse_ddl (CreateIndex i t cs w) = DropIndex i t"
| "inverse_ddl (AddColumn t c ty) = DropColumn t c"
| "inverse_ddl (RenameColumn t a b) = RenameColumn t b a"
| "inverse_ddl (AlterZone t c w) = AlterZone t c (\<not> w)"
| "inverse_ddl d = d"

text \<open>Where the inverse statement restores every database of a shape.\<close>

fun undoable :: "db_schema \<Rightarrow> ddl \<Rightarrow> bool" where
  "undoable v (CreateIndex i t cs w) \<longleftrightarrow> True"
| "undoable v (AddColumn t c ty) \<longleftrightarrow> \<not> list_ex (\<lambda>(n, T). list_ex (refers t c) (tab_keys T)) (sch_tables v)"
| "undoable v (RenameColumn t a b) \<longleftrightarrow> \<not> list_ex (\<lambda>(n, T). list_ex (refers t b) (tab_keys T)) (sch_tables v)"
| "undoable v (AlterZone t c w) \<longleftrightarrow>
     (case map_of (sch_tables v) t of
        None \<Rightarrow> False
      | Some T \<Rightarrow> (case column_of T c of None \<Rightarrow> False | Some k \<Rightarrow> col_type k = Timestamp (\<not> w)))"
| "undoable v d \<longleftrightarrow> False"

primrec all_undoable :: "sql_session \<Rightarrow> db_schema \<Rightarrow> ddl list \<Rightarrow> bool" where
  "all_undoable S v [] \<longleftrightarrow> True"
| "all_undoable S v (d # ds) \<longleftrightarrow> undoable v d \<and>
     (case apply_ddl S d v of None \<Rightarrow> True | Some v' \<Rightarrow> all_undoable S v' ds)"

lemma refers_emptied: "list_ex (\<lambda>(n, T). list_ex (refers t c) (tab_keys T)) (sch_tables (emptied v)) =
    list_ex (\<lambda>(n, T). list_ex (refers t c) (tab_keys T)) (sch_tables v)"
  by (simp add: list_ex_iff emptied_def split_def)

lemma inverse_undoes:
  assumes "schema_ok v" and "undoable (emptied v) d" and "apply_ddl S d v = Some v'"
  shows "apply_ddl S (inverse_ddl d) v' = Some v"
proof (cases d)
  case (AlterZone t c w)
  with assms(2) have "\<exists>k. column_of T c = Some k \<and> col_type k = Timestamp (\<not> w)" if "map_of (sch_tables v) t = Some T" for T
    using that by (auto split: option.splits)
  with assms(1,3) show ?thesis
    unfolding AlterZone inverse_ddl.simps by (intro undo_zone)
next
  case (CreateIndex i t cs w)
  from assms(3) show ?thesis
    unfolding CreateIndex inverse_ddl.simps by (rule undo_index)
next
  case (AddColumn t c ty)
  from assms(2,3) undo_column [OF assms(1), of S t c ty v'] show ?thesis
    unfolding AddColumn inverse_ddl.simps undoable.simps refers_emptied by blast
next
  case (RenameColumn t a b)
  from assms(2,3) undo_rename [OF assms(1), of S t a b v'] show ?thesis
    unfolding RenameColumn inverse_ddl.simps undoable.simps refers_emptied by blast
qed (use assms(2) in simp_all)

lemma inverses_undo:
  "schema_ok v \<Longrightarrow> all_undoable S (emptied v) ds \<Longrightarrow> apply_all S ds v = Some v' \<Longrightarrow>
     apply_all S (rev (map inverse_ddl ds)) v' = Some v"
proof (induction ds arbitrary: v)
  case (Cons d ds)
  from Cons.prems(3) obtain v1 where d: "apply_ddl S d v = Some v1" and ds: "apply_all S ds v1 = Some v'"
    by (auto split: option.splits)
  from apply_all_emptied [of S "[d]" v v1] d have "apply_ddl S d (emptied v) = Some (emptied v1)"
    by (simp split: option.splits)
  with Cons.prems(2) have u: "undoable (emptied v) d" and "all_undoable S (emptied v1) ds" by simp_all
  with Cons.IH [OF apply_ddl_ok [OF Cons.prems(1) d] _ ds] inverse_undoes [OF Cons.prems(1) u d]
  show ?case by (simp add: apply_all_append)
qed simp

text \<open>Statements that commute may be undone in their own order.\<close>

definition commute :: "sql_session \<Rightarrow> ddl \<Rightarrow> ddl \<Rightarrow> bool" where
  "commute S d e \<longleftrightarrow> (\<forall>v. apply_all S [d, e] v = apply_all S [e, d] v)"

lemma apply_all_move: "list_all (commute S d) ds \<Longrightarrow> apply_all S (ds @ [d]) v = apply_all S (d # ds) v"
proof (induction ds arbitrary: v)
  case (Cons e ds)
  then have "apply_all S ([e, d] @ ds) v = apply_all S ([d, e] @ ds) v"
    unfolding apply_all_append by (simp add: commute_def del: apply_ddl.simps)
  moreover have "apply_all S (e # (ds @ [d])) v = apply_all S (e # (d # ds)) v"
    using Cons by (auto simp del: apply_ddl.simps split: option.split)
  ultimately show ?case by simp
qed simp

lemma apply_all_rev:
  "sorted_wrt (\<lambda>d e. commute S d e) ds \<Longrightarrow> apply_all S (rev ds) v = apply_all S ds v"
proof (induction ds arbitrary: v)
  case (Cons d ds)
  then have "apply_all S (rev ds @ [d]) v = apply_all S (ds @ [d]) v"
    by (simp add: apply_all_append)
  with Cons.prems apply_all_move [of S d ds v] show ?case by (simp add: list_all_iff)
qed simp

lemma zoned_swap:
  assumes "c \<noteq> d"
  shows "zoned S w c (zoned S x d T) = zoned S x d (zoned S w c T)"
proof -
  have one: "map (\<lambda>(n, y). (n, if n = c then in_zone S w y else y)) (map (\<lambda>(n, y). (n, if n = d then in_zone S x y else y)) r) =
      map (\<lambda>(n, y). (n, if n = d then in_zone S x y else y)) (map (\<lambda>(n, y). (n, if n = c then in_zone S w y else y)) r)" for r
    using assms by (induction r) auto
  have rows: "map (map (\<lambda>(n, y). (n, if n = c then in_zone S w y else y))) (map (map (\<lambda>(n, y). (n, if n = d then in_zone S x y else y))) rs) =
      map (map (\<lambda>(n, y). (n, if n = d then in_zone S x y else y))) (map (map (\<lambda>(n, y). (n, if n = c then in_zone S w y else y))) rs)" for rs
    by (induction rs) (simp_all add: one del: map_map)
  have cols: "map (\<lambda>k. if col_name k = c then k\<lparr>col_type := Timestamp w\<rparr> else k)
      (map (\<lambda>k. if col_name k = d then k\<lparr>col_type := Timestamp x\<rparr> else k) ks) =
    map (\<lambda>k. if col_name k = d then k\<lparr>col_type := Timestamp x\<rparr> else k)
      (map (\<lambda>k. if col_name k = c then k\<lparr>col_type := Timestamp w\<rparr> else k) ks)" for ks
    using assms by (induction ks) auto
  show ?thesis by (cases T) (auto simp: zoned_def simp del: map_map intro: cols rows)
qed

lemma column_of_zoned_other: "c \<noteq> d \<Longrightarrow> column_of (zoned S x d T) c = column_of T c"
proof -
  assume "c \<noteq> d"
  then have "find (\<lambda>k. col_name k = c) (map (\<lambda>k. if col_name k = d then k\<lparr>col_type := Timestamp x\<rparr> else k) ks) =
      find (\<lambda>k. col_name k = c) ks" for ks
    by (induction ks) auto
  then show ?thesis by (simp add: column_of_def zoned_def)
qed

lemma has_time_zoned: "c \<noteq> d \<Longrightarrow> has_time (zoned S x d T) c \<longleftrightarrow> has_time T c"
  by (simp add: has_time_def column_of_zoned_other)

lemma map_tables_twice:
  "map (\<lambda>(n, U). (n, g n U)) (map (\<lambda>(n, U). (n, f n U)) ts) = map (\<lambda>(n, U). (n, g n (f n U))) ts"
  by (induction ts) auto

lemma on_table_same:
  "(case on_table t f v of None \<Rightarrow> None | Some v' \<Rightarrow> on_table t g v') =
     on_table t (\<lambda>T. case f T of None \<Rightarrow> None | Some T' \<Rightarrow> g T') v"
proof (cases "map_of (sch_tables v) t")
  case (Some T)
  then show ?thesis
    by (cases "f T") (auto simp: on_table_def map_of_map_tables map_tables_twice simp del: map_map split: option.split cong: if_cong)
qed (simp add: on_table_def)

lemma on_table_other:
  assumes "t \<noteq> u"
  shows "(case on_table t f v of None \<Rightarrow> None | Some v' \<Rightarrow> on_table u g v') =
     (case on_table u g v of None \<Rightarrow> None | Some v' \<Rightarrow> on_table t f v')"
proof (cases "map_of (sch_tables v) t"; cases "map_of (sch_tables v) u")
  fix T U assume T: "map_of (sch_tables v) t = Some T" and U: "map_of (sch_tables v) u = Some U"
  with assms show ?thesis
    by (cases "f T"; cases "g U") (auto simp: on_table_def map_of_map_tables map_tables_twice simp del: map_map
        intro!: map_cong arg_cong [where f = "\<lambda>ts. v\<lparr>sch_tables := ts\<rparr>"])
qed (use assms in \<open>auto simp: on_table_def map_of_map_tables split: option.split\<close>)

lemma apply_two: "apply_all S [d, e] v = (case apply_ddl S d v of None \<Rightarrow> None | Some v' \<Rightarrow> apply_ddl S e v')"
  by (simp split: option.split)

lemma zones_commute:
  assumes "(t, c) \<noteq> (u, d)"
  shows "commute S (AlterZone t c w) (AlterZone u d x)"
proof (cases "t = u")
  case False
  then show ?thesis
    unfolding commute_def apply_two apply_ddl.simps by (simp add: on_table_other [OF False])
next
  case True
  with assms have "c \<noteq> d" by simp
  then have "(\<lambda>T. case if has_time T c then Some (zoned S w c T) else None of
        None \<Rightarrow> None | Some T' \<Rightarrow> if has_time T' d then Some (zoned S x d T') else None) =
      (\<lambda>T. case if has_time T d then Some (zoned S x d T) else None of
        None \<Rightarrow> None | Some T' \<Rightarrow> if has_time T' c then Some (zoned S w c T') else None)"
    by (intro ext) (simp add: has_time_zoned zoned_swap [of c d])
  then show ?thesis
    unfolding commute_def apply_two apply_ddl.simps True on_table_same by simp
qed

text \<open>New tables with their indexes.\<close>

fun index_on :: "string \<Rightarrow> ddl \<Rightarrow> bool" where
  "index_on t (CreateIndex i u cs w) \<longleftrightarrow> u = t"
| "index_on t d \<longleftrightarrow> False"

lemma indexes_added:
  "list_all (index_on t) ds \<Longrightarrow> apply_all S ds v = Some v' \<Longrightarrow>
     \<exists>is. v' = v\<lparr>sch_indexes := sch_indexes v @ is\<rparr> \<and> list_all (\<lambda>(n, i). ix_table i = t) is"
proof (induction ds arbitrary: v)
  case Nil
  then show ?case by (auto intro: exI [of _ "[]"])
next
  case (Cons d ds)
  from Cons.prems(1) obtain i cs w where d: "d = CreateIndex i t cs w" by (cases d) auto
  with Cons.prems(2) have "apply_all S ds (v\<lparr>sch_indexes := sch_indexes v @ [(i, \<lparr>ix_table = t, ix_columns = cs, ix_where = w\<rparr>)]\<rparr>) = Some v'"
    by (auto simp: Let_def split: option.splits if_splits)
  with Cons.IH Cons.prems(1) obtain "is" where "list_all (\<lambda>(n, i). ix_table i = t) is" and
    "v' = v\<lparr>sch_indexes := sch_indexes v @ (i, \<lparr>ix_table = t, ix_columns = cs, ix_where = w\<rparr>) # is\<rparr>"
    by fastforce
  then show ?case
    by (intro exI [of _ "(i, \<lparr>ix_table = t, ix_columns = cs, ix_where = w\<rparr>) # is"]) simp
qed

lemma undo_table:
  assumes "schema_ok v" and "apply_all S (CreateTable t cs ks # ds) v = Some v'" and "list_all (index_on t) ds"
  shows "apply_ddl S (DropTable t) v' = Some v"
proof -
  let ?T = "\<lparr>tab_columns = cs, tab_keys = ks, tab_rows = []\<rparr>"
  from assms(2) have t: "t \<notin> set (map fst (sch_tables v))"
    and "apply_all S ds (v\<lparr>sch_tables := sch_tables v @ [(t, ?T)]\<rparr>) = Some v'"
    by (auto simp: has_table_def split: if_splits)
  with indexes_added [OF assms(3) this(2)] obtain "is" where "is": "list_all (\<lambda>(n, i). ix_table i = t) is"
    and v': "v' = v\<lparr>sch_tables := sch_tables v @ [(t, ?T)], sch_indexes := sch_indexes v @ is\<rparr>" by auto
  have "filter (\<lambda>(n, i). ix_table i \<noteq> t) (sch_indexes v) = sch_indexes v"
    using schema_ok_index [OF assms(1)] t by (intro filter_True) (force dest: map_of_SomeD)
  moreover have "filter (\<lambda>(n, i). ix_table i \<noteq> t) is = []"
    using "is" by (auto simp: filter_empty_conv list_all_iff)
  moreover have "t \<notin> set (referenced k)" if "(n, U) \<in> set (sch_tables v)" "k \<in> set (tab_keys U)" for n U k
    using assms(1) t that by (fastforce simp: schema_ok_def table_ok_def list_all_iff)
  ultimately show ?thesis
    using filter_fresh [OF t] by (cases v) (auto simp: v' has_table_def list_ex_iff)
qed

lemma undo_tables:
  "schema_ok v \<Longrightarrow> apply_all S (concat (map (\<lambda>(t, cs, ks, ds). CreateTable t cs ks # ds) bs)) v = Some v' \<Longrightarrow>
     list_all (\<lambda>(t, cs, ks, ds). list_all (index_on t) ds) bs \<Longrightarrow>
     apply_all S (rev (map (\<lambda>(t, cs, ks, ds). DropTable t) bs)) v' = Some v"
proof (induction bs arbitrary: v)
  case (Cons b bs)
  obtain t cs ks ds where b: "b = (t, cs, ks, ds)" by (cases b)
  from Cons.prems(2) obtain v1 where one: "apply_all S (CreateTable t cs ks # ds) v = Some v1"
    and rest: "apply_all S (concat (map (\<lambda>(t, cs, ks, ds). CreateTable t cs ks # ds) bs)) v1 = Some v'"
    by (auto simp: b apply_all_append simp del: apply_ddl.simps split: option.splits)
  from Cons.IH [OF apply_all_ok [OF Cons.prems(1) one] rest] Cons.prems(3) undo_table [OF Cons.prems(1) one]
  show ?case by (simp add: b apply_all_append del: apply_ddl.simps)
qed simp

section \<open>Hashing the keys\<close>

definition keyed :: "sql_session \<Rightarrow> string \<Rightarrow> column_type \<Rightarrow> string \<Rightarrow> db_table \<Rightarrow> db_table" where
  "keyed S h ty c T =
     (let T' = with_column h ty T in T'\<lparr>tab_rows := map (hashed_row S h c) (tab_rows T')\<rparr>)"

lemma keyed_keys [simp]: "tab_keys (keyed S h ty c T) = tab_keys T"
  by (simp add: keyed_def with_column_def Let_def)

lemma keyed_has: "h \<in> set (column_names (keyed S h ty c T))"
  by (simp add: keyed_def with_column_def column_names_def Let_def)

lemma drop_keyed:
  assumes "table_ok names T" and "h \<notin> set (column_names T)"
  shows "drop_from_table h (keyed S h ty c T) = T"
proof -
  have "filter (\<lambda>(n, x). n \<noteq> h) (map (\<lambda>(n, x). (n, if n = h \<and> P then y else x)) r) = filter (\<lambda>(n, x). n \<noteq> h) r" for P y r
    by (induction r) auto
  then have "filter (\<lambda>(n, x). n \<noteq> h) (hashed_row S h c r) = filter (\<lambda>(n, x). n \<noteq> h) r" for r
    unfolding hashed_row_map .
  moreover have "filter (\<lambda>(n, x). n \<noteq> h) r = r" if "r \<in> set (tab_rows T)" for r
    using assms that by (intro row_without [of "tab_columns T"]) (auto simp: table_ok_def list_all_iff column_names_def)
  ultimately show ?thesis
    using drop_added_column [OF assms(1), of "\<lparr>col_name = h, col_type = ty, col_nullable = True, col_default = None\<rparr>"
      "\<lambda>r. hashed_row S h c (r @ [(h, NullCell)])"] assms(2)
    by (simp add: keyed_def with_column_def Let_def comp_def)
qed

text \<open>A new column with the hashes of another, and an index on it.\<close>

lemma keyed_run:
  assumes "schema_ok v" and "apply_all S [AddColumn t h ty, HashColumn t h c, CreateIndex i t cs w] v = Some v'"
  obtains T where "map_of (sch_tables v) t = Some T" and "h \<notin> set (column_names T)" and "\<not> has_index v i"
    and "v' = \<lparr>sch_tables = map (\<lambda>(n, U). (n, if n = t then keyed S h ty c U else U)) (sch_tables v),
               sch_indexes = sch_indexes v @ [(i, \<lparr>ix_table = t, ix_columns = cs, ix_where = w\<rparr>)]\<rparr>"
proof -
  from assms(2) obtain v1 v2 where add: "apply_ddl S (AddColumn t h ty) v = Some v1"
    and hash: "apply_ddl S (HashColumn t h c) v1 = Some v2" and index: "apply_ddl S (CreateIndex i t cs w) v2 = Some v'"
    by (auto simp del: apply_ddl.simps split: option.splits)
  from add_column_run [OF assms(1) add] obtain T where T: "map_of (sch_tables v) t = Some T" and h: "h \<notin> set (column_names T)"
    and v1: "v1 = v\<lparr>sch_tables := map (\<lambda>(n, U). (n, if n = t then with_column h ty U else U)) (sch_tables v)\<rparr>" .
  have ok: "schema_ok v1" by (rule apply_ddl_ok [OF assms(1) add])
  from hash obtain T1 where T1: "map_of (sch_tables v1) t = Some T1" and
    "v2 = v1\<lparr>sch_tables := map (\<lambda>(n, U). (n, if n = t then T1\<lparr>tab_rows := map (hashed_row S h c) (tab_rows T1)\<rparr> else U)) (sch_tables v1)\<rparr>"
    unfolding hash_column_Some by blast
  then have "v2 = v1\<lparr>sch_tables := map (\<lambda>(n, U). (n, if n = t then U\<lparr>tab_rows := map (hashed_row S h c) (tab_rows U)\<rparr> else U)) (sch_tables v1)\<rparr>"
    by (simp only: map_table [OF ok T1, of "\<lambda>U. U\<lparr>tab_rows := map (hashed_row S h c) (tab_rows U)\<rparr>" "\<lambda>n U. U"])
  then have v2: "v2 = v\<lparr>sch_tables := map (\<lambda>(n, U). (n, if n = t then keyed S h ty c U else U)) (sch_tables v)\<rparr>"
    by (auto simp: v1 map_tables_twice keyed_def Let_def simp del: map_map
        intro!: map_cong arg_cong [where f = "\<lambda>ts. v\<lparr>sch_tables := ts\<rparr>"])
  from index have "\<not> has_index v i" and
    "v' = v2\<lparr>sch_indexes := sch_indexes v2 @ [(i, \<lparr>ix_table = t, ix_columns = cs, ix_where = w\<rparr>)]\<rparr>"
    by (auto simp: v2 has_index_def Let_def split: option.splits if_splits)
  with that [OF T h] v2 show ?thesis by (cases v) simp
qed

lemma drop_keyed_column:
  assumes "schema_ok v" and "map_of (sch_tables v) t = Some T" and "h \<notin> set (column_names T)" and "schema_ok w"
    and "sch_tables w = map (\<lambda>(n, U). (n, if n = t then keyed S h ty c U else g n U)) (sch_tables v)"
    and "sch_indexes w = sch_indexes v"
    and "\<not> list_ex (\<lambda>(n, T). list_ex (refers t h) (tab_keys T)) (sch_tables w)"
  shows "apply_ddl S (DropColumn t h) w =
    Some \<lparr>sch_tables = map (\<lambda>(n, U). (n, if n = t then U else g n U)) (sch_tables v), sch_indexes = sch_indexes v\<rparr>"
proof -
  have "map_of (sch_tables w) t = Some (keyed S h ty c T)"
    using assms(2) by (simp add: assms(5) map_of_map_tables)
  note run = drop_column_run [OF assms(4) this keyed_has assms(7), of S]
  have "drop_from_table h (keyed S h ty c U) = U" if "(t, U) \<in> set (sch_tables v)" for U
    using named_table [OF assms(1) that] assms(2,3) drop_keyed [OF schema_ok_table [OF assms(1,2)]] by simp
  then have "map (\<lambda>(n, U). (n, if n = t then drop_from_table h U else U)) (sch_tables w) =
      map (\<lambda>(n, U). (n, if n = t then U else g n U)) (sch_tables v)"
    by (auto simp: assms(5) map_tables_twice simp del: map_map intro!: map_cong)
  with run show ?thesis
    by (simp add: assms(6) indexes_without [OF assms(1-3)])
qed

lemma undo_keyed:
  assumes "schema_ok v" and "t \<noteq> u" and "i \<noteq> j"
    and "apply_all S ([AddColumn t h ty, HashColumn t h c, CreateIndex i t cs w] @
        [AddColumn u h ty, HashColumn u h c, CreateIndex j u cs w]) v = Some v'"
    and "\<not> list_ex (\<lambda>(n, T). list_ex (refers t h) (tab_keys T)) (sch_tables v)"
    and "\<not> list_ex (\<lambda>(n, T). list_ex (refers u h) (tab_keys T)) (sch_tables v)"
  shows "apply_all S [DropIndex i t, DropIndex j u, DropColumn t h, DropColumn u h] v' = Some v"
proof -
  from assms(4) obtain v1 where one: "apply_all S [AddColumn t h ty, HashColumn t h c, CreateIndex i t cs w] v = Some v1"
    and two: "apply_all S [AddColumn u h ty, HashColumn u h c, CreateIndex j u cs w] v1 = Some v'"
    unfolding apply_all_append by (auto simp del: apply_all.simps split: option.splits)
  from keyed_run [OF assms(1) one] obtain T where T: "map_of (sch_tables v) t = Some T" "h \<notin> set (column_names T)"
    and i: "\<not> has_index v i" and
    v1: "v1 = \<lparr>sch_tables = map (\<lambda>(n, U). (n, if n = t then keyed S h ty c U else U)) (sch_tables v),
               sch_indexes = sch_indexes v @ [(i, \<lparr>ix_table = t, ix_columns = cs, ix_where = w\<rparr>)]\<rparr>" .
  from keyed_run [OF apply_all_ok [OF assms(1) one] two] obtain U where
      "map_of (sch_tables v1) u = Some U" "h \<notin> set (column_names U)" and "\<not> has_index v1 j" and
    v': "v' = \<lparr>sch_tables = map (\<lambda>(n, U). (n, if n = u then keyed S h ty c U else U)) (sch_tables v1),
               sch_indexes = sch_indexes v1 @ [(j, \<lparr>ix_table = u, ix_columns = cs, ix_where = w\<rparr>)]\<rparr>" .
  with assms(2) have U: "map_of (sch_tables v) u = Some U" "h \<notin> set (column_names U)" and j: "\<not> has_index v j"
    by (auto simp: v1 map_of_map_tables has_index_def)
  let ?v2 = "\<lparr>sch_tables = sch_tables v', sch_indexes = sch_indexes v\<rparr>"
  have drop: "apply_all S [DropIndex i t, DropIndex j u] v' = Some ?v2"
    using i j assms(3) by (simp add: v' v1 has_index_def filter_fresh)
  have tables: "sch_tables v' = map (\<lambda>(n, U). (n, if n = u then keyed S h ty c (if n = t then keyed S h ty c U else U)
      else if n = t then keyed S h ty c U else U)) (sch_tables v)"
    by (simp add: v' v1 map_tables_twice del: map_map)
  have refs: "\<not> list_ex (\<lambda>(n, T). list_ex (refers x h) (tab_keys T)) (sch_tables v')" if "x \<in> {t, u}" for x
    using assms(5,6) that by (auto simp: tables refers_kept)
  have ok2: "schema_ok ?v2"
    by (rule apply_all_ok [OF apply_all_ok [OF assms(1,4)] drop])
  have "sch_tables ?v2 = map (\<lambda>(n, U). (n, if n = t then keyed S h ty c U else if n = u then keyed S h ty c U else U)) (sch_tables v)"
    using assms(2) by (auto simp: tables intro!: map_cong)
  from drop_keyed_column [OF assms(1) T ok2 this] refs [of t]
  have first: "apply_ddl S (DropColumn t h) ?v2 =
      Some \<lparr>sch_tables = map (\<lambda>(n, U). (n, if n = t then U else if n = u then keyed S h ty c U else U)) (sch_tables v),
        sch_indexes = sch_indexes v\<rparr>" (is "_ = Some ?v3") by simp
  have v3: "sch_tables ?v3 = map (\<lambda>(n, U). (n, if n = u then keyed S h ty c U else U)) (sch_tables v)"
    using assms(2) by (auto intro!: map_cong)
  have "\<not> list_ex (\<lambda>(n, T). list_ex (refers u h) (tab_keys T)) (sch_tables ?v3)"
    using assms(6) by (simp add: v3 refers_kept del: db_schema.select_convs)
  with drop_keyed_column [OF assms(1) U apply_ddl_ok [OF ok2 first] v3]
  have "apply_ddl S (DropColumn u h) ?v3 = Some \<lparr>sch_tables = map (\<lambda>(n, U). (n, if n = u then U else U)) (sch_tables v), sch_indexes = sch_indexes v\<rparr>"
    by simp
  then have "apply_ddl S (DropColumn u h) ?v3 = Some v"
    by (cases v) simp
  with first have "apply_all S [DropColumn t h, DropColumn u h] ?v2 = Some v"
    by (simp del: apply_ddl.simps)
  with drop show ?thesis
    using apply_all_append [of S "[DropIndex i t, DropIndex j u]" "[DropColumn t h, DropColumn u h]" v'] by simp
qed

section \<open>Every script but one is undone\<close>

definition shape_at :: "sql_session \<Rightarrow> nat \<Rightarrow> db_schema option" where
  "shape_at S k = apply_all S (concat (take k upgrades)) empty_schema"

lemma shapes_undoable:
  "list_all (\<lambda>k. case shape_at S k of None \<Rightarrow> False | Some v \<Rightarrow> all_undoable S v (upgrades ! k)) [1, 2, 3, 7, 8]"
  by code_simp

lemma shape_unreferenced:
  "case shape_at S 5 of None \<Rightarrow> False
   | Some v \<Rightarrow> list_all (\<lambda>t. \<not> list_ex (\<lambda>(n, T). list_ex (refers t ''owner_api_key_hash'') (tab_keys T)) (sch_tables v))
       [''sessions'', ''assistants'']"
  by code_simp

lemma downgrades_inverse:
  "list_all (\<lambda>k. downgrades ! k = rev (map inverse_ddl (upgrades ! k))) [1, 2, 3, 7]"
  "downgrades ! 8 = map inverse_ddl (upgrades ! 8)"
  by (simp_all add: downgrades_def upgrades_def migrations_def migration_defs)

lemma undo_inverse:
  assumes "at_revision S k v" and "k \<in> {1, 2, 3, 7}" and "apply_all S (upgrades ! k) v = Some v'"
  shows "apply_all S (downgrades ! k) v' = Some v"
proof -
  from assms(1) have "schema_ok v" and "shape_at S k = Some (emptied v)"
    by (simp_all add: at_revision_def shape_at_def)
  moreover from this(2) assms(2) shapes_undoable [of S] have "all_undoable S (emptied v) (upgrades ! k)"
    by (auto split: option.splits)
  moreover from assms(2) downgrades_inverse(1) have "downgrades ! k = rev (map inverse_ddl (upgrades ! k))" by auto
  ultimately show ?thesis
    using inverses_undo assms(3) by simp
qed

lemma undo_zones:
  assumes "at_revision S 8 v" and "apply_all S (upgrades ! 8) v = Some v'"
  shows "apply_all S (downgrades ! 8) v' = Some v"
proof -
  from assms(1) have "schema_ok v" and "shape_at S 8 = Some (emptied v)"
    by (simp_all add: at_revision_def shape_at_def)
  moreover from this(2) shapes_undoable [of S] have "all_undoable S (emptied v) (upgrades ! 8)"
    by (auto split: option.splits)
  ultimately have "apply_all S (rev (map inverse_ddl (upgrades ! 8))) v' = Some v"
    using inverses_undo assms(2) by blast
  moreover have "sorted_wrt (commute S) (map inverse_ddl (upgrades ! 8))"
    by (simp add: upgrades_def migrations_def datetimes_with_zone_def zones_commute)
  ultimately show ?thesis
    by (simp only: downgrades_inverse(2) apply_all_rev)
qed

function (sequential) blocks :: "ddl list \<Rightarrow> (string \<times> table_column list \<times> table_key list \<times> ddl list) list" where
  "blocks (CreateTable t cs ks # ds) = (t, cs, ks, takeWhile (index_on t) ds) # blocks (dropWhile (index_on t) ds)"
| "blocks _ = []"
  by pat_completeness auto

termination
  by (relation "measure length") (auto simp: le_imp_less_Suc length_dropWhile_le)

definition only_tables :: "ddl list \<Rightarrow> ddl list \<Rightarrow> bool" where
  "only_tables ups downs \<longleftrightarrow>
     ups = concat (map (\<lambda>(t, cs, ks, ds). CreateTable t cs ks # ds) (blocks ups)) \<and>
     list_all (\<lambda>(t, cs, ks, ds). list_all (index_on t) ds) (blocks ups) \<and>
     downs = rev (map (\<lambda>(t, cs, ks, ds). DropTable t) (blocks ups))"

lemma scripts_of_tables: "only_tables (upgrades ! 0) (downgrades ! 0)" "only_tables (upgrades ! 4) (downgrades ! 4)"
  by (simp_all add: only_tables_def upgrades_def downgrades_def migrations_def initial_sessions_def assistants_tables_def)

lemma undo_keys:
  assumes "at_revision S 5 v" and "apply_all S (upgrades ! 5) v = Some v'"
  shows "apply_all S (downgrades ! 5) v' = Some v"
proof -
  from assms(1) have "schema_ok v" and "shape_at S 5 = Some (emptied v)"
    by (simp_all add: at_revision_def shape_at_def)
  moreover from this(2) shape_unreferenced [of S]
  have "\<not> list_ex (\<lambda>(n, T). list_ex (refers ''sessions'' ''owner_api_key_hash'') (tab_keys T)) (sch_tables v)"
    "\<not> list_ex (\<lambda>(n, T). list_ex (refers ''assistants'' ''owner_api_key_hash'') (tab_keys T)) (sch_tables v)"
    by (simp_all add: refers_emptied)
  moreover have "upgrades ! 5 = CreateExtension ''pgcrypto'' #
      [AddColumn ''sessions'' ''owner_api_key_hash'' (VarChar 64),
       HashColumn ''sessions'' ''owner_api_key_hash'' ''owner_api_key'',
       CreateIndex ''idx_sessions_owner_api_key_hash'' ''sessions'' [(''owner_api_key_hash'', False)] None] @
      [AddColumn ''assistants'' ''owner_api_key_hash'' (VarChar 64),
       HashColumn ''assistants'' ''owner_api_key_hash'' ''owner_api_key'',
       CreateIndex ''idx_assistants_owner_api_key_hash'' ''assistants'' [(''owner_api_key_hash'', False)] None]"
    by (simp add: upgrades_def migrations_def hash_api_keys_def)
  moreover have "downgrades ! 5 =
      [DropIndex ''idx_sessions_owner_api_key_hash'' ''sessions'', DropIndex ''idx_assistants_owner_api_key_hash'' ''assistants'',
       DropColumn ''sessions'' ''owner_api_key_hash'', DropColumn ''assistants'' ''owner_api_key_hash'']"
    by (simp add: downgrades_def migrations_def hash_api_keys_def)
  ultimately show ?thesis
    using undo_keyed [of v "''sessions''" "''assistants''" "''idx_sessions_owner_api_key_hash''"
        "''idx_assistants_owner_api_key_hash''" S "''owner_api_key_hash''" "VarChar 64" "''owner_api_key''"
        "[(''owner_api_key_hash'', False)]" None v'] assms(2)
    by simp
qed

lemma undo_script:
  assumes "at_revision S k v" and "k < 9" and "k \<noteq> 6" and "apply_all S (upgrades ! k) v = Some v'"
  shows "apply_all S (downgrades ! k) v' = Some v"
proof -
  have tables: ?thesis if "only_tables (upgrades ! k) (downgrades ! k)"
    using that assms(1,4) undo_tables [of v S "blocks (upgrades ! k)" v']
    by (simp add: only_tables_def at_revision_def)
  from assms(2,3) have "k \<in> {0, 4} \<or> k \<in> {1, 2, 3, 7} \<or> k = 5 \<or> k = 8" by auto
  with assms(1,4) tables scripts_of_tables undo_inverse undo_keys undo_zones show ?thesis by blast
qed

text \<open>
  C37: Whatever rows a database at a revision holds, the downgrade of the script that comes
  next restores it after that script's upgrade went through, for every script but the two
  whose documentation calls the downgrade lossy, the one that hashes the keys and the one
  that drops them.
\<close>

theorem scripts_undone:
  assumes "ddl_database S execute view" and "at_revision S k (view db)" and "k < 9" and "k \<noteq> 5" and "k \<noteq> 6"
    and "do_run_migrations execute [upgrades ! k] db = (Inr (), db1)"
  shows "\<exists>db2. do_run_migrations execute [downgrades ! k] db1 = (Inr (), db2) \<and> view db2 = view db"
proof -
  from assms(6) ddl_database.migrations_run [OF assms(1), of "[upgrades ! k]" db]
  have "apply_all S (upgrades ! k) (view db) = Some (view db1)" by (auto split: option.splits)
  from undo_script [OF assms(2,3,5) this] ddl_database.migrations_run [OF assms(1), of "[downgrades ! k]" db1]
  show ?thesis by (auto split: option.splits)
qed

section \<open>Upgrading a database with rows\<close>

text \<open>A digest of 64 characters fits the column it is written to.\<close>

fun wide :: "db_schema \<Rightarrow> ddl \<Rightarrow> bool" where
  "wide v (HashColumn t h c) \<longleftrightarrow>
     (case map_of (sch_tables v) t of
        None \<Rightarrow> False
      | Some T \<Rightarrow> (case column_of T h of None \<Rightarrow> False | Some k \<Rightarrow> col_type k = VarChar 64))"
| "wide v d \<longleftrightarrow> True"

primrec all_wide :: "sql_session \<Rightarrow> db_schema \<Rightarrow> ddl list \<Rightarrow> bool" where
  "all_wide S v [] \<longleftrightarrow> True"
| "all_wide S v (d # ds) \<longleftrightarrow> wide v d \<and>
     (case apply_ddl S d v of None \<Rightarrow> True | Some v' \<Rightarrow> all_wide S v' ds)"

lemma wide_runs:
  assumes "wide (emptied v) d" and "\<And>s. length (sql_digest S s) \<le> 64" and "apply_ddl S d (emptied v) = Some w"
  shows "\<exists>v'. apply_ddl S d v = Some v' \<and> emptied v' = w"
proof (cases "updates_rows d")
  case False
  with assms(3) show ?thesis by (auto simp: apply_ddl_emptied)
next
  case True
  then obtain t h c where d: "d = HashColumn t h c" by (auto simp: updates_rows_def split: ddl.splits)
  from assms(3) obtain T where T: "map_of (sch_tables v) t = Some T" and "hashable S h c (no_rows T)"
    unfolding d hash_column_Some by auto
  moreover from assms(1) T have "\<exists>k. column_of T h = Some k \<and> col_type k = VarChar 64"
    by (auto simp: d split: option.splits)
  ultimately have "hashable S h c T"
    using assms(2) by (auto simp: hashable_def list_all_iff split: option.splits table_cell.splits)
  with T have "\<exists>v'. apply_ddl S d v = Some v'"
    unfolding d hash_column_Some by blast
  with assms(3) hash_column_emptied [of S t h c v] show ?thesis
    unfolding d by fastforce
qed

lemma all_wide_run:
  assumes "\<And>s. length (sql_digest S s) \<le> 64"
  shows "all_wide S (emptied v) ds \<Longrightarrow> apply_all S ds (emptied v) = Some w \<Longrightarrow> \<exists>v'. apply_all S ds v = Some v' \<and> emptied v' = w"
proof (induction ds arbitrary: v)
  case (Cons d ds)
  from Cons.prems(2) obtain w1 where d: "apply_ddl S d (emptied v) = Some w1" and ds: "apply_all S ds w1 = Some w"
    by (auto split: option.splits)
  with Cons.prems(1) have "wide (emptied v) d" and wide: "all_wide S w1 ds" by simp_all
  from wide_runs [OF this(1) assms d] obtain v1 where "apply_ddl S d v = Some v1" and w1: "emptied v1 = w1" by blast
  moreover from Cons.IH [of v1] wide ds w1 obtain v' where "apply_all S ds v1 = Some v'" and "emptied v' = w" by auto
  ultimately show ?case by simp
qed simp

lemma all_wide_append:
  "all_wide S v (ds @ es) \<longleftrightarrow> all_wide S v ds \<and> (case apply_all S ds v of None \<Rightarrow> True | Some w \<Rightarrow> all_wide S w es)"
  by (induction ds arbitrary: v) (auto split: option.split)

lemma upgrades_wide: "all_wide S empty_schema (concat upgrades)"
  by code_simp

lemma serves_emptied: "serves (emptied v) M = serves v M"
  by (cases "map_of (sch_tables v) (md_name M)") (simp_all add: serves_def)

lemma upgraded_with_rows:
  assumes "at_revision S k v" and "\<And>s. length (sql_digest S s) \<le> 64"
  shows "\<exists>v'. apply_all S (concat (drop k upgrades)) v = Some v' \<and> schema_ok v' \<and>
    list_all (serves v') [session_model, session_message_model, checkpoint_model]"
proof -
  from upgraded [of S] obtain w where w: "apply_all S (concat upgrades) empty_schema = Some w"
    and serves: "list_all (serves w) [session_model, session_message_model, checkpoint_model]"
    by (auto split: option.splits)
  from assms(1) have ok: "schema_ok v" and shape: "shape_at S k = Some (emptied v)"
    by (simp_all add: at_revision_def shape_at_def)
  have split: "concat upgrades = concat (take k upgrades) @ concat (drop k upgrades)"
    by (simp flip: concat_append)
  with w shape have "apply_all S (concat (drop k upgrades)) (emptied v) = Some w"
    by (simp add: shape_at_def apply_all_append split: option.splits)
  moreover from upgrades_wide [of S] split shape have "all_wide S (emptied v) (concat (drop k upgrades))"
    by (simp add: shape_at_def all_wide_append)
  ultimately obtain v' where v': "apply_all S (concat (drop k upgrades)) v = Some v'" and "emptied v' = w"
    using all_wide_run [OF assms(2)] by blast
  with serves serves_emptied [of v'] apply_all_ok [OF ok v'] show ?thesis by auto
qed

text \<open>
  C36: Whatever rows a database at a revision holds, the scripts that follow run through, as
  long as a digest has at most 64 characters, and leave a consistent database whose tables
  have exactly the columns, types and nullability that the classes of sessions, messages and
  checkpoints declare.
\<close>

theorem schema_upgraded:
  assumes "ddl_database S execute view" and "at_revision S k (view db)"
    and "\<And>s. length (sql_digest S s) \<le> 64"
  shows "\<exists>db'. do_run_migrations execute (drop k upgrades) db = (Inr (), db') \<and> schema_ok (view db') \<and>
    list_all (serves (view db')) [session_model, session_message_model, checkpoint_model]"
  using ddl_database.migrations_run [OF assms(1), of "drop k upgrades" db] upgraded_with_rows [OF assms(2,3)]
  by (auto split: option.splits)

section \<open>The owners of sessions and assistants\<close>

definition hash_cell :: "pylib \<Rightarrow> table_row \<Rightarrow> table_cell" where
  "hash_cell L r = (case map_of r ''owner_api_key'' of Some (TextCell k) \<Rightarrow> TextCell (hash_api_key L k) | _ \<Rightarrow> NullCell)"

definition hashed_owner :: "pylib \<Rightarrow> table_row \<Rightarrow> table_row" where
  "hashed_owner L r = filter (\<lambda>(n, x). n \<noteq> ''owner_api_key'') r @ [(''owner_api_key_hash'', hash_cell L r)]"

lemma map_untouched: "h \<notin> set (map fst r) \<Longrightarrow> map (\<lambda>(n, x). (n, if n = h \<and> P then y else x)) r = r"
  by (induction r) auto

lemma hashed_new_cell:
  assumes "''owner_api_key_hash'' \<notin> set (map fst r)" and "sql_digest S = hash_api_key L"
  shows "hashed_row S ''owner_api_key_hash'' ''owner_api_key'' (r @ [(''owner_api_key_hash'', NullCell)]) =
    r @ [(''owner_api_key_hash'', hash_cell L r)]"
proof -
  let ?r = "r @ [(''owner_api_key_hash'', NullCell)]"
  have "map_of ?r ''owner_api_key'' = map_of r ''owner_api_key''"
    by (simp add: map_of_append map_add_def split: option.split)
  then show ?thesis
    using map_untouched [OF assms(1)] assms(2)
    by (auto simp: hashed_row_map hash_cell_def split: option.splits table_cell.splits)
qed

lemma keyed_dropped_rows:
  assumes "table_ok names T" and "''owner_api_key_hash'' \<notin> set (column_names T)" and "sql_digest S = hash_api_key L"
  shows "tab_rows (drop_from_table ''owner_api_key'' (keyed S ''owner_api_key_hash'' ty ''owner_api_key'' T)) =
    map (hashed_owner L) (tab_rows T)"
proof -
  have "''owner_api_key_hash'' \<notin> set (map fst r)" if "r \<in> set (tab_rows T)" for r
    using assms(1,2) that by (auto simp: table_ok_def list_all_iff column_names_def dest!: row_ok_names simp del: set_map)
  then show ?thesis
    by (simp add: drop_from_table_def keyed_def with_column_def Let_def hashed_owner_def hashed_new_cell [OF _ assms(3)])
qed

lemma keys_dropped:
  assumes "schema_ok v" and "apply_all S (upgrades ! 6) v = Some v'"
  shows "sch_tables v' = map (\<lambda>(n, U). (n, if n \<in> {''sessions'', ''assistants''} then drop_from_table ''owner_api_key'' U else U))
    (sch_tables v)"
proof -
  have ups: "upgrades ! 6 = [SetTimeout ''30s'', DropIndex ''idx_sessions_owner_api_key'' ''sessions'',
      DropIndex ''idx_assistants_owner_api_key'' ''assistants''] @
     [DropColumn ''sessions'' ''owner_api_key'', DropColumn ''assistants'' ''owner_api_key'']"
    by (simp add: upgrades_def migrations_def drop_plaintext_api_keys_def)
  from assms(2) obtain v1 where one: "apply_all S [SetTimeout ''30s'', DropIndex ''idx_sessions_owner_api_key'' ''sessions'',
      DropIndex ''idx_assistants_owner_api_key'' ''assistants''] v = Some v1"
    and two: "apply_all S [DropColumn ''sessions'' ''owner_api_key'', DropColumn ''assistants'' ''owner_api_key''] v1 = Some v'"
    unfolding ups apply_all_append by (auto simp del: apply_all.simps split: option.splits)
  from one have v1: "sch_tables v1 = sch_tables v"
    by (auto split: if_splits)
  from two obtain v2 where s: "apply_ddl S (DropColumn ''sessions'' ''owner_api_key'') v1 = Some v2"
    and a: "apply_ddl S (DropColumn ''assistants'' ''owner_api_key'') v2 = Some v'"
    by (auto simp del: apply_ddl.simps split: option.splits)
  have ok1: "schema_ok v1" by (rule apply_all_ok [OF assms(1) one])
  have "sch_tables v2 = map (\<lambda>(n, U). (n, if n = ''sessions'' then drop_from_table ''owner_api_key'' U else U)) (sch_tables v1)"
    using s map_table [OF ok1, of "''sessions''" _ "drop_from_table ''owner_api_key''" "\<lambda>n U. U"]
    unfolding drop_column_Some by auto
  moreover have "sch_tables v' = map (\<lambda>(n, U). (n, if n = ''assistants'' then drop_from_table ''owner_api_key'' U else U)) (sch_tables v2)"
    using a map_table [OF apply_ddl_ok [OF ok1 s], of "''assistants''" _ "drop_from_table ''owner_api_key''" "\<lambda>n U. U"]
    unfolding drop_column_Some by auto
  ultimately show ?thesis
    by (auto simp: v1 map_tables_twice simp del: map_map intro!: map_cong)
qed

lemma keys_added:
  assumes "schema_ok v" and "apply_all S (upgrades ! 5) v = Some v'"
  shows "sch_tables v' = map (\<lambda>(n, U). (n, if n \<in> {''sessions'', ''assistants''}
      then keyed S ''owner_api_key_hash'' (VarChar 64) ''owner_api_key'' U else U)) (sch_tables v)"
    and "map_of (sch_tables v) t = Some T \<Longrightarrow> t \<in> {''sessions'', ''assistants''} \<Longrightarrow> ''owner_api_key_hash'' \<notin> set (column_names T)"
proof -
  let ?add = "\<lambda>t i. [AddColumn t ''owner_api_key_hash'' (VarChar 64), HashColumn t ''owner_api_key_hash'' ''owner_api_key'',
       CreateIndex i t [(''owner_api_key_hash'', False)] None]"
  have ups: "upgrades ! 5 = [CreateExtension ''pgcrypto''] @ ?add ''sessions'' ''idx_sessions_owner_api_key_hash'' @
      ?add ''assistants'' ''idx_assistants_owner_api_key_hash''"
    by (simp add: upgrades_def migrations_def hash_api_keys_def)
  from assms(2) obtain v1 where one: "apply_all S (?add ''sessions'' ''idx_sessions_owner_api_key_hash'') v = Some v1"
    and two: "apply_all S (?add ''assistants'' ''idx_assistants_owner_api_key_hash'') v1 = Some v'"
    unfolding ups apply_all_append by (auto simp del: apply_all.simps simp: apply_all.simps(1) apply_all.simps(2) [of S "CreateExtension e" for e]
      split: option.splits)
  from keyed_run [OF assms(1) one] obtain A where A: "map_of (sch_tables v) ''sessions'' = Some A"
      "''owner_api_key_hash'' \<notin> set (column_names A)" and
    v1: "v1 = \<lparr>sch_tables = map (\<lambda>(n, U). (n, if n = ''sessions'' then keyed S ''owner_api_key_hash'' (VarChar 64) ''owner_api_key'' U else U))
        (sch_tables v), sch_indexes = sch_indexes v @ [(''idx_sessions_owner_api_key_hash'',
          \<lparr>ix_table = ''sessions'', ix_columns = [(''owner_api_key_hash'', False)], ix_where = None\<rparr>)]\<rparr>" .
  from keyed_run [OF apply_all_ok [OF assms(1) one] two] obtain B where B: "map_of (sch_tables v1) ''assistants'' = Some B"
      "''owner_api_key_hash'' \<notin> set (column_names B)" and
    v': "v' = \<lparr>sch_tables = map (\<lambda>(n, U). (n, if n = ''assistants'' then keyed S ''owner_api_key_hash'' (VarChar 64) ''owner_api_key'' U else U))
        (sch_tables v1), sch_indexes = sch_indexes v1 @ [(''idx_assistants_owner_api_key_hash'',
          \<lparr>ix_table = ''assistants'', ix_columns = [(''owner_api_key_hash'', False)], ix_where = None\<rparr>)]\<rparr>" .
  show "sch_tables v' = map (\<lambda>(n, U). (n, if n \<in> {''sessions'', ''assistants''}
      then keyed S ''owner_api_key_hash'' (VarChar 64) ''owner_api_key'' U else U)) (sch_tables v)"
    by (auto simp: v' v1 map_tables_twice simp del: map_map intro!: map_cong)
  from B(1) have "map_of (sch_tables v) ''assistants'' = Some B"
    by (auto simp: v1 map_of_map_tables)
  with A B(2) show "map_of (sch_tables v) t = Some T \<Longrightarrow> t \<in> {''sessions'', ''assistants''} \<Longrightarrow>
      ''owner_api_key_hash'' \<notin> set (column_names T)" by auto
qed

text \<open>
  C38: Hashing the keys of a database and dropping the plaintext keeps every session and
  assistant, replaces its key by the hash the services compute for that key, leaves rows
  without a key without a hash, and touches no other table; no column with a key is left.
\<close>

theorem keys_hashed:
  assumes "ddl_database S execute view" and "schema_ok (view db)" and "sql_digest S = hash_api_key L"
    and "do_run_migrations execute [upgrades ! 5, upgrades ! 6] db = (Inr (), db')"
    and "map_of (sch_tables (view db)) t = Some T"
  shows "\<exists>T'. map_of (sch_tables (view db')) t = Some T' \<and>
    (if t \<in> {''sessions'', ''assistants''}
     then ''owner_api_key'' \<notin> set (column_names T') \<and> tab_rows T' = map (hashed_owner L) (tab_rows T)
     else T' = T)"
proof -
  from assms(4) ddl_database.migrations_run [OF assms(1), of "[upgrades ! 5, upgrades ! 6]" db]
  have "apply_all S (upgrades ! 5 @ upgrades ! 6) (view db) = Some (view db')"
    by (auto split: option.splits)
  then obtain v where v: "apply_all S (upgrades ! 5) (view db) = Some v" and "apply_all S (upgrades ! 6) v = Some (view db')"
    unfolding apply_all_append by (auto split: option.splits)
  from keys_dropped [OF apply_all_ok [OF assms(2) v] this(2)]
  have "sch_tables (view db') = map (\<lambda>(n, U). (n, if n \<in> {''sessions'', ''assistants''}
      then drop_from_table ''owner_api_key'' (keyed S ''owner_api_key_hash'' (VarChar 64) ''owner_api_key'' U) else U))
      (sch_tables (view db))"
    by (auto simp: keys_added(1) [OF assms(2) v] map_tables_twice simp del: map_map intro!: map_cong)
  with assms(5) have T': "map_of (sch_tables (view db')) t = Some (if t \<in> {''sessions'', ''assistants''}
      then drop_from_table ''owner_api_key'' (keyed S ''owner_api_key_hash'' (VarChar 64) ''owner_api_key'' T) else T)"
    by (simp add: map_of_map_tables)
  from keyed_dropped_rows [OF schema_ok_table [OF assms(2,5)] keys_added(2) [OF assms(2) v assms(5)] assms(3)]
  show ?thesis
    by (simp add: T' drop_from_table_names)
qed

text \<open>The key of the owner still verifies.\<close>

lemma owner_still_verifies:
  assumes "map_of r ''owner_api_key'' = Some (TextCell k)" and "is_ascii (hash_api_key L k)"
  shows "\<exists>h. (''owner_api_key_hash'', TextCell h) \<in> set (hashed_owner L r) \<and> verify_api_key L k h = Inr True"
  using assms
  by (intro exI [of _ "hash_api_key L k"]) (simp add: hashed_owner_def hash_cell_def verify_api_key_def compare_digest_def)

text \<open>The check of the hashes fails while a session or an assistant has no owner.\<close>

lemma ownerless_fails_check:
  assumes "map_of (sch_tables v) ''sessions'' = Some T" and "r \<in> set (tab_rows T)"
    and "map_of r ''owner_api_key_hash'' = Some NullCell"
  shows "verify_phase3_state url v = 1"
proof -
  have "length (filter (\<lambda>r. map_of r ''owner_api_key_hash'' \<notin> {None, Some NullCell}) (tab_rows T)) < length (tab_rows T)"
    using assms(2,3) by (intro length_filter_less [of r]) simp_all
  then show ?thesis
    using assms(1) by (auto simp: verify_phase3_state_def count_hashed_records_def Let_def split: option.split)
qed

section \<open>A concrete database\<close>

definition pad_digest :: "string \<Rightarrow> string" where
  "pad_digest s = take 64 (s @ replicate 64 (CHR ''0''))"

interpretation ref_db: ddl_database "ref_sql pad_digest" "ref_execute (ref_sql pad_digest)" "\<lambda>v. v"
  by (rule ref_executes)

definition ref_row :: "table_column list \<Rightarrow> table_row" where
  "ref_row ks = map (\<lambda>k. (col_name k,
     if col_name k = ''owner_api_key'' then TextCell ''key''
     else case col_type k of Timestamp True \<Rightarrow> AwareTime 0 | Timestamp False \<Rightarrow> NaiveTime 0 | _ \<Rightarrow> TextCell ''x'')) ks"

text \<open>A database before the keys were hashed, with one session.\<close>

definition ref_populated :: db_schema where
  "ref_populated =
     (case shape_at (ref_sql pad_digest) 5 of
        None \<Rightarrow> empty_schema
      | Some v \<Rightarrow> v\<lparr>sch_tables := map (\<lambda>(n, T). (n, if n = ''sessions'' then T\<lparr>tab_rows := [ref_row (tab_columns T)]\<rparr> else T))
          (sch_tables v)\<rparr>)"

lemma ref_populated_at: "at_revision (ref_sql pad_digest) 5 ref_populated"
  by code_simp

lemma ref_digest_fits: "length (sql_digest (ref_sql pad_digest) s) \<le> 64"
  by (simp add: ref_sql_def pad_digest_def)

theorem schema_upgraded_witness:
  "\<exists>v. do_run_migrations (ref_execute (ref_sql pad_digest)) (drop 5 upgrades) ref_populated = (Inr (), v) \<and> schema_ok v \<and>
     list_all (serves v) [session_model, session_message_model, checkpoint_model]"
  using schema_upgraded [OF ref_db.ddl_database_axioms ref_populated_at ref_digest_fits] by blast

lemma ref_hashed:
  "\<exists>v. do_run_migrations (ref_execute (ref_sql pad_digest)) [upgrades ! 5] ref_populated = (Inr (), v)"
  "\<exists>v. do_run_migrations (ref_execute (ref_sql pad_digest)) [upgrades ! 5, upgrades ! 6] ref_populated = (Inr (), v)"
proof -
  have "apply_all (ref_sql pad_digest) (upgrades ! 5) ref_populated \<noteq> None"
    "apply_all (ref_sql pad_digest) (upgrades ! 5 @ upgrades ! 6) ref_populated \<noteq> None"
    by code_simp+
  then show "\<exists>v. do_run_migrations (ref_execute (ref_sql pad_digest)) [upgrades ! 5] ref_populated = (Inr (), v)"
    "\<exists>v. do_run_migrations (ref_execute (ref_sql pad_digest)) [upgrades ! 5, upgrades ! 6] ref_populated = (Inr (), v)"
    using ref_db.migrations_run [of "[upgrades ! 5]" ref_populated] ref_db.migrations_run [of "[upgrades ! 5, upgrades ! 6]" ref_populated]
    by (auto split: option.splits)
qed

text \<open>A session with metadata, before the columns with metadata are renamed.\<close>

definition ref_described :: db_schema where
  "ref_described =
     (case shape_at (ref_sql pad_digest) 7 of
        None \<Rightarrow> empty_schema
      | Some v \<Rightarrow> v\<lparr>sch_tables := map (\<lambda>(n, T). (n, if n = ''sessions'' then T\<lparr>tab_rows := [ref_row (tab_columns T)]\<rparr> else T))
          (sch_tables v)\<rparr>)"

lemma ref_described_at: "at_revision (ref_sql pad_digest) 7 ref_described"
  by code_simp

lemma ref_renamed: "\<exists>v. do_run_migrations (ref_execute (ref_sql pad_digest)) [upgrades ! 7] ref_described = (Inr (), v)"
proof -
  have "apply_all (ref_sql pad_digest) (upgrades ! 7) ref_described \<noteq> None"
    by code_simp
  then show ?thesis
    using ref_db.migrations_run [of "[upgrades ! 7]" ref_described] by (auto split: option.splits)
qed

theorem scripts_undone_witness:
  "\<exists>v. do_run_migrations (ref_execute (ref_sql pad_digest)) [upgrades ! 7] ref_described = (Inr (), v) \<and>
     do_run_migrations (ref_execute (ref_sql pad_digest)) [downgrades ! 7] v = (Inr (), ref_described)"
proof -
  obtain v where "do_run_migrations (ref_execute (ref_sql pad_digest)) [upgrades ! 7] ref_described = (Inr (), v)"
    using ref_renamed by blast
  with scripts_undone [OF ref_db.ddl_database_axioms ref_described_at _ _ _ this] show ?thesis by simp
qed

definition ref_hash_lib :: pylib where
  "ref_hash_lib = ref_lib\<lparr>sha256 := pad_digest\<rparr>"

lemma ref_session_row:
  "case map_of (sch_tables ref_populated) ''sessions'' of
     Some T \<Rightarrow> (case tab_rows T of
        [r] \<Rightarrow> map_of r ''owner_api_key'' = Some (TextCell ''key'') \<and> map_of r ''owner_api_key_hash'' = None
      | _ \<Rightarrow> False)
   | None \<Rightarrow> False"
  by code_simp

theorem keys_hashed_witness:
  "\<exists>v T'. do_run_migrations (ref_execute (ref_sql pad_digest)) [upgrades ! 5, upgrades ! 6] ref_populated = (Inr (), v) \<and>
     map_of (sch_tables v) ''sessions'' = Some T' \<and>
     map (\<lambda>r. map_of r ''owner_api_key_hash'') (tab_rows T') = [Some (TextCell (pad_digest ''key''))]"
proof -
  obtain v where run: "do_run_migrations (ref_execute (ref_sql pad_digest)) [upgrades ! 5, upgrades ! 6] ref_populated = (Inr (), v)"
    using ref_hashed(2) by blast
  have ok: "schema_ok ref_populated"
    using ref_populated_at by (simp add: at_revision_def)
  have hash: "sql_digest (ref_sql pad_digest) = hash_api_key ref_hash_lib"
    by (rule ext) (simp add: ref_sql_def hash_api_key_def ref_hash_lib_def)
  obtain T r where T: "map_of (sch_tables ref_populated) ''sessions'' = Some T" and r: "tab_rows T = [r]"
      "map_of r ''owner_api_key'' = Some (TextCell ''key'')" "map_of r ''owner_api_key_hash'' = None"
    using ref_session_row by (auto split: option.splits list.splits)
  have "map_of (filter (\<lambda>(n, x). n \<noteq> ''owner_api_key'') r) ''owner_api_key_hash'' = None"
    using r(3) by (simp add: map_of_filter_name)
  then have "map_of (hashed_owner ref_hash_lib r) ''owner_api_key_hash'' = Some (TextCell (pad_digest ''key''))"
    by (simp add: hashed_owner_def hash_cell_def r(2) hash_api_key_def ref_hash_lib_def map_of_append map_add_def)
  with run r(1) keys_hashed [OF ref_db.ddl_database_axioms ok hash run T] show ?thesis by auto
qed

end
