(* ===== verification/RequestLog.thy ===== *)
theory RequestLog
  imports Access SdkMessages OpenAI
begin

text \<open>
  The request log, \<open>middleware/logging.py\<close>, around the rest of the stack of \<open>main.py\<close>, with the
  context variable of the correlation identifier (\<open>middleware/correlation.py\<close>), which the log
  reads.

  The log entries, the context that structlog merges into each of them and the context variable
  are part of the state. The processors that only write an entry out are left out.
\<close>

section \<open>Entries\<close>

record log_entry =
  le_level :: string
  le_event :: string
  le_fields :: "json dict"

record 'w logged =
  lw_world :: 'w
  lw_level :: int
  lw_entries :: "log_entry list"
  lw_context :: "json dict"
  lw_correlation :: string \<comment> \<open>\<open>correlation_id_ctx\<close>\<close>

definition log_levels :: "int dict" where
  "log_levels = [(''DEBUG'', 10), (''INFO'', 20), (''WARNING'', 30), (''ERROR'', 40), (''CRITICAL'', 50)]"

definition configure_logging :: "string \<Rightarrow> ('w logged, unit) io" where
  "configure_logging log_level =
     modify (\<lambda>s. s\<lparr>lw_level := (case dict_get log_levels (map upper_char log_level) of None \<Rightarrow> 20 | Some n \<Rightarrow> n)\<rparr>)"

text \<open>What is bound is merged into an entry; below the configured level nothing is written.\<close>

definition write_entry :: "string \<Rightarrow> string \<Rightarrow> json dict \<Rightarrow> ('w logged, unit) io" where
  "write_entry level event items =
     modify (\<lambda>s. if the (dict_get log_levels level) < lw_level s then s
       else s\<lparr>lw_entries := lw_entries s @ [\<lparr>le_level = level, le_event = event, le_fields = dict_update (lw_context s) items\<rparr>]\<rparr>)"

definition bind_contextvars :: "json dict \<Rightarrow> ('w logged, unit) io" where
  "bind_contextvars d = modify (\<lambda>s. s\<lparr>lw_context := dict_update (lw_context s) d\<rparr>)"

definition get_correlation_id :: "('w logged, string) io" where
  "get_correlation_id = (\<lambda>s. (Inr (lw_correlation s), s))"

section \<open>The middleware\<close>

record client_request = http_request +
  cq_query :: string
  cq_client :: "string option"

definition log_client_ip :: "client_request \<Rightarrow> string" where
  "log_client_ip rq =
     (let forwarded = map_of (rq_headers rq) ''x-forwarded-for'' in
      if given forwarded then strip (takeWhile (\<lambda>c. c \<noteq> CHR '','') (the forwarded))
      else case cq_client rq of Some host \<Rightarrow> host | None \<Rightarrow> ''unknown'')"

text \<open>The clock, the rounding of a duration and the text of an exception are given.\<close>

record 'w log_services =
  ls_clock :: "('w logged, rat) io" \<comment> \<open>\<open>time.perf_counter()\<close>\<close>
  ls_millis :: "rat \<Rightarrow> json" \<comment> \<open>\<open>round(d * 1000, 2)\<close>\<close>
  ls_text :: "exn \<Rightarrow> string"
  ls_class :: "exn \<Rightarrow> string"

text \<open>\<open>call_next\<close> runs the inner layers as a task of their own, with a copy of the context.\<close>

definition call_next :: "('w logged, 'a) io \<Rightarrow> ('w logged, 'a) io" where
  "call_next m = (\<lambda>s. case m s of (r, s') \<Rightarrow>
     (r, s'\<lparr>lw_context := lw_context s, lw_correlation := lw_correlation s\<rparr>))"

definition skip_paths :: "string list" where
  "skip_paths = [''/health'', ''/'']"

definition request_log ::
  "'w log_services \<Rightarrow> 'w logged handler \<Rightarrow> client_request \<Rightarrow> ('w logged, full_reply) io" where
  "request_log L next rq =
     (if rq_path rq \<in> set skip_paths then next (http_request.truncate rq)
      else
        and_then (ls_clock L) (\<lambda>start_time.
        and_then get_correlation_id (\<lambda>correlation_id.
        and_then (bind_contextvars
          [(''correlation_id'', JStr correlation_id), (''method'', JStr (rq_method rq)),
           (''path'', JStr (rq_path rq)), (''client_ip'', JStr (log_client_ip rq))]) (\<lambda>_.
        and_then (write_entry ''INFO'' ''request_started'' [(''query_params'', JStr (cq_query rq))]) (\<lambda>_.
        try_except
          (and_then (call_next (next (http_request.truncate rq))) (\<lambda>response.
           and_then (ls_clock L) (\<lambda>now.
           and_then (write_entry ''INFO'' ''request_completed''
             [(''status_code'', JInt (rp_status response)), (''duration_ms'', ls_millis L (now - start_time))]) (\<lambda>_.
           ret response))))
          (\<lambda>e. if is_exception e then
             and_then (ls_clock L) (\<lambda>now.
             and_then (write_entry ''ERROR'' ''request_failed''
               [(''error'', JStr (ls_text L e)), (''error_type'', JStr (ls_class L e)),
                (''duration_ms'', ls_millis L (now - start_time))]) (\<lambda>_.
             throw e))
           else throw e))))))"

text \<open>The correlation identifier is set while the inner layers run.\<close>

definition with_correlation :: "string \<Rightarrow> ('w logged, 'a) io \<Rightarrow> ('w logged, 'a) io" where
  "with_correlation i m = (\<lambda>s. case m (s\<lparr>lw_correlation := i\<rparr>) of (r, s') \<Rightarrow> (r, s'\<lparr>lw_correlation := lw_correlation s\<rparr>))"

definition correlated :: "('w logged, string) io \<Rightarrow> 'w logged handler \<Rightarrow> 'w logged handler" where
  "correlated new_id next rq =
     and_then (if given (header rq ''x-correlation-id'') then ret (the (header rq ''x-correlation-id'')) else new_id) (\<lambda>i.
     with_correlation i
       (and_then (next (rq\<lparr>rq_correlation := Some i\<rparr>)) (\<lambda>r.
        ret (r\<lparr>rp_headers := dict_set ''x-correlation-id'' i (rp_headers r)\<rparr>))))"

text \<open>The stack of \<open>create_app\<close>; what is added last is the outermost.\<close>

definition logged_application ::
  "'w log_services \<Rightarrow> settings \<Rightarrow> ('w logged, string) io \<Rightarrow> 'w logged handler \<Rightarrow> client_request \<Rightarrow> ('w logged, full_reply) io" where
  "logged_application L S new_id route =
     request_log L (correlated new_id (bearer_auth (api_key_auth S route)))"

section \<open>What a request leaves in the log\<close>

text \<open>A clock that does nothing but run.\<close>

definition quiet_clock :: "'w log_services \<Rightarrow> bool" where
  "quiet_clock L \<longleftrightarrow> (\<forall>s. \<exists>t. ls_clock L s = (Inr t, s))"

text \<open>The fields every entry of a request has.\<close>

definition request_fields :: "client_request \<Rightarrow> string \<Rightarrow> json dict" where
  "request_fields rq i =
     [(''correlation_id'', JStr i), (''method'', JStr (rq_method rq)),
      (''path'', JStr (rq_path rq)), (''client_ip'', JStr (log_client_ip rq))]"

definition started :: "client_request \<Rightarrow> 'w logged \<Rightarrow> 'w logged" where
  "started rq s =
     (let context = dict_update (lw_context s) (request_fields rq (lw_correlation s)) in
      s\<lparr>lw_context := context,
        lw_entries := lw_entries s @ [\<lparr>le_level = ''INFO'', le_event = ''request_started'',
          le_fields = dict_update context [(''query_params'', JStr (cq_query rq))]\<rparr>]\<rparr>)"

definition last_entry :: "'w log_services \<Rightarrow> json dict \<Rightarrow> exn + full_reply \<Rightarrow> rat \<Rightarrow> log_entry list" where
  "last_entry L context r d =
     (case r of
        Inr response \<Rightarrow> [\<lparr>le_level = ''INFO'', le_event = ''request_completed'',
          le_fields = dict_update context [(''status_code'', JInt (rp_status response)), (''duration_ms'', ls_millis L d)]\<rparr>]
      | Inl e \<Rightarrow>
          if is_exception e then [\<lparr>le_level = ''ERROR'', le_event = ''request_failed'',
            le_fields = dict_update context [(''error'', JStr (ls_text L e)), (''error_type'', JStr (ls_class L e)),
              (''duration_ms'', ls_millis L d)]\<rparr>]
          else [])"

lemma request_log_run:
  assumes "quiet_clock L" and "lw_level s \<le> 20" and "rq_path rq \<notin> set skip_paths"
    and "call_next (next (http_request.truncate rq)) (started rq s) = (r, s')" and "lw_level s' = lw_level s"
  shows "\<exists>d. request_log L next rq s =
    (r, s'\<lparr>lw_entries := lw_entries s' @ last_entry L (lw_context (started rq s)) r d\<rparr>)"
proof -
  from assms(1) obtain t0 where t0: "ls_clock L s = (Inr t0, s)" by (auto simp: quiet_clock_def)
  from assms(1) obtain t1 where t1: "ls_clock L s' = (Inr t1, s')" by (auto simp: quiet_clock_def)
  from assms(4) have same: "lw_context s' = lw_context (started rq s)"
    by (auto simp: call_next_def split: prod.splits)
  have levels: "dict_get log_levels ''INFO'' = Some 20" "dict_get log_levels ''ERROR'' = Some 40"
    by (simp_all add: log_levels_def dict_get_def)
  have "request_log L next rq s =
    try_except
          (and_then (call_next (next (http_request.truncate rq))) (\<lambda>response.
           and_then (ls_clock L) (\<lambda>now.
           and_then (write_entry ''INFO'' ''request_completed''
             [(''status_code'', JInt (rp_status response)), (''duration_ms'', ls_millis L (now - t0))]) (\<lambda>_.
           ret response))))
          (\<lambda>e. if is_exception e then
             and_then (ls_clock L) (\<lambda>now.
             and_then (write_entry ''ERROR'' ''request_failed''
               [(''error'', JStr (ls_text L e)), (''error_type'', JStr (ls_class L e)),
                (''duration_ms'', ls_millis L (now - t0))]) (\<lambda>_.
             throw e))
           else throw e) (started rq s)"
    using assms(2,3) t0
    by (simp add: request_log_def and_then_def get_correlation_id_def bind_contextvars_def write_entry_def modify_def
        started_def request_fields_def levels Let_def)
  then show ?thesis
    using assms(2,4,5) t1 same
    by (cases r) (auto simp: try_except_def and_then_def ret_def throw_def write_entry_def modify_def levels last_entry_def
        intro!: exI [of _ "t1 - t0"])
qed

text \<open>The context variable is as before when the inner layers are done, whatever they do.\<close>

lemma call_next_correlation: "call_next m s = (r, s') \<Longrightarrow> lw_correlation s' = lw_correlation s"
  by (auto simp: call_next_def split: prod.splits)

definition logged_correlation :: "log_entry \<Rightarrow> json option" where
  "logged_correlation e = dict_get (le_fields e) ''correlation_id''"

lemma context_correlation: "dict_get (lw_context (started rq s)) ''correlation_id'' = Some (JStr (lw_correlation s))"
  by (simp add: started_def request_fields_def Let_def dict_update_def dict_get_def)

lemma last_entry_correlation:
  "e \<in> set (last_entry L (lw_context (started rq s)) r d) \<Longrightarrow> logged_correlation e = Some (JStr (lw_correlation s))"
  using context_correlation [of rq s]
  by (auto simp: last_entry_def logged_correlation_def dict_update_def dict_get_def split: sum.splits if_splits)

lemma first_entry_correlation:
  "logged_correlation (last (lw_entries (started rq s))) = Some (JStr (lw_correlation s))"
  by (simp add: started_def logged_correlation_def request_fields_def Let_def dict_update_def dict_get_def)

lemma correlated_reply:
  assumes "correlated new_id next rq s = (Inr reply, s')"
  shows "\<exists>i. dict_get (rp_headers reply) ''x-correlation-id'' = Some i"
  using assms
  by (auto simp: correlated_def and_then_def with_correlation_def ret_def dict_get_def split: prod.splits sum.splits)

text \<open>
  For a path that is not skipped the log leaves the answer or exception of the other layers as
  it is and adds, before and after what they log, one entry for the start of the request and one
  for its reply or failure; in both the correlation identifier is empty when no request is being
  served around it, although the reply carries one.
\<close>

theorem requests_logged:
  assumes "quiet_clock L" and "lw_level s \<le> 20" and "rq_path rq \<notin> set skip_paths" and "lw_correlation s = []"
    and "call_next (correlated new_id (bearer_auth (api_key_auth S route)) (http_request.truncate rq)) (started rq s) = (r, s')"
    and "lw_level s' = lw_level s"
  shows "\<exists>after. logged_application L S new_id route rq s = (r, s'\<lparr>lw_entries := lw_entries s' @ after\<rparr>) \<and>
    (length after = (case r of Inl e \<Rightarrow> of_bool (is_exception e) | Inr _ \<Rightarrow> 1)) \<and>
    (\<forall>e \<in> set (last (lw_entries (started rq s)) # after). logged_correlation e = Some (JStr [])) \<and>
    (\<forall>reply. r = Inr reply \<longrightarrow> (\<exists>i. dict_get (rp_headers reply) ''x-correlation-id'' = Some i))"
proof -
  from request_log_run [of L s rq "correlated new_id (bearer_auth (api_key_auth S route))" r s', OF assms(1-3,5,6)] obtain d where
      run: "logged_application L S new_id route rq s =
        (r, s'\<lparr>lw_entries := lw_entries s' @ last_entry L (lw_context (started rq s)) r d\<rparr>)"
    by (auto simp: logged_application_def)
  have "length (last_entry L (lw_context (started rq s)) r d) = (case r of Inl e \<Rightarrow> of_bool (is_exception e) | Inr _ \<Rightarrow> 1)"
    by (simp add: last_entry_def split: sum.split)
  moreover have "\<exists>i. dict_get (rp_headers reply) ''x-correlation-id'' = Some i" if "r = Inr reply" for reply
    using assms(5) that correlated_reply by (fastforce simp: call_next_def split: prod.splits)
  ultimately show ?thesis
    using run last_entry_correlation [of _ L rq s r d] first_entry_correlation [of rq s] assms(4) by auto
qed

text \<open>The address in the log is whatever the client sends, also where proxies are not trusted.\<close>

lemma logged_ip_spoofed:
  "log_client_ip \<lparr>rq_path = p, rq_method = m, rq_headers = [(''x-forwarded-for'', ''1.2.3.4'')], rq_remote = r, rq_api_key = None,
     rq_correlation = None, cq_query = q, cq_client = c\<rparr> = ''1.2.3.4''"
  "get_client_ip False \<lparr>rq_path = p, rq_method = m, rq_headers = [(''x-forwarded-for'', ''1.2.3.4'')], rq_remote = r,
     rq_api_key = None, rq_correlation = None\<rparr> = r"
  by (simp_all add: log_client_ip_def get_client_ip_def header_def strip_def is_space_def)

lemma health_below_prefix_logged: "''/api/v1/health'' \<notin> set skip_paths"
  by (simp add: skip_paths_def)

definition ref_log :: "unit log_services" where
  "ref_log = \<lparr>ls_clock = ret 0, ls_millis = (\<lambda>d. JInt 0), ls_text = (\<lambda>e. []), ls_class = (\<lambda>e. [])\<rparr>"

definition ref_logged :: "unit logged" where
  "ref_logged = \<lparr>lw_world = (), lw_level = 20, lw_entries = [], lw_context = [], lw_correlation = []\<rparr>"

definition ref_call :: client_request where
  "ref_call = \<lparr>rq_path = ''/docs'', rq_method = ''GET'', rq_headers = [], rq_remote = ''10.0.0.1'', rq_api_key = None,
     rq_correlation = None, cq_query = [], cq_client = Some ''10.0.0.1''\<rparr>"

theorem requests_logged_witness:
  "\<exists>r s'. logged_application ref_log \<lparr>se_api_key = ''k'', se_request_timeout = 300, se_debug = False\<rparr> (ret ''i'')
      (\<lambda>rq. ret \<lparr>rp_status = 200, rp_content = JNull, rp_headers = []\<rparr>) ref_call ref_logged = (r, s') \<and>
    length (lw_entries s') = 2 \<and> list_all (\<lambda>e. logged_correlation e = Some (JStr [])) (lw_entries s')"
proof -
  let ?S = "\<lparr>se_api_key = ''k'', se_request_timeout = 300, se_debug = False\<rparr>"
  let ?route = "\<lambda>rq. ret \<lparr>rp_status = 200, rp_content = JNull, rp_headers = []\<rparr>"
  let ?reply = "\<lparr>rp_status = 200, rp_content = JNull, rp_headers = [(''x-correlation-id'', ''i'')]\<rparr>"
  have inner: "call_next (correlated (ret ''i'') (bearer_auth (api_key_auth ?S ?route)) (http_request.truncate ref_call)) (started ref_call ref_logged) =
      (Inr ?reply, started ref_call ref_logged)"
    by (simp add: call_next_def correlated_def bearer_auth_def api_key_auth_def ref_call_def http_request.defs header_def
        is_public_def public_paths_def with_correlation_def and_then_def ret_def dict_set_def started_def ref_logged_def Let_def)
  obtain e where e: "lw_entries (started ref_call ref_logged) = [e]"
    by (simp add: started_def ref_logged_def Let_def)
  have "quiet_clock ref_log" "lw_level ref_logged \<le> 20" "rq_path ref_call \<notin> set skip_paths" "lw_correlation ref_logged = []"
    by (simp_all add: quiet_clock_def ref_log_def ret_def ref_logged_def ref_call_def skip_paths_def)
  moreover have "lw_level (started ref_call ref_logged) = lw_level ref_logged"
    by (simp add: started_def Let_def)
  ultimately obtain after where
      "logged_application ref_log ?S (ret ''i'') ?route ref_call ref_logged =
        (Inr ?reply, (started ref_call ref_logged)\<lparr>lw_entries := lw_entries (started ref_call ref_logged) @ after\<rparr>)"
    and "length after = 1"
    and "\<forall>e \<in> set (last (lw_entries (started ref_call ref_logged)) # after). logged_correlation e = Some (JStr [])"
    using requests_logged [OF _ _ _ _ inner] by auto
  then show ?thesis
    by (auto simp: e list_all_iff)
qed

end
