(* ===== verification/Spec2Isabelle.thy ===== *)
theory Spec2Isabelle
  imports LockInterleaving SessionUpdates SessionListing CacheProperties AssistantProperties
    RegistryProperties CheckpointProperties Webhooks McpProperties
    OpenAIProperties AnswerProperties EnrichmentProperties QueryService
    Access Lifecycle SessionRouteProperties WebSocketProperties
    SessionTableProperties MemoryProperties McpRouteProperties
    RegistryRouteProperties Startup
    OpenAIChat ReplyProperties MigrationProperties RequestLog Settings
begin

text \<open>
  The Claude agent API (\<open>src/apps/api\<close>) is a FastAPI service around the Claude Agent SDK. A client
  sends a prompt, gets the events of the agent as a stream or as one answer, and finds its sessions,
  checkpoints, memories and registered agents, projects, skills, commands, tool presets and MCP
  servers again. The service also speaks two OpenAI interfaces, chat completions and the Assistants
  API. This library models the services, the routes, the middleware, the adapters and the database
  scripts as functions and step relations, and proves what they promise.

  \<^bold>\<open>Form of the model.\<close> A coroutine is a function from a state to a result and the state it
  leaves (\<open>io\<close> in \<open>Prelude\<close>): \<open>Inr x\<close> when it returns \<open>x\<close>, \<open>Inl e\<close> when the exception \<open>e\<close> escapes.
  Classes are records of what their constructors store; dictionaries are association lists in
  insertion order; integers are unbounded, as in Python; text is a list of characters. Where tasks
  run beside one another (the lock, the query stream, the WebSocket, the shutdown) the model is a
  step relation whose steps go from one \<open>await\<close> to the next, and the properties hold for all
  interleavings.

  \<^bold>\<open>Foundations.\<close>
  \<^item> \<open>Prelude\<close>: exceptions, the effect type with its operators, the lemma collections.
  \<^item> \<open>PyJson\<close>: JSON values, Python's conversions, the text codecs (\<open>pylib\<close>) with their laws.
  \<^item> \<open>World\<close>: cache, database, clock and identifiers as one state.
  \<^item> \<open>CacheProtocol\<close>: the \<open>Cache\<close> protocol (\<open>protocols.py\<close>) and its contract, the locales
    \<open>cache_contract\<close>, \<open>live_cache\<close> (nothing expires) and \<open>steady_cache\<close> (nothing fails).
  \<^item> \<open>RedisCache\<close>: \<open>adapters/cache.py\<close> over a Redis client with the laws \<open>redis_laws\<close>;
    \<open>CacheProperties\<close> shows that it keeps the contract.
  \<^item> \<open>RefLibrary\<close>, \<open>RefServer\<close>, \<open>Reference\<close>: a concrete library and server on which the laws
    hold, and the world in which the witnesses run.
  \<^item> \<open>Entities\<close>: JSON objects under keys of their own, listed by scanning; \<open>entity_codec\<close> and
    \<open>entity_store\<close> are its contracts, which every component below interprets.

  \<^bold>\<open>Sessions.\<close>
  \<^item> \<open>SessionModels\<close>, \<open>SessionCache\<close>, \<open>SessionLock\<close>, \<open>SessionService\<close>: \<open>services/session*.py\<close> with
    the hashing of API keys (\<open>utils/crypto.py\<close>). \<open>SessionProperties\<close>, \<open>SessionUpdates\<close> and
    \<open>SessionListing\<close> show ownership, durability, updates under the lock, and the pages of a listing.
  \<^item> \<open>LockInterleaving\<close>: any number of workers on one lock that expires.
  \<^item> \<open>SessionTable\<close>: \<open>adapters/session_repo.py\<close> over a database with the laws \<open>sql_laws\<close>;
    \<open>SessionTableProperties\<close> shows what each operation does to the tables, and that a session outlives the cache.
  \<^item> \<open>SessionTracker\<close>: the markers of running and interrupted sessions.
  \<^item> \<open>Checkpoints\<close>, \<open>CheckpointProperties\<close>: \<open>services/checkpoint.py\<close> as a log.
  \<^item> \<open>SessionRoutes\<close>, \<open>SessionRouteProperties\<close>: \<open>routes/sessions.py\<close>, \<open>session_control.py\<close>,
    \<open>interactions.py\<close>, \<open>checkpoints.py\<close>, \<open>query.py\<close>.

  \<^bold>\<open>Queries.\<close>
  \<^item> \<open>Validators\<close>: the query request and its checks (\<open>schemas/requests\<close>, \<open>schemas/validators.py\<close>).
  \<^item> \<open>Responses\<close>: the schemas and events of a query (\<open>schemas/responses.py\<close>).
  \<^item> \<open>SdkMessages\<close>: \<open>services/agent/handlers.py\<close>; \<open>AgentOptions\<close>: what the SDK is given.
  \<^item> \<open>AgentQuery\<close>: the executor and the two runners; \<open>AgentProperties\<close>, \<open>AgentTermination\<close> and
    \<open>AnswerProperties\<close> show that a stream is closed, that it ends when the SDK's does, and that the
    single answer holds what the events said.
  \<^item> \<open>AgentFacade\<close>: \<open>services/agent/service.py\<close>; \<open>Webhooks\<close>: the hooks it calls.
  \<^item> \<open>QueryStream\<close>, \<open>QueryStreamProperties\<close>: \<open>routes/query_stream.py\<close>, two tasks over a bounded
    queue; \<open>QueryService\<close> composes it with the facade.
  \<^item> \<open>WebSocket\<close>, \<open>WebSocketProperties\<close>: \<open>routes/websocket.py\<close>.

  \<^bold>\<open>MCP servers, registries, memory.\<close>
  \<^item> \<open>McpConfig\<close>, \<open>McpServers\<close>, \<open>Enrichment\<close>, \<open>McpRoutes\<close>: \<open>services/mcp_*.py\<close>,
    \<open>services/query_enrichment.py\<close> and \<open>routes/mcp_servers*\<close>; \<open>McpProperties\<close>,
    \<open>EnrichmentProperties\<close> and \<open>McpRouteProperties\<close> show isolation by API key, the safety of what is
    injected and the redaction of credentials.
  \<^item> \<open>Registries\<close>: the pattern of the stored registries (\<open>stored_records\<close>, \<open>record_store\<close>);
    \<open>RegistryServices\<close>: agents, projects, skills, commands and presets over it; \<open>RegistryRoutes\<close> and
    \<open>SkillDiscovery\<close>: their routes and the skills on disk. \<open>RegistryProperties\<close> and
    \<open>RegistryRouteProperties\<close> show that they are finite maps and that what is created is read back.
  \<^item> \<open>Memory\<close>, \<open>MemoryProperties\<close>: \<open>adapters/memory.py\<close> and \<open>routes/memories.py\<close> over the mem0
    library with the laws \<open>mem0_laws\<close>.

  \<^bold>\<open>The OpenAI interfaces.\<close>
  \<^item> \<open>OpenAI\<close>: \<open>services/openai\<close>, the translation in both directions and the stream adapter;
    \<open>OpenAIChat\<close>: \<open>routes/openai/chat.py\<close> and \<open>models.py\<close>; \<open>OpenAIProperties\<close>.
  \<^item> \<open>Threads\<close>, \<open>Messages\<close>, \<open>Runs\<close>, \<open>Assistants\<close>, \<open>RunExecutor\<close>: \<open>services/assistants\<close>;
    \<open>RunProperties\<close>, \<open>ExecutorProperties\<close>, \<open>AssistantProperties\<close>: the state machine of a run, where an
    execution ends, the ownership of assistants.
  \<^item> \<open>OpenAIRoutes\<close>, \<open>OpenAIRouteProperties\<close>: \<open>routes/openai/threads.py\<close> and \<open>assistants.py\<close>.
  \<^item> \<open>ReplySchemas\<close>, \<open>ReplyProperties\<close>: the typed dictionaries of \<open>schemas/openai\<close> and \<open>types.py\<close> as
    data, and that the handlers build values of the types they cast to.

  \<^bold>\<open>The application.\<close>
  \<^item> \<open>Errors\<close>: \<open>exceptions\<close> and \<open>exception_handlers.py\<close>; \<open>Access\<close>: authentication and the order of the
    middleware; \<open>RequestLog\<close>: \<open>middleware/logging.py\<close> and what it sees of a request.
  \<^item> \<open>Lifecycle\<close>: \<open>services/shutdown.py\<close>; \<open>Startup\<close>: \<open>main.py\<close>, \<open>dependencies.py\<close>,
    \<open>routes/health.py\<close>; \<open>Settings\<close>: \<open>config.py\<close>.
  \<^item> \<open>DatabaseSchema\<close>, \<open>Migrations\<close>, \<open>MigrationProperties\<close>: tables with rows and the statements on
    them (\<open>ddl_database\<close>), \<open>alembic\<close>, the tables of \<open>models\<close>, \<open>scripts/verify_hash_consistency.py\<close>.

  \<^bold>\<open>Parameters.\<close> Code that is not in the repository is an argument of the definitions that use it,
  with documented behaviour as named hypotheses: the Redis client, the statements of SQLAlchemy and
  of Alembic, the Claude Agent SDK (its messages are objects read by attribute), the mem0 client, the
  HTTP client and regular expressions of the webhooks, \<open>urlparse\<close> and \<open>ipaddress\<close>, the conversions of
  Pydantic, the text codecs, clocks and sources of identifiers. Each set of laws is a locale with an
  interpretation on a concrete instance, so that the laws can hold together. What the framework does
  before a handler runs (matching a path, parsing a request) is the argument the handler is given.

  \<^bold>\<open>Bounds and fuel.\<close> The lock loop gets 557 turns: an attempt waits at least 9 milliseconds, so the
  timeout of 5 seconds ends it before. The scan of the Redis adapter gets as many turns as its cursor
  needs (\<open>scan_loop_terminates\<close>); the loop over the SDK's messages gets fuel because the SDK may send
  for ever, and \<open>stream_completes\<close> shows for a bounded number of messages that it returns. The share
  tokens are drawn at most 5 times, the start checks the cache at most 10 times and the stream's queue
  holds 100 items, as in the source. \<open>OutOfFuel\<close> is no exception of the program and no handler
  catches it.

  \<^bold>\<open>Not modelled.\<close> Log output, apart from the request log; the CORS layer of Starlette; the
  registration of routers and the constructors that only store what they are given; the configuration
  of the mem0 library and the patch of its graph part; \<open>mock_response\<close>, which tests use; the offline
  mode of Alembic, which prints statements; the developer scripts that call a running server; the
  wording of Pydantic's messages; the rounding of floats to 53 bits.
\<close>

end
